(* ===== verification/Prelude.thy ===== *)
theory Prelude
  imports Main "HOL-Library.Multiset" "HOL-Library.Sublist"
begin

text \<open>
  Shared ground of the development: the theorem collections, the names of the model's basic
  types, Go's fixed-width integer arithmetic, the error/value results, and Go's
  comparison-function sort with the contract its callers rely on.

  \<^item> \<open>model_defs\<close> collects the definitions that proofs and witnesses unfold to evaluate a
    model function on its branches.
  \<^item> \<open>time\<close> and \<open>duration\<close> are Go's \<open>time.Time\<close> (in UTC) and \<open>time.Duration\<close> as a number
    of nanoseconds.
  \<^item> \<open>goSort\<close> is \<open>sort.SliceStable\<close> (and \<open>sort.Slice\<close>, whose order of equal elements the
    language leaves open, so that no theorem about it speaks of that order).
\<close>

named_theorems model_defs
named_theorems result_splits

type_synonym time = int
type_synonym duration = int

section \<open>Results\<close>

text \<open>A Go function that returns \<open>(T, error)\<close> returns \<open>Inl\<close> of the error or \<open>Inr\<close> of the value.\<close>

type_synonym ('e, 'a) result = "'e + 'a"

abbreviation (input) Err :: "'e \<Rightarrow> ('e, 'a) result" where
  "Err \<equiv> Inl"

abbreviation (input) Ok :: "'a \<Rightarrow> ('e, 'a) result" where
  "Ok \<equiv> Inr"

lemmas [result_splits] =
  if_splits option.splits sum.splits prod.splits list.splits bool.splits

text \<open>Rewriting inside the branches of a case distinction.\<close>

lemmas inside_cases = sum.case_cong option.case_cong prod.case_cong list.case_cong if_cong

section \<open>Go's 64-bit signed integers\<close>

text \<open>\<open>wrap64\<close> reduces the mathematical result of an \<open>int64\<close> operation to two's complement.\<close>

definition wrap64 :: "int \<Rightarrow> int" where
  "wrap64 n = (n + 2 ^ 63) mod 2 ^ 64 - 2 ^ 63"

lemma wrap64_id: "- (2 ^ 63) \<le> n \<Longrightarrow> n < 2 ^ 63 \<Longrightarrow> wrap64 n = n"
  by (simp add: wrap64_def)

lemma wrap64_bounds: "- (2 ^ 63) \<le> wrap64 n \<and> wrap64 n < 2 ^ 63"
proof -
  have "0 \<le> (n + 2 ^ 63) mod 2 ^ 64" and "(n + 2 ^ 63) mod 2 ^ 64 < (2 :: int) ^ 64"
    by simp_all
  then show ?thesis unfolding wrap64_def by simp
qed

section \<open>Lists and maps\<close>

lemma find_eq_hd_filter:
  "find P xs = (case filter P xs of [] \<Rightarrow> None | x # _ \<Rightarrow> Some x)"
  by (induction xs) auto

lemma find_SomeD: "find P xs = Some x \<Longrightarrow> x \<in> set xs \<and> P x"
  by (induction xs) (auto split: if_splits)

lemma find_NoneD: "find P xs = None \<Longrightarrow> x \<in> set xs \<Longrightarrow> \<not> P x"
  by (induction xs) (auto split: if_splits)

lemma find_distinct_key:
  "distinct (map f xs) \<Longrightarrow> x \<in> set xs \<Longrightarrow> find (\<lambda>y. f y = f x) xs = Some x"
  by (induction xs) (auto simp: image_iff)

lemma find_map_same:
  "(\<And>x. x \<in> set xs \<Longrightarrow> P (f x) = P x) \<Longrightarrow> find P (map f xs) = map_option f (find P xs)"
  by (induction xs) auto

lemma inj_on_set_distinct_map:
  "distinct (map f xs) \<Longrightarrow> x \<in> set xs \<Longrightarrow> y \<in> set xs \<Longrightarrow> f x = f y \<Longrightarrow> x = y"
  by (induction xs) (auto simp: image_iff)

lemma length_filter_partition:
  "length (filter P xs) + length (filter (\<lambda>x. \<not> P x) xs) = length xs"
  by (induction xs) auto

text \<open>
  The loop over a list that skips what a Go map \<open>seen\<close> already holds the key of: the first element
  of each key stays.
\<close>

fun dedupOn :: "('a \<Rightarrow> 'k) \<Rightarrow> 'k list \<Rightarrow> 'a list \<Rightarrow> 'a list" where
  "dedupOn f seen [] = []"
| "dedupOn f seen (x # xs) =
     (if f x \<in> set seen then dedupOn f seen xs else x # dedupOn f (f x # seen) xs)"

lemma dedupOn_subset: "set (dedupOn f seen xs) \<subseteq> set xs"
  by (induction xs arbitrary: seen) (auto split: if_splits)

lemma dedupOn_keys: "f ` set (dedupOn f seen xs) = f ` set xs - set seen"
proof (induction xs arbitrary: seen)
  case (Cons x xs)
  then show ?case by (cases "f x \<in> set seen") auto
qed simp

lemma dedupOn_distinct: "distinct (map f (dedupOn f seen xs))"
proof (induction xs arbitrary: seen)
  case (Cons x xs)
  have "f x \<notin> f ` set (dedupOn f (f x # seen) xs)" by (simp add: dedupOn_keys)
  with Cons show ?case by simp
qed simp

lemma dedupOn_eq_Nil_iff [simp]: "dedupOn f [] xs = [] \<longleftrightarrow> xs = []"
  by (cases xs) auto

section \<open>Sorting with a comparison function\<close>

text \<open>
  \<open>sort.SliceStable(xs, less)\<close>: the result is the one permutation of \<open>xs\<close> that \<open>lt\<close> does not
  contradict and that keeps the order of elements \<open>lt\<close> does not separate.
\<close>

fun goInsert :: "('a \<Rightarrow> 'a \<Rightarrow> bool) \<Rightarrow> 'a \<Rightarrow> 'a list \<Rightarrow> 'a list" where
  "goInsert lt x [] = [x]"
| "goInsert lt x (y # ys) = (if lt y x then y # goInsert lt x ys else x # y # ys)"

definition goSort :: "('a \<Rightarrow> 'a \<Rightarrow> bool) \<Rightarrow> 'a list \<Rightarrow> 'a list" where
  "goSort lt xs = foldr (goInsert lt) xs []"

lemma goSort_simps [simp]:
  "goSort lt [] = []"
  "goSort lt (x # xs) = goInsert lt x (goSort lt xs)"
  by (simp_all add: goSort_def)

lemma mset_goInsert [simp]: "mset (goInsert lt x xs) = add_mset x (mset xs)"
  by (induction xs) auto

lemma mset_goSort [simp]: "mset (goSort lt xs) = mset xs"
  by (induction xs) auto

lemma set_goSort [simp]: "set (goSort lt xs) = set xs"
  by (metis mset_goSort set_mset_mset)

lemma set_goInsert [simp]: "set (goInsert lt x xs) = insert x (set xs)"
  by (metis mset_goInsert set_mset_mset set_mset_add_mset_insert)

lemma length_goSort [simp]: "length (goSort lt xs) = length xs"
  by (metis mset_goSort size_mset)

lemma goSort_eq_Nil_iff [simp]: "goSort lt xs = [] \<longleftrightarrow> xs = []"
  by (metis length_0_conv length_goSort)

lemma distinct_map_goSort [simp]: "distinct (map f (goSort lt xs)) = distinct (map f xs)"
  by (metis mset_eq_imp_distinct_iff mset_goSort mset_map)

text \<open>
  What a comparison function must satisfy for Go's sort to be meaningful, and what its callers
  may then rely on.
\<close>

locale go_less =
  fixes lt :: "'a \<Rightarrow> 'a \<Rightarrow> bool"
  assumes asym: "lt x y \<Longrightarrow> \<not> lt y x"
    and negtrans: "lt x z \<Longrightarrow> lt x y \<or> lt y z"
begin

lemma less_irrefl: "\<not> lt x x"
  using asym by blast

lemma not_less_trans: "\<not> lt y x \<Longrightarrow> \<not> lt z y \<Longrightarrow> \<not> lt z x"
  using negtrans by blast

lemma sorted_goInsert:
  "sorted_wrt (\<lambda>a b. \<not> lt b a) xs \<Longrightarrow> sorted_wrt (\<lambda>a b. \<not> lt b a) (goInsert lt x xs)"
proof (induction xs)
  case Nil
  then show ?case by simp
next
  case (Cons y ys)
  then show ?case
    by (auto dest: asym not_less_trans)
qed

lemma sorted_goSort: "sorted_wrt (\<lambda>a b. \<not> lt b a) (goSort lt xs)"
  by (induction xs) (auto intro: sorted_goInsert)

lemma hd_goSort_least: "x \<in> set xs \<Longrightarrow> \<not> lt x (hd (goSort lt xs))"
proof -
  assume x: "x \<in> set xs"
  then obtain y ys where eq: "goSort lt xs = y # ys"
    by (metis empty_iff empty_set goSort_eq_Nil_iff neq_Nil_conv)
  from x eq have "x \<in> set (y # ys)" by (metis set_goSort)
  moreover have "sorted_wrt (\<lambda>a b. \<not> lt b a) (y # ys)"
    using sorted_goSort [of xs] eq by simp
  ultimately show ?thesis using eq less_irrefl by auto
qed

lemma goInsert_front: "(\<And>z. z \<in> set zs \<Longrightarrow> \<not> lt z x) \<Longrightarrow> goInsert lt x zs = x # zs"
  by (cases zs) auto

lemma filter_goInsert:
  assumes "sorted_wrt (\<lambda>a b. \<not> lt b a) xs"
  shows "filter P (goInsert lt x xs) =
           (if P x then goInsert lt x (filter P xs) else filter P xs)"
  using assms
proof (induction xs)
  case Nil
  then show ?case by simp
next
  case (Cons y ys)
  show ?case
  proof (cases "lt y x")
    case True
    with Cons show ?thesis by auto
  next
    case False
    with Cons.prems have "\<not> lt z x" if "z \<in> set (filter P (y # ys))" for z
      using that not_less_trans by (auto split: if_splits)
    then have "goInsert lt x (filter P (y # ys)) = x # filter P (y # ys)"
      by (rule goInsert_front)
    with False show ?thesis by simp
  qed
qed

text \<open>Sorting a selection is selecting from the sorted list: filters and sorts commute.\<close>

lemma filter_goSort: "filter P (goSort lt xs) = goSort lt (filter P xs)"
  by (induction xs) (auto simp: filter_goInsert sorted_goSort)

text \<open>Elements the comparison does not separate keep their order.\<close>

lemma goSort_id: "sorted_wrt (\<lambda>a b. \<not> lt b a) xs \<Longrightarrow> goSort lt xs = xs"
proof (induction xs)
  case Nil
  then show ?case by simp
next
  case (Cons x xs)
  then show ?case by (cases xs) auto
qed

lemma goSort_stable:
  assumes "\<And>a b. P a \<Longrightarrow> P b \<Longrightarrow> \<not> lt a b"
  shows "filter P (goSort lt xs) = filter P xs"
proof -
  have "sorted_wrt (\<lambda>a b. \<not> lt b a) (filter P xs)"
    using assms by (induction xs) auto
  then show ?thesis by (simp add: filter_goSort goSort_id)
qed

end

text \<open>Comparing by a key in a linear order, ascending, is such a comparison.\<close>

lemma go_less_key: "go_less (\<lambda>a b. (f a :: 'k :: linorder) < f b)"
  by unfold_locales auto

interpretation key_less: go_less "\<lambda>a b. (f a :: 'k :: linorder) < f b" for f
  by (rule go_less_key)

end
