(* ===== verification/GoStrings.thy ===== *)
theory GoStrings
  imports Prelude "HOL-Library.Char_ord" "HOL-Library.List_Lexorder"
begin

text \<open>
  Go strings are byte strings, and so is the type \<open>string\<close>. This theory holds the functions of
  Go's packages \<open>strings\<close>, \<open>unicode/utf8\<close> and \<open>regexp\<close> that the program calls, on bytes: a
  multi-byte rune is matched by its UTF-8 encoding. String comparison \<open><\<close> is the byte-wise
  lexicographic order, as in Go.
\<close>

section \<open>Trimming white space\<close>

text \<open>
  The UTF-8 encodings of the runes \<open>unicode.IsSpace\<close> accepts: six ASCII characters, U+0085,
  U+00A0, U+1680, U+2000 to U+200A, U+2028, U+2029, U+202F, U+205F and U+3000.
\<close>

definition spaceRunes :: "string list" where
  "spaceRunes =
     map (\<lambda>b. [b]) [CHR 0x09, CHR 0x0A, CHR 0x0B, CHR 0x0C, CHR 0x0D, CHR 0x20]
     @ [[CHR 0xC2, CHR 0x85], [CHR 0xC2, CHR 0xA0], [CHR 0xE1, CHR 0x9A, CHR 0x80]]
     @ map (\<lambda>b. [CHR 0xE2, CHR 0x80, b])
         [CHR 0x80, CHR 0x81, CHR 0x82, CHR 0x83, CHR 0x84, CHR 0x85, CHR 0x86, CHR 0x87,
          CHR 0x88, CHR 0x89, CHR 0x8A, CHR 0xA8, CHR 0xA9, CHR 0xAF]
     @ [[CHR 0xE2, CHR 0x81, CHR 0x9F], [CHR 0xE3, CHR 0x80, CHR 0x80]]"

definition leadingSpace :: "string list \<Rightarrow> string \<Rightarrow> string option" where
  "leadingSpace es s = find (\<lambda>e. e \<noteq> [] \<and> prefix e s) es"

lemma leadingSpace_SomeD: "leadingSpace es s = Some e \<Longrightarrow> e \<in> set es \<and> e \<noteq> [] \<and> prefix e s"
  by (auto simp: leadingSpace_def dest: find_SomeD)

lemma leadingSpace_None_iff:
  "leadingSpace es s = None \<longleftrightarrow> (\<forall>e\<in>set es. e \<noteq> [] \<longrightarrow> \<not> prefix e s)"
  by (auto simp: leadingSpace_def find_None_iff)

function trimFront :: "string list \<Rightarrow> string \<Rightarrow> string" where
  "trimFront es s =
     (case leadingSpace es s of None \<Rightarrow> s | Some e \<Rightarrow> trimFront es (drop (length e) s))"
  by pat_completeness auto
termination
proof (relation "measure (\<lambda>(es, s). length s)")
  fix es s e
  assume "leadingSpace es s = Some e"
  then have "e \<noteq> []" and "prefix e s" by (auto dest: leadingSpace_SomeD)
  then show "((es, drop (length e) s), es, s) \<in> measure (\<lambda>(es, s). length s)"
    by (auto simp: prefix_def)
qed simp

declare trimFront.simps [simp del]

definition TrimSpace :: "string \<Rightarrow> string" where
  "TrimSpace s = rev (trimFront (map rev spaceRunes) (rev (trimFront spaceRunes s)))"

lemma trimFront_suffix: "suffix (trimFront es s) s"
proof (induction es s rule: trimFront.induct)
  case (1 es s)
  then show ?case
    by (subst trimFront.simps)
       (auto split: option.splits intro: suffix_order.trans suffix_drop)
qed

lemma trimFront_done: "leadingSpace es (trimFront es s) = None"
proof (induction es s rule: trimFront.induct)
  case (1 es s)
  then show ?case
    by (subst trimFront.simps) (auto split: option.splits)
qed

lemma trimFront_id: "leadingSpace es s = None \<Longrightarrow> trimFront es s = s"
  by (subst trimFront.simps) simp

lemma trimFront_idem [simp]: "trimFront es (trimFront es s) = trimFront es s"
  by (simp add: trimFront_id trimFront_done)

lemma leadingSpace_prefix: "prefix t s \<Longrightarrow> leadingSpace es s = None \<Longrightarrow> leadingSpace es t = None"
  by (auto simp: leadingSpace_None_iff intro: prefix_order.trans)

lemma TrimSpace_infix:
  "prefix (TrimSpace s) (trimFront spaceRunes s)"
  using trimFront_suffix [of "map rev spaceRunes" "rev (trimFront spaceRunes s)"]
  by (simp add: TrimSpace_def suffix_to_prefix)

lemma TrimSpace_no_lead: "leadingSpace spaceRunes (TrimSpace s) = None"
  using TrimSpace_infix trimFront_done by (rule leadingSpace_prefix)

lemma TrimSpace_idem [simp]: "TrimSpace (TrimSpace s) = TrimSpace s"
proof -
  have "trimFront spaceRunes (TrimSpace s) = TrimSpace s"
    by (simp add: trimFront_id TrimSpace_no_lead)
  then show ?thesis by (simp add: TrimSpace_def)
qed

lemma TrimSpace_Nil [simp]: "TrimSpace [] = []"
  by (simp add: TrimSpace_def trimFront_id leadingSpace_None_iff)

lemma set_TrimSpace: "set (TrimSpace s) \<subseteq> set s"
  using TrimSpace_infix [of s] trimFront_suffix [of spaceRunes s]
  by (auto dest!: set_mono_prefix set_mono_suffix)

text \<open>A string whose first and last bytes belong to no white-space encoding is left alone.\<close>

definition spaceByte :: "char \<Rightarrow> bool" where
  "spaceByte c \<longleftrightarrow> c \<in> \<Union> (set ` set spaceRunes)"

lemma leadingSpace_first:
  assumes "c \<notin> \<Union> (set ` set es)"
  shows "leadingSpace es (c # s) = None"
  using assms by (auto simp: leadingSpace_None_iff prefix_Cons)

lemma TrimSpace_id:
  assumes "s \<noteq> []" and "\<not> spaceByte (hd s)" and "\<not> spaceByte (last s)"
  shows "TrimSpace s = s"
proof -
  obtain c t where s: "s = c # t" using assms(1) by (cases s) auto
  with assms(2) have "leadingSpace spaceRunes s = None"
    by (simp add: spaceByte_def leadingSpace_first)
  then have front: "trimFront spaceRunes s = s" by (rule trimFront_id)
  obtain d u where r: "rev s = d # u" using assms(1) by (cases "rev s") auto
  with assms(1) have "d = last s" by (metis hd_rev list.sel(1))
  with assms(3) have "d \<notin> \<Union> (set ` set (map rev spaceRunes))"
    by (simp add: spaceByte_def)
  then have "leadingSpace (map rev spaceRunes) (rev s) = None"
    unfolding r by (rule leadingSpace_first)
  then have "trimFront (map rev spaceRunes) (rev s) = rev s" by (rule trimFront_id)
  with front show ?thesis by (simp add: TrimSpace_def)
qed

section \<open>Splitting\<close>

text \<open>\<open>strings.SplitN(s, sep, 2)\<close> for a separator of one byte.\<close>

definition splitN2 :: "char \<Rightarrow> string \<Rightarrow> string list" where
  "splitN2 c s =
     (if c \<in> set s then [takeWhile (\<lambda>d. d \<noteq> c) s, tl (dropWhile (\<lambda>d. d \<noteq> c) s)] else [s])"

lemma splitN2_append [simp]: "c \<notin> set a \<Longrightarrow> splitN2 c (a @ c # b) = [a, b]"
proof -
  assume "c \<notin> set a"
  then have "takeWhile (\<lambda>d. d \<noteq> c) (a @ c # b) = a"
    and "dropWhile (\<lambda>d. d \<noteq> c) (a @ c # b) = c # b"
    by (auto simp: takeWhile_tail dropWhile_append)
  then show ?thesis by (simp add: splitN2_def)
qed

lemma splitN2_pairD:
  assumes "splitN2 c s = [a, b]"
  shows "s = a @ c # b \<and> c \<notin> set a"
proof -
  from assms have c: "c \<in> set s" and a: "a = takeWhile (\<lambda>d. d \<noteq> c) s"
    and b: "b = tl (dropWhile (\<lambda>d. d \<noteq> c) s)"
    by (auto simp: splitN2_def split: if_splits)
  from c have ne: "dropWhile (\<lambda>d. d \<noteq> c) s \<noteq> []" by (simp add: dropWhile_eq_Nil_conv)
  then have "hd (dropWhile (\<lambda>d. d \<noteq> c) s) = c" using hd_dropWhile by blast
  with ne b have "dropWhile (\<lambda>d. d \<noteq> c) s = c # b" by (metis list.collapse)
  with a have "s = a @ c # b" by (metis takeWhile_dropWhile_id)
  moreover have "c \<notin> set a" using a by (auto dest: set_takeWhileD)
  ultimately show ?thesis ..
qed

lemma splitN2_cases:
  obtains (none) "c \<notin> set s" "splitN2 c s = [s]"
  | (pair) a b where "s = a @ c # b" "c \<notin> set a" "splitN2 c s = [a, b]"
  by (metis splitN2_append splitN2_def split_list_first)

section \<open>Runes\<close>

text \<open>
  The number of bytes \<open>utf8.DecodeRune\<close> consumes at the head of a non-empty string: the length of
  a well-formed encoding, and 1 for a byte that starts none.
\<close>

definition byteIn :: "nat \<Rightarrow> nat \<Rightarrow> char \<Rightarrow> bool" where
  "byteIn lo hi c \<longleftrightarrow> lo \<le> of_char c \<and> of_char c \<le> hi"

definition runeWidth :: "string \<Rightarrow> nat" where
  "runeWidth s =
     (case s of
        b0 # b1 # b2 # b3 # _ \<Rightarrow>
          if byteIn 0xC2 0xDF b0 \<and> byteIn 0x80 0xBF b1 then 2
          else if (byteIn 0xE0 0xE0 b0 \<and> byteIn 0xA0 0xBF b1
                 \<or> byteIn 0xE1 0xEC b0 \<and> byteIn 0x80 0xBF b1
                 \<or> byteIn 0xED 0xED b0 \<and> byteIn 0x80 0x9F b1
                 \<or> byteIn 0xEE 0xEF b0 \<and> byteIn 0x80 0xBF b1) \<and> byteIn 0x80 0xBF b2 then 3
          else if (byteIn 0xF0 0xF0 b0 \<and> byteIn 0x90 0xBF b1
                 \<or> byteIn 0xF1 0xF3 b0 \<and> byteIn 0x80 0xBF b1
                 \<or> byteIn 0xF4 0xF4 b0 \<and> byteIn 0x80 0x8F b1)
               \<and> byteIn 0x80 0xBF b2 \<and> byteIn 0x80 0xBF b3 then 4
          else 1
      | [b0, b1, b2] \<Rightarrow>
          if byteIn 0xC2 0xDF b0 \<and> byteIn 0x80 0xBF b1 then 2
          else if (byteIn 0xE0 0xE0 b0 \<and> byteIn 0xA0 0xBF b1
                 \<or> byteIn 0xE1 0xEC b0 \<and> byteIn 0x80 0xBF b1
                 \<or> byteIn 0xED 0xED b0 \<and> byteIn 0x80 0x9F b1
                 \<or> byteIn 0xEE 0xEF b0 \<and> byteIn 0x80 0xBF b1) \<and> byteIn 0x80 0xBF b2 then 3
          else 1
      | [b0, b1] \<Rightarrow> if byteIn 0xC2 0xDF b0 \<and> byteIn 0x80 0xBF b1 then 2 else 1
      | _ \<Rightarrow> 1)"

lemma runeWidth_pos: "0 < runeWidth s"
  by (auto simp: runeWidth_def split: list.splits)

function RuneCountInString :: "string \<Rightarrow> nat" where
  "RuneCountInString [] = 0"
| "RuneCountInString (c # s) = Suc (RuneCountInString (drop (runeWidth (c # s)) (c # s)))"
  by pat_completeness auto
termination
  by (relation "measure length") (auto simp: runeWidth_pos)

lemma RuneCount_le_length: "RuneCountInString s \<le> length s"
proof (induction s rule: RuneCountInString.induct)
  case 1
  then show ?case by simp
next
  case (2 c s)
  have "length (drop (runeWidth (c # s)) (c # s)) \<le> length s"
    using runeWidth_pos [of "c # s"] by simp
  with 2 show ?case by simp
qed

section \<open>Fields and case\<close>

text \<open>\<open>strings.Fields\<close>: the maximal runs of runes that are not white space.\<close>

function splitFields :: "string \<Rightarrow> string \<Rightarrow> string list" where
  "splitFields cur [] = (if cur = [] then [] else [rev cur])"
| "splitFields cur (c # s) =
     (case leadingSpace spaceRunes (c # s) of
        Some e \<Rightarrow> (if cur = [] then [] else [rev cur]) @ splitFields [] (drop (length e) (c # s))
      | None \<Rightarrow> splitFields (c # cur) s)"
  by pat_completeness auto
termination
proof (relation "measure (\<lambda>(cur, s). length s)")
  fix cur :: string and c :: char and s e
  assume "leadingSpace spaceRunes (c # s) = Some e"
  then have "e \<noteq> []" by (auto dest: leadingSpace_SomeD)
  then show "(([], drop (length e) (c # s)), cur, c # s) \<in> measure (\<lambda>(cur, s). length s)"
    by (cases e) auto
qed auto

definition Fields :: "string \<Rightarrow> string list" where
  "Fields s = splitFields [] s"

lemma splitFields_nonempty: "f \<in> set (splitFields cur s) \<Longrightarrow> f \<noteq> []"
proof (induction cur s rule: splitFields.induct)
  case (1 cur)
  then show ?case by (auto split: if_splits)
next
  case (2 cur c s)
  then show ?case by (auto split: option.splits if_splits)
qed

lemma Fields_nonempty: "f \<in> set (Fields s) \<Longrightarrow> f \<noteq> []"
  by (auto simp: Fields_def dest: splitFields_nonempty)

text \<open>
  \<open>strings.ToLower\<close> on ASCII letters; the program compares its result with ASCII words only, and
  no rune outside ASCII has a lower-case form made of their letters.
\<close>

definition lowerChar :: "char \<Rightarrow> char" where
  "lowerChar c = (if byteIn 65 90 c then char_of (of_char c + 32 :: nat) else c)"

definition ToLower :: "string \<Rightarrow> string" where
  "ToLower s = map lowerChar s"

end
