(* ===== verification/GoRegexp.thy ===== *)
theory GoRegexp
  imports GoStrings
begin

text \<open>
  The part of Go's \<open>regexp\<close> the program uses: anchored patterns over classes of ASCII bytes,
  decided by derivatives (\<open>reMatch\<close>), and the language each pattern denotes (\<open>reLang\<close>), against
  which the decision procedure is proved. The classes hold ASCII bytes only, so that a rune
  outside ASCII matches none of them, byte by byte as rune by rune.
\<close>

datatype re =
    RNone
  | REps
  | RClass "char \<Rightarrow> bool"
  | RAlt re re
  | RSeq re re
  | RStar re

definition RPlus :: "re \<Rightarrow> re" where
  "RPlus r = RSeq r (RStar r)"

definition ROpt :: "re \<Rightarrow> re" where
  "ROpt r = RAlt r REps"

fun reNullable :: "re \<Rightarrow> bool" where
  "reNullable RNone = False"
| "reNullable REps = True"
| "reNullable (RClass p) = False"
| "reNullable (RAlt r s) = (reNullable r \<or> reNullable s)"
| "reNullable (RSeq r s) = (reNullable r \<and> reNullable s)"
| "reNullable (RStar r) = True"

fun reDeriv :: "char \<Rightarrow> re \<Rightarrow> re" where
  "reDeriv c RNone = RNone"
| "reDeriv c REps = RNone"
| "reDeriv c (RClass p) = (if p c then REps else RNone)"
| "reDeriv c (RAlt r s) = RAlt (reDeriv c r) (reDeriv c s)"
| "reDeriv c (RSeq r s) =
     (if reNullable r then RAlt (RSeq (reDeriv c r) s) (reDeriv c s) else RSeq (reDeriv c r) s)"
| "reDeriv c (RStar r) = RSeq (reDeriv c r) (RStar r)"

fun reMatch :: "re \<Rightarrow> string \<Rightarrow> bool" where
  "reMatch r [] = reNullable r"
| "reMatch r (c # s) = reMatch (reDeriv c r) s"

section \<open>The language of a pattern\<close>

inductive reLang :: "re \<Rightarrow> string \<Rightarrow> bool" where
  eps: "reLang REps []"
| cls: "p c \<Longrightarrow> reLang (RClass p) [c]"
| altL: "reLang r u \<Longrightarrow> reLang (RAlt r s) u"
| altR: "reLang s u \<Longrightarrow> reLang (RAlt r s) u"
| seq: "reLang r u \<Longrightarrow> reLang s v \<Longrightarrow> reLang (RSeq r s) (u @ v)"
| starN: "reLang (RStar r) []"
| starC: "reLang r u \<Longrightarrow> reLang (RStar r) v \<Longrightarrow> reLang (RStar r) (u @ v)"

inductive_simps reLang_simps [simp]:
  "reLang RNone u"
  "reLang REps u"
  "reLang (RClass p) u"
  "reLang (RAlt r s) u"

inductive_cases reLang_seqE [elim!]: "reLang (RSeq r s) u"
inductive_cases reLang_starE: "reLang (RStar r) u"

lemma reNullable_iff: "reNullable r \<longleftrightarrow> reLang r []"
proof (induction r)
  case (RSeq r s)
  have "reLang (RSeq r s) []" if "reLang r []" "reLang s []"
    using reLang.seq [OF that] by simp
  with RSeq show ?case by auto
next
  case (RStar r)
  show ?case by (simp add: reLang.starN)
qed auto

lemma reLang_star_Cons:
  assumes "reLang (RStar r) w" and "w = c # s"
  shows "\<exists>u v. s = u @ v \<and> reLang r (c # u) \<and> reLang (RStar r) v"
  using assms
proof (induction "RStar r" w rule: reLang.induct)
  case (starC u v)
  then show ?case by (cases u) auto
qed simp

lemma reDeriv_iff: "reLang (reDeriv c r) s \<longleftrightarrow> reLang r (c # s)"
proof (induction r arbitrary: s)
  case (RSeq r1 r2)
  have seq_Cons: "reLang (RSeq r1 r2) (c # s) \<longleftrightarrow>
      (\<exists>u v. s = u @ v \<and> reLang r1 (c # u) \<and> reLang r2 v) \<or> (reLang r1 [] \<and> reLang r2 (c # s))"
    (is "?L \<longleftrightarrow> ?R")
  proof
    assume ?L
    then obtain u v where "c # s = u @ v" "reLang r1 u" "reLang r2 v" by auto
    then show ?R by (cases u) auto
  next
    assume ?R
    then show ?L
    proof
      assume "\<exists>u v. s = u @ v \<and> reLang r1 (c # u) \<and> reLang r2 v"
      then obtain u v where "s = u @ v" "reLang r1 (c # u)" "reLang r2 v" by auto
      then show ?L using reLang.seq [of r1 "c # u" r2 v] by simp
    next
      assume "reLang r1 [] \<and> reLang r2 (c # s)"
      then show ?L using reLang.seq [of r1 "[]" r2 "c # s"] by simp
    qed
  qed
  have "reLang (RSeq (reDeriv c r1) r2) s \<longleftrightarrow> (\<exists>u v. s = u @ v \<and> reLang r1 (c # u) \<and> reLang r2 v)"
    using RSeq.IH(1) by (auto intro: reLang.seq)
  with seq_Cons RSeq.IH(2) show ?case by (simp add: reNullable_iff)
next
  case (RStar r)
  have "reLang (RSeq (reDeriv c r) (RStar r)) s \<longleftrightarrow>
      (\<exists>u v. s = u @ v \<and> reLang r (c # u) \<and> reLang (RStar r) v)"
    using RStar.IH by (auto intro: reLang.seq)
  also have "\<dots> \<longleftrightarrow> reLang (RStar r) (c # s)"
    using reLang.starC [of r "c # _" _] by (auto dest: reLang_star_Cons)
  finally show ?case by simp
qed auto

theorem reMatch_iff: "reMatch r s \<longleftrightarrow> reLang r s"
  by (induction s arbitrary: r) (simp_all add: reNullable_iff reDeriv_iff)

section \<open>Repeated classes\<close>

lemma reLang_star_class: "reLang (RStar (RClass p)) s \<longleftrightarrow> (\<forall>c\<in>set s. p c)"
proof
  assume "reLang (RStar (RClass p)) s"
  then show "\<forall>c\<in>set s. p c"
    by (induction "RStar (RClass p)" s rule: reLang.induct) auto
next
  assume "\<forall>c\<in>set s. p c"
  then show "reLang (RStar (RClass p)) s"
  proof (induction s)
    case Nil
    show ?case by (rule reLang.starN)
  next
    case (Cons c s)
    then have "reLang (RStar (RClass p)) ([c] @ s)"
      by (intro reLang.starC) (auto intro: reLang.cls)
    then show ?case by simp
  qed
qed

lemma reLang_seq_iff: "reLang (RSeq r s) w \<longleftrightarrow> (\<exists>u v. w = u @ v \<and> reLang r u \<and> reLang s v)"
  by (auto intro: reLang.seq)

lemma reMatch_plus_class: "reMatch (RPlus (RClass p)) s \<longleftrightarrow> s \<noteq> [] \<and> (\<forall>c\<in>set s. p c)"
proof
  assume "reMatch (RPlus (RClass p)) s"
  then show "s \<noteq> [] \<and> (\<forall>c\<in>set s. p c)"
    by (auto simp: reMatch_iff RPlus_def reLang_star_class)
next
  assume s: "s \<noteq> [] \<and> (\<forall>c\<in>set s. p c)"
  then obtain c t where "s = c # t" by (cases s) auto
  with s have "reLang (RSeq (RClass p) (RStar (RClass p))) ([c] @ t)"
    by (intro reLang.seq) (auto simp: reLang_star_class)
  with \<open>s = c # t\<close> show "reMatch (RPlus (RClass p)) s"
    by (simp add: reMatch_iff RPlus_def)
qed

lemma reLang_opt_iff: "reLang (ROpt r) w \<longleftrightarrow> w = [] \<or> reLang r w"
  by (auto simp: ROpt_def)

section \<open>The classes the program uses\<close>

definition isDigit :: "char \<Rightarrow> bool" where
  "isDigit c \<longleftrightarrow> byteIn 48 57 c"

definition isUpper :: "char \<Rightarrow> bool" where
  "isUpper c \<longleftrightarrow> byteIn 65 90 c"

definition isLower :: "char \<Rightarrow> bool" where
  "isLower c \<longleftrightarrow> byteIn 97 122 c"

definition isAlnum :: "char \<Rightarrow> bool" where
  "isAlnum c \<longleftrightarrow> isDigit c \<or> isUpper c \<or> isLower c"

text \<open>\<open>[\x00-\x1F\x7F]\<close>: the ASCII control characters.\<close>

definition isControl :: "char \<Rightarrow> bool" where
  "isControl c \<longleftrightarrow> byteIn 0 31 c \<or> byteIn 127 127 c"

lemmas char_class_defs = isDigit_def isUpper_def isLower_def isAlnum_def isControl_def byteIn_def

lemma isAlnum_not_space: "isAlnum c \<Longrightarrow> \<not> spaceByte c"
  by (auto simp: spaceByte_def spaceRunes_def char_class_defs)

end
