(* ===== verification/Sha256.thy ===== *)
theory Sha256
  imports GoStrings "HOL-Library.Word"
begin

unbundle bit_operations_syntax

text \<open>
  Go's \<open>crypto/sha256\<close> and \<open>encoding/hex\<close>, from FIPS 180-4: the padding, the message schedule and
  the compression function on 32-bit words, and the digest in lower-case hexadecimal. Nothing
  in the development rests on a cryptographic property of the function; that equal digests come
  from equal inputs is a hypothesis where it is needed.
\<close>

type_synonym u32 = "32 word"

text \<open>
  The constants, as the standard defines them: the first 32 bits of the fractional parts of the
  square roots of the first eight primes, and of the cube roots of the first 64. The root of
  \<open>p * 2 ^ (32 * n)\<close> is found bit by bit, from the bit \<open>i\<close> down.
\<close>

fun rootBits :: "nat \<Rightarrow> nat \<Rightarrow> nat \<Rightarrow> nat \<Rightarrow> nat" where
  "rootBits n t 0 x = (if (x + 1) ^ n \<le> t then x + 1 else x)"
| "rootBits n t (Suc i) x =
     rootBits n t i (if (x + 2 ^ Suc i) ^ n \<le> t then x + 2 ^ Suc i else x)"

definition rootFraction :: "nat \<Rightarrow> nat \<Rightarrow> u32" where
  "rootFraction n p = of_nat (rootBits n (p * 2 ^ (32 * n)) 36 0)"

definition shaPrimes :: "nat list" where
  "shaPrimes =
     [2, 3, 5, 7, 11, 13, 17, 19, 23, 29, 31, 37, 41, 43, 47, 53,
      59, 61, 67, 71, 73, 79, 83, 89, 97, 101, 103, 107, 109, 113, 127, 131,
      137, 139, 149, 151, 157, 163, 167, 173, 179, 181, 191, 193, 197, 199, 211, 223,
      227, 229, 233, 239, 241, 251, 257, 263, 269, 271, 277, 281, 283, 293, 307, 311]"

definition sha256K :: "u32 list" where
  "sha256K = map (rootFraction 3) shaPrimes"

definition sha256Init :: "u32 list" where
  "sha256Init = map (rootFraction 2) (take 8 shaPrimes)"

definition rotr :: "nat \<Rightarrow> u32 \<Rightarrow> u32" where
  "rotr n w = drop_bit n w OR push_bit (32 - n) w"

definition shaCh :: "u32 \<Rightarrow> u32 \<Rightarrow> u32 \<Rightarrow> u32" where
  "shaCh x y z = ((x AND y) XOR (NOT x AND z))"

definition shaMaj :: "u32 \<Rightarrow> u32 \<Rightarrow> u32 \<Rightarrow> u32" where
  "shaMaj x y z = ((x AND y) XOR (x AND z) XOR (y AND z))"

definition shaBig0 :: "u32 \<Rightarrow> u32" where
  "shaBig0 x = (rotr 2 x XOR rotr 13 x XOR rotr 22 x)"

definition shaBig1 :: "u32 \<Rightarrow> u32" where
  "shaBig1 x = (rotr 6 x XOR rotr 11 x XOR rotr 25 x)"

definition shaSmall0 :: "u32 \<Rightarrow> u32" where
  "shaSmall0 x = (rotr 7 x XOR rotr 18 x XOR drop_bit 3 x)"

definition shaSmall1 :: "u32 \<Rightarrow> u32" where
  "shaSmall1 x = (rotr 17 x XOR rotr 19 x XOR drop_bit 10 x)"

text \<open>The message schedule, latest word first: \<open>n\<close> more words from the sixteen of the block.\<close>

fun shaSchedule :: "nat \<Rightarrow> u32 list \<Rightarrow> u32 list" where
  "shaSchedule 0 ws = ws"
| "shaSchedule (Suc n) ws =
     shaSchedule n ((shaSmall1 (ws ! 1) + ws ! 6 + shaSmall0 (ws ! 14) + ws ! 15) # ws)"

fun shaRound :: "u32 \<times> u32 \<Rightarrow> u32 list \<Rightarrow> u32 list" where
  "shaRound (k, w) [a, b, c, d, e, f, g, h] =
     (let t1 = h + shaBig1 e + shaCh e f g + k + w; t2 = shaBig0 a + shaMaj a b c
      in [t1 + t2, a, b, c, d + t1, e, f, g])"
| "shaRound kw st = st"

fun bytesToWords :: "string \<Rightarrow> u32 list" where
  "bytesToWords (a # b # c # d # s) =
     (of_char a * 0x1000000 + of_char b * 0x10000 + of_char c * 0x100 + of_char d)
       # bytesToWords s"
| "bytesToWords s = []"

definition shaBlock :: "u32 list \<Rightarrow> string \<Rightarrow> u32 list" where
  "shaBlock st blk =
     map2 (+) st
       (fold shaRound (zip sha256K (rev (shaSchedule 48 (rev (bytesToWords blk))))) st)"

definition bigEndian64 :: "nat \<Rightarrow> string" where
  "bigEndian64 n = map (\<lambda>i. char_of (n div 256 ^ i mod 256)) [7, 6, 5, 4, 3, 2, 1, 0]"

definition shaPad :: "string \<Rightarrow> string" where
  "shaPad s =
     s @ CHR 0x80 # replicate ((119 - length s mod 64) mod 64) (CHR 0x00)
       @ bigEndian64 (8 * length s)"

function shaBlocks :: "u32 list \<Rightarrow> string \<Rightarrow> u32 list" where
  "shaBlocks st s =
     (if length s < 64 then st else shaBlocks (shaBlock st (take 64 s)) (drop 64 s))"
  by pat_completeness auto
termination
  by (relation "measure (\<lambda>(st, s). length s)") auto

declare shaBlocks.simps [simp del]

definition sha256Sum :: "string \<Rightarrow> u32 list" where
  "sha256Sum s = shaBlocks sha256Init (shaPad s)"

definition hexDigits :: string where
  "hexDigits = ''0123456789abcdef''"

definition hexWord :: "u32 \<Rightarrow> string" where
  "hexWord w = map (\<lambda>i. hexDigits ! (unat w div 16 ^ i mod 16)) [7, 6, 5, 4, 3, 2, 1, 0]"

text \<open>\<open>hex.EncodeToString\<close> of the digest.\<close>

definition sha256Hex :: "string \<Rightarrow> string" where
  "sha256Hex s = concat (map hexWord (sha256Sum s))"

section \<open>The roots\<close>

lemma rootBits_root:
  assumes "x ^ n \<le> t" and "t < (x + 2 ^ Suc i) ^ n"
  shows "rootBits n t i x ^ n \<le> t \<and> t < (rootBits n t i x + 1) ^ n"
  using assms
proof (induction i arbitrary: x)
  case (Suc i)
  show ?case
  proof (cases "(x + 2 ^ Suc i) ^ n \<le> t")
    case True
    then show ?thesis using Suc.IH [of "x + 2 ^ Suc i"] Suc.prems(2) by (simp add: mult_2 add.assoc)
  next
    case False
    then show ?thesis using Suc.IH [of x] Suc.prems(1) by simp
  qed
qed (auto simp: not_le)

lemma rootBits_numeral:
  "rootBits n t (numeral k) x =
     rootBits n t (pred_numeral k) (if (x + 2 ^ numeral k) ^ n \<le> t then x + 2 ^ numeral k else x)"
  by (subst (1 2 3) numeral_eq_Suc) simp

lemma rootFraction_samples:
  "rootFraction 2 2 = 0x6a09e667" "rootFraction 3 2 = 0x428a2f98" "rootFraction 3 311 = 0xc67178f2"
  by (simp_all add: rootFraction_def rootBits_numeral)

section \<open>Shape of the digest\<close>

lemma length_shaRound: "length (shaRound kw st) = length st"
  by (induction kw st rule: shaRound.induct) (simp_all add: Let_def)

lemma length_fold_shaRound: "length (fold shaRound kws st) = length st"
  by (induction kws arbitrary: st) (simp_all add: length_shaRound)

lemma length_shaBlock: "length (shaBlock st blk) = length st"
  by (simp add: shaBlock_def length_fold_shaRound)

lemma length_shaBlocks: "length (shaBlocks st s) = length st"
proof (induction st s rule: shaBlocks.induct)
  case (1 st s)
  then show ?case by (subst shaBlocks.simps) (simp add: length_shaBlock)
qed

lemma length_sha256Sum [simp]: "length (sha256Sum s) = 8"
  by (simp add: sha256Sum_def length_shaBlocks sha256Init_def shaPrimes_def)

lemma length_hexWord [simp]: "length (hexWord w) = 8"
  by (simp add: hexWord_def)

lemma length_sha256Hex [simp]: "length (sha256Hex s) = 64"
proof -
  have "map (length \<circ> hexWord) ws = replicate (length ws) 8" for ws
    by (induction ws) auto
  then show ?thesis
    by (simp add: sha256Hex_def length_concat sum_list_replicate)
qed

lemma sha256Hex_nonempty [simp]: "sha256Hex s \<noteq> []"
  by (metis length_sha256Hex list.size(3) zero_neq_numeral)

text \<open>The padded message is a whole number of blocks, so that no byte of it is left out.\<close>

lemma shaPad_blocks: "64 dvd length (shaPad s)"
proof -
  define q m where "q = length s div 64" and "m = length s mod 64"
  then have n: "length s = 64 * q + m" and "m < 64" by simp_all
  have len: "length (shaPad s) = 64 * q + m + 1 + (119 - m) mod 64 + 8"
    unfolding shaPad_def bigEndian64_def m_def [symmetric] by (simp add: n)
  show ?thesis
  proof (cases "m \<le> 55")
    case True
    then have eq: "119 - m = 55 - m + 64" by simp
    have "(119 - m) mod 64 = 55 - m" unfolding eq by simp
    then have "length (shaPad s) = 64 * (q + 1)" using len True by simp
    then show ?thesis by simp
  next
    case False
    then have "(119 - m) mod 64 = 119 - m" by simp
    then have "length (shaPad s) = 64 * (q + 2)" using len False \<open>m < 64\<close> by simp
    then show ?thesis by simp
  qed
qed

end
