(* ===== verification/SubTypes.thy ===== *)
theory SubTypes
  imports GoStrings
begin

text \<open>
  The data of \<open>maas-api/internal/subscription\<close>: the wire types of \<open>types.go\<close>, the parsed
  \<open>subscription\<close> of \<open>selector.go\<close>, and the error types of the selector. A Go map with string
  values is an association list with distinct keys (a nil map is the empty list), a pointer that
  may be nil is an option, \<open>int32\<close> and \<open>int64\<close> fields are integers.
\<close>

type_synonym labels = "(string \<times> string) list"

record TokenRateLimit =
  trl_Limit :: int
  trl_Window :: string

record TokenRateLimitStatus =
  trls_Model :: string
  trls_Name :: string
  trls_Namespace :: string
  trls_Ready :: bool
  trls_Reason :: string
  trls_Message :: string

record ModelRefInfo =
  ref_Name :: string
  ref_Namespace :: string
  ref_ModelName :: string
  ref_DisplayName :: string
  ref_Description :: string
  ref_Source :: string
  ref_TokenRateLimits :: "TokenRateLimit list"
  ref_BillingRate :: "string option"

record subscription =
  sub_Name :: string
  sub_Namespace :: string
  sub_DisplayName :: string
  sub_Description :: string
  sub_Groups :: "string list"
  sub_Users :: "string list"
  sub_Priority :: int
  sub_MaxLimit :: int
  sub_OrganizationID :: string
  sub_CostCenter :: string
  sub_Labels :: labels
  sub_ModelRefs :: "ModelRefInfo list"
  sub_Phase :: string
  sub_Ready :: bool
  sub_DeletionTimestamp :: "string option"
  sub_TokenRateLimitStatuses :: "TokenRateLimitStatus list"

record SelectRequest =
  req_Groups :: "string list"
  req_Username :: string
  req_RequestedSubscription :: string
  req_RequestedModel :: string

record SelectResponse =
  resp_Name :: string
  resp_Namespace :: string
  resp_DisplayName :: string
  resp_Description :: string
  resp_Priority :: int
  resp_ModelRefs :: "ModelRefInfo list"
  resp_OrganizationID :: string
  resp_CostCenter :: string
  resp_Labels :: labels
  resp_ResolvedModel :: string
  resp_AccessAllowed :: bool
  resp_Phase :: string
  resp_Ready :: bool
  resp_DeletionTimestamp :: string
  resp_Error :: string
  resp_Message :: string

text \<open>The zero value of \<open>SelectResponse\<close>, which a Go composite literal starts from.\<close>

definition emptySelectResponse :: SelectResponse where
  "emptySelectResponse =
     \<lparr>resp_Name = [], resp_Namespace = [], resp_DisplayName = [], resp_Description = [],
      resp_Priority = 0, resp_ModelRefs = [], resp_OrganizationID = [], resp_CostCenter = [],
      resp_Labels = [], resp_ResolvedModel = [], resp_AccessAllowed = False, resp_Phase = [],
      resp_Ready = False, resp_DeletionTimestamp = [], resp_Error = [], resp_Message = []\<rparr>"

record SubscriptionInfo =
  info_SubscriptionIDHeader :: string
  info_SubscriptionDescription :: string
  info_DisplayName :: string
  info_Priority :: int
  info_ModelRefs :: "ModelRefInfo list"
  info_OrganizationID :: string
  info_CostCenter :: string
  info_Labels :: labels

section \<open>Errors of the selector\<close>

record ModelUnhealthyError =
  mue_Subscription :: string
  mue_Phase :: string
  mue_Reason :: string
  mue_Message :: string

text \<open>
  One constructor per error type of \<open>selector.go\<close>; \<open>SelOther\<close> is an error made by \<open>errors.New\<close> or
  \<open>fmt.Errorf\<close>, which no caller can tell apart but by its text.
\<close>

datatype sel_error =
    NoSubscriptionError
  | SubscriptionNotFoundError string
  | AccessDeniedError string
  | MultipleSubscriptionsError "string list"
  | ModelNotInSubscriptionError string string
  | ModelUnhealthy ModelUnhealthyError
  | SelOther string

text \<open>The \<open>Error()\<close> methods.\<close>

fun sel_error_text :: "sel_error \<Rightarrow> string" where
  "sel_error_text NoSubscriptionError = ''no matching subscription found for user''"
| "sel_error_text (SubscriptionNotFoundError s) = ''requested subscription not found''"
| "sel_error_text (AccessDeniedError s) = ''access denied to requested subscription''"
| "sel_error_text (MultipleSubscriptionsError ns) =
     ''user has access to multiple subscriptions, must specify subscription using X-MaaS-Subscription header''"
| "sel_error_text (ModelNotInSubscriptionError s m) =
     ''subscription '' @ s @ '' does not include model '' @ m"
| "sel_error_text (ModelUnhealthy e) = ''requested model is unhealthy in subscription''"
| "sel_error_text (SelOther t) = t"

text \<open>A model reference in a cluster: the key of \<open>authpolicy.ModelKey\<close>.\<close>

record ModelKey =
  mk_Namespace :: string
  mk_Name :: string

end
