(* ===== verification/KeyTypes.thy ===== *)
theory KeyTypes
  imports SubTypes
begin

text \<open>
  The data of \<open>maas-api/internal/api_keys\<close> (\<open>types.go\<close>, \<open>store_interface.go\<close>): key metadata,
  validation results, search requests, the sentinel errors, and the environment a storage call
  runs in.

  A date field of \<open>ApiKey\<close> is the RFC 3339 text of an instant, or the empty string. Format and
  Parse are inverse on whole seconds, so that the field is modelled by the number of seconds the
  text denotes, \<open>None\<close> being the empty string.
\<close>

datatype Status = StatusActive | StatusRevoked | StatusExpired

fun statusString :: "Status \<Rightarrow> string" where
  "statusString StatusActive = ''active''"
| "statusString StatusRevoked = ''revoked''"
| "statusString StatusExpired = ''expired''"

lemma statusString_inj [simp]: "statusString a = statusString b \<longleftrightarrow> a = b"
  by (cases a; cases b) simp_all

type_synonym stamp = "int option"

text \<open>\<open>t.UTC().Format(time.RFC3339)\<close>: whole seconds.\<close>

definition rfc3339 :: "time \<Rightarrow> int" where
  "rfc3339 t = t div 1000000000"

record ApiKey =
  key_ID :: string
  key_Name :: string
  key_Description :: string
  key_Username :: string
  key_Subscription :: string
  key_Tenant :: string
  key_Groups :: "string list"
  key_CreationDate :: stamp
  key_ExpirationDate :: stamp
  key_Status :: Status
  key_LastUsedAt :: stamp
  key_Ephemeral :: bool
  key_Labels :: labels

record ValidationResult =
  vr_Valid :: bool
  vr_UserID :: string
  vr_Username :: string
  vr_KeyID :: string
  vr_KeyName :: string
  vr_Groups :: "string list"
  vr_Subscription :: string
  vr_Tenant :: string
  vr_Reason :: string

definition invalidResult :: "string \<Rightarrow> ValidationResult" where
  "invalidResult reason =
     \<lparr>vr_Valid = False, vr_UserID = [], vr_Username = [], vr_KeyID = [], vr_KeyName = [],
      vr_Groups = [], vr_Subscription = [], vr_Tenant = [], vr_Reason = reason\<rparr>"

record PaginationParams =
  pg_Limit :: int
  pg_Offset :: int

record PaginatedResult =
  pr_Keys :: "ApiKey list"
  pr_HasMore :: bool

record SortParams =
  sp_By :: string
  sp_Order :: string

text \<open>The filters the two stores read; the fields marked as future work in the source are unused.\<close>

record SearchFilters =
  sf_Username :: string
  sf_Status :: "string list"
  sf_Subscription :: "string option"
  sf_IncludeEphemeral :: "bool option"
  sf_LabelsContain :: labels

definition emptyFilters :: SearchFilters where
  "emptyFilters =
     \<lparr>sf_Username = [], sf_Status = [], sf_Subscription = None, sf_IncludeEphemeral = None,
      sf_LabelsContain = []\<rparr>"

definition DefaultSortBy :: string where "DefaultSortBy = ''created_at''"
definition DefaultSortOrder :: string where "DefaultSortOrder = ''desc''"
definition DefaultLimit :: int where "DefaultLimit = 50"
definition MaxLimit :: int where "MaxLimit = 100"

definition ValidSortFields :: "string list" where
  "ValidSortFields = [''created_at'', ''expires_at'', ''last_used_at'', ''name'']"

definition ValidSortOrders :: "string list" where
  "ValidSortOrders = [''asc'', ''desc'']"

definition ValidStatuses :: "string list" where
  "ValidStatuses = [''active'', ''revoked'', ''expired'']"

section \<open>Errors\<close>

text \<open>
  The sentinels of \<open>store_interface.go\<close> and \<open>service.go\<close>, the selector's errors, an error with no
  sentinel (\<open>ErrMsg\<close>), and \<open>fmt.Errorf\<close> with \<open>%w\<close> (\<open>Wrap\<close>), through which \<open>errors.Is\<close> and
  \<open>errors.As\<close> look.
\<close>

datatype api_error =
    ErrTokenNotFound
  | ErrKeyNotFound
  | ErrInvalidKey
  | ErrEmptyJTI
  | ErrEmptyName
  | ErrExpirationNotPositive
  | ErrExpirationExceedsMax
  | ErrTenantRequired
  | ErrTenantMismatch
  | ErrSelect sel_error
  | ErrMsg string
  | Wrap string api_error

fun errorRoot :: "api_error \<Rightarrow> api_error" where
  "errorRoot (Wrap m e) = errorRoot e"
| "errorRoot e = e"

definition errorsIs :: "api_error \<Rightarrow> api_error \<Rightarrow> bool" where
  "errorsIs e sentinel \<longleftrightarrow> errorRoot e = sentinel"

section \<open>The environment of a storage call\<close>

text \<open>
  \<open>goNow\<close> is what \<open>time.Now()\<close> returns in the process, \<open>dbNow\<close> what \<open>NOW()\<close> returns in the database,
  which has a clock of its own; \<open>dbFault n\<close> is the error the \<open>n\<close>-th statement of the call fails
  with, if it fails; \<open>dbStamp\<close> is the instant a timestamp column holds after an instant was
  stored in it (the driver and the column type round it); \<open>dbCollate\<close> is the order of the
  database's text collation. All of them belong to the database and its driver and are
  parameters of the model.
\<close>

record env =
  goNow :: time
  dbNow :: time
  dbFault :: "nat \<Rightarrow> string option"
  dbStamp :: "time \<Rightarrow> time"
  dbCollate :: "string \<Rightarrow> string \<Rightarrow> bool"

section \<open>The storage interface\<close>

text \<open>
  \<open>MetadataStore\<close>: what a storage implementation offers the service. A method takes the
  environment of the call and the storage state, and returns its result with the new state.
\<close>

record AddKeyArgs =
  ak_Username :: string
  ak_KeyID :: string
  ak_KeyHash :: string
  ak_Name :: string
  ak_Description :: string
  ak_Groups :: "string list"
  ak_Subscription :: string
  ak_Tenant :: string
  ak_ExpiresAt :: "time option"
  ak_Ephemeral :: bool
  ak_Labels :: labels

record 's MetadataStore =
  AddKey :: "env \<Rightarrow> AddKeyArgs \<Rightarrow> 's \<Rightarrow> (api_error, unit) result \<times> 's"
  Search :: "env \<Rightarrow> string \<Rightarrow> string \<Rightarrow> SearchFilters \<Rightarrow> SortParams \<Rightarrow> PaginationParams \<Rightarrow> 's
    \<Rightarrow> (api_error, PaginatedResult) result"
  Get :: "env \<Rightarrow> string \<Rightarrow> 's \<Rightarrow> (api_error, ApiKey) result"
  GetByHash :: "env \<Rightarrow> string \<Rightarrow> 's \<Rightarrow> (api_error, ApiKey) result \<times> 's"
  BulkRevoke :: "env \<Rightarrow> string \<Rightarrow> string \<Rightarrow> string \<Rightarrow> bool \<Rightarrow> 's \<Rightarrow> (api_error, nat) result \<times> 's"
  InvalidateTenant :: "env \<Rightarrow> string \<Rightarrow> 's \<Rightarrow> (api_error, nat) result \<times> 's"
  Revoke :: "env \<Rightarrow> string \<Rightarrow> 's \<Rightarrow> (api_error, unit) result \<times> 's"
  UpdateLastUsed :: "env \<Rightarrow> string \<Rightarrow> 's \<Rightarrow> (api_error, unit) result \<times> 's"
  DeleteExpiredEphemeral :: "env \<Rightarrow> 's \<Rightarrow> (api_error, nat) result \<times> 's"

end
