(* ===== verification/Keygen.thy ===== *)
theory Keygen
  imports GoRegexp Sha256 KeyTypes
begin

text \<open>
  \<open>maas-api/internal/api_keys/keygen.go\<close>: the API keys \<open>sk-oai-{key_id}_{secret}\<close>, their base-62
  encoding, parsing and salted hash. The random bytes \<open>crypto/rand\<close> returns are an argument,
  \<open>None\<close> when it fails.
\<close>

definition KeyPrefix :: string where "KeyPrefix = ''sk-oai-''"
definition KeyIDSeparator :: char where "KeyIDSeparator = CHR ''_''"
definition keyIDBytes :: nat where "keyIDBytes = 12"
definition entropyBytes :: nat where "entropyBytes = 32"
definition displayPrefixLength :: nat where "displayPrefixLength = 12"

definition alphabet :: string where
  "alphabet = ''0123456789ABCDEFGHIJKLMNOPQRSTUVWXYZabcdefghijklmnopqrstuvwxyz''"

text \<open>\<open>big.Int.SetBytes\<close>: the bytes as an unsigned big-endian number.\<close>

definition setBytes :: "string \<Rightarrow> nat" where
  "setBytes data = foldl (\<lambda>n b. n * 256 + of_char b) 0 data"

fun base62Loop :: "nat \<Rightarrow> string \<Rightarrow> string" where
  "base62Loop n acc =
     (if n > 0 then base62Loop (n div 62) (alphabet ! (n mod 62) # acc) else acc)"

declare base62Loop.simps [simp del]

lemma base62Loop_0 [simp]: "base62Loop 0 acc = acc"
  by (simp add: base62Loop.simps)

definition encodeBase62 :: "string \<Rightarrow> string" where
  "encodeBase62 data =
     (let result = base62Loop (setBytes data) []
      in if result = [] then [alphabet ! 0] else result)"

definition isBase62 :: "string \<Rightarrow> bool" where
  "isBase62 s =
     list_all (\<lambda>c. \<not> (\<not> isDigit c \<and> \<not> isUpper c \<and> \<not> isLower c)) s"

definition hashWithSalt :: "string \<Rightarrow> string \<Rightarrow> string" where
  "hashWithSalt keyID secret = sha256Hex (keyID @ CHR 0x00 # secret)"

definition GenerateAPIKey ::
  "string option \<Rightarrow> string option \<Rightarrow> (api_error, string \<times> string \<times> string) result" where
  "GenerateAPIKey keyIDEntropy secretEntropy =
     (case keyIDEntropy of
        None \<Rightarrow> Err (Wrap ''failed to generate key_id entropy'' (ErrMsg ''rand''))
      | Some kb \<Rightarrow>
          (case secretEntropy of
             None \<Rightarrow> Err (Wrap ''failed to generate secret entropy'' (ErrMsg ''rand''))
           | Some sb \<Rightarrow>
               let keyID = encodeBase62 kb;
                   secret = encodeBase62 sb;
                   plaintext = KeyPrefix @ keyID @ KeyIDSeparator # secret;
                   hash = hashWithSalt keyID secret;
                   pre = (if displayPrefixLength \<le> length keyID
                          then KeyPrefix @ take displayPrefixLength keyID @ ''...''
                          else KeyPrefix @ keyID @ ''...'')
               in Ok (plaintext, hash, pre)))"

definition ParseAPIKey :: "string \<Rightarrow> (api_error, string \<times> string) result" where
  "ParseAPIKey key =
     (if \<not> prefix KeyPrefix key then Err (ErrMsg ''invalid key prefix'')
      else
        (case splitN2 KeyIDSeparator (drop (length KeyPrefix) key) of
           [keyID, secret] \<Rightarrow>
             if keyID = [] \<or> secret = []
             then Err (ErrMsg ''invalid key format: empty key_id or secret'')
             else Ok (keyID, secret)
         | _ \<Rightarrow> Err (ErrMsg ''invalid key format: missing separator'')))"

text \<open>\<open>subtle.ConstantTimeCompare\<close> returns 1 exactly on equal byte strings.\<close>

definition ValidateAPIKeyHash :: "string \<Rightarrow> string \<Rightarrow> bool" where
  "ValidateAPIKeyHash key storedHash =
     (case ParseAPIKey key of
        Inl _ \<Rightarrow> False
      | Inr (keyID, secret) \<Rightarrow> hashWithSalt keyID secret = storedHash)"

definition HashAPIKey :: "string \<Rightarrow> string" where
  "HashAPIKey key =
     (case ParseAPIKey key of
        Inl _ \<Rightarrow> []
      | Inr (keyID, secret) \<Rightarrow> hashWithSalt keyID secret)"

definition IsValidKeyFormat :: "string \<Rightarrow> bool" where
  "IsValidKeyFormat key =
     (if \<not> prefix KeyPrefix key then False
      else
        (case splitN2 KeyIDSeparator (drop (length KeyPrefix) key) of
           [keyID, secret] \<Rightarrow>
             if keyID = [] \<or> secret = [] then False
             else if \<not> isBase62 keyID then False
             else if \<not> isBase62 secret then False
             else True
         | _ \<Rightarrow> False))"

section \<open>The base-62 encoding\<close>

text \<open>The value of a base-62 numeral: the specification the encoder is checked against.\<close>

definition digitValue :: "char \<Rightarrow> nat" where
  "digitValue c =
     (if isDigit c then of_char c - 48
      else if isUpper c then of_char c - 55 else of_char c - 61)"

definition base62Value :: "string \<Rightarrow> nat" where
  "base62Value s = foldl (\<lambda>n c. n * 62 + digitValue c) 0 s"

lemma length_alphabet [simp]: "length alphabet = 62"
  by (simp add: alphabet_def)

lemma alphabet_all: "list_all isAlnum alphabet"
  by (simp add: alphabet_def char_class_defs)

lemma alphabet_values: "map digitValue alphabet = [0..<62]"
  by (simp add: alphabet_def digitValue_def char_class_defs upt_rec [of _ "numeral _"])

lemma alphabet_isAlnum: "d < 62 \<Longrightarrow> isAlnum (alphabet ! d)"
  using alphabet_all by (simp add: list_all_length)

lemma alphabet_value: "d < 62 \<Longrightarrow> digitValue (alphabet ! d) = d"
  by (metis alphabet_values length_alphabet nth_map nth_upt add_0)

lemma foldl_base62_shift:
  "foldl (\<lambda>n c. n * 62 + digitValue c) k s =
     k * 62 ^ length s + foldl (\<lambda>n c. n * 62 + digitValue c) 0 s"
proof (induction s arbitrary: k)
  case Nil
  then show ?case by simp
next
  case (Cons c s)
  show ?case
    by (simp only: foldl_Cons Cons [of "k * 62 + digitValue c"] Cons [of "0 * 62 + digitValue c"])
       (simp add: algebra_simps)
qed

lemma base62Value_Cons: "base62Value (c # s) = digitValue c * 62 ^ length s + base62Value s"
  using foldl_base62_shift [of "digitValue c" s] by (simp add: base62Value_def)

lemma base62Loop_value: "base62Value (base62Loop n acc) = n * 62 ^ length acc + base62Value acc"
proof (induction n acc rule: base62Loop.induct)
  case (1 n acc)
  show ?case
  proof (cases "n > 0")
    case True
    have "base62Value (base62Loop n acc) =
        (n div 62) * 62 ^ Suc (length acc) + (n mod 62) * 62 ^ length acc + base62Value acc"
      using "1" [OF True] True
      by (simp add: base62Loop.simps [of n acc] base62Value_Cons alphabet_value)
    also have "\<dots> = (62 * (n div 62) + n mod 62) * 62 ^ length acc + base62Value acc"
      by (simp only: power_Suc distrib_right mult.assoc mult.left_commute)
    also have "62 * (n div 62) + n mod 62 = n" by simp
    finally show ?thesis .
  next
    case False
    then show ?thesis by (simp add: base62Loop.simps)
  qed
qed

lemma base62Loop_alnum:
  "list_all isAlnum acc \<Longrightarrow> list_all isAlnum (base62Loop n acc)"
proof (induction n acc rule: base62Loop.induct)
  case (1 n acc)
  then show ?case
    by (cases "n > 0") (simp_all add: base62Loop.simps [of n acc] alphabet_isAlnum)
qed

lemma base62Loop_nonempty: "acc \<noteq> [] \<Longrightarrow> base62Loop n acc \<noteq> []"
proof (induction n acc rule: base62Loop.induct)
  case (1 n acc)
  then show ?case by (cases "n > 0") (simp_all add: base62Loop.simps [of n acc])
qed

lemma isBase62_iff: "isBase62 s \<longleftrightarrow> list_all isAlnum s"
  by (simp add: isBase62_def isAlnum_def list_all_iff)

lemma encodeBase62_nonempty [simp]: "encodeBase62 data \<noteq> []"
  by (simp add: encodeBase62_def Let_def)

lemma isBase62_encode [simp]: "isBase62 (encodeBase62 data)"
  using base62Loop_alnum [of "[]" "setBytes data"] alphabet_isAlnum [of 0]
  by (simp add: isBase62_iff encodeBase62_def Let_def)

lemma base62Value_encode: "base62Value (encodeBase62 data) = setBytes data"
proof -
  have v: "base62Value (base62Loop (setBytes data) []) = setBytes data"
    using base62Loop_value [of "setBytes data" "[]"] by (simp add: base62Value_def)
  show ?thesis
  proof (cases "base62Loop (setBytes data) [] = []")
    case True
    with v have "setBytes data = 0" by (simp add: base62Value_def)
    with True show ?thesis
      using alphabet_value [of 0] by (simp add: encodeBase62_def base62Value_def)
  next
    case False
    with v show ?thesis by (simp add: encodeBase62_def Let_def)
  qed
qed

lemma base62Loop_length: "n < 62 ^ k \<Longrightarrow> length (base62Loop n acc) \<le> k + length acc"
proof (induction n acc arbitrary: k rule: base62Loop.induct)
  case (1 n acc)
  show ?case
  proof (cases "n > 0")
    case True
    with "1.prems" obtain j where k: "k = Suc j" by (cases k) auto
    with "1.prems" have "n div 62 < 62 ^ j" by (simp add: less_mult_imp_div_less mult.commute)
    with "1.IH" [OF True] True k show ?thesis
      by (fastforce simp: base62Loop.simps [of n acc])
  next
    case False
    then show ?thesis by (simp add: base62Loop.simps)
  qed
qed

lemma foldl_bytes_shift:
  "foldl (\<lambda>n b. n * 256 + of_char b) k s =
     (k :: nat) * 256 ^ length s + foldl (\<lambda>n b. n * 256 + of_char b) 0 s"
proof (induction s arbitrary: k)
  case Nil
  then show ?case by simp
next
  case (Cons c s)
  show ?case
    by (simp only: foldl_Cons Cons [of "k * 256 + of_char c"] Cons [of "0 * 256 + of_char c"])
       (simp add: algebra_simps)
qed

lemma setBytes_Cons: "setBytes (b # s) = of_char b * 256 ^ length s + setBytes s"
  using foldl_bytes_shift [of "of_char b" s] by (simp add: setBytes_def)

lemma setBytes_bound: "setBytes s < 256 ^ length s"
proof (induction s)
  case Nil
  then show ?case by (simp add: setBytes_def)
next
  case (Cons b s)
  have "(of_char b :: nat) < 256" by (rule nat_of_char_less_256)
  then have "(of_char b :: nat) \<le> 255" by linarith
  then have "of_char b * 256 ^ length s \<le> 255 * (256 :: nat) ^ length s"
    by (rule mult_le_mono1)
  with Cons have "of_char b * 256 ^ length s + setBytes s < 256 * 256 ^ length s" by linarith
  then show ?case by (simp add: setBytes_Cons)
qed

lemma setBytes_inj: "length a = length b \<Longrightarrow> setBytes a = setBytes b \<Longrightarrow> a = b"
proof (induction a b rule: list_induct2)
  case Nil
  then show ?case by simp
next
  case (Cons x xs y ys)
  let ?B = "(256 :: nat) ^ length xs"
  have "setBytes (x # xs) div ?B = of_char x" and "setBytes (x # xs) mod ?B = setBytes xs"
    using setBytes_bound [of xs] by (simp_all add: setBytes_Cons)
  moreover have "setBytes (y # ys) div ?B = of_char y" and "setBytes (y # ys) mod ?B = setBytes ys"
    using setBytes_bound [of ys] Cons.hyps by (simp_all add: setBytes_Cons)
  ultimately have "(of_char x :: nat) = of_char y" and "setBytes xs = setBytes ys"
    using Cons.prems by simp_all
  with Cons.IH show ?case by simp
qed

lemma encodeBase62_inj:
  assumes "length a = length b" and "encodeBase62 a = encodeBase62 b"
  shows "a = b"
proof -
  from assms(2) have "setBytes a = setBytes b" by (metis base62Value_encode)
  with assms(1) show ?thesis by (rule setBytes_inj)
qed

section \<open>Parsing and validating keys\<close>

lemma isBase62_no_separator: "isBase62 s \<Longrightarrow> KeyIDSeparator \<notin> set s"
proof -
  have "\<not> isAlnum KeyIDSeparator" by (simp add: KeyIDSeparator_def char_class_defs)
  then show "isBase62 s \<Longrightarrow> KeyIDSeparator \<notin> set s" by (auto simp: isBase62_iff list_all_iff)
qed

lemma isBase62_no_null: "isBase62 s \<Longrightarrow> CHR 0x00 \<notin> set s"
proof -
  have "\<not> isAlnum (CHR 0x00)" by (simp add: char_class_defs)
  then show "isBase62 s \<Longrightarrow> CHR 0x00 \<notin> set s" by (auto simp: isBase62_iff list_all_iff)
qed

lemma ParseAPIKey_format:
  assumes "KeyIDSeparator \<notin> set keyID" and "keyID \<noteq> []" and "secret \<noteq> []"
  shows "ParseAPIKey (KeyPrefix @ keyID @ KeyIDSeparator # secret) = Ok (keyID, secret)"
  using assms by (simp add: ParseAPIKey_def)

lemma ParseAPIKey_OkD:
  assumes "ParseAPIKey key = Ok (keyID, secret)"
  shows "key = KeyPrefix @ keyID @ KeyIDSeparator # secret \<and> KeyIDSeparator \<notin> set keyID
       \<and> keyID \<noteq> [] \<and> secret \<noteq> []"
proof -
  from assms have p: "prefix KeyPrefix key"
    and s: "splitN2 KeyIDSeparator (drop (length KeyPrefix) key) = [keyID, secret]"
    and ne: "keyID \<noteq> []" "secret \<noteq> []"
    by (auto simp: ParseAPIKey_def split: if_splits list.splits)
  from s have "drop (length KeyPrefix) key = keyID @ KeyIDSeparator # secret"
    and "KeyIDSeparator \<notin> set keyID"
    by (auto dest: splitN2_pairD)
  moreover from p have "key = KeyPrefix @ drop (length KeyPrefix) key"
    by (metis append_eq_conv_conj prefixE)
  ultimately show ?thesis using ne by simp
qed

lemma IsValidKeyFormat_iff:
  "IsValidKeyFormat key \<longleftrightarrow>
     (\<exists>keyID secret. ParseAPIKey key = Ok (keyID, secret) \<and> isBase62 keyID \<and> isBase62 secret)"
  by (auto simp: IsValidKeyFormat_def ParseAPIKey_def split: list.splits)

lemma hashWithSalt_nonempty [simp]: "hashWithSalt keyID secret \<noteq> []"
  by (simp add: hashWithSalt_def)

lemma HashAPIKey_valid_nonempty: "IsValidKeyFormat key \<Longrightarrow> HashAPIKey key \<noteq> []"
  by (auto simp: IsValidKeyFormat_iff HashAPIKey_def)

lemma append_sep_inj:
  assumes "a @ c # b = a' @ (c :: char) # b'" and "c \<notin> set a" and "c \<notin> set a'"
  shows "a = a' \<and> b = b'"
proof -
  have "splitN2 c (a @ c # b) = [a, b]" using assms(2) by (rule splitN2_append)
  moreover have "splitN2 c (a' @ c # b') = [a', b']" using assms(3) by (rule splitN2_append)
  ultimately show ?thesis unfolding assms(1) by simp
qed

lemma GenerateAPIKey_OkE:
  assumes "GenerateAPIKey kb sb = Ok (plaintext, hash, pre)"
  obtains k s where "kb = Some k" "sb = Some s"
    "plaintext = KeyPrefix @ encodeBase62 k @ KeyIDSeparator # encodeBase62 s"
    "hash = hashWithSalt (encodeBase62 k) (encodeBase62 s)"
  using assms by (auto simp: GenerateAPIKey_def Let_def split: option.splits)

lemma ParseAPIKey_generated:
  assumes "GenerateAPIKey (Some k) (Some s) = Ok (plaintext, hash, pre)"
  shows "ParseAPIKey plaintext = Ok (encodeBase62 k, encodeBase62 s)"
  using assms
  by (elim GenerateAPIKey_OkE) (simp add: ParseAPIKey_format isBase62_no_separator)

section \<open>Properties\<close>

text \<open>
  What the generator makes, the parser and the validator accept. For any random bytes, the
  generated text has the key format, parses into the two encoded parts it was built from, hashes
  to the 64 hex digits the generator returned for storage, and validates against that hash.
\<close>

theorem GenerateAPIKey_roundtrip:
  assumes "GenerateAPIKey (Some k) (Some s) = Inr (plaintext, hash, pre)"
  shows "IsValidKeyFormat plaintext \<and> ParseAPIKey plaintext = Inr (encodeBase62 k, encodeBase62 s)
    \<and> HashAPIKey plaintext = hash \<and> ValidateAPIKeyHash plaintext hash \<and> length hash = 64"
proof -
  have parsed: "ParseAPIKey plaintext = Inr (encodeBase62 k, encodeBase62 s)"
    using assms by (rule ParseAPIKey_generated)
  moreover have "hash = hashWithSalt (encodeBase62 k) (encodeBase62 s)"
    using assms by (elim GenerateAPIKey_OkE) simp
  ultimately show ?thesis
    by (simp add: IsValidKeyFormat_iff HashAPIKey_def ValidateAPIKeyHash_def hashWithSalt_def length_sha256Hex)
qed

theorem GenerateAPIKey_roundtrip_witness:
  "\<exists>plaintext hash pre. GenerateAPIKey (Some ''abcdefghijkl'') (Some ''mnop'') = Inr (plaintext, hash, pre)
     \<and> ValidateAPIKeyHash plaintext hash"
proof -
  obtain p h pre where g: "GenerateAPIKey (Some ''abcdefghijkl'') (Some ''mnop'') = Inr (p, h, pre)"
    by (simp add: GenerateAPIKey_def Let_def)
  from GenerateAPIKey_roundtrip [OF g] g show ?thesis by blast
qed

text \<open>
  Two keys never share what is hashed. Two texts of the key format whose hash inputs (the
  identifier, a null byte, the secret) are equal have the same identifier and secret, and are the
  same text: the null byte between the parts cannot be confused with their characters.
\<close>

theorem hash_input_injective:
  assumes "IsValidKeyFormat key" "ParseAPIKey key = Inr (a, b)"
    and "IsValidKeyFormat key'" "ParseAPIKey key' = Inr (a', b')"
    and "a @ CHR 0x00 # b = a' @ CHR 0x00 # b'"
  shows "key = key' \<and> a = a' \<and> b = b'"
proof -
  have "CHR 0x00 \<notin> set a" "CHR 0x00 \<notin> set a'"
    using assms(1-4) by (auto simp: IsValidKeyFormat_iff isBase62_no_null)
  with append_sep_inj [OF assms(5)] have ab: "a = a'" "b = b'" by auto
  moreover have "key = KeyPrefix @ a @ KeyIDSeparator # b" "key' = KeyPrefix @ a' @ KeyIDSeparator # b'"
    using ParseAPIKey_OkD assms(2,4) by blast+
  ultimately show ?thesis by auto
qed

theorem hash_input_injective_witness:
  "IsValidKeyFormat ''sk-oai-ab_c'' \<and> ParseAPIKey ''sk-oai-ab_c'' = Inr (''ab'', ''c'')
   \<and> ''sk-oai-ab_c'' = ''sk-oai-'' @ ''ab'' @ ''_'' @ ''c''"
proof -
  have f: "IsValidKeyFormat ''sk-oai-ab_c''" "ParseAPIKey ''sk-oai-ab_c'' = Inr (''ab'', ''c'')"
    by (simp_all add: IsValidKeyFormat_def ParseAPIKey_def KeyPrefix_def KeyIDSeparator_def splitN2_def
        isBase62_def char_class_defs)
  have "''sk-oai-'' @ ''ab'' @ ''_'' @ ''c'' = ''sk-oai-ab_c''" by simp
  with hash_input_injective [OF f, of "''sk-oai-'' @ ''ab'' @ ''_'' @ ''c''" "''ab''" "''c''"] f
  show ?thesis by simp
qed

text \<open>
  The encoding drops leading zeros, so that an identifier can be much shorter than the entropy:
  twelve zero bytes give the single digit zero.
\<close>

lemma encodeBase62_short: "encodeBase62 (replicate 12 (CHR 0x00)) = ''0''"
proof -
  have "setBytes (replicate 12 (CHR 0x00)) = 0" by (simp add: setBytes_def numeral_eq_Suc)
  then show ?thesis by (simp add: encodeBase62_def alphabet_def)
qed

end
