(* ===== verification/StoreSpec.thy ===== *)
theory StoreSpec
  imports KeyTypes
begin

text \<open>
  What a storage implementation of \<open>MetadataStore\<close> promises the service: the stored row of a key,
  its life cycle, and the contract \<open>metadata_store\<close>, a locale that the PostgreSQL store and the
  in-memory store are both shown to satisfy.
\<close>

section \<open>The stored row of a key\<close>

text \<open>A row of the table \<open>api_keys\<close> (\<open>db/schema\<close>); \<open>row_labels\<close> is empty for a NULL column.\<close>

record keyRow =
  row_id :: string
  row_username :: string
  row_name :: string
  row_description :: string
  row_key_hash :: string
  row_status :: Status
  row_groups :: "string list"
  row_created_at :: time
  row_expires_at :: "time option"
  row_last_used_at :: "time option"
  row_ephemeral :: bool
  row_subscription :: string
  row_tenant :: string
  row_labels :: labels

definition pastExpiry :: "time \<Rightarrow> keyRow \<Rightarrow> bool" where
  "pastExpiry now r = (case row_expires_at r of None \<Rightarrow> False | Some x \<Rightarrow> x < now)"

text \<open>A key is live when it is active and not past its expiry.\<close>

definition liveRow :: "time \<Rightarrow> keyRow \<Rightarrow> bool" where
  "liveRow now r \<longleftrightarrow> row_status r = StatusActive \<and> \<not> pastExpiry now r"

text \<open>The status a reader sees: an active key past its expiry reads as expired.\<close>

definition effectiveStatus :: "time \<Rightarrow> keyRow \<Rightarrow> Status" where
  "effectiveStatus now r =
     (if row_status r = StatusActive \<and> pastExpiry now r then StatusExpired else row_status r)"

lemma effectiveStatus_active_iff [simp]: "effectiveStatus now r = StatusActive \<longleftrightarrow> liveRow now r"
  by (auto simp: effectiveStatus_def liveRow_def)

definition setStatus :: "Status \<Rightarrow> keyRow \<Rightarrow> keyRow" where
  "setStatus st r = r\<lparr>row_status := st\<rparr>"

text \<open>
  What no operation changes: the identity a key was minted with. The status moves one way only,
  from active to revoked or expired (\<open>types.go\<close>).
\<close>

definition sameIdentity :: "keyRow \<Rightarrow> keyRow \<Rightarrow> bool" where
  "sameIdentity r r' \<longleftrightarrow>
     r' = r\<lparr>row_status := row_status r', row_last_used_at := row_last_used_at r'\<rparr>"

definition statusStep :: "Status \<Rightarrow> Status \<Rightarrow> bool" where
  "statusStep a b \<longleftrightarrow> a = StatusActive \<or> a = b"

lemma sameIdentity_refl [simp]: "sameIdentity r r"
  by (simp add: sameIdentity_def)

lemma sameIdentity_setStatus [simp]: "sameIdentity r (setStatus st r)"
  by (simp add: sameIdentity_def setStatus_def)

lemma sameIdentity_lastUsed [simp]: "sameIdentity r (r\<lparr>row_last_used_at := t\<rparr>)"
  by (simp add: sameIdentity_def)

lemma setStatus_sel [simp]:
  "row_id (setStatus st r) = row_id r"
  "row_username (setStatus st r) = row_username r"
  "row_name (setStatus st r) = row_name r"
  "row_key_hash (setStatus st r) = row_key_hash r"
  "row_status (setStatus st r) = st"
  "row_groups (setStatus st r) = row_groups r"
  "row_expires_at (setStatus st r) = row_expires_at r"
  "row_ephemeral (setStatus st r) = row_ephemeral r"
  "row_subscription (setStatus st r) = row_subscription r"
  "row_tenant (setStatus st r) = row_tenant r"
  "pastExpiry now (setStatus st r) = pastExpiry now r"
  by (simp_all add: setStatus_def pastExpiry_def)

lemma statusStep_refl [simp]: "statusStep a a" and statusStep_active [simp]: "statusStep StatusActive b"
  by (simp_all add: statusStep_def)

lemma statusStep_trans: "statusStep a b \<Longrightarrow> statusStep b c \<Longrightarrow> statusStep a c"
  by (auto simp: statusStep_def)

section \<open>SQL statements on the table\<close>

type_synonym table = "keyRow list"

definition sqlUpdate :: "(keyRow \<Rightarrow> bool) \<Rightarrow> (keyRow \<Rightarrow> keyRow) \<Rightarrow> table \<Rightarrow> table" where
  "sqlUpdate p f rows = map (\<lambda>r. if p r then f r else r) rows"

definition sqlCount :: "(keyRow \<Rightarrow> bool) \<Rightarrow> table \<Rightarrow> nat" where
  "sqlCount p rows = length (filter p rows)"

definition sqlDelete :: "(keyRow \<Rightarrow> bool) \<Rightarrow> table \<Rightarrow> table" where
  "sqlDelete p rows = filter (\<lambda>r. \<not> p r) rows"

text \<open>
  \<open>INSERT\<close> fails on a second row with the primary key \<open>id\<close> or with the pair \<open>(key_hash, tenant)\<close>
  of the unique index \<open>idx_api_keys_key_hash_tenant\<close>.
\<close>

definition sqlInsert :: "keyRow \<Rightarrow> table \<Rightarrow> table option" where
  "sqlInsert r rows =
     (if list_ex (\<lambda>q. row_id q = row_id r
                     \<or> row_key_hash q = row_key_hash r \<and> row_tenant q = row_tenant r) rows
      then None else Some (rows @ [r]))"

lemma set_sqlUpdate: "set (sqlUpdate p f rows) = (\<lambda>r. if p r then f r else r) ` set rows"
  by (simp add: sqlUpdate_def)

lemma length_sqlUpdate [simp]: "length (sqlUpdate p f rows) = length rows"
  by (simp add: sqlUpdate_def)

lemma map_sqlUpdate_same:
  "(\<And>r. g (f r) = g r) \<Longrightarrow> map g (sqlUpdate p f rows) = map g rows"
  by (simp add: sqlUpdate_def)

lemma filter_sqlUpdate_other:
  "(\<And>r. p r \<Longrightarrow> \<not> q r) \<Longrightarrow> (\<And>r. q (f r) = q r) \<Longrightarrow> filter q (sqlUpdate p f rows) = filter q rows"
  by (induction rows) (auto simp: sqlUpdate_def)

lemma filter_sqlDelete_other:
  "(\<And>r. p r \<Longrightarrow> \<not> q r) \<Longrightarrow> filter q (sqlDelete p rows) = filter q rows"
  by (induction rows) (auto simp: sqlDelete_def)

lemma sqlCount_delete: "sqlCount p rows + length (sqlDelete p rows) = length rows"
  by (simp add: sqlCount_def sqlDelete_def length_filter_partition)

lemma sqlInsert_SomeD:
  assumes "sqlInsert r rows = Some rows'"
  shows "rows' = rows @ [r] \<and> (\<forall>q\<in>set rows. row_id q \<noteq> row_id r
       \<and> (row_key_hash q, row_tenant q) \<noteq> (row_key_hash r, row_tenant r))"
  using assms by (auto simp: sqlInsert_def list_ex_iff split: if_splits)

section \<open>The contract of a store\<close>

text \<open>
  \<open>keysOf\<close> reads the rows a store serves out of its state, \<open>inv\<close> is its invariant and \<open>calm\<close> the
  environments in which no statement fails; \<open>kept\<close> is the expiry a store keeps of the one it is
  given (a database column rounds it). The laws are what \<open>store_interface.go\<close> documents of
  the methods the authentication path uses.
\<close>

definition describes :: "ApiKey \<Rightarrow> keyRow \<Rightarrow> bool" where
  "describes k r \<longleftrightarrow>
     key_ID k = row_id r \<and> key_Name k = row_name r \<and> key_Username k = row_username r
     \<and> key_Groups k = row_groups r \<and> key_Subscription k = row_subscription r
     \<and> key_Tenant k = row_tenant r \<and> key_Status k = row_status r"

text \<open>The row an accepted \<open>AddKey\<close> leaves behind.\<close>

definition storesArgs :: "AddKeyArgs \<Rightarrow> keyRow \<Rightarrow> bool" where
  "storesArgs a r \<longleftrightarrow>
     row_id r = ak_KeyID a \<and> row_username r = ak_Username a \<and> row_name r = ak_Name a
     \<and> row_key_hash r = ak_KeyHash a \<and> row_groups r = ak_Groups a
     \<and> row_subscription r = ak_Subscription a \<and> row_tenant r = ak_Tenant a
     \<and> row_status r = StatusActive"

locale metadata_store =
  fixes ops :: "'s MetadataStore"
    and keysOf :: "'s \<Rightarrow> keyRow list"
    and inv :: "'s \<Rightarrow> bool"
    and calm :: "env \<Rightarrow> bool"
    and kept :: "env \<Rightarrow> time \<Rightarrow> time"
  assumes unique_hash:
      "inv s \<Longrightarrow> r \<in> set (keysOf s) \<Longrightarrow> q \<in> set (keysOf s) \<Longrightarrow> row_key_hash r = row_key_hash q \<Longrightarrow> r = q"
    and unique_id:
      "inv s \<Longrightarrow> r \<in> set (keysOf s) \<Longrightarrow> q \<in> set (keysOf s) \<Longrightarrow> row_id r = row_id q \<Longrightarrow> r = q"
    and add_known:
      "inv s \<Longrightarrow> AddKey ops e a s = (Inr (), s') \<Longrightarrow>
         (\<And>r. r \<in> set (keysOf s) \<Longrightarrow> row_id r \<noteq> ak_KeyID a \<and> row_key_hash r \<noteq> ak_KeyHash a) \<Longrightarrow>
         \<exists>r. inv s' \<and> set (keysOf s') = insert r (set (keysOf s)) \<and> storesArgs a r
           \<and> (\<forall>now. (\<forall>x. ak_ExpiresAt a = Some x \<longrightarrow> now \<le> kept e x) \<longrightarrow> liveRow now r)"
    and hash_unknown:
      "inv s \<Longrightarrow> calm e \<Longrightarrow> (\<And>r. r \<in> set (keysOf s) \<Longrightarrow> row_key_hash r \<noteq> h)
        \<Longrightarrow> GetByHash ops e h s = (Inl ErrKeyNotFound, s)"
    and hash_live:
      "inv s \<Longrightarrow> calm e \<Longrightarrow> r \<in> set (keysOf s) \<Longrightarrow> row_key_hash r = h \<Longrightarrow> liveRow (goNow e) r
        \<Longrightarrow> \<exists>k. GetByHash ops e h s = (Inr k, s) \<and> describes k r"
    and hash_dead:
      "inv s \<Longrightarrow> calm e \<Longrightarrow> r \<in> set (keysOf s) \<Longrightarrow> row_key_hash r = h \<Longrightarrow> \<not> liveRow (goNow e) r
        \<Longrightarrow> fst (GetByHash ops e h s) = Inl ErrInvalidKey"
    and hash_state:
      "inv s \<Longrightarrow> calm e \<Longrightarrow> GetByHash ops e h s = (res, s') \<Longrightarrow>
         inv s' \<and> (\<exists>f. keysOf s' = map f (keysOf s)
           \<and> (\<forall>r. sameIdentity r (f r) \<and> statusStep (row_status r) (row_status (f r))
                \<and> (r \<in> set (keysOf s) \<longrightarrow> liveRow (goNow e) r \<longrightarrow> f r = r)))"
    and revoke_known:
      "inv s \<Longrightarrow> calm e \<Longrightarrow> r \<in> set (keysOf s) \<Longrightarrow> row_status r = StatusActive \<Longrightarrow>
         Revoke ops e (row_id r) s = (Inr (), s') \<Longrightarrow>
         inv s' \<and> keysOf s' =
           map (\<lambda>q. if row_id q = row_id r then setStatus StatusRevoked q else q) (keysOf s)"
    and revoke_total:
      "inv s \<Longrightarrow> calm e \<Longrightarrow> r \<in> set (keysOf s) \<Longrightarrow> row_status r = StatusActive \<Longrightarrow>
         fst (Revoke ops e (row_id r) s) = Inr ()"
begin

text \<open>What one lookup by hash returns, whatever the state: the three answers the service maps.\<close>

lemma hash_cases:
  assumes "inv s" and "calm e"
  obtains
    (unknown) "\<And>r. r \<in> set (keysOf s) \<Longrightarrow> row_key_hash r \<noteq> h"
      "GetByHash ops e h s = (Inl ErrKeyNotFound, s)"
  | (live) r k where "r \<in> set (keysOf s)" "row_key_hash r = h" "liveRow (goNow e) r"
      "GetByHash ops e h s = (Inr k, s)" "describes k r"
  | (dead) r where "r \<in> set (keysOf s)" "row_key_hash r = h" "\<not> liveRow (goNow e) r"
      "fst (GetByHash ops e h s) = Inl ErrInvalidKey"
proof (cases "\<exists>r\<in>set (keysOf s). row_key_hash r = h")
  case False
  then show ?thesis using unknown hash_unknown [OF assms] by blast
next
  case True
  then obtain r where r: "r \<in> set (keysOf s)" "row_key_hash r = h" by blast
  show ?thesis
  proof (cases "liveRow (goNow e) r")
    case True
    with r show ?thesis using live hash_live [OF assms] by blast
  next
    case False
    with r show ?thesis using dead hash_dead [OF assms] by blast
  qed
qed

text \<open>An added key is found by its hash until it expires.\<close>

lemma added_found:
  assumes "inv s" "calm e'" and add: "AddKey ops e a s = (Inr (), s')"
    and fresh: "\<And>r. r \<in> set (keysOf s) \<Longrightarrow> row_id r \<noteq> ak_KeyID a \<and> row_key_hash r \<noteq> ak_KeyHash a"
    and intime: "\<And>x. ak_ExpiresAt a = Some x \<Longrightarrow> goNow e' \<le> kept e x"
  shows "\<exists>k r. GetByHash ops e' (ak_KeyHash a) s' = (Inr k, s') \<and> describes k r \<and> storesArgs a r"
proof -
  obtain r where r: "inv s'" "r \<in> set (keysOf s')" "storesArgs a r" "liveRow (goNow e') r"
    using add_known [OF assms(1) add fresh] intime by blast
  then have "row_key_hash r = ak_KeyHash a" by (simp add: storesArgs_def)
  from hash_live [OF r(1) assms(2) r(2) this r(4)] r(3) show ?thesis by blast
qed

text \<open>A revoked key stays rejected by every later lookup.\<close>

lemma revoked_rejected:
  assumes "inv s" "calm e" "calm e'" "r \<in> set (keysOf s)" "row_status r = StatusActive"
    and rev: "Revoke ops e (row_id r) s = (Inr (), s')"
  shows "fst (GetByHash ops e' (row_key_hash r) s') = Inl ErrInvalidKey"
proof -
  note s' = revoke_known [OF assms(1,2,4,5) rev]
  have "setStatus StatusRevoked r \<in> set (keysOf s')"
    using s' assms(4) by force
  moreover have "\<not> liveRow (goNow e') (setStatus StatusRevoked r)"
    by (simp add: liveRow_def)
  ultimately show ?thesis
    using hash_dead [of s' e' "setStatus StatusRevoked r"] s' assms(3) by simp
qed

end

end
