(* ===== verification/StorePostgres.thy ===== *)
theory StorePostgres
  imports StoreSpec
begin

text \<open>
  \<open>maas-api/internal/api_keys/store_postgres.go\<close>: every method of \<open>PostgresStore\<close> as the SQL
  statements it runs on the shared table. The state is the table, which the instances of all
  tenants share; \<open>tenantName\<close> is the field of the store that scopes it. A statement that fails
  (\<open>dbFault\<close>) leaves the table as it was, and its error is wrapped as in the source.
\<close>

text \<open>Errors of the database, wrapped by \<open>fmt.Errorf\<close> with \<open>%w\<close>.\<close>

definition dbError :: "string \<Rightarrow> string \<Rightarrow> api_error" where
  "dbError context err = Wrap context (ErrMsg err)"

definition pg_newRow :: "env \<Rightarrow> AddKeyArgs \<Rightarrow> keyRow" where
  "pg_newRow e a =
     \<lparr>row_id = ak_KeyID a, row_username = ak_Username a, row_name = ak_Name a,
      row_description = ak_Description a, row_key_hash = ak_KeyHash a,
      row_status = StatusActive, row_groups = ak_Groups a,
      row_created_at = dbStamp e (goNow e),
      row_expires_at = map_option (dbStamp e) (ak_ExpiresAt a),
      row_last_used_at = None, row_ephemeral = ak_Ephemeral a,
      row_subscription = ak_Subscription a, row_tenant = ak_Tenant a,
      row_labels = ak_Labels a\<rparr>"

definition pg_AddKey ::
  "string \<Rightarrow> env \<Rightarrow> AddKeyArgs \<Rightarrow> table \<Rightarrow> (api_error, unit) result \<times> table" where
  "pg_AddKey tenantName e a rows =
     (if ak_KeyID a = [] then (Err ErrEmptyJTI, rows)
      else if ak_Name a = [] then (Err ErrEmptyName, rows)
      else if ak_KeyHash a = [] then (Err (ErrMsg ''key hash is required''), rows)
      else if ak_Subscription a = [] then (Err (ErrMsg ''subscription is required''), rows)
      else if ak_Ephemeral a \<and> ak_ExpiresAt a = None
      then (Err (ErrMsg ''ephemeral keys must have an expiration time''), rows)
      else if ak_Tenant a \<noteq> tenantName then (Err (ErrMsg ''tenant mismatch''), rows)
      else
        (case dbFault e 0 of
           Some err \<Rightarrow> (Err (dbError ''failed to insert API key'' err), rows)
         | None \<Rightarrow>
             (case sqlInsert (pg_newRow e a) rows of
                None \<Rightarrow> (Err (dbError ''failed to insert API key'' ''unique violation''), rows)
              | Some rows' \<Rightarrow> (Ok (), rows'))))"

section \<open>Reading\<close>

text \<open>
  The columns a query selects, scanned into an \<open>ApiKey\<close>; \<open>status\<close> is computed by the CASE
  expression of the query in \<open>Search\<close> and \<open>Get\<close>, and is the stored column in \<open>List\<close> and
  \<open>GetByHash\<close>. Columns a query leaves out keep Go's zero value.
\<close>

definition scanSearch :: "time \<Rightarrow> keyRow \<Rightarrow> ApiKey" where
  "scanSearch now r =
     \<lparr>key_ID = row_id r, key_Name = row_name r, key_Description = row_description r,
      key_Username = row_username r, key_Subscription = row_subscription r,
      key_Tenant = row_tenant r, key_Groups = [],
      key_CreationDate = Some (rfc3339 (row_created_at r)),
      key_ExpirationDate = map_option rfc3339 (row_expires_at r),
      key_Status = effectiveStatus now r,
      key_LastUsedAt = map_option rfc3339 (row_last_used_at r),
      key_Ephemeral = row_ephemeral r, key_Labels = row_labels r\<rparr>"

definition scanList :: "keyRow \<Rightarrow> ApiKey" where
  "scanList r =
     \<lparr>key_ID = row_id r, key_Name = row_name r, key_Description = row_description r,
      key_Username = [], key_Subscription = row_subscription r,
      key_Tenant = row_tenant r, key_Groups = [],
      key_CreationDate = Some (rfc3339 (row_created_at r)),
      key_ExpirationDate = map_option rfc3339 (row_expires_at r),
      key_Status = row_status r,
      key_LastUsedAt = map_option rfc3339 (row_last_used_at r),
      key_Ephemeral = row_ephemeral r, key_Labels = []\<rparr>"

definition scanByHash :: "keyRow \<Rightarrow> ApiKey" where
  "scanByHash r =
     \<lparr>key_ID = row_id r, key_Name = row_name r, key_Description = row_description r,
      key_Username = row_username r, key_Subscription = row_subscription r,
      key_Tenant = row_tenant r, key_Groups = row_groups r,
      key_CreationDate = None, key_ExpirationDate = None,
      key_Status = row_status r,
      key_LastUsedAt = map_option rfc3339 (row_last_used_at r),
      key_Ephemeral = row_ephemeral r, key_Labels = []\<rparr>"

text \<open>
  The loop over the rows of a result: scanning a row can fail, and so can fetching the rest.
\<close>

definition pg_scanRows ::
  "env \<Rightarrow> string \<Rightarrow> string \<Rightarrow> (keyRow \<Rightarrow> ApiKey) \<Rightarrow> table \<Rightarrow> (api_error, ApiKey list) result" where
  "pg_scanRows e scanContext iterContext scan rows =
     (case (if rows = [] then None else dbFault e 1) of
        Some err \<Rightarrow> Err (dbError scanContext err)
      | None \<Rightarrow>
          (case dbFault e 2 of
             Some err \<Rightarrow> Err (dbError iterContext err)
           | None \<Rightarrow> Ok (map scan rows)))"

text \<open>Fetch one row more than asked for to learn whether there are more, then trim.\<close>

definition trimPage :: "int \<Rightarrow> ApiKey list \<Rightarrow> PaginatedResult" where
  "trimPage limit keys =
     (let hasMore = int (length keys) > limit
      in \<lparr>pr_Keys = (if hasMore then take (nat limit) keys else keys), pr_HasMore = hasMore\<rparr>)"

definition pageOf :: "int \<Rightarrow> int \<Rightarrow> 'a list \<Rightarrow> 'a list" where
  "pageOf fetchLimit offset rows = take (nat fetchLimit) (drop (nat offset) rows)"

definition pg_List ::
  "string \<Rightarrow> env \<Rightarrow> string \<Rightarrow> PaginationParams \<Rightarrow> string list \<Rightarrow> table
    \<Rightarrow> (api_error, PaginatedResult) result" where
  "pg_List tenantName e username params statuses rows =
     (if pg_Limit params < 1 \<or> pg_Limit params > 100
      then Err (ErrMsg ''limit must be between 1 and 100'')
      else if pg_Offset params < 0 then Err (ErrMsg ''offset must be non-negative'')
      else
        (case dbFault e 0 of
           Some err \<Rightarrow> Err (dbError ''failed to list keys'' err)
         | None \<Rightarrow>
             let whereClause = (\<lambda>r. row_tenant r = tenantName \<and> \<not> row_ephemeral r
                   \<and> (username \<noteq> [] \<longrightarrow> row_username r = username)
                   \<and> (statuses \<noteq> [] \<longrightarrow> statusString (row_status r) \<in> set (map TrimSpace statuses)));
                 ordered = goSort (\<lambda>a b. row_created_at a > row_created_at b)
                   (filter whereClause rows);
                 fetched = pageOf (pg_Limit params + 1) (pg_Offset params) ordered
             in map_sum id (trimPage (pg_Limit params))
                  (pg_scanRows e ''failed to scan row'' ''row iteration error'' scanList fetched)))"

text \<open>The WHERE clause of \<open>Search\<close>.\<close>

definition labelsMatch :: "labels \<Rightarrow> labels \<Rightarrow> bool" where
  "labelsMatch have_labels want = list_all (\<lambda>(k, v). map_of have_labels k = Some v) want"

definition searchWhere ::
  "string \<Rightarrow> time \<Rightarrow> string \<Rightarrow> SearchFilters \<Rightarrow> keyRow \<Rightarrow> bool" where
  "searchWhere tenantName now username filters r \<longleftrightarrow>
     row_tenant r = tenantName
     \<and> (sf_IncludeEphemeral filters = Some True \<or> \<not> row_ephemeral r)
     \<and> (username \<noteq> [] \<longrightarrow> row_username r = username)
     \<and> (sf_Status filters \<noteq> [] \<longrightarrow>
          statusString (effectiveStatus now r) \<in> set (map TrimSpace (sf_Status filters)))
     \<and> (case sf_Subscription filters of
          None \<Rightarrow> True
        | Some sub \<Rightarrow> sub \<noteq> [] \<longrightarrow> row_subscription r = TrimSpace sub)
     \<and> (sf_LabelsContain filters \<noteq> [] \<longrightarrow> labelsMatch (row_labels r) (sf_LabelsContain filters))"

text \<open>The ORDER BY clause, after \<open>Search\<close> has replaced a field or order that is not allowed.\<close>

definition nullsLast :: "(time \<Rightarrow> time \<Rightarrow> bool) \<Rightarrow> time option \<Rightarrow> time option \<Rightarrow> bool" where
  "nullsLast before a b =
     (case (a, b) of
        (Some x, Some y) \<Rightarrow> before x y
      | (Some x, None) \<Rightarrow> True
      | (None, _) \<Rightarrow> False)"

definition searchOrder :: "env \<Rightarrow> SortParams \<Rightarrow> keyRow \<Rightarrow> keyRow \<Rightarrow> bool" where
  "searchOrder e srt a b =
     (let sortBy = (if sp_By srt \<in> set ValidSortFields then sp_By srt else DefaultSortBy);
          lower = ToLower (sp_Order srt);
          sortOrder = (if lower \<in> set ValidSortOrders then lower else DefaultSortOrder);
          asc = (sortOrder = ''asc'')
      in if sortBy = ''expires_at''
         then nullsLast (if asc then (<) else (>)) (row_expires_at a) (row_expires_at b)
         else if sortBy = ''last_used_at''
         then nullsLast (if asc then (<) else (>)) (row_last_used_at a) (row_last_used_at b)
         else if sortBy = ''name''
         then (if asc then dbCollate e (row_name a) (row_name b)
               else dbCollate e (row_name b) (row_name a))
         else (if asc then row_created_at a < row_created_at b
               else row_created_at b < row_created_at a))"

definition pg_Search ::
  "string \<Rightarrow> env \<Rightarrow> string \<Rightarrow> string \<Rightarrow> SearchFilters \<Rightarrow> SortParams \<Rightarrow> PaginationParams \<Rightarrow> table
    \<Rightarrow> (api_error, PaginatedResult) result" where
  "pg_Search tenantName e username tenant filters srt pagination rows =
     (if pg_Limit pagination < 1 \<or> pg_Limit pagination > MaxLimit
      then Err (ErrMsg ''limit must be between 1 and 100'')
      else if pg_Offset pagination < 0 then Err (ErrMsg ''offset must be non-negative'')
      else
        (case dbFault e 0 of
           Some err \<Rightarrow> Err (dbError ''failed to search API keys'' err)
         | None \<Rightarrow>
             let matching = filter (searchWhere tenantName (dbNow e) username filters) rows;
                 ordered = goSort (searchOrder e srt) matching;
                 fetched = pageOf (pg_Limit pagination + 1) (pg_Offset pagination) ordered
             in map_sum id (trimPage (pg_Limit pagination))
                  (pg_scanRows e ''failed to scan API key'' ''error iterating API keys''
                     (scanSearch (dbNow e)) fetched)))"

definition pg_Get :: "string \<Rightarrow> env \<Rightarrow> string \<Rightarrow> table \<Rightarrow> (api_error, ApiKey) result" where
  "pg_Get tenantName e keyID rows =
     (case dbFault e 0 of
        Some err \<Rightarrow> Err (dbError ''failed to get key'' err)
      | None \<Rightarrow>
          (case find (\<lambda>r. row_id r = keyID \<and> row_tenant r = tenantName) rows of
             None \<Rightarrow> Err ErrKeyNotFound
           | Some r \<Rightarrow> Ok (scanSearch (dbNow e) r)))"

text \<open>
  \<open>GetByHash\<close>: an active key past its expiry is marked expired by a second statement, whose
  failure is only logged, and rejected either way.
\<close>

definition pg_GetByHash ::
  "string \<Rightarrow> env \<Rightarrow> string \<Rightarrow> table \<Rightarrow> (api_error, ApiKey) result \<times> table" where
  "pg_GetByHash tenantName e keyHash rows =
     (case dbFault e 0 of
        Some err \<Rightarrow> (Err (dbError ''database lookup failed'' err), rows)
      | None \<Rightarrow>
          (case find (\<lambda>r. row_key_hash r = keyHash \<and> row_tenant r = tenantName) rows of
             None \<Rightarrow> (Err ErrKeyNotFound, rows)
           | Some r \<Rightarrow>
               if pastExpiry (goNow e) r \<and> row_status r = StatusActive
               then (Err ErrInvalidKey,
                     (case dbFault e 1 of
                        Some _ \<Rightarrow> rows
                      | None \<Rightarrow> sqlUpdate (\<lambda>q. row_id q = row_id r \<and> row_tenant q = tenantName
                                          \<and> row_status q = StatusActive)
                                  (setStatus StatusExpired) rows))
               else if row_status r = StatusRevoked \<or> row_status r = StatusExpired
               then (Err ErrInvalidKey, rows)
               else (Ok (scanByHash r), rows)))"

section \<open>Revoking, usage and clean-up\<close>

definition bulkRevokeWhereClause ::
  "string \<Rightarrow> time \<Rightarrow> string \<Rightarrow> string \<Rightarrow> keyRow \<Rightarrow> bool" where
  "bulkRevokeWhereClause tenantName now username subscription r \<longleftrightarrow>
     row_tenant r = tenantName \<and> row_status r = StatusActive
     \<and> (case row_expires_at r of None \<Rightarrow> True | Some x \<Rightarrow> x > now)
     \<and> (username \<noteq> [] \<longrightarrow> row_username r = username)
     \<and> (subscription \<noteq> [] \<longrightarrow> row_subscription r = subscription)"

text \<open>
  \<open>UPDATE ... WHERE p\<close> followed by \<open>RowsAffected\<close>: the first can fail and change nothing, the
  second can fail after the change was made.
\<close>

definition pg_updateCount ::
  "env \<Rightarrow> string \<Rightarrow> string \<Rightarrow> (keyRow \<Rightarrow> bool) \<Rightarrow> (keyRow \<Rightarrow> keyRow) \<Rightarrow> table
    \<Rightarrow> (api_error, nat) result \<times> table" where
  "pg_updateCount e context countContext p f rows =
     (case dbFault e 0 of
        Some err \<Rightarrow> (Err (dbError context err), rows)
      | None \<Rightarrow>
          (case dbFault e 1 of
             Some err \<Rightarrow> (Err (dbError countContext err), sqlUpdate p f rows)
           | None \<Rightarrow> (Ok (sqlCount p rows), sqlUpdate p f rows)))"

definition pg_BulkRevoke ::
  "string \<Rightarrow> env \<Rightarrow> string \<Rightarrow> string \<Rightarrow> string \<Rightarrow> bool \<Rightarrow> table
    \<Rightarrow> (api_error, nat) result \<times> table" where
  "pg_BulkRevoke tenantName e username subscription tenant dryRun rows =
     (if username = [] \<and> subscription = []
      then (Err (ErrMsg ''at least one of username or subscription is required''), rows)
      else if tenant \<noteq> tenantName then (Err (Wrap ''bulk revoke'' ErrTenantMismatch), rows)
      else
        let wh = bulkRevokeWhereClause tenantName (dbNow e) username subscription
        in if dryRun
           then (case dbFault e 0 of
                   Some err \<Rightarrow> (Err (dbError ''dry-run count query failed'' err), rows)
                 | None \<Rightarrow> (Ok (sqlCount wh rows), rows))
           else pg_updateCount e ''failed to bulk revoke keys'' ''failed to get affected rows'' wh
                  (setStatus StatusRevoked) rows)"

definition pg_InvalidateTenant ::
  "string \<Rightarrow> env \<Rightarrow> string \<Rightarrow> table \<Rightarrow> (api_error, nat) result \<times> table" where
  "pg_InvalidateTenant tenantName e tenant rows =
     (if tenant \<noteq> tenantName then (Err (Wrap ''revoke tenant'' ErrTenantMismatch), rows)
      else pg_updateCount e ''failed to revoke tenant keys'' ''failed to get affected rows''
             (\<lambda>r. row_tenant r = tenantName \<and> row_status r = StatusActive)
             (setStatus StatusRevoked) rows)"

definition pg_Revoke ::
  "string \<Rightarrow> env \<Rightarrow> string \<Rightarrow> table \<Rightarrow> (api_error, unit) result \<times> table" where
  "pg_Revoke tenantName e keyID rows =
     (case pg_updateCount e ''failed to revoke key'' ''failed to get rows affected''
             (\<lambda>r. row_id r = keyID \<and> row_tenant r = tenantName \<and> row_status r = StatusActive)
             (setStatus StatusRevoked) rows of
        (Inl err, rows') \<Rightarrow> (Err err, rows')
      | (Inr n, rows') \<Rightarrow> if n = 0 then (Err ErrKeyNotFound, rows') else (Ok (), rows'))"

definition pg_UpdateLastUsed ::
  "string \<Rightarrow> env \<Rightarrow> string \<Rightarrow> table \<Rightarrow> (api_error, unit) result \<times> table" where
  "pg_UpdateLastUsed tenantName e keyID rows =
     (case dbFault e 0 of
        Some err \<Rightarrow> (Err (dbError ''failed to update last_used_at'' err), rows)
      | None \<Rightarrow>
          (Ok (), sqlUpdate (\<lambda>r. row_id r = keyID \<and> row_tenant r = tenantName)
                    (\<lambda>r. r\<lparr>row_last_used_at := Some (dbStamp e (goNow e))\<rparr>) rows))"

definition cleanupGrace :: duration where
  "cleanupGrace = 30 * 60 * 1000000000"

definition pg_DeleteExpiredEphemeral ::
  "string \<Rightarrow> env \<Rightarrow> table \<Rightarrow> (api_error, nat) result \<times> table" where
  "pg_DeleteExpiredEphemeral tenantName e rows =
     (let p = (\<lambda>r. row_tenant r = tenantName \<and> row_ephemeral r
                \<and> pastExpiry (dbNow e - cleanupGrace) r)
      in case dbFault e 0 of
           Some err \<Rightarrow> (Err (dbError ''failed to delete expired ephemeral keys'' err), rows)
         | None \<Rightarrow>
             (case dbFault e 1 of
                Some err \<Rightarrow> (Err (dbError ''failed to get affected rows'' err), sqlDelete p rows)
              | None \<Rightarrow> (Ok (sqlCount p rows), sqlDelete p rows)))"

text \<open>\<open>var _ MetadataStore = (*PostgresStore)(nil)\<close>: the store as a value of the interface.\<close>

definition pgStore :: "string \<Rightarrow> table MetadataStore" where
  "pgStore tenantName =
     \<lparr>AddKey = pg_AddKey tenantName, Search = pg_Search tenantName, Get = pg_Get tenantName,
      GetByHash = pg_GetByHash tenantName, BulkRevoke = pg_BulkRevoke tenantName,
      InvalidateTenant = pg_InvalidateTenant tenantName, Revoke = pg_Revoke tenantName,
      UpdateLastUsed = pg_UpdateLastUsed tenantName,
      DeleteExpiredEphemeral = pg_DeleteExpiredEphemeral tenantName\<rparr>"

lemmas pg_defs =
  pg_AddKey_def pg_GetByHash_def pg_BulkRevoke_def pg_InvalidateTenant_def pg_Revoke_def
  pg_UpdateLastUsed_def pg_DeleteExpiredEphemeral_def pg_updateCount_def

section \<open>Well-formed tables\<close>

text \<open>
  The constraints of the schema and what \<open>AddKey\<close> refuses: one row per id, one row per hash and
  tenant, nothing empty that identifies a key, and an expiry on every ephemeral key.
\<close>

definition rowWf :: "keyRow \<Rightarrow> bool" where
  "rowWf r \<longleftrightarrow> row_id r \<noteq> [] \<and> row_name r \<noteq> [] \<and> row_key_hash r \<noteq> [] \<and> row_subscription r \<noteq> []
     \<and> (row_ephemeral r \<longrightarrow> row_expires_at r \<noteq> None)"

definition tableWf :: "table \<Rightarrow> bool" where
  "tableWf rows \<longleftrightarrow>
     distinct (map row_id rows) \<and> distinct (map (\<lambda>r. (row_key_hash r, row_tenant r)) rows)
     \<and> list_all rowWf rows"

text \<open>One call of a method by the instance of a tenant, in any environment.\<close>

inductive pg_step :: "string \<Rightarrow> table \<Rightarrow> table \<Rightarrow> bool" for t where
  add: "pg_AddKey t e a rows = (res, rows') \<Longrightarrow> pg_step t rows rows'"
| byHash: "pg_GetByHash t e h rows = (res', rows') \<Longrightarrow> pg_step t rows rows'"
| bulk: "pg_BulkRevoke t e u s tn dry rows = (cnt, rows') \<Longrightarrow> pg_step t rows rows'"
| invalidate: "pg_InvalidateTenant t e tn rows = (cnt, rows') \<Longrightarrow> pg_step t rows rows'"
| revoke: "pg_Revoke t e i rows = (res, rows') \<Longrightarrow> pg_step t rows rows'"
| touch: "pg_UpdateLastUsed t e i rows = (res, rows') \<Longrightarrow> pg_step t rows rows'"
| cleanup: "pg_DeleteExpiredEphemeral t e rows = (cnt, rows') \<Longrightarrow> pg_step t rows rows'"

text \<open>Any interleaving of the calls of all tenants' instances.\<close>

inductive pg_steps :: "table \<Rightarrow> table \<Rightarrow> bool" where
  refl: "pg_steps rows rows"
| step: "pg_steps rows rows' \<Longrightarrow> pg_step t rows' rows'' \<Longrightarrow> pg_steps rows rows''"

text \<open>
  What a call does to the table, whatever its arguments and whichever statement fails: nothing,
  one insertion for its tenant, an update of active rows of its tenant to revoked or expired, a
  new time of last use, or the deletion of rows of its tenant that are ephemeral.
\<close>

inductive pg_effect :: "string \<Rightarrow> table \<Rightarrow> table \<Rightarrow> bool" for t where
  none: "pg_effect t rows rows"
| insert: "sqlInsert r rows = Some rows' \<Longrightarrow> row_tenant r = t \<Longrightarrow> rowWf r \<Longrightarrow> pg_effect t rows rows'"
| retire: "(\<And>r. p r \<Longrightarrow> row_tenant r = t \<and> row_status r = StatusActive) \<Longrightarrow>
    pg_effect t rows (sqlUpdate p (setStatus st) rows)"
| used: "(\<And>r. p r \<Longrightarrow> row_tenant r = t) \<Longrightarrow>
    pg_effect t rows (sqlUpdate p (\<lambda>r. r\<lparr>row_last_used_at := u\<rparr>) rows)"
| purge: "(\<And>r. p r \<Longrightarrow> row_tenant r = t \<and> row_ephemeral r) \<Longrightarrow> pg_effect t rows (sqlDelete p rows)"

lemma pg_updateCount_effect:
  assumes "pg_updateCount e c c' p (setStatus st) rows = (res, rows')"
    and "\<And>r. p r \<Longrightarrow> row_tenant r = t \<and> row_status r = StatusActive"
  shows "pg_effect t rows rows'"
  using assms by (auto simp: pg_updateCount_def intro: pg_effect.intros split: option.splits)

lemma pg_step_effect: "pg_step t rows rows' \<Longrightarrow> pg_effect t rows rows'"
proof (induction rule: pg_step.induct)
  case (add e a rows res rows')
  then show ?case
    by (auto simp: pg_AddKey_def rowWf_def pg_newRow_def intro: pg_effect.intros
        split: if_splits option.splits)
next
  case (byHash e h rows res' rows')
  then show ?case
    by (auto simp: pg_GetByHash_def intro: pg_effect.intros split: if_splits option.splits)
next
  case (bulk e u s tn dry rows cnt rows')
  then show ?case
    by (auto simp: pg_BulkRevoke_def Let_def bulkRevokeWhereClause_def
        intro: pg_effect.none elim!: pg_updateCount_effect split: if_splits option.splits)
next
  case (invalidate e tn rows cnt rows')
  then show ?case
    by (auto simp: pg_InvalidateTenant_def intro: pg_effect.none elim!: pg_updateCount_effect
        split: if_splits)
next
  case (revoke e i rows res rows')
  then show ?case
    by (auto simp: pg_Revoke_def elim!: pg_updateCount_effect split: prod.splits sum.splits if_splits)
next
  case (touch e i rows res rows')
  then show ?case
    by (auto simp: pg_UpdateLastUsed_def intro: pg_effect.intros split: option.splits)
next
  case (cleanup e rows cnt rows')
  then show ?case
    by (auto simp: pg_DeleteExpiredEphemeral_def Let_def intro: pg_effect.intros
        split: option.splits)
qed

section \<open>What every call preserves\<close>

lemma tableWf_update:
  assumes "tableWf rows" and "\<And>r. sameIdentity r (f r)"
  shows "tableWf (sqlUpdate p f rows)"
proof -
  have id: "row_id (f r) = row_id r" "row_key_hash (f r) = row_key_hash r"
    "row_tenant (f r) = row_tenant r" "rowWf (f r) = rowWf r" for r
    using assms(2) [of r] unfolding sameIdentity_def rowWf_def
    by (metis keyRow.select_convs keyRow.surjective keyRow.update_convs(6,10))+
  have "map row_id (sqlUpdate p f rows) = map row_id rows"
    and "map (\<lambda>r. (row_key_hash r, row_tenant r)) (sqlUpdate p f rows)
      = map (\<lambda>r. (row_key_hash r, row_tenant r)) rows"
    by (simp_all add: map_sqlUpdate_same id)
  then show ?thesis
    using assms(1) by (auto simp: tableWf_def list_all_iff set_sqlUpdate id)
qed

lemma pg_effect_wf: "pg_effect t rows rows' \<Longrightarrow> tableWf rows \<Longrightarrow> tableWf rows'"
proof (induction rule: pg_effect.induct)
  case (insert r rows rows')
  then show ?case
    by (force dest!: sqlInsert_SomeD simp: tableWf_def list_all_iff)
next
  case (purge p rows)
  then show ?case
    by (auto simp: tableWf_def sqlDelete_def list_all_iff distinct_map_filter)
qed (auto intro: tableWf_update)

lemma pg_steps_wf: "pg_steps rows rows' \<Longrightarrow> tableWf rows \<Longrightarrow> tableWf rows'"
  by (induction rule: pg_steps.induct) (auto dest: pg_step_effect pg_effect_wf)

lemma pg_effect_other_tenant:
  "pg_effect t rows rows' \<Longrightarrow> t' \<noteq> t \<Longrightarrow>
    filter (\<lambda>r. row_tenant r = t') rows' = filter (\<lambda>r. row_tenant r = t') rows"
proof (induction rule: pg_effect.induct)
  case (insert r rows rows')
  then show ?case by (auto dest!: sqlInsert_SomeD)
next
  case (retire p rows st)
  then show ?case by (intro filter_sqlUpdate_other) auto
next
  case (used p rows u)
  then show ?case by (intro filter_sqlUpdate_other) auto
next
  case (purge p rows)
  then show ?case by (intro filter_sqlDelete_other) auto
qed simp

text \<open>A row moves on to a row of the same identity whose status it may reach.\<close>

definition succRow :: "keyRow \<Rightarrow> keyRow \<Rightarrow> bool" where
  "succRow r r' \<longleftrightarrow> sameIdentity r r' \<and> statusStep (row_status r) (row_status r')"

lemma succRow_refl [simp]: "succRow r r"
  by (simp add: succRow_def)

lemma sameIdentity_trans: "sameIdentity a b \<Longrightarrow> sameIdentity b c \<Longrightarrow> sameIdentity a c"
  unfolding sameIdentity_def by (cases a; cases b; cases c) simp

lemma succRow_trans: "succRow a b \<Longrightarrow> succRow b c \<Longrightarrow> succRow a c"
  unfolding succRow_def using sameIdentity_trans statusStep_trans by blast

lemma sameIdentity_sel:
  assumes "sameIdentity r r'"
  shows "row_id r' = row_id r" "row_key_hash r' = row_key_hash r" "row_tenant r' = row_tenant r"
    "row_ephemeral r' = row_ephemeral r" "row_expires_at r' = row_expires_at r"
    "row_username r' = row_username r" "row_subscription r' = row_subscription r"
    "row_groups r' = row_groups r"
  using assms unfolding sameIdentity_def by (cases r; cases r'; simp)+

lemma sqlUpdate_succ:
  assumes "\<And>r. p r \<Longrightarrow> succRow r (f r)" and "r \<in> set rows"
  shows "\<exists>r'\<in>set (sqlUpdate p f rows). succRow r r'"
proof
  show "(if p r then f r else r) \<in> set (sqlUpdate p f rows)"
    using assms(2) unfolding set_sqlUpdate by (rule imageI)
  show "succRow r (if p r then f r else r)"
    using assms(1) by simp
qed

lemma pg_effect_forward:
  "pg_effect t rows rows' \<Longrightarrow> r \<in> set rows \<Longrightarrow> \<not> row_ephemeral r \<Longrightarrow> \<exists>r'\<in>set rows'. succRow r r'"
proof (induction rule: pg_effect.induct)
  case (none rows)
  then show ?case by (auto intro: bexI [of _ r])
next
  case (insert q rows rows')
  then show ?case by (auto dest!: sqlInsert_SomeD intro: bexI [of _ r])
next
  case (retire p rows st)
  then show ?case by (intro sqlUpdate_succ) (auto simp: succRow_def)
next
  case (used p rows u)
  then show ?case by (intro sqlUpdate_succ) (auto simp: succRow_def)
next
  case (purge p rows)
  then have "r \<in> set (sqlDelete p rows)" by (auto simp: sqlDelete_def)
  then show ?case by (auto intro: bexI [of _ r])
qed

lemma pg_steps_forward:
  "pg_steps rows rows' \<Longrightarrow> r \<in> set rows \<Longrightarrow> \<not> row_ephemeral r \<Longrightarrow> \<exists>r'\<in>set rows'. succRow r r'"
proof (induction rule: pg_steps.induct)
  case (refl rows)
  then show ?case by (auto intro: bexI [of _ r])
next
  case (step rows rows' t rows'')
  then obtain q where "q \<in> set rows'" "succRow r q" "\<not> row_ephemeral q"
    by (auto simp: succRow_def sameIdentity_sel)
  with step.hyps(2) show ?case
    by (meson pg_step_effect pg_effect_forward succRow_trans)
qed

section \<open>Looking a key up by its hash\<close>

definition calmDb :: "env \<Rightarrow> bool" where
  "calmDb e \<longleftrightarrow> (\<forall>n. dbFault e n = None)"

lemma find_hash:
  assumes "tableWf rows" and "r \<in> set rows"
  shows "find (\<lambda>q. row_key_hash q = row_key_hash r \<and> row_tenant q = row_tenant r) rows = Some r"
  using find_distinct_key [of "\<lambda>q. (row_key_hash q, row_tenant q)" rows r] assms
  by (simp add: tableWf_def)

text \<open>The answer for a stored key when the database answers.\<close>

lemma pg_GetByHash_known:
  assumes "tableWf rows" and "r \<in> set rows" and "dbFault e 0 = None"
  shows "pg_GetByHash (row_tenant r) e (row_key_hash r) rows =
    (if liveRow (goNow e) r then (Inr (scanByHash r), rows)
     else (Inl ErrInvalidKey,
       if row_status r = StatusActive \<and> dbFault e 1 = None
       then sqlUpdate (\<lambda>q. row_id q = row_id r \<and> row_tenant q = row_tenant r
              \<and> row_status q = StatusActive) (setStatus StatusExpired) rows
       else rows))"
  using assms
  by (cases "row_status r") (auto simp: pg_GetByHash_def find_hash liveRow_def split: option.splits)

lemma pg_GetByHash_unknown:
  assumes "dbFault e 0 = None"
    and "\<And>r. r \<in> set rows \<Longrightarrow> row_tenant r = t \<Longrightarrow> row_key_hash r \<noteq> h"
  shows "pg_GetByHash t e h rows = (Inl ErrKeyNotFound, rows)"
proof -
  have "find (\<lambda>r. row_key_hash r = h \<and> row_tenant r = t) rows = None"
    using assms(2) by (auto simp: find_None_iff)
  with assms(1) show ?thesis by (simp add: pg_GetByHash_def)
qed

lemma pg_GetByHash_dead:
  assumes "tableWf rows" and "r \<in> set rows" and "row_status r \<noteq> StatusActive"
  shows "fst (pg_GetByHash (row_tenant r) e (row_key_hash r) rows) \<noteq> Inr k"
proof (cases "dbFault e 0")
  case None
  with assms show ?thesis by (simp add: pg_GetByHash_known liveRow_def)
next
  case (Some err)
  then show ?thesis by (simp add: pg_GetByHash_def)
qed

section \<open>The PostgreSQL store satisfies the contract\<close>

abbreviation tenantRows :: "string \<Rightarrow> table \<Rightarrow> table" where
  "tenantRows t \<equiv> filter (\<lambda>r. row_tenant r = t)"

lemma pgStore_sel [simp]:
  "AddKey (pgStore t) = pg_AddKey t" "Search (pgStore t) = pg_Search t"
  "Get (pgStore t) = pg_Get t" "GetByHash (pgStore t) = pg_GetByHash t"
  "BulkRevoke (pgStore t) = pg_BulkRevoke t"
  "InvalidateTenant (pgStore t) = pg_InvalidateTenant t" "Revoke (pgStore t) = pg_Revoke t"
  "UpdateLastUsed (pgStore t) = pg_UpdateLastUsed t"
  "DeleteExpiredEphemeral (pgStore t) = pg_DeleteExpiredEphemeral t"
  by (simp_all add: pgStore_def)

lemma pg_AddKey_OkD:
  assumes "pg_AddKey t e a rows = (Inr (), rows')"
  shows "sqlInsert (pg_newRow e a) rows = Some rows' \<and> ak_Tenant a = t"
  using assms by (auto simp: pg_AddKey_def split: if_splits option.splits)

lemma pg_newRow_stores: "storesArgs a (pg_newRow e a)"
  by (simp add: storesArgs_def pg_newRow_def)

lemma pg_newRow_live:
  "(\<forall>x. ak_ExpiresAt a = Some x \<longrightarrow> now \<le> dbStamp e x) \<Longrightarrow> liveRow now (pg_newRow e a)"
  by (auto simp: liveRow_def pastExpiry_def pg_newRow_def split: option.splits)

lemma filter_tenant_update:
  "(\<And>r. row_tenant (f r) = row_tenant r) \<Longrightarrow>
    tenantRows t (sqlUpdate p f rows) = sqlUpdate p f (tenantRows t rows)"
  by (induction rows) (auto simp: sqlUpdate_def)

lemma calmDb_fault [simp]: "calmDb e \<Longrightarrow> dbFault e n = None"
  by (simp add: calmDb_def)

lemma pg_GetByHash_rows:
  assumes "tableWf rows" "calmDb e" "pg_GetByHash t e h rows = (res, rows')"
  shows "\<exists>f. tenantRows t rows' = map f (tenantRows t rows)
    \<and> (\<forall>r. sameIdentity r (f r) \<and> statusStep (row_status r) (row_status (f r))
          \<and> (r \<in> set (tenantRows t rows) \<longrightarrow> liveRow (goNow e) r \<longrightarrow> f r = r))"
proof (cases "find (\<lambda>r. row_key_hash r = h \<and> row_tenant r = t) rows")
  case None
  with assms have "rows' = rows" by (auto simp: pg_GetByHash_def)
  then show ?thesis by (intro exI [of _ "\<lambda>r. r"]) simp
next
  case (Some r)
  then have r: "r \<in> set rows" "row_key_hash r = h" "row_tenant r = t"
    by (auto dest: find_SomeD)
  show ?thesis
  proof (cases "\<not> liveRow (goNow e) r \<and> row_status r = StatusActive")
    case False
    with pg_GetByHash_known [of rows r e] r assms have "rows' = rows"
      by (auto split: if_splits)
    then show ?thesis by (intro exI [of _ "\<lambda>r. r"]) simp
  next
    case True
    let ?p = "\<lambda>q. row_id q = row_id r \<and> row_tenant q = t \<and> row_status q = StatusActive"
    have "rows' = sqlUpdate ?p (setStatus StatusExpired) rows"
      using pg_GetByHash_known [of rows r e] r assms True by simp
    then have "tenantRows t rows' = sqlUpdate ?p (setStatus StatusExpired) (tenantRows t rows)"
      by (simp add: filter_tenant_update)
    moreover have "q = r" if "q \<in> set rows" "row_id q = row_id r" for q
      using that r assms(1) by (auto simp: tableWf_def intro: inj_on_set_distinct_map)
    ultimately show ?thesis
      using True r
      by (intro exI [of _ "\<lambda>q. if ?p q then setStatus StatusExpired q else q"])
        (auto simp: sqlUpdate_def)
  qed
qed

lemma pg_Revoke_active:
  assumes "tableWf rows" "calmDb e" "r \<in> set (tenantRows t rows)" "row_status r = StatusActive"
  shows "pg_Revoke t e (row_id r) rows =
    (Inr (), sqlUpdate (\<lambda>q. row_id q = row_id r \<and> row_tenant q = t \<and> row_status q = StatusActive)
       (setStatus StatusRevoked) rows)"
proof -
  have "sqlCount (\<lambda>q. row_id q = row_id r \<and> row_tenant q = t \<and> row_status q = StatusActive) rows \<noteq> 0"
    using assms(3,4) by (auto simp: sqlCount_def filter_empty_conv)
  with assms(2) show ?thesis by (simp add: pg_Revoke_def pg_updateCount_def)
qed

interpretation pg: metadata_store "pgStore t" "tenantRows t" tableWf calmDb dbStamp for t
proof (unfold_locales, goal_cases)
  case (1 s r q)
  then show ?case
    by (auto simp: tableWf_def dest: inj_on_set_distinct_map [of "\<lambda>r. (row_key_hash r, row_tenant r)"])
next
  case (2 s r q)
  then show ?case by (auto simp: tableWf_def intro: inj_on_set_distinct_map)
next
  case (3 s e a s')
  note d = pg_AddKey_OkD [of t e a s s']
  from 3(2) d have s': "s' = s @ [pg_newRow e a]" "row_tenant (pg_newRow e a) = t"
    by (auto dest: sqlInsert_SomeD simp: pg_newRow_def)
  have "pg_step t s s'" using 3(2) by (auto intro: pg_step.add)
  with 3(1) have "tableWf s'" using pg_step_effect pg_effect_wf by blast
  then show ?case using s' pg_newRow_stores [of a e] pg_newRow_live [of a _ e]
    by (intro exI [of _ "pg_newRow e a"]) auto
next
  case (4 s e h)
  then show ?case by (simp add: pg_GetByHash_unknown)
next
  case (5 s e r h)
  then show ?case
    using pg_GetByHash_known [of s r e] by (auto simp: describes_def scanByHash_def)
next
  case (6 s e r h)
  then show ?case using pg_GetByHash_known [of s r e] by (auto split: if_splits)
next
  case (7 s e h res s')
  then have "tableWf s'"
    by (metis pg_step.byHash pg_step_effect pg_effect_wf pgStore_sel(4))
  with 7 show ?case using pg_GetByHash_rows [of s e t h res s'] by simp
next
  case (8 s e r s')
  then have s': "s' = sqlUpdate (\<lambda>q. row_id q = row_id r \<and> row_tenant q = t
      \<and> row_status q = StatusActive) (setStatus StatusRevoked) s"
    using pg_Revoke_active [of s e r t] by simp
  have "q = r" if "q \<in> set s" "row_id q = row_id r" for q
    using that 8(1,3) by (auto simp: tableWf_def intro: inj_on_set_distinct_map)
  with 8 s' show ?case
    by (auto simp: filter_tenant_update intro: tableWf_update) (auto simp: sqlUpdate_def)
next
  case (9 s e r)
  then show ?case using pg_Revoke_active [of s e r t] by simp
qed

section \<open>The order of a search\<close>

text \<open>The ORDER BY clause is an order Go and SQL can sort by, when the collation is one.\<close>

lemma go_less_flip: "go_less f \<Longrightarrow> go_less (\<lambda>a b. f b a)"
  unfolding go_less_def by blast

lemma go_less_on: "go_less f \<Longrightarrow> go_less (\<lambda>a b. f (g a) (g b))"
  unfolding go_less_def by blast

lemma go_less_nullsLast: "go_less f \<Longrightarrow> go_less (nullsLast f)"
  unfolding go_less_def nullsLast_def by (auto split: option.splits)

lemma go_less_time: "go_less ((<) :: time \<Rightarrow> time \<Rightarrow> bool)" "go_less ((>) :: time \<Rightarrow> time \<Rightarrow> bool)"
  by (unfold_locales; auto)+

lemma go_less_searchOrder:
  assumes "go_less (dbCollate e)"
  shows "go_less (searchOrder e srt)"
proof -
  note collate = go_less_on [OF assms, of row_name]
    go_less_on [OF go_less_flip [OF assms], of row_name]
  note created = go_less_on [OF go_less_time(1), of row_created_at]
    go_less_on [OF go_less_time(2), of row_created_at]
  note nulls = go_less_nullsLast [OF go_less_time(1)] go_less_nullsLast [OF go_less_time(2)]
  note cols = nulls [THEN go_less_on, of row_expires_at] nulls [THEN go_less_on, of row_last_used_at]
  show ?thesis
    unfolding searchOrder_def Let_def
    by (cases "ToLower (sp_Order srt) = ''asc''"; cases "sp_By srt = ''expires_at''";
        cases "sp_By srt = ''last_used_at''"; cases "sp_By srt = ''name''")
      (simp_all add: collate created cols ValidSortFields_def ValidSortOrders_def DefaultSortBy_def
        DefaultSortOrder_def)
qed

lemma pg_scanRows_calm: "calmDb e \<Longrightarrow> pg_scanRows e c c' scan rows = Inr (map scan rows)"
  by (simp add: pg_scanRows_def)

lemma trimPage_pageOf:
  assumes "1 \<le> limit" "0 \<le> offset"
  shows "trimPage limit (map f (pageOf (limit + 1) offset rows)) =
    \<lparr>pr_Keys = map f (take (nat limit) (drop (nat offset) rows)),
     pr_HasMore = (nat offset + nat limit < length rows)\<rparr>"
proof -
  have "int (length (pageOf (limit + 1) offset rows)) > limit \<longleftrightarrow> nat offset + nat limit < length rows"
    using assms by (auto simp: pageOf_def min_def)
  moreover have "nat limit \<le> nat (limit + 1)" by simp
  ultimately show ?thesis
    by (auto simp: trimPage_def pageOf_def Let_def take_map min_def)
qed

section \<open>Properties\<close>

text \<open>An environment and two keys for the instances below.\<close>

definition quietEnv :: "time \<Rightarrow> env" where
  "quietEnv now = \<lparr>goNow = now, dbNow = now, dbFault = (\<lambda>_. None), dbStamp = (\<lambda>x. x),
     dbCollate = (<)\<rparr>"

lemma quietEnv_sel [simp]:
  "goNow (quietEnv now) = now" "dbNow (quietEnv now) = now" "dbFault (quietEnv now) n = None"
  "dbStamp (quietEnv now) x = x" "calmDb (quietEnv now)"
  by (simp_all add: quietEnv_def calmDb_def)

definition sampleRow :: "string \<Rightarrow> string \<Rightarrow> Status \<Rightarrow> time option \<Rightarrow> keyRow" where
  "sampleRow i t st x =
     \<lparr>row_id = i, row_username = ''alice'', row_name = ''laptop'', row_description = [],
      row_key_hash = i @ ''-hash'', row_status = st, row_groups = [''dev''], row_created_at = 0,
      row_expires_at = x, row_last_used_at = None, row_ephemeral = False,
      row_subscription = ''gold'', row_tenant = t, row_labels = []\<rparr>"

lemma sampleRow_sel [simp]:
  "row_id (sampleRow i t st x) = i" "row_username (sampleRow i t st x) = ''alice''"
  "row_name (sampleRow i t st x) = ''laptop''" "row_key_hash (sampleRow i t st x) = i @ ''-hash''"
  "row_status (sampleRow i t st x) = st" "row_expires_at (sampleRow i t st x) = x"
  "row_ephemeral (sampleRow i t st x) = False" "row_subscription (sampleRow i t st x) = ''gold''"
  "row_tenant (sampleRow i t st x) = t"
  by (simp_all add: sampleRow_def)

definition sampleTable :: table where
  "sampleTable = [sampleRow ''k1'' ''blue'' StatusActive None,
     sampleRow ''k2'' ''red'' StatusRevoked (Some 50),
     sampleRow ''k3'' ''red'' StatusActive (Some 90)]"

lemma sampleTable_wf: "tableWf sampleTable"
  by (simp add: tableWf_def sampleTable_def rowWf_def)

lemma sampleTable_rows [simp]:
  "sampleRow ''k1'' ''blue'' StatusActive None \<in> set sampleTable"
  "sampleRow ''k2'' ''red'' StatusRevoked (Some 50) \<in> set sampleTable"
  "sampleRow ''k3'' ''red'' StatusActive (Some 90) \<in> set sampleTable"
  by (simp_all add: sampleTable_def)

text \<open>
  Whatever calls the instances of all tenants make in whatever order, and whichever
  statements fail, the table keeps unique ids, unique hashes per tenant, no empty identifying
  column, and an expiry on every ephemeral key.
\<close>

theorem pg_reachable_wf: "pg_steps [] rows \<Longrightarrow> tableWf rows"
  using pg_steps_wf [of "[]" rows] by (simp add: tableWf_def)

theorem pg_reachable_wf_witness:
  "tableWf (snd (pg_AddKey ''red'' (quietEnv 5)
     \<lparr>ak_Username = ''alice'', ak_KeyID = ''k9'', ak_KeyHash = ''h'', ak_Name = ''n'',
      ak_Description = [], ak_Groups = [], ak_Subscription = ''gold'', ak_Tenant = ''red'',
      ak_ExpiresAt = None, ak_Ephemeral = False, ak_Labels = []\<rparr> []))"
  by (rule pg_reachable_wf, rule pg_steps.step [OF pg_steps.refl], rule pg_step.add)
    (rule prod.collapse [symmetric])

text \<open>
  Tenant isolation. No call of one tenant's instance adds, changes or removes a row of
  another tenant in the shared table, even when a statement of it fails half way.
\<close>

theorem pg_tenant_isolation:
  "pg_step t rows rows' \<Longrightarrow> t' \<noteq> t \<Longrightarrow> tenantRows t' rows' = tenantRows t' rows"
  by (rule pg_effect_other_tenant [OF pg_step_effect])

theorem pg_tenant_isolation_witness:
  "tenantRows ''blue'' (snd (pg_InvalidateTenant ''red'' (quietEnv 5) ''red'' sampleTable))
     = tenantRows ''blue'' sampleTable"
  by (rule pg_tenant_isolation [of "''red''"])
    (rule pg_step.invalidate, rule prod.collapse [symmetric], simp)

text \<open>
  Revocation is final. Once a stored regular key is revoked (or marked expired), no later
  sequence of calls by any tenant, with any clock and any failures, makes a lookup by its hash
  succeed again.
\<close>

theorem pg_revoked_forever:
  assumes "tableWf rows" and "r \<in> set rows" and "\<not> row_ephemeral r"
    and "row_status r \<noteq> StatusActive" and "pg_steps rows rows'"
  shows "\<nexists>k. fst (pg_GetByHash (row_tenant r) e (row_key_hash r) rows') = Inr k"
proof -
  obtain r' where r': "r' \<in> set rows'" "succRow r r'"
    using pg_steps_forward [OF assms(5,2,3)] by blast
  then have "row_status r' \<noteq> StatusActive" "row_tenant r' = row_tenant r"
    "row_key_hash r' = row_key_hash r"
    using assms(4) by (auto simp: succRow_def statusStep_def sameIdentity_sel)
  then show ?thesis
    using pg_GetByHash_dead [OF pg_steps_wf [OF assms(5,1)] r'(1), of e] by simp
qed

theorem pg_revoked_forever_witness:
  "\<nexists>k. fst (pg_GetByHash ''red'' (quietEnv 7) ''k2-hash''
     (snd (pg_UpdateLastUsed ''red'' (quietEnv 6) ''k2'' sampleTable))) = Inr k"
proof -
  let ?r = "sampleRow ''k2'' ''red'' StatusRevoked (Some 50)"
  have "pg_steps sampleTable (snd (pg_UpdateLastUsed ''red'' (quietEnv 6) ''k2'' sampleTable))"
    by (rule pg_steps.step [OF pg_steps.refl], rule pg_step.touch) (rule prod.collapse [symmetric])
  from pg_revoked_forever [OF sampleTable_wf _ _ _ this, of ?r "quietEnv 7"] show ?thesis by simp
qed

text \<open>
  What a search returns. With a valid page and a database that answers, the result is the
  requested page of the rows of the store's tenant that satisfy the filters, in the order asked
  for (a permutation the ORDER BY clause does not contradict), each with its effective status,
  and \<open>HasMore\<close> tells exactly whether rows are left.
\<close>

theorem pg_Search_page:
  assumes "go_less (dbCollate e)" and "calmDb e"
    and "1 \<le> pg_Limit pg" "pg_Limit pg \<le> MaxLimit" "0 \<le> pg_Offset pg"
  shows "\<exists>ordered. mset ordered = mset (filter (searchWhere t (dbNow e) u flt) rows)
    \<and> sorted_wrt (\<lambda>a b. \<not> searchOrder e srt b a) ordered
    \<and> pg_Search t e u tn flt srt pg rows =
        Inr \<lparr>pr_Keys = map (scanSearch (dbNow e))
                (take (nat (pg_Limit pg)) (drop (nat (pg_Offset pg)) ordered)),
             pr_HasMore = (nat (pg_Offset pg) + nat (pg_Limit pg) < length ordered)\<rparr>"
proof -
  let ?ordered = "goSort (searchOrder e srt) (filter (searchWhere t (dbNow e) u flt) rows)"
  have "sorted_wrt (\<lambda>a b. \<not> searchOrder e srt b a) ?ordered"
    by (rule go_less.sorted_goSort [OF go_less_searchOrder [OF assms(1)]])
  then show ?thesis
    using assms(2-) trimPage_pageOf [of "pg_Limit pg" "pg_Offset pg" "scanSearch (dbNow e)" ?ordered]
    by (intro exI [of _ ?ordered]) (simp add: pg_Search_def pg_scanRows_calm Let_def)
qed

lemma go_less_quiet: "go_less (dbCollate (quietEnv now))"
  by (simp add: quietEnv_def) (unfold_locales, auto)

theorem pg_Search_page_witness:
  "\<exists>ordered. mset ordered =
      mset (filter (searchWhere ''red'' 60 [] emptyFilters) sampleTable)
    \<and> sorted_wrt (\<lambda>a b. \<not> searchOrder (quietEnv 60) \<lparr>sp_By = ''name'', sp_Order = ''asc''\<rparr> b a) ordered
    \<and> pg_Search ''red'' (quietEnv 60) [] ''red'' emptyFilters
        \<lparr>sp_By = ''name'', sp_Order = ''asc''\<rparr> \<lparr>pg_Limit = 1, pg_Offset = 0\<rparr> sampleTable =
        Inr \<lparr>pr_Keys = map (scanSearch 60) (take 1 (drop 0 ordered)),
             pr_HasMore = (0 + 1 < length ordered)\<rparr>"
  using pg_Search_page [OF go_less_quiet, of 60 "\<lparr>pg_Limit = 1, pg_Offset = 0\<rparr>" "''red''" "[]"
      emptyFilters sampleTable "\<lparr>sp_By = ''name'', sp_Order = ''asc''\<rparr>" "''red''"]
  by (simp add: MaxLimit_def)

text \<open>The keys a bulk revocation is asked about, and the keys a clean-up is due for.\<close>

definition revokeScope :: "string \<Rightarrow> string \<Rightarrow> string \<Rightarrow> keyRow \<Rightarrow> bool" where
  "revokeScope t u s r \<longleftrightarrow> row_tenant r = t \<and> (u \<noteq> [] \<longrightarrow> row_username r = u)
     \<and> (s \<noteq> [] \<longrightarrow> row_subscription r = s)"

definition graceOver :: "time \<Rightarrow> keyRow \<Rightarrow> bool" where
  "graceOver now r = (case row_expires_at r of
     None \<Rightarrow> False | Some x \<Rightarrow> x + 30 * 60 * 1000000000 < now)"

lemma bulkRevoke_in_scope: "bulkRevokeWhereClause t now u s q \<Longrightarrow> revokeScope t u s q"
  by (simp add: bulkRevokeWhereClause_def revokeScope_def)

lemma bulkRevoke_count_le:
  "sqlCount (bulkRevokeWhereClause t now u s) rows \<le> sqlCount (revokeScope t u s) rows"
  unfolding sqlCount_def by (induction rows) (auto dest: bulkRevoke_in_scope)

lemma pg_BulkRevoke_run:
  assumes "calmDb e" and "u \<noteq> [] \<or> s \<noteq> []"
  shows "pg_BulkRevoke t e u s t dry rows =
    (Inr (sqlCount (bulkRevokeWhereClause t (dbNow e) u s) rows),
     if dry then rows
     else sqlUpdate (bulkRevokeWhereClause t (dbNow e) u s) (setStatus StatusRevoked) rows)"
  using assms by (auto simp: pg_BulkRevoke_def pg_updateCount_def Let_def)

text \<open>
  Bulk revocation. A dry run answers the number a real run would and changes nothing. A real
  run that the database answers succeeds with at most as many keys as the scope holds; after it
  every key of the scope is no longer live, unless it expires at that very instant, and every row
  outside the scope is as it was.
\<close>

theorem pg_BulkRevoke_scope:
  assumes "calmDb e" and "u \<noteq> [] \<or> s \<noteq> []"
  shows "\<exists>n rows'. pg_BulkRevoke t e u s t False rows = (Inr n, rows')
    \<and> pg_BulkRevoke t e u s t True rows = (Inr n, rows)
    \<and> n \<le> sqlCount (revokeScope t u s) rows
    \<and> (\<forall>r\<in>set rows'. revokeScope t u s r \<longrightarrow> liveRow (dbNow e) r \<longrightarrow> row_expires_at r = Some (dbNow e))
    \<and> filter (\<lambda>r. \<not> revokeScope t u s r) rows' = filter (\<lambda>r. \<not> revokeScope t u s r) rows"
proof -
  let ?wh = "bulkRevokeWhereClause t (dbNow e) u s"
  let ?rows' = "sqlUpdate ?wh (setStatus StatusRevoked) rows"
  have "filter (\<lambda>r. \<not> revokeScope t u s r) ?rows' = filter (\<lambda>r. \<not> revokeScope t u s r) rows"
    by (rule filter_sqlUpdate_other) (auto dest: bulkRevoke_in_scope simp: revokeScope_def)
  moreover have "\<forall>r\<in>set ?rows'. revokeScope t u s r \<longrightarrow> liveRow (dbNow e) r
      \<longrightarrow> row_expires_at r = Some (dbNow e)"
    by (auto simp: set_sqlUpdate liveRow_def pastExpiry_def bulkRevokeWhereClause_def revokeScope_def
        split: if_splits option.splits)
  ultimately show ?thesis
    using pg_BulkRevoke_run [OF assms] bulkRevoke_count_le by simp
qed

theorem pg_BulkRevoke_scope_witness:
  "\<exists>n rows'. pg_BulkRevoke ''red'' (quietEnv 60) ''alice'' [] ''red'' False sampleTable = (Inr n, rows')
    \<and> pg_BulkRevoke ''red'' (quietEnv 60) ''alice'' [] ''red'' True sampleTable = (Inr n, sampleTable)
    \<and> n \<le> 2"
proof -
  have "sqlCount (revokeScope ''red'' ''alice'' []) sampleTable = 2"
    by (simp add: sqlCount_def revokeScope_def sampleTable_def)
  then show ?thesis
    using pg_BulkRevoke_scope [of "quietEnv 60" "''alice''" "[]" "''red''" sampleTable] by auto
qed

text \<open>
  Clean-up deletes exactly the ephemeral keys of the tenant that expired more than thirty
  minutes ago, and reports how many: no regular key, no key of another tenant and no key still in
  its grace period is lost.
\<close>

theorem pg_cleanup_exact:
  assumes "calmDb e"
  shows "\<exists>n rows'. pg_DeleteExpiredEphemeral t e rows = (Inr n, rows')
    \<and> rows' = filter (\<lambda>r. \<not> (row_tenant r = t \<and> row_ephemeral r \<and> graceOver (dbNow e) r)) rows
    \<and> n + length rows' = length rows"
proof -
  let ?due = "\<lambda>r. row_tenant r = t \<and> row_ephemeral r \<and> pastExpiry (dbNow e - cleanupGrace) r"
  have p: "pastExpiry (dbNow e - cleanupGrace) r = graceOver (dbNow e) r" for r
    by (auto simp: graceOver_def pastExpiry_def cleanupGrace_def split: option.splits)
  show ?thesis
    using assms(1) sqlCount_delete [of ?due rows]
    by (simp add: pg_DeleteExpiredEphemeral_def p) (simp add: sqlDelete_def p)
qed

theorem pg_cleanup_exact_witness:
  "\<exists>n rows'. pg_DeleteExpiredEphemeral ''red'' (quietEnv 60) sampleTable = (Inr n, rows')
    \<and> rows' = filter (\<lambda>r. \<not> (row_tenant r = ''red'' \<and> row_ephemeral r
        \<and> graceOver (dbNow (quietEnv 60)) r)) sampleTable
    \<and> n + length rows' = length sampleTable"
  by (rule pg_cleanup_exact) simp

end
