(* ===== verification/StoreMock.thy ===== *)
theory StoreMock
  imports StorePostgres "HOL-Library.AList"
begin

text \<open>
  \<open>maas-api/internal/api_keys/store_mock.go\<close>: the in-memory store, which the service's tests run
  against in place of the database. The map \<open>keys\<close> is an association list with distinct keys; a
  \<open>range\<close> over it visits the entries in the order of the list, and since Go leaves that order
  open no theorem depends on it. The mutex makes every method one step.
\<close>

definition SortOrderAsc :: string where "SortOrderAsc = ''asc''"
definition SortOrderDesc :: string where "SortOrderDesc = ''desc''"

text \<open>\<open>time.Time{}\<close>, the first of January of the year 1.\<close>

definition zeroTime :: time where
  "zeroTime = - (62135596800 * 1000000000)"

definition IsZero :: "time \<Rightarrow> bool" where
  "IsZero t \<longleftrightarrow> t = zeroTime"

record storedKey =
  sk_metadata :: ApiKey
  sk_username :: string
  sk_keyHash :: string
  sk_expiresAt :: time
  sk_lastUsedAt :: "time option"
  sk_ephemeral :: bool

record MockStore =
  ms_keys :: "(string \<times> storedKey) list"
  ms_UpdateLastUsedCount :: nat

definition NewMockStore :: MockStore where
  "NewMockStore = \<lparr>ms_keys = [], ms_UpdateLastUsedCount = 0\<rparr>"

definition mock_newKey :: "env \<Rightarrow> AddKeyArgs \<Rightarrow> storedKey" where
  "mock_newKey e a =
     \<lparr>sk_metadata =
        \<lparr>key_ID = ak_KeyID a, key_Name = ak_Name a, key_Description = ak_Description a,
         key_Username = [], key_Subscription = ak_Subscription a, key_Tenant = ak_Tenant a,
         key_Groups = ak_Groups a, key_CreationDate = Some (rfc3339 (goNow e)),
         key_ExpirationDate = None, key_Status = StatusActive, key_LastUsedAt = None,
         key_Ephemeral = ak_Ephemeral a, key_Labels = ak_Labels a\<rparr>,
      sk_username = ak_Username a, sk_keyHash = ak_KeyHash a,
      sk_expiresAt = (case ak_ExpiresAt a of None \<Rightarrow> zeroTime | Some x \<Rightarrow> x),
      sk_lastUsedAt = None, sk_ephemeral = ak_Ephemeral a\<rparr>"

definition mock_AddKey ::
  "env \<Rightarrow> AddKeyArgs \<Rightarrow> MockStore \<Rightarrow> (api_error, unit) result \<times> MockStore" where
  "mock_AddKey e a m =
     (if ak_KeyID a = [] then (Err ErrEmptyJTI, m)
      else if ak_Name a = [] then (Err ErrEmptyName, m)
      else if ak_Subscription a = [] then (Err (ErrMsg ''subscription is required''), m)
      else (Ok (), m\<lparr>ms_keys := AList.update (ak_KeyID a) (mock_newKey e a) (ms_keys m)\<rparr>))"

section \<open>Reading\<close>

definition mock_expired :: "time \<Rightarrow> storedKey \<Rightarrow> bool" where
  "mock_expired now k \<longleftrightarrow> \<not> IsZero (sk_expiresAt k) \<and> sk_expiresAt k < now"

text \<open>The copy of the metadata that \<open>List\<close>, \<open>filterKeys\<close> and \<open>Get\<close> return.\<close>

definition mock_view :: "time \<Rightarrow> storedKey \<Rightarrow> ApiKey" where
  "mock_view now k =
     (let meta = (sk_metadata k)\<lparr>key_Username := sk_username k\<rparr>;
          meta = (if key_Status meta = StatusActive \<and> mock_expired now k
                  then meta\<lparr>key_Status := StatusExpired\<rparr> else meta);
          meta = (if \<not> IsZero (sk_expiresAt k)
                  then meta\<lparr>key_ExpirationDate := Some (rfc3339 (sk_expiresAt k))\<rparr> else meta)
      in case sk_lastUsedAt k of
           None \<Rightarrow> meta
         | Some u \<Rightarrow> meta\<lparr>key_LastUsedAt := Some (rfc3339 u)\<rparr>)"

definition mock_List ::
  "env \<Rightarrow> string \<Rightarrow> PaginationParams \<Rightarrow> string list \<Rightarrow> MockStore
    \<Rightarrow> (api_error, PaginatedResult) result" where
  "mock_List e username params statuses m =
     (if pg_Limit params < 1 \<or> pg_Limit params > 100
      then Err (ErrMsg ''limit must be between 1 and 100'')
      else if pg_Offset params < 0 then Err (ErrMsg ''offset must be non-negative'')
      else
        let kept = filter (\<lambda>k. \<not> sk_ephemeral k \<and> (username \<noteq> [] \<longrightarrow> sk_username k = username)
              \<and> (statuses \<noteq> [] \<longrightarrow> statusString (key_Status (mock_view (goNow e) k)) \<in> set statuses))
              (map snd (ms_keys m));
            allKeys = map (mock_view (goNow e)) kept;
            start = pg_Offset params;
            stop0 = start + pg_Limit params + 1
        in if start \<ge> int (length allKeys) then Ok \<lparr>pr_Keys = [], pr_HasMore = False\<rparr>
           else
             let stop = (if stop0 > int (length allKeys) then int (length allKeys) else stop0);
                 pagedKeys = take (nat (stop - start)) (drop (nat start) allKeys);
                 hasMore = int (length pagedKeys) > pg_Limit params
             in Ok \<lparr>pr_Keys = (if hasMore then take (nat (pg_Limit params)) pagedKeys else pagedKeys),
                    pr_HasMore = hasMore\<rparr>)"

definition filterKeys ::
  "MockStore \<Rightarrow> string \<Rightarrow> string \<Rightarrow> string list \<Rightarrow> bool \<Rightarrow> time \<Rightarrow> ApiKey list" where
  "filterKeys m username tenant statusFilters includeEphemeral now =
     map (mock_view now)
       (filter (\<lambda>k. key_Tenant (sk_metadata k) = tenant
          \<and> (includeEphemeral \<or> \<not> sk_ephemeral k)
          \<and> (username \<noteq> [] \<longrightarrow> sk_username k = username)
          \<and> (statusFilters \<noteq> [] \<longrightarrow>
               list_ex (\<lambda>status. TrimSpace status = statusString (key_Status (mock_view now k)))
                 statusFilters))
        (map snd (ms_keys m)))"

text \<open>\<open>strings.Compare\<close> and \<open>Time.Compare\<close>.\<close>

definition compare3 :: "'a :: linorder \<Rightarrow> 'a \<Rightarrow> int" where
  "compare3 a b = (if a < b then -1 else if a = b then 0 else 1)"

text \<open>
  A date text that is not empty parses; the fallback on the texts is reached with an empty one
  only, which \<open>strings.Compare\<close> puts first.
\<close>

fun compareStamps :: "stamp \<Rightarrow> stamp \<Rightarrow> int" where
  "compareStamps (Some a) (Some b) = compare3 a b"
| "compareStamps None None = 0"
| "compareStamps None (Some b) = -1"
| "compareStamps (Some a) None = 1"

fun compareTimestampFields :: "stamp \<Rightarrow> stamp \<Rightarrow> int \<times> bool" where
  "compareTimestampFields None None = (0, False)"
| "compareTimestampFields None (Some b) = (0, True)"
| "compareTimestampFields (Some a) None = (0, True)"
| "compareTimestampFields (Some a) (Some b) = (compare3 a b, False)"

definition orderedBy :: "string \<Rightarrow> int \<Rightarrow> bool" where
  "orderedBy order cmp = (if order = SortOrderDesc then cmp > 0 else cmp < 0)"

definition compareNullable :: "stamp \<Rightarrow> stamp \<Rightarrow> string \<Rightarrow> bool" where
  "compareNullable v1 v2 order =
     (case compareTimestampFields v1 v2 of
        (cmp, handleNull) \<Rightarrow>
          if handleNull then (if v1 = None then order = SortOrderDesc else order = SortOrderAsc)
          else orderedBy order cmp)"

definition compareKeys :: "ApiKey \<Rightarrow> ApiKey \<Rightarrow> string \<Rightarrow> string \<Rightarrow> bool" where
  "compareKeys key1 key2 sortBy order =
     (if sortBy = ''created_at''
      then orderedBy order (compareStamps (key_CreationDate key1) (key_CreationDate key2))
      else if sortBy = ''expires_at''
      then compareNullable (key_ExpirationDate key1) (key_ExpirationDate key2) order
      else if sortBy = ''last_used_at''
      then compareNullable (key_LastUsedAt key1) (key_LastUsedAt key2) order
      else if sortBy = ''name'' then orderedBy order (compare3 (key_Name key1) (key_Name key2))
      else orderedBy order 0)"

definition applyPagination :: "ApiKey list \<Rightarrow> int \<Rightarrow> int \<Rightarrow> ApiKey list \<times> bool" where
  "applyPagination keys offset limit =
     (if offset \<ge> int (length keys) then ([], False)
      else
        let keys = drop (nat offset) keys;
            hasMore = int (length keys) > limit
        in (if hasMore then take (nat limit) keys else keys, hasMore))"

text \<open>A Go map read at a missing key gives the zero value, here the empty string.\<close>

definition labelsContain :: "labels \<Rightarrow> labels \<Rightarrow> bool" where
  "labelsContain have_labels want =
     (if want = [] then True
      else if have_labels = [] then False
      else list_all (\<lambda>(k, v).
             (case map_of have_labels k of None \<Rightarrow> [] | Some x \<Rightarrow> x) = v) want)"

definition mock_Search ::
  "env \<Rightarrow> string \<Rightarrow> string \<Rightarrow> SearchFilters \<Rightarrow> SortParams \<Rightarrow> PaginationParams \<Rightarrow> MockStore
    \<Rightarrow> (api_error, PaginatedResult) result" where
  "mock_Search e username tenant filters sortParams pagination m =
     (if pg_Limit pagination < 1 \<or> pg_Limit pagination > MaxLimit
      then Err (ErrMsg ''limit must be between 1 and 100'')
      else if pg_Offset pagination < 0 then Err (ErrMsg ''offset must be non-negative'')
      else
        let includeEphemeral = (sf_IncludeEphemeral filters = Some True);
            allKeys = filterKeys m username tenant (sf_Status filters) includeEphemeral (goNow e);
            allKeys = (case sf_Subscription filters of
                None \<Rightarrow> allKeys
              | Some sub \<Rightarrow>
                  if sub = [] then allKeys
                  else filter (\<lambda>k. key_Subscription k = TrimSpace sub) allKeys);
            allKeys = (if sf_LabelsContain filters = [] then allKeys
                       else filter (\<lambda>k. labelsContain (key_Labels k) (sf_LabelsContain filters)) allKeys);
            ordered = goSort (\<lambda>a b. compareKeys a b (sp_By sortParams) (sp_Order sortParams)) allKeys
        in case applyPagination ordered (pg_Offset pagination) (pg_Limit pagination) of
             (keys, hasMore) \<Rightarrow> Ok \<lparr>pr_Keys = keys, pr_HasMore = hasMore\<rparr>)"

definition mock_Get :: "env \<Rightarrow> string \<Rightarrow> MockStore \<Rightarrow> (api_error, ApiKey) result" where
  "mock_Get e keyID m =
     (case map_of (ms_keys m) keyID of
        None \<Rightarrow> Err ErrKeyNotFound
      | Some k \<Rightarrow> Ok (mock_view (goNow e) k))"

definition setKeyStatus :: "Status \<Rightarrow> storedKey \<Rightarrow> storedKey" where
  "setKeyStatus st k = k\<lparr>sk_metadata := (sk_metadata k)\<lparr>key_Status := st\<rparr>\<rparr>"

definition mock_GetByHash ::
  "env \<Rightarrow> string \<Rightarrow> MockStore \<Rightarrow> (api_error, ApiKey) result \<times> MockStore" where
  "mock_GetByHash e keyHash m =
     (case find (\<lambda>(i, k). sk_keyHash k = keyHash) (ms_keys m) of
        None \<Rightarrow> (Err ErrKeyNotFound, m)
      | Some (i, k0) \<Rightarrow>
          let k = (if mock_expired (goNow e) k0 \<and> key_Status (sk_metadata k0) = StatusActive
                   then setKeyStatus StatusExpired k0 else k0);
              m' = m\<lparr>ms_keys := AList.update i k (ms_keys m)\<rparr>;
              meta = (sk_metadata k)\<lparr>key_Username := sk_username k\<rparr>
          in if key_Status (sk_metadata k) = StatusRevoked \<or> key_Status (sk_metadata k) = StatusExpired
             then (Err ErrInvalidKey, m')
             else (Ok (case sk_lastUsedAt k of
                         None \<Rightarrow> meta
                       | Some u \<Rightarrow> meta\<lparr>key_LastUsedAt := Some (rfc3339 u)\<rparr>), m'))"

section \<open>Revoking, usage and clean-up\<close>

definition bulkRevokeMatch ::
  "time \<Rightarrow> storedKey \<Rightarrow> string \<Rightarrow> string \<Rightarrow> string \<Rightarrow> bool" where
  "bulkRevokeMatch now k username subscription tenant =
     (if key_Status (sk_metadata k) \<noteq> StatusActive \<or> key_Tenant (sk_metadata k) \<noteq> tenant then False
      else if mock_expired now k then False
      else if username \<noteq> [] \<and> sk_username k \<noteq> username then False
      else if subscription \<noteq> [] \<and> key_Subscription (sk_metadata k) \<noteq> subscription then False
      else True)"

text \<open>A loop over the map that changes the entries a test selects, counting them.\<close>

definition mock_updateCount ::
  "(storedKey \<Rightarrow> bool) \<Rightarrow> (storedKey \<Rightarrow> storedKey) \<Rightarrow> MockStore \<Rightarrow> nat \<times> MockStore" where
  "mock_updateCount p f m =
     (length (filter (\<lambda>(i, k). p k) (ms_keys m)),
      m\<lparr>ms_keys := map (\<lambda>(i, k). (i, if p k then f k else k)) (ms_keys m)\<rparr>)"

definition mock_BulkRevoke ::
  "env \<Rightarrow> string \<Rightarrow> string \<Rightarrow> string \<Rightarrow> bool \<Rightarrow> MockStore \<Rightarrow> (api_error, nat) result \<times> MockStore" where
  "mock_BulkRevoke e username subscription tenant dryRun m =
     (if username = [] \<and> subscription = []
      then (Err (ErrMsg ''at least one of username or subscription is required''), m)
      else
        case mock_updateCount (\<lambda>k. bulkRevokeMatch (goNow e) k username subscription tenant)
               (setKeyStatus StatusRevoked) m of
          (n, m') \<Rightarrow> if dryRun then (Ok n, m) else (Ok n, m'))"

definition mock_InvalidateTenant ::
  "env \<Rightarrow> string \<Rightarrow> MockStore \<Rightarrow> (api_error, nat) result \<times> MockStore" where
  "mock_InvalidateTenant e tenant m =
     (case mock_updateCount (\<lambda>k. key_Tenant (sk_metadata k) = tenant
              \<and> key_Status (sk_metadata k) = StatusActive) (setKeyStatus StatusRevoked) m of
        (n, m') \<Rightarrow> (Ok n, m'))"

definition mock_Revoke :: "env \<Rightarrow> string \<Rightarrow> MockStore \<Rightarrow> (api_error, unit) result \<times> MockStore" where
  "mock_Revoke e keyID m =
     (case map_of (ms_keys m) keyID of
        None \<Rightarrow> (Err ErrKeyNotFound, m)
      | Some k \<Rightarrow>
          if key_Status (sk_metadata k) \<noteq> StatusActive then (Err ErrKeyNotFound, m)
          else (Ok (), m\<lparr>ms_keys := AList.update keyID (setKeyStatus StatusRevoked k) (ms_keys m)\<rparr>))"

definition mock_UpdateLastUsed ::
  "env \<Rightarrow> string \<Rightarrow> MockStore \<Rightarrow> (api_error, unit) result \<times> MockStore" where
  "mock_UpdateLastUsed e keyID m =
     (case map_of (ms_keys m) keyID of
        None \<Rightarrow> (Err ErrKeyNotFound, m)
      | Some k \<Rightarrow>
          (Ok (), m\<lparr>ms_keys := AList.update keyID (k\<lparr>sk_lastUsedAt := Some (goNow e)\<rparr>) (ms_keys m),
                   ms_UpdateLastUsedCount := ms_UpdateLastUsedCount m + 1\<rparr>))"

definition mock_DeleteExpiredEphemeral ::
  "env \<Rightarrow> MockStore \<Rightarrow> (api_error, nat) result \<times> MockStore" where
  "mock_DeleteExpiredEphemeral e m =
     (let now = goNow e;
          graceThreshold = now - 30 * 60 * 1000000000;
          due = (\<lambda>(i, k). sk_ephemeral k \<and> \<not> IsZero (sk_expiresAt k)
             \<and> (key_Status (sk_metadata k) = StatusExpired \<or> sk_expiresAt k < now)
             \<and> sk_expiresAt k < graceThreshold)
      in (Ok (length (filter due (ms_keys m))),
          m\<lparr>ms_keys := filter (\<lambda>p. \<not> due p) (ms_keys m)\<rparr>))"

definition mockStore :: "MockStore MetadataStore" where
  "mockStore =
     \<lparr>AddKey = mock_AddKey, Search = mock_Search, Get = mock_Get, GetByHash = mock_GetByHash,
      BulkRevoke = mock_BulkRevoke, InvalidateTenant = mock_InvalidateTenant,
      Revoke = mock_Revoke, UpdateLastUsed = mock_UpdateLastUsed,
      DeleteExpiredEphemeral = mock_DeleteExpiredEphemeral\<rparr>"

lemma mockStore_sel [simp]:
  "AddKey mockStore = mock_AddKey" "Search mockStore = mock_Search" "Get mockStore = mock_Get"
  "GetByHash mockStore = mock_GetByHash" "BulkRevoke mockStore = mock_BulkRevoke"
  "InvalidateTenant mockStore = mock_InvalidateTenant" "Revoke mockStore = mock_Revoke"
  "UpdateLastUsed mockStore = mock_UpdateLastUsed"
  "DeleteExpiredEphemeral mockStore = mock_DeleteExpiredEphemeral"
  by (simp_all add: mockStore_def)

section \<open>The rows of the in-memory store\<close>

text \<open>The row a stored key stands for: the abstraction the contract is stated over.\<close>

definition rowOf :: "storedKey \<Rightarrow> keyRow" where
  "rowOf k =
     \<lparr>row_id = key_ID (sk_metadata k), row_username = sk_username k,
      row_name = key_Name (sk_metadata k), row_description = key_Description (sk_metadata k),
      row_key_hash = sk_keyHash k, row_status = key_Status (sk_metadata k),
      row_groups = key_Groups (sk_metadata k),
      row_created_at = (case key_CreationDate (sk_metadata k) of
         None \<Rightarrow> 0 | Some s \<Rightarrow> s * 1000000000),
      row_expires_at = (if IsZero (sk_expiresAt k) then None else Some (sk_expiresAt k)),
      row_last_used_at = sk_lastUsedAt k, row_ephemeral = sk_ephemeral k,
      row_subscription = key_Subscription (sk_metadata k),
      row_tenant = key_Tenant (sk_metadata k), row_labels = key_Labels (sk_metadata k)\<rparr>"

definition mockRows :: "MockStore \<Rightarrow> keyRow list" where
  "mockRows m = map (rowOf \<circ> snd) (ms_keys m)"

definition entryWf :: "string \<times> storedKey \<Rightarrow> bool" where
  "entryWf p \<longleftrightarrow> key_ID (sk_metadata (snd p)) = fst p
     \<and> sk_ephemeral (snd p) = key_Ephemeral (sk_metadata (snd p))"

definition mockWf :: "MockStore \<Rightarrow> bool" where
  "mockWf m \<longleftrightarrow> distinct (map fst (ms_keys m)) \<and> list_all entryWf (ms_keys m)
     \<and> distinct (map (sk_keyHash \<circ> snd) (ms_keys m))"

lemma rowOf_sel [simp]:
  "row_id (rowOf k) = key_ID (sk_metadata k)" "row_key_hash (rowOf k) = sk_keyHash k"
  "row_status (rowOf k) = key_Status (sk_metadata k)" "row_username (rowOf k) = sk_username k"
  "row_name (rowOf k) = key_Name (sk_metadata k)" "row_groups (rowOf k) = key_Groups (sk_metadata k)"
  "row_subscription (rowOf k) = key_Subscription (sk_metadata k)"
  "row_tenant (rowOf k) = key_Tenant (sk_metadata k)" "row_ephemeral (rowOf k) = sk_ephemeral k"
  "pastExpiry now (rowOf k) = mock_expired now k"
  by (simp_all add: rowOf_def pastExpiry_def mock_expired_def)

lemma rowOf_setKeyStatus [simp]: "rowOf (setKeyStatus st k) = setStatus st (rowOf k)"
  by (simp add: rowOf_def setKeyStatus_def setStatus_def)

lemma setKeyStatus_sel [simp]:
  "key_ID (sk_metadata (setKeyStatus st k)) = key_ID (sk_metadata k)"
  "key_Status (sk_metadata (setKeyStatus st k)) = st"
  "sk_keyHash (setKeyStatus st k) = sk_keyHash k" "sk_ephemeral (setKeyStatus st k) = sk_ephemeral k"
  "key_Ephemeral (sk_metadata (setKeyStatus st k)) = key_Ephemeral (sk_metadata k)"
  by (simp_all add: setKeyStatus_def)

lemma ms_keys_upd: "ms_keys (m\<lparr>ms_keys := xs\<rparr>) = xs"
  by simp

lemma update_present:
  "distinct (map fst xs) \<Longrightarrow> (i, k) \<in> set xs \<Longrightarrow>
    AList.update i v xs = map (\<lambda>(j, q). (j, if j = i then v else q)) xs"
proof (induction xs)
  case (Cons a xs)
  obtain j q where a: "a = (j, q)" by fastforce
  show ?case
  proof (cases "j = i")
    case True
    with Cons.prems a have "fst ` set xs \<inter> {i} = {}" by auto
    then have "map (\<lambda>(j, q). (j, if j = i then v else q)) xs = xs"
      by (intro map_idI) force
    with True a show ?thesis by simp
  next
    case False
    with Cons a show ?thesis by auto
  qed
qed simp

lemma update_fresh: "i \<notin> fst ` set xs \<Longrightarrow> AList.update i v xs = xs @ [(i, v)]"
  by (induction xs) auto

lemma mockWf_entryD:
  "mockWf m \<Longrightarrow> (i, k) \<in> set (ms_keys m) \<Longrightarrow>
    key_ID (sk_metadata k) = i \<and> sk_ephemeral k = key_Ephemeral (sk_metadata k)"
  by (auto simp: mockWf_def list_all_iff entryWf_def dest!: bspec [of _ _ "(i, k)"])

lemma mockWf_entry:
  assumes "mockWf m" and "(i, k) \<in> set (ms_keys m)"
  shows "key_ID (sk_metadata k) = i" and "map_of (ms_keys m) i = Some k"
    and "find (\<lambda>(i, q). sk_keyHash q = sk_keyHash k) (ms_keys m) = Some (i, k)"
proof -
  show "key_ID (sk_metadata k) = i" using assms by (simp add: mockWf_entryD)
  show "map_of (ms_keys m) i = Some k" using assms by (simp add: mockWf_def)
  show "find (\<lambda>(i, q). sk_keyHash q = sk_keyHash k) (ms_keys m) = Some (i, k)"
    using find_distinct_key [of "sk_keyHash \<circ> snd" "ms_keys m" "(i, k)"] assms
    by (simp add: mockWf_def case_prod_beta')
qed

text \<open>Changing one entry keeps the invariant and changes one row.\<close>

lemma mock_replace:
  assumes "mockWf m" and "(i, k) \<in> set (ms_keys m)"
    and "key_ID (sk_metadata k') = i" "sk_keyHash k' = sk_keyHash k"
    and "sk_ephemeral k' = key_Ephemeral (sk_metadata k')"
  shows "mockWf (m\<lparr>ms_keys := AList.update i k' (ms_keys m)\<rparr>)"
    and "mockRows (m\<lparr>ms_keys := AList.update i k' (ms_keys m)\<rparr>) =
      map (\<lambda>r. if row_id r = i then rowOf k' else r) (mockRows m)"
proof -
  let ?f = "\<lambda>(j, q). (j, if j = i then k' else q)"
  have up: "AList.update i k' (ms_keys m) = map ?f (ms_keys m)"
    using assms by (intro update_present) (auto simp: mockWf_def)
  have same: "q = k" if "(i, q) \<in> set (ms_keys m)" for q
    using mockWf_entry(2) [OF assms(1) that] mockWf_entry(2) [OF assms(1,2)] by simp
  then have "map (sk_keyHash \<circ> snd) (map ?f (ms_keys m)) = map (sk_keyHash \<circ> snd) (ms_keys m)"
    using assms(4) by auto
  moreover have "map fst (map ?f (ms_keys m)) = map fst (ms_keys m)" by auto
  moreover have "list_all entryWf (map ?f (ms_keys m))"
  proof -
    have "entryWf (?f p)" if "p \<in> set (ms_keys m)" for p
      using assms that mockWf_entryD [of m "fst p" "snd p"] by (cases p) (simp add: entryWf_def)
    then show ?thesis by (simp add: list_all_iff)
  qed
  ultimately show "mockWf (m\<lparr>ms_keys := AList.update i k' (ms_keys m)\<rparr>)"
    using assms(1) unfolding up by (simp only: mockWf_def ms_keys_upd)
  show "mockRows (m\<lparr>ms_keys := AList.update i k' (ms_keys m)\<rparr>) =
      map (\<lambda>r. if row_id r = i then rowOf k' else r) (mockRows m)"
    using assms(1) unfolding up by (auto simp: mockRows_def dest: mockWf_entryD)
qed

lemma mockRows_entry:
  assumes "mockWf m" and "r \<in> set (mockRows m)"
  obtains k where "(row_id r, k) \<in> set (ms_keys m)" "r = rowOf k"
  using assms by (auto simp: mockRows_def dest: mockWf_entryD)

lemma mock_keep_entry:
  "mockWf m \<Longrightarrow> (i, k) \<in> set (ms_keys m) \<Longrightarrow> m\<lparr>ms_keys := AList.update i k (ms_keys m)\<rparr> = m"
  by (simp add: mockWf_entry(2) update_triv)

text \<open>The answer for a stored key.\<close>

lemma mock_GetByHash_known:
  assumes "mockWf m" and "(i, k) \<in> set (ms_keys m)"
  shows "mock_GetByHash e (sk_keyHash k) m =
    (if liveRow (goNow e) (rowOf k)
     then (Inr (case sk_lastUsedAt k of
            None \<Rightarrow> (sk_metadata k)\<lparr>key_Username := sk_username k\<rparr>
          | Some u \<Rightarrow> (sk_metadata k)\<lparr>key_Username := sk_username k, key_LastUsedAt := Some (rfc3339 u)\<rparr>), m)
     else (Inl ErrInvalidKey,
       if key_Status (sk_metadata k) = StatusActive
       then m\<lparr>ms_keys := AList.update i (setKeyStatus StatusExpired k) (ms_keys m)\<rparr> else m))"
  using mockWf_entry(3) [OF assms] mock_keep_entry [OF assms]
  by (cases "key_Status (sk_metadata k)")
    (auto simp: mock_GetByHash_def liveRow_def Let_def split: option.splits)

lemma mock_GetByHash_unknown:
  assumes "\<And>r. r \<in> set (mockRows m) \<Longrightarrow> row_key_hash r \<noteq> h"
  shows "mock_GetByHash e h m = (Inl ErrKeyNotFound, m)"
proof -
  have "find (\<lambda>(i, k). sk_keyHash k = h) (ms_keys m) = None"
    using assms by (force simp: find_None_iff mockRows_def)
  then show ?thesis by (simp add: mock_GetByHash_def)
qed

lemma mockRows_unique:
  assumes "mockWf m" "r \<in> set (mockRows m)" "q \<in> set (mockRows m)"
    and "row_key_hash r = row_key_hash q \<or> row_id r = row_id q"
  shows "r = q"
proof -
  obtain k k' where k: "(row_id r, k) \<in> set (ms_keys m)" "r = rowOf k"
    "(row_id q, k') \<in> set (ms_keys m)" "q = rowOf k'"
    using assms by (metis mockRows_entry)
  show ?thesis
    using assms(4)
  proof
    assume "row_id r = row_id q"
    then show ?thesis using k mockWf_entry(2) [OF assms(1)] by (metis option.inject)
  next
    assume "row_key_hash r = row_key_hash q"
    then have "sk_keyHash k = sk_keyHash k'" using k by simp
    then show ?thesis using k mockWf_entry(3) [OF assms(1)] by (metis option.inject prod.inject)
  qed
qed

lemma mock_AddKey_fresh:
  assumes "mockWf m" and "mock_AddKey e a m = (Inr (), m')"
    and "\<And>r. r \<in> set (mockRows m) \<Longrightarrow> row_id r \<noteq> ak_KeyID a \<and> row_key_hash r \<noteq> ak_KeyHash a"
  shows "mockWf m' \<and> mockRows m' = mockRows m @ [rowOf (mock_newKey e a)]"
proof -
  have fresh: "k \<noteq> ak_KeyID a \<and> sk_keyHash v \<noteq> ak_KeyHash a" if "(k, v) \<in> set (ms_keys m)" for k v
    using assms(3) [of "rowOf v"] mockWf_entry(1) [OF assms(1) that] that
    by (force simp: mockRows_def)
  then have up: "AList.update (ak_KeyID a) (mock_newKey e a) (ms_keys m)
      = ms_keys m @ [(ak_KeyID a, mock_newKey e a)]"
    by (intro update_fresh) (metis fst_conv imageE prod.collapse)
  have m': "m' = m\<lparr>ms_keys := AList.update (ak_KeyID a) (mock_newKey e a) (ms_keys m)\<rparr>"
    using assms(2) by (auto simp: mock_AddKey_def split: if_splits)
  have "sk_keyHash (mock_newKey e a) = ak_KeyHash a" "entryWf (ak_KeyID a, mock_newKey e a)"
    by (simp_all add: mock_newKey_def entryWf_def)
  then show ?thesis
    using assms(1) fresh by (force simp: m' up mockWf_def mockRows_def)
qed

lemma mock_GetByHash_rows:
  assumes "mockWf m" "mock_GetByHash e h m = (res, m')"
  shows "mockWf m' \<and> (\<exists>f. mockRows m' = map f (mockRows m)
    \<and> (\<forall>r. sameIdentity r (f r) \<and> statusStep (row_status r) (row_status (f r))
          \<and> (r \<in> set (mockRows m) \<longrightarrow> liveRow (goNow e) r \<longrightarrow> f r = r)))"
proof (cases "m' = m")
  case True
  with assms show ?thesis by (auto intro!: exI [of _ "\<lambda>r. r"])
next
  case False
  then obtain r where "r \<in> set (mockRows m)" "row_key_hash r = h"
    using mock_GetByHash_unknown [of m h e] assms(2) by auto
  then obtain i k where k: "(i, k) \<in> set (ms_keys m)" "sk_keyHash k = h"
    by (auto simp: mockRows_def)
  note known = mock_GetByHash_known [OF assms(1) k(1), of e]
  have dead: "\<not> liveRow (goNow e) (rowOf k)" "key_Status (sk_metadata k) = StatusActive"
    and m': "m' = m\<lparr>ms_keys := AList.update i (setKeyStatus StatusExpired k) (ms_keys m)\<rparr>"
    using known k(2) assms(2) False by (auto split: if_splits)
  have i: "key_ID (sk_metadata k) = i" "sk_ephemeral k = key_Ephemeral (sk_metadata k)"
    using mockWf_entryD [OF assms(1) k(1)] by auto
  have r: "r = rowOf k" if "r \<in> set (mockRows m)" "row_id r = i" for r
  proof -
    have "rowOf k \<in> set (mockRows m)" using k(1) by (force simp: mockRows_def)
    then show ?thesis using mockRows_unique [OF assms(1) that(1)] that(2) i(1) by simp
  qed
  note rep = mock_replace [OF assms(1) k(1), of "setKeyStatus StatusExpired k"]
  let ?f = "\<lambda>r. if r = rowOf k then setStatus StatusExpired (rowOf k) else r"
  have "row_id r = i \<longleftrightarrow> r = rowOf k" if "r \<in> set (mockRows m)" for r
    using r [OF that] i(1) by auto
  then have "mockRows m' = map ?f (mockRows m)"
    using rep(2) i unfolding m' by (simp cong: map_cong)
  moreover have "mockWf m'" using rep(1) i unfolding m' by simp
  ultimately show ?thesis
    using dead by (intro conjI exI [of _ ?f]) (auto simp: liveRow_def)
qed


interpretation mock: metadata_store mockStore mockRows mockWf "\<lambda>_. True" "\<lambda>_ x. x"
proof (unfold_locales, goal_cases)
  case (1 s r q)
  then show ?case by (metis mockRows_unique)
next
  case (2 s r q)
  then show ?case by (metis mockRows_unique)
next
  case (3 s e a s')
  note f = mock_AddKey_fresh [OF 3(1), of e a s']
  have "storesArgs a (rowOf (mock_newKey e a))"
    by (simp add: storesArgs_def mock_newKey_def)
  moreover have "liveRow now (rowOf (mock_newKey e a))"
    if "\<forall>x. ak_ExpiresAt a = Some x \<longrightarrow> now \<le> x" for now
    using that by (auto simp: liveRow_def mock_expired_def mock_newKey_def IsZero_def
        split: option.splits)
  ultimately show ?case using f 3(2,3) by (intro exI [of _ "rowOf (mock_newKey e a)"]) auto
next
  case (4 s e h)
  then show ?case by (simp add: mock_GetByHash_unknown)
next
  case (5 s e r h)
  then obtain k where "(row_id r, k) \<in> set (ms_keys s)" "r = rowOf k"
    using mockRows_entry by blast
  with 5 show ?case
    using mock_GetByHash_known [of s "row_id r" k e] by (auto simp: describes_def split: option.splits)
next
  case (6 s e r h)
  then obtain k where "(row_id r, k) \<in> set (ms_keys s)" "r = rowOf k"
    using mockRows_entry by blast
  with 6 show ?case using mock_GetByHash_known [of s "row_id r" k e] by simp
next
  case (7 s e h res s')
  then show ?case using mock_GetByHash_rows by simp
next
  case (8 s e r s')
  then obtain k where k: "(row_id r, k) \<in> set (ms_keys s)" "r = rowOf k"
    using mockRows_entry by blast
  have "s' = s\<lparr>ms_keys := AList.update (row_id r) (setKeyStatus StatusRevoked k) (ms_keys s)\<rparr>"
    using 8 k mockWf_entry(2) [OF 8(1) k(1)] by (simp add: mock_Revoke_def)
  moreover have "sk_ephemeral k = key_Ephemeral (sk_metadata k)"
    using mockWf_entryD [OF 8(1) k(1)] by simp
  moreover have "q = r" if "q \<in> set (mockRows s)" "row_id q = row_id r" for q
    using that mockRows_unique [OF 8(1)] 8(3) by blast
  ultimately show ?case
    using mock_replace [OF 8(1) k(1), of "setKeyStatus StatusRevoked k"] k(2) by auto
next
  case (9 s e r)
  then obtain k where "(row_id r, k) \<in> set (ms_keys s)" "r = rowOf k"
    using mockRows_entry by blast
  with 9 show ?case using mockWf_entry(2) [of s "row_id r" k] by (simp add: mock_Revoke_def)
qed

section \<open>Where the two stores differ\<close>

text \<open>A key without an expiry comes first in descending order here, last in the database.\<close>

lemma mock_nulls_first_descending:
  assumes "key_ExpirationDate k1 = None" and "key_ExpirationDate k2 = Some x"
    and "row_expires_at r1 = None" and "row_expires_at r2 = Some y"
  shows "compareKeys k1 k2 ''expires_at'' SortOrderDesc
    \<and> searchOrder e \<lparr>sp_By = ''expires_at'', sp_Order = SortOrderDesc\<rparr> r2 r1"
proof -
  have "ToLower ''desc'' = ''desc''" by (simp add: ToLower_def lowerChar_def byteIn_def)
  then show ?thesis using assms
    by (simp add: compareKeys_def compareNullable_def SortOrderAsc_def SortOrderDesc_def
        searchOrder_def nullsLast_def ValidSortFields_def ValidSortOrders_def)
qed

text \<open>A label asked for with an empty value matches a key that lacks it here, not in the database.\<close>

lemma mock_missing_label_matches:
  "labelsContain [(''team'', ''ml'')] [(''env'', [])] \<and> \<not> labelsMatch [(''team'', ''ml'')] [(''env'', [])]"
  by (simp add: labelsContain_def labelsMatch_def)

section \<open>Properties\<close>

text \<open>
  C40: the in-memory store stands in for the database. When it holds the same keys as the tenant's
  part of the table, a lookup by hash, which is the decision to accept a key, gives the same
  verdict: the same error, or a key with the same id, owner, groups, subscription, tenant and
  status.
\<close>

theorem mock_refines_pg_lookup:
  assumes "mockWf m" "tableWf rows" "calmDb e" and same: "mockRows m = tenantRows t rows"
  shows "case (fst (mock_GetByHash e h m), fst (pg_GetByHash t e h rows)) of
      (Inl a, Inl b) \<Rightarrow> a = b
    | (Inr k, Inr q) \<Rightarrow> \<exists>r. describes k r \<and> describes q r
    | _ \<Rightarrow> False"
proof (cases rule: pg.hash_cases [OF assms(2,3), of t h])
  case 1
  with same have "GetByHash mockStore e h m = (Inl ErrKeyNotFound, m)"
    by (intro mock.hash_unknown) (auto simp: assms(1))
  with 1 show ?thesis by simp
next
  case (2 r k)
  with same have "\<exists>q. GetByHash mockStore e h m = (Inr q, m) \<and> describes q r"
    by (intro mock.hash_live) (auto simp: assms(1))
  with 2 show ?thesis by auto
next
  case (3 r)
  with same have "fst (GetByHash mockStore e h m) = Inl ErrInvalidKey"
    by (intro mock.hash_dead) (auto simp: assms(1))
  with 3 show ?thesis by simp
qed

definition sampleKey :: "string \<Rightarrow> string \<Rightarrow> Status \<Rightarrow> storedKey" where
  "sampleKey i t st =
     \<lparr>sk_metadata = \<lparr>key_ID = i, key_Name = ''laptop'', key_Description = [], key_Username = [],
        key_Subscription = ''gold'', key_Tenant = t, key_Groups = [''dev''],
        key_CreationDate = Some 0, key_ExpirationDate = None, key_Status = st,
        key_LastUsedAt = None, key_Ephemeral = False, key_Labels = []\<rparr>,
      sk_username = ''alice'', sk_keyHash = i @ ''-hash'', sk_expiresAt = zeroTime,
      sk_lastUsedAt = None, sk_ephemeral = False\<rparr>"

theorem mock_refines_pg_lookup_witness:
  "case (fst (mock_GetByHash (quietEnv 5) ''k1-hash''
           \<lparr>ms_keys = [(''k1'', sampleKey ''k1'' ''blue'' StatusActive)], ms_UpdateLastUsedCount = 0\<rparr>),
         fst (pg_GetByHash ''blue'' (quietEnv 5) ''k1-hash'' sampleTable)) of
      (Inl a, Inl b) \<Rightarrow> a = b
    | (Inr k, Inr q) \<Rightarrow> \<exists>r. describes k r \<and> describes q r
    | _ \<Rightarrow> False"
  by (rule mock_refines_pg_lookup)
    (simp_all add: sampleTable_wf, simp_all add: mockWf_def entryWf_def sampleKey_def mockRows_def
      sampleTable_def sampleRow_def rowOf_def IsZero_def)

end
