(* ===== verification/Debounce.thy ===== *)
theory Debounce
  imports Prelude
begin

text \<open>
  The debounce of \<open>last_used_at\<close> writes (\<open>service.go\<close>: \<open>shouldUpdateLastUsed\<close>,
  \<open>clearDebounceSlot\<close>, \<open>StartDebounceCleanup\<close>), first as the functions a single caller runs, then
  as a step relation in which every operation of the \<open>sync.Map\<close> is one atomic step and goroutines
  interleave between them.
\<close>

type_synonym slots = "string \<Rightarrow> time option"

section \<open>The functions\<close>

text \<open>\<open>LoadOrStore\<close>, \<open>CompareAndSwap\<close> and \<open>CompareAndDelete\<close> of \<open>sync.Map\<close>.\<close>

definition loadOrStore :: "string \<Rightarrow> time \<Rightarrow> slots \<Rightarrow> time option \<times> slots" where
  "loadOrStore k v m = (case m k of Some x \<Rightarrow> (Some x, m) | None \<Rightarrow> (None, m(k := Some v)))"

definition compareAndSwap :: "string \<Rightarrow> time \<Rightarrow> time \<Rightarrow> slots \<Rightarrow> bool \<times> slots" where
  "compareAndSwap k old new m = (if m k = Some old then (True, m(k := Some new)) else (False, m))"

definition compareAndDelete :: "string \<Rightarrow> time \<Rightarrow> slots \<Rightarrow> slots" where
  "compareAndDelete k old m = (if m k = Some old then m(k := None) else m)"

text \<open>The answer is the reserved slot; with debouncing off there is none to clear.\<close>

datatype reservation = Skip | Proceed "time option"

definition shouldUpdateLastUsed :: "duration \<Rightarrow> time \<Rightarrow> string \<Rightarrow> slots \<Rightarrow> reservation \<times> slots" where
  "shouldUpdateLastUsed ttl now keyID m =
     (if ttl = 0 then (Proceed None, m)
      else
        (case loadOrStore keyID now m of
           (None, m') \<Rightarrow> (Proceed (Some now), m')
         | (Some lastTime, m') \<Rightarrow>
             if now - lastTime \<ge> ttl
             then (case compareAndSwap keyID lastTime now m' of
                     (True, m'') \<Rightarrow> (Proceed (Some now), m'')
                   | (False, m'') \<Rightarrow> (Skip, m''))
             else (Skip, m')))"

definition clearDebounceSlot :: "duration \<Rightarrow> string \<Rightarrow> time \<Rightarrow> slots \<Rightarrow> slots" where
  "clearDebounceSlot ttl keyID slotTime m =
     (if ttl = 0 then m else compareAndDelete keyID slotTime m)"

text \<open>\<open>NewServiceWithLogger\<close>: the configured seconds, or sixty when the setting is negative.\<close>

definition debounceTTL :: "int option \<Rightarrow> duration" where
  "debounceTTL secs =
     (case secs of
        Some n \<Rightarrow> if n \<ge> 0 then wrap64 (n * 1000000000) else 60 * 1000000000
      | None \<Rightarrow> 60 * 1000000000)"

section \<open>The concurrent system\<close>

text \<open>
  A goroutine of \<open>ValidateAPIKey\<close> has read the clock (\<open>Started\<close>), has found an expired slot and is
  about to swap it (\<open>Swapping\<close>), or holds a reservation while its database write runs
  (\<open>Writing\<close>). The sweeper of \<open>StartDebounceCleanup\<close> has found a stale entry (\<open>Sweeping\<close>) and is
  about to delete its key.
\<close>

datatype goroutine =
    Idle
  | Started string time
  | Swapping string time time
  | Writing string time
  | Sweeping string time

text \<open>
  The log is a ghost: which reservations were granted and when, which were cleared after a failed
  write, and which were lost to a sweep that had read an older value.
\<close>

datatype event =
    Grant string time time
  | Cleared string
  | Lost string

fun eventKey :: "event \<Rightarrow> string" where
  "eventKey (Grant k s t) = k"
| "eventKey (Cleared k) = k"
| "eventKey (Lost k) = k"

record debounce =
  d_clock :: time
  d_slots :: slots
  d_threads :: "nat \<Rightarrow> goroutine"
  d_log :: "event list"

definition initDebounce :: debounce where
  "initDebounce = \<lparr>d_clock = 0, d_slots = (\<lambda>_. None), d_threads = (\<lambda>_. Idle), d_log = []\<rparr>"

definition goto :: "nat \<Rightarrow> goroutine \<Rightarrow> debounce \<Rightarrow> debounce" where
  "goto i g st = st\<lparr>d_threads := (d_threads st)(i := g)\<rparr>"

inductive dstep :: "duration \<Rightarrow> debounce \<Rightarrow> debounce \<Rightarrow> bool" for ttl where
  tick: "d_clock st \<le> t \<Longrightarrow> dstep ttl st (st\<lparr>d_clock := t\<rparr>)"
| readClock: "d_threads st i = Idle \<Longrightarrow> dstep ttl st (goto i (Started k (d_clock st)) st)"
| storeFirst: "d_threads st i = Started k now \<Longrightarrow> loadOrStore k now (d_slots st) = (None, m) \<Longrightarrow>
    dstep ttl st (goto i (Writing k now)
      (st\<lparr>d_slots := m, d_log := Grant k now (d_clock st) # d_log st\<rparr>))"
| loadFresh: "d_threads st i = Started k now \<Longrightarrow> loadOrStore k now (d_slots st) = (Some x, m) \<Longrightarrow>
    now - x < ttl \<Longrightarrow> dstep ttl st (goto i Idle st)"
| loadStale: "d_threads st i = Started k now \<Longrightarrow> loadOrStore k now (d_slots st) = (Some x, m) \<Longrightarrow>
    ttl \<le> now - x \<Longrightarrow> dstep ttl st (goto i (Swapping k now x) st)"
| swapWin: "d_threads st i = Swapping k now x \<Longrightarrow> compareAndSwap k x now (d_slots st) = (True, m) \<Longrightarrow>
    dstep ttl st (goto i (Writing k now)
      (st\<lparr>d_slots := m, d_log := Grant k now (d_clock st) # d_log st\<rparr>))"
| swapLose: "d_threads st i = Swapping k now x \<Longrightarrow> compareAndSwap k x now (d_slots st) = (False, m) \<Longrightarrow>
    dstep ttl st (goto i Idle st)"
| writeOk: "d_threads st i = Writing k s \<Longrightarrow> dstep ttl st (goto i Idle st)"
| writeFailed: "d_threads st i = Writing k s \<Longrightarrow>
    dstep ttl st (goto i Idle
      (st\<lparr>d_slots := clearDebounceSlot ttl k s (d_slots st),
          d_log := (if ttl \<noteq> 0 \<and> d_slots st k = Some s then Cleared k # d_log st else d_log st)\<rparr>))"
| sweepRead: "d_threads st i = Idle \<Longrightarrow> d_slots st k = Some x \<Longrightarrow> x < d_clock st - ttl \<Longrightarrow>
    dstep ttl st (goto i (Sweeping k x) st)"
| sweepDelete: "d_threads st i = Sweeping k x \<Longrightarrow>
    dstep ttl st (goto i Idle
      (st\<lparr>d_slots := (d_slots st)(k := None),
          d_log := (if d_slots st k \<noteq> Some x \<and> d_slots st k \<noteq> None then Lost k # d_log st else d_log st)\<rparr>))"

inductive dreach :: "duration \<Rightarrow> debounce \<Rightarrow> bool" for ttl where
  start: "dreach ttl initDebounce"
| more: "dreach ttl st \<Longrightarrow> dstep ttl st st' \<Longrightarrow> dreach ttl st'"

section \<open>Spacing\<close>

definition lastEvent :: "string \<Rightarrow> event list \<Rightarrow> event option" where
  "lastEvent k log = find (\<lambda>ev. eventKey ev = k) log"

text \<open>
  A grant that follows another grant of the same key, with nothing released in between, happens
  at least the TTL after the time the earlier one reserved.
\<close>

fun spaced :: "duration \<Rightarrow> event list \<Rightarrow> bool" where
  "spaced ttl [] = True"
| "spaced ttl (Grant k s t # log) =
     ((case lastEvent k log of Some (Grant _ s' _) \<Rightarrow> s' + ttl \<le> t | _ \<Rightarrow> True) \<and> spaced ttl log)"
| "spaced ttl (ev # log) = spaced ttl log"

fun threadOk :: "duration \<Rightarrow> time \<Rightarrow> goroutine \<Rightarrow> bool" where
  "threadOk ttl clock (Started k now) = (now \<le> clock)"
| "threadOk ttl clock (Swapping k now x) = (now \<le> clock \<and> x + ttl \<le> now)"
| "threadOk ttl clock (Sweeping k x) = (x + ttl < clock)"
| "threadOk ttl clock g = True"

definition slotOk :: "duration \<Rightarrow> time \<Rightarrow> time option \<Rightarrow> event option \<Rightarrow> bool" where
  "slotOk ttl clock slot ev =
     (case slot of
        Some x \<Rightarrow> (\<exists>k t. ev = Some (Grant k x t))
      | None \<Rightarrow> (case ev of Some (Grant _ s _) \<Rightarrow> s + ttl \<le> clock | _ \<Rightarrow> True))"

definition dinv :: "duration \<Rightarrow> debounce \<Rightarrow> bool" where
  "dinv ttl st \<longleftrightarrow> spaced ttl (d_log st) \<and> (\<forall>i. threadOk ttl (d_clock st) (d_threads st i))
     \<and> (\<forall>k. slotOk ttl (d_clock st) (d_slots st k) (lastEvent k (d_log st)))"

lemma threadOk_later: "threadOk ttl c g \<Longrightarrow> c \<le> c' \<Longrightarrow> threadOk ttl c' g"
  by (cases g) auto

lemma slotOk_later: "slotOk ttl c s ev \<Longrightarrow> c \<le> c' \<Longrightarrow> slotOk ttl c' s ev"
  by (auto simp: slotOk_def split: option.splits event.splits)

lemma lastEvent_simps [simp]:
  "lastEvent k [] = None"
  "lastEvent k (ev # log) = (if eventKey ev = k then Some ev else lastEvent k log)"
  by (simp_all add: lastEvent_def)

lemma goto_sel [simp]:
  "d_clock (goto i g st) = d_clock st" "d_slots (goto i g st) = d_slots st"
  "d_log (goto i g st) = d_log st" "d_threads (goto i g st) = (d_threads st)(i := g)"
  by (simp_all add: goto_def)

text \<open>A change of one slot, with what the log records of it.\<close>

lemma lastEvent_other: "list_all (\<lambda>ev. eventKey ev = k) evs \<Longrightarrow> k' \<noteq> k \<Longrightarrow>
    lastEvent k' (evs @ log) = lastEvent k' log"
  by (induction evs) auto

lemma dinv_slot:
  assumes "dinv ttl st" and "list_all (\<lambda>ev. eventKey ev = k) evs" and "spaced ttl (evs @ d_log st)"
    and "slotOk ttl (d_clock st) slot (lastEvent k (evs @ d_log st))"
  shows "dinv ttl (st\<lparr>d_slots := (d_slots st)(k := slot), d_log := evs @ d_log st\<rparr>)"
  using assms lastEvent_other [OF assms(2)] by (simp add: dinv_def)

lemma dinv_goto: "dinv ttl st \<Longrightarrow> threadOk ttl (d_clock st) g \<Longrightarrow> dinv ttl (goto i g st)"
  by (simp add: dinv_def)

lemma dinv_sel:
  assumes "dinv ttl st"
  shows "spaced ttl (d_log st)" "slotOk ttl (d_clock st) (d_slots st k) (lastEvent k (d_log st))"
    "d_threads st i = g \<Longrightarrow> threadOk ttl (d_clock st) g"
  using assms by (auto simp: dinv_def)

text \<open>A grant on a free slot, and one that swaps the slot it had read.\<close>

lemma dinv_grant:
  assumes "dinv ttl st" and "\<And>x. d_slots st k = Some x \<Longrightarrow> x + ttl \<le> d_clock st"
  shows "dinv ttl (goto i (Writing k now)
    (st\<lparr>d_slots := (d_slots st)(k := Some now), d_log := Grant k now (d_clock st) # d_log st\<rparr>))"
proof -
  have "case lastEvent k (d_log st) of Some (Grant _ s' _) \<Rightarrow> s' + ttl \<le> d_clock st | _ \<Rightarrow> True"
    using dinv_sel(2) [OF assms(1), of k] assms(2)
    by (auto simp: slotOk_def split: option.splits event.splits)
  then show ?thesis
    using dinv_slot [OF assms(1), of k "[Grant k now (d_clock st)]" "Some now"] dinv_sel(1) [OF assms(1)]
    by (intro dinv_goto) (simp_all add: slotOk_def)
qed

text \<open>Emptying a slot is harmless when it is recorded, or when its time is over.\<close>

lemma dinv_release:
  assumes "dinv ttl st" and "ev = Cleared k \<or> ev = Lost k"
  shows "dinv ttl (st\<lparr>d_slots := (d_slots st)(k := None), d_log := ev # d_log st\<rparr>)"
  using dinv_slot [OF assms(1), of k "[ev]" None] dinv_sel(1) [OF assms(1)] assms(2)
  by (auto simp: slotOk_def)

lemma dinv_expire:
  assumes "dinv ttl st" and "\<And>x. d_slots st k = Some x \<Longrightarrow> x + ttl \<le> d_clock st"
  shows "dinv ttl (st\<lparr>d_slots := (d_slots st)(k := None), d_log := d_log st\<rparr>)"
proof -
  have "slotOk ttl (d_clock st) None (lastEvent k (d_log st))"
    using dinv_sel(2) [OF assms(1), of k] assms(2)
    by (auto simp: slotOk_def split: option.splits event.splits)
  then show ?thesis
    using dinv_slot [OF assms(1), of k "[]" None] dinv_sel(1) [OF assms(1)] by simp
qed

lemma loadOrStore_cases:
  "loadOrStore k v m = (None, m') \<Longrightarrow> m k = None \<and> m' = m(k := Some v)"
  "loadOrStore k v m = (Some x, m') \<Longrightarrow> m k = Some x \<and> m' = m"
  by (auto simp: loadOrStore_def split: option.splits)

lemma compareAndSwap_True:
  "compareAndSwap k old new m = (True, m') \<Longrightarrow> m k = Some old \<and> m' = m(k := Some new)"
  by (auto simp: compareAndSwap_def split: if_splits)

lemma dinv_step: "dstep ttl st st' \<Longrightarrow> dinv ttl st \<Longrightarrow> dinv ttl st'"
proof (induction rule: dstep.induct)
  case (tick st t)
  then show ?case by (auto simp: dinv_def intro: threadOk_later slotOk_later)
next
  case (readClock st i k)
  then show ?case by (intro dinv_goto) simp_all
next
  case (storeFirst st i k now m)
  then show ?case using dinv_grant [of ttl st k i now] by (auto dest: loadOrStore_cases)
next
  case (loadFresh st i k now x m)
  then show ?case by (intro dinv_goto) simp_all
next
  case (loadStale st i k now x m)
  then show ?case using dinv_sel(3) [of ttl st i "Started k now"] by (intro dinv_goto) simp_all
next
  case (swapWin st i k now x m)
  then have "x + ttl \<le> d_clock st" using dinv_sel(3) [of ttl st i "Swapping k now x"] by simp
  with swapWin show ?case using dinv_grant [of ttl st k i now] by (auto dest: compareAndSwap_True)
next
  case (swapLose st i k now x m)
  then show ?case by (intro dinv_goto) simp_all
next
  case (writeOk st i k s)
  then show ?case by (intro dinv_goto) simp_all
next
  case (writeFailed st i k s)
  then show ?case
    using dinv_release [of ttl st "Cleared k" k]
    by (intro dinv_goto) (auto simp: clearDebounceSlot_def compareAndDelete_def)
next
  case (sweepRead st i k x)
  then show ?case by (intro dinv_goto) simp_all
next
  case (sweepDelete st i k x)
  then have x: "x + ttl < d_clock st" using dinv_sel(3) [of ttl st i "Sweeping k x"] by simp
  show ?case
  proof (cases "d_slots st k \<noteq> Some x \<and> d_slots st k \<noteq> None")
    case True
    then show ?thesis
      using dinv_release [OF sweepDelete.prems, of "Lost k" k] by (intro dinv_goto) simp_all
  next
    case False
    then show ?thesis
      using dinv_expire [OF sweepDelete.prems, of k] x by (intro dinv_goto) auto
  qed
qed

lemma dinv_reach: "dreach ttl st \<Longrightarrow> dinv ttl st"
proof (induction rule: dreach.induct)
  case start
  then show ?case by (simp add: dinv_def initDebounce_def slotOk_def)
next
  case (more st st')
  then show ?case using dinv_step by blast
qed

section \<open>The functions are runs of the system\<close>

lemma shouldUpdateLastUsed_run:
  assumes "dreach ttl st" "ttl \<noteq> 0" "d_threads st i = Idle"
    and "shouldUpdateLastUsed ttl (d_clock st) k (d_slots st) = (res, m)"
  shows "\<exists>st'. dreach ttl st' \<and> d_slots st' = m \<and> d_clock st' = d_clock st
    \<and> (\<forall>j. j \<noteq> i \<longrightarrow> d_threads st' j = d_threads st j)
    \<and> (case res of
         Skip \<Rightarrow> d_threads st' i = Idle \<and> d_log st' = d_log st
       | Proceed s \<Rightarrow> s = Some (d_clock st) \<and> d_threads st' i = Writing k (d_clock st)
           \<and> d_log st' = Grant k (d_clock st) (d_clock st) # d_log st)"
proof -
  let ?now = "d_clock st"
  let ?st1 = "goto i (Started k ?now) st"
  have r1: "dreach ttl ?st1" using assms(1,3) by (blast intro: dreach.more dstep.readClock)
  show ?thesis
  proof (cases "d_slots st k")
    case None
    then have l: "loadOrStore k ?now (d_slots ?st1) = (None, (d_slots st)(k := Some ?now))"
      by (simp add: loadOrStore_def)
    have "dreach ttl (goto i (Writing k ?now) (?st1\<lparr>d_slots := (d_slots st)(k := Some ?now),
        d_log := Grant k ?now (d_clock ?st1) # d_log ?st1\<rparr>))"
      by (rule dreach.more [OF r1], rule dstep.storeFirst [OF _ l]) simp
    with None assms(2,4) show ?thesis
      by (intro exI conjI) (assumption, auto simp: shouldUpdateLastUsed_def loadOrStore_def)
  next
    case (Some x)
    then have l: "loadOrStore k ?now (d_slots ?st1) = (Some x, d_slots st)"
      by (simp add: loadOrStore_def)
    show ?thesis
    proof (cases "ttl \<le> ?now - x")
      case False
      have "dreach ttl (goto i Idle ?st1)"
        by (rule dreach.more [OF r1], rule dstep.loadFresh [OF _ l]) (use False in simp_all)
      with Some False assms(2,4) show ?thesis
        by (intro exI conjI) (assumption, auto simp: shouldUpdateLastUsed_def loadOrStore_def)
    next
      case True
      let ?st2 = "goto i (Swapping k ?now x) ?st1"
      have r2: "dreach ttl ?st2"
        by (rule dreach.more [OF r1], rule dstep.loadStale [OF _ l]) (use True in simp_all)
      have c: "compareAndSwap k x ?now (d_slots ?st2) = (True, (d_slots st)(k := Some ?now))"
        using Some by (simp add: compareAndSwap_def)
      have "dreach ttl (goto i (Writing k ?now) (?st2\<lparr>d_slots := (d_slots st)(k := Some ?now),
          d_log := Grant k ?now (d_clock ?st2) # d_log ?st2\<rparr>))"
        by (rule dreach.more [OF r2], rule dstep.swapWin [OF _ c]) simp
      with Some True assms(2,4) show ?thesis
        by (intro exI conjI)
          (assumption, auto simp: shouldUpdateLastUsed_def loadOrStore_def compareAndSwap_def)
    qed
  qed
qed

section \<open>A sweep can lose a reservation\<close>

text \<open>
  The sweeper checks a value and deletes the key in two steps. When a goroutine refreshes the slot
  between them, the sweeper removes the new reservation, and the next validation is granted at
  once: two grants two instants apart although the TTL is sixty.
\<close>

definition raceEnd :: "event list" where
  "raceEnd = [Grant ''k'' 102 102, Lost ''k'', Grant ''k'' 100 100, Grant ''k'' 0 0]"

lemma goto_init [simp]: "d_threads initDebounce i = Idle" "d_clock initDebounce = 0" "d_log initDebounce = []"
  "d_slots initDebounce k = None"
  by (simp_all add: initDebounce_def)

lemma run_grant:
  assumes "dreach ttl st" "ttl \<noteq> 0" "d_threads st i = Idle"
    and "\<And>x. d_slots st k = Some x \<Longrightarrow> ttl \<le> d_clock st - x"
  shows "\<exists>st'. dreach ttl st' \<and> d_slots st' = (d_slots st)(k := Some (d_clock st)) \<and> d_clock st' = d_clock st
    \<and> d_log st' = Grant k (d_clock st) (d_clock st) # d_log st
    \<and> (\<forall>j. j \<noteq> i \<longrightarrow> d_threads st' j = d_threads st j)"
proof -
  have "shouldUpdateLastUsed ttl (d_clock st) k (d_slots st)
      = (Proceed (Some (d_clock st)), (d_slots st)(k := Some (d_clock st)))"
    using assms(2,4)
    by (auto simp: shouldUpdateLastUsed_def loadOrStore_def compareAndSwap_def split: option.splits)
  from shouldUpdateLastUsed_run [OF assms(1-3) this] show ?thesis by auto
qed

lemma run_tick: "dreach ttl st \<Longrightarrow> d_clock st \<le> t \<Longrightarrow> dreach ttl (st\<lparr>d_clock := t\<rparr>)"
  by (blast intro: dreach.more dstep.tick)

lemma sweep_loses_reservation: "\<exists>st. dreach 60 st \<and> d_log st = raceEnd"
proof -
  obtain a where a: "dreach 60 a" "d_slots a ''k'' = Some 0" "d_clock a = 0"
    "d_log a = [Grant ''k'' 0 0]" "\<forall>j. j \<noteq> 1 \<longrightarrow> d_threads a j = Idle"
    using run_grant [OF dreach.start, of 60 1 "''k''"] by auto
  let ?b = "goto 2 (Sweeping ''k'' 0) (a\<lparr>d_clock := 100\<rparr>)"
  have tick: "dreach 60 (a\<lparr>d_clock := 100\<rparr>)" by (rule run_tick [OF a(1)]) (simp add: a)
  have b: "dreach 60 ?b"
    by (rule dreach.more [OF tick], rule dstep.sweepRead) (simp_all add: a)
  obtain c where c: "dreach 60 c" "d_slots c = (d_slots ?b)(''k'' := Some 100)" "d_clock c = 100"
    "d_log c = [Grant ''k'' 100 100, Grant ''k'' 0 0]" "\<forall>j. j \<noteq> 3 \<longrightarrow> d_threads c j = d_threads ?b j"
    using run_grant [OF b, of 3 "''k''"] a by auto
  have t2: "d_threads c 2 = Sweeping ''k'' 0" using c(5) by simp
  let ?d = "goto 2 Idle (c\<lparr>d_slots := (d_slots c)(''k'' := None),
      d_log := (if d_slots c ''k'' \<noteq> Some 0 \<and> d_slots c ''k'' \<noteq> None then Lost ''k'' # d_log c else d_log c)\<rparr>)"
  have d: "dreach 60 ?d" by (rule dreach.more [OF c(1)], rule dstep.sweepDelete [OF t2])
  then have "dreach 60 (?d\<lparr>d_clock := 102\<rparr>)" by (rule run_tick) (simp add: c)
  from run_grant [OF this, of 4 "''k''"] show ?thesis
    using c a by (auto simp: raceEnd_def)
qed

section \<open>Properties\<close>

text \<open>
  Debouncing. In every interleaving of validations, failing writes and sweeps, a write of
  \<open>last_used_at\<close> that is granted for a key after an earlier grant of that key, whose reservation
  was neither cleared by its failed write nor lost to a sweep, happens at least the TTL after the
  time the earlier grant reserved.
\<close>

theorem debounce_spaced: "dreach ttl st \<Longrightarrow> spaced ttl (d_log st)"
  using dinv_reach by (simp add: dinv_def)

theorem debounce_spaced_witness: "\<exists>st. dreach 60 st \<and> d_log st = raceEnd \<and> spaced 60 (d_log st)"
  using sweep_loses_reservation debounce_spaced [of 60] by blast

end
