(* ===== verification/KeyService.thy ===== *)
theory KeyService
  imports Keygen StoreMock Debounce GoRegexp
begin

text \<open>
  \<open>maas-api/internal/api_keys/service.go\<close>: minting, validating and revoking API keys over any
  storage implementation (\<open>MetadataStore\<close>). What a call draws from outside is an argument: random
  bytes, the UUID, the clock; \<open>uuidParse\<close> stands for \<open>uuid.Parse\<close> of \<open>github.com/google/uuid\<close>.
\<close>

record config =
  cfg_TenantName :: string
  cfg_APIKeyMaxExpirationDays :: int
  cfg_LastUsedDebounceSecs :: int

record Service =
  svc_config :: "config option"
  svc_select :: "string list \<Rightarrow> string \<Rightarrow> string \<Rightarrow> string \<Rightarrow> (sel_error, SelectResponse) result"
  svc_highest :: "string list \<Rightarrow> string \<Rightarrow> (sel_error, SelectResponse) result"
  svc_uuidParse :: "string \<Rightarrow> string option"

definition GetTenantName :: "Service \<Rightarrow> string" where
  "GetTenantName s = (case svc_config s of None \<Rightarrow> [] | Some c \<Rightarrow> cfg_TenantName c)"

definition DefaultAPIKeyMaxExpirationDays :: int where
  "DefaultAPIKeyMaxExpirationDays = 90"

definition hour :: duration where
  "hour = 3600 * 1000000000"

definition DefaultEphemeralKeyMaxExpiration :: duration where
  "DefaultEphemeralKeyMaxExpiration = 1 * hour"

definition GetMaxExpirationDays :: "Service \<Rightarrow> int" where
  "GetMaxExpirationDays s =
     (case svc_config s of
        None \<Rightarrow> DefaultAPIKeyMaxExpirationDays
      | Some c \<Rightarrow>
          if cfg_APIKeyMaxExpirationDays c > 0 then cfg_APIKeyMaxExpirationDays c
          else DefaultAPIKeyMaxExpirationDays)"

definition svc_debounceTTL :: "Service \<Rightarrow> duration" where
  "svc_debounceTTL s = debounceTTL (map_option cfg_LastUsedDebounceSecs (svc_config s))"

text \<open>\<open>^[a-zA-Z0-9:._-]+$\<close>\<close>

definition groupChar :: "char \<Rightarrow> bool" where
  "groupChar c \<longleftrightarrow> isAlnum c \<or> c = CHR '':'' \<or> c = CHR ''.'' \<or> c = CHR ''_'' \<or> c = CHR ''-''"

definition validGroupNamePattern :: re where
  "validGroupNamePattern = RPlus (RClass groupChar)"

lemma validGroup_iff: "reMatch validGroupNamePattern g \<longleftrightarrow> g \<noteq> [] \<and> (\<forall>c\<in>set g. groupChar c)"
  by (simp add: validGroupNamePattern_def reMatch_plus_class)

section \<open>Minting\<close>

record CreateAPIKeyResponse =
  cr_Key :: string
  cr_KeyPrefix :: string
  cr_ID :: string
  cr_Name :: string
  cr_Subscription :: string
  cr_CreatedAt :: int
  cr_ExpiresAt :: "int option"
  cr_Ephemeral :: bool
  cr_Labels :: labels

text \<open>What minting draws from its surroundings.\<close>

record mint =
  mint_keyIDEntropy :: "string option"
  mint_secretEntropy :: "string option"
  mint_uuid :: string
  mint_now :: time
  mint_created :: time

text \<open>\<open>time.Duration(maxDays) * 24 * time.Hour\<close>, in 64-bit arithmetic.\<close>

definition maxRegularDuration :: "Service \<Rightarrow> duration" where
  "maxRegularDuration s = wrap64 (wrap64 (GetMaxExpirationDays s * 24) * hour)"

text \<open>The expiration that applies: the requested one, or the maximum of the kind of key.\<close>

definition maxDuration :: "Service \<Rightarrow> bool \<Rightarrow> duration" where
  "maxDuration s ephemeral =
     (if ephemeral then DefaultEphemeralKeyMaxExpiration else maxRegularDuration s)"

definition effectiveExpiry :: "Service \<Rightarrow> duration option \<Rightarrow> bool \<Rightarrow> duration" where
  "effectiveExpiry s expiresIn ephemeral =
     (case expiresIn of Some d \<Rightarrow> d | None \<Rightarrow> maxDuration s ephemeral)"

definition CreateAPIKey ::
  "Service \<Rightarrow> 's MetadataStore \<Rightarrow> env \<Rightarrow> mint \<Rightarrow> string \<Rightarrow> string list \<Rightarrow> string \<Rightarrow> string
    \<Rightarrow> duration option \<Rightarrow> bool \<Rightarrow> string \<Rightarrow> string \<Rightarrow> labels \<Rightarrow> 's
    \<Rightarrow> (api_error, CreateAPIKeyResponse) result \<times> 's" where
  "CreateAPIKey svc store e mi username userGroups name description expiresIn0 ephemeral
     requestedSubscription tenant labels st =
     (if \<not> list_all (reMatch validGroupNamePattern) userGroups
      then (Err (ErrMsg ''group name contains invalid characters''), st)
      else
        let expiresIn = effectiveExpiry svc expiresIn0 ephemeral
        in if expiresIn \<le> 0 then (Err ErrExpirationNotPositive, st)
           else if ephemeral \<and> expiresIn > DefaultEphemeralKeyMaxExpiration
           then (Err (Wrap ''ephemeral key expiration'' ErrExpirationExceedsMax), st)
           else if \<not> ephemeral \<and> expiresIn > maxRegularDuration svc
           then (Err (Wrap ''requested expiration'' ErrExpirationExceedsMax), st)
           else
             let expiresAt = mint_now mi + expiresIn
             in case GenerateAPIKey (mint_keyIDEntropy mi) (mint_secretEntropy mi) of
                  Inl err \<Rightarrow> (Err (Wrap ''failed to generate API key'' err), st)
                | Inr (plaintext, hash, pre) \<Rightarrow>
                    (case (if requestedSubscription \<noteq> []
                           then svc_select svc userGroups username requestedSubscription []
                           else svc_highest svc userGroups username) of
                       Inl selectErr \<Rightarrow> (Err (ErrSelect selectErr), st)
                     | Inr subResp \<Rightarrow>
                         let subscriptionName = resp_Name subResp;
                             keyID = mint_uuid mi
                         in case AddKey store e
                                \<lparr>ak_Username = username, ak_KeyID = keyID, ak_KeyHash = hash,
                                 ak_Name = name, ak_Description = description,
                                 ak_Groups = userGroups, ak_Subscription = subscriptionName,
                                 ak_Tenant = tenant, ak_ExpiresAt = Some expiresAt,
                                 ak_Ephemeral = ephemeral, ak_Labels = labels\<rparr> st of
                              (Inl err, st') \<Rightarrow> (Err (Wrap ''failed to store API key'' err), st')
                            | (Inr _, st') \<Rightarrow>
                                (Ok \<lparr>cr_Key = plaintext, cr_KeyPrefix = pre, cr_ID = keyID,
                                     cr_Name = name, cr_Subscription = subscriptionName,
                                     cr_CreatedAt = rfc3339 (mint_created mi),
                                     cr_ExpiresAt = Some (rfc3339 expiresAt),
                                     cr_Ephemeral = ephemeral, cr_Labels = labels\<rparr>, st')))"

section \<open>Validating\<close>

text \<open>
  \<open>ValidateAPIKey\<close> also returns the goroutine it starts, if any: the key whose last use to record,
  with the debounce slot it reserved.
\<close>

type_synonym 's validation =
  "(api_error, ValidationResult) result \<times> 's \<times> slots \<times> (string \<times> time option) option"

definition ValidateAPIKey ::
  "Service \<Rightarrow> 's MetadataStore \<Rightarrow> env \<Rightarrow> string \<Rightarrow> slots \<Rightarrow> 's \<Rightarrow> 's validation" where
  "ValidateAPIKey svc store e key m st =
     (if \<not> IsValidKeyFormat key then (Ok (invalidResult ''invalid key format''), st, m, None)
      else
        let hash = HashAPIKey key
        in if hash = [] then (Ok (invalidResult ''invalid key format''), st, m, None)
           else
             (case GetByHash store e hash st of
                (Inl err, st') \<Rightarrow>
                  if errorsIs err ErrKeyNotFound then (Ok (invalidResult ''key not found''), st', m, None)
                  else if errorsIs err ErrInvalidKey
                  then (Ok (invalidResult ''key revoked or expired''), st', m, None)
                  else (Err (Wrap ''validation lookup failed'' err), st', m, None)
              | (Inr metadata, st') \<Rightarrow>
                  (case shouldUpdateLastUsed (svc_debounceTTL svc) (goNow e) (key_ID metadata) m of
                     (res, m') \<Rightarrow>
                       let spawned = (case res of
                             Skip \<Rightarrow> None
                           | Proceed slot \<Rightarrow> Some (key_ID metadata, slot))
                       in if TrimSpace (key_Subscription metadata) = []
                          then (Ok (invalidResult ''key has no subscription bound''), st', m', spawned)
                          else
                            (case svc_uuidParse svc (key_ID metadata) of
                               Some perr \<Rightarrow>
                                 (Err (Wrap ''database integrity error: invalid key ID format'' (ErrMsg perr)),
                                  st', m', spawned)
                             | None \<Rightarrow>
                                 (Ok \<lparr>vr_Valid = True, vr_UserID = key_ID metadata,
                                      vr_Username = key_Username metadata, vr_KeyID = key_ID metadata,
                                      vr_KeyName = key_Name metadata, vr_Groups = key_Groups metadata,
                                      vr_Subscription = key_Subscription metadata,
                                      vr_Tenant = key_Tenant metadata, vr_Reason = []\<rparr>,
                                  st', m', spawned)))))"

text \<open>The goroutine: a failed write gives its reservation back.\<close>

definition runUpdate ::
  "Service \<Rightarrow> 's MetadataStore \<Rightarrow> env \<Rightarrow> string \<times> time option \<Rightarrow> slots \<Rightarrow> 's \<Rightarrow> slots \<times> 's" where
  "runUpdate svc store e job m st =
     (case UpdateLastUsed store e (fst job) st of
        (Inr _, st') \<Rightarrow> (m, st')
      | (Inl err, st') \<Rightarrow>
          ((case snd job of
              None \<Rightarrow> m
            | Some slot \<Rightarrow> clearDebounceSlot (svc_debounceTTL svc) (fst job) slot m), st'))"

section \<open>The other operations\<close>

definition GetAPIKey :: "'s MetadataStore \<Rightarrow> env \<Rightarrow> string \<Rightarrow> 's \<Rightarrow> (api_error, ApiKey) result" where
  "GetAPIKey store e i st = Get store e i st"

definition RevokeAPIKey :: "'s MetadataStore \<Rightarrow> env \<Rightarrow> string \<Rightarrow> 's \<Rightarrow> (api_error, unit) result \<times> 's" where
  "RevokeAPIKey store e keyID st = Revoke store e keyID st"

definition svc_Search ::
  "'s MetadataStore \<Rightarrow> env \<Rightarrow> string \<Rightarrow> string \<Rightarrow> SearchFilters \<Rightarrow> SortParams \<Rightarrow> PaginationParams \<Rightarrow> 's
    \<Rightarrow> (api_error, PaginatedResult) result" where
  "svc_Search store e username tenant filters srt pagination st =
     Search store e username tenant filters srt pagination st"

definition BulkRevokeAPIKeys ::
  "'s MetadataStore \<Rightarrow> env \<Rightarrow> string \<Rightarrow> string \<Rightarrow> string \<Rightarrow> bool \<Rightarrow> 's \<Rightarrow> (api_error, nat) result \<times> 's" where
  "BulkRevokeAPIKeys store e username subscription tenant dryRun st =
     (if username = [] \<and> subscription = []
      then (Err (ErrMsg ''at least one of username or subscription is required''), st)
      else BulkRevoke store e username subscription tenant dryRun st)"

definition RevokeTenantAPIKeys ::
  "Service \<Rightarrow> 's MetadataStore \<Rightarrow> env \<Rightarrow> string \<Rightarrow> 's \<Rightarrow> (api_error, nat) result \<times> 's" where
  "RevokeTenantAPIKeys svc store e tenant0 st =
     (let tenant = TrimSpace tenant0
      in if tenant = [] then (Err ErrTenantRequired, st)
         else if GetTenantName svc \<noteq> [] \<and> tenant \<noteq> GetTenantName svc
         then (Err (Wrap ''requested tenant'' ErrTenantMismatch), st)
         else InvalidateTenant store e tenant st)"

definition CleanupExpiredEphemeral ::
  "'s MetadataStore \<Rightarrow> env \<Rightarrow> 's \<Rightarrow> (api_error, nat) result \<times> 's" where
  "CleanupExpiredEphemeral store e st =
     (case DeleteExpiredEphemeral store e st of
        (Inl err, st') \<Rightarrow> (Err (Wrap ''cleanup failed'' err), st')
      | (Inr n, st') \<Rightarrow> (Ok n, st'))"

section \<open>Validation over any store that keeps the contract\<close>

lemma errorsIs_simps [simp]:
  "errorsIs ErrKeyNotFound ErrKeyNotFound" "\<not> errorsIs ErrInvalidKey ErrKeyNotFound"
  "errorsIs ErrInvalidKey ErrInvalidKey"
  by (simp_all add: errorsIs_def)

text \<open>The identity a validation answers with, taken from the stored row.\<close>

definition identityOf :: "keyRow \<Rightarrow> ValidationResult" where
  "identityOf r =
     \<lparr>vr_Valid = True, vr_UserID = row_id r, vr_Username = row_username r, vr_KeyID = row_id r,
      vr_KeyName = row_name r, vr_Groups = row_groups r, vr_Subscription = row_subscription r,
      vr_Tenant = row_tenant r, vr_Reason = []\<rparr>"

lemma invalidResult_not_valid [simp]: "\<not> vr_Valid (invalidResult reason)"
  by (simp add: invalidResult_def)

context metadata_store
begin

lemma validate_unknown:
  assumes "inv s" "calm e" "IsValidKeyFormat key"
    and "\<And>r. r \<in> set (keysOf s) \<Longrightarrow> row_key_hash r \<noteq> HashAPIKey key"
  shows "fst (ValidateAPIKey svc ops e key m s) = Inr (invalidResult ''key not found'')"
  using hash_unknown [OF assms(1,2,4)] assms(3) HashAPIKey_valid_nonempty [OF assms(3)]
  by (simp add: ValidateAPIKey_def Let_def)

lemma validate_dead:
  assumes "inv s" "calm e" "IsValidKeyFormat key"
    and "r \<in> set (keysOf s)" "row_key_hash r = HashAPIKey key" "\<not> liveRow (goNow e) r"
  shows "fst (ValidateAPIKey svc ops e key m s) = Inr (invalidResult ''key revoked or expired'')"
  using hash_dead [OF assms(1,2,4,5,6)] assms(3) HashAPIKey_valid_nonempty [OF assms(3)]
  by (cases "GetByHash ops e (HashAPIKey key) s") (simp add: ValidateAPIKey_def Let_def)

lemma validate_live:
  assumes "inv s" "calm e" "IsValidKeyFormat key"
    and "r \<in> set (keysOf s)" "row_key_hash r = HashAPIKey key" "liveRow (goNow e) r"
  shows "fst (ValidateAPIKey svc ops e key m s) =
    (if TrimSpace (row_subscription r) = [] then Inr (invalidResult ''key has no subscription bound'')
     else case svc_uuidParse svc (row_id r) of
            Some err \<Rightarrow> Inl (Wrap ''database integrity error: invalid key ID format'' (ErrMsg err))
          | None \<Rightarrow> Inr (identityOf r))"
proof -
  obtain k where k: "GetByHash ops e (HashAPIKey key) s = (Inr k, s)" "describes k r"
    using hash_live [OF assms(1,2,4,5,6)] by blast
  then show ?thesis
    using assms(3) HashAPIKey_valid_nonempty [OF assms(3)]
    by (simp add: ValidateAPIKey_def Let_def describes_def identityOf_def
        split: prod.splits option.splits)
qed

text \<open>A key is accepted exactly when a live stored key has its hash.\<close>

lemma validate_iff:
  assumes "inv s" "calm e"
  shows "fst (ValidateAPIKey svc ops e key m s) = Inr vr \<and> vr_Valid vr \<longleftrightarrow>
    IsValidKeyFormat key \<and>
    (\<exists>r\<in>set (keysOf s). row_key_hash r = HashAPIKey key \<and> liveRow (goNow e) r
       \<and> TrimSpace (row_subscription r) \<noteq> [] \<and> svc_uuidParse svc (row_id r) = None \<and> vr = identityOf r)"
proof (cases "IsValidKeyFormat key")
  case False
  then show ?thesis by (auto simp: ValidateAPIKey_def)
next
  case True
  show ?thesis
  proof (cases rule: hash_cases [OF assms, of "HashAPIKey key"])
    case 1
    then show ?thesis using validate_unknown [OF assms True] by auto
  next
    case (2 r k)
    then have only: "q = r" if "q \<in> set (keysOf s)" "row_key_hash q = HashAPIKey key" for q
      using unique_hash [OF assms(1)] that by metis
    have "vr_Valid (identityOf r)" by (simp add: identityOf_def)
    then have "(\<exists>q\<in>set (keysOf s). row_key_hash q = HashAPIKey key \<and> liveRow (goNow e) q
         \<and> TrimSpace (row_subscription q) \<noteq> [] \<and> svc_uuidParse svc (row_id q) = None \<and> vr = identityOf q)
       \<longleftrightarrow> TrimSpace (row_subscription r) \<noteq> [] \<and> svc_uuidParse svc (row_id r) = None \<and> vr = identityOf r"
      using 2(1-3) only by blast
    moreover have "fst (ValidateAPIKey svc ops e key m s) = Inr vr \<and> vr_Valid vr \<longleftrightarrow>
        TrimSpace (row_subscription r) \<noteq> [] \<and> svc_uuidParse svc (row_id r) = None \<and> vr = identityOf r"
      unfolding validate_live [OF assms True 2(1-3), of svc m]
      using \<open>vr_Valid (identityOf r)\<close> by (auto split: option.splits)
    ultimately show ?thesis using True by simp
  next
    case (3 r)
    then have "q = r" if "q \<in> set (keysOf s)" "row_key_hash q = HashAPIKey key" for q
      using unique_hash [OF assms(1)] that by metis
    then have "\<not> (\<exists>q\<in>set (keysOf s). row_key_hash q = HashAPIKey key \<and> liveRow (goNow e) q)"
      using 3(3) by blast
    moreover have "\<not> (fst (ValidateAPIKey svc ops e key m s) = Inr vr \<and> vr_Valid vr)"
      unfolding validate_dead [OF assms True 3(1-3), of svc m] by auto
    ultimately show ?thesis by blast
  qed
qed

lemma validate_revoked:
  assumes "inv s" "calm e" "calm e'" "IsValidKeyFormat key"
    and "r \<in> set (keysOf s)" "row_status r = StatusActive" "row_key_hash r = HashAPIKey key"
    and "RevokeAPIKey ops e (row_id r) s = (Inr (), s')"
  shows "fst (ValidateAPIKey svc ops e' key m s') = Inr (invalidResult ''key revoked or expired'')"
proof -
  note s' = revoke_known [OF assms(1,2,5,6) assms(8) [unfolded RevokeAPIKey_def]]
  have "setStatus StatusRevoked r \<in> set (keysOf s')" using s' assms(5) by force
  then show ?thesis
    using validate_dead [of s' e' key "setStatus StatusRevoked r"] s' assms(3,4,7)
    by (simp add: liveRow_def)
qed

end

section \<open>Minting\<close>

lemma generated_format:
  assumes "GenerateAPIKey kb sb = Inr (plaintext, hash, pre)"
  shows "IsValidKeyFormat plaintext \<and> HashAPIKey plaintext = hash"
proof -
  from assms obtain k s where ks: "kb = Some k" "sb = Some s"
    "hash = hashWithSalt (encodeBase62 k) (encodeBase62 s)"
    by (rule GenerateAPIKey_OkE)
  then have "ParseAPIKey plaintext = Inr (encodeBase62 k, encodeBase62 s)"
    using ParseAPIKey_generated assms by blast
  then show ?thesis using ks by (simp add: IsValidKeyFormat_iff HashAPIKey_def)
qed

text \<open>What a successful creation asked of the store, and what it answered.\<close>

lemma CreateAPIKey_OkD:
  assumes "CreateAPIKey svc store e mi u gs n d x eph rs t ls st = (Inr resp, st')"
  shows "\<exists>key hash pre sub. GenerateAPIKey (mint_keyIDEntropy mi) (mint_secretEntropy mi)
        = Inr (key, hash, pre)
    \<and> (if rs \<noteq> [] then svc_select svc gs u rs [] else svc_highest svc gs u) = Inr sub
    \<and> AddKey store e
        \<lparr>ak_Username = u, ak_KeyID = mint_uuid mi, ak_KeyHash = hash, ak_Name = n, ak_Description = d,
         ak_Groups = gs, ak_Subscription = resp_Name sub, ak_Tenant = t,
         ak_ExpiresAt = Some (mint_now mi + effectiveExpiry svc x eph), ak_Ephemeral = eph,
         ak_Labels = ls\<rparr> st = (Inr (), st')
    \<and> resp = \<lparr>cr_Key = key, cr_KeyPrefix = pre, cr_ID = mint_uuid mi, cr_Name = n,
         cr_Subscription = resp_Name sub, cr_CreatedAt = rfc3339 (mint_created mi),
         cr_ExpiresAt = Some (rfc3339 (mint_now mi + effectiveExpiry svc x eph)),
         cr_Ephemeral = eph, cr_Labels = ls\<rparr>"
proof -
  let ?gen = "GenerateAPIKey (mint_keyIDEntropy mi) (mint_secretEntropy mi)"
  let ?sel = "if rs \<noteq> [] then svc_select svc gs u rs [] else svc_highest svc gs u"
  note ok0 = assms [unfolded CreateAPIKey_def Let_def]
  have checks: "(\<not> list_all (reMatch validGroupNamePattern) gs) = False"
    "(effectiveExpiry svc x eph \<le> 0) = False"
    "(eph \<and> effectiveExpiry svc x eph > DefaultEphemeralKeyMaxExpiration) = False"
    "(\<not> eph \<and> effectiveExpiry svc x eph > maxRegularDuration svc) = False"
    using ok0 by (simp_all only: split: if_split_asm) simp_all
  note ok = ok0 [unfolded checks if_False]
  obtain key hash pre where gen: "?gen = Inr (key, hash, pre)"
    using ok by (cases ?gen) auto
  note ok1 = ok [unfolded gen sum.case prod.case]
  obtain sub where sel: "?sel = Inr sub"
    using ok1 by (cases ?sel) simp_all
  let ?a = "\<lparr>ak_Username = u, ak_KeyID = mint_uuid mi, ak_KeyHash = hash, ak_Name = n, ak_Description = d,
         ak_Groups = gs, ak_Subscription = resp_Name sub, ak_Tenant = t,
         ak_ExpiresAt = Some (mint_now mi + effectiveExpiry svc x eph), ak_Ephemeral = eph,
         ak_Labels = ls\<rparr>"
  note ok2 = ok1 [unfolded sel sum.case]
  obtain r1 st1 where r1: "AddKey store e ?a st = (r1, st1)" by fastforce
  note ok3 = ok2 [unfolded r1 prod.case]
  obtain v where v: "r1 = Inr v" using ok3 by (cases r1) simp_all
  note ok4 = ok3 [unfolded v sum.case]
  from ok4 have "st1 = st'" by simp
  then have add: "AddKey store e ?a st = (Inr (), st')" using r1 v by simp
  from ok4 have resp: "resp = \<lparr>cr_Key = key, cr_KeyPrefix = pre, cr_ID = mint_uuid mi, cr_Name = n,
         cr_Subscription = resp_Name sub, cr_CreatedAt = rfc3339 (mint_created mi),
         cr_ExpiresAt = Some (rfc3339 (mint_now mi + effectiveExpiry svc x eph)),
         cr_Ephemeral = eph, cr_Labels = ls\<rparr>"
    by (simp only: prod.inject sum.inject)
  show ?thesis using gen sel add resp by blast
qed

lemma CreateAPIKey_OkD_checks:
  assumes "CreateAPIKey svc store e mi u gs n d x eph rs t ls st = (Inr resp, st')"
  shows "(\<forall>g\<in>set gs. g \<noteq> [] \<and> (\<forall>c\<in>set g. groupChar c))
    \<and> 0 < effectiveExpiry svc x eph \<and> effectiveExpiry svc x eph \<le> maxDuration svc eph"
proof -
  note ok = assms [unfolded CreateAPIKey_def Let_def]
  have "list_all (reMatch validGroupNamePattern) gs \<and> \<not> effectiveExpiry svc x eph \<le> 0
      \<and> \<not> (eph \<and> effectiveExpiry svc x eph > DefaultEphemeralKeyMaxExpiration)
      \<and> \<not> (\<not> eph \<and> effectiveExpiry svc x eph > maxRegularDuration svc)"
    using ok by (simp only: split: if_split_asm) simp_all
  then show ?thesis by (auto simp: list_all_iff validGroup_iff maxDuration_def)
qed

text \<open>The arguments of the insertion, without the rest of the answer.\<close>

lemma CreateAPIKey_args:
  assumes "CreateAPIKey svc store e mi u gs n d x eph rs t ls st = (Inr resp, st')"
  shows "\<exists>a. AddKey store e a st = (Inr (), st') \<and> ak_KeyHash a = HashAPIKey (cr_Key resp)
    \<and> ak_KeyID a = cr_ID resp \<and> ak_Username a = u \<and> ak_Groups a = gs \<and> ak_Name a = n \<and> ak_Tenant a = t"
  using CreateAPIKey_OkD [OF assms] generated_format
  by (elim exE conjE, intro exI conjI) (assumption, simp_all)

lemma pg_AddKey_error: "pg_AddKey t e a rows = (Inl err, rows') \<Longrightarrow> rows' = rows"
  by (auto simp: pg_AddKey_def split: if_splits option.splits)

text \<open>A refused creation leaves the table as it was.\<close>

lemma CreateAPIKey_error_table:
  assumes "CreateAPIKey svc (pgStore t) e mi u gs n d x eph rs tn ls rows = (Inl err, rows')"
  shows "rows' = rows"
proof -
  have "rows' = rows \<or> (\<exists>a err'. pg_AddKey t e a rows = (Inl err', rows'))"
    using assms unfolding CreateAPIKey_def Let_def
    by (simp only: split: if_split_asm sum.split_asm prod.split_asm) auto
  then show ?thesis using pg_AddKey_error by blast
qed

lemma hour_days: "0 \<le> d \<Longrightarrow> d \<le> 106751 \<Longrightarrow> wrap64 (wrap64 (d * 24) * hour) = d * (24 * hour)"
  by (simp add: wrap64_id hour_def)

section \<open>Properties\<close>

text \<open>
  C6: the decision to accept a key. With a well-formed table and a database that answers, a key is
  accepted exactly when its text has the key format and the table of this tenant holds a live key
  whose hash is the salted SHA-256 of the text, bound to a subscription and with a well-formed id;
  the identity returned is that of the stored key.
\<close>

theorem ValidateAPIKey_exact:
  assumes "tableWf rows" and "calmDb e"
  shows "fst (ValidateAPIKey svc (pgStore t) e key m rows) = Inr vr \<and> vr_Valid vr \<longleftrightarrow>
    IsValidKeyFormat key \<and>
    (\<exists>r\<in>set rows. row_tenant r = t \<and> row_key_hash r = HashAPIKey key \<and> liveRow (goNow e) r
       \<and> TrimSpace (row_subscription r) \<noteq> [] \<and> svc_uuidParse svc (row_id r) = None \<and> vr = identityOf r)"
  using pg.validate_iff [OF assms, of svc t key m vr] by auto

definition sampleService :: Service where
  "sampleService = \<lparr>svc_config = Some \<lparr>cfg_TenantName = ''red'', cfg_APIKeyMaxExpirationDays = 30,
      cfg_LastUsedDebounceSecs = 60\<rparr>,
     svc_select = (\<lambda>gs u rs m. Inr (emptySelectResponse\<lparr>resp_Name := rs\<rparr>)),
     svc_highest = (\<lambda>gs u. Inr (emptySelectResponse\<lparr>resp_Name := ''gold''\<rparr>)),
     svc_uuidParse = (\<lambda>_. None)\<rparr>"

theorem ValidateAPIKey_exact_witness:
  "\<not> (fst (ValidateAPIKey sampleService (pgStore ''red'') (quietEnv 5) ''sk-oai-x'' (\<lambda>_. None) sampleTable)
      = Inr (identityOf (sampleRow ''k3'' ''red'' StatusActive (Some 90)))
    \<and> vr_Valid (identityOf (sampleRow ''k3'' ''red'' StatusActive (Some 90))))"
proof -
  have "\<not> IsValidKeyFormat ''sk-oai-x''"
    by (simp add: IsValidKeyFormat_def KeyPrefix_def KeyIDSeparator_def splitN2_def)
  then show ?thesis using ValidateAPIKey_exact [OF sampleTable_wf, of "quietEnv 5"] by simp
qed

lemma sampleService_sel [simp]:
  "svc_highest sampleService gs u = Inr (emptySelectResponse\<lparr>resp_Name := ''gold''\<rparr>)"
  "svc_uuidParse sampleService i = None"
  by (simp_all add: sampleService_def)

definition sampleMint :: mint where
  "sampleMint = \<lparr>mint_keyIDEntropy = Some ''abcdefghijkl'', mint_secretEntropy = Some ''mnopqrstuvwxyz'',
     mint_uuid = ''u1'', mint_now = 5, mint_created = 6\<rparr>"

lemma sampleService_expiry:
  "GetMaxExpirationDays sampleService = 30"
  "maxRegularDuration sampleService = 30 * (24 * hour)"
  "effectiveExpiry sampleService None False = 30 * (24 * hour)"
proof -
  show d: "GetMaxExpirationDays sampleService = 30"
    by (simp add: GetMaxExpirationDays_def sampleService_def)
  then show m: "maxRegularDuration sampleService = 30 * (24 * hour)"
    unfolding maxRegularDuration_def d by (intro hour_days) simp_all
  show "effectiveExpiry sampleService None False = 30 * (24 * hour)"
    using m by (simp add: effectiveExpiry_def maxDuration_def)
qed

lemma sample_create:
  "\<exists>resp rows'. CreateAPIKey sampleService (pgStore ''red'') (quietEnv 5) sampleMint ''alice'' [''dev'']
       ''laptop'' [] None False [] ''red'' [] [] = (Inr resp, rows') \<and> cr_Subscription resp = ''gold''"
proof -
  have "reMatch validGroupNamePattern ''dev''"
    by (simp add: validGroup_iff groupChar_def char_class_defs del: reMatch.simps)
  then show ?thesis
    by (simp add: CreateAPIKey_def Let_def sampleService_expiry sampleMint_def GenerateAPIKey_def pg_AddKey_def
        sqlInsert_def hour_def emptySelectResponse_def del: reMatch.simps)
qed

text \<open>
  C35: a minted key works. When creation succeeds against the database, the key text it returns is
  accepted by every later validation, as long as the stored expiry is not past, and resolves to
  the user, groups, tenant and subscription it was minted with. Hypotheses: the UUID library
  parses the ids it generates, and the subscription's name is not blank.
\<close>

theorem create_then_validate:
  assumes "tableWf rows" and "calmDb e'"
    and create: "CreateAPIKey svc (pgStore t) e mi u gs n d x eph rs tn ls rows = (Inr resp, rows')"
    and "svc_uuidParse svc (mint_uuid mi) = None" and "TrimSpace (cr_Subscription resp) \<noteq> []"
    and "goNow e' \<le> dbStamp e (mint_now mi + effectiveExpiry svc x eph)"
  shows "fst (ValidateAPIKey svc (pgStore t) e' (cr_Key resp) m rows') =
    Inr \<lparr>vr_Valid = True, vr_UserID = cr_ID resp, vr_Username = u, vr_KeyID = cr_ID resp,
         vr_KeyName = n, vr_Groups = gs, vr_Subscription = cr_Subscription resp, vr_Tenant = t,
         vr_Reason = []\<rparr>"
proof -
  from CreateAPIKey_OkD [OF create] obtain key hash pre sub where gen:
      "GenerateAPIKey (mint_keyIDEntropy mi) (mint_secretEntropy mi) = Inr (key, hash, pre)"
    and "(if rs \<noteq> [] then svc_select svc gs u rs [] else svc_highest svc gs u) = Inr sub"
    and add: "AddKey (pgStore t) e
        \<lparr>ak_Username = u, ak_KeyID = mint_uuid mi, ak_KeyHash = hash, ak_Name = n, ak_Description = d,
         ak_Groups = gs, ak_Subscription = resp_Name sub, ak_Tenant = tn,
         ak_ExpiresAt = Some (mint_now mi + effectiveExpiry svc x eph), ak_Ephemeral = eph,
         ak_Labels = ls\<rparr> rows = (Inr (), rows')" (is "AddKey _ _ ?a _ = _")
    and r: "resp = \<lparr>cr_Key = key, cr_KeyPrefix = pre, cr_ID = mint_uuid mi, cr_Name = n,
         cr_Subscription = resp_Name sub, cr_CreatedAt = rfc3339 (mint_created mi),
         cr_ExpiresAt = Some (rfc3339 (mint_now mi + effectiveExpiry svc x eph)),
         cr_Ephemeral = eph, cr_Labels = ls\<rparr>"
    by (elim exE conjE) (rule that)
  have resp: "cr_Key resp = key" "cr_Subscription resp = resp_Name sub" "cr_ID resp = mint_uuid mi"
    by (simp_all add: r)
  let ?r = "pg_newRow e ?a"
  have ins: "sqlInsert ?r rows = Some rows'" "tn = t" 
    using pg_AddKey_OkD [OF add [unfolded pgStore_sel]] by auto
  then have row: "?r \<in> set (tenantRows t rows')" by (auto dest: sqlInsert_SomeD simp: pg_newRow_def)
  have "tableWf rows'"
    using add assms(1) by (metis pg_step.add pg_step_effect pg_effect_wf pgStore_sel(1))
  moreover have "liveRow (goNow e') ?r" using assms(6) by (intro pg_newRow_live) simp
  ultimately show ?thesis
    using pg.validate_live [of rows' e' key ?r t svc m] row assms(2,4,5) generated_format [OF gen] resp ins(2)
    by (simp add: pg_newRow_def identityOf_def)
qed

theorem create_then_validate_witness:
  "\<exists>resp rows' vr. CreateAPIKey sampleService (pgStore ''red'') (quietEnv 5) sampleMint ''alice'' [''dev'']
       ''laptop'' [] None False [] ''red'' [] [] = (Inr resp, rows')
     \<and> fst (ValidateAPIKey sampleService (pgStore ''red'') (quietEnv 7) (cr_Key resp) (\<lambda>_. None) rows') = Inr vr
     \<and> vr_Valid vr \<and> vr_Username vr = ''alice'' \<and> vr_Tenant vr = ''red''"
proof -
  obtain resp rows' where c: "CreateAPIKey sampleService (pgStore ''red'') (quietEnv 5) sampleMint ''alice''
       [''dev''] ''laptop'' [] None False [] ''red'' [] [] = (Inr resp, rows')" "cr_Subscription resp = ''gold''"
    using sample_create by blast
  have "(7 :: int) \<le> mint_now sampleMint + effectiveExpiry sampleService None False"
    by (simp add: sampleService_expiry hour_def sampleMint_def)
  moreover have "TrimSpace ''gold'' = ''gold''" by (simp add: TrimSpace_id spaceByte_def spaceRunes_def)
  moreover have "tableWf []" by (simp add: tableWf_def)
  moreover have "svc_uuidParse sampleService (mint_uuid sampleMint) = None" by (simp add: sampleService_def)
  ultimately show ?thesis
    using create_then_validate [OF _ _ c(1), of "quietEnv 7" "\<lambda>_. None"] c by simp
qed

text \<open>
  A revoked key is refused. After a successful revocation of a stored active key, validating
  its text answers "key revoked or expired" at any later time.
\<close>

theorem revoke_then_validate:
  assumes "tableWf rows" "calmDb e" "calmDb e'" "IsValidKeyFormat key"
    and "r \<in> set rows" "row_tenant r = t" "row_status r = StatusActive" "row_key_hash r = HashAPIKey key"
  shows "\<exists>rows'. RevokeAPIKey (pgStore t) e (row_id r) rows = (Inr (), rows')
    \<and> fst (ValidateAPIKey svc (pgStore t) e' key m rows') = Inr (invalidResult ''key revoked or expired'')"
proof -
  obtain rows' where rows': "RevokeAPIKey (pgStore t) e (row_id r) rows = (Inr (), rows')"
    using pg_Revoke_active [OF assms(1,2), of r t] assms(5-7) by (simp add: RevokeAPIKey_def)
  with pg.validate_revoked [OF assms(1-4), of r t rows' svc m] assms(5-8) show ?thesis by auto
qed

definition sampleText :: string where
  "sampleText = ''sk-oai-abc_def''"

definition hashedRow :: keyRow where
  "hashedRow = (sampleRow ''k9'' ''red'' StatusActive None)\<lparr>row_key_hash := HashAPIKey sampleText\<rparr>"

lemma sampleText_format: "IsValidKeyFormat sampleText"
  by (simp add: sampleText_def IsValidKeyFormat_def KeyPrefix_def KeyIDSeparator_def splitN2_def
      isBase62_def char_class_defs)

lemma hashedRow_sel [simp]:
  "row_id hashedRow = ''k9''" "row_tenant hashedRow = ''red''" "row_status hashedRow = StatusActive"
  "row_key_hash hashedRow = HashAPIKey sampleText" "rowWf hashedRow"
  using HashAPIKey_valid_nonempty [OF sampleText_format]
  by (simp_all add: hashedRow_def rowWf_def)

theorem revoke_then_validate_witness:
  "\<exists>rows'. RevokeAPIKey (pgStore ''red'') (quietEnv 5) ''k9'' [hashedRow] = (Inr (), rows')
    \<and> fst (ValidateAPIKey sampleService (pgStore ''red'') (quietEnv 6) sampleText (\<lambda>_. None) rows')
        = Inr (invalidResult ''key revoked or expired'')"
proof -
  have "tableWf [hashedRow]" by (simp add: tableWf_def)
  from revoke_then_validate [OF this, of "quietEnv 5" "quietEnv 6" sampleText hashedRow] show ?thesis
    by (simp add: sampleText_format)
qed

text \<open>
  C39: the life of a key is bounded. With a configured maximum of at most 106751 days, beyond which the
  multiplication overflows, a creation in the database adds one row, which expires, as the time stamp of the
  database has it, a positive time after the creation: at most one hour if the key is ephemeral and at most the configured number of days
  otherwise. The response gives the same time, and the groups of the key hold only characters that are safe in the
  gateway's JSON expressions.
\<close>

theorem CreateAPIKey_bounded:
  assumes "CreateAPIKey svc (pgStore tn) e mi u gs n d x eph rs t ls rows = (Inr resp, rows')"
    and "GetMaxExpirationDays svc \<le> 106751"
  shows "\<exists>r life. rows' = rows @ [r] \<and> 0 < life \<and> life \<le> (if eph then hour else GetMaxExpirationDays svc * (24 * hour))
    \<and> row_expires_at r = Some (dbStamp e (mint_now mi + life)) \<and> row_ephemeral r = eph
    \<and> cr_ExpiresAt resp = Some (rfc3339 (mint_now mi + life))
    \<and> row_groups r = gs \<and> (\<forall>g\<in>set gs. g \<noteq> [] \<and> (\<forall>c\<in>set g. groupChar c))"
proof -
  let ?life = "effectiveExpiry svc x eph"
  have "0 < GetMaxExpirationDays svc"
    by (simp add: GetMaxExpirationDays_def DefaultAPIKeyMaxExpirationDays_def split: option.splits)
  then have max: "maxDuration svc eph = (if eph then hour else GetMaxExpirationDays svc * (24 * hour))"
    using assms(2)
    by (simp add: maxDuration_def maxRegularDuration_def hour_days DefaultEphemeralKeyMaxExpiration_def)
  obtain hash and sub :: SelectResponse where
    add: "pg_AddKey tn e \<lparr>ak_Username = u, ak_KeyID = mint_uuid mi, ak_KeyHash = hash, ak_Name = n, ak_Description = d,
         ak_Groups = gs, ak_Subscription = resp_Name sub, ak_Tenant = t, ak_ExpiresAt = Some (mint_now mi + ?life),
         ak_Ephemeral = eph, ak_Labels = ls\<rparr> rows = (Inr (), rows')" (is "pg_AddKey tn e ?a rows = _")
    and resp: "cr_ExpiresAt resp = Some (rfc3339 (mint_now mi + ?life))"
    using CreateAPIKey_OkD [OF assms(1)] unfolding pgStore_def MetadataStore.simps
    by (elim exE conjE) (rule that, assumption, simp)
  from pg_AddKey_OkD [OF add] have "rows' = rows @ [pg_newRow e ?a]" by (auto dest: sqlInsert_SomeD)
  with resp CreateAPIKey_OkD_checks [OF assms(1)] max show ?thesis
    by (intro exI [of _ "pg_newRow e ?a"] exI [of _ ?life]) (simp add: pg_newRow_def)
qed

theorem CreateAPIKey_bounded_witness:
  "\<exists>resp r life. CreateAPIKey sampleService (pgStore ''red'') (quietEnv 5) sampleMint ''alice''
       [''dev''] ''laptop'' [] None False [] ''red'' [] [] = (Inr resp, [r])
     \<and> row_expires_at r = Some (dbStamp (quietEnv 5) (mint_now sampleMint + life)) \<and> 0 < life \<and> life \<le> 30 * (24 * hour)"
proof -
  obtain resp rows' where c: "CreateAPIKey sampleService (pgStore ''red'') (quietEnv 5) sampleMint ''alice''
       [''dev''] ''laptop'' [] None False [] ''red'' [] [] = (Inr resp, rows')"
    using sample_create by blast
  from CreateAPIKey_bounded [OF c] sampleService_expiry(1) c show ?thesis by auto
qed

text \<open>
  A refused creation changes nothing. Whichever check, generator, selector or statement fails,
  the table of keys is exactly what it was before.
\<close>

theorem CreateAPIKey_atomic:
  assumes "CreateAPIKey svc (pgStore t) e mi u gs n d x eph rs tn ls rows = (Inl err, rows')"
  shows "rows' = rows"
  using assms by (rule CreateAPIKey_error_table)

theorem CreateAPIKey_atomic_witness:
  "snd (CreateAPIKey sampleService (pgStore ''red'') (quietEnv 5) sampleMint ''alice'' [''d v''] ''n'' []
     None False [] ''red'' [] sampleTable) = sampleTable"
proof -
  have "\<not> reMatch validGroupNamePattern ''d v''"
    by (simp add: validGroup_iff groupChar_def char_class_defs del: reMatch.simps)
  then have "\<exists>err. CreateAPIKey sampleService (pgStore ''red'') (quietEnv 5) sampleMint ''alice'' [''d v'']
      ''n'' [] None False [] ''red'' [] sampleTable = (Inl err, sampleTable)"
    by (simp add: CreateAPIKey_def del: reMatch.simps)
  then show ?thesis using CreateAPIKey_atomic by (metis snd_conv)
qed

text \<open>
  Revoking a tenant. The request is refused unless it names, after trimming, the tenant this
  service is configured for; when it succeeds, no key of that tenant is active any more and no
  other row has changed.
\<close>

theorem RevokeTenantAPIKeys_exact:
  assumes "GetTenantName svc = t" "t \<noteq> []" and "calmDb e"
  shows "case RevokeTenantAPIKeys svc (pgStore t) e tn rows of
      (Inl err, rows') \<Rightarrow> TrimSpace tn \<noteq> t \<and> rows' = rows
        \<and> (errorsIs err ErrTenantRequired \<or> errorsIs err ErrTenantMismatch)
    | (Inr cnt, rows') \<Rightarrow> TrimSpace tn = t
        \<and> cnt = length (filter (\<lambda>r. row_status r = StatusActive) (tenantRows t rows))
        \<and> (\<forall>r\<in>set rows'. row_tenant r = t \<longrightarrow> row_status r \<noteq> StatusActive)
        \<and> filter (\<lambda>r. row_tenant r \<noteq> t) rows' = filter (\<lambda>r. row_tenant r \<noteq> t) rows"
proof (cases "TrimSpace tn = t")
  case False
  then show ?thesis using assms by (simp add: RevokeTenantAPIKeys_def Let_def errorsIs_def)
next
  case True
  let ?p = "\<lambda>r. row_tenant r = t \<and> row_status r = StatusActive"
  have "RevokeTenantAPIKeys svc (pgStore t) e tn rows
      = (Inr (sqlCount ?p rows), sqlUpdate ?p (setStatus StatusRevoked) rows)"
    using assms True by (simp add: RevokeTenantAPIKeys_def pg_InvalidateTenant_def pg_updateCount_def)
  moreover have "sqlCount ?p rows = length (filter (\<lambda>r. row_status r = StatusActive) (tenantRows t rows))"
    by (simp add: sqlCount_def conj_commute)
  moreover have "filter (\<lambda>r. row_tenant r \<noteq> t) (sqlUpdate ?p (setStatus StatusRevoked) rows)
      = filter (\<lambda>r. row_tenant r \<noteq> t) rows"
    by (rule filter_sqlUpdate_other) auto
  ultimately show ?thesis using True by (auto simp: set_sqlUpdate)
qed

theorem RevokeTenantAPIKeys_exact_witness:
  "\<exists>rows'. RevokeTenantAPIKeys sampleService (pgStore ''red'') (quietEnv 5) ''red'' sampleTable = (Inr 1, rows')
     \<and> filter (\<lambda>r. row_tenant r \<noteq> ''red'') rows' = filter (\<lambda>r. row_tenant r \<noteq> ''red'') sampleTable"
proof -
  have n: "GetTenantName sampleService = ''red''" by (simp add: GetTenantName_def sampleService_def)
  have t: "TrimSpace ''red'' = ''red''" by (simp add: TrimSpace_id spaceByte_def spaceRunes_def)
  from RevokeTenantAPIKeys_exact [OF n, of "quietEnv 5" "''red''" sampleTable] t show ?thesis
    by (auto simp: sampleTable_def split: prod.splits sum.splits)
qed

text \<open>
  With a limit of 213504 days the product wraps around to less than half an hour, so that a
  default regular key lives 1526 seconds; with 106752 days it is negative and no regular key can be
  created without an explicit expiration, nor with one.
\<close>

lemma maxRegularDuration_wraps:
  "wrap64 (wrap64 (213504 * 24) * hour) = 1526 * 1000000000 + 290448384
   \<and> wrap64 (wrap64 (106752 * 24) * hour) < 0"
  by (simp add: wrap64_def hour_def)

end
