(* ===== verification/TokenHeaders.thy ===== *)
theory TokenHeaders
  imports GoStrings
begin

text \<open>
  \<open>maas-api/internal/token\<close>: the identity of a request, read from the headers that the gateway's
  auth policy sets (\<open>handler.go\<close>), and the answers handlers give. A gin context is modelled by
  what the handlers read of it: the two headers, and the value stored under \<open>"user"\<close>.
\<close>

record UserContext =
  uc_Username :: string
  uc_Groups :: "string list"
  uc_Tenant :: string

text \<open>\<open>c.Get("user")\<close> with the type assertion that follows it.\<close>

datatype ctx_user = NoUser | BadUser | User UserContext

text \<open>An answer: the status code and what is encoded into the body.\<close>

record 'b http =
  http_Status :: nat
  http_Body :: 'b

section \<open>JSON arrays of strings\<close>

text \<open>
  \<open>json.Unmarshal(data, &parsedGroups)\<close> for a \<open>[]string\<close>: it succeeds on \<open>null\<close>, which leaves the
  slice nil, and on an array whose elements are strings or \<open>null\<close> (the empty string), with white
  space between tokens. Everything else, a syntax error or another type, is an error.
\<close>

definition jsonSpace :: "char \<Rightarrow> bool" where
  "jsonSpace c \<longleftrightarrow> c = CHR 0x20 \<or> c = CHR 0x09 \<or> c = CHR 0x0A \<or> c = CHR 0x0D"

definition skipSpace :: "string \<Rightarrow> string" where
  "skipSpace s = dropWhile jsonSpace s"

definition hexDigit :: "char \<Rightarrow> nat option" where
  "hexDigit c =
     (if byteIn 48 57 c then Some (of_char c - 48)
      else if byteIn 97 102 c then Some (of_char c - 87)
      else if byteIn 65 70 c then Some (of_char c - 55)
      else None)"

definition hex4 :: "string \<Rightarrow> nat option" where
  "hex4 s =
     (case s of
        a # b # c # d # _ \<Rightarrow>
          (case (hexDigit a, hexDigit b, hexDigit c, hexDigit d) of
             (Some w, Some x, Some y, Some z) \<Rightarrow> Some (((w * 16 + x) * 16 + y) * 16 + z)
           | _ \<Rightarrow> None)
      | _ \<Rightarrow> None)"

text \<open>\<open>utf8.AppendRune\<close>; the replacement character stands for what is no scalar value.\<close>

definition encodeRune :: "nat \<Rightarrow> string" where
  "encodeRune r =
     (if r < 0x80 then [char_of r]
      else if r < 0x800 then map char_of [0xC0 + r div 64, 0x80 + r mod 64]
      else if 0xD800 \<le> r \<and> r < 0xE000 \<or> 0x110000 \<le> r then [CHR 0xEF, CHR 0xBF, CHR 0xBD]
      else if r < 0x10000 then map char_of [0xE0 + r div 4096, 0x80 + r div 64 mod 64, 0x80 + r mod 64]
      else map char_of [0xF0 + r div 262144, 0x80 + r div 4096 mod 64, 0x80 + r div 64 mod 64,
                        0x80 + r mod 64])"

definition simpleEscape :: "char \<Rightarrow> char option" where
  "simpleEscape c =
     (if c = CHR 0x22 \<or> c = CHR 0x5C \<or> c = CHR ''/'' then Some c
      else if c = CHR ''b'' then Some (CHR 0x08)
      else if c = CHR ''f'' then Some (CHR 0x0C)
      else if c = CHR ''n'' then Some (CHR 0x0A)
      else if c = CHR ''r'' then Some (CHR 0x0D)
      else if c = CHR ''t'' then Some (CHR 0x09)
      else None)"

text \<open>The second half of a surrogate pair that follows, as the scalar value of the pair.\<close>

definition surrogatePair :: "nat \<Rightarrow> string \<Rightarrow> nat option" where
  "surrogatePair hi s =
     (case s of
        b # u # s' \<Rightarrow>
          (case (if b = CHR 0x5C \<and> u = CHR ''u'' then hex4 s' else None) of
             Some lo \<Rightarrow>
               if 0xD800 \<le> hi \<and> hi < 0xDC00 \<and> 0xDC00 \<le> lo \<and> lo < 0xE000
               then Some (0x10000 + (hi - 0xD800) * 1024 + (lo - 0xDC00)) else None
           | None \<Rightarrow> None)
      | _ \<Rightarrow> None)"

text \<open>The rest of a string literal after its opening quote, with what follows the closing one.\<close>

definition consOut :: "string \<Rightarrow> (string \<times> string) option \<Rightarrow> (string \<times> string) option" where
  "consOut out r = map_option (\<lambda>(o1, rest). (out @ o1, rest)) r"

function jsonString :: "string \<Rightarrow> (string \<times> string) option" where
  "jsonString [] = None"
| "jsonString (c # s) =
     (if c = CHR 0x22 then Some ([], s)
      else if c = CHR 0x5C then
        (case s of
           [] \<Rightarrow> None
         | d # s' \<Rightarrow>
             (case simpleEscape d of
                Some x \<Rightarrow> consOut [x] (jsonString s')
              | None \<Rightarrow>
                  if d \<noteq> CHR ''u'' then None
                  else
                    (case hex4 s' of
                       None \<Rightarrow> None
                     | Some r \<Rightarrow>
                         (case surrogatePair r (drop 4 s') of
                            Some r2 \<Rightarrow> consOut (encodeRune r2) (jsonString (drop 10 s'))
                          | None \<Rightarrow> consOut (encodeRune r) (jsonString (drop 4 s'))))))
      else if (of_char c :: nat) < 0x20 then None
      else if (of_char c :: nat) < 0x80 then consOut [c] (jsonString s)
      else if runeWidth (c # s) = 1
      then consOut [CHR 0xEF, CHR 0xBF, CHR 0xBD] (jsonString s)
      else consOut (take (runeWidth (c # s)) (c # s)) (jsonString (drop (runeWidth (c # s) - 1) s)))"
  by pat_completeness auto
termination
  by (relation "measure length") auto

text \<open>One element: a string literal or \<open>null\<close>.\<close>

definition jsonElement :: "string \<Rightarrow> (string \<times> string) option" where
  "jsonElement s =
     (case s of
        [] \<Rightarrow> None
      | c # s' \<Rightarrow>
          if c = CHR 0x22 then jsonString s'
          else if take 4 s = ''null'' then Some ([], drop 4 s) else None)"

text \<open>
  The elements after an opening bracket or a comma. A well-formed input has at most as many
  elements as bytes, so that the input's length is enough fuel.
\<close>

fun jsonElements :: "nat \<Rightarrow> string \<Rightarrow> (string list \<times> string) option" where
  "jsonElements 0 s = None"
| "jsonElements (Suc n) s =
     (case jsonElement (skipSpace s) of
        None \<Rightarrow> None
      | Some (e, rest) \<Rightarrow>
          (case skipSpace rest of
             [] \<Rightarrow> None
           | c # rest' \<Rightarrow>
               if c = CHR '']'' then Some ([e], rest')
               else if c = CHR '','' then map_option (\<lambda>(es, r). (e # es, r)) (jsonElements n rest')
               else None))"

definition unmarshalStrings :: "string \<Rightarrow> string list option" where
  "unmarshalStrings s =
     (case skipSpace s of
        [] \<Rightarrow> None
      | c # rest \<Rightarrow>
          if c = CHR ''['' then
            (case skipSpace rest of
               [] \<Rightarrow> None
             | d # rest' \<Rightarrow>
                 if d = CHR '']'' then (if skipSpace rest' = [] then Some [] else None)
                 else
                   (case jsonElements (length s) rest of
                      Some (es, r) \<Rightarrow> if skipSpace r = [] then Some es else None
                    | None \<Rightarrow> None))
          else if take 4 (c # rest) = ''null'' \<and> skipSpace (drop 4 (c # rest)) = [] then Some []
          else None)"

section \<open>The headers\<close>

definition ParseGroupsHeader :: "string \<Rightarrow> (string, string list) result" where
  "ParseGroupsHeader header =
     (if header = [] then Err ''header is empty''
      else
        let parsed =
              (case unmarshalStrings header of
                 Some groups \<Rightarrow> Ok groups
               | None \<Rightarrow>
                   let trimmed = TrimSpace header
                   in if prefix ''['' trimmed \<and> suffix '']'' trimmed
                      then Ok (Fields (take (length trimmed - 2) (drop 1 trimmed)))
                      else Err (''unsupported group header format: '' @ header))
        in case parsed of
             Inl err \<Rightarrow> Err err
           | Inr parsedGroups \<Rightarrow>
               let validGroups = filter (\<lambda>g. g \<noteq> []) (map TrimSpace parsedGroups)
               in if validGroups = [] then Err ''no groups found in header'' else Ok validGroups)"

text \<open>What the middleware does with a request: abort with a refId, or go on with a context.\<close>

datatype extracted = Abort "string http" | Next ctx_user

definition authFailure :: "string \<Rightarrow> extracted" where
  "authFailure refId = Abort \<lparr>http_Status = 500, http_Body = refId\<rparr>"

definition ExtractUserInfo :: "string \<Rightarrow> string \<Rightarrow> string \<Rightarrow> extracted" where
  "ExtractUserInfo tenantName usernameHeader groupHeader =
     (let username = TrimSpace usernameHeader
      in if username = [] then authFailure ''001''
         else if groupHeader = [] then authFailure ''002''
         else
           (case ParseGroupsHeader groupHeader of
              Inl err \<Rightarrow> authFailure ''003''
            | Inr groups \<Rightarrow>
                Next (User \<lparr>uc_Username = username, uc_Groups = groups, uc_Tenant = tenantName\<rparr>)))"

definition ExtractUserInfoOptional :: "string \<Rightarrow> string \<Rightarrow> string \<Rightarrow> extracted" where
  "ExtractUserInfoOptional tenantName usernameHeader groupHeader =
     (let username = TrimSpace usernameHeader
      in if username = [] \<and> groupHeader = [] then Next NoUser
         else if username = [] then authFailure ''001''
         else if groupHeader = [] then authFailure ''002''
         else
           (case ParseGroupsHeader groupHeader of
              Inl err \<Rightarrow> authFailure ''003''
            | Inr groups \<Rightarrow>
                Next (User \<lparr>uc_Username = username, uc_Groups = groups, uc_Tenant = tenantName\<rparr>)))"

section \<open>The two formats of the group header\<close>

text \<open>Group names of visible ASCII characters that JSON need not escape, brackets excepted.\<close>

definition plainChar :: "char \<Rightarrow> bool" where
  "plainChar c \<longleftrightarrow> byteIn 0x21 0x7E c \<and> c \<notin> {CHR 0x22, CHR 0x5C, CHR ''['', CHR '']''}"

definition plainGroup :: "string \<Rightarrow> bool" where
  "plainGroup g \<longleftrightarrow> g \<noteq> [] \<and> list_all plainChar g"

definition quoted :: "string \<Rightarrow> string" where
  "quoted g = CHR 0x22 # g @ [CHR 0x22]"

text \<open>\<open>["a","b"]\<close> and \<open>[a b]\<close>.\<close>

fun joinWith :: "char \<Rightarrow> string list \<Rightarrow> string" where
  "joinWith sep [] = []"
| "joinWith sep [g] = g"
| "joinWith sep (g # gs) = g @ sep # joinWith sep gs"

definition jsonArray :: "string list \<Rightarrow> string" where
  "jsonArray gs = CHR ''['' # joinWith (CHR '','') (map quoted gs) @ [CHR '']'']"

definition bracketed :: "string list \<Rightarrow> string" where
  "bracketed gs = CHR ''['' # joinWith (CHR 0x20) gs @ [CHR '']'']"

lemma plainChar_codes:
  assumes "plainChar c"
  shows "(of_char c :: nat) < 0x80" "\<not> (of_char c :: nat) < 0x20" "\<not> jsonSpace c" "\<not> spaceByte c"
proof -
  have b: "0x21 \<le> (of_char c :: nat)" "(of_char c :: nat) \<le> 0x7E"
    using assms by (auto simp: plainChar_def byteIn_def)
  then show "(of_char c :: nat) < 0x80" "\<not> (of_char c :: nat) < 0x20" by auto
  have ne: "c \<noteq> char_of (n :: nat)" if "n < 0x21 \<or> 0x7E < n" "n < 256" for n
    using b that by auto
  show "\<not> jsonSpace c" using b by (auto simp: jsonSpace_def)
  show "\<not> spaceByte c" using b by (auto simp: spaceByte_def spaceRunes_def)
qed

lemma jsonString_plain:
  "list_all plainChar g \<Longrightarrow> jsonString (g @ CHR 0x22 # rest) = Some (g, rest)"
proof (induction g)
  case (Cons c g)
  then show ?case using plainChar_codes [of c] by (simp add: consOut_def plainChar_def)
qed simp

lemma skipSpace_plain [simp]: "\<not> jsonSpace c \<Longrightarrow> skipSpace (c # s) = c # s"
  by (simp add: skipSpace_def)

lemma not_jsonSpace [simp]:
  "\<not> jsonSpace (CHR 0x22)" "\<not> jsonSpace (CHR '','')" "\<not> jsonSpace (CHR '']'')" "\<not> jsonSpace (CHR ''['')"
  by (simp_all add: jsonSpace_def)

lemma skipSpace_Nil [simp]: "skipSpace [] = []"
  by (simp add: skipSpace_def)

lemma jsonElements_quoted:
  "gs \<noteq> [] \<Longrightarrow> list_all (list_all plainChar) gs \<Longrightarrow> length gs \<le> n \<Longrightarrow>
    jsonElements n (joinWith (CHR '','') (map quoted gs) @ [CHR '']'']) = Some (gs, [])"
proof (induction gs arbitrary: n)
  case (Cons g gs)
  then obtain n' where n: "n = Suc n'" by (cases n) auto
  show ?case
  proof (cases gs)
    case Nil
    with Cons n show ?thesis by (simp add: quoted_def jsonElement_def jsonString_plain)
  next
    case (Cons h hs)
    then have "joinWith (CHR '','') (map quoted (g # gs)) @ [CHR '']'']
        = CHR 0x22 # g @ CHR 0x22 # CHR '','' # joinWith (CHR '','') (map quoted gs) @ [CHR '']'']"
      by (simp add: quoted_def)
    moreover have "jsonElements n' (joinWith (CHR '','') (map quoted gs) @ [CHR '']'']) = Some (gs, [])"
      using Cons.IH [of n'] Cons.prems Cons n by simp
    ultimately show ?thesis
      using Cons.prems by (simp add: n jsonElement_def jsonString_plain)
  qed
qed simp

lemma length_joinWith: "length gs \<le> Suc (length (joinWith sep gs))"
  by (induction sep gs rule: joinWith.induct) auto

lemma unmarshal_jsonArray:
  assumes "gs \<noteq> []" "list_all (list_all plainChar) gs"
  shows "unmarshalStrings (jsonArray gs) = Some gs"
proof -
  have "length gs \<le> length (jsonArray gs)"
    using length_joinWith [of "map quoted gs" "CHR '',''"] by (simp add: jsonArray_def)
  moreover obtain t where "joinWith (CHR '','') (map quoted gs) @ [CHR '']''] = CHR 0x22 # t"
    using assms(1) by (cases gs; cases "tl gs") (auto simp: quoted_def)
  ultimately show ?thesis
    using jsonElements_quoted [OF assms, of "length (jsonArray gs)"]
    by (simp add: unmarshalStrings_def jsonArray_def)
qed

lemma plainGroup_trim: "plainGroup g \<Longrightarrow> TrimSpace g = g"
  by (rule TrimSpace_id) (auto simp: plainGroup_def list_all_iff plainChar_codes)

lemma plainGroup_lists: "list_all plainGroup gs \<Longrightarrow> list_all (list_all plainChar) gs"
  by (simp add: list_all_iff plainGroup_def)

lemma valid_plain:
  "list_all plainGroup gs \<Longrightarrow> filter (\<lambda>g. g \<noteq> []) (map TrimSpace gs) = gs"
  by (induction gs) (auto simp: plainGroup_trim, simp add: plainGroup_def)

lemma splitFields_plain:
  "list_all plainChar g \<Longrightarrow> splitFields cur (g @ s) = splitFields (rev g @ cur) s"
proof (induction g arbitrary: cur)
  case (Cons c g)
  then have "leadingSpace spaceRunes (c # g @ s) = None"
    using plainChar_codes(4) [of c] by (intro leadingSpace_first) (simp add: spaceByte_def)
  with Cons show ?case by simp
qed simp

lemma splitFields_space:
  "splitFields cur (CHR 0x20 # s) = (if cur = [] then [] else [rev cur]) @ splitFields [] s"
proof -
  have "leadingSpace spaceRunes (CHR 0x20 # s) = Some [CHR 0x20]"
    by (simp add: leadingSpace_def spaceRunes_def)
  then show ?thesis by simp
qed

lemma Fields_joined: "list_all plainGroup gs \<Longrightarrow> Fields (joinWith (CHR 0x20) gs) = gs"
proof (induction "CHR 0x20" gs rule: joinWith.induct)
  case (2 g)
  then show ?case
    using splitFields_plain [of g "[]" "[]"] by (simp add: Fields_def plainGroup_def)
next
  case (3 g h gs)
  then show ?case
    using splitFields_plain [of g "[]" "CHR 0x20 # joinWith (CHR 0x20) (h # gs)"]
    by (simp add: Fields_def plainGroup_def splitFields_space del: splitFields.simps(2))
qed (simp add: Fields_def)

lemma joinWith_head:
  "gs \<noteq> [] \<Longrightarrow> \<exists>x t. joinWith sep gs @ [CHR '']''] = hd gs @ x # t \<and> (x = sep \<or> x = CHR '']'')"
  by (cases gs; cases "tl gs") auto

lemma unmarshal_bracketed:
  assumes "gs \<noteq> []" "list_all plainGroup gs" "\<not> prefix ''null'' (hd gs)"
  shows "unmarshalStrings (bracketed gs) = None"
proof -
  obtain x t where j: "joinWith (CHR 0x20) gs @ [CHR '']''] = hd gs @ x # t" "x = CHR 0x20 \<or> x = CHR '']''"
    using joinWith_head [OF assms(1)] by blast
  obtain c g where hd: "hd gs = c # g" "plainChar c"
    using assms(1,2) by (cases gs; cases "hd gs") (auto simp: plainGroup_def)
  have "\<not> prefix ''null'' (hd gs @ x # t)"
    using assms(3) j(2) by (auto simp: prefix_append append_eq_Cons_conv Cons_eq_append_conv prefix_Cons)
  then have null: "take 4 (c # g @ x # t) \<noteq> ''null''"
    unfolding hd(1) by (metis append_Cons take_is_prefix)
  have "jsonElement (c # g @ x # t) = None"
    using hd(2) null by (simp add: jsonElement_def plainChar_def)
  moreover have "c \<noteq> CHR '']''" "\<not> jsonSpace c" using hd(2) plainChar_codes(3) by (auto simp: plainChar_def)
  ultimately show ?thesis
    by (simp add: unmarshalStrings_def bracketed_def j(1) hd(1))
qed

lemma bracketed_trim: "TrimSpace (bracketed gs) = bracketed gs"
  by (rule TrimSpace_id) (simp_all add: bracketed_def spaceByte_def spaceRunes_def)

section \<open>Properties\<close>

text \<open>
  Both formats of the group header decode to the same groups. For any non-empty list of plain
  group names, the JSON array and the bracket format that Authorino writes are read back as
  exactly that list; the bracket format needs a first name that does not begin like the JSON
  literal \<open>null\<close>.
\<close>

theorem ParseGroupsHeader_roundtrip:
  assumes "gs \<noteq> []" and "list_all plainGroup gs"
  shows "ParseGroupsHeader (jsonArray gs) = Inr gs
    \<and> (prefix ''null'' (hd gs) \<or> ParseGroupsHeader (bracketed gs) = Inr gs)"
proof
  show "ParseGroupsHeader (jsonArray gs) = Inr gs"
    using assms(1) unmarshal_jsonArray [OF assms(1) plainGroup_lists [OF assms(2)]]
    by (simp add: ParseGroupsHeader_def valid_plain [OF assms(2)]) (simp add: jsonArray_def)
  have "take (length (bracketed gs) - 2) (drop 1 (bracketed gs)) = joinWith (CHR 0x20) gs"
    by (simp add: bracketed_def)
  moreover have "prefix ''['' (bracketed gs)" "suffix '']'' (bracketed gs)" "bracketed gs \<noteq> []"
    by (simp_all add: bracketed_def suffix_def)
  ultimately show "prefix ''null'' (hd gs) \<or> ParseGroupsHeader (bracketed gs) = Inr gs"
    using assms(1) unmarshal_bracketed [OF assms] Fields_joined [OF assms(2)] valid_plain [OF assms(2)]
    by (cases "prefix ''null'' (hd gs)") (simp_all add: ParseGroupsHeader_def bracketed_trim Let_def)
qed

theorem ParseGroupsHeader_roundtrip_witness:
  "ParseGroupsHeader (jsonArray [''dev'', ''system:all'']) = Inr [''dev'', ''system:all'']
    \<and> (prefix ''null'' (hd [''dev'', ''system:all''])
       \<or> ParseGroupsHeader (bracketed [''dev'', ''system:all'']) = Inr [''dev'', ''system:all''])"
  by (rule ParseGroupsHeader_roundtrip) (simp_all add: plainGroup_def plainChar_def byteIn_def)

lemma ParseGroupsHeader_valid:
  assumes "ParseGroupsHeader header = Inr groups"
  shows "groups \<noteq> [] \<and> (\<forall>g\<in>set groups. g \<noteq> [] \<and> TrimSpace g = g)"
  using assms by (auto simp: ParseGroupsHeader_def Let_def split: if_splits sum.splits option.splits)

lemma sample_groups: "ParseGroupsHeader (jsonArray [''dev'']) = Inr [''dev'']"
  using unmarshal_jsonArray [of "[''dev'']"] plainGroup_trim [of "''dev''"]
  by (simp add: ParseGroupsHeader_def plainGroup_def plainChar_def byteIn_def)
    (simp add: jsonArray_def)

text \<open>
  The identity of a request. When a request goes on with a user, the user has a non-empty
  trimmed name, at least one group, no blank group, and the tenant of this deployment, which no
  header can change. A request without a usable identity is refused by the strict middleware, and
  passes the lenient one only without any identity header.
\<close>

theorem ExtractUserInfo_identity:
  assumes "ExtractUserInfo t u g = Next ctx \<or> ExtractUserInfoOptional t u g = Next ctx"
  shows "case ctx of
      User uc \<Rightarrow> uc_Username uc = TrimSpace u \<and> uc_Username uc \<noteq> [] \<and> uc_Groups uc \<noteq> []
        \<and> (\<forall>x\<in>set (uc_Groups uc). x \<noteq> [] \<and> TrimSpace x = x) \<and> uc_Tenant uc = t
    | NoUser \<Rightarrow> TrimSpace u = [] \<and> g = [] \<and> ExtractUserInfo t u g = authFailure ''001''
    | BadUser \<Rightarrow> False"
  using assms ParseGroupsHeader_valid [of g]
  by (auto simp: ExtractUserInfo_def ExtractUserInfoOptional_def authFailure_def Let_def
      split: if_splits sum.splits)

theorem ExtractUserInfo_identity_witness:
  "\<exists>uc. ExtractUserInfo ''red'' ''alice'' (jsonArray [''dev'']) = Next (User uc) \<and> uc_Tenant uc = ''red''"
proof -
  note sample_groups
  moreover have "TrimSpace ''alice'' = ''alice''" by (simp add: TrimSpace_id spaceByte_def spaceRunes_def)
  moreover have "jsonArray [''dev''] \<noteq> []" by (simp add: jsonArray_def)
  ultimately have "\<exists>ctx. ExtractUserInfo ''red'' ''alice'' (jsonArray [''dev'']) = Next (User ctx)"
    by (simp add: ExtractUserInfo_def)
  then obtain ctx where e: "ExtractUserInfo ''red'' ''alice'' (jsonArray [''dev'']) = Next (User ctx)"
    by blast
  with ExtractUserInfo_identity [OF disjI1, OF e] show ?thesis by auto
qed

end
