(* ===== verification/KeyHandler.thy ===== *)
theory KeyHandler
  imports KeyService TokenHeaders
begin

text \<open>
  \<open>maas-api/internal/api_keys/handler.go\<close>: the HTTP handlers of API keys. What a handler reads of a
  request is an argument: the user of the context, the path parameter, and the bound body or the
  decoder's error. The administrator check is a function that may fail; recorded metrics are
  returned as events. A handler that makes several storage calls takes an environment for each.
\<close>

datatype key_body =
    ErrorText string
  | ErrorOf api_error
  | ErrorCode string string
  | KeyBody ApiKey
  | CreatedBody CreateAPIKeyResponse
  | ValidationBody ValidationResult
  | SearchBody "ApiKey list" bool
  | CountBody nat bool
  | ConfigBody int duration

datatype metric =
    KeyValidation string string
  | TokenMint string string
  | Rejection string

definition reply :: "nat \<Rightarrow> key_body \<Rightarrow> key_body http" where
  "reply status body = \<lparr>http_Status = status, http_Body = body\<rparr>"

definition whenMetrics :: "bool \<Rightarrow> metric list \<Rightarrow> metric list" where
  "whenMetrics hasMetrics ms = (if hasMetrics then ms else [])"

type_synonym adminCheck = "UserContext \<Rightarrow> (string, bool) result"

definition GetAPIKeyConfig :: "Service \<Rightarrow> key_body http" where
  "GetAPIKeyConfig svc =
     reply 200 (ConfigBody (GetMaxExpirationDays svc) DefaultEphemeralKeyMaxExpiration)"

definition getUserContext :: "ctx_user \<Rightarrow> (key_body http, UserContext) result" where
  "getUserContext ctx =
     (case ctx of
        NoUser \<Rightarrow> Err (reply 500 (ErrorText ''User context not found''))
      | BadUser \<Rightarrow> Err (reply 500 (ErrorText ''Invalid user context type''))
      | User u \<Rightarrow> Ok u)"

definition isAuthorizedForKey ::
  "adminCheck \<Rightarrow> UserContext \<Rightarrow> string \<Rightarrow> string \<Rightarrow> (string, bool) result" where
  "isAuthorizedForKey admin user keyOwner keyTenant =
     (if uc_Tenant user \<noteq> keyTenant then Ok False
      else if uc_Username user = keyOwner then Ok True
      else admin user)"

definition keyNotFound :: "key_body http" where
  "keyNotFound = reply 404 (ErrorText ''API key not found'')"

definition h_GetAPIKey ::
  "'s MetadataStore \<Rightarrow> adminCheck \<Rightarrow> env \<Rightarrow> ctx_user \<Rightarrow> string \<Rightarrow> 's \<Rightarrow> key_body http" where
  "h_GetAPIKey store admin e ctx tokenID st =
     (if tokenID = [] then reply 400 (ErrorText ''Token ID required'')
      else
        (case getUserContext ctx of
           Inl resp \<Rightarrow> resp
         | Inr user \<Rightarrow>
             (case GetAPIKey store e tokenID st of
                Inl err \<Rightarrow>
                  if errorsIs err ErrKeyNotFound then keyNotFound
                  else reply 500 (ErrorText ''Failed to retrieve API key'')
              | Inr tok \<Rightarrow>
                  (case isAuthorizedForKey admin user (key_Username tok) (key_Tenant tok) of
                     Inl authErr \<Rightarrow> keyNotFound
                   | Inr authorized \<Rightarrow> if \<not> authorized then keyNotFound else reply 200 (KeyBody tok)))))"

section \<open>Labels\<close>

definition MaxLabelsEntries :: nat where "MaxLabelsEntries = 50"
definition MaxLabelKeyLength :: nat where "MaxLabelKeyLength = 128"
definition MaxLabelValueLength :: nat where "MaxLabelValueLength = 1024"

lemmas label_limits = MaxLabelsEntries_def MaxLabelKeyLength_def MaxLabelValueLength_def

definition dnsChar :: "char \<Rightarrow> bool" where
  "dnsChar c \<longleftrightarrow> isAlnum c \<or> c = CHR ''.'' \<or> c = CHR ''-''"

definition nameChar :: "char \<Rightarrow> bool" where
  "nameChar c \<longleftrightarrow> isAlnum c \<or> c = CHR ''.'' \<or> c = CHR ''_'' \<or> c = CHR ''-''"

text \<open>\<open>[a-zA-Z0-9](C*[a-zA-Z0-9])?\<close> for a class \<open>C\<close>: a part of a label key.\<close>

definition labelPart :: "(char \<Rightarrow> bool) \<Rightarrow> re" where
  "labelPart p =
     RSeq (RClass isAlnum) (ROpt (RSeq (RStar (RClass p)) (RClass isAlnum)))"

definition validLabelKeyPattern :: re where
  "validLabelKeyPattern =
     RSeq (ROpt (RSeq (labelPart dnsChar) (RClass (\<lambda>c. c = CHR ''/'')))) (labelPart nameChar)"

text \<open>\<open>%d\<close> of a non-negative integer.\<close>

fun decimal :: "nat \<Rightarrow> string" where
  "decimal n = (if n < 10 then [char_of (48 + n)] else decimal (n div 10) @ [char_of (48 + n mod 10)])"

declare decimal.simps [simp del]

text \<open>\<open>'%s'\<close>: a text between single quotes.\<close>

definition singleQuoted :: "string \<Rightarrow> string" where
  "singleQuoted s = CHR 0x27 # s @ [CHR 0x27]"

fun validateLabelPairs :: "labels \<Rightarrow> string option" where
  "validateLabelPairs [] = None"
| "validateLabelPairs ((key, value) # rest) =
     (if length key = 0 then Some ''label keys cannot be empty''
      else if length key > MaxLabelKeyLength
      then Some (''label key '' @ singleQuoted key @ '' exceeds '' @ decimal MaxLabelKeyLength @ '' characters'')
      else if \<not> reMatch validLabelKeyPattern key
      then Some (''label key '' @ singleQuoted key
        @ '' contains invalid characters (only alphanumerics, dots, underscores, hyphens allowed)'')
      else if length value = 0
      then Some (''label value for key '' @ singleQuoted key @ '' cannot be empty'')
      else if length value > MaxLabelValueLength
      then Some (''label value for key '' @ singleQuoted key @ '' exceeds '' @ decimal MaxLabelValueLength
        @ '' characters'')
      else if list_ex isControl value
      then Some (''label value for key '' @ singleQuoted key @ '' contains invalid control characters'')
      else validateLabelPairs rest)"

definition validateLabels :: "labels \<Rightarrow> string option" where
  "validateLabels labels =
     (if length labels > MaxLabelsEntries
      then Some (''labels cannot exceed '' @ decimal MaxLabelsEntries @ '' key-value pairs'')
      else validateLabelPairs labels)"

section \<open>Creating\<close>

record CreateAPIKeyRequest =
  creq_Name :: string
  creq_Description :: string
  creq_Subscription :: string
  creq_ExpiresIn :: "duration option"
  creq_Ephemeral :: bool
  creq_Labels :: labels

text \<open>The checks of a key name, or the generated name of an ephemeral key.\<close>

definition checkKeyName :: "time \<Rightarrow> bool \<Rightarrow> string \<Rightarrow> (string, string) result" where
  "checkKeyName nowNano ephemeral name0 =
     (if ephemeral \<and> name0 = [] then Ok (''ephemeral-'' @ decimal (nat nowNano))
      else
        let name = TrimSpace name0
        in if length name = 0 then Err ''key name cannot be whitespace only''
           else if RuneCountInString name > 128 then Err ''key name cannot exceed 128 characters''
           else if list_ex isControl name then Err ''key name contains invalid control characters''
           else Ok name)"

text \<open>How an error of the service is answered, and which metric it counts as.\<close>

definition createErrorReply :: "api_error \<Rightarrow> key_body http \<times> string" where
  "createErrorReply err =
     (if errorsIs err ErrExpirationNotPositive \<or> errorsIs err ErrExpirationExceedsMax
      then (reply 400 (ErrorOf err), ''rejected'')
      else
        (case errorRoot err of
           ErrSelect (ModelUnhealthy e) \<Rightarrow>
             (reply (if mue_Phase e = ''Failed'' then 403 else 400)
                (ErrorCode (mue_Message e) ''subscription_not_ready''), ''rejected'')
         | ErrSelect (SelOther t) \<Rightarrow> (reply 500 (ErrorText ''Failed to create API key''), ''failure'')
         | ErrSelect _ \<Rightarrow>
             (reply 400 (ErrorCode ''Unable to resolve a subscription for this API key'' ''invalid_subscription''),
              ''rejected'')
         | _ \<Rightarrow> (reply 500 (ErrorText ''Failed to create API key''), ''failure'')))"

definition h_CreateAPIKey ::
  "bool \<Rightarrow> Service \<Rightarrow> 's MetadataStore \<Rightarrow> env \<Rightarrow> mint \<Rightarrow> time \<Rightarrow> ctx_user
    \<Rightarrow> (string, CreateAPIKeyRequest) result \<Rightarrow> 's \<Rightarrow> key_body http \<times> metric list \<times> 's" where
  "h_CreateAPIKey hasMetrics svc store e mi nowNano ctx bound st =
     (case bound of
        Inl err \<Rightarrow> (reply 400 (ErrorText err), [], st)
      | Inr req \<Rightarrow>
          (case getUserContext ctx of
             Inl resp \<Rightarrow> (resp, [], st)
           | Inr user \<Rightarrow>
               if \<not> creq_Ephemeral req \<and> creq_Name req = []
               then (reply 400 (ErrorText ''name is required for non-ephemeral keys''), [], st)
               else
                 (case validateLabels (creq_Labels req) of
                    Some err \<Rightarrow> (reply 400 (ErrorText err), [], st)
                  | None \<Rightarrow>
                      (case checkKeyName nowNano (creq_Ephemeral req) (creq_Name req) of
                         Inl err \<Rightarrow> (reply 400 (ErrorText err), [], st)
                       | Inr name \<Rightarrow>
                           let expiresIn = (case creq_ExpiresIn req of
                                 Some d \<Rightarrow> Some d
                               | None \<Rightarrow> if creq_Ephemeral req then Some (1 * hour) else None)
                           in case CreateAPIKey svc store e mi (uc_Username user) (uc_Groups user) name
                                     (creq_Description req) expiresIn (creq_Ephemeral req)
                                     (TrimSpace (creq_Subscription req)) (uc_Tenant user)
                                     (creq_Labels req) st of
                                (Inl err, st') \<Rightarrow>
                                  (case createErrorReply err of
                                     (resp, outcome) \<Rightarrow>
                                       (resp, whenMetrics hasMetrics [TokenMint (uc_Tenant user) outcome], st'))
                              | (Inr result, st') \<Rightarrow>
                                  (reply 201 (CreatedBody result),
                                   whenMetrics hasMetrics [TokenMint (uc_Tenant user) ''success''], st')))))"

section \<open>Validating\<close>

definition ValidateAPIKeyHandler ::
  "bool \<Rightarrow> Service \<Rightarrow> 's MetadataStore \<Rightarrow> env \<Rightarrow> string option \<Rightarrow> slots \<Rightarrow> 's
    \<Rightarrow> key_body http \<times> metric list \<times> 's \<times> slots \<times> (string \<times> time option) option" where
  "ValidateAPIKeyHandler hasMetrics svc store e bound m st =
     (case bound of
        None \<Rightarrow> (reply 400 (ErrorText ''key is required''), [], st, m, None)
      | Some key \<Rightarrow>
          (case ValidateAPIKey svc store e key m st of
             (Inl err, st', m', job) \<Rightarrow>
               (reply 500 (ErrorText ''validation failed''),
                whenMetrics hasMetrics [KeyValidation (GetTenantName svc) ''error''], st', m', job)
           | (Inr result, st', m', job) \<Rightarrow>
               (reply 200 (ValidationBody result),
                whenMetrics hasMetrics
                  ([KeyValidation (vr_Tenant result) (if vr_Valid result then ''valid'' else ''invalid'')]
                   @ (if vr_Valid result then [] else [Rejection ''unauthorized''])),
                st', m', job)))"

section \<open>Revoking\<close>

definition h_RevokeAPIKey ::
  "'s MetadataStore \<Rightarrow> adminCheck \<Rightarrow> env \<Rightarrow> env \<Rightarrow> env \<Rightarrow> ctx_user \<Rightarrow> string \<Rightarrow> 's
    \<Rightarrow> key_body http \<times> 's" where
  "h_RevokeAPIKey store admin e1 e2 e3 ctx keyID st =
     (if keyID = [] then (reply 400 (ErrorText ''API key ID required''), st)
      else
        (case getUserContext ctx of
           Inl resp \<Rightarrow> (resp, st)
         | Inr user \<Rightarrow>
             (case GetAPIKey store e1 keyID st of
                Inl err \<Rightarrow>
                  (if errorsIs err ErrKeyNotFound then keyNotFound
                   else reply 500 (ErrorText ''Failed to retrieve API key''), st)
              | Inr metadata \<Rightarrow>
                  (case isAuthorizedForKey admin user (key_Username metadata) (key_Tenant metadata) of
                     Inl authErr \<Rightarrow> (keyNotFound, st)
                   | Inr authorized \<Rightarrow>
                       if \<not> authorized then (keyNotFound, st)
                       else
                         (case RevokeAPIKey store e2 keyID st of
                            (Inl err, st') \<Rightarrow>
                              (if errorsIs err ErrKeyNotFound then keyNotFound
                               else reply 500 (ErrorText ''Failed to revoke API key''), st')
                          | (Inr _, st') \<Rightarrow>
                              (case GetAPIKey store e3 keyID st' of
                                 Inl err \<Rightarrow>
                                   (reply 500 (ErrorText ''Key revoked but failed to retrieve metadata''), st')
                               | Inr revokedKey \<Rightarrow> (reply 200 (KeyBody revokedKey), st')))))))"

definition CleanupExpiredEphemeralKeys ::
  "'s MetadataStore \<Rightarrow> env \<Rightarrow> 's \<Rightarrow> key_body http \<times> 's" where
  "CleanupExpiredEphemeralKeys store e st =
     (case CleanupExpiredEphemeral store e st of
        (Inl err, st') \<Rightarrow> (reply 500 (ErrorText ''Failed to cleanup expired ephemeral keys''), st')
      | (Inr n, st') \<Rightarrow> (reply 200 (CountBody n False), st'))"

definition h_RevokeTenantAPIKeys ::
  "Service \<Rightarrow> 's MetadataStore \<Rightarrow> env \<Rightarrow> string \<Rightarrow> 's \<Rightarrow> key_body http \<times> 's" where
  "h_RevokeTenantAPIKeys svc store e tenantParam st =
     (case RevokeTenantAPIKeys svc store e (TrimSpace tenantParam) st of
        (Inl err, st') \<Rightarrow>
          (if errorsIs err ErrTenantRequired then reply 400 (ErrorText ''tenant is required'')
           else if errorsIs err ErrTenantMismatch then reply 400 (ErrorText ''tenant mismatch'')
           else reply 500 (ErrorText ''Failed to revoke tenant API keys''), st')
      | (Inr n, st') \<Rightarrow> (reply 200 (CountBody n False), st'))"

record BulkRevokeRequest =
  breq_Username :: string
  breq_Subscription :: string
  breq_DryRun :: bool

definition h_BulkRevokeAPIKeys ::
  "'s MetadataStore \<Rightarrow> adminCheck \<Rightarrow> env \<Rightarrow> ctx_user \<Rightarrow> (string, BulkRevokeRequest) result \<Rightarrow> 's
    \<Rightarrow> key_body http \<times> 's" where
  "h_BulkRevokeAPIKeys store admin e ctx bound st =
     (case bound of
        Inl err \<Rightarrow> (reply 400 (ErrorText err), st)
      | Inr req \<Rightarrow>
          let username = TrimSpace (breq_Username req);
              subscription = TrimSpace (breq_Subscription req)
          in if username = [] \<and> subscription = []
             then (reply 400 (ErrorText ''at least one of username or subscription is required''), st)
             else
               (case getUserContext ctx of
                  Inl resp \<Rightarrow> (resp, st)
                | Inr user \<Rightarrow>
                    let needsAdmin = (subscription \<noteq> [] \<or> (username \<noteq> [] \<and> username \<noteq> uc_Username user));
                        proceed =
                          (if breq_DryRun req
                           then (case BulkRevokeAPIKeys store e username subscription (uc_Tenant user) True st of
                                   (Inl err, st') \<Rightarrow> (reply 500 (ErrorText ''Failed to perform dry-run''), st')
                                 | (Inr n, st') \<Rightarrow> (reply 200 (CountBody n True), st'))
                           else (case BulkRevokeAPIKeys store e username subscription (uc_Tenant user) False st of
                                   (Inl err, st') \<Rightarrow> (reply 500 (ErrorText ''Failed to revoke API keys''), st')
                                 | (Inr n, st') \<Rightarrow> (reply 200 (CountBody n False), st')))
                    in if needsAdmin
                       then (case admin user of
                               Inl adminErr \<Rightarrow> (reply 500 (ErrorText ''Failed to check authorization''), st)
                             | Inr isAdmin \<Rightarrow>
                                 if \<not> isAdmin
                                 then (reply 403 (ErrorText ''Access denied: admin privileges required for this bulk revoke operation''), st)
                                 else proceed)
                       else proceed))"

section \<open>Searching\<close>

record SearchAPIKeysRequest =
  sreq_Filters :: "SearchFilters option"
  sreq_Sort :: "SortParams option"
  sreq_Pagination :: "PaginationParams option"

text \<open>
  The checks of \<open>SearchAPIKeys\<close> in their order: whose keys are searched, the sort parameters, the
  page. Each is refused with an answer or passes on what the next step uses.
\<close>

definition searchTarget :: "UserContext \<Rightarrow> bool \<Rightarrow> string \<Rightarrow> (key_body http, string) result" where
  "searchTarget user isAdmin targetUsername =
     (if \<not> isAdmin then
        (if targetUsername \<noteq> [] \<and> targetUsername \<noteq> uc_Username user
         then Err (reply 403 (ErrorText ''non-admin users can only search their own API keys''))
         else Ok (uc_Username user))
      else Ok targetUsername)"

definition checkSort :: "SortParams \<Rightarrow> (key_body http, SortParams) result" where
  "checkSort srt =
     (if sp_By srt \<noteq> [] \<and> sp_By srt \<notin> set ValidSortFields
      then Err (reply 400 (ErrorText ''invalid sort.by: must be one of: created_at, expires_at, last_used_at, name''))
      else if sp_Order srt \<noteq> []
      then let orderLower = ToLower (TrimSpace (sp_Order srt))
           in if orderLower \<notin> set ValidSortOrders
              then Err (reply 400 (ErrorText ''invalid sort.order: must be asc or desc''))
              else Ok (srt\<lparr>sp_Order := orderLower\<rparr>)
      else Ok srt)"

definition checkPage :: "PaginationParams \<Rightarrow> (key_body http, PaginationParams) result" where
  "checkPage pagination =
     (if pg_Limit pagination < 1
      then Err (reply 400 (ErrorText ''pagination.limit must be at least 1''))
      else
        let capped = (if pg_Limit pagination > MaxLimit then pagination\<lparr>pg_Limit := MaxLimit\<rparr> else pagination)
        in if pg_Offset capped < 0
           then Err (reply 400 (ErrorText ''pagination.offset must be non-negative''))
           else Ok capped)"

definition runSearch ::
  "'s MetadataStore \<Rightarrow> env \<Rightarrow> UserContext \<Rightarrow> string \<Rightarrow> SearchFilters \<Rightarrow> SortParams \<Rightarrow> PaginationParams
    \<Rightarrow> 's \<Rightarrow> key_body http" where
  "runSearch store e user target filters srt pagination st =
     (case checkSort srt of
        Inl resp \<Rightarrow> resp
      | Inr srt' \<Rightarrow>
          (case checkPage pagination of
             Inl resp \<Rightarrow> resp
           | Inr pagination' \<Rightarrow>
               (case validateLabels (sf_LabelsContain filters) of
                  Some err \<Rightarrow> reply 400 (ErrorText err)
                | None \<Rightarrow>
                    (case svc_Search store e target (uc_Tenant user) filters srt' pagination' st of
                       Inl err \<Rightarrow> reply 500 (ErrorText ''Failed to search API keys'')
                     | Inr result \<Rightarrow> reply 200 (SearchBody (pr_Keys result) (pr_HasMore result))))))"

definition SearchAPIKeys ::
  "'s MetadataStore \<Rightarrow> adminCheck \<Rightarrow> env \<Rightarrow> ctx_user \<Rightarrow> (string, SearchAPIKeysRequest) result \<Rightarrow> 's
    \<Rightarrow> key_body http" where
  "SearchAPIKeys store admin e ctx bound st =
     (if ctx = NoUser then reply 200 (SearchBody [] False)
      else
        (case bound of
           Inl err \<Rightarrow> reply 400 (ErrorText err)
         | Inr req \<Rightarrow>
             (case ctx of
                User user \<Rightarrow>
                  let filters = (case sreq_Filters req of None \<Rightarrow> emptyFilters | Some f \<Rightarrow> f);
                      srt = (case sreq_Sort req of
                          None \<Rightarrow> \<lparr>sp_By = DefaultSortBy, sp_Order = DefaultSortOrder\<rparr> | Some s \<Rightarrow> s);
                      pagination = (case sreq_Pagination req of
                          None \<Rightarrow> \<lparr>pg_Limit = DefaultLimit, pg_Offset = 0\<rparr> | Some p \<Rightarrow> p)
                  in case find (\<lambda>s. TrimSpace s \<notin> set ValidStatuses) (sf_Status filters) of
                       Some bad \<Rightarrow>
                         reply 400 (ErrorText (''invalid status '' @ singleQuoted bad
                           @ '': must be active, revoked, or expired''))
                     | None \<Rightarrow>
                       (case admin user of
                          Inl adminErr \<Rightarrow> reply 500 (ErrorText ''Failed to check authorization'')
                        | Inr isAdmin \<Rightarrow>
                            (case searchTarget user isAdmin (sf_Username filters) of
                               Inl resp \<Rightarrow> resp
                             | Inr target \<Rightarrow> runSearch store e user target filters srt pagination st))
              | _ \<Rightarrow> reply 500 (ErrorText ''Invalid user context type''))))"

section \<open>What the label pattern accepts\<close>

text \<open>A part of a key: starts and ends with an alphanumeric, and has only characters of its class.\<close>

definition partOk :: "(char \<Rightarrow> bool) \<Rightarrow> string \<Rightarrow> bool" where
  "partOk p s \<longleftrightarrow> s \<noteq> [] \<and> isAlnum (hd s) \<and> isAlnum (last s) \<and> (\<forall>c\<in>set s. p c)"

definition labelKeyOk :: "string \<Rightarrow> bool" where
  "labelKeyOk key \<longleftrightarrow> partOk nameChar key \<or>
     (\<exists>pre nm. key = pre @ CHR ''/'' # nm \<and> partOk dnsChar pre \<and> partOk nameChar nm)"

lemma reLang_class_iff: "reLang (RClass p) s \<longleftrightarrow> (\<exists>c. s = [c] \<and> p c)"
  by (auto elim: reLang.cases intro: reLang.intros)

lemma labelPart_iff:
  assumes "\<And>c. isAlnum c \<Longrightarrow> p c"
  shows "reLang (labelPart p) s \<longleftrightarrow> partOk p s"
proof
  assume "reLang (labelPart p) s"
  then obtain a t where s: "s = a # t" "isAlnum a"
    and t: "t = [] \<or> (\<exists>u b. t = u @ [b] \<and> (\<forall>c\<in>set u. p c) \<and> isAlnum b)"
    by (auto simp: labelPart_def reLang_seq_iff reLang_opt_iff reLang_class_iff reLang_star_class)
  from t s show "partOk p s" using assms by (auto simp: partOk_def)
next
  assume ok: "partOk p s"
  then obtain a t where s: "s = a # t" by (cases s) (auto simp: partOk_def)
  show "reLang (labelPart p) s"
  proof (cases t rule: rev_cases)
    case Nil
    then show ?thesis using ok s
      by (auto simp: labelPart_def reLang_seq_iff reLang_opt_iff reLang_class_iff partOk_def)
  next
    case (snoc u b)
    then have "isAlnum a" "isAlnum b" "\<forall>c\<in>set u. p c" using ok s by (auto simp: partOk_def)
    then have "reLang (ROpt (RSeq (RStar (RClass p)) (RClass isAlnum))) (u @ [b])"
      by (auto simp: reLang_opt_iff reLang_seq_iff reLang_class_iff reLang_star_class)
    with \<open>isAlnum a\<close> s snoc show ?thesis
      unfolding labelPart_def reLang_seq_iff
      by (intro exI [of _ "[a]"] exI [of _ "u @ [b]"]) (simp add: reLang_class_iff)
  qed
qed

lemma validLabelKey_iff: "reMatch validLabelKeyPattern key \<longleftrightarrow> labelKeyOk key"
proof -
  have d: "reLang (labelPart dnsChar) s \<longleftrightarrow> partOk dnsChar s" for s
    by (rule labelPart_iff) (simp add: dnsChar_def)
  have n: "reLang (labelPart nameChar) s \<longleftrightarrow> partOk nameChar s" for s
    by (rule labelPart_iff) (simp add: nameChar_def)
  have "reMatch validLabelKeyPattern key \<longleftrightarrow>
      (\<exists>u v. key = u @ v \<and> (u = [] \<or> (\<exists>pre. u = pre @ [CHR ''/''] \<and> partOk dnsChar pre)) \<and> partOk nameChar v)"
    unfolding reMatch_iff validLabelKeyPattern_def
    by (auto simp: reLang_seq_iff reLang_opt_iff reLang_class_iff d n)
  also have "\<dots> \<longleftrightarrow> labelKeyOk key"
  proof
    assume "labelKeyOk key"
    then consider "partOk nameChar key"
      | pre nm where "key = (pre @ [CHR ''/'']) @ nm" "partOk dnsChar pre" "partOk nameChar nm"
      by (auto simp: labelKeyOk_def)
    then show "\<exists>u v. key = u @ v \<and> (u = [] \<or> (\<exists>pre. u = pre @ [CHR ''/''] \<and> partOk dnsChar pre))
        \<and> partOk nameChar v"
      by cases blast+
  qed (auto simp: labelKeyOk_def)
  finally show ?thesis .
qed

definition labelOk :: "string \<times> string \<Rightarrow> bool" where
  "labelOk kv \<longleftrightarrow> labelKeyOk (fst kv) \<and> length (fst kv) \<le> 128
     \<and> snd kv \<noteq> [] \<and> length (snd kv) \<le> 1024 \<and> (\<forall>c\<in>set (snd kv). \<not> isControl c)"

lemma labelKeyOk_nonempty: "labelKeyOk key \<Longrightarrow> key \<noteq> []"
  by (auto simp: labelKeyOk_def partOk_def)

lemma validateLabelPairs_iff: "validateLabelPairs ls = None \<longleftrightarrow> list_all labelOk ls"
proof (induction ls rule: validateLabelPairs.induct)
  case (2 k v rest)
  then show ?case
    using labelKeyOk_nonempty [of k]
    by (simp add: labelOk_def validLabelKey_iff label_limits list_ex_iff not_less del: reMatch.simps) blast
qed simp

section \<open>Reading one key\<close>

lemma pg_Get_OkD:
  assumes "pg_Get t e i rows = Inr k"
  shows "\<exists>r\<in>set rows. row_id r = i \<and> row_tenant r = t \<and> k = scanSearch (dbNow e) r"
  using assms by (auto simp: pg_Get_def dest!: find_SomeD split: option.splits)

lemma scanSearch_sel [simp]:
  "key_Username (scanSearch now r) = row_username r" "key_Tenant (scanSearch now r) = row_tenant r"
  "key_ID (scanSearch now r) = row_id r" "key_Status (scanSearch now r) = effectiveStatus now r"
  by (simp_all add: scanSearch_def)

lemma isAuthorizedForKey_True:
  "isAuthorizedForKey admin u owner t = Inr True \<longleftrightarrow>
     uc_Tenant u = t \<and> (uc_Username u = owner \<or> admin u = Inr True)"
  by (auto simp: isAuthorizedForKey_def)

section \<open>Properties\<close>

text \<open>
  Labels are validated exactly. A set of labels is accepted if and only if it has at most fifty
  entries, and every key is a Kubernetes label key (an optional DNS prefix and a slash, each part
  starting and ending with an alphanumeric) of at most 128 bytes, and every value has 1 to 1024
  bytes and no control character.
\<close>

theorem validateLabels_iff:
  "validateLabels ls = None \<longleftrightarrow> length ls \<le> 50 \<and> list_all labelOk ls"
  by (simp add: validateLabels_def validateLabelPairs_iff label_limits)

text \<open>
  C36: reading a key does not leak. A caller sees a key only if it is stored for the caller's
  tenant, and the caller owns it or is an administrator; every other caller, and one whose
  administrator check fails, gets exactly the answer that an unknown id gets.
\<close>

theorem GetAPIKey_no_leak:
  assumes "tableWf rows" "calmDb e" "i \<noteq> []"
  shows "h_GetAPIKey (pgStore t) admin e (User u) i rows =
    (case find (\<lambda>r. row_id r = i \<and> row_tenant r = t \<and> uc_Tenant u = t
                  \<and> (row_username r = uc_Username u \<or> admin u = Inr True)) rows of
       Some r \<Rightarrow> reply 200 (KeyBody (scanSearch (dbNow e) r))
     | None \<Rightarrow> h_GetAPIKey (pgStore t) admin e (User u) i [])"
proof -
  let ?q = "\<lambda>r. row_id r = i \<and> row_tenant r = t"
  let ?ok = "\<lambda>r. uc_Tenant u = t \<and> (row_username r = uc_Username u \<or> admin u = Inr True)"
  have empty: "h_GetAPIKey (pgStore t) admin e (User u) i [] = keyNotFound"
    using assms by (simp add: h_GetAPIKey_def getUserContext_def GetAPIKey_def pg_Get_def)
  show ?thesis
  proof (cases "find ?q rows")
    case None
    then have n: "find (\<lambda>r. row_id r = i \<and> row_tenant r = t \<and> ?ok r) rows = None"
      by (auto simp: find_None_iff)
    have "h_GetAPIKey (pgStore t) admin e (User u) i rows = keyNotFound"
      using assms None by (simp add: h_GetAPIKey_def getUserContext_def GetAPIKey_def pg_Get_def)
    then show ?thesis unfolding n empty by simp
  next
    case (Some r)
    then have r: "r \<in> set rows" "row_id r = i" "row_tenant r = t" by (auto dest: find_SomeD)
    have only: "q = r" if "q \<in> set rows" "row_id q = i" for q
      using that r assms(1) by (auto simp: tableWf_def intro: inj_on_set_distinct_map)
    have get: "h_GetAPIKey (pgStore t) admin e (User u) i rows =
        (if ?ok r then reply 200 (KeyBody (scanSearch (dbNow e) r)) else keyNotFound)"
      using assms Some r
      by (auto simp: h_GetAPIKey_def getUserContext_def GetAPIKey_def pg_Get_def isAuthorizedForKey_def
          split: sum.splits)
    have "find (\<lambda>q. row_id q = i \<and> row_tenant q = t \<and> ?ok q) rows = (if ?ok r then Some r else None)"
    proof (cases "?ok r")
      case True
      have "find (\<lambda>q. row_id q = i \<and> row_tenant q = t \<and> ?ok q) rows = find ?q rows"
        using only True by (intro find_cong) auto
      with True Some show ?thesis by simp
    next
      case False
      then show ?thesis using only by (auto simp: find_None_iff)
    qed
    note f = this
    show ?thesis unfolding get empty f by auto
  qed
qed

theorem GetAPIKey_no_leak_witness:
  "h_GetAPIKey (pgStore ''red'') (\<lambda>_. Inr False) (quietEnv 5)
     (User \<lparr>uc_Username = ''bob'', uc_Groups = [''dev''], uc_Tenant = ''red''\<rparr>) ''k3'' sampleTable
   = h_GetAPIKey (pgStore ''red'') (\<lambda>_. Inr False) (quietEnv 5)
       (User \<lparr>uc_Username = ''bob'', uc_Groups = [''dev''], uc_Tenant = ''red''\<rparr>) ''k3'' []"
  using GetAPIKey_no_leak [OF sampleTable_wf, of "quietEnv 5" "''k3''" "''red''" "\<lambda>_. Inr False"
      "\<lparr>uc_Username = ''bob'', uc_Groups = [''dev''], uc_Tenant = ''red''\<rparr>"]
  by (simp add: sampleTable_def)

text \<open>What revoking, bulk revoking and creating did to the table, when they changed it.\<close>

lemma pg_Revoke_state:
  "snd (pg_Revoke t e i rows) = rows \<or> snd (pg_Revoke t e i rows) =
     sqlUpdate (\<lambda>r. row_id r = i \<and> row_tenant r = t \<and> row_status r = StatusActive)
       (setStatus StatusRevoked) rows"
  by (auto simp: pg_Revoke_def pg_updateCount_def split: option.splits if_splits)

text \<open>
  Only the owner or an administrator revokes a key. If the handler changes the table at all,
  the caller's tenant is the store's, the key is stored for it, and the caller owns the key or the
  administrator check succeeded with yes; and then the one change is that this key is revoked.
\<close>

theorem h_RevokeAPIKey_authorized:
  assumes "h_RevokeAPIKey (pgStore t) admin e1 e2 e3 (User u) i rows = (resp, rows')" and "rows' \<noteq> rows"
  shows "(\<exists>r\<in>set rows. row_id r = i \<and> row_tenant r = t \<and> uc_Tenant u = t
        \<and> (row_username r = uc_Username u \<or> admin u = Inr True))
    \<and> rows' = sqlUpdate (\<lambda>r. row_id r = i \<and> row_tenant r = t \<and> row_status r = StatusActive)
        (setStatus StatusRevoked) rows"
proof -
  obtain k where k: "pg_Get t e1 i rows = Inr k" "rows' = snd (pg_Revoke t e2 i rows)"
    "isAuthorizedForKey admin u (key_Username k) (key_Tenant k) = Inr True"
    using assms
    by (auto simp: h_RevokeAPIKey_def getUserContext_def GetAPIKey_def RevokeAPIKey_def
        split: if_splits sum.splits prod.splits)
  from pg_Get_OkD [OF k(1)] k(3) pg_Revoke_state [of t e2 i rows] assms(2) k(2) show ?thesis
    by (auto simp: isAuthorizedForKey_True)
qed

theorem h_RevokeAPIKey_authorized_witness:
  "\<exists>r\<in>set sampleTable. row_id r = ''k1'' \<and> row_tenant r = ''blue'' \<and> row_username r = ''alice''"
proof -
  let ?u = "\<lparr>uc_Username = ''alice'', uc_Groups = [''dev''], uc_Tenant = ''blue''\<rparr>"
  let ?h = "h_RevokeAPIKey (pgStore ''blue'') (\<lambda>_. Inr False) (quietEnv 5) (quietEnv 5) (quietEnv 5)
      (User ?u) ''k1'' sampleTable"
  have get: "pg_Get ''blue'' (quietEnv 5) ''k1'' sampleTable
      = Inr (scanSearch 5 (sampleRow ''k1'' ''blue'' StatusActive None))"
    by (simp add: pg_Get_def sampleTable_def)
  have rev: "pg_Revoke ''blue'' (quietEnv 5) ''k1'' sampleTable = (Inr (),
      sqlUpdate (\<lambda>q. row_id q = ''k1'' \<and> row_tenant q = ''blue'' \<and> row_status q = StatusActive)
        (setStatus StatusRevoked) sampleTable)" (is "_ = (_, ?t)")
    using pg_Revoke_active [OF sampleTable_wf, of "quietEnv 5" "sampleRow ''k1'' ''blue'' StatusActive None" "''blue''"]
    by simp
  have h: "snd ?h = ?t"
    by (simp add: h_RevokeAPIKey_def getUserContext_def GetAPIKey_def RevokeAPIKey_def get rev
        isAuthorizedForKey_def split: sum.splits)
  have "row_status (hd ?t) \<noteq> row_status (hd sampleTable)"
    by (simp add: sqlUpdate_def sampleTable_def)
  then have "?t \<noteq> sampleTable" by metis
  moreover have "?h = (fst ?h, ?t)" unfolding h [symmetric] by (rule prod.collapse [symmetric])
  ultimately show ?thesis
    using h_RevokeAPIKey_authorized [of "''blue''" "\<lambda>_. Inr False" "quietEnv 5" "quietEnv 5" "quietEnv 5" ?u
        "''k1''" sampleTable "fst ?h" ?t] by simp
qed

text \<open>
  Bulk revocation is authorised. If the handler changes the table, the caller is of the
  store's tenant and the request was no dry run, and either the caller asked for the caller's own
  keys across subscriptions or the administrator check succeeded with yes; only rows of that
  tenant and of the requested scope change.
\<close>

theorem h_BulkRevokeAPIKeys_authorized:
  assumes "h_BulkRevokeAPIKeys (pgStore t) admin e (User u) (Inr req) rows = (resp, rows')"
    and "rows' \<noteq> rows"
  shows "uc_Tenant u = t \<and> \<not> breq_DryRun req
    \<and> (admin u = Inr True
       \<or> TrimSpace (breq_Subscription req) = [] \<and> TrimSpace (breq_Username req) = uc_Username u)
    \<and> filter (\<lambda>r. \<not> revokeScope t (TrimSpace (breq_Username req)) (TrimSpace (breq_Subscription req)) r) rows'
      = filter (\<lambda>r. \<not> revokeScope t (TrimSpace (breq_Username req)) (TrimSpace (breq_Subscription req)) r) rows"
proof -
  let ?n = "TrimSpace (breq_Username req)" and ?s = "TrimSpace (breq_Subscription req)"
  have dry: "snd (pg_BulkRevoke t e ?n ?s (uc_Tenant u) True rows) = rows"
    by (auto simp: pg_BulkRevoke_def Let_def split: option.splits)
  have run: "rows' = snd (pg_BulkRevoke t e ?n ?s (uc_Tenant u) False rows)" "\<not> breq_DryRun req"
    "admin u = Inr True \<or> ?s = [] \<and> ?n = uc_Username u"
    using assms dry
    by (auto simp: h_BulkRevokeAPIKeys_def getUserContext_def BulkRevokeAPIKeys_def Let_def
        split: if_splits sum.splits prod.splits)
  from run(1) assms(2) have t: "uc_Tenant u = t"
    by (auto simp: pg_BulkRevoke_def split: if_splits)
  have "rows' = rows \<or> rows' = sqlUpdate (bulkRevokeWhereClause t (dbNow e) ?n ?s) (setStatus StatusRevoked) rows"
    using run(1) by (auto simp: pg_BulkRevoke_def pg_updateCount_def Let_def split: if_splits option.splits)
  then have "filter (\<lambda>r. \<not> revokeScope t ?n ?s r) rows' = filter (\<lambda>r. \<not> revokeScope t ?n ?s r) rows"
    using assms(2)
    by (auto intro!: filter_sqlUpdate_other dest: bulkRevoke_in_scope simp: revokeScope_def)
  with run t show ?thesis by blast
qed

theorem h_BulkRevokeAPIKeys_authorized_witness:
  "filter (\<lambda>r. \<not> revokeScope ''blue'' ''alice'' [] r)
     (snd (h_BulkRevokeAPIKeys (pgStore ''blue'') (\<lambda>_. Inr False) (quietEnv 5)
        (User \<lparr>uc_Username = ''alice'', uc_Groups = [''dev''], uc_Tenant = ''blue''\<rparr>)
        (Inr \<lparr>breq_Username = ''alice'', breq_Subscription = [], breq_DryRun = False\<rparr>) sampleTable))
   = filter (\<lambda>r. \<not> revokeScope ''blue'' ''alice'' [] r) sampleTable"
proof -
  let ?u = "\<lparr>uc_Username = ''alice'', uc_Groups = [''dev''], uc_Tenant = ''blue''\<rparr>"
  let ?q = "\<lparr>breq_Username = ''alice'', breq_Subscription = [], breq_DryRun = False\<rparr>"
  let ?h = "h_BulkRevokeAPIKeys (pgStore ''blue'') (\<lambda>_. Inr False) (quietEnv 5) (User ?u) (Inr ?q) sampleTable"
  have trim: "TrimSpace ''alice'' = ''alice''" by (simp add: TrimSpace_id spaceByte_def spaceRunes_def)
  have "?h = (fst ?h, snd ?h)" by simp
  from h_BulkRevokeAPIKeys_authorized [OF this] trim show ?thesis
    by (cases "snd ?h = sampleTable") auto
qed

lemma pg_Search_OkD:
  assumes "pg_Search t e u tn flt srt pg rows = Inr res"
  shows "int (length (pr_Keys res)) \<le> pg_Limit pg
    \<and> (\<forall>k\<in>set (pr_Keys res). \<exists>r\<in>set rows. searchWhere t (dbNow e) u flt r \<and> k = scanSearch (dbNow e) r)"
proof -
  let ?ordered = "goSort (searchOrder e srt) (filter (searchWhere t (dbNow e) u flt) rows)"
  have lim: "1 \<le> pg_Limit pg" "0 \<le> pg_Offset pg"
    using assms by (auto simp: pg_Search_def split: if_splits)
  have "res = trimPage (pg_Limit pg) (map (scanSearch (dbNow e)) (pageOf (pg_Limit pg + 1) (pg_Offset pg) ?ordered))"
    using assms by (auto simp: pg_Search_def pg_scanRows_def Let_def split: if_splits option.splits)
  then have res: "pr_Keys res = map (scanSearch (dbNow e)) (take (nat (pg_Limit pg)) (drop (nat (pg_Offset pg)) ?ordered))"
    by (simp add: trimPage_pageOf [OF lim])
  have "set (take (nat (pg_Limit pg)) (drop (nat (pg_Offset pg)) ?ordered)) \<subseteq> set ?ordered"
    by (meson order_trans set_drop_subset set_take_subset)
  then show ?thesis using lim by (auto simp: res)
qed

lemma reply_eq [simp]: "reply a b = reply c d \<longleftrightarrow> a = c \<and> b = d"
  by (simp add: reply_def)

lemma checkSort_error: "checkSort srt = Inl resp \<Longrightarrow> resp \<noteq> reply 200 body"
  by (auto simp: checkSort_def Let_def split: if_splits)

lemma searchTarget_error: "searchTarget u a n = Inl resp \<Longrightarrow> resp \<noteq> reply 200 body"
  by (auto simp: searchTarget_def split: if_splits)

lemma checkPage_cases:
  "checkPage p = Inl resp \<Longrightarrow> resp \<noteq> reply 200 body"
  "checkPage p = Inr p' \<Longrightarrow> 1 \<le> pg_Limit p' \<and> pg_Limit p' \<le> MaxLimit \<and> 0 \<le> pg_Offset p'"
  by (auto simp: checkPage_def Let_def MaxLimit_def split: if_splits)

lemma runSearch_OkD:
  assumes "runSearch (pgStore t) e u target flt srt pg rows = reply 200 (SearchBody keys hasMore)"
  shows "\<exists>srt' pg'. pg_Limit pg' \<le> MaxLimit
    \<and> pg_Search t e target (uc_Tenant u) flt srt' pg' rows = Inr \<lparr>pr_Keys = keys, pr_HasMore = hasMore\<rparr>"
proof -
  obtain srt' where s: "checkSort srt = Inr srt'"
    using assms checkSort_error by (cases "checkSort srt") (auto simp: runSearch_def)
  obtain pg' where p: "checkPage pg = Inr pg'"
    using assms checkPage_cases(1) s by (cases "checkPage pg") (auto simp: runSearch_def)
  obtain res where r: "pg_Search t e target (uc_Tenant u) flt srt' pg' rows = Inr res"
    "keys = pr_Keys res" "hasMore = pr_HasMore res"
    using assms s p by (auto simp: runSearch_def svc_Search_def split: option.splits sum.splits)
  then have "res = \<lparr>pr_Keys = keys, pr_HasMore = hasMore\<rparr>" by simp
  with r(1) checkPage_cases(2) [OF p] show ?thesis by blast
qed

lemma searchTarget_OkD: "searchTarget u a n = Inr target \<Longrightarrow> a \<or> target = uc_Username u"
  by (auto simp: searchTarget_def split: if_splits)

lemma none_branch: "(case r of None \<Rightarrow> y | Some a \<Rightarrow> f a) = z \<Longrightarrow> (\<And>a. f a \<noteq> z) \<Longrightarrow> y = z"
  by (cases r) simp_all

lemma ok_branch:
  assumes "(case r of Inl a \<Rightarrow> f a | Inr b \<Rightarrow> g b) = z" and "\<And>a. r = Inl a \<Longrightarrow> f a \<noteq> z"
  obtains b where "r = Inr b" "g b = z"
  using assms by (cases r) auto

lemma user_present: "(User u = NoUser) = False"
  by simp

lemma SearchAPIKeys_OkD:
  assumes "SearchAPIKeys (pgStore t) admin e (User u) (Inr req) rows = reply 200 (SearchBody keys hasMore)"
  shows "\<exists>target flt srt pg. (admin u = Inr True \<or> target = uc_Username u) \<and> pg_Limit pg \<le> MaxLimit
    \<and> pg_Search t e target (uc_Tenant u) flt srt pg rows = Inr \<lparr>pr_Keys = keys, pr_HasMore = hasMore\<rparr>"
proof -
  let ?flt = "case sreq_Filters req of None \<Rightarrow> emptyFilters | Some f \<Rightarrow> f"
  let ?srt = "case sreq_Sort req of None \<Rightarrow> \<lparr>sp_By = DefaultSortBy, sp_Order = DefaultSortOrder\<rparr> | Some s \<Rightarrow> s"
  let ?pg = "case sreq_Pagination req of None \<Rightarrow> \<lparr>pg_Limit = DefaultLimit, pg_Offset = 0\<rparr> | Some p \<Rightarrow> p"
  let ?search = "case admin u of
       Inl adminErr \<Rightarrow> reply 500 (ErrorText ''Failed to check authorization'')
     | Inr isAdmin \<Rightarrow>
         (case searchTarget u isAdmin (sf_Username ?flt) of
            Inl resp \<Rightarrow> resp
          | Inr target \<Rightarrow> runSearch (pgStore t) e u target ?flt ?srt ?pg rows)"
  note h = assms [unfolded SearchAPIKeys_def Let_def sum.case ctx_user.case user_present if_False]
  have "?search = reply 200 (SearchBody keys hasMore)"
    by (rule none_branch [OF h]) simp
  then obtain isAdmin where a: "admin u = Inr isAdmin" and g: "(case searchTarget u isAdmin (sf_Username ?flt) of
      Inl resp \<Rightarrow> resp | Inr target \<Rightarrow> runSearch (pgStore t) e u target ?flt ?srt ?pg rows)
    = reply 200 (SearchBody keys hasMore)"
    by (rule ok_branch) simp
  obtain target where tg: "searchTarget u isAdmin (sf_Username ?flt) = Inr target"
    and run: "runSearch (pgStore t) e u target ?flt ?srt ?pg rows = reply 200 (SearchBody keys hasMore)"
    by (rule ok_branch [OF g]) (rule searchTarget_error)
  have "admin u = Inr True \<or> target = uc_Username u"
    using searchTarget_OkD [OF tg] a by auto
  moreover obtain srt' pg' where "pg_Limit pg' \<le> MaxLimit"
    "pg_Search t e target (uc_Tenant u) ?flt srt' pg' rows = Inr \<lparr>pr_Keys = keys, pr_HasMore = hasMore\<rparr>"
    using runSearch_OkD [OF run] by blast
  ultimately show ?thesis by (intro exI conjI)
qed

text \<open>
  C37: a search stays in bounds. Every key a search answers with is stored for the tenant of the
  store, and belongs to the caller unless the administrator check succeeded with yes; and an
  answer never has more than a hundred keys. The caller has a user name, as the middleware
  guarantees.
\<close>

theorem SearchAPIKeys_scoped:
  assumes "SearchAPIKeys (pgStore t) admin e (User u) (Inr req) rows = reply 200 (SearchBody keys hasMore)"
    and "uc_Username u \<noteq> []"
  shows "length keys \<le> 100
    \<and> (\<forall>k\<in>set keys. key_Tenant k = t \<and> (admin u = Inr True \<or> key_Username k = uc_Username u)
         \<and> (\<exists>r\<in>set rows. k = scanSearch (dbNow e) r))"
proof -
  obtain target flt srt pg where t: "admin u = Inr True \<or> target = uc_Username u" "pg_Limit pg \<le> MaxLimit"
    and s: "pg_Search t e target (uc_Tenant u) flt srt pg rows = Inr \<lparr>pr_Keys = keys, pr_HasMore = hasMore\<rparr>"
    using SearchAPIKeys_OkD [OF assms(1)] by blast
  from pg_Search_OkD [OF s] t assms(2) show ?thesis
    by (auto simp: MaxLimit_def searchWhere_def)
qed

theorem SearchAPIKeys_scoped_witness:
  "\<exists>keys hasMore. SearchAPIKeys (pgStore ''red'') (\<lambda>_. Inr False) (quietEnv 60)
       (User \<lparr>uc_Username = ''alice'', uc_Groups = [''dev''], uc_Tenant = ''red''\<rparr>)
       (Inr \<lparr>sreq_Filters = None, sreq_Sort = None, sreq_Pagination = None\<rparr>) sampleTable
       = reply 200 (SearchBody keys hasMore)
     \<and> length keys \<le> 100 \<and> (\<forall>k\<in>set keys. key_Tenant k = ''red'' \<and> key_Username k = ''alice'')"
proof -
  let ?u = "\<lparr>uc_Username = ''alice'', uc_Groups = [''dev''], uc_Tenant = ''red''\<rparr>"
  have "TrimSpace ''desc'' = ''desc''" by (simp add: TrimSpace_id spaceByte_def spaceRunes_def)
  moreover have "ToLower ''desc'' = ''desc''" by (simp add: ToLower_def lowerChar_def byteIn_def)
  ultimately obtain keys hasMore where s: "SearchAPIKeys (pgStore ''red'') (\<lambda>_. Inr False) (quietEnv 60) (User ?u)
       (Inr \<lparr>sreq_Filters = None, sreq_Sort = None, sreq_Pagination = None\<rparr>) sampleTable
       = reply 200 (SearchBody keys hasMore)"
    by (simp add: SearchAPIKeys_def emptyFilters_def searchTarget_def runSearch_def checkSort_def checkPage_def
        DefaultSortBy_def DefaultSortOrder_def DefaultLimit_def MaxLimit_def ValidSortFields_def
        ValidSortOrders_def validateLabels_def svc_Search_def pg_Search_def pg_scanRows_calm Let_def)
  from SearchAPIKeys_scoped [OF s] s show ?thesis by auto
qed

lemma createErrorReply_status: "fst (createErrorReply err) \<noteq> reply 201 body"
  by (auto simp: createErrorReply_def split: api_error.splits sel_error.splits)

lemma decimal_nonempty [simp]: "decimal n \<noteq> []"
  by (subst decimal.simps) simp

lemma checkKeyName_OkD:
  assumes "checkKeyName nowNano eph n = Inr name"
  shows "name \<noteq> [] \<and> (n \<noteq> [] \<longrightarrow> name = TrimSpace n \<and> RuneCountInString name \<le> 128
    \<and> (\<forall>c\<in>set name. \<not> isControl c))"
  using assms by (auto simp: checkKeyName_def Let_def list_ex_iff split: if_splits)

lemma h_CreateAPIKey_OkD:
  assumes "h_CreateAPIKey hm svc store e mi nowNano (User u) (Inr req) st = (reply 201 (CreatedBody resp), ms, st')"
  shows "\<exists>name x. validateLabels (creq_Labels req) = None
    \<and> checkKeyName nowNano (creq_Ephemeral req) (creq_Name req) = Inr name
    \<and> CreateAPIKey svc store e mi (uc_Username u) (uc_Groups u) name (creq_Description req) x (creq_Ephemeral req)
        (TrimSpace (creq_Subscription req)) (uc_Tenant u) (creq_Labels req) st = (Inr resp, st')"
proof -
  note h = assms [unfolded h_CreateAPIKey_def getUserContext_def sum.case ctx_user.case Let_def]
  have l: "validateLabels (creq_Labels req) = None"
    using h by (cases "validateLabels (creq_Labels req)") (auto split: if_splits)
  obtain name where n: "checkKeyName nowNano (creq_Ephemeral req) (creq_Name req) = Inr name"
    using h l by (cases "checkKeyName nowNano (creq_Ephemeral req) (creq_Name req)") (auto split: if_splits)
  let ?x = "case creq_ExpiresIn req of Some d \<Rightarrow> Some d | None \<Rightarrow> if creq_Ephemeral req then Some (1 * hour) else None"
  obtain r st1 where c: "CreateAPIKey svc store e mi (uc_Username u) (uc_Groups u) name (creq_Description req) ?x
      (creq_Ephemeral req) (TrimSpace (creq_Subscription req)) (uc_Tenant u) (creq_Labels req) st = (r, st1)"
    by fastforce
  note h' = h [unfolded l n option.case sum.case c prod.case]
  obtain v where v: "r = Inr v"
  proof (cases r)
    case (Inl err)
    obtain rp oc where er: "createErrorReply err = (rp, oc)" by fastforce
    then have "rp = reply 201 (CreatedBody resp)"
      using h' [unfolded Inl sum.case er prod.case] by (auto split: if_split_asm)
    with er createErrorReply_status [of err "CreatedBody resp"] show ?thesis by simp
  qed
  from h' [unfolded v sum.case] have "v = resp" "st1 = st'" by (auto split: if_split_asm)
  with l n c v show ?thesis by blast
qed

lemma laptop_trim: "TrimSpace ''laptop'' = ''laptop''"
  by (simp add: TrimSpace_id spaceByte_def spaceRunes_def)

lemma laptop_name: "checkKeyName nowNano False ''laptop'' = Inr ''laptop''"
proof -
  have "RuneCountInString ''laptop'' \<le> 128"
    using RuneCount_le_length [of "''laptop''"] by simp
  with laptop_trim show ?thesis
    by (simp add: checkKeyName_def Let_def isControl_def byteIn_def del: RuneCountInString.simps)
qed

text \<open>
  Users mint keys only for themselves. Every key the create handler returns is stored with the
  name, groups and tenant of the caller, under a non-empty key name; a key name the caller gave is
  trimmed, has at most 128 characters and no control character; and its labels are valid.
\<close>

theorem h_CreateAPIKey_own_identity:
  assumes "h_CreateAPIKey hm svc (pgStore t) e mi nowNano (User u) (Inr req) rows
      = (reply 201 (CreatedBody resp), ms, rows')"
  shows "\<exists>r. rows' = rows @ [r] \<and> row_id r = cr_ID resp \<and> row_username r = uc_Username u
    \<and> row_groups r = uc_Groups u \<and> row_tenant r = uc_Tenant u \<and> uc_Tenant u = t
    \<and> row_name r \<noteq> [] \<and> row_key_hash r = HashAPIKey (cr_Key resp)
    \<and> (creq_Name req \<noteq> [] \<longrightarrow> row_name r = TrimSpace (creq_Name req)
         \<and> RuneCountInString (row_name r) \<le> 128 \<and> (\<forall>c\<in>set (row_name r). \<not> isControl c))
    \<and> length (creq_Labels req) \<le> 50 \<and> list_all labelOk (creq_Labels req)"
proof -
  obtain name x where l: "validateLabels (creq_Labels req) = None"
    and n: "checkKeyName nowNano (creq_Ephemeral req) (creq_Name req) = Inr name"
    and c: "CreateAPIKey svc (pgStore t) e mi (uc_Username u) (uc_Groups u) name (creq_Description req) x
        (creq_Ephemeral req) (TrimSpace (creq_Subscription req)) (uc_Tenant u) (creq_Labels req) rows = (Inr resp, rows')"
    using h_CreateAPIKey_OkD [OF assms] by blast
  obtain a where a: "pg_AddKey t e a rows = (Inr (), rows')" "ak_KeyHash a = HashAPIKey (cr_Key resp)"
    "ak_KeyID a = cr_ID resp" "ak_Username a = uc_Username u" "ak_Groups a = uc_Groups u" "ak_Name a = name"
    "ak_Tenant a = uc_Tenant u"
    using CreateAPIKey_args [OF c] by auto
  then have "rows' = rows @ [pg_newRow e a]" "uc_Tenant u = t"
    using pg_AddKey_OkD [OF a(1)] by (auto dest: sqlInsert_SomeD)
  moreover have "length (creq_Labels req) \<le> 50 \<and> list_all labelOk (creq_Labels req)"
    using l by (simp add: validateLabels_def validateLabelPairs_iff label_limits split: if_splits)
  ultimately show ?thesis
    using a checkKeyName_OkD [OF n] by (intro exI [of _ "pg_newRow e a"]) (auto simp: pg_newRow_def)
qed


theorem h_CreateAPIKey_own_identity_witness:
  "\<exists>resp rows' r. h_CreateAPIKey False sampleService (pgStore ''red'') (quietEnv 5) sampleMint 0
       (User \<lparr>uc_Username = ''alice'', uc_Groups = [''dev''], uc_Tenant = ''red''\<rparr>)
       (Inr \<lparr>creq_Name = ''laptop'', creq_Description = [], creq_Subscription = [], creq_ExpiresIn = None,
             creq_Ephemeral = False, creq_Labels = []\<rparr>) []
     = (reply 201 (CreatedBody resp), [], rows')
     \<and> rows' = [r] \<and> row_username r = ''alice'' \<and> row_groups r = [''dev''] \<and> row_name r = ''laptop''"
proof -
  have t0: "TrimSpace [] = []" by simp
  obtain resp rows' where c: "CreateAPIKey sampleService (pgStore ''red'') (quietEnv 5) sampleMint ''alice'' [''dev'']
       ''laptop'' [] None False [] ''red'' [] [] = (Inr resp, rows')" using sample_create by blast
  have h: "h_CreateAPIKey False sampleService (pgStore ''red'') (quietEnv 5) sampleMint 0
       (User \<lparr>uc_Username = ''alice'', uc_Groups = [''dev''], uc_Tenant = ''red''\<rparr>)
       (Inr \<lparr>creq_Name = ''laptop'', creq_Description = [], creq_Subscription = [], creq_ExpiresIn = None,
             creq_Ephemeral = False, creq_Labels = []\<rparr>) []
     = (reply 201 (CreatedBody resp), [], rows')"
    by (simp add: h_CreateAPIKey_def getUserContext_def validateLabels_def whenMetrics_def laptop_name c t0 Let_def)
  from h_CreateAPIKey_own_identity [OF h] h laptop_trim show ?thesis by auto
qed

end
