(* ===== verification/Unstructured.thy ===== *)
theory Unstructured
  imports SubTypes
begin

text \<open>
  Kubernetes objects as the informer caches hand them out (\<open>unstructured.Unstructured\<close>): a JSON
  value, read by Go type assertions, which are modelled here, and by the accessors of
  \<open>k8s.io/apimachinery\<close>, which are a parameter (\<open>k8sApi\<close>).
\<close>

datatype json =
    JNull
  | JBool bool
  | JInt int
  | JFloat string
  | JStr string
  | JArr "json list"
  | JObj "(string \<times> json) list"

text \<open>\<open>v.(T)\<close> with the comma-ok form: \<open>None\<close> when the dynamic type differs.\<close>

fun asString :: "json \<Rightarrow> string option" where
  "asString (JStr s) = Some s"
| "asString _ = None"

fun asBool :: "json \<Rightarrow> bool option" where
  "asBool (JBool b) = Some b"
| "asBool _ = None"

fun asInt64 :: "json \<Rightarrow> int option" where
  "asInt64 (JInt n) = Some n"
| "asInt64 _ = None"

fun asSlice :: "json \<Rightarrow> json list option" where
  "asSlice (JArr xs) = Some xs"
| "asSlice _ = None"

type_synonym jmap = "(string \<times> json) list"

fun asMap :: "json \<Rightarrow> jmap option" where
  "asMap (JObj m) = Some m"
| "asMap _ = None"

text \<open>\<open>m["key"].(T)\<close>: a missing key reads as nil, whose assertion fails.\<close>

definition fieldAs :: "(json \<Rightarrow> 'a option) \<Rightarrow> jmap \<Rightarrow> string \<Rightarrow> 'a option" where
  "fieldAs as m key = Option.bind (map_of m key) as"

text \<open>The first result of an assertion whose second is discarded: the zero value on failure.\<close>

definition stringOf :: "jmap \<Rightarrow> string \<Rightarrow> string" where
  "stringOf m key = (case fieldAs asString m key of None \<Rightarrow> [] | Some s \<Rightarrow> s)"

text \<open>
  The accessors of \<open>apimachinery\<close> the program calls. \<open>Nested...\<close> return \<open>Some\<close> when their
  \<open>found\<close> result is true, which it is not when they return an error.
\<close>

record k8sApi =
  GetName :: "jmap \<Rightarrow> string"
  GetNamespace :: "jmap \<Rightarrow> string"
  GetAnnotations :: "jmap \<Rightarrow> (string \<times> string) list option"
  NestedMap :: "jmap \<Rightarrow> string list \<Rightarrow> jmap option"
  NestedSlice :: "jmap \<Rightarrow> string list \<Rightarrow> json list option"
  NestedString :: "jmap \<Rightarrow> string list \<Rightarrow> string option"
  NestedStringSlice :: "jmap \<Rightarrow> string list \<Rightarrow> string list option"
  NestedInt64 :: "jmap \<Rightarrow> string list \<Rightarrow> int option"

text \<open>
  A lister over an informer cache: the objects it returns, or the error of \<open>List()\<close>. A lister
  that may be nil is an option of it.
\<close>

type_synonym lister = "(string, jmap list) result"

text \<open>An annotation read from a map that may lack it.\<close>

definition annotation :: "(string \<times> string) list \<Rightarrow> string \<Rightarrow> string" where
  "annotation m key = (case map_of m key of None \<Rightarrow> [] | Some s \<Rightarrow> s)"

section \<open>Accessors for evaluation\<close>

text \<open>
  Accessors that walk the object by its field names, as the documentation of \<open>apimachinery\<close>
  describes them; the instances of the properties run on these.
\<close>

fun walk :: "json \<Rightarrow> string list \<Rightarrow> json option" where
  "walk v [] = Some v"
| "walk (JObj m) (f # fs) = (case map_of m f of None \<Rightarrow> None | Some v \<Rightarrow> walk v fs)"
| "walk _ (f # fs) = None"

fun strings :: "json list \<Rightarrow> string list option" where
  "strings [] = Some []"
| "strings (JStr s # vs) = map_option ((#) s) (strings vs)"
| "strings _ = None"

definition stringPairs :: "jmap \<Rightarrow> (string \<times> string) list" where
  "stringPairs m = concat (map (\<lambda>(k, v). case v of JStr s \<Rightarrow> [(k, s)] | _ \<Rightarrow> []) m)"

definition walkApi :: k8sApi where
  "walkApi =
     \<lparr>GetName = (\<lambda>o1. case walk (JObj o1) [''metadata'', ''name''] of Some (JStr s) \<Rightarrow> s | _ \<Rightarrow> []),
      GetNamespace =
        (\<lambda>o1. case walk (JObj o1) [''metadata'', ''namespace''] of Some (JStr s) \<Rightarrow> s | _ \<Rightarrow> []),
      GetAnnotations = (\<lambda>o1. case walk (JObj o1) [''metadata'', ''annotations''] of
          Some (JObj m) \<Rightarrow> Some (stringPairs m)
        | _ \<Rightarrow> None),
      NestedMap = (\<lambda>o1 fs. Option.bind (walk (JObj o1) fs) asMap),
      NestedSlice = (\<lambda>o1 fs. Option.bind (walk (JObj o1) fs) asSlice),
      NestedString = (\<lambda>o1 fs. Option.bind (walk (JObj o1) fs) asString),
      NestedStringSlice =
        (\<lambda>o1 fs. Option.bind (Option.bind (walk (JObj o1) fs) asSlice) strings),
      NestedInt64 = (\<lambda>o1 fs. Option.bind (walk (JObj o1) fs) asInt64)\<rparr>"

end
