(* ===== verification/AuthChecker.thy ===== *)
theory AuthChecker
  imports Unstructured
begin

text \<open>
  \<open>maas-api/internal/authpolicy/checker.go\<close>: which models a user may call, decided by the
  MaaSAuthPolicy objects of the informer cache. A Go set \<open>map[ModelKey]bool\<close> is the list of its
  true keys, nil is \<open>None\<close>; a nil lister or a failed \<open>List()\<close> denies everything.
\<close>

definition policyMatchesSubject :: "jmap \<Rightarrow> string list \<Rightarrow> string \<Rightarrow> bool" where
  "policyMatchesSubject spec groups username =
     (case fieldAs asMap spec ''subjects'' of
        None \<Rightarrow> False
      | Some subjects \<Rightarrow>
          if username \<noteq> []
             \<and> (case fieldAs asSlice subjects ''users'' of
                  None \<Rightarrow> False
                | Some users \<Rightarrow> list_ex (\<lambda>u. case asString u of
                      None \<Rightarrow> False
                    | Some s \<Rightarrow> TrimSpace s = TrimSpace username) users)
          then True
          else
            (case fieldAs asSlice subjects ''groups'' of
               None \<Rightarrow> False
             | Some groupRefs \<Rightarrow>
                 list_ex (\<lambda>g. case asMap g of
                     None \<Rightarrow> False
                   | Some gMap \<Rightarrow> TrimSpace (stringOf gMap ''name'') \<in> set (map TrimSpace groups))
                   groupRefs))"

fun policyModels :: "json list \<Rightarrow> ModelKey list" where
  "policyModels [] = []"
| "policyModels (ref # refs) =
     (case asMap ref of
        None \<Rightarrow> policyModels refs
      | Some refMap \<Rightarrow>
          let name = stringOf refMap ''name'';
              ns = stringOf refMap ''namespace''
          in if name \<noteq> [] then \<lparr>mk_Namespace = ns, mk_Name = name\<rparr> # policyModels refs
             else policyModels refs)"

fun authorizedBy :: "jmap list \<Rightarrow> string list \<Rightarrow> string \<Rightarrow> ModelKey list" where
  "authorizedBy [] groups username = []"
| "authorizedBy (policy # policies) groups username =
     (case fieldAs asMap policy ''spec'' of
        None \<Rightarrow> authorizedBy policies groups username
      | Some spec \<Rightarrow>
          if \<not> policyMatchesSubject spec groups username
          then authorizedBy policies groups username
          else
            (case fieldAs asSlice spec ''modelRefs'' of
               None \<Rightarrow> authorizedBy policies groups username
             | Some modelRefs \<Rightarrow> policyModels modelRefs @ authorizedBy policies groups username))"

definition AuthorizedModels ::
  "lister option \<Rightarrow> string list \<Rightarrow> string \<Rightarrow> ModelKey list option" where
  "AuthorizedModels lstr groups username =
     (case lstr of
        None \<Rightarrow> None
      | Some (Inl err) \<Rightarrow> None
      | Some (Inr policies) \<Rightarrow> Some (authorizedBy policies groups username))"

definition IsModelAccessible ::
  "lister option \<Rightarrow> string list \<Rightarrow> string \<Rightarrow> string \<Rightarrow> string \<Rightarrow> bool" where
  "IsModelAccessible lstr groups username modelName modelNamespace =
     (case AuthorizedModels lstr groups username of
        None \<Rightarrow> False
      | Some authorized \<Rightarrow> \<lparr>mk_Namespace = modelNamespace, mk_Name = modelName\<rparr> \<in> set authorized)"

section \<open>What a policy grants\<close>

text \<open>The declarative reading of one policy: it names the subject, and it names the model.\<close>

definition namesSubject :: "jmap \<Rightarrow> string list \<Rightarrow> string \<Rightarrow> bool" where
  "namesSubject spec groups username \<longleftrightarrow>
     (\<exists>subjects. map_of spec ''subjects'' = Some (JObj subjects) \<and>
        (username \<noteq> [] \<and> (\<exists>users s. map_of subjects ''users'' = Some (JArr users)
            \<and> JStr s \<in> set users \<and> TrimSpace s = TrimSpace username)
         \<or> (\<exists>refs m g. map_of subjects ''groups'' = Some (JArr refs) \<and> JObj m \<in> set refs
            \<and> g \<in> set groups \<and> TrimSpace g = TrimSpace (stringOf m ''name''))))"

definition policyGrants :: "jmap \<Rightarrow> string list \<Rightarrow> string \<Rightarrow> ModelKey \<Rightarrow> bool" where
  "policyGrants policy groups username key \<longleftrightarrow>
     (\<exists>spec refs refMap.
        map_of policy ''spec'' = Some (JObj spec)
        \<and> namesSubject spec groups username
        \<and> map_of spec ''modelRefs'' = Some (JArr refs)
        \<and> JObj refMap \<in> set refs
        \<and> map_of refMap ''name'' = Some (JStr (mk_Name key)) \<and> mk_Name key \<noteq> []
        \<and> mk_Namespace key = stringOf refMap ''namespace'')"

lemma asString_Some [simp]: "asString v = Some s \<longleftrightarrow> v = JStr s"
  by (cases v) auto

lemma asMap_Some [simp]: "asMap v = Some m \<longleftrightarrow> v = JObj m"
  by (cases v) auto

lemma asSlice_Some [simp]: "asSlice v = Some xs \<longleftrightarrow> v = JArr xs"
  by (cases v) auto

lemma fieldAs_Some: "fieldAs f m key = Some x \<longleftrightarrow> (\<exists>v. map_of m key = Some v \<and> f v = Some x)"
  by (simp add: fieldAs_def bind_eq_Some_conv)

lemma slice_ex:
  "(case fieldAs asSlice m key of None \<Rightarrow> False
    | Some xs \<Rightarrow> list_ex (\<lambda>x. case f x of None \<Rightarrow> False | Some y \<Rightarrow> P y) xs)
   \<longleftrightarrow> (\<exists>xs x y. map_of m key = Some (JArr xs) \<and> x \<in> set xs \<and> f x = Some y \<and> P y)"
proof (cases "fieldAs asSlice m key")
  case None
  then have "map_of m key \<noteq> Some (JArr xs)" for xs by (auto simp: fieldAs_def)
  with None show ?thesis by simp
next
  case (Some xs)
  then have "map_of m key = Some (JArr xs)" by (simp add: fieldAs_Some)
  with Some show ?thesis by (fastforce simp: list_ex_iff split: option.splits)
qed

lemma policyMatchesSubject_iff:
  "policyMatchesSubject spec groups username \<longleftrightarrow> namesSubject spec groups username"
proof (cases "\<exists>subjects. map_of spec ''subjects'' = Some (JObj subjects)")
  case True
  then obtain subjects where s: "map_of spec ''subjects'' = Some (JObj subjects)" by blast
  have u: "(case fieldAs asSlice subjects ''users'' of None \<Rightarrow> False
      | Some users \<Rightarrow> list_ex (\<lambda>u. case asString u of None \<Rightarrow> False
          | Some s \<Rightarrow> TrimSpace s = TrimSpace username) users)
    \<longleftrightarrow> (\<exists>users s. map_of subjects ''users'' = Some (JArr users)
          \<and> JStr s \<in> set users \<and> TrimSpace s = TrimSpace username)"
    unfolding slice_ex by auto
  have g: "(case fieldAs asSlice subjects ''groups'' of None \<Rightarrow> False
      | Some refs \<Rightarrow> list_ex (\<lambda>g. case asMap g of None \<Rightarrow> False
          | Some m \<Rightarrow> TrimSpace (stringOf m ''name'') \<in> set (map TrimSpace groups)) refs)
    \<longleftrightarrow> (\<exists>refs m g. map_of subjects ''groups'' = Some (JArr refs) \<and> JObj m \<in> set refs
          \<and> g \<in> set groups \<and> TrimSpace g = TrimSpace (stringOf m ''name''))"
    unfolding slice_ex by (auto simp: image_iff) metis+
  have "fieldAs asMap spec ''subjects'' = Some subjects" using s by (simp add: fieldAs_def)
  then show ?thesis
    unfolding policyMatchesSubject_def namesSubject_def using s by (simp only: option.simps u g) auto
next
  case False
  then have "fieldAs asMap spec ''subjects'' \<noteq> Some m" for m
    by (simp add: fieldAs_Some)
  then have "fieldAs asMap spec ''subjects'' = None" by blast
  with False show ?thesis by (auto simp: policyMatchesSubject_def namesSubject_def)
qed

lemma stringOf_nonempty: "stringOf m key = s \<and> s \<noteq> [] \<longleftrightarrow> map_of m key = Some (JStr s) \<and> s \<noteq> []"
  by (auto simp: stringOf_def fieldAs_Some split: option.splits)
    (auto simp: fieldAs_def bind_eq_None_conv)

lemma policyModels_iff:
  "key \<in> set (policyModels refs) \<longleftrightarrow>
     (\<exists>refMap. JObj refMap \<in> set refs \<and> map_of refMap ''name'' = Some (JStr (mk_Name key))
        \<and> mk_Name key \<noteq> [] \<and> mk_Namespace key = stringOf refMap ''namespace'')"
proof (induction refs)
  case (Cons ref refs)
  show ?case
  proof (cases "asMap ref")
    case None
    then have "ref \<noteq> JObj m" for m by auto
    with None Cons show ?thesis by auto
  next
    case (Some refMap)
    then have ref: "ref = JObj refMap" by simp
    have "key = \<lparr>mk_Namespace = stringOf refMap ''namespace'', mk_Name = stringOf refMap ''name''\<rparr>
        \<and> stringOf refMap ''name'' \<noteq> []
      \<longleftrightarrow> map_of refMap ''name'' = Some (JStr (mk_Name key)) \<and> mk_Name key \<noteq> []
        \<and> mk_Namespace key = stringOf refMap ''namespace''"
      using stringOf_nonempty [of refMap "''name''" "mk_Name key"]
      by (cases key) auto
    with Cons ref show ?thesis by (auto simp: Let_def)
  qed
qed simp

lemma authorizedBy_iff:
  "key \<in> set (authorizedBy policies groups username) \<longleftrightarrow>
     (\<exists>policy\<in>set policies. policyGrants policy groups username key)"
proof (induction policies)
  case (Cons policy policies)
  have "policyGrants policy groups username key \<longleftrightarrow>
      (\<exists>spec refs. fieldAs asMap policy ''spec'' = Some spec
        \<and> policyMatchesSubject spec groups username
        \<and> fieldAs asSlice spec ''modelRefs'' = Some refs \<and> key \<in> set (policyModels refs))"
    by (auto simp: policyGrants_def policyModels_iff policyMatchesSubject_iff fieldAs_Some)
  with Cons show ?case by (auto split: option.splits)
qed simp

section \<open>Properties\<close>

text \<open>
  Access to a model. A user may call a model exactly when the policy cache answered and some
  policy of it names the user, or one of the user's groups, together with that model in that
  namespace. With no lister, or when listing fails, every model is denied.
\<close>

theorem IsModelAccessible_iff:
  "IsModelAccessible lstr groups username name ns \<longleftrightarrow>
     (\<exists>policies. lstr = Some (Inr policies)
        \<and> (\<exists>policy\<in>set policies.
             policyGrants policy groups username \<lparr>mk_Namespace = ns, mk_Name = name\<rparr>))"
  by (auto simp: IsModelAccessible_def AuthorizedModels_def authorizedBy_iff
      split: option.splits sum.splits)

end
