(* ===== verification/Selector.thy ===== *)
theory Selector
  imports AuthChecker
begin

text \<open>
  \<open>maas-api/internal/subscription/selector.go\<close>: parsing the MaaSSubscription objects of the
  informer cache, matching users and models, and choosing the subscription a request or a new API
  key is billed to.
\<close>

definition PhasePending :: string where "PhasePending = ''Pending''"
definition PhaseActive :: string where "PhaseActive = ''Active''"
definition PhaseDegraded :: string where "PhaseDegraded = ''Degraded''"
definition PhaseFailed :: string where "PhaseFailed = ''Failed''"

lemmas phase_defs = PhasePending_def PhaseActive_def PhaseDegraded_def PhaseFailed_def

definition AnnotationDescription :: string where "AnnotationDescription = ''openshift.io/description''"
definition AnnotationDisplayName :: string where "AnnotationDisplayName = ''openshift.io/display-name''"

text \<open>
  The selector: its cluster accessors, its listers and its optional access checker.
\<close>

record Selector =
  sel_k8s :: k8sApi
  sel_lister :: lister
  sel_modelLister :: "lister option"
  sel_accessChecker :: "(string list \<Rightarrow> string \<Rightarrow> ModelKey list option) option"

section \<open>Parsing\<close>

definition buildModelIndex :: "Selector \<Rightarrow> (string \<times> jmap) list option" where
  "buildModelIndex s =
     (case sel_modelLister s of
        None \<Rightarrow> None
      | Some (Inl err) \<Rightarrow> None
      | Some (Inr items) \<Rightarrow>
          Some (rev (map (\<lambda>u. (GetNamespace (sel_k8s s) u @ ''/'' @ GetName (sel_k8s s) u, u)) items)))"

definition resolveModelAlias :: "Selector \<Rightarrow> string \<Rightarrow> string" where
  "resolveModelAlias s requestedModel =
     (case sel_modelLister s of
        None \<Rightarrow> requestedModel
      | Some l \<Rightarrow>
          if requestedModel = [] then requestedModel
          else
            (case l of
               Inl err \<Rightarrow> requestedModel
             | Inr items \<Rightarrow>
                 (case find (\<lambda>u. NestedString (sel_k8s s) u [''status'', ''resolvedModelAlias'']
                              = Some requestedModel) items of
                    None \<Rightarrow> requestedModel
                  | Some u \<Rightarrow> GetNamespace (sel_k8s s) u @ ''/'' @ GetName (sel_k8s s) u)))"

definition parseTokenRateLimit :: "jmap \<Rightarrow> TokenRateLimit" where
  "parseTokenRateLimit limitMap =
     \<lparr>trl_Limit = (case fieldAs asInt64 limitMap ''limit'' of None \<Rightarrow> 0 | Some n \<Rightarrow> n),
      trl_Window = stringOf limitMap ''window''\<rparr>"

text \<open>A loop that appends what an entry of a slice parses to, skipping entries that are no map.\<close>

definition parseMaps :: "(jmap \<Rightarrow> 'a) \<Rightarrow> json list \<Rightarrow> 'a list" where
  "parseMaps f vs = concat (map (\<lambda>v. case asMap v of None \<Rightarrow> [] | Some m \<Rightarrow> [f m]) vs)"

definition parseModelRef :: "k8sApi \<Rightarrow> jmap \<Rightarrow> ModelRefInfo" where
  "parseModelRef k modelMap =
     \<lparr>ref_Name = stringOf modelMap ''name'', ref_Namespace = stringOf modelMap ''namespace'',
      ref_ModelName = [], ref_DisplayName = [], ref_Description = [], ref_Source = [],
      ref_TokenRateLimits =
        (case NestedSlice k modelMap [''tokenRateLimits''] of
           None \<Rightarrow> []
         | Some limits \<Rightarrow> parseMaps parseTokenRateLimit limits),
      ref_BillingRate = map_option (\<lambda>b. stringOf b ''perToken'') (NestedMap k modelMap [''billingRate''])\<rparr>"

definition maxLimitOf :: "ModelRefInfo list \<Rightarrow> int" where
  "maxLimitOf refs =
     fold (\<lambda>ref m. fold (\<lambda>trl m. if trl_Limit trl > m then trl_Limit trl else m)
                       (ref_TokenRateLimits ref) m) refs 0"

definition parseTrlpStatus :: "jmap \<Rightarrow> TokenRateLimitStatus" where
  "parseTrlpStatus m =
     \<lparr>trls_Model = stringOf m ''model'', trls_Name = stringOf m ''name'',
      trls_Namespace = stringOf m ''namespace'',
      trls_Ready = (case fieldAs asBool m ''ready'' of None \<Rightarrow> False | Some b \<Rightarrow> b),
      trls_Reason = stringOf m ''reason'', trls_Message = stringOf m ''message''\<rparr>"

text \<open>The first condition of type Ready decides.\<close>

definition readyCondition :: "json list \<Rightarrow> bool" where
  "readyCondition conditions =
     (case find (\<lambda>c. case asMap c of None \<Rightarrow> False | Some m \<Rightarrow> stringOf m ''type'' = ''Ready'') conditions of
        None \<Rightarrow> False
      | Some c \<Rightarrow> (case asMap c of None \<Rightarrow> False | Some m \<Rightarrow> stringOf m ''status'' = ''True''))"

definition parseTokenMetadata :: "k8sApi \<Rightarrow> jmap \<Rightarrow> subscription \<Rightarrow> subscription" where
  "parseTokenMetadata k spec sub =
     (case NestedMap k spec [''tokenMetadata''] of
        None \<Rightarrow> sub
      | Some metadata \<Rightarrow>
          sub\<lparr>sub_OrganizationID := stringOf metadata ''organizationId'',
              sub_CostCenter := stringOf metadata ''costCenter'',
              sub_Labels := (case fieldAs asMap metadata ''labels'' of
                  None \<Rightarrow> sub_Labels sub
                | Some labelsRaw \<Rightarrow> stringPairs labelsRaw)\<rparr>)"

definition emptySubscription :: subscription where
  "emptySubscription =
     \<lparr>sub_Name = [], sub_Namespace = [], sub_DisplayName = [], sub_Description = [],
      sub_Groups = [], sub_Users = [], sub_Priority = 0, sub_MaxLimit = 0,
      sub_OrganizationID = [], sub_CostCenter = [], sub_Labels = [], sub_ModelRefs = [],
      sub_Phase = [], sub_Ready = False, sub_DeletionTimestamp = None,
      sub_TokenRateLimitStatuses = []\<rparr>"

definition parseOwner :: "k8sApi \<Rightarrow> jmap \<Rightarrow> subscription \<Rightarrow> subscription" where
  "parseOwner k spec sub =
     (case NestedMap k spec [''owner''] of
        None \<Rightarrow> sub
      | Some owner \<Rightarrow>
          sub\<lparr>sub_Groups := (case NestedSlice k owner [''groups''] of
                  None \<Rightarrow> []
                | Some groupsRaw \<Rightarrow>
                    concat (map (\<lambda>g. case asMap g of None \<Rightarrow> []
                      | Some m \<Rightarrow> (case fieldAs asString m ''name'' of None \<Rightarrow> [] | Some n \<Rightarrow> [n])) groupsRaw)),
              sub_Users := (case NestedStringSlice k owner [''users''] of None \<Rightarrow> [] | Some us \<Rightarrow> us)\<rparr>)"

definition parseStatus :: "k8sApi \<Rightarrow> jmap \<Rightarrow> subscription \<Rightarrow> subscription" where
  "parseStatus k obj sub =
     (case NestedMap k obj [''status''] of
        None \<Rightarrow> sub
      | Some status \<Rightarrow>
          sub\<lparr>sub_Phase := (case fieldAs asString status ''phase'' of
                  None \<Rightarrow> sub_Phase sub | Some phase \<Rightarrow> TrimSpace phase),
              sub_Ready := (case NestedSlice k status [''conditions''] of
                  None \<Rightarrow> sub_Ready sub | Some conditions \<Rightarrow> readyCondition conditions),
              sub_TokenRateLimitStatuses := (case NestedSlice k status [''tokenRateLimitStatuses''] of
                  None \<Rightarrow> [] | Some statuses \<Rightarrow> parseMaps parseTrlpStatus statuses)\<rparr>)"

definition parseAnnotations :: "k8sApi \<Rightarrow> jmap \<Rightarrow> subscription \<Rightarrow> subscription" where
  "parseAnnotations k obj sub =
     (case GetAnnotations k obj of
        None \<Rightarrow> sub
      | Some annotations \<Rightarrow>
          sub\<lparr>sub_DisplayName := annotation annotations AnnotationDisplayName,
              sub_Description := annotation annotations AnnotationDescription\<rparr>)"

definition parsePriority :: "k8sApi \<Rightarrow> jmap \<Rightarrow> subscription \<Rightarrow> subscription" where
  "parsePriority k spec sub =
     (case NestedInt64 k spec [''priority''] of
        None \<Rightarrow> sub
      | Some priority \<Rightarrow>
          if priority \<ge> 0 \<and> priority \<le> 2147483647 then sub\<lparr>sub_Priority := priority\<rparr> else sub)"

definition parseModelRefs :: "k8sApi \<Rightarrow> jmap \<Rightarrow> subscription \<Rightarrow> subscription" where
  "parseModelRefs k spec sub =
     (case NestedSlice k spec [''modelRefs''] of
        None \<Rightarrow> sub
      | Some modelRefs \<Rightarrow>
          let refs = parseMaps (parseModelRef k) modelRefs
          in sub\<lparr>sub_MaxLimit := maxLimitOf refs, sub_ModelRefs := refs\<rparr>)"

definition parseDeletion :: "jmap \<Rightarrow> subscription \<Rightarrow> subscription" where
  "parseDeletion obj sub =
     (case fieldAs asMap obj ''metadata'' of
        None \<Rightarrow> sub
      | Some metadataMap \<Rightarrow>
          (case fieldAs asString metadataMap ''deletionTimestamp'' of
             None \<Rightarrow> sub
           | Some ts \<Rightarrow> if ts \<noteq> [] then sub\<lparr>sub_DeletionTimestamp := Some ts\<rparr> else sub))"

definition parseSubscription :: "k8sApi \<Rightarrow> jmap \<Rightarrow> (string, subscription) result" where
  "parseSubscription k obj =
     (case NestedMap k obj [''spec''] of
        None \<Rightarrow> Err ''spec not found''
      | Some spec \<Rightarrow>
          let sub = emptySubscription\<lparr>sub_Name := GetName k obj, sub_Namespace := GetNamespace k obj\<rparr>;
              sub = parseAnnotations k obj sub;
              sub = parseOwner k spec sub;
              sub = parsePriority k spec sub;
              sub = parseModelRefs k spec sub;
              sub = parseTokenMetadata k spec sub;
              sub = parseStatus k obj sub
          in Ok (parseDeletion obj sub))"

definition enrichModelRef :: "k8sApi \<Rightarrow> (string \<times> jmap) list \<Rightarrow> ModelRefInfo \<Rightarrow> ModelRefInfo" where
  "enrichModelRef k index ref =
     (case map_of index (ref_Namespace ref @ ''/'' @ ref_Name ref) of
        None \<Rightarrow> ref
      | Some u \<Rightarrow>
          let ref = (case GetAnnotations k u of
                None \<Rightarrow> ref
              | Some annotations \<Rightarrow>
                  ref\<lparr>ref_DisplayName := annotation annotations AnnotationDisplayName,
                      ref_Description := annotation annotations AnnotationDescription\<rparr>);
              kind = NestedString k u [''spec'', ''modelRef'', ''kind''];
              ref = (if kind = Some ''ExternalModel'' then ref\<lparr>ref_Source := ''external''\<rparr>
                     else if kind = Some ''LLMInferenceService'' then ref\<lparr>ref_Source := ''internal''\<rparr>
                     else ref)
          in case NestedString k u [''status'', ''resolvedModelAlias''] of
               None \<Rightarrow> ref
             | Some alias \<Rightarrow> if alias \<noteq> [] then ref\<lparr>ref_ModelName := alias\<rparr> else ref)"

definition enrichModelRefs :: "k8sApi \<Rightarrow> (string \<times> jmap) list option \<Rightarrow> ModelRefInfo list \<Rightarrow> ModelRefInfo list" where
  "enrichModelRefs k index refs =
     (case index of None \<Rightarrow> refs | Some ix \<Rightarrow> map (enrichModelRef k ix) refs)"

definition loadSubscriptions :: "Selector \<Rightarrow> (string, subscription list) result" where
  "loadSubscriptions s =
     (case sel_lister s of
        Inl err \<Rightarrow> Err err
      | Inr objects \<Rightarrow>
          let index = buildModelIndex s
          in Ok (concat (map (\<lambda>obj. case parseSubscription (sel_k8s s) obj of
                    Inl err \<Rightarrow> []
                  | Inr sub \<Rightarrow>
                      [sub\<lparr>sub_ModelRefs := enrichModelRefs (sel_k8s s) index (sub_ModelRefs sub)\<rparr>])
                  objects)))"

section \<open>Matching\<close>

definition userHasAccess :: "subscription \<Rightarrow> string \<Rightarrow> string list \<Rightarrow> bool" where
  "userHasAccess sub username groups =
     (if username \<in> set (sub_Users sub) then True
      else list_ex (\<lambda>subGroup. list_ex (\<lambda>userGroup. TrimSpace userGroup = subGroup) groups) (sub_Groups sub))"

definition findModelRef :: "subscription \<Rightarrow> string \<Rightarrow> ModelRefInfo option" where
  "findModelRef sub requestedModel =
     (let byAlias = find (\<lambda>ref. ref_ModelName ref \<noteq> [] \<and> ref_ModelName ref = requestedModel
                              \<or> ref_Name ref = requestedModel) (sub_ModelRefs sub)
      in case splitN2 (CHR ''/'') requestedModel of
           [ns, name] \<Rightarrow>
             (case find (\<lambda>ref. ref_Namespace ref = ns \<and> ref_Name ref = name) (sub_ModelRefs sub) of
                Some ref \<Rightarrow> Some ref
              | None \<Rightarrow> byAlias)
         | _ \<Rightarrow> byAlias)"

definition subscriptionIncludesModel :: "subscription \<Rightarrow> string \<Rightarrow> bool" where
  "subscriptionIncludesModel sub requestedModel =
     (if requestedModel = [] then True else findModelRef sub requestedModel \<noteq> None)"

definition refKey :: "ModelRefInfo \<Rightarrow> ModelKey" where
  "refKey ref = \<lparr>mk_Namespace = ref_Namespace ref, mk_Name = ref_Name ref\<rparr>"

text \<open>Membership in a Go set that may be nil.\<close>

definition inSet :: "ModelKey \<Rightarrow> ModelKey list option \<Rightarrow> bool" where
  "inSet key st = (case st of None \<Rightarrow> False | Some keys \<Rightarrow> key \<in> set keys)"

definition isModelAccessAllowed ::
  "Selector \<Rightarrow> string list \<Rightarrow> string \<Rightarrow> subscription \<Rightarrow> string \<Rightarrow> bool" where
  "isModelAccessAllowed s groups username sub requestedModel =
     (if requestedModel = [] then True
      else
        (case sel_accessChecker s of
           None \<Rightarrow> False
         | Some checker \<Rightarrow>
             (case findModelRef sub requestedModel of
                None \<Rightarrow> False
              | Some ref \<Rightarrow> inSet (refKey ref) (checker groups username))))"

definition unhealthy :: "subscription \<Rightarrow> string \<Rightarrow> string \<Rightarrow> sel_error" where
  "unhealthy sub reason message =
     ModelUnhealthy \<lparr>mue_Subscription = sub_Name sub, mue_Phase = sub_Phase sub, mue_Reason = reason,
       mue_Message = message\<rparr>"

text \<open>\<open>None\<close> is the nil error.\<close>

definition checkModelHealth :: "subscription \<Rightarrow> string \<Rightarrow> sel_error option" where
  "checkModelHealth sub requestedModel =
     (if requestedModel = [] then
        (if sub_Phase sub = [] then
           Some (unhealthy sub ''SubscriptionNotReady'' ''subscription is unreconciled (no status.phase set)'')
         else if sub_Phase sub = PhaseFailed then
           Some (unhealthy sub ''SubscriptionNotReady'' ''subscription is in Failed phase (cannot create API keys)'')
         else None)
      else if sub_Phase sub \<noteq> PhaseActive \<and> sub_Phase sub \<noteq> PhaseDegraded then
        (let phaseDisplay = (if sub_Phase sub = [] then ''unreconciled'' else sub_Phase sub)
         in Some (unhealthy sub ''SubscriptionNotReady''
                    (''subscription is in '' @ phaseDisplay @ '' phase (allowed: Active, Degraded)'')))
      else if sub_Phase sub \<noteq> PhaseDegraded then None
      else
        (case findModelRef sub requestedModel of
           None \<Rightarrow> Some (unhealthy sub ''InvalidModelFormat''
                           ''requested model does not match any model in the subscription'')
         | Some ref \<Rightarrow>
             if ref_TokenRateLimits ref = [] then None
             else
               (case find (\<lambda>trlp. trls_Model trlp = ref_Name ref) (sub_TokenRateLimitStatuses sub) of
                  None \<Rightarrow> Some (unhealthy sub ''RateLimitNotEnforced''
                                  ''subscription rate limiting policies are not ready'')
                | Some trlp \<Rightarrow>
                    if \<not> trls_Ready trlp
                    then Some (unhealthy sub ''RateLimitNotEnforced''
                                 ''subscription rate limiting policies are not ready'')
                    else None)))"

definition findModelNamespaces :: "subscription \<Rightarrow> string \<Rightarrow> string list" where
  "findModelNamespaces sub modelID =
     map ref_Namespace (filter (\<lambda>ref. ref_Name ref = modelID) (sub_ModelRefs sub))"

definition priorityLess :: "subscription \<Rightarrow> subscription \<Rightarrow> bool" where
  "priorityLess a b =
     (if sub_Priority a \<noteq> sub_Priority b then sub_Priority a > sub_Priority b
      else if sub_MaxLimit a \<noteq> sub_MaxLimit b then sub_MaxLimit a > sub_MaxLimit b
      else sub_Name a < sub_Name b)"

definition sortSubscriptionsByPriority :: "subscription list \<Rightarrow> subscription list" where
  "sortSubscriptionsByPriority subs = goSort priorityLess subs"

section \<open>Responses\<close>

definition toResponse :: "subscription \<Rightarrow> SelectResponse" where
  "toResponse sub =
     emptySelectResponse
       \<lparr>resp_Name := sub_Name sub, resp_Namespace := sub_Namespace sub,
        resp_DisplayName := sub_DisplayName sub, resp_Description := sub_Description sub,
        resp_Priority := sub_Priority sub, resp_ModelRefs := sub_ModelRefs sub,
        resp_OrganizationID := sub_OrganizationID sub, resp_CostCenter := sub_CostCenter sub,
        resp_Labels := sub_Labels sub, resp_Phase := sub_Phase sub, resp_Ready := sub_Ready sub,
        resp_DeletionTimestamp :=
          (case sub_DeletionTimestamp sub of None \<Rightarrow> [] | Some ts \<Rightarrow> ts)\<rparr>"

definition toResponseWithResolvedModel :: "subscription \<Rightarrow> string \<Rightarrow> SelectResponse" where
  "toResponseWithResolvedModel sub resolvedModel =
     (toResponse sub)\<lparr>resp_ResolvedModel := resolvedModel\<rparr>"

definition toSubscriptionInfo :: "subscription \<Rightarrow> SubscriptionInfo" where
  "toSubscriptionInfo sub =
     \<lparr>info_SubscriptionIDHeader = sub_Name sub, info_SubscriptionDescription = sub_Description sub,
      info_DisplayName = sub_DisplayName sub, info_Priority = sub_Priority sub,
      info_ModelRefs = sub_ModelRefs sub, info_OrganizationID = sub_OrganizationID sub,
      info_CostCenter = sub_CostCenter sub, info_Labels = sub_Labels sub\<rparr>"

definition ResponseToSubscriptionInfo :: "SelectResponse \<Rightarrow> SubscriptionInfo" where
  "ResponseToSubscriptionInfo sub =
     \<lparr>info_SubscriptionIDHeader = resp_Name sub, info_SubscriptionDescription = resp_Description sub,
      info_DisplayName = resp_DisplayName sub, info_Priority = resp_Priority sub,
      info_ModelRefs = resp_ModelRefs sub, info_OrganizationID = resp_OrganizationID sub,
      info_CostCenter = resp_CostCenter sub, info_Labels = resp_Labels sub\<rparr>"

section \<open>Selection\<close>

definition noSubject :: sel_error where
  "noSubject = SelOther ''either groups or username must be provided''"

definition loadFailed :: "string \<Rightarrow> sel_error" where
  "loadFailed err = SelOther (''failed to load subscriptions: '' @ err)"

definition filterAuthorizedModels ::
  "ModelRefInfo list \<Rightarrow> ModelKey list option \<Rightarrow> ModelRefInfo list" where
  "filterAuthorizedModels refs authorizedSet = filter (\<lambda>ref. inSet (refKey ref) authorizedSet) refs"

definition GetAllAccessible ::
  "Selector \<Rightarrow> string list \<Rightarrow> string \<Rightarrow> (sel_error, SelectResponse list) result" where
  "GetAllAccessible s groups username =
     (if groups = [] \<and> username = [] then Err noSubject
      else
        (case loadSubscriptions s of
           Inl err \<Rightarrow> Err (loadFailed err)
         | Inr subscriptions \<Rightarrow>
             let accessible = map toResponse
                   (filter (\<lambda>sub. userHasAccess sub username groups
                      \<and> (sub_Phase sub = PhaseActive \<or> sub_Phase sub = PhaseDegraded)
                      \<and> sub_DeletionTimestamp sub = None) subscriptions);
                 accessible = (case sel_accessChecker s of
                     None \<Rightarrow> accessible
                   | Some checker \<Rightarrow>
                       let authorizedSet = checker groups username
                       in filter (\<lambda>resp. resp_ModelRefs resp \<noteq> [])
                            (map (\<lambda>resp. resp\<lparr>resp_ModelRefs :=
                                filterAuthorizedModels (resp_ModelRefs resp) authorizedSet\<rparr>) accessible))
             in Ok (goSort (\<lambda>a b. resp_Name a < resp_Name b) accessible)))"

text \<open>What \<open>Select\<close> does with the subscription an explicit request names.\<close>

definition selectNamed ::
  "Selector \<Rightarrow> string list \<Rightarrow> string \<Rightarrow> string \<Rightarrow> string \<Rightarrow> subscription
    \<Rightarrow> (sel_error, SelectResponse) result" where
  "selectNamed s groups username requestedSubscription requestedModel sub =
     (if \<not> userHasAccess sub username groups then Err (AccessDeniedError requestedSubscription)
      else if requestedModel \<noteq> [] \<and> \<not> subscriptionIncludesModel sub requestedModel
      then Err (ModelNotInSubscriptionError requestedSubscription requestedModel)
      else
        (case checkModelHealth sub requestedModel of
           Some err \<Rightarrow> Err err
         | None \<Rightarrow>
             Ok ((toResponseWithResolvedModel sub requestedModel)
                  \<lparr>resp_AccessAllowed := isModelAccessAllowed s groups username sub requestedModel\<rparr>)))"

definition Select ::
  "Selector \<Rightarrow> string list \<Rightarrow> string \<Rightarrow> string \<Rightarrow> string \<Rightarrow> (sel_error, SelectResponse) result" where
  "Select s groups username requestedSubscription requestedModel0 =
     (if groups = [] \<and> username = [] then Err noSubject
      else
        let requestedModel = resolveModelAlias s requestedModel0
        in case loadSubscriptions s of
             Inl err \<Rightarrow> Err (loadFailed err)
           | Inr subscriptions0 \<Rightarrow>
               if subscriptions0 = [] then Err NoSubscriptionError
               else
                 let subscriptions = sortSubscriptionsByPriority subscriptions0
                 in if requestedSubscription \<noteq> [] then
                      (case find (\<lambda>sub. sub_Namespace sub @ ''/'' @ sub_Name sub = requestedSubscription)
                              subscriptions of
                         Some sub \<Rightarrow> selectNamed s groups username requestedSubscription requestedModel sub
                       | None \<Rightarrow>
                           (case (if CHR ''/'' \<in> set requestedSubscription then None
                                  else find (\<lambda>sub. sub_Name sub = requestedSubscription) subscriptions) of
                              Some sub \<Rightarrow>
                                selectNamed s groups username requestedSubscription requestedModel sub
                            | None \<Rightarrow> Err (SubscriptionNotFoundError requestedSubscription)))
                    else
                      (case filter (\<lambda>sub. userHasAccess sub username groups
                              \<and> \<not> (requestedModel \<noteq> [] \<and> \<not> subscriptionIncludesModel sub requestedModel))
                            subscriptions of
                         [] \<Rightarrow> Err NoSubscriptionError
                       | [sub] \<Rightarrow>
                           (case checkModelHealth sub requestedModel of
                              Some err \<Rightarrow> Err err
                            | None \<Rightarrow>
                                Ok ((toResponseWithResolvedModel sub requestedModel)
                                  \<lparr>resp_AccessAllowed :=
                                     isModelAccessAllowed s groups username sub requestedModel\<rparr>))
                       | subs \<Rightarrow> Err (MultipleSubscriptionsError (map sub_Name subs))))"

definition SelectHighestPriority ::
  "Selector \<Rightarrow> string list \<Rightarrow> string \<Rightarrow> (sel_error, SelectResponse) result" where
  "SelectHighestPriority s groups username =
     (if groups = [] \<and> username = [] then Err noSubject
      else
        (case loadSubscriptions s of
           Inl err \<Rightarrow> Err (loadFailed err)
         | Inr subscriptions \<Rightarrow>
             if subscriptions = [] then Err NoSubscriptionError
             else
               (case filter (\<lambda>sub. userHasAccess sub username groups) subscriptions of
                  [] \<Rightarrow> Err NoSubscriptionError
                | accessible \<Rightarrow> Ok (toResponse (hd (sortSubscriptionsByPriority accessible))))))"

definition ListAccessibleForModel ::
  "Selector \<Rightarrow> string \<Rightarrow> string list \<Rightarrow> string \<Rightarrow> (sel_error, SubscriptionInfo list) result" where
  "ListAccessibleForModel s username groups modelID =
     (case loadSubscriptions s of
        Inl err \<Rightarrow> Err (loadFailed err)
      | Inr subscriptions \<Rightarrow>
          let authorizedSet = (case sel_accessChecker s of
                None \<Rightarrow> None
              | Some checker \<Rightarrow> checker groups username);
              result = map toSubscriptionInfo
                (filter (\<lambda>sub. userHasAccess sub username groups \<and> findModelNamespaces sub modelID \<noteq> []
                   \<and> (sel_accessChecker s \<noteq> None \<longrightarrow>
                        list_ex (\<lambda>ns. inSet \<lparr>mk_Namespace = ns, mk_Name = modelID\<rparr> authorizedSet)
                          (findModelNamespaces sub modelID))) subscriptions)
          in Ok (goSort (\<lambda>a b. info_SubscriptionIDHeader a < info_SubscriptionIDHeader b) result))"

section \<open>The order of subscriptions\<close>

lemma priorityLess_iff:
  "priorityLess a b \<longleftrightarrow> sub_Priority b < sub_Priority a \<or>
     sub_Priority a = sub_Priority b \<and>
       (sub_MaxLimit b < sub_MaxLimit a \<or> sub_MaxLimit a = sub_MaxLimit b \<and> sub_Name a < sub_Name b)"
  by (auto simp: priorityLess_def)

interpretation by_priority: go_less priorityLess
  by unfold_locales (auto simp: priorityLess_iff)

lemma sortSubscriptionsByPriority_sort [simp]:
  "set (sortSubscriptionsByPriority subs) = set subs"
  "mset (sortSubscriptionsByPriority subs) = mset subs"
  "sortSubscriptionsByPriority subs = [] \<longleftrightarrow> subs = []"
  "sortSubscriptionsByPriority [] = []"
  by (simp_all add: sortSubscriptionsByPriority_def)

lemma toResponse_sel [simp]:
  "resp_Name (toResponse sub) = sub_Name sub" "resp_Namespace (toResponse sub) = sub_Namespace sub"
  "resp_Phase (toResponse sub) = sub_Phase sub" "resp_ModelRefs (toResponse sub) = sub_ModelRefs sub"
  "resp_Error (toResponse sub) = []" "resp_Message (toResponse sub) = []"
  by (simp_all add: toResponse_def emptySelectResponse_def)

lemma toResponseWithResolvedModel_sel [simp]:
  "resp_Name (toResponseWithResolvedModel sub m) = sub_Name sub"
  "resp_Namespace (toResponseWithResolvedModel sub m) = sub_Namespace sub"
  "resp_Phase (toResponseWithResolvedModel sub m) = sub_Phase sub"
  "resp_ModelRefs (toResponseWithResolvedModel sub m) = sub_ModelRefs sub"
  "resp_ResolvedModel (toResponseWithResolvedModel sub m) = m"
  "resp_Error (toResponseWithResolvedModel sub m) = []"
  by (simp_all add: toResponseWithResolvedModel_def)

section \<open>Models and their health\<close>

text \<open>A reference that was found is one of the subscription's and answers to the requested name.\<close>

lemma findModelRef_SomeD:
  assumes "findModelRef sub m = Some ref"
  shows "ref \<in> set (sub_ModelRefs sub) \<and>
    (m = ref_Namespace ref @ ''/'' @ ref_Name ref \<or> m = ref_ModelName ref \<or> m = ref_Name ref)"
proof (cases rule: splitN2_cases [of "CHR ''/''" m])
  case none
  then show ?thesis using assms by (auto simp: findModelRef_def dest!: find_SomeD)
next
  case (pair a b)
  then show ?thesis
    using assms by (auto simp: findModelRef_def dest!: find_SomeD split: option.splits)
qed

text \<open>Whether the rate limits of a model are enforced, as far as a Degraded subscription needs it.\<close>

definition limitsEnforced :: "subscription \<Rightarrow> ModelRefInfo \<Rightarrow> bool" where
  "limitsEnforced sub ref \<longleftrightarrow> ref_TokenRateLimits ref = [] \<or>
     (\<exists>trlp\<in>set (sub_TokenRateLimitStatuses sub). trls_Model trlp = ref_Name ref \<and> trls_Ready trlp)"

text \<open>When a subscription may serve a request, as \<open>checkModelHealth\<close> documents it.\<close>

definition servable :: "subscription \<Rightarrow> string \<Rightarrow> bool" where
  "servable sub m \<longleftrightarrow>
     (if m = [] then sub_Phase sub \<noteq> [] \<and> sub_Phase sub \<noteq> PhaseFailed
      else sub_Phase sub = PhaseActive
        \<or> sub_Phase sub = PhaseDegraded \<and> (\<exists>ref. findModelRef sub m = Some ref \<and> limitsEnforced sub ref))"

lemma checkModelHealth_NoneD: "checkModelHealth sub m = None \<Longrightarrow> servable sub m"
  by (auto simp: checkModelHealth_def servable_def limitsEnforced_def Let_def phase_defs
      dest!: find_SomeD split: if_splits option.splits)

text \<open>The answer \<open>Select\<close> gives for one subscription.\<close>

definition answers ::
  "Selector \<Rightarrow> string list \<Rightarrow> string \<Rightarrow> string \<Rightarrow> subscription \<Rightarrow> SelectResponse \<Rightarrow> bool" where
  "answers s groups username m sub resp \<longleftrightarrow>
     userHasAccess sub username groups \<and> subscriptionIncludesModel sub m \<and> servable sub m
     \<and> resp = (toResponseWithResolvedModel sub m)
         \<lparr>resp_AccessAllowed := isModelAccessAllowed s groups username sub m\<rparr>"

lemma selectNamed_OkD:
  "selectNamed s groups username rs m sub = Inr resp \<Longrightarrow> answers s groups username m sub resp"
  by (auto simp: selectNamed_def answers_def subscriptionIncludesModel_def
      dest!: checkModelHealth_NoneD split: if_splits option.splits)

lemma eligible_iff: "m = [] \<or> subscriptionIncludesModel sub m \<longleftrightarrow> subscriptionIncludesModel sub m"
  by (auto simp: subscriptionIncludesModel_def)

lemma Select_OkD:
  assumes "Select s groups username rs rm = Inr resp"
  shows "\<exists>subs sub. loadSubscriptions s = Inr subs \<and> sub \<in> set subs
    \<and> answers s groups username (resolveModelAlias s rm) sub resp
    \<and> (rs \<noteq> [] \<longrightarrow> rs = sub_Namespace sub @ ''/'' @ sub_Name sub \<or> rs = sub_Name sub)"
proof -
  let ?m = "resolveModelAlias s rm"
  obtain subs where subs: "loadSubscriptions s = Inr subs" "subs \<noteq> []"
    using assms by (auto simp: Select_def Let_def split: if_splits sum.splits)
  let ?sorted = "sortSubscriptionsByPriority subs"
  show ?thesis
  proof (cases "rs = []")
    case True
    let ?ok = "\<lambda>sub. userHasAccess sub username groups \<and> subscriptionIncludesModel sub ?m"
    obtain sub where sub: "filter ?ok ?sorted = [sub]" "checkModelHealth sub ?m = None"
      "resp = (toResponseWithResolvedModel sub ?m)
         \<lparr>resp_AccessAllowed := isModelAccessAllowed s groups username sub ?m\<rparr>"
      using assms subs True
      by (auto simp: Select_def Let_def eligible_iff split: if_splits list.splits option.splits)
    have "sub \<in> set subs" "?ok sub" using arg_cong [OF sub(1), of set] by auto
    with sub(2,3) have "answers s groups username ?m sub resp"
      by (simp add: answers_def checkModelHealth_NoneD)
    with \<open>sub \<in> set subs\<close> subs(1) True show ?thesis by blast
  next
    case False
    have "\<exists>sub \<in> set ?sorted. selectNamed s groups username rs ?m sub = Inr resp
        \<and> (rs = sub_Namespace sub @ ''/'' @ sub_Name sub \<or> rs = sub_Name sub)"
      using assms subs False
      by (auto simp: Select_def Let_def dest!: find_SomeD split: if_splits option.splits)
    with subs show ?thesis by (auto dest!: selectNamed_OkD)
  qed
qed

section \<open>What parsing leaves alone\<close>

lemma parse_priority_sel:
  "sub_Priority (parseAnnotations k obj sub) = sub_Priority sub"
  "sub_Priority (parseOwner k spec sub) = sub_Priority sub"
  "sub_Priority (parseModelRefs k spec sub) = sub_Priority sub"
  "sub_Priority (parseTokenMetadata k spec sub) = sub_Priority sub"
  "sub_Priority (parseStatus k obj sub) = sub_Priority sub"
  "sub_Priority (parseDeletion obj sub) = sub_Priority sub"
  by (simp_all add: parseAnnotations_def parseOwner_def parseModelRefs_def parseTokenMetadata_def
      parseStatus_def parseDeletion_def Let_def split: option.splits)

text \<open>Every step of the parser keeps the maximum in step with the model references.\<close>

definition maxLimitOk :: "subscription \<Rightarrow> bool" where
  "maxLimitOk sub \<longleftrightarrow> sub_MaxLimit sub = maxLimitOf (sub_ModelRefs sub)"

lemma parse_maxLimitOk:
  "maxLimitOk sub \<Longrightarrow> maxLimitOk (parseAnnotations k obj sub)"
  "maxLimitOk sub \<Longrightarrow> maxLimitOk (parseOwner k spec sub)"
  "maxLimitOk sub \<Longrightarrow> maxLimitOk (parsePriority k spec sub)"
  "maxLimitOk sub \<Longrightarrow> maxLimitOk (parseModelRefs k spec sub)"
  "maxLimitOk sub \<Longrightarrow> maxLimitOk (parseTokenMetadata k spec sub)"
  "maxLimitOk sub \<Longrightarrow> maxLimitOk (parseStatus k obj sub)"
  "maxLimitOk sub \<Longrightarrow> maxLimitOk (parseDeletion obj sub)"
  by (simp_all add: maxLimitOk_def parseAnnotations_def parseOwner_def parsePriority_def
      parseModelRefs_def parseTokenMetadata_def parseStatus_def parseDeletion_def Let_def
      split: option.splits)

lemma fold_larger:
  "fold (\<lambda>trl m. if trl_Limit trl > m then trl_Limit trl else m) ts m = fold max (map trl_Limit ts) m"
  by (induction ts arbitrary: m) (auto simp: max_def)

lemma maxLimitOf_concat:
  "fold (\<lambda>ref m. fold (\<lambda>trl m. if trl_Limit trl > m then trl_Limit trl else m)
      (ref_TokenRateLimits ref) m) refs m
   = fold max (concat (map (map trl_Limit \<circ> ref_TokenRateLimits) refs)) m"
  by (induction refs arbitrary: m) (simp_all add: fold_larger)

lemma maxLimitOf_Max:
  "maxLimitOf refs = Max (insert 0 (trl_Limit ` (\<Union>ref\<in>set refs. set (ref_TokenRateLimits ref))))"
proof -
  let ?ls = "concat (map (map trl_Limit \<circ> ref_TokenRateLimits) refs)"
  have "maxLimitOf refs = Max (set (0 # ?ls))"
    unfolding maxLimitOf_def maxLimitOf_concat by (rule Max.set_eq_fold [symmetric])
  also have "set (0 # ?ls) = insert 0 (trl_Limit ` (\<Union>ref\<in>set refs. set (ref_TokenRateLimits ref)))"
    by auto
  finally show ?thesis .
qed

section \<open>A cluster for the instances\<close>

text \<open>One policy, two subscriptions of the group \<open>dev\<close>, the second of which has failed.\<close>

definition sampleSubObject :: "string \<Rightarrow> int \<Rightarrow> string \<Rightarrow> jmap" where
  "sampleSubObject name priority phase =
     [(''metadata'', JObj [(''name'', JStr name), (''namespace'', JStr ''maas'')]),
      (''spec'', JObj [(''owner'', JObj [(''groups'', JArr [JObj [(''name'', JStr ''dev'')]])]),
         (''priority'', JInt priority),
         (''modelRefs'', JArr [JObj [(''name'', JStr ''opt''), (''namespace'', JStr ''llm''),
            (''tokenRateLimits'', JArr [JObj [(''limit'', JInt 100), (''window'', JStr ''1m'')]])]])]),
      (''status'', JObj [(''phase'', JStr phase)])]"

definition sampleSelector :: Selector where
  "sampleSelector =
     \<lparr>sel_k8s = walkApi,
      sel_lister = Inr [sampleSubObject ''gold'' 5 ''Active'', sampleSubObject ''iron'' 9 ''Failed''],
      sel_modelLister = None,
      sel_accessChecker =
        Some (\<lambda>groups username. Some [\<lparr>mk_Namespace = ''llm'', mk_Name = ''opt''\<rparr>])\<rparr>"

definition sampleSub :: "string \<Rightarrow> int \<Rightarrow> string \<Rightarrow> subscription" where
  "sampleSub name priority phase =
     emptySubscription\<lparr>sub_Name := name, sub_Namespace := ''maas'', sub_Groups := [''dev''],
       sub_Priority := priority, sub_MaxLimit := 100, sub_Phase := phase,
       sub_ModelRefs := [\<lparr>ref_Name = ''opt'', ref_Namespace = ''llm'', ref_ModelName = [],
         ref_DisplayName = [], ref_Description = [], ref_Source = [],
         ref_TokenRateLimits = [\<lparr>trl_Limit = 100, trl_Window = ''1m''\<rparr>], ref_BillingRate = None\<rparr>]\<rparr>"

lemmas parse_defs =
  parseSubscription_def parseAnnotations_def parsePriority_def parseModelRefs_def parseDeletion_def
  parseOwner_def parseStatus_def parseTokenMetadata_def parseMaps_def
  parseModelRef_def parseTokenRateLimit_def maxLimitOf_def fieldAs_def stringOf_def walkApi_def

lemma sampleSelector_sel [simp]:
  "sel_modelLister sampleSelector = None"
  "sel_accessChecker sampleSelector =
     Some (\<lambda>groups username. Some [\<lparr>mk_Namespace = ''llm'', mk_Name = ''opt''\<rparr>])"
  by (simp_all add: sampleSelector_def)

lemma sample_parse:
  assumes "TrimSpace phase = phase" "0 \<le> priority" "priority \<le> 2147483647"
  shows "parseSubscription walkApi (sampleSubObject name priority phase)
    = Inr (sampleSub name priority phase)"
  using assms
  by (simp add: parse_defs sampleSubObject_def sampleSub_def emptySubscription_def)

lemma sample_load:
  "loadSubscriptions sampleSelector = Inr [sampleSub ''gold'' 5 ''Active'', sampleSub ''iron'' 9 ''Failed'']"
proof -
  have "TrimSpace ''Active'' = ''Active''" "TrimSpace ''Failed'' = ''Failed''"
    by (simp_all add: TrimSpace_id spaceByte_def spaceRunes_def)
  then show ?thesis
    by (simp add: loadSubscriptions_def sampleSelector_def buildModelIndex_def sample_parse
        enrichModelRefs_def)
qed

lemma sampleSub_sel [simp]:
  "sub_Name (sampleSub n p ph) = n" "sub_Namespace (sampleSub n p ph) = ''maas''"
  "sub_Users (sampleSub n p ph) = []" "sub_Groups (sampleSub n p ph) = [''dev'']"
  "sub_Priority (sampleSub n p ph) = p" "sub_MaxLimit (sampleSub n p ph) = 100"
  "sub_Phase (sampleSub n p ph) = ph" "sub_DeletionTimestamp (sampleSub n p ph) = None"
  by (simp_all add: sampleSub_def emptySubscription_def)

lemma sample_access [simp]: "userHasAccess (sampleSub n p ph) u [''dev'']"
proof -
  have "TrimSpace ''dev'' = ''dev''" by (simp add: TrimSpace_id spaceByte_def spaceRunes_def)
  then show ?thesis by (simp add: userHasAccess_def)
qed

lemma sample_model [simp]:
  "findModelRef (sampleSub n p ph) ''llm/opt'' = Some (hd (sub_ModelRefs (sampleSub n p ph)))"
  by (simp add: findModelRef_def splitN2_def sampleSub_def)

lemma sample_Select:
  "Select sampleSelector [''dev''] ''alice'' ''gold'' ''llm/opt'' =
     Inr ((toResponseWithResolvedModel (sampleSub ''gold'' 5 ''Active'') ''llm/opt'')
       \<lparr>resp_AccessAllowed := True\<rparr>)"
  by (simp add: Select_def Let_def sample_load resolveModelAlias_def
      sortSubscriptionsByPriority_def priorityLess_def selectNamed_def subscriptionIncludesModel_def
      checkModelHealth_def phase_defs isModelAccessAllowed_def inSet_def refKey_def)
   (simp add: sampleSub_def)

section \<open>Properties\<close>

text \<open>
  C7: a selected subscription is legitimate. Whatever subscription \<open>Select\<close> returns exists in the
  cluster, belongs to the user or to one of the user's groups, is the one asked for when one was
  named, lists the requested model, and may serve it: a new key only outside the phases Failed and
  unreconciled, a request for a model only in the phase Active, or in Degraded with the rate
  limits of that model enforced. The response carries access to the model only if the access
  checker authorised exactly the resolved model.
\<close>

theorem Select_sound:
  assumes "Select s groups username rs rm = Inr resp"
  defines "m \<equiv> resolveModelAlias s rm"
  shows "\<exists>subs sub. loadSubscriptions s = Inr subs \<and> sub \<in> set subs
    \<and> resp_Name resp = sub_Name sub \<and> resp_Namespace resp = sub_Namespace sub
    \<and> userHasAccess sub username groups
    \<and> (rs \<noteq> [] \<longrightarrow> rs = sub_Namespace sub @ ''/'' @ sub_Name sub \<or> rs = sub_Name sub)
    \<and> (m = [] \<longrightarrow> sub_Phase sub \<noteq> [] \<and> sub_Phase sub \<noteq> PhaseFailed)
    \<and> (m \<noteq> [] \<longrightarrow> (\<exists>ref. findModelRef sub m = Some ref
          \<and> (sub_Phase sub = PhaseActive \<or> sub_Phase sub = PhaseDegraded \<and> limitsEnforced sub ref)
          \<and> (resp_AccessAllowed resp \<longleftrightarrow>
               (\<exists>checker. sel_accessChecker s = Some checker
                  \<and> inSet (refKey ref) (checker groups username)))))"
proof -
  obtain subs sub where a: "loadSubscriptions s = Inr subs" "sub \<in> set subs"
    "answers s groups username m sub resp"
    "rs \<noteq> [] \<longrightarrow> rs = sub_Namespace sub @ ''/'' @ sub_Name sub \<or> rs = sub_Name sub"
    using Select_OkD [OF assms(1)] unfolding m_def by blast
  show ?thesis
  proof (intro exI conjI impI)
    show "loadSubscriptions s = Inr subs" "sub \<in> set subs" using a by auto
    show "resp_Name resp = sub_Name sub" "resp_Namespace resp = sub_Namespace sub"
      "userHasAccess sub username groups"
      using a(3) by (simp_all add: answers_def)
    show "sub_Phase sub \<noteq> []" "sub_Phase sub \<noteq> PhaseFailed" if "m = []"
      using a(3) that by (simp_all add: answers_def servable_def)
  next
    assume "rs \<noteq> []"
    then show "rs = sub_Namespace sub @ ''/'' @ sub_Name sub \<or> rs = sub_Name sub" using a(4) by blast
  next
    assume m: "m \<noteq> []"
    then obtain ref where ref: "findModelRef sub m = Some ref"
      using a(3) by (auto simp: answers_def subscriptionIncludesModel_def)
    with a(3) m show "findModelRef sub m = Some (the (findModelRef sub m))"
      "sub_Phase sub = PhaseActive
        \<or> sub_Phase sub = PhaseDegraded \<and> limitsEnforced sub (the (findModelRef sub m))"
      "resp_AccessAllowed resp \<longleftrightarrow> (\<exists>checker. sel_accessChecker s = Some checker
         \<and> inSet (refKey (the (findModelRef sub m))) (checker groups username))"
      by (auto simp: answers_def servable_def isModelAccessAllowed_def split: option.splits)
  qed
qed

theorem Select_sound_witness:
  "\<exists>subs sub. loadSubscriptions sampleSelector = Inr subs \<and> sub \<in> set subs
     \<and> sub_Name sub = ''gold'' \<and> userHasAccess sub ''alice'' [''dev'']"
  using Select_sound [OF sample_Select] by auto

text \<open>The subscriptions automatic selection chooses from.\<close>

definition eligible :: "Selector \<Rightarrow> string list \<Rightarrow> string \<Rightarrow> string \<Rightarrow> subscription list \<Rightarrow> subscription list" where
  "eligible s groups username rm subs =
     filter (\<lambda>sub. userHasAccess sub username groups
               \<and> subscriptionIncludesModel sub (resolveModelAlias s rm)) subs"

lemma eligible_sorted:
  "filter (\<lambda>sub. userHasAccess sub username groups
      \<and> subscriptionIncludesModel sub (resolveModelAlias s rm)) (sortSubscriptionsByPriority subs)
   = sortSubscriptionsByPriority (eligible s groups username rm subs)"
  by (simp add: sortSubscriptionsByPriority_def eligible_def by_priority.filter_goSort)

text \<open>
  Automatic selection never guesses. With no subscription named, the outcome depends only on
  the subscriptions the user can use for the model: none gives \<open>NoSubscriptionError\<close>, exactly one is
  selected if it is healthy and its health error is returned otherwise, and with several the error
  lists every one of them, whatever order the cache returns them in.
\<close>

theorem Select_auto:
  assumes "groups \<noteq> [] \<or> username \<noteq> []" and "loadSubscriptions s = Inr subs"
  shows "case eligible s groups username rm subs of
      [] \<Rightarrow> Select s groups username [] rm = Inl NoSubscriptionError
    | [sub] \<Rightarrow>
        (case checkModelHealth sub (resolveModelAlias s rm) of
           Some err \<Rightarrow> Select s groups username [] rm = Inl err
         | None \<Rightarrow> \<exists>resp. Select s groups username [] rm = Inr resp \<and> resp_Name resp = sub_Name sub
                     \<and> resp_Namespace resp = sub_Namespace sub)
    | es \<Rightarrow> \<exists>names. Select s groups username [] rm = Inl (MultipleSubscriptionsError names)
                 \<and> mset names = mset (map sub_Name es)"
proof -
  let ?es = "eligible s groups username rm subs"
  let ?sorted = "sortSubscriptionsByPriority ?es"
  have sel: "Select s groups username [] rm =
      (case ?sorted of
         [] \<Rightarrow> Inl NoSubscriptionError
       | [sub] \<Rightarrow>
           (case checkModelHealth sub (resolveModelAlias s rm) of
              Some err \<Rightarrow> Inl err
            | None \<Rightarrow> Inr ((toResponseWithResolvedModel sub (resolveModelAlias s rm))
                \<lparr>resp_AccessAllowed :=
                   isModelAccessAllowed s groups username sub (resolveModelAlias s rm)\<rparr>))
       | ss \<Rightarrow> Inl (MultipleSubscriptionsError (map sub_Name ss)))"
    using assms by (auto simp: Select_def Let_def eligible_iff eligible_sorted eligible_def)
  show ?thesis
  proof (cases ?es)
    case Nil
    then show ?thesis using sel by (simp add: sortSubscriptionsByPriority_def)
  next
    case (Cons sub rest)
    show ?thesis
    proof (cases rest)
      case Nil
      with Cons show ?thesis using sel
        by (simp add: sortSubscriptionsByPriority_def split: option.splits)
    next
      case (Cons sub' rest')
      with \<open>?es = sub # rest\<close> have es: "?es = sub # sub' # rest'" by simp
      have "length ?sorted = length ?es" by (simp add: sortSubscriptionsByPriority_def)
      with es obtain a b ss where ss: "?sorted = a # b # ss"
        by (cases ?sorted; cases "tl ?sorted") auto
      have "mset (map sub_Name ?sorted) = mset (map sub_Name ?es)"
        by (simp only: mset_map sortSubscriptionsByPriority_sort)
      with sel ss es show ?thesis by simp
    qed
  qed
qed

theorem Select_auto_witness:
  "\<exists>names. Select sampleSelector [''dev''] ''alice'' [] ''llm/opt'' = Inl (MultipleSubscriptionsError names)
     \<and> mset names = {#''gold'', ''iron''#}"
  using Select_auto [of "[''dev'']" "''alice''" sampleSelector _ "''llm/opt''", OF _ sample_load]
  by (simp add: eligible_def resolveModelAlias_def subscriptionIncludesModel_def)

text \<open>
  The default subscription of a new key. When the user can use any subscription at all,
  \<open>SelectHighestPriority\<close> returns one of them that no other beats: highest priority first, then
  highest token limit, then first name in byte order.
\<close>

theorem SelectHighestPriority_best:
  assumes "groups \<noteq> [] \<or> username \<noteq> []" and "loadSubscriptions s = Inr subs"
    and "q \<in> set subs" "userHasAccess q username groups"
  shows "\<exists>sub\<in>set subs. SelectHighestPriority s groups username = Inr (toResponse sub)
    \<and> userHasAccess sub username groups
    \<and> (sub_Priority q < sub_Priority sub \<or> sub_Priority q = sub_Priority sub
        \<and> (sub_MaxLimit q < sub_MaxLimit sub
           \<or> sub_MaxLimit q = sub_MaxLimit sub \<and> sub_Name sub \<le> sub_Name q))"
proof -
  let ?acc = "filter (\<lambda>sub. userHasAccess sub username groups) subs"
  let ?sub = "hd (sortSubscriptionsByPriority ?acc)"
  have q: "q \<in> set ?acc" and ne: "?acc \<noteq> []" "subs \<noteq> []" using assms(3,4) by (auto simp: filter_empty_conv)
  then have "?sub \<in> set ?acc"
    by (metis hd_in_set sortSubscriptionsByPriority_sort(1,3))
  moreover have "\<not> priorityLess q ?sub"
    using by_priority.hd_goSort_least [OF q] by (simp add: sortSubscriptionsByPriority_def)
  moreover have "SelectHighestPriority s groups username = Inr (toResponse ?sub)"
    using assms(1,2) ne by (auto simp: SelectHighestPriority_def split: list.splits)
  ultimately show ?thesis
    by (intro bexI [of _ ?sub]) (auto simp: priorityLess_iff)
qed

theorem SelectHighestPriority_best_witness:
  "\<exists>sub\<in>set [sampleSub ''gold'' 5 ''Active'', sampleSub ''iron'' 9 ''Failed''].
     SelectHighestPriority sampleSelector [''dev''] ''alice'' = Inr (toResponse sub)"
  using SelectHighestPriority_best [OF _ sample_load, of "[''dev'']" "''alice''" "sampleSub ''gold'' 5 ''Active''"]
  by auto

text \<open>
  The same selection ignores the phase of a subscription: the failed subscription of the sample
  is chosen over the active one, although an explicit request for it is refused.
\<close>

lemma SelectHighestPriority_failed_phase:
  "SelectHighestPriority sampleSelector [''dev''] ''alice'' = Inr (toResponse (sampleSub ''iron'' 9 ''Failed''))
   \<and> (\<exists>err. Select sampleSelector [''dev''] ''alice'' ''iron'' [] = Inl (ModelUnhealthy err))"
  by (simp add: SelectHighestPriority_def Select_def Let_def sample_load resolveModelAlias_def
      sortSubscriptionsByPriority_def priorityLess_def selectNamed_def subscriptionIncludesModel_def
      checkModelHealth_def phase_defs unhealthy_def)

text \<open>
  The listing of a user's subscriptions is exact. With an access checker, the answer holds,
  sorted by name, exactly the subscriptions that the user or a group of the user owns, that are
  Active or Degraded and not being deleted, each reduced to the models the policies authorise for
  the user, and none that is left without a model.
\<close>

theorem GetAllAccessible_exact:
  assumes "GetAllAccessible s groups username = Inr resps"
    and "sel_accessChecker s = Some checker" and "loadSubscriptions s = Inr subs"
  shows "sorted_wrt (\<lambda>a b. resp_Name a \<le> resp_Name b) resps
    \<and> set resps =
      {resp. resp_ModelRefs resp \<noteq> [] \<and>
        (\<exists>sub\<in>set subs. userHasAccess sub username groups
          \<and> (sub_Phase sub = PhaseActive \<or> sub_Phase sub = PhaseDegraded)
          \<and> sub_DeletionTimestamp sub = None
          \<and> resp = (toResponse sub)\<lparr>resp_ModelRefs :=
               filter (\<lambda>ref. inSet (refKey ref) (checker groups username)) (sub_ModelRefs sub)\<rparr>)}"
proof
  note eq = assms(1) [unfolded GetAllAccessible_def Let_def assms(2,3) filterAuthorizedModels_def]
  show "sorted_wrt (\<lambda>a b. resp_Name a \<le> resp_Name b) resps"
    using eq key_less.sorted_goSort [of resp_Name] by (auto simp: not_less split: if_splits)
  show "set resps =
      {resp. resp_ModelRefs resp \<noteq> [] \<and>
        (\<exists>sub\<in>set subs. userHasAccess sub username groups
          \<and> (sub_Phase sub = PhaseActive \<or> sub_Phase sub = PhaseDegraded)
          \<and> sub_DeletionTimestamp sub = None
          \<and> resp = (toResponse sub)\<lparr>resp_ModelRefs :=
               filter (\<lambda>ref. inSet (refKey ref) (checker groups username)) (sub_ModelRefs sub)\<rparr>)}"
    using eq by (auto split: if_splits)
qed

lemma GetAllAccessible_found:
  assumes "GetAllAccessible s groups username = Inr resps" and "loadSubscriptions s = Inr subs"
    and "resp \<in> set resps" and "sel_accessChecker s = Some checker"
  shows "\<exists>sub\<in>set subs. resp_Name resp = sub_Name sub \<and> userHasAccess sub username groups
    \<and> (sub_Phase sub = PhaseActive \<or> sub_Phase sub = PhaseDegraded) \<and> sub_DeletionTimestamp sub = None
    \<and> resp_ModelRefs resp \<noteq> []
    \<and> resp_ModelRefs resp = filter (\<lambda>ref. inSet (refKey ref) (checker groups username)) (sub_ModelRefs sub)"
proof -
  obtain sub where "sub \<in> set subs" "userHasAccess sub username groups"
    "sub_Phase sub = PhaseActive \<or> sub_Phase sub = PhaseDegraded" "sub_DeletionTimestamp sub = None"
    "resp_ModelRefs resp \<noteq> []" "resp = (toResponse sub)\<lparr>resp_ModelRefs :=
       filter (\<lambda>ref. inSet (refKey ref) (checker groups username)) (sub_ModelRefs sub)\<rparr>"
    using GetAllAccessible_exact [OF assms(1,4,2)] assms(3) by auto
  then show ?thesis by (intro bexI [of _ sub]) auto
qed

lemma sample_GetAll:
  "\<exists>resps. GetAllAccessible sampleSelector [''dev''] ''alice'' = Inr resps"
  by (simp add: GetAllAccessible_def sample_load)

theorem GetAllAccessible_exact_witness:
  "\<exists>resps. GetAllAccessible sampleSelector [''dev''] ''alice'' = Inr resps
     \<and> sorted_wrt (\<lambda>a b. resp_Name a \<le> resp_Name b) resps
     \<and> (\<forall>resp\<in>set resps. resp_Name resp = ''gold'')"
proof -
  obtain resps where r: "GetAllAccessible sampleSelector [''dev''] ''alice'' = Inr resps"
    using sample_GetAll by blast
  from GetAllAccessible_exact [OF r sampleSelector_sel(2) sample_load] r show ?thesis
    by (auto simp: phase_defs)
qed

text \<open>
  Parsing keeps the numbers in range. Whatever object the cache holds, a parsed subscription
  has a priority that fits Go's \<open>int32\<close> and is not negative, and its maximum is the largest token
  limit of its models, or zero.
\<close>

theorem parseSubscription_bounds:
  assumes "parseSubscription k obj = Inr sub"
  shows "0 \<le> sub_Priority sub \<and> sub_Priority sub < 2 ^ 31
    \<and> sub_MaxLimit sub = Max (insert 0 (trl_Limit ` (\<Union>ref\<in>set (sub_ModelRefs sub). set (ref_TokenRateLimits ref))))"
proof -
  obtain spec where "NestedMap k obj [''spec''] = Some spec"
    using assms by (auto simp: parseSubscription_def split: option.splits)
  note parsed = assms [unfolded parseSubscription_def Let_def this option.case sum.inject]
  have "0 \<le> sub_Priority sub \<and> sub_Priority sub < 2 ^ 31"
    using parsed [symmetric]
    by (simp add: parse_priority_sel)
      (simp add: parsePriority_def parse_priority_sel emptySubscription_def split: option.splits)
  moreover have "maxLimitOk sub"
    unfolding parsed [symmetric]
    by (intro parse_maxLimitOk) (simp add: maxLimitOk_def maxLimitOf_def emptySubscription_def)
  ultimately show ?thesis by (simp add: maxLimitOk_def maxLimitOf_Max)
qed

theorem parseSubscription_bounds_witness:
  "sub_MaxLimit (sampleSub ''gold'' 5 ''Active'') = Max {0, 100}
   \<and> sub_Priority (sampleSub ''gold'' 5 ''Active'') < 2 ^ 31"
proof -
  have "TrimSpace ''Active'' = ''Active''" by (simp add: TrimSpace_id spaceByte_def spaceRunes_def)
  then show ?thesis
    using parseSubscription_bounds [OF sample_parse [of "''Active''" 5 "''gold''"]]
    by (simp add: sampleSub_def)
qed

end
