(* ===== verification/SubscriptionHandler.thy ===== *)
theory SubscriptionHandler
  imports Selector TokenHeaders
begin

text \<open>
  \<open>maas-api/internal/subscription/handler.go\<close>: the endpoint Authorino asks which subscription a
  request belongs to, and the two listings for users. The result of \<open>ShouldBindJSON\<close> is an input:
  the request, or the decoder's error. A recorded rejection is a reason appended to the metrics;
  \<open>hasMetrics\<close> tells whether the handler has a recorder.
\<close>

definition RejectionRateLimited :: string where "RejectionRateLimited = ''rate-limited''"
definition RejectionUnauthorized :: string where "RejectionUnauthorized = ''unauthorized''"
definition RejectionNoCapacity :: string where "RejectionNoCapacity = ''no-capacity''"
definition RejectionQuotaExceeded :: string where "RejectionQuotaExceeded = ''quota-exceeded''"

lemmas rejection_defs =
  RejectionRateLimited_def RejectionUnauthorized_def RejectionNoCapacity_def RejectionQuotaExceeded_def

definition recordRejection :: "bool \<Rightarrow> string \<Rightarrow> string list" where
  "recordRejection hasMetrics reason = (if hasMetrics then [reason] else [])"

definition recordUnhealthyRejection :: "bool \<Rightarrow> ModelUnhealthyError \<Rightarrow> string list" where
  "recordUnhealthyRejection hasMetrics err =
     (if mue_Reason err = ''RateLimitNotEnforced'' then recordRejection hasMetrics RejectionRateLimited
      else if mue_Phase err = PhaseFailed then recordRejection hasMetrics RejectionQuotaExceeded
      else recordRejection hasMetrics RejectionNoCapacity)"

definition errorResponse :: "string \<Rightarrow> string \<Rightarrow> SelectResponse http" where
  "errorResponse err message =
     \<lparr>http_Status = 200,
      http_Body = emptySelectResponse\<lparr>resp_Error := err, resp_Message := message\<rparr>\<rparr>"

definition SelectSubscription ::
  "bool \<Rightarrow> Selector \<Rightarrow> (string, SelectRequest) result \<Rightarrow> SelectResponse http \<times> string list" where
  "SelectSubscription hasMetrics s bound =
     (case bound of
        Inl err \<Rightarrow> (errorResponse ''bad_request'' (''invalid request body: '' @ err), [])
      | Inr req \<Rightarrow>
          (case Select s (req_Groups req) (req_Username req) (req_RequestedSubscription req)
                  (req_RequestedModel req) of
             Inr response \<Rightarrow> (\<lparr>http_Status = 200, http_Body = response\<rparr>, [])
           | Inl err \<Rightarrow>
               (case err of
                  NoSubscriptionError \<Rightarrow>
                    (errorResponse ''not_found'' (sel_error_text err),
                     recordRejection hasMetrics RejectionNoCapacity)
                | SubscriptionNotFoundError _ \<Rightarrow>
                    (errorResponse ''not_found'' (sel_error_text err),
                     recordRejection hasMetrics RejectionNoCapacity)
                | AccessDeniedError _ \<Rightarrow>
                    (errorResponse ''access_denied'' (sel_error_text err),
                     recordRejection hasMetrics RejectionUnauthorized)
                | MultipleSubscriptionsError _ \<Rightarrow>
                    (errorResponse ''multiple_subscriptions'' (sel_error_text err), [])
                | ModelNotInSubscriptionError _ _ \<Rightarrow>
                    (errorResponse ''model_not_in_subscription'' (sel_error_text err),
                     recordRejection hasMetrics RejectionNoCapacity)
                | ModelUnhealthy e \<Rightarrow>
                    (\<lparr>http_Status = 200,
                      http_Body = emptySelectResponse\<lparr>resp_Error := ''model_unhealthy'',
                        resp_Message := mue_Message e, resp_Phase := mue_Phase e\<rparr>\<rparr>,
                     recordUnhealthyRejection hasMetrics e)
                | SelOther t \<Rightarrow>
                    (errorResponse ''internal_error'' (''failed to select subscription: '' @ t), []))))"

text \<open>The listings answer with subscriptions, or with the \<open>message\<close> and \<open>type\<close> of an error object.\<close>

datatype list_body = Subscriptions "SubscriptionInfo list" | ListError string string

definition ListSubscriptions :: "Selector \<Rightarrow> ctx_user \<Rightarrow> list_body http" where
  "ListSubscriptions s ctx =
     (case ctx of
        NoUser \<Rightarrow> \<lparr>http_Status = 200, http_Body = Subscriptions []\<rparr>
      | BadUser \<Rightarrow> \<lparr>http_Status = 500, http_Body = ListError ''Internal server error'' ''server_error''\<rparr>
      | User uc \<Rightarrow>
          (case GetAllAccessible s (uc_Groups uc) (uc_Username uc) of
             Inl err \<Rightarrow>
               \<lparr>http_Status = 500, http_Body = ListError ''Failed to list subscriptions'' ''server_error''\<rparr>
           | Inr accessible \<Rightarrow>
               \<lparr>http_Status = 200, http_Body = Subscriptions (map ResponseToSubscriptionInfo accessible)\<rparr>))"

definition ListSubscriptionsForModel :: "Selector \<Rightarrow> ctx_user \<Rightarrow> string \<Rightarrow> list_body http" where
  "ListSubscriptionsForModel s ctx modelID =
     (case ctx of
        NoUser \<Rightarrow> \<lparr>http_Status = 200, http_Body = Subscriptions []\<rparr>
      | BadUser \<Rightarrow> \<lparr>http_Status = 500, http_Body = ListError ''Internal server error'' ''server_error''\<rparr>
      | User uc \<Rightarrow>
          if modelID = []
          then \<lparr>http_Status = 400, http_Body = ListError ''model-id is required'' ''invalid_request_error''\<rparr>
          else
            (case ListAccessibleForModel s (uc_Username uc) (uc_Groups uc) modelID of
               Inl err \<Rightarrow>
                 \<lparr>http_Status = 500, http_Body = ListError ''Failed to list subscriptions'' ''server_error''\<rparr>
             | Inr subs \<Rightarrow> \<lparr>http_Status = 200, http_Body = Subscriptions subs\<rparr>))"

section \<open>Properties\<close>

lemma answers_no_error: "answers s groups username m sub resp \<Longrightarrow> resp_Error resp = []"
  by (simp add: answers_def)

text \<open>
  What Authorino is told. The endpoint always answers 200, and the answer carries no error
  exactly when the body decoded and a subscription was selected; an answer with an error names no
  subscription and grants no access, so that a policy which reads only those fields fails closed.
\<close>

theorem SelectSubscription_fails_closed:
  "http_Status (fst (SelectSubscription hasMetrics s bound)) = 200
   \<and> (case bound of
        Inl err \<Rightarrow> resp_Error (http_Body (fst (SelectSubscription hasMetrics s bound))) = ''bad_request''
      | Inr req \<Rightarrow>
          (case Select s (req_Groups req) (req_Username req) (req_RequestedSubscription req)
                  (req_RequestedModel req) of
             Inr resp \<Rightarrow> http_Body (fst (SelectSubscription hasMetrics s bound)) = resp \<and> resp_Error resp = []
           | Inl err \<Rightarrow>
               (let body = http_Body (fst (SelectSubscription hasMetrics s bound))
                in resp_Error body \<noteq> [] \<and> resp_Name body = [] \<and> resp_Namespace body = []
                   \<and> resp_ModelRefs body = [] \<and> \<not> resp_AccessAllowed body)))"
proof (cases bound)
  case (Inl err)
  then show ?thesis by (simp add: SelectSubscription_def errorResponse_def emptySelectResponse_def)
next
  case (Inr req)
  show ?thesis
  proof (cases "Select s (req_Groups req) (req_Username req) (req_RequestedSubscription req)
      (req_RequestedModel req)")
    case (Inl err)
    with Inr show ?thesis
      by (cases err)
        (simp_all add: SelectSubscription_def errorResponse_def emptySelectResponse_def Let_def)
  next
    case (Inr resp)
    from Select_OkD [OF this] have "resp_Error resp = []" by (auto dest: answers_no_error)
    with Inr \<open>bound = Inr req\<close> show ?thesis by (simp add: SelectSubscription_def)
  qed
qed

end
