(* ===== verification/ModelListing.thy ===== *)
theory ModelListing
  imports SubscriptionHandler KeyTypes "HOL-Library.AList"
begin

text \<open>
  \<open>maas-api/internal/models\<close> and \<open>handlers/models.go\<close>: the models a caller of \<open>GET /v1/models\<close> is
  shown. The MaaSModelRef objects of the informer cache become models; the subscriptions of the
  caller are looked up, each of them is checked by a goroutine of its own, and what the goroutines
  found is collected from a channel and merged.

  The order in which the goroutines deliver is an input (a schedule), and so is whether a goroutine
  found the request cancelled while it waited for its turn. Time stamps of the cluster, in seconds,
  and \<open>url.Parse\<close>, whose value is the text of the URL, are parameters (\<open>modelApi\<close>).
\<close>

record modelApi = k8sApi +
  GetCreationTimestamp :: "jmap \<Rightarrow> int option"
  ParseURL :: "string \<Rightarrow> string option"

record Details =
  dt_GenAIUseCase :: string
  dt_Description :: string
  dt_DisplayName :: string
  dt_ContextWindow :: string
  dt_ModelCapabilities :: "string list"

text \<open>\<open>models.SubscriptionInfo\<close>\<close>

record ModelSubscription =
  msb_Name :: string
  msb_DisplayName :: string
  msb_Description :: string

text \<open>A model, without the constant \<open>object\<close> and the aliases, which the server never sets.\<close>

record Model =
  mdl_ID :: string
  mdl_Created :: int
  mdl_OwnedBy :: string
  mdl_Kind :: string
  mdl_URL :: "string option"
  mdl_Ready :: bool
  mdl_Details :: "Details option"
  mdl_Subscriptions :: "ModelSubscription list"

definition kindExternalModel :: string where "kindExternalModel = ''ExternalModel''"
definition kindLLMISvc :: string where "kindLLMISvc = ''llmisvc''"
definition kindLLMISvcAlternate :: string where "kindLLMISvcAlternate = ''LLMInferenceService''"

lemmas kind_defs = kindExternalModel_def kindLLMISvc_def kindLLMISvcAlternate_def

definition AnnotationGenAIUseCase :: string where "AnnotationGenAIUseCase = ''opendatahub.io/genai-use-case''"
definition AnnotationContextWindow :: string where "AnnotationContextWindow = ''opendatahub.io/context-window''"
definition AnnotationModelCapabilities :: string where
  "AnnotationModelCapabilities = ''opendatahub.io/model-capabilities''"

section \<open>Models of the cache\<close>

definition nestedString :: "modelApi \<Rightarrow> jmap \<Rightarrow> string list \<Rightarrow> string" where
  "nestedString k u path = (case NestedString k u path of None \<Rightarrow> [] | Some s \<Rightarrow> s)"

definition modelDetails :: "(string \<times> string) list option \<Rightarrow> Details option" where
  "modelDetails annotations =
     (case annotations of
        None \<Rightarrow> None
      | Some anns \<Rightarrow>
          let raw = annotation anns AnnotationModelCapabilities;
              d = \<lparr>dt_GenAIUseCase = annotation anns AnnotationGenAIUseCase,
                   dt_Description = annotation anns AnnotationDescription,
                   dt_DisplayName = annotation anns AnnotationDisplayName,
                   dt_ContextWindow = annotation anns AnnotationContextWindow,
                   dt_ModelCapabilities =
                     (if raw = [] then [] else case unmarshalStrings raw of None \<Rightarrow> [] | Some caps \<Rightarrow> caps)\<rparr>
          in if dt_DisplayName d \<noteq> [] \<or> dt_Description d \<noteq> [] \<or> dt_GenAIUseCase d \<noteq> []
                \<or> dt_ContextWindow d \<noteq> [] \<or> dt_ModelCapabilities d \<noteq> [] then Some d else None)"

definition modelURL :: "modelApi \<Rightarrow> jmap \<Rightarrow> string option" where
  "modelURL k u =
     (let endpoint = nestedString k u [''status'', ''endpoint'']
      in case NestedStringSlice k u [''status'', ''httpRouteHostnames''] of
           Some (host # hosts) \<Rightarrow> ParseURL k (''https://'' @ host)
         | _ \<Rightarrow> if endpoint \<noteq> [] then ParseURL k endpoint else None)"

definition modelID :: "modelApi \<Rightarrow> jmap \<Rightarrow> string \<Rightarrow> string" where
  "modelID k u kind =
     (let name = GetName k u;
          modelRefName = nestedString k u [''spec'', ''modelRef'', ''name''];
          alias = nestedString k u [''status'', ''resolvedModelAlias'']
      in if kind = kindExternalModel then (if modelRefName \<noteq> [] then modelRefName else name)
         else (if alias \<noteq> [] then alias else name))"

definition maasModelRefToModel :: "modelApi \<Rightarrow> jmap \<Rightarrow> Model" where
  "maasModelRefToModel k u =
     (let kind0 = nestedString k u [''spec'', ''modelRef'', ''kind''];
          kind = (if kind0 = [] then kindLLMISvc else kind0)
      in \<lparr>mdl_ID = modelID k u kind,
          mdl_Created = (case GetCreationTimestamp k u of None \<Rightarrow> 0 | Some t \<Rightarrow> t),
          mdl_OwnedBy = GetNamespace k u @ ''/'' @ GetName k u,
          mdl_Kind = kind,
          mdl_URL = modelURL k u,
          mdl_Ready = (nestedString k u [''status'', ''phase''] = ''Ready''),
          mdl_Details = modelDetails (GetAnnotations k u),
          mdl_Subscriptions = []\<rparr>)"

definition ListFromMaaSModelRefLister :: "modelApi \<Rightarrow> lister option \<Rightarrow> (string, Model list) result" where
  "ListFromMaaSModelRefLister k lstr =
     (case lstr of
        None \<Rightarrow> Ok []
      | Some (Inl err) \<Rightarrow> Err err
      | Some (Inr items) \<Rightarrow> Ok (map (maasModelRefToModel k) items))"

text \<open>The context, the authorization header and the subscription are passed but never read.\<close>

fun FilterModelsByAccess :: "Model list \<Rightarrow> Model list" where
  "FilterModelsByAccess [] = []"
| "FilterModelsByAccess (m # ms) =
     (if mdl_Kind m = kindExternalModel then
        (if mdl_Ready m then m # FilterModelsByAccess ms else FilterModelsByAccess ms)
      else if mdl_Kind m = kindLLMISvc \<or> mdl_Kind m = kindLLMISvcAlternate \<or> mdl_Kind m = [] then
        (if mdl_Ready m then m # FilterModelsByAccess ms else FilterModelsByAccess ms)
      else FilterModelsByAccess ms)"

section \<open>Merging what the subscriptions give\<close>

definition filterModelsBySubscription :: "Model list \<Rightarrow> ModelRefInfo list \<Rightarrow> Model list" where
  "filterModelsBySubscription modelList modelRefs =
     (if modelRefs = [] then modelList
      else filter (\<lambda>m. mdl_OwnedBy m \<in> (\<lambda>ref. ref_Namespace ref @ ''/'' @ ref_Name ref) ` set modelRefs) modelList)"

text \<open>What the goroutine of a subscription sends.\<close>

definition probe :: "Model list \<Rightarrow> SelectResponse \<Rightarrow> Model list" where
  "probe modelList sub =
     (let modelsToCheck = (if resp_ModelRefs sub \<noteq> []
            then filterModelsBySubscription modelList (resp_ModelRefs sub) else modelList)
      in FilterModelsByAccess modelsToCheck)"

type_synonym listingKey = "string \<times> string \<times> string"

definition keyOf :: "Model \<Rightarrow> listingKey" where
  "keyOf m = (mdl_ID m, (case mdl_URL m of None \<Rightarrow> [] | Some u \<Rightarrow> u), mdl_OwnedBy m)"

definition addSubscriptionIfNew :: "Model \<Rightarrow> ModelSubscription \<Rightarrow> Model" where
  "addSubscriptionIfNew m info =
     (if list_ex (\<lambda>x. msb_Name x = msb_Name info) (mdl_Subscriptions m) then m
      else m\<lparr>mdl_Subscriptions := mdl_Subscriptions m @ [info]\<rparr>)"

definition infoOf :: "SelectResponse \<Rightarrow> ModelSubscription" where
  "infoOf sub =
     \<lparr>msb_Name = resp_Name sub, msb_DisplayName = resp_DisplayName sub, msb_Description = resp_Description sub\<rparr>"

text \<open>One model of one result goes into the map \<open>modelsByKey\<close>.\<close>

definition mergeModel :: "ModelSubscription \<Rightarrow> (listingKey \<times> Model) list \<Rightarrow> Model \<Rightarrow> (listingKey \<times> Model) list" where
  "mergeModel info modelsByKey m =
     (case map_of modelsByKey (keyOf m) of
        Some existing \<Rightarrow> AList.update (keyOf m) (addSubscriptionIfNew existing info) modelsByKey
      | None \<Rightarrow> AList.update (keyOf m) (m\<lparr>mdl_Subscriptions := [info]\<rparr>) modelsByKey)"

definition collectResults :: "(SelectResponse \<times> Model list) list \<Rightarrow> (listingKey \<times> Model) list" where
  "collectResults results =
     foldl (\<lambda>acc (sub, ms). foldl (mergeModel (infoOf sub)) acc ms) [] results"

definition modelKeyLess :: "listingKey \<Rightarrow> listingKey \<Rightarrow> bool" where
  "modelKeyLess a b =
     (if fst a \<noteq> fst b then fst a < fst b
      else if fst (snd a) \<noteq> fst (snd b) then fst (snd a) < fst (snd b)
      else snd (snd a) < snd (snd b))"

text \<open>
  A schedule lists the goroutines in the order in which they deliver, each with whether it gave up
  since the request was cancelled.
\<close>

type_synonym schedule = "(nat \<times> bool) list"

definition deliveries :: "Model list \<Rightarrow> SelectResponse list \<Rightarrow> schedule \<Rightarrow> (SelectResponse \<times> Model list) list" where
  "deliveries modelList subs sched =
     map (\<lambda>(i, cancelled). (subs ! i, if cancelled then [] else probe modelList (subs ! i))) sched"

definition aggregateModelsFromSubscriptions ::
  "Model list \<Rightarrow> SelectResponse list \<Rightarrow> schedule \<Rightarrow> Model list" where
  "aggregateModelsFromSubscriptions modelList subs sched =
     (let modelsByKey = collectResults (deliveries modelList subs sched)
      in map (\<lambda>k. the (map_of modelsByKey k)) (goSort modelKeyLess (map fst modelsByKey)))"

section \<open>The handler\<close>

datatype models_body = ModelPage "Model list" | ModelsError string string

text \<open>An answer, with the headers the handler sets and the rejections it counts.\<close>

record models_reply =
  mrp_http :: "models_body http"
  mrp_CacheControl :: "string option"
  mrp_AccessCheckedAt :: "int option"
  mrp_Rejections :: "string list"

definition modelsReply :: "string option \<Rightarrow> int option \<Rightarrow> nat \<Rightarrow> models_body \<Rightarrow> models_reply" where
  "modelsReply cache checkedAt status body =
     \<lparr>mrp_http = \<lparr>http_Status = status, http_Body = body\<rparr>, mrp_CacheControl = cache,
      mrp_AccessCheckedAt = checkedAt, mrp_Rejections = []\<rparr>"

definition noStore :: "string option" where
  "noStore = Some ''no-store''"

record ModelsHandler =
  mh_k8s :: modelApi
  mh_selector :: "Selector option"
  mh_lister :: "lister option"
  mh_metrics :: bool

text \<open>The header \<open>Authorization\<close>, and the values of \<open>X-Maas-Subscription\<close> in their order.\<close>

record models_headers =
  mhd_Authorization :: string
  mhd_Subscription :: "string list"

definition requestedSubscriptionOf :: "string list \<Rightarrow> string" where
  "requestedSubscriptionOf values =
     (case find (\<lambda>t. t \<noteq> []) (map TrimSpace (rev values)) of None \<Rightarrow> [] | Some t \<Rightarrow> t)"

definition extractAndValidateAuth ::
  "ModelsHandler \<Rightarrow> models_headers \<Rightarrow> models_reply + (string \<times> string \<times> bool)" where
  "extractAndValidateAuth h hd1 =
     (let authHeader = TrimSpace (mhd_Authorization hd1);
          isAPIKeyRequest = prefix ''Bearer sk-oai-'' authHeader;
          requested = requestedSubscriptionOf (mhd_Subscription hd1)
      in if authHeader = [] then
           Inl ((modelsReply None None 401 (ModelsError ''Authorization required'' ''authentication_error''))
                  \<lparr>mrp_Rejections := recordRejection (mh_metrics h) RejectionUnauthorized\<rparr>)
         else if isAPIKeyRequest \<and> requested = [] then
           Inl (modelsReply None None 403 (ModelsError ''API key has no subscription bound'' ''permission_error''))
         else Inr (authHeader, requested, isAPIKeyRequest))"

definition getUserContextIfNeeded :: "ModelsHandler \<Rightarrow> ctx_user \<Rightarrow> models_reply + UserContext option" where
  "getUserContextIfNeeded h ctx =
     (let failed = modelsReply None None 500 (ModelsError ''Internal server error'' ''server_error'')
      in case mh_selector h of
           None \<Rightarrow> Inr None
         | Some s \<Rightarrow> (case ctx of NoUser \<Rightarrow> Inl failed | BadUser \<Rightarrow> Inl failed | User uc \<Rightarrow> Inr (Some uc)))"

definition handleSubscriptionSelectionError :: "sel_error \<Rightarrow> models_reply" where
  "handleSubscriptionSelectionError err =
     (let forbidden = (\<lambda>msg. modelsReply noStore None 403 (ModelsError msg ''permission_error''))
      in case err of
           MultipleSubscriptionsError _ \<Rightarrow> forbidden ''API key has no subscription bound''
         | AccessDeniedError _ \<Rightarrow> forbidden ''access denied to requested subscription''
         | SubscriptionNotFoundError _ \<Rightarrow> forbidden ''access denied to requested subscription''
         | NoSubscriptionError \<Rightarrow> forbidden (sel_error_text err)
         | _ \<Rightarrow> modelsReply noStore None 500 (ModelsError ''Failed to select subscription'' ''server_error''))"

text \<open>
  The user is \<open>None\<close>, a nil pointer, only when there is no selector, and then it is not read.
\<close>

definition selectSubscriptionsForListing ::
  "ModelsHandler \<Rightarrow> UserContext option \<Rightarrow> string \<Rightarrow> bool \<Rightarrow> models_reply + SelectResponse list" where
  "selectSubscriptionsForListing h user requested returnAllModels =
     (if returnAllModels then
        (case (mh_selector h, user) of
           (Some s, Some uc) \<Rightarrow>
             (case GetAllAccessible s (uc_Groups uc) (uc_Username uc) of
                Inl err \<Rightarrow> Inl (modelsReply noStore None 500 (ModelsError ''Failed to get subscriptions'' ''server_error''))
              | Inr allSubs \<Rightarrow> Inr allSubs)
         | _ \<Rightarrow> Inl (modelsReply noStore None 500
                  (ModelsError ''Subscription system not configured'' ''server_error'')))
      else
        (case (mh_selector h, user) of
           (Some s, Some uc) \<Rightarrow>
             (case Select s (uc_Groups uc) (uc_Username uc) requested [] of
                Inl err \<Rightarrow> Inl (handleSubscriptionSelectionError err)
              | Inr resp \<Rightarrow> Inr [resp])
         | _ \<Rightarrow>
             if requested = [] then Inr [] else Inr [emptySelectResponse\<lparr>resp_Name := requested\<rparr>]))"

text \<open>
  \<open>now1\<close> and \<open>now2\<close> are the readings of the clock, the first of which is the one of the early answer;
  \<open>sched\<close> gives the schedule for a number of goroutines.
\<close>

definition ListLLMs ::
  "ModelsHandler \<Rightarrow> ctx_user \<Rightarrow> models_headers \<Rightarrow> time \<Rightarrow> time \<Rightarrow> (nat \<Rightarrow> schedule) \<Rightarrow> models_reply" where
  "ListLLMs h ctx hd1 now1 now2 sched =
     (if ctx = NoUser then modelsReply noStore (Some (rfc3339 now1)) 200 (ModelPage [])
      else
        (case extractAndValidateAuth h hd1 of
           Inl resp \<Rightarrow> resp
         | Inr (authHeader, requested, isAPIKeyRequest) \<Rightarrow>
             let returnAllModels = (\<not> isAPIKeyRequest \<and> requested = [])
             in (case getUserContextIfNeeded h ctx of
                   Inl resp \<Rightarrow> resp
                 | Inr user \<Rightarrow>
                     (case selectSubscriptionsForListing h user requested returnAllModels of
                        Inl resp \<Rightarrow> resp
                      | Inr subs \<Rightarrow>
                          (case mh_lister h of
                             None \<Rightarrow> modelsReply noStore (Some (rfc3339 now1)) 200 (ModelPage [])
                           | Some l \<Rightarrow>
                               (case ListFromMaaSModelRefLister (mh_k8s h) (Some l) of
                                  Inl err \<Rightarrow>
                                    modelsReply noStore None 500 (ModelsError ''Failed to list models'' ''server_error'')
                                | Inr modelList \<Rightarrow>
                                    modelsReply noStore (Some (rfc3339 now2)) 200
                                      (ModelPage
                                        (if subs = [] then
                                           (if mh_selector h = None then FilterModelsByAccess modelList else [])
                                         else aggregateModelsFromSubscriptions modelList subs
                                                (sched (length subs))))))))))"

section \<open>What is listed\<close>

text \<open>A model that may be shown, and one that a subscription covers.\<close>

definition shown :: "Model \<Rightarrow> bool" where
  "shown m \<longleftrightarrow> mdl_Ready m
     \<and> (mdl_Kind m = kindExternalModel \<or> mdl_Kind m = kindLLMISvc \<or> mdl_Kind m = kindLLMISvcAlternate \<or> mdl_Kind m = [])"

definition coversModel :: "SelectResponse \<Rightarrow> Model \<Rightarrow> bool" where
  "coversModel sub m \<longleftrightarrow> resp_ModelRefs sub = []
     \<or> (\<exists>ref\<in>set (resp_ModelRefs sub). mdl_OwnedBy m = ref_Namespace ref @ ''/'' @ ref_Name ref)"

lemma FilterModelsByAccess_filter [simp]: "FilterModelsByAccess ms = filter shown ms"
  by (induction ms) (auto simp: shown_def)

lemma probe_filter: "probe modelList sub = filter (\<lambda>m. shown m \<and> coversModel sub m) modelList"
  by (auto simp: probe_def filterModelsBySubscription_def coversModel_def image_iff intro!: filter_cong)

lemma mergeModel_eq:
  "mergeModel info acc m =
     AList.update (keyOf m)
       (case map_of acc (keyOf m) of
          Some existing \<Rightarrow> addSubscriptionIfNew existing info
        | None \<Rightarrow> m\<lparr>mdl_Subscriptions := [info]\<rparr>) acc"
  by (simp add: mergeModel_def split: option.splits)

lemma mergeModel_distinct: "distinct (map fst acc) \<Longrightarrow> distinct (map fst (mergeModel info acc m))"
  by (simp add: mergeModel_eq AList.distinct_update)

lemma mergeAll_distinct: "distinct (map fst acc) \<Longrightarrow> distinct (map fst (foldl (mergeModel info) acc ms))"
  by (induction ms arbitrary: acc) (simp_all add: mergeModel_distinct)

text \<open>What merging one result does to the map.\<close>

lemma mergeAll_lookup:
  "distinct (map keyOf ms) \<Longrightarrow>
   map_of (foldl (mergeModel info) acc ms) k =
     (case find (\<lambda>m. keyOf m = k) ms of
        None \<Rightarrow> map_of acc k
      | Some m \<Rightarrow> Some (case map_of acc k of
            Some existing \<Rightarrow> addSubscriptionIfNew existing info
          | None \<Rightarrow> m\<lparr>mdl_Subscriptions := [info]\<rparr>))"
proof (induction ms arbitrary: acc)
  case (Cons m ms acc)
  have step: "map_of (mergeModel info acc m) k' =
      (if k' = keyOf m then Some (case map_of acc k' of
            Some existing \<Rightarrow> addSubscriptionIfNew existing info
          | None \<Rightarrow> m\<lparr>mdl_Subscriptions := [info]\<rparr>) else map_of acc k')" for k'
    by (simp add: mergeModel_eq update_conv')
  show ?case
  proof (cases "k = keyOf m")
    case True
    have none: "find (\<lambda>x. keyOf x = keyOf m) ms = None"
      using Cons.prems by (auto simp: find_None_iff image_iff)
    show ?thesis using Cons True none by (simp add: step)
  next
    case False
    with Cons show ?thesis by (simp add: step split: option.split)
  qed
qed simp

text \<open>The subscriptions that offer a model, in the order of their delivery.\<close>

definition offers :: "(SelectResponse \<times> Model list) list \<Rightarrow> Model \<Rightarrow> ModelSubscription list" where
  "offers results m = map (\<lambda>(sub, ms). infoOf sub) (filter (\<lambda>(sub, ms). m \<in> set ms) results)"

definition merged :: "(SelectResponse \<times> Model list) list \<Rightarrow> Model \<Rightarrow> Model" where
  "merged results m = m\<lparr>mdl_Subscriptions := dedupOn msb_Name [] (offers results m)\<rparr>"

lemma dedupOn_snoc:
  "dedupOn f seen (xs @ [x]) =
     (if f x \<in> set seen \<union> f ` set xs then dedupOn f seen xs else dedupOn f seen xs @ [x])"
  by (induction xs arbitrary: seen) auto

lemma collect_lookup:
  assumes "\<forall>r\<in>set results. \<exists>P. snd r = filter P modelList"
    and "distinct (map keyOf modelList)"
  shows "distinct (map fst (collectResults results))
    \<and> (\<forall>k x. map_of (collectResults results) k = Some x \<longleftrightarrow>
         (\<exists>m\<in>set modelList. keyOf m = k \<and> offers results m \<noteq> [] \<and> x = merged results m))"
  using assms(1)
proof (induction results rule: rev_induct)
  case (snoc r results)
  obtain sub ms where r: "r = (sub, ms)" by (cases r)
  let ?info = "infoOf sub" and ?acc = "collectResults results"
  obtain P where P: "ms = filter P modelList" using snoc.prems r by auto
  have dms: "distinct (map keyOf ms)" using assms(2) unfolding P by (rule distinct_map_filter)
  have pre: "\<forall>r\<in>set results. \<exists>P. snd r = filter P modelList"
    using snoc.prems by simp
  have IH: "distinct (map fst ?acc)"
    and IH_get: "m \<in> set modelList \<Longrightarrow> offers results m \<noteq> [] \<Longrightarrow> map_of ?acc (keyOf m) = Some (merged results m)"
    and IH_dest: "map_of ?acc k = Some x \<Longrightarrow>
      \<exists>m\<in>set modelList. keyOf m = k \<and> offers results m \<noteq> [] \<and> x = merged results m" for k x m
    using snoc.IH [OF pre] by blast+
  have same: "m = m'" if "m \<in> set modelList" "m' \<in> set modelList" "keyOf m = keyOf m'" for m m'
    by (rule inj_on_set_distinct_map [OF assms(2) that])
  have eq: "collectResults (results @ [r]) = foldl (mergeModel ?info) ?acc ms"
    by (simp add: collectResults_def r)
  have off: "offers (results @ [r]) m = offers results m @ (if m \<in> set ms then [?info] else [])" for m
    by (simp add: offers_def r)
  have find: "find (\<lambda>x. keyOf x = keyOf m) ms = (if m \<in> set ms then Some m else None)"
    if "m \<in> set modelList" for m
  proof (cases "m \<in> set ms")
    case True
    then show ?thesis using find_distinct_key [OF dms True] by simp
  next
    case False
    then have "keyOf m \<notin> keyOf ` set ms" using same [OF that] P by auto
    then show ?thesis using False by (auto simp: find_None_iff image_iff)
  qed
  have known: "map_of ?acc (keyOf m) = (if offers results m \<noteq> [] then Some (merged results m) else None)"
    if m: "m \<in> set modelList" for m
  proof (cases "map_of ?acc (keyOf m)")
    case None
    then have "offers results m = []" using IH_get [OF m] by auto
    then show ?thesis using None by simp
  next
    case (Some x)
    then obtain m' where "m' \<in> set modelList" "keyOf m' = keyOf m" "offers results m' \<noteq> []" "x = merged results m'"
      using IH_dest [OF Some] by blast
    with same [OF m] have "m' = m" by metis
    with Some \<open>x = merged results m'\<close> \<open>offers results m' \<noteq> []\<close> show ?thesis by simp
  qed
  have new: "map_of (collectResults (results @ [r])) (keyOf m) =
      (if offers (results @ [r]) m \<noteq> [] then Some (merged (results @ [r]) m) else None)"
    if m: "m \<in> set modelList" for m
  proof -
    have "list_ex (\<lambda>x. msb_Name x = msb_Name ?info) (dedupOn msb_Name [] (offers results m))
        \<longleftrightarrow> msb_Name ?info \<in> msb_Name ` set (dedupOn msb_Name [] (offers results m))"
      unfolding list_ex_iff image_iff by metis
    then have add: "addSubscriptionIfNew (m\<lparr>mdl_Subscriptions := dedupOn msb_Name [] (offers results m)\<rparr>) ?info =
        m\<lparr>mdl_Subscriptions := dedupOn msb_Name [] (offers results m @ [?info])\<rparr>"
      by (simp add: addSubscriptionIfNew_def dedupOn_snoc dedupOn_keys)
    show ?thesis
      by (simp add: eq mergeAll_lookup [OF dms] find [OF m] known [OF m] off)
        (simp add: merged_def off add)
  qed
  have outside: "map_of (collectResults (results @ [r])) k = None" if "k \<notin> keyOf ` set modelList" for k
  proof -
    have "find (\<lambda>x. keyOf x = k) ms = None" using that P by (auto simp: find_None_iff image_iff)
    moreover have "map_of ?acc k = None"
    proof (cases "map_of ?acc k")
      case (Some x)
      with IH_dest [OF Some] that show ?thesis by auto
    qed
    ultimately show ?thesis by (simp add: eq mergeAll_lookup [OF dms])
  qed
  show ?case
  proof (intro conjI allI)
    show "distinct (map fst (collectResults (results @ [r])))"
      unfolding eq by (rule mergeAll_distinct [OF IH])
    fix k x
    show "map_of (collectResults (results @ [r])) k = Some x \<longleftrightarrow>
        (\<exists>m\<in>set modelList. keyOf m = k \<and> offers (results @ [r]) m \<noteq> [] \<and> x = merged (results @ [r]) m)"
    proof (cases "k \<in> keyOf ` set modelList")
      case True
      then obtain m where m: "m \<in> set modelList" "k = keyOf m" by auto
      have "(\<exists>m'\<in>set modelList. keyOf m' = k \<and> offers (results @ [r]) m' \<noteq> [] \<and> x = merged (results @ [r]) m')
          \<longleftrightarrow> offers (results @ [r]) m \<noteq> [] \<and> x = merged (results @ [r]) m"
        using same [OF m(1)] m by metis
      then show ?thesis unfolding m(2) using new [OF m(1)] m(2) by auto
    next
      case False
      then show ?thesis using outside [OF False] by auto
    qed
  qed
qed (simp add: collectResults_def offers_def)

lemma modelKeyLess_total: "\<not> modelKeyLess b a \<Longrightarrow> a \<noteq> b \<Longrightarrow> modelKeyLess a b"
  by (cases a; cases b) (auto simp: modelKeyLess_def split: if_splits)

interpretation by_key: go_less modelKeyLess
  by unfold_locales (auto simp: modelKeyLess_def split: if_splits)

text \<open>The subscriptions whose goroutine was not cancelled.\<close>

definition live :: "SelectResponse list \<Rightarrow> schedule \<Rightarrow> SelectResponse list" where
  "live subs sched = map (\<lambda>(i, cancelled). subs ! i) (filter (\<lambda>(i, cancelled). \<not> cancelled) sched)"

lemma offers_deliveries:
  assumes "m \<in> set modelList"
  shows "offers (deliveries modelList subs sched) m
     = (if shown m then map infoOf (filter (\<lambda>sub. coversModel sub m) (live subs sched)) else [])"
proof (induction sched)
  case (Cons p sched)
  obtain i c where "p = (i, c)" by (cases p)
  with Cons assms show ?case
    by (cases c) (auto simp: offers_def deliveries_def live_def probe_filter)
qed (simp add: offers_def deliveries_def live_def)

lemma offers_eq_Nil_iff:
  assumes "m \<in> set modelList"
  shows "offers (deliveries modelList subs sched) m = []
    \<longleftrightarrow> \<not> (shown m \<and> (\<exists>sub\<in>set (live subs sched). coversModel sub m))"
  by (auto simp: offers_deliveries [OF assms] filter_empty_conv)

lemma keyOf_distinct: "distinct (map mdl_OwnedBy ms) \<Longrightarrow> distinct (map keyOf ms)"
  by (induction ms) (auto simp: keyOf_def)

lemma page_iff:
  assumes "distinct (map mdl_OwnedBy modelList)"
  shows "x \<in> set (aggregateModelsFromSubscriptions modelList subs sched) \<longleftrightarrow>
    (\<exists>m\<in>set modelList. shown m \<and> (\<exists>sub\<in>set (live subs sched). coversModel sub m)
       \<and> x = merged (deliveries modelList subs sched) m)"
    and "sorted_wrt (\<lambda>a b. modelKeyLess (keyOf a) (keyOf b)) (aggregateModelsFromSubscriptions modelList subs sched)"
proof -
  let ?r = "deliveries modelList subs sched" and ?acc = "collectResults (deliveries modelList subs sched)"
  let ?keys = "goSort modelKeyLess (map fst ?acc)" and ?val = "\<lambda>k. the (map_of ?acc k)"
  have pre: "\<forall>r\<in>set ?r. \<exists>P. snd r = filter P modelList"
  proof
    fix r assume "r \<in> set ?r"
    then obtain i c where "r = (subs ! i, if c then [] else probe modelList (subs ! i))"
      by (auto simp: deliveries_def)
    then have "snd r = filter (\<lambda>m. \<not> c \<and> shown m \<and> coversModel (subs ! i) m) modelList"
      by (simp add: probe_filter)
    then show "\<exists>P. snd r = filter P modelList" by blast
  qed
  note c = collect_lookup [OF pre keyOf_distinct [OF assms]]
  have get: "map_of ?acc k = Some x \<longleftrightarrow>
      (\<exists>m\<in>set modelList. keyOf m = k \<and> offers ?r m \<noteq> [] \<and> x = merged ?r m)" for k x
    using c by blast
  have dom: "k \<in> set (map fst ?acc) \<longleftrightarrow> (\<exists>x. map_of ?acc k = Some x)" for k
    by (metis list.set_map map_of_eq_None_iff not_None_eq)
  have page: "aggregateModelsFromSubscriptions modelList subs sched = map ?val ?keys"
    by (simp add: aggregateModelsFromSubscriptions_def Let_def)
  have "set (map ?val ?keys) = {x. \<exists>k. map_of ?acc k = Some x}"
  proof (rule set_eqI)
    fix y
    have "y \<in> set (map ?val ?keys) \<longleftrightarrow> (\<exists>k\<in>set (map fst ?acc). y = ?val k)" by (simp only: set_map set_goSort image_iff)
    also have "\<dots> \<longleftrightarrow> y \<in> {x. \<exists>k. map_of ?acc k = Some x}"
      unfolding Bex_def dom by (simp only: mem_Collect_eq) (metis option.sel)
    finally show "y \<in> set (map ?val ?keys) \<longleftrightarrow> y \<in> {x. \<exists>k. map_of ?acc k = Some x}" .
  qed
  then show "x \<in> set (aggregateModelsFromSubscriptions modelList subs sched) \<longleftrightarrow>
    (\<exists>m\<in>set modelList. shown m \<and> (\<exists>sub\<in>set (live subs sched). coversModel sub m) \<and> x = merged ?r m)"
    unfolding page by (simp only: get mem_Collect_eq) (use offers_eq_Nil_iff in blast)
  have key: "keyOf (?val k) = k" if "k \<in> set (map fst ?acc)" for k
  proof -
    from that obtain x where x: "map_of ?acc k = Some x" using dom by blast
    then obtain m where "keyOf m = k" "x = merged ?r m" using get by blast
    with x show ?thesis by (simp add: merged_def keyOf_def)
  qed
  have "sorted_wrt (\<lambda>a b. modelKeyLess a b) ?keys"
  proof -
    have "distinct ?keys" using c by (metis distinct_map_goSort list.map_ident)
    then show ?thesis
      using by_key.sorted_goSort [of "map fst ?acc"]
      by (auto simp: sorted_wrt_iff_nth_less nth_eq_iff_index_eq intro!: modelKeyLess_total)
  qed
  then show "sorted_wrt (\<lambda>a b. modelKeyLess (keyOf a) (keyOf b))
      (aggregateModelsFromSubscriptions modelList subs sched)"
    unfolding page sorted_wrt_map by (rule sorted_wrt_mono_rel [rotated]) (simp add: key)
qed

text \<open>
  C25: The models that a set of subscriptions gives are exact, whatever order the goroutines deliver
  in. When none of them was cancelled, the page is strictly sorted by identifier, URL and owner, so
  that no model appears twice; it holds exactly the ready models of a known kind that one of the
  subscriptions covers; and each model names exactly the subscriptions that cover it, each name
  once. (In the cache no two objects have the same namespace and name.)
\<close>

theorem listing_exact:
  fixes sched :: schedule
  assumes "distinct (map mdl_OwnedBy modelList)"
    and "mset (map fst sched) = mset [0..<length subs]" and "\<forall>(i, cancelled) \<in> set sched. \<not> cancelled"
  shows "let page = aggregateModelsFromSubscriptions modelList subs sched;
             bare = (\<lambda>m. m\<lparr>mdl_Subscriptions := []\<rparr>)
         in sorted_wrt (\<lambda>a b. modelKeyLess (keyOf a) (keyOf b)) page
            \<and> bare ` set page = bare ` {m \<in> set modelList. shown m \<and> (\<exists>sub\<in>set subs. coversModel sub m)}
            \<and> (\<forall>m\<in>set page. distinct (map msb_Name (mdl_Subscriptions m))
                 \<and> msb_Name ` set (mdl_Subscriptions m) = resp_Name ` {sub \<in> set subs. coversModel sub m})"
proof -
  have live: "set (live subs sched) = set subs"
  proof -
    have "fst ` set sched = {..<length subs}"
      using mset_eq_setD [OF assms(2)] by (auto simp: lessThan_atLeast0)
    moreover have "live subs sched = map (\<lambda>p. subs ! fst p) sched"
      using assms(3) by (auto simp: live_def case_prod_beta filter_id_conv intro!: arg_cong [of _ _ "map _"])
    ultimately have "set (live subs sched) = (!) subs ` {..<length subs}"
      by (metis (mono_tags, lifting) image_cong image_image list.set_map)
    then show ?thesis by (auto simp: in_set_conv_nth)
  qed
  let ?r = "deliveries modelList subs sched"
  note iff = page_iff(1) [OF assms(1), of _ subs sched, unfolded live]
  show ?thesis
    unfolding Let_def
  proof (intro conjI ballI)
    show "sorted_wrt (\<lambda>a b. modelKeyLess (keyOf a) (keyOf b)) (aggregateModelsFromSubscriptions modelList subs sched)"
      by (rule page_iff(2) [OF assms(1)])
    show "(\<lambda>m. m\<lparr>mdl_Subscriptions := []\<rparr>) ` set (aggregateModelsFromSubscriptions modelList subs sched)
        = (\<lambda>m. m\<lparr>mdl_Subscriptions := []\<rparr>) ` {m \<in> set modelList. shown m \<and> (\<exists>sub\<in>set subs. coversModel sub m)}"
    proof -
      have "set (aggregateModelsFromSubscriptions modelList subs sched)
          = merged ?r ` {m \<in> set modelList. shown m \<and> (\<exists>sub\<in>set subs. coversModel sub m)}"
        by (rule set_eqI) (simp only: iff image_iff mem_Collect_eq, blast)
      then show ?thesis by (simp only: image_image merged_def Model.select_convs Model.update_convs Model.surjective)
        (simp add: merged_def)
    qed
  next
    fix x assume "x \<in> set (aggregateModelsFromSubscriptions modelList subs sched)"
    then obtain m where m: "m \<in> set modelList" "shown m" "x = merged ?r m" by (auto simp: iff)
    have covers: "coversModel sub x \<longleftrightarrow> coversModel sub m" for sub
      using m(3) by (simp add: merged_def coversModel_def)
    show "distinct (map msb_Name (mdl_Subscriptions x))"
      using m(3) by (simp add: merged_def dedupOn_distinct)
    have "msb_Name ` set (mdl_Subscriptions x) = resp_Name ` {sub \<in> set subs. coversModel sub m}"
      using m(1,2) unfolding m(3)
      by (simp add: merged_def dedupOn_keys offers_deliveries live image_image) (simp add: infoOf_def)
    then show "msb_Name ` set (mdl_Subscriptions x) = resp_Name ` {sub \<in> set subs. coversModel sub x}"
      by (simp add: covers)
  qed
qed

section \<open>From a page back to the request\<close>

lemma aggregate_coverD:
  assumes "distinct (map mdl_OwnedBy modelList)" and "\<forall>(i, cancelled) \<in> set sched. i < length subs"
    and "x \<in> set (aggregateModelsFromSubscriptions modelList subs sched)"
  shows "\<exists>m\<in>set modelList. shown m \<and> x = m\<lparr>mdl_Subscriptions := mdl_Subscriptions x\<rparr> \<and> mdl_Subscriptions x \<noteq> []
    \<and> (\<forall>info\<in>set (mdl_Subscriptions x). \<exists>sub\<in>set subs. info = infoOf sub \<and> coversModel sub m)"
proof -
  let ?r = "deliveries modelList subs sched"
  obtain m where m: "m \<in> set modelList" "shown m" "\<exists>sub\<in>set (live subs sched). coversModel sub m" "x = merged ?r m"
    using assms(3) page_iff(1) [OF assms(1)] by blast
  have live: "set (live subs sched) \<subseteq> set subs"
    using assms(2) by (auto simp: live_def)
  have offered: "set (offers ?r m) \<subseteq> infoOf ` {sub \<in> set subs. coversModel sub m}" "offers ?r m \<noteq> []"
    using m live by (auto simp: offers_deliveries filter_empty_conv)
  then have "\<exists>sub\<in>set subs. info = infoOf sub \<and> coversModel sub m" if "info \<in> set (mdl_Subscriptions x)" for info
    using that dedupOn_subset [of msb_Name "[]" "offers ?r m"] m(4) by (auto simp: merged_def)
  with m offered(2) show ?thesis by (intro bexI [of _ m]) (simp_all add: merged_def)
qed

text \<open>What a page with a model on it tells: which subscriptions were asked, and what the cache held.\<close>

lemma ListLLMs_pageD:
  assumes "http_Body (mrp_http (ListLLMs h ctx hd1 now1 now2 sched)) = ModelPage page" and "x \<in> set page"
    and "mh_selector h = Some s"
  shows "\<exists>uc items subs. ctx = User uc \<and> mh_lister h = Some (Inr items)
    \<and> (let requested = requestedSubscriptionOf (mhd_Subscription hd1)
       in if requested = [] then GetAllAccessible s (uc_Groups uc) (uc_Username uc) = Inr subs
          else \<exists>resp. Select s (uc_Groups uc) (uc_Username uc) requested [] = Inr resp \<and> subs = [resp])
    \<and> x \<in> set (aggregateModelsFromSubscriptions (map (maasModelRefToModel (mh_k8s h)) items) subs (sched (length subs)))"
proof -
  have ctx: "ctx \<noteq> NoUser" using assms(1,2) by (auto simp: ListLLMs_def modelsReply_def)
  obtain a requested key where auth: "extractAndValidateAuth h hd1 = Inr (a, requested, key)"
    and requested: "requested = requestedSubscriptionOf (mhd_Subscription hd1)" "\<not> (key \<and> requested = [])"
    using assms(1) ctx
    by (auto simp: ListLLMs_def extractAndValidateAuth_def modelsReply_def Let_def split: if_splits)
  obtain uc where uc: "ctx = User uc" "getUserContextIfNeeded h ctx = Inr (Some uc)"
    using assms(1,3) ctx auth
    by (auto simp: ListLLMs_def getUserContextIfNeeded_def modelsReply_def Let_def split: ctx_user.splits)
  obtain subs where subs: "selectSubscriptionsForListing h (Some uc) requested (\<not> key \<and> requested = []) = Inr subs"
    using assms(1) ctx auth uc
    by (auto simp: ListLLMs_def selectSubscriptionsForListing_def handleSubscriptionSelectionError_def modelsReply_def
        Let_def split: sum.splits sel_error.splits option.splits if_splits)
  obtain items where items: "mh_lister h = Some (Inr items)"
    and page: "subs \<noteq> []"
      "page = aggregateModelsFromSubscriptions (map (maasModelRefToModel (mh_k8s h)) items) subs (sched (length subs))"
    using assms ctx auth uc subs
    by (auto simp: ListLLMs_def ListFromMaaSModelRefLister_def modelsReply_def Let_def
        split: option.splits sum.splits if_splits)
  have "if requested = [] then GetAllAccessible s (uc_Groups uc) (uc_Username uc) = Inr subs
      else \<exists>resp. Select s (uc_Groups uc) (uc_Username uc) requested [] = Inr resp \<and> subs = [resp]"
    using subs requested(2) assms(3)
    by (auto simp: selectSubscriptionsForListing_def split: sum.splits if_splits)
  with uc items page assms(2) requested(1) show ?thesis by (auto simp: Let_def)
qed

text \<open>
  The header that forbids caching is set on every answer but the refusals of a request without an
  \<open>Authorization\<close> header, of an API key without a subscription, and of a broken user context.
\<close>

lemma early_refusals_cacheable:
  "mrp_CacheControl (ListLLMs h ctx hd1 now1 now2 sched) = None \<longleftrightarrow>
     ctx \<noteq> NoUser
     \<and> (TrimSpace (mhd_Authorization hd1) = []
        \<or> prefix ''Bearer sk-oai-'' (TrimSpace (mhd_Authorization hd1))
            \<and> requestedSubscriptionOf (mhd_Subscription hd1) = []
        \<or> ctx = BadUser \<and> mh_selector h \<noteq> None)"
  by (auto simp: ListLLMs_def extractAndValidateAuth_def getUserContextIfNeeded_def selectSubscriptionsForListing_def
      handleSubscriptionSelectionError_def modelsReply_def noStore_def Let_def
      split: option.splits sum.splits ctx_user.splits sel_error.splits)

section \<open>Two subscriptions that share a model\<close>

definition sampleListed :: "string \<Rightarrow> bool \<Rightarrow> Model" where
  "sampleListed n ready =
     \<lparr>mdl_ID = n, mdl_Created = 0, mdl_OwnedBy = ''llm/'' @ n, mdl_Kind = kindLLMISvc, mdl_URL = None,
      mdl_Ready = ready, mdl_Details = None, mdl_Subscriptions = []\<rparr>"

definition sampleModelRefOf :: "string \<Rightarrow> ModelRefInfo" where
  "sampleModelRefOf n =
     \<lparr>ref_Name = n, ref_Namespace = ''llm'', ref_ModelName = [], ref_DisplayName = [], ref_Description = [],
      ref_Source = [], ref_TokenRateLimits = [], ref_BillingRate = None\<rparr>"

definition sampleOffer :: "string \<Rightarrow> string list \<Rightarrow> SelectResponse" where
  "sampleOffer n models = emptySelectResponse\<lparr>resp_Name := n, resp_ModelRefs := map sampleModelRefOf models\<rparr>"

lemma sampleListed_shown: "shown (sampleListed n ready) \<longleftrightarrow> ready"
  by (simp add: shown_def sampleListed_def)

lemma sampleOffer_covers: "coversModel (sampleOffer s models) (sampleListed n ready) \<longleftrightarrow> models = [] \<or> n \<in> set models"
  by (auto simp: coversModel_def sampleOffer_def sampleModelRefOf_def sampleListed_def)

theorem listing_exact_witness:
  "let page = aggregateModelsFromSubscriptions [sampleListed ''opt'' True, sampleListed ''gpt'' True, sampleListed ''old'' False]
         [sampleOffer ''gold'' [''opt'', ''old''], sampleOffer ''iron'' [''opt'', ''gpt'']] [(1, False), (0, False)]
   in (\<lambda>m. m\<lparr>mdl_Subscriptions := []\<rparr>) ` set page = {sampleListed ''opt'' True, sampleListed ''gpt'' True}
      \<and> (\<forall>m\<in>set page. distinct (map msb_Name (mdl_Subscriptions m)))"
proof -
  let ?list = "[sampleListed ''opt'' True, sampleListed ''gpt'' True, sampleListed ''old'' False]"
  let ?subs = "[sampleOffer ''gold'' [''opt'', ''old''], sampleOffer ''iron'' [''opt'', ''gpt'']]"
  have "mset (map fst [(1 :: nat, False), (0, False)]) = mset [0..<length ?subs]" by (simp add: add_mset_commute)
  note e = listing_exact [of ?list "[(1, False), (0, False)]" ?subs, OF _ this]
  have d: "distinct (map mdl_OwnedBy ?list)" by (simp add: sampleListed_def)
  have "{m \<in> set ?list. shown m \<and> (\<exists>sub\<in>set ?subs. coversModel sub m)} = {sampleListed ''opt'' True, sampleListed ''gpt'' True}"
    by (simp add: sampleListed_shown sampleOffer_covers Collect_conv_if2 conj_disj_distribR Collect_disj_eq insert_commute
        cong: conj_cong)
  moreover have "(sampleListed n b)\<lparr>mdl_Subscriptions := []\<rparr> = sampleListed n b" for n b
    by (simp add: sampleListed_def)
  ultimately show ?thesis using e [OF d] by (simp add: Let_def)
qed

end
