(* ===== verification/GoText.thy ===== *)
theory GoText
  imports GoRegexp
begin

text \<open>
  More of Go's packages \<open>strings\<close>, \<open>strconv\<close> and \<open>fmt\<close>, as the controller uses them: joining and
  splitting at a byte, replacing and trimming bytes, and decimal numbers both ways. The lemmas
  are the round trips between these functions.
\<close>

section \<open>Joining and splitting\<close>

fun Join :: "string list \<Rightarrow> string \<Rightarrow> string" where
  "Join [] sep = []"
| "Join [x] sep = x"
| "Join (x # y # zs) sep = x @ sep @ Join (y # zs) sep"

text \<open>\<open>strings.Split\<close> and \<open>strings.SplitSeq\<close> for a separator of one byte.\<close>

fun Split :: "string \<Rightarrow> char \<Rightarrow> string list" where
  "Split [] c = [[]]"
| "Split (d # s) c =
     (if d = c then [] # Split s c
      else case Split s c of [] \<Rightarrow> [[d]] | x # xs \<Rightarrow> (d # x) # xs)"

lemma Split_not_Nil [simp]: "Split s c \<noteq> []"
  by (cases s) (auto split: list.splits)

lemma Split_plain: "c \<notin> set s \<Longrightarrow> Split s c = [s]"
  by (induction s) auto

lemma Split_append: "c \<notin> set x \<Longrightarrow> Split (x @ c # s) c = x # Split s c"
  by (induction x) auto

lemma Join_Cons: "xs \<noteq> [] \<Longrightarrow> Join (x # xs) sep = x @ sep @ Join xs sep"
  by (cases xs) auto

lemma Split_Join:
  assumes "xs \<noteq> []" and "\<And>x. x \<in> set xs \<Longrightarrow> c \<notin> set x"
  shows "Split (Join xs [c]) c = xs"
  using assms
proof (induction xs "[c]" rule: Join.induct)
  case (3 x y zs)
  then show ?case by (simp add: Split_append)
qed (simp_all add: Split_plain)

lemma Join_Split: "Join (Split s c) [c] = s"
proof (induction s)
  case Nil
  then show ?case by simp
next
  case (Cons d s)
  obtain x xs where sp: "Split s c = x # xs" by (cases "Split s c") auto
  with Cons show ?case by (cases xs) auto
qed

lemma Join_eq_Nil_iff: "Join xs [c] = [] \<longleftrightarrow> xs = [] \<or> xs = [[]]"
  by (induction xs "[c]" rule: Join.induct) auto

section \<open>Bytes\<close>

text \<open>\<open>strings.ReplaceAll\<close> of one byte by another, \<open>ContainsAny\<close>, \<open>Trim\<close> with a set of bytes.\<close>

definition ReplaceAll :: "string \<Rightarrow> char \<Rightarrow> char \<Rightarrow> string" where
  "ReplaceAll s a b = map (\<lambda>c. if c = a then b else c) s"

definition ContainsAny :: "string \<Rightarrow> string \<Rightarrow> bool" where
  "ContainsAny s cs \<longleftrightarrow> list_ex (\<lambda>c. c \<in> set cs) s"

definition Trim :: "string \<Rightarrow> string \<Rightarrow> string" where
  "Trim s cs = rev (dropWhile (\<lambda>c. c \<in> set cs) (rev (dropWhile (\<lambda>c. c \<in> set cs) s)))"

text \<open>\<open>strings.ReplaceAll\<close> of a text that is not empty.\<close>

function replaceStr :: "string \<Rightarrow> string \<Rightarrow> string \<Rightarrow> string" where
  "replaceStr old new s =
     (if old = [] \<or> s = [] then s
      else if prefix old s then new @ replaceStr old new (drop (length old) s)
      else hd s # replaceStr old new (tl s))"
  by pat_completeness auto
termination by (relation "measure (\<lambda>(old, new, s). length s)") (auto dest: prefix_length_le)

declare replaceStr.simps [simp del]

definition HasPrefix :: "string \<Rightarrow> string \<Rightarrow> bool" where
  "HasPrefix s p \<longleftrightarrow> prefix p s"

lemma length_Trim: "length (Trim s cs) \<le> length s"
proof -
  have "length (Trim s cs) \<le> length (dropWhile (\<lambda>c. c \<in> set cs) s)"
    unfolding Trim_def by (metis length_dropWhile_le length_rev)
  also have "\<dots> \<le> length s" by (rule length_dropWhile_le)
  finally show ?thesis .
qed

section \<open>Decimal numbers\<close>

definition digitChar :: "nat \<Rightarrow> char" where
  "digitChar n = char_of (48 + n)"

definition digitNum :: "char \<Rightarrow> nat" where
  "digitNum c = of_char c - 48"

fun itoaNat :: "nat \<Rightarrow> string" where
  "itoaNat n = (if n < 10 then [digitChar n] else itoaNat (n div 10) @ [digitChar (n mod 10)])"

declare itoaNat.simps [simp del]

text \<open>\<open>%d\<close>\<close>

definition itoa :: "int \<Rightarrow> string" where
  "itoa n = (if n < 0 then ''-'' @ itoaNat (nat (- n)) else itoaNat (nat n))"

definition atoiNat :: "string \<Rightarrow> nat" where
  "atoiNat s = foldl (\<lambda>n c. 10 * n + digitNum c) 0 s"

text \<open>
  \<open>strconv.ParseInt(s, 10, 64)\<close>: an optional sign and at least one digit, within 64 bits; an error
  is \<open>None\<close>.
\<close>

definition parseDigits :: "string \<Rightarrow> nat option" where
  "parseDigits s = (if s \<noteq> [] \<and> list_all isDigit s then Some (atoiNat s) else None)"

definition ParseInt64 :: "string \<Rightarrow> int option" where
  "ParseInt64 s =
     (let neg = (s \<noteq> [] \<and> hd s = CHR ''-'');
          body = (if s \<noteq> [] \<and> hd s \<in> {CHR ''-'', CHR ''+''} then tl s else s)
      in case parseDigits body of
           None \<Rightarrow> None
         | Some n \<Rightarrow>
             if neg then (if n \<le> 2 ^ 63 then Some (- int n) else None)
             else if n < 2 ^ 63 then Some (int n) else None)"

text \<open>\<open>%q\<close> of a string whose runes beyond ASCII are printable.\<close>

definition hexNibble :: "nat \<Rightarrow> char" where
  "hexNibble n = (if n < 10 then char_of (48 + n) else char_of (87 + n))"

definition quoteByte :: "char \<Rightarrow> string" where
  "quoteByte ch =
     (let n = (of_char ch :: nat); esc = (\<lambda>x. [CHR 0x5C, x])
      in if n = 0x22 \<or> n = 0x5C then esc ch
         else if n = 7 then esc CHR ''a'' else if n = 8 then esc CHR ''b''
         else if n = 9 then esc CHR ''t'' else if n = 10 then esc CHR ''n''
         else if n = 11 then esc CHR ''v'' else if n = 12 then esc CHR ''f''
         else if n = 13 then esc CHR ''r''
         else if n < 32 \<or> n = 127 then
           [CHR 0x5C, CHR ''x'', hexNibble (n div 16), hexNibble (n mod 16)]
         else [ch])"

definition Quote :: "string \<Rightarrow> string" where
  "Quote s = [CHR 0x22] @ concat (map quoteByte s) @ [CHR 0x22]"

text \<open>
  \<open>strconv.ParseInt(s, 10, 32)\<close> with its error. The digits are read from the left, so that a number
  that leaves 32 bits is out of range before a later character is looked at.
\<close>

definition numError :: "string \<Rightarrow> string \<Rightarrow> string \<Rightarrow> string" where
  "numError fn s what = ''strconv.'' @ fn @ '': parsing '' @ Quote s @ '': '' @ what"

fun parseUint32 :: "nat \<Rightarrow> string \<Rightarrow> (string, nat) result" where
  "parseUint32 n [] = Ok n"
| "parseUint32 n (ch # s) =
     (if \<not> isDigit ch then Err ''invalid syntax''
      else
        let n1 = 10 * n + digitNum ch
        in if n1 \<ge> 2 ^ 32 then Err ''value out of range'' else parseUint32 n1 s)"

definition ParseInt32 :: "string \<Rightarrow> (string, int) result" where
  "ParseInt32 s =
     (let neg = (s \<noteq> [] \<and> hd s = CHR ''-'');
          body = (if s \<noteq> [] \<and> hd s \<in> {CHR ''-'', CHR ''+''} then tl s else s);
          outOfRange = Err (numError ''ParseInt'' s ''value out of range'')
      in if body = [] then Err (numError ''ParseInt'' s ''invalid syntax'')
         else
           (case parseUint32 0 body of
              Inl e \<Rightarrow> Err (numError ''ParseInt'' s e)
            | Inr n \<Rightarrow>
                if \<not> neg \<and> n \<ge> 2 ^ 31 \<or> neg \<and> n > 2 ^ 31 then outOfRange
                else Ok (if neg then - int n else int n)))"

definition ParseBool :: "string \<Rightarrow> (string, bool) result" where
  "ParseBool s =
     (if s \<in> {''1'', ''t'', ''T'', ''TRUE'', ''true'', ''True''} then Ok True
      else if s \<in> {''0'', ''f'', ''F'', ''FALSE'', ''false'', ''False''} then Ok False
      else Err (numError ''ParseBool'' s ''invalid syntax''))"

lemma ParseInt32_bounds: "ParseInt32 s = Ok n \<Longrightarrow> - (2 ^ 31) \<le> n \<and> n < 2 ^ 31"
  by (auto simp: ParseInt32_def Let_def split: sum.splits if_splits)

lemma isDigit_digitChar: "n < 10 \<Longrightarrow> isDigit (digitChar n)"
  by (simp add: isDigit_def byteIn_def digitChar_def)

lemma digitNum_digitChar: "n < 10 \<Longrightarrow> digitNum (digitChar n) = n"
  by (simp add: digitNum_def digitChar_def)

lemma digitNum_less: "isDigit c \<Longrightarrow> digitNum c < 10"
  by (auto simp: isDigit_def byteIn_def digitNum_def)

lemma itoaNat_digits: "list_all isDigit (itoaNat n) \<and> itoaNat n \<noteq> []"
proof (induction n rule: itoaNat.induct)
  case (1 n)
  then show ?case by (subst (1 2) itoaNat.simps) (auto simp: isDigit_digitChar)
qed

lemma atoiNat_snoc: "atoiNat (s @ [c]) = 10 * atoiNat s + digitNum c"
  by (simp add: atoiNat_def)

lemma atoiNat_itoaNat [simp]: "atoiNat (itoaNat n) = n"
proof (induction n rule: itoaNat.induct)
  case (1 n)
  show ?case
  proof (cases "n < 10")
    case True
    then show ?thesis
      by (subst itoaNat.simps) (simp add: atoiNat_def digitNum_digitChar)
  next
    case False
    with 1 show ?thesis
      by (subst itoaNat.simps) (simp add: atoiNat_snoc digitNum_digitChar)
  qed
qed

lemma itoaNat_inj: "itoaNat m = itoaNat n \<longleftrightarrow> m = n"
  by (metis atoiNat_itoaNat)

lemma atoiNat_bound: "list_all isDigit s \<Longrightarrow> atoiNat s < 10 ^ length s"
proof (induction s rule: rev_induct)
  case Nil
  then show ?case by (simp add: atoiNat_def)
next
  case (snoc c s)
  then have "atoiNat s + 1 \<le> 10 ^ length s" and "digitNum c < 10"
    by (auto dest: digitNum_less)
  then show ?case by (simp add: atoiNat_snoc)
qed

lemma isDigit_not_sign: "isDigit c \<Longrightarrow> c \<noteq> CHR ''-'' \<and> c \<noteq> CHR ''+''"
  by (auto simp: isDigit_def byteIn_def)

lemma ParseInt64_digits:
  assumes "s \<noteq> []" and "list_all isDigit s" and "atoiNat s < 2 ^ 63"
  shows "ParseInt64 s = Some (int (atoiNat s))"
proof -
  from assms(1,2) have "isDigit (hd s)" by (cases s) auto
  then have "hd s \<notin> {CHR ''-'', CHR ''+''}" by (auto dest: isDigit_not_sign)
  with assms show ?thesis by (auto simp: ParseInt64_def parseDigits_def Let_def)
qed

text \<open>A numeral without a leading zero is the decimal form of its value.\<close>

lemma digitChar_digitNum: "isDigit c \<Longrightarrow> digitChar (digitNum c) = c"
  by (auto simp: isDigit_def byteIn_def digitChar_def digitNum_def)

lemma digitChar_0: "digitChar 0 = CHR ''0''"
  using digitChar_digitNum [of "CHR ''0''"] by (simp add: digitNum_def isDigit_def byteIn_def)

lemma atoiNat_pos:
  assumes "isDigit d" and "d \<noteq> CHR ''0''"
  shows "0 < atoiNat (d # s)"
proof (induction s rule: rev_induct)
  case Nil
  have "digitNum d \<noteq> 0"
  proof
    assume "digitNum d = 0"
    with assms(1) have "d = digitChar 0" using digitChar_digitNum by metis
    with assms(2) show False by (simp add: digitChar_0)
  qed
  then show ?case by (simp add: atoiNat_def)
next
  case (snoc c s)
  then show ?case using atoiNat_snoc [of "d # s" c] by simp
qed

lemma itoaNat_atoiNat:
  assumes "isDigit d" and "d \<noteq> CHR ''0''" and "list_all isDigit s"
  shows "itoaNat (atoiNat (d # s)) = d # s"
  using assms(3)
proof (induction s rule: rev_induct)
  case Nil
  have "digitNum d < 10" using assms(1) by (rule digitNum_less)
  then show ?case
    using assms(1) by (simp add: atoiNat_def itoaNat.simps digitChar_digitNum)
next
  case (snoc c s)
  have c: "digitNum c < 10" "digitChar (digitNum c) = c"
    using snoc.prems by (simp_all add: digitNum_less digitChar_digitNum)
  have "0 < atoiNat (d # s)" using assms(1,2) by (rule atoiNat_pos)
  with c(1) have v: "\<not> 10 * atoiNat (d # s) + digitNum c < 10"
      "(10 * atoiNat (d # s) + digitNum c) div 10 = atoiNat (d # s)"
      "(10 * atoiNat (d # s) + digitNum c) mod 10 = digitNum c"
    by auto
  have "itoaNat (atoiNat ((d # s) @ [c])) = itoaNat (atoiNat (d # s)) @ [c]"
    unfolding atoiNat_snoc by (subst itoaNat.simps) (simp only: v c if_False)
  with snoc show ?case by simp
qed

lemma itoaNat_first:
  "0 < n \<Longrightarrow> \<exists>d s. itoaNat n = d # s \<and> isDigit d \<and> d \<noteq> CHR ''0'' \<and> list_all isDigit s"
proof (induction n rule: itoaNat.induct)
  case (1 n)
  show ?case
  proof (cases "n < 10")
    case True
    with 1 have "digitChar n \<noteq> CHR ''0''"
      using digitNum_digitChar [of n] by (auto simp: digitNum_def)
    with True show ?thesis by (simp add: itoaNat.simps isDigit_digitChar)
  next
    case False
    with 1 obtain d s where "itoaNat (n div 10) = d # s" "isDigit d" "d \<noteq> CHR ''0''"
        "list_all isDigit s" by fastforce
    with False show ?thesis by (subst itoaNat.simps) (simp add: isDigit_digitChar)
  qed
qed

lemma length_itoaNat_le: "n < 10 ^ k \<Longrightarrow> 0 < k \<Longrightarrow> length (itoaNat n) \<le> k"
proof (induction k arbitrary: n)
  case (Suc k)
  show ?case
  proof (cases "n < 10")
    case True
    then show ?thesis by (simp add: itoaNat.simps)
  next
    case False
    then have "k \<noteq> 0" using Suc.prems by (cases k) auto
    moreover have "n div 10 < 10 ^ k" using Suc.prems by (simp add: less_mult_imp_div_less)
    ultimately have "length (itoaNat (n div 10)) \<le> k" using Suc.IH by simp
    with False show ?thesis by (subst itoaNat.simps) simp
  qed
qed simp

section \<open>Formatting\<close>

text \<open>\<open>%v\<close> of a slice of strings.\<close>

definition sprintV :: "string list \<Rightarrow> string" where
  "sprintV xs = ''['' @ Join xs '' '' @ '']''"

text \<open>The em dash of the messages, in UTF-8.\<close>

definition emDash :: string where
  "emDash = [CHR 0xE2, CHR 0x80, CHR 0x94]"

end
