(* ===== verification/TenantEndpoint.thy ===== *)
theory TenantEndpoint
  imports Unstructured GoText TokenHeaders
begin

text \<open>
  \<open>maas-api/internal/tenant/handler.go\<close>: the answer of \<open>GET /v1/tenants\<close>, the name of the tenant of this
  deployment and how its gateway is reached from outside. The Gateway object is read through the
  dynamic client, so it is a JSON value; a call that fails does so with one of the errors the handler
  tells apart.
\<close>

definition protocolHTTPS :: string where "protocolHTTPS = ''HTTPS''"
definition protocolTLS :: string where "protocolTLS = ''TLS''"
definition protocolHTTP :: string where "protocolHTTP = ''HTTP''"

lemmas protocol_defs = protocolHTTPS_def protocolTLS_def protocolHTTP_def

datatype gatewayError = GatewayNotFound | GatewayForbidden | GatewayTimeout | GatewayOther

record TenantHandler =
  th_GetGateway :: "string \<Rightarrow> string \<Rightarrow> (gatewayError, jmap) result"
  th_TenantName :: string
  th_GatewayName :: string
  th_GatewayNamespace :: string

record GatewayMetadata =
  gmd_Name :: string
  gmd_Namespace :: string
  gmd_Protocol :: string
  gmd_ExternalURL :: string
  gmd_Port :: int

record TenantInfo =
  ti_Name :: string
  ti_Gateway :: GatewayMetadata

datatype tenant_body = TenantsResponse "TenantInfo list" | TenantError string string

section \<open>Listeners\<close>

text \<open>The listeners of the status by name; a later one of the same name wins.\<close>

definition statusListenersByName :: "json list \<Rightarrow> (string \<times> jmap) list" where
  "statusListenersByName raw =
     foldl (\<lambda>acc l. case asMap l of
         None \<Rightarrow> acc
       | Some sl \<Rightarrow> (case fieldAs asString sl ''name'' of None \<Rightarrow> acc | Some n \<Rightarrow> (n, sl) # acc)) [] raw"

text \<open>The number of routes attached to a listener of the specification, 0 without a status.\<close>

definition attachedRoutes :: "(string \<times> jmap) list \<Rightarrow> jmap \<Rightarrow> int" where
  "attachedRoutes statusByName sl =
     (case map_of statusByName (stringOf sl ''name'') of
        None \<Rightarrow> 0
      | Some st \<Rightarrow> (case fieldAs asInt64 st ''attachedRoutes'' of None \<Rightarrow> 0 | Some n \<Rightarrow> n))"

definition listenerProtocol :: "jmap \<Rightarrow> string" where
  "listenerProtocol sl = (case fieldAs asString sl ''protocol'' of None \<Rightarrow> protocolHTTPS | Some p \<Rightarrow> p)"

definition listenerPort :: "jmap \<Rightarrow> int" where
  "listenerPort sl = (case fieldAs asInt64 sl ''port'' of None \<Rightarrow> 443 | Some p \<Rightarrow> p)"

text \<open>The loop of \<open>selectBestListener\<close>; \<open>http\<close> is the first HTTP listener found so far.\<close>

fun bestListener :: "(string \<times> jmap) list \<Rightarrow> (int \<times> string) option \<Rightarrow> json list \<Rightarrow> int \<times> string \<times> string" where
  "bestListener statusByName http [] =
     (case http of
        Some (port, hostname) \<Rightarrow> (port, protocolHTTP, hostname)
      | None \<Rightarrow> (443, protocolHTTPS, []))"
| "bestListener statusByName http (l # ls) =
     (case asMap l of
        None \<Rightarrow> bestListener statusByName http ls
      | Some sl \<Rightarrow>
          if attachedRoutes statusByName sl = 0 then bestListener statusByName http ls
          else
            let p = listenerProtocol sl; port = listenerPort sl; hostname = stringOf sl ''hostname''
            in if p = protocolHTTPS \<or> p = protocolTLS then (port, p, hostname)
               else if p = protocolHTTP \<and> http = None then bestListener statusByName (Some (port, hostname)) ls
               else bestListener statusByName http ls)"

definition selectBestListener :: "json list \<Rightarrow> (string \<times> jmap) list \<Rightarrow> int \<times> string \<times> string" where
  "selectBestListener specListeners statusByName = bestListener statusByName None specListeners"

section \<open>The handler\<close>

text \<open>The value of the first address of the status, if it has the expected shape.\<close>

definition statusAddress :: "jmap \<Rightarrow> string" where
  "statusAddress status =
     (case fieldAs asSlice status ''addresses'' of
        Some (a # as) \<Rightarrow> (case asMap a of None \<Rightarrow> [] | Some m \<Rightarrow> stringOf m ''value'')
      | _ \<Rightarrow> [])"

definition extractGatewayMetadata :: "TenantHandler \<Rightarrow> jmap \<Rightarrow> (string, GatewayMetadata) result" where
  "extractGatewayMetadata h gateway =
     (case fieldAs asMap gateway ''spec'' of
        None \<Rightarrow> Err ''gateway spec not found''
      | Some spec \<Rightarrow>
     (case fieldAs asMap gateway ''status'' of
        None \<Rightarrow> Err ''gateway status not found''
      | Some status \<Rightarrow>
     (case fieldAs asSlice spec ''listeners'' of
        None \<Rightarrow> Err ''gateway has no listeners in spec''
      | Some specListeners \<Rightarrow>
          if specListeners = [] then Err ''gateway has no listeners in spec''
          else
     (case fieldAs asSlice status ''listeners'' of
        None \<Rightarrow> Err ''gateway has no listeners in status''
      | Some statusListeners \<Rightarrow>
          if statusListeners = [] then Err ''gateway has no listeners in status''
          else
            (case selectBestListener specListeners (statusListenersByName statusListeners) of
               (port, protocol, hostname) \<Rightarrow>
                 let externalHost = (if hostname = [] then statusAddress status else hostname)
                 in if externalHost = [] then Err ''could not determine external hostname from gateway''
                    else if suffix ''.svc.cluster.local'' externalHost then
                      Err (''gateway '' @ th_GatewayNamespace h @ ''/'' @ th_GatewayName h
                        @ '' is not configured with an external hostname (found internal service name: ''
                        @ externalHost @ ''). Please configure the Gateway with spec.listeners[].hostname ''
                        @ ''and use LoadBalancer service type'')
                    else
                      let scheme = (if protocol = protocolHTTP then ''http'' else ''https'');
                          url = scheme @ ''://'' @ externalHost;
                          url = (if scheme = ''https'' \<and> port \<noteq> 443 \<or> scheme = ''http'' \<and> port \<noteq> 80
                                 then url @ '':'' @ itoa port else url)
                      in Ok \<lparr>gmd_Name = th_GatewayName h, gmd_Namespace = th_GatewayNamespace h,
                             gmd_Protocol = scheme, gmd_ExternalURL = url, gmd_Port = port\<rparr>)))))"

definition GetTenantInfo :: "TenantHandler \<Rightarrow> tenant_body http" where
  "GetTenantInfo h =
     (case th_GetGateway h (th_GatewayNamespace h) (th_GatewayName h) of
        Inl GatewayNotFound \<Rightarrow>
          \<lparr>http_Status = 404, http_Body = TenantError ''Gateway not found''
             (''Gateway '' @ th_GatewayName h @ '' not found in namespace '' @ th_GatewayNamespace h)\<rparr>
      | Inl e \<Rightarrow>
          \<lparr>http_Status = (if e = GatewayForbidden then 403 else if e = GatewayTimeout then 504 else 500),
           http_Body = TenantError ''Failed to fetch Gateway'' ''Unable to query Gateway resource''\<rparr>
      | Inr gateway \<Rightarrow>
          (case extractGatewayMetadata h gateway of
             Inl err \<Rightarrow>
               \<lparr>http_Status = 500, http_Body = TenantError ''Failed to resolve gateway''
                  ''Unable to determine external hostname from Gateway status''\<rparr>
           | Inr md \<Rightarrow>
               \<lparr>http_Status = 200,
                http_Body = TenantsResponse [\<lparr>ti_Name = th_TenantName h, ti_Gateway = md\<rparr>]\<rparr>))"

section \<open>Which listener is taken\<close>

text \<open>The listeners that have routes, and the first of a kind among them.\<close>

definition readyListeners :: "(string \<times> jmap) list \<Rightarrow> json list \<Rightarrow> jmap list" where
  "readyListeners statusByName ls =
     filter (\<lambda>sl. attachedRoutes statusByName sl \<noteq> 0) (List.map_filter asMap ls)"

definition secure :: "jmap \<Rightarrow> bool" where
  "secure sl \<longleftrightarrow> listenerProtocol sl = protocolHTTPS \<or> listenerProtocol sl = protocolTLS"

definition plainHTTP :: "jmap \<Rightarrow> bool" where
  "plainHTTP sl \<longleftrightarrow> listenerProtocol sl = protocolHTTP"

definition endpointOf :: "jmap \<Rightarrow> int \<times> string \<times> string" where
  "endpointOf sl = (listenerPort sl, listenerProtocol sl, stringOf sl ''hostname'')"

lemma bestListener_find:
  "bestListener st http ls =
     (case find secure (readyListeners st ls) of
        Some sl \<Rightarrow> endpointOf sl
      | None \<Rightarrow>
          (case http of
             Some (port, hostname) \<Rightarrow> (port, protocolHTTP, hostname)
           | None \<Rightarrow>
               (case find plainHTTP (readyListeners st ls) of
                  Some sl \<Rightarrow> endpointOf sl
                | None \<Rightarrow> (443, protocolHTTPS, []))))"
proof (induction ls arbitrary: http)
  case Nil
  show ?case by (simp add: readyListeners_def List.map_filter_simps split: option.split)
next
  case (Cons l ls)
  show ?case
    by (cases "asMap l")
      (auto simp: Cons.IH Let_def readyListeners_def List.map_filter_simps secure_def plainHTTP_def endpointOf_def
        protocol_defs split: option.splits)
qed


text \<open>
  C26: The endpoint that is advertised. An answer 200 holds the one tenant of this deployment, and an
  URL whose host is neither empty nor a name inside the cluster: the host of the chosen listener, or
  the first address of the status when that listener names none. The scheme is \<open>http\<close> exactly when a
  plain HTTP listener has routes and no HTTPS or TLS listener has; the listener chosen is the first
  of its kind in the order of the specification; and the URL carries the port exactly when it is not
  the default one of its scheme.
\<close>

theorem tenant_endpoint_sound:
  assumes "GetTenantInfo h = \<lparr>http_Status = 200, http_Body = body\<rparr>"
  shows "\<exists>gateway spec status ls st md host.
      th_GetGateway h (th_GatewayNamespace h) (th_GatewayName h) = Inr gateway
      \<and> fieldAs asMap gateway ''spec'' = Some spec \<and> fieldAs asMap gateway ''status'' = Some status
      \<and> fieldAs asSlice spec ''listeners'' = Some ls
      \<and> fieldAs asSlice status ''listeners'' = Some st
      \<and> body = TenantsResponse [\<lparr>ti_Name = th_TenantName h, ti_Gateway = md\<rparr>]
      \<and> host \<noteq> [] \<and> \<not> suffix ''.svc.cluster.local'' host
      \<and> (let ready = readyListeners (statusListenersByName st) ls;
             chosen = (case find secure ready of Some sl \<Rightarrow> Some sl | None \<Rightarrow> find plainHTTP ready);
             named = (case chosen of None \<Rightarrow> [] | Some sl \<Rightarrow> stringOf sl ''hostname'')
         in (gmd_Protocol md = ''http'' \<longleftrightarrow> find secure ready = None \<and> find plainHTTP ready \<noteq> None)
            \<and> gmd_Protocol md \<in> {''http'', ''https''}
            \<and> gmd_Port md = (case chosen of None \<Rightarrow> 443 | Some sl \<Rightarrow> listenerPort sl)
            \<and> host = (if named = [] then statusAddress status else named)
            \<and> gmd_ExternalURL md = gmd_Protocol md @ ''://'' @ host
                 @ (if gmd_Port md = (if gmd_Protocol md = ''http'' then 80 else 443) then []
                    else '':'' @ itoa (gmd_Port md)))"
proof -
  obtain gateway md where g: "th_GetGateway h (th_GatewayNamespace h) (th_GatewayName h) = Inr gateway"
    and md: "extractGatewayMetadata h gateway = Ok md"
    and body: "body = TenantsResponse [\<lparr>ti_Name = th_TenantName h, ti_Gateway = md\<rparr>]"
    using assms by (auto simp: GetTenantInfo_def split: sum.splits gatewayError.splits if_splits)
  obtain spec status ls st where f: "fieldAs asMap gateway ''spec'' = Some spec"
    "fieldAs asMap gateway ''status'' = Some status" "fieldAs asSlice spec ''listeners'' = Some ls"
    "fieldAs asSlice status ''listeners'' = Some st" "ls \<noteq> []" "st \<noteq> []"
    using md by (auto simp: extractGatewayMetadata_def split: option.splits if_splits)
  let ?ready = "readyListeners (statusListenersByName st) ls"
  define chosen where "chosen = (case find secure ?ready of Some sl \<Rightarrow> Some sl | None \<Rightarrow> find plainHTTP ?ready)"
  have best: "selectBestListener ls (statusListenersByName st) =
      (case chosen of Some sl \<Rightarrow> endpointOf sl | None \<Rightarrow> (443, protocolHTTPS, []))"
    by (simp add: selectBestListener_def bestListener_find chosen_def split: option.split)
  have proto: "chosen = Some sl \<Longrightarrow>
      listenerProtocol sl = protocolHTTP \<longleftrightarrow> find secure ?ready = None \<and> find plainHTTP ?ready \<noteq> None" for sl
    by (auto simp: chosen_def secure_def plainHTTP_def protocol_defs split: option.splits dest!: find_SomeD)
  have none: "chosen = None \<Longrightarrow> find secure ?ready = None \<and> find plainHTTP ?ready = None"
    by (auto simp: chosen_def split: option.splits)
  obtain port protocol hostname where e: "selectBestListener ls (statusListenersByName st) = (port, protocol, hostname)"
    by (cases "selectBestListener ls (statusListenersByName st)")
  define host where "host = (if hostname = [] then statusAddress status else hostname)"
  have answer: "host \<noteq> []" "\<not> suffix ''.svc.cluster.local'' host" "gmd_Port md = port"
    "gmd_Protocol md = (if protocol = protocolHTTP then ''http'' else ''https'')"
    "gmd_ExternalURL md = gmd_Protocol md @ ''://'' @ host
       @ (if gmd_Port md = (if gmd_Protocol md = ''http'' then 80 else 443) then [] else '':'' @ itoa (gmd_Port md))"
    using md f e unfolding host_def by (auto simp: extractGatewayMetadata_def Let_def split: if_splits)
  have "(protocol = protocolHTTP \<longleftrightarrow> find secure ?ready = None \<and> find plainHTTP ?ready \<noteq> None)
      \<and> port = (case chosen of None \<Rightarrow> 443 | Some sl \<Rightarrow> listenerPort sl)
      \<and> hostname = (case chosen of None \<Rightarrow> [] | Some sl \<Rightarrow> stringOf sl ''hostname'')"
    using e best none proto by (cases chosen) (auto simp: endpointOf_def protocol_defs)
  with g f body answer show ?thesis
    by (intro exI [of _ gateway] exI [of _ spec] exI [of _ status] exI [of _ ls] exI [of _ st] exI [of _ md]
        exI [of _ host] conjI) (simp_all add: Let_def chosen_def [symmetric] host_def)
qed

definition sampleGatewayObject :: jmap where
  "sampleGatewayObject =
     [(''spec'', JObj [(''listeners'', JArr
         [JObj [(''name'', JStr ''plain''), (''protocol'', JStr ''HTTP''), (''port'', JInt 80), (''hostname'', JStr ''h.io'')],
          JObj [(''name'', JStr ''tls''), (''protocol'', JStr ''HTTPS''), (''port'', JInt 8443), (''hostname'', JStr ''s.io'')]])]),
      (''status'', JObj [(''listeners'', JArr
         [JObj [(''name'', JStr ''plain''), (''attachedRoutes'', JInt 1)],
          JObj [(''name'', JStr ''tls''), (''attachedRoutes'', JInt 2)]])])]"

definition sampleTenantHandler :: TenantHandler where
  "sampleTenantHandler =
     \<lparr>th_GetGateway = (\<lambda>ns n. Inr sampleGatewayObject), th_TenantName = ''red'', th_GatewayName = ''gw'',
      th_GatewayNamespace = ''edge''\<rparr>"

theorem tenant_endpoint_sound_witness:
  "\<exists>md host. GetTenantInfo sampleTenantHandler
        = \<lparr>http_Status = 200, http_Body = TenantsResponse [\<lparr>ti_Name = ''red'', ti_Gateway = md\<rparr>]\<rparr>
      \<and> md = \<lparr>gmd_Name = ''gw'', gmd_Namespace = ''edge'', gmd_Protocol = ''https'',
            gmd_ExternalURL = ''https://s.io:'' @ itoa 8443, gmd_Port = 8443\<rparr>
      \<and> host \<noteq> [] \<and> \<not> suffix ''.svc.cluster.local'' host \<and> gmd_Protocol md \<in> {''http'', ''https''}"
proof -
  let ?md = "\<lparr>gmd_Name = ''gw'', gmd_Namespace = ''edge'', gmd_Protocol = ''https'',
      gmd_ExternalURL = ''https://s.io:'' @ itoa 8443, gmd_Port = 8443\<rparr>"
  have run: "GetTenantInfo sampleTenantHandler
      = \<lparr>http_Status = 200, http_Body = TenantsResponse [\<lparr>ti_Name = ''red'', ti_Gateway = ?md\<rparr>]\<rparr>"
    by (simp add: GetTenantInfo_def sampleTenantHandler_def extractGatewayMetadata_def sampleGatewayObject_def
        fieldAs_def selectBestListener_def statusListenersByName_def attachedRoutes_def stringOf_def
        listenerProtocol_def listenerPort_def protocol_defs suffix_def)
  obtain md host where "[\<lparr>ti_Name = ''red'', ti_Gateway = ?md\<rparr>] = [\<lparr>ti_Name = th_TenantName sampleTenantHandler, ti_Gateway = md\<rparr>]"
    "host \<noteq> []" "\<not> suffix ''.svc.cluster.local'' host" "gmd_Protocol md \<in> {''http'', ''https''}"
    using tenant_endpoint_sound [OF run] by (elim exE conjE) (simp only: Let_def tenant_body.inject, blast)
  with run show ?thesis by auto
qed

end
