(* ===== verification/AdminChecker.thy ===== *)
theory AdminChecker
  imports TokenHeaders "HOL-Library.AList" "HOL-Library.List_Lexorder" "HOL-Library.Char_ord"
begin

text \<open>
  \<open>maas-api/internal/auth\<close>: who is an administrator (\<open>sar_admin_checker.go\<close>), the cache in front of
  that question (\<open>cached_admin_checker.go\<close>), and the middleware that authenticates cluster callers
  (\<open>tenant_auth_middleware.go\<close>). The answers of the Kubernetes API server are arguments.
\<close>

section \<open>SubjectAccessReview\<close>

text \<open>The review that is asked for, and what the API server answers: allowed, or an error.\<close>

record review =
  rv_User :: string
  rv_Groups :: "string list"
  rv_Namespace :: string
  rv_Verb :: string
  rv_Group :: string
  rv_Resource :: string

type_synonym sarClient = "review \<Rightarrow> (string, bool) result"

definition sar_IsAdmin :: "sarClient \<Rightarrow> string \<Rightarrow> UserContext option \<Rightarrow> (string, bool) result" where
  "sar_IsAdmin client namespace user =
     (case user of
        None \<Rightarrow> Ok False
      | Some u \<Rightarrow>
          if uc_Username u = [] then Ok False
          else
            (case client \<lparr>rv_User = uc_Username u, rv_Groups = uc_Groups u, rv_Namespace = namespace,
                    rv_Verb = ''create'', rv_Group = ''maas.opendatahub.io'',
                    rv_Resource = ''maasauthpolicies''\<rparr> of
               Inl err \<Rightarrow> Err (''SAR admin check: '' @ err)
             | Inr allowed \<Rightarrow> Ok allowed))"

section \<open>The cache\<close>

record CachedAdminChecker =
  cac_ttl :: duration
  cac_negativeTTL :: duration
  cac_maxSize :: nat

text \<open>\<open>NewCachedAdminChecker\<close> panics on anything else.\<close>

definition cacConfigured :: "CachedAdminChecker \<Rightarrow> bool" where
  "cacConfigured c \<longleftrightarrow> cac_ttl c > 0 \<and> cac_negativeTTL c > 0 \<and> cac_maxSize c > 0"

record cacheEntry =
  ce_isAdmin :: bool
  ce_expiresAt :: time

text \<open>
  The state: the map, the two counters, and, as a ghost, which verdicts the delegate gave to whom
  and when they were stored.
\<close>

record adminCache =
  ac_cache :: "(string \<times> cacheEntry) list"
  ac_hits :: nat
  ac_misses :: nat
  ac_answers :: "(UserContext \<times> bool \<times> time) list"

definition emptyCache :: adminCache where
  "emptyCache = \<lparr>ac_cache = [], ac_hits = 0, ac_misses = 0, ac_answers = []\<rparr>"

fun joinNull :: "string list \<Rightarrow> string" where
  "joinNull [] = []"
| "joinNull [g] = g"
| "joinNull (g # gs) = g @ CHR 0x00 # joinNull gs"

definition cacheKey :: "UserContext \<Rightarrow> string" where
  "cacheKey user = uc_Username user @ CHR 0x00 # joinNull (sort (uc_Groups user))"

definition evictExpiredLocked :: "time \<Rightarrow> (string \<times> cacheEntry) list \<Rightarrow> (string \<times> cacheEntry) list" where
  "evictExpiredLocked now m = filter (\<lambda>(k, v). \<not> now > ce_expiresAt v) m"

definition cacheLookup :: "time \<Rightarrow> UserContext \<Rightarrow> adminCache \<Rightarrow> bool option" where
  "cacheLookup now user st =
     (case map_of (ac_cache st) (cacheKey user) of
        None \<Rightarrow> None
      | Some entry \<Rightarrow> if now < ce_expiresAt entry then Some (ce_isAdmin entry) else None)"

definition cacheTTL :: "CachedAdminChecker \<Rightarrow> bool \<Rightarrow> duration" where
  "cacheTTL c result = (if \<not> result then cac_negativeTTL c else cac_ttl c)"

text \<open>The critical section that stores a verdict.\<close>

definition cacheStore ::
  "CachedAdminChecker \<Rightarrow> UserContext \<Rightarrow> bool \<Rightarrow> time \<Rightarrow> adminCache \<Rightarrow> adminCache" where
  "cacheStore c user result storeTime st =
     (let m = evictExpiredLocked storeTime (ac_cache st);
          m' = (if length m < cac_maxSize c
                then AList.update (cacheKey user)
                       \<lparr>ce_isAdmin = result, ce_expiresAt = storeTime + cacheTTL c result\<rparr> m
                else m)
      in st\<lparr>ac_cache := m', ac_misses := ac_misses st + 1,
            ac_answers := (user, result, storeTime) # ac_answers st\<rparr>)"

text \<open>
  \<open>ctxErr1\<close> and \<open>ctxErr2\<close> are \<open>ctx.Err()\<close> before and after the delegate is asked; \<open>now\<close> and
  \<open>storeTime\<close> are the two readings of the clock.
\<close>

definition cached_IsAdmin ::
  "CachedAdminChecker \<Rightarrow> (UserContext \<Rightarrow> (string, bool) result) \<Rightarrow> string option \<Rightarrow> string option
    \<Rightarrow> time \<Rightarrow> time \<Rightarrow> UserContext option \<Rightarrow> adminCache \<Rightarrow> (string, bool) result \<times> adminCache" where
  "cached_IsAdmin c delegate ctxErr1 ctxErr2 now storeTime user st =
     (case user of
        None \<Rightarrow> (Ok False, st)
      | Some u \<Rightarrow>
          if uc_Username u = [] then (Ok False, st)
          else
            (case ctxErr1 of
               Some err \<Rightarrow> (Err err, st)
             | None \<Rightarrow>
                 (case cacheLookup now u st of
                    Some verdict \<Rightarrow> (Ok verdict, st\<lparr>ac_hits := ac_hits st + 1\<rparr>)
                  | None \<Rightarrow>
                      (case delegate u of
                         Inl err \<Rightarrow> (Err err, st\<lparr>ac_misses := ac_misses st + 1\<rparr>)
                       | Inr result \<Rightarrow>
                           (case ctxErr2 of
                              Some err \<Rightarrow> (Err err, st\<lparr>ac_misses := ac_misses st + 1\<rparr>)
                            | None \<Rightarrow> (Ok result, cacheStore c u result storeTime st))))))"

text \<open>
  Requests run concurrently: between the lookup of one and its store, others store. Each step is
  one critical section; the counters and the lookups change nothing else.
\<close>

inductive cac_reach :: "CachedAdminChecker \<Rightarrow> adminCache \<Rightarrow> bool" for c where
  start: "cac_reach c emptyCache"
| store: "cac_reach c st \<Longrightarrow> cac_reach c (cacheStore c u result t st)"
| hit: "cac_reach c st \<Longrightarrow> cac_reach c (st\<lparr>ac_hits := ac_hits st + 1\<rparr>)"
| miss: "cac_reach c st \<Longrightarrow> cac_reach c (st\<lparr>ac_misses := ac_misses st + 1\<rparr>)"

section \<open>Tenant authentication\<close>

text \<open>\<open>tokenReview\<close> answers with an error, with unauthenticated, or with a user and its groups.\<close>

definition TenantAuthMiddleware ::
  "(string \<Rightarrow> (string, (string \<times> string list) option) result) \<Rightarrow> sarClient \<Rightarrow> string \<Rightarrow> nat option" where
  "TenantAuthMiddleware tokenReview client authHeader =
     (if authHeader = [] \<or> \<not> prefix ''Bearer '' authHeader then Some 401
      else
        (case tokenReview (drop (length ''Bearer '') authHeader) of
           Inl err \<Rightarrow> Some 401
         | Inr None \<Rightarrow> Some 401
         | Inr (Some (username, groups)) \<Rightarrow>
             (case client \<lparr>rv_User = username, rv_Groups = groups, rv_Namespace = [], rv_Verb = ''create'',
                     rv_Group = ''authorization.k8s.io'', rv_Resource = ''selfsubjectaccessreviews''\<rparr> of
                Inl err \<Rightarrow> Some 500
              | Inr allowed \<Rightarrow> if \<not> allowed then Some 403 else None)))"

section \<open>Keys identify users\<close>

lemma null_sep_inj:
  assumes "a @ CHR 0x00 # b = a' @ CHR 0x00 # b'" "CHR 0x00 \<notin> set a" "CHR 0x00 \<notin> set a'"
  shows "a = a' \<and> b = b'"
proof -
  have "[a, b] = [a', b']"
    using splitN2_append [OF assms(2), of b] splitN2_append [OF assms(3), of b']
    unfolding assms(1) by (rule trans [OF sym])
  then show ?thesis by simp
qed

text \<open>Names that can arrive in a header: no null byte, and no empty group.\<close>

definition cleanName :: "string \<Rightarrow> bool" where
  "cleanName g \<longleftrightarrow> g \<noteq> [] \<and> CHR 0x00 \<notin> set g"

lemma joinNull_Nil: "list_all cleanName gs \<Longrightarrow> joinNull gs = [] \<Longrightarrow> gs = []"
  by (cases gs rule: joinNull.cases) (auto simp: cleanName_def)

lemma joinNull_inj:
  "list_all cleanName gs \<Longrightarrow> list_all cleanName hs \<Longrightarrow> joinNull gs = joinNull hs \<Longrightarrow> gs = hs"
proof (induction gs arbitrary: hs rule: joinNull.induct)
  case 1
  then show ?case using joinNull_Nil by force
next
  case (2 g)
  show ?case
  proof (cases hs rule: joinNull.cases)
    case (3 h h' hs')
    with 2 have "CHR 0x00 \<in> set g" by auto
    with 2 show ?thesis by (simp add: cleanName_def)
  qed (use 2 in \<open>auto simp: cleanName_def\<close>)
next
  case (3 g g' gs')
  show ?case
  proof (cases hs rule: joinNull.cases)
    case (2 h)
    with 3 have "CHR 0x00 \<in> set h" by (metis in_set_conv_decomp joinNull.simps(2,3))
    with 2 3 show ?thesis by (simp add: cleanName_def)
  next
    case hs: (3 h h' hs')
    with 3 have "g = h \<and> joinNull (g' # gs') = joinNull (h' # hs')"
      by (intro null_sep_inj) (simp_all add: cleanName_def)
    moreover from this have "g' # gs' = h' # hs'" using 3 hs by (intro "3.IH") simp_all
    ultimately show ?thesis using hs by simp
  qed (use 3 in auto)
qed

definition cleanUser :: "UserContext \<Rightarrow> bool" where
  "cleanUser u \<longleftrightarrow> CHR 0x00 \<notin> set (uc_Username u) \<and> list_all cleanName (uc_Groups u)"

lemma cacheKey_inj:
  assumes "cleanUser u" "cleanUser v" "cacheKey u = cacheKey v"
  shows "uc_Username u = uc_Username v \<and> mset (uc_Groups u) = mset (uc_Groups v)"
proof -
  have "uc_Username u = uc_Username v \<and> joinNull (sort (uc_Groups u)) = joinNull (sort (uc_Groups v))"
    using assms by (intro null_sep_inj) (simp_all add: cacheKey_def cleanUser_def)
  moreover have "list_all cleanName (sort (uc_Groups u))" "list_all cleanName (sort (uc_Groups v))"
    using assms by (simp_all add: cleanUser_def list_all_iff)
  ultimately have "sort (uc_Groups u) = sort (uc_Groups v)" using joinNull_inj by blast
  then have "mset (sort (uc_Groups u)) = mset (sort (uc_Groups v))" by simp
  with \<open>uc_Username u = uc_Username v \<and> _\<close> show ?thesis by simp
qed

section \<open>What the cache holds\<close>

text \<open>Every entry is a verdict of the delegate, no older than its time to live allows.\<close>

definition truthful :: "CachedAdminChecker \<Rightarrow> adminCache \<Rightarrow> bool" where
  "truthful c st \<longleftrightarrow>
     (\<forall>k v. (k, v) \<in> set (ac_cache st) \<longrightarrow>
        (\<exists>u t. (u, ce_isAdmin v, t) \<in> set (ac_answers st) \<and> cacheKey u = k
           \<and> ce_expiresAt v = t + cacheTTL c (ce_isAdmin v)))"

lemma set_update_subset: "set (AList.update k v m) \<subseteq> insert (k, v) (set m)"
  by (induction m) auto

lemma length_update_le: "length (AList.update k v m) \<le> Suc (length m)"
  by (induction m) auto

lemma truthful_store:
  assumes "truthful c st"
  shows "truthful c (cacheStore c u result t st)"
  unfolding truthful_def
proof (intro allI impI)
  fix k v
  assume kv: "(k, v) \<in> set (ac_cache (cacheStore c u result t st))"
  let ?m = "evictExpiredLocked t (ac_cache st)"
  let ?e = "\<lparr>ce_isAdmin = result, ce_expiresAt = t + cacheTTL c result\<rparr>"
  have "(k, v) \<in> insert (cacheKey u, ?e) (set ?m)"
    using kv set_update_subset [of "cacheKey u" ?e ?m] by (auto simp: cacheStore_def Let_def split: if_splits)
  then consider "k = cacheKey u" "v = ?e" | "(k, v) \<in> set (ac_cache st)"
    by (auto simp: evictExpiredLocked_def)
  then show "\<exists>w s. (w, ce_isAdmin v, s) \<in> set (ac_answers (cacheStore c u result t st)) \<and> cacheKey w = k
      \<and> ce_expiresAt v = s + cacheTTL c (ce_isAdmin v)"
  proof cases
    case 1
    then show ?thesis by (intro exI [of _ u] exI [of _ t]) (simp add: cacheStore_def Let_def)
  next
    case 2
    then obtain w s where "(w, ce_isAdmin v, s) \<in> set (ac_answers st)" "cacheKey w = k"
      "ce_expiresAt v = s + cacheTTL c (ce_isAdmin v)"
      using assms unfolding truthful_def by blast
    then show ?thesis by (intro exI [of _ w] exI [of _ s]) (simp add: cacheStore_def Let_def)
  qed
qed

lemma cac_reach_truthful: "cac_reach c st \<Longrightarrow> truthful c st"
proof (induction rule: cac_reach.induct)
  case start
  then show ?case by (simp add: truthful_def emptyCache_def)
next
  case (store st u result t)
  then show ?case by (intro truthful_store)
qed (simp_all add: truthful_def)

lemma cacheStore_size:
  assumes "length (ac_cache st) \<le> cac_maxSize c"
  shows "length (ac_cache (cacheStore c u result t st)) \<le> cac_maxSize c"
proof -
  let ?m = "evictExpiredLocked t (ac_cache st)"
  have "length ?m \<le> length (ac_cache st)" by (simp add: evictExpiredLocked_def)
  then show ?thesis
    using assms length_update_le [of "cacheKey u" _ ?m] by (auto simp: cacheStore_def Let_def) (meson le_trans not_less_eq_eq not_le)+
qed

section \<open>Properties\<close>

text \<open>
  A cached verdict is a real one. In every reachable state, when the cached check answers that
  a user is an administrator, either the API server says so for this user now, or it said so for
  the same user name with the same groups, in any order, and that answer was stored less than the
  time to live ago. A failing or cancelled check never makes anyone an administrator.
\<close>

theorem cached_IsAdmin_sound:
  assumes "cac_reach c st" and "cleanUser u"
    and clean: "\<forall>(v, b, t)\<in>set (ac_answers st). cleanUser v"
    and ok: "cached_IsAdmin c delegate ctxErr1 ctxErr2 now storeTime (Some u) st = (Inr True, st')"
  shows "delegate u = Inr True
    \<or> (\<exists>v t. (v, True, t) \<in> set (ac_answers st) \<and> uc_Username v = uc_Username u
          \<and> mset (uc_Groups v) = mset (uc_Groups u) \<and> now < t + cac_ttl c)"
proof (cases "cacheLookup now u st")
  case None
  with ok show ?thesis by (auto simp: cached_IsAdmin_def split: if_splits option.splits sum.splits)
next
  case (Some verdict)
  with ok have "verdict" by (auto simp: cached_IsAdmin_def split: if_splits option.splits)
  then obtain entry where e: "(cacheKey u, entry) \<in> set (ac_cache st)" "ce_isAdmin entry"
    "now < ce_expiresAt entry"
    using Some by (auto simp: cacheLookup_def dest!: map_of_SomeD split: option.splits if_splits)
  then obtain v t where v: "(v, True, t) \<in> set (ac_answers st)" "cacheKey v = cacheKey u"
    "ce_expiresAt entry = t + cacheTTL c True"
    using cac_reach_truthful [OF assms(1)] by (fastforce simp: truthful_def)
  moreover have "cleanUser v" using clean v(1) by auto
  ultimately show ?thesis
    using e(3) cacheKey_inj [of v u] assms(2) by (auto simp: cacheTTL_def)
qed

definition sampleUser :: UserContext where
  "sampleUser = \<lparr>uc_Username = ''alice'', uc_Groups = [''ops'', ''dev''], uc_Tenant = ''red''\<rparr>"

definition sampleChecker :: CachedAdminChecker where
  "sampleChecker = \<lparr>cac_ttl = 60, cac_negativeTTL = 10, cac_maxSize = 2\<rparr>"

theorem cached_IsAdmin_sound_witness:
  "(\<lambda>_. Inl ''down'') sampleUser = Inr True
    \<or> (\<exists>v t. (v, True, t) \<in> set (ac_answers (cacheStore sampleChecker sampleUser True 5 emptyCache))
          \<and> uc_Username v = uc_Username sampleUser
          \<and> mset (uc_Groups v) = mset (uc_Groups sampleUser) \<and> 7 < t + cac_ttl sampleChecker)"
proof -
  let ?st = "cacheStore sampleChecker sampleUser True 5 emptyCache"
  have c: "cleanUser sampleUser" by (simp add: cleanUser_def cleanName_def sampleUser_def)
  have l: "cacheLookup 7 sampleUser ?st = Some True"
    by (simp add: cacheLookup_def cacheStore_def emptyCache_def evictExpiredLocked_def sampleChecker_def
        cacheTTL_def)
  have "cached_IsAdmin sampleChecker (\<lambda>_. Inl ''down'') None None 7 8 (Some sampleUser) ?st
      = (Inr True, ?st\<lparr>ac_hits := ac_hits ?st + 1\<rparr>)"
    using l by (simp add: cached_IsAdmin_def) (simp add: sampleUser_def)
  moreover have "cac_reach sampleChecker ?st" by (intro cac_reach.intros)
  moreover have "\<forall>(v, b, t)\<in>set (ac_answers ?st). cleanUser v"
    using c by (simp add: cacheStore_def emptyCache_def Let_def)
  ultimately show ?thesis using c cached_IsAdmin_sound by blast
qed

text \<open>
  The cache is bounded. However many users ask, it never holds more entries than configured,
  and it never holds two entries for one key.
\<close>

theorem cache_bounded:
  "cac_reach c st \<Longrightarrow> length (ac_cache st) \<le> cac_maxSize c \<and> distinct (map fst (ac_cache st))"
proof (induction rule: cac_reach.induct)
  case start
  then show ?case by (simp add: emptyCache_def)
next
  case (store st u result t)
  then have "distinct (map fst (evictExpiredLocked t (ac_cache st)))"
    by (simp add: evictExpiredLocked_def distinct_map_filter)
  then have "distinct (map fst (ac_cache (cacheStore c u result t st)))"
    by (simp add: cacheStore_def Let_def distinct_update)
  with store show ?case by (simp add: cacheStore_size)
qed simp_all

theorem cache_bounded_witness:
  "length (ac_cache (cacheStore sampleChecker sampleUser True 5 emptyCache)) \<le> 2"
  using cache_bounded [OF cac_reach.store [OF cac_reach.start], of sampleChecker sampleUser True 5]
  by (simp add: sampleChecker_def)

end
