(* ===== verification/Server.thy ===== *)
theory Server
  imports KeyHandler ModelListing TenantEndpoint AuthChecker AdminChecker
begin

text \<open>
  \<open>maas-api/cmd/main.go\<close>, \<open>registerHandlers\<close>: how one deployment of the server wires its components,
  and which middleware stands in front of which handler, all but the health check. The state of a running server is the shared table, its
  debounce slots, and the writes of the last use it has still to do; other deployments share the
  table only.
\<close>

record server =
  srv_config :: config
  srv_k8s :: k8sApi
  srv_subscriptions :: lister
  srv_modelRefs :: "lister option"
  srv_policies :: "lister option"
  srv_uuidParse :: "string \<Rightarrow> string option"
  srv_admin :: adminCheck
  srv_metrics :: bool
  srv_models :: modelApi
  srv_tokenReview :: "string \<Rightarrow> (string, (string \<times> string list) option) result"
  srv_accessReview :: sarClient
  srv_getGateway :: "string \<Rightarrow> string \<Rightarrow> (gatewayError, jmap) result"
  srv_GatewayName :: string
  srv_GatewayNamespace :: string

definition srv_tenant :: "server \<Rightarrow> string" where
  "srv_tenant srv = cfg_TenantName (srv_config srv)"

text \<open>The checker of the authorisation policies is the access checker of the selector.\<close>

definition srv_selector :: "server \<Rightarrow> Selector" where
  "srv_selector srv =
     \<lparr>sel_k8s = srv_k8s srv, sel_lister = srv_subscriptions srv, sel_modelLister = srv_modelRefs srv,
      sel_accessChecker = Some (AuthorizedModels (srv_policies srv))\<rparr>"

text \<open>The selector resolves the subscription of new keys.\<close>

definition srv_service :: "server \<Rightarrow> Service" where
  "srv_service srv =
     \<lparr>svc_config = Some (srv_config srv), svc_select = Select (srv_selector srv),
      svc_highest = SelectHighestPriority (srv_selector srv), svc_uuidParse = srv_uuidParse srv\<rparr>"

definition srv_store :: "server \<Rightarrow> table MetadataStore" where
  "srv_store srv = pgStore (srv_tenant srv)"

definition srv_listing :: "server \<Rightarrow> ModelsHandler" where
  "srv_listing srv =
     \<lparr>mh_k8s = srv_models srv, mh_selector = Some (srv_selector srv), mh_lister = srv_modelRefs srv,
      mh_metrics = srv_metrics srv\<rparr>"

definition srv_tenants :: "server \<Rightarrow> TenantHandler" where
  "srv_tenants srv =
     \<lparr>th_GetGateway = srv_getGateway srv, th_TenantName = srv_tenant srv, th_GatewayName = srv_GatewayName srv,
      th_GatewayNamespace = srv_GatewayNamespace srv\<rparr>"

section \<open>Routes\<close>

text \<open>
  The routes with what their handlers read of the request: bound bodies, path parameters, and the
  entropy and clocks a creation draws. The first five need an identity, the next three accept a
  request without one, the next four are internal routes without any middleware. The listing of
  models accepts a request without an identity, and the tenant route asks the API server about the
  bearer token.
\<close>

datatype request =
    RouteConfig
  | RouteCreate mint time "(string, CreateAPIKeyRequest) result"
  | RouteBulkRevoke "(string, BulkRevokeRequest) result"
  | RouteGet string
  | RouteRevoke string
  | RouteSearch "(string, SearchAPIKeysRequest) result"
  | RouteSubscriptions
  | RouteModelSubscriptions string
  | RouteValidate "string option"
  | RouteCleanup
  | RouteTenantRevoke string
  | RouteSelect "(string, SelectRequest) result"
  | RouteModels models_headers time time "nat \<Rightarrow> schedule"
  | RouteTenants string

record headers =
  hdr_Username :: string
  hdr_Group :: string

datatype response =
    AuthRefused "string http"
  | KeyResponse "key_body http"
  | ListResponse "list_body http"
  | SelectionResponse "SelectResponse http"
  | ModelsResponse models_reply
  | TenantRefused nat
  | TenantResponse "tenant_body http"

record server_state =
  ss_rows :: table
  ss_slots :: slots
  ss_jobs :: "(string \<times> time option) list"

text \<open>A chain of a middleware and a handler.\<close>

definition strictAuth :: "server \<Rightarrow> headers \<Rightarrow> (ctx_user \<Rightarrow> response \<times> 's) \<Rightarrow> 's \<Rightarrow> response \<times> 's" where
  "strictAuth srv h handler st =
     (case ExtractUserInfo (srv_tenant srv) (hdr_Username h) (hdr_Group h) of
        Abort resp \<Rightarrow> (AuthRefused resp, st)
      | Next ctx \<Rightarrow> handler ctx)"

definition optionalAuth :: "server \<Rightarrow> headers \<Rightarrow> (ctx_user \<Rightarrow> response \<times> 's) \<Rightarrow> 's \<Rightarrow> response \<times> 's" where
  "optionalAuth srv h handler st =
     (case ExtractUserInfoOptional (srv_tenant srv) (hdr_Username h) (hdr_Group h) of
        Abort resp \<Rightarrow> (AuthRefused resp, st)
      | Next ctx \<Rightarrow> handler ctx)"

definition setRows :: "server_state \<Rightarrow> key_body http \<times> table \<Rightarrow> response \<times> server_state" where
  "setRows st out = (KeyResponse (fst out), st\<lparr>ss_rows := snd out\<rparr>)"

text \<open>
  One request. A handler that makes several storage calls gets an environment for each of them.
\<close>

fun serve :: "server \<Rightarrow> env \<Rightarrow> env \<Rightarrow> env \<Rightarrow> headers \<Rightarrow> request \<Rightarrow> server_state \<Rightarrow> response \<times> server_state" where
  "serve srv e1 e2 e3 h RouteConfig st =
     strictAuth srv h (\<lambda>ctx. (KeyResponse (GetAPIKeyConfig (srv_service srv)), st)) st"
| "serve srv e1 e2 e3 h (RouteCreate mi nowNano body) st =
     strictAuth srv h (\<lambda>ctx.
       (case h_CreateAPIKey (srv_metrics srv) (srv_service srv) (srv_store srv) e1 mi nowNano ctx body (ss_rows st) of
          (resp, ms, rows') \<Rightarrow> setRows st (resp, rows'))) st"
| "serve srv e1 e2 e3 h (RouteBulkRevoke body) st =
     strictAuth srv h (\<lambda>ctx.
       setRows st (h_BulkRevokeAPIKeys (srv_store srv) (srv_admin srv) e1 ctx body (ss_rows st))) st"
| "serve srv e1 e2 e3 h (RouteGet i) st =
     strictAuth srv h (\<lambda>ctx.
       (KeyResponse (h_GetAPIKey (srv_store srv) (srv_admin srv) e1 ctx i (ss_rows st)), st)) st"
| "serve srv e1 e2 e3 h (RouteRevoke i) st =
     strictAuth srv h (\<lambda>ctx.
       setRows st (h_RevokeAPIKey (srv_store srv) (srv_admin srv) e1 e2 e3 ctx i (ss_rows st))) st"
| "serve srv e1 e2 e3 h (RouteSearch body) st =
     optionalAuth srv h (\<lambda>ctx.
       (KeyResponse (SearchAPIKeys (srv_store srv) (srv_admin srv) e1 ctx body (ss_rows st)), st)) st"
| "serve srv e1 e2 e3 h RouteSubscriptions st =
     optionalAuth srv h (\<lambda>ctx. (ListResponse (ListSubscriptions (srv_selector srv) ctx), st)) st"
| "serve srv e1 e2 e3 h (RouteModelSubscriptions model) st =
     optionalAuth srv h (\<lambda>ctx.
       (ListResponse (ListSubscriptionsForModel (srv_selector srv) ctx model), st)) st"
| "serve srv e1 e2 e3 h (RouteValidate body) st =
     (case ValidateAPIKeyHandler (srv_metrics srv) (srv_service srv) (srv_store srv) e1 body (ss_slots st) (ss_rows st) of
        (resp, ms, rows', slots', job) \<Rightarrow>
          (KeyResponse resp,
           \<lparr>ss_rows = rows', ss_slots = slots',
            ss_jobs = ss_jobs st @ (case job of None \<Rightarrow> [] | Some j \<Rightarrow> [j])\<rparr>))"
| "serve srv e1 e2 e3 h RouteCleanup st =
     setRows st (CleanupExpiredEphemeralKeys (srv_store srv) e1 (ss_rows st))"
| "serve srv e1 e2 e3 h (RouteTenantRevoke tenant) st =
     setRows st (h_RevokeTenantAPIKeys (srv_service srv) (srv_store srv) e1 tenant (ss_rows st))"
| "serve srv e1 e2 e3 h (RouteSelect body) st =
     (SelectionResponse (fst (SelectSubscription (srv_metrics srv) (srv_selector srv) body)), st)"
| "serve srv e1 e2 e3 h (RouteModels hd1 now1 now2 sched) st =
     optionalAuth srv h (\<lambda>ctx. (ModelsResponse (ListLLMs (srv_listing srv) ctx hd1 now1 now2 sched), st)) st"
| "serve srv e1 e2 e3 h (RouteTenants authHeader) st =
     (case TenantAuthMiddleware (srv_tokenReview srv) (srv_accessReview srv) authHeader of
        Some status \<Rightarrow> (TenantRefused status, st)
      | None \<Rightarrow> (TenantResponse (GetTenantInfo (srv_tenants srv)), st))"

text \<open>
  The deployments that share a table, as a step relation: a deployment serves a request, or one of
  its goroutines writes the time of last use. The states of all deployments are a function of the
  tenant; the table in all of them is the same.
\<close>

record world =
  w_rows :: table
  w_slots :: "string \<Rightarrow> slots"
  w_jobs :: "string \<Rightarrow> (string \<times> time option) list"

definition stateOf :: "string \<Rightarrow> world \<Rightarrow> server_state" where
  "stateOf t w = \<lparr>ss_rows = w_rows w, ss_slots = w_slots w t, ss_jobs = w_jobs w t\<rparr>"

definition putState :: "string \<Rightarrow> server_state \<Rightarrow> world \<Rightarrow> world" where
  "putState t st w =
     \<lparr>w_rows = ss_rows st, w_slots = (w_slots w)(t := ss_slots st), w_jobs = (w_jobs w)(t := ss_jobs st)\<rparr>"

definition runJob :: "server \<Rightarrow> env \<Rightarrow> nat \<Rightarrow> server_state \<Rightarrow> server_state" where
  "runJob srv e i st =
     (case runUpdate (srv_service srv) (srv_store srv) e (ss_jobs st ! i) (ss_slots st) (ss_rows st) of
        (slots', rows') \<Rightarrow>
          \<lparr>ss_rows = rows', ss_slots = slots', ss_jobs = take i (ss_jobs st) @ drop (Suc i) (ss_jobs st)\<rparr>)"

inductive w_step :: "server \<Rightarrow> world \<Rightarrow> world \<Rightarrow> bool" for srv where
  request: "serve srv e1 e2 e3 h req (stateOf (srv_tenant srv) w) = (resp, st')
    \<Longrightarrow> w_step srv w (putState (srv_tenant srv) st' w)"
| job: "i < length (w_jobs w (srv_tenant srv))
    \<Longrightarrow> w_step srv w (putState (srv_tenant srv) (runJob srv e i (stateOf (srv_tenant srv) w)) w)"

inductive w_steps :: "world \<Rightarrow> world \<Rightarrow> bool" where
  refl: "w_steps w w"
| step: "w_steps w w' \<Longrightarrow> w_step srv w' w'' \<Longrightarrow> w_steps w w''"

section \<open>Every request is at most one changing call of the store\<close>

definition pg_call :: "string \<Rightarrow> table \<Rightarrow> table \<Rightarrow> bool" where
  "pg_call t rows rows' \<longleftrightarrow> rows' = rows \<or> pg_step t rows rows'"

lemma pg_call_refl [simp]: "pg_call t rows rows"
  by (simp add: pg_call_def)

named_theorems calls \<open>the handlers as calls of the store\<close>

lemma CreateAPIKey_call [calls]:
  "CreateAPIKey svc (pgStore t) e mi u gs n d x eph rs tn ls rows = (res, rows') \<Longrightarrow> pg_call t rows rows'"
proof (cases res)
  case (Inl err)
  moreover assume "CreateAPIKey svc (pgStore t) e mi u gs n d x eph rs tn ls rows = (res, rows')"
  ultimately show ?thesis using CreateAPIKey_error_table by (metis pg_call_refl)
next
  case (Inr resp)
  moreover assume "CreateAPIKey svc (pgStore t) e mi u gs n d x eph rs tn ls rows = (res, rows')"
  ultimately obtain a where "pg_AddKey t e a rows = (Inr (), rows')"
    using CreateAPIKey_args by fastforce
  then show ?thesis by (auto simp: pg_call_def intro: pg_step.add)
qed

lemma h_CreateAPIKey_call [calls]:
  assumes "h_CreateAPIKey hm svc (pgStore t) e mi nowNano ctx body rows = (resp, ms, rows')"
  shows "pg_call t rows rows'"
proof -
  have "rows' = rows \<or> (\<exists>u gs n d x eph rs tn ls res.
      CreateAPIKey svc (pgStore t) e mi u gs n d x eph rs tn ls rows = (res, rows'))"
    using assms unfolding h_CreateAPIKey_def Let_def
    by (simp only: split: sum.split_asm if_split_asm option.split_asm prod.split_asm) blast+
  then show ?thesis by (auto dest: CreateAPIKey_call)
qed

lemma BulkRevoke_call [calls]:
  assumes "h_BulkRevokeAPIKeys (pgStore t) admin e ctx body rows = (resp, rows')"
  shows "pg_call t rows rows'"
proof -
  have "rows' = rows \<or> (\<exists>u s tn dry res. pg_BulkRevoke t e u s tn dry rows = (res, rows'))"
    using assms unfolding h_BulkRevokeAPIKeys_def BulkRevokeAPIKeys_def Let_def
    by (simp only: pgStore_sel split: sum.split_asm if_split_asm prod.split_asm) blast+
  then show ?thesis by (auto simp: pg_call_def intro: pg_step.bulk)
qed

lemma RevokeAPIKey_call [calls]:
  assumes "h_RevokeAPIKey (pgStore t) admin e1 e2 e3 ctx i rows = (resp, rows')"
  shows "pg_call t rows rows'"
proof -
  have "rows' = rows \<or> (\<exists>res. pg_Revoke t e2 i rows = (res, rows'))"
    using assms unfolding h_RevokeAPIKey_def RevokeAPIKey_def
    by (simp only: pgStore_sel split: sum.split_asm if_split_asm prod.split_asm) blast+
  then show ?thesis by (auto simp: pg_call_def intro: pg_step.revoke)
qed

lemma Validate_call [calls]:
  assumes "ValidateAPIKeyHandler hm svc (pgStore t) e body m rows = (resp, ms, rows', m', job)"
  shows "pg_call t rows rows'"
proof -
  have "rows' = rows \<or> (\<exists>hash res. pg_GetByHash t e hash rows = (res, rows'))"
    using assms unfolding ValidateAPIKeyHandler_def ValidateAPIKey_def Let_def
    by (simp only: pgStore_sel split: option.split_asm sum.split_asm if_split_asm prod.split_asm) blast+
  then show ?thesis by (auto simp: pg_call_def intro: pg_step.byHash)
qed

lemma Cleanup_call [calls]:
  "CleanupExpiredEphemeralKeys (pgStore t) e rows = (resp, rows') \<Longrightarrow> pg_call t rows rows'"
  by (auto simp: CleanupExpiredEphemeralKeys_def CleanupExpiredEphemeral_def pg_call_def
      intro: pg_step.cleanup split: prod.splits sum.splits)

lemma TenantRevoke_call [calls]:
  "h_RevokeTenantAPIKeys svc (pgStore t) e tn rows = (resp, rows') \<Longrightarrow> pg_call t rows rows'"
  by (auto simp: h_RevokeTenantAPIKeys_def RevokeTenantAPIKeys_def Let_def pg_call_def
      intro: pg_step.invalidate split: prod.splits sum.splits if_splits)

lemma runUpdate_call [calls]:
  "runUpdate svc (pgStore t) e job m rows = (m', rows') \<Longrightarrow> pg_call t rows rows'"
  by (auto simp: runUpdate_def pg_call_def intro: pg_step.touch split: prod.splits sum.splits)

lemma strictAuth_rows:
  "strictAuth srv h handler st = (resp, st') \<Longrightarrow> st' = st \<or> (\<exists>ctx. handler ctx = (resp, st'))"
  by (auto simp: strictAuth_def split: extracted.splits)

lemma optionalAuth_rows:
  "optionalAuth srv h handler st = (resp, st') \<Longrightarrow> st' = st \<or> (\<exists>ctx. handler ctx = (resp, st'))"
  by (auto simp: optionalAuth_def split: extracted.splits)

lemma setRows_rows: "setRows st out = (resp, st') \<Longrightarrow> \<exists>body. out = (body, ss_rows st')"
  by (cases out) (auto simp: setRows_def)

lemma serve_call:
  assumes "serve srv e1 e2 e3 h req st = (resp, st')"
  shows "pg_call (srv_tenant srv) (ss_rows st) (ss_rows st')"
  using assms
proof (cases req)
  case (RouteCreate mi nowNano body)
  with assms show ?thesis
    by (auto simp: srv_store_def dest!: strictAuth_rows setRows_rows intro: calls split: prod.splits)
next
  case (RouteValidate body)
  with assms show ?thesis
    by (auto simp: srv_store_def intro: calls split: prod.splits)
qed (auto simp: srv_store_def dest!: strictAuth_rows optionalAuth_rows setRows_rows intro: calls split: option.splits)

lemma runJob_call: "pg_call (srv_tenant srv) (ss_rows st) (ss_rows (runJob srv e i st))"
  by (auto simp: runJob_def srv_store_def intro: calls split: prod.splits)

lemma w_step_call: "w_step srv w w' \<Longrightarrow> pg_call (srv_tenant srv) (w_rows w) (w_rows w')"
proof (induction rule: w_step.induct)
  case (request e1 e2 e3 h req w resp st')
  from serve_call [OF this] show ?case by (simp add: putState_def stateOf_def)
next
  case (job i w e)
  show ?case using runJob_call [of srv "stateOf (srv_tenant srv) w" e i]
    by (simp add: putState_def stateOf_def)
qed

text \<open>The servers refine the store: whatever they do to the table, store calls do.\<close>

lemma w_steps_pg: "w_steps w w' \<Longrightarrow> pg_steps (w_rows w) (w_rows w')"
proof (induction rule: w_steps.induct)
  case (step w w' srv w'')
  from w_step_call [OF step.hyps(2)] step.IH show ?case
    by (auto simp: pg_call_def intro: pg_steps.step)
qed (rule pg_steps.refl)

section \<open>What a served request tells\<close>

lemma resolveModelAlias_empty [simp]: "resolveModelAlias s [] = []"
  by (simp add: resolveModelAlias_def split: option.splits)

lemma CreateAPIKey_binding:
  assumes "CreateAPIKey svc store e mi u gs n d x eph rs t ls st = (Inr resp, st')"
  shows "\<exists>a sub. AddKey store e a st = (Inr (), st') \<and> ak_KeyHash a = HashAPIKey (cr_Key resp)
    \<and> ak_Username a = u \<and> ak_Groups a = gs \<and> ak_Tenant a = t \<and> ak_Subscription a = resp_Name sub
    \<and> (if rs \<noteq> [] then svc_select svc gs u rs [] else svc_highest svc gs u) = Inr sub"
  using CreateAPIKey_OkD [OF assms] generated_format
  by (elim exE conjE, intro exI conjI) (assumption, simp_all)

lemma validate_needs_lookup:
  assumes "fst (ValidateAPIKey svc (pgStore t) e key m rows) = Inr vr" and "vr_Valid vr"
  shows "\<exists>k. fst (pg_GetByHash t e (HashAPIKey key) rows) = Inr k"
proof (cases "fst (pg_GetByHash t e (HashAPIKey key) rows)")
  case (Inl err)
  then obtain rows' where "pg_GetByHash t e (HashAPIKey key) rows = (Inl err, rows')"
    by (metis prod.collapse)
  with assms show ?thesis
    by (auto simp: ValidateAPIKey_def Let_def split: if_split_asm)
qed simp

lemma serve_validate:
  assumes "fst (serve srv e1 e2 e3 h (RouteValidate (Some key)) st) = KeyResponse (reply 200 (ValidationBody vr))"
  shows "fst (ValidateAPIKey (srv_service srv) (pgStore (srv_tenant srv)) e1 key (ss_slots st) (ss_rows st)) = Inr vr"
  using assms by (auto simp: ValidateAPIKeyHandler_def srv_store_def split: prod.splits sum.splits)

lemma serve_select:
  assumes "fst (serve srv e1 e2 e3 h (RouteSelect (Inr req)) st) = SelectionResponse resp"
    and "resp_Error (http_Body resp) = []"
  shows "Select (srv_selector srv) (req_Groups req) (req_Username req) (req_RequestedSubscription req)
    (req_RequestedModel req) = Inr (http_Body resp)"
proof (cases "Select (srv_selector srv) (req_Groups req) (req_Username req) (req_RequestedSubscription req)
    (req_RequestedModel req)")
  case (Inl err)
  with assms show ?thesis
    by (cases err) (auto simp: SelectSubscription_def errorResponse_def emptySelectResponse_def)
next
  case (Inr resp')
  with assms show ?thesis by (auto simp: SelectSubscription_def)
qed

lemma authorized_policy:
  assumes "inSet key (AuthorizedModels (srv_policies srv) groups username)"
  shows "\<exists>policies policy. srv_policies srv = Some (Inr policies) \<and> policy \<in> set policies
    \<and> policyGrants policy groups username key"
  using assms
  by (auto simp: AuthorizedModels_def inSet_def authorizedBy_iff split: option.splits sum.splits)

lemma access_granted:
  assumes "answers (srv_selector srv) groups username m sub resp" "m \<noteq> []" "resp_AccessAllowed resp"
  shows "\<exists>ref policies policy. findModelRef sub m = Some ref
    \<and> (sub_Phase sub = PhaseActive \<or> sub_Phase sub = PhaseDegraded \<and> limitsEnforced sub ref)
    \<and> srv_policies srv = Some (Inr policies) \<and> policy \<in> set policies
    \<and> policyGrants policy groups username (refKey ref)"
proof -
  obtain ref where ref: "findModelRef sub m = Some ref"
    and allowed: "inSet (refKey ref) (AuthorizedModels (srv_policies srv) groups username)"
    using assms by (auto simp: answers_def isModelAccessAllowed_def srv_selector_def split: option.splits)
  from authorized_policy [OF allowed] obtain policies policy where "srv_policies srv = Some (Inr policies)"
    "policy \<in> set policies" "policyGrants policy groups username (refKey ref)" by blast
  moreover have "sub_Phase sub = PhaseActive \<or> sub_Phase sub = PhaseDegraded \<and> limitsEnforced sub ref"
    using assms(1,2) ref by (auto simp: answers_def servable_def)
  ultimately show ?thesis using ref by blast
qed

lemma SelectHighestPriority_OkD:
  assumes "SelectHighestPriority s groups username = Inr resp"
  shows "\<exists>subs sub. loadSubscriptions s = Inr subs \<and> sub \<in> set subs \<and> userHasAccess sub username groups
    \<and> resp_Name resp = sub_Name sub
    \<and> (\<forall>q\<in>set subs. userHasAccess q username groups \<longrightarrow> sub_Priority q \<le> sub_Priority sub)"
proof -
  obtain subs where subs: "loadSubscriptions s = Inr subs"
    using assms by (auto simp: SelectHighestPriority_def split: if_splits sum.splits)
  let ?acc = "filter (\<lambda>sub. userHasAccess sub username groups) subs"
  let ?sub = "hd (sortSubscriptionsByPriority ?acc)"
  have r: "?acc \<noteq> [] \<and> resp = toResponse ?sub"
    using assms subs by (auto simp: SelectHighestPriority_def Let_def sortSubscriptionsByPriority_def split: if_splits list.splits)
  then have "?sub \<in> set ?acc" by (metis hd_in_set sortSubscriptionsByPriority_sort(1,3))
  moreover have "sub_Priority q \<le> sub_Priority ?sub" if "q \<in> set ?acc" for q
    using by_priority.hd_goSort_least [OF that]
    by (auto simp: sortSubscriptionsByPriority_def priorityLess_iff)
  ultimately show ?thesis using subs r by (auto simp: toResponse_def)
qed

lemma strict_user:
  assumes "ExtractUserInfo t u g = Next ctx"
  shows "\<exists>gs. ctx = User \<lparr>uc_Username = TrimSpace u, uc_Groups = gs, uc_Tenant = t\<rparr>"
  using assms by (auto simp: ExtractUserInfo_def authFailure_def Let_def split: if_splits sum.splits)

lemma serve_created:
  assumes "fst (serve srv e1 e2 e3 h (RouteCreate mi nowNano body) st) = KeyResponse (reply 201 (CreatedBody resp))"
  shows "\<exists>u ms. ExtractUserInfo (srv_tenant srv) (hdr_Username h) (hdr_Group h) = Next (User u)
    \<and> uc_Username u = TrimSpace (hdr_Username h) \<and> uc_Tenant u = srv_tenant srv
    \<and> h_CreateAPIKey (srv_metrics srv) (srv_service srv) (pgStore (srv_tenant srv)) e1 mi nowNano (User u) body (ss_rows st)
      = (reply 201 (CreatedBody resp), ms, ss_rows (snd (serve srv e1 e2 e3 h (RouteCreate mi nowNano body) st)))"
proof (cases "ExtractUserInfo (srv_tenant srv) (hdr_Username h) (hdr_Group h)")
  case (Abort x)
  with assms show ?thesis by (simp add: strictAuth_def)
next
  case (Next ctx)
  with strict_user [OF Next] assms show ?thesis
    by (auto simp: strictAuth_def setRows_def srv_store_def split: prod.splits)
qed

text \<open>The subscription a new key is bound to: the best one by default, or the one asked for.\<close>

lemma service_subscription:
  assumes "(if rs \<noteq> [] then svc_select (srv_service srv) gs u rs [] else svc_highest (srv_service srv) gs u) = Inr resp"
  shows "\<exists>subs sub. loadSubscriptions (srv_selector srv) = Inr subs \<and> sub \<in> set subs
    \<and> resp_Name resp = sub_Name sub \<and> userHasAccess sub u gs
    \<and> (if rs = [] then \<forall>q\<in>set subs. userHasAccess q u gs \<longrightarrow> sub_Priority q \<le> sub_Priority sub
       else rs \<in> {sub_Name sub, sub_Namespace sub @ ''/'' @ sub_Name sub}
         \<and> sub_Phase sub \<noteq> [] \<and> sub_Phase sub \<noteq> PhaseFailed)"
proof (cases "rs = []")
  case True
  with assms have "SelectHighestPriority (srv_selector srv) gs u = Inr resp"
    by (simp add: srv_service_def)
  from SelectHighestPriority_OkD [OF this] True show ?thesis by auto
next
  case False
  with assms have "Select (srv_selector srv) gs u rs [] = Inr resp" by (simp add: srv_service_def)
  from Select_OkD [OF this] False obtain subs sub where "loadSubscriptions (srv_selector srv) = Inr subs" "sub \<in> set subs"
    "answers (srv_selector srv) gs u [] sub resp" "rs \<in> {sub_Name sub, sub_Namespace sub @ ''/'' @ sub_Name sub}" by auto
  with False show ?thesis by (auto simp: answers_def servable_def)
qed

lemma optional_user:
  assumes "ExtractUserInfoOptional t u g = Next (User uc)"
  shows "uc_Username uc = TrimSpace u \<and> uc_Tenant uc = t \<and> ParseGroupsHeader g = Ok (uc_Groups uc)"
  using assms by (auto simp: ExtractUserInfoOptional_def authFailure_def Let_def split: if_splits sum.splits)

lemma serve_models:
  assumes "fst (serve srv e1 e2 e3 h (RouteModels hd1 now1 now2 sched) st) = ModelsResponse r"
  shows "\<exists>ctx. ExtractUserInfoOptional (srv_tenant srv) (hdr_Username h) (hdr_Group h) = Next ctx
    \<and> r = ListLLMs (srv_listing srv) ctx hd1 now1 now2 sched"
  using assms by (auto simp: optionalAuth_def split: extracted.splits)

text \<open>
  What entitles a user to see the model \<open>owner\<close> (its namespace and name) under a subscription. Without a
  requested subscription, the subscription serves requests and a policy grants the model to the
  user; with one, it is the one that was named, and no policy is asked.
\<close>

definition mayList :: "server \<Rightarrow> UserContext \<Rightarrow> string \<Rightarrow> string \<Rightarrow> subscription \<Rightarrow> bool" where
  "mayList srv uc requested owner sub \<longleftrightarrow>
     userHasAccess sub (uc_Username uc) (uc_Groups uc)
     \<and> (if requested = [] then
          (sub_Phase sub = PhaseActive \<or> sub_Phase sub = PhaseDegraded) \<and> sub_DeletionTimestamp sub = None
          \<and> (\<exists>ref\<in>set (sub_ModelRefs sub). owner = ref_Namespace ref @ ''/'' @ ref_Name ref
               \<and> (\<exists>policies policy. srv_policies srv = Some (Inr policies) \<and> policy \<in> set policies
                    \<and> policyGrants policy (uc_Groups uc) (uc_Username uc) (refKey ref)))
        else
          requested \<in> {sub_Name sub, sub_Namespace sub @ ''/'' @ sub_Name sub}
          \<and> sub_Phase sub \<noteq> [] \<and> sub_Phase sub \<noteq> PhaseFailed
          \<and> (sub_ModelRefs sub = []
             \<or> (\<exists>ref\<in>set (sub_ModelRefs sub). owner = ref_Namespace ref @ ''/'' @ ref_Name ref)))"

text \<open>The subscriptions that a listing asks.\<close>

definition asks :: "server \<Rightarrow> UserContext \<Rightarrow> string \<Rightarrow> SelectResponse list \<Rightarrow> bool" where
  "asks srv uc requested resps \<longleftrightarrow>
     (if requested = [] then GetAllAccessible (srv_selector srv) (uc_Groups uc) (uc_Username uc) = Inr resps
      else \<exists>resp. Select (srv_selector srv) (uc_Groups uc) (uc_Username uc) requested [] = Inr resp \<and> resps = [resp])"

lemma asks_load: "asks srv uc requested resps \<Longrightarrow> \<exists>subs. loadSubscriptions (srv_selector srv) = Inr subs"
  by (auto simp: asks_def GetAllAccessible_def dest: Select_OkD split: if_splits sum.splits)

lemma asks_mayList:
  assumes asked: "asks srv uc requested resps" and load: "loadSubscriptions (srv_selector srv) = Inr subs"
    and resp: "resp \<in> set resps" "coversModel resp m"
  shows "\<exists>sub\<in>set subs. resp_Name resp = sub_Name sub \<and> mayList srv uc requested (mdl_OwnedBy m) sub"
proof (cases "requested = []")
  case True
  have checker: "sel_accessChecker (srv_selector srv) = Some (AuthorizedModels (srv_policies srv))"
    by (simp add: srv_selector_def)
  have "GetAllAccessible (srv_selector srv) (uc_Groups uc) (uc_Username uc) = Inr resps"
    using asked True by (simp add: asks_def)
  from GetAllAccessible_found [OF this load resp(1) checker] obtain sub where sub: "sub \<in> set subs"
    "resp_Name resp = sub_Name sub" "userHasAccess sub (uc_Username uc) (uc_Groups uc)"
    "sub_Phase sub = PhaseActive \<or> sub_Phase sub = PhaseDegraded" "sub_DeletionTimestamp sub = None"
    "resp_ModelRefs resp \<noteq> []"
    "resp_ModelRefs resp = filter (\<lambda>ref. inSet (refKey ref)
        (AuthorizedModels (srv_policies srv) (uc_Groups uc) (uc_Username uc))) (sub_ModelRefs sub)" by blast
  moreover obtain ref where "ref \<in> set (resp_ModelRefs resp)" "mdl_OwnedBy m = ref_Namespace ref @ ''/'' @ ref_Name ref"
    using resp(2) sub(6) by (auto simp: coversModel_def)
  ultimately show ?thesis
    using True authorized_policy [of "refKey ref" srv "uc_Groups uc" "uc_Username uc"]
    by (intro bexI [of _ sub]) (auto simp: mayList_def)
next
  case False
  then have "Select (srv_selector srv) (uc_Groups uc) (uc_Username uc) requested [] = Inr resp"
    using asked resp(1) by (auto simp: asks_def)
  from Select_OkD [OF this] False load obtain sub where "sub \<in> set subs"
    "answers (srv_selector srv) (uc_Groups uc) (uc_Username uc) [] sub resp"
    "requested = sub_Namespace sub @ ''/'' @ sub_Name sub \<or> requested = sub_Name sub" by auto
  then show ?thesis
    using False resp(2) by (intro bexI [of _ sub]) (auto simp: mayList_def answers_def servable_def coversModel_def)
qed

text \<open>The routes that take the user from the headers of the gateway.\<close>

fun publicRoute :: "request \<Rightarrow> bool" where
  "publicRoute (RouteValidate body) = False"
| "publicRoute RouteCleanup = False"
| "publicRoute (RouteTenantRevoke tenant) = False"
| "publicRoute (RouteSelect body) = False"
| "publicRoute (RouteTenants authHeader) = False"
| "publicRoute _ = True"

lemma blank_strict: "TrimSpace u = [] \<Longrightarrow> ExtractUserInfo t u g = authFailure ''001''"
  by (simp add: ExtractUserInfo_def)

lemma blank_optional:
  "TrimSpace u = [] \<Longrightarrow> ExtractUserInfoOptional t u g = (if g = [] then Next NoUser else authFailure ''001'')"
  by (simp add: ExtractUserInfoOptional_def)

section \<open>A deployment for evaluation\<close>

definition samplePolicy :: jmap where
  "samplePolicy =
     [(''spec'', JObj
        [(''subjects'', JObj [(''groups'', JArr [JObj [(''name'', JStr ''dev'')]])]),
         (''modelRefs'', JArr [JObj [(''name'', JStr ''opt''), (''namespace'', JStr ''llm'')]])])]"

definition sampleServer :: server where
  "sampleServer =
     \<lparr>srv_config = \<lparr>cfg_TenantName = ''red'', cfg_APIKeyMaxExpirationDays = 30, cfg_LastUsedDebounceSecs = 60\<rparr>,
      srv_k8s = walkApi,
      srv_subscriptions = Inr [sampleSubObject ''gold'' 5 ''Active'', sampleSubObject ''iron'' 9 ''Failed''],
      srv_modelRefs = None, srv_policies = Some (Inr [samplePolicy]), srv_uuidParse = (\<lambda>_. None),
      srv_admin = (\<lambda>_. Inr False), srv_metrics = False,
      srv_models = k8sApi.extend walkApi \<lparr>GetCreationTimestamp = (\<lambda>_. None), ParseURL = Some\<rparr>,
      srv_tokenReview = (\<lambda>_. Inr None), srv_accessReview = (\<lambda>_. Inr False),
      srv_getGateway = (\<lambda>_ _. Inl GatewayNotFound), srv_GatewayName = ''gw'', srv_GatewayNamespace = ''edge''\<rparr>"

definition sampleState :: "table \<Rightarrow> server_state" where
  "sampleState rows = \<lparr>ss_rows = rows, ss_slots = (\<lambda>_. None), ss_jobs = []\<rparr>"

definition sampleWorld :: "table \<Rightarrow> world" where
  "sampleWorld rows = \<lparr>w_rows = rows, w_slots = (\<lambda>_ _. None), w_jobs = (\<lambda>_. [])\<rparr>"

lemma sampleServer_sel [simp]:
  "srv_tenant sampleServer = ''red''" "srv_metrics sampleServer = False"
  "srv_policies sampleServer = Some (Inr [samplePolicy])" "srv_uuidParse sampleServer i = None"
  "srv_admin sampleServer u = Inr False" "srv_store sampleServer = pgStore ''red''"
  by (simp_all add: sampleServer_def srv_tenant_def srv_store_def)

lemma sampleServer_load:
  "loadSubscriptions (srv_selector sampleServer)
     = Inr [sampleSub ''gold'' 5 ''Active'', sampleSub ''iron'' 9 ''Failed'']"
proof -
  have "TrimSpace ''Active'' = ''Active''" "TrimSpace ''Failed'' = ''Failed''"
    by (simp_all add: TrimSpace_id spaceByte_def spaceRunes_def)
  then show ?thesis
    by (simp add: loadSubscriptions_def srv_selector_def sampleServer_def buildModelIndex_def sample_parse
        enrichModelRefs_def)
qed

lemma samplePolicy_authorizes:
  "AuthorizedModels (Some (Inr [samplePolicy])) [''dev''] u = Some [\<lparr>mk_Namespace = ''llm'', mk_Name = ''opt''\<rparr>]"
  by (simp add: AuthorizedModels_def samplePolicy_def policyMatchesSubject_def fieldAs_def stringOf_def)

lemma sampleServer_Select:
  "Select (srv_selector sampleServer) [''dev''] ''alice'' ''gold'' ''llm/opt'' =
     Inr ((toResponseWithResolvedModel (sampleSub ''gold'' 5 ''Active'') ''llm/opt'')\<lparr>resp_AccessAllowed := True\<rparr>)"
proof -
  have "sel_modelLister (srv_selector sampleServer) = None"
    "sel_accessChecker (srv_selector sampleServer) = Some (AuthorizedModels (Some (Inr [samplePolicy])))"
    by (simp_all add: srv_selector_def sampleServer_def)
  then show ?thesis
    by (simp add: Select_def Let_def sampleServer_load resolveModelAlias_def sortSubscriptionsByPriority_def
        priorityLess_def selectNamed_def subscriptionIncludesModel_def checkModelHealth_def phase_defs
        isModelAccessAllowed_def inSet_def refKey_def samplePolicy_authorizes)
      (simp add: sampleSub_def)
qed

definition sampleCreate :: CreateAPIKeyRequest where
  "sampleCreate = \<lparr>creq_Name = ''laptop'', creq_Description = [], creq_Subscription = [], creq_ExpiresIn = None,
     creq_Ephemeral = False, creq_Labels = []\<rparr>"

lemma sampleServer_expiry:
  "maxRegularDuration (srv_service sampleServer) = 30 * (24 * hour)"
  "effectiveExpiry (srv_service sampleServer) None False = 30 * (24 * hour)"
proof -
  have d: "GetMaxExpirationDays (srv_service sampleServer) = 30"
    by (simp add: GetMaxExpirationDays_def srv_service_def sampleServer_def)
  show m: "maxRegularDuration (srv_service sampleServer) = 30 * (24 * hour)"
    unfolding maxRegularDuration_def d by (intro hour_days) simp_all
  then show "effectiveExpiry (srv_service sampleServer) None False = 30 * (24 * hour)"
    by (simp add: effectiveExpiry_def maxDuration_def)
qed

lemma sampleServer_highest:
  "svc_highest (srv_service sampleServer) [''dev''] u = Inr (toResponse (sampleSub ''iron'' 9 ''Failed''))"
  by (simp add: srv_service_def SelectHighestPriority_def sampleServer_load sortSubscriptionsByPriority_def
      priorityLess_def)

lemma sampleServer_create:
  "\<exists>resp rows'. CreateAPIKey (srv_service sampleServer) (pgStore ''red'') (quietEnv 5) sampleMint ''alice'' [''dev'']
     ''laptop'' [] None False [] ''red'' [] [] = (Inr resp, rows')"
proof -
  have "reMatch validGroupNamePattern ''dev''"
    by (simp add: validGroup_iff groupChar_def char_class_defs del: reMatch.simps)
  then show ?thesis
    by (simp add: CreateAPIKey_def Let_def sampleServer_expiry sampleServer_highest sampleMint_def GenerateAPIKey_def
        pg_AddKey_def sqlInsert_def hour_def toResponse_def del: reMatch.simps)
qed

lemma sampleServer_created:
  "\<exists>resp. fst (serve sampleServer (quietEnv 5) (quietEnv 5) (quietEnv 5)
      \<lparr>hdr_Username = ''alice'', hdr_Group = jsonArray [''dev'']\<rparr>
      (RouteCreate sampleMint 0 (Inr sampleCreate)) (sampleState []))
    = KeyResponse (reply 201 (CreatedBody resp))"
proof -
  have t: "TrimSpace ''alice'' = ''alice''"
    by (simp add: TrimSpace_id spaceByte_def spaceRunes_def)
  have "jsonArray [''dev''] \<noteq> []" by (simp add: jsonArray_def)
  with t have x: "ExtractUserInfo ''red'' ''alice'' (jsonArray [''dev''])
      = Next (User \<lparr>uc_Username = ''alice'', uc_Groups = [''dev''], uc_Tenant = ''red''\<rparr>)"
    by (simp add: ExtractUserInfo_def sample_groups)
  obtain resp rows' where c: "CreateAPIKey (srv_service sampleServer) (pgStore ''red'') (quietEnv 5) sampleMint
     ''alice'' [''dev''] ''laptop'' [] None False [] ''red'' [] [] = (Inr resp, rows')"
    using sampleServer_create by blast
  have t0: "TrimSpace [] = []" by simp
  have "h_CreateAPIKey False (srv_service sampleServer) (pgStore ''red'') (quietEnv 5) sampleMint 0
     (User \<lparr>uc_Username = ''alice'', uc_Groups = [''dev''], uc_Tenant = ''red''\<rparr>) (Inr sampleCreate) []
     = (reply 201 (CreatedBody resp), [], rows')"
    by (simp add: h_CreateAPIKey_def getUserContext_def validateLabels_def whenMetrics_def sampleCreate_def
        laptop_name c t0 Let_def)
  then show ?thesis by (simp add: strictAuth_def x setRows_def sampleState_def)
qed

text \<open>A deployment with one ready model, listed by an Active and by a Failed subscription.\<close>

definition listedObject :: jmap where
  "listedObject =
     [(''metadata'', JObj [(''name'', JStr ''opt''), (''namespace'', JStr ''llm'')]),
      (''status'', JObj [(''phase'', JStr ''Ready'')])]"

definition listingServer :: server where
  "listingServer = sampleServer\<lparr>srv_modelRefs := Some (Inr [listedObject])\<rparr>"

definition inOrder :: "nat \<Rightarrow> schedule" where
  "inOrder n = map (\<lambda>i. (i, False)) [0..<n]"

lemma listingServer_load:
  "loadSubscriptions (srv_selector listingServer)
     = Inr [sampleSub ''gold'' 5 ''Active'', sampleSub ''iron'' 9 ''Failed'']"
proof -
  have "TrimSpace ''Active'' = ''Active''" "TrimSpace ''Failed'' = ''Failed''"
    by (simp_all add: TrimSpace_id spaceByte_def spaceRunes_def)
  moreover have "(sampleSub n p ph)\<lparr>sub_ModelRefs := map (enrichModelRef walkApi [(''llm/opt'', listedObject)])
      (sub_ModelRefs (sampleSub n p ph))\<rparr> = sampleSub n p ph" for n p ph
    by (simp add: sampleSub_def emptySubscription_def enrichModelRef_def walkApi_def listedObject_def)
  ultimately show ?thesis
    by (simp add: loadSubscriptions_def srv_selector_def listingServer_def sampleServer_def buildModelIndex_def
        sample_parse enrichModelRefs_def) (simp add: walkApi_def listedObject_def)
qed

lemma listingServer_all:
  "\<exists>resp. GetAllAccessible (srv_selector listingServer) [''dev''] ''alice'' = Inr [resp]
    \<and> resp_ModelRefs resp = sub_ModelRefs (sampleSub ''gold'' 5 ''Active'') \<and> resp_Name resp = ''gold''"
proof -
  have "sel_accessChecker (srv_selector listingServer) = Some (AuthorizedModels (Some (Inr [samplePolicy])))"
    by (simp add: srv_selector_def listingServer_def sampleServer_def)
  then show ?thesis
    by (simp add: GetAllAccessible_def listingServer_load phase_defs filterAuthorizedModels_def samplePolicy_authorizes inSet_def refKey_def)
      (simp add: sampleSub_def)
qed

definition alice :: headers where
  "alice = \<lparr>hdr_Username = ''alice'', hdr_Group = jsonArray [''dev'']\<rparr>"

definition listRequest :: request where
  "listRequest = RouteModels \<lparr>mhd_Authorization = ''Bearer t'', mhd_Subscription = []\<rparr> 5 6 inOrder"

lemma listingServer_sel [simp]:
  "srv_tenant listingServer = ''red''" "srv_modelRefs listingServer = Some (Inr [listedObject])"
  "srv_models listingServer = k8sApi.extend walkApi \<lparr>GetCreationTimestamp = (\<lambda>_. None), ParseURL = Some\<rparr>"
  by (simp_all add: listingServer_def sampleServer_def srv_tenant_def)

lemma listingServer_page:
  "\<exists>r page x. fst (serve listingServer e1 e2 e3 alice listRequest st) = ModelsResponse r
     \<and> http_Body (mrp_http r) = ModelPage page \<and> x \<in> set page"
proof -
  let ?k = "srv_models listingServer"
  have trim: "TrimSpace ''alice'' = ''alice''" "TrimSpace ''Bearer t'' = ''Bearer t''"
    by (simp_all add: TrimSpace_id spaceByte_def spaceRunes_def)
  have "jsonArray [''dev''] \<noteq> []" by (simp add: jsonArray_def)
  with trim have user: "ExtractUserInfoOptional ''red'' ''alice'' (jsonArray [''dev''])
      = Next (User \<lparr>uc_Username = ''alice'', uc_Groups = [''dev''], uc_Tenant = ''red''\<rparr>)"
    by (simp add: ExtractUserInfoOptional_def sample_groups)
  obtain resp where all: "GetAllAccessible (srv_selector listingServer) [''dev''] ''alice'' = Inr [resp]"
    and refs: "resp_ModelRefs resp = sub_ModelRefs (sampleSub ''gold'' 5 ''Active'')"
    using listingServer_all by blast
  let ?m = "maasModelRefToModel ?k listedObject"
  have o: "mdl_OwnedBy ?m = GetNamespace walkApi listedObject @ ''/'' @ GetName walkApi listedObject"
    and s: "mdl_Ready ?m \<longleftrightarrow> (case NestedString walkApi listedObject [''status'', ''phase''] of None \<Rightarrow> [] | Some s \<Rightarrow> s) = ''Ready''"
    and t: "mdl_Kind ?m = (let kind0 = (case NestedString walkApi listedObject [''spec'', ''modelRef'', ''kind''] of None \<Rightarrow> [] | Some s \<Rightarrow> s)
       in if kind0 = [] then kindLLMISvc else kind0)"
    by (simp_all add: maasModelRefToModel_def Let_def nestedString_def k8sApi.defs)
  have m: "mdl_OwnedBy ?m = ''llm/opt''" "shown ?m"
    unfolding shown_def o s t by (simp_all add: walkApi_def listedObject_def)
  let ?page = "aggregateModelsFromSubscriptions [?m] [resp] (inOrder 1)"
  have "live [resp] (inOrder 1) = [resp]" by (simp add: live_def inOrder_def)
  moreover have "coversModel resp ?m" unfolding coversModel_def refs m(1) by (simp add: sampleSub_def)
  ultimately have "\<exists>x. x \<in> set ?page" using m(2) by (simp add: page_iff(1))
  moreover have "ListLLMs (srv_listing listingServer) (User \<lparr>uc_Username = ''alice'', uc_Groups = [''dev''], uc_Tenant = ''red''\<rparr>)
      \<lparr>mhd_Authorization = ''Bearer t'', mhd_Subscription = []\<rparr> 5 6 inOrder
      = modelsReply noStore (Some (rfc3339 6)) 200 (ModelPage ?page)"
    by (simp add: ListLLMs_def extractAndValidateAuth_def trim(2) requestedSubscriptionOf_def getUserContextIfNeeded_def
        srv_listing_def selectSubscriptionsForListing_def all ListFromMaaSModelRefLister_def Let_def)
  ultimately show ?thesis
    by (auto simp: alice_def listRequest_def optionalAuth_def user modelsReply_def)
qed

end
