(* ===== verification/ControllerTypes.thy ===== *)
theory ControllerTypes
  imports Unstructured
begin

text \<open>
  The data of \<open>maas-controller\<close>: the custom resources of \<open>api/maas/v1alpha1\<close>, the fields of other
  API objects its reconcilers read, its errors, and the client through which it reads and writes
  the cluster.

  The cluster is a value of an arbitrary type \<open>'s\<close>. The client (\<open>controller-runtime\<close>) is the
  record \<open>client\<close>, a parameter of every reconciler: a read is a function of the cluster, a write
  returns its error, if any, and the cluster it leaves. \<open>others\<close> is what every other actor does to
  the cluster between two steps of a reconciler, so that a second read may see something else
  than the first. Time stamps of conditions are not modelled.
\<close>

section \<open>Metadata and conditions\<close>

record OwnerReference =
  or_APIVersion :: string
  or_Kind :: string
  or_Name :: string
  or_UID :: string
  or_Controller :: bool

record ObjectMeta =
  om_Name :: string
  om_Namespace :: string
  om_Labels :: labels
  om_Annotations :: labels
  om_Finalizers :: "string list"
  om_Generation :: int
  om_Deleting :: bool
  om_Owners :: "OwnerReference list"

text \<open>\<open>om_Deleting\<close> is \<open>!GetDeletionTimestamp().IsZero()\<close>; \<open>om_Owners\<close> are the owner references.\<close>

record Condition =
  c_Type :: string
  c_Status :: string
  c_Reason :: string
  c_Message :: string
  c_ObservedGeneration :: int

text \<open>\<open>m[k]\<close> of a map with string values is \<open>annotation m k\<close>: absent keys read as empty.\<close>

definition ContainsFinalizer :: "ObjectMeta \<Rightarrow> string \<Rightarrow> bool" where
  "ContainsFinalizer m f \<longleftrightarrow> f \<in> set (om_Finalizers m)"

section \<open>Subscriptions\<close>

record ModelSubscriptionRef =
  msr_Name :: string
  msr_Namespace :: string
  msr_TokenRateLimits :: "TokenRateLimit list"
  msr_BillingRate :: "string option"

record OwnerSpec =
  ow_Groups :: "string list"
  ow_Users :: "string list"

record TokenMetadata =
  tm_OrganizationID :: string
  tm_CostCenter :: string
  tm_Labels :: labels

record MaaSSubscriptionSpec =
  ss_Owner :: OwnerSpec
  ss_ModelRefs :: "ModelSubscriptionRef list"
  ss_TokenMetadata :: "TokenMetadata option"
  ss_Priority :: int

record ResourceRefStatus =
  rs_Name :: string
  rs_Namespace :: string
  rs_Ready :: bool
  rs_Reason :: string
  rs_Message :: string

type_synonym ModelRefStatus = ResourceRefStatus

record CrdTokenRateLimitStatus = ResourceRefStatus +
  rs_Model :: string

record MaaSSubscriptionStatus =
  st_Phase :: string
  st_Conditions :: "Condition list"
  st_ModelRefStatuses :: "ModelRefStatus list"
  st_TokenRateLimitStatuses :: "CrdTokenRateLimitStatus list"

record MaaSSubscription =
  ms_meta :: ObjectMeta
  ms_Spec :: MaaSSubscriptionSpec
  ms_Status :: MaaSSubscriptionStatus

text \<open>\<open>MaaSSubscriptionSpec{}\<close>\<close>

definition emptySubscriptionSpec :: MaaSSubscriptionSpec where
  "emptySubscriptionSpec =
     \<lparr>ss_Owner = \<lparr>ow_Groups = [], ow_Users = []\<rparr>, ss_ModelRefs = [], ss_TokenMetadata = None,
      ss_Priority = 0\<rparr>"

definition emptySubscriptionStatus :: MaaSSubscriptionStatus where
  "emptySubscriptionStatus =
     \<lparr>st_Phase = [], st_Conditions = [], st_ModelRefStatuses = [], st_TokenRateLimitStatuses = []\<rparr>"

section \<open>Authorisation policies\<close>

record ModelRef =
  mref_Name :: string
  mref_Namespace :: string

record AuthPolicyRefStatus = ResourceRefStatus +
  aps_Model :: string
  aps_ModelNamespace :: string

record MaaSAuthPolicySpec =
  as_ModelRefs :: "ModelRef list"
  as_Groups :: "string list"
  as_Users :: "string list"
  as_MeteringMetadata :: "TokenMetadata option"

record MaaSAuthPolicyStatus =
  ast_Phase :: string
  ast_Conditions :: "Condition list"
  ast_AuthPolicies :: "AuthPolicyRefStatus list"

record MaaSAuthPolicy =
  ma_meta :: ObjectMeta
  ma_Spec :: MaaSAuthPolicySpec
  ma_Status :: MaaSAuthPolicyStatus

definition emptyAuthPolicySpec :: MaaSAuthPolicySpec where
  "emptyAuthPolicySpec =
     \<lparr>as_ModelRefs = [], as_Groups = [], as_Users = [], as_MeteringMetadata = None\<rparr>"

section \<open>Models and what they run on\<close>

record MaaSModelSpec =
  mr_Kind :: string
  mr_RefName :: string
  mr_EndpointOverride :: string
  mr_TenantRef :: string

record MaaSModelStatus =
  mst_Phase :: string
  mst_Endpoint :: string
  mst_HTTPRouteName :: string
  mst_HTTPRouteNamespace :: string
  mst_HTTPRouteGatewayName :: string
  mst_HTTPRouteGatewayNamespace :: string
  mst_HTTPRouteHostnames :: "string list"
  mst_ResolvedTenantRef :: string
  mst_ResolvedModelAlias :: string
  mst_Conditions :: "Condition list"

record MaaSModelRef =
  mm_meta :: ObjectMeta
  mm_Spec :: MaaSModelSpec
  mm_Status :: MaaSModelStatus

definition emptyModelSpec :: MaaSModelSpec where
  "emptyModelSpec = \<lparr>mr_Kind = [], mr_RefName = [], mr_EndpointOverride = [], mr_TenantRef = []\<rparr>"

record ParentReference =
  pr_Group :: "string option"
  pr_Kind :: "string option"
  pr_Namespace :: "string option"
  pr_Name :: string

record RouteParentStatus =
  rp_ParentRef :: ParentReference
  rp_Conditions :: "Condition list"

record HTTPRoute =
  hr_meta :: ObjectMeta
  hr_ParentRefs :: "ParentReference list"
  hr_Hostnames :: "string list"
  hr_Parents :: "RouteParentStatus list"

text \<open>
  A gateway's listener host names, what each listener says of the namespaces whose routes it
  takes, and its addresses as type and value. \<open>ls_From\<close> is \<open>None\<close> when the listener leaves out any
  part of \<open>allowedRoutes.namespaces.from\<close>.
\<close>

record ListenerSelector =
  ls_Name :: string
  ls_From :: "string option"
  ls_MatchLabels :: "labels option"

record Gateway =
  gw_Name :: string
  gw_Namespace :: string
  gw_UID :: string
  gw_ListenerHostnames :: "string option list"
  gw_Listeners :: "ListenerSelector list"
  gw_Addresses :: "(string option \<times> string) list"

text \<open>A URL of an API object by what the program asks of it: its path, host name and text.\<close>

record GoURL =
  url_Path :: string
  url_Hostname :: string
  url_String :: string

record LLMAddress =
  la_Name :: "string option"
  la_URL :: "GoURL option"
  la_Models :: "string list"

record LLMInferenceService =
  li_Conditions :: "(string \<times> string) list"
  li_URL :: "GoURL option"
  li_Addresses :: "LLMAddress list"

text \<open>An EndpointSlice: its ports, and the ready conditions of its endpoints.\<close>

record EndpointSlice =
  es_Ports :: "int option list"
  es_Ready :: "bool option list"

section \<open>Tenants\<close>

record TenantGatewayRef =
  gr_Namespace :: string
  gr_Name :: string

abbreviation noGatewayRef :: TenantGatewayRef where
  "noGatewayRef \<equiv> \<lparr>gr_Namespace = [], gr_Name = []\<rparr>"

record TenantExternalOIDCConfig =
  oidc_IssuerURL :: string
  oidc_ClientID :: string
  oidc_TTL :: int

record AITenant =
  at_meta :: ObjectMeta
  at_UID :: string
  at_DeletedAt :: int
  at_SpecGatewayName :: "string option"
  at_OIDC :: "TenantExternalOIDCConfig option"
  at_Phase :: string
  at_TenantNamespace :: string
  at_GatewayRef :: TenantGatewayRef
  at_Conditions :: "Condition list"

text \<open>
  \<open>at_SpecGatewayName\<close> is \<open>spec.gateway\<close>, a pointer, by its one field; \<open>at_DeletedAt\<close> is the deletion
  timestamp in nanoseconds of an object that has one. The deprecated \<open>spec.rbac\<close> is not read.
\<close>

text \<open>
  \<open>Tenant\<close> and \<open>MaasTenantConfig\<close> are two kinds of tenant configuration; only the first carries a
  gateway and an OIDC configuration of its own.
\<close>

datatype tenantConfig =
    MaasTenantConfig (tc_meta: ObjectMeta)
  | LegacyTenant (tc_meta: ObjectMeta) (tc_GatewayRef: TenantGatewayRef)
      (tc_OIDC: "TenantExternalOIDCConfig option")

record ExternalModel =
  em_meta :: ObjectMeta
  em_Provider :: string

section \<open>Unstructured objects\<close>

text \<open>
  An object without a Go type: its metadata, which \<open>GetName\<close>, \<open>SetLabels\<close> and the like read and
  write, and its other fields.
\<close>

record uobj =
  u_meta :: ObjectMeta
  u_Object :: jmap

text \<open>The same with its group, version and kind, and the resource version of the object it replaces.\<close>

type_synonym gvk = "string \<times> string \<times> string"

record xobject = uobj +
  xo_GVK :: gvk
  xo_ResourceVersion :: string

section \<open>Errors\<close>

text \<open>
  What \<open>apierrors.IsNotFound\<close>, \<open>IsAlreadyExists\<close> and \<open>apimeta.IsNoMatchError\<close> tell apart of an error
  of the client; \<open>ErrNamespaceMissing\<close> is the error of a write into a namespace that is not there,
  which also counts as not found.
  An error of the controller carries its text and the sentinel or client error it wraps
  (\<open>%w\<close>), which is all that \<open>errors.Is\<close> looks at.
\<close>

datatype k8s_error =
    ErrNotFound (k8sText: string)
  | ErrNamespaceMissing (k8sText: string)
  | ErrAlreadyExists (k8sText: string)
  | ErrNoMatch (k8sText: string)
  | ErrApi (k8sText: string)

definition IsNotFound :: "k8s_error \<Rightarrow> bool" where
  "IsNotFound e \<longleftrightarrow> is_ErrNotFound e \<or> is_ErrNamespaceMissing e"

definition IsAlreadyExists :: "k8s_error \<Rightarrow> bool" where
  "IsAlreadyExists e \<longleftrightarrow> is_ErrAlreadyExists e"

definition IsNoMatchError :: "k8s_error \<Rightarrow> bool" where
  "IsNoMatchError e \<longleftrightarrow> is_ErrNoMatch e"

datatype ctl_kind =
    ErrModelNotFound
  | ErrHTTPRouteNotFound
  | ErrTenantResolutionPending
  | ErrKindNotImplemented
  | ErrRevocationJobFailed
  | GoPanic
  | WrapsApi k8s_error
  | OtherErr

datatype ctl_error = CtlErr (ce_kind: ctl_kind) (ce_text: string)

definition ctlIs :: "ctl_error \<Rightarrow> ctl_kind \<Rightarrow> bool" where
  "ctlIs e k \<longleftrightarrow> ce_kind e = k"

text \<open>\<open>apierrors.IsNotFound\<close> looks through the wrapping.\<close>

definition ctlIsNotFound :: "ctl_error \<Rightarrow> bool" where
  "ctlIsNotFound e \<longleftrightarrow> (case ce_kind e of WrapsApi k \<Rightarrow> IsNotFound k | _ \<Rightarrow> False)"

definition ofApi :: "k8s_error \<Rightarrow> ctl_error" where
  "ofApi e = CtlErr (WrapsApi e) (k8sText e)"

text \<open>\<open>fmt.Errorf("...: %w", err)\<close>\<close>

definition wrapApi :: "string \<Rightarrow> k8s_error \<Rightarrow> ctl_error" where
  "wrapApi t e = CtlErr (WrapsApi e) (t @ '': '' @ k8sText e)"

definition wrapErr :: "string \<Rightarrow> ctl_error \<Rightarrow> ctl_error" where
  "wrapErr t e = CtlErr (ce_kind e) (t @ '': '' @ ce_text e)"

type_synonym 'a ctl = "(ctl_error, 'a) result"

lemma ctlIs_wrapErr [simp]: "ctlIs (wrapErr t e) k = ctlIs e k"
  by (simp add: ctlIs_def wrapErr_def)

lemma ctlIsNotFound_simps [simp]:
  "ctlIsNotFound (ofApi e) = IsNotFound e"
  "ctlIsNotFound (wrapApi t e) = IsNotFound e"
  "ctlIsNotFound (wrapErr t c) = ctlIsNotFound c"
  by (simp_all add: ctlIsNotFound_def ofApi_def wrapApi_def wrapErr_def)

section \<open>The client\<close>

text \<open>
  Reads take a namespace and a name (\<open>Get\<close>), or a namespace, labels or the value of a field index
  (\<open>List\<close>). \<open>listModelRefsByName\<close> and the like name the index they query.
\<close>

type_synonym ('s, 'a) cread = "'s \<Rightarrow> (k8s_error, 'a) result"
type_synonym 's cwrite = "'s \<Rightarrow> k8s_error option \<times> 's"

record 's client =
  getSubscription :: "string \<Rightarrow> string \<Rightarrow> ('s, MaaSSubscription) cread"
  listSubscriptions :: "('s, MaaSSubscription list) cread"
  listSubscriptionsIn :: "string \<Rightarrow> ('s, MaaSSubscription list) cread"
  listSubscriptionsByModel :: "string \<Rightarrow> ('s, MaaSSubscription list) cread"
  updateSubscription :: "MaaSSubscription \<Rightarrow> 's cwrite"
  updateSubscriptionStatus :: "MaaSSubscription \<Rightarrow> 's cwrite"
  getModelRef :: "string \<Rightarrow> string \<Rightarrow> ('s, MaaSModelRef) cread"
  listModelRefsIn :: "string \<Rightarrow> ('s, MaaSModelRef list) cread"
  listModelRefsByName :: "string \<Rightarrow> ('s, MaaSModelRef list) cread"
  listModelRefsByTenant :: "string \<Rightarrow> ('s, MaaSModelRef list) cread"
  updateModelRef :: "MaaSModelRef \<Rightarrow> 's cwrite"
  updateModelRefStatus :: "MaaSModelRef \<Rightarrow> 's cwrite"
  getAuthPolicy :: "string \<Rightarrow> string \<Rightarrow> ('s, MaaSAuthPolicy) cread"
  listAuthPolicies :: "('s, MaaSAuthPolicy list) cread"
  listAuthPoliciesIn :: "string \<Rightarrow> ('s, MaaSAuthPolicy list) cread"
  updateAuthPolicy :: "MaaSAuthPolicy \<Rightarrow> 's cwrite"
  updateAuthPolicyStatus :: "MaaSAuthPolicy \<Rightarrow> 's cwrite"
  getNamespaceLabels :: "string \<Rightarrow> ('s, labels) cread"
  getMaasTenantConfig :: "string \<Rightarrow> string \<Rightarrow> ('s, ObjectMeta) cread"
  getLegacyTenant :: "string \<Rightarrow> string \<Rightarrow> ('s, tenantConfig) cread"
  getAITenant :: "string \<Rightarrow> string \<Rightarrow> ('s, AITenant) cread"
  listAITenantsIn :: "string \<Rightarrow> ('s, AITenant list) cread"
  getHTTPRouteObj :: "string \<Rightarrow> string \<Rightarrow> ('s, HTTPRoute) cread"
  listHTTPRoutes :: "string \<Rightarrow> labels \<Rightarrow> ('s, HTTPRoute list) cread"
  getGateway :: "string \<Rightarrow> string \<Rightarrow> ('s, Gateway) cread"
  getLLMInferenceService :: "string \<Rightarrow> string \<Rightarrow> ('s, LLMInferenceService) cread"
  getInferenceExternalModel :: "string \<Rightarrow> string \<Rightarrow> ('s, uobj) cread"
  getExternalModel :: "string \<Rightarrow> string \<Rightarrow> ('s, ExternalModel) cread"
  getTRLP :: "string \<Rightarrow> string \<Rightarrow> ('s, uobj) cread"
  listTRLPs :: "string option \<Rightarrow> labels \<Rightarrow> ('s, uobj list) cread"
  createTRLP :: "uobj \<Rightarrow> 's cwrite"
  updateTRLP :: "uobj \<Rightarrow> 's cwrite"
  deleteTRLP :: "uobj \<Rightarrow> 's cwrite"
  listEndpointSlices :: "string \<Rightarrow> labels \<Rightarrow> ('s, EndpointSlice list) cread"
  listInferenceExternalModels :: "('s, uobj list) cread"
  getKuadrantAuthPolicy :: "string \<Rightarrow> string \<Rightarrow> ('s, uobj) cread"
  createKuadrantAuthPolicy :: "uobj \<Rightarrow> 's cwrite"
  updateKuadrantAuthPolicy :: "uobj \<Rightarrow> 's cwrite"
  listKuadrantAuthPolicies :: "string option \<Rightarrow> labels \<Rightarrow> ('s, uobj list) cread"
  deleteKuadrantAuthPolicy :: "uobj \<Rightarrow> 's cwrite"
  recordEvent :: "string \<Rightarrow> string \<Rightarrow> string \<Rightarrow> 's \<Rightarrow> 's"
  others :: "'s \<Rightarrow> 's"

section \<open>Functions of other packages\<close>

text \<open>
  Pure functions of \<open>apimachinery\<close> and \<open>controller-runtime\<close> the reconcilers call: the condition
  helpers of \<open>apimeta\<close>, \<open>equality.Semantic.DeepEqual\<close> on the types it is used on,
  \<open>controllerutil.SetControllerReference\<close> of a route on an object, and
  \<open>unstructured.SetNestedMap\<close> with the accessors of \<open>k8sApi\<close>. \<open>NestedInt64At\<close> is
  \<open>unstructured.NestedInt64\<close> where its error is told from an absent field.
\<close>

record metaApi =
  accessors :: k8sApi
  FindStatusCondition :: "Condition list \<Rightarrow> string \<Rightarrow> Condition option"
  SetStatusCondition :: "Condition list \<Rightarrow> Condition \<Rightarrow> Condition list"
  eqSubscriptionStatus :: "MaaSSubscriptionStatus \<Rightarrow> MaaSSubscriptionStatus \<Rightarrow> bool"
  eqModelStatus :: "MaaSModelStatus \<Rightarrow> MaaSModelStatus \<Rightarrow> bool"
  eqAuthPolicyStatus :: "MaaSAuthPolicyStatus \<Rightarrow> MaaSAuthPolicyStatus \<Rightarrow> bool"
  eqObject :: "uobj \<Rightarrow> uobj \<Rightarrow> bool"
  SetControllerReference :: "ObjectMeta \<Rightarrow> ObjectMeta \<Rightarrow> (string, ObjectMeta) result"
  NestedInt64At :: "jmap \<Rightarrow> string list \<Rightarrow> (string, int option) result"
  SetNestedMap :: "jmap \<Rightarrow> jmap \<Rightarrow> string list \<Rightarrow> (string, jmap) result"
  AddFinalizer :: "ObjectMeta \<Rightarrow> string \<Rightarrow> ObjectMeta"
  RemoveFinalizer :: "ObjectMeta \<Rightarrow> string \<Rightarrow> ObjectMeta"

end
