(* ===== verification/Tenancy.thy ===== *)
theory Tenancy
  imports ControllerTypes GoText Sha256
begin

text \<open>
  Tenants as the controller sees them: the names derived from a tenant
  (\<open>pkg/platform/tenantreconcile/constants.go\<close>, \<open>pkg/modelnaming\<close>), the platform context of a
  tenant configuration (\<open>platform_context.go\<close>), and the tenant namespaces and opt-outs of
  \<open>pkg/controller/maas/helpers.go\<close> and \<open>annotations.go\<close>.
\<close>

section \<open>Constants\<close>

definition AnnotationManaged :: string where
  "AnnotationManaged = ''opendatahub.io/managed''"
definition LabelTenantName :: string where
  "LabelTenantName = ''maas.opendatahub.io/tenant-name''"
definition LabelTenantNamespace :: string where
  "LabelTenantNamespace = ''maas.opendatahub.io/tenant-namespace''"
definition LabelAIGatewayTenant :: string where
  "LabelAIGatewayTenant = ''ai-gateway.opendatahub.io/tenant''"
definition LabelManagedByAITenant :: string where
  "LabelManagedByAITenant = ''maas.opendatahub.io/managed-by-aitenant''"
definition DefaultAITenantName :: string where
  "DefaultAITenantName = ''models-as-a-service''"
definition TenantInstanceName :: string where
  "TenantInstanceName = ''default-tenant''"
definition MaasTenantConfigInstanceName :: string where
  "MaasTenantConfigInstanceName = ''default-tenant''"
definition AnnotationAITenantName :: string where
  "AnnotationAITenantName = ''maas.opendatahub.io/aitenant-name''"
definition AnnotationAITenantNamespace :: string where
  "AnnotationAITenantNamespace = ''maas.opendatahub.io/aitenant-namespace''"
definition tenantNamespacePrefix :: string where
  "tenantNamespacePrefix = ''ai-tenant-''"

text \<open>The base names of the resources made for each tenant.\<close>

definition tenantResourceBases :: "string list" where
  "tenantResourceBases =
     [''gateway-default-deny'', ''maas-api-auth-policy'', ''maas-api-route'',
      ''maas-api-key-cleanup'', ''maas-api-backend-tls'', ''maas-telemetry'',
      ''latency-per-subscription'', ''maas-api'', ''maas-api-serving-cert'',
      ''payload-processing'', ''payload-pre-processing'', ''payload-processing-plugins'',
      ''payload-processing-reader'']"

lemmas tenancy_constants =
  AnnotationManaged_def LabelTenantName_def LabelTenantNamespace_def LabelAIGatewayTenant_def
  LabelManagedByAITenant_def DefaultAITenantName_def TenantInstanceName_def
  MaasTenantConfigInstanceName_def AnnotationAITenantName_def AnnotationAITenantNamespace_def
  tenantNamespacePrefix_def

section \<open>Names\<close>

definition resourceNameForTenant :: "string \<Rightarrow> string \<Rightarrow> string" where
  "resourceNameForTenant baseName tenantID =
     (if tenantID = [] then baseName else baseName @ ''-'' @ tenantID)"

definition PayloadPreProcessingServiceName :: "string \<Rightarrow> string" where
  "PayloadPreProcessingServiceName tenantID = resourceNameForTenant ''payload-pre-processing'' tenantID"

definition MaaSAPIServiceName :: "string \<Rightarrow> string" where
  "MaaSAPIServiceName tenantID = resourceNameForTenant ''maas-api'' tenantID"

definition TenantNamespaceForAITenant :: "string \<Rightarrow> string \<Rightarrow> string" where
  "TenantNamespaceForAITenant name defaultTenantNamespace =
     (if name = DefaultAITenantName
         \<or> (defaultTenantNamespace \<noteq> [] \<and> name = defaultTenantNamespace)
      then (if defaultTenantNamespace \<noteq> [] then defaultTenantNamespace else DefaultAITenantName)
      else tenantNamespacePrefix @ name)"

definition externalModelResourcePrefix :: string where
  "externalModelResourcePrefix = ''maas-''"
definition kubernetesNameMaxLength :: nat where
  "kubernetesNameMaxLength = 253"
definition hashLength :: nat where
  "hashLength = 8"

definition ExternalModelResourceName :: "string \<Rightarrow> string" where
  "ExternalModelResourceName modelName =
     (let name = externalModelResourcePrefix @ modelName
      in if length name \<le> kubernetesNameMaxLength then name
         else
           let hash = take hashLength (sha256Hex modelName);
               budget = kubernetesNameMaxLength - length externalModelResourcePrefix
                        - length hash - 1;
               trimmed = Trim (take budget modelName) ''-.'';
               trimmed = (if trimmed = [] then hash else trimmed)
           in externalModelResourcePrefix @ trimmed @ ''-'' @ hash)"

text \<open>The identifiers of a tenant configuration object.\<close>

definition TenantIdentifierFor :: "ObjectMeta option \<Rightarrow> string ctl" where
  "TenantIdentifierFor obj =
     (case obj of
        None \<Rightarrow> Ok []
      | Some m \<Rightarrow>
          let lbl = annotation (om_Labels m);
              at = om_Namespace m @ ''/'' @ om_Name m;
              tenantName = lbl LabelTenantName
          in if lbl LabelManagedByAITenant = ''true'' then
               if tenantName = [] then
                 Err (CtlErr OtherErr (''tenant '' @ at @ '' has '' @ LabelManagedByAITenant
                   @ ''=true but '' @ LabelTenantName @ '' is missing or empty''))
               else if tenantName = DefaultAITenantName then
                 if om_Name m \<noteq> MaasTenantConfigInstanceName then
                   Err (CtlErr OtherErr (''tenant config '' @ at @ '' has '' @ LabelTenantName @ ''=''
                     @ Quote DefaultAITenantName @ '' but is not the default tenant config resource ''
                     @ Quote MaasTenantConfigInstanceName))
                 else if lbl LabelTenantNamespace = []
                         \<or> lbl LabelTenantNamespace \<noteq> om_Namespace m then
                   Err (CtlErr OtherErr (''tenant config '' @ at @ '' has '' @ LabelTenantName @ ''=''
                     @ Quote DefaultAITenantName @ '' but '' @ LabelTenantNamespace
                     @ '' must match the tenant config namespace''))
                 else Ok []
               else Ok tenantName
             else Ok [])"

definition TenantNameFor :: "ObjectMeta option \<Rightarrow> string ctl" where
  "TenantNameFor obj =
     (case obj of
        None \<Rightarrow> Ok DefaultAITenantName
      | Some m \<Rightarrow>
          let lbl = annotation (om_Labels m);
              tenantName = lbl LabelTenantName
          in if lbl LabelManagedByAITenant = ''true'' then
               if tenantName = [] then
                 Err (CtlErr OtherErr (''tenant '' @ om_Namespace m @ ''/'' @ om_Name m @ '' has ''
                   @ LabelManagedByAITenant @ ''=true but '' @ LabelTenantName
                   @ '' is missing or empty''))
               else Ok tenantName
             else Ok DefaultAITenantName)"

section \<open>Tenant namespaces\<close>

definition isManaged :: "ObjectMeta \<Rightarrow> bool" where
  "isManaged m \<longleftrightarrow>
     (case map_of (om_Annotations m) AnnotationManaged of
        None \<Rightarrow> True
      | Some val \<Rightarrow> val \<noteq> ''false'')"

definition namespaceHasTenantDiscoveryLabel :: "labels \<Rightarrow> bool" where
  "namespaceHasTenantDiscoveryLabel ls \<longleftrightarrow>
     annotation ls LabelAIGatewayTenant \<noteq> [] \<or> annotation ls LabelManagedByAITenant = ''true''"

definition tenantNamespaceAllowed ::
  "('s, 'm) client_scheme \<Rightarrow> string \<Rightarrow> string \<Rightarrow> bool \<Rightarrow> 's \<Rightarrow> bool ctl" where
  "tenantNamespaceAllowed c ns defaultTenantNamespace discoveryEnabled s =
     (if defaultTenantNamespace = [] \<or> ns = defaultTenantNamespace then Ok True
      else if \<not> discoveryEnabled then Ok False
      else
        (case getNamespaceLabels c ns s of
           Inl e \<Rightarrow>
             if IsNotFound e then Ok False
             else Err (wrapApi (''failed to read namespace '' @ ns @ '' for tenant discovery'') e)
         | Inr ls \<Rightarrow> Ok (namespaceHasTenantDiscoveryLabel ls)))"

definition isTenantNamespace ::
  "('s, 'm) client_scheme \<Rightarrow> string \<Rightarrow> string \<Rightarrow> bool \<Rightarrow> 's \<Rightarrow> bool" where
  "isTenantNamespace c ns defaultTenantNamespace discoveryEnabled s \<longleftrightarrow>
     (case tenantNamespaceAllowed c ns defaultTenantNamespace discoveryEnabled s of
        Inl _ \<Rightarrow> False
      | Inr ok \<Rightarrow> ok)"

text \<open>
  The loop of \<open>filterSubscriptionsByTenantNamespace\<close> and \<open>filterAuthPoliciesByTenantNamespace\<close>: the
  verdict on each namespace is looked up once and kept in \<open>allowed\<close>.
\<close>

fun filterByTenantNamespace ::
  "(string \<Rightarrow> bool) \<Rightarrow> ('a \<Rightarrow> string) \<Rightarrow> (string \<times> bool) list \<Rightarrow> 'a list \<Rightarrow> 'a list" where
  "filterByTenantNamespace check ns allowed [] = []"
| "filterByTenantNamespace check ns allowed (x # xs) =
     (let (ok, allowed') =
            (case map_of allowed (ns x) of
               Some ok \<Rightarrow> (ok, allowed)
             | None \<Rightarrow> (check (ns x), (ns x, check (ns x)) # allowed))
      in (if ok then [x] else []) @ filterByTenantNamespace check ns allowed' xs)"

definition filterSubscriptionsByTenantNamespace ::
  "('s, 'm) client_scheme \<Rightarrow> MaaSSubscription list \<Rightarrow> string \<Rightarrow> bool \<Rightarrow> 's \<Rightarrow> MaaSSubscription list"
where
  "filterSubscriptionsByTenantNamespace c subs dflt disc s =
     filterByTenantNamespace (\<lambda>ns. isTenantNamespace c ns dflt disc s)
       (\<lambda>sub. om_Namespace (ms_meta sub)) [] subs"

definition filterAuthPoliciesByTenantNamespace ::
  "('s, 'm) client_scheme \<Rightarrow> MaaSAuthPolicy list \<Rightarrow> string \<Rightarrow> bool \<Rightarrow> 's \<Rightarrow> MaaSAuthPolicy list"
where
  "filterAuthPoliciesByTenantNamespace c policies dflt disc s =
     filterByTenantNamespace (\<lambda>ns. isTenantNamespace c ns dflt disc s)
       (\<lambda>p. om_Namespace (ma_meta p)) [] policies"

section \<open>The platform context of a tenant\<close>

record PlatformContext =
  pc_GatewayRef :: TenantGatewayRef
  pc_ExternalOIDC :: "TenantExternalOIDCConfig option"
  pc_Source :: string

definition isAITenantManagedTenantConfig :: "tenantConfig \<Rightarrow> bool" where
  "isAITenantManagedTenantConfig t \<longleftrightarrow>
     annotation (om_Labels (tc_meta t)) LabelManagedByAITenant = ''true''"

definition resolveAITenantPlatformContext ::
  "('s, 'm) client_scheme \<Rightarrow> tenantConfig \<Rightarrow> 's \<Rightarrow> PlatformContext ctl" where
  "resolveAITenantPlatformContext c tenant s =
     (let m = tc_meta tenant;
          at = om_Namespace m @ ''/'' @ om_Name m;
          missing = (\<lambda>key. CtlErr OtherErr (''AITenant-managed tenant config '' @ at
                       @ '' is missing '' @ key));
          aitenantName = annotation (om_Annotations m) AnnotationAITenantName;
          aitenantNamespace = annotation (om_Annotations m) AnnotationAITenantNamespace
      in if annotation (om_Labels m) LabelTenantName = [] then Err (missing LabelTenantName)
         else if aitenantName = [] then Err (missing AnnotationAITenantName)
         else if aitenantNamespace = [] then Err (missing AnnotationAITenantNamespace)
         else
           (case getAITenant c aitenantNamespace aitenantName s of
              Inl e \<Rightarrow> Err (wrapApi (''get owning AITenant '' @ aitenantNamespace @ ''/''
                         @ aitenantName @ '' for tenant config '' @ at) e)
            | Inr aitenant \<Rightarrow>
                let ref = at_GatewayRef aitenant
                in if gr_Name ref = [] \<or> gr_Namespace ref = [] then
                     Err (CtlErr OtherErr (''AITenant '' @ om_Namespace (at_meta aitenant) @ ''/''
                       @ om_Name (at_meta aitenant) @ '' status.gatewayRef is not ready''))
                   else Ok \<lparr>pc_GatewayRef = ref, pc_ExternalOIDC = at_OIDC aitenant,
                            pc_Source = ''aitenant''\<rparr>))"

definition ResolvePlatformContext ::
  "('s, 'm) client_scheme \<Rightarrow> tenantConfig option \<Rightarrow> TenantGatewayRef \<Rightarrow> 's \<Rightarrow> PlatformContext ctl"
where
  "ResolvePlatformContext c tenant fallbackGatewayRef s =
     (case tenant of
        None \<Rightarrow> Ok \<lparr>pc_GatewayRef = fallbackGatewayRef, pc_ExternalOIDC = None,
                    pc_Source = ''default''\<rparr>
      | Some t \<Rightarrow>
          if isAITenantManagedTenantConfig t then resolveAITenantPlatformContext c t s
          else
            (case t of
               LegacyTenant m ref oidc \<Rightarrow>
                 if (gr_Name ref = []) \<noteq> (gr_Namespace ref = []) then
                   Err (CtlErr OtherErr (''tenant '' @ om_Namespace m @ ''/'' @ om_Name m
                     @ '' spec.gatewayRef must set both name and namespace''))
                 else Ok \<lparr>pc_GatewayRef =
                            (if gr_Name ref = [] \<and> gr_Namespace ref = [] then fallbackGatewayRef
                             else ref),
                          pc_ExternalOIDC = oidc, pc_Source = ''legacy-tenant-spec''\<rparr>
             | MaasTenantConfig m \<Rightarrow>
                 Ok \<lparr>pc_GatewayRef = fallbackGatewayRef, pc_ExternalOIDC = None,
                     pc_Source = ''tenant-config''\<rparr>))"

definition fetchTenantForNamespace ::
  "('s, 'm) client_scheme \<Rightarrow> string \<Rightarrow> ('s, tenantConfig) cread" where
  "fetchTenantForNamespace c namespace s =
     (case getMaasTenantConfig c namespace MaasTenantConfigInstanceName s of
        Inr config \<Rightarrow> Inr (MaasTenantConfig config)
      | Inl e \<Rightarrow>
          if \<not> IsNotFound e then Inl e
          else getLegacyTenant c namespace TenantInstanceName s)"

definition fallbackTenantGatewayRef :: "string \<Rightarrow> string \<Rightarrow> TenantGatewayRef" where
  "fallbackTenantGatewayRef name namespace =
     (if name = [] \<or> namespace = [] then noGatewayRef
      else \<lparr>gr_Namespace = namespace, gr_Name = name\<rparr>)"

definition tenantGatewayRefForNamespace ::
  "('s, 'm) client_scheme \<Rightarrow> string \<Rightarrow> string \<Rightarrow> string \<Rightarrow> string \<Rightarrow> bool \<Rightarrow> 's
     \<Rightarrow> TenantGatewayRef ctl" where
  "tenantGatewayRefForNamespace c tenantNamespace dflt fbName fbNamespace disc s =
     (case fetchTenantForNamespace c tenantNamespace s of
        Inr tenant \<Rightarrow>
          (case ResolvePlatformContext c (Some tenant)
                  (fallbackTenantGatewayRef fbName fbNamespace) s of
             Inl e \<Rightarrow> Err e
           | Inr pc \<Rightarrow> Ok (pc_GatewayRef pc))
      | Inl e \<Rightarrow>
          if IsNotFound e \<and> (tenantNamespace = dflt \<or> \<not> disc) then
            Ok (fallbackTenantGatewayRef fbName fbNamespace)
          else if IsNotFound e then
            (case tenantNamespaceAllowed c tenantNamespace dflt disc s of
               Inl e' \<Rightarrow> Err e'
             | Inr allowed \<Rightarrow>
                 if \<not> allowed then Ok (fallbackTenantGatewayRef fbName fbNamespace)
                 else Err (CtlErr OtherErr (''MaasTenantConfig '' @ tenantNamespace @ ''/''
                   @ MaasTenantConfigInstanceName
                   @ '' not found for discovered tenant namespace'')))
          else Err (ofApi e))"

definition qualifiedName :: "string \<Rightarrow> string \<Rightarrow> string" where
  "qualifiedName namespace name = (if namespace = [] then name else namespace @ ''/'' @ name)"

definition annotationListContains :: "string \<Rightarrow> string \<Rightarrow> bool" where
  "annotationListContains value1 want \<longleftrightarrow>
     value1 \<noteq> [] \<and> want \<noteq> [] \<and> list_ex (\<lambda>item. TrimSpace item = want) (Split value1 CHR '','')"

text \<open>\<open>validateCELValue\<close>: whether a string may stand inside a CEL string literal.\<close>

definition validateCELValue :: "string \<Rightarrow> bool" where
  "validateCELValue v \<longleftrightarrow> \<not> ContainsAny v [CHR 0x22, CHR 0x5C]"

section \<open>Properties\<close>

lemma filterByTenantNamespace_eq:
  assumes "\<And>n ok. map_of allowed n = Some ok \<Longrightarrow> ok = check n"
  shows "filterByTenantNamespace check ns allowed xs = filter (\<lambda>x. check (ns x)) xs"
  using assms
proof (induction xs arbitrary: allowed)
  case Nil
  then show ?case by simp
next
  case (Cons x xs)
  show ?case
  proof (cases "map_of allowed (ns x)")
    case None
    have "filterByTenantNamespace check ns ((ns x, check (ns x)) # allowed) xs
          = filter (\<lambda>x. check (ns x)) xs"
      by (rule Cons.IH) (auto split: if_splits dest: Cons.prems)
    with None show ?thesis by simp
  next
    case (Some ok)
    with Cons.prems have "ok = check (ns x)" by blast
    with Some Cons.IH [OF Cons.prems] show ?thesis by simp
  qed
qed

lemma filterSubscriptions_eq [simp]:
  "filterSubscriptionsByTenantNamespace c subs dflt disc s =
     filter (\<lambda>sub. isTenantNamespace c (om_Namespace (ms_meta sub)) dflt disc s) subs"
  unfolding filterSubscriptionsByTenantNamespace_def by (rule filterByTenantNamespace_eq) simp

lemma filterAuthPolicies_eq [simp]:
  "filterAuthPoliciesByTenantNamespace c policies dflt disc s =
     filter (\<lambda>p. isTenantNamespace c (om_Namespace (ma_meta p)) dflt disc s) policies"
  unfolding filterAuthPoliciesByTenantNamespace_def by (rule filterByTenantNamespace_eq) simp

lemma resourceNameForTenant_inj [simp]:
  "resourceNameForTenant b t = resourceNameForTenant b t' \<longleftrightarrow> t = t'"
  by (auto simp: resourceNameForTenant_def)

lemma annotationListContains_Join:
  assumes "\<And>x. x \<in> set xs \<Longrightarrow> CHR '','' \<notin> set x \<and> TrimSpace x = x" and "want \<noteq> []"
  shows "annotationListContains (Join xs '','') want \<longleftrightarrow> want \<in> set xs"
proof (cases "xs = [] \<or> xs = [[]]")
  case True
  with assms show ?thesis by (auto simp: annotationListContains_def)
next
  case False
  then have "Join xs '','' \<noteq> []" by (simp add: Join_eq_Nil_iff)
  moreover have "Split (Join xs '','') CHR '','' = xs"
    using False assms(1) by (intro Split_Join) auto
  ultimately show ?thesis
    using assms by (auto simp: annotationListContains_def list_ex_iff)
qed

lemma length_hash: "length (take hashLength (sha256Hex m)) \<le> hashLength"
  by simp

lemma ExternalModelResourceName_length:
  "length (ExternalModelResourceName m) \<le> kubernetesNameMaxLength"
proof (cases "length (externalModelResourcePrefix @ m) \<le> kubernetesNameMaxLength")
  case True
  then show ?thesis by (simp add: ExternalModelResourceName_def Let_def)
next
  case False
  define h where "h = take hashLength (sha256Hex m)"
  define budget where "budget = kubernetesNameMaxLength - length externalModelResourcePrefix - length h - 1"
  have h: "length h \<le> 8" using length_hash [of m] by (simp add: h_def hashLength_def)
  then have b: "budget = 247 - length h" and "length h \<le> budget"
    by (auto simp: budget_def kubernetesNameMaxLength_def externalModelResourcePrefix_def)
  moreover have "length (Trim (take budget m) ''-.'') \<le> budget"
    by (rule order_trans [OF length_Trim]) simp
  ultimately show ?thesis
    using False h
    by (simp add: ExternalModelResourceName_def Let_def h_def [symmetric] budget_def [symmetric])
       (auto simp: externalModelResourcePrefix_def kubernetesNameMaxLength_def)
qed

text \<open>
  A gateway reference the controller acts on is never half set, and it comes from the tenant's
  own AITenant whenever the configuration is managed by one.
\<close>

definition wholeGatewayRef :: "TenantGatewayRef \<Rightarrow> bool" where
  "wholeGatewayRef ref \<longleftrightarrow> (gr_Name ref = []) = (gr_Namespace ref = [])"

lemma wholeGatewayRef_fallback [simp]: "wholeGatewayRef (fallbackTenantGatewayRef n ns)"
  by (auto simp: wholeGatewayRef_def fallbackTenantGatewayRef_def)

lemma resolveAITenant_OkD:
  assumes "resolveAITenantPlatformContext c t s = Inr pc"
  shows "\<exists>a. getAITenant c (annotation (om_Annotations (tc_meta t)) AnnotationAITenantNamespace)
                 (annotation (om_Annotations (tc_meta t)) AnnotationAITenantName) s = Inr a
             \<and> pc_GatewayRef pc = at_GatewayRef a \<and> pc_ExternalOIDC pc = at_OIDC a
             \<and> gr_Name (at_GatewayRef a) \<noteq> [] \<and> gr_Namespace (at_GatewayRef a) \<noteq> []"
  using assms
  by (auto simp: resolveAITenantPlatformContext_def Let_def split: if_splits sum.splits)

lemma ResolvePlatformContext_whole:
  assumes "ResolvePlatformContext c t fb s = Inr pc" and "wholeGatewayRef fb"
  shows "wholeGatewayRef (pc_GatewayRef pc)"
proof (cases t)
  case None
  with assms show ?thesis by (auto simp: ResolvePlatformContext_def)
next
  case (Some u)
  show ?thesis
  proof (cases "isAITenantManagedTenantConfig u")
    case True
    with Some assms(1) have "resolveAITenantPlatformContext c u s = Inr pc"
      by (simp add: ResolvePlatformContext_def)
    then show ?thesis by (auto dest: resolveAITenant_OkD simp: wholeGatewayRef_def)
  next
    case False
    with Some assms show ?thesis
      by (cases u) (auto simp: ResolvePlatformContext_def wholeGatewayRef_def split: if_splits)
  qed
qed

lemma tenantGatewayRef_whole:
  assumes "tenantGatewayRefForNamespace c ns dflt n nns disc s = Inr ref"
  shows "wholeGatewayRef ref"
  using assms
  by (auto simp: tenantGatewayRefForNamespace_def ResolvePlatformContext_whole
      split: sum.splits if_splits)

text \<open>
  The AITenant schema limits names to 41 characters so that every derived name stays within the
  63 characters of a Service name. The base name of the pre-processing Service is longer than the
  one the limit was computed from.
\<close>

lemma MaaSAPIServiceName_fits: "length t \<le> 41 \<Longrightarrow> length (MaaSAPIServiceName t) \<le> 63"
  by (simp add: MaaSAPIServiceName_def resourceNameForTenant_def)

lemma preprocessing_service_name_too_long:
  "length (PayloadPreProcessingServiceName (replicate 41 CHR ''a'')) = 64"
  by (simp add: PayloadPreProcessingServiceName_def resourceNameForTenant_def)

end
