(* ===== verification/ModelRoutes.thy ===== *)
theory ModelRoutes
  imports Tenancy
begin

text \<open>
  From a MaaSModelRef to its HTTPRoute and to the objects that govern it:
  \<open>pkg/controller/maas/providers.go\<close>, the route resolvers of \<open>providers_llmisvc.go\<close> and
  \<open>providers_external.go\<close>, and the lookups of \<open>helpers.go\<close>.
\<close>

section \<open>Parent references\<close>

definition gatewayGroupName :: string where
  "gatewayGroupName = ''gateway.networking.k8s.io''"
definition maxHTTPRouteParentRefs :: nat where
  "maxHTTPRouteParentRefs = 32"
definition gatewayAPIParentRefKindGateway :: string where
  "gatewayAPIParentRefKindGateway = ''Gateway''"

definition parentRefTargetsGateway :: "ParentReference \<Rightarrow> bool" where
  "parentRefTargetsGateway p \<longleftrightarrow>
     (case pr_Kind p of None \<Rightarrow> gatewayAPIParentRefKindGateway | Some k \<Rightarrow> k)
       = gatewayAPIParentRefKindGateway
     \<and> (case pr_Group p of None \<Rightarrow> gatewayGroupName | Some g \<Rightarrow> g) = gatewayGroupName"

text \<open>The namespace of the gateway a parent reference names: the route's own by default.\<close>

definition parentNamespace :: "string \<Rightarrow> ParentReference \<Rightarrow> string" where
  "parentNamespace routeNS p = (case pr_Namespace p of None \<Rightarrow> routeNS | Some n \<Rightarrow> n)"

definition validateHTTPRouteReferencesGateway ::
  "('s, 'm) client_scheme \<Rightarrow> string \<Rightarrow> string \<Rightarrow> TenantGatewayRef \<Rightarrow> 's \<Rightarrow> unit ctl" where
  "validateHTTPRouteReferencesGateway c routeName routeNamespace gatewayRef s =
     (if gr_Name gatewayRef = [] \<and> gr_Namespace gatewayRef = [] then Ok ()
      else if gr_Name gatewayRef = [] \<or> gr_Namespace gatewayRef = [] then
        Err (CtlErr OtherErr ''gatewayRef must set both name and namespace'')
      else
        (let at = routeNamespace @ ''/'' @ routeName
         in case getHTTPRouteObj c routeNamespace routeName s of
              Inl e \<Rightarrow> Err (wrapApi (''failed to get HTTPRoute '' @ at
                         @ '' for gateway validation'') e)
            | Inr route \<Rightarrow>
                if length (hr_ParentRefs route) > maxHTTPRouteParentRefs then
                  Err (CtlErr OtherErr (''HTTPRoute '' @ at @ '' has ''
                    @ itoaNat (length (hr_ParentRefs route))
                    @ '' parentRefs, exceeding supported maximum ''
                    @ itoaNat maxHTTPRouteParentRefs))
                else if list_ex (\<lambda>p. parentRefTargetsGateway p \<and> pr_Name p = gr_Name gatewayRef
                          \<and> parentNamespace routeNamespace p = gr_Namespace gatewayRef)
                          (hr_ParentRefs route)
                then Ok ()
                else Err (CtlErr OtherErr (''HTTPRoute '' @ at
                       @ '' does not reference tenant Gateway '' @ gr_Namespace gatewayRef @ ''/''
                       @ gr_Name gatewayRef))))"

section \<open>The route of a model\<close>

definition llmisvcRouteLabels :: "string \<Rightarrow> labels" where
  "llmisvcRouteLabels name =
     [(''app.kubernetes.io/name'', name),
      (''app.kubernetes.io/component'', ''llminferenceservice-router''),
      (''app.kubernetes.io/part-of'', ''llminferenceservice'')]"

definition llmisvcHTTPRouteForModel ::
  "('s, 'm) client_scheme \<Rightarrow> MaaSModelRef \<Rightarrow> 's \<Rightarrow> (string \<times> string) ctl" where
  "llmisvcHTTPRouteForModel c model s =
     (let ns = om_Namespace (mm_meta model);
          refName = mr_RefName (mm_Spec model)
      in case listHTTPRoutes c ns (llmisvcRouteLabels refName) s of
           Inl e \<Rightarrow> Err (wrapApi (''failed to list HTTPRoutes for LLMInferenceService ''
                      @ refName) e)
         | Inr [] \<Rightarrow> Err (CtlErr ErrHTTPRouteNotFound (''HTTPRoute not found yet: for ''
                      @ ''LLMInferenceService '' @ refName @ '' in namespace '' @ ns))
         | Inr (route # _) \<Rightarrow> Ok (om_Name (hr_meta route), om_Namespace (hr_meta route)))"

text \<open>\<open>status.httpRouteName\<close> of an inference ExternalModel, when it is set and not empty.\<close>

definition inferenceRouteName :: "k8sApi \<Rightarrow> uobj \<Rightarrow> string option" where
  "inferenceRouteName k em =
     (case NestedString k (u_Object em) [''status'', ''httpRouteName''] of
        None \<Rightarrow> None
      | Some name \<Rightarrow> if name = [] then None else Some name)"

definition externalHTTPRouteForModel ::
  "('s, 'm) client_scheme \<Rightarrow> k8sApi \<Rightarrow> MaaSModelRef \<Rightarrow> 's \<Rightarrow> (string \<times> string) ctl" where
  "externalHTTPRouteForModel c k model s =
     (let routeNamespace = om_Namespace (mm_meta model);
          refName = mr_RefName (mm_Spec model);
          legacy = Ok (ExternalModelResourceName refName, routeNamespace)
      in case getInferenceExternalModel c routeNamespace refName s of
           Inr em \<Rightarrow>
             (case inferenceRouteName k em of
                Some name \<Rightarrow> Ok (name, routeNamespace)
              | None \<Rightarrow> Err (CtlErr ErrHTTPRouteNotFound (''HTTPRoute not found yet: inference ''
                  @ ''ExternalModel '' @ routeNamespace @ ''/'' @ refName
                  @ '' status.httpRouteName not set yet'')))
         | Inl e \<Rightarrow>
             if \<not> IsNotFound e \<and> \<not> IsNoMatchError e then
               Err (wrapApi (''failed to get inference ExternalModel '' @ routeNamespace @ ''/''
                 @ refName) e)
             else legacy)"

text \<open>The registries \<open>routeResolverFactories\<close> and \<open>backendHandlerFactories\<close> have the same keys.\<close>

datatype backendKind = LLMIsvcBackend | ExternalBackend

definition backendOf :: "string \<Rightarrow> backendKind option" where
  "backendOf kind =
     (if kind \<in> {''LLMInferenceService'', ''llmisvc''} then Some LLMIsvcBackend
      else if kind = ''ExternalModel'' then Some ExternalBackend
      else None)"

definition GetRouteResolver ::
  "string \<Rightarrow> (('s, 'm) client_scheme \<Rightarrow> k8sApi \<Rightarrow> MaaSModelRef \<Rightarrow> 's \<Rightarrow> (string \<times> string) ctl) option"
where
  "GetRouteResolver kind =
     map_option (\<lambda>b. case b of
         LLMIsvcBackend \<Rightarrow> (\<lambda>c k. llmisvcHTTPRouteForModel c)
       | ExternalBackend \<Rightarrow> externalHTTPRouteForModel) (backendOf kind)"

definition getHTTPRoute ::
  "('s, 'm) client_scheme \<Rightarrow> string \<Rightarrow> string \<Rightarrow> 's \<Rightarrow> HTTPRoute ctl" where
  "getHTTPRoute c name ns s =
     (case getHTTPRouteObj c ns name s of
        Inr route \<Rightarrow> Ok route
      | Inl e \<Rightarrow>
          if IsNotFound e then
            Err (CtlErr ErrHTTPRouteNotFound (''HTTPRoute not found yet: HTTPRoute '' @ ns @ ''/''
              @ name))
          else Err (wrapApi (''failed to get HTTPRoute '' @ ns @ ''/'' @ name) e))"

definition findHTTPRouteForModel ::
  "('s, 'm) client_scheme \<Rightarrow> k8sApi \<Rightarrow> string \<Rightarrow> string \<Rightarrow> 's \<Rightarrow> (string \<times> string) ctl" where
  "findHTTPRouteForModel c k modelNamespace modelName s =
     (let at = modelNamespace @ ''/'' @ modelName
      in case getModelRef c modelNamespace modelName s of
           Inl e \<Rightarrow>
             if IsNotFound e then
               Err (CtlErr ErrModelNotFound (''MaaSModelRef not found: '' @ at))
             else Err (wrapApi (''failed to get MaaSModelRef '' @ at) e)
         | Inr maasModel \<Rightarrow>
             if om_Deleting (mm_meta maasModel) then
               Err (CtlErr ErrModelNotFound (''MaaSModelRef not found: '' @ at @ '' (deleting)''))
             else
               (case GetRouteResolver (mr_Kind (mm_Spec maasModel)) of
                  None \<Rightarrow> Err (CtlErr OtherErr (''unknown model kind: ''
                            @ mr_Kind (mm_Spec maasModel)))
                | Some resolver \<Rightarrow>
                    (case resolver c k maasModel s of
                       Inl e \<Rightarrow> Err e
                     | Inr (routeName, routeNS) \<Rightarrow>
                         (case getHTTPRoute c routeName routeNS s of
                            Inl e \<Rightarrow> Err e
                          | Inr _ \<Rightarrow> Ok (routeName, routeNS)))))"

section \<open>Who governs a model\<close>

text \<open>The field index of subscriptions by model (\<open>SetupWithManager\<close>).\<close>

definition modelKey :: "string \<Rightarrow> string \<Rightarrow> string" where
  "modelKey ns name = ns @ ''/'' @ name"

definition modelRefIndex :: "MaaSSubscription \<Rightarrow> string list" where
  "modelRefIndex sub =
     map (\<lambda>ref. modelKey (msr_Namespace ref) (msr_Name ref)) (ss_ModelRefs (ms_Spec sub))"

definition findAllSubscriptionsForModel ::
  "('s, 'm) client_scheme \<Rightarrow> string \<Rightarrow> string \<Rightarrow> 's \<Rightarrow> MaaSSubscription list ctl" where
  "findAllSubscriptionsForModel c modelNamespace modelName s =
     (case listSubscriptionsByModel c (modelKey modelNamespace modelName) s of
        Inl e \<Rightarrow> Err (wrapApi (''failed to list MaaSSubscriptions for model ''
                   @ modelKey modelNamespace modelName) e)
      | Inr items \<Rightarrow> Ok (filter (\<lambda>sub. \<not> om_Deleting (ms_meta sub)) items))"

definition findAllAuthPoliciesForModel ::
  "('s, 'm) client_scheme \<Rightarrow> string \<Rightarrow> string \<Rightarrow> 's \<Rightarrow> MaaSAuthPolicy list ctl" where
  "findAllAuthPoliciesForModel c modelNamespace modelName s =
     (case listAuthPolicies c s of
        Inl e \<Rightarrow> Err (wrapApi ''failed to list MaaSAuthPolicies'' e)
      | Inr items \<Rightarrow> Ok (filter (\<lambda>p. \<not> om_Deleting (ma_meta p)
          \<and> list_ex (\<lambda>ref. mref_Namespace ref = modelNamespace \<and> mref_Name ref = modelName)
              (as_ModelRefs (ma_Spec p))) items))"

definition findAnySubscriptionForModel ::
  "('s, 'm) client_scheme \<Rightarrow> string \<Rightarrow> string \<Rightarrow> 's \<Rightarrow> MaaSSubscription option" where
  "findAnySubscriptionForModel c modelNamespace modelName s =
     (case findAllSubscriptionsForModel c modelNamespace modelName s of
        Inr (sub # _) \<Rightarrow> Some sub
      | _ \<Rightarrow> None)"

definition findAnyAuthPolicyForModel ::
  "('s, 'm) client_scheme \<Rightarrow> string \<Rightarrow> string \<Rightarrow> 's \<Rightarrow> MaaSAuthPolicy option" where
  "findAnyAuthPolicyForModel c modelNamespace modelName s =
     (case findAllAuthPoliciesForModel c modelNamespace modelName s of
        Inr (p # _) \<Rightarrow> Some p
      | _ \<Rightarrow> None)"

section \<open>Changed conditions\<close>

text \<open>
  \<open>unstructuredConditionSignature\<close>: the sorted \<open>type=status\<close> pairs of an object's conditions, by
  which the watches tell whether an update matters.
\<close>

definition unstructuredConditionSignature :: "k8sApi \<Rightarrow> uobj \<Rightarrow> string" where
  "unstructuredConditionSignature k u =
     (case NestedSlice k (u_Object u) [''status'', ''conditions''] of
        None \<Rightarrow> []
      | Some conditions \<Rightarrow>
          Join (goSort (<) (concat (map (\<lambda>x. case asMap x of
              None \<Rightarrow> []
            | Some cond \<Rightarrow> [stringOf cond ''type'' @ ''='' @ stringOf cond ''status'']) conditions)))
            '';'')"

definition unstructuredConditionsChanged :: "k8sApi \<Rightarrow> uobj \<Rightarrow> uobj \<Rightarrow> bool" where
  "unstructuredConditionsChanged k old new \<longleftrightarrow>
     om_Generation (u_meta old) \<noteq> om_Generation (u_meta new)
     \<or> unstructuredConditionSignature k old \<noteq> unstructuredConditionSignature k new"

definition deletionTimestampSet :: "ObjectMeta \<Rightarrow> ObjectMeta \<Rightarrow> bool" where
  "deletionTimestampSet old new \<longleftrightarrow> \<not> om_Deleting old \<and> om_Deleting new"

section \<open>Properties\<close>

lemma modelKey_inj:
  assumes "CHR ''/'' \<notin> set ns" and "CHR ''/'' \<notin> set ns'"
  shows "modelKey ns n = modelKey ns' n' \<longleftrightarrow> ns = ns' \<and> n = n'"
proof
  assume "modelKey ns n = modelKey ns' n'"
  then have "splitN2 CHR ''/'' (ns @ CHR ''/'' # n) = splitN2 CHR ''/'' (ns' @ CHR ''/'' # n')"
    by (simp add: modelKey_def)
  with assms show "ns = ns' \<and> n = n'" by simp
qed simp

text \<open>What a route resolved for a model stands for.\<close>

lemma findHTTPRouteForModel_OkD:
  assumes "findHTTPRouteForModel c k ns name s = Inr (rn, rns)"
  shows "(\<exists>m. getModelRef c ns name s = Inr m \<and> \<not> om_Deleting (mm_meta m)
            \<and> backendOf (mr_Kind (mm_Spec m)) \<noteq> None)
         \<and> (\<exists>route. getHTTPRouteObj c rns rn s = Inr route)"
proof -
  from assms obtain m where m: "getModelRef c ns name s = Inr m" "\<not> om_Deleting (mm_meta m)"
    by (auto simp: findHTTPRouteForModel_def Let_def split: sum.splits if_splits)
  with assms obtain b where b: "backendOf (mr_Kind (mm_Spec m)) = Some b"
    by (auto simp: findHTTPRouteForModel_def Let_def GetRouteResolver_def split: option.splits)
  from m b assms have "\<exists>route. getHTTPRoute c rn rns s = Inr route"
    by (auto simp: findHTTPRouteForModel_def Let_def GetRouteResolver_def split: sum.splits)
  then have "\<exists>route. getHTTPRouteObj c rns rn s = Inr route"
    by (auto simp: getHTTPRoute_def split: sum.splits if_splits)
  with m b show ?thesis by blast
qed

lemma validate_gateway_OkD:
  assumes "validateHTTPRouteReferencesGateway c rn rns ref s = Inr ()" and "ref \<noteq> noGatewayRef"
  shows "\<exists>route p. getHTTPRouteObj c rns rn s = Inr route \<and> p \<in> set (hr_ParentRefs route)
           \<and> parentRefTargetsGateway p \<and> pr_Name p = gr_Name ref
           \<and> parentNamespace rns p = gr_Namespace ref"
  using assms
  by (cases ref) (auto simp: validateHTTPRouteReferencesGateway_def Let_def list_ex_iff
      split: if_splits sum.splits)

end
