(* ===== verification/MemCluster.thy ===== *)
theory MemCluster
  imports ControllerTypes "HOL-Library.AList"
begin

text \<open>
  A cluster held in memory, as the documentation of \<open>controller-runtime\<close> and \<open>apimachinery\<close>
  describes the client and its helpers: lookups by namespace and name, lists by namespace, label
  and index, writes that replace the object of the same name. The instances of the properties of
  the controller run on it; the properties themselves hold for every client.
\<close>

record cluster =
  cl_subs :: "MaaSSubscription list"
  cl_models :: "MaaSModelRef list"
  cl_policies :: "MaaSAuthPolicy list"
  cl_namespaces :: "(string \<times> labels) list"
  cl_configs :: "ObjectMeta list"
  cl_legacy :: "tenantConfig list"
  cl_aitenants :: "AITenant list"
  cl_routes :: "HTTPRoute list"
  cl_gateways :: "((string \<times> string) \<times> Gateway) list"
  cl_llms :: "((string \<times> string) \<times> LLMInferenceService) list"
  cl_inference :: "uobj list"
  cl_external :: "ExternalModel list"
  cl_trlps :: "uobj list"
  cl_auth :: "uobj list"
  cl_slices :: "((string \<times> labels) \<times> EndpointSlice) list"
  cl_events :: "(string \<times> string \<times> string) list"

definition emptyCluster :: cluster where
  "emptyCluster =
     \<lparr>cl_subs = [], cl_models = [], cl_policies = [], cl_namespaces = [], cl_configs = [],
      cl_legacy = [], cl_aitenants = [], cl_routes = [], cl_gateways = [], cl_llms = [],
      cl_inference = [], cl_external = [], cl_trlps = [], cl_auth = [], cl_slices = [], cl_events = []\<rparr>"

definition isAt :: "string \<Rightarrow> string \<Rightarrow> ObjectMeta \<Rightarrow> bool" where
  "isAt ns name m \<longleftrightarrow> om_Namespace m = ns \<and> om_Name m = name"

definition findAt :: "('a \<Rightarrow> ObjectMeta) \<Rightarrow> 'a list \<Rightarrow> string \<Rightarrow> string \<Rightarrow> (k8s_error, 'a) result" where
  "findAt mt xs ns name =
     (case find (\<lambda>x. isAt ns name (mt x)) xs of
        None \<Rightarrow> Inl (ErrNotFound (name @ '' not found''))
      | Some x \<Rightarrow> Inr x)"

definition listIn :: "('a \<Rightarrow> ObjectMeta) \<Rightarrow> 'a list \<Rightarrow> string option \<Rightarrow> labels \<Rightarrow> 'a list" where
  "listIn mt xs ns ls =
     filter (\<lambda>x. (case ns of None \<Rightarrow> True | Some n \<Rightarrow> om_Namespace (mt x) = n)
              \<and> list_all (\<lambda>(k, v). map_of (om_Labels (mt x)) k = Some v) ls) xs"

definition putAt :: "('a \<Rightarrow> ObjectMeta) \<Rightarrow> 'a \<Rightarrow> 'a list \<Rightarrow> 'a list" where
  "putAt mt y xs =
     map (\<lambda>x. if isAt (om_Namespace (mt y)) (om_Name (mt y)) (mt x) then y else x) xs"

definition dropAt :: "('a \<Rightarrow> ObjectMeta) \<Rightarrow> 'a \<Rightarrow> 'a list \<Rightarrow> 'a list" where
  "dropAt mt y xs = filter (\<lambda>x. \<not> isAt (om_Namespace (mt y)) (om_Name (mt y)) (mt x)) xs"

definition tenantIndexValue :: "MaaSModelRef \<Rightarrow> string" where
  "tenantIndexValue m =
     (if mr_TenantRef (mm_Spec m) \<noteq> [] then mr_TenantRef (mm_Spec m)
      else if mst_ResolvedTenantRef (mm_Status m) \<noteq> [] then mst_ResolvedTenantRef (mm_Status m)
      else ''_unresolved_'')"

definition memClient :: "cluster client" where
  "memClient =
     \<lparr>getSubscription = (\<lambda>ns n s. findAt ms_meta (cl_subs s) ns n),
      listSubscriptions = (\<lambda>s. Inr (cl_subs s)),
      listSubscriptionsIn = (\<lambda>ns s. Inr (listIn ms_meta (cl_subs s) (Some ns) [])),
      listSubscriptionsByModel = (\<lambda>key s. Inr (filter (\<lambda>x. key \<in> set
          (map (\<lambda>r. msr_Namespace r @ ''/'' @ msr_Name r) (ss_ModelRefs (ms_Spec x)))) (cl_subs s))),
      updateSubscription = (\<lambda>x s. (None, s\<lparr>cl_subs := putAt ms_meta x (cl_subs s)\<rparr>)),
      updateSubscriptionStatus = (\<lambda>x s. (None, s\<lparr>cl_subs := putAt ms_meta x (cl_subs s)\<rparr>)),
      getModelRef = (\<lambda>ns n s. findAt mm_meta (cl_models s) ns n),
      listModelRefsIn = (\<lambda>ns s. Inr (listIn mm_meta (cl_models s) (Some ns) [])),
      listModelRefsByName = (\<lambda>n s. Inr (filter (\<lambda>m. mr_RefName (mm_Spec m) = n) (cl_models s))),
      listModelRefsByTenant = (\<lambda>t s. Inr (filter (\<lambda>m. tenantIndexValue m = t) (cl_models s))),
      updateModelRef = (\<lambda>x s. (None, s\<lparr>cl_models := putAt mm_meta x (cl_models s)\<rparr>)),
      updateModelRefStatus = (\<lambda>x s. (None, s\<lparr>cl_models := putAt mm_meta x (cl_models s)\<rparr>)),
      getAuthPolicy = (\<lambda>ns n s. findAt ma_meta (cl_policies s) ns n),
      listAuthPolicies = (\<lambda>s. Inr (cl_policies s)),
      listAuthPoliciesIn = (\<lambda>ns s. Inr (listIn ma_meta (cl_policies s) (Some ns) [])),
      updateAuthPolicy = (\<lambda>x s. (None, s\<lparr>cl_policies := putAt ma_meta x (cl_policies s)\<rparr>)),
      updateAuthPolicyStatus = (\<lambda>x s. (None, s\<lparr>cl_policies := putAt ma_meta x (cl_policies s)\<rparr>)),
      getNamespaceLabels = (\<lambda>n s. case map_of (cl_namespaces s) n of
          None \<Rightarrow> Inl (ErrNotFound n) | Some ls \<Rightarrow> Inr ls),
      getMaasTenantConfig = (\<lambda>ns n s. findAt id (cl_configs s) ns n),
      getLegacyTenant = (\<lambda>ns n s. findAt tc_meta (cl_legacy s) ns n),
      getAITenant = (\<lambda>ns n s. findAt at_meta (cl_aitenants s) ns n),
      listAITenantsIn = (\<lambda>ns s. Inr (listIn at_meta (cl_aitenants s) (Some ns) [])),
      getHTTPRouteObj = (\<lambda>ns n s. findAt hr_meta (cl_routes s) ns n),
      listHTTPRoutes = (\<lambda>ns ls s. Inr (listIn hr_meta (cl_routes s) (Some ns) ls)),
      getGateway = (\<lambda>ns n s. case map_of (cl_gateways s) (ns, n) of
          None \<Rightarrow> Inl (ErrNotFound n) | Some g \<Rightarrow> Inr g),
      getLLMInferenceService = (\<lambda>ns n s. case map_of (cl_llms s) (ns, n) of
          None \<Rightarrow> Inl (ErrNotFound n) | Some g \<Rightarrow> Inr g),
      getInferenceExternalModel = (\<lambda>ns n s. findAt u_meta (cl_inference s) ns n),
      getExternalModel = (\<lambda>ns n s. findAt em_meta (cl_external s) ns n),
      getTRLP = (\<lambda>ns n s. findAt u_meta (cl_trlps s) ns n),
      listTRLPs = (\<lambda>ns ls s. Inr (listIn u_meta (cl_trlps s) ns ls)),
      createTRLP = (\<lambda>x s. (None, s\<lparr>cl_trlps := cl_trlps s @ [x]\<rparr>)),
      updateTRLP = (\<lambda>x s. (None, s\<lparr>cl_trlps := putAt u_meta x (cl_trlps s)\<rparr>)),
      deleteTRLP = (\<lambda>x s. (None, s\<lparr>cl_trlps := dropAt u_meta x (cl_trlps s)\<rparr>)),
      listEndpointSlices = (\<lambda>ns ls s. Inr (map snd (filter (\<lambda>((n, l), _). n = ns
          \<and> list_all (\<lambda>(k, v). map_of l k = Some v) ls) (cl_slices s)))),
      listInferenceExternalModels = (\<lambda>s. Inr (cl_inference s)),
      getKuadrantAuthPolicy = (\<lambda>ns n s. findAt u_meta (cl_auth s) ns n),
      createKuadrantAuthPolicy = (\<lambda>x s. (None, s\<lparr>cl_auth := cl_auth s @ [x]\<rparr>)),
      updateKuadrantAuthPolicy = (\<lambda>x s. (None, s\<lparr>cl_auth := putAt u_meta x (cl_auth s)\<rparr>)),
      listKuadrantAuthPolicies = (\<lambda>ns ls s. Inr (listIn u_meta (cl_auth s) ns ls)),
      deleteKuadrantAuthPolicy = (\<lambda>x s. (None, s\<lparr>cl_auth := dropAt u_meta x (cl_auth s)\<rparr>)),
      recordEvent = (\<lambda>t r m s. s\<lparr>cl_events := cl_events s @ [(t, r, m)]\<rparr>),
      others = (\<lambda>s. s)\<rparr>"

definition plainSetCondition :: "Condition list \<Rightarrow> Condition \<Rightarrow> Condition list" where
  "plainSetCondition cs cond =
     (if list_ex (\<lambda>x. c_Type x = c_Type cond) cs
      then map (\<lambda>x. if c_Type x = c_Type cond then cond else x) cs
      else cs @ [cond])"

definition plainMeta :: metaApi where
  "plainMeta =
     \<lparr>accessors = walkApi,
      FindStatusCondition = (\<lambda>cs t. find (\<lambda>x. c_Type x = t) cs),
      SetStatusCondition = plainSetCondition,
      eqSubscriptionStatus = (=),
      eqModelStatus = (=),
      eqAuthPolicyStatus = (=),
      eqObject = (=),
      SetControllerReference = (\<lambda>owner m. Inr (m\<lparr>om_Owners :=
          [\<lparr>or_APIVersion = ''gateway.networking.k8s.io/v1'', or_Kind = ''HTTPRoute'', or_Name = om_Name owner,
            or_UID = om_Name owner, or_Controller = True\<rparr>]\<rparr>)),
      NestedInt64At = (\<lambda>obj path. case walk (JObj obj) path of
          None \<Rightarrow> Inr None
        | Some v \<Rightarrow> (case asInt64 v of None \<Rightarrow> Inl ''not an int64'' | Some n \<Rightarrow> Inr (Some n))),
      SetNestedMap = (\<lambda>obj v path. case path of
          [k] \<Rightarrow> Inr (AList.update k (JObj v) obj) | _ \<Rightarrow> Inl ''unsupported path''),
      AddFinalizer = (\<lambda>m f. m\<lparr>om_Finalizers := om_Finalizers m @ [f]\<rparr>),
      RemoveFinalizer = (\<lambda>m f. m\<lparr>om_Finalizers := removeAll f (om_Finalizers m)\<rparr>)\<rparr>"

section \<open>Sample objects\<close>

definition sampleMeta :: "string \<Rightarrow> string \<Rightarrow> ObjectMeta" where
  "sampleMeta ns name =
     \<lparr>om_Name = name, om_Namespace = ns, om_Labels = [], om_Annotations = [], om_Finalizers = [],
      om_Generation = 1, om_Deleting = False, om_Owners = []\<rparr>"

definition sampleSubCR :: "string \<Rightarrow> string \<Rightarrow> ModelSubscriptionRef list \<Rightarrow> MaaSSubscription" where
  "sampleSubCR ns name refs =
     \<lparr>ms_meta = sampleMeta ns name, ms_Spec = emptySubscriptionSpec\<lparr>ss_ModelRefs := refs\<rparr>,
      ms_Status = emptySubscriptionStatus\<rparr>"

definition sampleRef :: "string \<Rightarrow> string \<Rightarrow> TokenRateLimit list \<Rightarrow> ModelSubscriptionRef" where
  "sampleRef ns name limits =
     \<lparr>msr_Name = name, msr_Namespace = ns, msr_TokenRateLimits = limits, msr_BillingRate = None\<rparr>"

definition sampleModel :: "string \<Rightarrow> string \<Rightarrow> string \<Rightarrow> MaaSModelRef" where
  "sampleModel ns name kind =
     \<lparr>mm_meta = sampleMeta ns name,
      mm_Spec = \<lparr>mr_Kind = kind, mr_RefName = name, mr_EndpointOverride = [], mr_TenantRef = []\<rparr>,
      mm_Status = \<lparr>mst_Phase = [], mst_Endpoint = [], mst_HTTPRouteName = [],
        mst_HTTPRouteNamespace = [], mst_HTTPRouteGatewayName = [],
        mst_HTTPRouteGatewayNamespace = [], mst_HTTPRouteHostnames = [],
        mst_ResolvedTenantRef = [], mst_ResolvedModelAlias = [], mst_Conditions = []\<rparr>\<rparr>"

definition sampleRoute :: "string \<Rightarrow> string \<Rightarrow> string \<Rightarrow> string \<Rightarrow> HTTPRoute" where
  "sampleRoute ns name gwNs gwName =
     \<lparr>hr_meta = sampleMeta ns name,
      hr_ParentRefs = [\<lparr>pr_Group = None, pr_Kind = None, pr_Namespace = Some gwNs, pr_Name = gwName\<rparr>],
      hr_Hostnames = [''models.example.com''], hr_Parents = []\<rparr>"

definition samplePolicyCR :: "string \<Rightarrow> string \<Rightarrow> ModelRef list \<Rightarrow> MaaSAuthPolicy" where
  "samplePolicyCR ns name refs =
     \<lparr>ma_meta = sampleMeta ns name,
      ma_Spec = \<lparr>as_ModelRefs = refs, as_Groups = [''team''], as_Users = [], as_MeteringMetadata = None\<rparr>,
      ma_Status = \<lparr>ast_Phase = [], ast_Conditions = [], ast_AuthPolicies = []\<rparr>\<rparr>"

text \<open>One subscription to one external model, whose route is attached to the default gateway.\<close>

definition sampleCluster :: cluster where
  "sampleCluster = emptyCluster
     \<lparr>cl_subs := [sampleSubCR ''maas'' ''gold'' [sampleRef ''llm'' ''m1'' []]],
      cl_models := [sampleModel ''llm'' ''m1'' ''ExternalModel''],
      cl_routes := [sampleRoute ''llm'' ''maas-m1'' ''gws'' ''gw'']\<rparr>"

end
