(* ===== verification/ModelBackends.thy ===== *)
theory ModelBackends
  imports ModelRoutes MemCluster
begin

text \<open>
  The two backends of a MaaSModelRef, \<open>providers_llmisvc.go\<close> and \<open>providers_external.go\<close> of
  \<open>pkg/controller/maas\<close>, behind the interface \<open>BackendHandler\<close> of \<open>providers.go\<close>, and the choice of
  the gateway of a model (\<open>resolveGatewayRef\<close> of \<open>maasmodelref_controller.go\<close>). A method that
  changes the model it is passed returns it; what a failing method has already changed is returned
  with its error.
\<close>

record MaaSModelRefReconciler =
  mrr_GatewayName :: string
  mrr_GatewayNamespace :: string
  mrr_DefaultTenantNamespace :: string
  mrr_TenantNamespaceDiscoveryEnabled :: bool
  mrr_AITenantNamespace :: string
  mrr_HasRecorder :: bool

type_synonym modelResult = "ctl_error option \<times> MaaSModelRef"

abbreviation onStatus :: "(MaaSModelStatus \<Rightarrow> MaaSModelStatus) \<Rightarrow> MaaSModelRef \<Rightarrow> MaaSModelRef" where
  "onStatus f model \<equiv> model\<lparr>mm_Status := f (mm_Status model)\<rparr>"

definition setTenant :: "string \<Rightarrow> MaaSModelRef \<Rightarrow> MaaSModelRef" where
  "setTenant t model = onStatus (\<lambda>st. st\<lparr>mst_ResolvedTenantRef := t\<rparr>) model"

section \<open>The gateway of a model\<close>

text \<open>The tenants whose gateway is the given one, in list order.\<close>

definition tenantsByGateway :: "AITenant list \<Rightarrow> string \<Rightarrow> string \<Rightarrow> string list" where
  "tenantsByGateway tenants gwName gwNamespace =
     map (\<lambda>t. om_Name (at_meta t))
       (filter (\<lambda>t. gr_Name (at_GatewayRef t) \<noteq> [] \<and> gr_Namespace (at_GatewayRef t) \<noteq> []
                  \<and> gr_Name (at_GatewayRef t) = gwName
                  \<and> gr_Namespace (at_GatewayRef t) = gwNamespace) tenants)"

text \<open>All pairs of a tenant and the gateway by which a parent reference reaches it.\<close>

definition gatewayCandidates ::
  "AITenant list \<Rightarrow> string \<Rightarrow> ParentReference list \<Rightarrow> (string \<times> TenantGatewayRef) list" where
  "gatewayCandidates tenants routeNS parents =
     concat (map (\<lambda>p. map (\<lambda>t. (t, \<lparr>gr_Namespace = parentNamespace routeNS p, gr_Name = pr_Name p\<rparr>))
                        (tenantsByGateway tenants (pr_Name p) (parentNamespace routeNS p)))
       (filter parentRefTargetsGateway parents))"

text \<open>\<open>seenTenants\<close> keeps the first match of each tenant.\<close>

definition gatewayMatches ::
  "AITenant list \<Rightarrow> string \<Rightarrow> ParentReference list \<Rightarrow> (string \<times> TenantGatewayRef) list" where
  "gatewayMatches tenants routeNS parents = dedupOn fst [] (gatewayCandidates tenants routeNS parents)"

definition resolveGatewayRefFromHTTPRoute ::
  "('s, 'm) client_scheme \<Rightarrow> MaaSModelRefReconciler \<Rightarrow> MaaSModelRef \<Rightarrow> HTTPRoute \<Rightarrow> 's
     \<Rightarrow> TenantGatewayRef ctl \<times> MaaSModelRef" where
  "resolveGatewayRefFromHTTPRoute c r model route s =
     (let at = om_Namespace (hr_meta route) @ ''/'' @ om_Name (hr_meta route)
      in if hr_ParentRefs route = [] then
           (Err (CtlErr ErrTenantResolutionPending (''tenant resolution pending: HTTPRoute '' @ at
              @ '' has no gateway parentRefs'')), setTenant [] model)
         else
           (case listAITenantsIn c (mrr_AITenantNamespace r) s of
              Inl e \<Rightarrow> (Err (wrapApi ''failed to list AITenants for auto-resolution'' e), model)
            | Inr tenants \<Rightarrow>
                (case gatewayMatches tenants (om_Namespace (hr_meta route)) (hr_ParentRefs route) of
                   [] \<Rightarrow>
                     (Err (CtlErr OtherErr (''no AITenant found for any gateway referenced by HTTPRoute ''
                        @ at @ '' (gateways: ''
                        @ sprintV (map (\<lambda>p. parentNamespace (om_Namespace (hr_meta route)) p @ ''/'' @ pr_Name p)
                            (filter parentRefTargetsGateway (hr_ParentRefs route)))
                        @ ''); ensure an AITenant exists with a matching gateway, or set ''
                        @ ''spec.tenantRef explicitly'')), setTenant [] model)
                 | [(tenant, ref)] \<Rightarrow> (Ok ref, setTenant tenant model)
                 | matches \<Rightarrow>
                     (Err (CtlErr OtherErr (''multiple gateways on HTTPRoute '' @ at
                        @ '' match different AITenants: ''
                        @ sprintV (map (\<lambda>(t, ref). gr_Namespace ref @ ''/'' @ gr_Name ref @ '' (tenant ''
                            @ t @ '')'') matches)
                        @ ''; set spec.tenantRef explicitly to select the desired tenant'')),
                      setTenant [] model))))"

definition resolveGatewayRef ::
  "('s, 'm) client_scheme \<Rightarrow> MaaSModelRefReconciler \<Rightarrow> MaaSModelRef \<Rightarrow> HTTPRoute \<Rightarrow> 's
     \<Rightarrow> TenantGatewayRef ctl \<times> MaaSModelRef" where
  "resolveGatewayRef c r model route s =
     (let tenantRef = mr_TenantRef (mm_Spec model)
      in if tenantRef \<noteq> [] then
           (case getAITenant c (mrr_AITenantNamespace r) tenantRef s of
              Inl e \<Rightarrow>
                if IsNotFound e then
                  (Err (CtlErr OtherErr (''AITenant '' @ Quote tenantRef @ '' not found in namespace ''
                     @ mrr_AITenantNamespace r)), setTenant [] model)
                else (Err (wrapApi (''failed to get AITenant '' @ Quote tenantRef) e), model)
            | Inr aitenant \<Rightarrow>
                let ref = at_GatewayRef aitenant
                in if gr_Name ref = [] \<or> gr_Namespace ref = [] then
                     (Err (CtlErr OtherErr (''AITenant '' @ Quote tenantRef
                        @ '' has no gateway reference in status'')), setTenant [] model)
                   else (Ok ref, setTenant tenantRef model))
         else resolveGatewayRefFromHTTPRoute c r model route s)"

text \<open>
  The loop over the parent references of a route: whether one of them is the expected gateway, and
  the gateway to report, which is the expected one or else the first one seen.
\<close>

fun findParentGateway ::
  "TenantGatewayRef \<Rightarrow> string \<Rightarrow> string \<times> string \<Rightarrow> ParentReference list \<Rightarrow> bool \<times> string \<times> string"
where
  "findParentGateway expected routeNS first [] = (False, first)"
| "findParentGateway expected routeNS first (p # ps) =
     (if \<not> parentRefTargetsGateway p then findParentGateway expected routeNS first ps
      else
        let refName = pr_Name p; refNS = parentNamespace routeNS p
        in if refName = gr_Name expected \<and> refNS = gr_Namespace expected then
             (True, refName, refNS)
           else findParentGateway expected routeNS
                  (if fst first = [] then (refName, refNS) else first) ps)"

definition clearRoute :: "MaaSModelRef \<Rightarrow> MaaSModelRef" where
  "clearRoute model = onStatus (\<lambda>st. st
     \<lparr>mst_Endpoint := [], mst_HTTPRouteName := [], mst_HTTPRouteNamespace := [],
      mst_HTTPRouteGatewayName := [], mst_HTTPRouteGatewayNamespace := [],
      mst_HTTPRouteHostnames := []\<rparr>) model"

definition setRoute ::
  "string \<Rightarrow> string \<Rightarrow> string \<times> string \<Rightarrow> string list \<Rightarrow> MaaSModelRef \<Rightarrow> MaaSModelRef" where
  "setRoute routeName routeNS gw hostnames model = onStatus (\<lambda>st. st
     \<lparr>mst_HTTPRouteName := routeName, mst_HTTPRouteNamespace := routeNS,
      mst_HTTPRouteGatewayName := fst gw, mst_HTTPRouteGatewayNamespace := snd gw,
      mst_HTTPRouteHostnames := hostnames\<rparr>) model"

section \<open>LLMInferenceService\<close>

definition llm_ReconcileRoute ::
  "('s, 'm) client_scheme \<Rightarrow> MaaSModelRefReconciler \<Rightarrow> MaaSModelRef \<Rightarrow> 's \<Rightarrow> modelResult" where
  "llm_ReconcileRoute c r model s =
     (let routeNS = om_Namespace (mm_meta model);
          refName = mr_RefName (mm_Spec model)
      in case listHTTPRoutes c routeNS (llmisvcRouteLabels refName) s of
           Inl e \<Rightarrow> (Some (wrapApi (''failed to list HTTPRoutes for LLMInferenceService ''
                      @ refName) e), model)
         | Inr [] \<Rightarrow> (Some (CtlErr ErrHTTPRouteNotFound (''HTTPRoute not found yet: for ''
                      @ ''LLMInferenceService '' @ refName @ '' in namespace '' @ routeNS)), model)
         | Inr (route # _) \<Rightarrow>
             (case resolveGatewayRef c r model route s of
                (Inl e, model) \<Rightarrow> (Some (wrapErr (''resolve tenant gateway for model ''
                    @ om_Namespace (mm_meta model) @ ''/'' @ om_Name (mm_meta model)) e), model)
              | (Inr expected, model) \<Rightarrow>
                  let (gatewayFound, gw) =
                        findParentGateway expected routeNS ([], []) (hr_ParentRefs route);
                      model = setRoute (om_Name (hr_meta route)) routeNS gw (hr_Hostnames route) model
                  in if gatewayFound then (None, model)
                     else (Some (CtlErr OtherErr (''HTTPRoute '' @ routeNS @ ''/''
                            @ om_Name (hr_meta route) @ '' does not reference gateway (expected: ''
                            @ gr_Namespace expected @ ''/'' @ gr_Name expected @ '', found: ''
                            @ snd gw @ ''/'' @ fst gw
                            @ ''). The LLMInferenceService must be configured to use ''
                            @ gr_Namespace expected @ ''/'' @ gr_Name expected)), model)))"

definition addressNameGatewayExternal :: string where
  "addressNameGatewayExternal = ''gateway-external''"
definition addressNameGatewayExternalModelRouting :: string where
  "addressNameGatewayExternalModelRouting = ''gateway-external-model-routing''"

definition selectAddress ::
  "LLMInferenceService \<Rightarrow> string \<Rightarrow> string list \<Rightarrow> bool \<Rightarrow> string" where
  "selectAddress svc targetName hostSet filtering =
     (let urls = concat (map (\<lambda>addr.
            case (la_Name addr, la_URL addr) of
              (Some n, Some u) \<Rightarrow>
                if n \<noteq> targetName then []
                else if filtering \<and> (ToLower (url_Hostname u) = []
                                     \<or> ToLower (url_Hostname u) \<notin> set hostSet) then []
                else [url_String u]
            | _ \<Rightarrow> []) (li_Addresses svc))
      in case find (\<lambda>u. HasPrefix u ''https://'') urls of
           Some u \<Rightarrow> u
         | None \<Rightarrow> (case urls of [] \<Rightarrow> [] | u # _ \<Rightarrow> u))"

definition isBaseURL :: "GoURL \<Rightarrow> bool" where
  "isBaseURL u \<longleftrightarrow> url_Path u = [] \<or> url_Path u = ''/''"

text \<open>The loop over the addresses when no host names are expected.\<close>

fun unfilteredURL :: "string \<Rightarrow> LLMAddress list \<Rightarrow> string option \<times> string" where
  "unfilteredURL fallback [] = (None, fallback)"
| "unfilteredURL fallback (addr # addrs) =
     (case la_URL addr of
        None \<Rightarrow> unfilteredURL fallback addrs
      | Some u \<Rightarrow>
          if isBaseURL u then (Some (url_String u), fallback)
          else unfilteredURL (if fallback = [] then url_String u else fallback) addrs)"

definition getEndpointFromLLMISvc :: "LLMInferenceService \<Rightarrow> string list \<Rightarrow> string" where
  "getEndpointFromLLMISvc svc expectedHostnames =
     (let hostSet = map ToLower expectedHostnames;
          filtering = hostSet \<noteq> [];
          u1 = selectAddress svc addressNameGatewayExternalModelRouting hostSet filtering;
          u2 = selectAddress svc addressNameGatewayExternal hostSet filtering
      in if u1 \<noteq> [] then u1
         else if u2 \<noteq> [] then u2
         else if filtering then []
         else
           (case unfilteredURL [] (li_Addresses svc) of
              (Some u, _) \<Rightarrow> u
            | (None, fallback) \<Rightarrow>
                (case li_URL svc of
                   Some u \<Rightarrow> if isBaseURL u then url_String u
                             else if fallback \<noteq> [] then fallback else url_String u
                 | None \<Rightarrow> fallback)))"

text \<open>The host a gateway is reached under: a listener's host name, a host name address, any address.\<close>

definition gatewayHost :: "Gateway \<Rightarrow> string option" where
  "gatewayHost gw =
     (case find (\<lambda>h. h \<noteq> None) (gw_ListenerHostnames gw) of
        Some (Some h) \<Rightarrow> Some h
      | _ \<Rightarrow>
          (case find (\<lambda>(t, v). t = Some ''Hostname'') (gw_Addresses gw) of
             Some (_, v) \<Rightarrow> Some v
           | None \<Rightarrow> (case gw_Addresses gw of [] \<Rightarrow> None | (_, v) # _ \<Rightarrow> Some v)))"

definition noHost :: "string \<Rightarrow> string \<Rightarrow> ctl_error" where
  "noHost ns name = CtlErr OtherErr (''unable to determine endpoint: gateway '' @ ns @ ''/'' @ name
     @ '' has no hostname or addresses'')"

definition llm_GetModelEndpoint ::
  "('s, 'm) client_scheme \<Rightarrow> MaaSModelRefReconciler \<Rightarrow> MaaSModelRef \<Rightarrow> 's \<Rightarrow> string ctl" where
  "llm_GetModelEndpoint c r model s =
     (let st = mm_Status model; name = om_Name (mm_meta model)
      in case mst_HTTPRouteHostnames st of
           h # _ \<Rightarrow> Ok (''https://'' @ h @ ''/'' @ name)
         | [] \<Rightarrow>
             let (gatewayName, gatewayNS) =
                   (if mst_HTTPRouteGatewayName st = [] then (mrr_GatewayName r, mrr_GatewayNamespace r)
                    else (mst_HTTPRouteGatewayName st, mst_HTTPRouteGatewayNamespace st))
             in case getGateway c gatewayNS gatewayName s of
                  Inl e \<Rightarrow> Err (wrapApi (''failed to get gateway '' @ gatewayNS @ ''/''
                             @ gatewayName) e)
                | Inr gw \<Rightarrow>
                    (case gatewayHost gw of
                       Some h \<Rightarrow> Ok (''https://'' @ h @ ''/'' @ name)
                     | None \<Rightarrow> Err (noHost gatewayNS gatewayName)))"

definition llm_Status ::
  "('s, 'm) client_scheme \<Rightarrow> MaaSModelRefReconciler \<Rightarrow> MaaSModelRef \<Rightarrow> 's \<Rightarrow> (string \<times> bool) ctl" where
  "llm_Status c r model s =
     (let ns = om_Namespace (mm_meta model); refName = mr_RefName (mm_Spec model)
      in case getLLMInferenceService c ns refName s of
           Inl e \<Rightarrow>
             if IsNotFound e then
               Err (CtlErr OtherErr (''LLMInferenceService '' @ refName @ '' not found in namespace ''
                 @ ns))
             else Err (ofApi e)
         | Inr svc \<Rightarrow>
             if \<not> list_ex (\<lambda>(t, v). t = ''Ready'' \<and> v = ''True'') (li_Conditions svc) then Ok ([], False)
             else
               let endpoint = getEndpointFromLLMISvc svc (mst_HTTPRouteHostnames (mm_Status model))
               in if endpoint \<noteq> [] then Ok (endpoint, True)
                  else (case llm_GetModelEndpoint c r model s of
                          Inl e \<Rightarrow> Err e
                        | Inr ep \<Rightarrow> Ok (ep, True)))"

definition llm_ResolveModelAlias ::
  "('s, 'm) client_scheme \<Rightarrow> MaaSModelRef \<Rightarrow> 's \<Rightarrow> string ctl" where
  "llm_ResolveModelAlias c model s =
     (case getLLMInferenceService c (om_Namespace (mm_meta model)) (mr_RefName (mm_Spec model)) s of
        Inl e \<Rightarrow> Err (ofApi e)
      | Inr svc \<Rightarrow>
          (case find (\<lambda>addr. case la_Models addr of m # _ \<Rightarrow> m \<noteq> [] | [] \<Rightarrow> False) (li_Addresses svc) of
             Some addr \<Rightarrow> Ok (hd (la_Models addr))
           | None \<Rightarrow> Ok []))"

section \<open>ExternalModel\<close>

text \<open>The name of the route to validate; \<open>None\<close> while the external model has none yet.\<close>

definition externalRouteName ::
  "('s, 'm) client_scheme \<Rightarrow> k8sApi \<Rightarrow> MaaSModelRef \<Rightarrow> 's \<Rightarrow> string option ctl" where
  "externalRouteName c k model s =
     (let ns = om_Namespace (mm_meta model); refName = mr_RefName (mm_Spec model)
      in case getInferenceExternalModel c ns refName s of
           Inr em \<Rightarrow> Ok (inferenceRouteName k em)
         | Inl e \<Rightarrow>
             if IsNotFound e \<or> IsNoMatchError e then
               (case getExternalModel c ns refName s of
                  Inl e' \<Rightarrow>
                    if IsNotFound e' then
                      Err (CtlErr OtherErr (''ExternalModel '' @ refName @ '' not found in namespace ''
                        @ ns @ '' (checked inference.opendatahub.io and maas.opendatahub.io)''))
                    else Err (wrapApi (''failed to get maas ExternalModel '' @ refName) e')
                | Inr _ \<Rightarrow> Ok (Some (ExternalModelResourceName refName)))
             else Err (wrapApi (''failed to get ExternalModel '' @ refName) e))"

text \<open>Whether the expected gateway has accepted the route, by the route's parent statuses.\<close>

definition gatewayAccepted :: "TenantGatewayRef \<Rightarrow> string \<Rightarrow> RouteParentStatus list \<Rightarrow> bool" where
  "gatewayAccepted expected routeNS parents \<longleftrightarrow>
     list_ex (\<lambda>p. pr_Name (rp_ParentRef p) = gr_Name expected
                \<and> parentNamespace routeNS (rp_ParentRef p) = gr_Namespace expected
                \<and> list_ex (\<lambda>cond. c_Type cond = ''Accepted'' \<and> c_Status cond = ''True'')
                     (rp_Conditions p)) parents"

definition ext_ReconcileRoute ::
  "('s, 'm) client_scheme \<Rightarrow> k8sApi \<Rightarrow> MaaSModelRefReconciler \<Rightarrow> MaaSModelRef \<Rightarrow> 's \<Rightarrow> modelResult"
where
  "ext_ReconcileRoute c k r model s =
     (case externalRouteName c k model s of
        Inl e \<Rightarrow> (Some e, model)
      | Inr None \<Rightarrow> (None, clearRoute model)
      | Inr (Some routeName) \<Rightarrow>
          let routeNS = om_Namespace (mm_meta model); at = routeNS @ ''/'' @ routeName
          in case getHTTPRouteObj c routeNS routeName s of
               Inl e \<Rightarrow>
                 if IsNotFound e then (None, clearRoute model)
                 else (Some (wrapApi (''failed to get HTTPRoute '' @ at) e), model)
             | Inr route \<Rightarrow>
                 (case resolveGatewayRef c r model route s of
                    (Inl e, model) \<Rightarrow>
                      (Some (wrapErr ''failed to resolve gateway for ExternalModel'' e), model)
                  | (Inr expected, model) \<Rightarrow>
                      let (gatewayFound, gw) =
                            findParentGateway expected routeNS ([], []) (hr_ParentRefs route)
                      in if \<not> gatewayFound then
                           (Some (CtlErr OtherErr (''HTTPRoute '' @ at @ '' does not reference gateway ''
                              @ gr_Namespace expected @ ''/'' @ gr_Name expected @ '' (found: ''
                              @ snd gw @ ''/'' @ fst gw @ '')'')), model)
                         else if \<not> gatewayAccepted expected routeNS (hr_Parents route) then
                           (None, onStatus (\<lambda>st. st\<lparr>mst_HTTPRouteName := routeName,
                                                    mst_HTTPRouteNamespace := routeNS\<rparr>) model)
                         else (None, setRoute routeName routeNS gw (hr_Hostnames route) model)))"

definition ext_GetModelEndpoint ::
  "('s, 'm) client_scheme \<Rightarrow> MaaSModelRefReconciler \<Rightarrow> MaaSModelRef \<Rightarrow> 's \<Rightarrow> string ctl" where
  "ext_GetModelEndpoint c r model s =
     (case mst_HTTPRouteHostnames (mm_Status model) of
        h # _ \<Rightarrow> Ok (''https://'' @ h)
      | [] \<Rightarrow>
          (case getGateway c (mrr_GatewayNamespace r) (mrr_GatewayName r) s of
             Inl e \<Rightarrow> Err (wrapApi (''failed to get gateway '' @ mrr_GatewayNamespace r @ ''/''
                        @ mrr_GatewayName r) e)
           | Inr gw \<Rightarrow>
               (case gatewayHost gw of
                  Some h \<Rightarrow> Ok (''https://'' @ h)
                | None \<Rightarrow> Err (noHost (mrr_GatewayNamespace r) (mrr_GatewayName r)))))"

definition ext_Status ::
  "('s, 'm) client_scheme \<Rightarrow> MaaSModelRefReconciler \<Rightarrow> MaaSModelRef \<Rightarrow> 's \<Rightarrow> (string \<times> bool) ctl" where
  "ext_Status c r model s =
     (if mst_HTTPRouteName (mm_Status model) = [] \<or> mst_HTTPRouteGatewayName (mm_Status model) = []
      then Ok ([], False)
      else (case ext_GetModelEndpoint c r model s of
              Inl e \<Rightarrow> Err e
            | Inr ep \<Rightarrow> Ok (ep, True)))"

definition ext_ResolveModelAlias :: "MaaSModelRef \<Rightarrow> string ctl" where
  "ext_ResolveModelAlias model = Ok (mr_RefName (mm_Spec model))"

section \<open>The interface\<close>

record 's BackendHandler =
  ReconcileRoute :: "MaaSModelRef \<Rightarrow> 's \<Rightarrow> modelResult"
  Status :: "MaaSModelRef \<Rightarrow> 's \<Rightarrow> (string \<times> bool) ctl"
  ResolveModelAlias :: "MaaSModelRef \<Rightarrow> 's \<Rightarrow> string ctl"
  CleanupOnDelete :: "MaaSModelRef \<Rightarrow> 's \<Rightarrow> ctl_error option \<times> 's"

definition llmisvcHandler ::
  "('s, 'm) client_scheme \<Rightarrow> MaaSModelRefReconciler \<Rightarrow> 's BackendHandler" where
  "llmisvcHandler c r =
     \<lparr>ReconcileRoute = llm_ReconcileRoute c r, Status = llm_Status c r,
      ResolveModelAlias = llm_ResolveModelAlias c, CleanupOnDelete = (\<lambda>model s. (None, s))\<rparr>"

definition externalModelHandler ::
  "('s, 'm) client_scheme \<Rightarrow> k8sApi \<Rightarrow> MaaSModelRefReconciler \<Rightarrow> 's BackendHandler" where
  "externalModelHandler c k r =
     \<lparr>ReconcileRoute = ext_ReconcileRoute c k r, Status = ext_Status c r,
      ResolveModelAlias = (\<lambda>model s. ext_ResolveModelAlias model),
      CleanupOnDelete = (\<lambda>model s. (None, s))\<rparr>"

definition GetBackendHandler ::
  "('s, 'm) client_scheme \<Rightarrow> k8sApi \<Rightarrow> MaaSModelRefReconciler \<Rightarrow> string \<Rightarrow> 's BackendHandler option"
where
  "GetBackendHandler c k r kind =
     map_option (\<lambda>b. case b of
         LLMIsvcBackend \<Rightarrow> llmisvcHandler c r
       | ExternalBackend \<Rightarrow> externalModelHandler c k r) (backendOf kind)"

section \<open>What the reconciler relies on\<close>

text \<open>
  The contract of a backend: reconciling the route touches only the status fields about the route,
  the endpoint and the tenant, and a backend reports an endpoint exactly when it reports ready.
\<close>

definition sameButRoute :: "MaaSModelRef \<Rightarrow> MaaSModelRef \<Rightarrow> bool" where
  "sameButRoute m m' \<longleftrightarrow>
     mm_meta m' = mm_meta m \<and> mm_Spec m' = mm_Spec m
     \<and> mst_Phase (mm_Status m') = mst_Phase (mm_Status m)
     \<and> mst_ResolvedModelAlias (mm_Status m') = mst_ResolvedModelAlias (mm_Status m)
     \<and> mst_Conditions (mm_Status m') = mst_Conditions (mm_Status m)"

locale backend_handler =
  fixes h :: "'s BackendHandler"
  assumes route_only: "ReconcileRoute h m s = (e, m') \<Longrightarrow> sameButRoute m m'"
    and ready_endpoint: "Status h m s = Inr (ep, True) \<Longrightarrow> ep \<noteq> []"
    and not_ready_endpoint: "Status h m s = Inr (ep, False) \<Longrightarrow> ep = []"
begin

lemma ready_iff_endpoint: "Status h m s = Inr (ep, ready) \<Longrightarrow> ready \<longleftrightarrow> ep \<noteq> []"
  using ready_endpoint not_ready_endpoint by (cases ready) auto

end

lemma sameButRoute_refl [simp]: "sameButRoute m m"
  by (simp add: sameButRoute_def)

lemma sameButRoute_trans: "sameButRoute m m' \<Longrightarrow> sameButRoute m' m'' \<Longrightarrow> sameButRoute m m''"
  by (simp add: sameButRoute_def)

lemma sameButRoute_sets [simp]:
  "sameButRoute m (setTenant t m)" "sameButRoute m (clearRoute m)" "sameButRoute m (setRoute n ns g hs m)"
  by (simp_all add: sameButRoute_def setTenant_def clearRoute_def setRoute_def)

lemma resolveGatewayRef_same: "sameButRoute m (snd (resolveGatewayRef c r m route s))"
  by (auto simp: resolveGatewayRef_def resolveGatewayRefFromHTTPRoute_def Let_def
      split: sum.split list.split)

lemma llm_route_same: "sameButRoute m (snd (llm_ReconcileRoute c r m s))"
proof -
  have rs: "sameButRoute m m'" if "resolveGatewayRef c r m route s = (x, m')" for route x m'
    using resolveGatewayRef_same [of m c r route s] that by simp
  have st: "sameButRoute m (setRoute n ns g hs m')"
    if "resolveGatewayRef c r m route s = (x, m')" for route x m' n ns g hs
    using rs [OF that] sameButRoute_sets(3) by (rule sameButRoute_trans)
  show ?thesis
    unfolding llm_ReconcileRoute_def Let_def
    by (auto split: sum.split list.split prod.split intro: rs st)
qed

lemma ext_route_same: "sameButRoute m (snd (ext_ReconcileRoute c k r m s))"
proof -
  have rs: "sameButRoute m m'" if "resolveGatewayRef c r m route s = (x, m')" for route x m'
    using resolveGatewayRef_same [of m c r route s] that by simp
  have st: "sameButRoute m (onStatus (\<lambda>st. st\<lparr>mst_HTTPRouteName := a, mst_HTTPRouteNamespace := b\<rparr>) m')"
      "sameButRoute m (setRoute n ns g hs m')"
    if "resolveGatewayRef c r m route s = (x, m')" for route x a b m' n ns g hs
    using rs [OF that] by (simp_all add: sameButRoute_def setRoute_def)
  show ?thesis
    unfolding ext_ReconcileRoute_def Let_def
    by (auto split: sum.split option.split prod.split intro: rs st)
qed

lemma llm_endpoint_not_Nil: "llm_GetModelEndpoint c r m s = Inr ep \<Longrightarrow> ep \<noteq> []"
  by (auto simp: llm_GetModelEndpoint_def Let_def split: list.splits sum.splits option.splits prod.splits)

lemma ext_endpoint_not_Nil: "ext_GetModelEndpoint c r m s = Inr ep \<Longrightarrow> ep \<noteq> []"
  by (auto simp: ext_GetModelEndpoint_def split: list.splits sum.splits option.splits)

interpretation llm: backend_handler "llmisvcHandler c r" for c r
proof unfold_locales
  show "ReconcileRoute (llmisvcHandler c r) m s = (e, m') \<Longrightarrow> sameButRoute m m'" for m s e m'
    using llm_route_same [of m c r s] by (simp add: llmisvcHandler_def)
  show "Status (llmisvcHandler c r) m s = Inr (ep, True) \<Longrightarrow> ep \<noteq> []" for m s ep
    by (auto simp: llmisvcHandler_def llm_Status_def Let_def llm_endpoint_not_Nil
        split: sum.splits if_splits)
  show "Status (llmisvcHandler c r) m s = Inr (ep, False) \<Longrightarrow> ep = []" for m s ep
    by (auto simp: llmisvcHandler_def llm_Status_def Let_def split: sum.splits if_splits)
qed

interpretation ext: backend_handler "externalModelHandler c k r" for c k r
proof unfold_locales
  show "ReconcileRoute (externalModelHandler c k r) m s = (e, m') \<Longrightarrow> sameButRoute m m'" for m s e m'
    using ext_route_same [of m c k r s] by (simp add: externalModelHandler_def)
  show "Status (externalModelHandler c k r) m s = Inr (ep, True) \<Longrightarrow> ep \<noteq> []" for m s ep
    by (auto simp: externalModelHandler_def ext_Status_def ext_endpoint_not_Nil
        split: sum.splits if_splits)
  show "Status (externalModelHandler c k r) m s = Inr (ep, False) \<Longrightarrow> ep = []" for m s ep
    by (auto simp: externalModelHandler_def ext_Status_def split: sum.splits if_splits)
qed

lemma GetBackendHandler_contract:
  "GetBackendHandler c k r kind = Some h \<Longrightarrow> backend_handler h"
  by (cases "backendOf kind")
     (auto simp: GetBackendHandler_def llm.backend_handler_axioms ext.backend_handler_axioms
       split: backendKind.splits)

section \<open>Which tenant a route belongs to\<close>

definition attachedTenant :: "HTTPRoute \<Rightarrow> AITenant \<Rightarrow> bool" where
  "attachedTenant route t \<longleftrightarrow>
     gr_Name (at_GatewayRef t) \<noteq> [] \<and> gr_Namespace (at_GatewayRef t) \<noteq> []
     \<and> (\<exists>p\<in>set (hr_ParentRefs route). parentRefTargetsGateway p
          \<and> pr_Name p = gr_Name (at_GatewayRef t)
          \<and> parentNamespace (om_Namespace (hr_meta route)) p = gr_Namespace (at_GatewayRef t))"

lemma gatewayCandidates_set:
  "set (gatewayCandidates tenants (om_Namespace (hr_meta route)) (hr_ParentRefs route)) =
     {(om_Name (at_meta t), at_GatewayRef t) |t. t \<in> set tenants \<and> attachedTenant route t}"
proof -
  have "x \<in> set (gatewayCandidates tenants (om_Namespace (hr_meta route)) (hr_ParentRefs route)) \<longleftrightarrow>
     (\<exists>t\<in>set tenants. attachedTenant route t \<and> x = (om_Name (at_meta t), at_GatewayRef t))" for x
    by (auto simp: gatewayCandidates_def tenantsByGateway_def attachedTenant_def)
       (metis TenantGatewayRef.surjective old.unit.exhaust)+
  then show ?thesis by blast
qed

lemma gatewayMatches_names:
  "fst ` set (gatewayMatches tenants (om_Namespace (hr_meta route)) (hr_ParentRefs route)) =
     (\<lambda>t. om_Name (at_meta t)) ` {t \<in> set tenants. attachedTenant route t}"
  unfolding gatewayMatches_def dedupOn_keys gatewayCandidates_set by force

lemma card_1_iff_ex1: "card A = 1 \<longleftrightarrow> (\<exists>!x. x \<in> A)"
  using is_singleton_altdef [of A] is_singleton_iff_ex1 [of A] by simp

text \<open>
  A model without \<open>spec.tenantRef\<close> gets the gateway of a tenant exactly when exactly one AITenant
  owns a gateway its HTTPRoute refers to; the gateway and the tenant it is resolved to are that
  tenant's.
\<close>

theorem auto_resolution_exact:
  assumes "hr_ParentRefs route \<noteq> []" and "listAITenantsIn c (mrr_AITenantNamespace r) s = Inr tenants"
    and "distinct (map (\<lambda>t. om_Name (at_meta t)) tenants)"
  shows "(\<forall>ref m'. resolveGatewayRefFromHTTPRoute c r m route s = (Inr ref, m') \<longrightarrow>
            (\<exists>t\<in>set tenants. attachedTenant route t \<and> ref = at_GatewayRef t
               \<and> mst_ResolvedTenantRef (mm_Status m') = om_Name (at_meta t)))
       \<and> ((\<exists>ref m'. resolveGatewayRefFromHTTPRoute c r m route s = (Inr ref, m')) \<longleftrightarrow>
            (\<exists>!t. t \<in> set tenants \<and> attachedTenant route t))"
proof -
  let ?ms = "gatewayMatches tenants (om_Namespace (hr_meta route)) (hr_ParentRefs route)"
  let ?N = "\<lambda>t. om_Name (at_meta t)"
  let ?A = "{t \<in> set tenants. attachedTenant route t}"
  have res: "resolveGatewayRefFromHTTPRoute c r m route s = (Inr ref, m') \<longleftrightarrow>
      (\<exists>t. ?ms = [(t, ref)] \<and> m' = setTenant t m)" for ref m'
    using assms(1,2) by (auto simp: resolveGatewayRefFromHTTPRoute_def Let_def split: list.splits)
  have inj: "inj_on ?N (set tenants)" using assms(3) by (simp add: distinct_map)
  have sub: "set ?ms \<subseteq> {(?N t, at_GatewayRef t) |t. t \<in> set tenants \<and> attachedTenant route t}"
    unfolding gatewayMatches_def using dedupOn_subset gatewayCandidates_set by fastforce
  have "length ?ms = card (fst ` set ?ms)"
    using dedupOn_distinct [of fst "[]"] unfolding gatewayMatches_def
    by (metis distinct_card length_map list.set_map)
  also have "\<dots> = card ?A"
    unfolding gatewayMatches_names using inj by (intro card_image) (auto intro: inj_on_subset)
  finally have len: "length ?ms = card ?A" .
  have "(\<exists>ref m'. resolveGatewayRefFromHTTPRoute c r m route s = (Inr ref, m')) \<longleftrightarrow> length ?ms = 1"
    unfolding res by (cases ?ms; cases "tl ?ms") auto
  also have "\<dots> \<longleftrightarrow> (\<exists>!t. t \<in> ?A)"
    unfolding len by (rule card_1_iff_ex1)
  finally have "(\<exists>ref m'. resolveGatewayRefFromHTTPRoute c r m route s = (Inr ref, m')) \<longleftrightarrow>
      (\<exists>!t. t \<in> set tenants \<and> attachedTenant route t)" by simp
  moreover have "\<exists>t\<in>set tenants. attachedTenant route t \<and> ref = at_GatewayRef t
      \<and> mst_ResolvedTenantRef (mm_Status m') = ?N t"
    if "resolveGatewayRefFromHTTPRoute c r m route s = (Inr ref, m')" for ref m'
    using that sub unfolding res by (auto simp: setTenant_def)
  ultimately show ?thesis by blast
qed

section \<open>Endpoints\<close>

lemma selectAddress_D:
  assumes "selectAddress svc target hostSet filtering = ep" and "ep \<noteq> []"
  shows "\<exists>addr\<in>set (li_Addresses svc). \<exists>u. la_URL addr = Some u \<and> url_String u = ep
           \<and> la_Name addr = Some target
           \<and> (filtering \<longrightarrow> url_Hostname u \<noteq> [] \<and> ToLower (url_Hostname u) \<in> set hostSet)"
proof -
  define urls where "urls = concat (map (\<lambda>addr.
            case (la_Name addr, la_URL addr) of
              (Some n, Some u) \<Rightarrow>
                if n \<noteq> target then []
                else if filtering \<and> (ToLower (url_Hostname u) = []
                                     \<or> ToLower (url_Hostname u) \<notin> set hostSet) then []
                else [url_String u]
            | _ \<Rightarrow> []) (li_Addresses svc))"
  have "ep \<in> set urls"
    using assms unfolding selectAddress_def Let_def urls_def [symmetric]
    by (auto split: option.splits list.splits dest: find_SomeD)
  then show ?thesis
    unfolding urls_def by (auto simp: ToLower_def split: option.splits if_splits) (metis)+
qed

text \<open>
  When the host names of a model's route are known, the endpoint taken from the
  LLMInferenceService is a reported address on one of these hosts: never one of another gateway.
\<close>

theorem endpoint_on_expected_host:
  assumes "hosts \<noteq> []" and "getEndpointFromLLMISvc svc hosts = ep" and "ep \<noteq> []"
  shows "\<exists>addr\<in>set (li_Addresses svc). \<exists>u. la_URL addr = Some u \<and> url_String u = ep
           \<and> ToLower (url_Hostname u) \<in> ToLower ` set hosts"
proof -
  have "selectAddress svc addressNameGatewayExternalModelRouting (map ToLower hosts) True = ep
      \<or> selectAddress svc addressNameGatewayExternal (map ToLower hosts) True = ep"
    using assms by (auto simp: getEndpointFromLLMISvc_def Let_def split: if_splits)
  then show ?thesis
    using selectAddress_D [OF _ assms(3)] by fastforce
qed

text \<open>
  Once a route was accepted, the gateway it was accepted by stays in the status when the
  acceptance is withdrawn: the reconciler only refreshes the name of the route, and the model is
  still reported ready.
\<close>

lemma withdrawn_route_still_ready:
  assumes "externalRouteName c k m s = Inr (Some rn)"
    and "getHTTPRouteObj c (om_Namespace (mm_meta m)) rn s = Inr route"
    and "resolveGatewayRef c r m route s = (Inr expected, m')"
    and "fst (findParentGateway expected (om_Namespace (mm_meta m)) ([], []) (hr_ParentRefs route))"
    and "\<not> gatewayAccepted expected (om_Namespace (mm_meta m)) (hr_Parents route)"
    and "mst_HTTPRouteGatewayName (mm_Status m') \<noteq> []" and "rn \<noteq> []"
    and "mst_HTTPRouteHostnames (mm_Status m') = h # hs"
  shows "\<exists>m2. ext_ReconcileRoute c k r m s = (None, m2) \<and> ext_Status c r m2 s = Inr (''https://'' @ h, True)"
proof -
  let ?m2 = "onStatus (\<lambda>st. st\<lparr>mst_HTTPRouteName := rn, mst_HTTPRouteNamespace := om_Namespace (mm_meta m)\<rparr>) m'"
  have "ext_ReconcileRoute c k r m s = (None, ?m2)"
    using assms(1-5) by (simp add: ext_ReconcileRoute_def Let_def case_prod_beta)
  moreover have "ext_Status c r ?m2 s = Inr (''https://'' @ h, True)"
    using assms(6-8) by (simp add: ext_Status_def ext_GetModelEndpoint_def)
  ultimately show ?thesis by blast
qed

text \<open>The endpoint of an external model without host names is that of the default gateway.\<close>

lemma external_endpoint_default_gateway:
  assumes "mst_HTTPRouteHostnames (mm_Status m) = []"
    and "getGateway c (mrr_GatewayNamespace r) (mrr_GatewayName r) s = Inr gw" and "gatewayHost gw = Some h"
  shows "ext_GetModelEndpoint c r (onStatus (\<lambda>st. st\<lparr>mst_HTTPRouteGatewayName := g,
           mst_HTTPRouteGatewayNamespace := gns\<rparr>) m) s = Inr (''https://'' @ h)"
  using assms by (simp add: ext_GetModelEndpoint_def)

section \<open>Instances\<close>

definition sampleTenant :: "string \<Rightarrow> string \<Rightarrow> string \<Rightarrow> AITenant" where
  "sampleTenant name gwNs gwName =
     \<lparr>at_meta = sampleMeta ''ai-tenants'' name, at_UID = name, at_DeletedAt = 0, at_SpecGatewayName = None, at_OIDC = None,
      at_Phase = ''Active'', at_TenantNamespace = ''ai-tenant-'' @ name,
      at_GatewayRef = \<lparr>gr_Namespace = gwNs, gr_Name = gwName\<rparr>, at_Conditions = []\<rparr>"

definition sampleModelReconciler :: MaaSModelRefReconciler where
  "sampleModelReconciler =
     \<lparr>mrr_GatewayName = ''gw'', mrr_GatewayNamespace = ''gws'', mrr_DefaultTenantNamespace = ''maas'',
      mrr_TenantNamespaceDiscoveryEnabled = False, mrr_AITenantNamespace = ''ai-tenants'',
      mrr_HasRecorder = True\<rparr>"

theorem auto_resolution_exact_witness:
  "\<exists>ref m'. resolveGatewayRefFromHTTPRoute memClient sampleModelReconciler
      (sampleModel ''llm'' ''m1'' ''ExternalModel'') (sampleRoute ''llm'' ''r1'' ''gws'' ''red'')
      (emptyCluster\<lparr>cl_aitenants := [sampleTenant ''blue'' ''gws'' ''blue'', sampleTenant ''red'' ''gws'' ''red'']\<rparr>)
      = (Inr ref, m')"
proof -
  let ?ts = "[sampleTenant ''blue'' ''gws'' ''blue'', sampleTenant ''red'' ''gws'' ''red'']"
  let ?route = "sampleRoute ''llm'' ''r1'' ''gws'' ''red''"
  have "listAITenantsIn memClient (mrr_AITenantNamespace sampleModelReconciler)
      (emptyCluster\<lparr>cl_aitenants := ?ts\<rparr>) = Inr ?ts"
    by (simp add: memClient_def listIn_def sampleTenant_def sampleMeta_def sampleModelReconciler_def)
  moreover have "hr_ParentRefs ?route \<noteq> []" by (simp add: sampleRoute_def)
  moreover have "distinct (map (\<lambda>t. om_Name (at_meta t)) ?ts)"
    by (simp add: sampleTenant_def sampleMeta_def)
  moreover have "\<exists>!t. t \<in> set ?ts \<and> attachedTenant ?route t"
    by (rule ex1I [of _ "sampleTenant ''red'' ''gws'' ''red''"])
       (auto simp: attachedTenant_def sampleTenant_def sampleRoute_def parentRefTargetsGateway_def
         parentNamespace_def)
  ultimately show ?thesis
    using auto_resolution_exact [of ?route memClient sampleModelReconciler
      "emptyCluster\<lparr>cl_aitenants := ?ts\<rparr>" ?ts "sampleModel ''llm'' ''m1'' ''ExternalModel''"] by blast
qed

definition sampleAddress :: "string \<Rightarrow> LLMAddress" where
  "sampleAddress host =
     \<lparr>la_Name = Some ''gateway-external'',
      la_URL = Some \<lparr>url_Path = [], url_Hostname = host, url_String = ''https://'' @ host\<rparr>, la_Models = []\<rparr>"

theorem endpoint_on_expected_host_witness:
  "let svc = \<lparr>li_Conditions = [(''Ready'', ''True'')], li_URL = None,
              li_Addresses = [sampleAddress ''other.org'', sampleAddress ''A.org'']\<rparr>
   in getEndpointFromLLMISvc svc [''a.ORG''] = ''https://A.org''
      \<and> (\<exists>addr\<in>set (li_Addresses svc). \<exists>u. la_URL addr = Some u
           \<and> ToLower (url_Hostname u) \<in> ToLower ` set [''a.ORG''])"
proof -
  let ?svc = "\<lparr>li_Conditions = [(''Ready'', ''True'')], li_URL = None,
              li_Addresses = [sampleAddress ''other.org'', sampleAddress ''A.org'']\<rparr>"
  have "getEndpointFromLLMISvc ?svc [''a.ORG''] = ''https://A.org''"
    by (simp add: getEndpointFromLLMISvc_def selectAddress_def sampleAddress_def ToLower_def
        lowerChar_def byteIn_def addressNameGatewayExternal_def
        addressNameGatewayExternalModelRouting_def HasPrefix_def char_of_def bit_0)
  then show ?thesis
    using endpoint_on_expected_host [of "[''a.ORG'']" ?svc "''https://A.org''"] by (simp add: Let_def) blast
qed

end
