(* ===== verification/ModelRefController.thy ===== *)
theory ModelRefController
  imports ModelBackends
begin

text \<open>
  The reconciler of MaaSModelRef (\<open>pkg/controller/maas/maasmodelref_controller.go\<close>,
  \<open>model_identity_conflict.go\<close>): whether a model is governed and running, its phase and endpoint,
  the detection of models that share an identity, its deletion, and the functions that map a
  watched object to the models to reconcile. A nil event recorder is \<open>mrr_HasRecorder = False\<close>.
\<close>

type_synonym 's moutcome = "ctl_error option \<times> 's"

definition maasModelFinalizer :: string where
  "maasModelFinalizer = ''maas.opendatahub.io/model-cleanup''"
definition ConditionGovernanceAttached :: string where
  "ConditionGovernanceAttached = ''GovernanceAttached''"
definition ConditionRuntimeReady :: string where
  "ConditionRuntimeReady = ''RuntimeReady''"
definition ConditionModelIdentityUnique :: string where
  "ConditionModelIdentityUnique = ''ModelIdentityUnique''"

section \<open>Governance\<close>

definition model_findAnySubscription ::
  "('s, 'm) client_scheme \<Rightarrow> MaaSModelRefReconciler \<Rightarrow> string \<Rightarrow> string \<Rightarrow> 's \<Rightarrow> MaaSSubscription option"
where
  "model_findAnySubscription c r ns name s =
     (case findAllSubscriptionsForModel c ns name s of
        Inl _ \<Rightarrow> None
      | Inr subs \<Rightarrow>
          (case filterSubscriptionsByTenantNamespace c subs (mrr_DefaultTenantNamespace r)
                  (mrr_TenantNamespaceDiscoveryEnabled r) s of
             [] \<Rightarrow> None | x # _ \<Rightarrow> Some x))"

definition model_findAnyAuthPolicy ::
  "('s, 'm) client_scheme \<Rightarrow> MaaSModelRefReconciler \<Rightarrow> string \<Rightarrow> string \<Rightarrow> 's \<Rightarrow> MaaSAuthPolicy option"
where
  "model_findAnyAuthPolicy c r ns name s =
     (case findAllAuthPoliciesForModel c ns name s of
        Inl _ \<Rightarrow> None
      | Inr policies \<Rightarrow>
          (case filterAuthPoliciesByTenantNamespace c policies (mrr_DefaultTenantNamespace r)
                  (mrr_TenantNamespaceDiscoveryEnabled r) s of
             [] \<Rightarrow> None | x # _ \<Rightarrow> Some x))"

definition checkGovernanceAttached ::
  "('s, 'm) client_scheme \<Rightarrow> MaaSModelRefReconciler \<Rightarrow> MaaSModelRef \<Rightarrow> 's \<Rightarrow> bool" where
  "checkGovernanceAttached c r model s \<longleftrightarrow>
     (let ns = om_Namespace (mm_meta model); name = om_Name (mm_meta model)
      in model_findAnySubscription c r ns name s \<noteq> None
         \<and> model_findAnyAuthPolicy c r ns name s \<noteq> None)"

section \<open>Conditions\<close>

definition setCondition :: "metaApi \<Rightarrow> string \<Rightarrow> string \<Rightarrow> string \<Rightarrow> string \<Rightarrow> MaaSModelRef \<Rightarrow> MaaSModelRef"
where
  "setCondition a typ status reason message model =
     onStatus (\<lambda>st. st\<lparr>mst_Conditions := SetStatusCondition a (mst_Conditions st)
       \<lparr>c_Type = typ, c_Status = status, c_Reason = reason, c_Message = message,
        c_ObservedGeneration = om_Generation (mm_meta model)\<rparr>\<rparr>) model"

definition setGovernanceCondition :: "metaApi \<Rightarrow> MaaSModelRef \<Rightarrow> bool \<Rightarrow> MaaSModelRef" where
  "setGovernanceCondition a model governed =
     (if governed then
        setCondition a ConditionGovernanceAttached ''True'' ''GovernancePaired''
          ''Active governance pairing found'' model
      else
        (case FindStatusCondition a (mst_Conditions (mm_Status model)) ConditionGovernanceAttached of
           Some prev \<Rightarrow>
             if c_Status prev = ''True'' then
               setCondition a ConditionGovernanceAttached ''False'' ''GovernanceGap''
                 ''Governance pairing lost'' model
             else setCondition a ConditionGovernanceAttached ''False'' ''NoPairingFound''
                    ''No active subscription and auth policy pairing found'' model
         | None \<Rightarrow>
             setCondition a ConditionGovernanceAttached ''False'' ''NoPairingFound''
               ''No active subscription and auth policy pairing found'' model))"

definition setRuntimeReadyCondition :: "metaApi \<Rightarrow> MaaSModelRef \<Rightarrow> bool \<Rightarrow> MaaSModelRef" where
  "setRuntimeReadyCondition a model ready =
     (if ready then setCondition a ConditionRuntimeReady ''True'' ''RuntimeHealthy''
                      ''Backend is healthy'' model
      else setCondition a ConditionRuntimeReady ''False'' ''RuntimeHealthFailure''
             ''Backend is not ready'' model)"

definition deriveModelPhase :: "bool \<Rightarrow> bool \<Rightarrow> string \<times> string" where
  "deriveModelPhase governed runtimeReady =
     (if governed \<and> runtimeReady then (''Ready'', ''Governed and runtime-healthy'')
      else if governed \<and> \<not> runtimeReady then (''Unhealthy'', ''Governed but backend is not ready'')
      else if \<not> governed \<and> runtimeReady then (''Pending'', ''Awaiting governance pairing'')
      else (''Pending'', ''Awaiting governance pairing and backend readiness''))"

section \<open>Models that share an identity\<close>

definition pluralS :: "nat \<Rightarrow> string" where
  "pluralS n = (if n = 1 then [] else ''s'')"

definition aliasConflicts :: "MaaSModelRef list \<Rightarrow> MaaSModelRef \<Rightarrow> string list" where
  "aliasConflicts siblings model =
     goSort (<) (map (\<lambda>m. om_Name (mm_meta m))
       (filter (\<lambda>m. om_Name (mm_meta m) \<noteq> om_Name (mm_meta model)
          \<and> mst_ResolvedModelAlias (mm_Status m) = mst_ResolvedModelAlias (mm_Status model)) siblings))"

definition findModelAliasConflicts ::
  "('s, 'm) client_scheme \<Rightarrow> MaaSModelRef \<Rightarrow> 's \<Rightarrow> string list ctl" where
  "findModelAliasConflicts c model s =
     (let alias = mst_ResolvedModelAlias (mm_Status model); ns = om_Namespace (mm_meta model)
      in if alias = [] then Ok []
         else
           (case listModelRefsIn c ns s of
              Inl e \<Rightarrow> Err (wrapApi (''list MaaSModelRefs in namespace '' @ ns) e)
            | Inr siblings \<Rightarrow> Ok (aliasConflicts siblings model)))"

definition truncateMessage :: "string \<Rightarrow> string" where
  "truncateMessage msg = (if length msg > 1024 then take 1021 msg @ ''...'' else msg)"

definition setModelIdentityCondition :: "metaApi \<Rightarrow> MaaSModelRef \<Rightarrow> string list \<Rightarrow> MaaSModelRef" where
  "setModelIdentityCondition a model conflicts =
     (if conflicts = [] then
        setCondition a ConditionModelIdentityUnique ''True'' ''UniqueIdentity''
          ''No other MaaSModelRef in this namespace resolves to the same model identity'' model
      else
        setCondition a ConditionModelIdentityUnique ''False'' ''ModelNameConflict''
          (truncateMessage (''Model identity '' @ Quote (mst_ResolvedModelAlias (mm_Status model))
             @ '' is shared with '' @ itoaNat (length conflicts) @ '' other MaaSModelRef''
             @ pluralS (length conflicts) @ '' in namespace '' @ om_Namespace (mm_meta model)
             @ '': '' @ Join conflicts '', '' @ ''. Body-based routing selects a backend by model ''
             @ ''identity alone and cannot disambiguate MaaSModelRefs that resolve to the same ''
             @ ''identity '' @ emDash @ '' requests may be routed to the wrong backend or evaluated ''
             @ ''against the wrong subscription. Give each model a unique spec.model.name to ''
             @ ''resolve this.'')) model)"

definition checkModelIdentityConflict ::
  "('s, 'm) client_scheme \<Rightarrow> metaApi \<Rightarrow> MaaSModelRefReconciler \<Rightarrow> MaaSModelRef \<Rightarrow> 's
     \<Rightarrow> MaaSModelRef \<times> 's" where
  "checkModelIdentityConflict c a r model s =
     (if mst_ResolvedModelAlias (mm_Status model) = [] then
        (setCondition a ConditionModelIdentityUnique ''Unknown'' ''AliasNotResolved''
           ''Model alias has not been resolved yet; conflict status is unknown'' model, s)
      else
        let prev = FindStatusCondition a (mst_Conditions (mm_Status model)) ConditionModelIdentityUnique
        in case findModelAliasConflicts c model s of
             Inl e \<Rightarrow> (setCondition a ConditionModelIdentityUnique ''Unknown'' ''ConflictCheckFailed''
                         (ce_text e) model, s)
           | Inr conflicts \<Rightarrow>
               let model' = setModelIdentityCondition a model conflicts
               in case FindStatusCondition a (mst_Conditions (mm_Status model'))
                         ConditionModelIdentityUnique of
                    None \<Rightarrow> (model', s)
                  | Some now1 \<Rightarrow>
                      if \<not> mrr_HasRecorder r then (model', s)
                      else
                        let s1 = (if c_Status now1 = ''False''
                                    \<and> (case prev of None \<Rightarrow> True
                                       | Some p \<Rightarrow> c_Status p \<noteq> c_Status now1
                                                   \<or> c_Message p \<noteq> c_Message now1)
                                  then recordEvent c ''Warning'' ''ModelNameConflict''
                                         (''Model identity '' @ Quote (mst_ResolvedModelAlias (mm_Status model'))
                                          @ '' is shared with '' @ itoaNat (length conflicts)
                                          @ '' other MaaSModelRef'' @ pluralS (length conflicts)
                                          @ '' in this namespace: '' @ Join conflicts '', '') s
                                  else s);
                            s2 = (if c_Status now1 = ''True''
                                    \<and> (case prev of None \<Rightarrow> False | Some p \<Rightarrow> c_Status p = ''False'')
                                  then recordEvent c ''Normal'' ''ModelNameConflictResolved''
                                         ''Model identity is no longer shared with any other MaaSModelRef in this namespace'' s1
                                  else s1)
                        in (model', s2))"

section \<open>Status and deletion\<close>

definition updateStatusWithReason ::
  "('s, 'm) client_scheme \<Rightarrow> metaApi \<Rightarrow> MaaSModelRef \<Rightarrow> string \<Rightarrow> string \<Rightarrow> string \<Rightarrow> MaaSModelStatus
     \<Rightarrow> 's \<Rightarrow> 's" where
  "updateStatusWithReason c a model phase message reason statusSnapshot s =
     (let status = (if phase \<noteq> ''Ready'' then ''False'' else ''True'');
          condReason =
            (if phase \<noteq> ''Ready'' then
               (if reason \<noteq> [] then reason
                else if phase = ''Failed'' then ''ReconcileFailed''
                else if phase = ''Invalid'' then ''InvalidSpec''
                else ''BackendNotReady'')
             else ''Reconciled'');
          model' = setCondition a ''Ready'' status condReason message
                     (onStatus (\<lambda>st. st\<lparr>mst_Phase := phase\<rparr>) model)
      in if eqModelStatus a statusSnapshot (mm_Status model') then s
         else snd (updateModelRefStatus c model' s))"

definition Model_updateStatus ::
  "('s, 'm) client_scheme \<Rightarrow> metaApi \<Rightarrow> MaaSModelRef \<Rightarrow> string \<Rightarrow> string \<Rightarrow> MaaSModelStatus \<Rightarrow> 's \<Rightarrow> 's"
where
  "Model_updateStatus c a model phase message statusSnapshot s =
     updateStatusWithReason c a model phase message [] statusSnapshot s"

datatype generatedKind = GenAuthPolicy | GenTokenRateLimitPolicy

definition kindName :: "generatedKind \<Rightarrow> string" where
  "kindName kind =
     (case kind of GenAuthPolicy \<Rightarrow> ''AuthPolicy'' | GenTokenRateLimitPolicy \<Rightarrow> ''TokenRateLimitPolicy'')"

definition listGenerated ::
  "('s, 'm) client_scheme \<Rightarrow> generatedKind \<Rightarrow> string \<Rightarrow> string \<Rightarrow> ('s, uobj list) cread" where
  "listGenerated c kind ns modelName =
     (case kind of GenAuthPolicy \<Rightarrow> listKuadrantAuthPolicies c | GenTokenRateLimitPolicy \<Rightarrow> listTRLPs c)
       (Some ns) [(''maas.opendatahub.io/model'', modelName),
                  (''app.kubernetes.io/managed-by'', ''maas-controller'')]"

definition deleteGenerated :: "('s, 'm) client_scheme \<Rightarrow> generatedKind \<Rightarrow> uobj \<Rightarrow> 's cwrite" where
  "deleteGenerated c kind =
     (case kind of GenAuthPolicy \<Rightarrow> deleteKuadrantAuthPolicy c | GenTokenRateLimitPolicy \<Rightarrow> deleteTRLP c)"

fun deleteGeneratedLoop ::
  "('s, 'm) client_scheme \<Rightarrow> generatedKind \<Rightarrow> uobj list \<Rightarrow> 's \<Rightarrow> 's moutcome" where
  "deleteGeneratedLoop c kind [] s = (None, s)"
| "deleteGeneratedLoop c kind (p # ps) s =
     (if \<not> isManaged (u_meta p) then deleteGeneratedLoop c kind ps s
      else
        (case deleteGenerated c kind p s of
           (err, s') \<Rightarrow>
             (case err of
                None \<Rightarrow> deleteGeneratedLoop c kind ps s'
              | Some e \<Rightarrow>
                  if IsNotFound e then deleteGeneratedLoop c kind ps s'
                  else (Some (wrapApi (''failed to delete '' @ kindName kind @ '' '' @ om_Namespace (u_meta p) @ ''/''
                     @ om_Name (u_meta p)) e), s'))))"

definition deleteGeneratedPoliciesByLabel ::
  "('s, 'm) client_scheme \<Rightarrow> string \<Rightarrow> string \<Rightarrow> generatedKind \<Rightarrow> 's \<Rightarrow> 's moutcome" where
  "deleteGeneratedPoliciesByLabel c modelNamespace modelName kind s =
     (case listGenerated c kind modelNamespace modelName s of
        Inl e \<Rightarrow>
          if IsNotFound e \<or> IsNoMatchError e then (None, s)
          else (Some (wrapApi (''failed to list '' @ kindName kind @ '' resources for model ''
                     @ modelName) e), s)
      | Inr items \<Rightarrow> deleteGeneratedLoop c kind items s)"

definition Model_handleDeletion ::
  "('s, 'm) client_scheme \<Rightarrow> metaApi \<Rightarrow> MaaSModelRefReconciler \<Rightarrow> MaaSModelRef \<Rightarrow> 's \<Rightarrow> 's moutcome"
where
  "Model_handleDeletion c a r model s =
     (if \<not> ContainsFinalizer (mm_meta model) maasModelFinalizer then (None, s)
      else
        let ns = om_Namespace (mm_meta model); name = om_Name (mm_meta model)
        in case deleteGeneratedPoliciesByLabel c ns name GenAuthPolicy s of
             (Some e, s1) \<Rightarrow> (Some e, s1)
           | (None, s1) \<Rightarrow>
               (case deleteGeneratedPoliciesByLabel c ns name GenTokenRateLimitPolicy s1 of
                  (Some e, s2) \<Rightarrow> (Some e, s2)
                | (None, s2) \<Rightarrow>
                    (case (case GetBackendHandler c (accessors a) r (mr_Kind (mm_Spec model)) of
                             None \<Rightarrow> (None, s2)
                           | Some h \<Rightarrow> CleanupOnDelete h model s2) of
                       (Some e, s3) \<Rightarrow> (Some e, s3)
                     | (None, s3) \<Rightarrow>
                         (case updateModelRef c
                                 (model\<lparr>mm_meta := RemoveFinalizer a (mm_meta model) maasModelFinalizer\<rparr>) s3
                          of (err, s4) \<Rightarrow> (map_option ofApi err, s4)))))"

section \<open>Reconciliation\<close>

text \<open>From the backend's answer to the status that is written.\<close>

definition withEndpoint :: "string \<Rightarrow> MaaSModelRef \<Rightarrow> MaaSModelRef" where
  "withEndpoint ep model = onStatus (\<lambda>st. st\<lparr>mst_Endpoint := ep\<rparr>) model"

definition finishReconcile ::
  "('s, 'm) client_scheme \<Rightarrow> metaApi \<Rightarrow> MaaSModelRefReconciler \<Rightarrow> 's BackendHandler \<Rightarrow> MaaSModelRef
     \<Rightarrow> string \<Rightarrow> bool \<Rightarrow> MaaSModelStatus \<Rightarrow> 's \<Rightarrow> 's" where
  "finishReconcile c a r h model endpoint runtimeReady statusSnapshot s =
     (let model = withEndpoint (if mr_EndpointOverride (mm_Spec model) \<noteq> []
                                then mr_EndpointOverride (mm_Spec model) else endpoint) model;
          model = (case ResolveModelAlias h model s of
              Inl _ \<Rightarrow> model
            | Inr alias \<Rightarrow>
                if alias \<noteq> [] then onStatus (\<lambda>st. st\<lparr>mst_ResolvedModelAlias := alias\<rparr>) model
                else model);
          governed = checkGovernanceAttached c r model s;
          model = setRuntimeReadyCondition a (setGovernanceCondition a model governed) runtimeReady;
          (model, s) = checkModelIdentityConflict c a r model s;
          (phase, message) = deriveModelPhase governed runtimeReady;
          model = (if phase \<noteq> ''Ready'' then withEndpoint [] model else model)
      in Model_updateStatus c a model phase message statusSnapshot s)"

definition reconcileBackend ::
  "('s, 'm) client_scheme \<Rightarrow> metaApi \<Rightarrow> MaaSModelRefReconciler \<Rightarrow> MaaSModelRef \<Rightarrow> 's \<Rightarrow> 's moutcome"
where
  "reconcileBackend c a r model s =
     (let statusSnapshot = mm_Status model; kind = mr_Kind (mm_Spec model)
      in case GetBackendHandler c (accessors a) r kind of
           None \<Rightarrow> (None, Model_updateStatus c a model ''Failed'' (''unknown kind: '' @ kind)
                           statusSnapshot s)
         | Some h \<Rightarrow>
             (case ReconcileRoute h model s of
                (Some e, model) \<Rightarrow>
                  if ctlIs e ErrKindNotImplemented then
                    (None, updateStatusWithReason c a model ''Failed'' (''kind not implemented: '' @ kind)
                             ''Unsupported'' statusSnapshot s)
                  else if ctlIs e ErrHTTPRouteNotFound then
                    (None, Model_updateStatus c a (withEndpoint [] model) ''Pending''
                             ''Waiting for HTTPRoute to be created'' statusSnapshot s)
                  else if ctlIs e ErrTenantResolutionPending then
                    (None, Model_updateStatus c a (withEndpoint [] model) ''Pending''
                             (''Waiting for tenant resolution: '' @ ce_text e) statusSnapshot s)
                  else
                    (Some e, Model_updateStatus c a model ''Failed''
                               (''Failed to reconcile HTTPRoute: '' @ ce_text e) statusSnapshot s)
              | (None, model) \<Rightarrow>
                  (case Status h model s of
                     Inl e \<Rightarrow>
                       if ctlIs e ErrKindNotImplemented then
                         (None, updateStatusWithReason c a (withEndpoint [] model) ''Failed''
                                  (''kind not implemented: '' @ kind) ''Unsupported'' statusSnapshot s)
                       else
                         (Some e, Model_updateStatus c a (withEndpoint [] model) ''Failed''
                                    (''Failed to update model status: '' @ ce_text e) statusSnapshot s)
                   | Inr (endpoint, runtimeReady) \<Rightarrow>
                       (None, finishReconcile c a r h model endpoint runtimeReady statusSnapshot s))))"

definition Model_Reconcile ::
  "('s, 'm) client_scheme \<Rightarrow> metaApi \<Rightarrow> MaaSModelRefReconciler \<Rightarrow> string \<times> string \<Rightarrow> 's \<Rightarrow> 's moutcome"
where
  "Model_Reconcile c a r req s =
     (case getModelRef c (fst req) (snd req) s of
        Inl e \<Rightarrow> (if IsNotFound e then None else Some (ofApi e), s)
      | Inr model \<Rightarrow>
          if om_Deleting (mm_meta model) then Model_handleDeletion c a r model s
          else if mm_Spec model = emptyModelSpec then
            (None, Model_updateStatus c a model ''Invalid'' ''spec is required'' (mm_Status model) s)
          else if ContainsFinalizer (mm_meta model) maasModelFinalizer then
            reconcileBackend c a r model s
          else
            (let model' = model\<lparr>mm_meta := AddFinalizer a (mm_meta model) maasModelFinalizer\<rparr>
             in case updateModelRef c model' s of
                  (Some e, s') \<Rightarrow> (Some (ofApi e), s')
                | (None, s') \<Rightarrow> reconcileBackend c a r model' s'))"

section \<open>From watched objects to requests\<close>

definition modelRequest :: "MaaSModelRef \<Rightarrow> string \<times> string" where
  "modelRequest m = (om_Namespace (mm_meta m), om_Name (mm_meta m))"

definition modelRefNameIndexer :: "MaaSModelRef \<Rightarrow> string list" where
  "modelRefNameIndexer m = (if mr_RefName (mm_Spec m) = [] then [] else [mr_RefName (mm_Spec m)])"

definition tenantAssociationUnresolved :: string where
  "tenantAssociationUnresolved = ''_unresolved_''"

definition tenantAssociationIndexer :: "MaaSModelRef \<Rightarrow> string list" where
  "tenantAssociationIndexer m =
     (if mr_TenantRef (mm_Spec m) \<noteq> [] then [mr_TenantRef (mm_Spec m)]
      else if mst_ResolvedTenantRef (mm_Status m) \<noteq> [] then [mst_ResolvedTenantRef (mm_Status m)]
      else [tenantAssociationUnresolved])"

definition mapHTTPRouteToMaaSModelRefs ::
  "('s, 'm) client_scheme \<Rightarrow> HTTPRoute \<Rightarrow> 's \<Rightarrow> (string \<times> string) list" where
  "mapHTTPRouteToMaaSModelRefs c route s =
     (case listModelRefsIn c (om_Namespace (hr_meta route)) s of
        Inl _ \<Rightarrow> [] | Inr models \<Rightarrow> map modelRequest models)"

definition enqueueSiblingsWithAlias ::
  "('s, 'm) client_scheme \<Rightarrow> MaaSModelRef \<Rightarrow> string \<Rightarrow> 's \<Rightarrow> (string \<times> string) list" where
  "enqueueSiblingsWithAlias c changed oldAlias s =
     (let newAlias = mst_ResolvedModelAlias (mm_Status changed)
      in if newAlias = [] \<and> oldAlias = [] then []
         else
           (case listModelRefsIn c (om_Namespace (mm_meta changed)) s of
              Inl _ \<Rightarrow> []
            | Inr siblings \<Rightarrow>
                map modelRequest (filter (\<lambda>m. om_Name (mm_meta m) \<noteq> om_Name (mm_meta changed)
                  \<and> (newAlias \<noteq> [] \<and> mst_ResolvedModelAlias (mm_Status m) = newAlias
                     \<or> oldAlias \<noteq> [] \<and> mst_ResolvedModelAlias (mm_Status m) = oldAlias)) siblings)))"

definition mapMaaSSubscriptionToMaaSModelRefs ::
  "('s, 'm) client_scheme \<Rightarrow> MaaSModelRefReconciler \<Rightarrow> MaaSSubscription \<Rightarrow> 's \<Rightarrow> (string \<times> string) list"
where
  "mapMaaSSubscriptionToMaaSModelRefs c r sub s =
     (if \<not> isTenantNamespace c (om_Namespace (ms_meta sub)) (mrr_DefaultTenantNamespace r)
             (mrr_TenantNamespaceDiscoveryEnabled r) s then []
      else dedupOn id [] (map (\<lambda>ref. (msr_Namespace ref, msr_Name ref)) (ss_ModelRefs (ms_Spec sub))))"

definition mapMaaSAuthPolicyToMaaSModelRefs ::
  "('s, 'm) client_scheme \<Rightarrow> MaaSModelRefReconciler \<Rightarrow> MaaSAuthPolicy \<Rightarrow> 's \<Rightarrow> (string \<times> string) list"
where
  "mapMaaSAuthPolicyToMaaSModelRefs c r policy s =
     (if \<not> isTenantNamespace c (om_Namespace (ma_meta policy)) (mrr_DefaultTenantNamespace r)
             (mrr_TenantNamespaceDiscoveryEnabled r) s then []
      else dedupOn id [] (map (\<lambda>ref. (mref_Namespace ref, mref_Name ref)) (as_ModelRefs (ma_Spec policy))))"

definition mapAITenantToMaaSModelRefs ::
  "('s, 'm) client_scheme \<Rightarrow> AITenant \<Rightarrow> 's \<Rightarrow> (string \<times> string) list" where
  "mapAITenantToMaaSModelRefs c tenant s =
     (case listModelRefsByTenant c (om_Name (at_meta tenant)) s of
        Inl _ \<Rightarrow> []
      | Inr associated \<Rightarrow>
          (case listModelRefsByTenant c tenantAssociationUnresolved s of
             Inl _ \<Rightarrow> []
           | Inr unresolved \<Rightarrow> dedupOn id [] (map modelRequest (associated @ unresolved))))"

definition mapLLMISvcToMaaSModelRefs ::
  "('s, 'm) client_scheme \<Rightarrow> string \<Rightarrow> string \<Rightarrow> 's \<Rightarrow> (string \<times> string) list" where
  "mapLLMISvcToMaaSModelRefs c svcNamespace svcName s =
     (case listModelRefsByName c svcName s of
        Inl _ \<Rightarrow> []
      | Inr models \<Rightarrow>
          map modelRequest (filter (\<lambda>m. mr_Kind (mm_Spec m) = ''LLMInferenceService''
            \<and> om_Namespace (mm_meta m) = svcNamespace) models))"

text \<open>\<open>llmisvcReadyStatus\<close> and its counterpart for objects without a Go type.\<close>

definition llmisvcReadyStatus :: "LLMInferenceService \<Rightarrow> string" where
  "llmisvcReadyStatus svc =
     (case find (\<lambda>(t, v). t = ''Ready'') (li_Conditions svc) of Some (_, v) \<Rightarrow> v | None \<Rightarrow> [])"

fun readyStatusIn :: "json list \<Rightarrow> string" where
  "readyStatusIn [] = []"
| "readyStatusIn (x # xs) =
     (case asMap x of
        None \<Rightarrow> readyStatusIn xs
      | Some cond \<Rightarrow>
          if map_of cond ''type'' = Some (JStr ''Ready'') then
            (case fieldAs asString cond ''status'' of Some v \<Rightarrow> v | None \<Rightarrow> readyStatusIn xs)
          else readyStatusIn xs)"

definition unstructuredLLMIsvcReadyStatus :: "k8sApi \<Rightarrow> uobj \<Rightarrow> string" where
  "unstructuredLLMIsvcReadyStatus k obj =
     (case NestedSlice k (u_Object obj) [''status'', ''conditions''] of
        None \<Rightarrow> [] | Some conditions \<Rightarrow> readyStatusIn conditions)"

end
