(* ===== verification/RateLimits.thy ===== *)
theory RateLimits
  imports ModelRoutes MemCluster
begin

text \<open>
  The pure part of \<open>pkg/controller/maas/maassubscription_controller.go\<close>: which token rate limits
  are accepted, which limits the policy of a model gets from its subscriptions, what the health of
  the models and policies says about a subscription, and the phase derived from it.
\<close>

section \<open>Accepting a rate limit\<close>

definition maxTokenRateLimit :: int where
  "maxTokenRateLimit = 1000000000"

definition maxWindowSeconds :: int where
  "maxWindowSeconds = 366 * 24 * 3600"

text \<open>\<open>^[1-9]\d{0,3}(s|m|h)$\<close>\<close>

definition windowPattern :: re where
  "windowPattern =
     RSeq (RClass (byteIn 49 57))
       (RSeq (ROpt (RClass isDigit))
         (RSeq (ROpt (RClass isDigit))
           (RSeq (ROpt (RClass isDigit)) (RClass (\<lambda>c. c \<in> set ''smh'')))))"

datatype limit_error =
    LimitNotPositive int
  | LimitTooLarge int
  | BadWindowFormat string
  | BadWindowNumber string
  | WindowTooLong string int

text \<open>
  The only capturing group is the last byte of a match. \<open>None\<close> is Go's nil error.
\<close>

definition validateTokenRateLimit :: "int \<Rightarrow> string \<Rightarrow> limit_error option" where
  "validateTokenRateLimit limit window =
     (if limit \<le> 0 then Some (LimitNotPositive limit)
      else if limit > maxTokenRateLimit then Some (LimitTooLarge limit)
      else if \<not> reMatch windowPattern window then Some (BadWindowFormat window)
      else
        let unit = [last window];
            numStr = take (length window - length unit) window
        in case ParseInt64 numStr of
             None \<Rightarrow> Some (BadWindowNumber numStr)
           | Some value1 \<Rightarrow>
               let seconds =
                     (if unit = ''s'' then value1
                      else if unit = ''m'' then wrap64 (value1 * 60)
                      else if unit = ''h'' then wrap64 (value1 * 3600)
                      else 0)
               in if seconds > maxWindowSeconds then Some (WindowTooLong window seconds)
                  else None)"

section \<open>The limits of a model's policy\<close>

definition rateOf :: "int \<Rightarrow> string \<Rightarrow> json" where
  "rateOf limit window = JObj [(''limit'', JInt limit), (''window'', JStr window)]"

text \<open>
  The rates one reference contributes: \<open>None\<close> when one of its limits is invalid; a reference
  without limits gets 100 tokens a minute.
\<close>

definition ratesOf :: "ModelSubscriptionRef \<Rightarrow> json list option" where
  "ratesOf mRef =
     (if msr_TokenRateLimits mRef = [] then Some [rateOf 100 ''1m'']
      else if list_all (\<lambda>trl. validateTokenRateLimit (trl_Limit trl) (trl_Window trl) = None)
                (msr_TokenRateLimits mRef)
      then Some (map (\<lambda>trl. rateOf (trl_Limit trl) (trl_Window trl)) (msr_TokenRateLimits mRef))
      else None)"

record subInfo =
  si_sub :: MaaSSubscription
  si_mRef :: ModelSubscriptionRef
  si_rates :: "json list"

text \<open>The first valid reference of a subscription to the model (the inner loop).\<close>

fun firstValidRef ::
  "string \<Rightarrow> string \<Rightarrow> MaaSSubscription \<Rightarrow> ModelSubscriptionRef list \<Rightarrow> subInfo list" where
  "firstValidRef ns name sub [] = []"
| "firstValidRef ns name sub (mRef # refs) =
     (if msr_Namespace mRef \<noteq> ns \<or> msr_Name mRef \<noteq> name then firstValidRef ns name sub refs
      else case ratesOf mRef of
             None \<Rightarrow> firstValidRef ns name sub refs
           | Some rates \<Rightarrow> [\<lparr>si_sub = sub, si_mRef = mRef, si_rates = rates\<rparr>])"

definition collectSubs :: "string \<Rightarrow> string \<Rightarrow> MaaSSubscription list \<Rightarrow> subInfo list" where
  "collectSubs ns name allSubs =
     concat (map (\<lambda>sub. firstValidRef ns name sub (ss_ModelRefs (ms_Spec sub))) allSubs)"

definition subRefOf :: "MaaSSubscription \<Rightarrow> string" where
  "subRefOf sub = om_Namespace (ms_meta sub) @ ''/'' @ om_Name (ms_meta sub)"

definition modelScopedRef :: "subInfo \<Rightarrow> string" where
  "modelScopedRef si =
     subRefOf (si_sub si) @ ''@'' @ msr_Namespace (si_mRef si) @ ''/'' @ msr_Name (si_mRef si)"

definition limitKey :: "subInfo \<Rightarrow> string" where
  "limitKey si =
     ReplaceAll (subRefOf (si_sub si)) CHR ''/'' CHR ''-'' @ ''-'' @ msr_Name (si_mRef si)
       @ ''-tokens''"

definition dquote :: string where
  "dquote = [CHR 0x22]"

definition limitPredicate :: "subInfo \<Rightarrow> string" where
  "limitPredicate si =
     ''auth.identity.selected_subscription_key == '' @ dquote @ modelScopedRef si @ dquote
       @ '' && !request.path.endsWith('' @ dquote @ ''/v1/models'' @ dquote @ '')''"

definition limitOf :: "subInfo \<Rightarrow> json" where
  "limitOf si =
     JObj [(''rates'', JArr (si_rates si)),
           (''when'', JArr [JObj [(''predicate'', JStr (limitPredicate si))]]),
           (''counters'', JArr [JObj [(''expression'', JStr ''auth.identity.userid'')]])]"

definition limitsMap :: "subInfo list \<Rightarrow> jmap" where
  "limitsMap subs = foldl (\<lambda>m si. AList.update (limitKey si) (limitOf si) m) [] subs"

definition subNamesOf :: "subInfo list \<Rightarrow> string list" where
  "subNamesOf subs =
     goSort (<) (map (\<lambda>si. qualifiedName (om_Namespace (ms_meta (si_sub si)))
                             (om_Name (ms_meta (si_sub si)))) subs)"

definition trlpName :: "string \<Rightarrow> string" where
  "trlpName modelName = ''maas-trlp-'' @ modelName"

definition trlpLabels :: "string \<Rightarrow> string \<Rightarrow> labels" where
  "trlpLabels modelNamespace modelName =
     [(''maas.opendatahub.io/model'', modelName),
      (''maas.opendatahub.io/model-namespace'', modelNamespace),
      (''app.kubernetes.io/managed-by'', ''maas-controller''),
      (''app.kubernetes.io/part-of'', ''maas-subscription''),
      (''app.kubernetes.io/component'', ''token-rate-limit-policy'')]"

definition trlpAnnotations :: "subInfo list \<Rightarrow> labels" where
  "trlpAnnotations subs = [(''maas.opendatahub.io/subscriptions'', Join (subNamesOf subs) '','')]"

definition trlpSpec :: "string \<Rightarrow> subInfo list \<Rightarrow> jmap" where
  "trlpSpec httpRouteName subs =
     [(''targetRef'', JObj [(''group'', JStr ''gateway.networking.k8s.io''),
                            (''kind'', JStr ''HTTPRoute''),
                            (''name'', JStr httpRouteName)]),
      (''limits'', JObj (limitsMap subs))]"

section \<open>Health of models and policies\<close>

definition crdRefKey :: "ModelSubscriptionRef \<Rightarrow> string" where
  "crdRefKey ref = msr_Namespace ref @ ''/'' @ msr_Name ref"

definition uniqueRefs :: "MaaSSubscription \<Rightarrow> ModelSubscriptionRef list" where
  "uniqueRefs sub = dedupOn crdRefKey [] (ss_ModelRefs (ms_Spec sub))"

definition modelRefStatus ::
  "('s, 'm) client_scheme \<Rightarrow> 's \<Rightarrow> ModelSubscriptionRef \<Rightarrow> ModelRefStatus" where
  "modelRefStatus c s ref =
     (let base = \<lparr>rs_Name = msr_Name ref, rs_Namespace = msr_Namespace ref, rs_Ready = False,
                  rs_Reason = [], rs_Message = []\<rparr>
      in case getModelRef c (msr_Namespace ref) (msr_Name ref) s of
           Inl e \<Rightarrow>
             if IsNotFound e then
               base\<lparr>rs_Reason := ''NotFound'',
                    rs_Message := ''MaaSModelRef '' @ msr_Namespace ref @ ''/'' @ msr_Name ref
                                    @ '' not found''\<rparr>
             else base\<lparr>rs_Reason := ''GetFailed'',
                       rs_Message := ''failed to get MaaSModelRef: '' @ k8sText e\<rparr>
         | Inr _ \<Rightarrow> base\<lparr>rs_Ready := True, rs_Reason := ''Valid''\<rparr>)"

definition validateModelRefs ::
  "('s, 'm) client_scheme \<Rightarrow> MaaSSubscription \<Rightarrow> 's \<Rightarrow> ModelRefStatus list" where
  "validateModelRefs c sub s = map (modelRefStatus c s) (uniqueRefs sub)"

text \<open>The loop over the conditions of a policy's status: the first \<open>Accepted\<close> condition decides.\<close>

fun acceptedIn :: "json list \<Rightarrow> bool \<times> string" where
  "acceptedIn [] = (False, ''Accepted condition not found'')"
| "acceptedIn (c # cs) =
     (case asMap c of
        None \<Rightarrow> acceptedIn cs
      | Some cond \<Rightarrow>
          if map_of cond ''type'' = Some (JStr ''Accepted'') then
            if map_of cond ''status'' = Some (JStr ''True'') then (True, [])
            else (case fieldAs asString cond ''message'' of
                    Some msg \<Rightarrow> (False, msg)
                  | None \<Rightarrow> (False, ''Accepted condition is False''))
          else acceptedIn cs)"

definition getTRLPAcceptedCondition :: "k8sApi \<Rightarrow> uobj \<Rightarrow> bool \<times> string" where
  "getTRLPAcceptedCondition k trlp =
     (case NestedMap k (u_Object trlp) [''status''] of
        None \<Rightarrow> (False, ''status not available'')
      | Some status \<Rightarrow>
          (case NestedSlice k status [''conditions''] of
             None \<Rightarrow> (False, ''conditions not found'')
           | Some conditions \<Rightarrow> acceptedIn conditions))"

definition trlpStatus ::
  "('s, 'm) client_scheme \<Rightarrow> k8sApi \<Rightarrow> 's \<Rightarrow> ModelSubscriptionRef \<Rightarrow> CrdTokenRateLimitStatus" where
  "trlpStatus c k s ref =
     (let policyName = trlpName (msr_Name ref);
          base = \<lparr>rs_Name = policyName, rs_Namespace = msr_Namespace ref, rs_Ready = False,
                  rs_Reason = [], rs_Message = [], rs_Model = msr_Name ref\<rparr>
      in case findHTTPRouteForModel c k (msr_Namespace ref) (msr_Name ref) s of
           Inl e \<Rightarrow>
             if ctlIs e ErrHTTPRouteNotFound \<or> ctlIs e ErrModelNotFound then
               base\<lparr>rs_Reason := ''BackendNotReady'',
                    rs_Message := ''HTTPRoute not found yet; TokenRateLimitPolicy cannot be created: ''
                                    @ ce_text e\<rparr>
             else base\<lparr>rs_Reason := ''GetFailed'',
                       rs_Message := ''failed to find HTTPRoute for model: '' @ ce_text e\<rparr>
         | Inr (_, httpRouteNS) \<Rightarrow>
             let base = base\<lparr>rs_Namespace := httpRouteNS\<rparr>
             in case getTRLP c httpRouteNS policyName s of
                  Inl e \<Rightarrow>
                    if IsNotFound e then
                      base\<lparr>rs_Reason := ''NotFound'',
                           rs_Message := ''TokenRateLimitPolicy not created yet''\<rparr>
                    else base\<lparr>rs_Reason := ''GetFailed'',
                              rs_Message := ''failed to get TokenRateLimitPolicy: '' @ k8sText e\<rparr>
                | Inr trlp \<Rightarrow>
                    let (accepted, message) = getTRLPAcceptedCondition k trlp
                    in if accepted then base\<lparr>rs_Ready := True, rs_Reason := ''Accepted''\<rparr>
                       else base\<lparr>rs_Reason := ''NotAccepted'', rs_Message := message\<rparr>)"

definition checkTokenRateLimitHealth ::
  "('s, 'm) client_scheme \<Rightarrow> k8sApi \<Rightarrow> MaaSSubscription \<Rightarrow> 's \<Rightarrow> CrdTokenRateLimitStatus list" where
  "checkTokenRateLimitHealth c k sub s = map (trlpStatus c k s) (uniqueRefs sub)"

text \<open>
  The correction of stale model statuses: a Go map assignment keeps the last message for a key.
\<close>

definition backendNotReady :: "CrdTokenRateLimitStatus list \<Rightarrow> (string \<times> string) list" where
  "backendNotReady trlps =
     rev (map (\<lambda>ts. (rs_Namespace ts @ ''/'' @ rs_Model ts, rs_Message ts))
           (filter (\<lambda>ts. rs_Reason ts = ''BackendNotReady'') trlps))"

definition correctStale ::
  "ModelRefStatus list \<Rightarrow> CrdTokenRateLimitStatus list \<Rightarrow> ModelRefStatus list" where
  "correctStale models trlps =
     map (\<lambda>m. if rs_Ready m then
                (case map_of (backendNotReady trlps) (rs_Namespace m @ ''/'' @ rs_Name m) of
                   Some msg \<Rightarrow> m\<lparr>rs_Ready := False, rs_Reason := ''NotFound'', rs_Message := msg\<rparr>
                 | None \<Rightarrow> m)
              else m) models"

section \<open>The phase of a subscription\<close>

definition deriveFinalPhase ::
  "ModelRefStatus list \<Rightarrow> CrdTokenRateLimitStatus list \<Rightarrow> string \<times> string" where
  "deriveFinalPhase models trlps =
     (if models = [] then (''Failed'', ''no model references specified'')
      else
        let validModelSet = map rs_Name (filter rs_Ready models);
            validModels = int (length (filter rs_Ready models));
            invalidModels = int (length (filter (\<lambda>m. \<not> rs_Ready m) models));
            unhealthyTRLPs = int (length (filter (\<lambda>t. \<not> rs_Ready t) trlps));
            modelsWithBackendIssues = int (length (filter (\<lambda>t. \<not> rs_Ready t
                \<and> rs_Reason t = ''BackendNotReady'' \<and> rs_Model t \<in> set validModelSet) trlps));
            effectiveValidModels = validModels - modelsWithBackendIssues;
            effectiveInvalidModels = invalidModels + modelsWithBackendIssues;
            trlpOnlyIssues = unhealthyTRLPs - modelsWithBackendIssues
        in if effectiveValidModels \<le> 0 then
             (''Failed'', ''all '' @ itoaNat (length models)
                @ '' model references are invalid or unavailable'')
           else if effectiveInvalidModels > 0 then
             (''Degraded'', itoa effectiveInvalidModels @ '' of '' @ itoaNat (length models)
                @ '' model references are invalid or unavailable'')
           else if trlpOnlyIssues > 0 then
             (''Degraded'', itoa trlpOnlyIssues @ '' of '' @ itoaNat (length trlps)
                @ '' TokenRateLimitPolicies not accepted'')
           else (''Active'', ''successfully reconciled''))"

section \<open>Accepted windows\<close>

lemma reLang_one_digit: "reLang (ROpt (RClass p)) u \<longleftrightarrow> u = [] \<or> (\<exists>c. u = [c] \<and> p c)"
  by (auto simp: reLang_opt_iff)

lemma three_digits:
  "(\<exists>u v w. ds = u @ v @ w \<and> (u = [] \<or> (\<exists>c. u = [c] \<and> P c)) \<and> (v = [] \<or> (\<exists>c. v = [c] \<and> P c))
      \<and> (w = [] \<or> (\<exists>c. w = [c] \<and> P c))) \<longleftrightarrow> length ds \<le> 3 \<and> list_all P ds"
  (is "?L \<longleftrightarrow> ?R")
proof
  assume ?L then show ?R by auto
next
  assume R: ?R
  then consider "ds = []" | a where "ds = [a]" | a b where "ds = [a, b]" | a b c where "ds = [a, b, c]"
    by (cases ds; cases "tl ds"; cases "tl (tl ds)") auto
  then show ?L
    using R by cases (simp_all, (metis append_Nil append_Cons)+)
qed

lemma seq_shape:
  "(\<exists>u v. w = u @ v \<and> (\<exists>c. u = [c] \<and> D c) \<and> (\<exists>u va. v = u @ va \<and> Q u
      \<and> (\<exists>u v. va = u @ v \<and> Q u \<and> (\<exists>u va. v = u @ va \<and> Q u \<and> (\<exists>c. va = [c] \<and> U c)))))
   \<longleftrightarrow> (\<exists>d u1 u2 u3 u. w = d # (u1 @ u2 @ u3) @ [u] \<and> D d \<and> (Q u1 \<and> Q u2 \<and> Q u3) \<and> U u)"
  (is "?L \<longleftrightarrow> ?R")
proof
  assume ?L
  then obtain d u1 u2 u3 u where "w = [d] @ u1 @ u2 @ u3 @ [u]" "D d" "Q u1" "Q u2" "Q u3" "U u"
    by blast
  then show ?R by (intro exI [of _ d] exI [of _ u1] exI [of _ u2] exI [of _ u3] exI [of _ u]) simp
next
  assume ?R
  then obtain d u1 u2 u3 u where "w = [d] @ u1 @ u2 @ u3 @ [u]" "D d" "Q u1" "Q u2" "Q u3" "U u"
    by auto
  then show ?L by blast
qed

lemma windowPattern_iff:
  "reMatch windowPattern w \<longleftrightarrow>
     (\<exists>d ds u. w = d # ds @ [u] \<and> isDigit d \<and> d \<noteq> CHR ''0'' \<and> length ds \<le> 3 \<and> list_all isDigit ds
        \<and> u \<in> set ''smh'')"
proof -
  have d: "byteIn 49 57 d \<longleftrightarrow> isDigit d \<and> d \<noteq> CHR ''0''" for d
  proof -
    have "d = CHR ''0'' \<longleftrightarrow> of_char d = (48 :: nat)"
      using of_char_eq_iff [of d "CHR ''0''"] by auto
    then show ?thesis by (auto simp: isDigit_def byteIn_def)
  qed
  let ?Q = "\<lambda>v. v = [] \<or> (\<exists>c. v = [c] \<and> isDigit c)"
  have "reMatch windowPattern w \<longleftrightarrow>
     (\<exists>d u1 u2 u3 u. w = d # (u1 @ u2 @ u3) @ [u] \<and> (isDigit d \<and> d \<noteq> CHR ''0'')
        \<and> (?Q u1 \<and> ?Q u2 \<and> ?Q u3) \<and> u \<in> set ''smh'')"
    unfolding reMatch_iff windowPattern_def reLang_seq_iff reLang_one_digit reLang_simps d
    by (rule seq_shape)
  also have "\<dots> \<longleftrightarrow> (\<exists>d ds u. w = d # ds @ [u] \<and> (isDigit d \<and> d \<noteq> CHR ''0'')
      \<and> (length ds \<le> 3 \<and> list_all isDigit ds) \<and> u \<in> set ''smh'')"
    unfolding three_digits [symmetric] by blast
  finally show ?thesis by (simp only: conj_assoc)
qed

definition unitSeconds :: "char \<Rightarrow> int" where
  "unitSeconds u = (if u = CHR ''s'' then 1 else if u = CHR ''m'' then 60 else 3600)"

lemma window_numeral:
  "reMatch windowPattern w \<longleftrightarrow>
     (\<exists>n u. w = itoaNat n @ [u] \<and> 1 \<le> n \<and> n \<le> 9999 \<and> u \<in> set ''smh'')"
proof
  assume "reMatch windowPattern w"
  then obtain d ds u where w: "w = d # ds @ [u]" "isDigit d" "d \<noteq> CHR ''0''" "length ds \<le> 3"
      "list_all isDigit ds" "u \<in> set ''smh''"
    using windowPattern_iff by blast
  let ?n = "atoiNat (d # ds)"
  have "?n < 10 ^ length (d # ds)" using w by (intro atoiNat_bound) simp
  also have "\<dots> \<le> 10 ^ 4" using w(4) by (intro power_increasing) auto
  finally have "?n \<le> 9999" by simp
  moreover have "1 \<le> ?n" using atoiNat_pos [OF w(2,3), of ds] by simp
  moreover have "w = itoaNat ?n @ [u]" using w itoaNat_atoiNat [OF w(2,3,5)] by simp
  ultimately show "\<exists>n u. w = itoaNat n @ [u] \<and> 1 \<le> n \<and> n \<le> 9999 \<and> u \<in> set ''smh''"
    using w(6) by blast
next
  assume "\<exists>n u. w = itoaNat n @ [u] \<and> 1 \<le> n \<and> n \<le> 9999 \<and> u \<in> set ''smh''"
  then obtain n u where w: "w = itoaNat n @ [u]" "0 < n" "n < 10 ^ 4" "u \<in> set ''smh''"
    by fastforce
  then obtain d ds where d: "itoaNat n = d # ds" "isDigit d" "d \<noteq> CHR ''0''" "list_all isDigit ds"
    using itoaNat_first by blast
  with length_itoaNat_le [OF w(3)] have "length ds \<le> 3" by simp
  with w d show "reMatch windowPattern w" unfolding windowPattern_iff by auto
qed

lemma validate_window:
  assumes "1 \<le> n" and "n \<le> 9999" and "u \<in> set ''smh''" and "0 < limit" and "limit \<le> maxTokenRateLimit"
  shows "validateTokenRateLimit limit (itoaNat n @ [u]) =
     (if int n * unitSeconds u > maxWindowSeconds
      then Some (WindowTooLong (itoaNat n @ [u]) (int n * unitSeconds u)) else None)"
proof -
  have m: "reMatch windowPattern (itoaNat n @ [u])" using assms window_numeral by blast
  have p: "ParseInt64 (itoaNat n) = Some (int n)"
    using itoaNat_digits [of n] assms(2) by (subst ParseInt64_digits) auto
  have wr: "wrap64 (int n * 60) = int n * 60" "wrap64 (int n * 3600) = int n * 3600"
    using assms(2) by (simp_all add: wrap64_id)
  have "u = CHR ''s'' \<or> u = CHR ''m'' \<or> u = CHR ''h''" using assms(3) by simp
  then show ?thesis
    using m p wr assms(4,5)
    by (elim disjE) (simp_all add: validateTokenRateLimit_def unitSeconds_def)
qed

text \<open>
  C38: \<open>validateTokenRateLimit\<close> accepts a limit exactly when it lies between 1 and 1,000,000,000 and
  its window is a number from 1 to 9999 without leading zeros followed by \<open>s\<close>, \<open>m\<close> or \<open>h\<close> that lasts
  at most 366 days.
\<close>

theorem validateTokenRateLimit_iff:
  "validateTokenRateLimit limit window = None \<longleftrightarrow>
     1 \<le> limit \<and> limit \<le> 1000000000 \<and>
     (\<exists>n u. window = itoaNat n @ [u] \<and> 1 \<le> n \<and> n \<le> 9999 \<and> u \<in> set ''smh''
        \<and> int n * unitSeconds u \<le> 366 * 86400)"
proof (cases "0 < limit \<and> limit \<le> maxTokenRateLimit \<and> reMatch windowPattern window")
  case True
  then obtain n u where "window = itoaNat n @ [u]" "1 \<le> n" "n \<le> 9999" "u \<in> set ''smh''"
    using window_numeral by blast
  moreover from this True have "validateTokenRateLimit limit window = None
      \<longleftrightarrow> int n * unitSeconds u \<le> maxWindowSeconds"
    using validate_window by auto
  ultimately show ?thesis
    using True by (auto simp: maxTokenRateLimit_def maxWindowSeconds_def itoaNat_inj)
next
  case False
  then have "validateTokenRateLimit limit window \<noteq> None"
    by (auto simp: validateTokenRateLimit_def)
  with False show ?thesis using window_numeral by (auto simp: maxTokenRateLimit_def)
qed

section \<open>What the phase says\<close>

lemma length_filter_0: "length (filter P xs) = 0 \<longleftrightarrow> (\<forall>x\<in>set xs. \<not> P x)"
  by (auto simp: filter_empty_conv)

text \<open>A subscription is active exactly when every model and every policy of it is ready.\<close>

lemma deriveFinalPhase_Active_iff:
  "fst (deriveFinalPhase models trlps) = ''Active'' \<longleftrightarrow>
     models \<noteq> [] \<and> (\<forall>m\<in>set models. rs_Ready m) \<and> (\<forall>t\<in>set trlps. rs_Ready t)"
proof (cases "models = []")
  case True
  then show ?thesis by (simp add: deriveFinalPhase_def)
next
  case False
  let ?bad = "length (filter (\<lambda>t. \<not> rs_Ready t \<and> rs_Reason t = ''BackendNotReady''
                \<and> rs_Model t \<in> set (map rs_Name (filter rs_Ready models))) trlps)"
  have part: "length (filter rs_Ready models) + length (filter (\<lambda>m. \<not> rs_Ready m) models) = length models"
    by (rule length_filter_partition)
  have "fst (deriveFinalPhase models trlps) = ''Active'' \<longleftrightarrow>
      int (length (filter rs_Ready models)) - int ?bad > 0
      \<and> int (length (filter (\<lambda>m. \<not> rs_Ready m) models)) + int ?bad \<le> 0
      \<and> int (length (filter (\<lambda>t. \<not> rs_Ready t) trlps)) - int ?bad \<le> 0"
    using False by (simp add: deriveFinalPhase_def Let_def)
  also have "\<dots> \<longleftrightarrow> length (filter (\<lambda>m. \<not> rs_Ready m) models) = 0
      \<and> length (filter (\<lambda>t. \<not> rs_Ready t) trlps) = 0"
  proof
    assume z: "length (filter (\<lambda>m. \<not> rs_Ready m) models) = 0
      \<and> length (filter (\<lambda>t. \<not> rs_Ready t) trlps) = 0"
    then have "?bad = 0" by (simp add: filter_empty_conv)
    moreover have "0 < length models" using False by simp
    ultimately show "int (length (filter rs_Ready models)) - int ?bad > 0
      \<and> int (length (filter (\<lambda>m. \<not> rs_Ready m) models)) + int ?bad \<le> 0
      \<and> int (length (filter (\<lambda>t. \<not> rs_Ready t) trlps)) - int ?bad \<le> 0"
      using z part by linarith
  qed linarith
  finally show ?thesis using False by (simp only: length_filter_0) blast
qed

abbreviation notReadyYet :: "CrdTokenRateLimitStatus \<Rightarrow> bool" where
  "notReadyYet t \<equiv> rs_Reason t = ''BackendNotReady''"

lemma trlpStatus_simps [simp]:
  "rs_Model (trlpStatus c k s ref) = msr_Name ref"
  "rs_Name (trlpStatus c k s ref) = trlpName (msr_Name ref)"
  by (auto simp: trlpStatus_def Let_def split: sum.splits prod.splits)

lemma trlpStatus_notReadyYet:
  assumes "notReadyYet (trlpStatus c k s ref)"
  shows "rs_Namespace (trlpStatus c k s ref) = msr_Namespace ref"
    and "\<not> rs_Ready (trlpStatus c k s ref)"
  using assms by (auto simp: trlpStatus_def Let_def split: sum.splits prod.splits if_splits)

lemma modelRefStatus_simps [simp]:
  "rs_Name (modelRefStatus c s ref) = msr_Name ref"
  "rs_Namespace (modelRefStatus c s ref) = msr_Namespace ref"
  "rs_Ready (modelRefStatus c s ref) \<longleftrightarrow> (\<exists>m. getModelRef c (msr_Namespace ref) (msr_Name ref) s = Inr m)"
  by (auto simp: modelRefStatus_def Let_def split: sum.splits)

lemma uniqueRefs_distinct: "distinct (map crdRefKey (uniqueRefs sub))"
  by (simp add: uniqueRefs_def dedupOn_distinct)

lemma backendNotReady_iff:
  assumes "distinct (map crdRefKey refs)" and "ref \<in> set refs"
  shows "map_of (backendNotReady (map (trlpStatus c k s) refs)) (crdRefKey ref) \<noteq> None \<longleftrightarrow>
           notReadyYet (trlpStatus c k s ref)"
proof -
  have "map_of (backendNotReady (map (trlpStatus c k s) refs)) (crdRefKey ref) \<noteq> None \<longleftrightarrow>
      (\<exists>r\<in>set refs. notReadyYet (trlpStatus c k s r) \<and> crdRefKey r = crdRefKey ref)"
    by (auto simp: backendNotReady_def map_of_eq_None_iff image_iff crdRefKey_def
        trlpStatus_notReadyYet)
  also have "\<dots> \<longleftrightarrow> notReadyYet (trlpStatus c k s ref)"
    using assms by (auto dest: inj_on_set_distinct_map)
  finally show ?thesis .
qed

text \<open>A reference is usable when its model exists and its route did not turn out to be missing.\<close>

definition usableRef ::
  "('s, 'm) client_scheme \<Rightarrow> k8sApi \<Rightarrow> 's \<Rightarrow> 's \<Rightarrow> ModelSubscriptionRef \<Rightarrow> bool" where
  "usableRef c k s1 s2 ref \<longleftrightarrow>
     rs_Ready (modelRefStatus c s1 ref) \<and> \<not> notReadyYet (trlpStatus c k s2 ref)"

definition correctedStatus ::
  "('s, 'm) client_scheme \<Rightarrow> k8sApi \<Rightarrow> 's \<Rightarrow> 's \<Rightarrow> MaaSSubscription \<Rightarrow> ModelRefStatus list" where
  "correctedStatus c k s1 s2 sub =
     correctStale (validateModelRefs c sub s1) (checkTokenRateLimitHealth c k sub s2)"

lemma correctedStatus_nth:
  "list_all2 (\<lambda>m ref. rs_Name m = msr_Name ref \<and> rs_Namespace m = msr_Namespace ref
       \<and> (rs_Ready m \<longleftrightarrow> usableRef c k s1 s2 ref))
     (correctedStatus c k s1 s2 sub) (uniqueRefs sub)"
proof -
  let ?t = "map (trlpStatus c k s2) (uniqueRefs sub)"
  have "(let m = modelRefStatus c s1 ref;
             m' = (if rs_Ready m then
                (case map_of (backendNotReady ?t) (rs_Namespace m @ ''/'' @ rs_Name m) of
                   Some msg \<Rightarrow> m\<lparr>rs_Ready := False, rs_Reason := ''NotFound'', rs_Message := msg\<rparr>
                 | None \<Rightarrow> m)
              else m) in rs_Name m' = msr_Name ref \<and> rs_Namespace m' = msr_Namespace ref
       \<and> (rs_Ready m' \<longleftrightarrow> usableRef c k s1 s2 ref))" if "ref \<in> set (uniqueRefs sub)" for ref
    using backendNotReady_iff [OF uniqueRefs_distinct that, of c k s2]
    by (auto simp: Let_def usableRef_def crdRefKey_def split: option.splits)
  then show ?thesis
    by (simp add: correctedStatus_def correctStale_def validateModelRefs_def
        checkTokenRateLimitHealth_def list.rel_map Let_def list.rel_refl_strong)
qed


lemma deriveFinalPhase_no_issues:
  assumes "models \<noteq> []"
    and "\<And>t. t \<in> set trlps \<Longrightarrow> \<not> rs_Ready t \<Longrightarrow> notReadyYet t \<Longrightarrow>
           rs_Model t \<notin> rs_Name ` {m \<in> set models. rs_Ready m}"
  shows "fst (deriveFinalPhase models trlps) =
     (if \<forall>m\<in>set models. \<not> rs_Ready m then ''Failed''
      else if (\<forall>m\<in>set models. rs_Ready m) \<and> (\<forall>t\<in>set trlps. rs_Ready t) then ''Active''
      else ''Degraded'')"
proof -
  have none: "filter (\<lambda>t. \<not> rs_Ready t \<and> notReadyYet t
      \<and> rs_Model t \<in> set (map rs_Name (filter rs_Ready models))) trlps = []"
    using assms(2) by (auto simp: filter_empty_conv)
  have "filter rs_Ready models = [] \<longleftrightarrow> (\<forall>m\<in>set models. \<not> rs_Ready m)"
    by (simp add: filter_empty_conv)
  moreover have "filter (\<lambda>m. \<not> rs_Ready m) models = [] \<longleftrightarrow> (\<forall>m\<in>set models. rs_Ready m)"
    by (simp add: filter_empty_conv)
  moreover have "filter (\<lambda>t. \<not> rs_Ready t) trlps = [] \<longleftrightarrow> (\<forall>t\<in>set trlps. rs_Ready t)"
    by (simp add: filter_empty_conv)
  moreover have "fst (deriveFinalPhase models trlps) =
     (if filter rs_Ready models = [] then ''Failed''
      else if filter (\<lambda>m. \<not> rs_Ready m) models \<noteq> [] then ''Degraded''
      else if filter (\<lambda>t. \<not> rs_Ready t) trlps \<noteq> [] then ''Degraded'' else ''Active'')"
    unfolding deriveFinalPhase_def Let_def none using assms(1)
    by (auto split del: if_split split: if_split_asm if_split)
  ultimately show ?thesis by (auto split: if_splits)
qed

lemma list_all2_setD1: "list_all2 P xs ys \<Longrightarrow> x \<in> set xs \<Longrightarrow> \<exists>y\<in>set ys. P x y"
  by (induction rule: list_all2_induct) auto

lemma list_all2_setD2: "list_all2 P xs ys \<Longrightarrow> y \<in> set ys \<Longrightarrow> \<exists>x\<in>set xs. P x y"
  by (induction rule: list_all2_induct) auto

text \<open>
  C34: When the models of a subscription have distinct names, its phase is \<open>Failed\<close> exactly when none
  of them is usable, \<open>Active\<close> exactly when all are usable and every TokenRateLimitPolicy is accepted,
  and \<open>Degraded\<close> otherwise; models that vanished between the two checks count as unusable.
\<close>

theorem phase_classified:
  assumes "distinct (map msr_Name (uniqueRefs sub))"
  shows "fst (deriveFinalPhase (correctedStatus c k s1 s2 sub) (checkTokenRateLimitHealth c k sub s2)) =
     (if \<forall>ref\<in>set (uniqueRefs sub). \<not> usableRef c k s1 s2 ref then ''Failed''
      else if \<forall>ref\<in>set (uniqueRefs sub). usableRef c k s1 s2 ref \<and> rs_Ready (trlpStatus c k s2 ref)
      then ''Active'' else ''Degraded'')"
proof (cases "uniqueRefs sub = []")
  case True
  then have "correctedStatus c k s1 s2 sub = []"
    using correctedStatus_nth [of c k s1 s2 sub] by simp
  with True show ?thesis by (simp add: deriveFinalPhase_def)
next
  case False
  let ?ms = "correctedStatus c k s1 s2 sub" and ?ts = "checkTokenRateLimitHealth c k sub s2"
  note al = correctedStatus_nth [of c k s1 s2 sub]
  have ne: "?ms \<noteq> []" using False al by auto
  have "rs_Model t \<notin> rs_Name ` {m \<in> set ?ms. rs_Ready m}"
    if t: "t \<in> set ?ts" "notReadyYet t" for t
  proof
    assume "rs_Model t \<in> rs_Name ` {m \<in> set ?ms. rs_Ready m}"
    then obtain m where m: "m \<in> set ?ms" "rs_Ready m" "rs_Name m = rs_Model t" by auto
    with al obtain ref where ref: "ref \<in> set (uniqueRefs sub)" "msr_Name ref = rs_Model t"
        "usableRef c k s1 s2 ref" by (fastforce dest: list_all2_setD1)
    from t obtain r where r: "r \<in> set (uniqueRefs sub)" "t = trlpStatus c k s2 r"
      by (auto simp: checkTokenRateLimitHealth_def)
    with ref assms have "r = ref" by (auto dest: inj_on_set_distinct_map)
    with ref r t show False by (simp add: usableRef_def)
  qed
  note ph = deriveFinalPhase_no_issues [OF ne this]
  have "(\<forall>m\<in>set ?ms. \<not> rs_Ready m) \<longleftrightarrow> (\<forall>ref\<in>set (uniqueRefs sub). \<not> usableRef c k s1 s2 ref)"
    using list_all2_setD1 [OF al] list_all2_setD2 [OF al] by metis
  moreover have "(\<forall>m\<in>set ?ms. rs_Ready m) \<longleftrightarrow> (\<forall>ref\<in>set (uniqueRefs sub). usableRef c k s1 s2 ref)"
    using list_all2_setD1 [OF al] list_all2_setD2 [OF al] by metis
  moreover have "(\<forall>t\<in>set ?ts. rs_Ready t) \<longleftrightarrow>
      (\<forall>ref\<in>set (uniqueRefs sub). rs_Ready (trlpStatus c k s2 ref))"
    by (auto simp: checkTokenRateLimitHealth_def)
  ultimately show ?thesis using ph by auto
qed

text \<open>
  Names are compared without their namespaces: of two models of one name, one of them healthy and
  the other one's route missing, the phase is \<open>Failed\<close>, although one model is fine.
\<close>

definition statusOf :: "string \<Rightarrow> string \<Rightarrow> bool \<Rightarrow> string \<Rightarrow> ModelRefStatus" where
  "statusOf ns name ready reason =
     \<lparr>rs_Name = name, rs_Namespace = ns, rs_Ready = ready, rs_Reason = reason, rs_Message = []\<rparr>"

definition trlpStatusOf :: "string \<Rightarrow> string \<Rightarrow> bool \<Rightarrow> string \<Rightarrow> CrdTokenRateLimitStatus" where
  "trlpStatusOf ns name ready reason =
     \<lparr>rs_Name = trlpName name, rs_Namespace = ns, rs_Ready = ready, rs_Reason = reason,
      rs_Message = [], rs_Model = name\<rparr>"

lemma same_name_fails_subscription:
  "let models = [statusOf ''a'' ''llama'' True ''Valid'', statusOf ''b'' ''llama'' True ''Valid''];
       trlps = [trlpStatusOf ''a'' ''llama'' True ''Accepted'',
                trlpStatusOf ''b'' ''llama'' False ''BackendNotReady'']
   in map rs_Ready (correctStale models trlps) = [True, False]
      \<and> fst (deriveFinalPhase (correctStale models trlps) trlps) = ''Failed''"
  by (simp add: Let_def statusOf_def trlpStatusOf_def correctStale_def backendNotReady_def
      deriveFinalPhase_def)


section \<open>What the limits say\<close>

lemma limitsMap_eq:
  "map_of (limitsMap subs) = map_of (rev (map (\<lambda>si. (limitKey si, limitOf si)) subs))"
proof -
  have "map_of (foldl (\<lambda>m si. AList.update (limitKey si) (limitOf si) m) m subs)
        = map_of m ++ map_of (rev (map (\<lambda>si. (limitKey si, limitOf si)) subs))" for m
    by (induction subs arbitrary: m) (simp_all add: AList.update_conv' map_add_assoc [symmetric] map_add_upd_left)
  from this [of "[]"] show ?thesis by (simp add: limitsMap_def)
qed

lemma limitsMap_lookup:
  assumes "distinct (map limitKey subs)" and "si \<in> set subs"
  shows "map_of (limitsMap subs) (limitKey si) = Some (limitOf si)"
proof -
  have "distinct (map fst (rev (map (\<lambda>si. (limitKey si, limitOf si)) subs)))"
    using assms(1) by (simp add: rev_map [symmetric] comp_def)
  then show ?thesis
    unfolding limitsMap_eq using assms(2) by (intro map_of_is_SomeI) auto
qed

lemma limitsMap_SomeD:
  "map_of (limitsMap subs) key = Some v \<Longrightarrow> \<exists>si\<in>set subs. key = limitKey si \<and> v = limitOf si"
  unfolding limitsMap_eq by (auto dest!: map_of_SomeD)

lemma firstValidRef_D:
  "si \<in> set (firstValidRef ns name sub refs) \<Longrightarrow>
     si_sub si = sub \<and> si_mRef si \<in> set refs \<and> msr_Namespace (si_mRef si) = ns
     \<and> msr_Name (si_mRef si) = name \<and> ratesOf (si_mRef si) = Some (si_rates si)"
  by (induction ns name sub refs rule: firstValidRef.induct) (auto split: if_splits option.splits)

lemma firstValidRef_length: "length (firstValidRef ns name sub refs) \<le> 1"
  by (induction ns name sub refs rule: firstValidRef.induct) (auto split: option.splits)

lemma firstValidRef_Nil_iff:
  "firstValidRef ns name sub refs = [] \<longleftrightarrow>
     (\<forall>r\<in>set refs. msr_Namespace r = ns \<longrightarrow> msr_Name r = name \<longrightarrow> ratesOf r = None)"
  by (induction ns name sub refs rule: firstValidRef.induct) (auto split: option.splits)

lemma collectSubs_D:
  assumes "si \<in> set (collectSubs ns name allSubs)"
  shows "si_sub si \<in> set allSubs \<and> si_mRef si \<in> set (ss_ModelRefs (ms_Spec (si_sub si)))
         \<and> msr_Namespace (si_mRef si) = ns \<and> msr_Name (si_mRef si) = name
         \<and> ratesOf (si_mRef si) = Some (si_rates si)"
  using assms by (auto simp: collectSubs_def dest: firstValidRef_D)

lemma default_rate_valid: "validateTokenRateLimit 100 ''1m'' = None"
proof -
  have one: "itoaNat 1 = ''1''"
    using itoaNat_atoiNat [of "CHR ''1''" "[]"]
    by (simp add: atoiNat_def digitNum_def isDigit_def byteIn_def)
  have "validateTokenRateLimit 100 (itoaNat 1 @ [CHR ''m'']) = None"
    by (subst validate_window) (simp_all add: maxTokenRateLimit_def maxWindowSeconds_def unitSeconds_def)
  then show ?thesis by (simp only: one append.simps)
qed

lemma ratesOf_valid:
  assumes "ratesOf r = Some rates"
  shows "rates \<noteq> [] \<and> (\<forall>x\<in>set rates. \<exists>l w. x = rateOf l w \<and> validateTokenRateLimit l w = None)"
  using assms default_rate_valid by (auto simp: ratesOf_def list_all_iff split: if_splits) blast+

lemma collectSubs_distinct_subs:
  "distinct (map f allSubs) \<Longrightarrow> distinct (map (\<lambda>si. f (si_sub si)) (collectSubs ns name allSubs))"
proof (induction allSubs)
  case (Cons sub subs)
  have "distinct (map (\<lambda>si. f (si_sub si)) (firstValidRef ns name sub refs))" for refs
    using firstValidRef_length [of ns name sub refs] by (cases "firstValidRef ns name sub refs") auto
  moreover have "f ` si_sub ` set (collectSubs ns name subs) \<subseteq> f ` set subs"
    by (auto dest: collectSubs_D)
  ultimately show ?case
    using Cons by (fastforce simp: collectSubs_def dest: firstValidRef_D)
qed (simp add: collectSubs_def)

lemma limitKey_inj:
  assumes "om_Namespace (ms_meta (si_sub a)) = om_Namespace (ms_meta (si_sub b))"
    and "msr_Name (si_mRef a) = msr_Name (si_mRef b)" and "limitKey a = limitKey b"
    and "CHR ''/'' \<notin> set (om_Name (ms_meta (si_sub a)))"
    and "CHR ''/'' \<notin> set (om_Name (ms_meta (si_sub b)))"
  shows "om_Name (ms_meta (si_sub a)) = om_Name (ms_meta (si_sub b))"
proof -
  have id: "CHR ''/'' \<notin> set x \<Longrightarrow> ReplaceAll x CHR ''/'' CHR ''-'' = x" for x
    by (auto simp: ReplaceAll_def intro: map_idI)
  have app: "ReplaceAll (x @ y) p q = ReplaceAll x p q @ ReplaceAll y p q" for x y p q
    by (simp add: ReplaceAll_def)
  have cons: "ReplaceAll (CHR ''/'' # y) CHR ''/'' CHR ''-'' = CHR ''-'' # ReplaceAll y CHR ''/'' CHR ''-''" for y
    by (simp add: ReplaceAll_def)
  show ?thesis
    using assms by (simp add: limitKey_def subRefOf_def app cons id)
qed

text \<open>
  When the subscriptions of a model live in one tenant namespace, the TokenRateLimitPolicy of
  the model holds exactly one limit for every subscription with a valid reference to it, under the
  subscription's own key, and every rate in it is one \<open>validateTokenRateLimit\<close> accepts.
\<close>

theorem limits_per_subscription:
  assumes ns: "\<forall>sub\<in>set allSubs. om_Namespace (ms_meta sub) = tenant
                 \<and> CHR ''/'' \<notin> set (om_Name (ms_meta sub))"
    and names: "distinct (map (\<lambda>sub. om_Name (ms_meta sub)) allSubs)"
  shows "(\<forall>si\<in>set (collectSubs ns name allSubs).
            map_of (limitsMap (collectSubs ns name allSubs)) (limitKey si) = Some (limitOf si))
       \<and> (\<forall>key v. map_of (limitsMap (collectSubs ns name allSubs)) key = Some v \<longrightarrow>
            (\<exists>si\<in>set (collectSubs ns name allSubs). key = limitKey si \<and> v = limitOf si))
       \<and> (\<forall>si\<in>set (collectSubs ns name allSubs). \<forall>x\<in>set (si_rates si).
            \<exists>l w. x = rateOf l w \<and> validateTokenRateLimit l w = None)"
proof -
  let ?subs = "collectSubs ns name allSubs"
  have d: "distinct (map (\<lambda>si. om_Name (ms_meta (si_sub si))) ?subs)"
    using collectSubs_distinct_subs [OF names] by simp
  have "inj_on limitKey (set ?subs)"
  proof (rule inj_onI)
    fix a b assume a: "a \<in> set ?subs" and b: "b \<in> set ?subs" and eq: "limitKey a = limitKey b"
    have "om_Name (ms_meta (si_sub a)) = om_Name (ms_meta (si_sub b))"
      using ns collectSubs_D [OF a] collectSubs_D [OF b] eq by (intro limitKey_inj) auto
    with d a b show "a = b" by (rule inj_on_set_distinct_map)
  qed
  moreover have "distinct ?subs" using d by (simp add: distinct_map)
  ultimately have "distinct (map limitKey ?subs)" by (simp add: distinct_map)
  then show ?thesis
    using limitsMap_lookup limitsMap_SomeD collectSubs_D ratesOf_valid by blast
qed


text \<open>
  Across namespaces the keys can clash, because the slash between namespace and name becomes a
  hyphen: of the two subscriptions \<open>team-a/gold\<close> and \<open>team/a-gold\<close> only one keeps a limit.
\<close>

lemma limit_keys_clash:
  "let subs = [sampleSubCR ''team-a'' ''gold'' [sampleRef ''llm'' ''llama'' []],
               sampleSubCR ''team'' ''a-gold'' [sampleRef ''llm'' ''llama'' []]]
   in length (collectSubs ''llm'' ''llama'' subs) = 2
      \<and> length (limitsMap (collectSubs ''llm'' ''llama'' subs)) = 1"
  by (simp add: Let_def collectSubs_def sampleSubCR_def sampleRef_def sampleMeta_def ratesOf_def
      emptySubscriptionSpec_def limitsMap_def limitKey_def subRefOf_def ReplaceAll_def)

theorem limits_per_subscription_witness:
  "let subs = [sampleSubCR ''team'' ''gold'' [sampleRef ''llm'' ''llama'' []],
               sampleSubCR ''team'' ''silver'' [sampleRef ''llm'' ''llama'' []]];
       infos = collectSubs ''llm'' ''llama'' subs
   in map (\<lambda>si. om_Name (ms_meta (si_sub si))) infos = [''gold'', ''silver'']
      \<and> map_of (limitsMap infos) ''team-gold-llama-tokens'' = Some (limitOf (infos ! 0))
      \<and> map_of (limitsMap infos) ''team-silver-llama-tokens'' = Some (limitOf (infos ! 1))"
proof -
  let ?subs = "[sampleSubCR ''team'' ''gold'' [sampleRef ''llm'' ''llama'' []],
               sampleSubCR ''team'' ''silver'' [sampleRef ''llm'' ''llama'' []]]"
  let ?infos = "collectSubs ''llm'' ''llama'' ?subs"
  have ex: "length ?infos = 2" "map (\<lambda>si. om_Name (ms_meta (si_sub si))) ?infos = [''gold'', ''silver'']"
    "limitKey (?infos ! 0) = ''team-gold-llama-tokens''" "limitKey (?infos ! 1) = ''team-silver-llama-tokens''"
    by (simp_all add: collectSubs_def sampleSubCR_def sampleRef_def sampleMeta_def ratesOf_def
        emptySubscriptionSpec_def limitKey_def subRefOf_def ReplaceAll_def)
  then have "?infos ! 0 \<in> set ?infos" "?infos ! 1 \<in> set ?infos" by simp_all
  moreover have "\<forall>si\<in>set ?infos. map_of (limitsMap ?infos) (limitKey si) = Some (limitOf si)"
    using limits_per_subscription [of ?subs "''team''" "''llm''" "''llama''"]
    by (simp add: sampleSubCR_def sampleMeta_def)
  ultimately show ?thesis unfolding Let_def using ex by metis
qed


end
