(* ===== verification/SubscriptionController.thy ===== *)
theory SubscriptionController
  imports RateLimits
begin

text \<open>
  The reconciler of MaaSSubscription (\<open>pkg/controller/maas/maassubscription_controller.go\<close>) as a
  function of the cluster: \<open>Reconcile\<close> and every function it calls, the scan for duplicate
  priorities, and the functions that map a watched object to the subscriptions to reconcile. A
  function that writes returns its error, if any, and the cluster it leaves. Updates leave the
  object passed to them as it was; requests are pairs of a namespace and a name.
\<close>

record MaaSSubscriptionReconciler =
  sr_DefaultTenantNamespace :: string
  sr_TenantNamespaceDiscoveryEnabled :: bool
  sr_GatewayName :: string
  sr_GatewayNamespace :: string

type_synonym 's outcome = "ctl_error option \<times> 's"
type_synonym ctlRequest = "string \<times> string"

definition maasSubscriptionFinalizer :: string where
  "maasSubscriptionFinalizer = ''maas.opendatahub.io/subscription-cleanup''"

definition ConditionSpecPriorityDuplicate :: string where
  "ConditionSpecPriorityDuplicate = ''SpecPriorityDuplicate''"

section \<open>Deleting policies\<close>

fun deleteAllTRLPs ::
  "('s, 'm) client_scheme \<Rightarrow> uobj list \<Rightarrow> 's \<Rightarrow> 's outcome" where
  "deleteAllTRLPs c [] s = (None, s)"
| "deleteAllTRLPs c (p # ps) s =
     (if \<not> isManaged (u_meta p) then deleteAllTRLPs c ps s
      else
        (case deleteTRLP c p s of
           (err, s') \<Rightarrow>
             (case err of
                None \<Rightarrow> deleteAllTRLPs c ps s'
              | Some e \<Rightarrow>
                  if IsNotFound e then deleteAllTRLPs c ps s'
                  else (Some (wrapApi (''failed to delete TokenRateLimitPolicy ''
                     @ om_Namespace (u_meta p) @ ''/'' @ om_Name (u_meta p)) e), s'))))"

definition deleteModelTRLP ::
  "('s, 'm) client_scheme \<Rightarrow> string \<Rightarrow> string \<Rightarrow> 's \<Rightarrow> 's outcome" where
  "deleteModelTRLP c modelNamespace modelName s =
     (case listTRLPs c None
             [(''maas.opendatahub.io/model'', modelName),
              (''maas.opendatahub.io/model-namespace'', modelNamespace),
              (''app.kubernetes.io/managed-by'', ''maas-controller''),
              (''app.kubernetes.io/part-of'', ''maas-subscription'')] s of
        Inl e \<Rightarrow>
          if IsNotFound e \<or> IsNoMatchError e then (None, s)
          else (Some (wrapApi ''failed to list TokenRateLimitPolicy for cleanup'' e), s)
      | Inr items \<Rightarrow> deleteAllTRLPs c items s)"

section \<open>Writing the policy of a model\<close>

text \<open>
  \<open>validateSubscriptionTenantGatewaysForRoute\<close>: the loop keeps the namespaces and the gateways it
  has already dealt with.
\<close>

fun validateGatewayLoop ::
  "('s, 'm) client_scheme \<Rightarrow> MaaSSubscriptionReconciler \<Rightarrow> string \<Rightarrow> string \<Rightarrow> string \<Rightarrow> string
     \<Rightarrow> string list \<Rightarrow> string list \<Rightarrow> MaaSSubscription list \<Rightarrow> 's \<Rightarrow> unit ctl" where
  "validateGatewayLoop c r routeName routeNS modelNs modelName seenNs seenGw [] s = Ok ()"
| "validateGatewayLoop c r routeName routeNS modelNs modelName seenNs seenGw (sub # subs) s =
     (let ns = om_Namespace (ms_meta sub)
      in if ns \<in> set seenNs then
           validateGatewayLoop c r routeName routeNS modelNs modelName seenNs seenGw subs s
         else
           (case tenantGatewayRefForNamespace c ns (sr_DefaultTenantNamespace r) (sr_GatewayName r)
                   (sr_GatewayNamespace r) (sr_TenantNamespaceDiscoveryEnabled r) s of
              Inl e \<Rightarrow> Err e
            | Inr gatewayRef \<Rightarrow>
                let gatewayKey = qualifiedName (gr_Namespace gatewayRef) (gr_Name gatewayRef)
                in if gatewayKey \<in> set seenGw then
                     validateGatewayLoop c r routeName routeNS modelNs modelName (ns # seenNs)
                       seenGw subs s
                   else
                     (case validateHTTPRouteReferencesGateway c routeName routeNS gatewayRef s of
                        Inl e \<Rightarrow> Err (wrapErr (''model '' @ modelNs @ ''/'' @ modelName
                            @ '' is not attached to tenant gateway for subscription ''
                            @ qualifiedName ns (om_Name (ms_meta sub))) e)
                      | Inr _ \<Rightarrow>
                          validateGatewayLoop c r routeName routeNS modelNs modelName (ns # seenNs)
                            (gatewayKey # seenGw) subs s)))"

definition validateSubscriptionTenantGatewaysForRoute ::
  "('s, 'm) client_scheme \<Rightarrow> MaaSSubscriptionReconciler \<Rightarrow> MaaSSubscription list \<Rightarrow> string \<Rightarrow> string
     \<Rightarrow> string \<Rightarrow> string \<Rightarrow> 's \<Rightarrow> unit ctl" where
  "validateSubscriptionTenantGatewaysForRoute c r subs routeName routeNS modelNs modelName s =
     validateGatewayLoop c r routeName routeNS modelNs modelName [] [] subs s"

text \<open>The new policy, before it is owned by the route.\<close>

definition newPolicyMeta :: "string \<Rightarrow> string \<Rightarrow> string \<Rightarrow> subInfo list \<Rightarrow> ObjectMeta" where
  "newPolicyMeta routeNS modelNs modelName subs =
     \<lparr>om_Name = trlpName modelName, om_Namespace = routeNS, om_Labels = trlpLabels modelNs modelName,
      om_Annotations = trlpAnnotations subs, om_Finalizers = [], om_Generation = 0,
      om_Deleting = False, om_Owners = []\<rparr>"

text \<open>\<open>for k, v := range new { merged[k] = v }\<close>\<close>

definition mergeInto :: "labels \<Rightarrow> labels \<Rightarrow> labels" where
  "mergeInto old new = foldl (\<lambda>m (k, v). AList.update k v m) old new"

text \<open>The last part of \<open>reconcileTRLPForModel\<close>: create the policy or bring the existing one up to date.\<close>

definition writePolicy ::
  "('s, 'm) client_scheme \<Rightarrow> metaApi \<Rightarrow> HTTPRoute \<Rightarrow> string \<Rightarrow> string \<Rightarrow> string \<Rightarrow> string
     \<Rightarrow> subInfo list \<Rightarrow> 's \<Rightarrow> 's outcome" where
  "writePolicy c a route routeName routeNS modelNs modelName subs s =
     (let policyMeta = newPolicyMeta routeNS modelNs modelName subs;
          spec = trlpSpec routeName subs;
          at = om_Namespace policyMeta @ ''/'' @ om_Name policyMeta;
          failed = (\<lambda>t. (Some (CtlErr OtherErr t), s))
      in case SetControllerReference a (hr_meta route) policyMeta of
           Inl e \<Rightarrow> failed (''failed to set owner reference on TokenRateLimitPolicy '' @ at
                      @ '': '' @ e)
         | Inr ownedMeta \<Rightarrow>
             (case SetNestedMap a [] spec [''spec''] of
                Inl e \<Rightarrow> failed (''failed to set spec: '' @ e)
              | Inr policyObject \<Rightarrow>
                  (case getTRLP c routeNS (trlpName modelName) s of
                     Inl e \<Rightarrow>
                       if IsNotFound e then
                         (case createTRLP c \<lparr>u_meta = ownedMeta, u_Object = policyObject\<rparr> s of
                            (None, s') \<Rightarrow> (None, s')
                          | (Some e', s') \<Rightarrow>
                              (Some (wrapApi (''failed to create TokenRateLimitPolicy for model ''
                                 @ modelName) e'), s'))
                       else (Some (wrapApi ''failed to get existing TokenRateLimitPolicy'' e), s)
                   | Inr existing \<Rightarrow>
                       if \<not> isManaged (u_meta existing) then (None, s)
                       else
                         (case SetControllerReference a (hr_meta route) (u_meta existing) of
                            Inl e \<Rightarrow> failed (''failed to set owner reference on existing ''
                                       @ ''TokenRateLimitPolicy '' @ at @ '': '' @ e)
                          | Inr existingMeta \<Rightarrow>
                              let snapshot = existing\<lparr>u_meta := existingMeta\<rparr>;
                                  mergedMeta = existingMeta
                                    \<lparr>om_Annotations := mergeInto (om_Annotations existingMeta)
                                                          (om_Annotations ownedMeta),
                                     om_Labels := mergeInto (om_Labels existingMeta)
                                                     (om_Labels ownedMeta)\<rparr>
                              in (case SetNestedMap a (u_Object existing) spec [''spec''] of
                                    Inl e \<Rightarrow> failed (''failed to update spec: '' @ e)
                                  | Inr object1 \<Rightarrow>
                                      let updated = \<lparr>u_meta = mergedMeta, u_Object = object1\<rparr>
                                      in if eqObject a snapshot updated then (None, s)
                                         else
                                           (case updateTRLP c updated s of
                                              (None, s') \<Rightarrow> (None, s')
                                            | (Some e, s') \<Rightarrow>
                                                (Some (wrapApi (''failed to update ''
                                                   @ ''TokenRateLimitPolicy for model '' @ modelNs
                                                   @ ''/'' @ modelName) e), s')))))))"

definition reconcileTRLPForModel ::
  "('s, 'm) client_scheme \<Rightarrow> metaApi \<Rightarrow> MaaSSubscriptionReconciler \<Rightarrow> string \<Rightarrow> string \<Rightarrow> 's
     \<Rightarrow> 's outcome" where
  "reconcileTRLPForModel c a r modelNs modelName s =
     (let at = modelNs @ ''/'' @ modelName;
          cleanup = (\<lambda>t. case deleteModelTRLP c modelNs modelName s of
              (None, s') \<Rightarrow> (None, s')
            | (Some e, s') \<Rightarrow> (Some (wrapErr (t @ at) e), s'))
      in case findAllSubscriptionsForModel c modelNs modelName s of
           Inl e \<Rightarrow> (Some (wrapErr (''failed to list subscriptions for model '' @ at) e), s)
         | Inr found \<Rightarrow>
             let allSubs = filterSubscriptionsByTenantNamespace c found
                   (sr_DefaultTenantNamespace r) (sr_TenantNamespaceDiscoveryEnabled r) s
             in case findHTTPRouteForModel c (accessors a) modelNs modelName s of
                  Inl e \<Rightarrow>
                    if ctlIs e ErrModelNotFound \<or> allSubs = [] then
                      cleanup ''failed to clean up TokenRateLimitPolicy for missing model ''
                    else if ctlIs e ErrHTTPRouteNotFound then (None, s)
                    else (Some (wrapErr (''failed to resolve HTTPRoute for model '' @ at) e), s)
                | Inr (routeName, routeNS) \<Rightarrow>
                    (case validateSubscriptionTenantGatewaysForRoute c r allSubs routeName routeNS
                            modelNs modelName s of
                       Inl e \<Rightarrow> (Some e, s)
                     | Inr _ \<Rightarrow>
                         let early = getTRLP c routeNS (trlpName modelName) s
                         in if (case early of Inr existing \<Rightarrow> \<not> isManaged (u_meta existing)
                                | Inl _ \<Rightarrow> False) then (None, s)
                            else if (case early of Inl e \<Rightarrow> \<not> IsNotFound e | Inr _ \<Rightarrow> False) then
                              (Some (wrapApi ''failed to check existing TokenRateLimitPolicy''
                                 (projl early)), s)
                            else if allSubs = [] then
                              cleanup ''failed to delete TokenRateLimitPolicy for model ''
                            else
                              (case getHTTPRouteObj c routeNS routeName s of
                                 Inl e \<Rightarrow> (Some (wrapApi (''failed to fetch HTTPRoute '' @ routeNS
                                            @ ''/'' @ routeName) e), s)
                               | Inr route \<Rightarrow>
                                   let subs = collectSubs modelNs modelName allSubs
                                   in if subs = [] then deleteModelTRLP c modelNs modelName s
                                      else writePolicy c a route routeName routeNS modelNs modelName
                                             subs (others c s))))"

section \<open>Policies no longer referenced\<close>

definition ownsTRLP :: "MaaSSubscription \<Rightarrow> uobj \<Rightarrow> bool" where
  "ownsTRLP sub trlp \<longleftrightarrow>
     (let owners = annotation (om_Annotations (u_meta trlp)) ''maas.opendatahub.io/subscriptions''
      in annotationListContains owners
           (qualifiedName (om_Namespace (ms_meta sub)) (om_Name (ms_meta sub)))
         \<or> annotationListContains owners (om_Name (ms_meta sub)))"

definition trlpModel :: "uobj \<Rightarrow> string \<times> string" where
  "trlpModel trlp =
     (let ls = om_Labels (u_meta trlp);
          ns = annotation ls ''maas.opendatahub.io/model-namespace''
      in (if ns = [] then om_Namespace (u_meta trlp) else ns, annotation ls ''maas.opendatahub.io/model''))"

fun cleanupLoop ::
  "('s, 'm) client_scheme \<Rightarrow> MaaSSubscription \<Rightarrow> uobj list \<Rightarrow> 's \<Rightarrow> 's outcome" where
  "cleanupLoop c sub [] s = (None, s)"
| "cleanupLoop c sub (trlp # trlps) s =
     (let (modelNs, modelName) = trlpModel trlp;
          mkey = modelNs @ ''/'' @ modelName
      in if modelName = [] \<or> mkey \<in> set (map crdRefKey (ss_ModelRefs (ms_Spec sub)))
            \<or> \<not> ownsTRLP sub trlp
         then cleanupLoop c sub trlps s
         else
           (case deleteModelTRLP c modelNs modelName s of
              (None, s') \<Rightarrow> cleanupLoop c sub trlps s'
            | (Some e, s') \<Rightarrow>
                (Some (wrapErr (''failed to clean up stale TokenRateLimitPolicy for removed model ''
                   @ mkey) e), s')))"

definition cleanupStaleTRLPs ::
  "('s, 'm) client_scheme \<Rightarrow> MaaSSubscription \<Rightarrow> 's \<Rightarrow> 's outcome" where
  "cleanupStaleTRLPs c sub s =
     (case listTRLPs c None [(''app.kubernetes.io/managed-by'', ''maas-controller''),
                             (''app.kubernetes.io/part-of'', ''maas-subscription'')] s of
        Inl e \<Rightarrow>
          if IsNotFound e \<or> IsNoMatchError e then (None, s)
          else (Some (wrapApi ''failed to list managed TokenRateLimitPolicies for stale cleanup'' e), s)
      | Inr items \<Rightarrow> cleanupLoop c sub items s)"

fun reconcileModels ::
  "('s, 'm) client_scheme \<Rightarrow> metaApi \<Rightarrow> MaaSSubscriptionReconciler \<Rightarrow> ModelSubscriptionRef list
     \<Rightarrow> 's \<Rightarrow> 's outcome" where
  "reconcileModels c a r [] s = (None, s)"
| "reconcileModels c a r (ref # refs) s =
     (case reconcileTRLPForModel c a r (msr_Namespace ref) (msr_Name ref) s of
        (None, s') \<Rightarrow> reconcileModels c a r refs s'
      | (Some e, s') \<Rightarrow> (Some e, s'))"

definition reconcileTokenRateLimitPolicies ::
  "('s, 'm) client_scheme \<Rightarrow> metaApi \<Rightarrow> MaaSSubscriptionReconciler \<Rightarrow> MaaSSubscription \<Rightarrow> 's
     \<Rightarrow> 's outcome" where
  "reconcileTokenRateLimitPolicies c a r sub s =
     (case reconcileModels c a r (uniqueRefs sub) s of
        (Some e, s') \<Rightarrow> (Some e, s')
      | (None, s') \<Rightarrow> cleanupStaleTRLPs c sub s')"

section \<open>The status of a subscription\<close>

text \<open>\<open>Status().Update\<close> whose error is only logged.\<close>

definition writeSubscriptionStatus ::
  "('s, 'm) client_scheme \<Rightarrow> MaaSSubscription \<Rightarrow> 's \<Rightarrow> 's" where
  "writeSubscriptionStatus c sub s = snd (updateSubscriptionStatus c sub s)"

definition subReadyCondition :: "string \<Rightarrow> string \<Rightarrow> int \<Rightarrow> Condition" where
  "subReadyCondition phase message gen =
     (let (status, reason) =
            (if phase = ''Active'' then (''True'', ''Reconciled'')
             else if phase = ''Degraded'' then (''False'', ''PartialFailure'')
             else if phase = ''Failed'' then (''False'', ''ReconcileFailed'')
             else if phase = ''Invalid'' then (''False'', ''InvalidSpec'')
             else (''Unknown'', ''Unknown''))
      in \<lparr>c_Type = ''Ready'', c_Status = status, c_Reason = reason, c_Message = message,
          c_ObservedGeneration = gen\<rparr>)"

definition Sub_updateStatus ::
  "('s, 'm) client_scheme \<Rightarrow> metaApi \<Rightarrow> MaaSSubscription \<Rightarrow> string \<Rightarrow> string
     \<Rightarrow> MaaSSubscriptionStatus \<Rightarrow> 's \<Rightarrow> 's" where
  "Sub_updateStatus c a sub phase message statusSnapshot s =
     (let latest = getSubscription c (om_Namespace (ms_meta sub)) (om_Name (ms_meta sub)) s;
          (target, currentStatus) =
            (case latest of Inr l \<Rightarrow> (l, ms_Status l) | Inl _ \<Rightarrow> (sub, statusSnapshot));
          conds = st_Conditions (ms_Status sub);
          conds = (case latest of
              Inl _ \<Rightarrow> conds
            | Inr l \<Rightarrow>
                (case FindStatusCondition a (st_Conditions (ms_Status l))
                        ConditionSpecPriorityDuplicate of
                   None \<Rightarrow> conds
                 | Some dup \<Rightarrow> SetStatusCondition a conds dup));
          status = (ms_Status sub)
            \<lparr>st_Phase := phase,
             st_Conditions := SetStatusCondition a conds
               (subReadyCondition phase message (om_Generation (ms_meta sub)))\<rparr>
      in if eqSubscriptionStatus a currentStatus status then s
         else writeSubscriptionStatus c (target\<lparr>ms_Status := status\<rparr>) s)"

section \<open>Deletion and reconciliation\<close>

definition Sub_handleDeletion ::
  "('s, 'm) client_scheme \<Rightarrow> metaApi \<Rightarrow> MaaSSubscriptionReconciler \<Rightarrow> MaaSSubscription \<Rightarrow> 's
     \<Rightarrow> 's outcome" where
  "Sub_handleDeletion c a r sub s =
     (if ContainsFinalizer (ms_meta sub) maasSubscriptionFinalizer then
        (case reconcileModels c a r (uniqueRefs sub) s of
           (Some e, s') \<Rightarrow> (Some e, s')
         | (None, s') \<Rightarrow>
             (case cleanupStaleTRLPs c sub s' of
                (Some e, s'') \<Rightarrow> (Some e, s'')
              | (None, s'') \<Rightarrow>
                  (case updateSubscription c
                          (sub\<lparr>ms_meta := RemoveFinalizer a (ms_meta sub) maasSubscriptionFinalizer\<rparr>)
                          s'' of
                     (err, s3) \<Rightarrow> (map_option ofApi err, s3))))
      else (None, s))"

text \<open>The body of \<open>Reconcile\<close> once the subscription is known to carry the finalizer.\<close>

definition reconcileLive ::
  "('s, 'm) client_scheme \<Rightarrow> metaApi \<Rightarrow> MaaSSubscriptionReconciler \<Rightarrow> MaaSSubscription \<Rightarrow> 's
     \<Rightarrow> 's outcome" where
  "reconcileLive c a r sub s =
     (let statusSnapshot = ms_Status sub;
          modelStatuses = validateModelRefs c sub s;
          sub1 = sub\<lparr>ms_Status := (ms_Status sub)\<lparr>st_ModelRefStatuses := modelStatuses\<rparr>\<rparr>;
          hasValidModels = list_ex rs_Ready modelStatuses;
          s1 = others c s
      in case (if hasValidModels then reconcileTokenRateLimitPolicies c a r sub1 s1
               else cleanupStaleTRLPs c sub1 s1) of
           (Some e, s2) \<Rightarrow>
             (Some e, Sub_updateStatus c a sub1 ''Failed''
                ((if hasValidModels then ''failed to reconcile TokenRateLimitPolicies: ''
                  else ''failed to clean up stale TokenRateLimitPolicies: '') @ ce_text e)
                statusSnapshot s2)
         | (None, s2) \<Rightarrow>
             let s3 = others c s2;
                 trlpStatuses = checkTokenRateLimitHealth c (accessors a) sub1 s3;
                 modelStatuses = correctStale modelStatuses trlpStatuses;
                 sub2 = sub1\<lparr>ms_Status := (ms_Status sub1)
                          \<lparr>st_TokenRateLimitStatuses := trlpStatuses,
                           st_ModelRefStatuses := modelStatuses\<rparr>\<rparr>;
                 (phase, message) = deriveFinalPhase modelStatuses trlpStatuses
             in (None, Sub_updateStatus c a sub2 phase message statusSnapshot (others c s3)))"

definition Sub_Reconcile ::
  "('s, 'm) client_scheme \<Rightarrow> metaApi \<Rightarrow> MaaSSubscriptionReconciler \<Rightarrow> ctlRequest \<Rightarrow> 's \<Rightarrow> 's outcome"
where
  "Sub_Reconcile c a r req s =
     (case getSubscription c (fst req) (snd req) s of
        Inl e \<Rightarrow> (if IsNotFound e then None else Some (ofApi e), s)
      | Inr sub \<Rightarrow>
          if om_Deleting (ms_meta sub) then Sub_handleDeletion c a r sub s
          else
            (case tenantNamespaceAllowed c (fst req) (sr_DefaultTenantNamespace r)
                    (sr_TenantNamespaceDiscoveryEnabled r) s of
               Inl e \<Rightarrow> (Some e, s)
             | Inr isTenantNS \<Rightarrow>
                 if \<not> isTenantNS then (None, s)
                 else if ms_Spec sub = emptySubscriptionSpec then
                   (None, Sub_updateStatus c a sub ''Invalid'' ''spec is required'' (ms_Status sub) s)
                 else if ContainsFinalizer (ms_meta sub) maasSubscriptionFinalizer then
                   reconcileLive c a r sub s
                 else
                   (let sub' = sub\<lparr>ms_meta := AddFinalizer a (ms_meta sub) maasSubscriptionFinalizer\<rparr>
                    in case updateSubscription c sub' s of
                         (Some e, s') \<Rightarrow> (Some (ofApi e), s')
                       | (None, s') \<Rightarrow> reconcileLive c a r sub' s')))"

section \<open>Duplicate priorities\<close>

definition conditionsSemanticallyEqual :: "Condition option \<Rightarrow> Condition option \<Rightarrow> bool" where
  "conditionsSemanticallyEqual x y =
     (case (x, y) of
        (None, None) \<Rightarrow> True
      | (Some c, Some d) \<Rightarrow>
          c_Type c = c_Type d \<and> c_Status c = c_Status d \<and> c_Reason c = c_Reason d
          \<and> c_Message c = c_Message d \<and> c_ObservedGeneration c = c_ObservedGeneration d
      | _ \<Rightarrow> False)"

text \<open>\<open>byPriority[scope]\<close> of the live subscriptions, and the peers of one of them.\<close>

definition priorityGroup :: "MaaSSubscription list \<Rightarrow> string \<Rightarrow> int \<Rightarrow> string list" where
  "priorityGroup live ns p =
     goSort (<) (map subRefOf (filter (\<lambda>x. om_Namespace (ms_meta x) = ns
                                 \<and> ss_Priority (ms_Spec x) = p) live))"

definition priorityPeers :: "MaaSSubscription list \<Rightarrow> MaaSSubscription \<Rightarrow> string list" where
  "priorityPeers live sub =
     filter (\<lambda>k. k \<noteq> subRefOf sub)
       (priorityGroup live (om_Namespace (ms_meta sub)) (ss_Priority (ms_Spec sub)))"

definition duplicateCondition :: "int \<Rightarrow> string list \<Rightarrow> int \<Rightarrow> Condition" where
  "duplicateCondition p peers gen =
     (if peers = [] then
        \<lparr>c_Type = ConditionSpecPriorityDuplicate, c_Status = ''False'', c_Reason = ''NoDuplicatePeers'',
         c_Message = [], c_ObservedGeneration = gen\<rparr>
      else
        \<lparr>c_Type = ConditionSpecPriorityDuplicate, c_Status = ''True'', c_Reason = ''SharedPriority'',
         c_Message = ''spec.priority '' @ itoa p @ '' is shared with: '' @ Join peers '', '',
         c_ObservedGeneration = gen\<rparr>)"

definition markDuplicate ::
  "('s, 'm) client_scheme \<Rightarrow> metaApi \<Rightarrow> MaaSSubscription list \<Rightarrow> MaaSSubscription \<Rightarrow> 's \<Rightarrow> 's" where
  "markDuplicate c a live sub s =
     (case getSubscription c (om_Namespace (ms_meta sub)) (om_Name (ms_meta sub)) s of
        Inl _ \<Rightarrow> s
      | Inr latest \<Rightarrow>
          if om_Deleting (ms_meta latest) then s
          else
            let desired = duplicateCondition (ss_Priority (ms_Spec sub)) (priorityPeers live sub)
                            (om_Generation (ms_meta latest));
                conds = st_Conditions (ms_Status latest)
            in if conditionsSemanticallyEqual
                    (FindStatusCondition a conds ConditionSpecPriorityDuplicate) (Some desired)
               then s
               else writeSubscriptionStatus c
                      (latest\<lparr>ms_Status := (ms_Status latest)
                         \<lparr>st_Conditions := SetStatusCondition a conds desired\<rparr>\<rparr>) s)"

definition scanForDuplicatePriority ::
  "('s, 'm) client_scheme \<Rightarrow> metaApi \<Rightarrow> MaaSSubscriptionReconciler \<Rightarrow> 's \<Rightarrow> 's" where
  "scanForDuplicatePriority c a r s =
     (case listSubscriptions c s of
        Inl _ \<Rightarrow> s
      | Inr items \<Rightarrow>
          let items = filterSubscriptionsByTenantNamespace c items (sr_DefaultTenantNamespace r)
                        (sr_TenantNamespaceDiscoveryEnabled r) s;
              live = filter (\<lambda>x. \<not> om_Deleting (ms_meta x)) items
          in foldl (\<lambda>s' sub. markDuplicate c a live sub s') s live)"

text \<open>\<open>duplicatePriorityScanPredicate\<close> on an update.\<close>

definition duplicatePriorityScanOnUpdate :: "MaaSSubscription \<Rightarrow> MaaSSubscription \<Rightarrow> bool" where
  "duplicatePriorityScanOnUpdate old new \<longleftrightarrow>
     ss_Priority (ms_Spec old) \<noteq> ss_Priority (ms_Spec new)"

section \<open>From watched objects to requests\<close>

definition requestOf :: "MaaSSubscription \<Rightarrow> ctlRequest" where
  "requestOf sub = (om_Namespace (ms_meta sub), om_Name (ms_meta sub))"

definition tenantOnly ::
  "('s, 'm) client_scheme \<Rightarrow> MaaSSubscriptionReconciler \<Rightarrow> 's \<Rightarrow> MaaSSubscription list
     \<Rightarrow> MaaSSubscription list" where
  "tenantOnly c r s subs =
     filterSubscriptionsByTenantNamespace c subs (sr_DefaultTenantNamespace r)
       (sr_TenantNamespaceDiscoveryEnabled r) s"

definition mapAITenantToMaaSSubscriptions ::
  "('s, 'm) client_scheme \<Rightarrow> MaaSSubscriptionReconciler \<Rightarrow> AITenant \<Rightarrow> 's \<Rightarrow> ctlRequest list" where
  "mapAITenantToMaaSSubscriptions c r aitenant s =
     (case listSubscriptionsIn c (TenantNamespaceForAITenant (om_Name (at_meta aitenant))
             (sr_DefaultTenantNamespace r)) s of
        Inl _ \<Rightarrow> []
      | Inr items \<Rightarrow> map requestOf (tenantOnly c r s items))"

definition mapNamespaceToMaaSSubscriptions ::
  "('s, 'm) client_scheme \<Rightarrow> MaaSSubscriptionReconciler \<Rightarrow> string \<Rightarrow> 's \<Rightarrow> ctlRequest list" where
  "mapNamespaceToMaaSSubscriptions c r ns s =
     (if ns \<noteq> sr_DefaultTenantNamespace r \<and> \<not> sr_TenantNamespaceDiscoveryEnabled r then []
      else (case listSubscriptionsIn c ns s of Inl _ \<Rightarrow> [] | Inr items \<Rightarrow> map requestOf items))"

definition mapGeneratedTRLPToParent ::
  "('s, 'm) client_scheme \<Rightarrow> MaaSSubscriptionReconciler \<Rightarrow> uobj \<Rightarrow> 's \<Rightarrow> ctlRequest list" where
  "mapGeneratedTRLPToParent c r trlp s =
     (let (modelNs, modelName) = trlpModel trlp
      in if annotation (om_Labels (u_meta trlp)) ''app.kubernetes.io/managed-by'' \<noteq> ''maas-controller''
            \<or> modelName = [] then []
         else
           (case listSubscriptionsByModel c (modelNs @ ''/'' @ modelName) s of
              Inl _ \<Rightarrow> []
            | Inr items \<Rightarrow> map requestOf (dedupOn requestOf []
                (filter (\<lambda>x. \<not> om_Deleting (ms_meta x)) (tenantOnly c r s items)))))"

definition mapMaaSModelRefToMaaSSubscriptions ::
  "('s, 'm) client_scheme \<Rightarrow> MaaSSubscriptionReconciler \<Rightarrow> MaaSModelRef \<Rightarrow> 's \<Rightarrow> ctlRequest list" where
  "mapMaaSModelRefToMaaSSubscriptions c r model s =
     (case listSubscriptionsByModel c
             (modelKey (om_Namespace (mm_meta model)) (om_Name (mm_meta model))) s of
        Inl _ \<Rightarrow> []
      | Inr items \<Rightarrow> map requestOf (dedupOn requestOf [] (tenantOnly c r s items)))"

text \<open>One \<open>seen\<close> map runs through the subscriptions of all models, whose failed lists are skipped.\<close>

definition mapHTTPRouteToMaaSSubscriptions ::
  "('s, 'm) client_scheme \<Rightarrow> MaaSSubscriptionReconciler \<Rightarrow> HTTPRoute \<Rightarrow> 's \<Rightarrow> ctlRequest list" where
  "mapHTTPRouteToMaaSSubscriptions c r route s =
     (case listModelRefsIn c (om_Namespace (hr_meta route)) s of
        Inl _ \<Rightarrow> []
      | Inr models \<Rightarrow>
          map requestOf (dedupOn requestOf [] (concat (map (\<lambda>m.
              case listSubscriptionsByModel c
                     (modelKey (om_Namespace (mm_meta m)) (om_Name (mm_meta m))) s of
                Inl _ \<Rightarrow> []
              | Inr items \<Rightarrow> tenantOnly c r s items) models))))"

section \<open>Which priorities count as duplicates\<close>

lemma priorityPeers_set:
  "set (priorityPeers live sub) =
     {subRefOf x |x. x \<in> set live \<and> om_Namespace (ms_meta x) = om_Namespace (ms_meta sub)
        \<and> ss_Priority (ms_Spec x) = ss_Priority (ms_Spec sub) \<and> subRefOf x \<noteq> subRefOf sub}"
  by (auto simp: priorityPeers_def priorityGroup_def)

text \<open>
  The scan marks a live subscription with \<open>SpecPriorityDuplicate\<close> exactly when another live
  subscription of its own namespace has the same priority.
\<close>

theorem duplicate_priority_exact:
  assumes "distinct (map requestOf live)" and "sub \<in> set live"
  shows "c_Status (duplicateCondition (ss_Priority (ms_Spec sub)) (priorityPeers live sub) gen) = ''True''
     \<longleftrightarrow> (\<exists>x\<in>set live. x \<noteq> sub \<and> om_Namespace (ms_meta x) = om_Namespace (ms_meta sub)
            \<and> ss_Priority (ms_Spec x) = ss_Priority (ms_Spec sub))"
proof -
  have key: "subRefOf x = subRefOf sub \<longleftrightarrow> x = sub"
    if "x \<in> set live" "om_Namespace (ms_meta x) = om_Namespace (ms_meta sub)" for x
    using assms that inj_on_set_distinct_map [OF assms(1), of x sub]
    by (auto simp: subRefOf_def requestOf_def)
  have "c_Status (duplicateCondition (ss_Priority (ms_Spec sub)) (priorityPeers live sub) gen) = ''True''
      \<longleftrightarrow> set (priorityPeers live sub) \<noteq> {}"
    by (simp add: duplicateCondition_def)
  also have "\<dots> \<longleftrightarrow> (\<exists>x\<in>set live. x \<noteq> sub \<and> om_Namespace (ms_meta x) = om_Namespace (ms_meta sub)
            \<and> ss_Priority (ms_Spec x) = ss_Priority (ms_Spec sub))"
    unfolding priorityPeers_set using key by blast
  finally show ?thesis .
qed

theorem duplicate_priority_exact_witness:
  "let gold = sampleSubCR ''maas'' ''gold'' []; other = sampleSubCR ''team'' ''gold'' [];
       silver = (sampleSubCR ''maas'' ''silver'' [])\<lparr>ms_Spec := emptySubscriptionSpec\<lparr>ss_Priority := 5\<rparr>\<rparr>;
       twin = sampleSubCR ''maas'' ''twin'' []; live = [gold, other, silver, twin]
   in c_Status (duplicateCondition (ss_Priority (ms_Spec gold)) (priorityPeers live gold) 1) = ''True''
      \<and> c_Status (duplicateCondition (ss_Priority (ms_Spec silver)) (priorityPeers live silver) 1) \<noteq> ''True''"
  unfolding Let_def
  by (subst (1 2) duplicate_priority_exact)
     (simp_all add: sampleSubCR_def sampleMeta_def requestOf_def emptySubscriptionSpec_def)
end
