(* ===== verification/ClientLog.thy ===== *)
theory ClientLog
  imports ControllerTypes
begin

text \<open>
  A client that also writes down what it is asked to change. Run on \<open>logged c\<close>, a reconciler of
  the model does what it does on \<open>c\<close> and leaves the list of its writes, in order; properties of
  what is written, and in which order, are properties of that list.
\<close>

datatype op =
    CreateTRLP uobj
  | UpdateTRLP uobj
  | DeleteTRLP uobj
  | CreateAuthPolicy uobj
  | UpdateAuthPolicy uobj
  | DeleteAuthPolicy uobj
  | UpdatePolicy MaaSAuthPolicy
  | UpdatePolicyStatus MaaSAuthPolicy
  | UpdateSub MaaSSubscription
  | UpdateSubStatus MaaSSubscription
  | UpdateModel MaaSModelRef
  | UpdateModelStatus MaaSModelRef
  | Event string string string

type_synonym 's lstate = "'s \<times> op list"

definition logWrite :: "('a \<Rightarrow> op) \<Rightarrow> ('a \<Rightarrow> 's cwrite) \<Rightarrow> 'a \<Rightarrow> 's lstate cwrite" where
  "logWrite mk w x st = (case w x (fst st) of (e, s') \<Rightarrow> (e, (s', snd st @ [mk x])))"

definition logged :: "'s client \<Rightarrow> 's lstate client" where
  "logged c =
     \<lparr>getSubscription = (\<lambda>x y st. getSubscription c x y (fst st)),
      listSubscriptions = (\<lambda>st. listSubscriptions c (fst st)),
      listSubscriptionsIn = (\<lambda>x st. listSubscriptionsIn c x (fst st)),
      listSubscriptionsByModel = (\<lambda>x st. listSubscriptionsByModel c x (fst st)),
      updateSubscription = logWrite UpdateSub (updateSubscription c),
      updateSubscriptionStatus = logWrite UpdateSubStatus (updateSubscriptionStatus c),
      getModelRef = (\<lambda>x y st. getModelRef c x y (fst st)),
      listModelRefsIn = (\<lambda>x st. listModelRefsIn c x (fst st)),
      listModelRefsByName = (\<lambda>x st. listModelRefsByName c x (fst st)),
      listModelRefsByTenant = (\<lambda>x st. listModelRefsByTenant c x (fst st)),
      updateModelRef = logWrite UpdateModel (updateModelRef c),
      updateModelRefStatus = logWrite UpdateModelStatus (updateModelRefStatus c),
      getAuthPolicy = (\<lambda>x y st. getAuthPolicy c x y (fst st)),
      listAuthPolicies = (\<lambda>st. listAuthPolicies c (fst st)),
      listAuthPoliciesIn = (\<lambda>x st. listAuthPoliciesIn c x (fst st)),
      updateAuthPolicy = logWrite UpdatePolicy (updateAuthPolicy c),
      updateAuthPolicyStatus = logWrite UpdatePolicyStatus (updateAuthPolicyStatus c),
      getNamespaceLabels = (\<lambda>x st. getNamespaceLabels c x (fst st)),
      getMaasTenantConfig = (\<lambda>x y st. getMaasTenantConfig c x y (fst st)),
      getLegacyTenant = (\<lambda>x y st. getLegacyTenant c x y (fst st)),
      getAITenant = (\<lambda>x y st. getAITenant c x y (fst st)),
      listAITenantsIn = (\<lambda>x st. listAITenantsIn c x (fst st)),
      getHTTPRouteObj = (\<lambda>x y st. getHTTPRouteObj c x y (fst st)),
      listHTTPRoutes = (\<lambda>x y st. listHTTPRoutes c x y (fst st)),
      getGateway = (\<lambda>x y st. getGateway c x y (fst st)),
      getLLMInferenceService = (\<lambda>x y st. getLLMInferenceService c x y (fst st)),
      getInferenceExternalModel = (\<lambda>x y st. getInferenceExternalModel c x y (fst st)),
      getExternalModel = (\<lambda>x y st. getExternalModel c x y (fst st)),
      getTRLP = (\<lambda>x y st. getTRLP c x y (fst st)),
      listTRLPs = (\<lambda>x y st. listTRLPs c x y (fst st)),
      createTRLP = logWrite CreateTRLP (createTRLP c),
      updateTRLP = logWrite UpdateTRLP (updateTRLP c),
      deleteTRLP = logWrite DeleteTRLP (deleteTRLP c),
      listEndpointSlices = (\<lambda>x y st. listEndpointSlices c x y (fst st)),
      listInferenceExternalModels = (\<lambda>st. listInferenceExternalModels c (fst st)),
      getKuadrantAuthPolicy = (\<lambda>x y st. getKuadrantAuthPolicy c x y (fst st)),
      createKuadrantAuthPolicy = logWrite CreateAuthPolicy (createKuadrantAuthPolicy c),
      updateKuadrantAuthPolicy = logWrite UpdateAuthPolicy (updateKuadrantAuthPolicy c),
      listKuadrantAuthPolicies = (\<lambda>x y st. listKuadrantAuthPolicies c x y (fst st)),
      deleteKuadrantAuthPolicy = logWrite DeleteAuthPolicy (deleteKuadrantAuthPolicy c),
      recordEvent = (\<lambda>t r m st. (recordEvent c t r m (fst st), snd st @ [Event t r m])),
      others = (\<lambda>st. (others c (fst st), snd st))\<rparr>"

lemma logged_reads [simp]:
  "getSubscription (logged c) x y st = getSubscription c x y (fst st)"
  "listSubscriptions (logged c) st = listSubscriptions c (fst st)"
  "listSubscriptionsIn (logged c) x st = listSubscriptionsIn c x (fst st)"
  "listSubscriptionsByModel (logged c) x st = listSubscriptionsByModel c x (fst st)"
  "getModelRef (logged c) x y st = getModelRef c x y (fst st)"
  "listModelRefsIn (logged c) x st = listModelRefsIn c x (fst st)"
  "listModelRefsByName (logged c) x st = listModelRefsByName c x (fst st)"
  "listModelRefsByTenant (logged c) x st = listModelRefsByTenant c x (fst st)"
  "getAuthPolicy (logged c) x y st = getAuthPolicy c x y (fst st)"
  "listAuthPolicies (logged c) st = listAuthPolicies c (fst st)"
  "listAuthPoliciesIn (logged c) x st = listAuthPoliciesIn c x (fst st)"
  "listEndpointSlices (logged c) x ls st = listEndpointSlices c x ls (fst st)"
  "listInferenceExternalModels (logged c) st = listInferenceExternalModels c (fst st)"
  "getKuadrantAuthPolicy (logged c) x y st = getKuadrantAuthPolicy c x y (fst st)"
  "getNamespaceLabels (logged c) x st = getNamespaceLabels c x (fst st)"
  "getMaasTenantConfig (logged c) x y st = getMaasTenantConfig c x y (fst st)"
  "getLegacyTenant (logged c) x y st = getLegacyTenant c x y (fst st)"
  "getAITenant (logged c) x y st = getAITenant c x y (fst st)"
  "listAITenantsIn (logged c) x st = listAITenantsIn c x (fst st)"
  "getHTTPRouteObj (logged c) x y st = getHTTPRouteObj c x y (fst st)"
  "listHTTPRoutes (logged c) x ls st = listHTTPRoutes c x ls (fst st)"
  "getGateway (logged c) x y st = getGateway c x y (fst st)"
  "getLLMInferenceService (logged c) x y st = getLLMInferenceService c x y (fst st)"
  "getInferenceExternalModel (logged c) x y st = getInferenceExternalModel c x y (fst st)"
  "getExternalModel (logged c) x y st = getExternalModel c x y (fst st)"
  "getTRLP (logged c) x y st = getTRLP c x y (fst st)"
  "listTRLPs (logged c) nso ls st = listTRLPs c nso ls (fst st)"
  "listKuadrantAuthPolicies (logged c) nso ls st = listKuadrantAuthPolicies c nso ls (fst st)"
  by (simp_all add: logged_def)

lemma logged_writes:
  "updateSubscription (logged c) sub st = logWrite UpdateSub (updateSubscription c) sub st"
  "updateSubscriptionStatus (logged c) sub st = logWrite UpdateSubStatus (updateSubscriptionStatus c) sub st"
  "updateModelRef (logged c) mdl st = logWrite UpdateModel (updateModelRef c) mdl st"
  "updateModelRefStatus (logged c) mdl st = logWrite UpdateModelStatus (updateModelRefStatus c) mdl st"
  "createTRLP (logged c) x st = logWrite CreateTRLP (createTRLP c) x st"
  "updateTRLP (logged c) x st = logWrite UpdateTRLP (updateTRLP c) x st"
  "deleteTRLP (logged c) x st = logWrite DeleteTRLP (deleteTRLP c) x st"
  "updateAuthPolicy (logged c) pol st = logWrite UpdatePolicy (updateAuthPolicy c) pol st"
  "updateAuthPolicyStatus (logged c) pol st = logWrite UpdatePolicyStatus (updateAuthPolicyStatus c) pol st"
  "createKuadrantAuthPolicy (logged c) x st = logWrite CreateAuthPolicy (createKuadrantAuthPolicy c) x st"
  "updateKuadrantAuthPolicy (logged c) x st = logWrite UpdateAuthPolicy (updateKuadrantAuthPolicy c) x st"
  "deleteKuadrantAuthPolicy (logged c) x st = logWrite DeleteAuthPolicy (deleteKuadrantAuthPolicy c) x st"
  by (simp_all add: logged_def)

lemma logged_others [simp]: "others (logged c) st = (others c (fst st), snd st)"
  by (simp add: logged_def)

lemma logged_event: "recordEvent (logged c) t r m st = (recordEvent c t r m (fst st), snd st @ [Event t r m])"
  by (simp add: logged_def)

lemma logWrite_simps [simp]:
  "fst (logWrite mk w x st) = fst (w x (fst st))"
  "fst (snd (logWrite mk w x st)) = snd (w x (fst st))"
  "snd (snd (logWrite mk w x st)) = snd st @ [mk x]"
  by (simp_all add: logWrite_def split: prod.splits)

section \<open>Extending the log\<close>

text \<open>\<open>extends good st st'\<close>: what was written between \<open>st\<close> and \<open>st'\<close> satisfies \<open>good\<close>.\<close>

definition extends :: "(op \<Rightarrow> bool) \<Rightarrow> 's lstate \<Rightarrow> 's lstate \<Rightarrow> bool" where
  "extends good st st' \<longleftrightarrow> (\<exists>ops. snd st' = snd st @ ops \<and> list_all good ops)"

lemma extends_refl [simp, intro]: "extends good st st"
  by (simp add: extends_def)

lemma extends_trans: "extends good st st' \<Longrightarrow> extends good st' st'' \<Longrightarrow> extends good st st''"
  by (auto simp: extends_def)

lemma extends_others [simp]: "extends good (others c (fst st), snd st) st' = extends good st st'"
  by (simp add: extends_def)

lemma extends_write: "good (mk x) \<Longrightarrow> extends good st (snd (logWrite mk w x st))"
  by (simp add: extends_def)

lemma extends_weaken: "extends good st st' \<Longrightarrow> (\<And>x. good x \<Longrightarrow> good' x) \<Longrightarrow> extends good' st st'"
  by (auto simp: extends_def list_all_iff)

lemma extends_log: "extends good (s, []) st' \<Longrightarrow> list_all good (snd st')"
  by (auto simp: extends_def)

end
