(* ===== verification/SubscriptionTrace.thy ===== *)
theory SubscriptionTrace
  imports SubscriptionController ClientLog
begin

text \<open>
  What the subscription reconciler writes and in which order, read off the log of its writes:
  opted-out policies are left alone, no policy is attached to a route of another tenant's gateway,
  the finalizer is there before the first policy and goes after the last.
\<close>

section \<open>Reads do not see the log\<close>

lemma logged_tenantAllowed [simp]:
  "tenantNamespaceAllowed (logged c) ns d e st = tenantNamespaceAllowed c ns d e (fst st)"
  by (simp add: tenantNamespaceAllowed_def cong: inside_cases)

lemma logged_isTenant [simp]:
  "isTenantNamespace (logged c) ns d e st = isTenantNamespace c ns d e (fst st)"
  by (simp add: isTenantNamespace_def cong: inside_cases)

lemma logged_fetchTenant [simp]:
  "fetchTenantForNamespace (logged c) ns st = fetchTenantForNamespace c ns (fst st)"
  by (simp add: fetchTenantForNamespace_def cong: inside_cases)

lemma logged_platformContext [simp]:
  "ResolvePlatformContext (logged c) t g st = ResolvePlatformContext c t g (fst st)"
  by (simp add: ResolvePlatformContext_def resolveAITenantPlatformContext_def
      cong: inside_cases)

lemma logged_tenantGateway [simp]:
  "tenantGatewayRefForNamespace (logged c) ns d n nn e st = tenantGatewayRefForNamespace c ns d n nn e (fst st)"
  by (simp add: tenantGatewayRefForNamespace_def cong: inside_cases)

lemma logged_validateRoute [simp]:
  "validateHTTPRouteReferencesGateway (logged c) x y g st = validateHTTPRouteReferencesGateway c x y g (fst st)"
  by (simp add: validateHTTPRouteReferencesGateway_def cong: inside_cases)

lemma logged_findRoute [simp]:
  "findHTTPRouteForModel (logged c) k x y st = findHTTPRouteForModel c k x y (fst st)"
proof -
  have "(case GetRouteResolver kind of None \<Rightarrow> A | Some f \<Rightarrow> B (f (logged c) k m st)) =
        (case GetRouteResolver kind of None \<Rightarrow> A | Some f \<Rightarrow> B (f c k m (fst st)))" for kind A m and B :: "(string \<times> string) ctl \<Rightarrow> (string \<times> string) ctl"
    by (cases "backendOf kind")
       (auto simp: GetRouteResolver_def llmisvcHTTPRouteForModel_def externalHTTPRouteForModel_def
         cong: inside_cases split: backendKind.split)
  then show ?thesis by (simp add: findHTTPRouteForModel_def getHTTPRoute_def cong: inside_cases)
qed

lemma logged_find [simp]:
  "findAllSubscriptionsForModel (logged c) x y st = findAllSubscriptionsForModel c x y (fst st)"
  "findAllAuthPoliciesForModel (logged c) x y st = findAllAuthPoliciesForModel c x y (fst st)"
  by (simp_all add: findAllSubscriptionsForModel_def findAllAuthPoliciesForModel_def)

lemma logged_health [simp]:
  "validateModelRefs (logged c) sub st = validateModelRefs c sub (fst st)"
  "checkTokenRateLimitHealth (logged c) k sub st = checkTokenRateLimitHealth c k sub (fst st)"
  by (simp_all add: validateModelRefs_def modelRefStatus_def checkTokenRateLimitHealth_def trlpStatus_def Let_def cong: inside_cases)

lemma logged_gateways [simp]:
  "validateGatewayLoop (logged c) r a b m n sn sg subs st = validateGatewayLoop c r a b m n sn sg subs (fst st)"
  by (induction subs arbitrary: sn sg) (simp_all add: Let_def cong: inside_cases)
section \<open>Opted-out policies\<close>

fun policyOp :: "op \<Rightarrow> bool" where
  "policyOp (CreateTRLP p) = True"
| "policyOp (UpdateTRLP p) = isManaged (u_meta p)"
| "policyOp (DeleteTRLP p) = isManaged (u_meta p)"
| "policyOp _ = False"

text \<open>
  \<open>SetControllerReference\<close> changes owner references only: it keeps the annotations.
\<close>

definition keepsAnnotations :: "metaApi \<Rightarrow> bool" where
  "keepsAnnotations a \<longleftrightarrow>
     (\<forall>o1 m m'. SetControllerReference a o1 m = Inr m' \<longrightarrow> om_Annotations m' = om_Annotations m)"

lemma map_of_mergeInto:
  "k \<notin> fst ` set new \<Longrightarrow> map_of (mergeInto old new) k = map_of old k"
  unfolding mergeInto_def
proof (induction new arbitrary: old)
  case (Cons kv new)
  then show ?case by (cases kv) (simp add: AList.update_conv')
qed simp

lemma isManaged_merge:
  "isManaged (m\<lparr>om_Annotations := mergeInto (om_Annotations m) (trlpAnnotations subs), om_Labels := ls\<rparr>)
     = isManaged m"
  by (simp add: isManaged_def map_of_mergeInto trlpAnnotations_def AnnotationManaged_def)

lemma isManaged_cong: "om_Annotations m = om_Annotations m' \<Longrightarrow> isManaged m = isManaged m'"
  by (simp add: isManaged_def)

lemma deleteAllTRLPs_ext:
  assumes "\<And>p. isManaged (u_meta p) \<Longrightarrow> good (DeleteTRLP p)"
  shows "extends good st (snd (deleteAllTRLPs (logged c) ps st))"
proof (induction ps arbitrary: st)
  case (Cons p ps)
  show ?case
  proof (cases "isManaged (u_meta p)")
    case True
    let ?w = "logWrite DeleteTRLP (deleteTRLP c) p st"
    have w: "extends good st (snd ?w)" using True assms by (intro extends_write) simp
    obtain e st' where d: "?w = (e, st')" by (cases ?w)
    with w have "extends good st st'" by simp
    with Cons [of st'] True d show ?thesis
      by (auto simp: logged_writes split: option.split intro: extends_trans)
  qed (use Cons in simp)
qed simp

lemma deleteModelTRLP_ext':
  "(\<And>p. isManaged (u_meta p) \<Longrightarrow> good (DeleteTRLP p)) \<Longrightarrow>
     extends good st (snd (deleteModelTRLP (logged c) ns n st))"
  by (auto simp: deleteModelTRLP_def deleteAllTRLPs_ext split: sum.split)

lemma deleteModelTRLP_ext: "extends policyOp st (snd (deleteModelTRLP (logged c) ns n st))"
  by (rule deleteModelTRLP_ext') simp

lemma extends_outcome:
  "extends good st (snd f) \<Longrightarrow> extends good st (snd (case f of (None, s') \<Rightarrow> (None, s') | (Some e, s') \<Rightarrow> (Some (g e), s')))"
  by (auto split: prod.split option.split)

lemma writePolicy_ext:
  assumes "keepsAnnotations a"
  shows "extends policyOp st (snd (writePolicy (logged c) a route rn rns mns mn subs st))"
proof -
  have cr: "extends policyOp st (snd (createTRLP (logged c) x st))" for x
    unfolding logged_writes by (intro extends_write) simp
  have up: "extends policyOp st (snd (updateTRLP (logged c) x st))" if "isManaged (u_meta x)" for x
    unfolding logged_writes using that by (intro extends_write) simp
  have own: "om_Annotations m' = trlpAnnotations subs"
    if "SetControllerReference a (hr_meta route) (newPolicyMeta rns mns mn subs) = Inr m'" for m'
    using assms that by (auto simp: keepsAnnotations_def newPolicyMeta_def)
  have keep: "isManaged m' = isManaged m" if "SetControllerReference a (hr_meta route) m = Inr m'" for m m'
    using assms that by (intro isManaged_cong) (auto simp: keepsAnnotations_def)
  show ?thesis
    unfolding writePolicy_def Let_def
    by (auto split: sum.split simp: own keep isManaged_merge intro!: extends_outcome cr up)
qed

lemma reconcileTRLPForModel_ext:
  assumes "keepsAnnotations a"
  shows "extends policyOp st (snd (reconcileTRLPForModel (logged c) a r ns n st))"
proof -
  have del: "extends policyOp st (snd (deleteModelTRLP (logged c) ns n st))"
    by (rule deleteModelTRLP_ext)
  have wr: "extends policyOp st (snd (writePolicy (logged c) a route rn rns ns n subs (others (logged c) st)))"
    for route rn rns subs
    using writePolicy_ext [OF assms, of "others (logged c) st" c route rn rns ns n subs] by simp
  show ?thesis
    unfolding reconcileTRLPForModel_def Let_def
    by (auto split: sum.split simp del: logged_others intro!: extends_outcome del wr)
qed
lemma extends_bind:
  assumes "extends good st (snd f)" and "\<And>s'. extends good s' (snd (g s'))"
  shows "extends good st (snd (case f of (None, s') \<Rightarrow> g s' | (Some e, s') \<Rightarrow> (Some (h e), s')))"
  using assms by (auto split: prod.split option.split intro: extends_trans)

lemma extends_bind':
  assumes "extends good st (snd f)" and "\<And>s'. extends good s' (snd (g s'))"
  shows "extends good st (snd (case f of (None, s') \<Rightarrow> g s' | (Some e, s') \<Rightarrow> (Some e, s')))"
  using assms by (auto split: prod.split option.split intro: extends_trans)

lemma extends_case:
  assumes "extends good st (snd f)" and "\<And>e s'. extends good st s' \<Longrightarrow> extends good st (snd (A e s'))"
    and "\<And>s'. extends good st s' \<Longrightarrow> extends good st (snd (B s'))"
  shows "extends good st (snd (case f of (None, s') \<Rightarrow> B s' | (Some e, s') \<Rightarrow> A e s'))"
proof -
  obtain e s' where f: "f = (e, s')" by (cases f)
  with assms show ?thesis by (cases e) auto
qed

lemma cleanupLoop_ext: "extends policyOp st (snd (cleanupLoop (logged c) sub ps st))"
proof (induction ps arbitrary: st)
  case (Cons p ps)
  obtain mns mn where m: "trlpModel p = (mns, mn)" by (cases "trlpModel p")
  show ?case
    by (simp add: m Let_def) (intro conjI impI Cons extends_bind deleteModelTRLP_ext)
qed simp

lemma cleanupStaleTRLPs_ext: "extends policyOp st (snd (cleanupStaleTRLPs (logged c) sub st))"
  by (auto simp: cleanupStaleTRLPs_def cleanupLoop_ext split: sum.split)

lemma reconcileModels_ext:
  assumes "keepsAnnotations a"
  shows "extends policyOp st (snd (reconcileModels (logged c) a r refs st))"
proof (induction refs arbitrary: st)
  case (Cons ref refs)
  show ?case
    unfolding reconcileModels.simps
    by (intro extends_bind' reconcileTRLPForModel_ext assms Cons)
qed simp

lemma reconcilePolicies_ext:
  assumes "keepsAnnotations a"
  shows "extends policyOp st (snd (reconcileTokenRateLimitPolicies (logged c) a r sub st))"
  unfolding reconcileTokenRateLimitPolicies_def
  by (intro extends_bind' reconcileModels_ext assms cleanupStaleTRLPs_ext)

text \<open>What else the reconciler writes: the subscription itself, and its status.\<close>

fun subOp :: "op \<Rightarrow> bool" where
  "subOp (UpdateSub x) = True"
| "subOp (UpdateSubStatus x) = True"
| "subOp x = policyOp x"

lemma subOp_policyOp: "policyOp x \<Longrightarrow> subOp x"
  by (cases x) auto

lemmas policy_ext_subOp = extends_weaken [OF _ subOp_policyOp]

lemma writeStatus_ext: "extends subOp st (writeSubscriptionStatus (logged c) x st)"
  unfolding writeSubscriptionStatus_def logged_writes by (intro extends_write) simp

lemma Sub_updateStatus_ext: "extends subOp st (Sub_updateStatus (logged c) a sub ph m sn st)"
  unfolding Sub_updateStatus_def Let_def by (auto simp: writeStatus_ext split: prod.split)

lemma updateSubscription_ext: "extends subOp st (snd (updateSubscription (logged c) x st))"
  unfolding logged_writes by (intro extends_write) simp

lemma Sub_handleDeletion_ext:
  assumes "keepsAnnotations a"
  shows "extends subOp st (snd (Sub_handleDeletion (logged c) a r sub st))"
proof -
  have fin: "extends subOp s' (snd (case updateSubscription (logged c) x s' of (err, s3) \<Rightarrow> (map_option ofApi err, s3)))" for s' x
    using updateSubscription_ext [of s' c x] by (cases "updateSubscription (logged c) x s'") simp
  show ?thesis
  proof (cases "ContainsFinalizer (ms_meta sub) maasSubscriptionFinalizer")
    case True
    then show ?thesis
      unfolding Sub_handleDeletion_def if_P [OF True]
      by (intro extends_bind' fin policy_ext_subOp [OF reconcileModels_ext]
          policy_ext_subOp [OF cleanupStaleTRLPs_ext] assms)
  qed (simp add: Sub_handleDeletion_def)
qed

lemma reconcileLive_ext:
  assumes "keepsAnnotations a"
  shows "extends subOp st (snd (reconcileLive (logged c) a r sub st))"
proof -
  have pol: "extends subOp st (snd (if b then reconcileTokenRateLimitPolicies (logged c) a r x (others (logged c) st)
              else cleanupStaleTRLPs (logged c) x (others (logged c) st)))" for b x
    using policy_ext_subOp [OF reconcilePolicies_ext [OF assms, of "others (logged c) st" c r x]]
      policy_ext_subOp [OF cleanupStaleTRLPs_ext [of "others (logged c) st" c x]] by simp
  have upd: "extends subOp st (Sub_updateStatus (logged c) a x ph m sn s')"
    if "extends subOp st s'" for x ph m sn s'
    using that Sub_updateStatus_ext by (rule extends_trans)
  have upd': "extends subOp st (Sub_updateStatus (logged c) a x ph m sn (others (logged c) (others (logged c) s')))"
    if "extends subOp st s'" for x ph m sn s'
    using extends_trans [OF that, of "Sub_updateStatus (logged c) a x ph m sn (others (logged c) (others (logged c) s'))"]
      Sub_updateStatus_ext [of "others (logged c) (others (logged c) s')" c a x ph m sn]
    by (simp add: extends_def)
  show ?thesis
    unfolding reconcileLive_def Let_def
    by (rule extends_case [OF pol]) (auto simp del: logged_others split: prod.split intro!: upd upd')
qed

lemma Sub_Reconcile_ext:
  assumes "keepsAnnotations a"
  shows "extends subOp st (snd (Sub_Reconcile (logged c) a r req st))"
proof -
  have live: "extends subOp st (snd (case updateSubscription (logged c) x st of
      (None, s') \<Rightarrow> reconcileLive (logged c) a r y s' | (Some e, s') \<Rightarrow> (Some (ofApi e), s')))" for x y
    by (rule extends_case [OF updateSubscription_ext])
       (auto intro: extends_trans reconcileLive_ext assms)
  show ?thesis
    unfolding Sub_Reconcile_def Let_def
    by (auto split: sum.split intro!: live reconcileLive_ext Sub_handleDeletion_ext Sub_updateStatus_ext assms)
qed

text \<open>
  C29: Whatever the state of the cluster, reconciling a subscription never updates or deletes a
  TokenRateLimitPolicy that has opted out with \<open>opendatahub.io/managed: "false"\<close>.
\<close>

theorem opted_out_policies_untouched:
  assumes "keepsAnnotations a"
    and "op \<in> set (snd (snd (Sub_Reconcile (logged c) a r req (s, []))))"
  shows "(\<forall>p. op = UpdateTRLP p \<longrightarrow> isManaged (u_meta p)) \<and> (\<forall>p. op = DeleteTRLP p \<longrightarrow> isManaged (u_meta p))"
proof -
  have "list_all subOp (snd (snd (Sub_Reconcile (logged c) a r req (s, []))))"
    using Sub_Reconcile_ext [OF assms(1)] by (rule extends_log)
  with assms(2) have "subOp op" by (auto simp: list_all_iff)
  then show ?thesis by auto
qed

section \<open>The finalizer\<close>

text \<open>
  C30: The finalizer of a deleted subscription is removed by the last write, after only policy writes,
  and only when every model's policy was rebuilt and every stale policy cleaned up without error.
\<close>

theorem finalizer_removed_last:
  assumes "keepsAnnotations a"
    and "UpdateSub x \<in> set (snd (snd (Sub_handleDeletion (logged c) a r sub (s, []))))"
  shows "\<exists>pre st st'. snd (snd (Sub_handleDeletion (logged c) a r sub (s, []))) = pre @ [UpdateSub x]
           \<and> list_all policyOp pre
           \<and> reconcileModels (logged c) a r (uniqueRefs sub) (s, []) = (None, st)
           \<and> cleanupStaleTRLPs (logged c) sub st = (None, st')
           \<and> x = sub\<lparr>ms_meta := RemoveFinalizer a (ms_meta sub) maasSubscriptionFinalizer\<rparr>"
proof -
  obtain e1 st1 where m: "reconcileModels (logged c) a r (uniqueRefs sub) (s, []) = (e1, st1)"
    by (cases "reconcileModels (logged c) a r (uniqueRefs sub) (s, [])")
  have l1: "list_all policyOp (snd st1)"
    using extends_log [OF reconcileModels_ext [OF assms(1), of "(s, [])" c r "uniqueRefs sub"]] m by simp
  obtain e2 st2 where k: "cleanupStaleTRLPs (logged c) sub st1 = (e2, st2)"
    by (cases "cleanupStaleTRLPs (logged c) sub st1")
  have l2: "list_all policyOp (snd st2)"
    using cleanupStaleTRLPs_ext [of st1 c sub] k l1 by (auto simp: extends_def)
  have no: "UpdateSub x \<notin> set (snd st1)" "UpdateSub x \<notin> set (snd st2)"
    using l1 l2 by (auto simp: list_all_iff)
  have fin: "ContainsFinalizer (ms_meta sub) maasSubscriptionFinalizer"
    using assms(2) by (auto simp: Sub_handleDeletion_def split: if_splits)
  have e: "e1 = None" "e2 = None"
    using assms(2) fin m k no by (auto simp: Sub_handleDeletion_def split: option.splits)
  then have lg: "snd (snd (Sub_handleDeletion (logged c) a r sub (s, []))) =
      snd st2 @ [UpdateSub (sub\<lparr>ms_meta := RemoveFinalizer a (ms_meta sub) maasSubscriptionFinalizer\<rparr>)]"
    using fin m k by (simp add: Sub_handleDeletion_def logged_writes case_prod_beta)
  with assms(2) no l2 m k e show ?thesis by auto
qed

text \<open>
  Before the first write to a policy, the subscription carries the clean-up finalizer: it had it
  already, or adding it was the first write of all.
\<close>

theorem finalizer_before_policies:
  assumes "keepsAnnotations a" and "getSubscription c (fst req) (snd req) s = Inr sub"
    and "\<not> om_Deleting (ms_meta sub)"
    and "op \<in> set (snd (snd (Sub_Reconcile (logged c) a r req (s, []))))" and "policyOp op"
  shows "ContainsFinalizer (ms_meta sub) maasSubscriptionFinalizer
     \<or> (\<exists>l. snd (snd (Sub_Reconcile (logged c) a r req (s, []))) =
            UpdateSub (sub\<lparr>ms_meta := AddFinalizer a (ms_meta sub) maasSubscriptionFinalizer\<rparr>) # l)"
proof (rule disjCI)
  let ?log = "snd (snd (Sub_Reconcile (logged c) a r req (s, [])))"
  let ?sub = "sub\<lparr>ms_meta := AddFinalizer a (ms_meta sub) maasSubscriptionFinalizer\<rparr>"
  assume nhd: "\<nexists>l. ?log = UpdateSub ?sub # l"
  show "ContainsFinalizer (ms_meta sub) maasSubscriptionFinalizer"
  proof (rule ccontr)
    assume nf: "\<not> ContainsFinalizer (ms_meta sub) maasSubscriptionFinalizer"
    obtain e st1 where w: "updateSubscription (logged c) ?sub (s, []) = (e, st1)"
      by (cases "updateSubscription (logged c) ?sub (s, [])")
    then have l1: "snd st1 = [UpdateSub ?sub]"
      by (metis append_Nil logWrite_simps(3) logged_writes(1) snd_conv)
    have upd: "policyOp op \<Longrightarrow> op \<notin> set (snd (Sub_updateStatus (logged c) a sub ph m sn (s, [])))" for ph m sn
      by (auto simp: Sub_updateStatus_def Let_def writeSubscriptionStatus_def logged_writes split: prod.splits if_splits)
    show False
    proof (cases "?log = [] \<or> op \<in> set (snd (Sub_updateStatus (logged c) a sub ''Invalid'' ''spec is required'' (ms_Status sub) (s, [])))")
      case True
      then show False using assms(4,5) upd by auto
    next
      case False
      then have r: "?log = snd (snd (case (e, st1) of (None, s') \<Rightarrow> reconcileLive (logged c) a r ?sub s'
            | (Some e, s') \<Rightarrow> (Some (ofApi e), s')))"
        using assms(2-4) nf w by (auto simp: Sub_Reconcile_def Let_def split: sum.splits if_splits)
      have "\<exists>l. ?log = UpdateSub ?sub # l"
        using r l1 reconcileLive_ext [OF assms(1), of st1 c r ?sub]
        by (auto simp: extends_def split: option.splits)
      with nhd show False by blast
    qed
  qed
qed

section \<open>Tenant gateways\<close>

text \<open>
  What \<open>validateSubscriptionTenantGatewaysForRoute\<close> establishes for the namespace of a
  subscription: its gateway is known, and the route refers to it unless no gateway is configured.
\<close>

definition routeOnTenantGateway ::
  "'s client \<Rightarrow> MaaSSubscriptionReconciler \<Rightarrow> string \<Rightarrow> string \<Rightarrow> 's \<Rightarrow> string \<Rightarrow> bool" where
  "routeOnTenantGateway c r rn rns s ns \<longleftrightarrow>
     (\<exists>ref. tenantGatewayRefForNamespace c ns (sr_DefaultTenantNamespace r) (sr_GatewayName r)
              (sr_GatewayNamespace r) (sr_TenantNamespaceDiscoveryEnabled r) s = Inr ref
        \<and> validateHTTPRouteReferencesGateway c rn rns ref s = Inr ())"

lemma qualifiedName_inj:
  assumes "qualifiedName (gr_Namespace x) (gr_Name x) = qualifiedName (gr_Namespace y) (gr_Name y)"
    and "wholeGatewayRef x" and "wholeGatewayRef y"
    and "CHR ''/'' \<notin> set (gr_Namespace x)" and "CHR ''/'' \<notin> set (gr_Namespace y)"
  shows "x = y"
proof -
  have "gr_Namespace x = [] \<longleftrightarrow> gr_Namespace y = []"
    using assms(1-3) by (auto simp: qualifiedName_def wholeGatewayRef_def split: if_splits)
  then show ?thesis
    using assms modelKey_inj [of "gr_Namespace x" "gr_Namespace y" "gr_Name x" "gr_Name y"]
    by (cases x; cases y) (auto simp: qualifiedName_def wholeGatewayRef_def modelKey_def split: if_splits)
qed

lemma validateGatewayLoop_sound:
  assumes "validateGatewayLoop c r rn rns mns mn seenNs seenGw subs s = Inr ()"
    and slash: "\<And>ns ref. tenantGatewayRefForNamespace c ns (sr_DefaultTenantNamespace r)
          (sr_GatewayName r) (sr_GatewayNamespace r) (sr_TenantNamespaceDiscoveryEnabled r) s = Inr ref
          \<Longrightarrow> CHR ''/'' \<notin> set (gr_Namespace ref)"
    and "\<forall>ns\<in>set seenNs. routeOnTenantGateway c r rn rns s ns"
    and "\<forall>k\<in>set seenGw. \<exists>ref. k = qualifiedName (gr_Namespace ref) (gr_Name ref) \<and> wholeGatewayRef ref
           \<and> CHR ''/'' \<notin> set (gr_Namespace ref)
           \<and> validateHTTPRouteReferencesGateway c rn rns ref s = Inr ()"
    and "sub \<in> set subs"
  shows "routeOnTenantGateway c r rn rns s (om_Namespace (ms_meta sub))"
  using assms(1,3,4,5)
proof (induction subs arbitrary: seenNs seenGw)
  case (Cons x xs)
  let ?ns = "om_Namespace (ms_meta x)"
  show ?case
  proof (cases "?ns \<in> set seenNs")
    case True
    with Cons show ?thesis by auto
  next
    case False
    obtain ref where ref: "tenantGatewayRefForNamespace c ?ns (sr_DefaultTenantNamespace r)
          (sr_GatewayName r) (sr_GatewayNamespace r) (sr_TenantNamespaceDiscoveryEnabled r) s = Inr ref"
      using Cons.prems(1) False by (auto simp: Let_def split: sum.splits)
    have w: "wholeGatewayRef ref" using ref by (rule tenantGatewayRef_whole)
    have sl: "CHR ''/'' \<notin> set (gr_Namespace ref)" using ref by (rule slash)
    let ?k = "qualifiedName (gr_Namespace ref) (gr_Name ref)"
    show ?thesis
    proof (cases "?k \<in> set seenGw")
      case True
      then obtain ref' where ref': "?k = qualifiedName (gr_Namespace ref') (gr_Name ref')"
          "wholeGatewayRef ref'" "CHR ''/'' \<notin> set (gr_Namespace ref')"
          "validateHTTPRouteReferencesGateway c rn rns ref' s = Inr ()"
        using Cons.prems(3) by blast
      with w sl have "ref' = ref" using qualifiedName_inj by metis
      with ref ref' have here: "routeOnTenantGateway c r rn rns s ?ns"
        by (auto simp: routeOnTenantGateway_def)
      have "validateGatewayLoop c r rn rns mns mn (?ns # seenNs) seenGw xs s = Inr ()"
        using Cons.prems(1) False ref True by (simp add: Let_def)
      from Cons.IH [OF this] here Cons.prems show ?thesis by auto
    next
      case nk: False
      then have v: "validateHTTPRouteReferencesGateway c rn rns ref s = Inr ()"
        using Cons.prems(1) False ref by (auto simp: Let_def split: sum.splits)
      with ref have here: "routeOnTenantGateway c r rn rns s ?ns"
        by (auto simp: routeOnTenantGateway_def)
      have "validateGatewayLoop c r rn rns mns mn (?ns # seenNs) (?k # seenGw) xs s = Inr ()"
        using Cons.prems(1) False ref nk v by (simp add: Let_def)
      from Cons.IH [OF this] here v w sl Cons.prems show ?thesis by auto
    qed
  qed
qed simp
lemma delete_only:
  "\<forall>x\<in>set (snd (snd (deleteModelTRLP (logged c) ns n (s, [])))). \<exists>p. x = DeleteTRLP p"
  using extends_log [OF deleteModelTRLP_ext' [of "\<lambda>x. \<exists>p. x = DeleteTRLP p" "(s, [])" c ns n]]
  by (simp add: list_all_iff)

text \<open>The names of namespaces hold no slash; here, those of the tenants' gateways.\<close>

definition plainGateways :: "'s client \<Rightarrow> MaaSSubscriptionReconciler \<Rightarrow> 's \<Rightarrow> bool" where
  "plainGateways c r s \<longleftrightarrow>
     (\<forall>t ref. tenantGatewayRefForNamespace c t (sr_DefaultTenantNamespace r) (sr_GatewayName r)
          (sr_GatewayNamespace r) (sr_TenantNamespaceDiscoveryEnabled r) s = Inr ref
        \<longrightarrow> CHR ''/'' \<notin> set (gr_Namespace ref))"

text \<open>
  C8: A TokenRateLimitPolicy is written for a model only if every tenant whose subscriptions it
  covers owns a gateway the model's HTTPRoute refers to (or has none configured): no tenant
  attaches a policy to a route of another tenant's gateway.
\<close>

theorem policy_on_tenant_gateway:
  assumes slash: "plainGateways c r s"
    and op: "op \<in> set (snd (snd (reconcileTRLPForModel (logged c) a r ns n (s, []))))"
    and wr: "op = CreateTRLP p \<or> op = UpdateTRLP p"
  shows "\<exists>rn rns found. findHTTPRouteForModel c (accessors a) ns n s = Inr (rn, rns)
     \<and> findAllSubscriptionsForModel c ns n s = Inr found
     \<and> (\<forall>sub\<in>set found. isTenantNamespace c (om_Namespace (ms_meta sub))
            (sr_DefaultTenantNamespace r) (sr_TenantNamespaceDiscoveryEnabled r) s \<longrightarrow>
          routeOnTenantGateway c r rn rns s (om_Namespace (ms_meta sub)))"
proof -
  have nd: "op \<notin> set (snd (snd (deleteModelTRLP (logged c) ns n (s, []))))"
    using delete_only wr by fastforce
  have nc: "op \<notin> set (snd (snd (case deleteModelTRLP (logged c) ns n (s, []) of
      (None, s') \<Rightarrow> (None, s') | (Some e, s') \<Rightarrow> (Some (h e), s'))))" for h :: "ctl_error \<Rightarrow> ctl_error"
    using nd by (cases "deleteModelTRLP (logged c) ns n (s, [])") (auto split: option.splits)
  obtain found where f: "findAllSubscriptionsForModel c ns n s = Inr found"
    using op by (auto simp: reconcileTRLPForModel_def Let_def split: sum.splits)
  obtain rn rns where fr: "findHTTPRouteForModel c (accessors a) ns n s = Inr (rn, rns)"
    using op f nc by (auto simp: reconcileTRLPForModel_def Let_def split: sum.splits if_splits)
  let ?all = "filter (\<lambda>sub. isTenantNamespace c (om_Namespace (ms_meta sub))
            (sr_DefaultTenantNamespace r) (sr_TenantNamespaceDiscoveryEnabled r) s) found"
  have v: "validateGatewayLoop c r rn rns ns n [] [] ?all s = Inr ()"
    using op f fr
    by (auto simp: reconcileTRLPForModel_def validateSubscriptionTenantGatewaysForRoute_def Let_def
        split: sum.splits)
  have "routeOnTenantGateway c r rn rns s (om_Namespace (ms_meta sub))" if "sub \<in> set ?all" for sub
    by (rule validateGatewayLoop_sound [OF v])
       (use that slash in \<open>auto simp: plainGateways_def\<close>)
  with f fr show ?thesis by auto
qed
section \<open>Samples\<close>

definition sampleReconciler :: MaaSSubscriptionReconciler where
  "sampleReconciler =
     \<lparr>sr_DefaultTenantNamespace = ''maas'', sr_TenantNamespaceDiscoveryEnabled = False,
      sr_GatewayName = ''gw'', sr_GatewayNamespace = ''gws''\<rparr>"

lemmas sample_defs =
  sampleCluster_def emptyCluster_def sampleSubCR_def sampleRef_def sampleMeta_def sampleModel_def
  sampleRoute_def emptySubscriptionSpec_def emptySubscriptionStatus_def sampleReconciler_def

lemmas mem_defs = memClient_def findAt_def isAt_def listIn_def putAt_def dropAt_def plainMeta_def
  plainSetCondition_def

lemma plain_keeps: "keepsAnnotations plainMeta"
  by (auto simp: keepsAnnotations_def plainMeta_def)

definition sampleTRLP :: "string \<Rightarrow> labels \<Rightarrow> uobj" where
  "sampleTRLP name anns =
     \<lparr>u_meta = (sampleMeta ''llm'' name)\<lparr>om_Labels := trlpLabels ''llm'' ''m1'', om_Annotations := anns\<rparr>,
      u_Object = []\<rparr>"

text \<open>A deleted subscription to a model that is gone, with one policy in use and one opted out.\<close>

definition sampleDeleted :: MaaSSubscription where
  "sampleDeleted = (sampleSubCR ''maas'' ''gold'' [sampleRef ''llm'' ''m1'' []])
     \<lparr>ms_meta := (sampleMeta ''maas'' ''gold'')
        \<lparr>om_Finalizers := [maasSubscriptionFinalizer], om_Deleting := True\<rparr>\<rparr>"

definition sampleOptedOut :: uobj where
  "sampleOptedOut = sampleTRLP ''custom'' [(AnnotationManaged, ''false'')]"

definition sampleDeletion :: cluster where
  "sampleDeletion = emptyCluster
     \<lparr>cl_subs := [sampleDeleted], cl_trlps := [sampleTRLP ''maas-trlp-m1'' [], sampleOptedOut]\<rparr>"

lemmas deletion_defs = sampleDeletion_def sampleDeleted_def sampleOptedOut_def sampleTRLP_def
  ContainsFinalizer_def maasSubscriptionFinalizer_def

lemma sampleDeletion_model:
  "reconcileTRLPForModel (logged memClient) plainMeta sampleReconciler ''llm'' ''m1'' (sampleDeletion, []) =
     (None, (sampleDeletion\<lparr>cl_trlps := [sampleOptedOut]\<rparr>, [DeleteTRLP (sampleTRLP ''maas-trlp-m1'' [])]))"
  by (simp add: reconcileTRLPForModel_def findAllSubscriptionsForModel_def findHTTPRouteForModel_def
     deletion_defs mem_defs sample_defs modelKey_def IsNotFound_def ctlIs_def deleteModelTRLP_def
     trlpLabels_def isManaged_def AnnotationManaged_def logged_writes logWrite_def)

lemma sampleDeletion_cleanup:
  "cleanupStaleTRLPs (logged memClient) sampleDeleted (sampleDeletion\<lparr>cl_trlps := [sampleOptedOut]\<rparr>, l) =
     (None, (sampleDeletion\<lparr>cl_trlps := [sampleOptedOut]\<rparr>, l))"
  by (simp add: cleanupStaleTRLPs_def deletion_defs mem_defs sample_defs trlpModel_def annotation_def
      trlpLabels_def crdRefKey_def AnnotationManaged_def)

lemma sampleDeletion_refs: "uniqueRefs sampleDeleted = [sampleRef ''llm'' ''m1'' []]"
  by (simp add: uniqueRefs_def sampleDeleted_def sampleSubCR_def sampleRef_def emptySubscriptionSpec_def)

lemma sampleDeletion_log:
  "snd (snd (Sub_handleDeletion (logged memClient) plainMeta sampleReconciler sampleDeleted (sampleDeletion, []))) =
     [DeleteTRLP (sampleTRLP ''maas-trlp-m1'' []),
      UpdateSub (sampleDeleted\<lparr>ms_meta := RemoveFinalizer plainMeta (ms_meta sampleDeleted) maasSubscriptionFinalizer\<rparr>)]"
proof -
  have "ContainsFinalizer (ms_meta sampleDeleted) maasSubscriptionFinalizer"
    by (simp add: sampleDeleted_def ContainsFinalizer_def)
  then show ?thesis
    using sampleDeletion_model
    by (simp add: Sub_handleDeletion_def sampleDeletion_refs sampleRef_def sampleDeletion_cleanup
        logged_writes case_prod_beta)
qed

lemma sampleDeletion_reconcile:
  "Sub_Reconcile (logged memClient) plainMeta sampleReconciler (''maas'', ''gold'') (sampleDeletion, []) =
   Sub_handleDeletion (logged memClient) plainMeta sampleReconciler sampleDeleted (sampleDeletion, [])"
proof -
  have "getSubscription memClient ''maas'' ''gold'' sampleDeletion = Inr sampleDeleted"
    by (simp add: mem_defs deletion_defs sample_defs)
  moreover have "om_Deleting (ms_meta sampleDeleted)" by (simp add: sampleDeleted_def)
  ultimately show ?thesis by (simp add: Sub_Reconcile_def)
qed

theorem opted_out_policies_untouched_witness:
  "snd (snd (Sub_Reconcile (logged memClient) plainMeta sampleReconciler (''maas'', ''gold'')
      (sampleDeletion, []))) ! 0 = DeleteTRLP (sampleTRLP ''maas-trlp-m1'' [])
   \<and> isManaged (u_meta (sampleTRLP ''maas-trlp-m1'' [])) \<and> \<not> isManaged (u_meta sampleOptedOut)"
proof -
  let ?log = "snd (snd (Sub_Reconcile (logged memClient) plainMeta sampleReconciler (''maas'', ''gold'')
      (sampleDeletion, [])))"
  have log: "?log ! 0 = DeleteTRLP (sampleTRLP ''maas-trlp-m1'' [])" "0 < length ?log"
    by (simp_all add: sampleDeletion_reconcile sampleDeletion_log)
  then have "DeleteTRLP (sampleTRLP ''maas-trlp-m1'' []) \<in> set ?log" by (metis nth_mem)
  from opted_out_policies_untouched [OF plain_keeps this]
  have "isManaged (u_meta (sampleTRLP ''maas-trlp-m1'' []))" by simp
  moreover have "\<not> isManaged (u_meta sampleOptedOut)"
    by (simp add: sampleOptedOut_def sampleTRLP_def isManaged_def AnnotationManaged_def)
  ultimately show ?thesis using log(1) by blast
qed

theorem finalizer_removed_last_witness:
  "\<exists>pre x. snd (snd (Sub_handleDeletion (logged memClient) plainMeta sampleReconciler sampleDeleted
      (sampleDeletion, []))) = pre @ [UpdateSub x]
     \<and> length pre = 1 \<and> list_all policyOp pre \<and> om_Finalizers (ms_meta x) = []"
proof -
  let ?x = "sampleDeleted\<lparr>ms_meta := RemoveFinalizer plainMeta (ms_meta sampleDeleted) maasSubscriptionFinalizer\<rparr>"
  have "UpdateSub ?x \<in> set (snd (snd (Sub_handleDeletion (logged memClient) plainMeta sampleReconciler
      sampleDeleted (sampleDeletion, []))))"
    by (simp add: sampleDeletion_log)
  from finalizer_removed_last [OF plain_keeps this] obtain pre where
    "snd (snd (Sub_handleDeletion (logged memClient) plainMeta sampleReconciler sampleDeleted
      (sampleDeletion, []))) = pre @ [UpdateSub ?x]" "list_all policyOp pre" by blast
  moreover from this have "length pre = 1" by (auto simp: sampleDeletion_log)
  moreover have "om_Finalizers (ms_meta ?x) = []"
    by (simp add: sampleDeleted_def plainMeta_def maasSubscriptionFinalizer_def)
  ultimately show ?thesis by blast
qed

section \<open>A first reconciliation\<close>

text \<open>The sample cluster with its subscription in some state.\<close>

definition sampleAt :: "MaaSSubscription \<Rightarrow> cluster" where
  "sampleAt x = sampleCluster\<lparr>cl_subs := [x]\<rparr>"

definition sampleLive :: "string list \<Rightarrow> MaaSSubscription" where
  "sampleLive fs = (sampleSubCR ''maas'' ''gold'' [sampleRef ''llm'' ''m1'' []])
     \<lparr>ms_meta := (sampleMeta ''maas'' ''gold'')\<lparr>om_Finalizers := fs\<rparr>\<rparr>"

lemma sample_route:
  "findHTTPRouteForModel memClient walkApi ''llm'' ''m1'' (sampleAt x) = Inr (''maas-m1'', ''llm'')"
  by (simp add: findHTTPRouteForModel_def GetRouteResolver_def backendOf_def sampleAt_def
    externalHTTPRouteForModel_def getHTTPRoute_def mem_defs sample_defs ExternalModelResourceName_def
    externalModelResourcePrefix_def kubernetesNameMaxLength_def IsNotFound_def)

lemma sample_subs:
  "findAllSubscriptionsForModel memClient ''llm'' ''m1'' (sampleAt (sampleLive fs)) = Inr [sampleLive fs]"
  by (simp add: findAllSubscriptionsForModel_def mem_defs sample_defs modelKey_def sampleAt_def sampleLive_def)

lemma sample_tenant: "isTenantNamespace memClient ''maas'' ''maas'' False s"
  by (simp add: isTenantNamespace_def tenantNamespaceAllowed_def)

lemma sample_gateway:
  "tenantGatewayRefForNamespace memClient t ''maas'' ''gw'' ''gws'' False (sampleAt x) =
     Inr \<lparr>gr_Namespace = ''gws'', gr_Name = ''gw''\<rparr>"
  by (simp add: tenantGatewayRefForNamespace_def fetchTenantForNamespace_def mem_defs sample_defs
      sampleAt_def IsNotFound_def fallbackTenantGatewayRef_def)

lemma sample_attached:
  "validateHTTPRouteReferencesGateway memClient ''maas-m1'' ''llm''
     \<lparr>gr_Namespace = ''gws'', gr_Name = ''gw''\<rparr> (sampleAt x) = Inr ()"
  by (simp add: validateHTTPRouteReferencesGateway_def mem_defs sample_defs sampleAt_def
      maxHTTPRouteParentRefs_def parentRefTargetsGateway_def parentNamespace_def)

lemma sample_policy_create:
  "\<exists>p. snd (snd (reconcileTRLPForModel (logged memClient) plainMeta sampleReconciler ''llm'' ''m1''
      (sampleAt (sampleLive fs), l))) = l @ [CreateTRLP p]"
proof -
  have g: "getTRLP memClient ''llm'' n (sampleAt x) = Inl (ErrNotFound (n @ '' not found''))" for n x
    by (simp add: mem_defs sample_defs sampleAt_def)
  have r: "getHTTPRouteObj memClient ''llm'' ''maas-m1'' (sampleAt x) =
      Inr (sampleRoute ''llm'' ''maas-m1'' ''gws'' ''gw'')" for x
    by (simp add: mem_defs sample_defs sampleAt_def)
  have o1: "others memClient s = s" for s by (simp add: memClient_def)
  have a: "accessors plainMeta = walkApi" by (simp add: plainMeta_def)
  have ns: "om_Namespace (ms_meta (sampleLive fs)) = ''maas''"
    by (simp add: sampleLive_def sampleMeta_def)
  have k: "collectSubs ''llm'' ''m1'' [sampleLive fs] \<noteq> []"
    by (simp add: collectSubs_def sampleLive_def sample_defs ratesOf_def)
  have pm: "SetControllerReference plainMeta o1 m = Inr (m\<lparr>om_Owners :=
        [\<lparr>or_APIVersion = ''gateway.networking.k8s.io/v1'', or_Kind = ''HTTPRoute'', or_Name = om_Name o1,
          or_UID = om_Name o1, or_Controller = True\<rparr>]\<rparr>)"
      "SetNestedMap plainMeta [] v [''spec''] = Inr [(''spec'', JObj v)]" for o1 m v
    by (simp_all add: plainMeta_def)
  have cr: "createTRLP (logged memClient) x st = (None, (fst st\<lparr>cl_trlps := cl_trlps (fst st) @ [x]\<rparr>, snd st @ [CreateTRLP x]))"
    for x st by (simp add: logged_writes logWrite_def memClient_def)
  show ?thesis
    by (simp add: reconcileTRLPForModel_def sample_route a sample_subs sample_tenant ns g r k o1
        sample_gateway sample_attached validateSubscriptionTenantGatewaysForRoute_def sampleReconciler_def
        IsNotFound_def writePolicy_def Let_def cr pm)
qed

theorem policy_on_tenant_gateway_witness:
  "\<exists>p rn rns. snd (snd (reconcileTRLPForModel (logged memClient) plainMeta sampleReconciler ''llm'' ''m1''
      (sampleAt (sampleLive []), []))) = [CreateTRLP p]
     \<and> routeOnTenantGateway memClient sampleReconciler rn rns (sampleAt (sampleLive [])) ''maas''"
proof -
  obtain p where p: "snd (snd (reconcileTRLPForModel (logged memClient) plainMeta sampleReconciler ''llm'' ''m1''
      (sampleAt (sampleLive []), []))) = [CreateTRLP p]" using sample_policy_create [of "[]" "[]"] by auto
  have slash: "plainGateways memClient sampleReconciler (sampleAt (sampleLive []))"
    by (auto simp: plainGateways_def sampleReconciler_def sample_gateway)
  have "CreateTRLP p \<in> set (snd (snd (reconcileTRLPForModel (logged memClient) plainMeta sampleReconciler
      ''llm'' ''m1'' (sampleAt (sampleLive []), []))))" using p by simp
  from policy_on_tenant_gateway [OF slash this disjI1 [OF refl]] obtain rn rns where
    "\<forall>sub\<in>set [sampleLive []]. isTenantNamespace memClient (om_Namespace (ms_meta sub))
        (sr_DefaultTenantNamespace sampleReconciler) (sr_TenantNamespaceDiscoveryEnabled sampleReconciler)
        (sampleAt (sampleLive [])) \<longrightarrow>
      routeOnTenantGateway memClient sampleReconciler rn rns (sampleAt (sampleLive [])) (om_Namespace (ms_meta sub))"
    by (auto simp: sample_subs)
  then have "routeOnTenantGateway memClient sampleReconciler rn rns (sampleAt (sampleLive [])) ''maas''"
    by (simp add: sampleLive_def sampleMeta_def sampleReconciler_def sample_tenant)
  with p show ?thesis by blast
qed


lemma extends_subset: "extends good st st' \<Longrightarrow> set (snd st) \<subseteq> set (snd st')"
  by (auto simp: extends_def)

lemma sample_live_creates:
  "\<exists>p. CreateTRLP p \<in> set (snd (snd (reconcileLive (logged memClient) plainMeta sampleReconciler
      (sampleLive fs) (sampleAt (sampleLive fs), l))))"
proof -
  let ?c = "logged memClient" and ?st = "(sampleAt (sampleLive fs), l)"
  let ?sub = "(sampleLive fs)\<lparr>ms_Status := (ms_Status (sampleLive fs))
      \<lparr>st_ModelRefStatuses := validateModelRefs memClient (sampleLive fs) (sampleAt (sampleLive fs))\<rparr>\<rparr>"
  obtain p where p: "snd (snd (reconcileTRLPForModel ?c plainMeta sampleReconciler ''llm'' ''m1'' ?st)) = l @ [CreateTRLP p]"
    using sample_policy_create by blast
  have refs: "uniqueRefs ?sub = [sampleRef ''llm'' ''m1'' []]" "uniqueRefs (sampleLive fs) = [sampleRef ''llm'' ''m1'' []]"
    by (simp_all add: uniqueRefs_def sampleLive_def sampleSubCR_def sampleRef_def emptySubscriptionSpec_def)
  have valid: "list_ex rs_Ready (validateModelRefs memClient (sampleLive fs) (sampleAt (sampleLive fs)))"
    by (simp add: validateModelRefs_def refs sampleRef_def mem_defs sampleAt_def sample_defs)
  have o1: "others memClient s = s" for s by (simp add: memClient_def)
  have "extends subOp (snd (reconcileTRLPForModel ?c plainMeta sampleReconciler ''llm'' ''m1'' ?st))
      (snd (reconcileTokenRateLimitPolicies ?c plainMeta sampleReconciler ?sub ?st))"
  proof -
    obtain e st1 where e: "reconcileTRLPForModel ?c plainMeta sampleReconciler ''llm'' ''m1'' ?st = (e, st1)"
      by (cases "reconcileTRLPForModel ?c plainMeta sampleReconciler ''llm'' ''m1'' ?st")
    show ?thesis
      using policy_ext_subOp [OF cleanupStaleTRLPs_ext [of st1 memClient ?sub]]
      by (cases e) (simp_all add: reconcileTokenRateLimitPolicies_def refs e sampleRef_def)
  qed
  then have pol: "CreateTRLP p \<in> set (snd (snd (reconcileTokenRateLimitPolicies ?c plainMeta sampleReconciler ?sub ?st)))"
    using p extends_subset by fastforce
  obtain e st2 where e: "reconcileTokenRateLimitPolicies ?c plainMeta sampleReconciler ?sub ?st = (e, st2)"
    by (cases "reconcileTokenRateLimitPolicies ?c plainMeta sampleReconciler ?sub ?st")
  have all: "CreateTRLP p \<in> set (snd (Sub_updateStatus ?c plainMeta x ph m sn st2))" for x ph m sn
    using pol e extends_subset [OF Sub_updateStatus_ext [of st2 memClient plainMeta x ph m sn]] by auto
  show ?thesis
    using e valid
    by (intro exI [of _ p], cases e) (simp_all add: reconcileLive_def Let_def o1 case_prod_beta all)
qed

theorem finalizer_before_policies_witness:
  "\<exists>p l. CreateTRLP p \<in> set (snd (snd (Sub_Reconcile (logged memClient) plainMeta sampleReconciler
        (''maas'', ''gold'') (sampleAt (sampleLive []), []))))
     \<and> snd (snd (Sub_Reconcile (logged memClient) plainMeta sampleReconciler (''maas'', ''gold'')
        (sampleAt (sampleLive []), []))) = UpdateSub (sampleLive [maasSubscriptionFinalizer]) # l"
proof -
  let ?log = "snd (snd (Sub_Reconcile (logged memClient) plainMeta sampleReconciler (''maas'', ''gold'')
        (sampleAt (sampleLive []), [])))"
  let ?sub = "sampleLive [maasSubscriptionFinalizer]"
  have fin: "(sampleLive [])\<lparr>ms_meta := AddFinalizer plainMeta (ms_meta (sampleLive [])) maasSubscriptionFinalizer\<rparr> = ?sub"
    by (simp add: sampleLive_def plainMeta_def sampleSubCR_def sampleMeta_def)
  have get: "getSubscription memClient ''maas'' ''gold'' (sampleAt (sampleLive [])) = Inr (sampleLive [])"
    by (simp add: mem_defs sampleAt_def sampleLive_def sample_defs)
  have upd: "updateSubscription (logged memClient) ?sub (sampleAt (sampleLive []), []) = (None, (sampleAt ?sub, [UpdateSub ?sub]))"
    by (simp add: logged_writes logWrite_def mem_defs sampleAt_def sampleLive_def sample_defs)
  have spec: "ms_Spec (sampleLive []) \<noteq> emptySubscriptionSpec" "\<not> om_Deleting (ms_meta (sampleLive []))"
     "\<not> ContainsFinalizer (ms_meta (sampleLive [])) maasSubscriptionFinalizer"
    by (simp_all add: sampleLive_def sample_defs ContainsFinalizer_def)
  have "?log = snd (snd (reconcileLive (logged memClient) plainMeta sampleReconciler ?sub (sampleAt ?sub, [UpdateSub ?sub])))"
    using spec by (simp add: Sub_Reconcile_def get fin upd tenantNamespaceAllowed_def sampleReconciler_def Let_def)
  with sample_live_creates [of "[maasSubscriptionFinalizer]" "[UpdateSub ?sub]"]
  obtain p where p: "CreateTRLP p \<in> set ?log" by auto
  from finalizer_before_policies [OF plain_keeps _ spec(2) p] get fin spec(3) p
  show ?thesis by auto
qed

theorem phase_classified_witness:
  "fst (deriveFinalPhase
      (correctedStatus memClient walkApi (sampleAt (sampleLive [])) (sampleAt (sampleLive [])) (sampleLive []))
      (checkTokenRateLimitHealth memClient walkApi (sampleLive []) (sampleAt (sampleLive [])))) = ''Degraded''"
proof -
  let ?s = "sampleAt (sampleLive [])"
  have refs: "uniqueRefs (sampleLive []) = [sampleRef ''llm'' ''m1'' []]"
    by (simp add: uniqueRefs_def sampleLive_def sampleSubCR_def sampleRef_def emptySubscriptionSpec_def)
  have g: "getTRLP memClient ''llm'' n ?s = Inl (ErrNotFound (n @ '' not found''))" for n
    by (simp add: mem_defs sample_defs sampleAt_def)
  have st: "rs_Reason (trlpStatus memClient walkApi ?s (sampleRef ''llm'' ''m1'' [])) = ''NotFound''"
      "\<not> rs_Ready (trlpStatus memClient walkApi ?s (sampleRef ''llm'' ''m1'' []))"
    by (simp_all add: trlpStatus_def sampleRef_def sample_route g IsNotFound_def)
  have us: "usableRef memClient walkApi ?s ?s (sampleRef ''llm'' ''m1'' [])"
    using st by (simp add: usableRef_def sampleRef_def mem_defs sampleAt_def sample_defs)
  have d: "distinct (map msr_Name (uniqueRefs (sampleLive [])))" by (simp add: refs)
  show ?thesis
    using phase_classified [OF d, of memClient walkApi ?s ?s] refs us st by simp
qed
end
