(* ===== verification/ModelTrace.thy ===== *)
theory ModelTrace
  imports ModelRefController SubscriptionTrace
begin

text \<open>
  What the model reconciler publishes. Over the recording client of \<open>ClientLog\<close>, every status that
  \<open>Model_Reconcile\<close> writes is shown to be earned: phase \<open>Ready\<close> needs a ready backend, an endpoint, a
  subscription and an authorisation policy. The governance check is characterised exactly, and a
  change of the resolved alias is shown to queue every sibling whose verdict on shared identities it
  changes.
\<close>

lemma first_filtered: "(case filter P xs of [] \<Rightarrow> None | x # _ \<Rightarrow> Some x) = None \<longleftrightarrow> (\<forall>x\<in>set xs. \<not> P x)"
  by (induction xs) auto

section \<open>Governance, exactly\<close>

text \<open>
  A model counts as governed exactly when some subscription the index lists for it and some
  authorisation policy that names it exist, both in tenant namespaces and not being deleted.
  Their phases play no part.
\<close>

theorem governance_exact:
  assumes "listSubscriptionsByModel c (modelKey (om_Namespace (mm_meta m)) (om_Name (mm_meta m))) s = Inr subs"
    and "listAuthPolicies c s = Inr policies"
  shows "checkGovernanceAttached c r m s \<longleftrightarrow>
     (\<exists>sub\<in>set subs. \<not> om_Deleting (ms_meta sub) \<and> isTenantNamespace c (om_Namespace (ms_meta sub))
         (mrr_DefaultTenantNamespace r) (mrr_TenantNamespaceDiscoveryEnabled r) s)
     \<and> (\<exists>p\<in>set policies. \<not> om_Deleting (ma_meta p) \<and> isTenantNamespace c (om_Namespace (ma_meta p))
         (mrr_DefaultTenantNamespace r) (mrr_TenantNamespaceDiscoveryEnabled r) s
         \<and> (\<exists>ref\<in>set (as_ModelRefs (ma_Spec p)). mref_Namespace ref = om_Namespace (mm_meta m)
              \<and> mref_Name ref = om_Name (mm_meta m)))"
proof -
  have "model_findAnySubscription c r (om_Namespace (mm_meta m)) (om_Name (mm_meta m)) s \<noteq> None \<longleftrightarrow>
     (\<exists>sub\<in>set subs. \<not> om_Deleting (ms_meta sub) \<and> isTenantNamespace c (om_Namespace (ms_meta sub))
         (mrr_DefaultTenantNamespace r) (mrr_TenantNamespaceDiscoveryEnabled r) s)"
    using assms(1)
    by (auto simp: model_findAnySubscription_def findAllSubscriptionsForModel_def first_filtered)
  moreover have "model_findAnyAuthPolicy c r (om_Namespace (mm_meta m)) (om_Name (mm_meta m)) s \<noteq> None \<longleftrightarrow>
     (\<exists>p\<in>set policies. \<not> om_Deleting (ma_meta p) \<and> isTenantNamespace c (om_Namespace (ma_meta p))
         (mrr_DefaultTenantNamespace r) (mrr_TenantNamespaceDiscoveryEnabled r) s
         \<and> (\<exists>ref\<in>set (as_ModelRefs (ma_Spec p)). mref_Namespace ref = om_Namespace (mm_meta m)
              \<and> mref_Name ref = om_Name (mm_meta m)))"
    using assms(2)
    by (auto simp: model_findAnyAuthPolicy_def findAllAuthPoliciesForModel_def first_filtered list_ex_iff)
  ultimately show ?thesis by (simp add: checkGovernanceAttached_def Let_def)
qed

section \<open>What is published\<close>

lemma setCondition_simps [simp]:
  "mm_meta (setCondition a t st rs ms m) = mm_meta m"
  "mm_Spec (setCondition a t st rs ms m) = mm_Spec m"
  "mst_Phase (mm_Status (setCondition a t st rs ms m)) = mst_Phase (mm_Status m)"
  "mst_Endpoint (mm_Status (setCondition a t st rs ms m)) = mst_Endpoint (mm_Status m)"
  "mst_ResolvedModelAlias (mm_Status (setCondition a t st rs ms m)) = mst_ResolvedModelAlias (mm_Status m)"
  by (simp_all add: setCondition_def)

text \<open>The parts of a model that setting conditions leaves alone.\<close>

definition sameButConditions :: "MaaSModelRef \<Rightarrow> MaaSModelRef \<Rightarrow> bool" where
  "sameButConditions m m' \<longleftrightarrow>
     mm_meta m' = mm_meta m \<and> mm_Spec m' = mm_Spec m
     \<and> mst_Endpoint (mm_Status m') = mst_Endpoint (mm_Status m)"

lemma conditions_same [simp]:
  "sameButConditions m (setGovernanceCondition a m g)"
  "sameButConditions m (setRuntimeReadyCondition a m b)"
  "sameButConditions m (setModelIdentityCondition a m cs)"
  by (auto simp: sameButConditions_def setGovernanceCondition_def setRuntimeReadyCondition_def
      setModelIdentityCondition_def split: option.split)

lemma identity_same: "sameButConditions m (fst (checkModelIdentityConflict c a r m s))"
proof -
  have sm: "sameButConditions m (setCondition a t st rs ms m)" for t st rs ms
    by (simp add: sameButConditions_def)
  show ?thesis
    unfolding checkModelIdentityConflict_def Let_def
    by (auto split: sum.split option.split simp: sm)
qed

text \<open>The statuses in a log.\<close>

definition statusWrites :: "op list \<Rightarrow> MaaSModelRef list" where
  "statusWrites ops = concat (map (\<lambda>x. case x of UpdateModelStatus m \<Rightarrow> [m] | _ \<Rightarrow> []) ops)"

lemma statusWrites_simps [simp]:
  "statusWrites [] = []" "statusWrites (xs @ ys) = statusWrites xs @ statusWrites ys"
  "statusWrites [UpdateModelStatus m] = [m]" "statusWrites [UpdateModel m] = []"
  "statusWrites [Event t u v] = []"
  by (simp_all add: statusWrites_def)

lemma statusWrites_mem: "UpdateModelStatus m \<in> set ops \<longleftrightarrow> m \<in> set (statusWrites ops)"
  by (auto simp: statusWrites_def split: op.splits)

lemma writes_of_update:
  assumes "x \<in> set (statusWrites (snd (updateStatusWithReason (logged c) a m ph msg rsn sn st)))"
    and "statusWrites (snd st) = []"
  shows "mst_Phase (mm_Status x) = ph \<and> sameButConditions m x"
  using assms
  by (auto simp: updateStatusWithReason_def Let_def logged_writes sameButConditions_def split: if_splits)

lemma identity_no_status_writes:
  "statusWrites (snd (snd (checkModelIdentityConflict (logged c) a r m st))) = statusWrites (snd st)"
  by (auto simp: checkModelIdentityConflict_def Let_def logged_event split: sum.split option.split)

lemma logged_resolve [simp]:
  "resolveGatewayRef (logged c) r m route st = resolveGatewayRef c r m route (fst st)"
  by (simp add: resolveGatewayRef_def resolveGatewayRefFromHTTPRoute_def cong: inside_cases)

lemma logged_llm [simp]:
  "llm_ReconcileRoute (logged c) r m st = llm_ReconcileRoute c r m (fst st)"
  "llm_GetModelEndpoint (logged c) r m st = llm_GetModelEndpoint c r m (fst st)"
  "llm_ResolveModelAlias (logged c) m st = llm_ResolveModelAlias c m (fst st)"
  by (simp_all add: llm_ReconcileRoute_def llm_GetModelEndpoint_def llm_ResolveModelAlias_def cong: inside_cases)

lemma logged_ext [simp]:
  "externalRouteName (logged c) k m st = externalRouteName c k m (fst st)"
  "ext_GetModelEndpoint (logged c) r m st = ext_GetModelEndpoint c r m (fst st)"
  by (simp_all add: externalRouteName_def ext_GetModelEndpoint_def cong: inside_cases)

lemma logged_status [simp]:
  "llm_Status (logged c) r m st = llm_Status c r m (fst st)"
  "ext_Status (logged c) r m st = ext_Status c r m (fst st)"
  "ext_ReconcileRoute (logged c) k r m st = ext_ReconcileRoute c k r m (fst st)"
  by (simp_all add: llm_Status_def ext_Status_def ext_ReconcileRoute_def cong: inside_cases)

lemma logged_governance [simp]: "checkGovernanceAttached (logged c) r m st = checkGovernanceAttached c r m (fst st)"
  by (simp add: checkGovernanceAttached_def model_findAnySubscription_def model_findAnyAuthPolicy_def
      cong: inside_cases)

lemma logged_handler:
  assumes "GetBackendHandler (logged c) k r kind = Some h'"
  shows "\<exists>h. GetBackendHandler c k r kind = Some h \<and> backend_handler h
     \<and> (\<forall>m st. ReconcileRoute h' m st = ReconcileRoute h m (fst st))
     \<and> (\<forall>m st. Status h' m st = Status h m (fst st))"
proof -
  obtain b where b: "backendOf kind = Some b" using assms by (auto simp: GetBackendHandler_def)
  with assms show ?thesis
    using GetBackendHandler_contract [of c k r kind]
    by (cases b) (auto simp: GetBackendHandler_def llmisvcHandler_def externalModelHandler_def)
qed

lemma governance_meta:
  "mm_meta m = mm_meta m' \<Longrightarrow> checkGovernanceAttached c r m s = checkGovernanceAttached c r m' s"
  by (simp add: checkGovernanceAttached_def)

text \<open>The status written once the backend has answered.\<close>

lemma finish_writes:
  assumes "x \<in> set (statusWrites (snd (finishReconcile (logged c) a r h m ep ready sn st)))"
    and "statusWrites (snd st) = []"
  shows "let governed = checkGovernanceAttached c r m (fst st)
     in mm_meta x = mm_meta m \<and> mm_Spec x = mm_Spec m
        \<and> mst_Phase (mm_Status x) = fst (deriveModelPhase governed ready)
        \<and> mst_Endpoint (mm_Status x) =
            (if governed \<and> ready then
               (if mr_EndpointOverride (mm_Spec m) \<noteq> [] then mr_EndpointOverride (mm_Spec m) else ep)
             else [])"
proof -
  define m1 where "m1 = withEndpoint (if mr_EndpointOverride (mm_Spec m) \<noteq> []
      then mr_EndpointOverride (mm_Spec m) else ep) m"
  define m2 where "m2 = (case ResolveModelAlias h m1 st of
              Inl _ \<Rightarrow> m1
            | Inr alias \<Rightarrow>
                if alias \<noteq> [] then onStatus (\<lambda>st. st\<lparr>mst_ResolvedModelAlias := alias\<rparr>) m1
                else m1)"
  have m2: "mm_meta m2 = mm_meta m" "mm_Spec m2 = mm_Spec m" "mst_Endpoint (mm_Status m2) =
       (if mr_EndpointOverride (mm_Spec m) \<noteq> [] then mr_EndpointOverride (mm_Spec m) else ep)"
    by (auto simp: m2_def m1_def withEndpoint_def split: sum.split)
  define g where "g = checkGovernanceAttached c r m (fst st)"
  have g2: "checkGovernanceAttached (logged c) r m2 st = g"
    using m2(1) governance_meta [of m2 m] by (simp add: g_def)
  define m3 where "m3 = setRuntimeReadyCondition a (setGovernanceCondition a m2 g) ready"
  obtain m4 st4 where m4: "checkModelIdentityConflict (logged c) a r m3 st = (m4, st4)"
    by (cases "checkModelIdentityConflict (logged c) a r m3 st")
  have nil: "statusWrites (snd st4) = []"
    using identity_no_status_writes [of c a r m3 st] m4 assms(2) by simp
  have same: "sameButConditions m2 m4"
    using identity_same [of m3 "logged c" a r st] m4 conditions_same(1) [of m2 a g]
      conditions_same(2) [of "setGovernanceCondition a m2 g" a ready]
    by (auto simp: sameButConditions_def m3_def)
  define m5 where "m5 = (if fst (deriveModelPhase g ready) \<noteq> ''Ready'' then withEndpoint [] m4 else m4)"
  have "x \<in> set (statusWrites (snd (Model_updateStatus (logged c) a m5 (fst (deriveModelPhase g ready))
      (snd (deriveModelPhase g ready)) sn st4)))"
    using assms(1) m4 unfolding finishReconcile_def Let_def m1_def [symmetric] m2_def [symmetric] g2
      m3_def [symmetric] by (auto simp: case_prod_beta m5_def split: if_splits)
  from writes_of_update [OF this [unfolded Model_updateStatus_def] nil]
  have "mst_Phase (mm_Status x) = fst (deriveModelPhase g ready)" "sameButConditions m5 x" by auto
  with same m2 show ?thesis
    unfolding Let_def g_def [symmetric]
    by (auto simp: m5_def sameButConditions_def withEndpoint_def deriveModelPhase_def)
qed


text \<open>What a status written by the reconciler says of the model, on every path.\<close>

definition publishedOk :: "'s client \<Rightarrow> metaApi \<Rightarrow> MaaSModelRefReconciler \<Rightarrow> MaaSModelRef \<Rightarrow> bool" where
  "publishedOk c a r x \<longleftrightarrow>
     (mst_Phase (mm_Status x) = ''Ready'' \<longrightarrow>
        (\<exists>h m ep s'. GetBackendHandler c (accessors a) r (mr_Kind (mm_Spec x)) = Some h
           \<and> Status h m s' = Inr (ep, True) \<and> checkGovernanceAttached c r x s'
           \<and> mst_Endpoint (mm_Status x) =
               (if mr_EndpointOverride (mm_Spec x) \<noteq> [] then mr_EndpointOverride (mm_Spec x) else ep)
           \<and> mst_Endpoint (mm_Status x) \<noteq> []))
     \<and> (mst_Phase (mm_Status x) \<in> {''Pending'', ''Unhealthy''} \<longrightarrow> mst_Endpoint (mm_Status x) = [])"

lemma published_failed: "mst_Phase (mm_Status x) \<in> {''Failed'', ''Invalid''} \<Longrightarrow> publishedOk c a r x"
  by (auto simp: publishedOk_def)

lemma published_pending:
  "mst_Phase (mm_Status x) = ''Pending'' \<Longrightarrow> mst_Endpoint (mm_Status x) = [] \<Longrightarrow> publishedOk c a r x"
  by (auto simp: publishedOk_def)

lemma finish_published:
  assumes "x \<in> set (statusWrites (snd (finishReconcile (logged c) a r h' m ep ready sn st)))"
    and "statusWrites (snd st) = []" and "GetBackendHandler c (accessors a) r (mr_Kind (mm_Spec m)) = Some h"
    and "Status h m (fst st) = Inr (ep, ready)"
  shows "publishedOk c a r x"
proof -
  have "backend_handler h" using assms(3) by (rule GetBackendHandler_contract)
  then have "ready \<Longrightarrow> ep \<noteq> []" using assms(4) backend_handler.ready_iff_endpoint by metis
  with finish_writes [OF assms(1,2)] assms(3,4) governance_meta [of x m c r "fst st"] show ?thesis
    by (auto simp: publishedOk_def Let_def deriveModelPhase_def split: if_splits)
qed


lemma update_published:
  assumes "x \<in> set (statusWrites (snd (updateStatusWithReason (logged c) a m ph msg rsn sn st)))"
    and "statusWrites (snd st) = []"
    and "ph \<in> {''Failed'', ''Invalid''} \<or> ph = ''Pending'' \<and> mst_Endpoint (mm_Status m) = []"
  shows "publishedOk c a r x"
  using writes_of_update [OF assms(1,2)] assms(3)
  by (auto simp: sameButConditions_def intro: published_failed published_pending)

lemma backend_published:
  assumes "x \<in> set (statusWrites (snd (snd (reconcileBackend (logged c) a r m st))))"
    and "statusWrites (snd st) = []"
  shows "publishedOk c a r x"
proof (cases "GetBackendHandler (logged c) (accessors a) r (mr_Kind (mm_Spec m))")
  case None
  with assms show ?thesis
    by (auto simp: reconcileBackend_def Model_updateStatus_def intro!: update_published)
next
  case (Some h')
  from logged_handler [OF Some] obtain h where h:
      "GetBackendHandler c (accessors a) r (mr_Kind (mm_Spec m)) = Some h" "backend_handler h"
      "\<forall>m st. ReconcileRoute h' m st = ReconcileRoute h m (fst st)"
      "\<forall>m st. Status h' m st = Status h m (fst st)" by blast
  obtain e m1 where rr: "ReconcileRoute h m (fst st) = (e, m1)" by (cases "ReconcileRoute h m (fst st)")
  with h(2) have same: "sameButRoute m m1" by (metis backend_handler.route_only)
  have ep: "mst_Endpoint (mm_Status (withEndpoint [] m1)) = []" by (simp add: withEndpoint_def)
  show ?thesis
  proof (cases e)
    case None
    show ?thesis
    proof (cases "Status h m1 (fst st)")
      case (Inl err)
      with assms None Some rr h(3,4) ep show ?thesis
        by (auto simp: reconcileBackend_def Let_def Model_updateStatus_def split: if_splits
            intro!: update_published)
    next
      case (Inr p)
      obtain epn ready where p: "p = (epn, ready)" by (cases p)
      have "x \<in> set (statusWrites (snd (finishReconcile (logged c) a r h' m1 epn ready (mm_Status m) st)))"
        using assms(1) None Some rr h(3,4) Inr p by (simp add: reconcileBackend_def Let_def)
      moreover have "mm_Spec m1 = mm_Spec m" using same by (simp add: sameButRoute_def)
      ultimately show ?thesis
        using assms(2) h(1) Inr p by (intro finish_published [of x c a r h' m1]) simp_all
    qed
  next
    case (Some err)
    have "x \<in> set (statusWrites (snd (snd (
        if ctlIs err ErrKindNotImplemented then
          (None, updateStatusWithReason (logged c) a m1 ''Failed'' (''kind not implemented: '' @ mr_Kind (mm_Spec m))
                   ''Unsupported'' (mm_Status m) st)
        else if ctlIs err ErrHTTPRouteNotFound then
          (None, Model_updateStatus (logged c) a (withEndpoint [] m1) ''Pending''
                   ''Waiting for HTTPRoute to be created'' (mm_Status m) st)
        else if ctlIs err ErrTenantResolutionPending then
          (None, Model_updateStatus (logged c) a (withEndpoint [] m1) ''Pending''
                   (''Waiting for tenant resolution: '' @ ce_text err) (mm_Status m) st)
        else
          (Some err, Model_updateStatus (logged c) a m1 ''Failed''
                     (''Failed to reconcile HTTPRoute: '' @ ce_text err) (mm_Status m) st)))))"
      using assms(1) \<open>GetBackendHandler (logged c) (accessors a) r (mr_Kind (mm_Spec m)) = Some h'\<close> rr h(3) Some
      by (simp add: reconcileBackend_def Let_def)
    with assms(2) ep show ?thesis
      by (auto simp: Model_updateStatus_def split: if_splits intro!: update_published)
  qed
qed

lemma delete_no_status:
  "statusWrites (snd (snd (deleteGeneratedPoliciesByLabel (logged c) ns n kind st))) = statusWrites (snd st)"
proof -
  have del: "statusWrites (snd (snd (deleteGenerated (logged c) kind p st))) = statusWrites (snd st)" for p st
    by (cases kind) (simp_all add: deleteGenerated_def logged_writes statusWrites_def)
  have "statusWrites (snd (snd (deleteGeneratedLoop (logged c) kind ps st))) = statusWrites (snd st)" for ps
  proof (induction ps arbitrary: st)
    case (Cons p ps)
    obtain e st' where e: "deleteGenerated (logged c) kind p st = (e, st')"
      by (cases "deleteGenerated (logged c) kind p st")
    with del [of p st] have "statusWrites (snd st') = statusWrites (snd st)" by simp
    with Cons e show ?case by (auto split: option.split)
  qed simp
  then show ?thesis by (auto simp: deleteGeneratedPoliciesByLabel_def split: sum.split)
qed

lemma cleanup_nothing:
  "(case GetBackendHandler c k r kind of None \<Rightarrow> (None, s) | Some h \<Rightarrow> CleanupOnDelete h m s) = (None, s)"
  by (auto simp: GetBackendHandler_def llmisvcHandler_def externalModelHandler_def
      split: option.split backendKind.split)

lemma deletion_no_status:
  assumes "statusWrites (snd st) = []"
  shows "statusWrites (snd (snd (Model_handleDeletion (logged c) a r m st))) = []"
proof -
  let ?d = "deleteGeneratedPoliciesByLabel (logged c) (om_Namespace (mm_meta m)) (om_Name (mm_meta m))"
  obtain e1 s1 where d1: "?d GenAuthPolicy st = (e1, s1)" by (cases "?d GenAuthPolicy st")
  obtain e2 s2 where d2: "?d GenTokenRateLimitPolicy s1 = (e2, s2)" by (cases "?d GenTokenRateLimitPolicy s1")
  have n: "statusWrites (snd s1) = []" "statusWrites (snd s2) = []"
    using delete_no_status [of c "om_Namespace (mm_meta m)" "om_Name (mm_meta m)"] d1 d2 assms
    by (metis snd_conv)+
  show ?thesis
    using n assms d1 d2
    by (auto simp: Model_handleDeletion_def Let_def logged_writes case_prod_beta cleanup_nothing
        split: option.split)
qed

text \<open>
  C14: Every status the reconciler writes for a model tells the truth: phase \<open>Ready\<close> with an endpoint,
  which is the override or the backend's, only when the backend reported ready and the model was
  governed; and no endpoint at all while the phase is \<open>Pending\<close> or \<open>Unhealthy\<close>.
\<close>

theorem published_status_sound:
  assumes "UpdateModelStatus x \<in> set (snd (snd (Model_Reconcile (logged c) a r req (s, []))))"
  shows "(mst_Phase (mm_Status x) = ''Ready'' \<longrightarrow>
        (\<exists>h m ep s'. GetBackendHandler c (accessors a) r (mr_Kind (mm_Spec x)) = Some h
           \<and> Status h m s' = Inr (ep, True) \<and> checkGovernanceAttached c r x s'
           \<and> mst_Endpoint (mm_Status x) =
               (if mr_EndpointOverride (mm_Spec x) \<noteq> [] then mr_EndpointOverride (mm_Spec x) else ep)
           \<and> mst_Endpoint (mm_Status x) \<noteq> []))
     \<and> (mst_Phase (mm_Status x) \<in> {''Pending'', ''Unhealthy''} \<longrightarrow> mst_Endpoint (mm_Status x) = [])"
proof -
  have x: "x \<in> set (statusWrites (snd (snd (Model_Reconcile (logged c) a r req (s, [])))))"
    using assms by (simp add: statusWrites_mem)
  have "publishedOk c a r x"
  proof (cases "getModelRef c (fst req) (snd req) s")
    case (Inl e)
    with x show ?thesis by (simp add: Model_Reconcile_def)
  next
    case (Inr m)
    let ?m = "m\<lparr>mm_meta := AddFinalizer a (mm_meta m) maasModelFinalizer\<rparr>"
    obtain e st where w: "updateModelRef (logged c) ?m (s, []) = (e, st)"
      by (cases "updateModelRef (logged c) ?m (s, [])")
    then have n: "statusWrites (snd st) = []"
      by (auto simp: logged_writes logWrite_def split: prod.splits)
    show ?thesis
      using x Inr w n deletion_no_status [of "(s, [])" c a r m]
      by (auto simp: Model_Reconcile_def Model_updateStatus_def Let_def split: if_splits option.splits
          intro: update_published backend_published)
  qed
  then show ?thesis by (simp add: publishedOk_def)
qed

section \<open>Shared identities\<close>

definition withAlias :: "string \<Rightarrow> MaaSModelRef \<Rightarrow> MaaSModelRef" where
  "withAlias al m = onStatus (\<lambda>st. st\<lparr>mst_ResolvedModelAlias := al\<rparr>) m"

text \<open>
  When the resolved alias of a model changes, every other model of its namespace whose list of
  conflicts changes with it is queued for reconciliation, so that no stale verdict about a shared
  identity remains.
\<close>

theorem alias_change_wakes_siblings:
  assumes "listModelRefsIn c (om_Namespace (mm_meta changed)) s = Inr siblings"
    and "changed \<in> set siblings" and "distinct (map (\<lambda>m. om_Name (mm_meta m)) siblings)"
    and "m \<in> set siblings" and "om_Name (mm_meta m) \<noteq> om_Name (mm_meta changed)"
    and "mst_ResolvedModelAlias (mm_Status m) \<noteq> []"
    and "aliasConflicts siblings m \<noteq>
         aliasConflicts (map (\<lambda>x. if x = changed then withAlias oldAlias x else x) siblings) m"
  shows "modelRequest m \<in> set (enqueueSiblingsWithAlias c changed oldAlias s)"
proof -
  let ?al = "\<lambda>x. mst_ResolvedModelAlias (mm_Status x)"
  have "?al m = ?al changed \<or> ?al m = oldAlias"
  proof (rule ccontr)
    assume no: "\<not> (?al m = ?al changed \<or> ?al m = oldAlias)"
    have "map (\<lambda>x. om_Name (mm_meta x)) (filter (\<lambda>x. om_Name (mm_meta x) \<noteq> om_Name (mm_meta m) \<and> ?al x = ?al m) xs) =
        map (\<lambda>x. om_Name (mm_meta x)) (filter (\<lambda>x. om_Name (mm_meta x) \<noteq> om_Name (mm_meta m) \<and> ?al x = ?al m)
          (map (\<lambda>x. if x = changed then withAlias oldAlias x else x) xs))" for xs
      by (induction xs) (use no in \<open>auto simp: withAlias_def\<close>)
    with assms(7) show False by (simp add: aliasConflicts_def)
  qed
  with assms(1,4,5,6) show ?thesis
    by (auto simp: enqueueSiblingsWithAlias_def Let_def)
qed

theorem alias_change_wakes_siblings_witness:
  "let a = withAlias ''x'' (sampleModel ''llm'' ''a'' ''ExternalModel'');
       b = withAlias ''y'' (sampleModel ''llm'' ''b'' ''ExternalModel'')
   in aliasConflicts [a, b] b = []
      \<and> modelRequest b \<in> set (enqueueSiblingsWithAlias memClient a ''y'' (emptyCluster\<lparr>cl_models := [a, b]\<rparr>))"
proof -
  let ?a = "withAlias ''x'' (sampleModel ''llm'' ''a'' ''ExternalModel'')"
  let ?b = "withAlias ''y'' (sampleModel ''llm'' ''b'' ''ExternalModel'')"
  note d = withAlias_def sampleModel_def sampleMeta_def
  have "modelRequest ?b \<in> set (enqueueSiblingsWithAlias memClient ?a ''y'' (emptyCluster\<lparr>cl_models := [?a, ?b]\<rparr>))"
    by (rule alias_change_wakes_siblings [where siblings = "[?a, ?b]"])
       (simp_all add: d memClient_def listIn_def aliasConflicts_def)
  then show ?thesis by (simp add: Let_def aliasConflicts_def d)
qed

section \<open>Instances\<close>

text \<open>The sample cluster with a policy, an external model and an accepted route.\<close>

definition governedModel :: MaaSModelRef where
  "governedModel = (sampleModel ''llm'' ''m1'' ''ExternalModel'')
     \<lparr>mm_meta := (sampleMeta ''llm'' ''m1'')\<lparr>om_Finalizers := [maasModelFinalizer]\<rparr>,
      mm_Spec := \<lparr>mr_Kind = ''ExternalModel'', mr_RefName = ''m1'', mr_EndpointOverride = [], mr_TenantRef = ''t1''\<rparr>\<rparr>"

definition acceptedRoute :: HTTPRoute where
  "acceptedRoute = (sampleRoute ''llm'' ''maas-m1'' ''gws'' ''gw'')
     \<lparr>hr_Parents := [\<lparr>rp_ParentRef = \<lparr>pr_Group = None, pr_Kind = None, pr_Namespace = Some ''gws'', pr_Name = ''gw''\<rparr>,
        rp_Conditions = [\<lparr>c_Type = ''Accepted'', c_Status = ''True'', c_Reason = [], c_Message = [],
          c_ObservedGeneration = 1\<rparr>]\<rparr>]\<rparr>"

definition governedCluster :: cluster where
  "governedCluster = emptyCluster
     \<lparr>cl_subs := [sampleSubCR ''maas'' ''gold'' [sampleRef ''llm'' ''m1'' []]],
      cl_policies := [samplePolicyCR ''maas'' ''gold'' [\<lparr>mref_Name = ''m1'', mref_Namespace = ''llm''\<rparr>]],
      cl_models := [governedModel], cl_routes := [acceptedRoute],
      cl_external := [\<lparr>em_meta = sampleMeta ''llm'' ''m1'', em_Provider = ''p''\<rparr>],
      cl_aitenants := [sampleTenant ''t1'' ''gws'' ''gw'']\<rparr>"

lemma governed_subs:
  "listSubscriptionsByModel memClient (modelKey (om_Namespace (mm_meta governedModel)) (om_Name (mm_meta governedModel)))
     governedCluster = Inr [sampleSubCR ''maas'' ''gold'' [sampleRef ''llm'' ''m1'' []]]"
  "listAuthPolicies memClient governedCluster =
     Inr [samplePolicyCR ''maas'' ''gold'' [\<lparr>mref_Name = ''m1'', mref_Namespace = ''llm''\<rparr>]]"
  by (simp_all add: memClient_def governedCluster_def governedModel_def sampleSubCR_def sampleRef_def
      sampleMeta_def modelKey_def emptySubscriptionSpec_def)

theorem governance_exact_witness:
  "checkGovernanceAttached memClient sampleModelReconciler governedModel governedCluster"
  using governance_exact [OF governed_subs, of sampleModelReconciler]
  by (simp add: sampleSubCR_def sampleMeta_def samplePolicyCR_def governedModel_def sampleModel_def
      isTenantNamespace_def tenantNamespaceAllowed_def sampleModelReconciler_def)

lemma governedModel_governed:
  "checkGovernanceAttached memClient sampleModelReconciler governedModel governedCluster"
  using governed_subs
  by (simp add: checkGovernanceAttached_def model_findAnySubscription_def model_findAnyAuthPolicy_def Let_def
      findAllSubscriptionsForModel_def findAllAuthPoliciesForModel_def sampleSubCR_def sampleMeta_def
      samplePolicyCR_def governedModel_def isTenantNamespace_def tenantNamespaceAllowed_def sampleModelReconciler_def)

lemma update_writes:
  assumes "eqModelStatus a = (=)" and "mst_Phase sn \<noteq> ph"
  shows "\<exists>x. x \<in> set (statusWrites (snd (Model_updateStatus (logged c) a m ph msg sn st)))"
proof -
  have "mst_Phase (mm_Status (setCondition a t v w u (onStatus (\<lambda>st. st\<lparr>mst_Phase := ph\<rparr>) m))) = ph" for t v w u
    by simp
  with assms(2) have "sn \<noteq> mm_Status (setCondition a t v w u (onStatus (\<lambda>st. st\<lparr>mst_Phase := ph\<rparr>) m))" for t v w u
    by metis
  with assms(1) show ?thesis
    by (auto simp add: Model_updateStatus_def updateStatusWithReason_def Let_def logged_writes statusWrites_mem logWrite_def split: option.splits prod.splits)
qed

lemma governed_status:
  "\<exists>m1. ext_ReconcileRoute memClient walkApi sampleModelReconciler governedModel governedCluster = (None, m1)
     \<and> mm_meta m1 = mm_meta governedModel
     \<and> ext_Status memClient sampleModelReconciler m1 governedCluster = Inr (''https://models.example.com'', True)"
proof -
  have rn: "externalRouteName memClient walkApi governedModel governedCluster = Inr (Some ''maas-m1'')"
    by (simp add: externalRouteName_def memClient_def findAt_def isAt_def governedCluster_def emptyCluster_def
        governedModel_def sampleModel_def sampleMeta_def IsNotFound_def ExternalModelResourceName_def
        externalModelResourcePrefix_def kubernetesNameMaxLength_def)
  have rt: "getHTTPRouteObj memClient ''llm'' ''maas-m1'' governedCluster = Inr acceptedRoute"
    by (simp add: memClient_def findAt_def isAt_def governedCluster_def acceptedRoute_def sampleRoute_def sampleMeta_def)
  have gw: "resolveGatewayRef memClient sampleModelReconciler governedModel acceptedRoute governedCluster =
      (Inr \<lparr>gr_Namespace = ''gws'', gr_Name = ''gw''\<rparr>, setTenant ''t1'' governedModel)"
    by (simp add: resolveGatewayRef_def Let_def governedModel_def sampleModel_def memClient_def findAt_def isAt_def
        governedCluster_def sampleTenant_def sampleMeta_def sampleModelReconciler_def)
  have ns: "om_Namespace (mm_meta governedModel) = ''llm''" by (simp add: governedModel_def sampleMeta_def)
  have fd: "findParentGateway \<lparr>gr_Namespace = ''gws'', gr_Name = ''gw''\<rparr> ''llm'' ([], []) (hr_ParentRefs acceptedRoute)
      = (True, ''gw'', ''gws'')"
    by (simp add: acceptedRoute_def sampleRoute_def parentRefTargetsGateway_def parentNamespace_def)
  have ac: "gatewayAccepted \<lparr>gr_Namespace = ''gws'', gr_Name = ''gw''\<rparr> ''llm'' (hr_Parents acceptedRoute)"
    by (simp add: acceptedRoute_def gatewayAccepted_def parentNamespace_def)
  have "ext_ReconcileRoute memClient walkApi sampleModelReconciler governedModel governedCluster =
      (None, setRoute ''maas-m1'' ''llm'' (''gw'', ''gws'') (hr_Hostnames acceptedRoute) (setTenant ''t1'' governedModel))"
    by (simp add: ext_ReconcileRoute_def rn rt gw ns fd ac)
  then show ?thesis
    by (simp add: ext_Status_def ext_GetModelEndpoint_def setRoute_def setTenant_def acceptedRoute_def sampleRoute_def)
qed

theorem published_status_sound_witness:
  "\<exists>x. UpdateModelStatus x \<in> set (snd (snd (Model_Reconcile (logged memClient) plainMeta sampleModelReconciler
        (''llm'', ''m1'') (governedCluster, []))))
     \<and> mst_Phase (mm_Status x) = ''Ready'' \<and> mst_Endpoint (mm_Status x) \<noteq> []"
proof -
  let ?c = "logged memClient" and ?r = sampleModelReconciler
  obtain m1 where m1: "ext_ReconcileRoute memClient walkApi ?r governedModel governedCluster = (None, m1)"
      "mm_meta m1 = mm_meta governedModel"
      "ext_Status memClient ?r m1 governedCluster = Inr (''https://models.example.com'', True)"
    using governed_status by blast
  have get: "getModelRef memClient ''llm'' ''m1'' governedCluster = Inr governedModel"
    by (simp add: memClient_def findAt_def isAt_def governedCluster_def governedModel_def sampleMeta_def)
  have live: "\<not> om_Deleting (mm_meta governedModel)" "mm_Spec governedModel \<noteq> emptyModelSpec"
      "ContainsFinalizer (mm_meta governedModel) maasModelFinalizer" "mr_Kind (mm_Spec governedModel) = ''ExternalModel''"
    by (simp_all add: governedModel_def sampleMeta_def emptyModelSpec_def ContainsFinalizer_def)
  have acc: "accessors plainMeta = walkApi" "eqModelStatus plainMeta = (=)" by (simp_all add: plainMeta_def)
  let ?h = "externalModelHandler ?c walkApi ?r"
  have "snd (Model_Reconcile ?c plainMeta ?r (''llm'', ''m1'') (governedCluster, [])) =
      finishReconcile ?c plainMeta ?r ?h m1 ''https://models.example.com'' True (mm_Status governedModel) (governedCluster, [])"
    using live m1 by (simp add: Model_Reconcile_def get reconcileBackend_def GetBackendHandler_def backendOf_def
        acc externalModelHandler_def)
  moreover have gov: "checkGovernanceAttached memClient ?r m1 governedCluster"
    unfolding governance_meta [OF m1(2), of memClient ?r governedCluster] by (rule governedModel_governed)
  moreover have "\<exists>x. x \<in> set (statusWrites (snd (finishReconcile ?c plainMeta ?r ?h m1
      ''https://models.example.com'' True (mm_Status governedModel) (governedCluster, []))))"
  proof -
    have ph: "mst_Phase (mm_Status governedModel) \<noteq> fst (deriveModelPhase g b)" for g b
      by (simp add: governedModel_def sampleModel_def deriveModelPhase_def)
    show ?thesis
      unfolding finishReconcile_def Let_def case_prod_beta by (rule update_writes [OF acc(2) ph])
  qed
  ultimately obtain x where x: "x \<in> set (statusWrites (snd (snd (Model_Reconcile ?c plainMeta ?r (''llm'', ''m1'') (governedCluster, [])))))"
    and fin: "x \<in> set (statusWrites (snd (finishReconcile ?c plainMeta ?r ?h m1
      ''https://models.example.com'' True (mm_Status governedModel) (governedCluster, []))))" by auto
  have "mst_Phase (mm_Status x) = ''Ready''"
    using finish_writes [OF fin] gov by (simp add: Let_def deriveModelPhase_def)
  with published_status_sound [OF x [folded statusWrites_mem]] x show ?thesis
    by (intro exI [of _ x]) (auto simp: statusWrites_mem)
qed
end
