(* ===== verification/JsonMatch.thy ===== *)
theory JsonMatch
  imports GoText Unstructured "HOL-Library.AList"
begin

text \<open>
  \<open>specMatchesDesired\<close> of \<open>pkg/controller/maas/maasauthpolicy_controller.go\<close>: whether the spec of an
  object in the cluster already says what the controller wants to write, so that no update is needed.
  Both are sent through JSON first, which turns every number into a \<open>float64\<close>; then the fields the
  server added are cut from one side and the empty collections it dropped from the other. The
  comparison is shown to be the relation \<open>covers\<close> that its comment describes.
\<close>

section \<open>The round trip through JSON\<close>

text \<open>
  An integer as a \<open>float64\<close>: 53 significant bits, rounded to the nearest, ties to even.
\<close>

fun bitLength :: "nat \<Rightarrow> nat" where
  "bitLength n = (if n = 0 then 0 else Suc (bitLength (n div 2)))"

declare bitLength.simps [simp del]

definition roundTo53 :: "nat \<Rightarrow> nat" where
  "roundTo53 n =
     (let e = bitLength n - 53; q = n div 2 ^ e; r = n mod 2 ^ e; half = 2 ^ (e - 1)
      in if e = 0 then n
         else if r > half \<or> (r = half \<and> odd q) then (q + 1) * 2 ^ e
         else q * 2 ^ e)"

definition float64Int :: "int \<Rightarrow> int" where
  "float64Int n = (if n < 0 then - int (roundTo53 (nat (- n))) else int (roundTo53 (nat n)))"

text \<open>
  \<open>json.Unmarshal(json.Marshal(v))\<close>: the text of a float that is integral reads back as the same
  number as the integer. An object comes back as a map, written here with its keys in order; two
  such maps are equal for \<open>reflect.DeepEqual\<close> exactly when they are the same list.
\<close>

definition sortFields :: "jmap \<Rightarrow> jmap" where
  "sortFields m = sort_key fst (AList.clearjunk m)"

definition intText :: "string \<Rightarrow> int option" where
  "intText t =
     (if t \<noteq> [] \<and> hd t = CHR ''-'' then map_option (\<lambda>n. - int n) (parseDigits (tl t))
      else map_option int (parseDigits t))"

fun throughJSON :: "json \<Rightarrow> json" where
  "throughJSON (JInt n) = JInt (float64Int n)"
| "throughJSON (JFloat t) = (case intText t of None \<Rightarrow> JFloat t | Some n \<Rightarrow> JInt (float64Int n))"
| "throughJSON (JArr xs) = JArr (map throughJSON xs)"
| "throughJSON (JObj m) = JObj (sortFields (map (\<lambda>kv. (fst kv, throughJSON (snd kv))) m))"
| "throughJSON v = v"

section \<open>The comparison\<close>

fun stripExtra :: "json \<Rightarrow> json \<Rightarrow> json"
  and stripExtraFields :: "jmap \<Rightarrow> jmap \<Rightarrow> jmap"
  and stripExtraFieldsSlice :: "json list \<Rightarrow> json list \<Rightarrow> json list" where
  "stripExtra (JObj c) (JObj d) = JObj (stripExtraFields c d)"
| "stripExtra (JArr c) (JArr d) = JArr (stripExtraFieldsSlice c d)"
| "stripExtra c _ = c"
| "stripExtraFields [] d = []"
| "stripExtraFields ((k, cv) # c) d =
     (case map_of d k of
        None \<Rightarrow> stripExtraFields c d
      | Some dv \<Rightarrow> (k, stripExtra cv dv) # stripExtraFields c d)"
| "stripExtraFieldsSlice (c # cs) (d # ds) = stripExtra c d # stripExtraFieldsSlice cs ds"
| "stripExtraFieldsSlice cs _ = cs"

fun isEmptyCollection :: "json \<Rightarrow> bool" where
  "isEmptyCollection (JObj m) = (m = [])"
| "isEmptyCollection (JArr xs) = (xs = [])"
| "isEmptyCollection _ = False"

text \<open>A map read from a field that may be absent or of another type is nil, which reads as empty.\<close>

definition mapOrNil :: "json option \<Rightarrow> jmap" where
  "mapOrNil v = (case Option.bind v asMap of None \<Rightarrow> [] | Some m \<Rightarrow> m)"

fun stripEmptyValue :: "json \<Rightarrow> json option \<Rightarrow> json"
  and stripEmptyDesiredFields :: "jmap \<Rightarrow> jmap \<Rightarrow> jmap" where
  "stripEmptyValue (JObj d) cv = JObj (stripEmptyDesiredFields d (mapOrNil cv))"
| "stripEmptyValue v _ = v"
| "stripEmptyDesiredFields [] c = []"
| "stripEmptyDesiredFields ((k, dv) # d) c =
     (let dv' = stripEmptyValue dv (map_of c k)
      in if map_of c k = None \<and> isEmptyCollection dv' then stripEmptyDesiredFields d c
         else (k, dv') # stripEmptyDesiredFields d c)"

text \<open>
  A nil current spec comes back nil, and \<open>DeepEqual\<close> tells it from every map.
\<close>

definition specMatchesDesired :: "jmap \<Rightarrow> jmap option \<Rightarrow> bool" where
  "specMatchesDesired desired current =
     (case current of
        None \<Rightarrow> False
      | Some cur \<Rightarrow>
          let desiredNorm = mapOrNil (Some (throughJSON (JObj desired)));
              currentNorm = mapOrNil (Some (throughJSON (JObj cur)));
              currentNorm = stripExtraFields currentNorm desiredNorm;
              desiredNorm = stripEmptyDesiredFields desiredNorm currentNorm
          in desiredNorm = currentNorm)"

section \<open>What the comparison means\<close>

text \<open>
  A wanted value is \<open>hollow\<close> when nothing is left of it once empty collections are dropped.
  \<open>coversStrictly\<close>: every wanted field is there with a value that covers it; \<open>covers\<close>: the same, but
  a hollow field may be missing, which the program tolerates in maps and not below slices.
\<close>

fun hollow :: "json \<Rightarrow> bool" where
  "hollow (JObj d) = list_all (\<lambda>kv. hollow (snd kv)) d"
| "hollow (JArr xs) = (xs = [])"
| "hollow _ = False"

fun coversStrictly :: "json \<Rightarrow> json \<Rightarrow> bool" where
  "coversStrictly (JObj d) (JObj c) =
     list_all (\<lambda>kv. case map_of c (fst kv) of None \<Rightarrow> False | Some cv \<Rightarrow> coversStrictly (snd kv) cv) d"
| "coversStrictly (JArr ds) (JArr cs) = list_all2 coversStrictly ds cs"
| "coversStrictly d c = (d = c)"

fun covers :: "json \<Rightarrow> json \<Rightarrow> bool" where
  "covers (JObj d) (JObj c) =
     list_all (\<lambda>kv. case map_of c (fst kv) of None \<Rightarrow> hollow (snd kv) | Some cv \<Rightarrow> covers (snd kv) cv) d"
| "covers d c = coversStrictly d c"

section \<open>Canonical values\<close>

text \<open>What comes out of the round trip: the keys of every map are in strict order.\<close>

abbreviation keysInOrder :: "(string \<times> 'a) list \<Rightarrow> bool" where
  "keysInOrder m \<equiv> sorted_wrt (<) (map fst m)"

fun canonical :: "json \<Rightarrow> bool" where
  "canonical (JObj m) = (keysInOrder m \<and> list_all (\<lambda>kv. canonical (snd kv)) m)"
| "canonical (JArr xs) = list_all canonical xs"
| "canonical _ = True"

lemma keysInOrder_distinct: "keysInOrder m \<Longrightarrow> distinct (map fst m)"
  by (auto simp: strict_sorted_iff)

lemma distinct_sortFields: "distinct (map fst (sortFields m))"
proof -
  have "mset (map fst (sortFields m)) = mset (map fst (AList.clearjunk m))"
    by (simp add: sortFields_def)
  moreover have "distinct (map fst (AList.clearjunk m))"
    by (rule AList.distinct_clearjunk)
  ultimately show ?thesis using mset_eq_imp_distinct_iff by blast
qed

lemma keysInOrder_sortFields: "keysInOrder (sortFields m)"
  using distinct_sortFields [of m] by (simp add: strict_sorted_iff sortFields_def)

lemma map_of_sortFields [simp]: "map_of (sortFields m) = map_of m"
proof -
  have "map_of (sortFields m) = map_of (AList.clearjunk m)"
    using distinct_sortFields [of m] AList.distinct_clearjunk [of m]
    by (subst map_of_inject_set) (simp_all add: sortFields_def)
  then show ?thesis by (simp add: map_of_clearjunk)
qed

lemma set_sortFields: "set (sortFields m) \<subseteq> set m"
  using distinct_sortFields [of m] by (auto simp: map_of_eq_Some_iff [symmetric] dest: map_of_SomeD)

lemma canonical_throughJSON: "canonical (throughJSON v)"
proof (induction v rule: throughJSON.induct)
  case (4 m)
  have "canonical (snd kv)" if "kv \<in> set (sortFields (map (\<lambda>kv. (fst kv, throughJSON (snd kv))) m))" for kv
    using that set_sortFields [of "map (\<lambda>kv. (fst kv, throughJSON (snd kv))) m"] 4 by auto
  then show ?case by (simp add: keysInOrder_sortFields list_all_iff)
qed (auto simp: list_all_iff split: option.split)

text \<open>Maps in order are equal as soon as their lookups are.\<close>

lemma keysInOrder_eqI:
  assumes "keysInOrder m" and "keysInOrder m'" and "map_of m = map_of m'"
  shows "m = m'"
proof -
  have d: "distinct (map fst m)" "distinct (map fst m')"
    using assms by (simp_all add: keysInOrder_distinct)
  with assms(3) have "set m = set m'" by (simp add: map_of_inject_set)
  moreover have "inj_on fst (set m)" using d(1) by (simp add: distinct_map)
  ultimately show ?thesis
    using assms(1,2) d by (metis map_sorted_distinct_set_unique distinct_map strict_sorted_iff sup.idem)
qed

lemma keysInOrder_eq_iff:
  "keysInOrder m \<Longrightarrow> keysInOrder m' \<Longrightarrow> m = m' \<longleftrightarrow> (\<forall>k. map_of m k = map_of m' k)"
  using keysInOrder_eqI by (metis ext)

section \<open>The comparison, exactly\<close>

lemma map_of_stripExtraFields:
  "map_of (stripExtraFields c d) k =
     (case map_of d k of None \<Rightarrow> None | Some dv \<Rightarrow> map_option (\<lambda>cv. stripExtra cv dv) (map_of c k))"
  by (induction c) (auto split: option.split)

lemma keys_stripExtraFields: "map fst (stripExtraFields c d) = filter (\<lambda>k. map_of d k \<noteq> None) (map fst c)"
  by (induction c) (auto split: option.split)

lemma keysInOrder_stripExtraFields: "keysInOrder c \<Longrightarrow> keysInOrder (stripExtraFields c d)"
  unfolding keys_stripExtraFields by (rule sorted_wrt_filter)

text \<open>What is dropped, and what is left, of the wanted fields.\<close>

definition dropped :: "jmap \<Rightarrow> string \<Rightarrow> json \<Rightarrow> bool" where
  "dropped c k dv \<longleftrightarrow> map_of c k = None \<and> isEmptyCollection (stripEmptyValue dv (map_of c k))"

lemma stripEmpty_eq:
  "stripEmptyDesiredFields d c =
     map (\<lambda>kv. (fst kv, stripEmptyValue (snd kv) (map_of c (fst kv))))
       (filter (\<lambda>kv. \<not> dropped c (fst kv) (snd kv)) d)"
  by (induction d) (auto simp: dropped_def Let_def)

lemma map_of_filter_fields:
  "distinct (map fst d) \<Longrightarrow> map_of (filter (\<lambda>kv. P (fst kv) (snd kv)) d) k =
     (case map_of d k of None \<Rightarrow> None | Some v \<Rightarrow> if P k v then Some v else None)"
  by (induction d) (auto simp: map_of_eq_None_iff split: option.split)

lemma map_of_stripEmpty:
  assumes "distinct (map fst d)"
  shows "map_of (stripEmptyDesiredFields d c) k =
     (case map_of d k of
        None \<Rightarrow> None
      | Some dv \<Rightarrow> if dropped c k dv then None else Some (stripEmptyValue dv (map_of c k)))"
proof -
  have "map_of (map (\<lambda>kv. (fst kv, f (fst kv) (snd kv))) xs) k = map_option (f k) (map_of xs k)"
    for f :: "string \<Rightarrow> json \<Rightarrow> json" and xs by (induction xs) auto
  from this [of "\<lambda>k v. stripEmptyValue v (map_of c k)"] show ?thesis
    unfolding stripEmpty_eq using map_of_filter_fields [OF assms, of "\<lambda>k v. \<not> dropped c k v" k]
    by (simp split: option.split)
qed

lemma keysInOrder_stripEmpty: "keysInOrder d \<Longrightarrow> keysInOrder (stripEmptyDesiredFields d c)"
  by (simp add: stripEmpty_eq sorted_wrt_map sorted_wrt_filter)

lemma list_all_map_of:
  assumes "distinct (map fst m)"
  shows "list_all (\<lambda>kv. P (fst kv) (snd kv)) m \<longleftrightarrow> (\<forall>k v. map_of m k = Some v \<longrightarrow> P k v)"
  using assms by (auto simp: list_all_iff map_of_eq_Some_iff)

lemma hollow_iff: "isEmptyCollection (stripEmptyValue v None) \<longleftrightarrow> hollow v"
proof (induction v)
  case (JObj d)
  then show ?case
    by (auto simp: mapOrNil_def stripEmpty_eq dropped_def filter_empty_conv list_all_iff)
qed auto

lemma dropped_iff: "dropped c k dv \<longleftrightarrow> map_of c k = None \<and> hollow dv"
  using hollow_iff [of dv] by (auto simp: dropped_def)

lemma strip_strict_iff:
  assumes "canonical d" and "canonical c"
  shows "d = stripExtra c d \<longleftrightarrow> coversStrictly d c"
  using assms
proof (induction d arbitrary: c)
  case (JArr ds)
  show ?case
  proof (cases c)
    case (JArr cs)
    have "ds = stripExtraFieldsSlice cs ds \<longleftrightarrow> list_all2 coversStrictly ds cs"
      using JArr.IH JArr.prems JArr
    proof (induction ds arbitrary: cs c)
      case Nil
      then show ?case by (cases cs) auto
    next
      case (Cons x ds)
      show ?case
      proof (cases cs)
        case (Cons y cs')
        then show ?thesis
          using Cons.IH [of "JArr cs'" cs'] Cons.prems by simp
      qed simp
    qed
    with JArr show ?thesis by simp
  qed simp_all
next
  case (JObj d)
  show ?case
  proof (cases c)
    case (JObj cm)
    have o: "keysInOrder d" "keysInOrder (stripExtraFields cm d)"
      using JObj.prems JObj by (simp_all add: keysInOrder_stripExtraFields)
    have canon: "canonical v" if "map_of d k = Some v" for k v
      using JObj.prems(1) map_of_SomeD [OF that] by (auto simp: list_all_iff)
    have canonc: "canonical v" if "map_of cm k = Some v" for k v
      using JObj.prems(2) JObj map_of_SomeD [OF that] by (auto simp: list_all_iff)
    have IH: "v = stripExtra cv v \<longleftrightarrow> coversStrictly v cv"
      if "map_of d k = Some v" "map_of cm k = Some cv" for k v cv
      using JObj.IH [of "(k, v)" v cv] map_of_SomeD [OF that(1)] canon [OF that(1)] canonc [OF that(2)] by simp
    have "map_of d k = map_of (stripExtraFields cm d) k \<longleftrightarrow>
        (\<forall>v. map_of d k = Some v \<longrightarrow> (case map_of cm k of None \<Rightarrow> False | Some cv \<Rightarrow> v = stripExtra cv v))" for k
      by (cases "map_of d k"; cases "map_of cm k") (auto simp: map_of_stripExtraFields)
    then have "d = stripExtraFields cm d \<longleftrightarrow>
        (\<forall>k v. map_of d k = Some v \<longrightarrow> (case map_of cm k of None \<Rightarrow> False | Some cv \<Rightarrow> v = stripExtra cv v))"
      unfolding keysInOrder_eq_iff [OF o] by simp
    also have "\<dots> \<longleftrightarrow>
        (\<forall>k v. map_of d k = Some v \<longrightarrow> (case map_of cm k of None \<Rightarrow> False | Some cv \<Rightarrow> coversStrictly v cv))"
      using IH by (auto split: option.split)
    also have "\<dots> \<longleftrightarrow> coversStrictly (JObj d) (JObj cm)"
      using list_all_map_of [OF keysInOrder_distinct [OF o(1)],
          of "\<lambda>k v. case map_of cm k of None \<Rightarrow> False | Some cv \<Rightarrow> coversStrictly v cv"] by simp
    finally show ?thesis using JObj by simp
  qed simp_all
qed auto

lemma strip_covers_iff:
  assumes "canonical d" and "canonical c"
  shows "stripEmptyValue d (Some (stripExtra c d)) = stripExtra c d \<longleftrightarrow> covers d c"
  using assms
proof (induction d arbitrary: c)
  case (JArr ds)
  then show ?case using strip_strict_iff [of "JArr ds" c] by simp
next
  case (JObj d)
  show ?case
  proof (cases c)
    case (JObj cm)
    let ?c = "stripExtraFields cm d"
    have o: "keysInOrder d" "keysInOrder (stripEmptyDesiredFields d ?c)" "keysInOrder ?c"
      using JObj.prems JObj by (simp_all add: keysInOrder_stripExtraFields keysInOrder_stripEmpty)
    have canon: "canonical v" if "map_of d k = Some v" for k v
      using JObj.prems(1) map_of_SomeD [OF that] by (auto simp: list_all_iff)
    have canonc: "canonical v" if "map_of cm k = Some v" for k v
      using JObj.prems(2) JObj map_of_SomeD [OF that] by (auto simp: list_all_iff)
    have IH: "stripEmptyValue v (Some (stripExtra cv v)) = stripExtra cv v \<longleftrightarrow> covers v cv"
      if "map_of d k = Some v" "map_of cm k = Some cv" for k v cv
      using JObj.IH [of "(k, v)" v cv] map_of_SomeD [OF that(1)] canon [OF that(1)] canonc [OF that(2)] by simp
    have "map_of (stripEmptyDesiredFields d ?c) k = map_of ?c k \<longleftrightarrow>
        (\<forall>v. map_of d k = Some v \<longrightarrow> (case map_of cm k of None \<Rightarrow> hollow v | Some cv \<Rightarrow> covers v cv))" for k
      using IH [of k]
      by (cases "map_of d k"; cases "map_of cm k")
         (auto simp: map_of_stripEmpty [OF keysInOrder_distinct [OF o(1)]] map_of_stripExtraFields dropped_iff)
    then have "stripEmptyDesiredFields d ?c = ?c \<longleftrightarrow>
        (\<forall>k v. map_of d k = Some v \<longrightarrow> (case map_of cm k of None \<Rightarrow> hollow v | Some cv \<Rightarrow> covers v cv))"
      unfolding keysInOrder_eq_iff [OF o(2,3)] by simp
    also have "\<dots> \<longleftrightarrow> covers (JObj d) (JObj cm)"
      using list_all_map_of [OF keysInOrder_distinct [OF o(1)],
          of "\<lambda>k v. case map_of cm k of None \<Rightarrow> hollow v | Some cv \<Rightarrow> covers v cv"] by simp
    finally show ?thesis using JObj by (simp add: mapOrNil_def)
  qed simp_all
qed (auto simp: eq_commute)

lemma specMatchesDesired_iff:
  "specMatchesDesired desired current \<longleftrightarrow>
     (\<exists>c. current = Some c \<and> covers (throughJSON (JObj desired)) (throughJSON (JObj c)))"
proof (cases current)
  case (Some c)
  have "stripEmptyValue (throughJSON (JObj desired)) (Some (stripExtra (throughJSON (JObj c)) (throughJSON (JObj desired))))
      = stripExtra (throughJSON (JObj c)) (throughJSON (JObj desired))
    \<longleftrightarrow> covers (throughJSON (JObj desired)) (throughJSON (JObj c))"
    by (intro strip_covers_iff canonical_throughJSON)
  with Some show ?thesis by (simp add: specMatchesDesired_def mapOrNil_def)
qed (simp add: specMatchesDesired_def)

text \<open>
  C27: The comparison that decides whether the gateway's policy is rewritten is the one its comment
  describes: after the round trip through JSON, every wanted field is present with a value that
  covers it, where fields the server added are ignored and, outside slices, empty collections may be
  missing.
\<close>

theorem specMatchesDesired_exact:
  "specMatchesDesired desired current \<longleftrightarrow>
     (\<exists>c. current = Some c \<and> covers (throughJSON (JObj desired)) (throughJSON (JObj c)))"
  by (rule specMatchesDesired_iff)

lemma own_field: "keysInOrder m \<Longrightarrow> kv \<in> set m \<Longrightarrow> map_of m (fst kv) = Some (snd kv)"
  by (simp add: keysInOrder_distinct)

lemma coversStrictly_refl: "canonical v \<Longrightarrow> coversStrictly v v"
proof (induction v)
  case (JObj m)
  then show ?case by (simp add: list_all_iff own_field snds.simps)
next
  case (JArr xs)
  then show ?case by (auto simp: list_all_iff intro: list.rel_refl_strong)
qed auto

lemma covers_refl: "canonical v \<Longrightarrow> covers v v"
proof (induction v)
  case (JObj m)
  then show ?case by (simp add: list_all_iff own_field snds.simps)
next
  case (JArr xs)
  then show ?case using coversStrictly_refl [of "JArr xs"] by simp
qed auto

text \<open>What has just been written matches.\<close>

lemma specMatchesDesired_refl: "specMatchesDesired spec (Some spec)"
  unfolding specMatchesDesired_iff by (simp only: option.inject ex_simps simp_thms)
    (intro covers_refl canonical_throughJSON)

text \<open>Integers up to 53 bits survive the round trip; longer ones may be confused.\<close>

lemma bitLength_le: "n < 2 ^ k \<Longrightarrow> bitLength n \<le> k"
proof (induction k arbitrary: n)
  case 0
  then show ?case by (simp add: bitLength.simps)
next
  case (Suc k)
  then have "n div 2 < 2 ^ k" by auto
  with Suc.IH [of "n div 2"] show ?case by (simp add: bitLength.simps [of n])
qed

lemma float64Int_exact: "\<bar>n\<bar> < 2 ^ 53 \<Longrightarrow> float64Int n = n"
  using bitLength_le [of "nat n" 53] bitLength_le [of "nat (- n)" 53]
  by (auto simp: float64Int_def roundTo53_def Let_def nat_less_iff)

lemma large_numbers_confused:
  "specMatchesDesired [(''ttl'', JInt (2 ^ 53))] (Some [(''ttl'', JInt (2 ^ 53 + 1))])"
proof -
  have "bitLength (2 ^ 53) = 54" "bitLength (2 ^ 53 + 1) = 54" by (simp_all add: bitLength.simps)
  then show ?thesis
    by (simp add: specMatchesDesired_def throughJSON.simps mapOrNil_def sortFields_def float64Int_def
        roundTo53_def Let_def nat_add_distrib)
qed

end
