(* ===== verification/GatewayPolicy.thy ===== *)
theory GatewayPolicy
  imports RateLimits JsonMatch
begin

text \<open>
  The Kuadrant AuthPolicy of a gateway that \<open>maasauthpolicy_controller.go\<close> generates: the CEL
  expressions, and the rules built from them, as the JSON value the controller writes. The policy
  makes Authorino validate the API key and select the subscription through \<open>maas-api\<close>, and decide on
  their answers.
\<close>

section \<open>CEL expressions\<close>

definition celUserID :: string where \<open>
  celUserID =
    ''(has(auth.metadata) && has(auth.metadata.apiKeyValidation)) ''
    @ ''? auth.metadata.apiKeyValidation.userId ''
    @ '': (has(auth.identity.preferred_username) ? auth.identity.preferred_username ''
    @ '': (has(auth.identity.sub) ? auth.identity.sub : auth.identity.user.username))''\<close>

definition celUsername :: string where \<open>
  celUsername =
    ''(has(auth.metadata) && has(auth.metadata.apiKeyValidation)) ''
    @ ''? auth.metadata.apiKeyValidation.username ''
    @ '': (has(auth.identity.preferred_username) ? auth.identity.preferred_username ''
    @ '': (has(auth.identity.sub) ? auth.identity.sub : auth.identity.user.username))''\<close>

definition celGroups :: string where \<open>
  celGroups =
    ''(has(auth.metadata) && has(auth.metadata.apiKeyValidation)) ''
    @ ''? auth.metadata.apiKeyValidation.groups ''
    @ '': (has(auth.identity.groups) ? auth.identity.groups : auth.identity.user.groups)''\<close>

definition safeGroupNamePattern :: string where
  "safeGroupNamePattern = ''^[A-Za-z0-9:._/-]+$''"

definition celOIDCGroupsSafe :: string where \<open>
  celOIDCGroupsSafe =
    ''auth.identity.groups.all(g, g.matches('' @ [CHR 0x27] @ safeGroupNamePattern @ [CHR 0x27] @ ''))''\<close>

definition celTokenGroupsHeaderJSON :: string where \<open>
  celTokenGroupsHeaderJSON =
    ''has(auth.identity.groups) ? ''
    @ ''(size(auth.identity.groups) > 0 && '' @ celOIDCGroupsSafe @ '' ? ''
    @ '''["system:authenticated","' + auth.identity.groups.join('","') + '"]' : ''
    @ '''["system:authenticated"]') : ''
    @ ''(has(auth.identity.user.groups) && size(auth.identity.user.groups) > 0 ? ''
    @ '''["system:authenticated","' + auth.identity.user.groups.join('","') + '"]' : ''
    @ '''["system:authenticated"]')''\<close>

definition celSubscription :: string where \<open>
  celSubscription =
    ''(has(auth.metadata) && has(auth.metadata.apiKeyValidation)) ''
    @ ''? auth.metadata.apiKeyValidation.subscription : ''
    @ ''("x-maas-subscription" in request.headers ? request.headers["x-maas-subscription"] : "")''\<close>

definition celPathParts :: string where \<open>
  celPathParts = ''request.path.split("/").filter(x, x != "")''\<close>

definition celPathModelIdentityAvailable :: string where \<open>
  celPathModelIdentityAvailable =
    ''size('' @ celPathParts @ '') >= 2 && ''
    @ celPathParts @ ''[0] != "v1" && ''
    @ celPathParts @ ''[0] != "maas-api"''\<close>

definition celModelIdentityAvailable :: string where \<open>
  celModelIdentityAvailable =
    ''('' @ celPathModelIdentityAvailable @ '' || "x-gateway-model-name" in request.headers)''\<close>

definition celModelIdentity :: string where \<open>
  celModelIdentity =
    ''('' @ celPathModelIdentityAvailable
    @ '' ? '' @ celPathParts @ ''[0] + "/" + '' @ celPathParts @ ''[1]''
    @ '' : ("x-gateway-model-name" in request.headers''
    @ ''   ? request.headers["x-gateway-model-name"]''
    @ ''   : ""))''\<close>

definition celResolvedModelIdentity :: string where \<open>
  celResolvedModelIdentity =
    ''(has(auth.metadata["subscription-info"].resolvedModel) && ''
    @ ''auth.metadata["subscription-info"].resolvedModel != "" ''
    @ ''? auth.metadata["subscription-info"].resolvedModel ''
    @ '': '' @ celModelIdentity @ '')''\<close>

definition subscriptionGatewayCacheKeySelector :: string where \<open>
  subscriptionGatewayCacheKeySelector =
    ''('' @ celUserID @ '') + "|" + ('' @ celGroups @ '').join(",") + "|" + ('' @ celSubscription
    @ '') + "|" + '' @ celModelIdentity\<close>

text \<open>\<open>apiKeyCELPredicates\<close>: detection, negation and extraction of an API key.\<close>

definition apiKeyCELPredicates :: "bool \<Rightarrow> string \<times> string \<times> string" where \<open>
  apiKeyCELPredicates xAPIKeyEnabled =
    (if \<not> xAPIKeyEnabled then
       (''request.headers.authorization.matches("^Bearer sk-oai-.*")'',
        ''!request.headers.authorization.startsWith("Bearer sk-oai-")'',
        ''request.headers.authorization.replace("Bearer ", "")'')
     else
       let isAPIKey = ''request.headers.authorization.matches("^Bearer sk-oai-.*") || ''
             @ ''("x-api-key" in request.headers && request.headers["x-api-key"].matches("^sk-oai-.*"))''
       in (isAPIKey, ''!('' @ isAPIKey @ '')'',
           ''request.headers.authorization.matches("^Bearer sk-oai-.*") ''
           @ ''? request.headers.authorization.replace("Bearer ", "") ''
           @ '': request.headers["x-api-key"]''))\<close>

section \<open>The reconciler's configuration\<close>

record MaaSAuthPolicyReconciler =
  apr_InfraNamespace :: string
  apr_TenantNamespace :: string
  apr_GatewayName :: string
  apr_GatewayNamespace :: string
  apr_TenantNamespaceDiscoveryEnabled :: bool
  apr_ClusterAudience :: string
  apr_MetadataCacheTTL :: int
  apr_AuthzCacheTTL :: int
  apr_HasRecorder :: bool

record oidcConfig =
  oc_IssuerURL :: string
  oc_ClientID :: string
  oc_TTL :: int

definition authzCacheTTL :: "MaaSAuthPolicyReconciler \<Rightarrow> int" where
  "authzCacheTTL r =
     (let metadata = apr_MetadataCacheTTL r; authz = apr_AuthzCacheTTL r;
          metadata = (if metadata < 0 then 0 else metadata);
          authz = (if authz < 0 then 0 else authz)
      in if authz < metadata then authz else metadata)"

definition ValidateCacheTTLs :: "MaaSAuthPolicyReconciler \<Rightarrow> string option" where
  "ValidateCacheTTLs r =
     (if apr_MetadataCacheTTL r < 0 then
        Some (''metadata cache TTL must be non-negative, got '' @ itoa (apr_MetadataCacheTTL r))
      else if apr_AuthzCacheTTL r < 0 then
        Some (''authorization cache TTL must be non-negative, got '' @ itoa (apr_AuthzCacheTTL r))
      else None)"

definition maasGatewayAuthPolicyName :: string where
  "maasGatewayAuthPolicyName = ''maas-gateway-auth''"

definition legacyGatewayDefaultAuthPolicyName :: string where
  "legacyGatewayDefaultAuthPolicyName = ''gateway-default-auth''"

definition gatewayAuthPolicyName :: "MaaSAuthPolicyReconciler \<Rightarrow> string \<Rightarrow> string \<Rightarrow> string" where
  "gatewayAuthPolicyName r gatewayNamespace gatewayName =
     (if gatewayNamespace \<noteq> apr_GatewayNamespace r \<or> gatewayName \<noteq> apr_GatewayName r
      then gatewayName @ ''-maas-auth'' else maasGatewayAuthPolicyName)"

section \<open>The rules\<close>

text \<open>The callbacks go to the tenant's own \<open>maas-api\<close>.\<close>

definition maasAPIURL :: "MaaSAuthPolicyReconciler \<Rightarrow> string \<Rightarrow> string \<Rightarrow> string" where
  "maasAPIURL r tenantID path =
     ''https://'' @ (if tenantID \<noteq> [] then ''maas-api-'' @ tenantID else ''maas-api'') @ ''.''
       @ apr_InfraNamespace r @ ''.svc.cluster.local:8443'' @ path"

abbreviation whenPredicate :: "string \<Rightarrow> string \<times> json" where
  "whenPredicate p \<equiv> (''when'', JArr [JObj [(''predicate'', JStr p)]])"

abbreviation quietRule :: "int \<Rightarrow> jmap" where
  "quietRule prio \<equiv> [(''metrics'', JBool False), (''priority'', JInt prio)]"

abbreviation cacheFor :: "string \<Rightarrow> int \<Rightarrow> string \<times> json" where
  "cacheFor key ttl \<equiv>
     (''cache'', JObj [(''key'', JObj [(''selector'', JStr key)]), (''ttl'', JInt ttl)])"

abbreviation rego :: "string \<Rightarrow> string \<times> json" where
  "rego t \<equiv> (''opa'', JObj [(''rego'', JStr t)])"

definition nl :: string where
  "nl = [CHR 0x0A]"
definition tab :: string where
  "tab = [CHR 0x09]"

text \<open>The condition that a bearer token has three parts separated by dots.\<close>

definition jwtShaped :: string where \<open>
  jwtShaped =
    '' && request.headers.authorization.matches("^Bearer [^.]+'' @ [CHR 0x5C, CHR 0x5C]
    @ ''.[^.]+'' @ [CHR 0x5C, CHR 0x5C] @ ''.[^.]+$")''\<close>

definition authenticationRules ::
  "MaaSAuthPolicyReconciler \<Rightarrow> oidcConfig option \<Rightarrow> bool \<Rightarrow> jmap" where \<open>
  authenticationRules r oidc xAPIKeyEnabled =
    (let (_, celIsNotAPIKey, _) = apiKeyCELPredicates xAPIKeyEnabled
     in [(''api-keys'', JObj
            ([(''plain'', JObj [(''selector'', JStr ''request.headers.authorization'')]),
              (''when'', JArr [JObj [(''selector'', JStr ''request.headers.authorization''),
                                     (''operator'', JStr ''matches''),
                                     (''value'', JStr ''^Bearer sk-oai-.*'')]])] @ quietRule 0)),
         (''openshift-identities'', JObj
            ([(''kubernetesTokenReview'', JObj [(''audiences'', JArr [JStr (apr_ClusterAudience r)])]),
              whenPredicate celIsNotAPIKey] @ quietRule 2))]
        @ (if xAPIKeyEnabled then
             [(''api-keys-x-api-key'', JObj
                ([(''plain'', JObj [(''selector'', JStr ''request.headers.x-api-key'')]),
                  whenPredicate (''"x-api-key" in request.headers && request.headers["x-api-key"].matches("^sk-oai-.*")''
                    @ '' && !request.headers.authorization.matches("^Bearer sk-oai-.*")'')] @ quietRule 1))]
           else [])
        @ (case oidc of
             None \<Rightarrow> []
           | Some o1 \<Rightarrow>
               [(''oidc-identities'', JObj
                  ([(''jwt'', JObj [(''issuerUrl'', JStr (oc_IssuerURL o1)), (''ttl'', JInt (oc_TTL o1))]),
                    whenPredicate (celIsNotAPIKey @ jwtShaped)] @ quietRule 1))]))\<close>

definition requireGroupMembershipRego :: string where \<open>
  requireGroupMembershipRego =
    ''allow {'' @ nl
    @ ''  object.get(input.auth.metadata["subscription-info"], "accessAllowed", false) == true'' @ nl
    @ ''}''\<close>

definition authValidRego :: string where \<open>
  authValidRego =
    ''allow {'' @ nl
    @ ''  object.get(input.auth.metadata, "apiKeyValidation", {})'' @ nl
    @ ''  input.auth.metadata.apiKeyValidation.valid == true'' @ nl
    @ ''}'' @ nl
    @ ''allow {'' @ nl
    @ ''  not input.auth.metadata.apiKeyValidation'' @ nl
    @ ''}''\<close>

definition subscriptionValidRego :: string where \<open>
  subscriptionValidRego =
    ''allow {'' @ nl
    @ tab @ ''object.get(input.auth.metadata["subscription-info"], "name", "") != ""'' @ nl
    @ tab @ ''object.get(input.auth.metadata["subscription-info"], "error", "") == ""'' @ nl
    @ tab @ ''phase := object.get(input.auth.metadata["subscription-info"], "phase", "")'' @ nl
    @ tab @ ''any([phase == "Active", phase == "Degraded"])'' @ nl
    @ tab @ ''object.get(input.auth.metadata["subscription-info"], "deletionTimestamp", "") == ""'' @ nl
    @ ''}''\<close>

definition oidcGroupsSafeRego :: string where \<open>
  oidcGroupsSafeRego =
    ''unsafe_group[g] {'' @ nl
    @ tab @ ''g := input.auth.identity.groups[_]'' @ nl
    @ tab @ ''not regex.match("'' @ safeGroupNamePattern @ ''", g)'' @ nl
    @ ''}'' @ nl @ nl
    @ ''allow {'' @ nl
    @ tab @ ''count(unsafe_group) == 0'' @ nl
    @ ''}''\<close>

definition authorizationRules ::
  "MaaSAuthPolicyReconciler \<Rightarrow> oidcConfig option \<Rightarrow> bool \<Rightarrow> jmap" where \<open>
  authorizationRules r oidc xAPIKeyEnabled =
    (let (_, celIsNotAPIKey, celExtractKey) = apiKeyCELPredicates xAPIKeyEnabled;
         authValidCacheKey = ''"api-key|" + ('' @ celExtractKey @ '') + "|" + '' @ celModelIdentity
     in [(''deny-client-identity-headers'', JObj
            (quietRule 0 @ [(''patternMatching'', JObj [(''patterns'', JArr
               [JObj [(''predicate'', JStr ''!("x-maas-username" in request.headers)'')],
                JObj [(''predicate'', JStr ''!("x-maas-group" in request.headers)'')]])])])),
         (''auth-valid'', JObj
            (quietRule 0 @ [rego authValidRego, cacheFor authValidCacheKey (authzCacheTTL r)])),
         (''subscription-valid'', JObj
            ([whenPredicate celModelIdentityAvailable] @ quietRule 0
             @ [rego subscriptionValidRego, cacheFor subscriptionGatewayCacheKeySelector (authzCacheTTL r)])),
         (''require-group-membership'', JObj
            ([whenPredicate celModelIdentityAvailable] @ quietRule 0
             @ [rego requireGroupMembershipRego,
                cacheFor subscriptionGatewayCacheKeySelector (authzCacheTTL r)]))]
        @ (case oidc of
             None \<Rightarrow> []
           | Some o1 \<Rightarrow>
               [(''oidc-groups-safe'', JObj
                  ([whenPredicate (celIsNotAPIKey
                      @ '' && has(auth.identity.groups) && size(auth.identity.groups) > 0'')]
                   @ quietRule 0 @ [rego oidcGroupsSafeRego])),
                (''oidc-client-bound'', JObj
                  ([whenPredicate (celIsNotAPIKey @ jwtShaped @ '' && has(auth.identity.azp)'')]
                   @ quietRule 1
                   @ [(''patternMatching'', JObj [(''patterns'', JArr
                        [JObj [(''selector'', JStr ''auth.identity.azp''), (''operator'', JStr ''eq''),
                               (''value'', JStr (oc_ClientID o1))]])])]))]))\<close>

text \<open>The expression of the body of a selection request.\<close>

definition subscriptionInfoBody :: string where \<open>
  subscriptionInfoBody =
    ''{'' @ nl
    @ ''  "groups": '' @ celGroups @ '','' @ nl
    @ ''  "username": '' @ celUsername @ '','' @ nl
    @ ''  "requestedSubscription": '' @ celSubscription @ '','' @ nl
    @ ''  "requestedModel": '' @ celModelIdentity @ nl
    @ ''}''\<close>

abbreviation postJSON :: "string \<Rightarrow> string \<Rightarrow> string \<times> json" where
  "postJSON url body \<equiv>
     (''http'', JObj [(''url'', JStr url), (''contentType'', JStr ''application/json''),
                      (''method'', JStr ''POST''),
                      (''body'', JObj [(''expression'', JStr body)])])"

definition metadataRules :: "MaaSAuthPolicyReconciler \<Rightarrow> bool \<Rightarrow> string \<Rightarrow> jmap" where \<open>
  metadataRules r xAPIKeyEnabled tenantID =
    (let (celIsAPIKey, _, celExtractKey) = apiKeyCELPredicates xAPIKeyEnabled
     in [(''apiKeyValidation'', JObj
            ([whenPredicate celIsAPIKey,
              postJSON (maasAPIURL r tenantID ''/internal/v1/api-keys/validate'')
                (''{"key": '' @ celExtractKey @ ''}''),
              cacheFor celExtractKey (apr_MetadataCacheTTL r)] @ quietRule 0)),
         (''subscription-info'', JObj
            ([whenPredicate celModelIdentityAvailable,
              postJSON (maasAPIURL r tenantID ''/internal/v1/subscriptions/select'') subscriptionInfoBody,
              cacheFor subscriptionGatewayCacheKeySelector (apr_MetadataCacheTTL r)] @ quietRule 1))])\<close>

abbreviation plainExpression :: "string \<Rightarrow> string \<times> json" where
  "plainExpression t \<equiv> (''plain'', JObj [(''expression'', JStr t)])"

definition responseHeaders :: "bool \<Rightarrow> jmap" where \<open>
  responseHeaders xAPIKeyEnabled =
    (let (celIsAPIKey, celIsNotAPIKey, _) = apiKeyCELPredicates xAPIKeyEnabled
     in [(''X-MaaS-Username'', JObj
            ([whenPredicate celIsAPIKey,
              (''plain'', JObj [(''selector'', JStr ''auth.metadata.apiKeyValidation.username'')])]
             @ quietRule 0)),
         (''X-MaaS-Username-Token'', JObj
            ([whenPredicate celIsNotAPIKey,
              plainExpression (''has(auth.identity.preferred_username) ? auth.identity.preferred_username : ''
                @ ''(has(auth.identity.sub) ? auth.identity.sub : auth.identity.user.username)''),
              (''key'', JStr ''X-MaaS-Username'')] @ quietRule 1)),
         (''X-MaaS-Group'', JObj
            ([whenPredicate celIsAPIKey,
              plainExpression (''size(auth.metadata.apiKeyValidation.groups) > 0 ? ''
                @ '''["' + auth.metadata.apiKeyValidation.groups.join('","') + '"]' : '[]'' @ [CHR 0x27])]
             @ quietRule 0)),
         (''X-MaaS-Group-Token'', JObj
            ([whenPredicate celIsNotAPIKey, plainExpression celTokenGroupsHeaderJSON,
              (''key'', JStr ''X-MaaS-Group'')] @ quietRule 1)),
         (''X-MaaS-Subscription'', JObj
            ([whenPredicate (''(has(auth.metadata) && has(auth.metadata.apiKeyValidation) && ''
                @ ''auth.metadata.apiKeyValidation.subscription != "") || ''
                @ ''"x-maas-subscription" in request.headers''),
              plainExpression celSubscription] @ quietRule 0))])\<close>

abbreviation exprField :: "string \<Rightarrow> string \<Rightarrow> string \<times> json" where
  "exprField name t \<equiv> (name, JObj [(''expression'', JStr t)])"

definition identityProperties :: jmap where \<open>
  identityProperties =
    [exprField ''groups'' celGroups,
     exprField ''groups_str'' (''('' @ celGroups @ '').join(",")''),
     exprField ''userid'' celUsername,
     exprField ''keyId'' (''(has(auth.metadata) && has(auth.metadata.apiKeyValidation)) ''
       @ ''? auth.metadata.apiKeyValidation.keyId : ""''),
     exprField ''keyName'' (''(has(auth.metadata) && has(auth.metadata.apiKeyValidation)) ''
       @ ''? auth.metadata.apiKeyValidation.keyName : ""''),
     exprField ''selected_subscription'' (''has(auth.metadata["subscription-info"].name) ''
       @ ''? auth.metadata["subscription-info"].name : ""''),
     exprField ''selected_subscription_key'' (''(has(auth.metadata["subscription-info"].namespace) && ''
       @ ''has(auth.metadata["subscription-info"].name)) ''
       @ ''? auth.metadata["subscription-info"].namespace + "/" ''
       @ ''+ auth.metadata["subscription-info"].name + "@" + '' @ celResolvedModelIdentity @ '' : ""''),
     exprField ''subscription_info'' (''has(auth.metadata["subscription-info"].name) ''
       @ ''? auth.metadata["subscription-info"] : {}''),
     exprField ''subscription_error'' (''has(auth.metadata["subscription-info"].error) ''
       @ ''? auth.metadata["subscription-info"].error : ""''),
     exprField ''subscription_error_message'' (''has(auth.metadata["subscription-info"].message) ''
       @ ''? auth.metadata["subscription-info"].message : ""'')]\<close>

definition responseRules :: "bool \<Rightarrow> jmap" where \<open>
  responseRules xAPIKeyEnabled =
    [(''success'', JObj
        [(''headers'', JObj (responseHeaders xAPIKeyEnabled)),
         (''filters'', JObj [(''identity'', JObj
            [(''json'', JObj [(''properties'', JObj identityProperties)]),
             (''metrics'', JBool True), (''priority'', JInt 0)])])]),
     (''unauthenticated'', JObj
        [(''code'', JInt 401), (''message'', JObj [(''value'', JStr ''Authentication required'')])]),
     (''unauthorized'', JObj
        [(''code'', JInt 403),
         exprField ''body'' (''has(auth.metadata["subscription-info"].message) ''
           @ ''? auth.metadata["subscription-info"].message : "Access denied"''),
         (''headers'', JObj
            [exprField ''x-ext-auth-reason'' (''has(auth.metadata["subscription-info"].error) ''
               @ ''? auth.metadata["subscription-info"].error : "unauthorized"''),
             (''content-type'', JObj [(''value'', JStr ''text/plain'')])])])]\<close>

definition buildGatewayAuthPolicySpec ::
  "MaaSAuthPolicyReconciler \<Rightarrow> oidcConfig option \<Rightarrow> bool \<Rightarrow> string \<Rightarrow> string \<Rightarrow> jmap" where \<open>
  buildGatewayAuthPolicySpec r oidc xAPIKeyEnabled tenantID gatewayName =
    [(''targetRef'', JObj [(''group'', JStr ''gateway.networking.k8s.io''), (''kind'', JStr ''Gateway''),
                           (''name'', JStr gatewayName)]),
     (''defaults'', JObj
        [whenPredicate ''request.path != "/maas-api/health" || request.method != "GET"'',
         (''rules'', JObj
            [(''metadata'', JObj (metadataRules r xAPIKeyEnabled tenantID)),
             (''authentication'', JObj (authenticationRules r oidc xAPIKeyEnabled)),
             (''authorization'', JObj (authorizationRules r oidc xAPIKeyEnabled)),
             (''response'', JObj (responseRules xAPIKeyEnabled))])])]\<close>

end
