(* ===== verification/AuthPolicyController.thy ===== *)
theory AuthPolicyController
  imports GatewayPolicy SubscriptionController
begin

text \<open>
  The reconciler of MaaSAuthPolicy (\<open>pkg/controller/maas/maasauthpolicy_controller.go\<close>) as a function
  of the cluster, with the detection of foreign policies on the routes of its models
  (\<open>conflict_detection.go\<close>) and the functions that map a watched object to the policies to
  reconcile. Updates leave the object passed to them as it was; log lines are left out. A result
  \<open>((err, n), s)\<close> of \<open>Reconcile\<close> is the error, the seconds of \<open>RequeueAfter\<close> and the cluster.
\<close>

type_synonym 's requeued = "(ctl_error option \<times> nat) \<times> 's"

definition maasAuthPolicyFinalizer :: string where
  "maasAuthPolicyFinalizer = ''maas.opendatahub.io/authpolicy-cleanup''"

section \<open>The tenant of a policy\<close>

definition fetchTenantIdentifier ::
  "('s, 'm) client_scheme \<Rightarrow> string \<Rightarrow> 's \<Rightarrow> string ctl" where
  "fetchTenantIdentifier c policyNamespace s =
     (case fetchTenantForNamespace c policyNamespace s of
        Inl e \<Rightarrow> if IsNotFound e then Ok [] else Err (ofApi e)
      | Inr tenant \<Rightarrow> TenantIdentifierFor (Some (tc_meta tenant)))"

definition fetchTenantPlatformContext ::
  "('s, 'm) client_scheme \<Rightarrow> MaaSAuthPolicyReconciler \<Rightarrow> string \<Rightarrow> 's \<Rightarrow> PlatformContext ctl" where
  "fetchTenantPlatformContext c r tenantNamespace s =
     (let dflt = (if apr_TenantNamespace r = [] then DefaultAITenantName else apr_TenantNamespace r);
          fallback = fallbackTenantGatewayRef (apr_GatewayName r) (apr_GatewayNamespace r);
          fallbackContext = \<lparr>pc_GatewayRef = fallback, pc_ExternalOIDC = None, pc_Source = ''default''\<rparr>
      in case fetchTenantForNamespace c tenantNamespace s of
           Inl e \<Rightarrow>
             if IsNoMatchError e then Ok fallbackContext
             else if IsNotFound e then
               if \<not> apr_TenantNamespaceDiscoveryEnabled r \<or> tenantNamespace = dflt then Ok fallbackContext
               else
                 (case tenantNamespaceAllowed c tenantNamespace dflt
                         (apr_TenantNamespaceDiscoveryEnabled r) s of
                    Inl allowErr \<Rightarrow> Err allowErr
                  | Inr allowed \<Rightarrow>
                      if allowed then
                        Err (CtlErr OtherErr (''MaasTenantConfig '' @ tenantNamespace @ ''/''
                          @ MaasTenantConfigInstanceName
                          @ '' not found; refusing to use default platform context for discovered ''
                          @ ''tenant namespace''))
                      else Ok fallbackContext)
             else Err (wrapApi ''failed to get tenant config CR'' e)
         | Inr tenant \<Rightarrow> ResolvePlatformContext c (Some tenant) fallback s)"

definition defaultOIDCJWKSTTL :: int where "defaultOIDCJWKSTTL = 300"
definition minOIDCJWKSTTL :: int where "minOIDCJWKSTTL = 30"

definition fetchOIDCConfig ::
  "('s, 'm) client_scheme \<Rightarrow> MaaSAuthPolicyReconciler \<Rightarrow> string \<Rightarrow> 's \<Rightarrow> oidcConfig option" where
  "fetchOIDCConfig c r policyNamespace s =
     (case fetchTenantPlatformContext c r policyNamespace s of
        Inl _ \<Rightarrow> None
      | Inr platformContext \<Rightarrow>
          (case pc_ExternalOIDC platformContext of
             None \<Rightarrow> None
           | Some oidc \<Rightarrow>
               if oidc_IssuerURL oidc = [] \<or> oidc_ClientID oidc = [] then None
               else if oidc_TTL oidc = 0 then
                 Some \<lparr>oc_IssuerURL = oidc_IssuerURL oidc, oc_ClientID = oidc_ClientID oidc,
                       oc_TTL = defaultOIDCJWKSTTL\<rparr>
               else if oidc_TTL oidc < minOIDCJWKSTTL then None
               else Some \<lparr>oc_IssuerURL = oidc_IssuerURL oidc, oc_ClientID = oidc_ClientID oidc,
                          oc_TTL = oidc_TTL oidc\<rparr>))"

definition fetchGatewayInfo ::
  "('s, 'm) client_scheme \<Rightarrow> MaaSAuthPolicyReconciler \<Rightarrow> string \<Rightarrow> 's \<Rightarrow> (string \<times> string) ctl" where
  "fetchGatewayInfo c r tenantNamespace s =
     (case fetchTenantPlatformContext c r tenantNamespace s of
        Inl e \<Rightarrow> Err e
      | Inr pc \<Rightarrow> Ok (gr_Namespace (pc_GatewayRef pc), gr_Name (pc_GatewayRef pc)))"

section \<open>Is it safe to switch to the gateway policy?\<close>

text \<open>An endpoint slice that serves the TLS port and has an endpoint not reported as unready.\<close>

definition servesTLS :: "EndpointSlice \<Rightarrow> bool" where
  "servesTLS es \<longleftrightarrow>
     list_ex (\<lambda>p. p = Some 8443) (es_Ports es)
     \<and> list_ex (\<lambda>ready. ready = None \<or> ready = Some True) (es_Ready es)"

definition targetMaaSAPIReady ::
  "('s, 'm) client_scheme \<Rightarrow> MaaSAuthPolicyReconciler \<Rightarrow> string \<Rightarrow> 's \<Rightarrow> bool ctl" where
  "targetMaaSAPIReady c r tenantID s =
     (let serviceName = MaaSAPIServiceName tenantID
      in case listEndpointSlices c (apr_InfraNamespace r)
                [(''kubernetes.io/service-name'', serviceName)] s of
           Inl e \<Rightarrow> Err (wrapApi (''list target maas-api EndpointSlices for ''
                      @ apr_InfraNamespace r @ ''/'' @ serviceName) e)
         | Inr slices \<Rightarrow> Ok (list_ex servesTLS slices))"

definition legacyAuthPolicyName :: "string \<Rightarrow> string" where
  "legacyAuthPolicyName modelName = ''maas-auth-'' @ modelName"

definition modelAuthPolicyExists ::
  "('s, 'm) client_scheme \<Rightarrow> string \<Rightarrow> string \<Rightarrow> 's \<Rightarrow> bool ctl" where
  "modelAuthPolicyExists c modelNamespace modelName s =
     (case getKuadrantAuthPolicy c modelNamespace (legacyAuthPolicyName modelName) s of
        Inl e \<Rightarrow> if IsNotFound e then Ok False else Err (ofApi e)
      | Inr _ \<Rightarrow> Ok True)"

fun anyLegacyPolicy ::
  "('s, 'm) client_scheme \<Rightarrow> string list \<Rightarrow> ModelRef list \<Rightarrow> 's \<Rightarrow> bool ctl" where
  "anyLegacyPolicy c checked [] s = Ok False"
| "anyLegacyPolicy c checked (ref # refs) s =
     (let mkey = mref_Namespace ref @ ''/'' @ mref_Name ref
      in if mkey \<in> set checked then anyLegacyPolicy c checked refs s
         else
           (case modelAuthPolicyExists c (mref_Namespace ref) (mref_Name ref) s of
              Inl e \<Rightarrow> Err e
            | Inr found \<Rightarrow> if found then Ok True else anyLegacyPolicy c (mkey # checked) refs s))"

text \<open>The models of all live policies of the namespace, in their order.\<close>

definition hasLegacyModelAuthPolicy ::
  "('s, 'm) client_scheme \<Rightarrow> string \<Rightarrow> 's \<Rightarrow> bool ctl" where
  "hasLegacyModelAuthPolicy c policyNamespace s =
     (case listAuthPoliciesIn c policyNamespace s of
        Inl e \<Rightarrow> Err (wrapApi ''list MaaSAuthPolicies for upgrade cutover'' e)
      | Inr items \<Rightarrow>
          anyLegacyPolicy c [] (concat (map (\<lambda>p. as_ModelRefs (ma_Spec p))
            (filter (\<lambda>p. \<not> om_Deleting (ma_meta p)) items))) s)"

section \<open>The state of a Kuadrant policy\<close>

text \<open>The loop over the conditions keeps whether each was accepted and its last message.\<close>

record readyScan =
  sc_accepted :: bool
  sc_enforced :: bool
  sc_acceptedMsg :: string
  sc_enforcedMsg :: string

definition scanCondition :: "readyScan \<Rightarrow> json \<Rightarrow> readyScan" where
  "scanCondition scan x =
     (case asMap x of
        None \<Rightarrow> scan
      | Some cond \<Rightarrow>
          let typ = stringOf cond ''type''; ok = (stringOf cond ''status'' = ''True'');
              msg = stringOf cond ''message''
          in if typ = ''Accepted'' then
               scan\<lparr>sc_accepted := ok, sc_acceptedMsg := (if ok then sc_acceptedMsg scan else msg)\<rparr>
             else if typ = ''Enforced'' then
               scan\<lparr>sc_enforced := ok, sc_enforcedMsg := (if ok then sc_enforcedMsg scan else msg)\<rparr>
             else scan)"

definition getAuthPolicyReadyState :: "k8sApi \<Rightarrow> uobj \<Rightarrow> bool \<times> string \<times> string" where
  "getAuthPolicyReadyState k ap =
     (case NestedSlice k (u_Object ap) [''status'', ''conditions''] of
        None \<Rightarrow> (False, ''ConditionsNotFound'', ''status conditions not available'')
      | Some conditions \<Rightarrow>
          if conditions = [] then (False, ''ConditionsNotFound'', ''status conditions not available'')
          else
            let scan = foldl scanCondition \<lparr>sc_accepted = False, sc_enforced = False,
                         sc_acceptedMsg = [], sc_enforcedMsg = []\<rparr> conditions
            in if sc_accepted scan \<and> sc_enforced scan then (True, ''AcceptedEnforced'', [])
               else if \<not> sc_accepted scan then (False, ''NotAccepted'', sc_acceptedMsg scan)
               else (False, ''NotEnforced'', sc_enforcedMsg scan))"

definition gatewayAuthPolicyReady ::
  "('s, 'm) client_scheme \<Rightarrow> metaApi \<Rightarrow> MaaSAuthPolicyReconciler \<Rightarrow> string \<Rightarrow> string \<Rightarrow> 's
     \<Rightarrow> (bool \<times> string) ctl" where
  "gatewayAuthPolicyReady c a r gatewayNamespace gatewayName s =
     (let name = gatewayAuthPolicyName r gatewayNamespace gatewayName;
          key = gatewayNamespace @ ''/'' @ name
      in case getKuadrantAuthPolicy c gatewayNamespace name s of
           Inl e \<Rightarrow>
             if IsNotFound e then Ok (False, ''AuthPolicy has not been created'')
             else Err (wrapApi (''get gateway AuthPolicy '' @ key) e)
         | Inr ap \<Rightarrow>
             if \<not> isManaged (u_meta ap) then
               Ok (False, ''AuthPolicy is opted out of controller management'')
             else
               (case NestedInt64At a (u_Object ap) [''status'', ''observedGeneration''] of
                  Inl e \<Rightarrow> Err (CtlErr OtherErr (''read gateway AuthPolicy '' @ key
                             @ '' observed generation: '' @ e))
                | Inr None \<Rightarrow> Ok (False, ''AuthPolicy status has not reported an observed generation'')
                | Inr (Some observed) \<Rightarrow>
                    if observed \<noteq> om_Generation (u_meta ap) then
                      Ok (False, ''AuthPolicy status observed generation '' @ itoa observed
                        @ '', current generation is '' @ itoa (om_Generation (u_meta ap)))
                    else
                      let (ready, _, message) = getAuthPolicyReadyState (accessors a) ap
                      in Ok (ready, if message = [] \<and> \<not> ready
                                    then ''Accepted and Enforced conditions are not both True''
                                    else message)))"

section \<open>The policy of a gateway\<close>

text \<open>The owner reference of a gateway replaces the one with its UID, or comes last.\<close>

fun putOwner :: "OwnerReference \<Rightarrow> OwnerReference list \<Rightarrow> OwnerReference list" where
  "putOwner ref [] = [ref]"
| "putOwner ref (x # owners) =
     (if or_UID x = or_UID ref then ref # owners else x # putOwner ref owners)"

definition setGatewayOwnerReference :: "Gateway \<Rightarrow> ObjectMeta \<Rightarrow> ObjectMeta" where
  "setGatewayOwnerReference gateway dependent =
     dependent\<lparr>om_Owners := putOwner
       \<lparr>or_APIVersion = ''gateway.networking.k8s.io/v1'', or_Kind = ''Gateway'', or_Name = gw_Name gateway,
        or_UID = gw_UID gateway, or_Controller = True\<rparr> (om_Owners dependent)\<rparr>"

definition gatewayPolicyMeta :: "MaaSAuthPolicyReconciler \<Rightarrow> string \<Rightarrow> string \<Rightarrow> ObjectMeta" where
  "gatewayPolicyMeta r gatewayNamespace gatewayName =
     \<lparr>om_Name = gatewayAuthPolicyName r gatewayNamespace gatewayName, om_Namespace = gatewayNamespace,
      om_Labels = [(''app.kubernetes.io/managed-by'', ''maas-controller''),
                   (''app.kubernetes.io/part-of'', ''maas-gateway-auth''),
                   (''app.kubernetes.io/component'', ''gateway-auth'')],
      om_Annotations = [], om_Finalizers = [], om_Generation = 0, om_Deleting = False, om_Owners = []\<rparr>"

text \<open>
  The last part of \<open>reconcileGatewayAuthPolicy\<close>: create the policy or bring the existing one up to
  date. The gateway is there exactly for a gateway of a tenant. The value of a result says
  whether the policy was written.
\<close>

definition writeGatewayPolicy ::
  "('s, 'm) client_scheme \<Rightarrow> metaApi \<Rightarrow> ObjectMeta \<Rightarrow> jmap \<Rightarrow> uobj option \<Rightarrow> Gateway option \<Rightarrow> 's
     \<Rightarrow> bool ctl \<times> 's" where
  "writeGatewayPolicy c a policyMeta spec existing gateway s =
     (let owned = (case gateway of None \<Rightarrow> (\<lambda>m. m) | Some g \<Rightarrow> setGatewayOwnerReference g)
      in case existing of
           None \<Rightarrow>
             (case SetNestedMap a [] spec [''spec''] of
                Inl e \<Rightarrow> (Err (CtlErr OtherErr (''failed to set gateway AuthPolicy spec: '' @ e)), s)
              | Inr obj \<Rightarrow>
                  (case createKuadrantAuthPolicy c \<lparr>u_meta = owned policyMeta, u_Object = obj\<rparr> s of
                     (None, s') \<Rightarrow> (Ok True, s')
                   | (Some e, s') \<Rightarrow> (Err (wrapApi ''failed to create gateway AuthPolicy'' e), s')))
         | Some ex \<Rightarrow>
             if \<not> isManaged (u_meta ex) then (Ok False, s)
             else
               (case SetNestedMap a (u_Object ex) spec [''spec''] of
                  Inl e \<Rightarrow> (Err (CtlErr OtherErr
                             (''failed to set gateway AuthPolicy spec for update: '' @ e)), s)
                | Inr obj \<Rightarrow>
                    if specMatchesDesired spec (NestedMap (accessors a) (u_Object ex) [''spec''])
                    then (Ok False, s)
                    else
                      (case updateKuadrantAuthPolicy c \<lparr>u_meta = owned (u_meta ex), u_Object = obj\<rparr> s of
                         (None, s') \<Rightarrow> (Ok True, s')
                       | (Some e, s') \<Rightarrow> (Err (wrapApi ''failed to update gateway AuthPolicy'' e), s'))))"

definition reconcileGatewayAuthPolicy ::
  "('s, 'm) client_scheme \<Rightarrow> metaApi \<Rightarrow> MaaSAuthPolicyReconciler \<Rightarrow> oidcConfig option \<Rightarrow> bool
     \<Rightarrow> string \<Rightarrow> string \<Rightarrow> string \<Rightarrow> 's \<Rightarrow> bool ctl \<times> 's" where
  "reconcileGatewayAuthPolicy c a r oidc xAPIKeyEnabled tenantID gatewayNamespace gatewayName s =
     (let spec = buildGatewayAuthPolicySpec r oidc xAPIKeyEnabled tenantID gatewayName;
          policyMeta = gatewayPolicyMeta r gatewayNamespace gatewayName;
          name = om_Name policyMeta;
          isTenantGateway = (gatewayNamespace \<noteq> apr_GatewayNamespace r \<or> gatewayName \<noteq> apr_GatewayName r);
          found = getKuadrantAuthPolicy c gatewayNamespace name s;
          existing = (case found of Inl _ \<Rightarrow> None | Inr ex \<Rightarrow> Some ex);
          s1 = others c s
      in if (case found of Inl e \<Rightarrow> \<not> IsNotFound e | Inr _ \<Rightarrow> False) then
           (Err (wrapApi ''failed to get gateway AuthPolicy'' (projl found)), s)
         else if \<not> isTenantGateway then writeGatewayPolicy c a policyMeta spec existing None s1
         else
           (case getGateway c gatewayNamespace gatewayName s1 of
              Inr gateway \<Rightarrow> writeGatewayPolicy c a policyMeta spec existing (Some gateway) s1
            | Inl gwErr \<Rightarrow>
                if \<not> IsNotFound gwErr then
                  (Err (wrapApi (''failed to get Gateway '' @ gatewayNamespace @ ''/'' @ gatewayName
                     @ '' for OwnerReference'') gwErr), s1)
                else
                  (case existing of
                     None \<Rightarrow> (Ok False, s1)
                   | Some ex \<Rightarrow>
                       if isManaged (u_meta ex) then
                         (case deleteKuadrantAuthPolicy c ex s1 of
                            (None, s2) \<Rightarrow> (Ok False, s2)
                          | (Some e, s2) \<Rightarrow>
                              (Err (wrapApi (''failed to delete stale tenant gateway AuthPolicy ''
                                 @ gatewayNamespace @ ''/'' @ name) e), s2))
                       else (Ok False, s1))))"

section \<open>Policies of models\<close>

fun deleteAuthPolicies ::
  "('s, 'm) client_scheme \<Rightarrow> string \<Rightarrow> uobj list \<Rightarrow> 's \<Rightarrow> 's outcome" where
  "deleteAuthPolicies c modelNamespace [] s = (None, s)"
| "deleteAuthPolicies c modelNamespace (p # ps) s =
     (let labeled = annotation (om_Labels (u_meta p)) ''maas.opendatahub.io/model-namespace''
      in if labeled \<noteq> [] \<and> labeled \<noteq> modelNamespace \<or> \<not> isManaged (u_meta p)
         then deleteAuthPolicies c modelNamespace ps s
         else
           (case deleteKuadrantAuthPolicy c p s of
              (None, s') \<Rightarrow> deleteAuthPolicies c modelNamespace ps s'
            | (Some e, s') \<Rightarrow>
                if IsNotFound e then deleteAuthPolicies c modelNamespace ps s'
                else (Some (wrapApi (''failed to delete AuthPolicy '' @ om_Namespace (u_meta p) @ ''/''
                        @ om_Name (u_meta p)) e), s')))"

definition deleteModelAuthPolicy ::
  "('s, 'm) client_scheme \<Rightarrow> string \<Rightarrow> string \<Rightarrow> 's \<Rightarrow> 's outcome" where
  "deleteModelAuthPolicy c modelNamespace modelName s =
     (case listKuadrantAuthPolicies c (Some modelNamespace)
             [(''maas.opendatahub.io/model'', modelName),
              (''app.kubernetes.io/managed-by'', ''maas-controller''),
              (''app.kubernetes.io/part-of'', ''maas-auth-policy'')] s of
        Inl e \<Rightarrow>
          if IsNotFound e \<or> IsNoMatchError e then (None, s)
          else (Some (wrapApi ''failed to list AuthPolicies for cleanup'' e), s)
      | Inr items \<Rightarrow> deleteAuthPolicies c modelNamespace items s)"

definition ownsAuthPolicy :: "MaaSAuthPolicy \<Rightarrow> uobj \<Rightarrow> bool" where
  "ownsAuthPolicy policy ap \<longleftrightarrow>
     (let owners = annotation (om_Annotations (u_meta ap)) ''maas.opendatahub.io/auth-policies''
      in annotationListContains owners
           (qualifiedName (om_Namespace (ma_meta policy)) (om_Name (ma_meta policy)))
         \<or> annotationListContains owners (om_Name (ma_meta policy)))"

text \<open>The model a generated policy is labelled with, as \<open>trlpModel\<close> reads it.\<close>

fun cleanupAuthPolicies ::
  "('s, 'm) client_scheme \<Rightarrow> MaaSAuthPolicy \<Rightarrow> uobj list \<Rightarrow> 's \<Rightarrow> 's outcome" where
  "cleanupAuthPolicies c policy [] s = (None, s)"
| "cleanupAuthPolicies c policy (ap # aps) s =
     (let (modelNamespace, modelName) = trlpModel ap;
          mkey = modelNamespace @ ''/'' @ modelName
      in if modelName = []
            \<or> mkey \<in> set (map (\<lambda>ref. mref_Namespace ref @ ''/'' @ mref_Name ref)
                         (as_ModelRefs (ma_Spec policy)))
            \<or> \<not> ownsAuthPolicy policy ap
         then cleanupAuthPolicies c policy aps s
         else
           (case deleteModelAuthPolicy c modelNamespace modelName s of
              (None, s') \<Rightarrow> cleanupAuthPolicies c policy aps s'
            | (Some e, s') \<Rightarrow>
                (Some (wrapErr (''failed to clean up stale AuthPolicy for removed model '' @ mkey) e), s')))"

definition cleanupStaleAuthPolicies ::
  "('s, 'm) client_scheme \<Rightarrow> MaaSAuthPolicy \<Rightarrow> 's \<Rightarrow> 's outcome" where
  "cleanupStaleAuthPolicies c policy s =
     (case listKuadrantAuthPolicies c None
             [(''app.kubernetes.io/managed-by'', ''maas-controller''),
              (''app.kubernetes.io/part-of'', ''maas-auth-policy'')] s of
        Inl e \<Rightarrow>
          if IsNotFound e \<or> IsNoMatchError e then (None, s)
          else (Some (wrapApi ''failed to list managed AuthPolicies for stale cleanup'' e), s)
      | Inr items \<Rightarrow> cleanupAuthPolicies c policy items s)"

text \<open>\<open>authPolicyRef\<close>, of which \<open>reconcileModelAuthPolicies\<close> now always returns none.\<close>

record authPolicyRef =
  ar_Name :: string
  ar_Namespace :: string
  ar_Model :: string
  ar_ModelNamespace :: string

fun removeLegacyPolicies ::
  "('s, 'm) client_scheme \<Rightarrow> metaApi \<Rightarrow> ModelRef list \<Rightarrow> 's \<Rightarrow> 's outcome" where
  "removeLegacyPolicies c a [] s = (None, s)"
| "removeLegacyPolicies c a (ref # refs) s =
     (let ns = mref_Namespace ref; name = mref_Name ref; at = ns @ ''/'' @ name
      in case findHTTPRouteForModel c (accessors a) ns name s of
           Inl e \<Rightarrow>
             if ctlIs e ErrModelNotFound then
               (case deleteModelAuthPolicy c ns name s of
                  (None, s') \<Rightarrow> removeLegacyPolicies c a refs s'
                | (Some d, s') \<Rightarrow>
                    (Some (wrapErr (''failed to clean up AuthPolicy for missing model '' @ at) d), s'))
             else if ctlIs e ErrHTTPRouteNotFound then removeLegacyPolicies c a refs s
             else (Some (wrapErr (''failed to resolve HTTPRoute for model '' @ at) e), s)
         | Inr (routeName, routeNS) \<Rightarrow>
             (case modelAuthPolicyExists c routeNS name s of
                Inl e \<Rightarrow> (Some (wrapErr (''failed to check legacy group policy for model '' @ at) e), s)
              | Inr legacy \<Rightarrow>
                  if \<not> legacy then removeLegacyPolicies c a refs s
                  else
                    (case deleteModelAuthPolicy c routeNS name (others c s) of
                       (None, s') \<Rightarrow> removeLegacyPolicies c a refs s'
                     | (Some e, s') \<Rightarrow>
                         (Some (wrapErr (''failed to delete legacy group policy for model '' @ at) e), s'))))"

definition reconcileModelAuthPolicies ::
  "('s, 'm) client_scheme \<Rightarrow> metaApi \<Rightarrow> MaaSAuthPolicy \<Rightarrow> 's \<Rightarrow> authPolicyRef list ctl \<times> 's" where
  "reconcileModelAuthPolicies c a policy s =
     (case removeLegacyPolicies c a (as_ModelRefs (ma_Spec policy)) s of
        (Some e, s') \<Rightarrow> (Err e, s')
      | (None, s') \<Rightarrow>
          (case cleanupStaleAuthPolicies c policy s' of
             (Some e, s'') \<Rightarrow> (Err e, s'')
           | (None, s'') \<Rightarrow> (Ok [], s'')))"

section \<open>Discovering the \<open>x-api-key\<close> header\<close>

text \<open>
  \<open>fmt.Sprintf("%v", v) == "messages"\<close> holds of the string only: numbers, maps, slices, booleans
  and nil print differently.
\<close>

definition usesMessages :: "json \<Rightarrow> bool" where
  "usesMessages ref \<longleftrightarrow>
     (case asMap ref of None \<Rightarrow> False | Some m \<Rightarrow> map_of m ''apiFormat'' = Some (JStr ''messages''))"

definition discoverXAPIKeyNeeded :: "('s, 'm) client_scheme \<Rightarrow> metaApi \<Rightarrow> 's \<Rightarrow> bool" where
  "discoverXAPIKeyNeeded c a s =
     (case listInferenceExternalModels c s of
        Inl _ \<Rightarrow> False
      | Inr items \<Rightarrow>
          list_ex (\<lambda>u. case NestedSlice (accessors a) (u_Object u) [''spec'', ''externalProviderRefs''] of
                         None \<Rightarrow> False
                       | Some refs \<Rightarrow> list_ex usesMessages refs) items)"

section \<open>The status of a policy\<close>

definition AP_updateStatus ::
  "('s, 'm) client_scheme \<Rightarrow> metaApi \<Rightarrow> MaaSAuthPolicy \<Rightarrow> string \<Rightarrow> string \<Rightarrow> MaaSAuthPolicyStatus \<Rightarrow> 's
     \<Rightarrow> 's" where
  "AP_updateStatus c a policy phase message statusSnapshot s =
     (let status = (ma_Status policy)
            \<lparr>ast_Phase := phase,
             ast_Conditions := SetStatusCondition a (ast_Conditions (ma_Status policy))
               (subReadyCondition phase message (om_Generation (ma_meta policy)))\<rparr>
      in if eqAuthPolicyStatus a statusSnapshot status then s
         else snd (updateAuthPolicyStatus c (policy\<lparr>ma_Status := status\<rparr>) s))"

definition authPolicyRefStatus ::
  "('s, 'm) client_scheme \<Rightarrow> metaApi \<Rightarrow> 's \<Rightarrow> authPolicyRef \<Rightarrow> AuthPolicyRefStatus" where
  "authPolicyRefStatus c a s ref =
     (let (ready, reason, message) =
            (case getKuadrantAuthPolicy c (ar_Namespace ref) (ar_Name ref) s of
               Inl e \<Rightarrow>
                 if IsNotFound e then (False, ''NotFound'', ''AuthPolicy not created yet'')
                 else (False, ''GetFailed'', ''failed to get AuthPolicy: '' @ k8sText e)
             | Inr ap \<Rightarrow> getAuthPolicyReadyState (accessors a) ap)
      in \<lparr>rs_Name = ar_Name ref, rs_Namespace = ar_Namespace ref, rs_Ready = ready, rs_Reason = reason,
          rs_Message = message, aps_Model = ar_Model ref, aps_ModelNamespace = ar_ModelNamespace ref\<rparr>)"

definition updateAuthPolicyRefStatus ::
  "('s, 'm) client_scheme \<Rightarrow> metaApi \<Rightarrow> MaaSAuthPolicy \<Rightarrow> authPolicyRef list \<Rightarrow> 's \<Rightarrow> MaaSAuthPolicy" where
  "updateAuthPolicyRefStatus c a policy refs s =
     policy\<lparr>ma_Status := (ma_Status policy)\<lparr>ast_AuthPolicies := map (authPolicyRefStatus c a s) refs\<rparr>\<rparr>"

definition findMissingModelRefs ::
  "('s, 'm) client_scheme \<Rightarrow> MaaSAuthPolicy \<Rightarrow> 's \<Rightarrow> ModelRef list" where
  "findMissingModelRefs c policy s =
     filter (\<lambda>ref. case getModelRef c (mref_Namespace ref) (mref_Name ref) s of Inl _ \<Rightarrow> True | Inr _ \<Rightarrow> False)
       (as_ModelRefs (ma_Spec policy))"

definition deriveAuthPolicyPhase :: "MaaSAuthPolicy \<Rightarrow> ModelRef list \<Rightarrow> string \<times> string" where
  "deriveAuthPolicyPhase policy missingModels =
     (let total = length (as_ModelRefs (ma_Spec policy)); missing = length missingModels;
          valid = int total - int missing;
          policies = ast_AuthPolicies (ma_Status policy);
          unhealthy = length (filter (\<lambda>ap. \<not> rs_Ready ap) policies)
      in if valid = 0 then
           (''Failed'', ''all '' @ itoaNat total @ '' model references are invalid or missing'')
         else if missing > 0 then
           (''Degraded'', itoaNat missing @ '' of '' @ itoaNat total @ '' model references are missing'')
         else if unhealthy > 0 then
           (''Degraded'', itoaNat unhealthy @ '' of '' @ itoaNat (length policies)
              @ '' group AuthPolicies not accepted/enforced'')
         else (''Active'', ''successfully reconciled''))"

section \<open>Foreign policies on the routes of a policy's models\<close>

definition ConditionConflictingAuthPolicy :: string where
  "ConditionConflictingAuthPolicy = ''ConflictingAuthPolicy''"

record conflictingPolicyInfo =
  cp_Name :: string
  cp_Namespace :: string
  cp_HTTPRouteName :: string
  cp_Model :: string
  cp_ModelNS :: string

definition conflictString :: "conflictingPolicyInfo \<Rightarrow> string" where
  "conflictString x =
     cp_Namespace x @ ''/'' @ cp_Name x @ '' (targets HTTPRoute '' @ cp_HTTPRouteName x @ '', model ''
       @ cp_ModelNS x @ ''/'' @ cp_Model x @ '')''"

definition conflictKey :: "conflictingPolicyInfo \<Rightarrow> string" where
  "conflictKey x = cp_Namespace x @ ''/'' @ cp_Name x"

text \<open>A policy that is not ours and targets the route; an absent field reads as empty.\<close>

definition orEmpty :: "string option \<Rightarrow> string" where
  "orEmpty x = (case x of None \<Rightarrow> [] | Some t \<Rightarrow> t)"

definition foreignOnRoute :: "k8sApi \<Rightarrow> string \<Rightarrow> uobj \<Rightarrow> bool" where
  "foreignOnRoute k routeName ap \<longleftrightarrow>
     annotation (om_Labels (u_meta ap)) ''app.kubernetes.io/managed-by'' \<noteq> ''maas-controller''
     \<and> orEmpty (NestedString k (u_Object ap) [''spec'', ''targetRef'', ''name'']) = routeName
     \<and> orEmpty (NestedString k (u_Object ap) [''spec'', ''targetRef'', ''kind'']) = ''HTTPRoute''
     \<and> orEmpty (NestedString k (u_Object ap) [''spec'', ''targetRef'', ''group''])
         = ''gateway.networking.k8s.io''"

definition findConflictsForHTTPRoute ::
  "('s, 'm) client_scheme \<Rightarrow> k8sApi \<Rightarrow> string \<Rightarrow> string \<Rightarrow> string \<Rightarrow> string \<Rightarrow> 's
     \<Rightarrow> conflictingPolicyInfo list ctl" where
  "findConflictsForHTTPRoute c k routeName routeNS modelName modelNS s =
     (case listKuadrantAuthPolicies c (Some routeNS) [] s of
        Inl e \<Rightarrow>
          if IsNoMatchError e then Ok []
          else Err (wrapApi (''list AuthPolicies in namespace '' @ routeNS) e)
      | Inr items \<Rightarrow>
          Ok (map (\<lambda>ap. \<lparr>cp_Name = om_Name (u_meta ap), cp_Namespace = om_Namespace (u_meta ap),
                       cp_HTTPRouteName = routeName, cp_Model = modelName, cp_ModelNS = modelNS\<rparr>)
                (filter (foreignOnRoute k routeName) items)))"

fun collectConflicts ::
  "('s, 'm) client_scheme \<Rightarrow> k8sApi \<Rightarrow> ModelRef list \<Rightarrow> 's \<Rightarrow> conflictingPolicyInfo list ctl" where
  "collectConflicts c k [] s = Ok []"
| "collectConflicts c k (ref # refs) s =
     (case findHTTPRouteForModel c k (mref_Namespace ref) (mref_Name ref) s of
        Inl e \<Rightarrow>
          if ctlIs e ErrModelNotFound \<or> ctlIs e ErrHTTPRouteNotFound then collectConflicts c k refs s
          else Err (wrapErr (''resolve HTTPRoute for model '' @ mref_Namespace ref @ ''/''
                      @ mref_Name ref) e)
      | Inr (routeName, routeNS) \<Rightarrow>
          (case findConflictsForHTTPRoute c k routeName routeNS (mref_Name ref) (mref_Namespace ref) s of
             Inl e \<Rightarrow> Err e
           | Inr found \<Rightarrow>
               (case collectConflicts c k refs s of
                  Inl e \<Rightarrow> Err e
                | Inr rest \<Rightarrow> Ok (found @ rest))))"

text \<open>\<open>uniq[key] = c\<close> keeps the last one of each key; then they are sorted by key.\<close>

definition uniqueConflicts :: "conflictingPolicyInfo list \<Rightarrow> conflictingPolicyInfo list" where
  "uniqueConflicts xs =
     goSort (\<lambda>x y. conflictKey x < conflictKey y)
       (map snd (foldl (\<lambda>m x. AList.update (conflictKey x) x m) [] xs))"

definition detectConflictingAuthPolicies ::
  "('s, 'm) client_scheme \<Rightarrow> k8sApi \<Rightarrow> MaaSAuthPolicy \<Rightarrow> 's \<Rightarrow> conflictingPolicyInfo list ctl" where
  "detectConflictingAuthPolicies c k policy s =
     (case collectConflicts c k (as_ModelRefs (ma_Spec policy)) s of
        Inl e \<Rightarrow> Err e
      | Inr xs \<Rightarrow> Ok (uniqueConflicts xs))"

definition pluralY :: "nat \<Rightarrow> string" where
  "pluralY n = (if n = 1 then ''y'' else ''ies'')"

definition conflictMessage :: "conflictingPolicyInfo list \<Rightarrow> string" where
  "conflictMessage conflicts =
     (let msg = ''Detected '' @ itoaNat (length conflicts) @ '' non-MaaS AuthPolic''
            @ pluralY (length conflicts) @ '' targeting MaaS-managed HTTPRoutes: ''
            @ Join (map conflictKey conflicts) '', '' @ ''. ''
            @ ''These policies may override MaaS authentication. ''
            @ ''See MaaS troubleshooting documentation for remediation.''
      in if length msg > 1024 then take 1021 msg @ ''...'' else msg)"

definition conflictCondition :: "conflictingPolicyInfo list \<Rightarrow> int \<Rightarrow> Condition" where
  "conflictCondition conflicts gen =
     (if conflicts = [] then
        \<lparr>c_Type = ConditionConflictingAuthPolicy, c_Status = ''False'', c_Reason = ''NoConflict'',
         c_Message = ''No conflicting AuthPolicies detected on MaaS-managed HTTPRoutes'',
         c_ObservedGeneration = gen\<rparr>
      else
        \<lparr>c_Type = ConditionConflictingAuthPolicy, c_Status = ''True'', c_Reason = ''ConflictDetected'',
         c_Message = conflictMessage conflicts, c_ObservedGeneration = gen\<rparr>)"

definition setPolicyCondition :: "metaApi \<Rightarrow> Condition \<Rightarrow> MaaSAuthPolicy \<Rightarrow> MaaSAuthPolicy" where
  "setPolicyCondition a cond policy =
     policy\<lparr>ma_Status := (ma_Status policy)
       \<lparr>ast_Conditions := SetStatusCondition a (ast_Conditions (ma_Status policy)) cond\<rparr>\<rparr>"

definition setConflictingAuthPolicyCondition ::
  "metaApi \<Rightarrow> MaaSAuthPolicy \<Rightarrow> conflictingPolicyInfo list \<Rightarrow> MaaSAuthPolicy" where
  "setConflictingAuthPolicyCondition a policy conflicts =
     setPolicyCondition a (conflictCondition conflicts (om_Generation (ma_meta policy))) policy"

section \<open>Deletion\<close>

definition liveOthers :: "MaaSAuthPolicy \<Rightarrow> MaaSAuthPolicy list \<Rightarrow> MaaSAuthPolicy list" where
  "liveOthers policy items =
     filter (\<lambda>p. \<not> (om_Name (ma_meta p) = om_Name (ma_meta policy)
                  \<and> om_Namespace (ma_meta p) = om_Namespace (ma_meta policy))
                \<and> \<not> om_Deleting (ma_meta p)) items"

text \<open>The part of \<open>handleDeletion\<close> that runs when no other live policy is left in the namespace.\<close>

definition resetGatewayPolicy ::
  "('s, 'm) client_scheme \<Rightarrow> metaApi \<Rightarrow> MaaSAuthPolicyReconciler \<Rightarrow> MaaSAuthPolicy \<Rightarrow> 's \<Rightarrow> 's outcome" where
  "resetGatewayPolicy c a r policy s =
     (let ns = om_Namespace (ma_meta policy) in
      case fetchTenantIdentifier c ns s of
        Inl e \<Rightarrow> (Some e, s)
      | Inr tenantID \<Rightarrow>
          let s1 = others c s in
          (case fetchGatewayInfo c r ns s1 of
             Inl e \<Rightarrow> (Some e, s1)
           | Inr (gatewayNs, gatewayName) \<Rightarrow>
               let isDefaultTenantNamespace = (apr_TenantNamespace r = [] \<or> ns = apr_TenantNamespace r);
                   isDefaultGateway = (gatewayNs = apr_GatewayNamespace r \<and> gatewayName = apr_GatewayName r);
                   isNonDefaultTenant = (tenantID \<noteq> [])
               in if isNonDefaultTenant \<and> isDefaultGateway then (None, s1)
                  else if \<not> isDefaultTenantNamespace \<and> \<not> isNonDefaultTenant \<and> isDefaultGateway then (None, s1)
                  else
                    let s2 = others c s1;
                        oidc = fetchOIDCConfig c r ns s2;
                        s3 = others c s2;
                        xAPIKeyEnabled = discoverXAPIKeyNeeded c a s3
                    in case reconcileGatewayAuthPolicy c a r oidc xAPIKeyEnabled tenantID gatewayNs
                              gatewayName (others c s3) of
                         (Inl e, s4) \<Rightarrow> (Some e, s4)
                       | (Inr _, s4) \<Rightarrow> (None, s4)))"

fun deleteModelPolicies ::
  "('s, 'm) client_scheme \<Rightarrow> ModelRef list \<Rightarrow> 's \<Rightarrow> 's outcome" where
  "deleteModelPolicies c [] s = (None, s)"
| "deleteModelPolicies c (ref # refs) s =
     (case deleteModelAuthPolicy c (mref_Namespace ref) (mref_Name ref) s of
        (Some e, s') \<Rightarrow> (Some e, s')
      | (None, s') \<Rightarrow> deleteModelPolicies c refs s')"

definition AP_handleDeletion ::
  "('s, 'm) client_scheme \<Rightarrow> metaApi \<Rightarrow> MaaSAuthPolicyReconciler \<Rightarrow> MaaSAuthPolicy \<Rightarrow> 's \<Rightarrow> 's outcome" where
  "AP_handleDeletion c a r policy s =
     (if \<not> ContainsFinalizer (ma_meta policy) maasAuthPolicyFinalizer then (None, s)
      else
        (case deleteModelPolicies c (as_ModelRefs (ma_Spec policy)) s of
           (Some e, s1) \<Rightarrow> (Some e, s1)
         | (None, s1) \<Rightarrow>
             (case cleanupStaleAuthPolicies c policy s1 of
                (Some e, s2) \<Rightarrow> (Some e, s2)
              | (None, s2) \<Rightarrow>
                  (case listAuthPoliciesIn c (om_Namespace (ma_meta policy)) s2 of
                     Inl e \<Rightarrow> (Some (ofApi e), s2)
                   | Inr items \<Rightarrow>
                       (case (if liveOthers policy items = [] then resetGatewayPolicy c a r policy (others c s2)
                              else (None, s2)) of
                          (Some e, s3) \<Rightarrow> (Some e, s3)
                        | (None, s3) \<Rightarrow>
                            (case updateAuthPolicy c (policy\<lparr>ma_meta :=
                                    RemoveFinalizer a (ma_meta policy) maasAuthPolicyFinalizer\<rparr>) s3 of
                               (err, s4) \<Rightarrow> (map_option ofApi err, s4)))))))"

section \<open>Reconciliation\<close>

definition failPolicy ::
  "('s, 'm) client_scheme \<Rightarrow> metaApi \<Rightarrow> MaaSAuthPolicy \<Rightarrow> string \<Rightarrow> ctl_error \<Rightarrow> 's \<Rightarrow> 's requeued" where
  "failPolicy c a policy what e s =
     ((Some e, 0), AP_updateStatus c a policy ''Failed'' (what @ '': '' @ ce_text e) (ma_Status policy) s)"

definition waitPolicy ::
  "('s, 'm) client_scheme \<Rightarrow> metaApi \<Rightarrow> MaaSAuthPolicy \<Rightarrow> string \<Rightarrow> 's \<Rightarrow> 's requeued" where
  "waitPolicy c a policy message s =
     ((None, 10), AP_updateStatus c a policy ''Pending'' message (ma_Status policy) s)"

text \<open>The events of \<open>Reconcile\<close> when conflicts appear or go.\<close>

definition conflictEvents ::
  "('s, 'm) client_scheme \<Rightarrow> MaaSAuthPolicyReconciler \<Rightarrow> Condition option \<Rightarrow> Condition option
     \<Rightarrow> conflictingPolicyInfo list \<Rightarrow> 's \<Rightarrow> 's" where
  "conflictEvents c r prev now conflicts s =
     (case now of
        None \<Rightarrow> s
      | Some cond \<Rightarrow>
          if \<not> apr_HasRecorder r then s
          else if c_Status cond = ''True'' then
            if (case prev of None \<Rightarrow> True
                | Some p \<Rightarrow> c_Status p \<noteq> c_Status cond \<or> c_Message p \<noteq> c_Message cond)
            then recordEvent c ''Warning'' ''ConflictingAuthPolicy''
                   (''Detected '' @ itoaNat (length conflicts) @ '' non-MaaS AuthPolic''
                    @ pluralY (length conflicts) @ '' on MaaS auth surfaces: ''
                    @ Join (map conflictString conflicts) ''; '') s
            else s
          else if c_Status cond = ''False'' \<and> (case prev of None \<Rightarrow> False | Some p \<Rightarrow> c_Status p = ''True'')
          then recordEvent c ''Normal'' ''ConflictingAuthPolicyResolved''
                 ''All conflicting AuthPolicies on MaaS auth surfaces have been resolved'' s
          else s)"

text \<open>
  \<open>Reconcile\<close> from \<open>reconcileModelAuthPolicies\<close> on; \<open>ma_Status policy\<close> is still the snapshot.
  \<open>FindStatusCondition\<close> returns a pointer to the element of the slice, and \<open>SetStatusCondition\<close>
  updates an existing element in place: the previous condition the events are decided on is
  therefore the current one whenever there was one.
\<close>

definition finishPolicy ::
  "('s, 'm) client_scheme \<Rightarrow> metaApi \<Rightarrow> MaaSAuthPolicyReconciler \<Rightarrow> MaaSAuthPolicy \<Rightarrow> ModelRef list \<Rightarrow> 's
     \<Rightarrow> 's requeued" where
  "finishPolicy c a r policy missingModels s =
     (case reconcileModelAuthPolicies c a policy s of
        (Inl e, s1) \<Rightarrow> failPolicy c a policy ''Failed to reconcile'' e s1
      | (Inr refs, s1) \<Rightarrow>
          let policy1 = updateAuthPolicyRefStatus c a policy refs s1;
              found = FindStatusCondition a (ast_Conditions (ma_Status policy1)) ConditionConflictingAuthPolicy;
              s2 = others c s1;
              (policy2, conflicts) =
                (case detectConflictingAuthPolicies c (accessors a) policy1 s2 of
                   Inl e \<Rightarrow>
                     (setPolicyCondition a
                        \<lparr>c_Type = ConditionConflictingAuthPolicy, c_Status = ''Unknown'',
                         c_Reason = ''ConflictCheckFailed'', c_Message = ce_text e,
                         c_ObservedGeneration = om_Generation (ma_meta policy1)\<rparr> policy1, [])
                 | Inr conflicts \<Rightarrow> (setConflictingAuthPolicyCondition a policy1 conflicts, conflicts));
              now = FindStatusCondition a (ast_Conditions (ma_Status policy2)) ConditionConflictingAuthPolicy;
              prev = (case found of None \<Rightarrow> None | Some _ \<Rightarrow> now);
              s3 = conflictEvents c r prev now conflicts s2;
              (phase, message) = deriveAuthPolicyPhase policy2 missingModels
          in ((None, 0), AP_updateStatus c a policy2 phase message (ma_Status policy) s3))"

text \<open>\<open>Reconcile\<close> from the check for legacy policies on.\<close>

definition cutOver ::
  "('s, 'm) client_scheme \<Rightarrow> metaApi \<Rightarrow> MaaSAuthPolicyReconciler \<Rightarrow> MaaSAuthPolicy \<Rightarrow> ModelRef list
     \<Rightarrow> oidcConfig option \<Rightarrow> bool \<Rightarrow> string \<Rightarrow> string \<Rightarrow> string \<Rightarrow> bool \<Rightarrow> 's \<Rightarrow> 's requeued" where
  "cutOver c a r policy missingModels oidc xAPIKeyEnabled tenantID gatewayNs gatewayName legacy s =
     (case reconcileGatewayAuthPolicy c a r oidc xAPIKeyEnabled tenantID gatewayNs gatewayName s of
        (Inl e, s1) \<Rightarrow> failPolicy c a policy ''Failed to reconcile gateway AuthPolicy'' e s1
      | (Inr gwChanged, s1) \<Rightarrow>
          let s2 = others c s1 in
          if gwChanged \<or> legacy \<or> ast_Phase (ma_Status policy) \<noteq> ''Active'' then
            (case gatewayAuthPolicyReady c a r gatewayNs gatewayName s2 of
               Inl e \<Rightarrow> failPolicy c a policy ''Failed to check gateway AuthPolicy readiness'' e s2
             | Inr (ready, readinessMessage) \<Rightarrow>
                 if \<not> ready then
                   waitPolicy c a policy (''Waiting for gateway AuthPolicy '' @ gatewayNs @ ''/''
                     @ gatewayAuthPolicyName r gatewayNs gatewayName @ '' to be accepted and enforced: ''
                     @ readinessMessage) s2
                 else finishPolicy c a r policy missingModels s2)
          else finishPolicy c a r policy missingModels s2)"

text \<open>\<open>Reconcile\<close> once the policy carries the finalizer.\<close>

definition reconcilePolicy ::
  "('s, 'm) client_scheme \<Rightarrow> metaApi \<Rightarrow> MaaSAuthPolicyReconciler \<Rightarrow> string \<Rightarrow> MaaSAuthPolicy \<Rightarrow> 's
     \<Rightarrow> 's requeued" where
  "reconcilePolicy c a r ns policy s =
     (let missingModels = findMissingModelRefs c policy s;
          s1 = others c s;
          oidc = fetchOIDCConfig c r ns s1;
          s2 = others c s1
      in case fetchTenantIdentifier c ns s2 of
           Inl e \<Rightarrow> failPolicy c a policy ''Failed to resolve tenant identifier'' e s2
         | Inr tenantID \<Rightarrow>
             let s3 = others c s2;
                 xAPIKeyEnabled = discoverXAPIKeyNeeded c a s3;
                 s4 = others c s3
             in case fetchGatewayInfo c r ns s4 of
                  Inl e \<Rightarrow> failPolicy c a policy ''Failed to fetch gateway info'' e s4
                | Inr (gatewayNs, gatewayName) \<Rightarrow>
                    if tenantID \<noteq> [] \<and> gatewayNs = apr_GatewayNamespace r \<and> gatewayName = apr_GatewayName r
                    then ((None, 0), AP_updateStatus c a policy ''Active'' [] (ma_Status policy) s4)
                    else
                      (case hasLegacyModelAuthPolicy c (om_Namespace (ma_meta policy)) s4 of
                         Inl e \<Rightarrow> failPolicy c a policy ''Failed to check upgrade cutover safety'' e s4
                       | Inr legacy \<Rightarrow>
                           let s5 = others c s4;
                               go = cutOver c a r policy missingModels oidc xAPIKeyEnabled tenantID
                                      gatewayNs gatewayName legacy s5
                           in if \<not> legacy then go
                              else
                                (case targetMaaSAPIReady c r tenantID s5 of
                                   Inl e \<Rightarrow>
                                     failPolicy c a policy ''Failed to check target maas-api readiness'' e s5
                                 | Inr targetReady \<Rightarrow>
                                     if \<not> targetReady then
                                       waitPolicy c a policy (''Waiting for target maas-api Service ''
                                         @ apr_InfraNamespace r @ ''/'' @ MaaSAPIServiceName tenantID
                                         @ '' to have a ready endpoint before replacing the working ''
                                         @ ''legacy AuthPolicy'') s5
                                     else go)))"

definition AP_Reconcile ::
  "('s, 'm) client_scheme \<Rightarrow> metaApi \<Rightarrow> MaaSAuthPolicyReconciler \<Rightarrow> ctlRequest \<Rightarrow> 's \<Rightarrow> 's requeued" where
  "AP_Reconcile c a r req s =
     (case getAuthPolicy c (fst req) (snd req) s of
        Inl e \<Rightarrow> ((if IsNotFound e then None else Some (ofApi e), 0), s)
      | Inr policy \<Rightarrow>
          if om_Deleting (ma_meta policy) then
            (case AP_handleDeletion c a r policy s of (err, s') \<Rightarrow> ((err, 0), s'))
          else
            (case tenantNamespaceAllowed c (fst req) (apr_TenantNamespace r)
                    (apr_TenantNamespaceDiscoveryEnabled r) s of
               Inl e \<Rightarrow> ((Some e, 0), s)
             | Inr isTenantNS \<Rightarrow>
                 if \<not> isTenantNS then ((None, 0), s)
                 else if ma_Spec policy = emptyAuthPolicySpec then
                   ((None, 0), AP_updateStatus c a policy ''Invalid'' ''spec is required'' (ma_Status policy) s)
                 else if ContainsFinalizer (ma_meta policy) maasAuthPolicyFinalizer then
                   reconcilePolicy c a r (fst req) policy s
                 else
                   (let policy' = policy\<lparr>ma_meta :=
                          AddFinalizer a (ma_meta policy) maasAuthPolicyFinalizer\<rparr>
                    in case updateAuthPolicy c policy' s of
                         (Some e, s') \<Rightarrow> ((Some (ofApi e), 0), s')
                       | (None, s') \<Rightarrow> reconcilePolicy c a r (fst req) policy' s')))"

section \<open>The base policy of a gateway\<close>

definition deleteLegacyGatewayDefaultAuthPolicy ::
  "('s, 'm) client_scheme \<Rightarrow> MaaSAuthPolicyReconciler \<Rightarrow> 's \<Rightarrow> 's" where
  "deleteLegacyGatewayDefaultAuthPolicy c r s =
     (case getKuadrantAuthPolicy c (apr_GatewayNamespace r) legacyGatewayDefaultAuthPolicyName s of
        Inl _ \<Rightarrow> s
      | Inr existing \<Rightarrow>
          if \<not> isManaged (u_meta existing) then s else snd (deleteKuadrantAuthPolicy c existing s))"

definition ensureBaseGatewayAuthPolicy ::
  "('s, 'm) client_scheme \<Rightarrow> metaApi \<Rightarrow> MaaSAuthPolicyReconciler \<Rightarrow> oidcConfig option \<Rightarrow> bool
     \<Rightarrow> string \<Rightarrow> string \<Rightarrow> string \<Rightarrow> 's \<Rightarrow> 's outcome" where
  "ensureBaseGatewayAuthPolicy c a r oidc xAPIKeyEnabled tenantID gatewayNamespace gatewayName s =
     (let name = gatewayAuthPolicyName r gatewayNamespace gatewayName;
          s1 = (if gatewayNamespace = apr_GatewayNamespace r \<and> gatewayName = apr_GatewayName r
                then deleteLegacyGatewayDefaultAuthPolicy c r s else s)
      in case getKuadrantAuthPolicy c gatewayNamespace name s1 of
           Inr _ \<Rightarrow> (None, s1)
         | Inl e \<Rightarrow>
             if \<not> IsNotFound e then
               (Some (wrapApi (''failed to check gateway AuthPolicy '' @ gatewayNamespace @ ''/'' @ name) e), s1)
             else
               (case reconcileGatewayAuthPolicy c a r oidc xAPIKeyEnabled tenantID gatewayNamespace
                       gatewayName s1 of
                  (Inl e', s2) \<Rightarrow> (Some e', s2)
                | (Inr _, s2) \<Rightarrow> (None, s2)))"

section \<open>From watched objects to requests\<close>

definition policyRequest :: "MaaSAuthPolicy \<Rightarrow> ctlRequest" where
  "policyRequest p = (om_Namespace (ma_meta p), om_Name (ma_meta p))"

definition tenantPolicies ::
  "('s, 'm) client_scheme \<Rightarrow> MaaSAuthPolicyReconciler \<Rightarrow> 's \<Rightarrow> MaaSAuthPolicy list \<Rightarrow> MaaSAuthPolicy list" where
  "tenantPolicies c r s policies =
     filterAuthPoliciesByTenantNamespace c policies (apr_TenantNamespace r)
       (apr_TenantNamespaceDiscoveryEnabled r) s"

definition mapAITenantToMaaSAuthPolicies ::
  "('s, 'm) client_scheme \<Rightarrow> MaaSAuthPolicyReconciler \<Rightarrow> AITenant \<Rightarrow> 's \<Rightarrow> ctlRequest list" where
  "mapAITenantToMaaSAuthPolicies c r aitenant s =
     (case listAuthPoliciesIn c (TenantNamespaceForAITenant (om_Name (at_meta aitenant))
             (apr_TenantNamespace r)) s of
        Inl _ \<Rightarrow> []
      | Inr items \<Rightarrow> map policyRequest (tenantPolicies c r s items))"

definition mapTenantToMaaSAuthPolicies ::
  "('s, 'm) client_scheme \<Rightarrow> MaaSAuthPolicyReconciler \<Rightarrow> ObjectMeta \<Rightarrow> 's \<Rightarrow> ctlRequest list" where
  "mapTenantToMaaSAuthPolicies c r tenant s =
     (case listAuthPoliciesIn c (om_Namespace tenant) s of
        Inl _ \<Rightarrow> []
      | Inr items \<Rightarrow> map policyRequest (tenantPolicies c r s items))"

definition mapNamespaceToMaaSAuthPolicies ::
  "('s, 'm) client_scheme \<Rightarrow> MaaSAuthPolicyReconciler \<Rightarrow> string \<Rightarrow> 's \<Rightarrow> ctlRequest list" where
  "mapNamespaceToMaaSAuthPolicies c r ns s =
     (if ns \<noteq> apr_TenantNamespace r \<and> \<not> apr_TenantNamespaceDiscoveryEnabled r then []
      else (case listAuthPoliciesIn c ns s of Inl _ \<Rightarrow> [] | Inr items \<Rightarrow> map policyRequest items))"

definition AP_findAnyAuthPolicyForModel ::
  "('s, 'm) client_scheme \<Rightarrow> MaaSAuthPolicyReconciler \<Rightarrow> string \<Rightarrow> string \<Rightarrow> 's \<Rightarrow> MaaSAuthPolicy option" where
  "AP_findAnyAuthPolicyForModel c r modelNamespace modelName s =
     (case findAllAuthPoliciesForModel c modelNamespace modelName s of
        Inl _ \<Rightarrow> None
      | Inr policies \<Rightarrow> (case tenantPolicies c r s policies of [] \<Rightarrow> None | p # _ \<Rightarrow> Some p))"

definition mapGeneratedAuthPolicyToParent ::
  "('s, 'm) client_scheme \<Rightarrow> MaaSAuthPolicyReconciler \<Rightarrow> uobj \<Rightarrow> 's \<Rightarrow> ctlRequest list" where
  "mapGeneratedAuthPolicyToParent c r ap s =
     (let (modelNamespace, modelName) = trlpModel ap
      in if annotation (om_Labels (u_meta ap)) ''app.kubernetes.io/managed-by'' \<noteq> ''maas-controller''
            \<or> modelName = [] then []
         else
           (case AP_findAnyAuthPolicyForModel c r modelNamespace modelName s of
              None \<Rightarrow> []
            | Some p \<Rightarrow> [policyRequest p]))"

definition refersTo :: "(ModelRef \<Rightarrow> bool) \<Rightarrow> MaaSAuthPolicy \<Rightarrow> bool" where
  "refersTo P p \<longleftrightarrow> list_ex P (as_ModelRefs (ma_Spec p))"

definition mapMaaSModelRefToMaaSAuthPolicies ::
  "('s, 'm) client_scheme \<Rightarrow> MaaSAuthPolicyReconciler \<Rightarrow> MaaSModelRef \<Rightarrow> 's \<Rightarrow> ctlRequest list" where
  "mapMaaSModelRefToMaaSAuthPolicies c r model s =
     (case listAuthPolicies c s of
        Inl _ \<Rightarrow> []
      | Inr items \<Rightarrow>
          map policyRequest (filter (refersTo (\<lambda>ref. mref_Namespace ref = om_Namespace (mm_meta model)
              \<and> mref_Name ref = om_Name (mm_meta model))) (tenantPolicies c r s items)))"

definition mapHTTPRouteToMaaSAuthPolicies ::
  "('s, 'm) client_scheme \<Rightarrow> MaaSAuthPolicyReconciler \<Rightarrow> HTTPRoute \<Rightarrow> 's \<Rightarrow> ctlRequest list" where
  "mapHTTPRouteToMaaSAuthPolicies c r route s =
     (case listModelRefsIn c (om_Namespace (hr_meta route)) s of
        Inl _ \<Rightarrow> []
      | Inr models \<Rightarrow>
          let keys = map (\<lambda>m. om_Namespace (mm_meta m) @ ''/'' @ om_Name (mm_meta m)) models
          in if keys = [] then []
             else
               (case listAuthPolicies c s of
                  Inl _ \<Rightarrow> []
                | Inr items \<Rightarrow>
                    map policyRequest (filter (refersTo (\<lambda>ref.
                        mref_Namespace ref @ ''/'' @ mref_Name ref \<in> set keys)) (tenantPolicies c r s items))))"

end
