(* ===== verification/AuthPolicyTrace.thy ===== *)
theory AuthPolicyTrace
  imports AuthPolicyController SubscriptionTrace
begin

text \<open>
  What the reconciler of MaaSAuthPolicy writes, read off the log of its writes, and what the
  policy of a gateway says.
\<close>

section \<open>Reads do not see the log\<close>

lemma logged_tenantIdentifier [simp]:
  "fetchTenantIdentifier (logged c) ns st = fetchTenantIdentifier c ns (fst st)"
  by (simp add: fetchTenantIdentifier_def)

lemma logged_tenantContext [simp]:
  "fetchTenantPlatformContext (logged c) r ns st = fetchTenantPlatformContext c r ns (fst st)"
  by (simp add: fetchTenantPlatformContext_def cong: inside_cases)

lemma logged_gatewayReads [simp]:
  "fetchOIDCConfig (logged c) r ns st = fetchOIDCConfig c r ns (fst st)"
  "fetchGatewayInfo (logged c) r ns st = fetchGatewayInfo c r ns (fst st)"
  "targetMaaSAPIReady (logged c) r t st = targetMaaSAPIReady c r t (fst st)"
  "modelAuthPolicyExists (logged c) ns n st = modelAuthPolicyExists c ns n (fst st)"
  "gatewayAuthPolicyReady (logged c) a r ns n st = gatewayAuthPolicyReady c a r ns n (fst st)"
  "discoverXAPIKeyNeeded (logged c) a st = discoverXAPIKeyNeeded c a (fst st)"
  "findMissingModelRefs (logged c) p st = findMissingModelRefs c p (fst st)"
  by (simp_all add: fetchOIDCConfig_def fetchGatewayInfo_def targetMaaSAPIReady_def
      modelAuthPolicyExists_def gatewayAuthPolicyReady_def discoverXAPIKeyNeeded_def
      findMissingModelRefs_def cong: inside_cases)

lemma logged_anyLegacy [simp]:
  "anyLegacyPolicy (logged c) ks refs st = anyLegacyPolicy c ks refs (fst st)"
  by (induction refs arbitrary: ks) (simp_all add: Let_def cong: inside_cases)

lemma logged_hasLegacy [simp]:
  "hasLegacyModelAuthPolicy (logged c) ns st = hasLegacyModelAuthPolicy c ns (fst st)"
  by (simp add: hasLegacyModelAuthPolicy_def cong: inside_cases)

lemma logged_conflicts [simp]:
  "collectConflicts (logged c) k refs st = collectConflicts c k refs (fst st)"
  by (induction refs) (simp_all add: findConflictsForHTTPRoute_def cong: inside_cases)

lemma logged_detect [simp]:
  "detectConflictingAuthPolicies (logged c) k p st = detectConflictingAuthPolicies c k p (fst st)"
  by (simp add: detectConflictingAuthPolicies_def cong: inside_cases)

lemma logged_refStatus [simp]:
  "authPolicyRefStatus (logged c) a st ref = authPolicyRefStatus c a (fst st) ref"
  by (simp add: authPolicyRefStatus_def cong: inside_cases)

section \<open>Every write, by what it may be\<close>

text \<open>
  The writes of the reconciler, for a property \<open>good\<close> of them: what must hold of each kind of
  write for \<open>good\<close> to hold of all.
\<close>

lemma extends_drift: "extends good st (s, snd st)"
  by (simp add: extends_def)

lemma AP_updateStatus_ext:
  assumes "\<And>p. ma_meta p = ma_meta policy \<Longrightarrow> ast_Phase (ma_Status p) = phase \<Longrightarrow> good (UpdatePolicyStatus p)"
  shows "extends good st (AP_updateStatus (logged c) a policy phase m sn st)"
  unfolding AP_updateStatus_def Let_def logged_writes using assms by (auto intro!: extends_write)

lemma deleteAuthPolicies_ext:
  assumes "\<And>p. p \<in> set ps \<Longrightarrow> isManaged (u_meta p) \<Longrightarrow> good (DeleteAuthPolicy p)"
  shows "extends good st (snd (deleteAuthPolicies (logged c) ns ps st))"
  using assms
proof (induction ps arbitrary: st)
  case (Cons p ps)
  show ?case
  proof (cases "isManaged (u_meta p)")
    case True
    let ?w = "logWrite DeleteAuthPolicy (deleteKuadrantAuthPolicy c) p st"
    have w: "extends good st (snd ?w)" using True Cons.prems by (intro extends_write) simp
    obtain e st' where d: "?w = (e, st')" by (cases ?w)
    with w have "extends good st st'" by simp
    with Cons.IH [of st'] Cons.IH [of st] Cons.prems True d show ?thesis
      by (auto simp: logged_writes Let_def split: option.split intro: extends_trans)
  qed (use Cons in \<open>simp add: Let_def\<close>)
qed simp

lemma deleteModelAuthPolicy_ext:
  assumes "\<And>p. isManaged (u_meta p) \<Longrightarrow> good (DeleteAuthPolicy p)"
  shows "extends good st (snd (deleteModelAuthPolicy (logged c) ns n st))"
  using assms by (auto simp: deleteModelAuthPolicy_def split: sum.split intro: deleteAuthPolicies_ext)

lemma cleanupAuthPolicies_ext:
  assumes "\<And>p. isManaged (u_meta p) \<Longrightarrow> good (DeleteAuthPolicy p)"
  shows "extends good st (snd (cleanupAuthPolicies (logged c) policy ps st))"
proof (induction ps arbitrary: st)
  case (Cons p ps)
  obtain mns mn where m: "trlpModel p = (mns, mn)" by (cases "trlpModel p")
  show ?case
    by (simp add: m Let_def) (intro conjI impI Cons extends_bind deleteModelAuthPolicy_ext assms)
qed simp

lemma cleanupStaleAuthPolicies_ext:
  assumes "\<And>p. isManaged (u_meta p) \<Longrightarrow> good (DeleteAuthPolicy p)"
  shows "extends good st (snd (cleanupStaleAuthPolicies (logged c) policy st))"
  using assms by (auto simp: cleanupStaleAuthPolicies_def split: sum.split intro: cleanupAuthPolicies_ext)

lemma removeLegacyPolicies_ext:
  assumes "\<And>p. isManaged (u_meta p) \<Longrightarrow> good (DeleteAuthPolicy p)"
  shows "extends good st (snd (removeLegacyPolicies (logged c) a refs st))"
proof (induction refs arbitrary: st)
  case (Cons ref refs)
  have go: "extends good st (snd (case deleteModelAuthPolicy (logged c) ns n st' of
      (None, s') \<Rightarrow> removeLegacyPolicies (logged c) a refs s' | (Some d, s') \<Rightarrow> (Some (h d), s')))"
    if "extends good st st'" for ns n h st'
    using that by (rule extends_trans) (intro extends_bind deleteModelAuthPolicy_ext assms Cons)
  have oth: "extends good st (others c (fst st), snd st)" by (simp add: extends_def)
  show ?case
    by (auto simp: Let_def Cons oth split: sum.split intro!: go)
qed simp

lemma reconcileModelAuthPolicies_ext:
  assumes "\<And>p. isManaged (u_meta p) \<Longrightarrow> good (DeleteAuthPolicy p)"
  shows "extends good st (snd (reconcileModelAuthPolicies (logged c) a policy st))"
proof -
  obtain e st1 where 1: "removeLegacyPolicies (logged c) a (as_ModelRefs (ma_Spec policy)) st = (e, st1)"
    by (meson surj_pair)
  obtain e2 st2 where 2: "cleanupStaleAuthPolicies (logged c) policy st1 = (e2, st2)" by (meson surj_pair)
  have "extends good st st1" "extends good st1 st2"
    using removeLegacyPolicies_ext [of good st c a "as_ModelRefs (ma_Spec policy)"]
      cleanupStaleAuthPolicies_ext [of good st1 c policy] assms 1 2 by auto
  then show ?thesis
    by (auto simp: reconcileModelAuthPolicies_def 1 2 split: option.split intro: extends_trans)
qed

lemma deleteModelPolicies_ext:
  assumes "\<And>p. isManaged (u_meta p) \<Longrightarrow> good (DeleteAuthPolicy p)"
  shows "extends good st (snd (deleteModelPolicies (logged c) refs st))"
proof (induction refs arbitrary: st)
  case (Cons ref refs)
  then show ?case by (auto intro!: extends_bind' deleteModelAuthPolicy_ext assms)
qed simp

text \<open>A policy of a gateway is at the gateway's place, and setting its owner keeps its place and mark.\<close>

definition atGateway :: "MaaSAuthPolicyReconciler \<Rightarrow> string \<Rightarrow> string \<Rightarrow> ObjectMeta \<Rightarrow> bool" where
  "atGateway r gns gn m \<longleftrightarrow> om_Namespace m = gns \<and> om_Name m = gatewayAuthPolicyName r gns gn"

lemma owner_keeps [simp]:
  "om_Name (setGatewayOwnerReference g m) = om_Name m"
  "om_Namespace (setGatewayOwnerReference g m) = om_Namespace m"
  "isManaged (setGatewayOwnerReference g m) = isManaged m"
  "atGateway r gns gn (setGatewayOwnerReference g m) = atGateway r gns gn m"
  by (simp_all add: setGatewayOwnerReference_def isManaged_def atGateway_def)

lemma gatewayPolicyMeta_simps [simp]:
  "isManaged (gatewayPolicyMeta r gns gn)" "atGateway r gns gn (gatewayPolicyMeta r gns gn)"
  by (simp_all add: gatewayPolicyMeta_def isManaged_def atGateway_def)

lemma writeGatewayPolicy_ext:
  assumes create: "\<And>p. existing = None \<Longrightarrow> isManaged (u_meta p) = isManaged m
      \<Longrightarrow> om_Name (u_meta p) = om_Name m \<Longrightarrow> om_Namespace (u_meta p) = om_Namespace m \<Longrightarrow> good (CreateAuthPolicy p)"
    and update: "\<And>p ex. existing = Some ex \<Longrightarrow> isManaged (u_meta p) \<Longrightarrow> om_Name (u_meta p) = om_Name (u_meta ex)
      \<Longrightarrow> om_Namespace (u_meta p) = om_Namespace (u_meta ex) \<Longrightarrow> good (UpdateAuthPolicy p)"
  shows "extends good st (snd (writeGatewayPolicy (logged c) a m spec existing gateway st))"
proof -
  have keep: "extends good st (snd (case w of (None, s') \<Rightarrow> (f, s') | (Some e, s') \<Rightarrow> (h e, s')))"
    if "extends good st (snd w)" for w and f :: "bool ctl" and h :: "k8s_error \<Rightarrow> bool ctl"
    using that by (auto split: prod.split option.split)
  show ?thesis
  proof (cases existing)
    case None
    then show ?thesis
      by (auto simp: writeGatewayPolicy_def logged_writes split: sum.split option.split
          intro!: keep extends_write create)
  next
    case (Some ex)
    then show ?thesis
      by (auto simp: writeGatewayPolicy_def Let_def logged_writes split: sum.split option.split
          intro!: keep extends_write update)
  qed
qed

lemma reconcileGateway_ext:
  assumes create: "\<And>p. isManaged (u_meta p) \<Longrightarrow> atGateway r gns gn (u_meta p) \<Longrightarrow> good (CreateAuthPolicy p)"
    and update: "\<And>p ex s'. getKuadrantAuthPolicy c gns (gatewayAuthPolicyName r gns gn) s' = Inr ex \<Longrightarrow> isManaged (u_meta p)
      \<Longrightarrow> om_Name (u_meta p) = om_Name (u_meta ex) \<Longrightarrow> om_Namespace (u_meta p) = om_Namespace (u_meta ex)
      \<Longrightarrow> good (UpdateAuthPolicy p)"
    and del: "\<And>p e s'. getGateway c gns gn s' = Inl e \<Longrightarrow> isManaged (u_meta p) \<Longrightarrow> good (DeleteAuthPolicy p)"
  shows "extends good st (snd (reconcileGatewayAuthPolicy (logged c) a r oidc x t gns gn st))"
proof -
  let ?m = "gatewayPolicyMeta r gns gn"
  have m: "om_Namespace ?m = gns" "om_Name ?m = gatewayAuthPolicyName r gns gn"
    by (simp_all add: gatewayPolicyMeta_def)
  have wr: "extends good st (snd (writeGatewayPolicy (logged c) a ?m spec ex g (others c (fst st), snd st)))"
    if "\<And>x. ex = Some x \<Longrightarrow> getKuadrantAuthPolicy c gns (gatewayAuthPolicyName r gns gn) (fst st) = Inr x"
    for spec ex g
    by (subst extends_others [symmetric], rule writeGatewayPolicy_ext)
       (use that in \<open>auto simp: m atGateway_def create intro: update\<close>)
  have dl: "extends good st (snd (case deleteKuadrantAuthPolicy (logged c) ex (others c (fst st), snd st) of
      (None, s2) \<Rightarrow> (f, s2) | (Some e, s2) \<Rightarrow> (h e, s2)))"
    if "getGateway c gns gn (others c (fst st)) = Inl gone" "isManaged (u_meta ex)" for ex gone and f :: "bool ctl" and h :: "k8s_error \<Rightarrow> bool ctl"
  proof -
    have "extends good (others c (fst st), snd st) (snd (deleteKuadrantAuthPolicy (logged c) ex (others c (fst st), snd st)))"
      unfolding logged_writes using that del by (intro extends_write) simp
    then show ?thesis by (auto split: prod.split option.split)
  qed
  have oth: "extends good st (others c (fst st), snd st)" by (simp add: extends_def)
  define other where "other \<longleftrightarrow> gns \<noteq> apr_GatewayNamespace r \<or> gn \<noteq> apr_GatewayName r"
  show ?thesis
    unfolding reconcileGatewayAuthPolicy_def Let_def m other_def [symmetric]
    by (cases "getKuadrantAuthPolicy c gns (gatewayAuthPolicyName r gns gn) (fst st)";
        cases "getGateway c gns gn (others c (fst st))")
       (auto simp: oth intro!: dl wr)
qed

lemma AP_handleDeletion_ext:
  assumes del: "\<And>p. isManaged (u_meta p) \<Longrightarrow> good (DeleteAuthPolicy p)" and upd: "\<And>p. good (UpdatePolicy p)"
    and reset: "\<And>st. extends good st (snd (resetGatewayPolicy (logged c) a r policy st))"
  shows "extends good st (snd (AP_handleDeletion (logged c) a r policy st))"
proof -
  have fin: "extends good st (snd (case updateAuthPolicy (logged c) p st of (err, s4) \<Rightarrow> (f err, s4)))"
    for p st and f :: "k8s_error option \<Rightarrow> ctl_error option"
    using extends_write [of good UpdatePolicy p st "updateAuthPolicy c"]
    by (auto simp: logged_writes upd split: prod.split)
  have maybe: "extends good st (snd (if b then resetGatewayPolicy (logged c) a r policy (others (logged c) st) else (None, st)))"
    for b st
    using reset [of "others (logged c) st"] by simp
  have rest: "extends good st (snd (case listAuthPoliciesIn (logged c) ns' st of
      Inl e \<Rightarrow> (Some (ofApi e), st)
    | Inr items \<Rightarrow> (case (if liveOthers policy items = [] then resetGatewayPolicy (logged c) a r policy (others (logged c) st)
                           else (None, st)) of
          (Some e, s3) \<Rightarrow> (Some e, s3)
        | (None, s3) \<Rightarrow> (case updateAuthPolicy (logged c) p s3 of (err, s4) \<Rightarrow> (f err, s4)))))"
    for ns' st p and f :: "k8s_error option \<Rightarrow> ctl_error option"
    by (cases "listAuthPoliciesIn (logged c) ns' st")
       (simp_all only: sum.case extends_bind' [OF maybe fin], simp)
  show ?thesis
    unfolding AP_handleDeletion_def
    by (auto simp del: logged_others logged_reads
        intro!: extends_bind' deleteModelPolicies_ext cleanupStaleAuthPolicies_ext del rest)
qed

lemma gateway_outcome_ext:
  assumes "\<And>st. extends good st (snd (reconcileGatewayAuthPolicy (logged c) a r oidc x t gns gn st))"
  shows "extends good st (snd (case reconcileGatewayAuthPolicy (logged c) a r oidc x t gns gn (s', snd st) of
      (Inl e, s4) \<Rightarrow> (Some e, s4) | (Inr _, s4) \<Rightarrow> (None, s4)))"
  using assms [of "(s', snd st)"] by (auto simp: extends_def split: prod.splits sum.splits)

section \<open>A reconciliation, write by write\<close>

text \<open>
  What a property of writes has to allow for every reconciliation of a policy of the namespaces
  \<open>spaces\<close> to keep to it: managed policies may be deleted; the policy of the gateway of a tenant of
  \<open>spaces\<close> may be created or updated, unless the tenant is not the default one and the gateway
  is; policies of the API group may be updated, and events recorded.
\<close>

definition onDefaultGateway :: "MaaSAuthPolicyReconciler \<Rightarrow> string \<Rightarrow> string \<Rightarrow> bool" where
  "onDefaultGateway r gns gn \<longleftrightarrow> gns = apr_GatewayNamespace r \<and> gn = apr_GatewayName r"

locale policy_log =
  fixes c :: "'s client" and r :: MaaSAuthPolicyReconciler and spaces :: "string set"
    and good :: "op \<Rightarrow> bool"
  assumes removes: "\<And>p. isManaged (u_meta p) \<Longrightarrow> good (DeleteAuthPolicy p)"
    and creates: "\<And>ns s t gns gn p. ns \<in> spaces \<Longrightarrow> fetchTenantIdentifier c ns s = Inr t
      \<Longrightarrow> \<not> (t \<noteq> [] \<and> onDefaultGateway r gns gn) \<Longrightarrow> isManaged (u_meta p)
      \<Longrightarrow> atGateway r gns gn (u_meta p) \<Longrightarrow> good (CreateAuthPolicy p)"
    and updates: "\<And>ns s t gns gn p ex s'. ns \<in> spaces \<Longrightarrow> fetchTenantIdentifier c ns s = Inr t
      \<Longrightarrow> \<not> (t \<noteq> [] \<and> onDefaultGateway r gns gn)
      \<Longrightarrow> getKuadrantAuthPolicy c gns (gatewayAuthPolicyName r gns gn) s' = Inr ex \<Longrightarrow> isManaged (u_meta p)
      \<Longrightarrow> om_Name (u_meta p) = om_Name (u_meta ex) \<Longrightarrow> om_Namespace (u_meta p) = om_Namespace (u_meta ex)
      \<Longrightarrow> good (UpdateAuthPolicy p)"
    and others_allowed: "\<And>p. good (UpdatePolicyStatus p)" "\<And>p. good (UpdatePolicy p)" "\<And>x y z. good (Event x y z)"
begin

lemma status_ext: "extends good st (AP_updateStatus (logged c) a policy ph m sn st)"
  by (intro AP_updateStatus_ext others_allowed)

lemma gateway_ext:
  "ns \<in> spaces \<Longrightarrow> fetchTenantIdentifier c ns s = Inr t \<Longrightarrow> \<not> (t \<noteq> [] \<and> onDefaultGateway r gns gn)
     \<Longrightarrow> extends good st (snd (reconcileGatewayAuthPolicy (logged c) a r oidc x t gns gn st))"
  by (rule reconcileGateway_ext) (auto intro: creates updates removes)

lemma fail_ext: "extends good st (snd (failPolicy (logged c) a policy w e st))"
  "extends good st (snd (waitPolicy (logged c) a policy w' st))"
  by (simp_all add: failPolicy_def waitPolicy_def status_ext)

lemma events_ext: "extends good st (conflictEvents (logged c) r prev now cs st)"
  by (auto simp: conflictEvents_def logged_event extends_def others_allowed split: option.split)

lemma finish_ext: "extends good st (snd (finishPolicy (logged c) a r policy miss st))"
proof -
  obtain e st1 where 1: "reconcileModelAuthPolicies (logged c) a policy st = (e, st1)"
    by (meson surj_pair)
  have x: "extends good st st1"
    using reconcileModelAuthPolicies_ext [of good st c a policy] removes 1 by simp
  then have ev: "extends good st (conflictEvents (logged c) r prev now cs (others c (fst st1), snd st1))"
    for prev now cs
    using events_ext [of "(others c (fst st1), snd st1)" prev now cs] by (simp add: extends_trans)
  show ?thesis
  proof (cases e)
    case (Inl err)
    then show ?thesis using x by (auto simp: finishPolicy_def 1 intro: extends_trans fail_ext)
  next
    case (Inr refs)
    then show ?thesis
      by (auto simp: finishPolicy_def 1 Let_def split: prod.split sum.split
          intro!: extends_trans [OF ev] status_ext)
  qed
qed

lemma cutOver_ext:
  assumes "ns \<in> spaces" "fetchTenantIdentifier c ns s = Inr t" "\<not> (t \<noteq> [] \<and> onDefaultGateway r gns gn)"
  shows "extends good st (snd (cutOver (logged c) a r policy miss oidc x t gns gn leg st))"
proof -
  obtain e st1 where 1: "reconcileGatewayAuthPolicy (logged c) a r oidc x t gns gn st = (e, st1)"
    by (meson surj_pair)
  have x: "extends good st (others c (fst st1), snd st1)"
    using gateway_ext [OF assms, of st a oidc x] 1 by (simp add: extends_def)
  then show ?thesis using 1 gateway_ext [OF assms, of st a oidc x]
    by (auto simp: cutOver_def Let_def split: sum.split
        intro: extends_trans [OF x] extends_trans fail_ext finish_ext)
qed

lemma reconcilePolicy_ext:
  assumes "ns \<in> spaces"
  shows "extends good st (snd (reconcilePolicy (logged c) a r ns policy st))"
proof -
  let ?u = "\<lambda>s. (s, snd st)"
  have up: "extends good st (snd w)" if "extends good (?u s) (snd w)" for s and w :: "'s lstate requeued"
    using that by (simp add: extends_def)
  show ?thesis
    unfolding reconcilePolicy_def Let_def
    by (auto split: sum.split simp: onDefaultGateway_def
        intro!: up [OF fail_ext(1)] up [OF fail_ext(2)] up [OF cutOver_ext [OF assms]]
          extends_trans [OF _ status_ext] extends_drift)
qed

lemma deletion_ext:
  assumes ns: "om_Namespace (ma_meta policy) \<in> spaces"
  shows "extends good st (snd (AP_handleDeletion (logged c) a r policy st))"
proof (intro AP_handleDeletion_ext removes others_allowed)
  show "extends good st (snd (resetGatewayPolicy (logged c) a r policy st))" for st
    unfolding resetGatewayPolicy_def Let_def
    by (auto split: sum.split simp: onDefaultGateway_def extends_drift
        intro!: gateway_outcome_ext gateway_ext [OF ns])
qed

lemma reconcile_ext:
  assumes "fst req \<in> spaces" "\<And>p s. getAuthPolicy c (fst req) (snd req) s = Inr p \<Longrightarrow> om_Namespace (ma_meta p) \<in> spaces"
  shows "extends good st (snd (AP_Reconcile (logged c) a r req st))"
proof -
  have fin: "extends good st (snd (case updateAuthPolicy (logged c) p st of
      (Some e, s') \<Rightarrow> ((Some (ofApi e), 0), s') | (None, s') \<Rightarrow> reconcilePolicy (logged c) a r (fst req) p s'))" for p
    using extends_write [of good UpdatePolicy p st "updateAuthPolicy c"]
    by (auto simp: logged_writes others_allowed split: prod.split option.split
        elim!: extends_trans intro!: reconcilePolicy_ext [OF assms(1)])
  have del: "extends good st (snd (case AP_handleDeletion (logged c) a r p st of (err, s') \<Rightarrow> ((err, 0), s')))"
    if "om_Namespace (ma_meta p) \<in> spaces" for p
    using deletion_ext [OF that, of st a] by (auto split: prod.split)
  show ?thesis
    unfolding AP_Reconcile_def Let_def
    by (auto split: sum.split intro: del fin status_ext reconcilePolicy_ext assms)
qed

end

section \<open>Policies that opted out\<close>

fun authOp :: "op \<Rightarrow> bool" where
  "authOp (CreateAuthPolicy p) = isManaged (u_meta p)"
| "authOp (UpdateAuthPolicy p) = isManaged (u_meta p)"
| "authOp (DeleteAuthPolicy p) = isManaged (u_meta p)"
| "authOp (UpdatePolicy p) = True"
| "authOp (UpdatePolicyStatus p) = True"
| "authOp (Event x y z) = True"
| "authOp _ = False"

interpretation managed_writes: policy_log c r UNIV authOp for c r
  by unfold_locales simp_all

text \<open>
  C17: A reconciliation of a MaaSAuthPolicy, whatever the cluster answers and does in between,
  creates, updates and deletes no AuthPolicy that is annotated as unmanaged, and writes no other
  resource than AuthPolicies and MaaSAuthPolicies.
\<close>

theorem opted_out_auth_policies_untouched:
  "list_all authOp (snd (snd (AP_Reconcile (logged c) a r req (s, []))))"
  by (rule extends_log [OF managed_writes.reconcile_ext]) simp_all

section \<open>The policy of the default gateway\<close>

fun writesAt :: "string \<Rightarrow> string \<Rightarrow> op \<Rightarrow> bool" where
  "writesAt ns name (CreateAuthPolicy p) \<longleftrightarrow> isAt ns name (u_meta p)"
| "writesAt ns name (UpdateAuthPolicy p) \<longleftrightarrow> isAt ns name (u_meta p)"
| "writesAt ns name _ \<longleftrightarrow> False"

text \<open>\<open>Get\<close> returns the object of the name asked for.\<close>

definition readsNamed :: "'s client \<Rightarrow> bool" where
  "readsNamed c \<longleftrightarrow>
     (\<forall>ns n s u. getKuadrantAuthPolicy c ns n s = Inr u \<longrightarrow> isAt ns n (u_meta u))
     \<and> (\<forall>ns n s p. getAuthPolicy c ns n s = Inr p \<longrightarrow> isAt ns n (ma_meta p))"

lemma tenant_policy_name: "gn @ ''-maas-auth'' \<noteq> maasGatewayAuthPolicyName"
proof
  assume "gn @ ''-maas-auth'' = maasGatewayAuthPolicyName"
  then have "take 10 (rev (gn @ ''-maas-auth'')) = take 10 (rev maasGatewayAuthPolicyName)" by simp
  then show False by (simp add: maasGatewayAuthPolicyName_def)
qed

lemma default_policy_name:
  "gatewayAuthPolicyName r (apr_GatewayNamespace r) gn = maasGatewayAuthPolicyName
     \<Longrightarrow> onDefaultGateway r (apr_GatewayNamespace r) gn"
  using tenant_policy_name [of gn] by (auto simp: gatewayAuthPolicyName_def onDefaultGateway_def split: if_splits)

abbreviation sparesDefault :: "MaaSAuthPolicyReconciler \<Rightarrow> op \<Rightarrow> bool" where
  "sparesDefault r x \<equiv> \<not> writesAt (apr_GatewayNamespace r) maasGatewayAuthPolicyName x"

text \<open>
  C16: A policy of a tenant that is not the default tenant never creates or rewrites the AuthPolicy
  of the default gateway, neither while it is live nor when it is deleted.
\<close>

theorem default_gateway_policy_untouched:
  assumes "readsNamed c" and "\<forall>s t. fetchTenantIdentifier c (fst req) s = Inr t \<longrightarrow> t \<noteq> []"
  shows "list_all (sparesDefault r) (snd (snd (AP_Reconcile (logged c) a r req (s, []))))"
proof -
  have "policy_log c r {fst req} (sparesDefault r)"
    using assms by unfold_locales
      (auto simp: readsNamed_def atGateway_def isAt_def dest!: default_policy_name)
  then show ?thesis
    by (rule extends_log [OF policy_log.reconcile_ext])
       (use assms in \<open>auto simp: readsNamed_def isAt_def\<close>)
qed

text \<open>
  Deleting a policy outside the namespace of the default tenant never creates or rewrites the
  AuthPolicy of the default gateway, even when the tenant's configuration is already gone and the
  reconciler falls back to the default tenant and the default gateway.
\<close>

theorem deletion_spares_default_gateway:
  assumes "readsNamed c" and "apr_TenantNamespace r \<noteq> []"
    and "om_Namespace (ma_meta policy) \<noteq> apr_TenantNamespace r"
  shows "list_all (sparesDefault r) (snd (snd (AP_handleDeletion (logged c) a r policy (s, []))))"
proof -
  have gw: "extends (sparesDefault r) st (snd (reconcileGatewayAuthPolicy (logged c) a r oidc x t gns gn st))"
    if "\<not> onDefaultGateway r gns gn" for st oidc x t gns gn
    by (rule reconcileGateway_ext)
       (use assms(1) that in \<open>auto simp: readsNamed_def atGateway_def isAt_def dest!: default_policy_name\<close>)
  have "extends (sparesDefault r) st (snd (resetGatewayPolicy (logged c) a r policy st))" for st
    unfolding resetGatewayPolicy_def Let_def using assms
    by (auto split: sum.split simp: extends_drift onDefaultGateway_def intro!: gateway_outcome_ext gw)
  then show ?thesis by (intro extends_log [OF AP_handleDeletion_ext]) simp_all
qed

section \<open>Repeating the reconciliation of a gateway\<close>

text \<open>
  While the gateway is there and the spec of its AuthPolicy contains every field the reconciler wants in it,
  whatever the API server added to it, reconciling the gateway again writes nothing: not even the owner
  reference, where an earlier version left it out.
\<close>

theorem gateway_policy_settles:
  assumes "getKuadrantAuthPolicy c gns (gatewayAuthPolicyName r gns gn) s = Inr ex"
    and "NestedMap (accessors a) (u_Object ex) [''spec''] = Some spec"
    and "covers (throughJSON (JObj (buildGatewayAuthPolicySpec r oidc x t gn))) (throughJSON (JObj spec))"
    and "SetNestedMap a (u_Object ex) (buildGatewayAuthPolicySpec r oidc x t gn) [''spec''] = Inr obj"
    and "getGateway c gns gn (others c s) = Inr g"
  shows "reconcileGatewayAuthPolicy c a r oidc x t gns gn s = (Ok False, others c s)"
proof -
  have "specMatchesDesired (buildGatewayAuthPolicySpec r oidc x t gn) (Some spec)"
    unfolding specMatchesDesired_iff using assms(3) by blast
  with assms show ?thesis
    by (auto simp: reconcileGatewayAuthPolicy_def writeGatewayPolicy_def Let_def gatewayPolicyMeta_def
        split: option.split)
qed

section \<open>Cutting over from the policies of models\<close>

text \<open>
  Until the gateway policy is enforced, a reconciliation may bring it about and report that it is
  waiting or has failed, and nothing else.
\<close>

fun waitingOp :: "op \<Rightarrow> bool" where
  "waitingOp (CreateAuthPolicy p) = True"
| "waitingOp (UpdateAuthPolicy p) = True"
| "waitingOp (UpdatePolicy p) = True"
| "waitingOp (UpdatePolicyStatus p) = (ast_Phase (ma_Status p) \<in> {''Pending'', ''Failed'', ''Invalid''})"
| "waitingOp _ = False"

lemma waiting_ext:
  "extends waitingOp st (snd (failPolicy (logged c) a policy w e st))"
  "extends waitingOp st (snd (waitPolicy (logged c) a policy m st))"
  by (auto simp: failPolicy_def waitPolicy_def intro!: AP_updateStatus_ext)

lemma waiting_gateway_ext:
  assumes "\<And>s e. getGateway c gns gn s \<noteq> Inl e"
  shows "extends waitingOp st (snd (reconcileGatewayAuthPolicy (logged c) a r oidc x t gns gn st))"
  by (rule reconcileGateway_ext) (use assms in auto)

text \<open>
  The policy of a gateway is in force: it is there under its name, in the namespace of that gateway, is managed,
  reports its current generation, and has a condition \<open>Accepted\<close> and a condition \<open>Enforced\<close> that are true.
\<close>

definition reportsTrue :: "string \<Rightarrow> json list \<Rightarrow> bool" where
  "reportsTrue typ conditions \<longleftrightarrow>
     (\<exists>x\<in>set conditions. \<exists>cond. asMap x = Some cond \<and> stringOf cond ''type'' = typ \<and> stringOf cond ''status'' = ''True'')"

definition policyInForce ::
  "('s, 'm) client_scheme \<Rightarrow> metaApi \<Rightarrow> MaaSAuthPolicyReconciler \<Rightarrow> string \<Rightarrow> string \<Rightarrow> 's \<Rightarrow> bool" where
  "policyInForce c a r gns gn s \<longleftrightarrow>
     (\<exists>ap conditions. getKuadrantAuthPolicy c gns (gatewayAuthPolicyName r gns gn) s = Inr ap \<and> isManaged (u_meta ap)
        \<and> NestedInt64At a (u_Object ap) [''status'', ''observedGeneration''] = Inr (Some (om_Generation (u_meta ap)))
        \<and> NestedSlice (accessors a) (u_Object ap) [''status'', ''conditions''] = Some conditions
        \<and> reportsTrue ''Accepted'' conditions \<and> reportsTrue ''Enforced'' conditions)"

lemma scan_true:
  "(sc_accepted (foldl scanCondition z xs) \<longrightarrow> sc_accepted z \<or> reportsTrue ''Accepted'' xs)
    \<and> (sc_enforced (foldl scanCondition z xs) \<longrightarrow> sc_enforced z \<or> reportsTrue ''Enforced'' xs)"
proof (induction xs arbitrary: z)
  case (Cons x xs)
  show ?case
    using Cons.IH [of "scanCondition z x"]
    by (auto simp: reportsTrue_def scanCondition_def Let_def split: option.splits if_splits)
qed simp

lemma ready_inForce:
  assumes "gatewayAuthPolicyReady c a r gns gn s = Inr (True, m)"
  shows "policyInForce c a r gns gn s"
  using assms scan_true [of "\<lparr>sc_accepted = False, sc_enforced = False, sc_acceptedMsg = [], sc_enforcedMsg = []\<rparr>"]
  by (auto simp: gatewayAuthPolicyReady_def getAuthPolicyReadyState_def policyInForce_def Let_def
      split: sum.splits option.splits if_splits)

lemma waiting_cutOver_ext:
  assumes gws: "\<And>s e. getGateway c gns gn s \<noteq> Inl e"
    and force: "\<And>s. \<not> policyInForce c a r gns gn s"
    and "ast_Phase (ma_Status policy) \<noteq> ''Active''"
  shows "extends waitingOp st (snd (cutOver (logged c) a r policy miss oidc x t gns gn leg st))"
proof -
  obtain e st1 where 1: "reconcileGatewayAuthPolicy (logged c) a r oidc x t gns gn st = (e, st1)"
    by (meson surj_pair)
  with waiting_gateway_ext [OF gws, of st a r oidc x t]
  have st1: "extends waitingOp st st1" by simp
  then have drift: "extends waitingOp st (snd w)" if "extends waitingOp (others c (fst st1), snd st1) (snd w)"
    for w :: "'a lstate requeued"
    using that by (auto elim: extends_trans)
  have "gatewayAuthPolicyReady c a r gns gn s \<noteq> Inr (True, m)" for s m
    using force [of s] by (auto dest: ready_inForce)
  then show ?thesis
    using assms(3) st1
    by (auto simp: cutOver_def 1 Let_def split: sum.split
        intro!: drift [OF waiting_ext(1)] drift [OF waiting_ext(2)] elim!: extends_trans intro: waiting_ext)
qed

lemma waiting_reconcilePolicy_ext:
  assumes gws: "\<And>s s' gns gn e. fetchGatewayInfo c r ns s' = Inr (gns, gn) \<Longrightarrow> getGateway c gns gn s \<noteq> Inl e"
    and force: "\<And>s s' gns gn. fetchGatewayInfo c r ns s' = Inr (gns, gn) \<Longrightarrow> \<not> policyInForce c a r gns gn s"
    and "ast_Phase (ma_Status policy) \<noteq> ''Active''"
    and own: "\<forall>s s' t gns gn. fetchTenantIdentifier c ns s = Inr t \<longrightarrow> fetchGatewayInfo c r ns s' = Inr (gns, gn)
           \<longrightarrow> t = [] \<or> \<not> onDefaultGateway r gns gn"
  shows "extends waitingOp st (snd (reconcilePolicy (logged c) a r ns policy st))"
proof -
  have up: "extends waitingOp st (snd w)" if "extends waitingOp (s, snd st) (snd w)"
    for s and w :: "'a lstate requeued"
    using that by (simp add: extends_def)
  have cut: "extends waitingOp st (snd (cutOver (logged c) a r policy miss oidc x t gns gn leg (s, snd st)))"
    if "fetchGatewayInfo c r ns s' = Inr (gns, gn)" for s s' miss oidc x t gns gn leg
    using waiting_cutOver_ext [OF gws [OF that] force [OF that] assms(3)] by (rule up)
  show ?thesis
    unfolding reconcilePolicy_def Let_def
    by (auto split: sum.split simp: onDefaultGateway_def dest: own [rule_format, unfolded onDefaultGateway_def]
        intro!: up [OF waiting_ext(1)] up [OF waiting_ext(2)] intro: cut)
qed

text \<open>
  C15: As long as the AuthPolicy of its gateway is not in force, a live policy that is not Active yet does
  not become Active, and no policy of a model is deleted: the reconciliation only brings the gateway policy
  about and reports that it is waiting, whatever the policies of other gateways report. (The gateway is
  there; and a tenant other than the default one is not on the default gateway, since the code sets the policies
  of such a tenant Active at once.)
\<close>

theorem enforced_before_active:
  assumes "getAuthPolicy c (fst req) (snd req) s = Inr policy" and "\<not> om_Deleting (ma_meta policy)"
    and "ast_Phase (ma_Status policy) \<noteq> ''Active''"
    and "\<forall>s s' gns gn. fetchGatewayInfo c r (fst req) s' = Inr (gns, gn)
           \<longrightarrow> \<not> policyInForce c a r gns gn s \<and> (\<exists>g. getGateway c gns gn s = Inr g)"
    and "\<forall>s s' t gns gn. fetchTenantIdentifier c (fst req) s = Inr t
           \<longrightarrow> fetchGatewayInfo c r (fst req) s' = Inr (gns, gn) \<longrightarrow> t = [] \<or> \<not> onDefaultGateway r gns gn"
  shows "list_all waitingOp (snd (snd (AP_Reconcile (logged c) a r req (s, []))))"
proof (rule extends_log)
  have gw: "getGateway c gns gn s \<noteq> Inl e" if "fetchGatewayInfo c r (fst req) s' = Inr (gns, gn)" for s s' gns gn e
    using assms(4) that by (metis Inl_Inr_False)
  have rec: "extends waitingOp st (snd (reconcilePolicy (logged c) a r (fst req) p st))"
    if "ma_Status p = ma_Status policy" for p st
    by (rule waiting_reconcilePolicy_ext) (use assms gw that in auto)
  have fin: "extends waitingOp st (snd (case updateAuthPolicy (logged c) p st of
      (Some e, s') \<Rightarrow> ((Some (ofApi e), 0), s') | (None, s') \<Rightarrow> reconcilePolicy (logged c) a r (fst req) p s'))"
    if "ma_Status p = ma_Status policy" for p st
    using extends_write [of waitingOp UpdatePolicy p st "updateAuthPolicy c"]
    by (auto simp: logged_writes split: prod.split option.split elim!: extends_trans intro!: rec that)
  show "extends waitingOp (s, []) (snd (AP_Reconcile (logged c) a r req (s, [])))"
    using assms(1,2)
    by (auto simp: AP_Reconcile_def Let_def split: sum.split intro!: rec fin AP_updateStatus_ext)
qed

section \<open>How long decisions are cached\<close>

text \<open>The cache times of the rules of a group.\<close>

definition ruleTTL :: "json \<Rightarrow> int list" where
  "ruleTTL rule =
     (case walk rule [''cache'', ''ttl''] of Some (JInt n) \<Rightarrow> [n] | _ \<Rightarrow> [])"

definition cacheTTLs :: "jmap \<Rightarrow> int list" where
  "cacheTTLs rules = concat (map (ruleTTL \<circ> snd) rules)"

lemma authorization_TTLs: "cacheTTLs (authorizationRules r oidc x) = replicate 3 (authzCacheTTL r)"
  by (auto simp: cacheTTLs_def ruleTTL_def authorizationRules_def Let_def numeral_3_eq_3
      split: prod.split option.split)

lemma metadata_TTLs: "cacheTTLs (metadataRules r x t) = replicate 2 (apr_MetadataCacheTTL r)"
  by (auto simp: cacheTTLs_def ruleTTL_def metadataRules_def Let_def numeral_2_eq_2 split: prod.split)

text \<open>
  C28: With cache times that pass the start-up validation, every authorization decision of the gateway
  policy is cached for a time that is not negative and no longer than any of the metadata it was
  computed from.
\<close>

theorem decisions_outlive_no_metadata:
  assumes "ValidateCacheTTLs r = None"
    and "d \<in> set (cacheTTLs (authorizationRules r oidc x))" and "m \<in> set (cacheTTLs (metadataRules r x t))"
  shows "0 \<le> d \<and> d \<le> m"
  using assms by (auto simp: authorization_TTLs metadata_TTLs authzCacheTTL_def ValidateCacheTTLs_def Let_def
      split: if_splits)

section \<open>Foreign policies\<close>

text \<open>
  The last policy of each key, in the order of the keys: \<open>AList.update\<close> keeps the keys distinct.
\<close>

lemma foldl_update_keys:
  "distinct (map fst m) \<Longrightarrow> distinct (map fst (foldl (\<lambda>m x. AList.update (f x) x m) m xs))"
  by (induction xs arbitrary: m) (simp_all add: AList.distinct_update)

lemma foldl_update_dom:
  "fst ` set (foldl (\<lambda>m x. AList.update (f x) x m) m xs) = fst ` set m \<union> f ` set xs"
  by (induction xs arbitrary: m) (auto simp: dom_update)

lemma update_entries: "set (AList.update k v m) \<subseteq> insert (k, v) (set m)"
  by (induction m) auto

lemma foldl_update_keyed:
  assumes "\<And>k x. (k, x) \<in> set m \<Longrightarrow> k = f x"
  shows "(k, x) \<in> set (foldl (\<lambda>m x. AList.update (f x) x m) m xs) \<Longrightarrow> k = f x"
  using assms
proof (induction xs arbitrary: m)
  case (Cons y xs)
  show ?case
    by (rule Cons.IH [of "AList.update (f y) y m"])
       (use Cons.prems update_entries [of "f y" y m] in auto)
qed simp

lemma uniqueConflicts_keys:
  "conflictKey ` set (uniqueConflicts xs) = conflictKey ` set xs"
  "sorted_wrt (<) (map conflictKey (uniqueConflicts xs))"
proof -
  define m where "m = foldl (\<lambda>m x. AList.update (conflictKey x) x m) [] xs"
  have key: "k = conflictKey x" if "(k, x) \<in> set m" for k x
    using that foldl_update_keyed [of "[]" conflictKey k x xs] by (simp add: m_def)
  then have fsts: "map (conflictKey \<circ> snd) m = map fst m" by (auto intro: map_cong)
  have dom: "fst ` set m = conflictKey ` set xs"
    unfolding m_def by (simp add: foldl_update_dom)
  from fsts have "conflictKey ` snd ` set m = fst ` set m"
    by (metis image_comp list.set_map)
  with dom show "conflictKey ` set (uniqueConflicts xs) = conflictKey ` set xs"
    by (simp add: uniqueConflicts_def m_def [symmetric])
  have "distinct (map conflictKey (uniqueConflicts xs))"
    using foldl_update_keys [of "[]" conflictKey xs]
    by (simp add: uniqueConflicts_def m_def [symmetric] fsts)
  moreover have "sorted (map conflictKey (uniqueConflicts xs))"
    using key_less.sorted_goSort [of conflictKey "map snd m"]
    by (simp add: uniqueConflicts_def m_def sorted_map not_less)
  ultimately show "sorted_wrt (<) (map conflictKey (uniqueConflicts xs))"
    by (simp add: strict_sorted_iff)
qed

text \<open>The foreign policies on the route of one model, and the keys of those of all models.\<close>

definition foreignOf :: "('s, 'm) client_scheme \<Rightarrow> k8sApi \<Rightarrow> 's \<Rightarrow> ModelRef \<Rightarrow> uobj list" where
  "foreignOf c k s ref =
     (case findHTTPRouteForModel c k (mref_Namespace ref) (mref_Name ref) s of
        Inl _ \<Rightarrow> []
      | Inr (routeName, routeNS) \<Rightarrow>
          (case listKuadrantAuthPolicies c (Some routeNS) [] s of
             Inl _ \<Rightarrow> []
           | Inr items \<Rightarrow> filter (foreignOnRoute k routeName) items))"

definition foreignKeys :: "('s, 'm) client_scheme \<Rightarrow> k8sApi \<Rightarrow> ModelRef list \<Rightarrow> 's \<Rightarrow> string set" where
  "foreignKeys c k refs s =
     (\<Union>ref\<in>set refs. (\<lambda>ap. om_Namespace (u_meta ap) @ ''/'' @ om_Name (u_meta ap)) ` set (foreignOf c k s ref))"

lemma conflicts_of_route:
  assumes "findHTTPRouteForModel c k (mref_Namespace ref) (mref_Name ref) s = Inr (rn, rns)"
    and "findConflictsForHTTPRoute c k rn rns (mref_Name ref) (mref_Namespace ref) s = Inr f"
  shows "conflictKey ` set f
     = (\<lambda>ap. om_Namespace (u_meta ap) @ ''/'' @ om_Name (u_meta ap)) ` set (foreignOf c k s ref)"
  using assms
  by (auto simp: findConflictsForHTTPRoute_def foreignOf_def conflictKey_def image_image split: sum.splits if_splits)

lemma collectConflicts_keys:
  "collectConflicts c k refs s = Inr xs \<Longrightarrow> conflictKey ` set xs = foreignKeys c k refs s"
proof (induction refs arbitrary: xs)
  case (Cons ref refs)
  show ?case
  proof (cases "findHTTPRouteForModel c k (mref_Namespace ref) (mref_Name ref) s")
    case (Inl e)
    with Cons show ?thesis by (auto simp: foreignKeys_def foreignOf_def split: if_splits)
  next
    case (Inr route)
    obtain rn rns where route: "route = (rn, rns)" by (cases route)
    with Inr Cons.prems obtain f rest where f: "findConflictsForHTTPRoute c k rn rns (mref_Name ref) (mref_Namespace ref) s = Inr f"
        and rest: "collectConflicts c k refs s = Inr rest" and xs: "xs = f @ rest"
      by (auto split: sum.splits)
    from conflicts_of_route [OF Inr [unfolded route] f] Cons.IH [OF rest] show ?thesis
      by (simp add: xs foreignKeys_def image_Un)
  qed
qed (simp add: foreignKeys_def)

text \<open>
  When the check for foreign policies succeeds, it reports each AuthPolicy that is not the
  controller's and targets the route of a model of the policy, no other, each once, in order of
  namespace and name.
\<close>

theorem conflicts_exact:
  assumes "detectConflictingAuthPolicies c k policy s = Inr xs"
  shows "conflictKey ` set xs = foreignKeys c k (as_ModelRefs (ma_Spec policy)) s
         \<and> sorted_wrt (<) (map conflictKey xs)"
proof -
  from assms obtain ys where "collectConflicts c k (as_ModelRefs (ma_Spec policy)) s = Inr ys"
      and "xs = uniqueConflicts ys"
    by (auto simp: detectConflictingAuthPolicies_def split: sum.splits)
  then show ?thesis by (simp add: uniqueConflicts_keys collectConflicts_keys)
qed

section \<open>Events of conflicts\<close>

fun isEvent :: "op \<Rightarrow> bool" where
  "isEvent (Event x y z) = True"
| "isEvent _ = False"

lemma no_conflict_event: "conflictEvents c r now now conflicts s = s"
  by (auto simp: conflictEvents_def split: option.split)

text \<open>
  Once a policy carries the condition about foreign policies, whatever it says, no event is
  recorded any more: neither when foreign policies appear nor when the last one goes. The previous
  condition is compared through a pointer that already reads the new one.
\<close>

theorem conflict_events_only_once:
  assumes "FindStatusCondition a (ast_Conditions (ma_Status policy)) ConditionConflictingAuthPolicy = Some cond"
  shows "list_all (\<lambda>x. \<not> isEvent x) (snd (snd (finishPolicy (logged c) a r policy miss (s, []))))"
proof -
  let ?no = "\<lambda>x. \<not> isEvent x"
  obtain e st1 where 1: "reconcileModelAuthPolicies (logged c) a policy (s, []) = (e, st1)"
    by (meson surj_pair)
  have x: "extends ?no (s, []) st1"
    using reconcileModelAuthPolicies_ext [of ?no "(s, [])" c a policy] 1 by simp
  have up: "extends ?no st (AP_updateStatus (logged c) a p ph m sn st)" for p ph m sn st
    by (rule AP_updateStatus_ext) simp
  have "extends ?no (s, []) (snd (finishPolicy (logged c) a r policy miss (s, [])))"
  proof (cases e)
    case (Inl err)
    then show ?thesis using x
      by (auto simp: finishPolicy_def failPolicy_def 1 intro: extends_trans up)
  next
    case (Inr refs)
    have "extends ?no (s, []) (others c (fst st1), snd st1)" using x by (simp add: extends_def)
    then show ?thesis
      using assms Inr
      by (auto simp: finishPolicy_def 1 Let_def no_conflict_event updateAuthPolicyRefStatus_def
          split: prod.split sum.split intro: extends_trans up)
  qed
  then show ?thesis by (rule extends_log)
qed

section \<open>Instances\<close>

definition samplePolicyReconciler :: MaaSAuthPolicyReconciler where
  "samplePolicyReconciler =
     \<lparr>apr_InfraNamespace = ''infra'', apr_TenantNamespace = ''maas'', apr_GatewayName = ''gw'',
      apr_GatewayNamespace = ''gws'', apr_TenantNamespaceDiscoveryEnabled = True,
      apr_ClusterAudience = ''https://kubernetes.default.svc'', apr_MetadataCacheTTL = 60,
      apr_AuthzCacheTTL = 300, apr_HasRecorder = True\<rparr>"

lemma mem_readsNamed: "readsNamed memClient"
  by (auto simp: readsNamed_def memClient_def findAt_def find_Some_iff split: option.splits)

text \<open>A cluster in which every namespace belongs to the tenant \<open>red\<close>.\<close>

definition redTenant :: ObjectMeta where
  "redTenant = (sampleMeta ''ai-tenant-red'' MaasTenantConfigInstanceName)
     \<lparr>om_Labels := [(LabelManagedByAITenant, ''true''), (LabelTenantName, ''red'')]\<rparr>"

definition redClient :: "cluster client" where
  "redClient = memClient\<lparr>getMaasTenantConfig := (\<lambda>ns n s. Inr redTenant)\<rparr>"

lemma red_identifier: "fetchTenantIdentifier redClient ns s = Inr ''red''"
  by (simp add: fetchTenantIdentifier_def fetchTenantForNamespace_def redClient_def redTenant_def
      TenantIdentifierFor_def annotation_def tenancy_constants sampleMeta_def)

lemma red_readsNamed: "readsNamed redClient"
  using mem_readsNamed by (simp add: readsNamed_def redClient_def)

definition redPolicies :: cluster where
  "redPolicies = emptyCluster\<lparr>cl_policies := [samplePolicyCR ''ai-tenant-red'' ''p'' []]\<rparr>"

theorem default_gateway_policy_untouched_witness:
  "readsNamed redClient \<and> fetchTenantIdentifier redClient ''ai-tenant-red'' redPolicies = Inr ''red''
   \<and> list_all (sparesDefault samplePolicyReconciler)
       (snd (snd (AP_Reconcile (logged redClient) plainMeta samplePolicyReconciler (''ai-tenant-red'', ''p'')
          (redPolicies, []))))"
  using default_gateway_policy_untouched [of redClient "(''ai-tenant-red'', ''p'')"]
  by (simp add: red_readsNamed red_identifier)

theorem deletion_spares_default_gateway_witness:
  "list_all (sparesDefault samplePolicyReconciler)
     (snd (snd (AP_handleDeletion (logged memClient) plainMeta samplePolicyReconciler
        (samplePolicyCR ''ai-tenant-red'' ''p'' []) (redPolicies, []))))"
  by (rule deletion_spares_default_gateway [OF mem_readsNamed])
     (simp_all add: samplePolicyReconciler_def samplePolicyCR_def sampleMeta_def)

text \<open>The policy of the default gateway is created once; a second reconciliation leaves it alone.\<close>

definition sampleGateway :: Gateway where
  "sampleGateway = \<lparr>gw_Name = ''gw'', gw_Namespace = ''gws'', gw_UID = ''uid'', gw_ListenerHostnames = [],
     gw_Listeners = [], gw_Addresses = []\<rparr>"

definition gatewayOnly :: cluster where
  "gatewayOnly = emptyCluster\<lparr>cl_gateways := [((''gws'', ''gw''), sampleGateway)]\<rparr>"

definition sampleGatewayPolicy :: uobj where
  "sampleGatewayPolicy =
     \<lparr>u_meta = gatewayPolicyMeta samplePolicyReconciler ''gws'' ''gw'',
      u_Object = [(''spec'', JObj (buildGatewayAuthPolicySpec samplePolicyReconciler None False [] ''gw''))]\<rparr>"

lemma sample_gateway_name: "gatewayAuthPolicyName samplePolicyReconciler ''gws'' ''gw'' = maasGatewayAuthPolicyName"
  by (simp add: gatewayAuthPolicyName_def samplePolicyReconciler_def)

lemma gateway_policy_created:
  "reconcileGatewayAuthPolicy memClient plainMeta samplePolicyReconciler None False [] ''gws'' ''gw'' gatewayOnly
     = (Ok True, gatewayOnly\<lparr>cl_auth := [sampleGatewayPolicy]\<rparr>)"
proof -
  have [simp]: "apr_GatewayNamespace samplePolicyReconciler = ''gws''" "apr_GatewayName samplePolicyReconciler = ''gw''"
    by (simp_all add: samplePolicyReconciler_def)
  show ?thesis
    by (simp add: reconcileGatewayAuthPolicy_def writeGatewayPolicy_def Let_def mem_defs gatewayOnly_def
        emptyCluster_def IsNotFound_def sampleGatewayPolicy_def)
qed

theorem gateway_policy_settles_witness:
  "\<exists>s1. reconcileGatewayAuthPolicy memClient plainMeta samplePolicyReconciler None False [] ''gws'' ''gw'' gatewayOnly
           = (Ok True, s1)
        \<and> reconcileGatewayAuthPolicy memClient plainMeta samplePolicyReconciler None False [] ''gws'' ''gw'' s1
           = (Ok False, s1)"
proof -
  let ?s1 = "gatewayOnly\<lparr>cl_auth := [sampleGatewayPolicy]\<rparr>"
  let ?spec = "buildGatewayAuthPolicySpec samplePolicyReconciler None False [] ''gw''"
  have "reconcileGatewayAuthPolicy memClient plainMeta samplePolicyReconciler None False [] ''gws'' ''gw'' ?s1
          = (Ok False, others memClient ?s1)"
  proof (rule gateway_policy_settles)
    show "getKuadrantAuthPolicy memClient ''gws'' (gatewayAuthPolicyName samplePolicyReconciler ''gws'' ''gw'') ?s1
        = Inr sampleGatewayPolicy"
      by (simp add: memClient_def findAt_def isAt_def sampleGatewayPolicy_def gatewayPolicyMeta_def)
    show "NestedMap (accessors plainMeta) (u_Object sampleGatewayPolicy) [''spec''] = Some ?spec"
      by (simp add: plainMeta_def walkApi_def sampleGatewayPolicy_def)
    show "covers (throughJSON (JObj ?spec)) (throughJSON (JObj ?spec))"
      by (intro covers_refl canonical_throughJSON)
    show "SetNestedMap plainMeta (u_Object sampleGatewayPolicy) ?spec [''spec'']
        = Inr (AList.update ''spec'' (JObj ?spec) (u_Object sampleGatewayPolicy))"
      by (simp add: plainMeta_def)
    show "getGateway memClient ''gws'' ''gw'' (others memClient ?s1) = Inr sampleGateway"
      by (simp add: memClient_def gatewayOnly_def)
  qed
  with gateway_policy_created show ?thesis by (auto simp: memClient_def)
qed

text \<open>
  A cluster in which every gateway but the one of the tenant has an AuthPolicy in force; its own was accepted
  and is not enforced yet.
\<close>

definition statedPolicy :: "string \<Rightarrow> string \<Rightarrow> string \<Rightarrow> uobj" where
  "statedPolicy ns name enforced =
     \<lparr>u_meta = sampleMeta ns name,
      u_Object = [(''status'', JObj [(''observedGeneration'', JInt 1),
        (''conditions'', JArr [JObj [(''type'', JStr ''Accepted''), (''status'', JStr ''True'')],
           JObj [(''type'', JStr ''Enforced''), (''status'', JStr enforced)]])])]\<rparr>"

definition freshClient :: "cluster client" where
  "freshClient = memClient
     \<lparr>getGateway := (\<lambda>ns n s. Inr sampleGateway),
      getKuadrantAuthPolicy := (\<lambda>ns n s. Inr (statedPolicy ns n (if ns = ''gws'' then ''False'' else ''True''))),
      getMaasTenantConfig := (\<lambda>ns n s. Inl (ErrNotFound n)),
      getLegacyTenant := (\<lambda>ns n s. Inl (ErrNotFound n))\<rparr>"

definition freshPolicies :: cluster where
  "freshPolicies = emptyCluster
     \<lparr>cl_policies := [samplePolicyCR ''maas'' ''p'' [\<lparr>mref_Name = ''m1'', mref_Namespace = ''llm''\<rparr>]]\<rparr>"

lemma fresh_gateway:
  "fetchGatewayInfo freshClient samplePolicyReconciler ''maas'' s = Inr (gns, gn) \<longleftrightarrow> gns = ''gws'' \<and> gn = ''gw''"
  by (auto simp: fetchGatewayInfo_def fetchTenantPlatformContext_def fetchTenantForNamespace_def freshClient_def IsNotFound_def
      IsNoMatchError_def samplePolicyReconciler_def fallbackTenantGatewayRef_def)

lemma fresh_waiting: "\<not> policyInForce freshClient plainMeta samplePolicyReconciler ''gws'' gn s"
  by (auto simp: policyInForce_def freshClient_def statedPolicy_def plainMeta_def walkApi_def reportsTrue_def stringOf_def fieldAs_def)

theorem enforced_before_active_witness:
  "policyInForce freshClient plainMeta samplePolicyReconciler ''elsewhere'' ''gw'' freshPolicies
    \<and> list_all waitingOp (snd (snd (AP_Reconcile (logged freshClient) plainMeta samplePolicyReconciler (''maas'', ''p'')
     (freshPolicies, []))))"
proof (intro conjI enforced_before_active)
  show "policyInForce freshClient plainMeta samplePolicyReconciler ''elsewhere'' ''gw'' freshPolicies"
    by (simp add: policyInForce_def freshClient_def statedPolicy_def sampleMeta_def isManaged_def plainMeta_def walkApi_def
        reportsTrue_def stringOf_def fieldAs_def)
  show "getAuthPolicy freshClient (fst (''maas'', ''p'')) (snd (''maas'', ''p'')) freshPolicies =
      Inr (samplePolicyCR ''maas'' ''p'' [\<lparr>mref_Name = ''m1'', mref_Namespace = ''llm''\<rparr>])"
    by (simp add: freshClient_def memClient_def findAt_def isAt_def freshPolicies_def samplePolicyCR_def sampleMeta_def)
  show "\<forall>s s' gns gn. fetchGatewayInfo freshClient samplePolicyReconciler (fst (''maas'', ''p'')) s' = Inr (gns, gn) \<longrightarrow>
      \<not> policyInForce freshClient plainMeta samplePolicyReconciler gns gn s \<and> (\<exists>g. getGateway freshClient gns gn s = Inr g)"
    by (simp add: fresh_gateway fresh_waiting) (simp add: freshClient_def)
  show "\<forall>s s' t gns gn. fetchTenantIdentifier freshClient (fst (''maas'', ''p'')) s = Inr t \<longrightarrow>
      fetchGatewayInfo freshClient samplePolicyReconciler (fst (''maas'', ''p'')) s' = Inr (gns, gn) \<longrightarrow>
      t = [] \<or> \<not> onDefaultGateway samplePolicyReconciler gns gn"
    by (simp add: fetchTenantIdentifier_def fetchTenantForNamespace_def freshClient_def IsNotFound_def)
qed (simp_all add: samplePolicyCR_def sampleMeta_def)

theorem decisions_outlive_no_metadata_witness:
  "\<exists>d m. d \<in> set (cacheTTLs (authorizationRules samplePolicyReconciler None True))
     \<and> m \<in> set (cacheTTLs (metadataRules samplePolicyReconciler True ''red'')) \<and> 0 \<le> d \<and> d \<le> m
     \<and> m < apr_AuthzCacheTTL samplePolicyReconciler"
proof -
  have "ValidateCacheTTLs samplePolicyReconciler = None"
    and "60 \<in> set (cacheTTLs (authorizationRules samplePolicyReconciler None True))"
    and "60 \<in> set (cacheTTLs (metadataRules samplePolicyReconciler True ''red''))"
    by (simp_all add: authorization_TTLs metadata_TTLs authzCacheTTL_def ValidateCacheTTLs_def samplePolicyReconciler_def)
  moreover from this have "0 \<le> (60::int) \<and> 60 \<le> (60::int)" by (rule decisions_outlive_no_metadata)
  moreover have "60 < apr_AuthzCacheTTL samplePolicyReconciler" by (simp add: samplePolicyReconciler_def)
  ultimately show ?thesis by blast
qed

text \<open>A foreign policy on the route of the sample model.\<close>

definition roguePolicy :: uobj where
  "roguePolicy = \<lparr>u_meta = sampleMeta ''llm'' ''rogue'',
     u_Object = [(''spec'', JObj [(''targetRef'', JObj [(''group'', JStr ''gateway.networking.k8s.io''),
       (''kind'', JStr ''HTTPRoute''), (''name'', JStr ''maas-m1'')])])]\<rparr>"

definition rogueCluster :: cluster where
  "rogueCluster = (sampleAt (sampleLive []))\<lparr>cl_auth := [roguePolicy]\<rparr>"

definition roguePolicyCR :: MaaSAuthPolicy where
  "roguePolicyCR = samplePolicyCR ''maas'' ''p'' [\<lparr>mref_Name = ''m1'', mref_Namespace = ''llm''\<rparr>]"

lemma rogue_route: "findHTTPRouteForModel memClient walkApi ''llm'' ''m1'' rogueCluster = Inr (''maas-m1'', ''llm'')"
  by (simp add: findHTTPRouteForModel_def GetRouteResolver_def backendOf_def sampleAt_def rogueCluster_def
    externalHTTPRouteForModel_def getHTTPRoute_def mem_defs sample_defs ExternalModelResourceName_def
    externalModelResourcePrefix_def kubernetesNameMaxLength_def IsNotFound_def)

lemma rogue_listed: "listKuadrantAuthPolicies memClient (Some ''llm'') [] rogueCluster = Inr [roguePolicy]"
  by (simp add: memClient_def listIn_def rogueCluster_def roguePolicy_def sampleMeta_def)

lemma rogue_foreign: "foreignOnRoute walkApi ''maas-m1'' roguePolicy"
  by (simp add: foreignOnRoute_def walkApi_def roguePolicy_def sampleMeta_def annotation_def orEmpty_def)

theorem conflicts_exact_witness:
  "\<exists>xs. detectConflictingAuthPolicies memClient walkApi roguePolicyCR rogueCluster = Inr xs
        \<and> conflictKey ` set xs = {''llm/rogue''}"
proof -
  have "\<exists>xs. detectConflictingAuthPolicies memClient walkApi roguePolicyCR rogueCluster = Inr xs"
    by (simp add: detectConflictingAuthPolicies_def roguePolicyCR_def samplePolicyCR_def rogue_route
        findConflictsForHTTPRoute_def rogue_listed)
  then obtain xs where xs: "detectConflictingAuthPolicies memClient walkApi roguePolicyCR rogueCluster = Inr xs" ..
  moreover have "foreignKeys memClient walkApi (as_ModelRefs (ma_Spec roguePolicyCR)) rogueCluster = {''llm/rogue''}"
    by (simp add: foreignKeys_def foreignOf_def roguePolicyCR_def samplePolicyCR_def rogue_route rogue_listed rogue_foreign)
       (simp add: roguePolicy_def sampleMeta_def)
  ultimately show ?thesis using conflicts_exact [OF xs] by auto
qed

text \<open>
  A policy that reported no conflict, on a route that now has one: the condition turns to \<open>True\<close>, and
  no event is recorded.
\<close>

definition calmPolicyCR :: MaaSAuthPolicy where
  "calmPolicyCR = roguePolicyCR\<lparr>ma_Status := \<lparr>ast_Phase = ''Active'', ast_Conditions = [conflictCondition [] 1],
     ast_AuthPolicies = []\<rparr>\<rparr>"

theorem conflict_events_only_once_witness:
  "FindStatusCondition plainMeta (ast_Conditions (ma_Status calmPolicyCR)) ConditionConflictingAuthPolicy
     = Some (conflictCondition [] 1)
   \<and> foreignKeys memClient walkApi (as_ModelRefs (ma_Spec calmPolicyCR)) rogueCluster \<noteq> {}
   \<and> list_all (\<lambda>x. \<not> isEvent x)
       (snd (snd (finishPolicy (logged memClient) plainMeta samplePolicyReconciler calmPolicyCR [] (rogueCluster, []))))"
proof (intro conjI conflict_events_only_once)
  show "FindStatusCondition plainMeta (ast_Conditions (ma_Status calmPolicyCR)) ConditionConflictingAuthPolicy
     = Some (conflictCondition [] 1)"
    by (simp add: plainMeta_def calmPolicyCR_def conflictCondition_def)
  then show "FindStatusCondition plainMeta (ast_Conditions (ma_Status calmPolicyCR)) ConditionConflictingAuthPolicy
     = Some (conflictCondition [] 1)" .
  show "foreignKeys memClient walkApi (as_ModelRefs (ma_Spec calmPolicyCR)) rogueCluster \<noteq> {}"
    by (simp add: foreignKeys_def foreignOf_def calmPolicyCR_def roguePolicyCR_def samplePolicyCR_def rogue_route
        rogue_listed rogue_foreign)
qed

end
