(* ===== verification/GatewayLabels.thy ===== *)
theory GatewayLabels
  imports ControllerTypes TokenHeaders GoText "HOL-Library.AList"
begin

text \<open>
  The labels of the shared infrastructure namespace that hardened gateways ask for
  (\<open>pkg/controller/maas/aitenant_controller.go\<close>): which labels a gateway wants, how the controller
  applies them and takes them back, and the annotation that records which gateway owns which
  label.
\<close>

section \<open>The annotation\<close>

text \<open>
  \<open>map[string][]string\<close>, whose slices may be nil. \<open>json.Unmarshal\<close> accepts an object whose values are
  arrays of strings or \<open>null\<close>; \<open>null\<close> for the whole leaves the map nil. A later member of the same key
  replaces an earlier one.
\<close>

type_synonym ownership = "(string \<times> string list option) list"

definition jsonStringList :: "string \<Rightarrow> (string list option \<times> string) option" where
  "jsonStringList s =
     (if take 4 s = ''null'' then Some (None, drop 4 s)
      else
        (case s of
           [] \<Rightarrow> None
         | c # rest \<Rightarrow>
             if c \<noteq> CHR ''['' then None
             else
               (case skipSpace rest of
                  [] \<Rightarrow> None
                | d # rest' \<Rightarrow>
                    if d = CHR '']'' then Some (Some [], rest')
                    else map_option (\<lambda>(es, r). (Some es, r)) (jsonElements (length s) rest))))"

fun jsonMembers :: "nat \<Rightarrow> string \<Rightarrow> (ownership \<times> string) option" where
  "jsonMembers 0 s = None"
| "jsonMembers (Suc n) s =
     (case skipSpace s of
        [] \<Rightarrow> None
      | q # s1 \<Rightarrow>
          if q \<noteq> CHR 0x22 then None
          else
            (case jsonString s1 of
               None \<Rightarrow> None
             | Some (key, s2) \<Rightarrow>
                 (case skipSpace s2 of
                    [] \<Rightarrow> None
                  | c # s3 \<Rightarrow>
                      if c \<noteq> CHR '':'' then None
                      else
                        (case jsonStringList (skipSpace s3) of
                           None \<Rightarrow> None
                         | Some (v, s4) \<Rightarrow>
                             (case skipSpace s4 of
                                [] \<Rightarrow> None
                              | d # s5 \<Rightarrow>
                                  if d = CHR ''}'' then Some ([(key, v)], s5)
                                  else if d = CHR '','' then
                                    map_option (\<lambda>(ms, r). ((key, v) # ms, r)) (jsonMembers n s5)
                                  else None)))))"

definition unmarshalOwnership :: "string \<Rightarrow> ownership option option" where
  "unmarshalOwnership s =
     (case skipSpace s of
        [] \<Rightarrow> None
      | c # rest \<Rightarrow>
          if c = CHR ''{'' then
            (case skipSpace rest of
               [] \<Rightarrow> None
             | d # rest' \<Rightarrow>
                 if d = CHR ''}'' then (if skipSpace rest' = [] then Some (Some []) else None)
                 else
                   (case jsonMembers (length s) rest of
                      None \<Rightarrow> None
                    | Some (ms, r) \<Rightarrow>
                        if skipSpace r = [] then
                          Some (Some (foldl (\<lambda>m (k, v). AList.update k v m) [] ms))
                        else None))
          else if take 4 (c # rest) = ''null'' \<and> skipSpace (drop 4 (c # rest)) = [] then Some None
          else None)"

text \<open>\<open>json.Marshal\<close>: keys in order, strings escaped with the characters of HTML among them.\<close>

definition uEscape :: "nat \<Rightarrow> string" where
  "uEscape n = [CHR 0x5C, CHR ''u'', CHR ''0'', CHR ''0'', hexNibble (n div 16), hexNibble (n mod 16)]"

fun jsonEscape :: "nat \<Rightarrow> string \<Rightarrow> string" where
  "jsonEscape 0 s = []"
| "jsonEscape (Suc n) [] = []"
| "jsonEscape (Suc n) (c # s) =
     (let b = (of_char c :: nat); esc = (\<lambda>x. [CHR 0x5C, x]); w = runeWidth (c # s)
      in if b < 0x80 then
           (if b = 0x22 \<or> b = 0x5C then esc c
            else if b = 8 then esc CHR ''b'' else if b = 12 then esc CHR ''f''
            else if b = 10 then esc CHR ''n'' else if b = 13 then esc CHR ''r''
            else if b = 9 then esc CHR ''t''
            else if b < 0x20 \<or> c = CHR ''<'' \<or> c = CHR ''>'' \<or> c = CHR ''&'' then uEscape b
            else [c]) @ jsonEscape n s
         else if w = 1 then [CHR 0x5C] @ ''ufffd'' @ jsonEscape n s
         else if take 3 (c # s) = [CHR 0xE2, CHR 0x80, CHR 0xA8] then [CHR 0x5C] @ ''u2028'' @ jsonEscape n (drop 2 s)
         else if take 3 (c # s) = [CHR 0xE2, CHR 0x80, CHR 0xA9] then [CHR 0x5C] @ ''u2029'' @ jsonEscape n (drop 2 s)
         else take w (c # s) @ jsonEscape n (drop (w - 1) s))"

definition jsonQuote :: "string \<Rightarrow> string" where
  "jsonQuote s = CHR 0x22 # jsonEscape (length s) s @ [CHR 0x22]"

definition marshalStrings :: "string list option \<Rightarrow> string" where
  "marshalStrings v =
     (case v of None \<Rightarrow> ''null'' | Some xs \<Rightarrow> ''['' @ Join (map jsonQuote xs) '','' @ '']'')"

definition marshalOwnership :: "ownership \<Rightarrow> string" where
  "marshalOwnership m =
     ''{'' @ Join (map (\<lambda>(k, v). jsonQuote k @ '':'' @ marshalStrings v) (sort_key fst m)) '','' @ ''}''"

definition parseOwnershipAnnotation :: "string \<Rightarrow> ownership option option" where
  "parseOwnershipAnnotation raw = (if raw = [] then Some (Some []) else unmarshalOwnership raw)"

section \<open>The labels a gateway wants\<close>

fun unionLabels :: "Gateway \<Rightarrow> string \<Rightarrow> labels \<Rightarrow> labels \<Rightarrow> labels ctl" where
  "unionLabels gw listener desired [] = Ok desired"
| "unionLabels gw listener desired ((k, v) # kvs) =
     (case map_of desired k of
        Some existing \<Rightarrow>
          if existing \<noteq> v then
            Err (CtlErr OtherErr (''gateway '' @ gw_Namespace gw @ ''/'' @ gw_Name gw
              @ '' has conflicting namespace selector values for label '' @ Quote k @ '': listener ''
              @ Quote listener @ '' wants '' @ Quote v @ '' but another listener wants '' @ Quote existing))
          else unionLabels gw listener desired kvs
      | None \<Rightarrow> unionLabels gw listener (AList.update k v desired) kvs)"

fun listenerLabels :: "Gateway \<Rightarrow> labels \<Rightarrow> ListenerSelector list \<Rightarrow> labels ctl" where
  "listenerLabels gw desired [] = Ok desired"
| "listenerLabels gw desired (l # ls) =
     (if ls_From l \<noteq> Some ''Selector'' then listenerLabels gw desired ls
      else
        (case ls_MatchLabels l of
           None \<Rightarrow> listenerLabels gw desired ls
         | Some sel \<Rightarrow>
             (case unionLabels gw (ls_Name l) desired sel of
                Inl e \<Rightarrow> Err e
              | Inr desired' \<Rightarrow> listenerLabels gw desired' ls)))"

definition gatewayDesiredLabels :: "Gateway \<Rightarrow> labels ctl" where
  "gatewayDesiredLabels gw = listenerLabels gw [] (gw_Listeners gw)"

section \<open>Applying them\<close>

text \<open>\<open>ownership[k]\<close> as a list: absent and nil read as empty.\<close>

definition owners :: "ownership \<Rightarrow> string \<Rightarrow> string list" where
  "owners m k = (case map_of m k of Some (Some gs) \<Rightarrow> gs | _ \<Rightarrow> [])"

fun labelConflict :: "string \<Rightarrow> string \<Rightarrow> labels \<Rightarrow> ownership \<Rightarrow> labels \<Rightarrow> ctl_error option" where
  "labelConflict infra g lbls own [] = None"
| "labelConflict infra g lbls own ((k, v) # desired) =
     (case map_of lbls k of
        None \<Rightarrow> labelConflict infra g lbls own desired
      | Some existing \<Rightarrow>
          if existing = v then labelConflict infra g lbls own desired
          else
            (case owners own k of
               [] \<Rightarrow>
                 Some (CtlErr OtherErr (''label '' @ Quote k @ '' on infra namespace '' @ infra
                   @ '' already has value '' @ Quote existing @ '' set outside the controller; gateway ''
                   @ Quote g @ '' wants '' @ Quote v @ '' '' @ emDash @ '' resolve manually''))
             | o1 # os \<Rightarrow>
                 if os \<noteq> [] \<or> o1 \<noteq> g then
                   Some (CtlErr OtherErr (''conflicting gateway label '' @ Quote k @ '' on infra namespace ''
                     @ infra @ '': owned by gateway '' @ Quote (if o1 = g \<and> os \<noteq> [] then hd os else o1)
                     @ '' (value '' @ Quote existing @ '') but gateway '' @ Quote g @ '' wants '' @ Quote v))
                 else labelConflict infra g lbls own desired))"

definition staleKeys :: "string \<Rightarrow> labels \<Rightarrow> ownership \<Rightarrow> string list" where
  "staleKeys g desired own =
     filter (\<lambda>k. g \<in> set (owners own k) \<and> map_of desired k = None) (map fst own)"

definition addOwner :: "string \<Rightarrow> ownership \<Rightarrow> string \<Rightarrow> ownership" where
  "addOwner g own k =
     (if g \<in> set (owners own k) then own else AList.update k (Some (owners own k @ [g])) own)"

definition dropOwner :: "string \<Rightarrow> labels \<times> ownership \<Rightarrow> string \<Rightarrow> labels \<times> ownership" where
  "dropOwner g st k =
     (case st of (lbls, own) \<Rightarrow>
        let rest = filter (\<lambda>x. x \<noteq> g) (owners own k)
        in if rest = [] then (AList.delete k lbls, AList.delete k own)
           else (lbls, AList.update k (Some rest) own))"

text \<open>
  The pure part of \<open>ensureInfraNamespaceGatewayLabels\<close>: an error, nothing to do, or the new labels and
  owners. A write into a nil map panics.
\<close>

definition planGatewayLabels ::
  "string \<Rightarrow> string \<Rightarrow> labels \<Rightarrow> labels \<Rightarrow> ownership option \<Rightarrow> ((labels \<times> ownership) option) ctl" where
  "planGatewayLabels infra g desired lbls parsed =
     (let own = (case parsed of None \<Rightarrow> [] | Some m \<Rightarrow> m);
          stale = staleKeys g desired own;
          needsPatch = (stale \<noteq> [] \<or> list_ex (\<lambda>(k, v). annotation lbls k \<noteq> v) desired);
          ownershipChanged = list_ex (\<lambda>(k, v). g \<notin> set (owners own k)) desired
      in case labelConflict infra g lbls own desired of
           Some e \<Rightarrow> Err e
         | None \<Rightarrow>
             if \<not> needsPatch \<and> \<not> ownershipChanged then Ok None
             else if parsed = None \<and> desired \<noteq> [] then
               Err (CtlErr GoPanic ''panic: assignment to entry in nil map'')
             else
               let lbls1 = foldl (\<lambda>m (k, v). AList.update k v m) lbls desired;
                   own1 = foldl (addOwner g) own (map fst desired)
               in Ok (Some (foldl (dropOwner g) (lbls1, own1) stale)))"

text \<open>\<open>cleanupGatewayLabelsOnDelete\<close> on the labels and owners; \<open>None\<close> when there is nothing to do.\<close>

definition unclaimGatewayLabels :: "string \<Rightarrow> labels \<Rightarrow> ownership \<Rightarrow> (labels \<times> ownership) option" where
  "unclaimGatewayLabels g lbls own =
     (let mine = filter (\<lambda>k. g \<in> set (owners own k)) (map fst own);
          sole = filter (\<lambda>k. length (owners own k) = 1) mine;
          shared = filter (\<lambda>k. length (owners own k) \<noteq> 1) mine
      in if mine = [] then None
         else
           Some (foldl (\<lambda>m k. AList.delete k m) lbls sole,
                 foldl (\<lambda>m k. AList.update k (Some (filter (\<lambda>x. x \<noteq> g) (owners m k))) m)
                   (foldl (\<lambda>m k. AList.delete k m) own sole) shared))"

text \<open>The annotation that is written back; an empty map takes it away.\<close>

definition ownershipAnnotation :: "string \<Rightarrow> ownership \<Rightarrow> labels \<Rightarrow> labels" where
  "ownershipAnnotation key own anns =
     (if own = [] then AList.delete key anns else AList.update key (marshalOwnership own) anns)"


section \<open>Plans by lookup\<close>

text \<open>
  What a plan does to the label and the owners of one key. The folds of the model become case
  distinctions, over which the properties are proved.
\<close>

lemma map_of_foldl_update:
  "map_of (foldl (\<lambda>m (k, v). AList.update k v m) m kvs) =
     map_of m ++ map_of (rev kvs)"
  by (induction kvs arbitrary: m) (auto simp: update_conv' map_add_assoc [symmetric] split: prod.splits intro!: ext)

lemma owners_update [simp]:
  "owners (AList.update k (Some gs) m) k' = (if k' = k then gs else owners m k')"
  by (auto simp: owners_def update_conv')

lemma owners_delete [simp]: "owners (AList.delete k m) k' = (if k' = k then [] else owners m k')"
  by (auto simp: owners_def delete_conv')

lemma owners_Nil [simp]: "owners [] k = []"
  by (simp add: owners_def)

lemma owners_key: "g \<in> set (owners m k) \<Longrightarrow> k \<in> fst ` set m"
  by (auto simp: owners_def split: option.splits) (metis domI dom_map_of_conv_image_fst)

lemma owners_foldl_addOwner:
  "owners (foldl (addOwner g) own ks) k =
     (if k \<in> set ks \<and> g \<notin> set (owners own k) then owners own k @ [g] else owners own k)"
  by (induction ks arbitrary: own) (auto simp: addOwner_def)

lemma dropOwner_owners: "owners (snd (dropOwner g (l, m) k')) k =
    (if k = k' then filter (\<lambda>x. x \<noteq> g) (owners m k) else owners m k)"
  by (auto simp: dropOwner_def Let_def)

lemma dropOwner_label: "map_of (fst (dropOwner g (l, m) k')) k =
    (if k = k' \<and> filter (\<lambda>x. x \<noteq> g) (owners m k) = [] then None else map_of l k)"
  by (auto simp: dropOwner_def Let_def delete_conv')

lemma foldl_dropOwner_owners:
  "owners (snd (foldl (dropOwner g) st ks)) k =
     (if k \<in> set ks then filter (\<lambda>x. x \<noteq> g) (owners (snd st) k) else owners (snd st) k)"
  by (induction ks arbitrary: st) (auto simp: dropOwner_owners split: prod.splits)

lemma foldl_dropOwner_label:
  "map_of (fst (foldl (dropOwner g) st ks)) k =
     (if k \<in> set ks \<and> filter (\<lambda>x. x \<noteq> g) (owners (snd st) k) = [] then None
      else map_of (fst st) k)"
proof (induction ks arbitrary: st)
  case (Cons k' ks)
  obtain l m where "st = (l, m)" by (cases st)
  then show ?case
    using Cons.IH [of "dropOwner g (l, m) k'"]
    by (auto simp: dropOwner_owners dropOwner_label)
qed simp

lemma staleKeys_iff: "k \<in> set (staleKeys g desired own) \<longleftrightarrow> g \<in> set (owners own k) \<and> map_of desired k = None"
  using owners_key [of g own k] by (auto simp: staleKeys_def)

lemma labelConflict_None:
  "labelConflict infra g l own desired = None \<Longrightarrow> (k, v) \<in> set desired \<Longrightarrow>
    map_of l k = None \<or> map_of l k = Some v \<or> owners own k = [g]"
  by (induction desired) (auto split: option.splits list.splits if_splits)

text \<open>A plan that writes, key by key; \<open>parsed\<close> is the annotation as it was read.\<close>

abbreviation ownersOf :: "ownership option \<Rightarrow> string \<Rightarrow> string list" where
  "ownersOf parsed \<equiv> owners (case parsed of None \<Rightarrow> [] | Some m \<Rightarrow> m)"

lemma plan_lookup:
  assumes "planGatewayLabels infra g desired l parsed = Ok (Some (l', m'))"
    and "distinct (map fst desired)"
  shows "owners m' k =
      (if map_of desired k = None then filter (\<lambda>x. x \<noteq> g) (ownersOf parsed k)
       else if g \<in> set (ownersOf parsed k) then ownersOf parsed k else ownersOf parsed k @ [g])"
    and "map_of l' k =
      (case map_of desired k of
         Some v \<Rightarrow> Some v
       | None \<Rightarrow>
           if g \<in> set (ownersOf parsed k) \<and> filter (\<lambda>x. x \<noteq> g) (ownersOf parsed k) = [] then None
           else map_of l k)"
proof -
  let ?own = "case parsed of None \<Rightarrow> [] | Some m \<Rightarrow> m"
  let ?stale = "staleKeys g desired ?own"
  have eq: "(l', m') = foldl (dropOwner g)
      (foldl (\<lambda>m (k, v). AList.update k v m) l desired, foldl (addOwner g) ?own (map fst desired)) ?stale"
    using assms(1) by (simp add: planGatewayLabels_def Let_def split: option.splits if_splits)
  have key: "k \<in> set (map fst desired) \<longleftrightarrow> map_of desired k \<noteq> None"
    by (simp add: map_of_eq_None_iff)
  have keep: "filter (\<lambda>x. x \<noteq> g) gs = gs" if "g \<notin> set gs" for gs
    using that by (auto simp: filter_id_conv)
  show "owners m' k =
      (if map_of desired k = None then filter (\<lambda>x. x \<noteq> g) (ownersOf parsed k)
       else if g \<in> set (ownersOf parsed k) then ownersOf parsed k else ownersOf parsed k @ [g])"
    using arg_cong [OF eq, of "\<lambda>st. owners (snd st) k"] key keep [of "ownersOf parsed k"]
    by (auto simp: foldl_dropOwner_owners owners_foldl_addOwner staleKeys_iff)
  have rev: "map_of (rev desired) = map_of desired"
    using assms(2) by (subst map_of_inject_set) (simp_all add: rev_map [symmetric])
  show "map_of l' k =
      (case map_of desired k of
         Some v \<Rightarrow> Some v
       | None \<Rightarrow>
           if g \<in> set (ownersOf parsed k) \<and> filter (\<lambda>x. x \<noteq> g) (ownersOf parsed k) = [] then None
           else map_of l k)"
    using arg_cong [OF eq, of "\<lambda>st. map_of (fst st) k"] key
    by (auto simp: foldl_dropOwner_label owners_foldl_addOwner staleKeys_iff map_of_foldl_update rev
        map_add_def split: option.splits)
qed

lemma unionLabels_distinct:
  "unionLabels gw n d kvs = Ok d' \<Longrightarrow> distinct (map fst d) \<Longrightarrow> distinct (map fst d')"
  by (induction kvs arbitrary: d) (auto simp: distinct_update split: option.splits if_splits prod.splits)

lemma listenerLabels_distinct:
  "listenerLabels gw d ls = Ok d' \<Longrightarrow> distinct (map fst d) \<Longrightarrow> distinct (map fst d')"
  by (induction ls arbitrary: d)
    (auto dest: unionLabels_distinct split: option.splits if_splits sum.splits)

lemma gatewayDesiredLabels_distinct: "gatewayDesiredLabels gw = Ok d \<Longrightarrow> distinct (map fst d)"
  by (auto simp: gatewayDesiredLabels_def dest: listenerLabels_distinct)

lemma foldl_delete_lookup: "map_of (foldl (\<lambda>m k. AList.delete k m) m ks) k = (if k \<in> set ks then None else map_of m k)"
  by (induction ks arbitrary: m) (auto simp: delete_conv')

lemma foldl_disown:
  "owners (foldl (\<lambda>m k. AList.update k (Some (filter (\<lambda>x. x \<noteq> g) (owners m k))) m) m ks) k =
     (if k \<in> set ks then filter (\<lambda>x. x \<noteq> g) (owners m k) else owners m k)"
  by (induction ks arbitrary: m) (auto)

lemma owners_foldl_delete:
  "owners (foldl (\<lambda>m k. AList.delete k m) m ks) k = (if k \<in> set ks then [] else owners m k)"
  by (simp add: owners_def foldl_delete_lookup)

lemma unclaim_lookup:
  assumes "unclaimGatewayLabels g l m = Some (l', m')"
  shows "owners m' k = filter (\<lambda>x. x \<noteq> g) (owners m k)"
    and "map_of l' k = (if owners m k = [g] then None else map_of l k)"
proof -
  let ?mine = "filter (\<lambda>k. g \<in> set (owners m k)) (map fst m)"
  let ?sole = "filter (\<lambda>k. length (owners m k) = 1) ?mine"
  let ?shared = "filter (\<lambda>k. length (owners m k) \<noteq> 1) ?mine"
  have one: "g \<in> set gs \<and> length gs = 1 \<longleftrightarrow> gs = [g]" for gs
    by (cases gs) auto
  have mine: "k \<in> set ?mine \<longleftrightarrow> g \<in> set (owners m k)"
    using owners_key [of g m k] by auto
  then have sole: "k \<in> set ?sole \<longleftrightarrow> owners m k = [g]"
      and shared: "k \<in> set ?shared \<longleftrightarrow> g \<in> set (owners m k) \<and> owners m k \<noteq> [g]"
    using one [of "owners m k"] by auto
  have eq: "l' = foldl (\<lambda>m k. AList.delete k m) l ?sole"
      "m' = foldl (\<lambda>m k. AList.update k (Some (filter (\<lambda>x. x \<noteq> g) (owners m k))) m)
              (foldl (\<lambda>m k. AList.delete k m) m ?sole) ?shared"
    using assms by (simp_all add: unclaimGatewayLabels_def Let_def split: if_splits)
  have same: "filter (\<lambda>x. x \<noteq> g) gs = gs" if "g \<notin> set gs" for gs
    using that by (auto simp: filter_id_conv)
  show "owners m' k = filter (\<lambda>x. x \<noteq> g) (owners m k)"
    unfolding eq foldl_disown owners_foldl_delete sole shared using same [of "owners m k"] by auto
  show "map_of l' k = (if owners m k = [g] then None else map_of l k)"
    unfolding eq foldl_delete_lookup sole ..
qed

lemma unclaim_None: "unclaimGatewayLabels g l m = None \<Longrightarrow> g \<notin> set (owners m k)"
  using owners_key [of g m k]
  by (auto simp: unclaimGatewayLabels_def Let_def filter_empty_conv split: if_splits)

lemma plan_None:
  assumes "planGatewayLabels infra g desired l parsed = Ok None"
  shows "(k, v) \<in> set desired \<Longrightarrow> annotation l k = v \<and> g \<in> set (ownersOf parsed k)"
    and "g \<in> set (ownersOf parsed k) \<Longrightarrow> map_of desired k \<noteq> None"
proof -
  let ?own = "case parsed of None \<Rightarrow> [] | Some m \<Rightarrow> m"
  have *: "staleKeys g desired ?own = []" "\<not> list_ex (\<lambda>(k, v). annotation l k \<noteq> v) desired"
      "\<not> list_ex (\<lambda>(k, v). g \<notin> set (owners ?own k)) desired"
    using assms by (auto simp: planGatewayLabels_def Let_def split: option.splits if_splits)
  from *(2,3) show "(k, v) \<in> set desired \<Longrightarrow> annotation l k = v \<and> g \<in> set (ownersOf parsed k)"
    by (auto simp: list_ex_iff)
  from *(1) show "g \<in> set (ownersOf parsed k) \<Longrightarrow> map_of desired k \<noteq> None"
    using staleKeys_iff [of k g desired ?own] by auto
qed

section \<open>The namespace over time\<close>

text \<open>
  The shared namespace as the reconciles and deletions of many tenants see it, one after the other
  (each write carries the resource version it read). \<open>Applied\<close> is a history variable: the labels
  each gateway wanted when it was last reconciled with success. Anybody may edit labels that the
  annotation does not list.
\<close>

type_synonym label_state = "labels \<times> ownership \<times> (string \<Rightarrow> string \<rightharpoonup> string)"

inductive label_step :: "string \<Rightarrow> label_state \<Rightarrow> label_state \<Rightarrow> bool" for infra :: string where
  reconciled:
    "\<lbrakk>gatewayDesiredLabels gw = Ok desired;
      planGatewayLabels infra (gw_Name gw) desired l (Some m) = Ok (Some (l', m'))\<rbrakk>
     \<Longrightarrow> label_step infra (l, m, a) (l', m', a(gw_Name gw := map_of desired))"
| settled:
    "\<lbrakk>gatewayDesiredLabels gw = Ok desired;
      planGatewayLabels infra (gw_Name gw) desired l (Some m) = Ok None\<rbrakk>
     \<Longrightarrow> label_step infra (l, m, a) (l, m, a(gw_Name gw := map_of desired))"
| deleted:
    "unclaimGatewayLabels g l m = Some (l', m')
     \<Longrightarrow> label_step infra (l, m, a) (l', m', a(g := Map.empty))"
| edited:
    "(\<And>k. owners m k \<noteq> [] \<Longrightarrow> map_of l' k = map_of l k)
     \<Longrightarrow> label_step infra (l, m, a) (l', m, a)"

inductive_cases label_stepE: "label_step infra (l, m, a) st"

inductive label_reach :: "string \<Rightarrow> label_state \<Rightarrow> bool" for infra :: string where
  start: "label_reach infra (l, [], \<lambda>g. Map.empty)"
| step: "label_reach infra st \<Longrightarrow> label_step infra st st' \<Longrightarrow> label_reach infra st'"

text \<open>The owners of a key are the gateways that want it, and it has the value they want.\<close>

fun labels_inv :: "label_state \<Rightarrow> bool" where
  "labels_inv (l, m, a) \<longleftrightarrow>
     (\<forall>g k. (g \<in> set (owners m k) \<longleftrightarrow> a g k \<noteq> None) \<and> (\<forall>v. a g k = Some v \<longrightarrow> map_of l k = Some v))"

lemma labels_inv_reconciled:
  assumes inv: "labels_inv (l, m, a)" and d: "distinct (map fst desired)"
    and plan: "planGatewayLabels infra g desired l (Some m) = Ok (Some (l', m'))"
  shows "labels_inv (l', m', a(g := map_of desired))"
proof -
  have conf: "labelConflict infra g l m desired = None"
    using plan by (auto simp: planGatewayLabels_def Let_def split: option.splits)
  note look = plan_lookup [OF plan d]
  have "map_of l' k = Some v" if "h \<noteq> g" "a h k = Some v" for h k v
  proof -
    have own: "h \<in> set (owners m k)" and val: "map_of l k = Some v"
      using inv that(2) by auto
    then have "owners m k \<noteq> [g]" "filter (\<lambda>x. x \<noteq> g) (owners m k) \<noteq> []"
      using that(1) by (auto simp: filter_empty_conv)
    with val show ?thesis
      using labelConflict_None [OF conf, of k]
      by (auto simp: look(2) split: option.splits dest!: map_of_SomeD)
  qed
  moreover have "map_of l' k = Some v" if "map_of desired k = Some v" for k v
    using that by (simp add: look(2))
  moreover have "h \<in> set (owners m' k) \<longleftrightarrow> (a(g := map_of desired)) h k \<noteq> None" for h k
    using inv by (auto simp: look(1))
  ultimately show ?thesis by auto
qed

lemma labels_inv_step: "label_step infra st st' \<Longrightarrow> labels_inv st \<Longrightarrow> labels_inv st'"
proof (induction rule: label_step.induct)
  case (reconciled gw desired l m l' m' a)
  then show ?case by (blast intro: labels_inv_reconciled gatewayDesiredLabels_distinct)
next
  case (settled gw desired l m a)
  note none = plan_None [OF settled(2), simplified]
  have "map_of l k = Some v" if "map_of desired k = Some v" for k v
  proof -
    have "annotation l k = v" "gw_Name gw \<in> set (owners m k)"
      using none(1) [OF map_of_SomeD [OF that]] by simp_all
    then show ?thesis using settled(3) by (fastforce simp: annotation_def split: option.splits)
  qed
  moreover have "gw_Name gw \<in> set (owners m k) \<longleftrightarrow> map_of desired k \<noteq> None" for k
    using none(1) [of k] none(2) [of k] by (auto dest: map_of_SomeD)
  ultimately show ?case using settled(3) by auto
next
  case (deleted g l m l' m' a)
  have "map_of l' k = Some v" if "h \<noteq> g" "a h k = Some v" for h k v
    using that deleted(2) by (fastforce simp: unclaim_lookup [OF deleted(1)])
  then show ?case using deleted(2) by (auto simp: unclaim_lookup [OF deleted(1)])
next
  case (edited m l' l a)
  have "map_of l' k = map_of l k" if "a h k = Some v" for h k v
    using edited that by (metis labels_inv.simps empty_iff list.set(1) option.distinct(1))
  then show ?case using edited(2) by auto
qed

lemma labels_inv_reach: "label_reach infra st \<Longrightarrow> labels_inv st"
  by (induction rule: label_reach.induct) (auto intro: labels_inv_step)

section \<open>The annotation is read back\<close>

text \<open>Names of gateways and keys of labels consist of characters that JSON leaves as they are.\<close>

definition safeChar :: "char \<Rightarrow> bool" where
  "safeChar c \<longleftrightarrow> plainChar c \<and> c \<notin> {CHR ''<'', CHR ''>'', CHR ''&''}"

abbreviation plainName :: "string \<Rightarrow> bool" where
  "plainName s \<equiv> list_all safeChar s"

lemma safeChar_code: "safeChar c \<Longrightarrow> 0x20 < (of_char c :: nat) \<and> (of_char c :: nat) < 0x7F \<and> (of_char c :: nat) \<noteq> 0x22 \<and> (of_char c :: nat) \<noteq> 0x5C"
  using of_char_eq_iff [of c "CHR 0x22", where ?'a = nat] of_char_eq_iff [of c "CHR 0x5C", where ?'a = nat]
  by (auto simp: safeChar_def plainChar_def byteIn_def)

lemma jsonEscape_plain: "plainName s \<Longrightarrow> length s \<le> n \<Longrightarrow> jsonEscape n s = s"
proof (induction s arbitrary: n)
  case Nil
  then show ?case by (cases n) simp_all
next
  case (Cons c s)
  then obtain n' where n: "n = Suc n'" by (cases n) simp_all
  have "safeChar c" using Cons.prems(1) by simp
  from safeChar_code [OF this] this Cons n show ?case
    by (simp add: Let_def safeChar_def)
qed

lemma jsonQuote_plain: "plainName s \<Longrightarrow> jsonQuote s = CHR 0x22 # s @ [CHR 0x22]"
  by (simp add: jsonQuote_def jsonEscape_plain)

lemma jsonString_name: "plainName s \<Longrightarrow> jsonString (s @ CHR 0x22 # r) = Some (s, r)"
  by (rule jsonString_plain) (simp add: list_all_iff safeChar_def)

lemma length_Join: "list_all (\<lambda>x. x \<noteq> []) xs \<Longrightarrow> length xs \<le> length (Join xs sep)"
  by (induction xs sep rule: Join.induct) (auto simp: neq_Nil_conv)

lemma jsonElements_names:
  "gs \<noteq> [] \<Longrightarrow> list_all plainName gs \<Longrightarrow> length gs \<le> n \<Longrightarrow>
    jsonElements n (Join (map jsonQuote gs) '','' @ CHR '']'' # r) = Some (gs, r)"
proof (induction gs arbitrary: n)
  case (Cons g gs)
  then obtain n' where n: "n = Suc n'" by (cases n) simp_all
  show ?case
    using Cons n by (cases "gs = []") (auto simp: Join_Cons jsonQuote_plain jsonElement_def jsonString_name)
qed simp

lemma jsonStringList_marshal:
  assumes "\<forall>gs. v = Some gs \<longrightarrow> list_all plainName gs"
  shows "jsonStringList (marshalStrings v @ r) = Some (v, r)"
proof (cases v)
  case (Some gs)
  show ?thesis
  proof (cases gs)
    case Nil
    then show ?thesis using Some by (simp add: jsonStringList_def marshalStrings_def)
  next
    case (Cons g gs')
    have len: "length gs \<le> length (Join (map jsonQuote gs) '','')"
      using length_Join [of "map jsonQuote gs"] by (simp add: list_all_iff jsonQuote_def)
    have "jsonElements n (Join (map jsonQuote gs) '','' @ CHR '']'' # r) = Some (gs, r)"
      if "length gs \<le> n" for n
      using that assms Some Cons by (intro jsonElements_names) auto
    moreover have "\<exists>t. Join (map jsonQuote gs) '','' = CHR 0x22 # t"
      using Cons by (cases gs') (auto simp: jsonQuote_def)
    ultimately show ?thesis
      using Some len by (auto simp: jsonStringList_def marshalStrings_def simp del: jsonElements.simps(2))
  qed
qed (simp add: jsonStringList_def marshalStrings_def)

definition plainOwnership :: "ownership \<Rightarrow> bool" where
  "plainOwnership m \<longleftrightarrow>
     list_all (\<lambda>(k, v). plainName k \<and> (case v of None \<Rightarrow> True | Some gs \<Rightarrow> list_all plainName gs)) m"

lemma not_jsonSpace_names [simp]: "\<not> jsonSpace CHR '':''" "\<not> jsonSpace CHR ''}''" "\<not> jsonSpace CHR ''{''" "\<not> jsonSpace CHR ''n''"
  by (simp_all add: jsonSpace_def)

lemma skipSpace_marshalStrings [simp]: "skipSpace (marshalStrings v @ r) = marshalStrings v @ r"
  by (cases v) (simp_all add: marshalStrings_def)

lemma jsonMembers_marshal:
  "m \<noteq> [] \<Longrightarrow> plainOwnership m \<Longrightarrow> length m \<le> n \<Longrightarrow>
    jsonMembers n (Join (map (\<lambda>(k, v). jsonQuote k @ '':'' @ marshalStrings v) m) '','' @ ''}'') = Some (m, [])"
proof (induction m arbitrary: n)
  case (Cons kv m)
  then obtain n' where n: "n = Suc n'" by (cases n) simp_all
  obtain k v where kv: "kv = (k, v)" by (cases kv)
  have v: "jsonStringList (marshalStrings v @ r) = Some (v, r)" for r
    using Cons.prems(2) kv by (intro jsonStringList_marshal) (auto simp: plainOwnership_def)
  show ?case
  proof (cases "m = []")
    case True
    then show ?thesis
      using Cons.prems kv n v by (simp add: plainOwnership_def jsonQuote_plain jsonString_name)
  next
    case False
    then have "jsonMembers n' (Join (map (\<lambda>(k, v). jsonQuote k @ '':'' @ marshalStrings v) m) '','' @ ''}'') = Some (m, [])"
      using Cons n by (simp add: plainOwnership_def)
    then show ?thesis
      using Cons.prems kv n v False by (simp add: plainOwnership_def jsonQuote_plain jsonString_name Join_Cons)
  qed
qed simp

lemma foldl_update_fresh:
  "distinct (map fst (acc @ m)) \<Longrightarrow> foldl (\<lambda>m (k, v). AList.update k v m) acc m = acc @ m"
proof (induction m arbitrary: acc)
  case (Cons kv m)
  obtain k v where kv: "kv = (k, v)" by (cases kv)
  have "AList.update k v acc = acc @ [(k, v)]" if "k \<notin> fst ` set acc"
    using that by (induction acc) auto
  then show ?case using Cons kv by auto
qed simp

lemma unmarshal_marshal:
  assumes "plainOwnership m" "distinct (map fst m)"
  shows "unmarshalOwnership (marshalOwnership m) = Some (Some (sort_key fst m))"
proof (cases m)
  case Nil
  then show ?thesis by (simp add: unmarshalOwnership_def marshalOwnership_def)
next
  case (Cons kv m')
  let ?m = "sort_key fst m"
  let ?t = "Join (map (\<lambda>(k, v). jsonQuote k @ '':'' @ marshalStrings v) ?m) '',''"
  have m: "?m \<noteq> []" "plainOwnership ?m" "distinct (map fst ?m)"
  proof -
    show "?m \<noteq> []" using Cons by (metis list.discI set_empty set_sort)
  qed (use assms in \<open>simp_all add: plainOwnership_def list_all_iff distinct_map\<close>)
  have "length ?m \<le> length ?t"
    using length_Join [of "map (\<lambda>(k, v). jsonQuote k @ '':'' @ marshalStrings v) ?m" "'',''"]
    by (simp add: list_all_iff case_prod_beta)
  then have "jsonMembers n (?t @ ''}'') = Some (?m, [])" if "length ?t \<le> n" for n
    using that m by (intro jsonMembers_marshal) auto
  moreover obtain u where "?t = CHR 0x22 # u"
    using m(1) by (cases ?m; cases "tl ?m") (auto simp: jsonQuote_def)
  ultimately show ?thesis
    using foldl_update_fresh [of "[]" ?m] m(3)
    by (simp add: unmarshalOwnership_def marshalOwnership_def del: jsonMembers.simps(2))
qed

section \<open>Properties\<close>

text \<open>
  C13: Labels of the shared namespace. However the reconciles and deletions of tenants follow one
  another, every label a gateway had applied when it was last reconciled is still on the shared
  namespace with the value that gateway wants, its key is recorded as that gateway's, and no key is
  recorded for a gateway that does not want it; so two gateways never want different values of one
  label at the same time.
\<close>

theorem gateway_labels_stay:
  assumes "label_reach infra (l, m, applied)"
  shows "(\<forall>g k v. applied g k = Some v \<longrightarrow> map_of l k = Some v \<and> g \<in> set (owners m k))
    \<and> (\<forall>g k. g \<in> set (owners m k) \<longrightarrow> applied g k \<noteq> None)
    \<and> (\<forall>g h k v w. applied g k = Some v \<longrightarrow> applied h k = Some w \<longrightarrow> v = w)"
proof -
  have inv: "g \<in> set (owners m k) \<longleftrightarrow> applied g k \<noteq> None"
      "applied g k = Some v \<Longrightarrow> map_of l k = Some v" for g k v
    using labels_inv_reach [OF assms] by auto
  have "v = w" if "applied g k = Some v" "applied h k = Some w" for g h k v w
    using inv(2) [OF that(1)] inv(2) [OF that(2)] by simp
  with inv show ?thesis by auto
qed

definition sampleSelectorGateway :: "string \<Rightarrow> labels \<Rightarrow> Gateway" where
  "sampleSelectorGateway n ls =
     \<lparr>gw_Name = n, gw_Namespace = ''ingress'', gw_UID = ''u'', gw_ListenerHostnames = [],
      gw_Listeners = [\<lparr>ls_Name = ''https'', ls_From = Some ''Selector'', ls_MatchLabels = Some ls\<rparr>],
      gw_Addresses = []\<rparr>"

lemma sample_label_step:
  assumes "distinct (map fst ls)"
    and "planGatewayLabels infra n ls l (Some m) = Ok (Some (l', m'))"
    and "label_reach infra (l, m, a)"
  shows "label_reach infra (l', m', a(n := map_of ls))"
proof -
  have "unionLabels gw x d ls = Ok (d @ ls)" if "distinct (map fst (d @ ls))" for gw x d
    using that
  proof (induction ls arbitrary: d)
    case (Cons kv ls)
    have "AList.update (fst kv) (snd kv) d = d @ [kv]" "map_of d (fst kv) = None"
      using foldl_update_fresh [of d "[kv]"] Cons.prems by (auto simp: map_of_eq_None_iff split: prod.splits)
    then show ?case using Cons by (cases kv) auto
  qed simp
  from this [of "[]"] have "gatewayDesiredLabels (sampleSelectorGateway n ls) = Ok ls"
    using assms(1) by (simp add: gatewayDesiredLabels_def sampleSelectorGateway_def)
  from label_step.reconciled [OF this, of infra l m l' m' a] assms(2,3) show ?thesis
    by (auto simp: sampleSelectorGateway_def intro: label_reach.step)
qed

theorem gateway_labels_stay_witness:
  "\<exists>l m applied. label_reach ''infra'' (l, m, applied)
     \<and> applied ''a'' ''zone'' = Some ''x'' \<and> applied ''b'' ''zone'' = Some ''x''
     \<and> map_of l ''zone'' = Some ''x'' \<and> owners m ''zone'' = [''a'', ''b'']"
proof -
  let ?d = "[(''zone'', ''x'')]"
  have 0: "label_reach ''infra'' ([], [], \<lambda>g. Map.empty)"
    by (rule label_reach.start)
  have 1: "label_reach ''infra'' (?d, [(''zone'', Some [''a''])], (\<lambda>g. Map.empty)(''a'' := map_of ?d))"
    by (rule sample_label_step [OF _ _ 0])
      (simp_all add: planGatewayLabels_def staleKeys_def addOwner_def owners_def annotation_def)
  have 2: "label_reach ''infra'' (?d, [(''zone'', Some [''a'', ''b''])],
      (\<lambda>g. Map.empty)(''a'' := map_of ?d, ''b'' := map_of ?d))"
    by (rule sample_label_step [OF _ _ 1])
      (simp_all add: planGatewayLabels_def staleKeys_def addOwner_def owners_def annotation_def)
  have "map_of ?d ''zone'' = Some ''x''" "owners [(''zone'', Some [''a'', ''b''])] ''zone'' = [''a'', ''b'']"
    by (simp_all add: owners_def)
  moreover have "((\<lambda>g. Map.empty)(''a'' := map_of ?d, ''b'' := map_of ?d)) ''a'' ''zone'' = Some ''x''"
      "((\<lambda>g. Map.empty)(''a'' := map_of ?d, ''b'' := map_of ?d)) ''b'' ''zone'' = Some ''x''"
    by simp_all
  moreover have "\<forall>g k v. ((\<lambda>g. Map.empty)(''a'' := map_of ?d, ''b'' := map_of ?d)) g k = Some v
      \<longrightarrow> map_of ?d k = Some v \<and> g \<in> set (owners [(''zone'', Some [''a'', ''b''])] k)"
    by (rule conjunct1 [OF gateway_labels_stay [OF 2]])
  ultimately show ?thesis using 2 by blast
qed

text \<open>
  A second reconcile writes nothing. When a reconcile has written the labels of a gateway, every
  label the gateway wants is there, and planning again on what was written finds nothing to do, with
  no conflict.
\<close>

theorem gateway_labels_settle:
  assumes "gatewayDesiredLabels gw = Ok desired"
    and "planGatewayLabels infra (gw_Name gw) desired l parsed = Ok (Some (l', m'))"
  shows "planGatewayLabels infra (gw_Name gw) desired l' (Some m') = Ok None
    \<and> (\<forall>k v. map_of desired k = Some v \<longrightarrow> map_of l' k = Some v)"
proof -
  note d = gatewayDesiredLabels_distinct [OF assms(1)]
  note look = plan_lookup [OF assms(2) d]
  have has: "map_of l' k = Some v \<and> gw_Name gw \<in> set (owners m' k)" if "(k, v) \<in> set desired" for k v
    using that d by (simp add: look)
  have stale: "staleKeys (gw_Name gw) desired m' = []"
  proof -
    have "k \<notin> set (staleKeys (gw_Name gw) desired m')" for k
      by (simp add: staleKeys_iff look(1))
    then show ?thesis by (metis last_in_set)
  qed
  have "labelConflict infra (gw_Name gw) l' m' ds = None" if "set ds \<subseteq> set desired" for ds
    using that has by (induction ds) auto
  then have "labelConflict infra (gw_Name gw) l' m' desired = None" by simp
  then show ?thesis
    using has stale by (auto simp: planGatewayLabels_def Let_def list_ex_iff annotation_def look(2))
qed

theorem gateway_labels_settle_witness:
  "planGatewayLabels ''infra'' ''a'' [(''zone'', ''x'')] [(''zone'', ''x'')] (Some [(''zone'', Some [''a''])]) = Ok None"
proof -
  let ?gw = "sampleSelectorGateway ''a'' [(''zone'', ''x'')]"
  have "gatewayDesiredLabels ?gw = Ok [(''zone'', ''x'')]"
    by (simp add: gatewayDesiredLabels_def sampleSelectorGateway_def)
  moreover have "planGatewayLabels ''infra'' (gw_Name ?gw) [(''zone'', ''x'')] [(''old'', ''y'')]
      (Some [(''old'', Some [''a''])]) = Ok (Some ([(''zone'', ''x'')], [(''zone'', Some [''a''])]))"
    by (simp add: planGatewayLabels_def sampleSelectorGateway_def staleKeys_def addOwner_def
        dropOwner_def owners_def annotation_def)
  ultimately show ?thesis
    using gateway_labels_settle [of ?gw] by (fastforce simp: sampleSelectorGateway_def)
qed

text \<open>
  C33: The annotation is read back. Parsing the annotation the controller writes gives the same owners
  of every key, for keys and gateway names without characters that JSON escapes.
\<close>

theorem ownership_roundtrip:
  assumes "plainOwnership m" and "distinct (map fst m)"
  shows "\<exists>m'. parseOwnershipAnnotation (marshalOwnership m) = Some (Some m') \<and> map_of m' = map_of m"
proof (intro exI conjI)
  show "parseOwnershipAnnotation (marshalOwnership m) = Some (Some (sort_key fst m))"
    using unmarshal_marshal [OF assms] by (simp add: parseOwnershipAnnotation_def marshalOwnership_def)
  show "map_of (sort_key fst m) = map_of m"
    using assms(2) by (subst map_of_inject_set) (simp_all add: distinct_map)
qed

theorem ownership_roundtrip_witness:
  "\<exists>m'. parseOwnershipAnnotation (marshalOwnership [(''zone'', Some [''a'', ''b'']), (''tier'', None)]) = Some (Some m')
     \<and> map_of m' = map_of [(''zone'', Some [''a'', ''b'']), (''tier'', None)]"
  by (rule ownership_roundtrip)
    (simp_all add: plainOwnership_def safeChar_def plainChar_def byteIn_def)

end
