(* ===== verification/Actions.thy ===== *)
theory Actions
  imports ControllerTypes
begin

text \<open>
  The combinators in which the operations of the tenant and external model controllers are written,
  and what such an operation does, read off the history of a run.

  An operation is a function of the cluster that returns a value or an error and the cluster it
  leaves (\<open>act\<close>). Each call of the client is preceded by a step of everybody else, so that no two
  calls see the same cluster unless the environment leaves it alone.

  A history holds the states of the cluster in which the client was called, and the writes with
  their outcome, in order. A controller runs on a client that records them and does what it does on
  the client proper. \<open>tri good K m Q\<close> is a triple over histories: started with a history that satisfies
  \<open>K\<close>, the operation \<open>m\<close> only extends it, every write it adds is \<open>good\<close> after what came before, and a result
  it returns satisfies \<open>Q\<close> together with the history it leaves. The rules follow the combinators, so
  that the triple of an operation is found by applying them to its definition.
\<close>

section \<open>Operations\<close>

text \<open>\<open>ObjectMeta{Name: name, Namespace: ns}\<close>\<close>

definition freshMeta :: "string \<Rightarrow> string \<Rightarrow> ObjectMeta" where
  "freshMeta ns name =
     \<lparr>om_Name = name, om_Namespace = ns, om_Labels = [], om_Annotations = [], om_Finalizers = [],
      om_Generation = 0, om_Deleting = False, om_Owners = []\<rparr>"

type_synonym ('e, 's, 'a) act = "'s \<Rightarrow> ('e, 'a) result \<times> 's"
type_synonym ('s, 'a) tact = "(ctl_error, 's, 'a) act"

definition okA :: "'a \<Rightarrow> ('e, 's, 'a) act" where
  "okA x s = (Ok x, s)"

definition errA :: "'e \<Rightarrow> ('e, 's, 'a) act" where
  "errA e s = (Err e, s)"

text \<open>A call and what becomes of its error and of its result.\<close>

definition onA :: "('e, 's, 'a) act \<Rightarrow> ('e \<Rightarrow> ('f, 's, 'b) act) \<Rightarrow> ('a \<Rightarrow> ('f, 's, 'b) act) \<Rightarrow> ('f, 's, 'b) act" where
  "onA m h f s = (case m s of (Inl e, s') \<Rightarrow> h e s' | (Inr x, s') \<Rightarrow> f x s')"

abbreviation thenA :: "('e, 's, 'a) act \<Rightarrow> ('a \<Rightarrow> ('e, 's, 'b) act) \<Rightarrow> ('e, 's, 'b) act" where
  "thenA m f \<equiv> onA m errA f"

text \<open>
  A read and a write of a client. Before each of them everybody else does to the cluster what
  \<open>oth\<close> says.
\<close>

definition readAt :: "('s \<Rightarrow> 's) \<Rightarrow> ('s, 'a) cread \<Rightarrow> (k8s_error, 's, 'a) act" where
  "readAt oth r s = (let s' = oth s in (r s', s'))"

definition writeAt :: "('s \<Rightarrow> 's) \<Rightarrow> 's cwrite \<Rightarrow> (k8s_error, 's, unit) act" where
  "writeAt oth w s =
     (case w (oth s) of
        (None, s') \<Rightarrow> (Ok (), s')
      | (Some e, s') \<Rightarrow> (Err e, s'))"

text \<open>\<open>client.IgnoreNotFound\<close> of an error, and the errors of a call as they are or with a text in front.\<close>

definition ignoreNotFound :: "'a \<Rightarrow> k8s_error \<Rightarrow> ('s, 'a) tact" where
  "ignoreNotFound x e = (if IsNotFound e then okA x else errA (ofApi e))"

definition failA :: "string \<Rightarrow> ('s, 'a) tact" where
  "failA t = errA (CtlErr OtherErr t)"

definition wrapA :: "string \<Rightarrow> k8s_error \<Rightarrow> ('s, 'a) tact" where
  "wrapA t e = errA (wrapApi t e)"

definition plainA :: "k8s_error \<Rightarrow> ('s, 'a) tact" where
  "plainA e = errA (ofApi e)"

text \<open>Two metadata that name the same object of a kind.\<close>

definition samePlace :: "ObjectMeta \<Rightarrow> ObjectMeta \<Rightarrow> bool" where
  "samePlace m n \<longleftrightarrow> om_Name m = om_Name n \<and> om_Namespace m = om_Namespace n"

section \<open>Histories\<close>

datatype ('s, 'w) tev = At 's | Wrote 'w "k8s_error option"

type_synonym ('s, 'w) tstate = "'s \<times> ('s, 'w) tev list"

text \<open>
  \<open>good pre w\<close>: the write \<open>w\<close> may follow the history \<open>pre\<close>; \<open>safe good l0 l\<close>: so it is for every write of
  \<open>l\<close> when \<open>l\<close> follows \<open>l0\<close>.
\<close>

definition safe :: "(('s, 'w) tev list \<Rightarrow> 'w \<Rightarrow> bool) \<Rightarrow> ('s, 'w) tev list \<Rightarrow> ('s, 'w) tev list \<Rightarrow> bool" where
  "safe good l0 l \<longleftrightarrow> (\<forall>pre w e post. l = pre @ Wrote w e # post \<longrightarrow> good (l0 @ pre) w)"

lemma safeD: "safe good l0 l \<Longrightarrow> l = pre @ Wrote w e # post \<Longrightarrow> good (l0 @ pre) w"
  unfolding safe_def by blast

lemma safe_simps [simp]:
  "safe good l0 []" "safe good l0 [At s]" "safe good l0 [At s, Wrote w e] \<longleftrightarrow> good (l0 @ [At s]) w"
  by (auto simp: safe_def Cons_eq_append_conv)

lemma safe_append: "safe good l0 l \<Longrightarrow> safe good (l0 @ l) l' \<Longrightarrow> safe good l0 (l @ l')"
  unfolding safe_def
proof (intro allI impI)
  fix pre w e post
  assume l: "\<forall>pre w e post. l = pre @ Wrote w e # post \<longrightarrow> good (l0 @ pre) w"
    and l': "\<forall>pre w e post. l' = pre @ Wrote w e # post \<longrightarrow> good ((l0 @ l) @ pre) w"
    and eq: "l @ l' = pre @ Wrote w e # post"
  from eq consider us where "l = pre @ us" "us @ l' = Wrote w e # post" | us where "l @ us = pre" "l' = us @ Wrote w e # post"
    by (auto simp: append_eq_append_conv2)
  then show "good (l0 @ pre) w"
  proof cases
    case 1
    then show ?thesis
      using l l' [rule_format, of "[]" w e post] by (cases us) auto
  next
    case 2
    then show ?thesis using l' by auto
  qed
qed

lemma safe_weaken: "safe good l0 l \<Longrightarrow> (\<And>l' w. good (l0 @ l') w \<Longrightarrow> good' (l0 @ l') w) \<Longrightarrow> safe good' l0 l"
  unfolding safe_def by blast

text \<open>Facts about a history that stay true when it grows, and what was seen in one.\<close>

definition stays :: "(('s, 'w) tev list \<Rightarrow> bool) \<Rightarrow> bool" where
  "stays K \<longleftrightarrow> (\<forall>l l'. K l \<longrightarrow> K (l @ l'))"

definition saw :: "('s, 'a) cread \<Rightarrow> ('a \<Rightarrow> bool) \<Rightarrow> ('s, 'w) tev list \<Rightarrow> bool" where
  "saw r P l \<longleftrightarrow> (\<exists>s x. At s \<in> set l \<and> r s = Ok x \<and> P x)"

definition did :: "('w \<Rightarrow> bool) \<Rightarrow> ('s, 'w) tev list \<Rightarrow> bool" where
  "did P l \<longleftrightarrow> (\<exists>w. Wrote w None \<in> set l \<and> P w)"

lemma stays_simps [simp, intro]:
  "stays (\<lambda>l. P)" "stays (saw r Q)" "stays (did R)"
  "stays (\<lambda>l. saw r Q l)" "stays (\<lambda>l. did R l)"
  by (auto simp: stays_def saw_def did_def)

lemma stays_conj [simp, intro]: "stays K \<Longrightarrow> stays L \<Longrightarrow> stays (\<lambda>l. K l \<and> L l)"
  by (auto simp: stays_def)

lemma stays_disj [simp, intro]: "stays K \<Longrightarrow> stays L \<Longrightarrow> stays (\<lambda>l. K l \<or> L l)"
  by (auto simp: stays_def)

lemma saw_mono: "saw r ((=) x) l \<Longrightarrow> P x \<Longrightarrow> saw r P l"
  by (auto simp: saw_def)

lemma stays_ex: "(\<And>x. stays (K x)) \<Longrightarrow> stays (\<lambda>l. \<exists>x. K x l)"
  by (auto simp: stays_def)

lemma stays_all: "(\<And>x. x \<in> A \<Longrightarrow> stays (K x)) \<Longrightarrow> stays (\<lambda>l. \<forall>x\<in>A. K x l)"
  by (auto simp: stays_def)

section \<open>Triples\<close>

definition tri :: "(('s, 'w) tev list \<Rightarrow> 'w \<Rightarrow> bool) \<Rightarrow> (('s, 'w) tev list \<Rightarrow> bool) \<Rightarrow> ('e, ('s, 'w) tstate, 'a) act
    \<Rightarrow> ('a \<Rightarrow> ('s, 'w) tev list \<Rightarrow> bool) \<Rightarrow> bool" where
  "tri good K m Q \<longleftrightarrow>
     (\<forall>st. K (snd st) \<longrightarrow>
        (\<exists>l. snd (snd (m st)) = snd st @ l \<and> safe good (snd st) l)
        \<and> (\<forall>x. fst (m st) = Ok x \<longrightarrow> Q x (snd (snd (m st)))))"

abbreviation anyResult :: "'a \<Rightarrow> ('s, 'w) tev list \<Rightarrow> bool" where
  "anyResult \<equiv> \<lambda>x l. True"

lemma tri_okA: "(\<And>l. K l \<Longrightarrow> Q x l) \<Longrightarrow> tri good K (okA x) Q"
  by (auto simp: tri_def okA_def)

lemma tri_errA: "tri good K (errA e) Q"
  by (auto simp: tri_def errA_def)

lemma tri_onA:
  assumes "tri good K m Q" and "stays K"
    and "\<And>e. tri good K (h e) R" and "\<And>x. tri good (\<lambda>l. K l \<and> Q x l) (f x) R"
  shows "tri good K (onA m h f) R"
  unfolding tri_def
proof (intro allI impI)
  fix st :: "('a, 'b) tstate"
  assume st: "K (snd st)"
  obtain res st1 where m: "m st = (res, st1)" by (cases "m st")
  obtain l where l: "snd st1 = snd st @ l" "safe good (snd st) l" "\<And>x. res = Ok x \<Longrightarrow> Q x (snd st1)"
    using assms(1) st m unfolding tri_def by fastforce
  with assms(2) st have K: "K (snd st1)" by (auto simp: stays_def)
  have join: "\<exists>l. l1 = snd st @ l \<and> safe good (snd st) l"
    if "\<exists>l. l1 = snd st1 @ l \<and> safe good (snd st1) l" for l1
    using that l(1,2) by (auto intro!: safe_append)
  show "(\<exists>l. snd (snd (onA m h f st)) = snd st @ l \<and> safe good (snd st) l)
        \<and> (\<forall>x. fst (onA m h f st) = Ok x \<longrightarrow> R x (snd (snd (onA m h f st))))"
  proof (cases res)
    case (Inl e)
    then show ?thesis
      using assms(3) [of e, unfolded tri_def, rule_format, OF K] m join by (auto simp: onA_def)
  next
    case (Inr x)
    then show ?thesis
      using assms(4) [of x, unfolded tri_def, rule_format, OF conjI, OF K l(3)] m join by (auto simp: onA_def)
  qed
qed

text \<open>The same when what is known of the result is no matter of the history.\<close>

lemma tri_onP:
  assumes "tri good K m (\<lambda>x l. P x)" and "stays K"
    and "\<And>e. tri good K (h e) R" and "\<And>x. P x \<Longrightarrow> tri good K (f x) R"
  shows "tri good K (onA m h f) R"
  by (rule tri_onA [OF assms(1-3)]) (use assms(4) in \<open>auto simp: tri_def\<close>)

lemma onA_okA: "onA (okA x) h f = f x"
  by (simp add: onA_def okA_def fun_eq_iff)

lemma tri_weaken:
  "tri good K m Q \<Longrightarrow> (\<And>l. K' l \<Longrightarrow> K l) \<Longrightarrow> (\<And>x l. Q x l \<Longrightarrow> Q' x l) \<Longrightarrow> tri good K' m Q'"
  unfolding tri_def by fast

lemma tri_good:
  assumes "tri good K m Q" "stays K" "\<And>l w. K l \<Longrightarrow> good l w \<Longrightarrow> good' l w"
  shows "tri good' K m Q"
  unfolding tri_def
proof (intro allI impI)
  fix st :: "('a, 'b) tstate"
  assume K: "K (snd st)"
  from assms(1) K obtain l where l: "snd (snd (m st)) = snd st @ l" "safe good (snd st) l"
    "\<forall>x. fst (m st) = Ok x \<longrightarrow> Q x (snd (snd (m st)))" unfolding tri_def by blast
  have "K (snd st @ l')" for l' using assms(2) K by (auto simp: stays_def)
  then have "safe good' (snd st) l" by (intro safe_weaken [OF l(2)] assms(3))
  with l show "(\<exists>l. snd (snd (m st)) = snd st @ l \<and> safe good' (snd st) l)
      \<and> (\<forall>x. fst (m st) = Ok x \<longrightarrow> Q x (snd (snd (m st))))" by blast
qed

lemma tri_run:
  assumes "tri good K m Q" "K []" "snd (snd (m (s, []))) = pre @ Wrote w e # post"
  shows "good pre w"
  using assms(1) [unfolded tri_def, rule_format, of "(s, [])"] assms(2,3) by (auto dest: safeD)

text \<open>What a client that records a history makes of reads and writes.\<close>

definition othersL :: "('s \<Rightarrow> 's) \<Rightarrow> ('s, 'w) tstate \<Rightarrow> ('s, 'w) tstate" where
  "othersL oth st = (oth (fst st), snd st @ [At (oth (fst st))])"

definition writeL :: "('w \<Rightarrow> 's cwrite) \<Rightarrow> 'w \<Rightarrow> ('s, 'w) tstate cwrite" where
  "writeL write' w st = (case write' w (fst st) of (e, s') \<Rightarrow> (e, (s', snd st @ [Wrote w e])))"

lemma tri_readAt:
  assumes "\<And>st. r' st = r (fst st)"
  shows "tri good K (readAt (othersL oth) r') (\<lambda>x. saw r ((=) x))"
  using assms by (auto simp: tri_def readAt_def Let_def othersL_def saw_def)

lemma tri_writeAt:
  assumes "stays K" "\<And>l. K l \<Longrightarrow> good l w"
  shows "tri good K (writeAt (othersL oth) (writeL wr w)) (\<lambda>x. did ((=) w))"
  using assms unfolding tri_def stays_def
  by (auto simp: writeAt_def othersL_def writeL_def did_def split: prod.splits option.splits)

lemma tri_if: "(b \<Longrightarrow> tri good K m Q) \<Longrightarrow> (\<not> b \<Longrightarrow> tri good K n Q) \<Longrightarrow> tri good K (if b then m else n) Q"
  by simp

lemma tri_sum:
  "(\<And>e. x = Inl e \<Longrightarrow> tri good K (h e) Q) \<Longrightarrow> (\<And>y. x = Inr y \<Longrightarrow> tri good K (f y) Q)
    \<Longrightarrow> tri good K (case x of Inl e \<Rightarrow> h e | Inr y \<Rightarrow> f y) Q"
  by (cases x) auto

lemma tri_option:
  "(x = None \<Longrightarrow> tri good K h Q) \<Longrightarrow> (\<And>y. x = Some y \<Longrightarrow> tri good K (f y) Q)
    \<Longrightarrow> tri good K (case x of None \<Rightarrow> h | Some y \<Rightarrow> f y) Q"
  by (cases x) auto

lemma tri_prod: "(\<And>y z. x = (y, z) \<Longrightarrow> tri good K (f y z) Q) \<Longrightarrow> tri good K (case x of (y, z) \<Rightarrow> f y z) Q"
  by (cases x) auto

lemma tri_bool:
  "(x \<Longrightarrow> tri good K m Q) \<Longrightarrow> (\<not> x \<Longrightarrow> tri good K n Q)
    \<Longrightarrow> tri good K (case x of True \<Rightarrow> m | False \<Rightarrow> n) Q"
  by (cases x) auto

lemma tri_any: "tri good K m Q \<Longrightarrow> tri good K m anyResult"
  by (auto intro: tri_weaken)

text \<open>The derived operations.\<close>

lemma tri_onAny:
  assumes "tri good K m anyResult" "stays K" "\<And>e. tri good K (h e) Q" "\<And>x. tri good K (f x) Q"
  shows "tri good K (onA m h f) Q"
  by (rule tri_onA [OF assms(1-3)]) (simp add: assms(4))

text \<open>What was known before an operation is known after it.\<close>

lemma tri_frame:
  assumes "tri good K m R" "stays P"
  shows "tri good (\<lambda>l. K l \<and> P l) m (\<lambda>x l. R x l \<and> P l)"
  unfolding tri_def
proof (intro allI impI)
  fix st :: "('a, 'b) tstate"
  assume K: "K (snd st) \<and> P (snd st)"
  with assms(1) obtain l where l: "snd (snd (m st)) = snd st @ l" "safe good (snd st) l"
    "\<forall>x. fst (m st) = Ok x \<longrightarrow> R x (snd (snd (m st)))" unfolding tri_def by blast
  with K assms(2) have "P (snd (snd (m st)))" by (simp add: stays_def)
  with l show "(\<exists>l. snd (snd (m st)) = snd st @ l \<and> safe good (snd st) l)
      \<and> (\<forall>x. fst (m st) = Ok x \<longrightarrow> R x (snd (snd (m st))) \<and> P (snd (snd (m st))))" by blast
qed

lemma tri_errors:
  "tri good K (failA t) Q" "tri good K (wrapA t e) Q" "tri good K (plainA e) Q"
  by (simp_all add: failA_def wrapA_def plainA_def tri_errA)

lemma tri_ignoreNotFound: "(\<And>l. K l \<Longrightarrow> Q x l) \<Longrightarrow> tri good K (ignoreNotFound x e) Q"
  by (auto simp: ignoreNotFound_def intro: tri_okA tri_errA)

lemmas tri_cases = tri_if tri_sum tri_option tri_prod tri_bool tri_okA tri_errA tri_errors tri_ignoreNotFound

section \<open>A recording run does what the run does\<close>

definition tracks :: "('e, ('s, 'w) tstate, 'a) act \<Rightarrow> ('e, 's, 'a) act \<Rightarrow> bool" where
  "tracks m' m \<longleftrightarrow> (\<forall>st. fst (m' st) = fst (m (fst st)) \<and> fst (snd (m' st)) = snd (m (fst st)))"

lemma tracks_okA: "tracks (okA x) (okA x)" and tracks_errA: "tracks (errA e) (errA e)"
  by (auto simp: tracks_def okA_def errA_def)

lemma tracks_onA:
  assumes "tracks m' m" "\<And>e. tracks (h' e) (h e)" "\<And>x. tracks (f' x) (f x)"
  shows "tracks (onA m' h' f') (onA m h f)"
  unfolding tracks_def
proof
  fix st :: "('a, 'b) tstate"
  obtain res s1 where m: "m (fst st) = (res, s1)" by (cases "m (fst st)")
  obtain st1 where m': "m' st = (res, st1)" "fst st1 = s1"
    using assms(1) m unfolding tracks_def by (metis prod.collapse fst_conv snd_conv)
  show "fst (onA m' h' f' st) = fst (onA m h f (fst st)) \<and> fst (snd (onA m' h' f' st)) = snd (onA m h f (fst st))"
  proof (cases res)
    case (Inl e)
    with m m' assms(2) [of e, unfolded tracks_def, rule_format, of st1] show ?thesis by (simp add: onA_def)
  next
    case (Inr x)
    with m m' assms(3) [of x, unfolded tracks_def, rule_format, of st1] show ?thesis by (simp add: onA_def)
  qed
qed

lemma tracks_readAt:
  assumes "\<And>st. r' st = r (fst st)"
  shows "tracks (readAt (othersL oth) r') (readAt oth r)"
  using assms by (auto simp: tracks_def readAt_def othersL_def Let_def)

lemma tracks_writeAt: "tracks (writeAt (othersL oth) (writeL wr w)) (writeAt oth (wr w))"
  by (auto simp: tracks_def writeAt_def othersL_def writeL_def split: prod.splits option.splits)

lemma tracks_errors: "tracks (failA t) (failA t)" "tracks (wrapA t e) (wrapA t e)" "tracks (plainA e) (plainA e)"
  by (simp_all add: failA_def wrapA_def plainA_def tracks_errA)

lemma tracks_ignoreNotFound: "tracks (ignoreNotFound x e) (ignoreNotFound x e)"
  by (simp add: ignoreNotFound_def tracks_okA tracks_errA)

lemma tracks_if: "tracks m' m \<Longrightarrow> tracks n' n \<Longrightarrow> tracks (if b then m' else n') (if b then m else n)"
  by simp

lemma tracks_sum:
  "(\<And>e. tracks (h' e) (h e)) \<Longrightarrow> (\<And>y. tracks (f' y) (f y))
    \<Longrightarrow> tracks (case x of Inl e \<Rightarrow> h' e | Inr y \<Rightarrow> f' y) (case x of Inl e \<Rightarrow> h e | Inr y \<Rightarrow> f y)"
  by (cases x) auto

lemma tracks_option:
  "tracks h' h \<Longrightarrow> (\<And>y. tracks (f' y) (f y))
    \<Longrightarrow> tracks (case x of None \<Rightarrow> h' | Some y \<Rightarrow> f' y) (case x of None \<Rightarrow> h | Some y \<Rightarrow> f y)"
  by (cases x) auto

lemma tracks_prod:
  "(\<And>y z. tracks (f' y z) (f y z)) \<Longrightarrow> tracks (case x of (y, z) \<Rightarrow> f' y z) (case x of (y, z) \<Rightarrow> f y z)"
  by (cases x) auto

lemma tracks_bool:
  "tracks m' m \<Longrightarrow> tracks n' n
    \<Longrightarrow> tracks (case x of True \<Rightarrow> m' | False \<Rightarrow> n') (case x of True \<Rightarrow> m | False \<Rightarrow> n)"
  by (cases x) auto

lemmas tracks_rules = tracks_okA tracks_errA tracks_onA tracks_errors tracks_ignoreNotFound tracks_if tracks_sum
  tracks_option tracks_prod tracks_bool tracks_writeAt

end
