(* ===== verification/TenantTypes.thy ===== *)
theory TenantTypes
  imports GatewayLabels Tenancy Actions
begin

text \<open>
  The objects the AITenant controller reads and writes besides those of \<open>ControllerTypes\<close>, and the
  client it uses. Its operations are written in the combinators of \<open>Actions\<close>; each call of the client
  is preceded by a step of \<open>tc_others\<close>.
\<close>

section \<open>Objects\<close>

record NamespaceObj =
  nsp_meta :: ObjectMeta
  nsp_Terminating :: bool

record ConfigMap =
  cm_meta :: ObjectMeta
  cm_Data :: labels

record PolicyRule =
  rule_APIGroups :: "string list"
  rule_Resources :: "string list"
  rule_ResourceNames :: "string list"
  rule_Verbs :: "string list"

record Role =
  role_meta :: ObjectMeta
  role_Rules :: "PolicyRule list"

text \<open>A Job: its specification as the API spells it, and the type and status of its conditions.\<close>

record Job =
  job_meta :: ObjectMeta
  job_Spec :: jmap
  job_Conditions :: "(string \<times> string) list"

record TenantAPIKeysConfig =
  ak_MaxExpirationDays :: "int option"

record TenantMetricsConfig =
  mc_CaptureOrganization :: "bool option"
  mc_CaptureUser :: "bool option"
  mc_CaptureGroup :: "bool option"
  mc_CaptureModelUsage :: "bool option"

record TenantTelemetryConfig =
  tl_Enabled :: "bool option"
  tl_Metrics :: "TenantMetricsConfig option"

text \<open>
  The settings of a tenant and the deprecated object they once lived in. The controller never
  touches the scaling settings (\<open>maasApi\<close>, \<open>payloadProcessing\<close>), which are left out.
\<close>

record MaasTenantConfigObj =
  mtc_meta :: ObjectMeta
  mtc_APIKeys :: "TenantAPIKeysConfig option"
  mtc_Telemetry :: "TenantTelemetryConfig option"
  mtc_Conditions :: "Condition list"

record TenantObj =
  tn_meta :: ObjectMeta
  tn_UID :: string
  tn_ResourceVersion :: string
  tn_GatewayRef :: TenantGatewayRef
  tn_ExternalOIDC :: "TenantExternalOIDCConfig option"
  tn_APIKeys :: "TenantAPIKeysConfig option"
  tn_Telemetry :: "TenantTelemetryConfig option"

section \<open>The client\<close>

text \<open>\<open>client.Object\<close>: any of the objects the controller writes.\<close>

datatype kobj =
    KAITenant AITenant
  | KNamespace NamespaceObj
  | KConfig MaasTenantConfigObj
  | KTenant TenantObj
  | KRole Role
  | KRoleBinding ObjectMeta
  | KJob Job
  | KConfigMap ConfigMap
  | KAuthPolicy uobj

fun kmeta :: "kobj \<Rightarrow> ObjectMeta" where
  "kmeta (KAITenant x) = at_meta x"
| "kmeta (KNamespace x) = nsp_meta x"
| "kmeta (KConfig x) = mtc_meta x"
| "kmeta (KTenant x) = tn_meta x"
| "kmeta (KRole x) = role_meta x"
| "kmeta (KRoleBinding x) = x"
| "kmeta (KJob x) = job_meta x"
| "kmeta (KConfigMap x) = cm_meta x"
| "kmeta (KAuthPolicy x) = u_meta x"

datatype deleteOption =
    NoOption
  | Preconditions (pc_UID: "string option") (pc_ResourceVersion: "string option")
  | Background

text \<open>
  A write of the client. \<open>Patch base new lock\<close> is a merge patch from \<open>base\<close> to \<open>new\<close>, with the resource
  version of \<open>base\<close> when \<open>lock\<close> is set. An object that was written is what was sent.
\<close>

datatype twrite =
    Create kobj
  | Patch kobj kobj bool
  | Update kobj
  | Delete kobj deleteOption
  | StatusUpdate AITenant

text \<open>
  \<open>tc_getCached\<close> and \<open>tc_claims\<close> read through the cache of the manager, the other reads through the API
  reader (\<open>r.get\<close>).
\<close>

record 's tenantClient =
  tc_getCached :: "string \<Rightarrow> string \<Rightarrow> ('s, AITenant) cread"
  tc_aitenants :: "string \<Rightarrow> ('s, AITenant list) cread"
  tc_namespace :: "string \<Rightarrow> ('s, NamespaceObj) cread"
  tc_gateway :: "string \<Rightarrow> string \<Rightarrow> ('s, Gateway) cread"
  tc_tenant :: "string \<Rightarrow> string \<Rightarrow> ('s, TenantObj) cread"
  tc_config :: "string \<Rightarrow> string \<Rightarrow> ('s, MaasTenantConfigObj) cread"
  tc_role :: "string \<Rightarrow> string \<Rightarrow> ('s, Role) cread"
  tc_roleBinding :: "string \<Rightarrow> string \<Rightarrow> ('s, ObjectMeta) cread"
  tc_job :: "string \<Rightarrow> string \<Rightarrow> ('s, Job) cread"
  tc_configMap :: "string \<Rightarrow> string \<Rightarrow> ('s, ConfigMap) cread"
  tc_claims :: "string \<Rightarrow> labels \<Rightarrow> ('s, ConfigMap list) cread"
  tc_authPolicy :: "string \<Rightarrow> string \<Rightarrow> ('s, uobj) cread"
  tc_write :: "twrite \<Rightarrow> 's cwrite"
  tc_event :: "string \<Rightarrow> string \<Rightarrow> string \<Rightarrow> 's \<Rightarrow> 's"
  tc_others :: "'s \<Rightarrow> 's"

text \<open>
  More functions of \<open>apimachinery\<close> and \<open>controller-runtime\<close>: \<open>apimeta.RemoveStatusCondition\<close>,
  \<open>controllerutil.SetControllerReference\<close> of an AITenant on an object, and
  \<open>validation.IsDNS1123Label\<close>.
\<close>

record tenantApi = metaApi +
  RemoveStatusCondition :: "Condition list \<Rightarrow> string \<Rightarrow> Condition list"
  SetTenantReference :: "AITenant \<Rightarrow> ObjectMeta \<Rightarrow> (string, ObjectMeta) result"
  IsDNS1123Label :: "string \<Rightarrow> string list"

section \<open>Operations\<close>

abbreviation readA :: "'s tenantClient \<Rightarrow> ('s, 'a) cread \<Rightarrow> (k8s_error, 's, 'a) act" where
  "readA c r \<equiv> readAt (tc_others c) r"

abbreviation writeA :: "'s tenantClient \<Rightarrow> twrite \<Rightarrow> (k8s_error, 's, unit) act" where
  "writeA c w \<equiv> writeAt (tc_others c) (tc_write c w)"

definition eventA :: "'s tenantClient \<Rightarrow> string \<Rightarrow> string \<Rightarrow> string \<Rightarrow> ('e, 's, unit) act" where
  "eventA c typ reason msg s = (Ok (), tc_event c typ reason msg s)"

text \<open>\<open>delete\<close> of an object that may be gone already (\<open>client.IgnoreNotFound(r.Delete(...))\<close>).\<close>

definition deleteA :: "'s tenantClient \<Rightarrow> kobj \<Rightarrow> deleteOption \<Rightarrow> (k8s_error \<Rightarrow> ctl_error) \<Rightarrow> ('s, unit) tact" where
  "deleteA c x opt mk = onA (writeA c (Delete x opt)) (\<lambda>e. if IsNotFound e then okA () else errA (mk e)) okA"

section \<open>Durations\<close>

text \<open>\<open>Duration.String\<close> of a number of nanoseconds.\<close>

definition fracDigits :: "nat \<Rightarrow> nat \<Rightarrow> string" where
  "fracDigits v prec =
     (let ds = map (\<lambda>i. digitChar (v div 10 ^ (prec - 1 - i) mod 10)) [0..<prec];
          kept = rev (dropWhile (\<lambda>d. d = CHR ''0'') (rev ds))
      in if kept = [] then [] else ''.'' @ kept)"

definition durationText :: "int \<Rightarrow> string" where
  "durationText d =
     (let u = nat (abs d); sign = (if d < 0 then ''-'' else []);
          unit = (\<lambda>prec name. itoaNat (u div 10 ^ prec) @ fracDigits u prec @ name)
      in if u = 0 then ''0s''
         else if u < 10 ^ 9 then
           sign @ (if u < 10 ^ 3 then unit 0 ''ns''
                   else if u < 10 ^ 6 then unit 3 [CHR 0xC2, CHR 0xB5, CHR ''s'']
                   else unit 6 ''ms'')
         else
           let secs = u div 10 ^ 9; mins = secs div 60; hours = mins div 60;
               s = itoaNat (secs mod 60) @ fracDigits u 9 @ ''s''
           in sign @ (if mins = 0 then s
                      else if hours = 0 then itoaNat (mins mod 60) @ ''m'' @ s
                      else itoaNat hours @ ''h'' @ itoaNat (mins mod 60) @ ''m'' @ s))"

end
