(* ===== verification/AITenantController.thy ===== *)
theory AITenantController
  imports TenantTypes GatewayPolicy
begin

text \<open>
  The AITenant controller (\<open>pkg/controller/maas/aitenant_controller.go\<close>): the namespace, settings,
  roles and gateway claim it sets up for a tenant, the labels it puts on the shared
  infrastructure namespace, the migration of legacy tenants, and the clean-up of a deleted tenant.

  \<open>now\<close> is the clock at the one place where it is read. Logging is not modelled.
  \<open>SetupWithManager\<close> registers the controller; the functions it registers for mapping events to
  requests are modelled at the end.
\<close>

section \<open>Constants\<close>

definition aitenantFinalizer :: string where
  "aitenantFinalizer = ''maas.opendatahub.io/aitenant-cleanup''"
definition aitenantCreatedAnnotation :: string where
  "aitenantCreatedAnnotation = ''maas.opendatahub.io/created-by-aitenant''"
definition aitenantUIDAnnotation :: string where
  "aitenantUIDAnnotation = ''maas.opendatahub.io/aitenant-uid''"
definition legacyDeprecatedByAnnotation :: string where
  "legacyDeprecatedByAnnotation = ''maas.opendatahub.io/deprecated-by''"
definition legacyMigratedToAnnotation :: string where
  "legacyMigratedToAnnotation = ''maas.opendatahub.io/migrated-to''"
definition aitenantTenantAdminRoleSuffix :: string where
  "aitenantTenantAdminRoleSuffix = ''tenant-admin''"
definition aitenantAccessRoleSuffix :: string where
  "aitenantAccessRoleSuffix = ''object-admin''"
definition legacyDefaultGatewayName :: string where
  "legacyDefaultGatewayName = ''maas-default-gateway''"
definition aitenantAPIKeysRevokedAnnotation :: string where
  "aitenantAPIKeysRevokedAnnotation = ''maas.opendatahub.io/api-keys-revoked''"
definition aitenantAPIKeysRevokedCondition :: string where
  "aitenantAPIKeysRevokedCondition = ''APIKeysRevoked''"
definition gatewayLabelsAnnotation :: string where
  "gatewayLabelsAnnotation = ''maas.opendatahub.io/gateway-selector-labels''"
definition gatewayClaimLabel :: string where
  "gatewayClaimLabel = ''maas.opendatahub.io/gateway-claim''"
definition tenantFinalizer :: string where
  "tenantFinalizer = ''maas.opendatahub.io/tenant-cleanup''"
definition legacyTenantFinalizer :: string where
  "legacyTenantFinalizer = ''maas.opendatahub.io/tenant-finalizer''"
definition ComponentName :: string where
  "ComponentName = ''modelsasservice''"
definition LabelGatewayAccess :: string where
  "LabelGatewayAccess = ''maas.opendatahub.io/gateway-access''"
definition DefaultAITenantNamespace :: string where
  "DefaultAITenantNamespace = ''ai-tenants''"
definition DefaultMaaSAPIKeyCleanupImage :: string where
  "DefaultMaaSAPIKeyCleanupImage = ''registry.redhat.io/ubi9/ubi-minimal:9.7''"
definition MaasTenantConfigKind :: string where
  "MaasTenantConfigKind = ''MaasTenantConfig''"
definition managedByLabel :: string where
  "managedByLabel = ''app.kubernetes.io/managed-by''"
definition generatedNamespaceLabel :: string where
  "generatedNamespaceLabel = ''opendatahub.io/generated-namespace''"
definition maasGroup :: string where
  "maasGroup = ''maas.opendatahub.io''"

lemmas aitenant_constants = tenancy_constants
  aitenantFinalizer_def aitenantCreatedAnnotation_def aitenantUIDAnnotation_def
  legacyDeprecatedByAnnotation_def legacyMigratedToAnnotation_def aitenantTenantAdminRoleSuffix_def
  aitenantAccessRoleSuffix_def legacyDefaultGatewayName_def aitenantAPIKeysRevokedAnnotation_def
  aitenantAPIKeysRevokedCondition_def gatewayLabelsAnnotation_def gatewayClaimLabel_def
  tenantFinalizer_def legacyTenantFinalizer_def ComponentName_def LabelGatewayAccess_def
  DefaultAITenantNamespace_def DefaultMaaSAPIKeyCleanupImage_def MaasTenantConfigKind_def
  managedByLabel_def generatedNamespaceLabel_def maasGroup_def

text \<open>\<open>tr_RelatedImage\<close> is the environment variable \<open>RELATED_IMAGE_UBI_MINIMAL_IMAGE\<close>; durations are in nanoseconds.\<close>

record AITenantReconciler =
  tr_AppNamespace :: string
  tr_TenantNamespace :: string
  tr_AITenantNamespace :: string
  tr_GatewayName :: string
  tr_GatewayNamespace :: string
  tr_DeletionTimeout :: int
  tr_HasRecorder :: bool
  tr_RelatedImage :: string

section \<open>Names\<close>

definition TrimSuffix :: "string \<Rightarrow> string \<Rightarrow> string" where
  "TrimSuffix s t = (if suffix t s then take (length s - length t) s else s)"

definition aitenantBoundedName :: "string \<Rightarrow> string \<Rightarrow> string \<Rightarrow> int \<Rightarrow> string" where
  "aitenantBoundedName pre aitenantName sfx maxLength =
     (let name = pre @ aitenantName @ sfx
      in if int (length name) \<le> maxLength then name
         else
           let hash = take 8 (sha256Hex aitenantName);
               budget = maxLength - int (length pre) - int (length sfx) - int (length hash) - 1;
               stem = TrimSuffix pre ''-'' @ ''-'' @ hash
           in if budget < 1 then (if int (length (stem @ sfx)) \<le> maxLength then stem @ sfx else stem)
              else
                let trimmed = Trim (take (nat budget) aitenantName) ''-.'';
                    trimmed = (if trimmed = [] then hash else trimmed)
                in pre @ trimmed @ sfx @ ''-'' @ hash)"

definition aitenantChildName :: "string \<Rightarrow> string \<Rightarrow> string" where
  "aitenantChildName aitenantName sfx = aitenantBoundedName ''aitenant-'' aitenantName (''-'' @ sfx) 63"

definition tenantAdminRoleName :: "AITenant \<Rightarrow> string" where
  "tenantAdminRoleName t = aitenantChildName (om_Name (at_meta t)) aitenantTenantAdminRoleSuffix"

definition aitenantAccessRoleName :: "AITenant \<Rightarrow> string" where
  "aitenantAccessRoleName t = aitenantChildName (om_Name (at_meta t)) aitenantAccessRoleSuffix"

definition aitenantAPIKeyRevocationJobName :: "string \<Rightarrow> string" where
  "aitenantAPIKeyRevocationJobName aitenantName =
     aitenantBoundedName ''maas-api-revoke-keys-'' aitenantName [] (63 - 6)"

definition gatewayClaimName :: "TenantGatewayRef \<Rightarrow> string" where
  "gatewayClaimName ref =
     ''gateway-claim-'' @ take 32 (sha256Hex (gr_Namespace ref @ ''/'' @ gr_Name ref))"

definition aitenantNamespace :: "AITenantReconciler \<Rightarrow> string" where
  "aitenantNamespace r =
     (if tr_AITenantNamespace r = [] then DefaultAITenantNamespace else tr_AITenantNamespace r)"

definition tenantNamespaceName :: "AITenantReconciler \<Rightarrow> AITenant \<Rightarrow> string" where
  "tenantNamespaceName r t = TenantNamespaceForAITenant (om_Name (at_meta t)) (tr_TenantNamespace r)"

definition tenantGatewayRefFor :: "AITenantReconciler \<Rightarrow> AITenant \<Rightarrow> TenantGatewayRef" where
  "tenantGatewayRefFor r t =
     \<lparr>gr_Namespace = tr_GatewayNamespace r,
      gr_Name =
        (case at_SpecGatewayName t of
           None \<Rightarrow> om_Name (at_meta t)
         | Some n \<Rightarrow> if n \<noteq> [] then n else om_Name (at_meta t))\<rparr>"

section \<open>Metadata\<close>

definition setMapValue :: "labels \<Rightarrow> string \<Rightarrow> string \<Rightarrow> labels" where
  "setMapValue m k v = (if k = [] then m else AList.update k v m)"

definition removeMapValueIfEqual :: "labels \<Rightarrow> string \<Rightarrow> string \<Rightarrow> labels" where
  "removeMapValueIfEqual m k v = (if annotation m k = v then AList.delete k m else m)"

text \<open>The labels and annotations of what belongs to a tenant.\<close>

definition tenantLabels :: "AITenant \<Rightarrow> string \<Rightarrow> labels" where
  "tenantLabels t ns =
     [(managedByLabel, ''maas-controller''), (''app.kubernetes.io/part-of'', ComponentName),
      (LabelManagedByAITenant, ''true''), (LabelAIGatewayTenant, om_Name (at_meta t)),
      (LabelTenantName, om_Name (at_meta t)), (LabelTenantNamespace, ns), (LabelGatewayAccess, ''true'')]"

definition tenantAnnotations :: "AITenant \<Rightarrow> labels" where
  "tenantAnnotations t =
     [(AnnotationAITenantName, om_Name (at_meta t)), (AnnotationAITenantNamespace, om_Namespace (at_meta t))]"

definition applyAITenantMetadata :: "AITenant \<Rightarrow> string \<Rightarrow> ObjectMeta \<Rightarrow> ObjectMeta" where
  "applyAITenantMetadata t ns m =
     m\<lparr>om_Labels := foldl (\<lambda>ls (k, v). AList.update k v ls) (om_Labels m) (tenantLabels t ns),
       om_Annotations := foldl (\<lambda>ls (k, v). AList.update k v ls) (om_Annotations m) (tenantAnnotations t)\<rparr>"

definition removeAITenantMetadata :: "AITenant \<Rightarrow> string \<Rightarrow> ObjectMeta \<Rightarrow> ObjectMeta" where
  "removeAITenantMetadata t ns m =
     m\<lparr>om_Labels := foldl (\<lambda>ls (k, v). removeMapValueIfEqual ls k v) (om_Labels m) (tenantLabels t ns),
       om_Annotations :=
         foldl (\<lambda>ls (k, v). removeMapValueIfEqual ls k v) (om_Annotations m)
           (tenantAnnotations t @ [(aitenantCreatedAnnotation, ''true'')])\<rparr>"

definition ownedByAITenant :: "ObjectMeta \<Rightarrow> AITenant \<Rightarrow> bool" where
  "ownedByAITenant m t \<longleftrightarrow>
     om_Annotations m \<noteq> []
     \<and> annotation (om_Annotations m) AnnotationAITenantName = om_Name (at_meta t)
     \<and> annotation (om_Annotations m) AnnotationAITenantNamespace = om_Namespace (at_meta t)"

definition hasAITenantOwnerAnnotations :: "ObjectMeta \<Rightarrow> bool" where
  "hasAITenantOwnerAnnotations m \<longleftrightarrow>
     annotation (om_Annotations m) AnnotationAITenantName \<noteq> []
     \<or> annotation (om_Annotations m) AnnotationAITenantNamespace \<noteq> []"

text \<open>
  \<open>isNotFoundError\<close>, \<open>isAlreadyExistsError\<close> and \<open>isNamespaceMissingError\<close>. The first two look for the
  reason of an API error in the chain of wrapped errors in three ways, which agree.
\<close>

definition isNotFoundError :: "k8s_error \<Rightarrow> bool" where
  "isNotFoundError e \<longleftrightarrow> IsNotFound e"

definition isAlreadyExistsError :: "k8s_error \<Rightarrow> bool" where
  "isAlreadyExistsError e \<longleftrightarrow> IsAlreadyExists e"

definition isNamespaceMissingError :: "ctl_error \<Rightarrow> bool" where
  "isNamespaceMissingError e \<longleftrightarrow>
     (case ce_kind e of WrapsApi (ErrNamespaceMissing m) \<Rightarrow> True | _ \<Rightarrow> False)"

fun objectKind :: "kobj \<Rightarrow> string" where
  "objectKind (KAITenant x) = ''AITenant''"
| "objectKind (KNamespace x) = ''Namespace''"
| "objectKind (KConfig x) = MaasTenantConfigKind"
| "objectKind (KTenant x) = ''Tenant''"
| "objectKind (KRole x) = ''Role''"
| "objectKind (KRoleBinding x) = ''RoleBinding''"
| "objectKind (KJob x) = ''Job''"
| "objectKind (KConfigMap x) = ''ConfigMap''"
| "objectKind (KAuthPolicy x) = ''AuthPolicy''"

section \<open>Status\<close>

type_synonym AITenantStatus = "string \<times> string \<times> TenantGatewayRef \<times> Condition list"

definition at_Status :: "AITenant \<Rightarrow> AITenantStatus" where
  "at_Status t = (at_Phase t, at_TenantNamespace t, at_GatewayRef t, at_Conditions t)"

definition setAITenantPhase :: "tenantApi \<Rightarrow> AITenant \<Rightarrow> string \<Rightarrow> string \<Rightarrow> string \<Rightarrow> AITenant" where
  "setAITenantPhase a t phase reason message =
     t\<lparr>at_Phase := phase,
       at_Conditions :=
         SetStatusCondition a (at_Conditions t)
           \<lparr>c_Type = ''Ready'', c_Status = (if phase = ''Active'' then ''True'' else ''False''),
            c_Reason = reason, c_Message = message, c_ObservedGeneration = om_Generation (at_meta t)\<rparr>\<rparr>"

definition updateAITenantStatus :: "'s tenantClient \<Rightarrow> AITenant \<Rightarrow> AITenantStatus \<Rightarrow> ('s, unit) tact" where
  "updateAITenantStatus c t snap =
     (if snap = at_Status t then okA () else onA (writeA c (StatusUpdate t)) plainA okA)"

section \<open>Creating or changing an object of a tenant\<close>

text \<open>
  \<open>get\<close> reads the object, \<open>emb\<close> and \<open>mt\<close> are its kind and its metadata; \<open>mutate\<close> may read the cluster.
\<close>

definition upsertWithCreate ::
  "'s tenantClient \<Rightarrow> ('s, 'a) cread \<Rightarrow> ('a \<Rightarrow> kobj) \<Rightarrow> 'a \<Rightarrow> AITenant \<Rightarrow> ('a \<Rightarrow> ('s, 'a) tact)
     \<Rightarrow> ('a \<Rightarrow> ('s, 'a) tact) option \<Rightarrow> ('s, unit) tact" where
  "upsertWithCreate c get emb obj t mutate mutateCreate =
     (let at = objectKind (emb obj) @ '' '' @ om_Namespace (kmeta (emb obj)) @ ''/'' @ om_Name (kmeta (emb obj));
          change = (\<lambda>current.
            if hasAITenantOwnerAnnotations (kmeta (emb current)) \<and> \<not> ownedByAITenant (kmeta (emb current)) t then
              failA (at @ '' is managed by another AITenant'')
            else
              thenA (mutate current)
                (\<lambda>new. if emb current = emb new then okA ()
                       else onA (writeA c (Patch (emb current) (emb new) False)) (wrapA (''patch '' @ at)) okA))
      in onA (readA c get)
           (\<lambda>e. if \<not> isNotFoundError e then wrapA (''get '' @ at) e
                else
                  thenA (mutate obj)
                    (\<lambda>obj'. thenA (case mutateCreate of None \<Rightarrow> okA obj' | Some mc \<Rightarrow> mc obj')
                      (\<lambda>obj''. onA (writeA c (Create (emb obj'')))
                         (\<lambda>ce. if \<not> isAlreadyExistsError ce then wrapA (''create '' @ at) ce
                               else onA (readA c get) (wrapA (''get '' @ at @ '' after create conflict'')) change)
                         okA)))
           change)"

definition upsert ::
  "'s tenantClient \<Rightarrow> ('s, 'a) cread \<Rightarrow> ('a \<Rightarrow> kobj) \<Rightarrow> 'a \<Rightarrow> AITenant \<Rightarrow> ('a \<Rightarrow> ('s, 'a) tact) \<Rightarrow> ('s, unit) tact" where
  "upsert c get emb obj t mutate = upsertWithCreate c get emb obj t mutate None"

definition deleteOwned ::
  "'s tenantClient \<Rightarrow> AITenant \<Rightarrow> ('a \<Rightarrow> kobj) \<Rightarrow> (string \<Rightarrow> string \<Rightarrow> ('s, 'a) cread) \<Rightarrow> string \<Rightarrow> string
     \<Rightarrow> ('s, unit) tact" where
  "deleteOwned c t emb get ns name =
     (if name = [] then okA ()
      else
        onA (readA c (get ns name)) (ignoreNotFound ())
          (\<lambda>obj. if \<not> ownedByAITenant (kmeta (emb obj)) t then okA ()
                 else deleteA c (emb obj) NoOption ofApi))"

section \<open>Placement and the tenant namespace\<close>

definition validateAITenantPlacement :: "tenantApi \<Rightarrow> AITenantReconciler \<Rightarrow> AITenant \<Rightarrow> string option" where
  "validateAITenantPlacement a r t =
     (let ns = om_Namespace (at_meta t);
          at = ''AITenant '' @ ns @ ''/'' @ om_Name (at_meta t);
          tns = tenantNamespaceName r t
      in if ns = [] then Some (''AITenant '' @ Quote (om_Name (at_meta t)) @ '' must be namespaced'')
         else if tr_AppNamespace r \<noteq> [] \<and> ns = tr_AppNamespace r then
           Some (at @ '' must not be created in the protected application namespace '' @ Quote (tr_AppNamespace r))
         else if tr_TenantNamespace r \<noteq> [] \<and> ns = tr_TenantNamespace r then
           Some (at @ '' must be created in a separate infra namespace, not the tenant namespace ''
             @ Quote (tr_TenantNamespace r))
         else if ns \<noteq> aitenantNamespace r then
           Some (at @ '' must be created in the configured AITenant infrastructure namespace ''
             @ Quote (aitenantNamespace r))
         else if tns = ns then
           Some (''derived tenant namespace must be different from the AITenant infra namespace '' @ Quote ns)
         else if tr_AppNamespace r \<noteq> [] \<and> tns = tr_AppNamespace r then
           Some (''derived tenant namespace must not be the protected application namespace ''
             @ Quote (tr_AppNamespace r))
         else if IsDNS1123Label a tns \<noteq> [] then
           Some (''derived tenant namespace '' @ Quote tns @ '' is invalid: '' @ Join (IsDNS1123Label a tns) ''; '')
         else None)"

definition newTenantNamespace :: "AITenant \<Rightarrow> string \<Rightarrow> NamespaceObj" where
  "newTenantNamespace t name =
     (let m = applyAITenantMetadata t name (freshMeta [] name)
      in \<lparr>nsp_meta =
            m\<lparr>om_Labels := setMapValue (om_Labels m) generatedNamespaceLabel ''true'',
              om_Annotations := setMapValue (om_Annotations m) aitenantCreatedAnnotation ''true''\<rparr>,
          nsp_Terminating = False\<rparr>)"

text \<open>Taking over a namespace that exists.\<close>

definition adoptNamespace :: "'s tenantClient \<Rightarrow> AITenant \<Rightarrow> string \<Rightarrow> NamespaceObj \<Rightarrow> ('s, bool) tact" where
  "adoptNamespace c t name ns =
     (if nsp_Terminating ns then failA (''tenant namespace '' @ Quote name @ '' is terminating'')
      else if hasAITenantOwnerAnnotations (nsp_meta ns) \<and> \<not> ownedByAITenant (nsp_meta ns) t then
        failA (''tenant namespace '' @ Quote name @ '' is managed by another AITenant'')
      else
        let new = ns\<lparr>nsp_meta := applyAITenantMetadata t name (nsp_meta ns)\<rparr>
        in if ns = new then okA False
           else onA (writeA c (Patch (KNamespace ns) (KNamespace new) False))
                  (wrapA (''patch tenant namespace '' @ Quote name)) (\<lambda>_. okA False))"

definition ensureTenantNamespace :: "'s tenantClient \<Rightarrow> AITenantReconciler \<Rightarrow> AITenant \<Rightarrow> ('s, bool) tact" where
  "ensureTenantNamespace c r t =
     (let name = tenantNamespaceName r t
      in onA (readA c (tc_namespace c name))
           (\<lambda>e. if isNotFoundError e then
                  onA (writeA c (Create (KNamespace (newTenantNamespace t name))))
                    (\<lambda>ce. if \<not> isAlreadyExistsError ce then wrapA (''create tenant namespace '' @ Quote name) ce
                          else onA (readA c (tc_namespace c name))
                                 (wrapA (''get tenant namespace '' @ Quote name @ '' after create conflict''))
                                 (adoptNamespace c t name))
                    (\<lambda>_. okA True)
                else wrapA (''get tenant namespace '' @ Quote name) e)
           (adoptNamespace c t name))"

definition validateTenantGateway :: "'s tenantClient \<Rightarrow> TenantGatewayRef \<Rightarrow> ('s, Gateway) tact" where
  "validateTenantGateway c ref =
     (let at = gr_Namespace ref @ ''/'' @ gr_Name ref
      in if gr_Namespace ref = [] then failA ''gateway namespace is required; set --gateway-namespace''
         else if gr_Name ref = [] then failA ''spec.gateway.name is required when AITenant name is empty''
         else
           onA (readA c (tc_gateway c (gr_Namespace ref) (gr_Name ref)))
             (\<lambda>e. if isNotFoundError e then
                    failA (''gateway '' @ at @ '' not found: the Gateway must be created by a network or cluster ''
                      @ ''administrator before AITenant can be provisioned'')
                  else wrapA (''get Gateway '' @ at) e)
             okA)"

section \<open>Labels of the infrastructure namespace\<close>

text \<open>The infrastructure namespace with other labels and owners of labels.\<close>

definition relabelled :: "NamespaceObj \<Rightarrow> labels \<times> ownership \<Rightarrow> NamespaceObj" where
  "relabelled ns lo =
     ns\<lparr>nsp_meta := (nsp_meta ns)\<lparr>om_Labels := fst lo,
         om_Annotations := ownershipAnnotation gatewayLabelsAnnotation (snd lo) (om_Annotations (nsp_meta ns))\<rparr>\<rparr>"

definition ensureInfraNamespaceGatewayLabels ::
  "'s tenantClient \<Rightarrow> AITenantReconciler \<Rightarrow> Gateway \<Rightarrow> ('s, unit) tact" where
  "ensureInfraNamespaceGatewayLabels c r gw =
     (case gatewayDesiredLabels gw of
        Inl e \<Rightarrow> errA e
      | Inr desired \<Rightarrow>
          let infra = tr_AppNamespace r
          in onA (readA c (tc_namespace c infra))
               (\<lambda>e. if isNotFoundError e \<and> desired = [] then okA ()
                    else wrapA (''read infra namespace '' @ infra) e)
               (\<lambda>ns. case parseOwnershipAnnotation
                           (annotation (om_Annotations (nsp_meta ns)) gatewayLabelsAnnotation) of
                  None \<Rightarrow>
                    failA (''unmarshal '' @ gatewayLabelsAnnotation @ '' annotation on infra namespace '' @ infra)
                | Some parsed \<Rightarrow>
                    (case planGatewayLabels infra (gw_Name gw) desired (om_Labels (nsp_meta ns)) parsed of
                       Inl e \<Rightarrow> errA e
                     | Inr None \<Rightarrow> okA ()
                     | Inr (Some lo) \<Rightarrow>
                         onA (writeA c (Patch (KNamespace ns) (KNamespace (relabelled ns lo)) True))
                           (wrapA (''patch labels on infra namespace '' @ infra)) okA)))"

definition cleanupGatewayLabelsOnDelete ::
  "'s tenantClient \<Rightarrow> AITenantReconciler \<Rightarrow> AITenant \<Rightarrow> ('s, unit) tact" where
  "cleanupGatewayLabelsOnDelete c r t =
     (let ref = tenantGatewayRefFor r t; infra = tr_AppNamespace r
      in if gr_Name ref = [] \<or> gr_Namespace ref = [] then okA ()
         else
           onA (readA c (tc_namespace c infra))
             (\<lambda>e. if isNotFoundError e then okA () else wrapA (''read infra namespace '' @ infra) e)
             (\<lambda>ns. case parseOwnershipAnnotation
                         (annotation (om_Annotations (nsp_meta ns)) gatewayLabelsAnnotation) of
                None \<Rightarrow> okA ()
              | Some parsed \<Rightarrow>
                  (case unclaimGatewayLabels (gr_Name ref) (om_Labels (nsp_meta ns))
                          (case parsed of None \<Rightarrow> [] | Some m \<Rightarrow> m) of
                     None \<Rightarrow> okA ()
                   | Some lo \<Rightarrow>
                       onA (writeA c (Patch (KNamespace ns) (KNamespace (relabelled ns lo)) True))
                         (wrapA (''cleanup gateway labels on infra namespace '' @ infra)) okA)))"

section \<open>Legacy tenants\<close>

definition legacyGatewayNameIsSharedDefault :: "AITenantReconciler \<Rightarrow> AITenant \<Rightarrow> string \<Rightarrow> bool" where
  "legacyGatewayNameIsSharedDefault r t gatewayName \<longleftrightarrow>
     (let defaultGatewayName = (if tr_GatewayName r = [] then legacyDefaultGatewayName else tr_GatewayName r)
      in om_Name (at_meta t) \<noteq> DefaultAITenantName \<and> gatewayName = defaultGatewayName)"

definition withLegacyOIDC :: "AITenant \<Rightarrow> TenantObj \<Rightarrow> AITenant" where
  "withLegacyOIDC t legacy =
     (if at_OIDC t = None \<and> tn_ExternalOIDC legacy \<noteq> None then t\<lparr>at_OIDC := tn_ExternalOIDC legacy\<rparr> else t)"

definition withLegacyGateway :: "AITenantReconciler \<Rightarrow> AITenant \<Rightarrow> TenantGatewayRef \<Rightarrow> AITenant" where
  "withLegacyGateway r t ref =
     (if gr_Name ref \<noteq> [] \<and> (at_SpecGatewayName t = None \<or> at_SpecGatewayName t = Some [])
         \<and> \<not> legacyGatewayNameIsSharedDefault r t (gr_Name ref)
      then t\<lparr>at_SpecGatewayName := Some (gr_Name ref)\<rparr> else t)"

text \<open>
  The AITenant as the migration leaves it, changed or not, also when it fails, and whether the change
  was written.
\<close>

definition migrateLegacyTenantPlatformContext ::
  "'s tenantClient \<Rightarrow> AITenantReconciler \<Rightarrow> AITenant \<Rightarrow> string \<Rightarrow> (ctl_error, 's, AITenant \<times> bool ctl) act" where
  "migrateLegacyTenantPlatformContext c r t tns =
     onA (readA c (tc_tenant c tns TenantInstanceName))
       (\<lambda>e. okA (t, if IsNotFound e then Ok False else Err (ofApi e)))
       (\<lambda>legacy.
          let t1 = withLegacyOIDC t legacy;
              ref = tn_GatewayRef legacy;
              t2 = withLegacyGateway r t1 ref
          in if gr_Namespace ref \<noteq> [] \<and> gr_Namespace ref \<noteq> tr_GatewayNamespace r then
               okA (t1, Err (CtlErr OtherErr
                 (''legacy Tenant '' @ om_Namespace (tn_meta legacy) @ ''/'' @ om_Name (tn_meta legacy)
                  @ '' spec.gatewayRef.namespace='' @ Quote (gr_Namespace ref)
                  @ '' does not match configured gateway namespace '' @ Quote (tr_GatewayNamespace r)
                  @ ''; AITenant supports gateway name migration only, so update --gateway-namespace or clear ''
                  @ ''the legacy namespace before migration'')))
             else if at_SpecGatewayName t = at_SpecGatewayName t2 \<and> at_OIDC t = at_OIDC t2 then okA (t2, Ok False)
             else
               onA (writeA c (Patch (KAITenant t) (KAITenant t2) False))
                 (\<lambda>e. okA (t2, Err (wrapApi ''patch AITenant with legacy Tenant platform context'' e)))
                 (\<lambda>_. okA (t2, Ok True)))"

definition copyLegacyTenantConfig ::
  "'s tenantClient \<Rightarrow> MaasTenantConfigObj \<Rightarrow> ('s, MaasTenantConfigObj) tact" where
  "copyLegacyTenantConfig c config =
     onA (readA c (tc_tenant c (om_Namespace (mtc_meta config)) TenantInstanceName)) (ignoreNotFound config)
       (\<lambda>legacy.
          okA (config\<lparr>
            mtc_APIKeys := (if mtc_APIKeys config = None then tn_APIKeys legacy else mtc_APIKeys config),
            mtc_Telemetry := (if mtc_Telemetry config = None then tn_Telemetry legacy else mtc_Telemetry config)\<rparr>))"

definition markLegacyTenantDeprecated ::
  "'s tenantClient \<Rightarrow> tenantApi \<Rightarrow> AITenant \<Rightarrow> string \<Rightarrow> ('s, unit) tact" where
  "markLegacyTenantDeprecated c a t tns =
     onA (readA c (tc_tenant c tns TenantInstanceName)) (ignoreNotFound ())
       (\<lambda>legacy.
          if hasAITenantOwnerAnnotations (tn_meta legacy) \<and> \<not> ownedByAITenant (tn_meta legacy) t then okA ()
          else
            let m = (tn_meta legacy)\<lparr>om_Annotations :=
                       AList.update legacyMigratedToAnnotation MaasTenantConfigInstanceName
                         (AList.update legacyDeprecatedByAnnotation MaasTenantConfigKind
                           (om_Annotations (tn_meta legacy)))\<rparr>;
                new = legacy\<lparr>tn_meta := RemoveFinalizer a (RemoveFinalizer a m tenantFinalizer) legacyTenantFinalizer\<rparr>
            in if legacy = new then okA ()
               else onA (writeA c (Patch (KTenant legacy) (KTenant new) True)) plainA okA)"

definition isExpectedAITenantManagedConfig :: "MaasTenantConfigObj \<Rightarrow> AITenant \<Rightarrow> string \<Rightarrow> bool" where
  "isExpectedAITenantManagedConfig config t tns \<longleftrightarrow>
     (let m = mtc_meta config; ls = annotation (om_Labels m)
      in om_Name m = MaasTenantConfigInstanceName \<and> om_Namespace m = tns \<and> \<not> om_Deleting m
         \<and> ownedByAITenant m t
         \<and> ls managedByLabel = ''maas-controller'' \<and> ls LabelManagedByAITenant = ''true''
         \<and> ls LabelTenantName = om_Name (at_meta t) \<and> ls LabelTenantNamespace = tns)"

definition cleanupMigratedLegacyTenant :: "'s tenantClient \<Rightarrow> AITenant \<Rightarrow> string \<Rightarrow> ('s, unit) tact" where
  "cleanupMigratedLegacyTenant c t tns =
     onA (readA c (tc_config c tns MaasTenantConfigInstanceName)) (ignoreNotFound ())
       (\<lambda>config.
          if \<not> isExpectedAITenantManagedConfig config t tns then okA ()
          else
            onA (readA c (tc_tenant c tns TenantInstanceName)) (ignoreNotFound ())
              (\<lambda>legacy.
                 let m = tn_meta legacy; nonEmpty = (\<lambda>s. if s \<noteq> [] then Some s else None)
                 in if hasAITenantOwnerAnnotations m \<and> \<not> ownedByAITenant m t then okA ()
                    else if annotation (om_Annotations m) legacyDeprecatedByAnnotation \<noteq> MaasTenantConfigKind
                            \<or> annotation (om_Annotations m) legacyMigratedToAnnotation
                                \<noteq> MaasTenantConfigInstanceName then okA ()
                    else if tn_APIKeys legacy \<noteq> None \<and> tn_APIKeys legacy \<noteq> mtc_APIKeys config then okA ()
                    else if tn_Telemetry legacy \<noteq> None \<and> tn_Telemetry legacy \<noteq> mtc_Telemetry config then okA ()
                    else
                      deleteA c (KTenant legacy)
                        (Preconditions (nonEmpty (tn_UID legacy)) (nonEmpty (tn_ResourceVersion legacy)))
                        (wrapApi (''delete migrated legacy Tenant '' @ om_Namespace m @ ''/'' @ om_Name m))))"

section \<open>Settings and roles\<close>

definition mutateConfig ::
  "'s tenantClient \<Rightarrow> AITenant \<Rightarrow> string \<Rightarrow> MaasTenantConfigObj \<Rightarrow> ('s, MaasTenantConfigObj) tact" where
  "mutateConfig c t tns config =
     (if om_Deleting (mtc_meta config) then
        failA (''MaasTenantConfig '' @ om_Namespace (mtc_meta config) @ ''/'' @ om_Name (mtc_meta config)
          @ '' is being deleted; waiting for cleanup to finish before recreating'')
      else copyLegacyTenantConfig c (config\<lparr>mtc_meta := applyAITenantMetadata t tns (mtc_meta config)\<rparr>))"

text \<open>Whether the settings are ready, and whether the namespace does not take objects yet.\<close>

definition ensureTenantConfig ::
  "'s tenantClient \<Rightarrow> tenantApi \<Rightarrow> AITenantReconciler \<Rightarrow> AITenant \<Rightarrow> ('s, bool \<times> bool) tact" where
  "ensureTenantConfig c a r t =
     (let tns = tenantNamespaceName r t;
          get = tc_config c tns MaasTenantConfigInstanceName;
          config = \<lparr>mtc_meta = freshMeta tns MaasTenantConfigInstanceName, mtc_APIKeys = None,
                    mtc_Telemetry = None, mtc_Conditions = []\<rparr>
      in onA (upsert c get KConfig config t (mutateConfig c t tns))
           (\<lambda>e. if isNamespaceMissingError e then okA (False, True) else errA e)
           (\<lambda>_. thenA (markLegacyTenantDeprecated c a t tns)
             (\<lambda>_. thenA (cleanupMigratedLegacyTenant c t tns)
               (\<lambda>_. onA (readA c get)
                  (wrapA (''get MaasTenantConfig '' @ tns @ ''/'' @ MaasTenantConfigInstanceName @ '' readiness''))
                  (\<lambda>cur. okA
                     ((case FindStatusCondition a (mtc_Conditions cur) ''Ready'' of
                         None \<Rightarrow> False
                       | Some ready \<Rightarrow> c_Status ready = ''True''
                           \<and> c_ObservedGeneration ready = om_Generation (mtc_meta cur)), False))))))"

definition tenantAdminRules :: "PolicyRule list" where
  "tenantAdminRules =
     [\<lparr>rule_APIGroups = [maasGroup], rule_Resources = [''maasauthpolicies'', ''maassubscriptions''],
       rule_ResourceNames = [],
       rule_Verbs = [''get'', ''list'', ''watch'', ''create'', ''update'', ''patch'', ''delete'']\<rparr>,
      \<lparr>rule_APIGroups = [maasGroup], rule_Resources = [''maastenantconfigs''],
       rule_ResourceNames = [MaasTenantConfigInstanceName], rule_Verbs = [''get'', ''update'', ''patch'']\<rparr>,
      \<lparr>rule_APIGroups = [maasGroup], rule_Resources = [''maasmodelrefs''], rule_ResourceNames = [],
       rule_Verbs = [''get'', ''list'', ''watch'']\<rparr>]"

definition ensureTenantNamespaceRole :: "'s tenantClient \<Rightarrow> AITenantReconciler \<Rightarrow> AITenant \<Rightarrow> ('s, unit) tact" where
  "ensureTenantNamespaceRole c r t =
     (let tns = tenantNamespaceName r t; name = tenantAdminRoleName t
      in upsert c (tc_role c tns name) KRole \<lparr>role_meta = freshMeta tns name, role_Rules = []\<rparr> t
           (\<lambda>role. okA (role\<lparr>role_meta := applyAITenantMetadata t tns (role_meta role),
                             role_Rules := tenantAdminRules\<rparr>)))"

definition ensureAITenantObjectRole :: "'s tenantClient \<Rightarrow> AITenantReconciler \<Rightarrow> AITenant \<Rightarrow> ('s, unit) tact" where
  "ensureAITenantObjectRole c r t =
     (let tns = tenantNamespaceName r t; ns = om_Namespace (at_meta t); name = aitenantAccessRoleName t
      in upsert c (tc_role c ns name) KRole \<lparr>role_meta = freshMeta ns name, role_Rules = []\<rparr> t
           (\<lambda>role. okA (role\<lparr>role_meta := applyAITenantMetadata t tns (role_meta role),
              role_Rules := [\<lparr>rule_APIGroups = [maasGroup], rule_Resources = [''aitenants''],
                rule_ResourceNames = [om_Name (at_meta t)], rule_Verbs = [''get'']\<rparr>]\<rparr>)))"

definition ensureTenantAdminRBAC :: "'s tenantClient \<Rightarrow> AITenantReconciler \<Rightarrow> AITenant \<Rightarrow> ('s, unit) tact" where
  "ensureTenantAdminRBAC c r t =
     thenA (ensureTenantNamespaceRole c r t) (\<lambda>_. ensureAITenantObjectRole c r t)"

section \<open>Claims of gateways\<close>

definition isClaimOwnedByAITenant :: "ConfigMap \<Rightarrow> AITenant \<Rightarrow> bool" where
  "isClaimOwnedByAITenant claim t \<longleftrightarrow>
     (case find or_Controller (om_Owners (cm_meta claim)) of
        None \<Rightarrow> ownedByAITenant (cm_meta claim) t
      | Some ref \<Rightarrow>
          if or_Kind ref \<noteq> ''AITenant'' \<or> or_Name ref \<noteq> om_Name (at_meta t) then False
          else if at_UID t \<noteq> [] \<and> or_UID ref \<noteq> [] then or_UID ref = at_UID t
          else ownedByAITenant (cm_meta claim) t)"

fun deleteClaims :: "'s tenantClient \<Rightarrow> AITenant \<Rightarrow> string \<Rightarrow> ConfigMap list \<Rightarrow> ('s, unit) tact" where
  "deleteClaims c t what [] = okA ()"
| "deleteClaims c t what (cm # cms) =
     (if \<not> isClaimOwnedByAITenant cm t then deleteClaims c t what cms
      else thenA (deleteA c (KConfigMap cm) NoOption (wrapApi (what @ om_Name (cm_meta cm))))
             (\<lambda>_. deleteClaims c t what cms))"

definition deleteGatewayClaim :: "'s tenantClient \<Rightarrow> AITenantReconciler \<Rightarrow> AITenant \<Rightarrow> ('s, unit) tact" where
  "deleteGatewayClaim c r t =
     (let ns = aitenantNamespace r
      in onA (readA c (tc_claims c ns [(gatewayClaimLabel, ''true'')])) (wrapA (''list gateway claims in '' @ ns))
           (deleteClaims c t (''delete gateway claim '' @ ns @ ''/'')))"

definition cleanupStaleClaims ::
  "'s tenantClient \<Rightarrow> AITenantReconciler \<Rightarrow> AITenant \<Rightarrow> TenantGatewayRef \<Rightarrow> ('s, unit) tact" where
  "cleanupStaleClaims c r t ref =
     (let ns = aitenantNamespace r
      in onA (readA c (tc_claims c ns [(gatewayClaimLabel, ''true'')])) (wrapA (''list gateway claims in '' @ ns))
           (\<lambda>cms. deleteClaims c t (''delete stale gateway claim '' @ ns @ ''/'')
              (filter (\<lambda>cm. om_Name (cm_meta cm) \<noteq> gatewayClaimName ref) cms)))"

definition newClaim :: "AITenantReconciler \<Rightarrow> AITenant \<Rightarrow> TenantGatewayRef \<Rightarrow> ConfigMap" where
  "newClaim r t ref =
     \<lparr>cm_meta = (freshMeta (aitenantNamespace r) (gatewayClaimName ref))
        \<lparr>om_Labels := [(managedByLabel, ''maas-controller''), (gatewayClaimLabel, ''true''),
                       (LabelManagedByAITenant, ''true'')],
         om_Annotations := tenantAnnotations t\<rparr>,
      cm_Data = [(''gatewayNamespace'', gr_Namespace ref), (''gatewayName'', gr_Name ref)]\<rparr>"

text \<open>Who holds a claim, for the error that says so.\<close>

definition claimHolder :: "ConfigMap \<Rightarrow> string" where
  "claimHolder claim =
     annotation (om_Annotations (cm_meta claim)) AnnotationAITenantNamespace @ ''/''
     @ (case find (\<lambda>ref. or_Controller ref \<and> or_Kind ref = ''AITenant'') (om_Owners (cm_meta claim)) of
          Some ref \<Rightarrow> or_Name ref
        | None \<Rightarrow> annotation (om_Annotations (cm_meta claim)) AnnotationAITenantName)"

text \<open>A claim that exists is renewed, or found to be of somebody else.\<close>

definition renewClaim ::
  "'s tenantClient \<Rightarrow> tenantApi \<Rightarrow> AITenantReconciler \<Rightarrow> AITenant \<Rightarrow> TenantGatewayRef \<Rightarrow> ConfigMap
     \<Rightarrow> ('s, unit) tact" where
  "renewClaim c a r t ref claim =
     (let at = aitenantNamespace r @ ''/'' @ gatewayClaimName ref;
          want = gr_Namespace ref @ ''/'' @ gr_Name ref;
          dat = annotation (cm_Data claim)
      in if isClaimOwnedByAITenant claim t then
           if dat ''gatewayNamespace'' \<noteq> gr_Namespace ref \<or> dat ''gatewayName'' \<noteq> gr_Name ref then
             failA (''claim '' @ at @ '' already exists for gateway '' @ dat ''gatewayNamespace'' @ ''/''
               @ dat ''gatewayName'' @ '' but tenant '' @ om_Namespace (at_meta t) @ ''/'' @ om_Name (at_meta t)
               @ '' needs '' @ want @ ''; this indicates a hash collision or stale claim'')
           else
             (case SetTenantReference a t (cm_meta claim) of
                Inl e \<Rightarrow> failA (''set owner reference on existing gateway claim '' @ at @ '': '' @ e)
              | Inr m \<Rightarrow>
                  thenA
                    (if om_Owners (cm_meta claim) = om_Owners m then okA ()
                     else onA (writeA c (Update (KConfigMap (claim\<lparr>cm_meta := m\<rparr>))))
                            (wrapA (''update owner reference on gateway claim '' @ at)) okA)
                    (\<lambda>_. cleanupStaleClaims c r t ref))
         else
           failA (''gateway '' @ want @ '' is already claimed by AITenant '' @ claimHolder claim
             @ ''; each AITenant requires a dedicated Gateway for isolation''))"

definition ensureGatewayClaim ::
  "'s tenantClient \<Rightarrow> tenantApi \<Rightarrow> AITenantReconciler \<Rightarrow> AITenant \<Rightarrow> TenantGatewayRef \<Rightarrow> ('s, unit) tact" where
  "ensureGatewayClaim c a r t ref =
     (if gr_Namespace ref = [] \<or> gr_Name ref = [] then
        failA (''gateway reference must have both namespace and name set (got namespace='' @ Quote (gr_Namespace ref)
          @ '', name='' @ Quote (gr_Name ref) @ '')'')
      else
        let ns = aitenantNamespace r; name = gatewayClaimName ref; at = ns @ ''/'' @ name; claim = newClaim r t ref
        in case SetTenantReference a t (cm_meta claim) of
             Inl e \<Rightarrow> failA (''set owner reference on gateway claim '' @ at @ '': '' @ e)
           | Inr m \<Rightarrow>
               onA (writeA c (Create (KConfigMap (claim\<lparr>cm_meta := m\<rparr>))))
                 (\<lambda>e. if \<not> isAlreadyExistsError e then wrapA (''create gateway claim '' @ at) e
                      else
                        onA (readA c (tc_configMap c ns name)) (wrapA (''get existing gateway claim '' @ at))
                          (renewClaim c a r t ref))
                 (\<lambda>_. cleanupStaleClaims c r t ref))"

section \<open>Deleting what a tenant has\<close>

definition deleteTenantConfig ::
  "'s tenantClient \<Rightarrow> tenantApi \<Rightarrow> AITenantReconciler \<Rightarrow> AITenant \<Rightarrow> ('s, bool) tact" where
  "deleteTenantConfig c a r t =
     (let tns = tenantNamespaceName r t; at = tns @ ''/'' @ MaasTenantConfigInstanceName
      in onA (readA c (tc_config c tns MaasTenantConfigInstanceName))
           (\<lambda>e. if isNotFoundError e then okA True
                else wrapA (''get MaasTenantConfig '' @ at @ '' during AITenant deletion'') e)
           (\<lambda>config.
              let m = mtc_meta config
              in if \<not> ownedByAITenant m t then okA True
                 else if om_Deleting m then okA False
                 else if \<not> ContainsFinalizer m tenantFinalizer then
                   onA (writeA c (Patch (KConfig config)
                          (KConfig (config\<lparr>mtc_meta := AddFinalizer a m tenantFinalizer\<rparr>)) False))
                     (wrapA (''add cleanup finalizer to MaasTenantConfig '' @ at)) (\<lambda>_. okA False)
                 else thenA (deleteA c (KConfig config) NoOption (wrapApi (''delete MaasTenantConfig '' @ at)))
                        (\<lambda>_. okA False)))"

definition deleteAITenantScopedChildren ::
  "'s tenantClient \<Rightarrow> AITenantReconciler \<Rightarrow> AITenant \<Rightarrow> ('s, unit) tact" where
  "deleteAITenantScopedChildren c r t =
     (let tns = tenantNamespaceName r t; ns = om_Namespace (at_meta t)
      in thenA (deleteOwned c t KRoleBinding (tc_roleBinding c) tns (tenantAdminRoleName t))
           (\<lambda>_. thenA (deleteOwned c t KRole (tc_role c) tns (tenantAdminRoleName t))
             (\<lambda>_. thenA (deleteOwned c t KRoleBinding (tc_roleBinding c) ns (aitenantAccessRoleName t))
               (\<lambda>_. deleteOwned c t KRole (tc_role c) ns (aitenantAccessRoleName t)))))"

definition releasedNamespace :: "AITenant \<Rightarrow> string \<Rightarrow> NamespaceObj \<Rightarrow> NamespaceObj" where
  "releasedNamespace t name ns =
     (let m = removeAITenantMetadata t name (nsp_meta ns)
      in ns\<lparr>nsp_meta := m\<lparr>om_Labels := removeMapValueIfEqual (om_Labels m) generatedNamespaceLabel ''true''\<rparr>\<rparr>)"

definition releaseTenantNamespace :: "'s tenantClient \<Rightarrow> AITenantReconciler \<Rightarrow> AITenant \<Rightarrow> ('s, unit) tact" where
  "releaseTenantNamespace c r t =
     (let name = tenantNamespaceName r t
      in onA (readA c (tc_namespace c name))
           (\<lambda>e. if isNotFoundError e then okA ()
                else wrapA (''get tenant namespace '' @ Quote name @ '' during AITenant deletion'') e)
           (\<lambda>ns. if \<not> ownedByAITenant (nsp_meta ns) t then okA ()
                 else if om_Deleting (nsp_meta ns) then okA ()
                 else
                   let new = releasedNamespace t name ns
                   in if ns = new then okA ()
                      else onA (writeA c (Patch (KNamespace ns) (KNamespace new) False))
                             (wrapA (''release tenant namespace '' @ Quote name @ '' during AITenant deletion'')) okA))"

definition deleteTenantGatewayAuthPolicy ::
  "'s tenantClient \<Rightarrow> AITenantReconciler \<Rightarrow> AITenant \<Rightarrow> ('s, unit) tact" where
  "deleteTenantGatewayAuthPolicy c r t =
     (let empty = (\<lambda>g. gr_Name g = [] \<or> gr_Namespace g = []);
          ref = (if empty (at_GatewayRef t) then tenantGatewayRefFor r t else at_GatewayRef t);
          name = (if om_Name (at_meta t) = DefaultAITenantName then maasGatewayAuthPolicyName
                  else gr_Name ref @ ''-maas-auth'');
          at = gr_Namespace ref @ ''/'' @ name
      in if empty ref then okA ()
         else
           onA (readA c (tc_authPolicy c (gr_Namespace ref) name))
             (\<lambda>e. if isNotFoundError e then okA ()
                  else wrapA (''get tenant gateway AuthPolicy '' @ at @ '' during AITenant deletion'') e)
             (\<lambda>pol. if \<not> isManaged (u_meta pol) then okA ()
                    else deleteA c (KAuthPolicy pol) NoOption
                           (wrapApi (''delete tenant gateway AuthPolicy '' @ om_Namespace (u_meta pol) @ ''/''
                              @ om_Name (u_meta pol)))))"

section \<open>Revoking the API keys of a tenant\<close>

definition tenantAPIKeysRevoked :: "tenantApi \<Rightarrow> AITenant \<Rightarrow> bool" where
  "tenantAPIKeysRevoked a t \<longleftrightarrow>
     annotation (om_Annotations (at_meta t)) aitenantAPIKeysRevokedAnnotation = ''true''
     \<or> (case FindStatusCondition a (at_Conditions t) aitenantAPIKeysRevokedCondition of
          None \<Rightarrow> False
        | Some cond \<Rightarrow> c_Status cond = ''True'')"

definition tenantAPIKeyRevocationJobMatchesAITenant :: "Job \<Rightarrow> AITenant \<Rightarrow> bool" where
  "tenantAPIKeyRevocationJobMatchesAITenant job t \<longleftrightarrow>
     om_Annotations (job_meta job) \<noteq> []
     \<and> annotation (om_Annotations (job_meta job)) aitenantUIDAnnotation = at_UID t"

definition jobComplete :: "Job \<Rightarrow> bool" where
  "jobComplete job \<longleftrightarrow> (''Complete'', ''True'') \<in> set (job_Conditions job)"

definition jobFailed :: "Job \<Rightarrow> bool" where
  "jobFailed job \<longleftrightarrow> (''Failed'', ''True'') \<in> set (job_Conditions job)"

definition JoinHostPort :: "string \<Rightarrow> string \<Rightarrow> string" where
  "JoinHostPort host port =
     (if CHR '':'' \<in> set host then ''['' @ host @ '']:'' @ port else host @ '':'' @ port)"

definition revocationEndpoint :: "AITenant \<Rightarrow> string \<Rightarrow> string" where
  "revocationEndpoint t ns =
     (let name = om_Name (at_meta t);
          tenantID = (if name = DefaultAITenantName then [] else name)
      in ''https://'' @ JoinHostPort (MaaSAPIServiceName tenantID @ ''.'' @ ns @ ''.svc'') ''8443''
         @ ''/internal/v1/tenants/'' @ name @ ''/api-keys'')"

definition jLabels :: "labels \<Rightarrow> json" where
  "jLabels ls = JObj (map (\<lambda>(k, v). (k, JStr v)) ls)"

definition tenantAPIKeyRevocationJob :: "AITenantReconciler \<Rightarrow> AITenant \<Rightarrow> Job" where
  "tenantAPIKeyRevocationJob r t =
     (let ns = tr_AppNamespace r; name = om_Name (at_meta t);
          image = (if tr_RelatedImage r \<noteq> [] then tr_RelatedImage r else DefaultMaaSAPIKeyCleanupImage);
          strs = (\<lambda>xs. JArr (map JStr xs));
          runtimeDefault = JObj [(''type'', JStr ''RuntimeDefault'')]
      in \<lparr>job_meta = (freshMeta ns (aitenantAPIKeyRevocationJobName name))
            \<lparr>om_Labels :=
               [(''app'', ''maas-api-cleanup''), (''app.kubernetes.io/component'', ''api''),
                (managedByLabel, ''maas-controller''), (''app.kubernetes.io/name'', ''maas-api''),
                (''app.kubernetes.io/part-of'', ''models-as-a-service''), (LabelTenantName, name)],
             om_Annotations :=
               [(AnnotationAITenantName, name), (AnnotationAITenantNamespace, om_Namespace (at_meta t)),
                (aitenantUIDAnnotation, at_UID t)]\<rparr>,
          job_Spec =
            [(''backoffLimit'', JInt 2), (''activeDeadlineSeconds'', JInt 120),
             (''ttlSecondsAfterFinished'', JInt 300),
             (''template'', JObj
               [(''metadata'', JObj [(''labels'', jLabels
                  [(''app'', ''maas-api-cleanup''), (''app.kubernetes.io/component'', ''api''),
                   (''app.kubernetes.io/name'', ''maas-api''),
                   (''app.kubernetes.io/part-of'', ''models-as-a-service'')])]),
                (''spec'', JObj
                  [(''serviceAccountName'', JStr ''maas-api-cleanup''),
                   (''automountServiceAccountToken'', JBool False),
                   (''restartPolicy'', JStr ''OnFailure''),
                   (''securityContext'', JObj
                     [(''runAsNonRoot'', JBool True), (''seccompProfile'', runtimeDefault)]),
                   (''volumes'', JArr [JObj
                     [(''name'', JStr ''maas-api-service-ca''),
                      (''configMap'', JObj
                        [(''name'', JStr ''openshift-service-ca.crt''),
                         (''items'', JArr [JObj
                           [(''key'', JStr ''service-ca.crt''), (''path'', JStr ''service-ca.crt'')]])])]]),
                   (''containers'', JArr [JObj
                     [(''name'', JStr ''revoke-keys''), (''image'', JStr image), (''command'', strs [''curl'']),
                      (''args'', strs [''--fail'', ''--silent'', ''--show-error'', ''--max-time'', ''30'',
                         ''--cacert'', ''/etc/pki/maas-api/service-ca.crt'', ''-X'', ''DELETE'',
                         revocationEndpoint t ns]),
                      (''volumeMounts'', JArr [JObj
                        [(''name'', JStr ''maas-api-service-ca''), (''mountPath'', JStr ''/etc/pki/maas-api''),
                         (''readOnly'', JBool True)]]),
                      (''resources'', JObj
                        [(''requests'', jLabels [(''memory'', ''16Mi''), (''cpu'', ''10m'')]),
                         (''limits'', jLabels [(''memory'', ''32Mi''), (''cpu'', ''50m'')])]),
                      (''securityContext'', JObj
                        [(''allowPrivilegeEscalation'', JBool False), (''readOnlyRootFilesystem'', JBool True),
                         (''runAsNonRoot'', JBool True), (''capabilities'', JObj [(''drop'', strs [''ALL''])]),
                         (''seccompProfile'', runtimeDefault)])]])])])],
          job_Conditions = []\<rparr>)"

text \<open>The AITenant with the condition set, also when writing it failed.\<close>

definition revokedTenant :: "tenantApi \<Rightarrow> AITenant \<Rightarrow> AITenant" where
  "revokedTenant a t =
     t\<lparr>at_Conditions := SetStatusCondition a (at_Conditions t)
         \<lparr>c_Type = aitenantAPIKeysRevokedCondition, c_Status = ''True'', c_Reason = ''RevocationJobCompleted'',
          c_Message = ''Tenant API keys were revoked'', c_ObservedGeneration = om_Generation (at_meta t)\<rparr>\<rparr>"

definition markTenantAPIKeysRevoked :: "'s tenantClient \<Rightarrow> tenantApi \<Rightarrow> AITenant \<Rightarrow> ('s, unit) tact" where
  "markTenantAPIKeysRevoked c a t =
     onA (updateAITenantStatus c (revokedTenant a t) (at_Status t))
       (\<lambda>e. errA (wrapErr (''mark tenant API keys revoked on AITenant '' @ om_Namespace (at_meta t) @ ''/''
          @ om_Name (at_meta t)) e))
       okA"

text \<open>The tenant as it is then known, and whether its keys are revoked.\<close>

definition ensureTenantAPIKeysRevoked ::
  "'s tenantClient \<Rightarrow> tenantApi \<Rightarrow> AITenantReconciler \<Rightarrow> AITenant \<Rightarrow> (ctl_error, 's, AITenant \<times> bool ctl) act" where
  "ensureTenantAPIKeysRevoked c a r t =
     (let job = tenantAPIKeyRevocationJob r t;
          at = om_Namespace (job_meta job) @ ''/'' @ om_Name (job_meta job);
          outcome = (\<lambda>m. onA m (\<lambda>e. okA (t, Err e)) (\<lambda>x. okA (t, Ok x)));
          place = (\<lambda>j. om_Namespace (job_meta j) @ ''/'' @ om_Name (job_meta j))
      in if tenantAPIKeysRevoked a t then okA (t, Ok True)
         else if TrimSpace (tr_AppNamespace r) = [] then
           okA (t, Err (CtlErr OtherErr ''app namespace is required to revoke tenant API keys''))
         else
           onA (readA c (tc_job c (om_Namespace (job_meta job)) (om_Name (job_meta job))))
             (\<lambda>e. outcome
                (if \<not> isNotFoundError e then wrapA (''get API key revocation Job '' @ at) e
                 else onA (writeA c (Create (KJob job)))
                        (\<lambda>ce. if \<not> isAlreadyExistsError ce then wrapA (''create API key revocation Job '' @ at) ce
                              else okA False)
                        (\<lambda>_. okA False)))
             (\<lambda>existing.
                if \<not> tenantAPIKeyRevocationJobMatchesAITenant existing t then
                  outcome (thenA (deleteA c (KJob existing) Background
                    (wrapApi (''delete stale API key revocation Job '' @ place existing))) (\<lambda>_. okA False))
                else if jobComplete existing then
                  onA (markTenantAPIKeysRevoked c a t)
                    (\<lambda>e. okA (revokedTenant a t, Err e)) (\<lambda>_. okA (revokedTenant a t, Ok True))
                else if jobFailed existing then
                  outcome (thenA (deleteA c (KJob existing) Background
                    (wrapApi (''delete failed API key revocation Job '' @ place existing)))
                    (\<lambda>_. errA (CtlErr ErrRevocationJobFailed
                       (''API key revocation Job failed: '' @ place existing))))
                else okA (t, Ok False)))"

definition deleteTenantAPIKeyRevocationJob ::
  "'s tenantClient \<Rightarrow> AITenantReconciler \<Rightarrow> AITenant \<Rightarrow> ('s, unit) tact" where
  "deleteTenantAPIKeyRevocationJob c r t =
     (let job = tenantAPIKeyRevocationJob r t;
          place = (\<lambda>j. om_Namespace (job_meta j) @ ''/'' @ om_Name (job_meta j))
      in onA (readA c (tc_job c (om_Namespace (job_meta job)) (om_Name (job_meta job))))
           (\<lambda>e. if isNotFoundError e then okA ()
                else wrapA (''get completed API key revocation Job '' @ place job) e)
           (\<lambda>existing. deleteA c (KJob existing) Background
              (wrapApi (''delete completed API key revocation Job '' @ place existing))))"

section \<open>Deletion\<close>

text \<open>A step whose error is only logged.\<close>

definition tryA :: "('s, 'a) tact \<Rightarrow> ('s, unit) tact" where
  "tryA m = onA m (\<lambda>_. okA ()) (\<lambda>_. okA ())"

definition dropAITenantFinalizer ::
  "'s tenantClient \<Rightarrow> tenantApi \<Rightarrow> AITenantReconciler \<Rightarrow> AITenant \<Rightarrow> ('s, nat) tact" where
  "dropAITenantFinalizer c a r t =
     (let t' = t\<lparr>at_meta := RemoveFinalizer a (at_meta t) aitenantFinalizer\<rparr>
      in onA (writeA c (Patch (KAITenant t) (KAITenant t') False)) plainA
           (\<lambda>_. thenA (tryA (deleteTenantAPIKeyRevocationJob c r t')) (\<lambda>_. okA 0)))"

definition forceRemoveAITenantFinalizer ::
  "'s tenantClient \<Rightarrow> tenantApi \<Rightarrow> AITenantReconciler \<Rightarrow> AITenant \<Rightarrow> ('s, nat) tact" where
  "forceRemoveAITenantFinalizer c a r t =
     (let d = durationText (tr_DeletionTimeout r);
          rest = ''; cleanup finalizer removed without successful cleanup '' @ emDash @ '' API keys may still exist'';
          t1 = setAITenantPhase a t ''Terminating'' ''CleanupForced'' (''Deletion timeout ('' @ d @ '') reached'' @ rest)
      in thenA (tryA (updateAITenantStatus c t1 (at_Status t)))
           (\<lambda>_. thenA
             (if tr_HasRecorder r then
                eventA c ''Warning'' ''AITenantCleanupForced''
                  (''Deletion timeout ('' @ d @ '') reached for AITenant '' @ om_Namespace (at_meta t) @ ''/''
                   @ om_Name (at_meta t) @ rest)
              else okA ())
             (\<lambda>_. thenA (tryA (deleteTenantConfig c a r t1))
               (\<lambda>_. thenA (tryA (deleteAITenantScopedChildren c r t1))
                 (\<lambda>_. thenA (tryA (releaseTenantNamespace c r t1))
                   (\<lambda>_. thenA (tryA (deleteTenantGatewayAuthPolicy c r t1))
                     (\<lambda>_. thenA (tryA (deleteGatewayClaim c r t1))
                       (\<lambda>_. thenA (tryA (cleanupGatewayLabelsOnDelete c r t1))
                         (\<lambda>_. dropAITenantFinalizer c a r t1)))))))))"

text \<open>The rest of a deletion once the API keys are revoked.\<close>

definition cleanupTenant :: "'s tenantClient \<Rightarrow> tenantApi \<Rightarrow> AITenantReconciler \<Rightarrow> AITenant \<Rightarrow> ('s, nat) tact" where
  "cleanupTenant c a r t =
     thenA (deleteTenantConfig c a r t)
       (\<lambda>tenantDeleted.
          if \<not> tenantDeleted then okA 5
          else
            thenA (deleteAITenantScopedChildren c r t)
              (\<lambda>_. onA (releaseTenantNamespace c r t)
                 (\<lambda>e. thenA (updateAITenantStatus c
                         (setAITenantPhase a t ''Terminating'' ''DeletionBlocked'' (ce_text e)) (at_Status t))
                         (\<lambda>_. errA e))
                 (\<lambda>_. thenA (deleteTenantGatewayAuthPolicy c r t)
                   (\<lambda>_. thenA (deleteGatewayClaim c r t)
                     (\<lambda>_. thenA (cleanupGatewayLabelsOnDelete c r t)
                       (\<lambda>_. dropAITenantFinalizer c a r t))))))"

definition reconcileAITenantDelete ::
  "'s tenantClient \<Rightarrow> tenantApi \<Rightarrow> AITenantReconciler \<Rightarrow> int \<Rightarrow> AITenant \<Rightarrow> ('s, nat) tact" where
  "reconcileAITenantDelete c a r now t =
     (if \<not> ContainsFinalizer (at_meta t) aitenantFinalizer then okA 0
      else if tr_DeletionTimeout r > 0 \<and> now - at_DeletedAt t \<ge> tr_DeletionTimeout r then
        forceRemoveAITenantFinalizer c a r t
      else
        let t1 = setAITenantPhase a (t\<lparr>at_TenantNamespace := tenantNamespaceName r t\<rparr>) ''Terminating''
                   ''DeletionInProgress'' ''AITenant deletion cleanup is in progress''
        in thenA (updateAITenantStatus c t1 (at_Status t))
             (\<lambda>_. thenA (ensureTenantAPIKeysRevoked c a r t1)
               (\<lambda>(t2, revoked). case revoked of
                  Inl e \<Rightarrow>
                    thenA (updateAITenantStatus c
                      (setAITenantPhase a t2 ''Terminating'' ''DeletionBlocked'' (ce_text e)) (at_Status t2))
                      (\<lambda>_. if ctlIs e ErrRevocationJobFailed then okA 30 else errA e)
                | Inr done \<Rightarrow> if \<not> done then okA 10 else cleanupTenant c a r t2)))"

section \<open>Reconciling a tenant\<close>

text \<open>A phase and its reason written to the status, and when to look again.\<close>

definition settleA ::
  "'s tenantClient \<Rightarrow> tenantApi \<Rightarrow> AITenant \<Rightarrow> AITenantStatus \<Rightarrow> string \<Rightarrow> string \<Rightarrow> string \<Rightarrow> nat \<Rightarrow> ('s, nat) tact" where
  "settleA c a t snap phase reason message requeue =
     thenA (updateAITenantStatus c (setAITenantPhase a t phase reason message) snap) (\<lambda>_. okA requeue)"

text \<open>
  The closure \<open>ensureTenantResources\<close>: done, with the time to look again, or whether the settings
  are ready.
\<close>

definition ensureTenantResources ::
  "'s tenantClient \<Rightarrow> tenantApi \<Rightarrow> AITenantReconciler \<Rightarrow> AITenant \<Rightarrow> AITenantStatus \<Rightarrow> ('s, nat + bool) tact" where
  "ensureTenantResources c a r t snap =
     (let stop = (\<lambda>phase reason message requeue.
            thenA (settleA c a t snap phase reason message requeue) (\<lambda>n. okA (Inl n)))
      in onA (ensureTenantNamespace c r t)
           (\<lambda>e. stop ''Failed'' ''TenantNamespaceFailed'' (ce_text e) 30)
           (\<lambda>created.
              if created then
                stop ''Pending'' ''TenantNamespacePending'' ''waiting for tenant namespace to become available'' 1
              else
                onA (ensureTenantConfig c a r t)
                  (\<lambda>e. stop ''Failed'' ''TenantConfigReconcileFailed'' (ce_text e) 30)
                  (\<lambda>(ready, namespacePending).
                     if namespacePending then
                       stop ''Pending'' ''TenantNamespacePending''
                         ''waiting for tenant namespace to accept tenant resources'' 1
                     else okA (Inr ready))))"

text \<open>From the roles on.\<close>

definition finishTenant ::
  "'s tenantClient \<Rightarrow> tenantApi \<Rightarrow> AITenantReconciler \<Rightarrow> AITenant \<Rightarrow> AITenantStatus \<Rightarrow> bool \<Rightarrow> ('s, nat) tact" where
  "finishTenant c a r t snap ready =
     onA (ensureTenantAdminRBAC c r t)
       (\<lambda>e. settleA c a t snap ''Failed'' ''RBACReconcileFailed'' (ce_text e) 30)
       (\<lambda>_. if \<not> ready then
              settleA c a t snap ''Pending'' ''TenantConfigNotReady''
                ''waiting for MaasTenantConfig to report Ready'' 30
            else
              settleA c a t snap ''Active'' ''Reconciled'' ''AITenant bootstrap resources are reconciled'' 0)"

text \<open>What the labels of the infrastructure namespace say in the status.\<close>

definition degradedBy :: "tenantApi \<Rightarrow> AITenant \<Rightarrow> string \<Rightarrow> AITenant" where
  "degradedBy a t message =
     t\<lparr>at_Conditions := SetStatusCondition a (at_Conditions t)
         \<lparr>c_Type = ''Degraded'', c_Status = ''True'', c_Reason = ''InfraNamespaceLabelFailed'',
          c_Message = message, c_ObservedGeneration = om_Generation (at_meta t)\<rparr>\<rparr>"

definition notDegraded :: "tenantApi \<Rightarrow> AITenant \<Rightarrow> AITenant" where
  "notDegraded a t = t\<lparr>at_Conditions := RemoveStatusCondition a (at_Conditions t) ''Degraded''\<rparr>"

text \<open>
  From the gateway on. \<open>early\<close> is the readiness of the settings when they were reconciled before the
  gateway, as for the default tenant. A panic is no error that could be logged.
\<close>

definition reconcileGateway ::
  "'s tenantClient \<Rightarrow> tenantApi \<Rightarrow> AITenantReconciler \<Rightarrow> AITenant \<Rightarrow> AITenantStatus \<Rightarrow> bool option \<Rightarrow> ('s, nat) tact" where
  "reconcileGateway c a r t snap early =
     (let ref = tenantGatewayRefFor r t;
          claimed = (\<lambda>t1. onA (ensureGatewayClaim c a r t1 ref)
            (\<lambda>e. settleA c a t1 snap ''Failed'' ''GatewayClaimFailed'' (ce_text e) 30)
            (\<lambda>_. case early of
               Some ready \<Rightarrow> finishTenant c a r t1 snap ready
             | None \<Rightarrow>
                 thenA (ensureTenantResources c a r t1 snap)
                   (\<lambda>res. case res of Inl n \<Rightarrow> okA n | Inr ready \<Rightarrow> finishTenant c a r t1 snap ready)))
      in onA (validateTenantGateway c ref)
           (\<lambda>e. settleA c a t snap ''Failed'' ''GatewayCheckFailed'' (ce_text e) 30)
           (\<lambda>gw. onA (ensureInfraNamespaceGatewayLabels c r gw)
              (\<lambda>e. if ctlIs e GoPanic then errA e else claimed (degradedBy a t (ce_text e)))
              (\<lambda>_. claimed (notDegraded a t))))"

definition reconcileTenant :: "'s tenantClient \<Rightarrow> tenantApi \<Rightarrow> AITenantReconciler \<Rightarrow> AITenant \<Rightarrow> ('s, nat) tact" where
  "reconcileTenant c a r t0 =
     (case validateAITenantPlacement a r t0 of
        Some msg \<Rightarrow> settleA c a t0 (at_Status t0) ''Failed'' ''InvalidPlacement'' msg 0
      | None \<Rightarrow>
          let tns = tenantNamespaceName r t0; t1 = t0\<lparr>at_TenantNamespace := tns\<rparr>
          in thenA (migrateLegacyTenantPlatformContext c r t1 tns)
               (\<lambda>(t2, migrated). case migrated of
                  Inl e \<Rightarrow> settleA c a t2 (at_Status t0) ''Failed'' ''LegacyTenantMigrationFailed'' (ce_text e) 0
                | Inr True \<Rightarrow> okA 1
                | Inr False \<Rightarrow>
                    let t3 = t2\<lparr>at_GatewayRef := tenantGatewayRefFor r t2\<rparr>; snap = at_Status t3
                    in thenA (updateAITenantStatus c t3 (at_Status t0))
                         (\<lambda>_. if om_Name (at_meta t3) = DefaultAITenantName then
                                thenA (ensureTenantResources c a r t3 snap)
                                  (\<lambda>res. case res of
                                     Inl n \<Rightarrow> okA n
                                   | Inr ready \<Rightarrow> reconcileGateway c a r t3 snap (Some ready))
                              else reconcileGateway c a r t3 snap None)))"

definition AT_Reconcile ::
  "'s tenantClient \<Rightarrow> tenantApi \<Rightarrow> AITenantReconciler \<Rightarrow> int \<Rightarrow> string \<times> string \<Rightarrow> ('s, nat) tact" where
  "AT_Reconcile c a r now req =
     onA (readA c (tc_getCached c (fst req) (snd req))) (ignoreNotFound 0)
       (\<lambda>t. if om_Deleting (at_meta t) then reconcileAITenantDelete c a r now t
            else if \<not> ContainsFinalizer (at_meta t) aitenantFinalizer then
              onA (writeA c (Patch (KAITenant t)
                     (KAITenant (t\<lparr>at_meta := AddFinalizer a (at_meta t) aitenantFinalizer\<rparr>)) False))
                plainA (\<lambda>_. okA 1)
            else reconcileTenant c a r t)"

section \<open>Events\<close>

definition enqueueAITenantForTenantConfig :: "ObjectMeta \<Rightarrow> (string \<times> string) list" where
  "enqueueAITenantForTenantConfig m =
     (let name = annotation (om_Annotations m) AnnotationAITenantName;
          ns = annotation (om_Annotations m) AnnotationAITenantNamespace
      in if name = [] \<or> ns = [] then [] else [(ns, name)])"

definition enqueueAITenantForGateway ::
  "'s tenantClient \<Rightarrow> AITenantReconciler \<Rightarrow> Gateway \<Rightarrow> 's \<Rightarrow> (string \<times> string) list" where
  "enqueueAITenantForGateway c r gw s =
     (case tc_aitenants c (aitenantNamespace r) s of
        Inl e \<Rightarrow> []
      | Inr ts \<Rightarrow>
          map (\<lambda>t. (om_Namespace (at_meta t), om_Name (at_meta t)))
            (filter (\<lambda>t. gr_Name (tenantGatewayRefFor r t) = gw_Name gw
                       \<and> gr_Namespace (tenantGatewayRefFor r t) = gw_Namespace gw) ts))"

end
