(* ===== verification/TenantTrace.thy ===== *)
theory TenantTrace
  imports AITenantController
begin

text \<open>
  What the AITenant controller does, read off the history of a run (\<open>Actions\<close>): a run on \<open>tlogged c\<close> does
  what it does on \<open>c\<close> and leaves that history. The triples here say that its writes stay within the
  tenant.
\<close>

section \<open>The client that records\<close>

definition tlogged :: "'s tenantClient \<Rightarrow> ('s, twrite) tstate tenantClient" where
  "tlogged c =
     \<lparr>tc_getCached = (\<lambda>x y st. tc_getCached c x y (fst st)),
      tc_aitenants = (\<lambda>x st. tc_aitenants c x (fst st)),
      tc_namespace = (\<lambda>x st. tc_namespace c x (fst st)),
      tc_gateway = (\<lambda>x y st. tc_gateway c x y (fst st)),
      tc_tenant = (\<lambda>x y st. tc_tenant c x y (fst st)),
      tc_config = (\<lambda>x y st. tc_config c x y (fst st)),
      tc_role = (\<lambda>x y st. tc_role c x y (fst st)),
      tc_roleBinding = (\<lambda>x y st. tc_roleBinding c x y (fst st)),
      tc_job = (\<lambda>x y st. tc_job c x y (fst st)),
      tc_configMap = (\<lambda>x y st. tc_configMap c x y (fst st)),
      tc_claims = (\<lambda>x y st. tc_claims c x y (fst st)),
      tc_authPolicy = (\<lambda>x y st. tc_authPolicy c x y (fst st)),
      tc_write = writeL (tc_write c),
      tc_event = (\<lambda>t r m st. (tc_event c t r m (fst st), snd st)),
      tc_others = othersL (tc_others c)\<rparr>"

lemma tlogged_calls: "tc_others (tlogged c) = othersL (tc_others c)" "tc_write (tlogged c) = writeL (tc_write c)"
  by (simp_all add: tlogged_def)

lemma tri_readA:
  assumes "\<And>st. r' st = r (fst st)"
  shows "tri good K (readA (tlogged c) r') (\<lambda>x. saw r ((=) x))"
  unfolding tlogged_calls by (rule tri_readAt) (rule assms)

lemma tri_writeA:
  assumes "stays K" "\<And>l. K l \<Longrightarrow> good l w"
  shows "tri good K (writeA (tlogged c) w) (\<lambda>x. did ((=) w))"
  unfolding tlogged_calls by (rule tri_writeAt) (use assms in auto)

lemma tri_eventA: "tri good K (eventA (tlogged c) x y z) anyResult"
  by (auto simp: tri_def eventA_def tlogged_def)

lemma tri_deleteA:
  assumes "stays K" "\<And>l. K l \<Longrightarrow> good l (Delete x opt)"
  shows "tri good K (deleteA (tlogged c) x opt mk) anyResult"
  unfolding deleteA_def
  by (intro tri_onA [OF tri_writeA] tri_if tri_okA tri_errA) (use assms in auto)

lemma tri_tryA: "tri good K m anyResult \<Longrightarrow> stays K \<Longrightarrow> tri good K (tryA m) anyResult"
  unfolding tryA_def by (rule tri_onA) (auto intro: tri_okA)

lemma tri_reads:
  "tri good K (readA (tlogged c) (tc_getCached (tlogged c) x y)) (\<lambda>z. saw (tc_getCached c x y) ((=) z))"
  "tri good K (readA (tlogged c) (tc_namespace (tlogged c) x)) (\<lambda>z. saw (tc_namespace c x) ((=) z))"
  "tri good K (readA (tlogged c) (tc_gateway (tlogged c) x y)) (\<lambda>z. saw (tc_gateway c x y) ((=) z))"
  "tri good K (readA (tlogged c) (tc_tenant (tlogged c) x y)) (\<lambda>z. saw (tc_tenant c x y) ((=) z))"
  "tri good K (readA (tlogged c) (tc_config (tlogged c) x y)) (\<lambda>z. saw (tc_config c x y) ((=) z))"
  "tri good K (readA (tlogged c) (tc_role (tlogged c) x y)) (\<lambda>z. saw (tc_role c x y) ((=) z))"
  "tri good K (readA (tlogged c) (tc_roleBinding (tlogged c) x y)) (\<lambda>z. saw (tc_roleBinding c x y) ((=) z))"
  "tri good K (readA (tlogged c) (tc_job (tlogged c) x y)) (\<lambda>z. saw (tc_job c x y) ((=) z))"
  "tri good K (readA (tlogged c) (tc_configMap (tlogged c) x y)) (\<lambda>z. saw (tc_configMap c x y) ((=) z))"
  "tri good K (readA (tlogged c) (tc_claims (tlogged c) x ls)) (\<lambda>z. saw (tc_claims c x ls) ((=) z))"
  "tri good K (readA (tlogged c) (tc_authPolicy (tlogged c) x y)) (\<lambda>z. saw (tc_authPolicy c x y) ((=) z))"
  by (rule tri_readA; simp add: tlogged_def)+

lemmas tri_rules = tri_reads [THEN tri_onA] tri_if tri_sum tri_option tri_prod tri_bool tri_okA tri_errA tri_errors
  tri_ignoreNotFound tri_deleteA tri_onA [OF tri_writeA]

section \<open>Writes of a tenant stay within the tenant\<close>

definition foreign :: "AITenant \<Rightarrow> ObjectMeta \<Rightarrow> bool" where
  "foreign t m \<longleftrightarrow> hasAITenantOwnerAnnotations m \<and> \<not> ownedByAITenant m t"

fun isAITenantObj :: "kobj \<Rightarrow> bool" where
  "isAITenantObj (KAITenant x) = True"
| "isAITenantObj _ = False"

text \<open>The shared namespace with other labels, as it was read.\<close>

definition relabels :: "'s tenantClient \<Rightarrow> AITenantReconciler \<Rightarrow> ('s, twrite) tev list \<Rightarrow> kobj \<Rightarrow> kobj \<Rightarrow> bool" where
  "relabels c r l b n \<longleftrightarrow>
     (\<exists>ns lo. b = KNamespace ns \<and> n = KNamespace (relabelled ns lo)
        \<and> saw (tc_namespace c (tr_AppNamespace r)) ((=) ns) l)"

text \<open>The name of the AuthPolicy of a gateway, as the deletion of a tenant has it.\<close>

definition gatewayPolicyName :: "AITenant \<Rightarrow> TenantGatewayRef \<Rightarrow> string" where
  "gatewayPolicyName t g =
     (if om_Name (at_meta t) = DefaultAITenantName then maasGatewayAuthPolicyName else gr_Name g @ ''-maas-auth'')"

fun confined :: "'s tenantClient \<Rightarrow> AITenantReconciler \<Rightarrow> AITenant \<Rightarrow> ('s, twrite) tev list \<Rightarrow> twrite \<Rightarrow> bool" where
  "confined c r t l (Create x) \<longleftrightarrow> ownedByAITenant (kmeta x) t"
| "confined c r t l (StatusUpdate x) \<longleftrightarrow> samePlace (at_meta x) (at_meta t)"
| "confined c r t l (Update x) \<longleftrightarrow>
     (\<exists>cm m. x = KConfigMap (cm\<lparr>cm_meta := m\<rparr>) \<and> isClaimOwnedByAITenant cm t
        \<and> om_Annotations m = om_Annotations (cm_meta cm))"
| "confined c r t l (Patch b n lock) \<longleftrightarrow>
     (if isAITenantObj b then samePlace (kmeta b) (at_meta t) \<and> samePlace (kmeta n) (at_meta t)
      else \<not> foreign t (kmeta b) \<or> lock \<and> relabels c r l b n)"
| "confined c r t l (Delete x opt) \<longleftrightarrow>
     (case x of
        KJob j \<Rightarrow> saw (tc_job c (tr_AppNamespace r) (aitenantAPIKeyRevocationJobName (om_Name (at_meta t)))) ((=) j) l
      | KAuthPolicy p \<Rightarrow> isManaged (u_meta p)
          \<and> (\<exists>g. saw (tc_authPolicy c (gr_Namespace g) (gatewayPolicyName t g)) ((=) p) l)
      | KConfigMap cm \<Rightarrow> isClaimOwnedByAITenant cm t
      | KTenant x \<Rightarrow> \<not> foreign t (tn_meta x)
      | _ \<Rightarrow> ownedByAITenant (kmeta x) t)"

lemma owned_not_foreign: "ownedByAITenant m t \<Longrightarrow> \<not> foreign t m"
  by (simp add: foreign_def)

lemma owned_applied [simp]: "ownedByAITenant (applyAITenantMetadata t ns m) t"
proof -
  let ?m = "foldl (\<lambda>ls (k, v). AList.update k v ls) (om_Annotations m) (tenantAnnotations t)"
  have "map_of ?m AnnotationAITenantName = Some (om_Name (at_meta t))"
      "map_of ?m AnnotationAITenantNamespace = Some (om_Namespace (at_meta t))"
    by (simp_all add: tenantAnnotations_def aitenant_constants update_conv')
  then show ?thesis
    by (auto simp: ownedByAITenant_def applyAITenantMetadata_def annotation_def)
qed

lemma status_confined:
  "samePlace (at_meta x) (at_meta t) \<Longrightarrow> stays K
    \<Longrightarrow> tri (confined c r t) K (updateAITenantStatus (tlogged c) x snap) anyResult"
  unfolding updateAITenantStatus_def by (intro tri_rules tri_any [OF tri_okA]) auto


lemma adoptNamespace_confined:
  "stays K \<Longrightarrow> tri (confined c r t) K (adoptNamespace (tlogged c) t name ns) anyResult"
  unfolding adoptNamespace_def Let_def
  by (intro tri_rules) (auto simp: foreign_def)

lemma newTenantNamespace_owned: "ownedByAITenant (nsp_meta (newTenantNamespace t name)) t"
proof -
  let ?m = "applyAITenantMetadata t name (freshMeta [] name)"
  have "ownedByAITenant ?m t" by simp
  then show ?thesis
    by (auto simp: newTenantNamespace_def Let_def setMapValue_def ownedByAITenant_def annotation_def
        update_conv' aitenant_constants)
qed

lemma ensureTenantNamespace_confined:
  "stays K \<Longrightarrow> tri (confined c r t) K (ensureTenantNamespace (tlogged c) r t) anyResult"
  unfolding ensureTenantNamespace_def Let_def
  by (intro tri_rules adoptNamespace_confined) (auto simp: newTenantNamespace_owned)

lemma ensureInfra_confined:
  "stays K \<Longrightarrow> tri (confined c r t) K (ensureInfraNamespaceGatewayLabels (tlogged c) r gw) anyResult"
  unfolding ensureInfraNamespaceGatewayLabels_def Let_def
  by (intro tri_rules) (auto simp: relabels_def)

lemma cleanupLabels_confined:
  "stays K \<Longrightarrow> tri (confined c r t) K (cleanupGatewayLabelsOnDelete (tlogged c) r t') anyResult"
  unfolding cleanupGatewayLabelsOnDelete_def Let_def
  by (intro tri_rules) (auto simp: relabels_def)

lemma upsert_confined:
  assumes K: "stays K" and get: "\<And>st. get' st = get (fst st)" and emb: "\<And>x. \<not> isAITenantObj (emb x)"
    and mut: "\<And>K x. stays K \<Longrightarrow> tri (confined c r t) K (mutate x) (\<lambda>y l. ownedByAITenant (kmeta (emb y)) t)"
  shows "tri (confined c r t) K (upsert (tlogged c) get' emb obj t mutate) anyResult"
  unfolding upsert_def upsertWithCreate_def Let_def option.case onA_okA
  by (intro tri_readA [where r = get, THEN tri_onA] get tri_onA [OF mut] tri_rules K stays_conj stays_simps)
    (use emb in \<open>auto simp: foreign_def\<close>)

lemma copyLegacy_confined:
  assumes "ownedByAITenant (mtc_meta config) t" "stays K"
  shows "tri (confined c r t) K (copyLegacyTenantConfig (tlogged c) config) (\<lambda>y l. ownedByAITenant (kmeta (KConfig y)) t)"
  unfolding copyLegacyTenantConfig_def by (intro tri_rules) (use assms in auto)

lemma markLegacy_confined:
  "stays K \<Longrightarrow> tri (confined c r t) K (markLegacyTenantDeprecated (tlogged c) a t tns) anyResult"
  unfolding markLegacyTenantDeprecated_def Let_def by (intro tri_rules) (auto simp: foreign_def)

lemma cleanupMigrated_confined:
  "stays K \<Longrightarrow> tri (confined c r t) K (cleanupMigratedLegacyTenant (tlogged c) t tns) anyResult"
  unfolding cleanupMigratedLegacyTenant_def Let_def by (intro tri_rules) (auto simp: foreign_def)

lemma ensureTenantConfig_confined:
  assumes "stays K"
  shows "tri (confined c r t) K (ensureTenantConfig (tlogged c) a r t) anyResult"
proof -
  have "tri (confined c r t) K (mutateConfig (tlogged c) t tns x) (\<lambda>y l. ownedByAITenant (kmeta (KConfig y)) t)"
    if "stays K" for K tns x
    unfolding mutateConfig_def by (intro tri_rules copyLegacy_confined that) simp
  then have up: "tri (confined c r t) K (upsert (tlogged c) (tc_config (tlogged c) x y) KConfig obj t (mutateConfig (tlogged c) t tns)) anyResult"
    if "stays K" for K tns x y obj
    by (intro upsert_confined [where get = "tc_config c x y"] that) (simp_all add: tlogged_def)
  show ?thesis
    unfolding ensureTenantConfig_def Let_def
    by (intro tri_onA [OF up] tri_onA [OF markLegacy_confined] tri_onA [OF cleanupMigrated_confined] tri_rules)
      (use assms in auto)
qed

lemma role_confined:
  assumes "stays K"
  shows "tri (confined c r t) K (upsert (tlogged c) (tc_role (tlogged c) x y) KRole obj t
      (\<lambda>role. okA (role\<lparr>role_meta := applyAITenantMetadata t tns (role_meta role), role_Rules := rs\<rparr>))) anyResult"
  by (intro upsert_confined [where get = "tc_role c x y"] assms tri_okA) (simp_all add: tlogged_def)

lemma ensureRBAC_confined:
  "stays K \<Longrightarrow> tri (confined c r t) K (ensureTenantAdminRBAC (tlogged c) r t) anyResult"
  unfolding ensureTenantAdminRBAC_def ensureTenantNamespaceRole_def ensureAITenantObjectRole_def Let_def
  by (intro tri_onA [OF role_confined] role_confined tri_rules) auto

text \<open>Only the name, the namespace and the identifier of a tenant matter.\<close>

definition sameId :: "AITenant \<Rightarrow> AITenant \<Rightarrow> bool" where
  "sameId x t \<longleftrightarrow> samePlace (at_meta x) (at_meta t) \<and> at_UID x = at_UID t"

lemma sameId_refl [simp]: "sameId t t"
  by (simp add: sameId_def samePlace_def)

lemma owned_same: "sameId x t \<Longrightarrow> ownedByAITenant m x = ownedByAITenant m t"
  by (simp add: ownedByAITenant_def sameId_def samePlace_def)

lemma confined_same: "sameId x t \<Longrightarrow> confined c r x = confined c r t"
proof (intro ext)
  fix l w
  assume same: "sameId x t"
  note same' = same [unfolded sameId_def samePlace_def]
  have "isClaimOwnedByAITenant cm x = isClaimOwnedByAITenant cm t" "foreign x m = foreign t m" for cm m
    using same' by (cases "find or_Controller (om_Owners (cm_meta cm))";
        simp add: isClaimOwnedByAITenant_def foreign_def owned_same [OF same])+
  with same' show "confined c r x l w = confined c r t l w"
    by (cases w) (simp_all add: owned_same [OF same] samePlace_def gatewayPolicyName_def split: kobj.split)
qed

lemma at_same:
  assumes "\<And>t. tri (confined c r t) K (m t) Q" "sameId x t"
  shows "tri (confined c r t) K (m x) Q"
  using assms(1) [of x] by (simp add: confined_same [OF assms(2)])

lemma same_legacy [simp]:
  "sameId (withLegacyOIDC x legacy) t = sameId x t" "sameId (withLegacyGateway r x ref) t = sameId x t"
  by (simp_all add: withLegacyOIDC_def withLegacyGateway_def sameId_def)

lemma migrate_confined:
  assumes "stays K"
  shows "tri (confined c r t) K (migrateLegacyTenantPlatformContext (tlogged c) r t tns)
      (\<lambda>p l. sameId (fst p) t)"
  unfolding migrateLegacyTenantPlatformContext_def Let_def
  by (intro tri_rules) (use assms in \<open>simp_all add: sameId_def [THEN iffD1, THEN conjunct1]\<close>)

lemma deleteClaims_confined:
  "stays K \<Longrightarrow> tri (confined c r t) K (deleteClaims (tlogged c) t what cms) anyResult"
proof (induction cms arbitrary: K)
  case (Cons cm cms)
  show ?case
    unfolding deleteClaims.simps by (intro tri_if Cons tri_onA [OF tri_deleteA] tri_errA) (use Cons.prems in auto)
qed (auto intro: tri_okA)

lemma deleteGatewayClaim_confined:
  "stays K \<Longrightarrow> tri (confined c r t) K (deleteGatewayClaim (tlogged c) r t) anyResult"
  unfolding deleteGatewayClaim_def Let_def by (intro tri_rules deleteClaims_confined) auto

lemma cleanupStale_confined:
  "stays K \<Longrightarrow> tri (confined c r t) K (cleanupStaleClaims (tlogged c) r t ref) anyResult"
  unfolding cleanupStaleClaims_def Let_def by (intro tri_rules deleteClaims_confined) auto

text \<open>What the helpers of \<open>controller-runtime\<close> leave alone.\<close>

definition keepsMeta :: "tenantApi \<Rightarrow> bool" where
  "keepsMeta a \<longleftrightarrow>
     (\<forall>m f. samePlace (AddFinalizer a m f) m \<and> samePlace (RemoveFinalizer a m f) m)
     \<and> (\<forall>t m n. SetTenantReference a t m = Ok n \<longrightarrow> om_Annotations n = om_Annotations m)"

lemma newClaim_owned: "ownedByAITenant (cm_meta (newClaim r t ref)) t"
  by (simp add: ownedByAITenant_def newClaim_def tenantAnnotations_def annotation_def aitenant_constants)

lemma claim_update_confined:
  "isClaimOwnedByAITenant cm t \<Longrightarrow> om_Annotations m = om_Annotations (cm_meta cm)
    \<Longrightarrow> confined c r t l (Update (KConfigMap (cm\<lparr>cm_meta := m\<rparr>)))"
  unfolding confined.simps by blast

lemma ensureClaim_confined:
  assumes "stays K" "keepsMeta a"
  shows "tri (confined c r t) K (ensureGatewayClaim (tlogged c) a r t ref) anyResult"
proof -
  have renew: "tri (confined c r t) K (renewClaim (tlogged c) a r t ref claim) anyResult" if "stays K" for K claim
    unfolding renewClaim_def Let_def
    by (intro tri_if tri_sum tri_errors tri_onA [OF tri_writeA] tri_onA [where Q = anyResult] cleanupStale_confined
        tri_okA tri_errA)
      (use that assms(2) in \<open>auto simp: keepsMeta_def simp del: confined.simps intro!: claim_update_confined\<close>)
  show ?thesis
    unfolding ensureGatewayClaim_def Let_def
    by (intro tri_rules renew cleanupStale_confined)
      (use assms newClaim_owned [of r t ref] in \<open>auto simp: keepsMeta_def ownedByAITenant_def\<close>)
qed

lemma deleteConfig_confined:
  "stays K \<Longrightarrow> tri (confined c r t) K (deleteTenantConfig (tlogged c) a r t) anyResult"
  unfolding deleteTenantConfig_def Let_def
  by (intro tri_rules tri_onA [OF tri_deleteA]) (auto simp: foreign_def)

lemma deleteOwned_confined:
  assumes "stays K" "\<And>x y st. get' x y st = get x y (fst st)"
    and "\<And>x. (\<exists>ro. emb x = KRole ro) \<or> (\<exists>m. emb x = KRoleBinding m)"
  shows "tri (confined c r t) K (deleteOwned (tlogged c) t emb get' ns n) anyResult"
proof -
  have "confined c r t l (Delete (emb x) opt)" if "ownedByAITenant (kmeta (emb x)) t" for l x opt
    using assms(3) [of x] that by auto
  then show ?thesis
    unfolding deleteOwned_def
    by (intro tri_readA [where r = "get ns n", THEN tri_onA] assms(2) tri_rules) (use assms(1) in auto)
qed

lemma deleteChildren_confined:
  "stays K \<Longrightarrow> tri (confined c r t) K (deleteAITenantScopedChildren (tlogged c) r t) anyResult"
  unfolding deleteAITenantScopedChildren_def Let_def
  by (intro tri_onA [where Q = anyResult] deleteOwned_confined [where get = "tc_role c"]
      deleteOwned_confined [where get = "tc_roleBinding c"] tri_errA) (auto simp: tlogged_def)

lemma release_confined:
  "stays K \<Longrightarrow> tri (confined c r t) K (releaseTenantNamespace (tlogged c) r t) anyResult"
  unfolding releaseTenantNamespace_def Let_def by (intro tri_rules) (auto simp: foreign_def)

lemma deletePolicy_confined:
  "stays K \<Longrightarrow> tri (confined c r t) K (deleteTenantGatewayAuthPolicy (tlogged c) r t) anyResult"
  unfolding deleteTenantGatewayAuthPolicy_def Let_def gatewayPolicyName_def [symmetric] by (intro tri_rules) auto

lemma same_updates [simp]:
  "sameId (setAITenantPhase a x p q m) t = sameId x t" "sameId (revokedTenant a x) t = sameId x t"
  "sameId (degradedBy a x m) t = sameId x t" "sameId (notDegraded a x) t = sameId x t"
  "sameId (x\<lparr>at_TenantNamespace := ns\<rparr>) t = sameId x t" "sameId (x\<lparr>at_GatewayRef := g\<rparr>) t = sameId x t"
  by (simp_all add: sameId_def setAITenantPhase_def revokedTenant_def degradedBy_def notDegraded_def)

lemma same_status: "sameId x t \<Longrightarrow> stays K \<Longrightarrow> tri (confined c r t) K (updateAITenantStatus (tlogged c) x snap) anyResult"
  by (rule status_confined) (simp_all add: sameId_def)

lemma job_meta_simps [simp]:
  "om_Namespace (job_meta (tenantAPIKeyRevocationJob r t)) = tr_AppNamespace r"
  "om_Name (job_meta (tenantAPIKeyRevocationJob r t)) = aitenantAPIKeyRevocationJobName (om_Name (at_meta t))"
  "ownedByAITenant (job_meta (tenantAPIKeyRevocationJob r t)) t"
  by (simp_all add: tenantAPIKeyRevocationJob_def Let_def freshMeta_def ownedByAITenant_def annotation_def
      aitenant_constants)

lemma revoke_confined:
  assumes "stays K"
  shows "tri (confined c r t) K (ensureTenantAPIKeysRevoked (tlogged c) a r t) (\<lambda>p l. sameId (fst p) t)"
proof -
  have mark: "tri (confined c r t) K (markTenantAPIKeysRevoked (tlogged c) a t) anyResult" if "stays K" for K
    unfolding markTenantAPIKeysRevoked_def by (intro tri_onA [OF same_status] tri_errA tri_okA) (use that in auto)
  show ?thesis
    unfolding ensureTenantAPIKeysRevoked_def Let_def job_meta_simps(1,2)
    by (intro tri_reads [THEN tri_onA] tri_if tri_onA [OF mark] tri_onA [OF tri_deleteA] tri_onA [OF tri_writeA]
        tri_onA [where Q = anyResult] tri_errors tri_errA tri_okA)
      (use assms in auto)
qed

lemma deleteJob_confined:
  assumes "stays K" "samePlace (at_meta x) (at_meta t)"
  shows "tri (confined c r t) K (deleteTenantAPIKeyRevocationJob (tlogged c) r x) anyResult"
  unfolding deleteTenantAPIKeyRevocationJob_def Let_def job_meta_simps
  by (intro tri_rules) (use assms in \<open>auto simp: samePlace_def\<close>)

lemma dropFinalizer_confined:
  assumes "stays K" "sameId x t" "keepsMeta a"
  shows "tri (confined c r t) K (dropAITenantFinalizer (tlogged c) a r x) anyResult"
proof -
  have "samePlace (RemoveFinalizer a (at_meta x) f) (at_meta t)" for f
    using assms(2,3) unfolding keepsMeta_def sameId_def samePlace_def by metis
  then show ?thesis
    unfolding dropAITenantFinalizer_def Let_def
    by (intro tri_onA [OF tri_writeA] tri_onA [OF tri_tryA] tri_errors tri_errA tri_okA deleteJob_confined)
      (use assms in \<open>auto simp: sameId_def\<close>)
qed

lemmas cleanup_confined = at_same [OF deleteConfig_confined] at_same [OF deleteChildren_confined]
  at_same [OF release_confined] at_same [OF deletePolicy_confined] at_same [OF deleteGatewayClaim_confined]
  cleanupLabels_confined dropFinalizer_confined same_status

lemma force_confined:
  assumes "stays K" "sameId x t" "keepsMeta a"
  shows "tri (confined c r t) K (forceRemoveAITenantFinalizer (tlogged c) a r x) anyResult"
  unfolding forceRemoveAITenantFinalizer_def Let_def
  by (intro tri_onA [where Q = anyResult] tri_tryA tri_if tri_eventA tri_okA tri_errA cleanup_confined)
    (use assms in auto)

lemma cleanupTenant_confined:
  assumes "stays K" "sameId x t" "keepsMeta a"
  shows "tri (confined c r t) K (cleanupTenant (tlogged c) a r x) anyResult"
  unfolding cleanupTenant_def
  by (intro tri_onA [where Q = anyResult] tri_if tri_okA tri_errA cleanup_confined) (use assms in auto)

lemma delete_confined:
  assumes "stays K" "keepsMeta a"
  shows "tri (confined c r t) K (reconcileAITenantDelete (tlogged c) a r now t) anyResult"
proof -
  have revoke: "tri (confined c r t) K (ensureTenantAPIKeysRevoked (tlogged c) a r x) (\<lambda>p l. sameId (fst p) t)"
    if "stays K" "sameId x t" for K x
    using revoke_confined [OF that(1), of c r x a] that(2)
    by (simp add: confined_same [OF that(2)]) (erule tri_weaken; auto simp: sameId_def samePlace_def)
  show ?thesis
    unfolding reconcileAITenantDelete_def Let_def
    by (intro tri_if tri_okA force_confined tri_onP [OF same_status] tri_onP [OF revoke] tri_prod tri_sum tri_errA
        cleanupTenant_confined) (use assms in auto)
qed

lemma settle_confined:
  "sameId x t \<Longrightarrow> stays K \<Longrightarrow> tri (confined c r t) K (settleA (tlogged c) a x snap p q m n) anyResult"
  unfolding settleA_def by (intro tri_onP [OF same_status] tri_errA tri_okA) auto

lemma resources_confined:
  assumes "stays K" "sameId x t"
  shows "tri (confined c r t) K (ensureTenantResources (tlogged c) a r x snap) anyResult"
  unfolding ensureTenantResources_def Let_def
  by (intro tri_onP [OF at_same [OF ensureTenantNamespace_confined]] tri_onP [OF at_same [OF ensureTenantConfig_confined]]
      tri_onP [OF settle_confined] tri_if tri_prod tri_okA tri_errA) (use assms in auto)

lemma finish_confined:
  assumes "stays K" "sameId x t"
  shows "tri (confined c r t) K (finishTenant (tlogged c) a r x snap ready) anyResult"
  unfolding finishTenant_def
  by (intro tri_onP [OF at_same [OF ensureRBAC_confined]] settle_confined tri_if) (use assms in auto)

lemma gateway_confined:
  assumes "stays K" "sameId x t" "keepsMeta a"
  shows "tri (confined c r t) K (reconcileGateway (tlogged c) a r x snap early) anyResult"
proof -
  have gw: "tri (confined c r t) K (validateTenantGateway (tlogged c) ref) anyResult" for K ref
    unfolding validateTenantGateway_def Let_def
    by (intro tri_if tri_errors tri_any [OF tri_onA [OF tri_reads(3), where K = "\<lambda>l. True", THEN tri_weaken]] tri_okA) auto
  have claim: "tri (confined c r t) K (ensureGatewayClaim (tlogged c) a r y ref) anyResult"
    if "stays K" "sameId y t" for K y ref
    by (rule at_same [where m = "\<lambda>t. ensureGatewayClaim (tlogged c) a r t ref", OF ensureClaim_confined]) (use that assms(3) in auto)
  show ?thesis
    unfolding reconcileGateway_def Let_def
    by (intro tri_onP [OF gw] tri_onP [OF ensureInfra_confined] tri_onP [OF claim] tri_onP [OF resources_confined]
        settle_confined finish_confined tri_if tri_option tri_sum tri_okA tri_errA) (use assms in auto)
qed

lemma reconcileTenant_confined:
  assumes "stays K" "keepsMeta a"
  shows "tri (confined c r t) K (reconcileTenant (tlogged c) a r t) anyResult"
proof -
  have migrate: "tri (confined c r t) K (migrateLegacyTenantPlatformContext (tlogged c) r x tns) (\<lambda>p l. sameId (fst p) t)"
    if "stays K" "sameId x t" for K x tns
    using migrate_confined [OF that(1), of c r x tns] that(2)
    by (simp add: confined_same [OF that(2)]) (erule tri_weaken; auto simp: sameId_def samePlace_def)
  show ?thesis
    unfolding reconcileTenant_def Let_def
    by (intro tri_onP [OF migrate] tri_onP [OF same_status] tri_onP [OF resources_confined]
        settle_confined gateway_confined tri_if tri_option tri_prod tri_sum tri_bool tri_okA tri_errA)
      (use assms in auto)
qed

lemma Reconcile_confined:
  assumes "keepsMeta a"
  shows "tri (\<lambda>pre w. saw (tc_getCached c (fst req) (snd req)) (\<lambda>t. confined c r t pre w) pre) (\<lambda>l. True)
    (AT_Reconcile (tlogged c) a r now req) anyResult"
proof -
  let ?get = "tc_getCached c (fst req) (snd req)"
  have known: "tri (\<lambda>pre w. saw ?get (\<lambda>t. confined c r t pre w) pre) (saw ?get ((=) t)) m anyResult"
    if "tri (confined c r t) (saw ?get ((=) t)) m anyResult" for t and m :: "(('a, twrite) tstate, nat) tact"
    by (rule tri_good [OF that]) (auto simp: saw_def)
  have fin: "samePlace (AddFinalizer a m f) m" for m f
    using assms by (simp add: keepsMeta_def)
  show ?thesis
    unfolding AT_Reconcile_def
    by (intro tri_onA [OF tri_reads(1)] tri_ignoreNotFound)
      (use assms fin in \<open>auto intro!: known tri_if delete_confined reconcileTenant_confined tri_onP [OF tri_any [OF tri_writeA]]
         tri_errors tri_okA simp: samePlace_def\<close>)
qed

end
