(* ===== verification/AITenantTrace.thy ===== *)
theory AITenantTrace
  imports TenantTrace MemCluster
begin

text \<open>
  Properties of the AITenant controller: what a run may write, when a tenant becomes active, that API
  keys are revoked before anything else is cleaned up, the names and metadata of what belongs to a
  tenant, and what deleting a tenant does to a gateway that another tenant has claimed.
\<close>

section \<open>A cluster in memory\<close>

record tenantWorld =
  tw_tenants :: "AITenant list"
  tw_namespaces :: "NamespaceObj list"
  tw_gateways :: "((string \<times> string) \<times> Gateway) list"
  tw_legacy :: "TenantObj list"
  tw_configs :: "MaasTenantConfigObj list"
  tw_jobs :: "Job list"
  tw_claims :: "ConfigMap list"
  tw_policies :: "uobj list"

text \<open>Reads by name; writes succeed and are not seen within the run.\<close>

definition tenantMem :: "tenantWorld tenantClient" where
  "tenantMem =
     \<lparr>tc_getCached = (\<lambda>ns n s. findAt at_meta (tw_tenants s) ns n),
      tc_aitenants = (\<lambda>ns s. Ok (filter (\<lambda>t. om_Namespace (at_meta t) = ns) (tw_tenants s))),
      tc_namespace = (\<lambda>n s. findAt nsp_meta (tw_namespaces s) [] n),
      tc_gateway = (\<lambda>ns n s. case map_of (tw_gateways s) (ns, n) of
          Some g \<Rightarrow> Ok g | None \<Rightarrow> Err (ErrNotFound ''not found'')),
      tc_tenant = (\<lambda>ns n s. findAt tn_meta (tw_legacy s) ns n),
      tc_config = (\<lambda>ns n s. findAt mtc_meta (tw_configs s) ns n),
      tc_role = (\<lambda>ns n s. Err (ErrNotFound ''not found'')),
      tc_roleBinding = (\<lambda>ns n s. Err (ErrNotFound ''not found'')),
      tc_job = (\<lambda>ns n s. findAt job_meta (tw_jobs s) ns n),
      tc_configMap = (\<lambda>ns n s. findAt cm_meta (tw_claims s) ns n),
      tc_claims = (\<lambda>ns ls s. Ok (tw_claims s)),
      tc_authPolicy = (\<lambda>ns n s. findAt u_meta (tw_policies s) ns n),
      tc_write = (\<lambda>w s. (None, s)),
      tc_event = (\<lambda>t r m s. s),
      tc_others = (\<lambda>s. s)\<rparr>"

definition tenantPlain :: tenantApi where
  "tenantPlain = metaApi.extend plainMeta
     \<lparr>RemoveStatusCondition = (\<lambda>cs ty. filter (\<lambda>x. c_Type x \<noteq> ty) cs),
      SetTenantReference = (\<lambda>t m. Ok (m\<lparr>om_Owners :=
        [\<lparr>or_APIVersion = ''maas.opendatahub.io/v1alpha1'', or_Kind = ''AITenant'', or_Name = om_Name (at_meta t),
          or_UID = at_UID t, or_Controller = True\<rparr>]\<rparr>)),
      IsDNS1123Label = (\<lambda>s. [])\<rparr>"

lemma tenantPlain_simps [simp]:
  "AddFinalizer tenantPlain m f = m\<lparr>om_Finalizers := om_Finalizers m @ [f]\<rparr>"
  "RemoveFinalizer tenantPlain m f = m\<lparr>om_Finalizers := removeAll f (om_Finalizers m)\<rparr>"
  "FindStatusCondition tenantPlain cs ty = find (\<lambda>x. c_Type x = ty) cs"
  "SetStatusCondition tenantPlain cs x = plainSetCondition cs x"
  "RemoveStatusCondition tenantPlain cs ty = filter (\<lambda>x. c_Type x \<noteq> ty) cs"
  "SetTenantReference tenantPlain t m = Ok (m\<lparr>om_Owners :=
        [\<lparr>or_APIVersion = ''maas.opendatahub.io/v1alpha1'', or_Kind = ''AITenant'', or_Name = om_Name (at_meta t),
          or_UID = at_UID t, or_Controller = True\<rparr>]\<rparr>)"
  "IsDNS1123Label tenantPlain s = []"
  by (simp_all add: tenantPlain_def plainMeta_def metaApi.defs)

lemma tenantPlain_keepsMeta: "keepsMeta tenantPlain"
  by (simp add: keepsMeta_def samePlace_def)

definition sampleReconciler :: AITenantReconciler where
  "sampleReconciler =
     \<lparr>tr_AppNamespace = ''infra'', tr_TenantNamespace = ''models-as-a-service'', tr_AITenantNamespace = ''ai-tenants'',
      tr_GatewayName = ''gw'', tr_GatewayNamespace = ''ingress'', tr_DeletionTimeout = 0, tr_HasRecorder = True,
      tr_RelatedImage = []\<rparr>"

definition sampleTenant :: "string \<Rightarrow> AITenant" where
  "sampleTenant n =
     \<lparr>at_meta = (sampleMeta ''ai-tenants'' n)\<lparr>om_Finalizers := [aitenantFinalizer]\<rparr>,
      at_UID = ''uid-'' @ n, at_DeletedAt = 0, at_SpecGatewayName = Some ''gw'', at_OIDC = None, at_Phase = [],
      at_TenantNamespace = [], at_GatewayRef = noGatewayRef, at_Conditions = []\<rparr>"

definition tenantStart :: "AITenant \<Rightarrow> tenantWorld" where
  "tenantStart t =
     \<lparr>tw_tenants = [t], tw_namespaces = [], tw_gateways = [], tw_legacy = [], tw_configs = [], tw_jobs = [],
      tw_claims = [], tw_policies = []\<rparr>"

text \<open>The history of a run.\<close>

definition tenantRun ::
  "'s tenantClient \<Rightarrow> tenantApi \<Rightarrow> AITenantReconciler \<Rightarrow> int \<Rightarrow> string \<times> string \<Rightarrow> 's \<Rightarrow> ('s, twrite) tev list" where
  "tenantRun c a r now req s = snd (snd (AT_Reconcile (tlogged c) a r now req (s, [])))"


section \<open>Writes stay within the tenant\<close>



section \<open>API keys first\<close>

text \<open>The writes a deletion makes before the keys are revoked: to the status and to the revocation Job.\<close>

fun revocationWrite :: "twrite \<Rightarrow> bool" where
  "revocationWrite (StatusUpdate x) = True"
| "revocationWrite (Create (KJob j)) = True"
| "revocationWrite (Delete (KJob j) opt) = True"
| "revocationWrite w = False"

text \<open>That the keys are revoked: said by the tenant as read, or by a finished Job of this very tenant.\<close>

definition keysRevoked :: "'s tenantClient \<Rightarrow> tenantApi \<Rightarrow> AITenantReconciler \<Rightarrow> AITenant \<Rightarrow> ('s, twrite) tev list \<Rightarrow> bool" where
  "keysRevoked c a r t l \<longleftrightarrow>
     tenantAPIKeysRevoked a t
     \<or> saw (tc_job c (tr_AppNamespace r) (aitenantAPIKeyRevocationJobName (om_Name (at_meta t))))
         (\<lambda>j. tenantAPIKeyRevocationJobMatchesAITenant j t \<and> jobComplete j) l"

lemma stays_keysRevoked [simp, intro]: "stays (keysRevoked c a r t)"
  unfolding keysRevoked_def by auto

lemma keysRevokedI:
  "tenantAPIKeysRevoked a t \<Longrightarrow> keysRevoked c a r t l"
  "saw (tc_job c (tr_AppNamespace r) (aitenantAPIKeyRevocationJobName (om_Name (at_meta t)))) ((=) j) l
    \<Longrightarrow> tenantAPIKeyRevocationJobMatchesAITenant j t \<Longrightarrow> jobComplete j \<Longrightarrow> keysRevoked c a r t l"
  by (auto simp: keysRevoked_def saw_def)

text \<open>\<open>SetStatusCondition\<close> leaves the conditions of other types alone.\<close>

definition setsOnly :: "tenantApi \<Rightarrow> bool" where
  "setsOnly a \<longleftrightarrow> (\<forall>cs x ty. ty \<noteq> c_Type x \<longrightarrow> FindStatusCondition a (SetStatusCondition a cs x) ty = FindStatusCondition a cs ty)"

definition revokedFirst :: "'s tenantClient \<Rightarrow> tenantApi \<Rightarrow> AITenantReconciler \<Rightarrow> AITenant \<Rightarrow> ('s, twrite) tev list \<Rightarrow> twrite \<Rightarrow> bool" where
  "revokedFirst c a r t l w \<longleftrightarrow> revocationWrite w \<or> keysRevoked c a r t l"

lemma status_revokedFirst:
  "stays K \<Longrightarrow> tri (revokedFirst c a r t) K (updateAITenantStatus (tlogged c) x snap) anyResult"
  unfolding updateAITenantStatus_def by (intro tri_rules) (auto simp: revokedFirst_def)

lemma revoke_revokedFirst:
  assumes "stays K" "sameId x t" "tenantAPIKeysRevoked a x \<Longrightarrow> tenantAPIKeysRevoked a t"
  shows "tri (revokedFirst c a r t) K (ensureTenantAPIKeysRevoked (tlogged c) a r x)
      (\<lambda>p l. sameId (fst p) t \<and> (snd p = Ok True \<longrightarrow> keysRevoked c a r t l))"
proof -
  have mark: "tri (revokedFirst c a r t) K (markTenantAPIKeysRevoked (tlogged c) a x) anyResult" if "stays K" for K
    unfolding markTenantAPIKeysRevoked_def by (intro tri_onP [OF status_revokedFirst] tri_errA tri_okA) (use that in auto)
  have job: "om_Name (at_meta x) = om_Name (at_meta t)"
      "tenantAPIKeyRevocationJobMatchesAITenant j x = tenantAPIKeyRevocationJobMatchesAITenant j t" for j
    using assms(2) by (auto simp: sameId_def samePlace_def tenantAPIKeyRevocationJobMatchesAITenant_def)
  show ?thesis
    unfolding ensureTenantAPIKeysRevoked_def Let_def job_meta_simps(1,2)
    by (intro tri_reads [THEN tri_onA] tri_if tri_onA [OF mark] tri_onP [OF tri_deleteA] tri_onP [OF tri_any [OF tri_writeA]]
        tri_onP [where P = "\<lambda>b. b = False"] tri_errors tri_errA tri_okA)
      (use assms job in \<open>auto simp: revokedFirst_def intro: keysRevokedI\<close>)
qed

lemma delete_revokedFirst:
  assumes "stays K" "keepsMeta a" "setsOnly a"
    and "\<not> (tr_DeletionTimeout r > 0 \<and> now - at_DeletedAt t \<ge> tr_DeletionTimeout r)"
  shows "tri (revokedFirst c a r t) K (reconcileAITenantDelete (tlogged c) a r now t) anyResult"
proof -
  let ?t1 = "setAITenantPhase a (t\<lparr>at_TenantNamespace := tenantNamespaceName r t\<rparr>) ''Terminating''
      ''DeletionInProgress'' ''AITenant deletion cleanup is in progress''"
  have same: "tenantAPIKeysRevoked a ?t1 \<Longrightarrow> tenantAPIKeysRevoked a t"
    using assms(3) by (simp add: tenantAPIKeysRevoked_def setAITenantPhase_def setsOnly_def aitenantAPIKeysRevokedCondition_def)
  have cleanup: "tri (revokedFirst c a r t) (\<lambda>l. K l \<and> sameId (fst p) t \<and> (snd p = Ok True \<longrightarrow> keysRevoked c a r t l))
      (case snd p of
         Inl e \<Rightarrow> thenA (updateAITenantStatus (tlogged c)
             (setAITenantPhase a (fst p) ''Terminating'' ''DeletionBlocked'' (ce_text e)) (at_Status (fst p)))
             (\<lambda>_. if ctlIs e ErrRevocationJobFailed then okA 30 else errA e)
       | Inr done \<Rightarrow> if \<not> done then okA 10 else cleanupTenant (tlogged c) a r (fst p)) anyResult"
    if "stays K" for K and p :: "AITenant \<times> bool ctl"
  proof (cases "sameId (fst p) t")
    case True
    have "tri (revokedFirst c a r t) (\<lambda>l. K l \<and> keysRevoked c a r t l) (cleanupTenant (tlogged c) a r (fst p)) anyResult"
      by (rule tri_good [OF cleanupTenant_confined [OF _ True assms(2)]]) (use that in \<open>auto simp: revokedFirst_def\<close>)
    then have "tri (revokedFirst c a r t) (\<lambda>l. K l \<and> sameId (fst p) t \<and> (snd p = Ok True \<longrightarrow> keysRevoked c a r t l))
        (cleanupTenant (tlogged c) a r (fst p)) anyResult" if "snd p = Ok True"
      using that by (auto intro: tri_weaken)
    moreover have "stays (\<lambda>l. K l \<and> (snd p = Inr True \<longrightarrow> keysRevoked c a r t l))"
      using that by (cases "snd p = Inr True") auto
    ultimately show ?thesis
      using True that by (intro tri_sum tri_if tri_onP [OF status_revokedFirst] tri_okA tri_errA) auto
  qed (auto simp: tri_def)
  show ?thesis
    unfolding reconcileAITenantDelete_def Let_def
    by (intro tri_if tri_okA tri_onP [OF status_revokedFirst] tri_onA [OF revoke_revokedFirst] tri_errA)
      (use assms same cleanup in \<open>auto simp: case_prod_beta\<close>)
qed

lemma Reconcile_rule:
  assumes "\<And>t. om_Deleting (at_meta t)
      \<Longrightarrow> tri good (saw (tc_getCached c (fst req) (snd req)) ((=) t)) (reconcileAITenantDelete (tlogged c) a r now t) anyResult"
    and "\<And>t. \<not> om_Deleting (at_meta t)
      \<Longrightarrow> tri good (saw (tc_getCached c (fst req) (snd req)) ((=) t)) (reconcileTenant (tlogged c) a r t) anyResult"
    and "\<And>t l. \<not> om_Deleting (at_meta t) \<Longrightarrow> saw (tc_getCached c (fst req) (snd req)) ((=) t) l
      \<Longrightarrow> good l (Patch (KAITenant t) (KAITenant (t\<lparr>at_meta := AddFinalizer a (at_meta t) aitenantFinalizer\<rparr>)) False)"
  shows "tri good (\<lambda>l. True) (AT_Reconcile (tlogged c) a r now req) anyResult"
  unfolding AT_Reconcile_def
  by (intro tri_onA [OF tri_reads(1)] tri_ignoreNotFound)
    (auto intro!: tri_if assms tri_onP [OF tri_any [OF tri_writeA]] tri_errors tri_okA)

definition timedOut :: "AITenantReconciler \<Rightarrow> int \<Rightarrow> AITenant \<Rightarrow> bool" where
  "timedOut r now t \<longleftrightarrow> tr_DeletionTimeout r > 0 \<and> now - at_DeletedAt t \<ge> tr_DeletionTimeout r"

definition deletionOrder ::
  "'s tenantClient \<Rightarrow> tenantApi \<Rightarrow> AITenantReconciler \<Rightarrow> int \<Rightarrow> string \<times> string \<Rightarrow> ('s, twrite) tev list \<Rightarrow> twrite \<Rightarrow> bool" where
  "deletionOrder c a r now req pre w \<longleftrightarrow>
     (\<exists>s t. At s \<in> set pre \<and> tc_getCached c (fst req) (snd req) s = Ok t
        \<and> (om_Deleting (at_meta t) \<longrightarrow> timedOut r now t \<or> revokedFirst c a r t pre w))"

lemma deletionOrderI:
  "saw (tc_getCached c (fst req) (snd req)) ((=) t) l
    \<Longrightarrow> (om_Deleting (at_meta t) \<Longrightarrow> timedOut r now t \<or> revokedFirst c a r t l w) \<Longrightarrow> deletionOrder c a r now req l w"
  unfolding deletionOrder_def saw_def by blast

lemma Reconcile_deletionOrder:
  assumes "keepsMeta a" "setsOnly a"
  shows "tri (deletionOrder c a r now req) (\<lambda>l. True) (AT_Reconcile (tlogged c) a r now req) anyResult"
proof (rule Reconcile_rule)
  fix t
  show "tri (deletionOrder c a r now req) (saw (tc_getCached c (fst req) (snd req)) ((=) t))
      (reconcileAITenantDelete (tlogged c) a r now t) anyResult"
  proof (cases "timedOut r now t")
    case True
    then show ?thesis
      by (intro tri_good [OF delete_confined [OF _ assms(1)]]) (auto intro: deletionOrderI)
  next
    case False
    then show ?thesis
      by (intro tri_good [OF delete_revokedFirst [OF _ assms]]) (auto simp: timedOut_def intro: deletionOrderI)
  qed
next
  fix t :: AITenant
  assume "\<not> om_Deleting (at_meta t)"
  then show "tri (deletionOrder c a r now req) (saw (tc_getCached c (fst req) (snd req)) ((=) t))
      (reconcileTenant (tlogged c) a r t) anyResult"
    by (intro tri_good [OF reconcileTenant_confined [OF _ assms(1)]]) (auto intro: deletionOrderI)
qed (auto intro: deletionOrderI)

text \<open>
  C9: Keys are revoked before anything is torn down. While a tenant is being deleted and its deletion
  has not timed out, every write other than to its status and to the revocation Job comes after the
  tenant was recorded as having its API keys revoked, or after a Job that carries the tenant's UID
  was seen complete.
\<close>

theorem keys_revoked_before_cleanup:
  assumes "keepsMeta a" "setsOnly a"
    and "tenantRun c a r now req s = pre @ Wrote w e # post"
  shows "\<exists>s' t. At s' \<in> set pre \<and> tc_getCached c (fst req) (snd req) s' = Ok t
    \<and> (om_Deleting (at_meta t) \<longrightarrow> timedOut r now t \<or> revocationWrite w \<or> keysRevoked c a r t pre)"
  using tri_run [OF Reconcile_deletionOrder [OF assms(1,2)] TrueI assms(3) [unfolded tenantRun_def]]
  by (auto simp: deletionOrder_def revokedFirst_def)

lemma tenantPlain_setsOnly: "setsOnly tenantPlain"
proof -
  have "find (\<lambda>x. c_Type x = ty) (map (\<lambda>y. if c_Type y = c_Type x then x else y) cs) = find (\<lambda>x. c_Type x = ty) cs"
    if "ty \<noteq> c_Type x" for ty x cs
    using that by (induction cs) auto
  moreover have "find P (cs @ [x]) = find P cs" if "\<not> P x" for P and x :: Condition and cs
    using that by (induction cs) auto
  ultimately show ?thesis by (auto simp: setsOnly_def plainSetCondition_def)
qed

text \<open>A tenant that is being deleted, with its keys revoked.\<close>

definition leavingTenant :: "string \<Rightarrow> AITenant" where
  "leavingTenant n =
     (sampleTenant n)\<lparr>at_meta := (sampleMeta ''ai-tenants'' n)\<lparr>om_Finalizers := [aitenantFinalizer], om_Deleting := True,
         om_Annotations := [(aitenantAPIKeysRevokedAnnotation, ''true'')]\<rparr>,
       at_GatewayRef := \<lparr>gr_Namespace = ''ingress'', gr_Name = ''gw''\<rparr>\<rparr>"

text \<open>The gateway \<open>gw\<close> is claimed by the tenant \<open>a\<close>, and has its policy.\<close>

abbreviation sharedRef :: TenantGatewayRef where
  "sharedRef \<equiv> \<lparr>gr_Namespace = ''ingress'', gr_Name = ''gw''\<rparr>"

definition heldClaim :: ConfigMap where
  "heldClaim = newClaim sampleReconciler (sampleTenant ''a'') sharedRef"

definition sharedPolicy :: uobj where
  "sharedPolicy = \<lparr>u_meta = sampleMeta ''ingress'' ''gw-maas-auth'', u_Object = []\<rparr>"

definition sharedWorld :: tenantWorld where
  "sharedWorld = (tenantStart (leavingTenant ''b''))\<lparr>tw_claims := [heldClaim], tw_policies := [sharedPolicy]\<rparr>"

lemma sharedWorld_tenant: "tw_tenants sharedWorld = [leavingTenant ''b'']" "tw_configs sharedWorld = []"
  "tw_namespaces sharedWorld = []" "tw_policies sharedWorld = [sharedPolicy]" "tw_claims sharedWorld = [heldClaim]"
  "tw_jobs sharedWorld = []"
  by (simp_all add: sharedWorld_def tenantStart_def)

lemma heldClaim_owners: "om_Owners (cm_meta heldClaim) = []"
  by (simp add: heldClaim_def newClaim_def freshMeta_def)

lemma heldClaim_holder: "\<not> isClaimOwnedByAITenant heldClaim (leavingTenant ''b'')" "isClaimOwnedByAITenant heldClaim (sampleTenant ''a'')"
  by (simp_all add: heldClaim_def newClaim_def isClaimOwnedByAITenant_def freshMeta_def ownedByAITenant_def
      tenantAnnotations_def leavingTenant_def sampleTenant_def sampleMeta_def annotation_def aitenant_constants)

text \<open>Calls in memory, and the steps of the deletion of \<open>b\<close>.\<close>

lemma mem_calls:
  "readA (tlogged tenantMem) (tc_getCached (tlogged tenantMem) ns n) (s, l) = (findAt at_meta (tw_tenants s) ns n, s, l @ [At s])"
  "readA (tlogged tenantMem) (tc_namespace (tlogged tenantMem) n) (s, l) = (findAt nsp_meta (tw_namespaces s) [] n, s, l @ [At s])"
  "readA (tlogged tenantMem) (tc_tenant (tlogged tenantMem) ns n) (s, l) = (findAt tn_meta (tw_legacy s) ns n, s, l @ [At s])"
  "readA (tlogged tenantMem) (tc_config (tlogged tenantMem) ns n) (s, l) = (findAt mtc_meta (tw_configs s) ns n, s, l @ [At s])"
  "readA (tlogged tenantMem) (tc_role (tlogged tenantMem) ns n) (s, l) = (Err (ErrNotFound ''not found''), s, l @ [At s])"
  "readA (tlogged tenantMem) (tc_roleBinding (tlogged tenantMem) ns n) (s, l) = (Err (ErrNotFound ''not found''), s, l @ [At s])"
  "readA (tlogged tenantMem) (tc_job (tlogged tenantMem) ns n) (s, l) = (findAt job_meta (tw_jobs s) ns n, s, l @ [At s])"
  "readA (tlogged tenantMem) (tc_claims (tlogged tenantMem) ns ls) (s, l) = (Ok (tw_claims s), s, l @ [At s])"
  "readA (tlogged tenantMem) (tc_authPolicy (tlogged tenantMem) ns n) (s, l) = (findAt u_meta (tw_policies s) ns n, s, l @ [At s])"
  "writeA (tlogged tenantMem) w (s, l) = (Ok (), s, l @ [At s, Wrote w None])"
  by (simp_all add: readAt_def writeAt_def othersL_def writeL_def tlogged_def tenantMem_def Let_def)

lemma onA_steps:
  "m st = (Inr x, st') \<Longrightarrow> onA m h f st = f x st'"
  "m st = (Inl e, st') \<Longrightarrow> onA m h f st = h e st'"
  by (simp_all add: onA_def)

lemma simple_steps:
  "okA x st = (Ok x, st)" "errA e st = (Err e, st)"
  "ignoreNotFound x (ErrNotFound msg) st = (Ok x, st)"
  by (simp_all add: okA_def errA_def ignoreNotFound_def IsNotFound_def)

lemma childName_nonempty: "aitenantChildName n s \<noteq> []"
  by (simp add: aitenantChildName_def aitenantBoundedName_def Let_def)

lemma absent: "findAt mt [] ns n = Err (ErrNotFound (n @ '' not found''))"
  by (simp add: findAt_def)

text \<open>The tenant \<open>b\<close> once its status says that it is being deleted.\<close>

definition leavingNow :: AITenant where
  "leavingNow = setAITenantPhase tenantPlain
     ((leavingTenant ''b'')\<lparr>at_TenantNamespace := tenantNamespaceName sampleReconciler (leavingTenant ''b'')\<rparr>)
     ''Terminating'' ''DeletionInProgress'' ''AITenant deletion cleanup is in progress''"

lemma leaving_simps:
  "om_Name (at_meta (leavingTenant ''b'')) = ''b''" "om_Namespace (at_meta (leavingTenant ''b'')) = ''ai-tenants''"
  "om_Deleting (at_meta (leavingTenant ''b''))" "om_Finalizers (at_meta (leavingTenant ''b'')) = [aitenantFinalizer]"
  "tenantAPIKeysRevoked tenantPlain (leavingTenant ''b'')"
  "at_meta leavingNow = at_meta (leavingTenant ''b'')" "at_UID leavingNow = at_UID (leavingTenant ''b'')"
  "at_GatewayRef leavingNow = sharedRef" "at_Status leavingNow \<noteq> at_Status (leavingTenant ''b'')"
  by (simp_all add: leavingTenant_def sampleMeta_def tenantAPIKeysRevoked_def annotation_def leavingNow_def
      setAITenantPhase_def at_Status_def sampleTenant_def)

lemma leavingNow_revoked: "tenantAPIKeysRevoked tenantPlain leavingNow"
  by (simp add: tenantAPIKeysRevoked_def leaving_simps) (simp add: leavingTenant_def annotation_def)

lemma reconciler_simps:
  "tr_DeletionTimeout sampleReconciler = 0" "tr_AppNamespace sampleReconciler = ''infra''"
  by (simp_all add: sampleReconciler_def)

lemmas steps = onA_steps simple_steps mem_calls absent sharedWorld_tenant isNotFoundError_def IsNotFound_def
  leaving_simps reconciler_simps

lemma leaving_steps:
  "deleteTenantConfig (tlogged tenantMem) tenantPlain sampleReconciler leavingNow (sharedWorld, l)
     = (Ok True, sharedWorld, l @ [At sharedWorld])"
  "deleteOwned (tlogged tenantMem) leavingNow KRole (tc_role (tlogged tenantMem)) ns (aitenantChildName n sfx) (sharedWorld, l)
     = (Ok (), sharedWorld, l @ [At sharedWorld])"
  "deleteOwned (tlogged tenantMem) leavingNow KRoleBinding (tc_roleBinding (tlogged tenantMem)) ns (aitenantChildName n sfx) (sharedWorld, l)
     = (Ok (), sharedWorld, l @ [At sharedWorld])"
  "releaseTenantNamespace (tlogged tenantMem) sampleReconciler leavingNow (sharedWorld, l)
     = (Ok (), sharedWorld, l @ [At sharedWorld])"
  "deleteTenantAPIKeyRevocationJob (tlogged tenantMem) sampleReconciler x (sharedWorld, l)
     = (Ok (), sharedWorld, l @ [At sharedWorld])"
  by (simp_all add: deleteTenantConfig_def deleteOwned_def releaseTenantNamespace_def
      deleteTenantAPIKeyRevocationJob_def Let_def steps childName_nonempty)

lemma leaving_policy:
  "deleteTenantGatewayAuthPolicy (tlogged tenantMem) sampleReconciler leavingNow (sharedWorld, l)
     = (Ok (), sharedWorld, l @ [At sharedWorld, At sharedWorld, Wrote (Delete (KAuthPolicy sharedPolicy) NoOption) None])"
  by (simp add: deleteTenantGatewayAuthPolicy_def Let_def steps DefaultAITenantName_def findAt_def isAt_def
      sharedPolicy_def sampleMeta_def isManaged_def AnnotationManaged_def deleteA_def)

lemma leaving_claims:
  "deleteGatewayClaim (tlogged tenantMem) sampleReconciler leavingNow (sharedWorld, l)
     = (Ok (), sharedWorld, l @ [At sharedWorld])"
proof -
  have "\<not> isClaimOwnedByAITenant heldClaim leavingNow"
    using heldClaim_holder(1) heldClaim_owners by (simp add: isClaimOwnedByAITenant_def ownedByAITenant_def leaving_simps)
  then show ?thesis by (simp add: deleteGatewayClaim_def Let_def steps)
qed

lemma leaving_labels:
  "cleanupGatewayLabelsOnDelete (tlogged tenantMem) sampleReconciler leavingNow (sharedWorld, l)
     = (Ok (), sharedWorld, l @ (if tenantGatewayRefFor sampleReconciler leavingNow = sharedRef then [At sharedWorld] else []))"
proof -
  have "at_SpecGatewayName leavingNow = Some ''gw''"
    by (simp add: leavingNow_def setAITenantPhase_def leavingTenant_def sampleTenant_def)
  then have "tenantGatewayRefFor sampleReconciler leavingNow = sharedRef"
    by (simp add: tenantGatewayRefFor_def sampleReconciler_def)
  then show ?thesis by (simp add: cleanupGatewayLabelsOnDelete_def Let_def steps)
qed

definition gone :: AITenant where
  "gone = leavingNow\<lparr>at_meta := RemoveFinalizer tenantPlain (at_meta leavingNow) aitenantFinalizer\<rparr>"

text \<open>The history of the deletion of \<open>b\<close> up to the policy of the gateway, and from there on.\<close>

definition beforePolicy :: "(tenantWorld, twrite) tev list" where
  "beforePolicy = [At sharedWorld, At sharedWorld, Wrote (StatusUpdate leavingNow) None] @ replicate 6 (At sharedWorld) @ [At sharedWorld, At sharedWorld]"

definition beforePatch :: "(tenantWorld, twrite) tev list" where
  "beforePatch = [At sharedWorld]
     @ (if tenantGatewayRefFor sampleReconciler leavingNow = sharedRef then [At sharedWorld] else []) @ [At sharedWorld]"

lemma shared_run:
  "\<exists>post. tenantRun tenantMem tenantPlain sampleReconciler 0 (''ai-tenants'', ''b'') sharedWorld
     = beforePolicy @ Wrote (Delete (KAuthPolicy sharedPolicy) NoOption) None # beforePatch
         @ Wrote (Patch (KAITenant leavingNow) (KAITenant gone) False) None # post"
proof -
  let ?c = "tlogged tenantMem" let ?r = sampleReconciler let ?S = "At sharedWorld"
  have children: "deleteAITenantScopedChildren ?c ?r leavingNow (sharedWorld, l)
      = (Ok (), sharedWorld, l @ [?S, ?S, ?S, ?S])" for l
    by (simp add: deleteAITenantScopedChildren_def Let_def tenantAdminRoleName_def aitenantAccessRoleName_def
        onA_steps leaving_steps)
  have drop: "\<exists>post. dropAITenantFinalizer ?c tenantPlain ?r leavingNow (sharedWorld, l)
      = (Ok 0, sharedWorld, l @ ?S # Wrote (Patch (KAITenant leavingNow) (KAITenant gone) False) None # post)" for l
    by (simp add: dropAITenantFinalizer_def Let_def onA_steps mem_calls simple_steps tryA_def leaving_steps gone_def tenantPlain_simps)
  have cleanup: "\<exists>post. cleanupTenant ?c tenantPlain ?r leavingNow (sharedWorld, l)
      = (Ok 0, sharedWorld, l @ replicate 6 ?S @ [?S, ?S, Wrote (Delete (KAuthPolicy sharedPolicy) NoOption) None]
          @ beforePatch @ Wrote (Patch (KAITenant leavingNow) (KAITenant gone) False) None # post)" for l
    using drop [of "l @ replicate 6 ?S @ [?S, ?S, Wrote (Delete (KAuthPolicy sharedPolicy) NoOption) None] @ [?S] @
        (if tenantGatewayRefFor sampleReconciler leavingNow = sharedRef then [?S] else [])"]
    by (auto simp: cleanupTenant_def onA_steps leaving_steps children leaving_policy leaving_claims leaving_labels
        numeral_eq_Suc beforePatch_def)
  have revoked: "ensureTenantAPIKeysRevoked ?c tenantPlain ?r leavingNow st = (Ok (leavingNow, Ok True), st)" for st
    by (simp add: ensureTenantAPIKeysRevoked_def Let_def leavingNow_revoked simple_steps)
  have status: "updateAITenantStatus ?c leavingNow (at_Status (leavingTenant ''b'')) (sharedWorld, l)
      = (Ok (), sharedWorld, l @ [?S, Wrote (StatusUpdate leavingNow) None])" for l
    by (simp add: updateAITenantStatus_def leaving_simps(9) [symmetric] steps)
  have delete: "\<exists>post. reconcileAITenantDelete ?c tenantPlain ?r 0 (leavingTenant ''b'') (sharedWorld, [?S])
      = (Ok 0, sharedWorld, beforePolicy @ Wrote (Delete (KAuthPolicy sharedPolicy) NoOption) None # beforePatch
          @ Wrote (Patch (KAITenant leavingNow) (KAITenant gone) False) None # post)"
    using cleanup [of "[?S, ?S, Wrote (StatusUpdate leavingNow) None]"]
    by (auto simp: reconcileAITenantDelete_def Let_def ContainsFinalizer_def leaving_simps reconciler_simps
        leavingNow_def [symmetric] onA_steps status revoked beforePolicy_def)
  have "findAt at_meta [leavingTenant ''b''] ''ai-tenants'' ''b'' = Ok (leavingTenant ''b'')"
    by (simp add: findAt_def isAt_def leaving_simps)
  then show ?thesis
    using delete by (auto simp: tenantRun_def AT_Reconcile_def onA_steps mem_calls sharedWorld_tenant leaving_simps)
qed


lemma shared_patch:
  "\<exists>pre post. tenantRun tenantMem tenantPlain sampleReconciler 0 (''ai-tenants'', ''b'') sharedWorld
     = pre @ Wrote (Patch (KAITenant leavingNow) (KAITenant gone) False) None # post
     \<and> (\<forall>s. At s \<in> set pre \<longrightarrow> s = sharedWorld)"
proof -
  obtain post where run: "tenantRun tenantMem tenantPlain sampleReconciler 0 (''ai-tenants'', ''b'') sharedWorld
     = (beforePolicy @ Wrote (Delete (KAuthPolicy sharedPolicy) NoOption) None # beforePatch)
         @ Wrote (Patch (KAITenant leavingNow) (KAITenant gone) False) None # post"
    using shared_run by auto
  have "At s \<in> set (beforePolicy @ Wrote (Delete (KAuthPolicy sharedPolicy) NoOption) None # beforePatch) \<Longrightarrow> s = sharedWorld" for s
    by (auto simp: beforePolicy_def beforePatch_def split: if_splits)
  with run show ?thesis by blast
qed

lemma heldClaim_data: "cm_Data heldClaim = [(''gatewayNamespace'', ''ingress''), (''gatewayName'', ''gw'')]"
  by (simp add: heldClaim_def newClaim_def)

theorem keys_revoked_before_cleanup_witness:
  "\<not> timedOut sampleReconciler 0 (leavingTenant ''b'')
    \<and> \<not> revocationWrite (Delete (KAuthPolicy sharedPolicy) NoOption)
    \<and> keysRevoked tenantMem tenantPlain sampleReconciler (leavingTenant ''b'') beforePolicy"
proof -
  obtain post where run: "tenantRun tenantMem tenantPlain sampleReconciler 0 (''ai-tenants'', ''b'') sharedWorld
      = beforePolicy @ Wrote (Delete (KAuthPolicy sharedPolicy) NoOption) None # post"
    using shared_run by blast
  obtain s' t where t: "At s' \<in> set beforePolicy" "tc_getCached tenantMem ''ai-tenants'' ''b'' s' = Ok t"
      "om_Deleting (at_meta t) \<longrightarrow> timedOut sampleReconciler 0 t
         \<or> revocationWrite (Delete (KAuthPolicy sharedPolicy) NoOption)
         \<or> keysRevoked tenantMem tenantPlain sampleReconciler t beforePolicy"
    using keys_revoked_before_cleanup [OF tenantPlain_keepsMeta tenantPlain_setsOnly run] by auto
  moreover have "s' = sharedWorld" using t(1) by (auto simp: beforePolicy_def)
  with t(2) have "t = leavingTenant ''b''"
    by (simp add: tenantMem_def sharedWorld_tenant findAt_def isAt_def leaving_simps)
  ultimately show ?thesis by (simp add: leaving_simps timedOut_def reconciler_simps)
qed

section \<open>What a deletion writes\<close>

lemma phase_simps [simp]: "at_Phase (setAITenantPhase a x p q m) = p" "at_Phase (degradedBy a x m) = at_Phase x"
  "at_Phase (notDegraded a x) = at_Phase x"
  by (simp_all add: setAITenantPhase_def degradedBy_def notDegraded_def)

text \<open>Neither the status of a tenant nor the tenant itself.\<close>

fun aside :: "twrite \<Rightarrow> bool" where
  "aside (StatusUpdate x) = False"
| "aside (Patch b n lock) = (\<not> isAITenantObj b)"
| "aside w = True"

text \<open>The AuthPolicy of the gateway in the status of the tenant: where it is, and that it is taken care of.\<close>

definition statusGateway :: "AITenantReconciler \<Rightarrow> AITenant \<Rightarrow> TenantGatewayRef" where
  "statusGateway r t =
     (if gr_Name (at_GatewayRef t) = [] \<or> gr_Namespace (at_GatewayRef t) = [] then tenantGatewayRefFor r t else at_GatewayRef t)"

definition deleted :: "kobj \<Rightarrow> ('s, twrite) tev list \<Rightarrow> bool" where
  "deleted x l \<longleftrightarrow> (\<exists>e. Wrote (Delete x NoOption) e \<in> set l \<and> (case e of None \<Rightarrow> True | Some y \<Rightarrow> isNotFoundError y))"

definition policyHandled :: "'s tenantClient \<Rightarrow> string \<Rightarrow> string \<Rightarrow> 's \<Rightarrow> ('s, twrite) tev list \<Rightarrow> bool" where
  "policyHandled c ns n s l \<longleftrightarrow>
     (case tc_authPolicy c ns n s of
        Inl e \<Rightarrow> isNotFoundError e
      | Inr p \<Rightarrow> \<not> isManaged (u_meta p) \<or> deleted (KAuthPolicy p) l)"

definition policyGone :: "'s tenantClient \<Rightarrow> AITenantReconciler \<Rightarrow> AITenant \<Rightarrow> ('s, twrite) tev list \<Rightarrow> bool" where
  "policyGone c r t l \<longleftrightarrow>
     (let g = statusGateway r t
      in gr_Name g = [] \<or> gr_Namespace g = []
         \<or> (\<exists>s. At s \<in> set l \<and> policyHandled c (gr_Namespace g) (gatewayPolicyName t g) s l))"

lemma stays_policyHandled [simp, intro]: "stays (deleted x)" "stays (policyHandled c ns n s)"
  by (auto simp: stays_def deleted_def policyHandled_def split: sum.splits)

lemma stays_policyGone [simp, intro]: "stays (policyGone c r t)"
  by (auto simp: policyGone_def Let_def stays_def dest: stays_policyHandled(2) [unfolded stays_def, rule_format])

definition sameGateway :: "AITenant \<Rightarrow> AITenant \<Rightarrow> bool" where
  "sameGateway x t \<longleftrightarrow> om_Name (at_meta x) = om_Name (at_meta t) \<and> at_GatewayRef x = at_GatewayRef t
     \<and> at_SpecGatewayName x = at_SpecGatewayName t"

lemma sameGateway_updates [simp]:
  "sameGateway t t" "sameGateway (setAITenantPhase a x p q m) t = sameGateway x t"
  "sameGateway (revokedTenant a x) t = sameGateway x t" "sameGateway (x\<lparr>at_TenantNamespace := ns\<rparr>) t = sameGateway x t"
  "sameGateway x (setAITenantPhase a t p q m) = sameGateway x t" "sameGateway x (t\<lparr>at_TenantNamespace := ns\<rparr>) = sameGateway x t"
  by (simp_all add: sameGateway_def setAITenantPhase_def revokedTenant_def)

lemma policyGone_same: "sameGateway x t \<Longrightarrow> policyGone c r x = policyGone c r t"
proof -
  assume same: "sameGateway x t"
  then have "tenantGatewayRefFor r x = tenantGatewayRefFor r t"
    by (simp add: tenantGatewayRefFor_def sameGateway_def split: option.split)
  with same have "statusGateway r x = statusGateway r t" "gatewayPolicyName x = gatewayPolicyName t"
    by (simp_all add: statusGateway_def gatewayPolicyName_def sameGateway_def fun_eq_iff)
  then show ?thesis by (simp add: fun_eq_iff policyGone_def)
qed

lemma tri_readThen:
  assumes "\<And>st. r' st = r (fst st)" "stays K"
    and "\<And>s. tri good (\<lambda>l. K l \<and> At s \<in> set l) (case r s of Inl e \<Rightarrow> h e | Inr x \<Rightarrow> f x) Q"
  shows "tri good K (onA (readA (tlogged c) r') h f) Q"
  unfolding tri_def
proof (intro allI impI)
  fix st :: "('a, twrite) tstate"
  assume K: "K (snd st)"
  let ?s = "tc_others c (fst st)" let ?l = "snd st @ [At ?s]"
  let ?m = "case r ?s of Inl e \<Rightarrow> h e | Inr x \<Rightarrow> f x"
  have run: "onA (readA (tlogged c) r') h f st = ?m (?s, ?l)"
    by (auto simp: onA_def readAt_def tlogged_calls othersL_def assms(1) Let_def split: sum.split)
  have "K ?l \<and> At ?s \<in> set ?l" using K assms(2) by (simp add: stays_def)
  with assms(3) [of ?s] obtain l where l: "snd (snd (?m (?s, ?l))) = ?l @ l" "safe good ?l l"
    "\<forall>x. fst (?m (?s, ?l)) = Ok x \<longrightarrow> Q x (snd (snd (?m (?s, ?l))))"
    unfolding tri_def by fastforce
  have "safe good (snd st) ([At ?s] @ l)" by (rule safe_append) (use l(2) in simp_all)
  with l run show "(\<exists>l. snd (snd (onA (readA (tlogged c) r') h f st)) = snd st @ l \<and> safe good (snd st) l)
      \<and> (\<forall>x. fst (onA (readA (tlogged c) r') h f st) = Ok x \<longrightarrow> Q x (snd (snd (onA (readA (tlogged c) r') h f st))))"
    by (metis append.assoc)
qed

lemma tri_deleteDone:
  assumes "stays K" "\<And>l. K l \<Longrightarrow> good l (Delete x NoOption)"
  shows "tri good K (deleteA (tlogged c) x NoOption mk) (\<lambda>_. deleted x)"
  using assms
  by (auto simp: tri_def deleteA_def onA_def writeAt_def tlogged_calls othersL_def writeL_def okA_def errA_def deleted_def stays_def
      isNotFoundError_def split: prod.splits option.splits)

lemma deletePolicy_gone:
  assumes K: "stays K"
  shows "tri (\<lambda>l. aside) K (deleteTenantGatewayAuthPolicy (tlogged c) r t) (\<lambda>_. policyGone c r t)"
  unfolding deleteTenantGatewayAuthPolicy_def Let_def statusGateway_def [symmetric] gatewayPolicyName_def [symmetric]
proof (rule tri_if, rule tri_okA, (auto simp: policyGone_def Let_def)[])
  let ?g = "statusGateway r t"
  let ?ns = "gr_Namespace ?g" and ?n = "gatewayPolicyName t ?g"
  show "tri (\<lambda>l. aside) K (onA (readA (tlogged c) (tc_authPolicy (tlogged c) ?ns ?n))
      (\<lambda>e. if isNotFoundError e then okA () else wrapA w e)
      (\<lambda>pol. if \<not> isManaged (u_meta pol) then okA () else deleteA (tlogged c) (KAuthPolicy pol) NoOption (mk pol)))
      (\<lambda>_. policyGone c r t)" for w mk
  proof (rule tri_readThen [where r = "tc_authPolicy c ?ns ?n"])
    fix s
    let ?K = "\<lambda>l. K l \<and> At s \<in> set l"
    have K1: "stays ?K" using K by (auto simp: stays_def)
    have handled: "policyGone c r t l" if "?K l" "policyHandled c ?ns ?n s l" for l
      using that by (auto simp: policyGone_def Let_def)
    have del: "tri (\<lambda>l. aside) ?K (deleteA (tlogged c) (KAuthPolicy p) NoOption m) (\<lambda>_. policyGone c r t)"
      if "tc_authPolicy c ?ns ?n s = Inr p" for p m
      by (rule tri_weaken [OF tri_frame [OF tri_deleteDone [OF K1] K1]]) (use handled that in \<open>auto simp: policyHandled_def\<close>)
    show "tri (\<lambda>l. aside) ?K (case tc_authPolicy c ?ns ?n s of Inl e \<Rightarrow> if isNotFoundError e then okA () else wrapA w e
        | Inr pol \<Rightarrow> if \<not> isManaged (u_meta pol) then okA () else deleteA (tlogged c) (KAuthPolicy pol) NoOption (mk pol))
        (\<lambda>_. policyGone c r t)"
      by (intro tri_sum tri_if tri_okA tri_errors del) (auto intro: handled simp: policyHandled_def)
  qed (use K in \<open>simp_all add: tlogged_def\<close>)
qed

text \<open>The other operations of a clean-up.\<close>

lemma cleanup_aside:
  assumes "stays K"
  shows "tri (\<lambda>l. aside) K (deleteTenantConfig (tlogged c) a r t) anyResult"
    "tri (\<lambda>l. aside) K (releaseTenantNamespace (tlogged c) r t) anyResult"
    "tri (\<lambda>l. aside) K (cleanupGatewayLabelsOnDelete (tlogged c) r t) anyResult"
    "tri (\<lambda>l. aside) K (deleteTenantAPIKeyRevocationJob (tlogged c) r t) anyResult"
proof -
  show "tri (\<lambda>l. aside) K (deleteTenantConfig (tlogged c) a r t) anyResult"
    unfolding deleteTenantConfig_def Let_def by (intro tri_rules tri_onA [OF tri_deleteA]) (use assms in auto)
  show "tri (\<lambda>l. aside) K (releaseTenantNamespace (tlogged c) r t) anyResult"
    unfolding releaseTenantNamespace_def Let_def by (intro tri_rules) (use assms in auto)
  show "tri (\<lambda>l. aside) K (cleanupGatewayLabelsOnDelete (tlogged c) r t) anyResult"
    unfolding cleanupGatewayLabelsOnDelete_def Let_def by (intro tri_rules) (use assms in auto)
  show "tri (\<lambda>l. aside) K (deleteTenantAPIKeyRevocationJob (tlogged c) r t) anyResult"
    unfolding deleteTenantAPIKeyRevocationJob_def Let_def by (intro tri_rules) (use assms in auto)
qed

lemma claims_aside:
  assumes "stays K"
  shows "tri (\<lambda>l. aside) K (deleteGatewayClaim (tlogged c) r t) anyResult"
proof -
  have "tri (\<lambda>l. aside) K (deleteClaims (tlogged c) t what cms) anyResult" if "stays K" for K what cms
    using that
  proof (induction cms arbitrary: K)
    case (Cons cm cms)
    then show ?case
      unfolding deleteClaims.simps by (intro tri_if tri_onP [OF tri_deleteA] tri_errA) auto
  qed (auto intro: tri_okA)
  then show ?thesis
    unfolding deleteGatewayClaim_def Let_def by (intro tri_rules) (use assms in auto)
qed

lemma deleteOwned_aside:
  assumes "stays K" "\<And>x y st. get' x y st = get x y (fst st)"
  shows "tri (\<lambda>l. aside) K (deleteOwned (tlogged c) t emb get' ns n) anyResult"
  unfolding deleteOwned_def
  by (intro tri_readA [where r = "get ns n", THEN tri_onA] assms(2) tri_rules) (use assms(1) in auto)

lemma children_aside:
  assumes "stays K"
  shows "tri (\<lambda>l. aside) K (deleteAITenantScopedChildren (tlogged c) r t) anyResult"
  unfolding deleteAITenantScopedChildren_def Let_def
  by (intro tri_onA [where Q = anyResult] deleteOwned_aside [where get = "tc_role c"]
      deleteOwned_aside [where get = "tc_roleBinding c"] tri_errA) (use assms in \<open>auto simp: tlogged_def\<close>)

text \<open>A status is not Active, and the tenant itself is patched only when \<open>G\<close> holds.\<close>

fun leavingOk :: "(('s, twrite) tev list \<Rightarrow> bool) \<Rightarrow> ('s, twrite) tev list \<Rightarrow> twrite \<Rightarrow> bool" where
  "leavingOk G l (StatusUpdate x) = (at_Phase x \<noteq> ''Active'')"
| "leavingOk G l (Patch b n lock) = (isAITenantObj b \<longrightarrow> G l)"
| "leavingOk G l w = True"

lemma leavingOk_weaken: "leavingOk G l w \<Longrightarrow> (G l \<Longrightarrow> G' l) \<Longrightarrow> leavingOk G' l w"
  by (cases w) auto

lemma aside_leaving: "tri (\<lambda>l. aside) K m Q \<Longrightarrow> stays K \<Longrightarrow> tri (leavingOk G) K m Q"
proof (erule tri_good)
  fix l :: "('a, twrite) tev list" and w
  assume "aside w"
  then show "leavingOk G l w" by (cases w) auto
qed

lemmas leaving_cleanup = cleanup_aside [THEN aside_leaving] claims_aside [THEN aside_leaving] children_aside [THEN aside_leaving]

lemma leaving_status:
  "stays K \<Longrightarrow> at_Phase x \<noteq> ''Active'' \<Longrightarrow> tri (leavingOk G) K (updateAITenantStatus (tlogged c) x snap) anyResult"
  unfolding updateAITenantStatus_def
  by (intro tri_if tri_okA tri_onP [OF tri_any [OF tri_writeA]] tri_errors) auto

lemma leaving_drop:
  assumes "stays K" "\<And>l. K l \<Longrightarrow> G l"
  shows "tri (leavingOk G) K (dropAITenantFinalizer (tlogged c) a r x) anyResult"
  unfolding dropAITenantFinalizer_def Let_def
  by (intro tri_onP [OF tri_any [OF tri_writeA]] tri_onP [OF tri_tryA] leaving_cleanup tri_errors tri_errA tri_okA)
    (use assms in auto)

lemma leaving_force:
  assumes K: "stays K" and G: "\<And>l. K l \<Longrightarrow> G l"
  shows "tri (leavingOk G) K (forceRemoveAITenantFinalizer (tlogged c) a r x) anyResult"
  unfolding forceRemoveAITenantFinalizer_def Let_def
  by (intro tri_onP [where P = "\<lambda>u. True"] tri_tryA tri_if tri_eventA tri_okA tri_errA leaving_status leaving_cleanup
      leaving_drop tri_any [OF aside_leaving [OF deletePolicy_gone]] K)
    (use G in \<open>auto simp: setAITenantPhase_def\<close>)

lemma leaving_cleanupTenant:
  assumes K: "stays K" and x: "sameGateway x t"
  shows "tri (leavingOk (policyGone c r t)) K (cleanupTenant (tlogged c) a r x) anyResult"
proof -
  let ?K = "\<lambda>l. K l \<and> policyGone c r x l"
  have K1: "stays ?K" using K by (intro stays_conj stays_policyGone)
  have rest: "tri (leavingOk (policyGone c r t)) ?K
      (thenA (deleteGatewayClaim (tlogged c) r x) (\<lambda>_. thenA (cleanupGatewayLabelsOnDelete (tlogged c) r x)
        (\<lambda>_. dropAITenantFinalizer (tlogged c) a r x))) anyResult"
    by (intro tri_onP [where P = "\<lambda>u. True"] leaving_cleanup leaving_drop tri_errA K1)
      (simp add: policyGone_same [OF x])
  show ?thesis
    unfolding cleanupTenant_def
    by (intro tri_onP [where P = "\<lambda>u. True", OF leaving_cleanup(1)] tri_onP [where P = "\<lambda>u. True", OF leaving_cleanup(2)]
        tri_onP [where P = "\<lambda>u. True", OF leaving_cleanup(6)] tri_onP [where P = "\<lambda>u. True", OF leaving_status]
        tri_onA [OF aside_leaving [OF deletePolicy_gone]] tri_if tri_okA tri_errA rest K)
      (auto simp: setAITenantPhase_def)
qed

lemma leaving_revoke:
  assumes K: "stays K" and x: "at_Phase x \<noteq> ''Active''"
  shows "tri (leavingOk G) K (ensureTenantAPIKeysRevoked (tlogged c) a r x)
    (\<lambda>p l. sameGateway (fst p) x)"
proof -
  have mark: "tri (leavingOk G) K (markTenantAPIKeysRevoked (tlogged c) a x) anyResult" if "stays K" for K
    unfolding markTenantAPIKeysRevoked_def
    by (intro tri_onP [OF leaving_status] tri_errA tri_okA) (use that x in \<open>auto simp: revokedTenant_def\<close>)
  show ?thesis
    unfolding ensureTenantAPIKeysRevoked_def Let_def
    by (intro tri_reads [THEN tri_onA] tri_if tri_onP [where P = "\<lambda>u. True", OF mark] tri_onP [OF tri_deleteA]
        tri_onP [OF tri_any [OF tri_writeA]] tri_onP [where P = "\<lambda>u. True"] tri_errors tri_errA tri_okA)
      (use K in auto)
qed

lemma leaving_delete:
  assumes K: "stays K"
  shows "tri (leavingOk (\<lambda>l. timedOut r now t \<or> policyGone c r t l)) K (reconcileAITenantDelete (tlogged c) a r now t) anyResult"
proof -
  let ?G = "\<lambda>l. timedOut r now t \<or> policyGone c r t l"
  have cleanup: "tri (leavingOk ?G) K (cleanupTenant (tlogged c) a r x) anyResult" if "sameGateway x t" "stays K" for x K
  proof (rule tri_good [OF leaving_cleanupTenant [OF that(2,1)] that(2)])
    fix l w
    assume "leavingOk (policyGone c r t) l w"
    then show "leavingOk ?G l w" by (rule leavingOk_weaken) simp
  qed
  show ?thesis
    unfolding reconcileAITenantDelete_def Let_def timedOut_def [symmetric]
    by (intro tri_if tri_okA leaving_force tri_onP [OF leaving_status] tri_onP [OF leaving_revoke] tri_errA tri_prod tri_sum cleanup)
      (use K in auto)
qed

definition leavingBy ::
  "'s tenantClient \<Rightarrow> AITenantReconciler \<Rightarrow> int \<Rightarrow> string \<times> string \<Rightarrow> ('s, twrite) tev list \<Rightarrow> twrite \<Rightarrow> bool" where
  "leavingBy c r now req pre w \<longleftrightarrow>
     (\<exists>s t. At s \<in> set pre \<and> tc_getCached c (fst req) (snd req) s = Ok t
        \<and> (om_Deleting (at_meta t) \<longrightarrow> leavingOk (\<lambda>l. timedOut r now t \<or> policyGone c r t l) pre w))"

lemma leavingByI:
  "saw (tc_getCached c (fst req) (snd req)) ((=) t) l
    \<Longrightarrow> (om_Deleting (at_meta t) \<Longrightarrow> leavingOk (\<lambda>l. timedOut r now t \<or> policyGone c r t l) l w) \<Longrightarrow> leavingBy c r now req l w"
  unfolding leavingBy_def saw_def by blast

lemma Reconcile_leaving:
  assumes "keepsMeta a"
  shows "tri (leavingBy c r now req) (\<lambda>l. True) (AT_Reconcile (tlogged c) a r now req) anyResult"
proof (rule Reconcile_rule)
  fix t :: AITenant
  show "tri (leavingBy c r now req) (saw (tc_getCached c (fst req) (snd req)) ((=) t))
      (reconcileAITenantDelete (tlogged c) a r now t) anyResult"
    by (intro tri_good [OF leaving_delete [of _ r now t c a]]) (auto intro: leavingByI)
next
  fix t :: AITenant
  assume "\<not> om_Deleting (at_meta t)"
  then show "tri (leavingBy c r now req) (saw (tc_getCached c (fst req) (snd req)) ((=) t))
      (reconcileTenant (tlogged c) a r t) anyResult"
    by (intro tri_good [OF reconcileTenant_confined [OF _ assms]]) (auto intro: leavingByI)
qed (auto intro: leavingByI)

text \<open>
  C31: What a deletion does to the policy of a gateway. Unless its time limit has passed, the deletion of a
  tenant gives up the tenant's finalizer only after the AuthPolicy of the gateway that the status of the tenant names
  (or its spec, where the status names none) was read and deleted, was found missing, or had opted out of
  management. Who holds the claim of that gateway plays no part: in the run of the witness the gateway is
  claimed by the tenant \<open>a\<close>, and the deletion of \<open>b\<close>, which never held the claim, takes the policy down.
\<close>

theorem deletion_takes_gateway_policy:
  assumes "keepsMeta a" and "tenantRun c a r now req s = pre @ Wrote (Patch (KAITenant x) n lock) e # post"
  shows "\<exists>s' t. At s' \<in> set pre \<and> tc_getCached c (fst req) (snd req) s' = Ok t
    \<and> (om_Deleting (at_meta t) \<longrightarrow> timedOut r now t \<or> policyGone c r t pre)"
  using tri_run [OF Reconcile_leaving [OF assms(1)] TrueI assms(2) [unfolded tenantRun_def]]
  by (auto simp: leavingBy_def)

theorem deletion_takes_gateway_policy_witness:
  "isClaimOwnedByAITenant heldClaim (sampleTenant ''a'') \<and> \<not> isClaimOwnedByAITenant heldClaim (leavingTenant ''b'')
    \<and> cm_Data heldClaim = [(''gatewayNamespace'', ''ingress''), (''gatewayName'', ''gw'')] \<and> tw_claims sharedWorld = [heldClaim]
    \<and> om_Namespace (u_meta sharedPolicy) = ''ingress'' \<and> om_Name (u_meta sharedPolicy) = ''gw-maas-auth''
    \<and> (\<exists>pre post. tenantRun tenantMem tenantPlain sampleReconciler 0 (''ai-tenants'', ''b'') sharedWorld
           = pre @ Wrote (Patch (KAITenant leavingNow) (KAITenant gone) False) None # post
         \<and> deleted (KAuthPolicy sharedPolicy) pre)"
proof -
  let ?run = "tenantRun tenantMem tenantPlain sampleReconciler 0 (''ai-tenants'', ''b'') sharedWorld"
  obtain pre post where run: "?run = pre @ Wrote (Patch (KAITenant leavingNow) (KAITenant gone) False) None # post"
    and still: "\<And>s. At s \<in> set pre \<Longrightarrow> s = sharedWorld"
    using shared_patch by blast
  obtain t where t: "tc_getCached tenantMem ''ai-tenants'' ''b'' sharedWorld = Ok t"
    "om_Deleting (at_meta t) \<longrightarrow> timedOut sampleReconciler 0 t \<or> policyGone tenantMem sampleReconciler t pre"
    using deletion_takes_gateway_policy [OF tenantPlain_keepsMeta run] still by auto
  then have "t = leavingTenant ''b''"
    by (simp add: tenantMem_def sharedWorld_tenant findAt_def isAt_def leaving_simps)
  moreover have "at_GatewayRef (leavingTenant ''b'') = sharedRef" by (simp add: leavingTenant_def)
  moreover have "tc_authPolicy tenantMem ''ingress'' ''gw-maas-auth'' sharedWorld = Ok sharedPolicy"
    by (simp add: tenantMem_def sharedWorld_tenant findAt_def isAt_def sharedPolicy_def sampleMeta_def)
  moreover have "isManaged (u_meta sharedPolicy)"
    by (simp add: sharedPolicy_def sampleMeta_def isManaged_def AnnotationManaged_def)
  ultimately have "deleted (KAuthPolicy sharedPolicy) pre"
    using t(2) by (auto simp: leaving_simps timedOut_def reconciler_simps policyGone_def policyHandled_def statusGateway_def
        gatewayPolicyName_def DefaultAITenantName_def Let_def dest!: still)
  with run show ?thesis
    by (auto simp: heldClaim_holder heldClaim_data sharedWorld_tenant) (simp_all add: sharedPolicy_def sampleMeta_def)
qed

section \<open>When a tenant becomes active\<close>

text \<open>What is known of a tenant's resources when it becomes active.\<close>

definition gatewaySeen :: "'s tenantClient \<Rightarrow> TenantGatewayRef \<Rightarrow> ('s, twrite) tev list \<Rightarrow> bool" where
  "gatewaySeen c ref = saw (tc_gateway c (gr_Namespace ref) (gr_Name ref)) (\<lambda>gw. True)"

definition gatewayClaimed :: "'s tenantClient \<Rightarrow> AITenantReconciler \<Rightarrow> AITenant \<Rightarrow> TenantGatewayRef \<Rightarrow> ('s, twrite) tev list \<Rightarrow> bool" where
  "gatewayClaimed c r t ref l \<longleftrightarrow>
     did (\<lambda>w. \<exists>m. w = Create (KConfigMap ((newClaim r t ref)\<lparr>cm_meta := m\<rparr>))) l
     \<or> saw (tc_configMap c (aitenantNamespace r) (gatewayClaimName ref))
         (\<lambda>cm. isClaimOwnedByAITenant cm t
            \<and> annotation (cm_Data cm) ''gatewayNamespace'' = gr_Namespace ref
            \<and> annotation (cm_Data cm) ''gatewayName'' = gr_Name ref) l"

definition configReady :: "'s tenantClient \<Rightarrow> tenantApi \<Rightarrow> string \<Rightarrow> ('s, twrite) tev list \<Rightarrow> bool" where
  "configReady c a tns =
     saw (tc_config c tns MaasTenantConfigInstanceName)
       (\<lambda>cfg. \<exists>ready. FindStatusCondition a (mtc_Conditions cfg) ''Ready'' = Some ready \<and> c_Status ready = ''True''
          \<and> c_ObservedGeneration ready = om_Generation (mtc_meta cfg))"

definition activation :: "'s tenantClient \<Rightarrow> tenantApi \<Rightarrow> AITenantReconciler \<Rightarrow> AITenant \<Rightarrow> ('s, twrite) tev list \<Rightarrow> bool" where
  "activation c a r t l \<longleftrightarrow>
     (let ref = tenantGatewayRefFor r t
      in gatewaySeen c ref l \<and> gatewayClaimed c r t ref l \<and> configReady c a (tenantNamespaceName r t) l)"

text \<open>A write that makes a tenant active that was not.\<close>

definition earned :: "'s tenantClient \<Rightarrow> tenantApi \<Rightarrow> AITenantReconciler \<Rightarrow> AITenant \<Rightarrow> ('s, twrite) tev list \<Rightarrow> twrite \<Rightarrow> bool" where
  "earned c a r t l w \<longleftrightarrow>
     (\<forall>x. w = StatusUpdate x \<longrightarrow> at_Phase x = ''Active'' \<longrightarrow> at_Phase t = ''Active'' \<or> activation c a r t l)"

lemma earned_other: "(\<And>x. w \<noteq> StatusUpdate x) \<Longrightarrow> earned c a r t l w"
  by (simp add: earned_def)

lemma stays_activation [simp, intro]:
  "stays (gatewaySeen c ref)" "stays (gatewayClaimed c r t ref)" "stays (configReady c a tns)"
  by (auto simp: gatewaySeen_def configReady_def) (auto simp: stays_def gatewayClaimed_def saw_def did_def)

lemma adoptNamespace_earned:
  "stays K \<Longrightarrow> tri (earned c a r t) K (adoptNamespace (tlogged c) x name ns) anyResult"
  unfolding adoptNamespace_def Let_def by (intro tri_rules) (auto intro: earned_other)

lemma ensureTenantNamespace_earned:
  "stays K \<Longrightarrow> tri (earned c a r t) K (ensureTenantNamespace (tlogged c) r x) anyResult"
  unfolding ensureTenantNamespace_def Let_def
  by (intro tri_rules adoptNamespace_earned) (auto intro: earned_other)

lemma upsert_earned:
  assumes K: "stays K" and get: "\<And>st. get' st = get (fst st)"
    and mut: "\<And>K x. stays K \<Longrightarrow> tri (earned c a r t) K (mutate x) anyResult"
  shows "tri (earned c a r t) K (upsert (tlogged c) get' emb obj x mutate) anyResult"
  unfolding upsert_def upsertWithCreate_def Let_def option.case onA_okA
  by (intro tri_readA [where r = get, THEN tri_onA] get tri_onA [OF mut] tri_rules K stays_conj stays_simps)
    (auto intro: earned_other)

lemma ensureTenantConfig_earned:
  assumes "stays K"
  shows "tri (earned c a r t) K (ensureTenantConfig (tlogged c) a r x)
      (\<lambda>p l. fst p \<longrightarrow> configReady c a (tenantNamespaceName r x) l)"
proof -
  have copy: "tri (earned c a r t) K (copyLegacyTenantConfig (tlogged c) config) anyResult" if "stays K" for K config
    unfolding copyLegacyTenantConfig_def by (intro tri_rules) (use that in auto)
  have "tri (earned c a r t) K (mutateConfig (tlogged c) x tns y) anyResult" if "stays K" for K tns y
    unfolding mutateConfig_def by (intro tri_rules copy that)
  then have up: "tri (earned c a r t) K (upsert (tlogged c) (tc_config (tlogged c) u v) KConfig obj x (mutateConfig (tlogged c) x tns)) anyResult"
    if "stays K" for K tns u v obj
    by (intro upsert_earned [where get = "tc_config c u v"] that) (simp_all add: tlogged_def)
  have mark: "tri (earned c a r t) K (markLegacyTenantDeprecated (tlogged c) a x tns) anyResult" if "stays K" for K tns
    unfolding markLegacyTenantDeprecated_def Let_def by (intro tri_rules) (use that in \<open>auto intro: earned_other\<close>)
  have clean: "tri (earned c a r t) K (cleanupMigratedLegacyTenant (tlogged c) x tns) anyResult" if "stays K" for K tns
    unfolding cleanupMigratedLegacyTenant_def Let_def by (intro tri_rules) (use that in \<open>auto intro: earned_other\<close>)
  show ?thesis
    unfolding ensureTenantConfig_def Let_def
    by (intro tri_onP [OF up] tri_onP [OF mark] tri_onP [OF clean] tri_rules)
      (use assms in \<open>auto simp: configReady_def saw_def split: option.splits\<close>)
qed

lemma ensureRBAC_earned:
  "stays K \<Longrightarrow> tri (earned c a r t) K (ensureTenantAdminRBAC (tlogged c) r x) anyResult"
  unfolding ensureTenantAdminRBAC_def ensureTenantNamespaceRole_def ensureAITenantObjectRole_def Let_def
  by (intro tri_onP [where P = "\<lambda>u. True"] upsert_earned tri_okA tri_errA) (auto simp: tlogged_def)

lemma ensureInfra_earned:
  "stays K \<Longrightarrow> tri (earned c a r t) K (ensureInfraNamespaceGatewayLabels (tlogged c) r gw) anyResult"
  unfolding ensureInfraNamespaceGatewayLabels_def Let_def by (intro tri_rules) (auto intro: earned_other)

text \<open>The tenant as a reconcile carries it along: the same name and gateway.\<close>

definition sameTenantRef :: "AITenantReconciler \<Rightarrow> AITenant \<Rightarrow> AITenant \<Rightarrow> bool" where
  "sameTenantRef r x t \<longleftrightarrow> sameId x t \<and> tenantGatewayRefFor r x = tenantGatewayRefFor r t"

lemma ref_updates [simp]:
  "tenantGatewayRefFor r (setAITenantPhase a x p q m) = tenantGatewayRefFor r x"
  "tenantGatewayRefFor r (degradedBy a x m) = tenantGatewayRefFor r x"
  "tenantGatewayRefFor r (notDegraded a x) = tenantGatewayRefFor r x"
  "tenantGatewayRefFor r (x\<lparr>at_TenantNamespace := ns\<rparr>) = tenantGatewayRefFor r x"
  "tenantGatewayRefFor r (x\<lparr>at_GatewayRef := g\<rparr>) = tenantGatewayRefFor r x"
  by (simp_all add: tenantGatewayRefFor_def setAITenantPhase_def degradedBy_def notDegraded_def split: option.split)

lemma sameTenantRef_simps [simp]:
  "sameTenantRef r t t"
  "sameTenantRef r (setAITenantPhase a x p q m) t = sameTenantRef r x t"
  "sameTenantRef r (degradedBy a x m) t = sameTenantRef r x t" "sameTenantRef r (notDegraded a x) t = sameTenantRef r x t"
  "sameTenantRef r (x\<lparr>at_TenantNamespace := ns\<rparr>) t = sameTenantRef r x t"
  "sameTenantRef r (x\<lparr>at_GatewayRef := g\<rparr>) t = sameTenantRef r x t"
  by (simp_all add: sameTenantRef_def)

lemma sameTenantRefD:
  assumes "sameTenantRef r x t"
  shows "tenantNamespaceName r x = tenantNamespaceName r t" "tenantGatewayRefFor r x = tenantGatewayRefFor r t"
    "sameId x t" "newClaim r x ref = newClaim r t ref" "isClaimOwnedByAITenant cm x = isClaimOwnedByAITenant cm t"
proof -
  have same: "om_Name (at_meta x) = om_Name (at_meta t)" "om_Namespace (at_meta x) = om_Namespace (at_meta t)" "at_UID x = at_UID t"
    and id: "sameId x t" using assms by (auto simp: sameTenantRef_def sameId_def samePlace_def)
  then show "tenantNamespaceName r x = tenantNamespaceName r t" "newClaim r x ref = newClaim r t ref"
    by (simp_all add: tenantNamespaceName_def newClaim_def tenantAnnotations_def)
  show "isClaimOwnedByAITenant cm x = isClaimOwnedByAITenant cm t"
    using same by (cases "find or_Controller (om_Owners (cm_meta cm))"; simp add: isClaimOwnedByAITenant_def owned_same [OF id])
qed (use assms in \<open>simp_all add: sameTenantRef_def\<close>)

lemma gatewayClaimedI:
  "did ((=) (Create (KConfigMap ((newClaim r t ref)\<lparr>cm_meta := m\<rparr>)))) l \<Longrightarrow> gatewayClaimed c r t ref l"
  by (auto simp: gatewayClaimed_def did_def)

lemma stays_imp: "stays K \<Longrightarrow> stays (\<lambda>l. b \<longrightarrow> K l)"
  by (auto simp: stays_def)

lemma cleanupStale_earned:
  assumes "stays K"
  shows "tri (earned c a r t) K (cleanupStaleClaims (tlogged c) r x ref) anyResult"
proof -
  have del: "tri (earned c a r t) K (deleteClaims (tlogged c) x what cms) anyResult" if "stays K" for K what cms
    using that
  proof (induction cms arbitrary: K)
    case (Cons cm cms)
    then show ?case
      unfolding deleteClaims.simps by (intro tri_if tri_onP [OF tri_deleteA] tri_errA) (auto intro: earned_other)
  qed (auto intro: tri_okA)
  show ?thesis
    unfolding cleanupStaleClaims_def Let_def by (intro tri_rules del) (use assms in auto)
qed

lemma tri_keep: "tri good K m anyResult \<Longrightarrow> stays K \<Longrightarrow> (\<And>l. K l \<Longrightarrow> L l) \<Longrightarrow> tri good K m (\<lambda>x. L)"
  by (simp add: tri_def stays_def) metis

lemma ensureClaim_earned:
  assumes "stays K" "sameTenantRef r x t"
  shows "tri (earned c a r t) K (ensureGatewayClaim (tlogged c) a r x ref) (\<lambda>u. gatewayClaimed c r t ref)"
proof -
  note same = sameTenantRefD [OF assms(2)]
  have renew: "tri (earned c a r t) K (renewClaim (tlogged c) a r x ref claim) (\<lambda>u. gatewayClaimed c r t ref)"
    if "stays K" "\<And>l. K l \<Longrightarrow> saw (tc_configMap c (aitenantNamespace r) (gatewayClaimName ref)) ((=) claim) l" for K claim
  proof -
    have claimed: "gatewayClaimed c r t ref l"
      if "K l" "isClaimOwnedByAITenant claim x" "annotation (cm_Data claim) ''gatewayNamespace'' = gr_Namespace ref"
        "annotation (cm_Data claim) ''gatewayName'' = gr_Name ref" for l
      using \<open>\<And>l. K l \<Longrightarrow> _\<close> [OF that(1)] that(2-4) same(5) by (auto simp: gatewayClaimed_def saw_def)
    show ?thesis
      unfolding renewClaim_def Let_def
      by (intro tri_if tri_sum tri_errors tri_onP [where P = "\<lambda>u. True"] tri_keep [OF cleanupStale_earned]
          tri_onP [OF tri_any [OF tri_writeA]] tri_okA tri_errA)
        (use that claimed in \<open>auto intro: earned_other\<close>)
  qed
  show ?thesis
    unfolding ensureGatewayClaim_def Let_def
    by (intro tri_rules renew tri_keep [OF cleanupStale_earned])
      (use assms same in \<open>auto intro: earned_other gatewayClaimedI\<close>)
qed

lemma validateGateway_earned:
  "tri (earned c a r t) K (validateTenantGateway (tlogged c) ref) (\<lambda>gw. gatewaySeen c ref)"
  unfolding validateTenantGateway_def Let_def tri_def gatewaySeen_def saw_def
  by (auto simp: failA_def wrapA_def errA_def okA_def onA_def readAt_def othersL_def writeL_def tlogged_def Let_def split: sum.split)

lemma status_earned:
  assumes "stays K" "\<And>l. K l \<Longrightarrow> at_Phase x = ''Active'' \<Longrightarrow> at_Phase t = ''Active'' \<or> activation c a r t l"
  shows "tri (earned c a r t) K (updateAITenantStatus (tlogged c) x snap) anyResult"
  unfolding updateAITenantStatus_def
  by (intro tri_if tri_okA tri_onP [OF tri_any [OF tri_writeA]] tri_errors) (use assms in \<open>auto simp: earned_def\<close>)

lemma settle_earned:
  assumes "stays K" "\<And>l. K l \<Longrightarrow> p = ''Active'' \<Longrightarrow> activation c a r t l"
  shows "tri (earned c a r t) K (settleA (tlogged c) a x snap p q m n) anyResult"
  unfolding settleA_def by (intro tri_onP [OF status_earned] tri_okA tri_errA) (use assms in auto)

lemma resources_earned:
  assumes "stays K" "sameTenantRef r x t"
  shows "tri (earned c a r t) K (ensureTenantResources (tlogged c) a r x snap)
      (\<lambda>res l. res = Inr True \<longrightarrow> configReady c a (tenantNamespaceName r t) l)"
  unfolding ensureTenantResources_def Let_def
  by (intro tri_onP [OF ensureTenantNamespace_earned] tri_onA [OF ensureTenantConfig_earned]
      tri_onP [OF settle_earned] tri_if tri_prod tri_okA tri_errA)
    (use assms sameTenantRefD(1) [OF assms(2)] in \<open>auto intro!: stays_conj stays_imp\<close>)

lemma finish_earned:
  assumes "stays K" "\<And>l. K l \<Longrightarrow> ready \<Longrightarrow> activation c a r t l"
  shows "tri (earned c a r t) K (finishTenant (tlogged c) a r x snap ready) anyResult"
  unfolding finishTenant_def by (intro tri_onP [OF ensureRBAC_earned] settle_earned tri_if) (use assms in auto)

lemma gateway_earned:
  assumes "stays K" "sameTenantRef r x t"
    and "\<And>l. K l \<Longrightarrow> early = Some True \<Longrightarrow> configReady c a (tenantNamespaceName r t) l"
  shows "tri (earned c a r t) K (reconcileGateway (tlogged c) a r x snap early) anyResult"
proof -
  let ?ref = "tenantGatewayRefFor r t"
  have ref: "tenantGatewayRefFor r x = ?ref" using sameTenantRefD(2) [OF assms(2)] .
  have claimed: "tri (earned c a r t) K' (onA (ensureGatewayClaim (tlogged c) a r y ?ref)
      (\<lambda>e. settleA (tlogged c) a y snap ''Failed'' ''GatewayClaimFailed'' (ce_text e) 30)
      (\<lambda>_. case early of
         Some ready \<Rightarrow> finishTenant (tlogged c) a r y snap ready
       | None \<Rightarrow> thenA (ensureTenantResources (tlogged c) a r y snap)
           (\<lambda>res. case res of Inl n \<Rightarrow> okA n | Inr ready \<Rightarrow> finishTenant (tlogged c) a r y snap ready))) anyResult"
    if "stays K'" "sameTenantRef r y t" "\<And>l. K' l \<Longrightarrow> K l \<and> gatewaySeen c ?ref l" for K' y
    by (intro tri_onA [OF ensureClaim_earned] settle_earned tri_option tri_onA [OF resources_earned]
        tri_sum tri_okA tri_errA finish_earned)
      (use that assms(3) in \<open>auto simp: activation_def Let_def intro!: stays_imp stays_conj\<close>)
  show ?thesis
    unfolding reconcileGateway_def Let_def ref
    by (intro tri_onA [OF validateGateway_earned] tri_onP [OF ensureInfra_earned] claimed settle_earned tri_if tri_errA)
      (use assms in auto)
qed

lemma migrate_earned:
  assumes "stays K"
  shows "tri (earned c a r t) K (migrateLegacyTenantPlatformContext (tlogged c) r x tns)
      (\<lambda>p l. at_Phase (fst p) = at_Phase x \<and> (snd p = Ok False \<longrightarrow> sameTenantRef r (fst p) x))"
proof -
  have ph: "at_Phase (withLegacyGateway r (withLegacyOIDC x legacy) ref) = at_Phase x"
      "at_Phase (withLegacyOIDC x legacy) = at_Phase x" for legacy ref
    by (simp_all add: withLegacyGateway_def withLegacyOIDC_def)
  have same: "sameTenantRef r (withLegacyGateway r (withLegacyOIDC x legacy) ref) x"
    if "at_SpecGatewayName x = at_SpecGatewayName (withLegacyGateway r (withLegacyOIDC x legacy) ref)" for legacy ref
  proof -
    have "sameId (withLegacyGateway r (withLegacyOIDC x legacy) ref) x" by simp
    then show ?thesis
      using that by (simp add: sameTenantRef_def tenantGatewayRefFor_def sameId_def samePlace_def split: option.split)
  qed
  show ?thesis
    unfolding migrateLegacyTenantPlatformContext_def Let_def
    by (intro tri_rules) (use assms in \<open>auto simp: ph same intro: earned_other\<close>)
qed

lemma sameTenantRef_right [simp]: "sameTenantRef r x (t\<lparr>at_TenantNamespace := ns\<rparr>) = sameTenantRef r x t"
  by (simp add: sameTenantRef_def sameId_def)

lemma reconcileTenant_earned:
  assumes "stays K"
  shows "tri (earned c a r t) K (reconcileTenant (tlogged c) a r t) anyResult"
proof -
  let ?t1 = "t\<lparr>at_TenantNamespace := tenantNamespaceName r t\<rparr>"
  have go: "tri (earned c a r t) K
      (let t3 = x\<lparr>at_GatewayRef := tenantGatewayRefFor r x\<rparr>; snap = at_Status t3
       in thenA (updateAITenantStatus (tlogged c) t3 (at_Status t))
            (\<lambda>_. if om_Name (at_meta t3) = DefaultAITenantName then
                   thenA (ensureTenantResources (tlogged c) a r t3 snap)
                     (\<lambda>res. case res of Inl n \<Rightarrow> okA n | Inr ready \<Rightarrow> reconcileGateway (tlogged c) a r t3 snap (Some ready))
                 else reconcileGateway (tlogged c) a r t3 snap None)) anyResult"
    if "stays K" "at_Phase x = at_Phase t" "sameTenantRef r x t" for K x
    unfolding Let_def
    by (intro tri_onP [OF status_earned] tri_if tri_onA [OF resources_earned] tri_sum gateway_earned tri_okA tri_errA)
      (use that in \<open>auto intro!: stays_imp stays_conj\<close>)
  have fork: "tri (earned c a r t) (\<lambda>l. K l \<and> at_Phase (fst p) = at_Phase ?t1 \<and> (snd p = Ok False \<longrightarrow> sameTenantRef r (fst p) ?t1))
      (case p of (t2, migrated) \<Rightarrow> (case migrated of
         Inl e \<Rightarrow> settleA (tlogged c) a t2 (at_Status t) ''Failed'' ''LegacyTenantMigrationFailed'' (ce_text e) 0
       | Inr True \<Rightarrow> okA 1
       | Inr False \<Rightarrow>
           (let t3 = t2\<lparr>at_GatewayRef := tenantGatewayRefFor r t2\<rparr>; snap = at_Status t3
            in thenA (updateAITenantStatus (tlogged c) t3 (at_Status t))
                 (\<lambda>_. if om_Name (at_meta t3) = DefaultAITenantName then
                        thenA (ensureTenantResources (tlogged c) a r t3 snap)
                          (\<lambda>res. case res of Inl n \<Rightarrow> okA n | Inr ready \<Rightarrow> reconcileGateway (tlogged c) a r t3 snap (Some ready))
                      else reconcileGateway (tlogged c) a r t3 snap None)))) anyResult" for p
  proof (cases "at_Phase (fst p) = at_Phase t \<and> (snd p = Ok False \<longrightarrow> sameTenantRef r (fst p) t)")
    case True
    then show ?thesis
      by (intro tri_prod tri_sum tri_bool settle_earned tri_okA go) (use assms in auto)
  qed (auto simp: tri_def)
  show ?thesis
    unfolding reconcileTenant_def Let_def [of ?t1] Let_def [of "tenantNamespaceName r t"]
    by (intro tri_option settle_earned tri_onA [OF migrate_earned] tri_errA fork) (use assms in auto)
qed

definition earnedBy ::
  "'s tenantClient \<Rightarrow> tenantApi \<Rightarrow> AITenantReconciler \<Rightarrow> string \<times> string \<Rightarrow> ('s, twrite) tev list \<Rightarrow> twrite \<Rightarrow> bool" where
  "earnedBy c a r req pre w \<longleftrightarrow>
     (\<exists>s t. At s \<in> set pre \<and> tc_getCached c (fst req) (snd req) s = Ok t
        \<and> (if om_Deleting (at_meta t) then leavingOk (\<lambda>l. True) pre w else earned c a r t pre w))"

lemma earnedByI:
  "saw (tc_getCached c (fst req) (snd req)) ((=) t) l
    \<Longrightarrow> (if om_Deleting (at_meta t) then leavingOk (\<lambda>l. True) l w else earned c a r t l w) \<Longrightarrow> earnedBy c a r req l w"
  unfolding earnedBy_def saw_def by blast

lemma Reconcile_earned:
  assumes "keepsMeta a"
  shows "tri (earnedBy c a r req) (\<lambda>l. True) (AT_Reconcile (tlogged c) a r now req) anyResult"
proof (rule Reconcile_rule)
  fix t :: AITenant
  assume "om_Deleting (at_meta t)"
  then show "tri (earnedBy c a r req) (saw (tc_getCached c (fst req) (snd req)) ((=) t))
      (reconcileAITenantDelete (tlogged c) a r now t) anyResult"
    by (intro tri_good [OF leaving_delete [of _ r now t c a]]) (auto intro!: earnedByI elim: leavingOk_weaken)
next
  fix t :: AITenant
  assume "\<not> om_Deleting (at_meta t)"
  then show "tri (earnedBy c a r req) (saw (tc_getCached c (fst req) (snd req)) ((=) t))
      (reconcileTenant (tlogged c) a r t) anyResult"
    by (intro tri_good [OF reconcileTenant_earned]) (auto intro: earnedByI)
qed (auto intro!: earnedByI intro: earned_other)

text \<open>
  C12: A tenant becomes active only when it is. When a reconcile writes the phase \<open>Active\<close> to a tenant that
  did not have it, then earlier in the same run the gateway of the tenant existed, the claim of that
  gateway was created for the tenant or found to be the tenant's and to name that gateway, and the
  settings of the tenant reported ready for their current generation. To a tenant that is being deleted it
  never writes that phase, whatever phase it had.
\<close>

theorem active_only_when_ready:
  assumes "keepsMeta a"
    and "tenantRun c a r now req s = pre @ Wrote (StatusUpdate x) e # post" and "at_Phase x = ''Active''"
  shows "\<exists>s' t. At s' \<in> set pre \<and> tc_getCached c (fst req) (snd req) s' = Ok t
    \<and> \<not> om_Deleting (at_meta t) \<and> (at_Phase t = ''Active'' \<or> activation c a r t pre)"
  using tri_run [OF Reconcile_earned [OF assms(1)] TrueI assms(2) [unfolded tenantRun_def]] assms(3)
  by (auto simp: earnedBy_def earned_def split: if_splits)

text \<open>A tenant whose gateway exists and whose settings are ready.\<close>

definition readyConfig :: MaasTenantConfigObj where
  "readyConfig =
     \<lparr>mtc_meta = sampleMeta ''ai-tenant-b'' MaasTenantConfigInstanceName, mtc_APIKeys = None, mtc_Telemetry = None,
      mtc_Conditions = [\<lparr>c_Type = ''Ready'', c_Status = ''True'', c_Reason = [], c_Message = [], c_ObservedGeneration = 1\<rparr>]\<rparr>"

definition readyWorld :: tenantWorld where
  "readyWorld = (tenantStart (sampleTenant ''b''))
     \<lparr>tw_namespaces := [\<lparr>nsp_meta = sampleMeta [] ''ai-tenant-b'', nsp_Terminating = False\<rparr>],
      tw_gateways := [((''ingress'', ''gw''), \<lparr>gw_Name = ''gw'', gw_Namespace = ''ingress'', gw_UID = ''g'',
         gw_ListenerHostnames = [], gw_Listeners = [], gw_Addresses = []\<rparr>)],
      tw_configs := [readyConfig]\<rparr>"

text \<open>\<open>gives m v\<close>: in this cluster \<open>m\<close> returns \<open>v\<close>, whatever came before.\<close>

definition calm :: "(tenantWorld, twrite) tev list \<Rightarrow> bool" where
  "calm l \<longleftrightarrow> (\<forall>s. At s \<in> set l \<longrightarrow> s = readyWorld)"

lemma calm_simps [simp]: "calm []" "calm (At s # l) \<longleftrightarrow> s = readyWorld \<and> calm l" "calm (Wrote w e # l) = calm l"
  "calm (l @ l') \<longleftrightarrow> calm l \<and> calm l'"
  by (auto simp: calm_def)

definition gives :: "('e, (tenantWorld, twrite) tstate, 'a) act \<Rightarrow> ('e, 'a) result \<Rightarrow> bool" where
  "gives m v \<longleftrightarrow> (\<forall>l. \<exists>post. m (readyWorld, l) = (v, readyWorld, l @ post) \<and> calm post)"

lemma gives_on:
  assumes "gives m u" "case u of Inl e \<Rightarrow> gives (h e) v | Inr x \<Rightarrow> gives (f x) v"
  shows "gives (onA m h f) v"
  unfolding gives_def
proof
  fix l
  obtain post where 1: "m (readyWorld, l) = (u, readyWorld, l @ post)" "calm post"
    using assms(1) unfolding gives_def by blast
  have "gives (case u of Inl e \<Rightarrow> h e | Inr x \<Rightarrow> f x) v"
    using assms(2) by (cases u) auto
  then obtain post' where "(case u of Inl e \<Rightarrow> h e | Inr x \<Rightarrow> f x) (readyWorld, l @ post) = (v, readyWorld, (l @ post) @ post')" "calm post'"
    unfolding gives_def by blast
  with 1 show "\<exists>post. onA m h f (readyWorld, l) = (v, readyWorld, l @ post) \<and> calm post"
    by (cases u) (auto simp: onA_def intro!: exI [of _ "post @ post'"])
qed

lemmas gives_on_split = gives_on [where u = "Inr x" for x, simplified sum.case] gives_on [where u = "Inl e" for e, simplified sum.case]

lemma gives_simple: "gives (okA x) (Ok x)" "gives (errA e) (Err e)"
  "gives (ignoreNotFound x (ErrNotFound msg)) (Ok x)" "gives (writeA (tlogged tenantMem) w) (Ok ())"
  by (simp_all add: gives_def okA_def errA_def ignoreNotFound_def IsNotFound_def mem_calls)

lemma gives_read:
  "findAt nsp_meta (tw_namespaces readyWorld) [] n = v \<Longrightarrow> gives (readA (tlogged tenantMem) (tc_namespace (tlogged tenantMem) n)) v"
  "findAt mtc_meta (tw_configs readyWorld) ns n = v2 \<Longrightarrow> gives (readA (tlogged tenantMem) (tc_config (tlogged tenantMem) ns n)) v2"
  "gives (readA (tlogged tenantMem) (tc_tenant (tlogged tenantMem) ns n)) (Err (ErrNotFound (n @ '' not found'')))"
  "gives (readA (tlogged tenantMem) (tc_role (tlogged tenantMem) ns n)) (Err (ErrNotFound ''not found''))"
  "gives (readA (tlogged tenantMem) (tc_claims (tlogged tenantMem) ns ls)) (Ok [])"
  by (simp_all add: gives_def mem_calls readyWorld_def tenantStart_def absent)

lemma gives_if: "gives m v \<Longrightarrow> gives n v \<Longrightarrow> gives (if b then m else n) v"
  by simp

lemma ready_tenant:
  "om_Name (at_meta (sampleTenant ''b'')) = ''b''" "om_Namespace (at_meta (sampleTenant ''b'')) = ''ai-tenants''"
  "tenantNamespaceName sampleReconciler x = TenantNamespaceForAITenant (om_Name (at_meta x)) ''models-as-a-service''"
  "TenantNamespaceForAITenant ''b'' ''models-as-a-service'' = ''ai-tenant-b''"
  by (simp_all add: sampleTenant_def sampleMeta_def tenantNamespaceName_def sampleReconciler_def
      TenantNamespaceForAITenant_def DefaultAITenantName_def tenantNamespacePrefix_def)

lemma ready_world:
  "findAt nsp_meta (tw_namespaces readyWorld) [] ''ai-tenant-b'' = Ok \<lparr>nsp_meta = sampleMeta [] ''ai-tenant-b'', nsp_Terminating = False\<rparr>"
  "findAt nsp_meta (tw_namespaces readyWorld) [] ''infra'' = Err (ErrNotFound ''infra not found'')"
  "findAt mtc_meta (tw_configs readyWorld) ''ai-tenant-b'' MaasTenantConfigInstanceName = Ok readyConfig"
  by (simp_all add: readyWorld_def findAt_def isAt_def sampleMeta_def readyConfig_def)

lemma unowned_sample: "hasAITenantOwnerAnnotations (sampleMeta ns n) = False" "ownedByAITenant (sampleMeta ns n) t = False"
  by (simp_all add: hasAITenantOwnerAnnotations_def ownedByAITenant_def sampleMeta_def annotation_def)

lemma ready_namespace:
  assumes "om_Name (at_meta t) = ''b''"
  shows "gives (ensureTenantNamespace (tlogged tenantMem) sampleReconciler t) (Ok False)"
proof -
  have "gives (adoptNamespace (tlogged tenantMem) t ''ai-tenant-b'' \<lparr>nsp_meta = sampleMeta [] ''ai-tenant-b'', nsp_Terminating = False\<rparr>) (Ok False)"
    unfolding adoptNamespace_def Let_def
    by (simp add: unowned_sample) (intro conjI impI gives_on_split(1) [OF gives_simple(4)] gives_simple(1))
  then show ?thesis
    using assms by (simp add: ensureTenantNamespace_def Let_def ready_tenant)
      (rule gives_on_split(1) [OF gives_read(1) [OF ready_world(1)]])
qed

lemma ready_upsert_new:
  assumes "gives get (Err (ErrNotFound msg))" "gives (mutate obj) (Ok obj')" "get = readA (tlogged tenantMem) rd"
  shows "gives (upsert (tlogged tenantMem) rd emb obj t mutate) (Ok ())"
  using assms
  by (simp add: upsert_def upsertWithCreate_def Let_def onA_okA)
    (rule gives_on_split(2), assumption, simp add: isNotFoundError_def IsNotFound_def, rule gives_on_split(1), assumption,
      intro gives_on_split(1) [OF gives_simple(1)] gives_on_split(1) [OF gives_simple(4)] gives_simple(1))

lemma ready_roles: "gives (ensureTenantAdminRBAC (tlogged tenantMem) sampleReconciler t) (Ok ())"
  unfolding ensureTenantAdminRBAC_def ensureTenantNamespaceRole_def ensureAITenantObjectRole_def Let_def
  by (rule gives_on_split(1)) (rule ready_upsert_new [OF gives_read(4) gives_simple(1) refl])+

lemma ready_config:
  assumes "om_Name (at_meta t) = ''b''"
  shows "gives (ensureTenantConfig (tlogged tenantMem) tenantPlain sampleReconciler t) (Ok (True, False))"
proof -
  let ?c = "tlogged tenantMem"
  have copy: "gives (copyLegacyTenantConfig ?c config) (Ok config)" for config
    unfolding copyLegacyTenantConfig_def by (rule gives_on_split(2) [OF gives_read(3)]) (rule gives_simple(3))
  have mutate: "gives (mutateConfig ?c t ''ai-tenant-b'' readyConfig)
      (Ok (readyConfig\<lparr>mtc_meta := applyAITenantMetadata t ''ai-tenant-b'' (mtc_meta readyConfig)\<rparr>))"
    unfolding mutateConfig_def by (simp add: readyConfig_def sampleMeta_def copy)
  have "gives (upsert ?c (tc_config ?c ''ai-tenant-b'' MaasTenantConfigInstanceName) KConfig obj t (mutateConfig ?c t ''ai-tenant-b'')) (Ok ())" for obj
    unfolding upsert_def upsertWithCreate_def Let_def
    by (rule gives_on_split(1) [OF gives_read(2) [OF ready_world(3)]])
      (simp add: readyConfig_def unowned_sample, intro gives_on_split(1) [OF mutate [unfolded readyConfig_def]] gives_if gives_on_split(1) [OF gives_simple(4)] gives_simple(1))
  moreover have "gives (markLegacyTenantDeprecated ?c tenantPlain t ''ai-tenant-b'') (Ok ())"
    unfolding markLegacyTenantDeprecated_def by (rule gives_on_split(2) [OF gives_read(3)]) (rule gives_simple(3))
  moreover have "gives (cleanupMigratedLegacyTenant ?c t ''ai-tenant-b'') (Ok ())"
    unfolding cleanupMigratedLegacyTenant_def
    by (rule gives_on_split(1) [OF gives_read(2) [OF ready_world(3)]])
      (simp add: isExpectedAITenantManagedConfig_def readyConfig_def unowned_sample gives_simple)
  ultimately show ?thesis
    using assms
    by (simp add: ensureTenantConfig_def Let_def ready_tenant)
      (rule gives_on_split(1), assumption, rule gives_on_split(1), assumption, rule gives_on_split(1), assumption,
       rule gives_on_split(1) [OF gives_read(2) [OF ready_world(3)]],
       simp add: gives_def okA_def, simp add: readyConfig_def sampleMeta_def)
qed

lemma ready_claim:
  "gives (ensureGatewayClaim (tlogged tenantMem) tenantPlain sampleReconciler t sharedRef) (Ok ())"
proof -
  have "gives (cleanupStaleClaims (tlogged tenantMem) sampleReconciler t sharedRef) (Ok ())"
    unfolding cleanupStaleClaims_def Let_def by (rule gives_on_split(1) [OF gives_read(5)]) (simp add: gives_simple)
  then show ?thesis
    by (simp add: ensureGatewayClaim_def Let_def) (rule gives_on_split(1) [OF gives_simple(4)])
qed

lemma ready_labels:
  "gw_Listeners gw = [] \<Longrightarrow> gives (ensureInfraNamespaceGatewayLabels (tlogged tenantMem) sampleReconciler gw) (Ok ())"
  by (simp add: ensureInfraNamespaceGatewayLabels_def gatewayDesiredLabels_def reconciler_simps Let_def)
    (rule gives_on_split(2) [OF gives_read(1) [OF ready_world(2)]], simp add: isNotFoundError_def IsNotFound_def gives_simple)

text \<open>\<open>writes m w\<close>: in this cluster \<open>m\<close> writes \<open>w\<close> last and returns.\<close>

definition writesLast :: "('e, (tenantWorld, twrite) tstate, 'a) act \<Rightarrow> twrite \<Rightarrow> bool" where
  "writesLast m w \<longleftrightarrow>
     (\<forall>l. \<exists>pre v. m (readyWorld, l) = (v, readyWorld, l @ pre @ [Wrote w None]) \<and> calm pre)"

lemma writesLast_on:
  assumes "gives m (Ok x)" "writesLast (f x) w"
  shows "writesLast (onA m h f) w"
  unfolding writesLast_def
proof
  fix l
  obtain post where 1: "m (readyWorld, l) = (Ok x, readyWorld, l @ post)" "calm post"
    using assms(1) unfolding gives_def by blast
  obtain pre v where "f x (readyWorld, l @ post) = (v, readyWorld, (l @ post) @ pre @ [Wrote w None])" "calm pre"
    using assms(2) unfolding writesLast_def by blast
  with 1 show "\<exists>pre v. onA m h f (readyWorld, l) = (v, readyWorld, l @ pre @ [Wrote w None]) \<and> calm pre"
    by (intro exI [of _ "post @ pre"] exI [of _ v]) (simp add: onA_def)
qed

lemma writesLast_settle:
  "snap \<noteq> at_Status (setAITenantPhase a x p q m)
    \<Longrightarrow> writesLast (settleA (tlogged tenantMem) a x snap p q m n) (StatusUpdate (setAITenantPhase a x p q m))"
  by (simp add: writesLast_def settleA_def updateAITenantStatus_def onA_def mem_calls okA_def)

lemma gives_status: "gives (updateAITenantStatus (tlogged tenantMem) x snap) (Ok ())"
  unfolding updateAITenantStatus_def by (intro gives_if gives_on_split(1) [OF gives_simple(4)] gives_simple(1))

lemma ready_resources:
  assumes "om_Name (at_meta t) = ''b''"
  shows "gives (ensureTenantResources (tlogged tenantMem) tenantPlain sampleReconciler t snap) (Ok (Inr True))"
  unfolding ensureTenantResources_def Let_def
  by (rule gives_on_split(1) [OF ready_namespace [OF assms]])
    (simp, rule gives_on_split(1) [OF ready_config [OF assms]], simp add: gives_simple)

text \<open>The tenant as the last write has it.\<close>

definition becomingTenant :: AITenant where
  "becomingTenant = (sampleTenant ''b'')\<lparr>at_TenantNamespace := ''ai-tenant-b'', at_GatewayRef := sharedRef\<rparr>"

definition activeTenant :: AITenant where
  "activeTenant = setAITenantPhase tenantPlain (notDegraded tenantPlain becomingTenant) ''Active'' ''Reconciled''
     ''AITenant bootstrap resources are reconciled''"

lemma becoming_simps:
  "om_Name (at_meta becomingTenant) = ''b''" "tenantGatewayRefFor sampleReconciler becomingTenant = sharedRef"
  "at_Phase becomingTenant = []"
  "om_Name (at_meta (notDegraded a becomingTenant)) = ''b''"
  by (simp_all add: becomingTenant_def sampleTenant_def sampleMeta_def tenantGatewayRefFor_def sampleReconciler_def notDegraded_def)

lemma ready_gateway:
  "writesLast (reconcileGateway (tlogged tenantMem) tenantPlain sampleReconciler becomingTenant
     (at_Status becomingTenant) None) (StatusUpdate activeTenant)"
proof -
  let ?c = "tlogged tenantMem"
  have gw: "gives (validateTenantGateway ?c sharedRef) (Ok (snd (hd (tw_gateways readyWorld))))"
    by (simp add: validateTenantGateway_def Let_def gives_def readyWorld_def onA_def readAt_def othersL_def writeL_def tlogged_def tenantMem_def okA_def)
  have labels: "gives (ensureInfraNamespaceGatewayLabels ?c sampleReconciler (snd (hd (tw_gateways readyWorld)))) (Ok ())"
    by (rule ready_labels) (simp add: readyWorld_def)
  have "writesLast (finishTenant ?c tenantPlain sampleReconciler (notDegraded tenantPlain becomingTenant) (at_Status becomingTenant) True)
      (StatusUpdate activeTenant)"
    unfolding finishTenant_def activeTenant_def
    by (rule writesLast_on [OF ready_roles]) (simp, rule writesLast_settle, simp add: at_Status_def becoming_simps)
  then show ?thesis
    unfolding reconcileGateway_def Let_def becoming_simps
    by (intro writesLast_on [OF gw] writesLast_on [OF labels] writesLast_on [OF ready_claim])
      (simp, rule writesLast_on [OF ready_resources], simp_all add: becoming_simps)
qed

lemma ready_run:
  "\<exists>pre. tenantRun tenantMem tenantPlain sampleReconciler 0 (''ai-tenants'', ''b'') readyWorld
     = pre @ [Wrote (StatusUpdate activeTenant) None] \<and> calm pre"
proof -
  let ?c = "tlogged tenantMem"
  have place: "validateAITenantPlacement tenantPlain sampleReconciler (sampleTenant ''b'') = None"
    by (simp add: validateAITenantPlacement_def Let_def ready_tenant) (simp add: sampleReconciler_def aitenantNamespace_def)
  have migrate: "gives (migrateLegacyTenantPlatformContext ?c sampleReconciler x ''ai-tenant-b'') (Ok (x, Ok False))" for x
    unfolding migrateLegacyTenantPlatformContext_def
    by (rule gives_on_split(2) [OF gives_read(3)]) (simp add: gives_simple IsNotFound_def)
  have ref: "tenantGatewayRefFor sampleReconciler (sampleTenant ''b'') = sharedRef"
    by (simp add: tenantGatewayRefFor_def sampleTenant_def sampleReconciler_def)
  have "writesLast (reconcileTenant ?c tenantPlain sampleReconciler (sampleTenant ''b'')) (StatusUpdate activeTenant)"
    by (simp add: reconcileTenant_def place Let_def ready_tenant, rule writesLast_on [OF migrate])
      (simp add: ref ready_tenant DefaultAITenantName_def,
       rule writesLast_on [OF gives_status], rule ready_gateway [unfolded becomingTenant_def])
  moreover have "findAt at_meta (tw_tenants readyWorld) ''ai-tenants'' ''b'' = Ok (sampleTenant ''b'')"
    by (simp add: readyWorld_def tenantStart_def findAt_def isAt_def ready_tenant)
  moreover have "\<not> om_Deleting (at_meta (sampleTenant ''b''))" "ContainsFinalizer (at_meta (sampleTenant ''b'')) aitenantFinalizer"
    by (simp_all add: sampleTenant_def sampleMeta_def ContainsFinalizer_def)
  moreover obtain pre v where "reconcileTenant ?c tenantPlain sampleReconciler (sampleTenant ''b'') (readyWorld, [At readyWorld])
      = (v, readyWorld, [At readyWorld] @ pre @ [Wrote (StatusUpdate activeTenant) None])" "calm pre"
    using calculation(1) unfolding writesLast_def by blast
  ultimately show ?thesis
    by (intro exI [of _ "At readyWorld # pre"]) (simp add: tenantRun_def AT_Reconcile_def onA_def mem_calls)
qed

theorem active_only_when_ready_witness:
  "at_Phase activeTenant = ''Active'' \<and> at_Phase (sampleTenant ''b'') = []
    \<and> (\<exists>pre. tenantRun tenantMem tenantPlain sampleReconciler 0 (''ai-tenants'', ''b'') readyWorld
               = pre @ [Wrote (StatusUpdate activeTenant) None]
             \<and> activation tenantMem tenantPlain sampleReconciler (sampleTenant ''b'') pre)"
proof -
  have phase: "at_Phase activeTenant = ''Active''" "at_Phase (sampleTenant ''b'') = []"
      "\<not> om_Deleting (at_meta (sampleTenant ''b''))"
    by (simp_all add: activeTenant_def sampleTenant_def sampleMeta_def)
  obtain pre where run: "tenantRun tenantMem tenantPlain sampleReconciler 0 (''ai-tenants'', ''b'') readyWorld
      = pre @ [Wrote (StatusUpdate activeTenant) None]" "calm pre"
    using ready_run by blast
  obtain s t where t: "At s \<in> set pre" "tc_getCached tenantMem ''ai-tenants'' ''b'' s = Ok t"
      "at_Phase t = ''Active'' \<or> activation tenantMem tenantPlain sampleReconciler t pre"
    using active_only_when_ready [OF tenantPlain_keepsMeta run(1) phase(1)] by auto
  moreover from t(1) run(2) have "s = readyWorld" by (simp add: calm_def)
  with t(2) have "t = sampleTenant ''b''"
    by (simp add: tenantMem_def readyWorld_def tenantStart_def findAt_def isAt_def ready_tenant)
  ultimately show ?thesis using phase run(1) by auto
qed

section \<open>Names and metadata\<close>

lemma length_boundedName:
  assumes "length pre + length sfx + 17 \<le> m"
  shows "length (aitenantBoundedName pre n sfx (int m)) \<le> m"
proof -
  let ?hash = "take 8 (sha256Hex n)"
  let ?budget = "int m - int (length pre) - int (length sfx) - int (length ?hash) - 1"
  have hash: "length ?hash \<le> 8" by simp
  have "length (Trim (take (nat ?budget) n) ''-.'') \<le> nat ?budget"
    using length_Trim [of "take (nat ?budget) n" "''-.''"] by simp
  with assms hash show ?thesis
    by (auto simp: aitenantBoundedName_def Let_def)
qed

text \<open>
  Names fit. Whatever the name of a tenant, the names of its roles fit a DNS label, the name of its
  revocation Job leaves room for the suffix of a pod, and the name of a claim is at most 46 bytes.
\<close>

theorem tenant_names_fit:
  "length (tenantAdminRoleName t) \<le> 63 \<and> length (aitenantAccessRoleName t) \<le> 63
    \<and> length (aitenantAPIKeyRevocationJobName n) \<le> 57 \<and> length (gatewayClaimName ref) \<le> 46"
proof (intro conjI)
  show "length (tenantAdminRoleName t) \<le> 63" "length (aitenantAccessRoleName t) \<le> 63"
    using length_boundedName [of "''aitenant-''" "''-tenant-admin''" 63 "om_Name (at_meta t)"]
      length_boundedName [of "''aitenant-''" "''-object-admin''" 63 "om_Name (at_meta t)"]
    by (simp_all add: tenantAdminRoleName_def aitenantAccessRoleName_def aitenantChildName_def
        aitenantTenantAdminRoleSuffix_def aitenantAccessRoleSuffix_def)
  show "length (aitenantAPIKeyRevocationJobName n) \<le> 57"
    using length_boundedName [of "''maas-api-revoke-keys-''" "[]" 57 n]
    by (simp add: aitenantAPIKeyRevocationJobName_def)
qed (simp add: gatewayClaimName_def)

lemma remove_added:
  "distinct (map fst (m @ kvs)) \<Longrightarrow> foldl (\<lambda>ls (k, v). removeMapValueIfEqual ls k v) (m @ kvs) kvs = m"
proof (induction kvs)
  case (Cons kv kvs)
  obtain k v where kv: "kv = (k, v)" by (cases kv)
  have absent: "map_of m k = None" "AList.delete k m = m" "AList.delete k kvs = kvs"
    using Cons.prems kv by (auto simp: map_of_eq_None_iff delete_id)
  then have "removeMapValueIfEqual (m @ kv # kvs) k v = m @ kvs"
    by (simp add: removeMapValueIfEqual_def annotation_def kv AList.delete_eq map_add_def)
  then show ?case using Cons kv by simp
qed simp

text \<open>
  Releasing a namespace undoes adopting it. A namespace that had none of the labels and annotations
  of a tenant is, after it was adopted by a tenant and released again, what it was.
\<close>

theorem release_undoes_adoption:
  assumes "distinct (map fst (om_Labels (nsp_meta ns) @ (generatedNamespaceLabel, ''true'') # tenantLabels t name))"
    and "distinct (map fst (om_Annotations (nsp_meta ns) @ (aitenantCreatedAnnotation, ''true'') # tenantAnnotations t))"
  shows "releasedNamespace t name (ns\<lparr>nsp_meta := applyAITenantMetadata t name (nsp_meta ns)\<rparr>) = ns"
proof -
  let ?m = "nsp_meta ns"
  have labels: "distinct (map fst (om_Labels ?m @ tenantLabels t name))" "map_of (om_Labels ?m) generatedNamespaceLabel = None"
    and anns: "distinct (map fst (om_Annotations ?m @ tenantAnnotations t))" "map_of (om_Annotations ?m) aitenantCreatedAnnotation = None"
    using assms by (auto simp: map_of_eq_None_iff)
  have "removeAITenantMetadata t name (applyAITenantMetadata t name ?m) = ?m"
    using foldl_update_fresh [OF labels(1)] foldl_update_fresh [OF anns(1)] remove_added [OF labels(1)]
      remove_added [OF anns(1)] anns(2)
    by (simp add: removeAITenantMetadata_def applyAITenantMetadata_def removeMapValueIfEqual_def annotation_def)
  then show ?thesis
    using labels(2) by (simp add: releasedNamespace_def Let_def removeMapValueIfEqual_def annotation_def)
qed

theorem release_undoes_adoption_witness:
  "releasedNamespace (sampleTenant ''b'') ''ai-tenant-b''
     (\<lparr>nsp_meta = applyAITenantMetadata (sampleTenant ''b'') ''ai-tenant-b''
         ((sampleMeta [] ''ai-tenant-b'')\<lparr>om_Labels := [(''team'', ''x'')]\<rparr>), nsp_Terminating = False\<rparr>)
   = \<lparr>nsp_meta = (sampleMeta [] ''ai-tenant-b'')\<lparr>om_Labels := [(''team'', ''x'')]\<rparr>, nsp_Terminating = False\<rparr>"
  using release_undoes_adoption [of "\<lparr>nsp_meta = (sampleMeta [] ''ai-tenant-b'')\<lparr>om_Labels := [(''team'', ''x'')]\<rparr>,
      nsp_Terminating = False\<rparr>" "sampleTenant ''b''" "''ai-tenant-b''"]
  by (simp add: tenantLabels_def tenantAnnotations_def aitenant_constants sampleMeta_def)

end
