(* ===== verification/Webhooks.thy ===== *)
theory Webhooks
  imports Tenancy
begin

text \<open>
  The admission webhooks (\<open>pkg/webhook\<close>): what each validator answers to the creation, the update and
  the deletion of an object. An answer is the error that rejects the request, or \<open>None\<close>; no validator
  issues warnings. An object of a request is \<open>Ok\<close> of the expected type or \<open>Err\<close> of the name of the
  type it has. \<open>SetupWebhookWithManager\<close> registers the validators and is not modelled.
\<close>

section \<open>Validators\<close>

text \<open>The client reads two more lists than the reconcilers do.\<close>

record 's webhookClient = "'s client" +
  listMaasTenantConfigsIn :: "string \<Rightarrow> ('s, ObjectMeta list) cread"
  listLegacyTenantsIn :: "string \<Rightarrow> ('s, tenantConfig list) cread"

text \<open>A validator is a pointer, and so is its client: both may be nil.\<close>

record 's AITenantValidator =
  av_Client :: "'s webhookClient option"
  av_AITenantNamespace :: string
  av_GatewayNamespace :: string

record 's MaaSModelRefValidator =
  mv_Client :: "'s webhookClient option"
  mv_AITenantNamespace :: string

record 's TenantNamespaceValidator =
  nv_Client :: "'s webhookClient option"

definition reject :: "string \<Rightarrow> ctl_error option" where
  "reject t = Some (CtlErr OtherErr t)"

subsection \<open>AITenants\<close>

definition webhookGatewayRefFor :: "'s AITenantValidator \<Rightarrow> AITenant \<Rightarrow> TenantGatewayRef" where
  "webhookGatewayRefFor v t =
     \<lparr>gr_Namespace = av_GatewayNamespace v,
      gr_Name =
        (case at_SpecGatewayName t of
           Some n \<Rightarrow> if n \<noteq> [] then n else om_Name (at_meta t)
         | None \<Rightarrow> om_Name (at_meta t))\<rparr>"

fun gatewayTaken :: "'s AITenantValidator \<Rightarrow> AITenant \<Rightarrow> AITenant list \<Rightarrow> ctl_error option" where
  "gatewayTaken v t [] = None"
| "gatewayTaken v t (x # xs) =
     (let target = webhookGatewayRefFor v t;
          existing = webhookGatewayRefFor v x
      in if om_Name (at_meta x) = om_Name (at_meta t)
            \<and> om_Namespace (at_meta x) = om_Namespace (at_meta t) then gatewayTaken v t xs
         else if gr_Namespace existing = gr_Namespace target \<and> gr_Name existing = gr_Name target then
           reject (''gateway '' @ gr_Namespace target @ ''/'' @ gr_Name target
             @ '' is already in use by AITenant '' @ om_Namespace (at_meta x) @ ''/'' @ om_Name (at_meta x)
             @ ''; each AITenant requires a dedicated Gateway for isolation; ''
             @ ''please create a new Gateway for this tenant or specify a different gateway name in spec.gateway.name'')
         else gatewayTaken v t xs)"

definition validateGatewayUniqueness ::
  "'s AITenantValidator \<Rightarrow> 's webhookClient \<Rightarrow> AITenant \<Rightarrow> AITenant option \<Rightarrow> 's \<Rightarrow> ctl_error option" where
  "validateGatewayUniqueness v c t old s =
     (case listAITenantsIn c (av_AITenantNamespace v) s of
        Inl e \<Rightarrow> Some (wrapApi ''failed to list AITenants'' e)
      | Inr items \<Rightarrow> gatewayTaken v t items)"

definition AITenantValidateCreate ::
  "'s AITenantValidator option \<Rightarrow> (string, AITenant) result \<Rightarrow> 's \<Rightarrow> ctl_error option" where
  "AITenantValidateCreate vp obj s =
     (case obj of
        Inl typ \<Rightarrow> reject (''expected AITenant object, got '' @ typ)
      | Inr t \<Rightarrow>
          (case vp of
             None \<Rightarrow> reject ''webhook validator not configured''
           | Some v \<Rightarrow>
               (case av_Client v of
                  None \<Rightarrow> reject ''webhook client not configured''
                | Some c \<Rightarrow>
                    if av_AITenantNamespace v = [] then
                      reject ''AITenant infrastructure namespace is not configured''
                    else if av_GatewayNamespace v = [] then reject ''gateway namespace is not configured''
                    else if om_Namespace (at_meta t) \<noteq> av_AITenantNamespace v then
                      reject (''AITenant '' @ om_Namespace (at_meta t) @ ''/'' @ om_Name (at_meta t)
                        @ '' must be created in the configured AITenant infrastructure namespace ''
                        @ Quote (av_AITenantNamespace v))
                    else validateGatewayUniqueness v c t None s)))"

definition AITenantValidateUpdate ::
  "'s AITenantValidator option \<Rightarrow> (string, AITenant) result \<Rightarrow> (string, AITenant) result \<Rightarrow> 's
     \<Rightarrow> ctl_error option" where
  "AITenantValidateUpdate vp oldObj newObj s =
     (case oldObj of
        Inl typ \<Rightarrow> reject (''expected AITenant object for old, got '' @ typ)
      | Inr oldT \<Rightarrow>
          (case newObj of
             Inl typ \<Rightarrow> reject (''expected AITenant object for new, got '' @ typ)
           | Inr newT \<Rightarrow>
               (case vp of
                  None \<Rightarrow> reject ''webhook validator not configured''
                | Some v \<Rightarrow>
                    (case av_Client v of
                       None \<Rightarrow> reject ''webhook client not configured''
                     | Some c \<Rightarrow>
                         if av_AITenantNamespace v = [] then
                           reject ''AITenant infrastructure namespace is not configured''
                         else if av_GatewayNamespace v = [] then
                           reject ''gateway namespace is not configured''
                         else validateGatewayUniqueness v c newT (Some oldT) s))))"

definition AITenantValidateDelete ::
  "'s AITenantValidator option \<Rightarrow> (string, AITenant) result \<Rightarrow> 's \<Rightarrow> ctl_error option" where
  "AITenantValidateDelete vp obj s = None"

subsection \<open>Models\<close>

definition validateTenantRef :: "'s MaaSModelRefValidator option \<Rightarrow> MaaSModelRef \<Rightarrow> 's \<Rightarrow> ctl_error option" where
  "validateTenantRef vp m s =
     (let ref = mr_TenantRef (mm_Spec m)
      in if ref = [] then None
         else
           (case vp of
              None \<Rightarrow> reject ''webhook validator not configured''
            | Some v \<Rightarrow>
                (case mv_Client v of
                   None \<Rightarrow> reject ''webhook client not configured''
                 | Some c \<Rightarrow>
                     if mv_AITenantNamespace v = [] then
                       reject ''AITenant infrastructure namespace is not configured''
                     else
                       (case getAITenant c (mv_AITenantNamespace v) ref s of
                          Inl e \<Rightarrow>
                            if IsNotFound e then
                              reject (''spec.tenantRef '' @ Quote ref
                                @ '' references AITenant that does not exist in namespace ''
                                @ mv_AITenantNamespace v)
                            else Some (wrapApi ''failed to validate tenantRef'' e)
                        | Inr t \<Rightarrow> None))))"

definition ModelRefValidateCreate ::
  "'s MaaSModelRefValidator option \<Rightarrow> (string, MaaSModelRef) result \<Rightarrow> 's \<Rightarrow> ctl_error option" where
  "ModelRefValidateCreate vp obj s =
     (case obj of
        Inl typ \<Rightarrow> reject (''expected MaaSModelRef object, got '' @ typ)
      | Inr m \<Rightarrow> validateTenantRef vp m s)"

definition ModelRefValidateUpdate ::
  "'s MaaSModelRefValidator option \<Rightarrow> (string, MaaSModelRef) result \<Rightarrow> (string, MaaSModelRef) result \<Rightarrow> 's
     \<Rightarrow> ctl_error option" where
  "ModelRefValidateUpdate vp oldObj newObj s =
     (case newObj of
        Inl typ \<Rightarrow> reject (''expected MaaSModelRef object, got '' @ typ)
      | Inr m \<Rightarrow> validateTenantRef vp m s)"

definition ModelRefValidateDelete ::
  "'s MaaSModelRefValidator option \<Rightarrow> (string, MaaSModelRef) result \<Rightarrow> 's \<Rightarrow> ctl_error option" where
  "ModelRefValidateDelete vp obj s = None"

subsection \<open>Namespaces of subscriptions and policies\<close>

definition ValidateNamespace ::
  "'s TenantNamespaceValidator option \<Rightarrow> string \<Rightarrow> 's \<Rightarrow> bool \<times> string" where
  "ValidateNamespace vp ns s =
     (case vp of
        None \<Rightarrow> (False, ''namespace validator not configured'')
      | Some v \<Rightarrow>
          (case nv_Client v of
             None \<Rightarrow> (False, ''namespace validator not configured'')
           | Some c \<Rightarrow>
               (case listMaasTenantConfigsIn c ns s of
                  Inl e \<Rightarrow>
                    (False, ''failed to check for MaasTenantConfig CR in namespace '' @ Quote ns @ '': '' @ k8sText e)
                | Inr (x # xs) \<Rightarrow> (True, [])
                | Inr [] \<Rightarrow>
                    (case listLegacyTenantsIn c ns s of
                       Inl e \<Rightarrow>
                         (False, ''failed to check for legacy Tenant CR in namespace '' @ Quote ns @ '': '' @ k8sText e)
                     | Inr (x # xs) \<Rightarrow> (True, [])
                     | Inr [] \<Rightarrow>
                         (False, ''namespace '' @ Quote ns
                           @ '' is not enabled for MaaS tenant resources. ''
                           @ ''Create a MaasTenantConfig CR in this namespace to enable it.'')))))"

definition SubscriptionValidateCreate ::
  "'s TenantNamespaceValidator option \<Rightarrow> (string, MaaSSubscription) result \<Rightarrow> 's \<Rightarrow> ctl_error option" where
  "SubscriptionValidateCreate validator obj s =
     (case obj of
        Inl typ \<Rightarrow> reject (''expected MaaSSubscription object, got '' @ typ)
      | Inr sub \<Rightarrow>
          if validator = None then reject ''webhook validator not configured''
          else
            (case ValidateNamespace validator (om_Namespace (ms_meta sub)) s of
               (allowed, message) \<Rightarrow> if \<not> allowed then reject message else None))"

definition SubscriptionValidateUpdate ::
  "'s TenantNamespaceValidator option \<Rightarrow> (string, MaaSSubscription) result
     \<Rightarrow> (string, MaaSSubscription) result \<Rightarrow> 's \<Rightarrow> ctl_error option" where
  "SubscriptionValidateUpdate validator oldObj newObj s = None"

definition SubscriptionValidateDelete ::
  "'s TenantNamespaceValidator option \<Rightarrow> (string, MaaSSubscription) result \<Rightarrow> 's \<Rightarrow> ctl_error option" where
  "SubscriptionValidateDelete validator obj s = None"

definition AuthPolicyValidateCreate ::
  "'s TenantNamespaceValidator option \<Rightarrow> (string, MaaSAuthPolicy) result \<Rightarrow> 's \<Rightarrow> ctl_error option" where
  "AuthPolicyValidateCreate validator obj s =
     (case obj of
        Inl typ \<Rightarrow> reject (''expected MaaSAuthPolicy object, got '' @ typ)
      | Inr pol \<Rightarrow>
          if validator = None then reject ''webhook validator not configured''
          else
            (case ValidateNamespace validator (om_Namespace (ma_meta pol)) s of
               (allowed, message) \<Rightarrow> if \<not> allowed then reject message else None))"

definition AuthPolicyValidateUpdate ::
  "'s TenantNamespaceValidator option \<Rightarrow> (string, MaaSAuthPolicy) result
     \<Rightarrow> (string, MaaSAuthPolicy) result \<Rightarrow> 's \<Rightarrow> ctl_error option" where
  "AuthPolicyValidateUpdate validator oldObj newObj s = None"

definition AuthPolicyValidateDelete ::
  "'s TenantNamespaceValidator option \<Rightarrow> (string, MaaSAuthPolicy) result \<Rightarrow> 's \<Rightarrow> ctl_error option" where
  "AuthPolicyValidateDelete validator obj s = None"

section \<open>What an admitted tenant may assume\<close>

abbreviation sameTenant :: "AITenant \<Rightarrow> AITenant \<Rightarrow> bool" where
  "sameTenant x y \<equiv>
     om_Name (at_meta x) = om_Name (at_meta y) \<and> om_Namespace (at_meta x) = om_Namespace (at_meta y)"

lemma gatewayTaken_None_iff:
  "gatewayTaken v t xs = None \<longleftrightarrow>
     (\<forall>x \<in> set xs. webhookGatewayRefFor v x = webhookGatewayRefFor v t \<longrightarrow> sameTenant x t)"
  by (induction xs) (auto simp: Let_def reject_def webhookGatewayRefFor_def)

lemma validateGatewayUniqueness_None_iff:
  "validateGatewayUniqueness v c t old s = None \<longleftrightarrow>
     (\<exists>xs. listAITenantsIn c (av_AITenantNamespace v) s = Ok xs
       \<and> (\<forall>x \<in> set xs. webhookGatewayRefFor v x = webhookGatewayRefFor v t \<longrightarrow> sameTenant x t))"
  by (auto simp: validateGatewayUniqueness_def gatewayTaken_None_iff split: sum.splits)

lemma ValidateCreate_None_iff:
  "AITenantValidateCreate (Some v) (Ok t) s = None \<longleftrightarrow>
     (\<exists>c. av_Client v = Some c \<and> av_AITenantNamespace v \<noteq> [] \<and> av_GatewayNamespace v \<noteq> []
       \<and> om_Namespace (at_meta t) = av_AITenantNamespace v \<and> validateGatewayUniqueness v c t None s = None)"
  by (auto simp: AITenantValidateCreate_def reject_def split: option.splits)

lemma ValidateUpdate_None_iff:
  "AITenantValidateUpdate (Some v) (Ok old) (Ok t) s = None \<longleftrightarrow>
     (\<exists>c. av_Client v = Some c \<and> av_AITenantNamespace v \<noteq> [] \<and> av_GatewayNamespace v \<noteq> []
       \<and> validateGatewayUniqueness v c t (Some old) s = None)"
  by (auto simp: AITenantValidateUpdate_def reject_def split: option.splits)

lemmas admission_iff = ValidateCreate_None_iff ValidateUpdate_None_iff validateGatewayUniqueness_None_iff

text \<open>
  The AITenants of the API server, changed by one admitted request after the other. The server
  keeps name and namespace of an object, and refuses a second object of the same ones.
\<close>

inductive admitted :: "AITenant list AITenantValidator \<Rightarrow> AITenant list \<Rightarrow> AITenant list \<Rightarrow> bool"
  for v :: "AITenant list AITenantValidator" where
  create:
    "\<lbrakk>AITenantValidateCreate (Some v) (Ok t) ts = None; \<forall>x \<in> set ts. \<not> sameTenant x t\<rbrakk>
     \<Longrightarrow> admitted v ts (t # ts)"
| update:
    "\<lbrakk>AITenantValidateUpdate (Some v) (Ok x) (Ok t) ts = None; x \<in> set ts; sameTenant x t\<rbrakk>
     \<Longrightarrow> admitted v ts (map (\<lambda>y. if sameTenant y t then t else y) ts)"
| remove:
    "AITenantValidateDelete (Some v) (Ok x) ts = None
     \<Longrightarrow> admitted v ts (filter (\<lambda>y. \<not> sameTenant y x) ts)"

definition uniqueGateways :: "'s AITenantValidator \<Rightarrow> AITenant list \<Rightarrow> bool" where
  "uniqueGateways v ts \<longleftrightarrow>
     (\<forall>x \<in> set ts. \<forall>y \<in> set ts.
        om_Namespace (at_meta x) = av_AITenantNamespace v \<longrightarrow> om_Namespace (at_meta y) = av_AITenantNamespace v
        \<longrightarrow> webhookGatewayRefFor v x = webhookGatewayRefFor v y \<longrightarrow> sameTenant x y)"

text \<open>The reader of a validator shows the AITenants of one namespace, all of them.\<close>

definition readsAll :: "AITenant list AITenantValidator \<Rightarrow> bool" where
  "readsAll v \<longleftrightarrow>
     (\<forall>c ts. av_Client v = Some c \<longrightarrow>
        listAITenantsIn c (av_AITenantNamespace v) ts =
          Ok (filter (\<lambda>t. om_Namespace (at_meta t) = av_AITenantNamespace v) ts))"

lemma uniqueGatewaysD:
  "uniqueGateways v ts \<Longrightarrow> x \<in> set ts \<Longrightarrow> y \<in> set ts
    \<Longrightarrow> om_Namespace (at_meta x) = av_AITenantNamespace v \<Longrightarrow> om_Namespace (at_meta y) = av_AITenantNamespace v
    \<Longrightarrow> webhookGatewayRefFor v x = webhookGatewayRefFor v y \<Longrightarrow> sameTenant x y"
  unfolding uniqueGateways_def by blast

lemma validated_apart:
  assumes "validateGatewayUniqueness v c t old ts = None" "av_Client v = Some c" "readsAll v"
    and "y \<in> set ts" "om_Namespace (at_meta y) = av_AITenantNamespace v"
    and "webhookGatewayRefFor v y = webhookGatewayRefFor v t"
  shows "sameTenant y t"
proof -
  have "listAITenantsIn c (av_AITenantNamespace v) ts =
      Ok (filter (\<lambda>t. om_Namespace (at_meta t) = av_AITenantNamespace v) ts)"
    using assms(2,3) unfolding readsAll_def by blast
  with assms(1) have "\<forall>x \<in> set (filter (\<lambda>t. om_Namespace (at_meta t) = av_AITenantNamespace v) ts).
      webhookGatewayRefFor v x = webhookGatewayRefFor v t \<longrightarrow> sameTenant x t"
    unfolding validateGatewayUniqueness_None_iff by (elim exE conjE) (simp only: sum.inject)
  then show ?thesis using assms(4-6) by (simp only: set_filter mem_Collect_eq Ball_def)
qed

lemma admitted_keeps_unique:
  assumes "admitted v ts ts'" "readsAll v" "uniqueGateways v ts"
  shows "uniqueGateways v ts'"
  using assms(1)
proof cases
  case (create t)
  then obtain c where "validateGatewayUniqueness v c t None ts = None" "av_Client v = Some c"
    unfolding admission_iff(1) by blast
  note apart = validated_apart [OF this assms(2)] uniqueGatewaysD [OF assms(3)]
  show ?thesis
    unfolding uniqueGateways_def create(1)
  proof (intro ballI impI)
    fix p q
    assume "p \<in> set (t # ts)" "q \<in> set (t # ts)" "om_Namespace (at_meta p) = av_AITenantNamespace v"
      "om_Namespace (at_meta q) = av_AITenantNamespace v" "webhookGatewayRefFor v p = webhookGatewayRefFor v q"
    then show "sameTenant p q"
      using apart(1) [of p] apart(1) [of q] apart(2) [of p q]
      by (cases "p = t"; cases "q = t") simp_all
  qed
next
  case (update x t)
  then obtain c where "validateGatewayUniqueness v c t (Some x) ts = None" "av_Client v = Some c"
    unfolding admission_iff(2) by blast
  note apart = validated_apart [OF this assms(2)] uniqueGatewaysD [OF assms(3)]
  show ?thesis
    unfolding uniqueGateways_def update(1) set_map
  proof (intro ballI impI, elim imageE)
    fix p q y z
    assume "p = (if sameTenant y t then t else y)" "q = (if sameTenant z t then t else z)"
      "y \<in> set ts" "z \<in> set ts" "om_Namespace (at_meta p) = av_AITenantNamespace v"
      "om_Namespace (at_meta q) = av_AITenantNamespace v" "webhookGatewayRefFor v p = webhookGatewayRefFor v q"
    then show "sameTenant p q" using apart by (cases "sameTenant y t"; cases "sameTenant z t") metis+
  qed
next
  case (remove x)
  then show ?thesis using assms(3) unfolding uniqueGateways_def by (metis (no_types, lifting) mem_Collect_eq set_filter)
qed

text \<open>
  C11: One gateway per tenant. As long as requests are admitted one after the other, no two AITenants of
  the infrastructure namespace ever resolve to the same gateway.
\<close>

theorem admission_keeps_gateways_apart:
  assumes "(admitted v)\<^sup>*\<^sup>* [] ts" and "readsAll v"
    and "x \<in> set ts" "y \<in> set ts"
    and "om_Namespace (at_meta x) = av_AITenantNamespace v" "om_Namespace (at_meta y) = av_AITenantNamespace v"
    and "webhookGatewayRefFor v x = webhookGatewayRefFor v y"
  shows "om_Name (at_meta x) = om_Name (at_meta y)"
proof -
  have "uniqueGateways v ts"
    using assms(1)
  proof (induction rule: rtranclp_induct)
    case base
    show ?case by (simp add: uniqueGateways_def)
  next
    case (step ts' ts'')
    then show ?case using admitted_keeps_unique assms(2) by blast
  qed
  then show ?thesis using uniqueGatewaysD assms(3-7) by blast
qed

definition sampleAITenant :: "string \<Rightarrow> string option \<Rightarrow> AITenant" where
  "sampleAITenant n gw =
     \<lparr>at_meta = \<lparr>om_Name = n, om_Namespace = ''ai-tenants'', om_Labels = [], om_Annotations = [],
        om_Finalizers = [], om_Generation = 1, om_Deleting = False, om_Owners = []\<rparr>,
      at_UID = ''uid-'' @ n, at_DeletedAt = 0, at_SpecGatewayName = gw, at_OIDC = None, at_Phase = [],
      at_TenantNamespace = [], at_GatewayRef = noGatewayRef, at_Conditions = []\<rparr>"

definition sampleValidator :: "AITenant list webhookClient \<Rightarrow> AITenant list AITenantValidator" where
  "sampleValidator c =
     \<lparr>av_Client =
        Some (c\<lparr>listAITenantsIn := \<lambda>ns ts. Ok (filter (\<lambda>t. om_Namespace (at_meta t) = ns) ts)\<rparr>),
      av_AITenantNamespace = ''ai-tenants'', av_GatewayNamespace = ''ingress''\<rparr>"

lemma sampleValidator_readsAll: "readsAll (sampleValidator c)"
  by (simp add: readsAll_def sampleValidator_def)

lemmas admission_samples = admission_iff sampleValidator_def sampleAITenant_def webhookGatewayRefFor_def

theorem admission_keeps_gateways_apart_witness:
  "\<forall>c. (admitted (sampleValidator c))\<^sup>*\<^sup>* [] [sampleAITenant ''b'' (Some ''gw''), sampleAITenant ''a'' None]
     \<and> webhookGatewayRefFor (sampleValidator c) (sampleAITenant ''b'' (Some ''gw''))
         \<noteq> webhookGatewayRefFor (sampleValidator c) (sampleAITenant ''a'' None)"
proof (intro allI conjI)
  fix c :: "AITenant list webhookClient"
  let ?v = "sampleValidator c"
  let ?a = "sampleAITenant ''a'' None" let ?b = "sampleAITenant ''b'' (Some ''gw'')"
  have "admitted ?v [] [?a]" "admitted ?v [?a] [?b, ?a]"
    by (rule admitted.create; simp add: admission_samples)+
  then show reach: "(admitted ?v)\<^sup>*\<^sup>* [] [?b, ?a]" by auto
  show "webhookGatewayRefFor ?v ?b \<noteq> webhookGatewayRefFor ?v ?a"
    using admission_keeps_gateways_apart [OF reach sampleValidator_readsAll, of ?b ?a]
    by (auto simp: sampleValidator_def sampleAITenant_def)
qed

text \<open>
  C32: Tenants that already share a gateway are stuck. While another AITenant of the infrastructure
  namespace resolves to the same gateway, every update of a tenant, whatever it changes, is rejected as long as
  the new object still resolves to that gateway: so is the removal of its finalizer, and neither tenant can be
  deleted for good.
\<close>

theorem shared_gateway_blocks_updates:
  assumes "av_Client v = Some c" and "listAITenantsIn c (av_AITenantNamespace v) s = Ok ts"
    and "x \<in> set ts" "\<not> sameTenant x t" "webhookGatewayRefFor v x = webhookGatewayRefFor v t"
    and "sameTenant new t" "webhookGatewayRefFor v new = webhookGatewayRefFor v t"
  shows "AITenantValidateUpdate (Some v) (Ok t) (Ok new) s \<noteq> None"
  using assms by (auto simp: admission_iff)

theorem shared_gateway_blocks_updates_witness:
  "\<forall>c. let t = sampleAITenant ''a'' (Some ''gw'')
     in AITenantValidateUpdate (Some (sampleValidator c)) (Ok t)
          (Ok (t\<lparr>at_meta := (at_meta t)\<lparr>om_Finalizers := []\<rparr>\<rparr>)) [t, sampleAITenant ''gw'' None] \<noteq> None"
proof (intro allI)
  fix c :: "AITenant list webhookClient"
  let ?c = "c\<lparr>listAITenantsIn := \<lambda>ns ts. Ok (filter (\<lambda>t. om_Namespace (at_meta t) = ns) ts)\<rparr>"
  let ?t = "sampleAITenant ''a'' (Some ''gw'')" let ?x = "sampleAITenant ''gw'' None"
  show "let t = ?t in AITenantValidateUpdate (Some (sampleValidator c)) (Ok t)
          (Ok (t\<lparr>at_meta := (at_meta t)\<lparr>om_Finalizers := []\<rparr>\<rparr>)) [t, ?x] \<noteq> None"
    using shared_gateway_blocks_updates [of "sampleValidator c" ?c "[?t, ?x]" "[?t, ?x]" ?x ?t
      "?t\<lparr>at_meta := (at_meta ?t)\<lparr>om_Finalizers := []\<rparr>\<rparr>"]
    by (simp add: sampleValidator_def sampleAITenant_def webhookGatewayRefFor_def)
qed

end
