(* ===== verification/ExternalModels.thy ===== *)
theory ExternalModels
  imports Actions ModelBackends
begin

text \<open>
  \<open>maas-controller/pkg/reconciler/externalmodel\<close>: the objects that route requests to an external
  provider, and the reconciler that keeps them.

  A route is the one the other controllers read (\<open>HTTPRoute\<close>) with its rules. The client
  is a record of reads and one write; \<open>SetExternalReference\<close> is \<open>SetControllerReference\<close> of an
  ExternalModel on an object, and \<open>eqServiceSpec\<close> and its like are \<open>equality.Semantic.DeepEqual\<close>.
\<close>

section \<open>Objects\<close>

record ExternalModelObj = ExternalModel +
  xm_APIVersion :: string
  xm_Kind :: string
  xm_UID :: string
  xm_TargetModel :: string
  xm_Endpoint :: string
  xm_Phase :: string
  xm_Message :: string

record ServiceSpec =
  sp_Type :: string
  sp_ExternalName :: string
  sp_Ports :: "(int \<times> int) list"
  sp_Other :: jmap

text \<open>A port and its target port; \<open>sp_Other\<close> are the fields that only the API server sets.\<close>

record ServiceObj =
  sv_meta :: ObjectMeta
  sv_Spec :: ServiceSpec

text \<open>The type of a path and its value; name, type and value of a header.\<close>

record RouteMatch =
  rm_Path :: "(string \<times> string) option"
  rm_Headers :: "(string \<times> string \<times> string) list"

record RouteRule =
  rr_Matches :: "RouteMatch list"
  rr_BackendRefs :: "(string \<times> int option) list"
  rr_SetHeaders :: "(string \<times> string) list"
  rr_RequestTimeout :: "string option"

record RouteObj = HTTPRoute +
  hr_Rules :: "RouteRule list"

definition gvkDestinationRuleX :: gvk where
  "gvkDestinationRuleX = (''networking.istio.io'', ''v1'', ''DestinationRule'')"
definition gvkServiceEntry :: gvk where
  "gvkServiceEntry = (''networking.istio.io'', ''v1'', ''ServiceEntry'')"
definition gvkRoute :: gvk where
  "gvkRoute = (''gateway.networking.k8s.io'', ''v1'', ''HTTPRoute'')"

lemmas gvk_defs = gvkDestinationRuleX_def gvkServiceEntry_def gvkRoute_def

datatype xwrite =
    CreateService ServiceObj
  | UpdateService ServiceObj
  | DeleteService ServiceObj
  | CreateObject xobject
  | UpdateObject xobject
  | DeleteObject xobject
  | CreateRoute RouteObj
  | UpdateRoute RouteObj
  | UpdateModelStatus ExternalModelObj

record 's extClient =
  ec_model :: "string \<Rightarrow> string \<Rightarrow> ('s, ExternalModelObj) cread"
  ec_inference :: "string \<Rightarrow> string \<Rightarrow> ('s, uobj) cread"
  ec_service :: "string \<Rightarrow> string \<Rightarrow> ('s, ServiceObj) cread"
  ec_route :: "string \<Rightarrow> string \<Rightarrow> ('s, RouteObj) cread"
  ec_object :: "gvk \<Rightarrow> string \<Rightarrow> string \<Rightarrow> ('s, xobject) cread"
  ec_write :: "xwrite \<Rightarrow> 's cwrite"
  ec_others :: "'s \<Rightarrow> 's"

record extApi =
  ext_accessors :: k8sApi
  NestedStringE :: "jmap \<Rightarrow> string list \<Rightarrow> (string, string) result"
  SetExternalReference :: "ExternalModelObj \<Rightarrow> ObjectMeta \<Rightarrow> (string, ObjectMeta) result"
  eqServiceSpec :: "ServiceSpec \<Rightarrow> ServiceSpec \<Rightarrow> bool"
  eqOwners :: "OwnerReference list \<Rightarrow> OwnerReference list \<Rightarrow> bool"
  eqLabels :: "labels \<Rightarrow> labels \<Rightarrow> bool"

record ExternalReconciler =
  xr_GatewayName :: string
  xr_GatewayNamespace :: string

section \<open>Building the objects\<close>

definition annotationPort :: string where "annotationPort = ''maas.opendatahub.io/port''"
definition annotationTLS :: string where "annotationTLS = ''maas.opendatahub.io/tls''"

definition commonLabels :: "string \<Rightarrow> labels" where
  "commonLabels modelName =
     [(''app.kubernetes.io/managed-by'', ''maas-external-model-reconciler''),
      (''maas.opendatahub.io/external-model'', modelName)]"

text \<open>Whether TLS is on, and the port.\<close>

definition portOf :: "string option \<Rightarrow> (string, int) result" where
  "portOf ann =
     (case ann of
        None \<Rightarrow> Ok 443
      | Some portStr \<Rightarrow>
          (case ParseInt32 portStr of
             Inl e \<Rightarrow> Err (''invalid port '' @ Quote portStr @ '': '' @ e)
           | Inr p \<Rightarrow>
               if p < 1 \<or> p > 65535 then Err (''port '' @ itoa p @ '' out of range (1-65535)'')
               else Ok p))"

definition tlsOf :: "string option \<Rightarrow> (string, bool) result" where
  "tlsOf ann =
     (case ann of
        None \<Rightarrow> Ok True
      | Some tlsStr \<Rightarrow>
          (case ParseBool tlsStr of
             Inl e \<Rightarrow> Err (''invalid tls value '' @ Quote tlsStr @ '': '' @ e)
           | Inr parsed \<Rightarrow> Ok parsed))"

definition getTLSInfo :: "ExternalModelObj \<Rightarrow> (string, bool \<times> int) result" where
  "getTLSInfo extModel =
     (let annotations = om_Annotations (em_meta extModel)
      in case portOf (map_of annotations annotationPort) of
           Inl e \<Rightarrow> Err e
         | Inr port \<Rightarrow>
             (case tlsOf (map_of annotations annotationTLS) of
                Inl e \<Rightarrow> Err e
              | Inr tls \<Rightarrow> Ok (tls, port)))"

definition labelledMeta :: "string \<Rightarrow> string \<Rightarrow> labels \<Rightarrow> ObjectMeta" where
  "labelledMeta ns name ls = (freshMeta ns name)\<lparr>om_Labels := ls\<rparr>"

definition buildService :: "string \<Rightarrow> string \<Rightarrow> string \<Rightarrow> int \<Rightarrow> labels \<Rightarrow> ServiceObj" where
  "buildService endpoint name ns port ls =
     \<lparr>sv_meta = labelledMeta ns name ls,
      sv_Spec = \<lparr>sp_Type = ''ExternalName'', sp_ExternalName = endpoint, sp_Ports = [(port, port)],
                 sp_Other = []\<rparr>\<rparr>"

definition buildServiceEntry :: "string \<Rightarrow> string \<Rightarrow> string \<Rightarrow> int \<Rightarrow> bool \<Rightarrow> labels \<Rightarrow> xobject" where
  "buildServiceEntry endpoint name ns port tls ls =
     (let protocol = (if tls then ''HTTPS'' else ''HTTP'');
          portName = (if tls then ''https'' else ''http'')
      in \<lparr>u_meta = labelledMeta ns name ls,
          u_Object =
            [(''spec'', JObj
               [(''hosts'', JArr [JStr endpoint]), (''location'', JStr ''MESH_EXTERNAL''),
                (''resolution'', JStr ''DNS''),
                (''ports'', JArr [JObj [(''number'', JInt port), (''name'', JStr portName),
                                        (''protocol'', JStr protocol)]])])],
          xo_GVK = gvkServiceEntry, xo_ResourceVersion = []\<rparr>)"

definition buildDestinationRule :: "string \<Rightarrow> string \<Rightarrow> string \<Rightarrow> labels \<Rightarrow> xobject" where
  "buildDestinationRule endpoint name ns ls =
     \<lparr>u_meta = labelledMeta ns name ls,
      u_Object =
        [(''spec'', JObj
           [(''host'', JStr endpoint),
            (''trafficPolicy'', JObj [(''tls'', JObj [(''mode'', JStr ''SIMPLE'')])])])],
      xo_GVK = gvkDestinationRuleX, xo_ResourceVersion = []\<rparr>"

definition buildHTTPRoute ::
  "string \<Rightarrow> string \<Rightarrow> string \<Rightarrow> string \<Rightarrow> string \<Rightarrow> string \<Rightarrow> int \<Rightarrow> string \<Rightarrow> string \<Rightarrow> labels \<Rightarrow> RouteObj"
where
  "buildHTTPRoute endpoint routeName serviceName modelName targetModel ns port gatewayName gatewayNs ls =
     (let pathPrefix = ''/'' @ ns @ ''/'' @ modelName;
          rule = (\<lambda>m. \<lparr>rr_Matches = [m], rr_BackendRefs = [(serviceName, Some port)],
                        rr_SetHeaders = [(''Host'', endpoint)], rr_RequestTimeout = Some ''300s''\<rparr>)
      in \<lparr>hr_meta = labelledMeta ns routeName ls,
          hr_ParentRefs =
            [\<lparr>pr_Group = None, pr_Kind = None, pr_Namespace = Some gatewayNs, pr_Name = gatewayName\<rparr>],
          hr_Hostnames = [], hr_Parents = [],
          hr_Rules =
            [rule \<lparr>rm_Path = Some (''PathPrefix'', pathPrefix), rm_Headers = []\<rparr>,
             rule \<lparr>rm_Path = None, rm_Headers = [(''X-Gateway-Model-Name'', ''Exact'', targetModel)]\<rparr>]\<rparr>)"

section \<open>Writing them\<close>

definition readX :: "'s extClient \<Rightarrow> ('s, 'a) cread \<Rightarrow> (k8s_error, 's, 'a) act" where
  "readX c r = readAt (ec_others c) r"

definition writeX :: "'s extClient \<Rightarrow> xwrite \<Rightarrow> (k8s_error, 's, unit) act" where
  "writeX c w = writeAt (ec_others c) (ec_write c w)"

definition setUnstructuredOwner :: "ExternalModelObj \<Rightarrow> xobject \<Rightarrow> xobject" where
  "setUnstructuredOwner owner obj =
     obj\<lparr>u_meta := (u_meta obj)\<lparr>om_Owners :=
       [\<lparr>or_APIVersion = xm_APIVersion owner, or_Kind = xm_Kind owner, or_Name = om_Name (em_meta owner),
         or_UID = xm_UID owner, or_Controller = True\<rparr>]\<rparr>\<rparr>"

definition deleteIfExists ::
  "'s extClient \<Rightarrow> string \<Rightarrow> string \<Rightarrow> string \<Rightarrow> gvk \<Rightarrow> ('s, unit) tact" where
  "deleteIfExists c kind name ns k =
     (let what = kind @ '' '' @ ns @ ''/'' @ name
      in onA (readX c (ec_object c k ns name))
           (\<lambda>e. if IsNotFound e then okA () else wrapA (''failed to get '' @ what) e)
           (\<lambda>obj. if \<not> isManaged (u_meta obj) then okA ()
                  else onA (writeX c (DeleteObject obj))
                         (\<lambda>e. if IsNotFound e then okA () else wrapA (''failed to delete '' @ what) e)
                         okA))"

definition applyService :: "'s extClient \<Rightarrow> extApi \<Rightarrow> ServiceObj \<Rightarrow> (k8s_error, 's, unit) act" where
  "applyService c a desired =
     (let m = sv_meta desired
      in onA (readX c (ec_service c (om_Namespace m) (om_Name m)))
           (\<lambda>e. if IsNotFound e then writeX c (CreateService desired) else errA e)
           (\<lambda>existing.
              let ex = sv_meta existing
              in if \<not> isManaged ex then okA ()
                 else if \<not> eqServiceSpec a (sv_Spec existing) (sv_Spec desired)
                         \<or> \<not> eqOwners a (om_Owners ex) (om_Owners m) \<or> \<not> eqLabels a (om_Labels ex) (om_Labels m)
                 then writeX c (UpdateService
                        \<lparr>sv_meta = ex\<lparr>om_Labels := om_Labels m, om_Owners := om_Owners m\<rparr>,
                         sv_Spec = sv_Spec desired\<rparr>)
                 else okA ()))"

definition applyUnstructured :: "'s extClient \<Rightarrow> xobject \<Rightarrow> (k8s_error, 's, unit) act" where
  "applyUnstructured c desired =
     (let m = u_meta desired
      in onA (readX c (ec_object c (xo_GVK desired) (om_Namespace m) (om_Name m)))
           (\<lambda>e. if IsNotFound e then writeX c (CreateObject desired) else errA e)
           (\<lambda>existing.
              if \<not> isManaged (u_meta existing) then okA ()
              else writeX c (UpdateObject (desired\<lparr>xo_ResourceVersion := xo_ResourceVersion existing\<rparr>))))"

definition applyHTTPRoute :: "'s extClient \<Rightarrow> RouteObj \<Rightarrow> (k8s_error, 's, unit) act" where
  "applyHTTPRoute c desired =
     (let m = hr_meta desired
      in onA (readX c (ec_route c (om_Namespace m) (om_Name m)))
           (\<lambda>e. if IsNotFound e then writeX c (CreateRoute desired) else errA e)
           (\<lambda>existing.
              let ex = hr_meta existing
              in if \<not> isManaged ex then okA ()
                 else writeX c (UpdateRoute (existing\<lparr>
                        hr_ParentRefs := hr_ParentRefs desired, hr_Hostnames := hr_Hostnames desired,
                        hr_Rules := hr_Rules desired,
                        hr_meta := ex\<lparr>om_Labels := om_Labels m, om_Owners := om_Owners m\<rparr>\<rparr>))))"

section \<open>Reconciling\<close>

definition isSupersededByInference ::
  "'s extClient \<Rightarrow> extApi \<Rightarrow> string \<Rightarrow> string \<Rightarrow> ('s, bool) tact" where
  "isSupersededByInference c a ns name =
     onA (readX c (ec_inference c ns name))
       (\<lambda>e. if IsNotFound e \<or> IsNoMatchError e then okA False
            else wrapA (''failed to check inference ExternalModel '' @ ns @ ''/'' @ name) e)
       (\<lambda>obj. case NestedStringE a (u_Object obj) [''status'', ''httpRouteName''] of
                Inl e \<Rightarrow> failA (''failed to read status.httpRouteName on inference ExternalModel '' @ ns @ ''/''
                           @ name @ '': '' @ e)
              | Inr routeName \<Rightarrow> okA (routeName \<noteq> []))"

definition deleteLegacyService :: "'s extClient \<Rightarrow> string \<Rightarrow> string \<Rightarrow> ('s, unit) tact" where
  "deleteLegacyService c ns resourceName =
     onA (readX c (ec_service c ns resourceName))
       (\<lambda>e. if IsNotFound e then okA () else wrapA ''failed to get legacy Service'' e)
       (\<lambda>svc. if isManaged (sv_meta svc) then
                onA (writeX c (DeleteService svc))
                  (\<lambda>e. if IsNotFound e then okA () else wrapA ''failed to delete legacy Service'' e) okA
              else okA ())"

definition teardownLegacyChildren :: "'s extClient \<Rightarrow> ExternalModelObj \<Rightarrow> ('s, unit) tact" where
  "teardownLegacyChildren c extModel =
     (let resourceName = ExternalModelResourceName (om_Name (em_meta extModel));
          ns = om_Namespace (em_meta extModel);
          remove = (\<lambda>kind k. onA (deleteIfExists c kind resourceName ns k)
                      (\<lambda>e. errA (wrapErr (''failed to delete legacy '' @ kind) e)) okA)
      in thenA (remove ''HTTPRoute'' gvkRoute) (\<lambda>_.
         thenA (remove ''DestinationRule'' gvkDestinationRuleX) (\<lambda>_.
         thenA (remove ''ServiceEntry'' gvkServiceEntry) (\<lambda>_.
         deleteLegacyService c ns resourceName))))"

definition markMigrated :: "'s extClient \<Rightarrow> ExternalModelObj \<Rightarrow> ('s, unit) tact" where
  "markMigrated c extModel =
     (let m = em_meta extModel;
          desiredMessage = ''Model migrated to inference.opendatahub.io ExternalModel: '' @ om_Name m
      in if xm_Phase extModel = ''Migrated'' \<and> xm_Message extModel = desiredMessage then okA ()
         else onA (writeX c (UpdateModelStatus (extModel\<lparr>xm_Phase := ''Migrated'', xm_Message := desiredMessage\<rparr>)))
                (wrapA (''failed to mark legacy ExternalModel '' @ om_Namespace m @ ''/'' @ om_Name m
                   @ '' as migrated'')) okA)"

text \<open>An object with its owner, or the error of setting it.\<close>

definition ownedX :: "string \<Rightarrow> (string, ObjectMeta) result \<Rightarrow> (ObjectMeta \<Rightarrow> ('s, unit) tact) \<Rightarrow> ('s, unit) tact" where
  "ownedX kind res f =
     (case res of
        Inl e \<Rightarrow> failA (''failed to set owner on '' @ kind @ '': '' @ e)
      | Inr m \<Rightarrow> f m)"

definition reconcileTLS ::
  "'s extClient \<Rightarrow> ExternalModelObj \<Rightarrow> bool \<Rightarrow> string \<Rightarrow> ('s, unit) tact" where
  "reconcileTLS c extModel tls resourceName =
     (let ns = om_Namespace (em_meta extModel)
      in if tls then
           onA (applyUnstructured c (setUnstructuredOwner extModel
                  (buildDestinationRule (xm_Endpoint extModel) resourceName ns (commonLabels (om_Name (em_meta extModel))))))
             (wrapA ''failed to create DestinationRule'') okA
         else
           onA (deleteIfExists c ''DestinationRule'' resourceName ns gvkDestinationRuleX)
             (\<lambda>e. errA (wrapErr ''failed to delete stale DestinationRule'' e)) okA)"

definition reconcileExternal ::
  "'s extClient \<Rightarrow> extApi \<Rightarrow> ExternalReconciler \<Rightarrow> ExternalModelObj \<Rightarrow> bool \<Rightarrow> int \<Rightarrow> ('s, unit) tact" where
  "reconcileExternal c a r extModel tls port =
     (let ns = om_Namespace (em_meta extModel);
          name = om_Name (em_meta extModel);
          endpoint = xm_Endpoint extModel;
          resourceName = ExternalModelResourceName name;
          ls = commonLabels name;
          svc = buildService endpoint resourceName ns port ls;
          hr = buildHTTPRoute endpoint resourceName resourceName name (xm_TargetModel extModel) ns port
                 (xr_GatewayName r) (xr_GatewayNamespace r) ls
      in ownedX ''Service'' (SetExternalReference a extModel (sv_meta svc)) (\<lambda>m.
           onA (applyService c a (svc\<lparr>sv_meta := m\<rparr>)) (wrapA ''failed to create Service'') (\<lambda>_.
           onA (applyUnstructured c (setUnstructuredOwner extModel
                  (buildServiceEntry endpoint resourceName ns port tls ls)))
             (wrapA ''failed to create ServiceEntry'') (\<lambda>_.
           thenA (reconcileTLS c extModel tls resourceName) (\<lambda>_.
           ownedX ''HTTPRoute'' (SetExternalReference a extModel (hr_meta hr)) (\<lambda>m.
             onA (applyHTTPRoute c (hr\<lparr>hr_meta := m\<rparr>)) (wrapA ''failed to create HTTPRoute'') okA))))))"

definition X_Reconcile ::
  "'s extClient \<Rightarrow> extApi \<Rightarrow> ExternalReconciler \<Rightarrow> string \<times> string \<Rightarrow> ('s, unit) tact" where
  "X_Reconcile c a r req =
     onA (readX c (ec_model c (fst req) (snd req)))
       (ignoreNotFound ())
       (\<lambda>extModel.
          if om_Deleting (em_meta extModel) then okA ()
          else
            thenA (isSupersededByInference c a (fst req) (snd req)) (\<lambda>superseded.
              if superseded then
                thenA (teardownLegacyChildren c extModel) (\<lambda>_. markMigrated c extModel)
              else
                (case getTLSInfo extModel of
                   Inl e \<Rightarrow> failA (''invalid ExternalModel annotations: '' @ e)
                 | Inr (tls, port) \<Rightarrow> reconcileExternal c a r extModel tls port)))"

text \<open>The map function of the watch on inference models.\<close>

definition inferenceModelRequest :: "ObjectMeta \<Rightarrow> (string \<times> string) list" where
  "inferenceModelRequest m = [(om_Namespace m, om_Name m)]"

end
