(* ===== verification/ExternalTrace.thy ===== *)
theory ExternalTrace
  imports ExternalModels MemCluster
begin

text \<open>
  What the external model reconciler writes, read off the history of a run (\<open>Actions\<close>), which port it
  takes, and how the route it writes meets the reconciler of model references.
\<close>

section \<open>Ports\<close>

lemma parseUint32_iff:
  assumes "m < 2 ^ 32"
  shows "parseUint32 m s = Ok n
    \<longleftrightarrow> list_all isDigit s \<and> foldl (\<lambda>n ch. 10 * n + digitNum ch) m s = n \<and> n < 2 ^ 32"
  using assms
proof (induction s arbitrary: m)
  case Nil
  then show ?case by auto
next
  case (Cons ch s)
  have grows: "k \<le> foldl (\<lambda>n ch. 10 * n + digitNum ch) k t" for k t
  proof (induction t arbitrary: k)
    case (Cons b t)
    have "k \<le> 10 * k + digitNum b" by simp
    with Cons [of "10 * k + digitNum b"] show ?case by simp
  qed simp
  show ?case
  proof (cases "10 * m + digitNum ch < 2 ^ 32")
    case True
    with Cons.IH [OF True] show ?thesis by (auto simp: Let_def)
  next
    case False
    with grows [of "10 * m + digitNum ch" s] show ?thesis by (auto simp: Let_def)
  qed
qed

text \<open>A number in decimal: digits, possibly after a plus sign.\<close>

definition decimal :: "string \<Rightarrow> nat \<Rightarrow> bool" where
  "decimal s n \<longleftrightarrow>
     (\<exists>ds. (s = ds \<or> s = CHR ''+'' # ds) \<and> ds \<noteq> [] \<and> list_all isDigit ds \<and> atoiNat ds = n)"

lemma ParseInt32_decimal: "0 < p \<Longrightarrow> ParseInt32 s = Ok p \<longleftrightarrow> decimal s (nat p) \<and> p < 2 ^ 31"
proof (cases s)
  case (Cons ch ds)
  assume p: "0 < p"
  have u: "parseUint32 0 t = Ok n \<longleftrightarrow> list_all isDigit t \<and> atoiNat t = n \<and> n < 2 ^ 32" for t n
    using parseUint32_iff [of 0 t n] by (simp add: atoiNat_def)
  then have v: "parseUint32 0 t = Inl e \<Longrightarrow> list_all isDigit t \<Longrightarrow> atoiNat t < 2 ^ 32 \<Longrightarrow> False" for t e
    by (metis sum.distinct(1))
  show ?thesis
  proof (cases "ch = CHR ''-'' \<or> ch = CHR ''+''")
    case True
    with p u show ?thesis
      unfolding Cons ParseInt32_def decimal_def Let_def
      by (auto simp: isDigit_def byteIn_def split: sum.splits if_splits dest: v)
  next
    case False
    with p u show ?thesis
      unfolding Cons ParseInt32_def decimal_def Let_def
      by (auto simp del: parseUint32.simps split: sum.splits if_splits dest: v)
  qed
qed (auto simp: ParseInt32_def decimal_def Let_def)

lemma portOf_exact:
  "portOf ann = Ok p \<longleftrightarrow>
     1 \<le> p \<and> p \<le> 65535 \<and> (case ann of None \<Rightarrow> p = 443 | Some s \<Rightarrow> decimal s (nat p))"
proof (cases ann)
  case (Some s)
  have "portOf (Some s) = Ok p \<longleftrightarrow> 1 \<le> p \<and> p \<le> 65535 \<and> ParseInt32 s = Ok p"
    by (auto simp: portOf_def split: sum.splits if_splits)
  with Some ParseInt32_decimal [of p s] show ?thesis by auto
qed (auto simp: portOf_def)

lemma tlsOf_exact:
  "tlsOf ann = Ok b \<longleftrightarrow>
     (case ann of None \<Rightarrow> b
      | Some s \<Rightarrow> s \<in> (if b then {''1'', ''t'', ''T'', ''TRUE'', ''true'', ''True''}
                     else {''0'', ''f'', ''F'', ''FALSE'', ''false'', ''False''}))"
  by (cases ann; cases b) (auto simp: tlsOf_def ParseBool_def)

text \<open>
  C23: Which ports and TLS settings an external model gets. The annotations give a port and a TLS setting
  exactly when the port, 443 without an annotation, lies between 1 and 65535 and is written in decimal,
  and the TLS setting, on without an annotation, is one of the spellings of true or false that
  \<open>strconv.ParseBool\<close> knows. With any other annotations the reconciliation of a live model that
  the inference API has not taken over ends in an error in the cluster its reads left it in: nothing is written.
\<close>

theorem external_port_bounds:
  "(getTLSInfo t = Ok (tls, port) \<longleftrightarrow>
      1 \<le> port \<and> port \<le> 65535
      \<and> (case map_of (om_Annotations (em_meta t)) annotationPort of
           None \<Rightarrow> port = 443 | Some text \<Rightarrow> decimal text (nat port))
      \<and> (case map_of (om_Annotations (em_meta t)) annotationTLS of
           None \<Rightarrow> tls
         | Some text \<Rightarrow> text \<in> (if tls then {''1'', ''t'', ''T'', ''TRUE'', ''true'', ''True''}
                           else {''0'', ''f'', ''F'', ''FALSE'', ''false'', ''False''})))
   \<and> ((\<forall>tls port. getTLSInfo t \<noteq> Ok (tls, port)) \<and> ec_model c (fst req) (snd req) (ec_others c s) = Ok t
        \<and> isSupersededByInference c a (fst req) (snd req) (ec_others c s) = (Ok False, s') \<and> \<not> om_Deleting (em_meta t)
      \<longrightarrow> (\<exists>e. X_Reconcile c a r req s = (Err (CtlErr OtherErr (''invalid ExternalModel annotations: '' @ e)), s')))"
proof (intro conjI impI)
  have "getTLSInfo t = Ok (tls, port) \<longleftrightarrow> portOf (map_of (om_Annotations (em_meta t)) annotationPort) = Ok port
      \<and> tlsOf (map_of (om_Annotations (em_meta t)) annotationTLS) = Ok tls"
    by (auto simp: getTLSInfo_def Let_def split: sum.split)
  then show "getTLSInfo t = Ok (tls, port) \<longleftrightarrow>
      1 \<le> port \<and> port \<le> 65535
      \<and> (case map_of (om_Annotations (em_meta t)) annotationPort of
           None \<Rightarrow> port = 443 | Some text \<Rightarrow> decimal text (nat port))
      \<and> (case map_of (om_Annotations (em_meta t)) annotationTLS of
           None \<Rightarrow> tls
         | Some text \<Rightarrow> text \<in> (if tls then {''1'', ''t'', ''T'', ''TRUE'', ''true'', ''True''}
                           else {''0'', ''f'', ''F'', ''FALSE'', ''false'', ''False''}))"
    by (simp only: portOf_exact tlsOf_exact conj_assoc)
next
  assume stuck: "(\<forall>tls port. getTLSInfo t \<noteq> Ok (tls, port)) \<and> ec_model c (fst req) (snd req) (ec_others c s) = Ok t
      \<and> isSupersededByInference c a (fst req) (snd req) (ec_others c s) = (Ok False, s') \<and> \<not> om_Deleting (em_meta t)"
  then obtain e where "getTLSInfo t = Err e" by (cases "getTLSInfo t") auto
  with stuck show "\<exists>e. X_Reconcile c a r req s = (Err (CtlErr OtherErr (''invalid ExternalModel annotations: '' @ e)), s')"
    by (auto simp: X_Reconcile_def onA_def readX_def readAt_def failA_def errA_def Let_def)
qed

section \<open>Histories of a run\<close>

definition xlogged :: "'s extClient \<Rightarrow> ('s, xwrite) tstate extClient" where
  "xlogged c =
     \<lparr>ec_model = (\<lambda>x y st. ec_model c x y (fst st)),
      ec_inference = (\<lambda>x y st. ec_inference c x y (fst st)),
      ec_service = (\<lambda>x y st. ec_service c x y (fst st)),
      ec_route = (\<lambda>x y st. ec_route c x y (fst st)),
      ec_object = (\<lambda>k x y st. ec_object c k x y (fst st)),
      ec_write = writeL (ec_write c),
      ec_others = othersL (ec_others c)\<rparr>"

definition xhistory ::
  "'s extClient \<Rightarrow> extApi \<Rightarrow> ExternalReconciler \<Rightarrow> string \<times> string \<Rightarrow> 's \<Rightarrow> ('s, xwrite) tev list" where
  "xhistory c a r req s = snd (snd (X_Reconcile (xlogged c) a r req (s, [])))"

lemma xlogged_calls: "ec_others (xlogged c) = othersL (ec_others c)" "ec_write (xlogged c) = writeL (ec_write c)"
  by (simp_all add: xlogged_def)

lemma tri_writeX:
  assumes "stays K" "\<And>l. K l \<Longrightarrow> good l w"
  shows "tri good K (writeX (xlogged c) w) (\<lambda>x. did ((=) w))"
  unfolding writeX_def xlogged_calls by (rule tri_writeAt) (use assms in auto)

lemma tri_readX:
  assumes "\<And>st. r' st = r (fst st)"
  shows "tri good K (readX (xlogged c) r') (\<lambda>x. saw r ((=) x))"
  unfolding readX_def xlogged_calls by (rule tri_readAt) (rule assms)

lemma tri_xreads:
  "tri good K (readX (xlogged c) (ec_model (xlogged c) x y)) (\<lambda>z. saw (ec_model c x y) ((=) z))"
  "tri good K (readX (xlogged c) (ec_inference (xlogged c) x y)) (\<lambda>z. saw (ec_inference c x y) ((=) z))"
  "tri good K (readX (xlogged c) (ec_service (xlogged c) x y)) (\<lambda>z. saw (ec_service c x y) ((=) z))"
  "tri good K (readX (xlogged c) (ec_route (xlogged c) x y)) (\<lambda>z. saw (ec_route c x y) ((=) z))"
  "tri good K (readX (xlogged c) (ec_object (xlogged c) k x y)) (\<lambda>z. saw (ec_object c k x y) ((=) z))"
  by (rule tri_readX; simp add: xlogged_def)+

lemmas xrules = tri_xreads [THEN tri_onA] tri_cases tri_onA [OF tri_writeX]

text \<open>A recording run does what the run on the client itself does.\<close>

lemma tracks_xcalls:
  "tracks (writeX (xlogged c) w) (writeX c w)"
  "tracks (readX (xlogged c) (ec_model (xlogged c) x y)) (readX c (ec_model c x y))"
  "tracks (readX (xlogged c) (ec_inference (xlogged c) x y)) (readX c (ec_inference c x y))"
  "tracks (readX (xlogged c) (ec_service (xlogged c) x y)) (readX c (ec_service c x y))"
  "tracks (readX (xlogged c) (ec_route (xlogged c) x y)) (readX c (ec_route c x y))"
  "tracks (readX (xlogged c) (ec_object (xlogged c) k x y)) (readX c (ec_object c k x y))"
  unfolding readX_def writeX_def xlogged_calls
  by (rule tracks_writeAt tracks_readAt; simp add: xlogged_def)+

lemma X_Reconcile_tracks: "tracks (X_Reconcile (xlogged c) a r req) (X_Reconcile c a r req)"
  unfolding X_Reconcile_def isSupersededByInference_def teardownLegacyChildren_def deleteLegacyService_def
    markMigrated_def reconcileExternal_def reconcileTLS_def ownedX_def applyService_def applyUnstructured_def
    applyHTTPRoute_def deleteIfExists_def Let_def
  by (intro tracks_rules tracks_xcalls)

section \<open>What may be written\<close>

definition childOf :: "ExternalModelObj \<Rightarrow> ObjectMeta \<Rightarrow> bool" where
  "childOf t m \<longleftrightarrow>
     om_Name m = ExternalModelResourceName (om_Name (em_meta t)) \<and> om_Namespace m = om_Namespace (em_meta t)"

definition ownedByModel :: "ExternalModelObj \<Rightarrow> ObjectMeta \<Rightarrow> bool" where
  "ownedByModel t m \<longleftrightarrow> (\<exists>ow\<in>set (om_Owners m). or_Controller ow \<and> or_UID ow = xm_UID t)"

text \<open>The inference API was seen to have published the route of the model.\<close>

definition takenOver :: "'s extClient \<Rightarrow> extApi \<Rightarrow> string \<times> string \<Rightarrow> ('s, xwrite) tev list \<Rightarrow> bool" where
  "takenOver c a req l \<longleftrightarrow>
     saw (ec_inference c (fst req) (snd req))
       (\<lambda>x. \<exists>n. n \<noteq> [] \<and> NestedStringE a (u_Object x) [''status'', ''httpRouteName''] = Ok n) l"

text \<open>An object of the model was read and has not opted out.\<close>

abbreviation readChild :: "(string \<Rightarrow> string \<Rightarrow> ('s, 'a) cread) \<Rightarrow> ('a \<Rightarrow> ObjectMeta) \<Rightarrow> ExternalModelObj
    \<Rightarrow> ('a \<Rightarrow> bool) \<Rightarrow> ('s, xwrite) tev list \<Rightarrow> bool" where
  "readChild r mt t P l \<equiv>
     saw (r (om_Namespace (em_meta t)) (ExternalModelResourceName (om_Name (em_meta t)))) (\<lambda>x. isManaged (mt x) \<and> P x) l"

fun xconfined :: "'s extClient \<Rightarrow> extApi \<Rightarrow> string \<times> string \<Rightarrow> ExternalModelObj \<Rightarrow> ('s, xwrite) tev list
    \<Rightarrow> xwrite \<Rightarrow> bool" where
  "xconfined c a req t l (CreateService x) \<longleftrightarrow> childOf t (sv_meta x) \<and> ownedByModel t (sv_meta x)"
| "xconfined c a req t l (CreateObject x) \<longleftrightarrow> childOf t (u_meta x) \<and> ownedByModel t (u_meta x)"
| "xconfined c a req t l (CreateRoute x) \<longleftrightarrow> childOf t (hr_meta x) \<and> ownedByModel t (hr_meta x)"
| "xconfined c a req t l (UpdateService x) \<longleftrightarrow>
     ownedByModel t (sv_meta x) \<and> readChild (ec_service c) sv_meta t (\<lambda>y. samePlace (sv_meta x) (sv_meta y)) l"
| "xconfined c a req t l (UpdateObject x) \<longleftrightarrow>
     childOf t (u_meta x) \<and> ownedByModel t (u_meta x)
     \<and> readChild (ec_object c (xo_GVK x)) u_meta t (\<lambda>y. xo_ResourceVersion x = xo_ResourceVersion y) l"
| "xconfined c a req t l (UpdateRoute x) \<longleftrightarrow>
     ownedByModel t (hr_meta x) \<and> readChild (ec_route c) hr_meta t (\<lambda>y. om_Name (hr_meta x) = om_Name (hr_meta y) \<and> om_Namespace (hr_meta x) = om_Namespace (hr_meta y)) l"
| "xconfined c a req t l (DeleteService x) \<longleftrightarrow> takenOver c a req l \<and> readChild (ec_service c) sv_meta t ((=) x) l"
| "xconfined c a req t l (DeleteObject x) \<longleftrightarrow>
     (\<exists>k\<in>{gvkRoute, gvkDestinationRuleX, gvkServiceEntry}.
        (takenOver c a req l \<or> k = gvkDestinationRuleX \<and> (\<exists>port. getTLSInfo t = Ok (False, port)))
        \<and> readChild (ec_object c k) u_meta t ((=) x) l)"
| "xconfined c a req t l (UpdateModelStatus x) \<longleftrightarrow>
     takenOver c a req l \<and> em_meta x = em_meta t \<and> xm_Phase x = ''Migrated''"

text \<open>What is known of \<open>SetControllerReference\<close>: it adds a controller reference and changes nothing else.\<close>

definition refersToOwner :: "extApi \<Rightarrow> bool" where
  "refersToOwner a \<longleftrightarrow>
     (\<forall>t m n. SetExternalReference a t m = Ok n \<longrightarrow> samePlace n m \<and> om_Labels n = om_Labels m \<and> ownedByModel t n)"

lemma labelledMeta_child [simp]:
  "om_Name (labelledMeta ns n ls) = n" "om_Namespace (labelledMeta ns n ls) = ns" "om_Labels (labelledMeta ns n ls) = ls"
  by (simp_all add: labelledMeta_def freshMeta_def)

lemma setOwner_simps [simp]:
  "samePlace (u_meta (setUnstructuredOwner t x)) (u_meta x)" "xo_GVK (setUnstructuredOwner t x) = xo_GVK x"
  "ownedByModel t (u_meta (setUnstructuredOwner t x))"
  by (simp_all add: setUnstructuredOwner_def samePlace_def ownedByModel_def)

lemma applyService_confined:
  assumes "stays K" "childOf t (sv_meta x)" "ownedByModel t (sv_meta x)"
  shows "tri (xconfined c a req t) K (applyService (xlogged c) a x) anyResult"
  unfolding applyService_def Let_def
  by (intro xrules tri_any [OF tri_writeX])
    (use assms in \<open>auto simp: childOf_def ownedByModel_def samePlace_def intro: saw_mono\<close>)

lemma applyUnstructured_confined:
  assumes "stays K" "childOf t (u_meta x)" "ownedByModel t (u_meta x)"
  shows "tri (xconfined c a req t) K (applyUnstructured (xlogged c) x) anyResult"
  unfolding applyUnstructured_def Let_def
  by (intro xrules tri_any [OF tri_writeX])
    (use assms in \<open>auto simp: childOf_def ownedByModel_def intro: saw_mono\<close>)

lemma applyRoute_confined:
  assumes "stays K" "childOf t (hr_meta x)" "ownedByModel t (hr_meta x)"
  shows "tri (xconfined c a req t) K (applyHTTPRoute (xlogged c) x) anyResult"
  unfolding applyHTTPRoute_def Let_def
  by (intro xrules tri_any [OF tri_writeX])
    (use assms in \<open>auto simp: childOf_def ownedByModel_def samePlace_def intro: saw_mono\<close>)

lemma deleteObject_confined:
  assumes "k \<in> {gvkRoute, gvkDestinationRuleX, gvkServiceEntry}" "isManaged (u_meta x)"
    and "takenOver c a req l \<or> k = gvkDestinationRuleX \<and> (\<exists>port. getTLSInfo t = Ok (False, port))"
    and "saw (ec_object c k (om_Namespace (em_meta t)) (ExternalModelResourceName (om_Name (em_meta t)))) ((=) x) l"
  shows "xconfined c a req t l (DeleteObject x)"
  unfolding xconfined.simps by (rule bexI [OF _ assms(1)]) (use assms(2-4) in \<open>auto intro: saw_mono\<close>)

lemma deleteIfExists_confined:
  assumes "stays K" "k \<in> {gvkRoute, gvkDestinationRuleX, gvkServiceEntry}"
    and "\<And>l. K l \<Longrightarrow> takenOver c a req l \<or> k = gvkDestinationRuleX \<and> (\<exists>port. getTLSInfo t = Ok (False, port))"
  shows "tri (xconfined c a req t) K
    (deleteIfExists (xlogged c) kind (ExternalModelResourceName (om_Name (em_meta t))) (om_Namespace (em_meta t)) k) anyResult"
  unfolding deleteIfExists_def Let_def
  by (intro xrules) (use assms in \<open>auto simp del: xconfined.simps intro!: deleteObject_confined [where k = k]\<close>)

lemma takenOver_stays [simp, intro]: "stays (takenOver c a req)"
  unfolding takenOver_def [abs_def] by blast

lemma teardown_confined:
  assumes "stays K" "\<And>l. K l \<Longrightarrow> takenOver c a req l"
  shows "tri (xconfined c a req t) K (teardownLegacyChildren (xlogged c) t) anyResult"
  unfolding teardownLegacyChildren_def deleteLegacyService_def Let_def
  by (intro tri_onA [where Q = anyResult] deleteIfExists_confined xrules)
    (use assms in \<open>auto intro: saw_mono\<close>)

lemma markMigrated_confined:
  assumes "stays K" "\<And>l. K l \<Longrightarrow> takenOver c a req l"
  shows "tri (xconfined c a req t) K (markMigrated (xlogged c) t) anyResult"
  unfolding markMigrated_def Let_def
  by (intro xrules) (use assms in auto)

lemma reconcileTLS_confined:
  assumes "stays K" "getTLSInfo t = Ok (tls, port)"
  shows "tri (xconfined c a req t) K
    (reconcileTLS (xlogged c) t tls (ExternalModelResourceName (om_Name (em_meta t)))) anyResult"
  unfolding reconcileTLS_def Let_def
  by (intro tri_if tri_onA [OF applyUnstructured_confined] tri_onA [OF deleteIfExists_confined] tri_errors tri_errA tri_okA)
    (use assms in \<open>auto simp: childOf_def setUnstructuredOwner_def buildDestinationRule_def ownedByModel_def\<close>)

lemma ownedX_confined:
  assumes "\<And>m. res = Ok m \<Longrightarrow> tri good K (f m) Q"
  shows "tri good K (ownedX kind res f) Q"
  unfolding ownedX_def by (intro tri_sum tri_errors assms)

lemma reconcileExternal_confined:
  assumes "stays K" "refersToOwner a" "getTLSInfo t = Ok (tls, port)"
  shows "tri (xconfined c a req t) K (reconcileExternal (xlogged c) a r t tls port) anyResult"
proof -
  have ref: "childOf t n \<and> ownedByModel t n" if "SetExternalReference a t m = Ok n" "childOf t m" for m n
    using that assms(2) by (auto simp: refersToOwner_def childOf_def samePlace_def)
  have child: "childOf t (labelledMeta (om_Namespace (em_meta t)) (ExternalModelResourceName (om_Name (em_meta t))) ls)" for ls
    by (simp add: childOf_def)
  show ?thesis
    unfolding reconcileExternal_def Let_def
    by (intro ownedX_confined tri_onA [OF applyService_confined] tri_onA [OF applyUnstructured_confined]
        tri_onA [OF reconcileTLS_confined] tri_onA [OF applyRoute_confined] tri_errors tri_errA tri_okA)
      (use assms child ref in \<open>auto simp: buildService_def buildHTTPRoute_def buildServiceEntry_def setUnstructuredOwner_def
          childOf_def ownedByModel_def Let_def\<close>)
qed

lemma X_Reconcile_confined:
  assumes "refersToOwner a"
  shows "tri (\<lambda>pre w. saw (ec_model c (fst req) (snd req)) (\<lambda>t. xconfined c a req t pre w) pre) (\<lambda>l. True)
    (X_Reconcile (xlogged c) a r req) anyResult"
proof -
  let ?get = "ec_model c (fst req) (snd req)"
  have known: "tri (\<lambda>pre w. saw ?get (\<lambda>t. xconfined c a req t pre w) pre) K m anyResult"
    if "tri (xconfined c a req t) K m anyResult" "stays K" "\<And>l. K l \<Longrightarrow> saw ?get ((=) t) l"
    for t K and m :: "(('a, xwrite) tstate, unit) tact"
    by (rule tri_good [OF that(1,2)]) (auto dest: that(3) intro: saw_mono)
  have superseded: "tri good K (isSupersededByInference (xlogged c) a (fst req) (snd req))
      (\<lambda>b l. b \<longrightarrow> takenOver c a req l)" if "stays K" for good K
    unfolding isSupersededByInference_def
    by (rule tri_onA [OF tri_xreads(2) that]) (auto intro!: tri_cases simp: takenOver_def intro: saw_mono)
  show ?thesis
    unfolding X_Reconcile_def
  proof (intro tri_onA [OF tri_xreads(1)] tri_ignoreNotFound known)
    fix t :: ExternalModelObj
    let ?K = "\<lambda>l. True \<and> saw ?get ((=) t) l"
    show "tri (xconfined c a req t) ?K
        (if om_Deleting (em_meta t) then okA ()
         else thenA (isSupersededByInference (xlogged c) a (fst req) (snd req)) (\<lambda>superseded.
           if superseded then thenA (teardownLegacyChildren (xlogged c) t) (\<lambda>_. markMigrated (xlogged c) t)
           else case getTLSInfo t of
             Inl e \<Rightarrow> failA (''invalid ExternalModel annotations: '' @ e)
           | Inr (tls, port) \<Rightarrow> reconcileExternal (xlogged c) a r t tls port)) anyResult"
      by (intro tri_onA [OF superseded] tri_onA [OF teardown_confined] markMigrated_confined reconcileExternal_confined
          tri_if tri_sum tri_prod tri_errors tri_errA tri_okA) (use assms in auto)
  qed auto
qed

text \<open>
  C21: The external model reconciler keeps to the objects under the name of the model it was asked about.
  Whatever the cluster answers and does in between, every object it creates has the name derived from
  the model, lies in the model's namespace and is owned by the model. It updates only an object it
  read under that name in that namespace and that has not opted out of management, whoever owned it, and
  leaves the model as its owner. It deletes only a Service, HTTPRoute, ServiceEntry or DestinationRule it read there
  and that has not opted out, whoever owned it: after it saw that the inference API has published a route for the
  model, which is also when it marks the model as migrated, or, for the DestinationRule alone, when the
  annotations of the model turn TLS off.
\<close>

theorem external_writes_confined:
  assumes "refersToOwner a" and "xhistory c a r req s = pre @ Wrote w e # post"
  shows "saw (ec_model c (fst req) (snd req)) (\<lambda>t. xconfined c a req t pre w) pre"
  using tri_run [OF X_Reconcile_confined [OF assms(1)] _ assms(2) [unfolded xhistory_def]] by simp

section \<open>The route and the model that refers to it\<close>

text \<open>
  C22: The route this reconciler writes always names the gateway the controller was started with. So a
  reference to an external model that belongs to a tenant finds its route accepted for that gateway
  only: with any other gateway in the tenant's status, reconciling the route of the model fails, for
  as long as the legacy reconciler owns it.
\<close>

theorem external_route_default_gateway_only:
  assumes "mr_TenantRef (mm_Spec model) \<noteq> []"
    and "getAITenant c (mrr_AITenantNamespace r) (mr_TenantRef (mm_Spec model)) s = Ok tenant"
    and "gr_Name (at_GatewayRef tenant) \<noteq> []" "gr_Namespace (at_GatewayRef tenant) \<noteq> []"
    and "getInferenceExternalModel c ns (mr_RefName (mm_Spec model)) s = Err e" "IsNotFound e \<or> IsNoMatchError e"
    and "getExternalModel c ns (mr_RefName (mm_Spec model)) s = Ok em" "om_Namespace (mm_meta model) = ns"
    and "getHTTPRouteObj c ns (ExternalModelResourceName (mr_RefName (mm_Spec model))) s = Ok route"
    and "hr_ParentRefs route = hr_ParentRefs (buildHTTPRoute ep rn sn mn tm ns port (xr_GatewayName x) (xr_GatewayNamespace x) ls)"
  shows "fst (ext_ReconcileRoute c k r model s) = None
    \<longleftrightarrow> at_GatewayRef tenant = \<lparr>gr_Namespace = xr_GatewayNamespace x, gr_Name = xr_GatewayName x\<rparr>"
proof -
  have "externalRouteName c k model s = Ok (Some (ExternalModelResourceName (mr_RefName (mm_Spec model))))"
    using assms(5-8) by (simp add: externalRouteName_def)
  moreover have "resolveGatewayRef c r model route s = (Ok (at_GatewayRef tenant), setTenant (mr_TenantRef (mm_Spec model)) model)"
    using assms(1-4) by (simp add: resolveGatewayRef_def Let_def)
  moreover have "fst (findParentGateway g ns ([], []) (hr_ParentRefs route))
      \<longleftrightarrow> g = \<lparr>gr_Namespace = xr_GatewayNamespace x, gr_Name = xr_GatewayName x\<rparr>" for g
    unfolding assms(10) buildHTTPRoute_def by (cases g) (auto simp: parentNamespace_def parentRefTargetsGateway_def Let_def)
  ultimately show ?thesis
    using assms(8,9) by (auto simp: ext_ReconcileRoute_def Let_def case_prod_beta)
qed

text \<open>A model of two tenants in turn: the first owns the gateway the route names, the second another.\<close>

definition referring :: "string \<Rightarrow> MaaSModelRef" where
  "referring tenant = (sampleModel ''llm'' ''m1'' ''ExternalModel'')
     \<lparr>mm_Spec := \<lparr>mr_Kind = ''ExternalModel'', mr_RefName = ''m1'', mr_EndpointOverride = [], mr_TenantRef = tenant\<rparr>\<rparr>"

definition routedCluster :: cluster where
  "routedCluster = emptyCluster
     \<lparr>cl_routes := [HTTPRoute.truncate (buildHTTPRoute ''api.openai.com'' ''maas-m1'' ''maas-m1'' ''m1'' ''gpt-4o'' ''llm'' 443
        ''gw'' ''gws'' [])],
      cl_external := [\<lparr>em_meta = sampleMeta ''llm'' ''m1'', em_Provider = ''p''\<rparr>],
      cl_aitenants := [sampleTenant ''t1'' ''gws'' ''gw'', sampleTenant ''t2'' ''blue'' ''gw'']\<rparr>"

theorem external_route_default_gateway_only_witness:
  "fst (ext_ReconcileRoute memClient walkApi sampleModelReconciler (referring ''t1'') routedCluster) = None
   \<and> fst (ext_ReconcileRoute memClient walkApi sampleModelReconciler (referring ''t2'') routedCluster) \<noteq> None"
proof -
  let ?route = "HTTPRoute.truncate (buildHTTPRoute ''api.openai.com'' ''maas-m1'' ''maas-m1'' ''m1'' ''gpt-4o'' ''llm'' 443
    ''gw'' ''gws'' [])"
  have route: "hr_ParentRefs ?route = hr_ParentRefs (buildHTTPRoute ''api.openai.com'' ''maas-m1'' ''maas-m1'' ''m1'' ''gpt-4o''
      ''llm'' 443 (xr_GatewayName \<lparr>xr_GatewayName = ''gw'', xr_GatewayNamespace = ''gws''\<rparr>)
      (xr_GatewayNamespace \<lparr>xr_GatewayName = ''gw'', xr_GatewayNamespace = ''gws''\<rparr>) [])"
    by (simp add: buildHTTPRoute_def HTTPRoute.truncate_def Let_def)
  have at: "hr_meta ?route = labelledMeta ''llm'' ''maas-m1'' []"
    by (simp add: buildHTTPRoute_def HTTPRoute.truncate_def Let_def)
  have name: "ExternalModelResourceName ''m1'' = ''maas-m1''"
    by (simp add: ExternalModelResourceName_def Let_def externalModelResourcePrefix_def kubernetesNameMaxLength_def)
  have reads: "getInferenceExternalModel memClient ''llm'' ''m1'' routedCluster = Err (ErrNotFound (''m1 not found''))"
    "getExternalModel memClient ''llm'' ''m1'' routedCluster = Ok \<lparr>em_meta = sampleMeta ''llm'' ''m1'', em_Provider = ''p''\<rparr>"
    "getHTTPRouteObj memClient ''llm'' ''maas-m1'' routedCluster = Ok ?route"
    "getAITenant memClient ''ai-tenants'' ''t1'' routedCluster = Ok (sampleTenant ''t1'' ''gws'' ''gw'')"
    "getAITenant memClient ''ai-tenants'' ''t2'' routedCluster = Ok (sampleTenant ''t2'' ''blue'' ''gw'')"
    using at by (simp_all add: memClient_def routedCluster_def emptyCluster_def findAt_def isAt_def sampleMeta_def sampleTenant_def)
  have facts: "mr_TenantRef (mm_Spec (referring t)) = t" "mr_RefName (mm_Spec (referring t)) = ''m1''"
    "om_Namespace (mm_meta (referring t)) = ''llm''" "mrr_AITenantNamespace sampleModelReconciler = ''ai-tenants''" for t
    by (simp_all add: referring_def sampleModel_def sampleMeta_def sampleModelReconciler_def)
  have gw: "at_GatewayRef (sampleTenant n ns g) = \<lparr>gr_Namespace = ns, gr_Name = g\<rparr>" for n ns g
    by (simp add: sampleTenant_def)
  note * = external_route_default_gateway_only [OF _ _ _ _ _ _ _ _ _ route, where c = memClient
      and s = routedCluster and r = sampleModelReconciler and k = walkApi]
  show ?thesis
    using * [of "referring ''t1''", unfolded facts] * [of "referring ''t2''", unfolded facts]
    by (simp add: reads name gw IsNotFound_def)
qed

section \<open>A model in an empty namespace\<close>

definition sampleExternal :: ExternalModelObj where
  "sampleExternal =
     \<lparr>em_meta = sampleMeta ''llm'' ''gpt'', em_Provider = ''openai'', xm_APIVersion = ''maas.opendatahub.io/v1alpha1'',
      xm_Kind = ''ExternalModel'', xm_UID = ''u1'', xm_TargetModel = ''gpt-4o'', xm_Endpoint = ''api.openai.com'',
      xm_Phase = [], xm_Message = []\<rparr>"

definition ownerOf :: "ExternalModelObj \<Rightarrow> ObjectMeta \<Rightarrow> (string, ObjectMeta) result" where
  "ownerOf t m = Ok (m\<lparr>om_Owners := om_Owners m @
     [\<lparr>or_APIVersion = xm_APIVersion t, or_Kind = xm_Kind t, or_Name = om_Name (em_meta t),
       or_UID = xm_UID t, or_Controller = True\<rparr>]\<rparr>)"

definition sampleExtApi :: extApi where
  "sampleExtApi =
     \<lparr>ext_accessors = walkApi, NestedStringE = (\<lambda>m fs. Ok (case NestedString walkApi m fs of None \<Rightarrow> [] | Some x \<Rightarrow> x)),
      SetExternalReference = ownerOf, eqServiceSpec = (=), eqOwners = (=), eqLabels = (=)\<rparr>"

text \<open>A cluster with that one model and nothing else, in which every write succeeds.\<close>

definition bareClient :: "nat extClient" where
  "bareClient =
     \<lparr>ec_model = (\<lambda>ns n s. Ok sampleExternal), ec_inference = (\<lambda>ns n s. Err (ErrNotFound [])),
      ec_service = (\<lambda>ns n s. Err (ErrNotFound [])), ec_route = (\<lambda>ns n s. Err (ErrNotFound [])),
      ec_object = (\<lambda>k ns n s. Err (ErrNotFound [])), ec_write = (\<lambda>w s. (None, s + 1)), ec_others = id\<rparr>"

definition bareReconciler :: ExternalReconciler where
  "bareReconciler = \<lparr>xr_GatewayName = ''gw'', xr_GatewayNamespace = ''edge''\<rparr>"

lemma sample_refers: "refersToOwner sampleExtApi"
  by (auto simp: refersToOwner_def sampleExtApi_def ownerOf_def samePlace_def ownedByModel_def)

definition misportedExternal :: ExternalModelObj where
  "misportedExternal = sampleExternal\<lparr>em_meta := (em_meta sampleExternal)\<lparr>om_Annotations := [(annotationPort, ''port 80'')]\<rparr>\<rparr>"

lemma sample_tls: "getTLSInfo sampleExternal = Ok (True, 443)"
  by (simp add: getTLSInfo_def portOf_def tlsOf_def sampleExternal_def sampleMeta_def)

theorem external_port_bounds_witness:
  "getTLSInfo sampleExternal = Ok (True, 443)
   \<and> (\<exists>e. X_Reconcile (bareClient\<lparr>ec_model := (\<lambda>ns n s. Ok misportedExternal)\<rparr>) sampleExtApi bareReconciler (''llm'', ''gpt'') 0
        = (Err (CtlErr OtherErr (''invalid ExternalModel annotations: '' @ e)), 0))"
proof -
  let ?c = "bareClient\<lparr>ec_model := (\<lambda>ns n s. Ok misportedExternal)\<rparr>"
  have ann: "map_of (om_Annotations (em_meta misportedExternal)) annotationPort = Some ''port 80''"
    by (simp add: misportedExternal_def sampleExternal_def sampleMeta_def)
  have "\<not> decimal ''port 80'' n" for n
    by (auto simp: decimal_def isDigit_def byteIn_def)
  then have "getTLSInfo misportedExternal \<noteq> Ok (tls, port)" for tls port
    using external_port_bounds [THEN conjunct1, of misportedExternal tls port] by (simp add: ann)
  moreover have "isSupersededByInference ?c sampleExtApi ''llm'' ''gpt'' 0 = (Ok False, 0)"
    by (simp add: isSupersededByInference_def onA_def readX_def readAt_def bareClient_def IsNotFound_def okA_def Let_def)
  ultimately show ?thesis
    using external_port_bounds [THEN conjunct2, of misportedExternal ?c "(''llm'', ''gpt'')" 0 sampleExtApi 0 bareReconciler]
      external_port_bounds [THEN conjunct1, of sampleExternal True 443]
    by (simp add: bareClient_def misportedExternal_def sampleExternal_def sampleMeta_def)
qed

lemmas bare_calls = X_Reconcile_def reconcileExternal_def reconcileTLS_def ownedX_def applyService_def
  applyUnstructured_def applyHTTPRoute_def isSupersededByInference_def onA_def okA_def readX_def writeX_def readAt_def
  writeAt_def xlogged_def bareClient_def othersL_def writeL_def IsNotFound_def sample_tls Let_def

lemma bare_history:
  "\<exists>x post. xhistory bareClient sampleExtApi bareReconciler (''llm'', ''gpt'') 0
    = [At 0, At 0, At 0, At 0] @ Wrote (CreateService x) None # post"
proof -
  have live: "\<not> om_Deleting (em_meta sampleExternal)" by (simp add: sampleExternal_def sampleMeta_def)
  have ref: "SetExternalReference sampleExtApi t m = Ok (projr (ownerOf t m))" for t m
    by (simp add: sampleExtApi_def ownerOf_def)
  show ?thesis
    unfolding xhistory_def by (simp add: bare_calls live ref)
qed

theorem external_writes_confined_witness:
  "\<exists>x post. xhistory bareClient sampleExtApi bareReconciler (''llm'', ''gpt'') 0
      = [At 0, At 0, At 0, At 0] @ Wrote (CreateService x) None # post
    \<and> (\<exists>t. childOf t (sv_meta x) \<and> ownedByModel t (sv_meta x))"
proof -
  obtain x post where h: "xhistory bareClient sampleExtApi bareReconciler (''llm'', ''gpt'') 0
      = [At 0, At 0, At 0, At 0] @ Wrote (CreateService x) None # post"
    using bare_history by blast
  from external_writes_confined [OF sample_refers h] h show ?thesis
    by (auto simp: saw_def)
qed

end
