(* ===== verification/PlatformParams.thy ===== *)
theory PlatformParams
  imports TenantTypes
begin

text \<open>
  The parameters with which the platform of a tenant is rendered: \<open>constants.go\<close> and the first part of
  \<open>params.go\<close> in \<open>pkg/platform/tenantreconcile\<close>, that is, the names of the resources of a tenant, the
  settings of a tenant and \<open>BuildPlatformParams\<close>. A quantity is the text its \<open>String\<close> gives; a map that
  may be nil is an option; \<open>getenv\<close> is \<open>os.Getenv\<close>.
\<close>

section \<open>Names of resources\<close>

definition GVKDeployment :: gvk where "GVKDeployment = (''apps'', ''v1'', ''Deployment'')"
definition GVKHTTPRoute :: gvk where "GVKHTTPRoute = (''gateway.networking.k8s.io'', ''v1'', ''HTTPRoute'')"
definition GVKCronJob :: gvk where "GVKCronJob = (''batch'', ''v1'', ''CronJob'')"
definition GVKTokenRateLimitPolicy :: gvk where
  "GVKTokenRateLimitPolicy = (''kuadrant.io'', ''v1alpha1'', ''TokenRateLimitPolicy'')"
definition GVKDestinationRule :: gvk where
  "GVKDestinationRule = (''networking.istio.io'', ''v1'', ''DestinationRule'')"
definition GVKTelemetryPolicy :: gvk where
  "GVKTelemetryPolicy = (''extensions.kuadrant.io'', ''v1alpha1'', ''TelemetryPolicy'')"
definition GVKEnvoyFilter :: gvk where
  "GVKEnvoyFilter = (''networking.istio.io'', ''v1alpha3'', ''EnvoyFilter'')"
definition GVKIstioTelemetry :: gvk where "GVKIstioTelemetry = (''telemetry.istio.io'', ''v1'', ''Telemetry'')"
definition GVKAuthConfig :: gvk where "GVKAuthConfig = (''authorino.kuadrant.io'', ''v1beta3'', ''AuthConfig'')"
definition GVKAuthorino :: gvk where
  "GVKAuthorino = (''operator.authorino.kuadrant.io'', ''v1beta1'', ''Authorino'')"
definition GVKService :: gvk where "GVKService = ([], ''v1'', ''Service'')"
definition GVKServiceAccount :: gvk where "GVKServiceAccount = ([], ''v1'', ''ServiceAccount'')"
definition GVKConfigMap :: gvk where "GVKConfigMap = ([], ''v1'', ''ConfigMap'')"
definition GVKClusterRoleBinding :: gvk where
  "GVKClusterRoleBinding = (''rbac.authorization.k8s.io'', ''v1'', ''ClusterRoleBinding'')"
definition GVKNetworkPolicy :: gvk where
  "GVKNetworkPolicy = (''networking.k8s.io'', ''v1'', ''NetworkPolicy'')"
definition GVKCertificate :: gvk where "GVKCertificate = (''cert-manager.io'', ''v1'', ''Certificate'')"
definition GVKHPA :: gvk where "GVKHPA = (''autoscaling'', ''v2'', ''HorizontalPodAutoscaler'')"

lemmas platform_gvks =
  GVKDeployment_def GVKHTTPRoute_def GVKCronJob_def GVKTokenRateLimitPolicy_def GVKDestinationRule_def
  GVKTelemetryPolicy_def GVKEnvoyFilter_def GVKIstioTelemetry_def GVKAuthConfig_def GVKAuthorino_def GVKService_def
  GVKServiceAccount_def GVKConfigMap_def GVKClusterRoleBinding_def GVKNetworkPolicy_def GVKCertificate_def GVKHPA_def

definition PayloadProcessingName :: string where
  "PayloadProcessingName = ''payload-processing''"
definition PayloadPreProcessingName :: string where
  "PayloadPreProcessingName = ''payload-pre-processing''"
definition PayloadProcessingPluginsConfigMapName :: string where
  "PayloadProcessingPluginsConfigMapName = ''payload-processing-plugins''"
definition LabelTenantInstance :: string where
  "LabelTenantInstance = ''maas.opendatahub.io/tenant-instance''"

lemmas platform_bases = PayloadProcessingName_def PayloadPreProcessingName_def PayloadProcessingPluginsConfigMapName_def

definition GatewayTokenRateLimitDefaultDenyPolicyName :: "string \<Rightarrow> string" where
  "GatewayTokenRateLimitDefaultDenyPolicyName = resourceNameForTenant ''gateway-default-deny''"
definition MaaSAPIRouteName :: "string \<Rightarrow> string" where
  "MaaSAPIRouteName = resourceNameForTenant ''maas-api-route''"
definition MaaSAPIKeyCleanupCronJobName :: "string \<Rightarrow> string" where
  "MaaSAPIKeyCleanupCronJobName = resourceNameForTenant ''maas-api-key-cleanup''"
definition GatewayDestinationRuleName :: "string \<Rightarrow> string" where
  "GatewayDestinationRuleName = resourceNameForTenant ''maas-api-backend-tls''"
definition TelemetryPolicyName :: "string \<Rightarrow> string" where
  "TelemetryPolicyName = resourceNameForTenant ''maas-telemetry''"
definition IstioTelemetryName :: "string \<Rightarrow> string" where
  "IstioTelemetryName = resourceNameForTenant ''latency-per-subscription''"
definition MaaSAPIDeploymentName :: "string \<Rightarrow> string" where
  "MaaSAPIDeploymentName = resourceNameForTenant ''maas-api''"
definition PayloadProcessingDeploymentName :: "string \<Rightarrow> string" where
  "PayloadProcessingDeploymentName = resourceNameForTenant PayloadProcessingName"
definition PayloadPreProcessingDeploymentName :: "string \<Rightarrow> string" where
  "PayloadPreProcessingDeploymentName = resourceNameForTenant PayloadPreProcessingName"
definition PayloadProcessingServiceName :: "string \<Rightarrow> string" where
  "PayloadProcessingServiceName = resourceNameForTenant PayloadProcessingName"
definition PayloadProcessingEnvoyFilterName :: "string \<Rightarrow> string" where
  "PayloadProcessingEnvoyFilterName = resourceNameForTenant PayloadProcessingName"
definition PayloadProcessingPluginsConfigMapForTenant :: "string \<Rightarrow> string" where
  "PayloadProcessingPluginsConfigMapForTenant = resourceNameForTenant PayloadProcessingPluginsConfigMapName"
definition PayloadProcessingServiceAccountName :: "string \<Rightarrow> string" where
  "PayloadProcessingServiceAccountName = resourceNameForTenant PayloadProcessingName"
definition PayloadProcessingNetworkPolicyName :: "string \<Rightarrow> string" where
  "PayloadProcessingNetworkPolicyName = resourceNameForTenant PayloadProcessingName"
definition PayloadProcessingHPAName :: "string \<Rightarrow> string" where
  "PayloadProcessingHPAName = resourceNameForTenant PayloadProcessingName"
definition MaaSAPIServingCertName :: "string \<Rightarrow> string" where
  "MaaSAPIServingCertName = resourceNameForTenant ''maas-api-serving-cert''"
definition PayloadProcessingReaderClusterRoleBindingNameForTenant :: "string \<Rightarrow> string" where
  "PayloadProcessingReaderClusterRoleBindingNameForTenant = resourceNameForTenant ''payload-processing-reader''"

lemmas platform_names =
  GatewayTokenRateLimitDefaultDenyPolicyName_def MaaSAPIRouteName_def MaaSAPIKeyCleanupCronJobName_def
  GatewayDestinationRuleName_def TelemetryPolicyName_def IstioTelemetryName_def MaaSAPIDeploymentName_def
  PayloadProcessingDeploymentName_def PayloadPreProcessingDeploymentName_def PayloadProcessingServiceName_def
  PayloadProcessingEnvoyFilterName_def PayloadProcessingPluginsConfigMapForTenant_def
  PayloadProcessingServiceAccountName_def PayloadProcessingNetworkPolicyName_def PayloadProcessingHPAName_def
  MaaSAPIServingCertName_def PayloadProcessingReaderClusterRoleBindingNameForTenant_def
  MaaSAPIServiceName_def PayloadPreProcessingServiceName_def

section \<open>Settings of a tenant\<close>

record TenantResourceRequirements =
  trr_Limits :: "labels option"
  trr_Requests :: "labels option"

record TenantMaasAPIConfig =
  mac_Replicas :: "int option"
  mac_Resources :: "TenantResourceRequirements option"

record TenantAutoscalingConfig =
  asc_MaxReplicas :: "int option"
  asc_TargetCPUUtilization :: "int option"
  asc_TargetMemoryUtilization :: "int option"

record TenantPayloadProcessingConfig =
  ppc_Replicas :: "int option"
  ppc_Autoscaling :: "TenantAutoscalingConfig option"
  ppc_Resources :: "TenantResourceRequirements option"

record TenantSettings =
  ts_APIKeys :: "TenantAPIKeysConfig option"
  ts_Telemetry :: "TenantTelemetryConfig option"
  ts_MaasAPI :: "TenantMaasAPIConfig option"
  ts_PayloadProcessing :: "TenantPayloadProcessingConfig option"

text \<open>The objects the functions of this package take (\<open>client.Object\<close>), by the types they tell apart.\<close>

datatype platformObject =
    ConfigObject (po_meta: ObjectMeta) TenantSettings
  | TenantObject (po_meta: ObjectMeta) TenantSettings
  | OtherObject (po_meta: ObjectMeta)

fun settingsOf :: "platformObject \<Rightarrow> TenantSettings option" where
  "settingsOf (ConfigObject _ t) = Some t"
| "settingsOf (TenantObject _ t) = Some t"
| "settingsOf (OtherObject _) = None"

definition maasAPIConfigFor :: "platformObject \<Rightarrow> TenantMaasAPIConfig option" where
  "maasAPIConfigFor t = Option.bind (settingsOf t) ts_MaasAPI"
definition payloadProcessingConfigFor :: "platformObject \<Rightarrow> TenantPayloadProcessingConfig option" where
  "payloadProcessingConfigFor t = Option.bind (settingsOf t) ts_PayloadProcessing"
definition apiKeysConfigFor :: "platformObject \<Rightarrow> TenantAPIKeysConfig option" where
  "apiKeysConfigFor t = Option.bind (settingsOf t) ts_APIKeys"
definition telemetryConfigFor :: "platformObject \<Rightarrow> TenantTelemetryConfig option" where
  "telemetryConfigFor t = Option.bind (settingsOf t) ts_Telemetry"

text \<open>\<open>corev1.ResourceRequirements\<close>\<close>

record ResourceRequirements =
  rq_Requests :: "labels option"
  rq_Limits :: "labels option"
  rq_Claims :: "string list"

definition tenantResourcesToCorev1 :: "TenantResourceRequirements option \<Rightarrow> ResourceRequirements option" where
  "tenantResourcesToCorev1 =
     map_option (\<lambda>r. \<lparr>rq_Requests = trr_Requests r, rq_Limits = trr_Limits r, rq_Claims = []\<rparr>)"

section \<open>The parameters\<close>

record PlatformParams =
  pp_AppNamespace :: string
  pp_ControllerNamespace :: string
  pp_GatewayNamespace :: string
  pp_GatewayName :: string
  pp_ClusterAudience :: string
  pp_SubscriptionNamespace :: string
  pp_ExternalOIDC :: "TenantExternalOIDCConfig option"
  pp_TenantIdentifier :: string
  pp_MaaSAPIImage :: string
  pp_PayloadProcessingImage :: string
  pp_MaaSAPIKeyCleanupImage :: string
  pp_APIKeyMaxExpirationDays :: string
  pp_MaaSAPIReplicas :: "int option"
  pp_MaaSAPIResources :: "ResourceRequirements option"
  pp_PayloadProcessingReplicas :: "int option"
  pp_PayloadProcessingAutoscaling :: bool
  pp_PayloadProcessingMaxReplicas :: int
  pp_PayloadProcessingTargetCPU :: int
  pp_PayloadProcessingTargetMemory :: int
  pp_MonitoringNamespace :: string
  pp_RouterExtProcFallback :: bool
  pp_PayloadProcessingResources :: "ResourceRequirements option"
  pp_Warnings :: "string list"

fun firstNonEmpty :: "string list \<Rightarrow> string" where
  "firstNonEmpty [] = []"
| "firstNonEmpty (v # vs) = (if v \<noteq> [] then v else firstNonEmpty vs)"

definition AnnotationMaaSAPIReplicas :: string where
  "AnnotationMaaSAPIReplicas = ''maas.opendatahub.io/maas-api-replicas''"
definition AnnotationPayloadProcessingReplicas :: string where
  "AnnotationPayloadProcessingReplicas = ''maas.opendatahub.io/payload-processing-replicas''"

definition maxReplicaCount :: int where "maxReplicaCount = 100"
definition defaultMaxReplicas :: int where "defaultMaxReplicas = 10"
definition defaultTargetCPU :: int where "defaultTargetCPU = 70"
definition defaultTargetMemory :: int where "defaultTargetMemory = 80"

text \<open>An \<open>Err\<close> is the warning.\<close>

definition parseReplicaAnnotation :: "string \<Rightarrow> string \<Rightarrow> (string, int) result" where
  "parseReplicaAnnotation annotationKey val =
     (let complain = (\<lambda>what. Err (''annotation '' @ annotationKey @ '' has invalid value '' @ Quote val @ '': must be ''
            @ what @ ''; remove the annotation to use the default replica count''))
      in case ParseInt32 val of
           Inl _ \<Rightarrow> complain ''a positive integer''
         | Inr n \<Rightarrow>
             if n < 1 then complain ''>= 1''
             else if n > maxReplicaCount then complain (''<= '' @ itoa maxReplicaCount)
             else Ok n)"

text \<open>What one annotation adds: the replicas, and the warnings.\<close>

definition replicaAnnotation :: "labels \<Rightarrow> string \<Rightarrow> int option \<times> string list" where
  "replicaAnnotation annotations key =
     (case map_of annotations key of
        None \<Rightarrow> (None, [])
      | Some v \<Rightarrow>
          (case parseReplicaAnnotation key v of
             Inl warn \<Rightarrow> (None, [warn])
           | Inr r \<Rightarrow> (Some r, [])))"

definition resolveReplicaAnnotations :: "platformObject \<Rightarrow> int option \<times> int option \<times> string list" where
  "resolveReplicaAnnotations tenant =
     (let annotations = om_Annotations (po_meta tenant);
          (maasAPIReplicas, w1) = replicaAnnotation annotations AnnotationMaaSAPIReplicas;
          (payloadProcessingReplicas, w2) = replicaAnnotation annotations AnnotationPayloadProcessingReplicas
      in (maasAPIReplicas, payloadProcessingReplicas, w1 @ w2))"

definition validatePayloadProcessingResources ::
  "TenantPayloadProcessingConfig \<Rightarrow> string list \<times> ResourceRequirements option" where
  "validatePayloadProcessingResources cfg =
     (case tenantResourcesToCorev1 (ppc_Resources cfg) of
        None \<Rightarrow> ([], None)
      | Some resources \<Rightarrow>
          if ppc_Autoscaling cfg = None then ([], Some resources)
          else
            (case rq_Requests resources of
               None \<Rightarrow>
                 ([''spec.payloadProcessing.resources.requests is required when autoscaling is enabled; ''
                   @ ''specify both cpu and memory requests or remove spec.payloadProcessing.resources to use manifest defaults''], None)
             | Some requests \<Rightarrow>
                 if map_of requests ''cpu'' = None then
                   ([''spec.payloadProcessing.resources.requests.cpu is required when autoscaling is enabled''], None)
                 else if map_of requests ''memory'' = None then
                   ([''spec.payloadProcessing.resources.requests.memory is required when autoscaling is enabled''], None)
                 else ([], Some resources)))"

record payloadConfig =
  plc_Enabled :: bool
  plc_Replicas :: "int option"
  plc_MaxReplicas :: int
  plc_TargetCPU :: int
  plc_TargetMemory :: int
  plc_Resources :: "ResourceRequirements option"
  plc_Warnings :: "string list"

definition orDefault :: "'a \<Rightarrow> 'a option \<Rightarrow> 'a" where
  "orDefault d x = (case x of None \<Rightarrow> d | Some y \<Rightarrow> y)"

definition resolvePayloadProcessingConfig :: "platformObject \<Rightarrow> payloadConfig" where
  "resolvePayloadProcessingConfig tenant =
     (let off = \<lparr>plc_Enabled = False, plc_Replicas = None, plc_MaxReplicas = defaultMaxReplicas,
                 plc_TargetCPU = defaultTargetCPU, plc_TargetMemory = defaultTargetMemory,
                 plc_Resources = None, plc_Warnings = []\<rparr>
      in case payloadProcessingConfigFor tenant of
           None \<Rightarrow> off
         | Some cfg \<Rightarrow>
             let (warnings, resources) = validatePayloadProcessingResources cfg;
                 fixed = off\<lparr>plc_Replicas := ppc_Replicas cfg, plc_Resources := resources, plc_Warnings := warnings\<rparr>
             in (case ppc_Autoscaling cfg of
                   None \<Rightarrow> fixed
                 | Some a \<Rightarrow>
                     fixed\<lparr>plc_Enabled := True,
                           plc_MaxReplicas := orDefault defaultMaxReplicas (asc_MaxReplicas a),
                           plc_TargetCPU := orDefault defaultTargetCPU (asc_TargetCPUUtilization a),
                           plc_TargetMemory := orDefault defaultTargetMemory (asc_TargetMemoryUtilization a)\<rparr>))"

definition resolveMaasAPIConfig :: "platformObject \<Rightarrow> int option \<times> ResourceRequirements option" where
  "resolveMaasAPIConfig tenant =
     (case maasAPIConfigFor tenant of
        None \<Rightarrow> (None, None)
      | Some cfg \<Rightarrow> (mac_Replicas cfg, tenantResourcesToCorev1 (mac_Resources cfg)))"

definition resolveAPIKeyMaxExpirationDays :: "platformObject \<Rightarrow> string" where
  "resolveAPIKeyMaxExpirationDays tenant =
     (case Option.bind (apiKeysConfigFor tenant) ak_MaxExpirationDays of
        None \<Rightarrow> ''90''
      | Some d \<Rightarrow> itoa d)"

text \<open>The last step of \<open>BuildPlatformParams\<close>: the maximum is raised to the minimum when it is below it.\<close>

definition clampReplicas :: "PlatformParams \<Rightarrow> PlatformParams" where
  "clampReplicas params =
     (case pp_PayloadProcessingReplicas params of
        None \<Rightarrow> params
      | Some n \<Rightarrow>
          if pp_PayloadProcessingAutoscaling params \<and> n > pp_PayloadProcessingMaxReplicas params then
            params\<lparr>pp_Warnings := pp_Warnings params @ [''spec.payloadProcessing.replicas ('' @ itoa n
                     @ '') exceeds spec.payloadProcessing.autoscaling.maxReplicas (''
                     @ itoa (pp_PayloadProcessingMaxReplicas params) @ ''); clamping maxReplicas to match''],
                   pp_PayloadProcessingMaxReplicas := n\<rparr>
          else params)"

definition BuildPlatformParams ::
  "(string \<Rightarrow> string) \<Rightarrow> platformObject \<Rightarrow> PlatformContext \<Rightarrow> string \<Rightarrow> string \<Rightarrow> string \<Rightarrow> string
     \<Rightarrow> PlatformParams ctl" where
  "BuildPlatformParams getenv tenant platformContext appNamespace controllerNamespace clusterAudience monitoringNamespace =
     (case TenantIdentifierFor (Some (po_meta tenant)) of
        Inl e \<Rightarrow> Err (wrapErr ''resolve tenant identifier'' e)
      | Inr tenantID \<Rightarrow>
          let (annotated, payloadAnnotated, annotationWarnings) = resolveReplicaAnnotations tenant;
              (maasAPIReplicas, maasAPIResources) = resolveMaasAPIConfig tenant;
              payload = resolvePayloadProcessingConfig tenant
          in Ok (clampReplicas
               \<lparr>pp_AppNamespace = appNamespace, pp_ControllerNamespace = controllerNamespace,
                pp_GatewayNamespace = gr_Namespace (pc_GatewayRef platformContext),
                pp_GatewayName = gr_Name (pc_GatewayRef platformContext),
                pp_ClusterAudience = clusterAudience,
                pp_SubscriptionNamespace = om_Namespace (po_meta tenant),
                pp_ExternalOIDC = pc_ExternalOIDC platformContext, pp_TenantIdentifier = tenantID,
                pp_MaaSAPIImage =
                  firstNonEmpty [getenv ''RELATED_IMAGE_ODH_MAAS_API_IMAGE'', ''quay.io/opendatahub/maas-api:latest''],
                pp_PayloadProcessingImage =
                  firstNonEmpty [getenv ''RELATED_IMAGE_ODH_AI_GATEWAY_PAYLOAD_PROCESSING_IMAGE'',
                    ''quay.io/opendatahub/odh-ai-gateway-payload-processing:odh-stable''],
                pp_MaaSAPIKeyCleanupImage =
                  firstNonEmpty [getenv ''RELATED_IMAGE_UBI_MINIMAL_IMAGE'', ''registry.redhat.io/ubi9/ubi-minimal:9.7''],
                pp_APIKeyMaxExpirationDays = resolveAPIKeyMaxExpirationDays tenant,
                pp_MaaSAPIReplicas = (case maasAPIReplicas of None \<Rightarrow> annotated | Some n \<Rightarrow> Some n),
                pp_MaaSAPIResources = maasAPIResources,
                pp_PayloadProcessingReplicas =
                  (case plc_Replicas payload of None \<Rightarrow> payloadAnnotated | Some n \<Rightarrow> Some n),
                pp_PayloadProcessingAutoscaling = plc_Enabled payload,
                pp_PayloadProcessingMaxReplicas = plc_MaxReplicas payload,
                pp_PayloadProcessingTargetCPU = plc_TargetCPU payload,
                pp_PayloadProcessingTargetMemory = plc_TargetMemory payload,
                pp_MonitoringNamespace = monitoringNamespace, pp_RouterExtProcFallback = False,
                pp_PayloadProcessingResources = plc_Resources payload,
                pp_Warnings = annotationWarnings @ plc_Warnings payload\<rparr>))"

section \<open>Facts about names and replicas\<close>

lemma parseReplicaAnnotation_bounds: "parseReplicaAnnotation k v = Ok n \<Longrightarrow> 1 \<le> n \<and> n \<le> 100"
  by (auto simp: parseReplicaAnnotation_def Let_def maxReplicaCount_def split: sum.splits if_splits)

lemma replicaAnnotation_bounds: "fst (replicaAnnotation as k) = Some n \<Longrightarrow> 1 \<le> n \<and> n \<le> 100"
  by (auto simp: replicaAnnotation_def parseReplicaAnnotation_bounds split: option.splits sum.splits)

end
