(* ===== verification/PlatformEdits.thy ===== *)
theory PlatformEdits
  imports PlatformParams JsonMatch "HOL-Library.AList"
begin

text \<open>
  Editing rendered objects: the helpers at the end of \<open>params.go\<close>. The functions of
  \<open>unstructured\<close> they use are a parameter (\<open>editApi\<close>); \<open>documentedEdits\<close> says of them what their
  documentation says (\<open>walkEdits\<close> in \<open>PlatformReach\<close> are such functions). An object whose edit failed is
  given up by all callers, so that an edit is a function that returns the new object or an error.
\<close>

section \<open>Functions of \<open>unstructured\<close>\<close>

text \<open>The getters return an error, or the value if there is one.\<close>

record editApi =
  NestedSliceF :: "jmap \<Rightarrow> string list \<Rightarrow> (string, json list option) result"
  NestedStringF :: "jmap \<Rightarrow> string list \<Rightarrow> (string, string option) result"
  NestedBoolF :: "jmap \<Rightarrow> string list \<Rightarrow> (string, bool option) result"
  NestedInt64F :: "jmap \<Rightarrow> string list \<Rightarrow> (string, int option) result"
  NestedStringMapF :: "jmap \<Rightarrow> string list \<Rightarrow> (string, labels option) result"
  SetNestedField :: "jmap \<Rightarrow> json \<Rightarrow> string list \<Rightarrow> (string, jmap) result"
  SetNestedSlice :: "jmap \<Rightarrow> json list \<Rightarrow> string list \<Rightarrow> (string, jmap) result"
  SetNestedStringMap :: "jmap \<Rightarrow> labels \<Rightarrow> string list \<Rightarrow> (string, jmap) result"
  RemoveNestedField :: "jmap \<Rightarrow> string list \<Rightarrow> jmap"

definition jStrings :: "labels \<Rightarrow> json" where
  "jStrings m = JObj (map (\<lambda>(k, v). (k, JStr v)) m)"

text \<open>Two paths neither of which leads into the value of the other.\<close>

definition apart :: "string list \<Rightarrow> string list \<Rightarrow> bool" where
  "apart fs gs \<longleftrightarrow> \<not> prefix fs gs \<and> \<not> prefix gs fs"

text \<open>
  What is documented: a getter gives the value at the path if it has the wanted type; a setter puts
  its value at the path, creating the maps on the way, and touches no other path.
\<close>

definition puts :: "(jmap \<Rightarrow> 'a \<Rightarrow> string list \<Rightarrow> (string, jmap) result) \<Rightarrow> ('a \<Rightarrow> json) \<Rightarrow> bool" where
  "puts f j \<longleftrightarrow>
     (\<forall>m v fs m'. fs \<noteq> [] \<and> f m v fs = Ok m' \<longrightarrow>
        walk (JObj m') fs = Some (j v)
        \<and> (\<forall>gs. apart fs gs \<longrightarrow> walk (JObj m') gs = walk (JObj m) gs))"

definition documentedEdits :: "editApi \<Rightarrow> bool" where
  "documentedEdits a \<longleftrightarrow>
     (\<forall>m fs xs. NestedSliceF a m fs = Ok (Some xs) \<longleftrightarrow> walk (JObj m) fs = Some (JArr xs))
     \<and> (\<forall>m fs s. NestedStringF a m fs = Ok (Some s) \<longleftrightarrow> walk (JObj m) fs = Some (JStr s))
     \<and> (\<forall>m fs xs. NestedStringMapF a m fs = Ok (Some xs) \<longrightarrow> walk (JObj m) fs = Some (jStrings xs))
     \<and> (\<forall>m fs. NestedStringMapF a m fs = Ok None \<longrightarrow> walk (JObj m) fs = None)
     \<and> puts (SetNestedField a) (\<lambda>v. v) \<and> puts (SetNestedSlice a) JArr \<and> puts (SetNestedStringMap a) jStrings
     \<and> (\<forall>m fs gs. apart fs gs \<longrightarrow> walk (JObj (RemoveNestedField a m fs)) gs = walk (JObj m) gs)"

section \<open>Results\<close>

text \<open>\<open>fmt.Errorf("what: %w", err)\<close> of the error of a step, and steps one after the other.\<close>

definition thenR :: "(string, 'a) result \<Rightarrow> ('a \<Rightarrow> (string, 'b) result) \<Rightarrow> (string, 'b) result" where
  "thenR x f = (case x of Inl e \<Rightarrow> Err e | Inr y \<Rightarrow> f y)"

definition namedR :: "string \<Rightarrow> (string, 'a) result \<Rightarrow> (string, 'a) result" where
  "namedR what x = (case x of Inl e \<Rightarrow> Err (what @ '': '' @ e) | Inr y \<Rightarrow> Ok y)"

fun runSteps :: "(string \<times> ('a \<Rightarrow> (string, 'a) result)) list \<Rightarrow> 'a \<Rightarrow> (string, 'a) result" where
  "runSteps [] r = Ok r"
| "runSteps ((what, f) # fs) r = thenR (namedR what (f r)) (runSteps fs)"

text \<open>A loop over the elements of a slice with their index that stops at the first error.\<close>

fun mapR :: "(nat \<Rightarrow> 'a \<Rightarrow> (string, 'b) result) \<Rightarrow> nat \<Rightarrow> 'a list \<Rightarrow> (string, 'b list) result" where
  "mapR f i [] = Ok []"
| "mapR f i (x # xs) = thenR (f i x) (\<lambda>y. thenR (mapR f (Suc i) xs) (\<lambda>ys. Ok (y # ys)))"

text \<open>A loop that changes the first element it finds fit and stops there.\<close>

fun editFirst :: "('a \<Rightarrow> 'a option) \<Rightarrow> 'a list \<Rightarrow> 'a list option" where
  "editFirst f [] = None"
| "editFirst f (x # xs) = (case f x of Some y \<Rightarrow> Some (y # xs) | None \<Rightarrow> map_option ((#) x) (editFirst f xs))"

section \<open>Objects\<close>

definition setFields :: "xobject \<Rightarrow> (string, jmap) result \<Rightarrow> (string, xobject) result" where
  "setFields r res = thenR res (\<lambda>m. Ok (r\<lparr>u_Object := m\<rparr>))"

definition SetName :: "string \<Rightarrow> xobject \<Rightarrow> xobject" where
  "SetName n r = r\<lparr>u_meta := (u_meta r)\<lparr>om_Name := n\<rparr>\<rparr>"
definition SetNamespace :: "string \<Rightarrow> xobject \<Rightarrow> xobject" where
  "SetNamespace n r = r\<lparr>u_meta := (u_meta r)\<lparr>om_Namespace := n\<rparr>\<rparr>"

abbreviation nameOf :: "xobject \<Rightarrow> string" where "nameOf r \<equiv> om_Name (u_meta r)"
abbreviation namespaceOf :: "xobject \<Rightarrow> string" where "namespaceOf r \<equiv> om_Namespace (u_meta r)"

definition setAt :: "editApi \<Rightarrow> json \<Rightarrow> string list \<Rightarrow> xobject \<Rightarrow> (string, xobject) result" where
  "setAt a v fs r = setFields r (SetNestedField a (u_Object r) v fs)"
definition setSlice :: "editApi \<Rightarrow> json list \<Rightarrow> string list \<Rightarrow> xobject \<Rightarrow> (string, xobject) result" where
  "setSlice a vs fs r = setFields r (SetNestedSlice a (u_Object r) vs fs)"
definition setStrings :: "editApi \<Rightarrow> labels \<Rightarrow> string list \<Rightarrow> xobject \<Rightarrow> (string, xobject) result" where
  "setStrings a m fs r = setFields r (SetNestedStringMap a (u_Object r) m fs)"
definition removeAt :: "editApi \<Rightarrow> string list \<Rightarrow> xobject \<Rightarrow> xobject" where
  "removeAt a fs r = r\<lparr>u_Object := RemoveNestedField a (u_Object r) fs\<rparr>"

section \<open>Containers\<close>

definition podContainers :: "string list" where
  "podContainers = [''spec'', ''template'', ''spec'', ''containers'']"
definition cronJobContainers :: "string list" where
  "cronJobContainers = [''spec'', ''jobTemplate'', ''spec'', ''template'', ''spec'', ''containers'']"

text \<open>An element of a list that is a map with this name.\<close>

definition whenNamed :: "string \<Rightarrow> (jmap \<Rightarrow> jmap) \<Rightarrow> json \<Rightarrow> json option" where
  "whenNamed name f v =
     (case asMap v of
        None \<Rightarrow> None
      | Some m \<Rightarrow> if map_of m ''name'' = Some (JStr name) then Some (JObj (f m)) else None)"

definition editContainer ::
  "editApi \<Rightarrow> string list \<Rightarrow> string \<Rightarrow> (jmap \<Rightarrow> jmap) \<Rightarrow> xobject \<Rightarrow> (string, xobject) result" where
  "editContainer a path containerName f r =
     (case NestedSliceF a (u_Object r) path of
        Inr (Some containers) \<Rightarrow>
          (case editFirst (whenNamed containerName f) containers of
             Some cs \<Rightarrow> setSlice a cs path r
           | None \<Rightarrow> Err (''container '' @ Quote containerName @ '' not found''))
      | _ \<Rightarrow> Err ''containers not found'')"

definition setContainerImage :: "editApi \<Rightarrow> string \<Rightarrow> string \<Rightarrow> xobject \<Rightarrow> (string, xobject) result" where
  "setContainerImage a containerName img =
     editContainer a podContainers containerName (AList.update ''image'' (JStr img))"

definition setCronJobContainerImage :: "editApi \<Rightarrow> string \<Rightarrow> string \<Rightarrow> xobject \<Rightarrow> (string, xobject) result" where
  "setCronJobContainerImage a containerName img =
     editContainer a cronJobContainers containerName (AList.update ''image'' (JStr img))"

definition resourceMap :: "ResourceRequirements \<Rightarrow> jmap" where
  "resourceMap res =
     (case rq_Requests res of None \<Rightarrow> [] | Some m \<Rightarrow> [(''requests'', jStrings m)])
     @ (case rq_Limits res of None \<Rightarrow> [] | Some m \<Rightarrow> [(''limits'', jStrings m)])"

definition setContainerResources ::
  "editApi \<Rightarrow> string \<Rightarrow> ResourceRequirements \<Rightarrow> xobject \<Rightarrow> (string, xobject) result" where
  "setContainerResources a containerName res r =
     (if rq_Claims res \<noteq> [] then Err ''resource claims are not supported''
      else editContainer a podContainers containerName (AList.update ''resources'' (JObj (resourceMap res))) r)"

text \<open>\<open>m[key].([]any)\<close> with the second result discarded.\<close>

definition sliceOf :: "jmap \<Rightarrow> string \<Rightarrow> json list" where
  "sliceOf m key = (case fieldAs asSlice m key of None \<Rightarrow> [] | Some xs \<Rightarrow> xs)"

definition withArg :: "string \<Rightarrow> json list \<Rightarrow> json list" where
  "withArg arg args =
     (let p = takeWhile (\<lambda>ch. ch \<noteq> CHR ''='') arg;
          f = (\<lambda>v. case asString v of
                 None \<Rightarrow> None
               | Some s \<Rightarrow> if s = p \<or> HasPrefix s (p @ ''='') then Some (JStr arg) else None)
      in case editFirst f args of Some args' \<Rightarrow> args' | None \<Rightarrow> args @ [JStr arg])"

definition setContainerArg :: "editApi \<Rightarrow> string \<Rightarrow> string \<Rightarrow> xobject \<Rightarrow> (string, xobject) result" where
  "setContainerArg a containerName arg =
     editContainer a podContainers containerName (\<lambda>m. AList.update ''args'' (JArr (withArg arg (sliceOf m ''args''))) m)"

definition withEnv :: "string \<Rightarrow> string \<Rightarrow> json list \<Rightarrow> json list" where
  "withEnv envName envValue env =
     (case editFirst (whenNamed envName (\<lambda>m. AList.delete ''valueFrom'' (AList.update ''value'' (JStr envValue) m))) env of
        Some env' \<Rightarrow> env'
      | None \<Rightarrow> env @ [JObj [(''name'', JStr envName), (''value'', JStr envValue)]])"

definition setOrAddEnvVar :: "editApi \<Rightarrow> string \<Rightarrow> string \<Rightarrow> string \<Rightarrow> xobject \<Rightarrow> (string, xobject) result" where
  "setOrAddEnvVar a containerName envName envValue =
     editContainer a podContainers containerName
       (\<lambda>m. AList.update ''env'' (JArr (withEnv envName envValue (sliceOf m ''env''))) m)"

section \<open>Labels, selectors and volumes\<close>

definition addLabelAt ::
  "editApi \<Rightarrow> string \<Rightarrow> string list \<Rightarrow> string \<Rightarrow> string \<Rightarrow> xobject \<Rightarrow> (string, xobject) result" where
  "addLabelAt a what path key val r =
     thenR (namedR what (NestedStringMapF a (u_Object r) path))
       (\<lambda>ls. setStrings a (AList.update key val (case ls of None \<Rightarrow> [] | Some m \<Rightarrow> m)) path r)"

definition addPodTemplateLabel :: "editApi \<Rightarrow> string \<Rightarrow> string \<Rightarrow> xobject \<Rightarrow> (string, xobject) result" where
  "addPodTemplateLabel a =
     addLabelAt a ''read pod template labels'' [''spec'', ''template'', ''metadata'', ''labels'']"

definition addServiceSelectorLabel :: "editApi \<Rightarrow> string \<Rightarrow> string \<Rightarrow> xobject \<Rightarrow> (string, xobject) result" where
  "addServiceSelectorLabel a = addLabelAt a ''read service selector'' [''spec'', ''selector'']"

definition setDeploymentSelectorMatchLabels :: "editApi \<Rightarrow> labels \<Rightarrow> xobject \<Rightarrow> (string, xobject) result" where
  "setDeploymentSelectorMatchLabels a ls = setStrings a ls [''spec'', ''selector'', ''matchLabels'']"

definition setServiceSelectorMatchLabels :: "editApi \<Rightarrow> labels \<Rightarrow> xobject \<Rightarrow> (string, xobject) result" where
  "setServiceSelectorMatchLabels a ls = setStrings a ls [''spec'', ''selector'']"

definition patchDeploymentServiceAccountName :: "editApi \<Rightarrow> string \<Rightarrow> xobject \<Rightarrow> (string, xobject) result" where
  "patchDeploymentServiceAccountName a name =
     setAt a (JStr name) [''spec'', ''template'', ''spec'', ''serviceAccountName'']"

definition podVolumes :: "string list" where
  "podVolumes = [''spec'', ''template'', ''spec'', ''volumes'']"

text \<open>The first volume of this name, set at a path; the loops stop there, with the error if that fails.\<close>

fun setVolume :: "editApi \<Rightarrow> string \<Rightarrow> string \<Rightarrow> string list \<Rightarrow> json list \<Rightarrow> (string, json list) result option" where
  "setVolume a name val path [] = None"
| "setVolume a name val path (v # vs) =
     (let later = map_option (\<lambda>res. thenR res (\<lambda>vs'. Ok (v # vs'))) (setVolume a name val path vs)
      in case asMap v of
           None \<Rightarrow> later
         | Some m \<Rightarrow>
             if (case NestedStringF a m [''name''] of Inr (Some s) \<Rightarrow> s | _ \<Rightarrow> []) = name then
               Some (thenR (SetNestedField a m (JStr val) path) (\<lambda>m'. Ok (JObj m' # vs)))
             else later)"

definition patchConfigMapVolumeRef :: "editApi \<Rightarrow> string \<Rightarrow> string \<Rightarrow> xobject \<Rightarrow> (string, xobject) result" where
  "patchConfigMapVolumeRef a volumeName configMapName r =
     thenR (namedR ''read pod volumes'' (NestedSliceF a (u_Object r) podVolumes)) (\<lambda>found.
       case Option.bind found (setVolume a volumeName configMapName [''configMap'', ''name'']) of
         None \<Rightarrow> Ok r
       | Some res \<Rightarrow>
           thenR (namedR (''write volume '' @ Quote volumeName @ '' configMap name'') res)
             (\<lambda>vs. setSlice a vs podVolumes r))"

section \<open>Facts about results\<close>

lemma thenR_Ok [simp]: "thenR x f = Ok z \<longleftrightarrow> (\<exists>y. x = Ok y \<and> f y = Ok z)"
  by (cases x) (auto simp: thenR_def)

lemma namedR_Ok [simp]: "namedR w x = Ok z \<longleftrightarrow> x = Ok z"
  by (cases x) (auto simp: namedR_def)

lemma setFields_Ok [simp]: "setFields r res = Ok r' \<longleftrightarrow> (\<exists>m. res = Ok m \<and> r' = r\<lparr>u_Object := m\<rparr>)"
  by (auto simp: setFields_def)

end
