(* ===== verification/PlatformPatch.thy ===== *)
theory PlatformPatch
  imports PlatformEdits
begin

text \<open>
  What is written into the objects of the platform manifests: \<open>applyPlatformParams\<close> and the \<open>patch...\<close>
  functions of \<open>params.go\<close>, one definition each.
\<close>

section \<open>The API server of a tenant\<close>

definition optionalStep ::
  "string \<Rightarrow> ('v \<Rightarrow> xobject \<Rightarrow> (string, xobject) result) \<Rightarrow> 'v option
     \<Rightarrow> (string \<times> (xobject \<Rightarrow> (string, xobject) result)) list" where
  "optionalStep what f v = (case v of None \<Rightarrow> [] | Some x \<Rightarrow> [(what, f x)])"

definition envStep :: "editApi \<Rightarrow> string \<Rightarrow> string \<Rightarrow> string \<Rightarrow> string \<times> (xobject \<Rightarrow> (string, xobject) result)" where
  "envStep a containerName envName envValue = (''patch '' @ envName, setOrAddEnvVar a containerName envName envValue)"

text \<open>\<open>TENANT_NAME\<close>: the identifier, or the name of the default tenant.\<close>

definition tenantEnvName :: "PlatformParams \<Rightarrow> string" where
  "tenantEnvName params =
     (if pp_TenantIdentifier params = [] then ''models-as-a-service'' else pp_TenantIdentifier params)"

definition patchMaaSAPIDeployment :: "editApi \<Rightarrow> PlatformParams \<Rightarrow> xobject \<Rightarrow> (string, xobject) result" where
  "patchMaaSAPIDeployment a params =
     runSteps
       (optionalStep ''patch maas-api replicas'' (\<lambda>n. setAt a (JInt n) [''spec'', ''replicas'']) (pp_MaaSAPIReplicas params)
        @ [(''patch maas-api image'', setContainerImage a ''maas-api'' (pp_MaaSAPIImage params)),
           envStep a ''maas-api'' ''GATEWAY_NAMESPACE'' (pp_GatewayNamespace params),
           envStep a ''maas-api'' ''GATEWAY_NAME'' (pp_GatewayName params),
           envStep a ''maas-api'' ''MAAS_SUBSCRIPTION_NAMESPACE'' (pp_SubscriptionNamespace params),
           envStep a ''maas-api'' ''API_KEY_MAX_EXPIRATION_DAYS'' (pp_APIKeyMaxExpirationDays params)]
        @ optionalStep ''patch maas-api resources'' (setContainerResources a ''maas-api'') (pp_MaaSAPIResources params)
        @ [envStep a ''maas-api'' ''TENANT_NAME'' (tenantEnvName params),
           (''patch tenant-instance label'',
            addPodTemplateLabel a LabelTenantInstance (MaaSAPIDeploymentName (pp_TenantIdentifier params)))])"

definition patchMaaSAPIService :: "editApi \<Rightarrow> PlatformParams \<Rightarrow> xobject \<Rightarrow> (string, xobject) result" where
  "patchMaaSAPIService a params r =
     namedR ''patch tenant-instance selector''
       (addServiceSelectorLabel a LabelTenantInstance (MaaSAPIDeploymentName (pp_TenantIdentifier params)) r)"

definition patchMaaSAPIServingCert :: "editApi \<Rightarrow> PlatformParams \<Rightarrow> xobject \<Rightarrow> (string, xobject) result" where
  "patchMaaSAPIServingCert a params r =
     (let tenantID = pp_TenantIdentifier params;
          certName = MaaSAPIServingCertName tenantID;
          at = MaaSAPIServiceName tenantID @ ''.'' @ pp_AppNamespace params
      in runSteps
           [(''patch Certificate secretName'', setAt a (JStr certName) [''spec'', ''secretName'']),
            (''patch Certificate dnsNames'',
             setSlice a [JStr (at @ ''.svc''), JStr (at @ ''.svc.cluster.local'')] [''spec'', ''dnsNames''])]
           (SetName certName r))"

text \<open>The commands of the container, with the address of the service of the tenant in them.\<close>

definition tenantCommand :: "string \<Rightarrow> json \<Rightarrow> json" where
  "tenantCommand service v =
     (case asString v of None \<Rightarrow> v | Some s \<Rightarrow> JStr (replaceStr ''maas-api:8443'' (service @ '':8443'') s))"

definition patchCleanupCronJobImage :: "editApi \<Rightarrow> PlatformParams \<Rightarrow> xobject \<Rightarrow> (string, xobject) result" where
  "patchCleanupCronJobImage a params r =
     thenR (namedR ''patch cleanup CronJob image''
             (setCronJobContainerImage a ''cleanup'' (pp_MaaSAPIKeyCleanupImage params) r)) (\<lambda>r.
     thenR (namedR ''read cleanup CronJob containers'' (NestedSliceF a (u_Object r) cronJobContainers)) (\<lambda>found.
       case found of
         Some (v # containers) \<Rightarrow>
           (case asMap v of
              None \<Rightarrow> Err ''cleanup CronJob container is not a map''
            | Some container \<Rightarrow>
                let command = sliceOf container ''command'';
                    hit = (\<lambda>c. case asString c of None \<Rightarrow> False | Some s \<Rightarrow> sublist ''maas-api:8443'' s)
                in if list_ex hit command then
                     namedR ''write cleanup CronJob containers''
                       (setSlice a
                         (JObj (AList.update ''command''
                            (JArr (map (tenantCommand (MaaSAPIServiceName (pp_TenantIdentifier params))) command))
                            container) # containers) cronJobContainers r)
                   else Ok r)
       | _ \<Rightarrow> Ok r))"

section \<open>Routes\<close>

text \<open>The first parent reference of a route, made one to the gateway.\<close>

definition toGateway :: "string \<Rightarrow> string \<Rightarrow> jmap \<Rightarrow> jmap" where
  "toGateway ns name ref = AList.update ''name'' (JStr name) (AList.update ''namespace'' (JStr ns) ref)"

definition rewriteBackend :: "string \<Rightarrow> nat \<Rightarrow> nat \<Rightarrow> json \<Rightarrow> (string, json) result" where
  "rewriteBackend service i j v =
     (case asMap v of
        None \<Rightarrow> Err (''HTTPRoute rule['' @ itoaNat i @ ''] backendRef['' @ itoaNat j @ ''] is not an object'')
      | Some m \<Rightarrow>
          Ok (JObj (if map_of m ''name'' = Some (JStr ''maas-api'') then AList.update ''name'' (JStr service) m else m)))"

definition rewriteRule :: "editApi \<Rightarrow> string \<Rightarrow> nat \<Rightarrow> json \<Rightarrow> (string, json) result" where
  "rewriteRule a service i v =
     (let rule = ''HTTPRoute rule['' @ itoaNat i @ '']'';
          hit = (\<lambda>b. case asMap b of None \<Rightarrow> False | Some m \<Rightarrow> map_of m ''name'' = Some (JStr ''maas-api''))
      in case asMap v of
           None \<Rightarrow> Err (rule @ '' is not an object'')
         | Some m \<Rightarrow>
             thenR (namedR (''read '' @ rule @ '' backendRefs'') (NestedSliceF a m [''backendRefs''])) (\<lambda>found.
               case found of
                 None \<Rightarrow> Err (rule @ '' has no backendRefs'')
               | Some backendRefs \<Rightarrow>
                   thenR (mapR (rewriteBackend service i) 0 backendRefs) (\<lambda>rewritten.
                     if \<not> list_ex hit backendRefs then
                       Err (rule @ '' has no '' @ Quote ''maas-api'' @ '' backendRef to rewrite'')
                     else
                       thenR (namedR (''write '' @ rule @ '' backendRefs'') (SetNestedSlice a m rewritten [''backendRefs'']))
                         (\<lambda>m'. Ok (JObj m')))))"

definition patchHTTPRoute :: "editApi \<Rightarrow> PlatformParams \<Rightarrow> xobject \<Rightarrow> (string, xobject) result" where
  "patchHTTPRoute a params r =
     thenR (namedR ''read HTTPRoute parentRefs'' (NestedSliceF a (u_Object r) [''spec'', ''parentRefs''])) (\<lambda>found.
       case found of
         Some (v # parentRefs) \<Rightarrow>
           (case asMap v of
              None \<Rightarrow> Err ''HTTPRoute parentRefs[0] is not an object''
            | Some ref \<Rightarrow>
                thenR (namedR ''write HTTPRoute parentRefs''
                  (setSlice a (JObj (toGateway (pp_GatewayNamespace params) (pp_GatewayName params) ref) # parentRefs)
                     [''spec'', ''parentRefs''] r)) (\<lambda>r.
                thenR (namedR ''read HTTPRoute rules'' (NestedSliceF a (u_Object r) [''spec'', ''rules''])) (\<lambda>found.
                  case found of
                    None \<Rightarrow> Err ''HTTPRoute rules not found''
                  | Some rules \<Rightarrow>
                      thenR (mapR (rewriteRule a (MaaSAPIServiceName (pp_TenantIdentifier params))) 0 rules) (\<lambda>rules'.
                      namedR ''write HTTPRoute rules'' (setSlice a rules' [''spec'', ''rules''] r)))))
       | _ \<Rightarrow> Err ''HTTPRoute parentRefs not found'')"

section \<open>Destination rules\<close>

definition patchMaaSAPIDestinationRule :: "editApi \<Rightarrow> PlatformParams \<Rightarrow> xobject \<Rightarrow> (string, xobject) result" where
  "patchMaaSAPIDestinationRule a params r0 =
     (let r = SetNamespace (pp_GatewayNamespace params) r0
      in thenR (namedR ''read maas-api DestinationRule host'' (NestedStringF a (u_Object r) [''spec'', ''host''])) (\<lambda>found.
         case found of
           None \<Rightarrow> Err ''maas-api DestinationRule host not found''
         | Some host \<Rightarrow>
             if host \<noteq> [] then
               namedR ''write maas-api DestinationRule host''
                 (setAt a (JStr (MaaSAPIServiceName (pp_TenantIdentifier params) @ ''.'' @ pp_AppNamespace params
                    @ ''.svc.cluster.local'')) [''spec'', ''host''] r)
             else Ok r))"

definition patchPayloadDestinationRule :: "editApi \<Rightarrow> PlatformParams \<Rightarrow> xobject \<Rightarrow> (string, xobject) result" where
  "patchPayloadDestinationRule a params r0 =
     (let name = nameOf r0;
          r = SetNamespace (pp_GatewayNamespace params) r0;
          newHost = name @ ''.'' @ pp_GatewayNamespace params @ ''.svc.cluster.local''
      in thenR (namedR (''read '' @ name @ '' DestinationRule host'') (NestedStringF a (u_Object r) [''spec'', ''host'']))
           (\<lambda>found.
             if found \<noteq> None \<and> found \<noteq> Some newHost then
               namedR (''write '' @ name @ '' DestinationRule host'') (setAt a (JStr newHost) [''spec'', ''host''] r)
             else Ok r))"

section \<open>Payload processing\<close>

definition payloadProcessingOTLPEndpoint :: "string \<Rightarrow> string" where
  "payloadProcessingOTLPEndpoint monitoringNamespace =
     (if monitoringNamespace = [] then []
      else ''http://data-science-collector-collector.'' @ monitoringNamespace @ ''.svc:4317'')"

definition patchPayloadProcessingTracing :: "editApi \<Rightarrow> PlatformParams \<Rightarrow> xobject \<Rightarrow> (string, xobject) result" where
  "patchPayloadProcessingTracing a params r =
     (if pp_MonitoringNamespace params = [] then setContainerArg a ''payload-processing'' ''--tracing=false'' r
      else
        let endpoint = payloadProcessingOTLPEndpoint (pp_MonitoringNamespace params)
        in runSteps
             [(''set --tracing=true'', setContainerArg a ''payload-processing'' ''--tracing=true''),
              envStep a ''payload-processing'' ''OTEL_EXPORTER_OTLP_TRACES_ENDPOINT'' endpoint,
              envStep a ''payload-processing'' ''OTEL_EXPORTER_OTLP_ENDPOINT'' endpoint,
              envStep a ''payload-processing'' ''OTEL_TRACES_SAMPLER'' ''parentbased_traceidratio'',
              envStep a ''payload-processing'' ''OTEL_TRACES_SAMPLER_ARG'' ''1.0''] r)"

definition patchIPPDeploymentSelector ::
  "editApi \<Rightarrow> string \<Rightarrow> string \<Rightarrow> string \<Rightarrow> xobject \<Rightarrow> (string, xobject) result" where
  "patchIPPDeploymentSelector a tenantID appLabel deploymentName r =
     (if tenantID = [] then Ok r
      else setDeploymentSelectorMatchLabels a [(''app'', appLabel), (LabelTenantInstance, deploymentName)] r)"

text \<open>The steps that both payload deployments share.\<close>

definition ippSteps ::
  "editApi \<Rightarrow> string \<Rightarrow> string \<Rightarrow> string \<Rightarrow> (string \<times> (xobject \<Rightarrow> (string, xobject) result)) list" where
  "ippSteps a tenantID appLabel deploymentName =
     [(''patch tenant-instance label'', addPodTemplateLabel a LabelTenantInstance deploymentName),
      (''patch deployment selector'', patchIPPDeploymentSelector a tenantID appLabel deploymentName),
      (''patch serviceAccountName'', patchDeploymentServiceAccountName a (PayloadProcessingServiceAccountName tenantID)),
      (''patch plugins ConfigMap volume'',
       patchConfigMapVolumeRef a ''plugins-config-volume'' (PayloadProcessingPluginsConfigMapForTenant tenantID))]"

definition patchPayloadProcessingDeployment :: "editApi \<Rightarrow> PlatformParams \<Rightarrow> xobject \<Rightarrow> (string, xobject) result" where
  "patchPayloadProcessingDeployment a params r =
     (let tenantID = pp_TenantIdentifier params; name = ''payload-processing''
      in runSteps
           ((if pp_PayloadProcessingAutoscaling params then [([], \<lambda>r. Ok (removeAt a [''spec'', ''replicas''] r))]
             else optionalStep ''patch payload-processing replicas'' (\<lambda>n. setAt a (JInt n) [''spec'', ''replicas''])
                    (pp_PayloadProcessingReplicas params))
            @ [(''patch payload-processing image'', setContainerImage a name (pp_PayloadProcessingImage params)),
               envStep a name ''GATEWAY_NAMESPACE'' (pp_GatewayNamespace params),
               envStep a name ''GATEWAY_NAME'' (pp_GatewayName params),
               envStep a name ''TENANT_NAMESPACE'' (pp_SubscriptionNamespace params)]
            @ (if tenantID \<noteq> [] then [envStep a name ''DISABLE_EXTERNAL_MODEL_CONTROLLER'' ''true''] else [])
            @ ippSteps a tenantID PayloadProcessingName (PayloadProcessingDeploymentName tenantID)
            @ [(''patch payload-processing tracing'', patchPayloadProcessingTracing a params)]
            @ optionalStep ''patch payload-processing resources'' (setContainerResources a name)
                (pp_PayloadProcessingResources params))
           (SetNamespace (pp_GatewayNamespace params) r))"

definition patchPreProcessingDeployment :: "editApi \<Rightarrow> PlatformParams \<Rightarrow> xobject \<Rightarrow> (string, xobject) result" where
  "patchPreProcessingDeployment a params r =
     (let tenantID = pp_TenantIdentifier params
      in runSteps
           ((if pp_PayloadProcessingImage params \<noteq> [] then
               [(''patch payload-pre-processing image'',
                 setContainerImage a PayloadPreProcessingName (pp_PayloadProcessingImage params))]
             else [])
            @ ippSteps a tenantID PayloadPreProcessingName (PayloadPreProcessingDeploymentName tenantID))
           (SetNamespace (pp_GatewayNamespace params) r))"

definition patchPayloadProcessingService :: "editApi \<Rightarrow> PlatformParams \<Rightarrow> xobject \<Rightarrow> (string, xobject) result" where
  "patchPayloadProcessingService a params r =
     namedR ''patch payload-processing service selector''
       (setServiceSelectorMatchLabels a
         [(''app'', PayloadProcessingName),
          (LabelTenantInstance, PayloadProcessingDeploymentName (pp_TenantIdentifier params))]
         (SetNamespace (pp_GatewayNamespace params) r))"

definition patchPayloadPreProcessingService :: "editApi \<Rightarrow> PlatformParams \<Rightarrow> xobject \<Rightarrow> (string, xobject) result" where
  "patchPayloadPreProcessingService a params r =
     namedR ''patch payload-pre-processing service selector''
       (setServiceSelectorMatchLabels a
         [(''app'', PayloadPreProcessingName),
          (LabelTenantInstance, PayloadPreProcessingDeploymentName (pp_TenantIdentifier params))]
         (SetNamespace (pp_GatewayNamespace params) r))"

definition patchPayloadProcessingClusterRoleBinding ::
  "editApi \<Rightarrow> PlatformParams \<Rightarrow> xobject \<Rightarrow> (string, xobject) result" where
  "patchPayloadProcessingClusterRoleBinding a params r =
     thenR (namedR ''read ClusterRoleBinding subjects'' (NestedSliceF a (u_Object r) [''subjects''])) (\<lambda>found.
       case found of
         Some (v # subjects) \<Rightarrow>
           (case asMap v of
              None \<Rightarrow> Err ''ClusterRoleBinding subjects[0] is not an object''
            | Some subj \<Rightarrow>
                namedR ''write ClusterRoleBinding subjects''
                  (setSlice a
                    (JObj (AList.update ''name'' (JStr (PayloadProcessingServiceAccountName (pp_TenantIdentifier params)))
                       (AList.update ''namespace'' (JStr (pp_GatewayNamespace params)) subj)) # subjects)
                    [''subjects''] r))
       | _ \<Rightarrow> Err ''ClusterRoleBinding subjects not found'')"

section \<open>Network policies\<close>

definition matchNamespace :: "string \<Rightarrow> jmap \<Rightarrow> jmap" where
  "matchNamespace ns =
     AList.update ''matchLabels'' (JObj [(''kubernetes.io/metadata.name'', JStr ns)])"

text \<open>The first peer of the first rule, if they have the wanted shape.\<close>

definition deploymentNSRule :: "string \<Rightarrow> json \<Rightarrow> json option" where
  "deploymentNSRule controllerNamespace v =
     Option.bind (asMap v) (\<lambda>rule.
       case fieldAs asSlice rule ''from'' of
         Some (p # peers) \<Rightarrow>
           Option.bind (asMap p) (\<lambda>peer.
           Option.bind (fieldAs asMap peer ''namespaceSelector'') (\<lambda>nsSelector.
             Some (JObj (AList.update ''from''
               (JArr (JObj (AList.update ''namespaceSelector'' (JObj (matchNamespace controllerNamespace nsSelector)) peer)
                  # peers)) rule))))
       | _ \<Rightarrow> None)"

definition patchDeploymentNSNetworkPolicy :: "editApi \<Rightarrow> string \<Rightarrow> xobject \<Rightarrow> (string, xobject) result" where
  "patchDeploymentNSNetworkPolicy a controllerNamespace r =
     (if controllerNamespace = [] then Ok r
      else
        thenR (NestedSliceF a (u_Object r) [''spec'', ''ingress'']) (\<lambda>found.
          case found of
            Some (v # ingress) \<Rightarrow>
              (case deploymentNSRule controllerNamespace v of
                 None \<Rightarrow> Ok r
               | Some v' \<Rightarrow> setSlice a (v' # ingress) [''spec'', ''ingress''] r)
          | _ \<Rightarrow> Ok r))"

fun nestedPortNumber :: "json \<Rightarrow> int option" where
  "nestedPortNumber (JInt n) = Some n"
| "nestedPortNumber (JFloat t) = intText t"
| "nestedPortNumber _ = None"

definition otlpCollectorPeerMatchLabels :: json where
  "otlpCollectorPeerMatchLabels =
     JObj [(''app.kubernetes.io/name'', JStr ''data-science-collector-collector''),
           (''app.kubernetes.io/component'', JStr ''opentelemetry-collector'')]"

definition isOTLPPort :: "json \<Rightarrow> bool" where
  "isOTLPPort v =
     (case asMap v of
        None \<Rightarrow> False
      | Some m \<Rightarrow> Option.bind (map_of m ''port'') nestedPortNumber = Some 4317)"

definition otlpRule :: "string \<Rightarrow> json \<Rightarrow> json option" where
  "otlpRule monitoringNamespace v =
     Option.bind (asMap v) (\<lambda>rule.
       if \<not> list_ex isOTLPPort (sliceOf rule ''ports'') then None
       else
         (case fieldAs asSlice rule ''to'' of
            Some (p # peers) \<Rightarrow>
              Option.bind (asMap p) (\<lambda>peer.
                let nsSelector = orDefault [] (fieldAs asMap peer ''namespaceSelector'');
                    peer1 = AList.update ''namespaceSelector'' (JObj (matchNamespace monitoringNamespace nsSelector)) peer;
                    peer2 = AList.update ''podSelector'' (JObj [(''matchLabels'', otlpCollectorPeerMatchLabels)]) peer1
                in Some (JObj (AList.update ''to'' (JArr (JObj peer2 # peers)) rule)))
          | _ \<Rightarrow> None))"

definition patchNetworkPolicyOTLPEgress :: "editApi \<Rightarrow> string \<Rightarrow> xobject \<Rightarrow> (string, xobject) result" where
  "patchNetworkPolicyOTLPEgress a monitoringNamespace r =
     (if monitoringNamespace = [] then Ok r
      else
        thenR (namedR ''read NetworkPolicy egress'' (NestedSliceF a (u_Object r) [''spec'', ''egress''])) (\<lambda>found.
          case found of
            None \<Rightarrow> Err ''NetworkPolicy egress rules not found''
          | Some egress \<Rightarrow>
              (case editFirst (otlpRule monitoringNamespace) egress of
                 None \<Rightarrow> Err ''NetworkPolicy missing OTLP egress rule for port 4317''
               | Some egress' \<Rightarrow> setSlice a egress' [''spec'', ''egress''] r)))"

definition patchPayloadProcessingNetworkPolicy :: "editApi \<Rightarrow> PlatformParams \<Rightarrow> xobject \<Rightarrow> (string, xobject) result" where
  "patchPayloadProcessingNetworkPolicy a params r =
     (let tenantID = pp_TenantIdentifier params;
          instances = JArr [JStr (PayloadProcessingDeploymentName tenantID), JStr (PayloadPreProcessingDeploymentName tenantID)]
      in runSteps
           [(''write NetworkPolicy podSelector'',
             setAt a (JObj [(''matchExpressions'',
               JArr [JObj [(''key'', JStr LabelTenantInstance), (''operator'', JStr ''In''), (''values'', instances)]])])
               [''spec'', ''podSelector'']),
            (''patch OTLP egress namespace'', patchNetworkPolicyOTLPEgress a (pp_MonitoringNamespace params))]
           (SetNamespace (pp_GatewayNamespace params) r))"

section \<open>The Envoy filter\<close>

definition wasmpluginAnchorName :: "string \<Rightarrow> string \<Rightarrow> string" where
  "wasmpluginAnchorName gatewayNamespace gatewayName =
     ''extensions.istio.io/wasmplugin/'' @ gatewayNamespace @ ''.kuadrant-'' @ gatewayName"

definition grpcClusterName :: "string \<Rightarrow> string \<Rightarrow> nat \<Rightarrow> string" where
  "grpcClusterName service ns port =
     ''outbound|'' @ itoaNat port @ ''||'' @ service @ ''.'' @ ns @ ''.svc.cluster.local''"

definition wasmFilterPatchCount :: nat where "wasmFilterPatchCount = 4"
definition routerFallbackPatchCount :: nat where "routerFallbackPatchCount = 2"
definition routeDisablePatchCount :: nat where "routeDisablePatchCount = 5"

definition notAnObject :: "nat \<Rightarrow> string" where
  "notAnObject i = ''EnvoyFilter configPatches['' @ itoaNat i @ ''] is not an object''"

text \<open>The filter before or after which a patch inserts, and the cluster it calls.\<close>

definition patchFilter ::
  "editApi \<Rightarrow> string list \<Rightarrow> string list \<Rightarrow> nat \<Rightarrow> json \<Rightarrow> (string, json) result" where
  "patchFilter a subFilters clusters i v =
     (let at = ''write configPatches['' @ itoaNat i @ '']''
      in case asMap v of
           None \<Rightarrow> Err (notAnObject i)
         | Some patch \<Rightarrow>
             thenR (namedR (at @ '' subFilter.name'') (SetNestedField a patch (JStr (subFilters ! i))
               [''match'', ''listener'', ''filterChain'', ''filter'', ''subFilter'', ''name''])) (\<lambda>patch.
             thenR (namedR (at @ '' grpc cluster_name'') (SetNestedField a patch (JStr (clusters ! i))
               [''patch'', ''value'', ''typed_config'', ''grpc_service'', ''envoy_grpc'', ''cluster_name''])) (\<lambda>patch.
             Ok (JObj patch))))"

text \<open>The route on which a patch turns the filters off; \<open>base\<close> is the index of the first such patch.\<close>

definition patchRoute :: "editApi \<Rightarrow> PlatformParams \<Rightarrow> nat \<Rightarrow> nat \<Rightarrow> json \<Rightarrow> (string, json) result" where
  "patchRoute a params base i v =
     (case asMap v of
        None \<Rightarrow> Err (notAnObject i)
      | Some patch \<Rightarrow>
          thenR (namedR (''write configPatches['' @ itoaNat i @ ''] route name'') (SetNestedField a patch
            (JStr (pp_AppNamespace params @ ''.'' @ MaaSAPIRouteName (pp_TenantIdentifier params) @ ''.'' @ itoaNat (i - base)))
            [''match'', ''routeConfiguration'', ''vhost'', ''route'', ''name''])) (\<lambda>patch. Ok (JObj patch)))"

definition patchConfigPatches :: "editApi \<Rightarrow> PlatformParams \<Rightarrow> json list \<Rightarrow> (string, json list) result" where
  "patchConfigPatches a params all =
     (let tenantID = pp_TenantIdentifier params; gwNs = pp_GatewayNamespace params;
          fallback = pp_RouterExtProcFallback params;
          anchorName = wasmpluginAnchorName gwNs (pp_GatewayName params);
          before = grpcClusterName (PayloadPreProcessingDeploymentName tenantID) gwNs 9004;
          after = grpcClusterName (PayloadProcessingDeploymentName tenantID) gwNs 9004;
          clusters = [before, after, before, after, before, after];
          routerEnd = wasmFilterPatchCount + routerFallbackPatchCount;
          minPatchCount = routerEnd + routeDisablePatchCount;
          expected = ''EnvoyFilter configPatches: expected ''
      in if List.length all < minPatchCount then
           Err (expected @ ''at least '' @ itoaNat minPatchCount @ '' entries, got '' @ itoaNat (List.length all))
         else
           let patches = (if fallback then drop wasmFilterPatchCount all
                          else take wasmFilterPatchCount all @ drop routerEnd all);
               n = List.length patches - routeDisablePatchCount;
               finish = (\<lambda>subFilters.
                 thenR (mapR (patchFilter a subFilters clusters) 0 (take n patches)) (\<lambda>filters.
                 thenR (mapR (patchRoute a params n) n (drop n patches)) (\<lambda>routes. Ok (filters @ routes))))
           in if fallback then
                if n \<noteq> routerFallbackPatchCount then
                  Err (expected @ itoaNat routerFallbackPatchCount @ '' router filter patches, got '' @ itoaNat n)
                else finish [''envoy.filters.http.router'', ''envoy.filters.http.router'']
              else if n = wasmFilterPatchCount then
                finish [anchorName, anchorName, ''envoy.filters.http.wasm'', ''envoy.filters.http.wasm'']
              else
                Err (expected @ itoaNat wasmFilterPatchCount @ '' wasm or '' @ itoaNat routerFallbackPatchCount
                  @ '' router filter patches, got '' @ itoaNat n))"

definition patchPayloadProcessingEnvoyFilter :: "editApi \<Rightarrow> PlatformParams \<Rightarrow> xobject \<Rightarrow> (string, xobject) result" where
  "patchPayloadProcessingEnvoyFilter a params r =
     thenR (runSteps
       [(''write EnvoyFilter priority'', setAt a (JInt 10) [''spec'', ''priority'']),
        (''write EnvoyFilter workloadSelector'',
         setStrings a [(''gateway.networking.k8s.io/gateway-name'', pp_GatewayName params)]
           [''spec'', ''workloadSelector'', ''labels''])]
       (SetNamespace (pp_GatewayNamespace params) r)) (\<lambda>r.
     let r = removeAt a [''spec'', ''targetRef''] (removeAt a [''spec'', ''targetRefs''] r)
     in thenR (namedR ''read EnvoyFilter configPatches'' (NestedSliceF a (u_Object r) [''spec'', ''configPatches''])) (\<lambda>found.
        case found of
          None \<Rightarrow> Err ''EnvoyFilter configPatches not found''
        | Some configPatches \<Rightarrow>
            thenR (patchConfigPatches a params configPatches) (\<lambda>patches.
            namedR ''write EnvoyFilter configPatches'' (setSlice a patches [''spec'', ''configPatches''] r))))"

section \<open>Every resource\<close>

definition patchResource :: "editApi \<Rightarrow> PlatformParams \<Rightarrow> xobject \<Rightarrow> (string, xobject) result" where
  "patchResource a params r =
     (let k = xo_GVK r; name = nameOf r; tenantID = pp_TenantIdentifier params; gwNs = pp_GatewayNamespace params
      in if k = GVKDeployment \<and> name = ''maas-api'' then
           patchMaaSAPIDeployment a params (SetName (MaaSAPIDeploymentName tenantID) r)
         else if k = GVKDeployment \<and> name = PayloadProcessingName then
           patchPayloadProcessingDeployment a params (SetName (PayloadProcessingDeploymentName tenantID) r)
         else if k = GVKCronJob \<and> name = ''maas-api-key-cleanup'' then
           patchCleanupCronJobImage a params (SetName (MaaSAPIKeyCleanupCronJobName tenantID) r)
         else if k = GVKHTTPRoute \<and> name = ''maas-api-route'' then
           patchHTTPRoute a params (SetName (MaaSAPIRouteName tenantID) r)
         else if k = GVKDestinationRule \<and> name = ''maas-api-backend-tls'' then
           patchMaaSAPIDestinationRule a params (SetName (GatewayDestinationRuleName tenantID) r)
         else if k = GVKDestinationRule \<and> (name = PayloadProcessingName \<or> name = PayloadPreProcessingName) then
           patchPayloadDestinationRule a params
             (SetName (if name = PayloadPreProcessingName then PayloadPreProcessingDeploymentName tenantID
                       else PayloadProcessingDeploymentName tenantID) r)
         else if k = GVKEnvoyFilter \<and> name = PayloadProcessingName then
           patchPayloadProcessingEnvoyFilter a params (SetName (PayloadProcessingEnvoyFilterName tenantID) r)
         else if k = GVKDeployment \<and> name = PayloadPreProcessingName then
           patchPreProcessingDeployment a params (SetName (PayloadPreProcessingDeploymentName tenantID) r)
         else if k = GVKService \<and> name = ''maas-api'' then
           patchMaaSAPIService a params (SetName (MaaSAPIServiceName tenantID) r)
         else if k = GVKService \<and> name = PayloadPreProcessingName then
           patchPayloadPreProcessingService a params (SetName (PayloadPreProcessingServiceName tenantID) r)
         else if k = GVKService \<and> name = PayloadProcessingName then
           patchPayloadProcessingService a params (SetName (PayloadProcessingServiceName tenantID) r)
         else if k = GVKServiceAccount \<and> name = PayloadProcessingName then
           Ok (SetNamespace gwNs (SetName (PayloadProcessingServiceAccountName tenantID) r))
         else if k = GVKConfigMap \<and> name = PayloadProcessingPluginsConfigMapName then
           Ok (SetNamespace gwNs (SetName (PayloadProcessingPluginsConfigMapForTenant tenantID) r))
         else if k = GVKNetworkPolicy \<and> name = ''maas-api-allow-deployment-ns'' then
           patchDeploymentNSNetworkPolicy a (pp_ControllerNamespace params) r
         else if k = GVKNetworkPolicy \<and> name = PayloadProcessingName then
           patchPayloadProcessingNetworkPolicy a params (SetName (PayloadProcessingNetworkPolicyName tenantID) r)
         else if k = GVKClusterRoleBinding \<and> name = ''payload-processing-reader'' then
           patchPayloadProcessingClusterRoleBinding a params
             (SetName (PayloadProcessingReaderClusterRoleBindingNameForTenant tenantID) r)
         else if k = GVKCertificate \<and> name = ''maas-api-serving-cert'' then patchMaaSAPIServingCert a params r
         else Ok r)"

definition applyPlatformParams :: "editApi \<Rightarrow> PlatformParams \<Rightarrow> xobject list \<Rightarrow> (string, xobject list) result" where
  "applyPlatformParams a params = mapR (\<lambda>_. patchResource a params) 0"

end
