(* ===== verification/PostRender.thy ===== *)
theory PostRender
  imports PlatformPatch
begin

text \<open>
  From the manifests to the objects of a tenant: \<open>kustomize.go\<close> and \<open>postrender.go\<close>. Running kustomize,
  the file system and the YAML round trips are a parameter (\<open>kustomizeApi\<close>); an object is given by its
  metadata and its other fields, on which \<open>res.Map()\<close> and \<open>res.SetLabels\<close> work. \<open>normalizeJSONTypes\<close>
  turns one representation of integers into another, which are not told apart here.
\<close>

section \<open>Rendering\<close>

record kustomizeApi =
  kz_Join :: "string \<Rightarrow> string \<Rightarrow> string"
  kz_Exists :: "string \<Rightarrow> bool"
  kz_Run :: "string \<Rightarrow> (string, xobject list) result"
  kz_Map :: "xobject \<Rightarrow> (string, jmap) result"
  kz_Reset :: "xobject \<Rightarrow> jmap \<Rightarrow> (string, xobject) result"
  kz_SetNamespace :: "string \<Rightarrow> xobject \<Rightarrow> (string, xobject) result"
  kz_SetLabels :: "labels \<Rightarrow> xobject \<Rightarrow> (string, xobject) result"

text \<open>\<open>kz_Reset\<close> marshals a map, parses the text and puts the node into the resource.\<close>

definition overlayDefaultNamespace :: string where "overlayDefaultNamespace = ''opendatahub''"

definition kindOf :: "xobject \<Rightarrow> string" where "kindOf r = snd (snd (xo_GVK r))"
definition groupOf :: "xobject \<Rightarrow> string" where "groupOf r = fst (xo_GVK r)"

definition resolveKustomizationPath :: "kustomizeApi \<Rightarrow> string \<Rightarrow> (string, string) result" where
  "resolveKustomizationPath kz manifestDir =
     (let fallback = kz_Join kz manifestDir ''default''
      in if kz_Exists kz (kz_Join kz manifestDir ''kustomization.yaml'') then Ok manifestDir
         else if kz_Exists kz (kz_Join kz fallback ''kustomization.yaml'') then Ok fallback
         else Err (''kustomization.yaml not found under '' @ Quote manifestDir))"

definition remapSubject :: "string \<Rightarrow> json \<Rightarrow> json option" where
  "remapSubject appNamespace v =
     Option.bind (asMap v) (\<lambda>subj.
       if fieldAs asString subj ''namespace'' = Some overlayDefaultNamespace then
         Some (JObj (AList.update ''namespace'' (JStr appNamespace) subj))
       else None)"

definition remapSubjectNamespaces :: "kustomizeApi \<Rightarrow> string \<Rightarrow> xobject \<Rightarrow> (string, xobject) result" where
  "remapSubjectNamespaces kz appNamespace res =
     (if kindOf res \<noteq> ''ClusterRoleBinding'' \<and> kindOf res \<noteq> ''RoleBinding'' then Ok res
      else
        thenR (namedR ''map'' (kz_Map kz res)) (\<lambda>m.
          case fieldAs asSlice m ''subjects'' of
            None \<Rightarrow> Ok res
          | Some subjects \<Rightarrow>
              if \<not> list_ex (\<lambda>v. remapSubject appNamespace v \<noteq> None) subjects then Ok res
              else kz_Reset kz res (AList.update ''subjects''
                     (JArr (map (\<lambda>v. orDefault v (remapSubject appNamespace v)) subjects)) m)))"

definition remapServiceMonitorServerName :: "kustomizeApi \<Rightarrow> string \<Rightarrow> xobject \<Rightarrow> (string, xobject) result" where
  "remapServiceMonitorServerName kz appNamespace res =
     (if kindOf res \<noteq> ''ServiceMonitor'' \<or> nameOf res \<noteq> ''maas-api-metrics'' then Ok res
      else
        thenR (namedR ''map'' (kz_Map kz res)) (\<lambda>m.
          let want = ''maas-api-metrics.'' @ appNamespace @ ''.svc''
          in case fieldAs asMap m ''spec'' of
               None \<Rightarrow> Ok res
             | Some spec \<Rightarrow>
                 (case fieldAs asSlice spec ''endpoints'' of
                    Some (v # endpoints) \<Rightarrow>
                      (case asMap v of
                         None \<Rightarrow> Ok res
                       | Some ep \<Rightarrow>
                           (case fieldAs asMap ep ''tlsConfig'' of
                              None \<Rightarrow> Ok res
                            | Some tlsCfg \<Rightarrow>
                                if fieldAs asString tlsCfg ''serverName'' = Some want then Ok res
                                else
                                  let ep' = AList.update ''tlsConfig'' (JObj (AList.update ''serverName'' (JStr want) tlsCfg)) ep;
                                      spec' = AList.update ''endpoints'' (JArr (JObj ep' # endpoints)) spec
                                  in kz_Reset kz res (AList.update ''spec'' (JObj spec') m)))
                  | _ \<Rightarrow> Ok res)))"

definition componentLabels :: labels where
  "componentLabels =
     [(''app.opendatahub.io/modelsasservice'', ''true''), (''app.kubernetes.io/part-of'', ''models-as-a-service'')]"

text \<open>One turn of the loop of \<open>postBuildTransform\<close>.\<close>

definition transformResource :: "kustomizeApi \<Rightarrow> string \<Rightarrow> xobject \<Rightarrow> (string, xobject) result" where
  "transformResource kz appNamespace res =
     (let on = (\<lambda>what r. what @ '' on '' @ kindOf r @ '' '' @ nameOf r);
          placed =
            (if appNamespace = [] then Ok res
             else
               thenR (if namespaceOf res = overlayDefaultNamespace then
                        namedR (on ''set namespace'' res) (kz_SetNamespace kz appNamespace res) else Ok res) (\<lambda>res.
               thenR (namedR (on ''remap subjects'' res) (remapSubjectNamespaces kz appNamespace res)) (\<lambda>res.
               if appNamespace \<noteq> overlayDefaultNamespace then
                 namedR (on ''remap ServiceMonitor serverName'' res) (remapServiceMonitorServerName kz appNamespace res)
               else Ok res)))
      in thenR placed (\<lambda>res.
           namedR (on ''set labels'' res)
             (kz_SetLabels kz (foldl (\<lambda>ls (k, v). AList.update k v ls) (om_Labels (u_meta res)) componentLabels) res)))"

definition postBuildTransform :: "kustomizeApi \<Rightarrow> string \<Rightarrow> xobject list \<Rightarrow> (string, xobject list) result" where
  "postBuildTransform kz appNamespace = mapR (\<lambda>_. transformResource kz appNamespace) 0"

definition RenderKustomize :: "kustomizeApi \<Rightarrow> string \<Rightarrow> string \<Rightarrow> (string, xobject list) result" where
  "RenderKustomize kz manifestDir appNamespace =
     thenR (resolveKustomizationPath kz manifestDir) (\<lambda>path.
     thenR (namedR (''kustomize build '' @ Quote path) (kz_Run kz path)) (\<lambda>resMap.
     thenR (namedR ''post-build transform'' (postBuildTransform kz appNamespace resMap)) (\<lambda>resMap.
     thenR (mapR (\<lambda>_ res. namedR ''resource map'' (kz_Map kz res)) 0 resMap) (\<lambda>_. Ok resMap))))"

section \<open>Single resources\<close>

definition tlsSecretName :: "string \<Rightarrow> string" where
  "tlsSecretName tenantID =
     (if tenantID = [] then ''maas-api-serving-cert'' else ''maas-api-'' @ tenantID @ ''-serving-cert'')"

definition configureTokenRateLimitPolicy ::
  "editApi \<Rightarrow> string \<Rightarrow> string \<Rightarrow> string \<Rightarrow> xobject \<Rightarrow> (string, xobject) result" where
  "configureTokenRateLimitPolicy a gatewayNamespace gatewayName tenantID r =
     namedR ''failed to set spec.targetRef.name on TokenRateLimitPolicy''
       (setAt a (JStr gatewayName) [''spec'', ''targetRef'', ''name'']
         (SetNamespace gatewayNamespace (SetName (GatewayTokenRateLimitDefaultDenyPolicyName tenantID) r)))"

definition configureDestinationRule :: "string \<Rightarrow> xobject \<Rightarrow> xobject" where
  "configureDestinationRule gatewayNamespace r = SetNamespace gatewayNamespace r"

definition configureMaaSAPIService :: "string \<Rightarrow> xobject \<Rightarrow> xobject" where
  "configureMaaSAPIService tenantID r =
     r\<lparr>u_meta := (u_meta r)\<lparr>om_Annotations :=
         AList.update ''service.beta.openshift.io/serving-cert-secret-name'' (tlsSecretName tenantID)
           (om_Annotations (u_meta r))\<rparr>\<rparr>"

definition configureMaaSAPIDeployment :: "editApi \<Rightarrow> string \<Rightarrow> xobject \<Rightarrow> (string, xobject) result" where
  "configureMaaSAPIDeployment a tenantID r =
     thenR (namedR ''failed to get volumes'' (NestedSliceF a (u_Object r) podVolumes)) (\<lambda>found.
       case found of
         None \<Rightarrow> Err ''no volumes found in deployment''
       | Some volumes \<Rightarrow>
           thenR (case setVolume a ''maas-api-tls'' (tlsSecretName tenantID) [''secret'', ''secretName''] volumes of
                    None \<Rightarrow> Ok volumes
                  | Some res \<Rightarrow> namedR ''failed to set maas-api-tls secret name'' res) (\<lambda>volumes.
           namedR ''failed to set volumes'' (setSlice a volumes podVolumes r)))"

definition toServiceBackend :: "editApi \<Rightarrow> string \<Rightarrow> nat \<Rightarrow> json \<Rightarrow> (string, json) result" where
  "toServiceBackend a serviceName j v =
     (case asMap v of
        None \<Rightarrow> Ok v
      | Some m \<Rightarrow>
          thenR (namedR (''failed to set backendRefs['' @ itoaNat j @ ''].name'')
            (SetNestedField a m (JStr serviceName) [''name''])) (\<lambda>m'. Ok (JObj m')))"

definition toServiceRule :: "editApi \<Rightarrow> string \<Rightarrow> nat \<Rightarrow> json \<Rightarrow> (string, json) result" where
  "toServiceRule a serviceName i v =
     (case asMap v of
        None \<Rightarrow> Ok v
      | Some m \<Rightarrow>
          (case NestedSliceF a m [''backendRefs''] of
             Inr (Some (b # bs)) \<Rightarrow>
               thenR (mapR (toServiceBackend a serviceName) 0 (b # bs)) (\<lambda>backendRefs.
               thenR (namedR (''failed to set rule['' @ itoaNat i @ ''].backendRefs'')
                 (SetNestedSlice a m backendRefs [''backendRefs''])) (\<lambda>m'. Ok (JObj m')))
           | _ \<Rightarrow> Ok v))"

definition configureMaaSAPIHTTPRoute ::
  "editApi \<Rightarrow> string \<Rightarrow> string \<Rightarrow> string \<Rightarrow> xobject \<Rightarrow> (string, xobject) result" where
  "configureMaaSAPIHTTPRoute a gatewayNamespace gatewayName tenantID r0 =
     (let r = (if tenantID \<noteq> [] then SetName (MaaSAPIRouteName tenantID) r0 else r0);
          noParents = (\<lambda>e. Err (''HTTPRoute has no parentRefs: '' @ e))
      in case NestedSliceF a (u_Object r) [''spec'', ''parentRefs''] of
           Inl e \<Rightarrow> noParents e
         | Inr (Some (v # parentRefs)) \<Rightarrow>
             (case asMap v of
                None \<Rightarrow> Err ''parentRefs[0] is not a map''
              | Some ref \<Rightarrow>
                  thenR (namedR ''failed to set HTTPRoute parentRefs''
                    (setSlice a (JObj (AList.update ''namespace'' (JStr gatewayNamespace)
                         (AList.update ''name'' (JStr gatewayName) ref)) # parentRefs) [''spec'', ''parentRefs''] r)) (\<lambda>r.
                  thenR (namedR ''failed to get HTTPRoute rules'' (NestedSliceF a (u_Object r) [''spec'', ''rules''])) (\<lambda>found.
                    case found of
                      Some (v # rules) \<Rightarrow>
                        thenR (mapR (toServiceRule a (MaaSAPIServiceName tenantID)) 0 (v # rules)) (\<lambda>rules'.
                        namedR ''failed to set HTTPRoute rules'' (setSlice a rules' [''spec'', ''rules''] r))
                    | _ \<Rightarrow> Err ''HTTPRoute has no rules'')))
         | _ \<Rightarrow> noParents ''%!w(<nil>)'')"

section \<open>Added resources\<close>

definition isTelemetryEnabled :: "TenantTelemetryConfig option \<Rightarrow> bool" where
  "isTelemetryEnabled t = orDefault False (Option.bind t tl_Enabled)"

definition buildTelemetryLabels :: "TenantTelemetryConfig option \<Rightarrow> jmap" where \<open>
  buildTelemetryLabels config =
    (let metrics = Option.bind config tl_Metrics;
         flag = (\<lambda>d f. orDefault d (Option.bind metrics f));
         maybe = (\<lambda>b k v. if b then [(k, JStr v)] else [])
     in [(''subscription'', JStr ''auth.identity.selected_subscription''),
         (''cost_center'', JStr (''has(auth.identity.subscription_info.costCenter) ''
            @ ''? auth.identity.subscription_info.costCenter : ""''))]
        @ maybe (flag True mc_CaptureOrganization) ''organization_id''
            (''has(auth.identity.subscription_info.organizationId) ''
             @ ''? auth.identity.subscription_info.organizationId : ""'')
        @ maybe (flag False mc_CaptureUser) ''user'' ''auth.identity.userid''
        @ maybe (flag False mc_CaptureGroup) ''group'' ''auth.identity.groups_str''
        @ maybe (flag True mc_CaptureModelUsage) ''model'' ''responseBodyJSON("/model")'')\<close>

definition tenantTrackingName :: "ObjectMeta \<Rightarrow> string" where
  "tenantTrackingName m =
     (let n = annotation (om_Labels m) LabelTenantName in if n \<noteq> [] then n else om_Name m)"

definition observabilityMeta :: "platformObject \<Rightarrow> string \<Rightarrow> string \<Rightarrow> ObjectMeta" where
  "observabilityMeta tenant name ns =
     (freshMeta ns name)\<lparr>om_Labels :=
       [(''app.kubernetes.io/part-of'', ''maas-observability''),
        (LabelTenantName, tenantTrackingName (po_meta tenant)),
        (LabelTenantNamespace, om_Namespace (po_meta tenant))]\<rparr>"

definition configureTelemetryPolicyResources :: "platformObject \<Rightarrow> PlatformParams \<Rightarrow> xobject list" where
  "configureTelemetryPolicyResources tenant params =
     (let telemetry = telemetryConfigFor tenant
      in if \<not> isTelemetryEnabled telemetry then []
         else
           [\<lparr>u_meta = observabilityMeta tenant (TelemetryPolicyName (pp_TenantIdentifier params)) (pp_GatewayNamespace params),
             u_Object =
               [(''spec'', JObj
                  [(''targetRef'', JObj
                     [(''group'', JStr ''gateway.networking.k8s.io''), (''kind'', JStr ''Gateway''),
                      (''name'', JStr (pp_GatewayName params))]),
                   (''metrics'', JObj [(''default'', JObj [(''labels'', JObj (buildTelemetryLabels telemetry))])])])],
             xo_GVK = GVKTelemetryPolicy, xo_ResourceVersion = []\<rparr>])"

definition configureIstioTelemetryResources :: "platformObject \<Rightarrow> PlatformParams \<Rightarrow> xobject list" where \<open>
  configureIstioTelemetryResources tenant params =
    (if \<not> isTelemetryEnabled (telemetryConfigFor tenant) then []
     else
       [\<lparr>u_meta = observabilityMeta tenant (IstioTelemetryName (pp_TenantIdentifier params)) (pp_GatewayNamespace params),
         u_Object =
           [(''spec'', JObj
              [(''selector'', JObj [(''matchLabels'',
                 JObj [(''gateway.networking.k8s.io/gateway-name'', JStr (pp_GatewayName params))])]),
               (''metrics'', JArr [JObj
                 [(''providers'', JArr [JObj [(''name'', JStr ''prometheus'')]]),
                  (''overrides'', JArr [JObj
                    [(''match'', JObj [(''metric'', JStr ''REQUEST_DURATION''), (''mode'', JStr ''CLIENT_AND_SERVER'')]),
                     (''tagOverrides'', JObj [(''subscription'', JObj
                        [(''operation'', JStr ''UPSERT''),
                         (''value'', JStr ''request.headers["x-maas-subscription"]'')])])]])]])])],
         xo_GVK = GVKIstioTelemetry, xo_ResourceVersion = []\<rparr>])\<close>

definition utilizationMetric :: "string \<Rightarrow> int \<Rightarrow> json" where
  "utilizationMetric name target =
     JObj [(''type'', JStr ''Resource''),
           (''resource'', JObj [(''name'', JStr name),
              (''target'', JObj [(''type'', JStr ''Utilization''), (''averageUtilization'', JInt target)])])]"

definition scalingPolicy :: "string \<Rightarrow> int \<Rightarrow> int \<Rightarrow> json" where
  "scalingPolicy typ val period =
     JObj [(''type'', JStr typ), (''value'', JInt val), (''periodSeconds'', JInt period)]"

definition configurePayloadProcessingHPA :: "PlatformParams \<Rightarrow> xobject list" where
  "configurePayloadProcessingHPA params =
     (if \<not> pp_PayloadProcessingAutoscaling params then []
      else
        let tenantID = pp_TenantIdentifier params
        in [\<lparr>u_meta = freshMeta (pp_GatewayNamespace params) (PayloadProcessingHPAName tenantID),
              u_Object =
                [(''spec'', JObj
                   [(''scaleTargetRef'', JObj
                      [(''apiVersion'', JStr ''apps/v1''), (''kind'', JStr ''Deployment''),
                       (''name'', JStr (PayloadProcessingDeploymentName tenantID))]),
                    (''minReplicas'', JInt (orDefault 1 (pp_PayloadProcessingReplicas params))),
                    (''maxReplicas'', JInt (pp_PayloadProcessingMaxReplicas params)),
                    (''metrics'', JArr
                      [utilizationMetric ''cpu'' (pp_PayloadProcessingTargetCPU params),
                       utilizationMetric ''memory'' (pp_PayloadProcessingTargetMemory params)]),
                    (''behavior'', JObj
                      [(''scaleDown'', JObj
                         [(''stabilizationWindowSeconds'', JInt 300),
                          (''policies'', JArr [scalingPolicy ''Percent'' 25 60])]),
                       (''scaleUp'', JObj
                         [(''stabilizationWindowSeconds'', JInt 0),
                          (''policies'', JArr [scalingPolicy ''Percent'' 100 15, scalingPolicy ''Pods'' 4 15]),
                          (''selectPolicy'', JStr ''Max'')])])])],
              xo_GVK = GVKHPA, xo_ResourceVersion = []\<rparr>])"

section \<open>Everything\<close>

text \<open>One turn of the loop of \<open>PostRender\<close>: nothing, or the object that stays.\<close>

definition renderOne :: "editApi \<Rightarrow> PlatformParams \<Rightarrow> xobject \<Rightarrow> (string, xobject list) result" where
  "renderOne a params r =
     (let k = xo_GVK r; name = nameOf r; tenantID = pp_TenantIdentifier params;
          gatewayNamespace = pp_GatewayNamespace params; gatewayName = pp_GatewayName params
      in if annotation (om_Annotations (u_meta r)) AnnotationManaged = ''false'' then Ok []
         else
           thenR (if k = GVKTokenRateLimitPolicy \<and> name = ''gateway-default-deny'' then
                    configureTokenRateLimitPolicy a gatewayNamespace gatewayName tenantID r
                  else if k = GVKDestinationRule \<and> name = ''maas-api-backend-tls'' then
                    Ok (configureDestinationRule gatewayNamespace r)
                  else if groupOf r = [] \<and> kindOf r = ''Service'' \<and> name = ''maas-api'' then
                    Ok (configureMaaSAPIService tenantID r)
                  else if groupOf r = ''apps'' \<and> kindOf r = ''Deployment'' \<and> name = ''maas-api'' then
                    configureMaaSAPIDeployment a tenantID r
                  else if k = GVKHTTPRoute \<and> name = ''maas-api-route'' then
                    configureMaaSAPIHTTPRoute a gatewayNamespace gatewayName tenantID r
                  else Ok r)
             (\<lambda>r'. Ok [r']))"

definition PostRender :: "editApi \<Rightarrow> platformObject \<Rightarrow> xobject list \<Rightarrow> PlatformParams \<Rightarrow> (string, xobject list) result" where
  "PostRender a tenant resources params =
     thenR (mapR (\<lambda>_. renderOne a params) 0 resources) (\<lambda>filtered.
       applyPlatformParams a params
         (concat filtered @ configureTelemetryPolicyResources tenant params
          @ configureIstioTelemetryResources tenant params @ configurePayloadProcessingHPA params))"

end
