(* ===== verification/PlatformReach.thy ===== *)
theory PlatformReach
  imports PlatformPatch
begin

text \<open>
  What the patches of \<open>params.go\<close> leave in an object: accessors that do what their documentation says
  (\<open>walkEdits\<close>), the effect of each edit on what is read later, and with them the API server of a
  tenant: it is told whom it serves, and the service of a tenant selects its own pods only.
\<close>

section \<open>Accessors for evaluation\<close>

fun putAt :: "jmap \<Rightarrow> json \<Rightarrow> string list \<Rightarrow> (string, jmap) result" where
  "putAt m v [] = Err ''no path''"
| "putAt m v [f] = Ok (AList.update f v m)"
| "putAt m v (f # g # fs) =
     (case map_of m f of
        None \<Rightarrow> thenR (putAt [] v (g # fs)) (\<lambda>n. Ok (AList.update f (JObj n) m))
      | Some (JObj n) \<Rightarrow> thenR (putAt n v (g # fs)) (\<lambda>n'. Ok (AList.update f (JObj n') m))
      | Some _ \<Rightarrow> Err ''not a map'')"

fun dropAt :: "jmap \<Rightarrow> string list \<Rightarrow> jmap" where
  "dropAt m [] = m"
| "dropAt m [f] = AList.delete f m"
| "dropAt m (f # g # fs) =
     (case map_of m f of Some (JObj n) \<Rightarrow> AList.update f (JObj (dropAt n (g # fs))) m | _ \<Rightarrow> m)"

fun stringMap :: "jmap \<Rightarrow> labels option" where
  "stringMap [] = Some []"
| "stringMap ((k, JStr v) # m) = map_option ((#) (k, v)) (stringMap m)"
| "stringMap _ = None"

definition getAs :: "(json \<Rightarrow> 'a option) \<Rightarrow> jmap \<Rightarrow> string list \<Rightarrow> (string, 'a option) result" where
  "getAs conv m fs =
     (case walk (JObj m) fs of
        None \<Rightarrow> Ok None
      | Some v \<Rightarrow> (case conv v of None \<Rightarrow> Err ''wrong type'' | Some x \<Rightarrow> Ok (Some x)))"

definition walkEdits :: editApi where
  "walkEdits =
     \<lparr>NestedSliceF = getAs asSlice, NestedStringF = getAs asString,
      NestedBoolF = getAs (\<lambda>v. case v of JBool b \<Rightarrow> Some b | _ \<Rightarrow> None),
      NestedInt64F = getAs (\<lambda>v. case v of JInt n \<Rightarrow> Some n | _ \<Rightarrow> None),
      NestedStringMapF = getAs (\<lambda>v. Option.bind (asMap v) stringMap),
      SetNestedField = putAt, SetNestedSlice = (\<lambda>m xs. putAt m (JArr xs)),
      SetNestedStringMap = (\<lambda>m ls. putAt m (jStrings ls)), RemoveNestedField = dropAt\<rparr>"

lemma map_of_update [simp]: "map_of (AList.update k v m) = (map_of m)(k \<mapsto> v)"
  by (simp add: update_conv')

lemma map_of_jStrings: "map_of (map (\<lambda>(k, v). (k, JStr v)) m) k = map_option JStr (map_of m k)"
  by (induction m) auto

lemma walk_put: "putAt m v fs = Ok m' \<Longrightarrow> walk (JObj m') fs = Some v"
  by (induction m v fs arbitrary: m' rule: putAt.induct) (auto split: option.splits json.splits)

lemma walk_put_apart: "putAt m v fs = Ok m' \<Longrightarrow> apart fs gs \<Longrightarrow> walk (JObj m') gs = walk (JObj m) gs"
proof (induction m v fs arbitrary: m' gs rule: putAt.induct)
  case (3 m v f g fs)
  then obtain h hs where gs: "gs = h # hs" "h = f \<Longrightarrow> apart (g # fs) hs" by (cases gs) (auto simp: apart_def)
  then have none: "h = f \<Longrightarrow> walk (JObj []) hs = None" by (cases hs) (auto simp: apart_def)
  show ?case
  proof (cases "map_of m f")
    case None
    with 3 gs none show ?thesis by auto
  next
    case (Some w)
    with 3 gs show ?thesis by (cases w) auto
  qed
next
  case (2 m v f)
  then show ?case by (cases gs) (auto simp: apart_def)
qed simp

lemma walk_drop_apart: "apart fs gs \<Longrightarrow> walk (JObj (dropAt m fs)) gs = walk (JObj m) gs"
proof (induction m fs arbitrary: gs rule: dropAt.induct)
  case (2 m f)
  then obtain h hs where "gs = h # hs" "h \<noteq> f" by (cases gs) (auto simp: apart_def)
  then show ?case by (simp add: AList.delete_conv')
next
  case (3 m f g fs)
  then obtain h hs where gs: "gs = h # hs" "h = f \<Longrightarrow> apart (g # fs) hs" by (cases gs) (auto simp: apart_def)
  show ?case
  proof (cases "map_of m f")
    case (Some w)
    with 3 gs show ?thesis by (cases w) auto
  qed simp
qed (auto simp: apart_def)

lemma stringMap_jStrings: "stringMap m = Some ls \<Longrightarrow> JObj m = jStrings ls"
  by (induction m arbitrary: ls rule: stringMap.induct) (auto simp: jStrings_def)

theorem walkEdits_documented: "documentedEdits walkEdits"
proof -
  have get: "getAs conv m fs = Ok (Some x) \<longleftrightarrow> (\<exists>v. walk (JObj m) fs = Some v \<and> conv v = Some x)"
    for conv :: "json \<Rightarrow> 'a option" and m fs x
    by (auto simp: getAs_def split: option.splits)
  have conv: "asSlice v = Some xs \<longleftrightarrow> v = JArr xs" "asString v = Some s \<longleftrightarrow> v = JStr s" "asMap v = Some m \<longleftrightarrow> v = JObj m" for v xs s m
    by (cases v; auto)+
  have none: "getAs conv m fs = Ok None \<Longrightarrow> walk (JObj m) fs = None" for conv :: "json \<Rightarrow> 'a option" and m fs
    by (auto simp: getAs_def split: option.splits)
  show ?thesis
    unfolding documentedEdits_def puts_def walkEdits_def
    by (auto simp: get conv bind_eq_Some_conv stringMap_jStrings walk_put walk_put_apart walk_drop_apart dest: none)
qed

section \<open>What is read of an object\<close>

text \<open>The first element of a list with this name, a container by name, and an environment variable of it.\<close>

fun firstNamed :: "string \<Rightarrow> json list \<Rightarrow> jmap option" where
  "firstNamed n [] = None"
| "firstNamed n (v # vs) =
     (case asMap v of
        Some m \<Rightarrow> if map_of m ''name'' = Some (JStr n) then Some m else firstNamed n vs
      | None \<Rightarrow> firstNamed n vs)"

definition containerOf :: "xobject \<Rightarrow> string \<Rightarrow> jmap option" where
  "containerOf r c = (case walk (JObj (u_Object r)) podContainers of Some (JArr cs) \<Rightarrow> firstNamed c cs | _ \<Rightarrow> None)"

definition envOf :: "jmap \<Rightarrow> string \<Rightarrow> string option" where
  "envOf m n = Option.bind (firstNamed n (sliceOf m ''env'')) (\<lambda>e. Option.bind (map_of e ''value'') asString)"

definition podEnv :: "xobject \<Rightarrow> string \<Rightarrow> string \<Rightarrow> string option" where
  "podEnv r c n = Option.bind (containerOf r c) (\<lambda>m. envOf m n)"

definition podLabels :: "string list" where
  "podLabels = [''spec'', ''template'', ''metadata'', ''labels'']"

text \<open>A service selects the pods of a deployment: all of its selector is among their labels.\<close>

definition selects :: "xobject \<Rightarrow> xobject \<Rightarrow> bool" where
  "selects s d =
     (case walk (JObj (u_Object s)) [''spec'', ''selector''] of
        Some (JObj want) \<Rightarrow>
          (case walk (JObj (u_Object d)) podLabels of
             Some (JObj have) \<Rightarrow> want \<noteq> [] \<and> list_all (\<lambda>(k, _). map_of have k = map_of want k) want
           | _ \<Rightarrow> False)
      | _ \<Rightarrow> False)"

section \<open>What an edit does to it\<close>

lemma firstNamed_edit:
  assumes "editFirst (whenNamed n f) xs = Some ys"
  shows "\<exists>m. firstNamed n xs = Some m \<and> ((\<forall>m. map_of (f m) ''name'' = map_of m ''name'') \<longrightarrow> firstNamed n ys = Some (f m))"
  using assms by (induction xs arbitrary: ys) (auto simp: whenNamed_def split: option.splits if_splits)

lemma firstNamed_edit_other:
  assumes "editFirst (whenNamed n f) xs = Some ys" "\<And>m. map_of (f m) ''name'' = map_of m ''name''" "n' \<noteq> n"
  shows "firstNamed n' ys = firstNamed n' xs"
  using assms(1,3) by (induction xs arbitrary: ys) (auto simp: whenNamed_def assms(2) split: option.splits if_splits)

lemma firstNamed_none: "editFirst (whenNamed n f) xs = None \<Longrightarrow> firstNamed n xs = None"
  by (induction xs) (auto simp: whenNamed_def split: option.splits if_splits)

lemma firstNamed_append:
  "firstNamed n (xs @ ys) = (case firstNamed n xs of None \<Rightarrow> firstNamed n ys | Some m \<Rightarrow> Some m)"
  by (induction xs) (auto split: option.splits)

lemma envOf_withEnv:
  "envOf (AList.update ''env'' (JArr (withEnv n v (sliceOf m ''env''))) m) n' = (if n' = n then Some v else envOf m n')"
proof (cases "editFirst (whenNamed n (\<lambda>m. AList.delete ''valueFrom'' (AList.update ''value'' (JStr v) m))) (sliceOf m ''env'')")
  case None
  with firstNamed_none [OF None] show ?thesis
    by (auto simp: envOf_def withEnv_def sliceOf_def fieldAs_def firstNamed_append split: option.splits)
next
  case (Some ys)
  then have "firstNamed n' ys = (if n' = n then map_option (\<lambda>m. AList.delete ''valueFrom'' (AList.update ''value'' (JStr v) m))
      (firstNamed n (sliceOf m ''env'')) else firstNamed n' (sliceOf m ''env''))"
    "firstNamed n (sliceOf m ''env'') \<noteq> None"
    using firstNamed_edit [OF Some] firstNamed_edit_other [OF Some, of n'] by (auto simp: AList.delete_conv')
  with Some show ?thesis
    by (auto simp: envOf_def withEnv_def sliceOf_def fieldAs_def AList.delete_conv' split: option.splits)
qed

lemma apart_pod:
  "apart podContainers podLabels" "apart podLabels podContainers"
  "apart [''spec'', ''replicas''] podContainers" "apart [''spec'', ''replicas''] podLabels"
  by (simp_all add: apart_def podContainers_def podLabels_def)

lemma documented_sets:
  assumes "documentedEdits a" "fs \<noteq> []"
  shows "setAt a v fs r = Ok r' \<Longrightarrow> walk (JObj (u_Object r')) fs = Some v"
    and "setSlice a xs fs r = Ok r' \<Longrightarrow> walk (JObj (u_Object r')) fs = Some (JArr xs)"
    and "setStrings a ls fs r = Ok r' \<Longrightarrow> walk (JObj (u_Object r')) fs = Some (jStrings ls)"
    and "setAt a v fs r = Ok r' \<Longrightarrow> apart fs gs \<Longrightarrow> walk (JObj (u_Object r')) gs = walk (JObj (u_Object r)) gs"
    and "setSlice a xs fs r = Ok r' \<Longrightarrow> apart fs gs \<Longrightarrow> walk (JObj (u_Object r')) gs = walk (JObj (u_Object r)) gs"
    and "setStrings a ls fs r = Ok r' \<Longrightarrow> apart fs gs \<Longrightarrow> walk (JObj (u_Object r')) gs = walk (JObj (u_Object r)) gs"
  using assms unfolding documentedEdits_def puts_def setAt_def setSlice_def setStrings_def by auto

lemma editContainer_effect:
  assumes a: "documentedEdits a" and e: "editContainer a podContainers c f r = Ok r'"
    and f: "\<And>m. map_of (f m) ''name'' = map_of m ''name''"
  shows "\<exists>m. containerOf r c = Some m \<and> containerOf r' c = Some (f m)"
    and "walk (JObj (u_Object r')) podLabels = walk (JObj (u_Object r)) podLabels"
proof -
  from e obtain cs ds where cs: "NestedSliceF a (u_Object r) podContainers = Ok (Some cs)"
    "editFirst (whenNamed c f) cs = Some ds" "setSlice a ds podContainers r = Ok r'"
    by (auto simp: editContainer_def split: sum.splits option.splits)
  have w: "walk (JObj (u_Object r)) podContainers = Some (JArr cs)"
    using a cs(1) unfolding documentedEdits_def by blast
  note s = documented_sets [OF a, of podContainers]
  have w': "walk (JObj (u_Object r')) podContainers = Some (JArr ds)"
    using s(2) cs(3) by (simp add: podContainers_def)
  show "\<exists>m. containerOf r c = Some m \<and> containerOf r' c = Some (f m)"
    using firstNamed_edit [OF cs(2)] f unfolding containerOf_def w w' by auto
  show "walk (JObj (u_Object r')) podLabels = walk (JObj (u_Object r)) podLabels"
    using s(5) cs(3) apart_pod by (simp add: podContainers_def)
qed

text \<open>A step that leaves the environment of a container and the labels of the pods as they are.\<close>

definition quiet :: "string \<Rightarrow> (xobject \<Rightarrow> (string, xobject) result) \<Rightarrow> bool" where
  "quiet c f \<longleftrightarrow> (\<forall>r r'. f r = Ok r' \<longrightarrow>
     (\<forall>n. podEnv r' c n = podEnv r c n) \<and> walk (JObj (u_Object r')) podLabels = walk (JObj (u_Object r)) podLabels)"

lemma setEnv_effect:
  assumes "documentedEdits a" "setOrAddEnvVar a c n v r = Ok r'"
  shows "podEnv r' c n' = (if n' = n then Some v else podEnv r c n')"
    and "walk (JObj (u_Object r')) podLabels = walk (JObj (u_Object r)) podLabels"
proof -
  note e = editContainer_effect [OF assms(1) assms(2) [unfolded setOrAddEnvVar_def]]
  show "podEnv r' c n' = (if n' = n then Some v else podEnv r c n')"
    using e(1) by (auto simp: podEnv_def envOf_withEnv)
  show "walk (JObj (u_Object r')) podLabels = walk (JObj (u_Object r)) podLabels" by (rule e(2)) simp
qed

lemma quiet_container:
  assumes "documentedEdits a" "k \<noteq> ''name''" "k \<noteq> ''env''"
  shows "quiet c (editContainer a podContainers c (AList.update k v))"
proof -
  have env: "envOf (AList.update k v m) n = envOf m n" for m n
    using assms(3) by (simp add: envOf_def sliceOf_def fieldAs_def)
  have "podEnv r' c n = podEnv r c n \<and> walk (JObj (u_Object r')) podLabels = walk (JObj (u_Object r)) podLabels"
    if "editContainer a podContainers c (AList.update k v) r = Ok r'" for r r' n
    using editContainer_effect [OF assms(1) that] assms(2) by (auto simp: podEnv_def env)
  then show ?thesis unfolding quiet_def by blast
qed

lemma quiet_optional:
  assumes "\<And>v. quiet c (f v)"
  shows "quiet c (runSteps (optionalStep w f x))"
  using assms by (cases x) (auto simp: optionalStep_def quiet_def)

lemma quiet_replicas: "documentedEdits a \<Longrightarrow> quiet c (setAt a v [''spec'', ''replicas''])"
  unfolding quiet_def podEnv_def containerOf_def
  using documented_sets(4) [of a "[''spec'', ''replicas'']"] apart_pod by (metis list.distinct(1))

lemma quiet_resources: "documentedEdits a \<Longrightarrow> quiet c (setContainerResources a c res)"
  using quiet_container [of a "''resources''" c "JObj (resourceMap res)"]
  by (auto simp: quiet_def setContainerResources_def)

lemma runSteps_append: "runSteps (xs @ ys) r = Ok r' \<longleftrightarrow> (\<exists>q. runSteps xs r = Ok q \<and> runSteps ys q = Ok r')"
  by (induction xs r rule: runSteps.induct) auto

lemma addLabel_effect:
  assumes a: "documentedEdits a" and fs: "fs \<noteq> []" and e: "addLabelAt a w fs k v r = Ok r'"
  shows "\<exists>ls. walk (JObj (u_Object r')) fs = Some (jStrings (AList.update k v ls))
    \<and> walk (JObj (u_Object r)) fs = (if ls = [] \<and> walk (JObj (u_Object r)) fs = None then None else Some (jStrings ls))"
    and "apart fs gs \<Longrightarrow> walk (JObj (u_Object r')) gs = walk (JObj (u_Object r)) gs"
proof -
  from e obtain l where l: "NestedStringMapF a (u_Object r) fs = Ok l"
    "setStrings a (AList.update k v (case l of None \<Rightarrow> [] | Some m \<Rightarrow> m)) fs r = Ok r'"
    by (auto simp: addLabelAt_def)
  note s = documented_sets [OF a fs]
  have "walk (JObj (u_Object r)) fs = map_option jStrings l"
    using a l(1) unfolding documentedEdits_def by (cases l) (auto simp: Let_def)
  with s(3) [OF l(2)] show "\<exists>ls. walk (JObj (u_Object r')) fs = Some (jStrings (AList.update k v ls))
    \<and> walk (JObj (u_Object r)) fs = (if ls = [] \<and> walk (JObj (u_Object r)) fs = None then None else Some (jStrings ls))"
    by (cases l) auto
  show "apart fs gs \<Longrightarrow> walk (JObj (u_Object r')) gs = walk (JObj (u_Object r)) gs"
    using s(6) [OF l(2)] .
qed

section \<open>The API server of a tenant\<close>

text \<open>What the deployment of the API server is told by its patch.\<close>

lemma deployment_patched:
  assumes a: "documentedEdits a" and d: "patchMaaSAPIDeployment a p r = Ok d"
  shows "podEnv d ''maas-api'' ''TENANT_NAME'' = Some (tenantEnvName p)"
    and "podEnv d ''maas-api'' ''MAAS_SUBSCRIPTION_NAMESPACE'' = Some (pp_SubscriptionNamespace p)"
    and "podEnv d ''maas-api'' ''GATEWAY_NAMESPACE'' = Some (pp_GatewayNamespace p)"
    and "podEnv d ''maas-api'' ''GATEWAY_NAME'' = Some (pp_GatewayName p)"
    and "podEnv d ''maas-api'' ''API_KEY_MAX_EXPIRATION_DAYS'' = Some (pp_APIKeyMaxExpirationDays p)"
    and "\<exists>ls. walk (JObj (u_Object d)) podLabels =
        Some (jStrings (AList.update LabelTenantInstance (MaaSAPIDeploymentName (pp_TenantIdentifier p)) ls))
      \<and> walk (JObj (u_Object r)) podLabels =
          (if ls = [] \<and> walk (JObj (u_Object r)) podLabels = None then None else Some (jStrings ls))"
proof -
  let ?c = "''maas-api''"
  obtain r1 r2 r3 r4 r5 r6 r7 r8 where s:
    "runSteps (optionalStep ''patch maas-api replicas'' (\<lambda>n. setAt a (JInt n) [''spec'', ''replicas'']) (pp_MaaSAPIReplicas p)) r = Ok r1"
    "setContainerImage a ?c (pp_MaaSAPIImage p) r1 = Ok r2"
    "setOrAddEnvVar a ?c ''GATEWAY_NAMESPACE'' (pp_GatewayNamespace p) r2 = Ok r3"
    "setOrAddEnvVar a ?c ''GATEWAY_NAME'' (pp_GatewayName p) r3 = Ok r4"
    "setOrAddEnvVar a ?c ''MAAS_SUBSCRIPTION_NAMESPACE'' (pp_SubscriptionNamespace p) r4 = Ok r5"
    "setOrAddEnvVar a ?c ''API_KEY_MAX_EXPIRATION_DAYS'' (pp_APIKeyMaxExpirationDays p) r5 = Ok r6"
    "runSteps (optionalStep ''patch maas-api resources'' (setContainerResources a ?c) (pp_MaaSAPIResources p)) r6 = Ok r7"
    "setOrAddEnvVar a ?c ''TENANT_NAME'' (tenantEnvName p) r7 = Ok r8"
    "addPodTemplateLabel a LabelTenantInstance (MaaSAPIDeploymentName (pp_TenantIdentifier p)) r8 = Ok d"
    using d unfolding patchMaaSAPIDeployment_def envStep_def runSteps_append by auto
  have q: "quiet ?c (runSteps (optionalStep w (\<lambda>n. setAt a (JInt n) [''spec'', ''replicas'']) x))"
    "quiet ?c (runSteps (optionalStep w (setContainerResources a ?c) y))" "quiet ?c (setContainerImage a ?c img)" for w x y img
    using quiet_replicas [OF a] quiet_resources [OF a] quiet_container [OF a]
    by (auto intro!: quiet_optional simp: setContainerImage_def)
  note e = s(1) [THEN q(1) [unfolded quiet_def, rule_format]] s(2) [THEN q(3) [unfolded quiet_def, rule_format]]
    s(7) [THEN q(2) [unfolded quiet_def, rule_format]]
  note env = s(3-6,8) [THEN setEnv_effect(1) [OF a]]
  note labels = s(3-6,8) [THEN setEnv_effect(2) [OF a]]
  have keep: "walk (JObj (u_Object r8)) podLabels = walk (JObj (u_Object r)) podLabels"
    using e labels by simp
  note l = addLabel_effect [OF a, of podLabels, OF _ s(9) [unfolded addPodTemplateLabel_def, folded podLabels_def]]
  have "podEnv d ?c n = podEnv r8 ?c n" for n
    using l(2) [of podContainers] apart_pod unfolding podEnv_def containerOf_def by (simp add: podLabels_def)
  then show "podEnv d ?c ''TENANT_NAME'' = Some (tenantEnvName p)"
    and "podEnv d ?c ''MAAS_SUBSCRIPTION_NAMESPACE'' = Some (pp_SubscriptionNamespace p)"
    and "podEnv d ?c ''GATEWAY_NAMESPACE'' = Some (pp_GatewayNamespace p)"
    and "podEnv d ?c ''GATEWAY_NAME'' = Some (pp_GatewayName p)"
    and "podEnv d ?c ''API_KEY_MAX_EXPIRATION_DAYS'' = Some (pp_APIKeyMaxExpirationDays p)"
    using e by (simp_all add: env)
  show "\<exists>ls. walk (JObj (u_Object d)) podLabels =
        Some (jStrings (AList.update LabelTenantInstance (MaaSAPIDeploymentName (pp_TenantIdentifier p)) ls))
      \<and> walk (JObj (u_Object r)) podLabels =
          (if ls = [] \<and> walk (JObj (u_Object r)) podLabels = None then None else Some (jStrings ls))"
    using l(1) unfolding keep by (simp add: podLabels_def)
qed

lemma same_strings:
  "list_all (\<lambda>(x, _). map_of (map (\<lambda>(k, v). (k, JStr v)) ms) x = map_of (map (\<lambda>(k, v). (k, JStr v)) ls) x)
       (map (\<lambda>(k, v). (k, JStr v)) ls)
     \<longleftrightarrow> (\<forall>x\<in>fst ` set ls. map_of ms x = map_of ls x)"
proof -
  have "map_option JStr a = map_option JStr b \<longleftrightarrow> a = b" for a b by (cases a; cases b) auto
  then show ?thesis by (simp add: list_all_iff map_of_jStrings split_beta)
qed

lemma selects_updated:
  assumes s: "walk (JObj (u_Object s)) [''spec'', ''selector''] = Some (jStrings (AList.update k v ls))"
    and d: "walk (JObj (u_Object d)) podLabels = Some (jStrings (AList.update k w ms))"
  shows "selects s d \<Longrightarrow> v = w"
    and "v = w \<Longrightarrow> list_all (\<lambda>(k, _). map_of ms k = map_of ls k) ls \<Longrightarrow> selects s d"
proof -
  have keys: "fst ` set (AList.update k v ls) = insert k (fst ` set ls)"
    using dom_update [of k v ls] by (simp add: dom_map_of_conv_image_fst)
  have "AList.update k v ls \<noteq> []" using keys by auto
  then have eq: "selects s d \<longleftrightarrow> (\<forall>x\<in>insert k (fst ` set ls). map_of (AList.update k w ms) x = map_of (AList.update k v ls) x)"
    unfolding keys [symmetric] selects_def s d jStrings_def by (simp add: same_strings)
  show "selects s d \<Longrightarrow> v = w" using eq by simp
  show "v = w \<Longrightarrow> list_all (\<lambda>(k, _). map_of ms k = map_of ls k) ls \<Longrightarrow> selects s d"
    unfolding eq by (auto simp: list_all_iff)
qed

lemma selects_present:
  "selects s d \<Longrightarrow> walk (JObj (u_Object s)) [''spec'', ''selector''] \<noteq> None"
  "selects s d \<Longrightarrow> walk (JObj (u_Object d)) podLabels \<noteq> None"
  by (auto simp: selects_def split: option.splits json.splits)

text \<open>
  C19: The API server of a tenant is told whom it serves, and is reached by those who ask for that
  tenant only. The patch leaves in the container of its deployment the name of the tenant, the
  namespace of the tenant's subscriptions and the tenant's gateway, whatever the manifest had there.
  The service of a tenant selects the pods of a deployment only if both were patched for the same
  tenant; and if they were, it selects them as soon as it did so in the manifests.
\<close>

theorem api_server_of_tenant:
  assumes a: "documentedEdits a" and d: "patchMaaSAPIDeployment a p r = Ok d" and s: "patchMaaSAPIService a p' r' = Ok s"
  shows "podEnv d ''maas-api'' ''TENANT_NAME'' = Some (tenantEnvName p)
    \<and> podEnv d ''maas-api'' ''MAAS_SUBSCRIPTION_NAMESPACE'' = Some (pp_SubscriptionNamespace p)
    \<and> podEnv d ''maas-api'' ''GATEWAY_NAMESPACE'' = Some (pp_GatewayNamespace p)
    \<and> podEnv d ''maas-api'' ''GATEWAY_NAME'' = Some (pp_GatewayName p)
    \<and> (selects s d \<longrightarrow> pp_TenantIdentifier p' = pp_TenantIdentifier p)
    \<and> (pp_TenantIdentifier p' = pp_TenantIdentifier p \<and> selects r' r \<longrightarrow> selects s d)"
proof -
  let ?sel = "[''spec'', ''selector'']"
  obtain ls where ls: "walk (JObj (u_Object d)) podLabels =
        Some (jStrings (AList.update LabelTenantInstance (MaaSAPIDeploymentName (pp_TenantIdentifier p)) ls))"
    "walk (JObj (u_Object r)) podLabels = (if ls = [] \<and> walk (JObj (u_Object r)) podLabels = None then None else Some (jStrings ls))"
    using deployment_patched(6) [OF a d] by blast
  from s have "addLabelAt a ''read service selector'' ?sel LabelTenantInstance
      (MaaSAPIDeploymentName (pp_TenantIdentifier p')) r' = Ok s"
    by (simp add: patchMaaSAPIService_def addServiceSelectorLabel_def)
  from addLabel_effect(1) [OF a _ this] obtain ms where ms: "walk (JObj (u_Object s)) ?sel =
        Some (jStrings (AList.update LabelTenantInstance (MaaSAPIDeploymentName (pp_TenantIdentifier p')) ms))"
    "walk (JObj (u_Object r')) ?sel = (if ms = [] \<and> walk (JObj (u_Object r')) ?sel = None then None else Some (jStrings ms))"
    by auto
  have before: "list_all (\<lambda>(k, _). map_of ls k = map_of ms k) ms" if "selects r' r"
  proof -
    have "walk (JObj (u_Object r')) ?sel = Some (jStrings ms)" "walk (JObj (u_Object r)) podLabels = Some (jStrings ls)"
      using ls(2) ms(2) that by (metis selects_present)+
    with that have "list_all (\<lambda>(x, _). map_of (map (\<lambda>(k, v). (k, JStr v)) ls) x = map_of (map (\<lambda>(k, v). (k, JStr v)) ms) x)
        (map (\<lambda>(k, v). (k, JStr v)) ms)"
      by (simp add: selects_def jStrings_def)
    then show ?thesis unfolding same_strings by (auto simp: list_all_iff)
  qed
  note eq = selects_updated [OF ms(1) ls(1)]
  have "selects s d \<Longrightarrow> pp_TenantIdentifier p' = pp_TenantIdentifier p"
    using eq(1) by (simp add: MaaSAPIDeploymentName_def)
  moreover have "pp_TenantIdentifier p' = pp_TenantIdentifier p \<Longrightarrow> selects r' r \<Longrightarrow> selects s d"
    using eq(2) before by simp
  ultimately show ?thesis using deployment_patched(1-4) [OF a d] by blast
qed

text \<open>A manifest of the API server and of its service, rendered for the tenant \<open>red\<close>.\<close>

definition apiObject :: "gvk \<Rightarrow> json \<Rightarrow> xobject" where
  "apiObject k spec =
     \<lparr>u_meta = freshMeta ''apps'' ''maas-api'', u_Object = [(''spec'', spec)], xo_GVK = k, xo_ResourceVersion = []\<rparr>"

definition apiDeployment :: xobject where
  "apiDeployment = apiObject GVKDeployment
     (JObj [(''template'', JObj
        [(''metadata'', JObj [(''labels'', JObj [(''app'', JStr ''maas-api'')])]),
         (''spec'', JObj [(''containers'', JArr
            [JObj [(''name'', JStr ''maas-api''), (''env'', JArr
               [JObj [(''name'', JStr ''TENANT_NAME''), (''value'', JStr ''none'')]])]])])])])"

definition apiService :: xobject where
  "apiService = apiObject GVKService (JObj [(''selector'', JObj [(''app'', JStr ''maas-api'')])])"

definition paramsFor :: "string \<Rightarrow> PlatformParams" where
  "paramsFor t =
     \<lparr>pp_AppNamespace = ''apps'', pp_ControllerNamespace = ''ctl'', pp_GatewayNamespace = ''gateways'', pp_GatewayName = ''gw'',
      pp_ClusterAudience = [], pp_SubscriptionNamespace = ''subs'', pp_ExternalOIDC = None, pp_TenantIdentifier = t,
      pp_MaaSAPIImage = ''api:1'', pp_PayloadProcessingImage = ''pp:1'', pp_MaaSAPIKeyCleanupImage = ''ubi:9'',
      pp_APIKeyMaxExpirationDays = ''90'', pp_MaaSAPIReplicas = Some 2, pp_MaaSAPIResources = None,
      pp_PayloadProcessingReplicas = None, pp_PayloadProcessingAutoscaling = False, pp_PayloadProcessingMaxReplicas = 10,
      pp_PayloadProcessingTargetCPU = 70, pp_PayloadProcessingTargetMemory = 80, pp_MonitoringNamespace = [],
      pp_RouterExtProcFallback = False, pp_PayloadProcessingResources = None, pp_Warnings = []\<rparr>"

theorem api_server_of_tenant_witness:
  "\<exists>d s. patchMaaSAPIDeployment walkEdits (paramsFor ''red'') apiDeployment = Ok d
    \<and> patchMaaSAPIService walkEdits (paramsFor ''red'') apiService = Ok s
    \<and> podEnv d ''maas-api'' ''TENANT_NAME'' = Some ''red'' \<and> selects s d"
proof -
  let ?p = "paramsFor ''red''"
  have "case patchMaaSAPIDeployment walkEdits ?p apiDeployment of Inr _ \<Rightarrow> True | Inl _ \<Rightarrow> False" by code_simp
  then have "\<exists>d. patchMaaSAPIDeployment walkEdits ?p apiDeployment = Ok d" by (auto split: sum.splits)
  moreover have "case patchMaaSAPIService walkEdits ?p apiService of Inr _ \<Rightarrow> True | Inl _ \<Rightarrow> False" by code_simp
  then have "\<exists>s. patchMaaSAPIService walkEdits ?p apiService = Ok s" by (auto split: sum.splits)
  moreover have "selects apiService apiDeployment" by code_simp
  moreover have "tenantEnvName ?p = ''red''" by code_simp
  ultimately show ?thesis using api_server_of_tenant [OF walkEdits_documented, of ?p apiDeployment _ ?p apiService] by metis
qed

end
