(* ===== verification/PlatformRender.thy ===== *)
theory PlatformRender
  imports PostRender PlatformReach
begin

text \<open>
  What the rendering of a tenant's platform comes to: the objects of different tenants are apart, the
  API server of a tenant is told whom it serves, its service reaches its own pods only, and the
  autoscaler that is made is a possible one.
\<close>

section \<open>Names\<close>

lemma SetName_simps [simp]:
  "xo_GVK (SetName n r) = xo_GVK r" "nameOf (SetName n r) = n" "u_Object (SetName n r) = u_Object r"
  "xo_GVK (SetNamespace n r) = xo_GVK r" "nameOf (SetNamespace n r) = nameOf r" "u_Object (SetNamespace n r) = u_Object r"
  "xo_GVK (removeAt a fs r) = xo_GVK r" "nameOf (removeAt a fs r) = nameOf r"
  by (simp_all add: SetName_def SetNamespace_def removeAt_def)

text \<open>If there is an object, it has this kind and name.\<close>

definition called :: "gvk \<Rightarrow> string \<Rightarrow> (string, xobject) result \<Rightarrow> bool" where
  "called k n res \<longleftrightarrow> (\<forall>r. res = Ok r \<longrightarrow> xo_GVK r = k \<and> nameOf r = n)"

lemma called_Ok: "xo_GVK r = k \<Longrightarrow> nameOf r = n \<Longrightarrow> called k n (Ok r)"
  and called_Err: "called k n (Err e)"
  and called_named: "called k n x \<Longrightarrow> called k n (namedR w x)"
  and called_then: "(\<And>y. called k n (f y)) \<Longrightarrow> called k n (thenR z f)"
  by (auto simp: called_def)

lemma called_step:
  "called k n x \<Longrightarrow> (\<And>r. xo_GVK r = k \<Longrightarrow> nameOf r = n \<Longrightarrow> called k n (f r)) \<Longrightarrow> called k n (thenR x f)"
  by (auto simp: called_def)

lemma called_steps:
  "list_all (\<lambda>p. \<forall>r. xo_GVK r = k \<longrightarrow> nameOf r = n \<longrightarrow> called k n (snd p r)) fs
    \<Longrightarrow> xo_GVK r = k \<Longrightarrow> nameOf r = n \<Longrightarrow> called k n (runSteps fs r)"
proof (induction fs arbitrary: r)
  case (Cons p fs)
  then show ?case by (cases p) (auto intro!: called_step called_named)
qed (simp add: called_Ok)

lemma called_if: "(b \<Longrightarrow> called k n x) \<Longrightarrow> (\<not> b \<Longrightarrow> called k n y) \<Longrightarrow> called k n (if b then x else y)"
  by simp

lemma called_option: "called k n h \<Longrightarrow> (\<And>y. called k n (f y)) \<Longrightarrow> called k n (case z of None \<Rightarrow> h | Some y \<Rightarrow> f y)"
  by (cases z) auto

lemma called_list: "called k n h \<Longrightarrow> (\<And>y ys. called k n (f y ys)) \<Longrightarrow> called k n (case z of [] \<Rightarrow> h | y # ys \<Rightarrow> f y ys)"
  by (cases z) auto

lemma called_sum: "(\<And>e. called k n (h e)) \<Longrightarrow> (\<And>y. called k n (f y)) \<Longrightarrow> called k n (case z of Inl e \<Rightarrow> h e | Inr y \<Rightarrow> f y)"
  by (cases z) auto

lemma called_setFields: "xo_GVK r = k \<Longrightarrow> nameOf r = n \<Longrightarrow> called k n (setFields r res)"
  by (auto simp: called_def)

lemmas called_rules = called_Ok called_Err called_named called_if called_option called_list called_sum called_setFields

lemma called_sets:
  assumes "xo_GVK r = k" "nameOf r = n"
  shows "called k n (setAt a v fs r)" "called k n (setSlice a vs fs r)" "called k n (setStrings a ls fs r)"
  unfolding setAt_def setSlice_def setStrings_def by (rule called_setFields assms)+

lemma called_container: "xo_GVK r = k \<Longrightarrow> nameOf r = n \<Longrightarrow> called k n (editContainer a path c f r)"
  unfolding editContainer_def by (intro called_rules called_sets)

lemma called_containers:
  assumes "xo_GVK r = k" "nameOf r = n"
  shows "called k n (setContainerImage a c img r)" "called k n (setCronJobContainerImage a c img r)"
    "called k n (setContainerArg a c arg r)" "called k n (setOrAddEnvVar a c x v r)" "called k n (setContainerResources a c res r)"
  unfolding setContainerImage_def setCronJobContainerImage_def setContainerArg_def setOrAddEnvVar_def setContainerResources_def
  by (intro called_rules called_container assms)+

lemma called_labels:
  assumes "xo_GVK r = k" "nameOf r = n"
  shows "called k n (addPodTemplateLabel a x v r)" "called k n (addServiceSelectorLabel a x v r)"
    "called k n (setDeploymentSelectorMatchLabels a ls r)" "called k n (setServiceSelectorMatchLabels a ls r)"
    "called k n (patchDeploymentServiceAccountName a v r)" "called k n (patchConfigMapVolumeRef a w v r)"
    "called k n (patchIPPDeploymentSelector a t l v r)"
  unfolding addPodTemplateLabel_def addServiceSelectorLabel_def addLabelAt_def setDeploymentSelectorMatchLabels_def
    setServiceSelectorMatchLabels_def patchDeploymentServiceAccountName_def patchConfigMapVolumeRef_def
    patchIPPDeploymentSelector_def
  by (intro called_rules called_then called_sets assms)+

lemmas called_edits = called_sets called_containers called_labels

lemma called_env: "xo_GVK r = k \<Longrightarrow> nameOf r = n \<Longrightarrow> called k n (snd (envStep a c x v) r)"
  by (simp add: envStep_def called_edits)

lemma called_optional:
  "(\<And>v r. xo_GVK r = k \<Longrightarrow> nameOf r = n \<Longrightarrow> called k n (f v r))
    \<Longrightarrow> list_all (\<lambda>p. \<forall>r. xo_GVK r = k \<longrightarrow> nameOf r = n \<longrightarrow> called k n (snd p r)) (optionalStep w f v)"
  by (cases v) (auto simp: optionalStep_def)

lemma called_ippSteps: "list_all (\<lambda>p. \<forall>r. xo_GVK r = k \<longrightarrow> nameOf r = n \<longrightarrow> called k n (snd p r)) (ippSteps a t l v)"
  by (simp add: ippSteps_def called_edits)

lemma called_tracing: "xo_GVK r = k \<Longrightarrow> nameOf r = n \<Longrightarrow> called k n (patchPayloadProcessingTracing a p r)"
  unfolding patchPayloadProcessingTracing_def Let_def
  by (intro called_if called_steps called_edits) (simp_all add: called_edits called_env)

lemmas called_lists = called_optional called_ippSteps called_edits called_tracing called_env

lemma called_deployments:
  assumes "xo_GVK r = k" "nameOf r = n"
  shows "called k n (patchMaaSAPIDeployment a p r)" "called k n (patchPayloadProcessingDeployment a p r)"
    "called k n (patchPreProcessingDeployment a p r)"
  unfolding patchMaaSAPIDeployment_def patchPayloadProcessingDeployment_def patchPreProcessingDeployment_def Let_def
  by (rule called_steps; use assms in \<open>auto simp: called_lists called_Ok\<close>)+

lemma called_policies:
  assumes "xo_GVK r = k" "nameOf r = n"
  shows "called k n (patchDeploymentNSNetworkPolicy a ns r)" "called k n (patchPayloadProcessingNetworkPolicy a p r)"
proof -
  show "called k n (patchDeploymentNSNetworkPolicy a ns r)"
    unfolding patchDeploymentNSNetworkPolicy_def by (intro called_rules called_then called_edits assms)
  have "called k n (patchNetworkPolicyOTLPEgress a ns r)" if "xo_GVK r = k" "nameOf r = n" for ns r
    unfolding patchNetworkPolicyOTLPEgress_def by (intro called_rules called_then called_edits that)
  then show "called k n (patchPayloadProcessingNetworkPolicy a p r)"
    unfolding patchPayloadProcessingNetworkPolicy_def Let_def
    by (intro called_steps) (use assms in \<open>auto simp: called_edits\<close>)
qed

lemma called_rest:
  assumes "xo_GVK r = k" "nameOf r = n"
  shows "called k n (patchMaaSAPIService a p r)" "called k n (patchCleanupCronJobImage a p r)"
    "called k n (patchHTTPRoute a p r)" "called k n (patchMaaSAPIDestinationRule a p r)"
    "called k n (patchPayloadDestinationRule a p r)" "called k n (patchPayloadProcessingService a p r)"
    "called k n (patchPayloadPreProcessingService a p r)" "called k n (patchPayloadProcessingClusterRoleBinding a p r)"
    "called k n (patchPayloadProcessingEnvoyFilter a p r)"
  unfolding patchMaaSAPIService_def patchCleanupCronJobImage_def patchHTTPRoute_def patchMaaSAPIDestinationRule_def
    patchPayloadDestinationRule_def patchPayloadProcessingService_def patchPayloadPreProcessingService_def
    patchPayloadProcessingClusterRoleBinding_def patchPayloadProcessingEnvoyFilter_def Let_def
  by (intro called_rules called_step called_then called_edits called_steps; use assms in \<open>simp add: called_edits\<close>)+

section \<open>Different tenants\<close>

text \<open>The objects of the manifests that get the name of the tenant, and the objects that are added with it.\<close>

definition renamedFirst :: "(gvk \<times> string) list" where
  "renamedFirst = [(GVKTokenRateLimitPolicy, ''gateway-default-deny''), (GVKHTTPRoute, ''maas-api-route'')]"

definition renamedLater :: "(gvk \<times> string) list" where
  "renamedLater =
     [(GVKDeployment, ''maas-api''), (GVKDeployment, PayloadProcessingName), (GVKDeployment, PayloadPreProcessingName),
      (GVKCronJob, ''maas-api-key-cleanup''), (GVKHTTPRoute, ''maas-api-route''),
      (GVKDestinationRule, ''maas-api-backend-tls''), (GVKDestinationRule, PayloadProcessingName),
      (GVKDestinationRule, PayloadPreProcessingName), (GVKEnvoyFilter, PayloadProcessingName),
      (GVKService, ''maas-api''), (GVKService, PayloadProcessingName), (GVKService, PayloadPreProcessingName),
      (GVKServiceAccount, PayloadProcessingName), (GVKConfigMap, PayloadProcessingPluginsConfigMapName),
      (GVKNetworkPolicy, PayloadProcessingName), (GVKClusterRoleBinding, ''payload-processing-reader''),
      (GVKCertificate, ''maas-api-serving-cert'')]"

definition addedResources :: "(gvk \<times> string) list" where
  "addedResources =
     [(GVKTelemetryPolicy, ''maas-telemetry''), (GVKIstioTelemetry, ''latency-per-subscription''), (GVKHPA, PayloadProcessingName)]"

definition perTenantResources :: "(gvk \<times> string) list" where
  "perTenantResources = renamedFirst @ renamedLater"

definition tenantNameIn :: "(gvk \<times> string) list \<Rightarrow> string \<Rightarrow> gvk \<Rightarrow> string \<Rightarrow> string" where
  "tenantNameIn T tenantID k n = (if (k, n) \<in> set T then resourceNameForTenant n tenantID else n)"

lemma prefix_resourceName: "prefix b (resourceNameForTenant b t)"
  by (simp add: resourceNameForTenant_def)

lemma resourceNames_apart:
  "\<not> prefix b c \<Longrightarrow> \<not> prefix c b \<Longrightarrow> resourceNameForTenant b t \<noteq> resourceNameForTenant c u"
  by (metis prefix_resourceName prefix_same_cases)

lemma per_tenant_bases:
  "list_all (\<lambda>(k, b). list_all (\<lambda>(k', b'). k = k' \<longrightarrow> b = b' \<or> \<not> prefix b b' \<and> \<not> prefix b' b)
     (perTenantResources @ addedResources)) (perTenantResources @ addedResources)"
  by (simp add: perTenantResources_def renamedFirst_def renamedLater_def addedResources_def platform_gvks platform_bases)

lemma per_tenant_names_inj:
  assumes "(k, b) \<in> set (perTenantResources @ addedResources)" "(k, b') \<in> set (perTenantResources @ addedResources)"
    and "resourceNameForTenant b t = resourceNameForTenant b' u"
  shows "t = u"
proof -
  have "b = b' \<or> \<not> prefix b b' \<and> \<not> prefix b' b"
    using per_tenant_bases assms(1,2) unfolding list_all_iff by fastforce
  with resourceNames_apart assms(3) show ?thesis by auto
qed

lemma renderOne_name:
  assumes "renderOne a p r = Ok xs" "x \<in> set xs"
  shows "xo_GVK x = xo_GVK r \<and> nameOf x = tenantNameIn renamedFirst (pp_TenantIdentifier p) (xo_GVK r) (nameOf r)"
proof -
  have route: "called (xo_GVK r) (resourceNameForTenant ''maas-api-route'' t) (configureMaaSAPIHTTPRoute a ns g t r)"
    if "nameOf r = ''maas-api-route''" for ns g t
    unfolding configureMaaSAPIHTTPRoute_def Let_def
    by (intro called_rules called_step called_then called_edits)
      (auto simp: MaaSAPIRouteName_def resourceNameForTenant_def that)
  have dep: "called (xo_GVK r) (nameOf r) (configureMaaSAPIDeployment a t r)" for t
    unfolding configureMaaSAPIDeployment_def by (intro called_rules called_then called_edits) simp_all
  have policy: "called (xo_GVK r) (resourceNameForTenant ''gateway-default-deny'' t) (configureTokenRateLimitPolicy a ns g t r)" for ns g t
    unfolding configureTokenRateLimitPolicy_def
    by (intro called_rules called_edits) (simp_all add: GatewayTokenRateLimitDefaultDenyPolicyName_def)
  define X where "X = (if xo_GVK r = GVKTokenRateLimitPolicy \<and> nameOf r = ''gateway-default-deny'' then
        configureTokenRateLimitPolicy a (pp_GatewayNamespace p) (pp_GatewayName p) (pp_TenantIdentifier p) r
      else if xo_GVK r = GVKDestinationRule \<and> nameOf r = ''maas-api-backend-tls'' then
        Ok (configureDestinationRule (pp_GatewayNamespace p) r)
      else if groupOf r = [] \<and> kindOf r = ''Service'' \<and> nameOf r = ''maas-api'' then
        Ok (configureMaaSAPIService (pp_TenantIdentifier p) r)
      else if groupOf r = ''apps'' \<and> kindOf r = ''Deployment'' \<and> nameOf r = ''maas-api'' then
        configureMaaSAPIDeployment a (pp_TenantIdentifier p) r
      else if xo_GVK r = GVKHTTPRoute \<and> nameOf r = ''maas-api-route'' then
        configureMaaSAPIHTTPRoute a (pp_GatewayNamespace p) (pp_GatewayName p) (pp_TenantIdentifier p) r
      else Ok r)"
  let ?n = "tenantNameIn renamedFirst (pp_TenantIdentifier p) (xo_GVK r) (nameOf r)"
  have "called (xo_GVK r) ?n X"
    unfolding X_def
  proof (intro called_if)
    assume "xo_GVK r = GVKTokenRateLimitPolicy \<and> nameOf r = ''gateway-default-deny''"
    with policy show "called (xo_GVK r) ?n
        (configureTokenRateLimitPolicy a (pp_GatewayNamespace p) (pp_GatewayName p) (pp_TenantIdentifier p) r)"
      by (simp add: tenantNameIn_def renamedFirst_def)
  next
    assume "xo_GVK r = GVKHTTPRoute \<and> nameOf r = ''maas-api-route''"
    with route show "called (xo_GVK r) ?n
        (configureMaaSAPIHTTPRoute a (pp_GatewayNamespace p) (pp_GatewayName p) (pp_TenantIdentifier p) r)"
      by (simp add: tenantNameIn_def renamedFirst_def)
  next
    assume "groupOf r = ''apps'' \<and> kindOf r = ''Deployment'' \<and> nameOf r = ''maas-api''"
    with dep show "called (xo_GVK r) ?n (configureMaaSAPIDeployment a (pp_TenantIdentifier p) r)"
      by (simp add: tenantNameIn_def renamedFirst_def)
  qed (auto intro!: called_Ok simp: tenantNameIn_def renamedFirst_def configureDestinationRule_def configureMaaSAPIService_def
      platform_gvks)
  moreover have "X = Ok x"
    using assms unfolding renderOne_def Let_def X_def [symmetric] by (auto split: if_splits)
  ultimately show ?thesis by (simp add: called_def)
qed

lemma patchResource_name:
  "called (xo_GVK r) (tenantNameIn renamedLater (pp_TenantIdentifier p) (xo_GVK r) (nameOf r)) (patchResource a p r)"
proof -
  let ?n = "tenantNameIn renamedLater (pp_TenantIdentifier p) (xo_GVK r) (nameOf r)"
  have cert: "called k m (patchMaaSAPIServingCert a p r)"
    if "xo_GVK r = k" "MaaSAPIServingCertName (pp_TenantIdentifier p) = m" for k m
    unfolding patchMaaSAPIServingCert_def Let_def by (intro called_steps) (use that in \<open>simp_all add: called_edits\<close>)
  note calls = called_deployments called_policies called_rest cert called_Ok
  have miss: "?n = nameOf r" if "(xo_GVK r, nameOf r) \<notin> set renamedLater"
    using that by (simp add: tenantNameIn_def)
  have ns: "?n = nameOf r" if "xo_GVK r = GVKNetworkPolicy \<and> nameOf r = ''maas-api-allow-deployment-ns''"
    by (rule miss) (use that in \<open>simp add: renamedLater_def platform_gvks platform_bases\<close>)
  have rule: "?n = (if nameOf r = PayloadPreProcessingName then PayloadPreProcessingDeploymentName (pp_TenantIdentifier p)
      else PayloadProcessingDeploymentName (pp_TenantIdentifier p))"
    if "xo_GVK r = GVKDestinationRule \<and> (nameOf r = PayloadProcessingName \<or> nameOf r = PayloadPreProcessingName)"
    using that by (auto simp: tenantNameIn_def renamedLater_def platform_names)
  show ?thesis
    unfolding patchResource_def Let_def
    by (intro called_if calls)
      ((simp only: SetName_simps; fail) | ((subst SetName_simps)?, rule ns [symmetric] rule [symmetric], assumption)
        | (simp add: tenantNameIn_def renamedLater_def platform_names; fail)
        | (simp add: tenantNameIn_def renamedLater_def platform_names PayloadPreProcessingName_def; fail)
        | (rule miss [symmetric], simp add: renamedLater_def))+
qed

lemma mapR_OkD: "mapR f i xs = Ok ys \<Longrightarrow> y \<in> set ys \<Longrightarrow> \<exists>j x. x \<in> set xs \<and> f j x = Ok y"
proof (induction xs arbitrary: i ys)
  case (Cons x xs)
  then obtain z zs where "f i x = Ok z" "mapR f (Suc i) xs = Ok zs" "ys = z # zs" by auto
  with Cons.IH [of "Suc i" zs] Cons.prems(2) show ?case by auto
qed simp

lemma added_names:
  assumes "x \<in> set (configureTelemetryPolicyResources t p @ configureIstioTelemetryResources t p @ configurePayloadProcessingHPA p)"
  shows "\<exists>b. (xo_GVK x, b) \<in> set addedResources \<and> nameOf x = resourceNameForTenant b (pp_TenantIdentifier p)"
  using assms
  by (auto simp: configureTelemetryPolicyResources_def configureIstioTelemetryResources_def configurePayloadProcessingHPA_def
      addedResources_def observabilityMeta_def freshMeta_def platform_names Let_def split: if_splits)

text \<open>Every rendered object has a name of the tenant, or is one of the manifests that keeps its name.\<close>

lemma rendered_name:
  assumes "PostRender a t rs p = Ok xs" "x \<in> set xs"
  shows "(\<exists>b. (xo_GVK x, b) \<in> set (perTenantResources @ addedResources)
        \<and> nameOf x = resourceNameForTenant b (pp_TenantIdentifier p))
    \<or> (\<exists>r\<in>set rs. xo_GVK r = xo_GVK x \<and> nameOf r = nameOf x \<and> (xo_GVK r, nameOf r) \<notin> set perTenantResources)"
proof -
  let ?t = "pp_TenantIdentifier p"
  obtain fs y where fs: "mapR (\<lambda>_. renderOne a p) 0 rs = Ok fs"
    and y: "y \<in> set (concat fs @ configureTelemetryPolicyResources t p @ configureIstioTelemetryResources t p
      @ configurePayloadProcessingHPA p)" "patchResource a p y = Ok x"
    using assms mapR_OkD [where f = "\<lambda>_. patchResource a p" and y = x and ys = xs]
    unfolding PostRender_def applyPlatformParams_def thenR_Ok by metis
  then have x: "xo_GVK x = xo_GVK y" "nameOf x = tenantNameIn renamedLater ?t (xo_GVK y) (nameOf y)"
    using patchResource_name [of y p a] by (auto simp: called_def)
  have still: "(k, resourceNameForTenant b ?t) \<notin> set renamedLater \<or> ?t = []"
    if "(k, b) \<in> set (perTenantResources @ addedResources)" for k b
    using per_tenant_names_inj [of k "resourceNameForTenant b ?t" b "[]" ?t] that
    by (auto simp: perTenantResources_def resourceNameForTenant_def)
  have twice: "?t = [] \<Longrightarrow> resourceNameForTenant b ?t = b" for b by (simp add: resourceNameForTenant_def)
  show ?thesis
  proof (cases "y \<in> set (concat fs)")
    case True
    then obtain zs r where "r \<in> set rs" "renderOne a p r = Ok zs" "y \<in> set zs"
      using mapR_OkD [OF fs] by fastforce
    with renderOne_name x have r: "r \<in> set rs" "xo_GVK x = xo_GVK r"
      "nameOf x = tenantNameIn renamedLater ?t (xo_GVK r) (tenantNameIn renamedFirst ?t (xo_GVK r) (nameOf r))" by auto
    show ?thesis
    proof (cases "(xo_GVK r, nameOf r) \<in> set perTenantResources")
      case True
      have "tenantNameIn renamedLater ?t k (tenantNameIn renamedFirst ?t k n) = resourceNameForTenant n ?t"
        if pt: "(k, n) \<in> set perTenantResources" for k n
        using still [of k n] pt twice by (auto simp: tenantNameIn_def perTenantResources_def)
      with r(3) True have "nameOf x = resourceNameForTenant (nameOf r) ?t" by simp
      with True r show ?thesis by auto
    next
      case False
      with r have "nameOf x = nameOf r" by (simp add: tenantNameIn_def perTenantResources_def)
      with False r show ?thesis by auto
    qed
  next
    case False
    with y(1) added_names [of y t p] obtain b where b: "(xo_GVK y, b) \<in> set addedResources"
      "nameOf y = resourceNameForTenant b ?t" by auto
    have "tenantNameIn renamedLater ?t k (resourceNameForTenant b ?t) = resourceNameForTenant b ?t"
      if "(k, b) \<in> set addedResources" for k
      using still [of k b] that twice by (auto simp: tenantNameIn_def)
    with x b have "nameOf x = resourceNameForTenant b ?t" by simp
    with b x show ?thesis by auto
  qed
qed

text \<open>
  C18: The platforms of different tenants are rendered from the same manifests without getting into
  each other's way: an object that has kind and name in common in both is an object of the manifests
  that keeps its name for every tenant, and none of those that are made for each tenant: the
  deployments and services of the API server and of payload processing, their routes, filters,
  policies, accounts and certificates, the clean-up job, and what is added for telemetry and scaling.
\<close>

theorem tenants_render_apart:
  assumes "PostRender a t rs p = Ok xs" "PostRender a t' rs p' = Ok ys"
    and "pp_TenantIdentifier p \<noteq> pp_TenantIdentifier p'"
    and "x \<in> set xs" "y \<in> set ys" "xo_GVK x = xo_GVK y" "nameOf x = nameOf y"
  shows "\<exists>r\<in>set rs. xo_GVK r = xo_GVK x \<and> nameOf r = nameOf x \<and> (xo_GVK r, nameOf r) \<notin> set perTenantResources"
proof -
  have "\<not> ((\<exists>b. (xo_GVK x, b) \<in> set (perTenantResources @ addedResources) \<and> nameOf x = resourceNameForTenant b (pp_TenantIdentifier p))
      \<and> (\<exists>b. (xo_GVK y, b) \<in> set (perTenantResources @ addedResources) \<and> nameOf y = resourceNameForTenant b (pp_TenantIdentifier p')))"
    using per_tenant_names_inj assms(3,6,7) by metis
  with rendered_name [OF assms(1,4)] rendered_name [OF assms(2,5)] assms(6,7) show ?thesis by metis
qed

section \<open>The autoscaler\<close>

text \<open>What the validation of the custom resource says of the settings.\<close>

definition settingsValid :: "platformObject \<Rightarrow> bool" where
  "settingsValid t \<longleftrightarrow>
     (\<forall>cfg. payloadProcessingConfigFor t = Some cfg \<longrightarrow>
        (\<forall>n. ppc_Replicas cfg = Some n \<longrightarrow> 1 \<le> n \<and> n \<le> 100)
        \<and> (\<forall>s n. ppc_Autoscaling cfg = Some s \<and> asc_MaxReplicas s = Some n \<longrightarrow> 1 \<le> n \<and> n \<le> 100))"

definition scaleBounds :: "xobject \<Rightarrow> (json option \<times> json option)" where
  "scaleBounds x = (walk (JObj (u_Object x)) [''spec'', ''minReplicas''], walk (JObj (u_Object x)) [''spec'', ''maxReplicas''])"

lemma params_of_payload:
  assumes "BuildPlatformParams getenv t pc appNs ctlNs aud mon = Ok p"
  shows "\<exists>q. p = clampReplicas q \<and> pp_PayloadProcessingAutoscaling q = plc_Enabled (resolvePayloadProcessingConfig t)
    \<and> pp_PayloadProcessingMaxReplicas q = plc_MaxReplicas (resolvePayloadProcessingConfig t)
    \<and> pp_PayloadProcessingReplicas q = (case plc_Replicas (resolvePayloadProcessingConfig t) of
         None \<Rightarrow> fst (snd (resolveReplicaAnnotations t)) | Some n \<Rightarrow> Some n)"
proof -
  obtain u v w where ann: "resolveReplicaAnnotations t = (u, v, w)" by (cases "resolveReplicaAnnotations t")
  obtain k l where api: "resolveMaasAPIConfig t = (k, l)" by (cases "resolveMaasAPIConfig t")
  from assms obtain i where "TenantIdentifierFor (Some (po_meta t)) = Inr i"
    by (cases "TenantIdentifierFor (Some (po_meta t))") (auto simp: BuildPlatformParams_def)
  with assms show ?thesis
    unfolding BuildPlatformParams_def Let_def ann api
    by (simp only: sum.case prod.case fst_conv snd_conv sum.inject) (rule exI, rule conjI, erule sym, simp)
qed

lemma clamped:
  "pp_PayloadProcessingReplicas (clampReplicas q) = pp_PayloadProcessingReplicas q"
  "pp_PayloadProcessingAutoscaling (clampReplicas q) = pp_PayloadProcessingAutoscaling q"
  "pp_PayloadProcessingMaxReplicas (clampReplicas q) =
     (case pp_PayloadProcessingReplicas q of
        None \<Rightarrow> pp_PayloadProcessingMaxReplicas q
      | Some n \<Rightarrow> if pp_PayloadProcessingAutoscaling q then max n (pp_PayloadProcessingMaxReplicas q)
                   else pp_PayloadProcessingMaxReplicas q)"
  by (auto simp: clampReplicas_def split: option.splits)

text \<open>
  C20: An autoscaler of a tenant is one that the API server accepts: whatever the settings and the
  annotations of the tenant say, its minimum is at most its maximum as soon as that is at least one,
  and with settings the custom resource allows both lie between 1 and 100.
\<close>

theorem autoscaler_bounds:
  assumes "BuildPlatformParams getenv t pc appNs ctlNs aud mon = Ok p" and "x \<in> set (configurePayloadProcessingHPA p)"
  shows "\<exists>lo hi. scaleBounds x = (Some (JInt lo), Some (JInt hi))
    \<and> (1 \<le> plc_MaxReplicas (resolvePayloadProcessingConfig t) \<longrightarrow> lo \<le> hi)
    \<and> (settingsValid t \<longrightarrow> 1 \<le> lo \<and> hi \<le> 100)"
proof -
  let ?c = "resolvePayloadProcessingConfig t"
  let ?v = "fst (snd (resolveReplicaAnnotations t))"
  let ?n = "case plc_Replicas ?c of None \<Rightarrow> ?v | Some n \<Rightarrow> Some n"
  have v: "?v = Some n \<Longrightarrow> 1 \<le> n \<and> n \<le> 100" for n
    using replicaAnnotation_bounds [of "om_Annotations (po_meta t)" AnnotationPayloadProcessingReplicas n]
    by (auto simp: resolveReplicaAnnotations_def Let_def split: prod.splits)
  obtain q where q: "p = clampReplicas q" "pp_PayloadProcessingAutoscaling q = plc_Enabled ?c"
    "pp_PayloadProcessingMaxReplicas q = plc_MaxReplicas ?c" "pp_PayloadProcessingReplicas q = ?n"
    using params_of_payload [OF assms(1)] by blast
  have p: "pp_PayloadProcessingReplicas p = ?n"
    "pp_PayloadProcessingMaxReplicas p = (case ?n of None \<Rightarrow> plc_MaxReplicas ?c
       | Some n \<Rightarrow> if plc_Enabled ?c then max n (plc_MaxReplicas ?c) else plc_MaxReplicas ?c)"
    "pp_PayloadProcessingAutoscaling p = plc_Enabled ?c"
    unfolding q(1) clamped q(2-4) by (rule refl)+
  have valid: "settingsValid t \<Longrightarrow> plc_Replicas ?c = Some n \<Longrightarrow> 1 \<le> n \<and> n \<le> 100"
    "settingsValid t \<Longrightarrow> 1 \<le> plc_MaxReplicas ?c \<and> plc_MaxReplicas ?c \<le> 100" for n
    by (auto simp: settingsValid_def resolvePayloadProcessingConfig_def Let_def orDefault_def defaultMaxReplicas_def
        case_prod_beta split: option.splits)
  have on: "plc_Enabled ?c" and x: "scaleBounds x = (Some (JInt (orDefault 1 ?n)), Some (JInt (pp_PayloadProcessingMaxReplicas p)))"
    using assms(2) p by (auto simp: configurePayloadProcessingHPA_def Let_def scaleBounds_def split: if_splits)
  have n: "?n = Some n \<Longrightarrow> settingsValid t \<Longrightarrow> 1 \<le> n \<and> n \<le> 100" for n
    using v valid(1) by (cases "plc_Replicas ?c") auto
  show ?thesis
  proof (cases ?n)
    case None
    with p(2) valid(2) show ?thesis unfolding x by (auto simp: orDefault_def)
  next
    case (Some m)
    with p(2) on valid(2) n show ?thesis unfolding x by (auto simp: orDefault_def)
  qed
qed

text \<open>Manifests, and a tenant with more replicas than its autoscaler allows.\<close>

definition apiAccount :: xobject where
  "apiAccount = apiObject GVKServiceAccount JNull"

definition scaledTenant :: platformObject where
  "scaledTenant =
     ConfigObject ((freshMeta ''red'' ''default-tenant'')\<lparr>om_Annotations := [(AnnotationPayloadProcessingReplicas, ''5'')]\<rparr>)
       \<lparr>ts_APIKeys = None, ts_Telemetry = None, ts_MaasAPI = None,
        ts_PayloadProcessing = Some
          \<lparr>ppc_Replicas = None,
           ppc_Autoscaling = Some \<lparr>asc_MaxReplicas = Some 3, asc_TargetCPUUtilization = None, asc_TargetMemoryUtilization = None\<rparr>,
           ppc_Resources = None\<rparr>\<rparr>"

theorem tenants_render_apart_witness:
  "PostRender walkEdits scaledTenant [apiAccount] (paramsFor ''red'') = Ok [apiAccount]
    \<and> PostRender walkEdits scaledTenant [apiAccount] (paramsFor ''blue'') = Ok [apiAccount]
    \<and> (xo_GVK apiAccount, nameOf apiAccount) \<notin> set perTenantResources"
proof -
  have run: "PostRender walkEdits scaledTenant [apiAccount] (paramsFor t) = Ok [apiAccount]" for t
    by (simp add: PostRender_def renderOne_def applyPlatformParams_def patchResource_def apiAccount_def apiObject_def
        platform_gvks platform_bases freshMeta_def annotation_def configureTelemetryPolicyResources_def
        configureIstioTelemetryResources_def configurePayloadProcessingHPA_def paramsFor_def scaledTenant_def
        telemetryConfigFor_def isTelemetryEnabled_def orDefault_def thenR_def Let_def AnnotationManaged_def groupOf_def kindOf_def)
  have apart: "pp_TenantIdentifier (paramsFor ''red'') \<noteq> pp_TenantIdentifier (paramsFor ''blue'')"
    by (simp add: paramsFor_def)
  from tenants_render_apart [OF run run apart, of apiAccount apiAccount] run show ?thesis by simp
qed

theorem autoscaler_bounds_witness:
  "\<exists>p x lo hi. BuildPlatformParams (\<lambda>_. []) scaledTenant \<lparr>pc_GatewayRef = \<lparr>gr_Namespace = ''gateways'', gr_Name = ''gw''\<rparr>, pc_ExternalOIDC = None, pc_Source = []\<rparr>
      ''apps'' ''ctl'' [] [] = Ok p
    \<and> x \<in> set (configurePayloadProcessingHPA p) \<and> scaleBounds x = (Some (JInt lo), Some (JInt hi)) \<and> lo \<le> hi"
proof -
  let ?b = "BuildPlatformParams (\<lambda>_. []) scaledTenant \<lparr>pc_GatewayRef = \<lparr>gr_Namespace = ''gateways'', gr_Name = ''gw''\<rparr>,
    pc_ExternalOIDC = None, pc_Source = []\<rparr> ''apps'' ''ctl'' [] []"
  obtain p where p: "?b = Ok p"
    by (simp add: BuildPlatformParams_def TenantIdentifierFor_def scaledTenant_def freshMeta_def annotation_def Let_def
        split_beta)
  have "plc_Enabled (resolvePayloadProcessingConfig scaledTenant)"
    by (simp add: resolvePayloadProcessingConfig_def payloadProcessingConfigFor_def scaledTenant_def
        validatePayloadProcessingResources_def tenantResourcesToCorev1_def)
  then have "configurePayloadProcessingHPA p \<noteq> []"
    using params_of_payload [OF p] by (auto simp: configurePayloadProcessingHPA_def Let_def clamped)
  moreover have "1 \<le> plc_MaxReplicas (resolvePayloadProcessingConfig scaledTenant)"
    by (simp add: resolvePayloadProcessingConfig_def payloadProcessingConfigFor_def scaledTenant_def orDefault_def
        validatePayloadProcessingResources_def tenantResourcesToCorev1_def)
  ultimately show ?thesis
    using p autoscaler_bounds [OF p, of "hd (configurePayloadProcessingHPA p)"] hd_in_set by blast
qed

end
