(* ===== verification/PlatformRun.thy ===== *)
theory PlatformRun
  imports PostRender AuthPolicyController
begin

text \<open>
  Applying the platform of a tenant: \<open>apply.go\<close>, \<open>pipeline.go\<close>, \<open>gateway_auth.go\<close> and \<open>prerequisites.go\<close>
  in \<open>pkg/platform/tenantreconcile\<close>, over the client of the tenant controller.
\<close>

section \<open>Objects and the client\<close>

text \<open>The cluster-wide \<open>Config\<close>; a \<open>Deployment\<close>; the settings of a tenant with their status.\<close>

record ConfigObj =
  cfg_meta :: ObjectMeta
  cfg_UID :: string

record DeploymentObj =
  dp_meta :: ObjectMeta
  dp_Replicas :: "int option"
  dp_ObservedGeneration :: int
  dp_UpdatedReplicas :: int
  dp_AvailableReplicas :: int

record TenantCR =
  tcr_meta :: ObjectMeta
  tcr_Settings :: TenantSettings
  tcr_Phase :: string
  tcr_InfraNamespace :: string
  tcr_Conditions :: "Condition list"

definition platformObjectOf :: "TenantCR \<Rightarrow> platformObject" where
  "platformObjectOf t = ConfigObject (tcr_meta t) (tcr_Settings t)"

text \<open>
  The writes of the controller. A deletion names its object, which is all the API server looks at;
  \<open>ApplyObject\<close> is a server-side apply with \<open>ForceOwnership\<close>.
\<close>

datatype pwrite =
    UpdateTenant TenantCR
  | UpdateTenantStatus TenantCR
  | ApplyObject xobject
  | UpdateParameters ConfigMap
  | DeletePlatform gvk string string
  | DeleteSubscription MaaSSubscription
  | DeletePolicy MaaSAuthPolicy
  | WriteGatewayPolicy uobj
  | DeleteGatewayPolicy uobj

record 's platformClient = "'s client" +
  pl_tenant :: "string \<Rightarrow> string \<Rightarrow> ('s, TenantCR) cread"
  pl_config :: "('s, ConfigObj) cread"
  pl_deployment :: "string \<Rightarrow> string \<Rightarrow> ('s, DeploymentObj) cread"
  pl_secret :: "string \<Rightarrow> string \<Rightarrow> ('s, labels) cread"
  pl_configMap :: "string \<Rightarrow> string \<Rightarrow> ('s, ConfigMap) cread"
  pl_object :: "gvk \<Rightarrow> string \<Rightarrow> string \<Rightarrow> ('s, xobject) cread"
  pl_listObjects :: "gvk \<Rightarrow> ('s, xobject list) cread"
  pl_mapping :: "gvk \<Rightarrow> ('s, unit) cread"
  pl_write :: "pwrite \<Rightarrow> 's cwrite"

text \<open>
  The functions of other packages: the accessors, kustomize, the helpers of conditions and finalizers,
  the environment, \<open>filepath.Abs\<close>, \<open>IsDNS1123Subdomain\<close>, \<open>SetControllerReference\<close> of the Config on
  an object, and what \<open>apierrors\<close> tells of an error: a conflict, on an object of which name, or a refusal.
\<close>

datatype refOutcome = RefSet xobject | RefTaken | RefFailed string

record platformApi =
  pa_edit :: editApi
  pa_kustomize :: kustomizeApi
  pa_meta :: metaApi
  pa_getenv :: "string \<Rightarrow> string"
  pa_Abs :: "string \<Rightarrow> (string, string) result"
  pa_DNS1123 :: "string \<Rightarrow> string list"
  pa_SetConfigReference :: "ConfigObj \<Rightarrow> xobject \<Rightarrow> refOutcome"
  pa_IsConflict :: "k8s_error \<Rightarrow> bool"
  pa_IsForbidden :: "k8s_error \<Rightarrow> bool"
  pa_conflictName :: "k8s_error \<Rightarrow> string option"

definition readP :: "'s platformClient \<Rightarrow> ('s, 'a) cread \<Rightarrow> (k8s_error, 's, 'a) act" where
  "readP c r = readAt (others c) r"
definition writeP :: "'s platformClient \<Rightarrow> pwrite \<Rightarrow> (k8s_error, 's, unit) act" where
  "writeP c w = writeAt (others c) (pl_write c w)"

text \<open>A step with a text in front of its error, and a pure step.\<close>

definition namedA :: "string \<Rightarrow> ('s, 'a) tact \<Rightarrow> ('s, 'a) tact" where
  "namedA what m = onA m (\<lambda>e. errA (wrapErr what e)) okA"

definition pureA :: "string \<Rightarrow> (string, 'a) result \<Rightarrow> ('s, 'a) tact" where
  "pureA what x = (case x of Inl e \<Rightarrow> failA (what @ '': '' @ e) | Inr y \<Rightarrow> okA y)"

section \<open>Applying objects\<close>

definition describedObject :: "xobject \<Rightarrow> string" where
  "describedObject u = kindOf u @ '' '' @ namespaceOf u @ ''/'' @ nameOf u"

text \<open>The live copy of a rendered object, if it can be read.\<close>

definition liveCopy :: "'s platformClient \<Rightarrow> xobject \<Rightarrow> ('s, xobject option) tact" where
  "liveCopy c u =
     (if nameOf u = [] then okA None
      else onA (readP c (pl_object c (xo_GVK u) (namespaceOf u) (nameOf u))) (\<lambda>_. okA None) (\<lambda>live. okA (Some live)))"

definition isLiveResourceUnmanaged :: "'s platformClient \<Rightarrow> xobject \<Rightarrow> ('s, bool) tact" where
  "isLiveResourceUnmanaged c rendered =
     thenA (liveCopy c rendered) (\<lambda>live. okA
       (case live of None \<Rightarrow> False
        | Some x \<Rightarrow> annotation (om_Annotations (u_meta x)) AnnotationManaged = ''false''))"

definition isOwnedByExternalController :: "'s platformClient \<Rightarrow> xobject \<Rightarrow> string \<Rightarrow> ('s, bool) tact" where
  "isOwnedByExternalController c rendered configUID =
     thenA (liveCopy c rendered) (\<lambda>live. okA
       (case live of None \<Rightarrow> False
        | Some x \<Rightarrow> list_ex (\<lambda>ref. or_Controller ref \<and> or_UID ref \<noteq> configUID) (om_Owners (u_meta x))))"

definition MaaSControllerDeploymentName :: string where
  "MaaSControllerDeploymentName = ''maas-controller''"

definition isMaaSControllerDeployment :: "xobject \<Rightarrow> string \<Rightarrow> bool" where
  "isMaaSControllerDeployment u appNs \<longleftrightarrow>
     appNs \<noteq> [] \<and> namespaceOf u = appNs \<and> ToLower (kindOf u) = ''deployment'' \<and> nameOf u = MaaSControllerDeploymentName"

definition skipConfigControllerOwnerRef :: "xobject \<Rightarrow> string \<Rightarrow> bool" where
  "skipConfigControllerOwnerRef u appNs = list_ex (\<lambda>skips. skips u appNs) [isMaaSControllerDeployment]"

definition isPayloadProcessingPluginsConfigMap :: "xobject \<Rightarrow> bool" where
  "isPayloadProcessingPluginsConfigMap u \<longleftrightarrow>
     kindOf u = ''ConfigMap''
     \<and> (nameOf u = PayloadProcessingPluginsConfigMapName
        \<or> HasPrefix (nameOf u) (PayloadProcessingPluginsConfigMapName @ ''-''))"

definition preparePayloadProcessingPluginsConfigMapApply :: "'s platformClient \<Rightarrow> xobject \<Rightarrow> ('s, xobject) tact" where
  "preparePayloadProcessingPluginsConfigMapApply c u =
     (if \<not> isPayloadProcessingPluginsConfigMap u then okA u
      else
        thenA (liveCopy c u) (\<lambda>live.
          let optedIn = (case live of None \<Rightarrow> False
                         | Some x \<Rightarrow> annotation (om_Annotations (u_meta x)) AnnotationManaged = ''true'')
          in okA (u\<lparr>u_meta := (u_meta u)\<lparr>om_Annotations :=
               AList.update AnnotationManaged (if optedIn then ''true'' else ''false'') (om_Annotations (u_meta u))\<rparr>\<rparr>)))"

definition setTenantTrackingLabels :: "ObjectMeta \<Rightarrow> xobject \<Rightarrow> xobject" where
  "setTenantTrackingLabels tenant u =
     u\<lparr>u_meta := (u_meta u)\<lparr>om_Labels :=
         AList.update LabelTenantNamespace (om_Namespace tenant)
           (AList.update LabelTenantName (tenantTrackingName tenant) (om_Labels (u_meta u)))\<rparr>\<rparr>"

text \<open>One turn of the loop of \<open>ApplyRendered\<close>.\<close>

definition applyObject ::
  "'s platformClient \<Rightarrow> platformApi \<Rightarrow> ObjectMeta \<Rightarrow> string \<Rightarrow> ConfigObj \<Rightarrow> xobject \<Rightarrow> ('s, unit) tact" where
  "applyObject c a tenant appNs mcfg u =
     thenA (isLiveResourceUnmanaged c u) (\<lambda>unmanaged.
     if unmanaged then okA ()
     else
       thenA (isOwnedByExternalController c u (cfg_UID mcfg)) (\<lambda>taken.
       if taken then okA ()
       else
         thenA (if skipConfigControllerOwnerRef u appNs then okA u
                else
                  (case pa_SetConfigReference a mcfg u of
                     RefSet u' \<Rightarrow> okA u'
                   | RefTaken \<Rightarrow> okA u
                   | RefFailed e \<Rightarrow> failA (''set controller reference (Config) on '' @ describedObject u @ '': '' @ e))) (\<lambda>u1.
         thenA (preparePayloadProcessingPluginsConfigMapApply c (setTenantTrackingLabels tenant u1)) (\<lambda>u2.
         let sent = removeAt (pa_edit a) [''status''] (u2\<lparr>xo_ResourceVersion := []\<rparr>)
         in onA (writeP c (ApplyObject sent)) (wrapA (''apply '' @ describedObject sent)) okA))))"

fun eachA :: "('a \<Rightarrow> ('s, unit) tact) \<Rightarrow> 'a list \<Rightarrow> ('s, unit) tact" where
  "eachA f [] = okA ()"
| "eachA f (x # xs) = thenA (f x) (\<lambda>_. eachA f xs)"

definition ApplyRendered ::
  "'s platformClient \<Rightarrow> platformApi \<Rightarrow> ObjectMeta \<Rightarrow> string \<Rightarrow> ConfigObj option \<Rightarrow> xobject list \<Rightarrow> ('s, unit) tact" where
  "ApplyRendered c a tenant appNs mcfg objs =
     (case mcfg of
        None \<Rightarrow> failA ''config with UID is required for platform apply''
      | Some cfg \<Rightarrow>
          if cfg_UID cfg = [] then failA ''config with UID is required for platform apply''
          else eachA (applyObject c a tenant appNs cfg) objs)"

section \<open>Parts of the pipeline\<close>

record RunResult =
  rr_DeploymentPending :: bool
  rr_Detail :: string
  rr_Warnings :: "string list"

definition IsGVKAvailable :: "'s platformClient \<Rightarrow> gvk \<Rightarrow> ('s, bool) tact" where
  "IsGVKAvailable c k =
     onA (readP c (pl_mapping c k)) (\<lambda>e. if IsNoMatchError e then okA False else plainA e) (\<lambda>_. okA True)"

definition CheckDependencies :: "'s platformClient \<Rightarrow> ('s, unit) tact" where
  "CheckDependencies c =
     thenA (namedA ''dependencies'' (IsGVKAvailable c GVKAuthConfig)) (\<lambda>ok.
       if \<not> ok then failA ''dependency missing: AuthConfig CRD (authorino.kuadrant.io/v1beta3) not available on cluster''
       else okA ())"

definition gvkWasmPlugin :: gvk where
  "gvkWasmPlugin = (''extensions.istio.io'', ''v1alpha1'', ''WasmPlugin'')"

definition kuadrantGatewayResourceName :: "string \<Rightarrow> string" where
  "kuadrantGatewayResourceName gatewayName = ''kuadrant-'' @ gatewayName"

definition gatewayHasKuadrantWasmAuth :: "'s platformClient \<Rightarrow> platformApi \<Rightarrow> string \<Rightarrow> string \<Rightarrow> ('s, bool) tact" where
  "gatewayHasKuadrantWasmAuth c a gatewayNamespace gatewayName =
     (let name = kuadrantGatewayResourceName gatewayName; key = gatewayNamespace @ ''/'' @ name;
          wasm = onA (readP c (pl_object c gvkWasmPlugin gatewayNamespace name))
            (\<lambda>e. if IsNotFound e \<or> pa_IsForbidden a e then okA False else wrapA (''get WasmPlugin '' @ key) e)
            (\<lambda>_. okA True)
      in onA (readP c (pl_object c GVKEnvoyFilter gatewayNamespace name))
           (\<lambda>e. if IsNotFound e then wasm else wrapA (''get EnvoyFilter '' @ key) e) (\<lambda>_. okA True))"

definition cleanupPayloadProcessingHPA :: "'s platformClient \<Rightarrow> PlatformParams \<Rightarrow> ('s, unit) tact" where
  "cleanupPayloadProcessingHPA c params =
     (if pp_PayloadProcessingAutoscaling params then okA ()
      else
        let ns = pp_GatewayNamespace params; name = PayloadProcessingHPAName (pp_TenantIdentifier params);
            failed = (\<lambda>verb e. if IsNotFound e then okA () else wrapA (verb @ '' HPA '' @ ns @ ''/'' @ name) e)
        in onA (readP c (pl_object c GVKHPA ns name)) (failed ''get'')
             (\<lambda>_. onA (writeP c (DeletePlatform GVKHPA ns name)) (failed ''delete'') okA))"

text \<open>\<open>retry.RetryOnConflict(retry.DefaultRetry, fn)\<close> with its number of further attempts.\<close>

fun retryOnConflict :: "(k8s_error \<Rightarrow> bool) \<Rightarrow> nat \<Rightarrow> (k8s_error, 's, unit) act \<Rightarrow> (k8s_error, 's, unit) act" where
  "retryOnConflict conflict 0 m = m"
| "retryOnConflict conflict (Suc n) m = onA m (\<lambda>e. if conflict e then retryOnConflict conflict n m else errA e) okA"

definition maasParametersConfigMapName :: string where
  "maasParametersConfigMapName = ''maas-parameters''"

definition syncMaaSParametersConfigMap ::
  "'s platformClient \<Rightarrow> platformApi \<Rightarrow> string \<Rightarrow> PlatformParams \<Rightarrow> ('s, unit) tact" where
  "syncMaaSParametersConfigMap c a ns params =
     (let key = ''api-key-max-expiration-days''; days = pp_APIKeyMaxExpirationDays params;
          fetch = readP c (pl_configMap c ns maasParametersConfigMapName)
      in onA fetch (\<lambda>e. if IsNotFound e then okA () else wrapA ''get maas-parameters ConfigMap'' e) (\<lambda>cm.
         if annotation (cm_Data cm) key = days then okA ()
         else
           onA (retryOnConflict (pa_IsConflict a) 4
                 (thenA fetch (\<lambda>latest. writeP c (UpdateParameters (latest\<lparr>cm_Data := AList.update key days (cm_Data latest)\<rparr>)))))
             plainA okA))"

text \<open>Whether something is ready, and if not, what it is waiting for.\<close>

definition MaasAPIDeploymentReady :: "'s platformClient \<Rightarrow> string \<Rightarrow> string \<Rightarrow> ('s, bool \<times> string) tact" where
  "MaasAPIDeploymentReady c appNamespace tenantID =
     (let name = MaaSAPIDeploymentName tenantID
      in onA (readP c (pl_deployment c appNamespace name))
           (\<lambda>e. if IsNotFound e then okA (False, ''deployment '' @ appNamespace @ ''/'' @ name @ '' not found'') else plainA e)
           (\<lambda>dep.
             let desired = orDefault 1 (dp_Replicas dep);
                 progress = (\<lambda>what n. what @ '' replicas '' @ itoa n @ ''/'' @ itoa desired)
             in okA
               (if dp_ObservedGeneration dep < om_Generation (dp_meta dep) then
                  (False, ''waiting for deployment spec to be observed'')
                else if dp_UpdatedReplicas dep < desired then (False, progress ''updated'' (dp_UpdatedReplicas dep))
                else if dp_AvailableReplicas dep < desired then (False, progress ''available'' (dp_AvailableReplicas dep))
                else (True, []))))"

definition PayloadProcessingEnvoyFilterPriority :: int where
  "PayloadProcessingEnvoyFilterPriority = 10"

definition gatewayNameLabel :: string where
  "gatewayNameLabel = ''gateway.networking.k8s.io/gateway-name''"

text \<open>What \<open>PayloadProcessingEnvoyFilterReady\<close> makes of a filter it read.\<close>

definition filterVerdict :: "platformApi \<Rightarrow> string \<Rightarrow> string \<Rightarrow> string \<Rightarrow> xobject \<Rightarrow> (string, bool \<times> string) result" where \<open>
  filterVerdict a gatewayNamespace gatewayName efName ef =
    (let at = ''EnvoyFilter '' @ gatewayNamespace @ ''/'' @ efName;
         selector = '' workloadSelector.labels['' @ Quote gatewayNameLabel @ '']''
     in case NestedInt64F (pa_edit a) (u_Object ef) [''spec'', ''priority''] of
          Inl e \<Rightarrow> Err (''read EnvoyFilter priority: '' @ e)
        | Inr priority \<Rightarrow>
            if priority = None \<or> the priority < PayloadProcessingEnvoyFilterPriority then
              Ok (False, at @ '' spec.priority='' @ (case priority of None \<Rightarrow> ''missing'' | Some n \<Rightarrow> itoa n)
                @ ''; need >= 10 so HTTP_FILTER inserts apply after Kuadrant wasm (otherwise body-routed /v1/* returns 404 NR)'')
            else
              (case NestedStringMapF (pa_edit a) (u_Object ef) [''spec'', ''workloadSelector'', ''labels''] of
                 Inl e \<Rightarrow> Err (''read EnvoyFilter workloadSelector: '' @ e)
               | Inr ls \<Rightarrow>
                   let got = annotation (orDefault [] ls) gatewayNameLabel
                   in if got = [] then Ok (False, at @ '' has no'' @ selector)
                      else if got \<noteq> gatewayName then
                        Ok (False, at @ selector @ ''='' @ Quote got @ ''; expected gateway '' @ Quote gatewayName)
                      else Ok (True, [])))\<close>

definition PayloadProcessingEnvoyFilterReady ::
  "'s platformClient \<Rightarrow> platformApi \<Rightarrow> string \<Rightarrow> string \<Rightarrow> string \<Rightarrow> ('s, bool \<times> string) tact" where
  "PayloadProcessingEnvoyFilterReady c a gatewayNamespace gatewayName tenantID =
     (let efName = PayloadProcessingEnvoyFilterName tenantID
      in onA (readP c (pl_object c GVKEnvoyFilter gatewayNamespace efName))
           (\<lambda>e. if IsNotFound e then
                   okA (False, ''EnvoyFilter '' @ gatewayNamespace @ ''/'' @ efName @ '' not found '' @ emDash
                     @ '' ext_proc will not run; body-routed /v1/* returns 404 NR'')
                 else plainA e)
           (\<lambda>ef. case filterVerdict a gatewayNamespace gatewayName efName ef of Inl e \<Rightarrow> failA e | Inr v \<Rightarrow> okA v))"

section \<open>Running the platform\<close>

record platformPlace =
  pw_ManifestPath :: string
  pw_AppNamespace :: string
  pw_ControllerNamespace :: string
  pw_ClusterAudience :: string
  pw_MonitoringNamespace :: string

text \<open>A function of the cluster that only reads it.\<close>

definition peekA :: "'s platformClient \<Rightarrow> ('s \<Rightarrow> 'a ctl) \<Rightarrow> ('s, 'a) tact" where
  "peekA c f s0 = (let s = others c s0 in (f s, s))"

definition resolveContextA :: "'s platformClient \<Rightarrow> ObjectMeta \<Rightarrow> TenantGatewayRef \<Rightarrow> ('s, PlatformContext) tact" where
  "resolveContextA c tenant fallbackGatewayRef =
     peekA c (ResolvePlatformContext c (Some (MaasTenantConfig tenant)) fallbackGatewayRef)"

definition validNamespaceA :: "platformApi \<Rightarrow> string \<Rightarrow> ('s, unit) tact" where
  "validNamespaceA a ns =
     (if pa_DNS1123 a ns = [] then okA ()
      else failA (''invalid application namespace '' @ Quote ns @ '': ['' @ Join (pa_DNS1123 a ns) '' '' @ '']''))"

text \<open>From the manifests to the objects that are applied.\<close>

definition renderPlatform ::
  "platformApi \<Rightarrow> platformPlace \<Rightarrow> string \<Rightarrow> platformObject \<Rightarrow> PlatformParams \<Rightarrow> ('s, xobject list) tact" where
  "renderPlatform a place path tenant params =
     thenA (pureA ''kustomize'' (RenderKustomize (pa_kustomize a) path (pw_AppNamespace place))) (\<lambda>rendered.
       pureA ''post-render'' (PostRender (pa_edit a) tenant rendered params))"

text \<open>What \<open>RunPlatform\<close> waits for when everything is applied.\<close>

definition awaitPlatform ::
  "'s platformClient \<Rightarrow> platformApi \<Rightarrow> platformPlace \<Rightarrow> string \<Rightarrow> PlatformParams \<Rightarrow> ('s, RunResult) tact" where
  "awaitPlatform c a place tenantID params =
     (let pending = (\<lambda>detail. \<lparr>rr_DeploymentPending = True, rr_Detail = detail, rr_Warnings = pp_Warnings params\<rparr>)
      in thenA (namedA ''deployment status'' (MaasAPIDeploymentReady c (pw_AppNamespace place) tenantID)) (\<lambda>(ready, detail).
         if \<not> ready then okA (pending detail)
         else
           thenA (namedA ''payload-processing EnvoyFilter status''
                   (PayloadProcessingEnvoyFilterReady c a (pp_GatewayNamespace params) (pp_GatewayName params) tenantID))
             (\<lambda>(ready, detail).
               if \<not> ready then okA (pending detail)
               else okA \<lparr>rr_DeploymentPending = False, rr_Detail = [], rr_Warnings = pp_Warnings params\<rparr>)))"

definition RunPlatform ::
  "'s platformClient \<Rightarrow> platformApi \<Rightarrow> platformPlace \<Rightarrow> TenantCR \<Rightarrow> PlatformContext \<Rightarrow> ConfigObj option
     \<Rightarrow> ('s, RunResult) tact" where
  "RunPlatform c a place tenant platformContext mcfg =
     (let appNs = pw_AppNamespace place; obj = platformObjectOf tenant;
          gwNs = gr_Namespace (pc_GatewayRef platformContext); gwName = gr_Name (pc_GatewayRef platformContext)
      in thenA (pureA ''manifest path'' (pa_Abs a (pw_ManifestPath place))) (\<lambda>path.
         thenA (validNamespaceA a appNs) (\<lambda>_.
         if gwNs = [] \<or> gwName = [] then failA ''gateway ref must be set before calling RunPlatform''
         else
           onA (readP c (getGateway c gwNs gwName))
             (\<lambda>e. if IsNotFound e then failA (''gateway '' @ gwNs @ ''/'' @ gwName @ '' not found'') else wrapA ''gateway lookup'' e) (\<lambda>_.
           thenA (namedA ''build params''
                   (case BuildPlatformParams (pa_getenv a) obj platformContext appNs (pw_ControllerNamespace place)
                           (pw_ClusterAudience place) (pw_MonitoringNamespace place) of
                      Inl e \<Rightarrow> errA e | Inr params \<Rightarrow> okA params)) (\<lambda>built.
           thenA (namedA ''detect gateway kuadrant wasm'' (gatewayHasKuadrantWasmAuth c a gwNs gwName)) (\<lambda>wasmPresent.
           let params = built\<lparr>pp_RouterExtProcFallback := \<not> wasmPresent\<rparr>
           in thenA (renderPlatform a place path obj params) (\<lambda>resources.
              thenA (namedA ''cleanup payload-processing HPA'' (cleanupPayloadProcessingHPA c params)) (\<lambda>_.
              thenA (namedA ''apply'' (ApplyRendered c a (tcr_meta tenant) appNs mcfg resources)) (\<lambda>_.
              thenA (namedA ''sync maas-parameters ConfigMap'' (syncMaaSParametersConfigMap c a appNs params)) (\<lambda>_.
              (case TenantIdentifierFor (Some (tcr_meta tenant)) of
                 Inl e \<Rightarrow> errA (wrapErr ''resolve tenant identifier'' e)
               | Inr tenantID \<Rightarrow> awaitPlatform c a place tenantID params)))))))))))"

section \<open>Prerequisites\<close>

record PrerequisiteReport =
  pre_Blocking :: "string list"
  pre_Warnings :: "string list"

text \<open>The checks return the text of what is wrong, and the empty text if nothing is.\<close>

definition secureAuthorino :: "platformApi \<Rightarrow> xobject \<Rightarrow> bool" where
  "secureAuthorino a item =
     (case NestedBoolF (pa_edit a) (u_Object item) [''spec'', ''listener'', ''tls'', ''enabled''] of
        Inl _ \<Rightarrow> False
      | Inr enabled \<Rightarrow>
          (case NestedStringF (pa_edit a) (u_Object item) [''spec'', ''listener'', ''tls'', ''certSecretRef'', ''name''] of
             Inl _ \<Rightarrow> False
           | Inr certName \<Rightarrow> enabled = Some True \<and> orDefault [] certName \<noteq> []))"

definition gvkListKind :: "gvk \<Rightarrow> gvk" where
  "gvkListKind k = (fst k, fst (snd k), snd (snd k) @ ''List'')"

definition checkAuthorinoTLS :: "'s platformClient \<Rightarrow> platformApi \<Rightarrow> ('s, string) tact" where
  "checkAuthorinoTLS c a =
     onA (IsGVKAvailable c GVKAuthorino)
       (\<lambda>_. okA ''failed to check Authorino CRD availability due to a cluster API error'') (\<lambda>has.
     if \<not> has then okA []
     else
       onA (readP c (pl_listObjects c (gvkListKind GVKAuthorino)))
         (\<lambda>_. okA ''failed to list Authorino instances due to a cluster API error'') (\<lambda>items.
       if items = [] then
         okA (''no Authorino instances found. ''
           @ ''Authorino must be deployed and configured with TLS for MaaS authentication'')
       else if list_ex (secureAuthorino a) items then okA []
       else
         okA (''Authorino TLS is not configured: no Authorino instance has listener.tls.enabled=true with a certSecretRef. ''
           @ ''Patch Authorino with spec.listener.tls.enabled=true and spec.listener.tls.certSecretRef to enable TLS. ''
           @ ''See https://docs.kuadrant.io/1.0.x/authorino/docs/user-guides/mtls-authentication/'')))"

definition MaaSDBSecretName :: string where "MaaSDBSecretName = ''maas-db-config''"
definition MaaSDBSecretKey :: string where "MaaSDBSecretKey = ''DB_CONNECTION_URL''"

definition singleQuote :: "string \<Rightarrow> string" where
  "singleQuote s = CHR 0x27 # s @ [CHR 0x27]"

definition checkDatabaseSecret :: "'s platformClient \<Rightarrow> string \<Rightarrow> ('s, string) tact" where
  "checkDatabaseSecret c appNamespace =
     (let secret = ''database Secret '' @ singleQuote MaaSDBSecretName;
          ns = '' in namespace '' @ singleQuote appNamespace
      in onA (readP c (pl_secret c appNamespace MaaSDBSecretName))
           (\<lambda>e. okA
             (if IsNotFound e then
                secret @ '' not found'' @ ns @ ''. Create the Secret with key '' @ singleQuote MaaSDBSecretKey
                  @ '' containing the PostgreSQL connection URL. MaaS API cannot start without a database connection''
              else ''failed to check '' @ secret @ ns @ '' due to a cluster API error''))
           (\<lambda>contents. okA
             (if TrimSpace (annotation contents MaaSDBSecretKey) = [] then
                secret @ ns @ '' is missing required key '' @ singleQuote MaaSDBSecretKey
                  @ ''. The Secret must contain a valid PostgreSQL connection URL''
              else [])))"

definition gvkDSCIList :: gvk where
  "gvkDSCIList = (''dscinitialization.opendatahub.io'', ''v1'', ''DSCInitializationList'')"

text \<open>Status, reason and message of the last condition of a type, empty where there is none.\<close>

definition dsciCondition :: "json list \<Rightarrow> string \<Rightarrow> string \<times> string \<times> string" where
  "dsciCondition conditions typ =
     foldl (\<lambda>acc v.
       case asMap v of
         None \<Rightarrow> acc
       | Some m \<Rightarrow> if stringOf m ''type'' = typ then (stringOf m ''status'', stringOf m ''reason'', stringOf m ''message'') else acc)
       ([], [], []) conditions"

text \<open>One of the three last checks: \<open>what\<close> is not as it should be, by condition \<open>typ\<close>; \<open>until\<close> is what it takes.\<close>

definition dsciVerdict :: "json list \<Rightarrow> string \<Rightarrow> string \<Rightarrow> string \<Rightarrow> string option" where
  "dsciVerdict conditions typ what needs =
     (let (status, reason, message) = dsciCondition conditions typ;
          usage = ''. Showback/FinOps usage views will not work until '' @ needs
      in if status = ''True'' then None
         else if status = [] then
           Some (what @ '': '' @ typ @ '' condition not found in DSCInitialization status'' @ usage)
         else
           Some (what @ '' ('' @ typ @ ''='' @ status
             @ (if reason \<noteq> [] then '': '' @ reason else []) @ (if message \<noteq> [] then '': '' @ message else []) @ '')'' @ usage))"

definition dsciConditionsVerdict :: "json list \<Rightarrow> string" where
  "dsciConditionsVerdict conditions =
     (case dsciVerdict conditions ''MonitoringReady'' ''DSCI monitoring is not ready'' ''monitoring is ready'' of
        Some msg \<Rightarrow> msg
      | None \<Rightarrow>
          (case dsciVerdict conditions ''MonitoringStackAvailable'' ''DSCI monitoring stack is not available''
                  ''monitoring stack is available'' of
             Some msg \<Rightarrow> msg
           | None \<Rightarrow>
               orDefault [] (dsciVerdict conditions ''PersesAvailable'' ''DSCI Perses is not available'' ''Perses is available'')))"

definition checkDSCIMonitoring :: "'s platformClient \<Rightarrow> platformApi \<Rightarrow> ('s, string) tact" where
  "checkDSCIMonitoring c a =
     onA (readP c (pl_listObjects c gvkDSCIList))
       (\<lambda>e. okA
         (if IsNoMatchError e then
            ''DSCI monitoring not configured: DSCInitialization CRD not found. ''
              @ ''Showback/FinOps usage views will not work without monitoring stack enabled''
          else
            ''unable to verify DSCI monitoring status due to a cluster API error. ''
              @ ''Ensure monitoring is enabled in DSCInitialization for showback functionality'')) (\<lambda>items.
     okA
       (case items of
          [] \<Rightarrow> ''DSCI monitoring not configured: no DSCInitialization found. ''
                  @ ''Showback/FinOps usage views will not work without monitoring stack enabled''
        | d # _ \<Rightarrow>
            let dsci = orDefault d (find (\<lambda>x. nameOf x = ''default-dsci'') items)
            in (case NestedSliceF (pa_edit a) (u_Object dsci) [''status'', ''conditions''] of
                  Inl _ \<Rightarrow> ''unable to verify DSCI monitoring conditions due to a status read error. ''
                           @ ''Ensure monitoring stack is deployed in DSCInitialization''
                | Inr found \<Rightarrow>
                    if orDefault [] found = [] then
                      ''DSCI monitoring status not available: no conditions found. Monitoring stack may still be deploying. ''
                        @ ''Showback/FinOps usage views will not work until monitoring is ready''
                    else dsciConditionsVerdict (orDefault [] found))))"

definition CollectPrerequisiteReport :: "'s platformClient \<Rightarrow> platformApi \<Rightarrow> string \<Rightarrow> ('s, PrerequisiteReport) tact" where
  "CollectPrerequisiteReport c a appNamespace =
     (let said = (\<lambda>msg. if msg \<noteq> [] then [msg] else [])
      in thenA (checkAuthorinoTLS c a) (\<lambda>tls.
         thenA (checkDatabaseSecret c appNamespace) (\<lambda>db.
         thenA (checkDSCIMonitoring c a) (\<lambda>dsci.
         okA \<lparr>pre_Blocking = said db, pre_Warnings = said tls @ said dsci\<rparr>))))"

definition ValidatePrerequisites :: "'s platformClient \<Rightarrow> platformApi \<Rightarrow> string \<Rightarrow> ('s, unit) tact" where
  "ValidatePrerequisites c a appNamespace =
     thenA (CollectPrerequisiteReport c a appNamespace) (\<lambda>rep.
       if pre_Blocking rep \<noteq> [] then
         failA (''blocking prerequisites missing: '' @ Join (pre_Blocking rep @ pre_Warnings rep) ''; '')
       else okA ())"

text \<open>\<open>Run\<close>: everything in a row, in the namespace of the tenant.\<close>

definition Run ::
  "'s platformClient \<Rightarrow> platformApi \<Rightarrow> platformPlace \<Rightarrow> TenantCR \<Rightarrow> TenantGatewayRef \<Rightarrow> ConfigObj option
     \<Rightarrow> ('s, RunResult) tact" where
  "Run c a place tenant fallbackGatewayRef mcfg =
     (let appNs = om_Namespace (tcr_meta tenant)
      in thenA (pureA ''manifest path'' (pa_Abs a (pw_ManifestPath place))) (\<lambda>path.
         thenA (CheckDependencies c) (\<lambda>_.
         thenA (validNamespaceA a appNs) (\<lambda>_.
         thenA (namedA ''prerequisites'' (ValidatePrerequisites c a appNs)) (\<lambda>_.
         thenA (resolveContextA c (tcr_meta tenant) fallbackGatewayRef) (\<lambda>platformContext.
         RunPlatform c a (place\<lparr>pw_ManifestPath := path, pw_AppNamespace := appNs\<rparr>) tenant platformContext mcfg))))))"

end
