(* ===== verification/TenantController.thy ===== *)
theory TenantController
  imports PlatformRun AITenantController
begin

text \<open>
  The tenant controller, \<open>tenant_controller.go\<close>, \<open>tenant_reconcile.go\<close> and \<open>tenant_conditions.go\<close>: it keeps
  the platform of a tenant applied and publishes its state in the status of the MaasTenantConfig.

  The functions that return a pointer to a result with an error are steps (\<open>step\<close>): \<open>Stop\<close> is a result,
  with the error beside it; \<open>Fail\<close> is an error without a result, at which some callers do not look. The
  object is changed in memory before a write is tried, so that steps hand it on in any case.
\<close>

section \<open>Types\<close>

record TenantReconciler =
  tnr_OperatorNamespace :: string
  tnr_ManifestPath :: string
  tnr_AppNamespace :: string
  tnr_ControllerNamespace :: string
  tnr_TenantNamespace :: string
  tnr_GatewayName :: string
  tnr_GatewayNamespace :: string
  tnr_ClusterAudience :: string
  tnr_TenantNamespaceDiscoveryEnabled :: bool
  tnr_MetadataCacheTTL :: int
  tnr_MonitoringNamespace :: string

text \<open>What the controller remembers of the legacy clean-up: whether its \<open>sync.Once\<close> was used, and success.\<close>

record legacyCleanup =
  lc_once :: bool
  lc_completed :: bool

datatype pacing = Settled | RequeueNow | RequeueAfter int

datatype 'x step = Stop "pacing ctl" | Fail ctl_error | GoOn 'x

type_synonym ('s, 'x) tstep = "('s, TenantCR \<times> 'x step) tact"

definition managementStateAnnotation :: string where
  "managementStateAnnotation = ''component.opendatahub.io/management-state''"

definition managementState :: "ObjectMeta \<Rightarrow> string" where
  "managementState m = annotation (om_Annotations m) managementStateAnnotation"

definition tenantUsesCleanupFinalizer :: "ObjectMeta \<Rightarrow> bool ctl" where
  "tenantUsesCleanupFinalizer m =
     (case TenantIdentifierFor (Some m) of
        Inl e \<Rightarrow> Err e
      | Inr tenantID \<Rightarrow> Ok (isAITenantManagedTenantConfig (MaasTenantConfig m) \<or> tenantID \<noteq> []))"

definition operatorNamespace :: "(string \<Rightarrow> string) \<Rightarrow> TenantReconciler \<Rightarrow> string" where
  "operatorNamespace getenv r =
     firstNonEmpty [tnr_OperatorNamespace r, getenv ''POD_NAMESPACE'', getenv ''WATCH_NAMESPACE'']"

section \<open>Status\<close>

definition setTenantCondition :: "platformApi \<Rightarrow> TenantCR \<Rightarrow> string \<Rightarrow> string \<Rightarrow> string \<Rightarrow> string \<Rightarrow> TenantCR" where
  "setTenantCondition a t typ status reason message =
     t\<lparr>tcr_Conditions := SetStatusCondition (pa_meta a) (tcr_Conditions t)
         \<lparr>c_Type = typ, c_Status = status, c_Reason = reason, c_Message = message,
          c_ObservedGeneration = om_Generation (tcr_meta t)\<rparr>\<rparr>"

definition setDependenciesCondition :: "platformApi \<Rightarrow> TenantCR \<Rightarrow> bool \<Rightarrow> string \<Rightarrow> TenantCR" where
  "setDependenciesCondition a t ok detail =
     (if ok then
        setTenantCondition a t ''DependenciesAvailable'' ''True'' ''DependenciesMet''
          ''AuthConfig CRD (Kuadrant) is available on the cluster''
      else setTenantCondition a t ''DependenciesAvailable'' ''False'' ''DependencyMissing'' detail)"

definition setPrerequisiteConditionsFromReport :: "platformApi \<Rightarrow> TenantCR \<Rightarrow> PrerequisiteReport \<Rightarrow> TenantCR" where
  "setPrerequisiteConditionsFromReport a t rep =
     (let met = setTenantCondition a t ''MaaSPrerequisitesAvailable'' ''True'' ''PrerequisitesMet''
      in if pre_Blocking rep \<noteq> [] then
           (let agg = Join (pre_Blocking rep @ pre_Warnings rep) ''; ''
            in setTenantCondition a (setTenantCondition a t ''MaaSPrerequisitesAvailable'' ''False'' ''PrerequisitesMissing'' agg)
                 ''Degraded'' ''True'' ''PrerequisitesMissing'' agg)
         else if pre_Warnings rep \<noteq> [] then met ''Prerequisites satisfied; see Degraded for warnings''
         else met ''All prerequisites are satisfied'')"

definition setDeploymentsAvailableCondition :: "platformApi \<Rightarrow> TenantCR \<Rightarrow> bool \<Rightarrow> string \<Rightarrow> string \<Rightarrow> TenantCR" where
  "setDeploymentsAvailableCondition a t ok reason message =
     setTenantCondition a t ''DeploymentsAvailable'' (if ok then ''True'' else ''False'') reason message"

definition prerequisitesUnevaluatedCondition :: "platformApi \<Rightarrow> TenantCR \<Rightarrow> string \<Rightarrow> TenantCR" where
  "prerequisitesUnevaluatedCondition a t detail =
     setTenantCondition a (setTenantCondition a t ''MaaSPrerequisitesAvailable'' ''Unknown'' ''DependenciesNotMet'' detail)
       ''Degraded'' ''False'' ''DependenciesNotMet'' detail"

text \<open>The phase and the condition Ready, as \<open>patchStatus\<close> sets them.\<close>

definition withReady :: "platformApi \<Rightarrow> TenantCR \<Rightarrow> string \<Rightarrow> string \<Rightarrow> string \<Rightarrow> string \<Rightarrow> TenantCR" where
  "withReady a t phase status reason message =
     setTenantCondition a (t\<lparr>tcr_Phase := phase\<rparr>) ''Ready'' status reason message"

text \<open>The status is written and the reconcile stops for a while; an error of the write has no result.\<close>

definition writeAndWait :: "'s platformClient \<Rightarrow> TenantCR \<Rightarrow> int \<Rightarrow> ('s, 'x) tstep" where
  "writeAndWait c t seconds =
     onA (writeP c (UpdateTenantStatus t)) (\<lambda>e. okA (t, Fail (ofApi e))) (\<lambda>_. okA (t, Stop (Ok (RequeueAfter seconds))))"

definition notReady ::
  "'s platformClient \<Rightarrow> platformApi \<Rightarrow> TenantCR \<Rightarrow> string \<Rightarrow> string \<Rightarrow> string \<Rightarrow> int \<Rightarrow> ('s, 'x) tstep" where
  "notReady c a t phase reason message seconds = writeAndWait c (withReady a t phase ''False'' reason message) seconds"

section \<open>Deletion\<close>

definition cleanupMaaSSubscriptions :: "'s platformClient \<Rightarrow> string \<Rightarrow> ('s, bool) tact" where
  "cleanupMaaSSubscriptions c ns =
     onA (readP c (listSubscriptionsIn c ns)) (wrapA ''failed to list MaaSSubscriptions'') (\<lambda>items.
     thenA (eachA (\<lambda>x. onA (writeP c (DeleteSubscription x))
              (\<lambda>e. if IsNotFound e then okA ()
                   else wrapA (''failed to delete MaaSSubscription '' @ om_Namespace (ms_meta x) @ ''/'' @ om_Name (ms_meta x)) e)
              okA) items) (\<lambda>_.
     okA (items = [])))"

definition cleanupMaaSAuthPolicies :: "'s platformClient \<Rightarrow> string \<Rightarrow> ('s, bool) tact" where
  "cleanupMaaSAuthPolicies c ns =
     onA (readP c (listAuthPoliciesIn c ns)) (wrapA ''failed to list MaaSAuthPolicies'') (\<lambda>items.
     thenA (eachA (\<lambda>x. onA (writeP c (DeletePolicy x))
              (\<lambda>e. if IsNotFound e then okA ()
                   else wrapA (''failed to delete MaaSAuthPolicy '' @ om_Namespace (ma_meta x) @ ''/'' @ om_Name (ma_meta x)) e)
              okA) items) (\<lambda>_.
     okA (items = [])))"

text \<open>Kind, name and namespace of what is deleted with a tenant.\<close>

definition tenantResources :: "TenantReconciler \<Rightarrow> string \<Rightarrow> (gvk \<times> string \<times> string) list" where
  "tenantResources r tenantID =
     (let appNs = tnr_AppNamespace r; gatewayNs = tnr_GatewayNamespace r
      in [(GVKDeployment, MaaSAPIDeploymentName tenantID, appNs),
          (GVKService, MaaSAPIServiceName tenantID, appNs),
          (GVKHTTPRoute, MaaSAPIRouteName tenantID, appNs),
          (GVKCronJob, MaaSAPIKeyCleanupCronJobName tenantID, appNs),
          (GVKTokenRateLimitPolicy, GatewayTokenRateLimitDefaultDenyPolicyName tenantID, gatewayNs),
          (GVKDestinationRule, GatewayDestinationRuleName tenantID, gatewayNs),
          (GVKTelemetryPolicy, TelemetryPolicyName tenantID, gatewayNs),
          (GVKIstioTelemetry, IstioTelemetryName tenantID, gatewayNs),
          (GVKDeployment, PayloadProcessingDeploymentName tenantID, gatewayNs),
          (GVKDeployment, PayloadPreProcessingDeploymentName tenantID, gatewayNs),
          (GVKService, PayloadProcessingServiceName tenantID, gatewayNs),
          (GVKService, PayloadPreProcessingServiceName tenantID, gatewayNs),
          (GVKDestinationRule, PayloadProcessingDeploymentName tenantID, gatewayNs),
          (GVKDestinationRule, PayloadPreProcessingDeploymentName tenantID, gatewayNs),
          (GVKEnvoyFilter, PayloadProcessingEnvoyFilterName tenantID, gatewayNs),
          (GVKNetworkPolicy, PayloadProcessingNetworkPolicyName tenantID, gatewayNs),
          (GVKServiceAccount, PayloadProcessingServiceAccountName tenantID, gatewayNs),
          (GVKConfigMap, PayloadProcessingPluginsConfigMapForTenant tenantID, gatewayNs),
          (GVKClusterRoleBinding, PayloadProcessingReaderClusterRoleBindingNameForTenant tenantID, [])])"

definition cleanupTenantResources :: "'s platformClient \<Rightarrow> TenantReconciler \<Rightarrow> TenantCR \<Rightarrow> ('s, unit) tact" where
  "cleanupTenantResources c r tenant =
     (case TenantIdentifierFor (Some (tcr_meta tenant)) of
        Inl e \<Rightarrow> errA e
      | Inr tenantID \<Rightarrow>
          eachA (\<lambda>(k, name, ns). onA (writeP c (DeletePlatform k ns name))
              (\<lambda>e. if IsNotFound e then okA () else plainA e) okA) (tenantResources r tenantID))"

definition TR_handleDeletion :: "'s platformClient \<Rightarrow> platformApi \<Rightarrow> TenantReconciler \<Rightarrow> TenantCR \<Rightarrow> ('s, pacing) tact" where
  "TR_handleDeletion c a r tenant =
     (if \<not> ContainsFinalizer (tcr_meta tenant) tenantFinalizer then okA Settled
      else
        thenA (cleanupMaaSSubscriptions c (om_Namespace (tcr_meta tenant))) (\<lambda>subscriptionsDeleted.
        thenA (cleanupMaaSAuthPolicies c (om_Namespace (tcr_meta tenant))) (\<lambda>authPoliciesDeleted.
        if \<not> subscriptionsDeleted \<or> \<not> authPoliciesDeleted then okA (RequeueAfter 5)
        else
          thenA (cleanupTenantResources c r tenant) (\<lambda>_.
          onA (writeP c (UpdateTenant (tenant\<lparr>tcr_meta := RemoveFinalizer (pa_meta a) (tcr_meta tenant) tenantFinalizer\<rparr>)))
            plainA (\<lambda>_. okA Settled)))))"

section \<open>Steps\<close>

definition handleIdleManagementState :: "'s platformClient \<Rightarrow> platformApi \<Rightarrow> TenantCR \<Rightarrow> string \<Rightarrow> ('s, pacing) tact" where
  "handleIdleManagementState c a tenant ms =
     onA (writeP c (UpdateTenantStatus (withReady a tenant [] ''False'' ''ManagementStateIdle''
            (''management state is '' @ Quote ms @ ''; platform workloads are not driven by this reconciler in this state''))))
       plainA (\<lambda>_. okA Settled)"

definition handleManagementState :: "'s platformClient \<Rightarrow> platformApi \<Rightarrow> TenantCR \<Rightarrow> ('s, unit) tstep" where
  "handleManagementState c a tenant =
     (let ms = managementState (tcr_meta tenant)
      in if ms = ''Unmanaged'' then
           onA (handleIdleManagementState c a tenant ms) (\<lambda>e. okA (tenant, Stop (Err e))) (\<lambda>p. okA (tenant, Stop (Ok p)))
         else if ms \<noteq> [] \<and> ms \<noteq> ''Managed'' \<and> ms \<noteq> ''Removed'' then
           notReady c a tenant ''Failed'' ''UnexpectedManagementState''
             (''unsupported '' @ managementStateAnnotation @ ''='' @ Quote ms) 30
         else okA (tenant, GoOn ()))"

definition readyConfigOrWait :: "'s platformClient \<Rightarrow> platformApi \<Rightarrow> TenantCR \<Rightarrow> ('s, ConfigObj) tstep" where
  "readyConfigOrWait c a tenant =
     onA (readP c (pl_config c))
       (\<lambda>e. if IsNotFound e then
               notReady c a tenant ''Pending'' ''ConfigMissing''
                 (''Config '' @ Quote ''default'' @ '' is required before platform apply'') 10
             else okA (tenant, Fail (ofApi e))) (\<lambda>ct.
     if om_Deleting (cfg_meta ct) then
       notReady c a tenant ''Pending'' ''ConfigTerminating''
         (''Config '' @ Quote (om_Name (cfg_meta ct))
           @ '' is deleting; platform reconcile is suspended until the anchor is gone or recreated'') 10
     else if cfg_UID ct = [] then
       notReady c a tenant ''Pending'' ''WaitingForConfigUID''
         (''Config '' @ Quote ''default'' @ '' has no UID yet; waiting before platform apply'') 5
     else okA (tenant, GoOn ct))"

definition validateGatewayExists :: "'s platformClient \<Rightarrow> string \<Rightarrow> string \<Rightarrow> ('s, unit) tact" where
  "validateGatewayExists c namespace name =
     (let at = namespace @ ''/'' @ name
      in onA (readP c (getGateway c namespace name))
           (\<lambda>e. if IsNotFound e then
                   failA (''gateway '' @ at @ '' not found: the specified Gateway must exist before enabling MaaS platform reconcile'')
                 else wrapA (''failed to look up gateway '' @ at) e) (\<lambda>_. okA ()))"

text \<open>After the Config, the management state and the gateway have been looked at: the gateway and the manifests.\<close>

definition validateGateway ::
  "'s platformClient \<Rightarrow> platformApi \<Rightarrow> TenantReconciler \<Rightarrow> TenantCR \<Rightarrow> ('s, PlatformContext) tstep" where
  "validateGateway c a r tenant =
     onA (resolveContextA c (tcr_meta tenant) (fallbackTenantGatewayRef (tnr_GatewayName r) (tnr_GatewayNamespace r)))
       (\<lambda>e. notReady c a tenant ''Failed'' ''InvalidGateway'' (ce_text e) 30) (\<lambda>platformContext.
     let gw = pc_GatewayRef platformContext
     in onA (validateGatewayExists c (gr_Namespace gw) (gr_Name gw))
          (\<lambda>e. notReady c a tenant ''Pending'' ''GatewayNotReady'' (ce_text e) 30) (\<lambda>_.
        if tnr_ManifestPath r = [] then
          notReady c a tenant ''Failed'' ''ManifestPathUnset''
            ''MAAS_PLATFORM_MANIFESTS is not set and no default kustomize path resolved; cannot apply platform manifests'' 120
        else okA (tenant, GoOn platformContext)))"

definition validateConfigAndGateway ::
  "'s platformClient \<Rightarrow> platformApi \<Rightarrow> TenantReconciler \<Rightarrow> TenantCR \<Rightarrow> ('s, ConfigObj \<times> PlatformContext) tstep" where
  "validateConfigAndGateway c a r tenant =
     thenA (readyConfigOrWait c a tenant) (\<lambda>(t, ready).
       case ready of
         Stop p \<Rightarrow> okA (t, Stop p)
       | Fail e \<Rightarrow> okA (t, Fail e)
       | GoOn mcfg \<Rightarrow>
           if managementState (tcr_meta t) = ''Removed'' then
             notReady c a t ''Pending'' ''WaitingForRemovedTeardown''
               ''management state is Removed; platform reconcile is suspended until the Config anchor is deleted by component GC'' 10
           else
             thenA (validateGateway c a r t) (\<lambda>(t, valid).
               okA (t, case valid of Stop p \<Rightarrow> Stop p | Fail e \<Rightarrow> Fail e | GoOn ctx \<Rightarrow> GoOn (mcfg, ctx))))"

definition checkDependenciesAndPrerequisites ::
  "'s platformClient \<Rightarrow> platformApi \<Rightarrow> TenantReconciler \<Rightarrow> TenantCR \<Rightarrow> ('s, PrerequisiteReport) tstep" where
  "checkDependenciesAndPrerequisites c a r tenant =
     onA (CheckDependencies c)
       (\<lambda>e. let t1 = setDependenciesCondition a tenant False (ce_text e);
                t2 = setDeploymentsAvailableCondition a t1 False ''DependenciesNotMet'' (ce_text e);
                t3 = prerequisitesUnevaluatedCondition a t2
                       ''Prerequisites were not evaluated because required dependencies are not met''
            in notReady c a t3 ''Pending'' ''DependenciesNotAvailable'' (ce_text e) 45) (\<lambda>_.
     thenA (CollectPrerequisiteReport c a (tnr_AppNamespace r)) (\<lambda>rep.
     let t1 = setPrerequisiteConditionsFromReport a (setDependenciesCondition a tenant True []) rep
     in if pre_Blocking rep \<noteq> [] then
          let agg = Join (pre_Blocking rep) ''; '' @ ''; '' @ Join (pre_Warnings rep) ''; '';
              t2 = setDeploymentsAvailableCondition a (t1\<lparr>tcr_Phase := ''Failed''\<rparr>) False ''PrerequisitesMissing'' agg
          in writeAndWait c (setTenantCondition a t2 ''Ready'' ''False'' ''PrerequisitesNotMet'' agg) 45
        else okA (t1, GoOn rep)))"

section \<open>The platform\<close>

definition authReconciler :: "TenantReconciler \<Rightarrow> MaaSAuthPolicyReconciler" where
  "authReconciler r =
     \<lparr>apr_InfraNamespace = tnr_AppNamespace r, apr_TenantNamespace = tnr_TenantNamespace r,
      apr_GatewayName = tnr_GatewayName r, apr_GatewayNamespace = tnr_GatewayNamespace r,
      apr_TenantNamespaceDiscoveryEnabled = tnr_TenantNamespaceDiscoveryEnabled r,
      apr_ClusterAudience = tnr_ClusterAudience r, apr_MetadataCacheTTL = tnr_MetadataCacheTTL r,
      apr_AuthzCacheTTL = tnr_MetadataCacheTTL r, apr_HasRecorder = False\<rparr>"

text \<open>An operation of the other controller, which takes the cluster and gives the one it leaves.\<close>

definition outcomeA :: "'s platformClient \<Rightarrow> ('s \<Rightarrow> 's outcome) \<Rightarrow> ('s, unit) tact" where
  "outcomeA c f s0 = (case f (others c s0) of (None, s) \<Rightarrow> (Ok (), s) | (Some e, s) \<Rightarrow> (Err e, s))"

definition ensureGatewayManagementAuth ::
  "'s platformClient \<Rightarrow> platformApi \<Rightarrow> TenantReconciler \<Rightarrow> TenantCR \<Rightarrow> ('s, unit) tact" where
  "ensureGatewayManagementAuth c a r tenant =
     (let authR = authReconciler r; ns = om_Namespace (tcr_meta tenant)
      in case TenantIdentifierFor (Some (tcr_meta tenant)) of
           Inl e \<Rightarrow> errA e
         | Inr tenantID \<Rightarrow>
             thenA (peekA c (fetchGatewayInfo c authR ns)) (\<lambda>(gatewayNs, gatewayName).
                 if tenantID \<noteq> [] \<and> gatewayNs = tnr_GatewayNamespace r \<and> gatewayName = tnr_GatewayName r then okA ()
                 else
                   thenA (peekA c (\<lambda>s. Ok (fetchOIDCConfig c authR ns s))) (\<lambda>oidc.
                   thenA (peekA c (\<lambda>s. Ok (discoverXAPIKeyNeeded c (pa_meta a) s))) (\<lambda>xAPIKey.
                   outcomeA c (ensureBaseGatewayAuthPolicy c (pa_meta a) authR oidc xAPIKey tenantID gatewayNs gatewayName)))))"

definition platformPlaceOf :: "TenantReconciler \<Rightarrow> platformPlace" where
  "platformPlaceOf r =
     \<lparr>pw_ManifestPath = tnr_ManifestPath r, pw_AppNamespace = tnr_AppNamespace r,
      pw_ControllerNamespace = tnr_ControllerNamespace r, pw_ClusterAudience = tnr_ClusterAudience r,
      pw_MonitoringNamespace = tnr_MonitoringNamespace r\<rparr>"

definition reconcilePlatform ::
  "'s platformClient \<Rightarrow> platformApi \<Rightarrow> TenantReconciler \<Rightarrow> TenantCR \<Rightarrow> PlatformContext \<Rightarrow> ConfigObj
     \<Rightarrow> ('s, RunResult) tstep" where
  "reconcilePlatform c a r tenant platformContext mcfg =
     onA (RunPlatform c a (platformPlaceOf r) tenant platformContext (Some mcfg))
       (\<lambda>e. notReady c a (setDeploymentsAvailableCondition a tenant False ''PlatformReconcileFailed'' (ce_text e))
              ''Failed'' ''PlatformReconcileFailed'' (ce_text e) 45) (\<lambda>runRes.
     onA (ensureGatewayManagementAuth c a r tenant) (\<lambda>_. okA (tenant, Stop (Ok (RequeueAfter 45)))) (\<lambda>_.
     if rr_DeploymentPending runRes then
       let t1 = setDeploymentsAvailableCondition a (tenant\<lparr>tcr_Phase := ''Pending''\<rparr>) False ''DeploymentsNotReady'' (rr_Detail runRes)
       in writeAndWait c (setTenantCondition a t1 ''Ready'' ''False'' ''DeploymentsNotReady'' (rr_Detail runRes)) 20
     else okA (tenant, GoOn runRes)))"

definition aggregateWarningsAndSetDegraded ::
  "platformApi \<Rightarrow> TenantCR \<Rightarrow> PrerequisiteReport \<Rightarrow> RunResult option \<Rightarrow> TenantCR" where
  "aggregateWarningsAndSetDegraded a tenant prereqReport runRes =
     (let replica = (case runRes of None \<Rightarrow> [] | Some x \<Rightarrow> rr_Warnings x);
          allWarnings = pre_Warnings prereqReport @ replica;
          reason = (if pre_Warnings prereqReport \<noteq> [] \<and> replica \<noteq> [] then ''MultipleWarnings''
                    else if pre_Warnings prereqReport \<noteq> [] then ''PrerequisitesWarning''
                    else ''InvalidReplicaAnnotation'')
      in if allWarnings \<noteq> [] then setTenantCondition a tenant ''Degraded'' ''True'' reason (Join allWarnings ''; '')
         else setTenantCondition a tenant ''Degraded'' ''False'' ''NoWarnings'' [])"

section \<open>The legacy deployment\<close>

text \<open>Deletions whose errors are logged only.\<close>

definition deleteQuietly :: "'s platformClient \<Rightarrow> gvk \<Rightarrow> string \<Rightarrow> string \<Rightarrow> ('s, unit) tact" where
  "deleteQuietly c k ns name = onA (writeP c (DeletePlatform k ns name)) (\<lambda>_. okA ()) okA"

definition cleanupLegacyIn :: "'s platformClient \<Rightarrow> string \<Rightarrow> ('s, unit) tact" where
  "cleanupLegacyIn c ns =
     onA (readP c (pl_deployment c ns ''maas-api''))
       (\<lambda>e. if IsNotFound e then okA () else wrapA (''check for legacy maas-api deployment in '' @ ns) e) (\<lambda>dep.
     if annotation (om_Labels (dp_meta dep)) ''app.kubernetes.io/part-of'' \<noteq> ''models-as-a-service'' then okA ()
     else
       thenA (onA (writeP c (DeletePlatform GVKDeployment ns ''maas-api''))
                (\<lambda>e. if IsNotFound e then okA () else wrapA (''delete legacy maas-api deployment from '' @ ns) e) okA) (\<lambda>_.
       thenA (deleteQuietly c GVKService ns ''maas-api'') (\<lambda>_.
       thenA (deleteQuietly c GVKHTTPRoute ns ''maas-api-route'') (\<lambda>_.
       deleteQuietly c GVKConfigMap ns ''maas-api-config''))))"

definition cleanupLegacyMaaSAPIDeployment :: "'s platformClient \<Rightarrow> TenantReconciler \<Rightarrow> ('s, unit) tact" where
  "cleanupLegacyMaaSAPIDeployment c r =
     eachA (cleanupLegacyIn c)
       (if tnr_ControllerNamespace r \<noteq> [] \<and> tnr_AppNamespace r \<noteq> tnr_ControllerNamespace r
        then [tnr_ControllerNamespace r] else [])"

definition attemptLegacyCleanup ::
  "'s platformClient \<Rightarrow> TenantReconciler \<Rightarrow> legacyCleanup \<Rightarrow> ('s, legacyCleanup) tact" where
  "attemptLegacyCleanup c r lc =
     (if lc_completed lc \<or> lc_once lc then okA lc
      else
        onA (cleanupLegacyMaaSAPIDeployment c r) (\<lambda>_. okA (lc\<lparr>lc_once := True\<rparr>))
          (\<lambda>_. okA \<lparr>lc_once = True, lc_completed = True\<rparr>))"

section \<open>The reconcile\<close>

definition setFinalStatus :: "'s platformClient \<Rightarrow> platformApi \<Rightarrow> TenantCR \<Rightarrow> ('s, pacing) tact" where
  "setFinalStatus c a tenant =
     (let degraded = (case FindStatusCondition (pa_meta a) (tcr_Conditions tenant) ''Degraded'' of
                        None \<Rightarrow> False | Some x \<Rightarrow> c_Status x = ''True'');
          t1 = setDeploymentsAvailableCondition a (tenant\<lparr>tcr_Phase := if degraded then ''Degraded'' else ''Active''\<rparr>) True
                 ''DeploymentsReady'' ''maas-api deployment and payload-processing EnvoyFilter are available'';
          t2 = setTenantCondition a t1 ''Ready'' ''True'' ''Reconciled''
                 ''MaaS platform manifests applied and maas-api deployment is available''
      in onA (writeP c (UpdateTenantStatus t2)) plainA (\<lambda>_. okA (RequeueAfter 300)))"

text \<open>Configurations of tenants that are not this controller's to reconcile.\<close>

definition ignored :: "TenantReconciler \<Rightarrow> ObjectMeta \<Rightarrow> bool" where
  "ignored r m \<longleftrightarrow>
     (let foreign' = (tnr_TenantNamespace r \<noteq> [] \<and> om_Namespace m \<noteq> tnr_TenantNamespace r)
      in if \<not> tnr_TenantNamespaceDiscoveryEnabled r then foreign' \<or> om_Name m \<noteq> MaasTenantConfigInstanceName
         else foreign' \<and> annotation (om_Labels m) LabelManagedByAITenant \<noteq> ''true'')"

definition settleFinalizer :: "'s platformClient \<Rightarrow> platformApi \<Rightarrow> bool \<Rightarrow> TenantCR \<Rightarrow> ('s, TenantCR) tact" where
  "settleFinalizer c a uses tenant =
     (let m = tcr_meta tenant; has = ContainsFinalizer m tenantFinalizer;
          write = (\<lambda>m'. let t = tenant\<lparr>tcr_meta := m'\<rparr> in onA (writeP c (UpdateTenant t)) plainA (\<lambda>_. okA t))
      in if uses then (if has then okA tenant else write (AddFinalizer (pa_meta a) m tenantFinalizer))
         else if has then write (RemoveFinalizer (pa_meta a) m tenantFinalizer)
         else okA tenant)"

text \<open>
  The two ways in which \<open>reconcile\<close> takes a step: the result comes first in both; an error without a
  result ends the reconcile, or is not looked at.
\<close>

type_synonym ('s) treconcile = "('s, legacyCleanup \<times> pacing ctl) tact"

definition checkedStep :: "legacyCleanup \<Rightarrow> ('s, 'x) tstep \<Rightarrow> (TenantCR \<Rightarrow> 'x \<Rightarrow> 's treconcile) \<Rightarrow> 's treconcile" where
  "checkedStep lc m f =
     thenA m (\<lambda>(t, st). case st of Stop p \<Rightarrow> okA (lc, p) | Fail e \<Rightarrow> okA (lc, Err e) | GoOn x \<Rightarrow> f t x)"

definition uncheckedStep :: "legacyCleanup \<Rightarrow> 'x \<Rightarrow> ('s, 'x) tstep \<Rightarrow> (TenantCR \<Rightarrow> 'x \<Rightarrow> 's treconcile) \<Rightarrow> 's treconcile" where
  "uncheckedStep lc dflt m f =
     thenA m (\<lambda>(t, st). case st of Stop p \<Rightarrow> okA (lc, p) | Fail e \<Rightarrow> f t dflt | GoOn x \<Rightarrow> f t x)"

text \<open>
  The part of \<open>reconcile\<close> after the finalizer, in three: once the platform is there; once Config and
  gateway are known; all of it.
\<close>

definition finishPlatform ::
  "'s platformClient \<Rightarrow> platformApi \<Rightarrow> TenantReconciler \<Rightarrow> legacyCleanup \<Rightarrow> PrerequisiteReport \<Rightarrow> TenantCR \<Rightarrow> RunResult
     \<Rightarrow> 's treconcile" where
  "finishPlatform c a r lc prereqReport tenant runRes =
     (let t = aggregateWarningsAndSetDegraded a tenant prereqReport (Some runRes)
      in thenA (attemptLegacyCleanup c r lc) (\<lambda>lc'.
         onA (setFinalStatus c a t) (\<lambda>e. okA (lc', Err e)) (\<lambda>p. okA (lc', Ok p))))"

definition drivePrerequisites ::
  "'s platformClient \<Rightarrow> platformApi \<Rightarrow> TenantReconciler \<Rightarrow> legacyCleanup \<Rightarrow> TenantCR \<Rightarrow> ConfigObj \<times> PlatformContext
     \<Rightarrow> 's treconcile" where
  "drivePrerequisites c a r lc tenant valid =
     uncheckedStep lc \<lparr>pre_Blocking = [], pre_Warnings = []\<rparr> (checkDependenciesAndPrerequisites c a r tenant) (\<lambda>t prereqReport.
     checkedStep lc (reconcilePlatform c a r t (snd valid) (fst valid)) (finishPlatform c a r lc prereqReport))"

definition drivePlatform ::
  "'s platformClient \<Rightarrow> platformApi \<Rightarrow> TenantReconciler \<Rightarrow> legacyCleanup \<Rightarrow> TenantCR \<Rightarrow> 's treconcile" where
  "drivePlatform c a r lc tenant =
     uncheckedStep lc () (handleManagementState c a (tenant\<lparr>tcr_InfraNamespace := tnr_AppNamespace r\<rparr>)) (\<lambda>t _.
     checkedStep lc (validateConfigAndGateway c a r t) (drivePrerequisites c a r lc))"

definition TR_reconcile ::
  "'s platformClient \<Rightarrow> platformApi \<Rightarrow> TenantReconciler \<Rightarrow> legacyCleanup \<Rightarrow> ctlRequest \<Rightarrow> 's treconcile" where
  "TR_reconcile c a r lc req =
     (let stop = (\<lambda>p. okA (lc, p))
      in onA (readP c (pl_tenant c (fst req) (snd req)))
           (\<lambda>e. stop (if IsNotFound e then Ok Settled else Err (ofApi e))) (\<lambda>tenant.
         if ignored r (tcr_meta tenant) then stop (Ok Settled)
         else
           (case tenantUsesCleanupFinalizer (tcr_meta tenant) of
              Inl e \<Rightarrow> stop (Err e)
            | Inr uses \<Rightarrow>
                if om_Deleting (tcr_meta tenant) then
                  onA (TR_handleDeletion c a r tenant) (\<lambda>e. stop (Err e)) (\<lambda>p. stop (Ok p))
                else
                  onA (settleFinalizer c a uses tenant) (\<lambda>e. stop (Err e)) (drivePlatform c a r lc))))"

text \<open>The conflict is on the object of the request: its name is in the details of the error.\<close>

definition isMaasTenantConfigConflict :: "platformApi \<Rightarrow> ctl_error \<Rightarrow> ctlRequest \<Rightarrow> bool" where
  "isMaasTenantConfigConflict a e req \<longleftrightarrow>
     (case ce_kind e of WrapsApi k \<Rightarrow> pa_conflictName a k = Some (snd req) | _ \<Rightarrow> False)"

definition TR_Reconcile ::
  "'s platformClient \<Rightarrow> platformApi \<Rightarrow> TenantReconciler \<Rightarrow> legacyCleanup \<Rightarrow> ctlRequest \<Rightarrow> 's treconcile" where
  "TR_Reconcile c a r lc req =
     thenA (TR_reconcile c a r lc req) (\<lambda>(lc', res). okA (lc',
       case res of
         Inl e \<Rightarrow>
           if (case ce_kind e of WrapsApi k \<Rightarrow> pa_IsConflict a k | _ \<Rightarrow> False) \<and> isMaasTenantConfigConflict a e req
           then Ok RequeueNow else Err e
       | Inr p \<Rightarrow> Ok p))"

section \<open>From watched objects to requests\<close>

definition enqueueDefaultTenant :: "TenantReconciler \<Rightarrow> ctlRequest list" where
  "enqueueDefaultTenant r = [(tnr_TenantNamespace r, MaasTenantConfigInstanceName)]"

definition enqueueTenantForAITenant :: "TenantReconciler \<Rightarrow> AITenant option \<Rightarrow> ctlRequest list" where
  "enqueueTenantForAITenant r obj =
     (case obj of
        None \<Rightarrow> []
      | Some aitenant \<Rightarrow>
          [(TenantNamespaceForAITenant (om_Name (at_meta aitenant)) (tnr_TenantNamespace r), MaasTenantConfigInstanceName)])"

definition crdLabeledForMaaSComponent :: "ObjectMeta \<Rightarrow> bool" where
  "crdLabeledForMaaSComponent m \<longleftrightarrow> annotation (om_Labels m) ''app.opendatahub.io/modelsasservice'' = ''true''"

definition secretNamedMaaSDB :: "ObjectMeta \<Rightarrow> bool" where
  "secretNamedMaaSDB m \<longleftrightarrow> om_Name m = MaaSDBSecretName"

definition inTenantWorkNamespaces :: "(string \<Rightarrow> string) \<Rightarrow> TenantReconciler \<Rightarrow> ObjectMeta \<Rightarrow> bool" where
  "inTenantWorkNamespaces getenv r m \<longleftrightarrow>
     om_Namespace m = tnr_AppNamespace r \<or> om_Namespace m = tnr_TenantNamespace r \<or> om_Namespace m = operatorNamespace getenv r"

definition authenticationClusterSingleton :: "ObjectMeta \<Rightarrow> bool" where
  "authenticationClusterSingleton m \<longleftrightarrow> om_Name m = ''cluster''"

definition configResourceDefault :: "ObjectMeta \<Rightarrow> bool" where
  "configResourceDefault m \<longleftrightarrow> om_Name m = ''default''"

end
