(* ===== verification/TenantControllerTrace.thy ===== *)
theory TenantControllerTrace
  imports TenantController PlatformReach MemCluster
begin

text \<open>
  What a run of the tenant controller writes, read off its history (\<open>Actions\<close>): \<open>platformOk\<close> says which writes
  may be made for the settings of a tenant as they were read at the start, and after what; one triple per
  operation leads to \<open>tri_Reconcile\<close>, from which the properties follow. At the end, a cluster at rest on
  which a run can be computed.
\<close>

section \<open>The recording client\<close>

text \<open>Writes that the controller never makes are passed on.\<close>

definition passOn :: "('x \<Rightarrow> 's cwrite) \<Rightarrow> 'x \<Rightarrow> ('s, pwrite) tstate cwrite" where
  "passOn f x st = (case f x (fst st) of (e, s) \<Rightarrow> (e, (s, snd st)))"

definition gatewayWrite :: "(uobj \<Rightarrow> pwrite) \<Rightarrow> (uobj \<Rightarrow> 's cwrite) \<Rightarrow> uobj \<Rightarrow> ('s, pwrite) tstate cwrite" where
  "gatewayWrite k f x st = (case f x (fst st) of (e, s) \<Rightarrow> (e, (s, snd st @ [Wrote (k x) e])))"

definition plogged :: "'s platformClient \<Rightarrow> ('s, pwrite) tstate platformClient" where
  "plogged c =
     \<lparr>getSubscription = (\<lambda>x y st. getSubscription c x y (fst st)),
      listSubscriptions = (\<lambda>st. listSubscriptions c (fst st)),
      listSubscriptionsIn = (\<lambda>x st. listSubscriptionsIn c x (fst st)),
      listSubscriptionsByModel = (\<lambda>x st. listSubscriptionsByModel c x (fst st)),
      updateSubscription = passOn (updateSubscription c),
      updateSubscriptionStatus = passOn (updateSubscriptionStatus c),
      getModelRef = (\<lambda>x y st. getModelRef c x y (fst st)),
      listModelRefsIn = (\<lambda>x st. listModelRefsIn c x (fst st)),
      listModelRefsByName = (\<lambda>x st. listModelRefsByName c x (fst st)),
      listModelRefsByTenant = (\<lambda>x st. listModelRefsByTenant c x (fst st)),
      updateModelRef = passOn (updateModelRef c),
      updateModelRefStatus = passOn (updateModelRefStatus c),
      getAuthPolicy = (\<lambda>x y st. getAuthPolicy c x y (fst st)),
      listAuthPolicies = (\<lambda>st. listAuthPolicies c (fst st)),
      listAuthPoliciesIn = (\<lambda>x st. listAuthPoliciesIn c x (fst st)),
      updateAuthPolicy = passOn (updateAuthPolicy c),
      updateAuthPolicyStatus = passOn (updateAuthPolicyStatus c),
      getNamespaceLabels = (\<lambda>x st. getNamespaceLabels c x (fst st)),
      getMaasTenantConfig = (\<lambda>x y st. getMaasTenantConfig c x y (fst st)),
      getLegacyTenant = (\<lambda>x y st. getLegacyTenant c x y (fst st)),
      getAITenant = (\<lambda>x y st. getAITenant c x y (fst st)),
      listAITenantsIn = (\<lambda>x st. listAITenantsIn c x (fst st)),
      getHTTPRouteObj = (\<lambda>x y st. getHTTPRouteObj c x y (fst st)),
      listHTTPRoutes = (\<lambda>x y st. listHTTPRoutes c x y (fst st)),
      getGateway = (\<lambda>x y st. getGateway c x y (fst st)),
      getLLMInferenceService = (\<lambda>x y st. getLLMInferenceService c x y (fst st)),
      getInferenceExternalModel = (\<lambda>x y st. getInferenceExternalModel c x y (fst st)),
      getExternalModel = (\<lambda>x y st. getExternalModel c x y (fst st)),
      getTRLP = (\<lambda>x y st. getTRLP c x y (fst st)),
      listTRLPs = (\<lambda>x y st. listTRLPs c x y (fst st)),
      createTRLP = passOn (createTRLP c),
      updateTRLP = passOn (updateTRLP c),
      deleteTRLP = passOn (deleteTRLP c),
      listEndpointSlices = (\<lambda>x y st. listEndpointSlices c x y (fst st)),
      listInferenceExternalModels = (\<lambda>st. listInferenceExternalModels c (fst st)),
      getKuadrantAuthPolicy = (\<lambda>x y st. getKuadrantAuthPolicy c x y (fst st)),
      createKuadrantAuthPolicy = gatewayWrite WriteGatewayPolicy (createKuadrantAuthPolicy c),
      updateKuadrantAuthPolicy = gatewayWrite WriteGatewayPolicy (updateKuadrantAuthPolicy c),
      listKuadrantAuthPolicies = (\<lambda>x y st. listKuadrantAuthPolicies c x y (fst st)),
      deleteKuadrantAuthPolicy = gatewayWrite DeleteGatewayPolicy (deleteKuadrantAuthPolicy c),
      recordEvent = (\<lambda>t r m st. (recordEvent c t r m (fst st), snd st)),
      others = othersL (others c),
      pl_tenant = (\<lambda>x y st. pl_tenant c x y (fst st)),
      pl_config = (\<lambda>st. pl_config c (fst st)),
      pl_deployment = (\<lambda>x y st. pl_deployment c x y (fst st)),
      pl_secret = (\<lambda>x y st. pl_secret c x y (fst st)),
      pl_configMap = (\<lambda>x y st. pl_configMap c x y (fst st)),
      pl_object = (\<lambda>x y z st. pl_object c x y z (fst st)),
      pl_listObjects = (\<lambda>x st. pl_listObjects c x (fst st)),
      pl_mapping = (\<lambda>x st. pl_mapping c x (fst st)),
      pl_write = writeL (pl_write c)\<rparr>"

lemma plogged_reads [simp]:
  "getSubscription (plogged c) x y st = getSubscription c x y (fst st)"
  "listSubscriptions (plogged c) st = listSubscriptions c (fst st)"
  "listSubscriptionsIn (plogged c) x st = listSubscriptionsIn c x (fst st)"
  "listSubscriptionsByModel (plogged c) x st = listSubscriptionsByModel c x (fst st)"
  "getModelRef (plogged c) x y st = getModelRef c x y (fst st)"
  "listModelRefsIn (plogged c) x st = listModelRefsIn c x (fst st)"
  "listModelRefsByName (plogged c) x st = listModelRefsByName c x (fst st)"
  "listModelRefsByTenant (plogged c) x st = listModelRefsByTenant c x (fst st)"
  "getAuthPolicy (plogged c) x y st = getAuthPolicy c x y (fst st)"
  "listAuthPolicies (plogged c) st = listAuthPolicies c (fst st)"
  "listAuthPoliciesIn (plogged c) x st = listAuthPoliciesIn c x (fst st)"
  "getNamespaceLabels (plogged c) x st = getNamespaceLabels c x (fst st)"
  "getMaasTenantConfig (plogged c) x y st = getMaasTenantConfig c x y (fst st)"
  "getLegacyTenant (plogged c) x y st = getLegacyTenant c x y (fst st)"
  "getAITenant (plogged c) x y st = getAITenant c x y (fst st)"
  "listAITenantsIn (plogged c) x st = listAITenantsIn c x (fst st)"
  "getHTTPRouteObj (plogged c) x y st = getHTTPRouteObj c x y (fst st)"
  "listHTTPRoutes (plogged c) x ls st = listHTTPRoutes c x ls (fst st)"
  "getGateway (plogged c) x y st = getGateway c x y (fst st)"
  "getLLMInferenceService (plogged c) x y st = getLLMInferenceService c x y (fst st)"
  "getInferenceExternalModel (plogged c) x y st = getInferenceExternalModel c x y (fst st)"
  "getExternalModel (plogged c) x y st = getExternalModel c x y (fst st)"
  "getTRLP (plogged c) x y st = getTRLP c x y (fst st)"
  "listTRLPs (plogged c) nso ls st = listTRLPs c nso ls (fst st)"
  "listEndpointSlices (plogged c) x ls st = listEndpointSlices c x ls (fst st)"
  "listInferenceExternalModels (plogged c) st = listInferenceExternalModels c (fst st)"
  "getKuadrantAuthPolicy (plogged c) x y st = getKuadrantAuthPolicy c x y (fst st)"
  "listKuadrantAuthPolicies (plogged c) nso ls st = listKuadrantAuthPolicies c nso ls (fst st)"
  "pl_tenant (plogged c) x y st = pl_tenant c x y (fst st)"
  "pl_config (plogged c) st = pl_config c (fst st)"
  "pl_deployment (plogged c) x y st = pl_deployment c x y (fst st)"
  "pl_secret (plogged c) x y st = pl_secret c x y (fst st)"
  "pl_configMap (plogged c) x y st = pl_configMap c x y (fst st)"
  "pl_object (plogged c) k y z st = pl_object c k y z (fst st)"
  "pl_listObjects (plogged c) k st = pl_listObjects c k (fst st)"
  "pl_mapping (plogged c) k st = pl_mapping c k (fst st)"
  by (simp_all add: plogged_def)

lemma plogged_calls [simp]: "others (plogged c) = othersL (others c)" "pl_write (plogged c) = writeL (pl_write c)"
  by (simp_all add: plogged_def)

definition phistory ::
  "'s platformClient \<Rightarrow> platformApi \<Rightarrow> TenantReconciler \<Rightarrow> legacyCleanup \<Rightarrow> ctlRequest \<Rightarrow> 's \<Rightarrow> ('s, pwrite) tev list" where
  "phistory c a r lc req s = snd (snd (TR_Reconcile (plogged c) a r lc req (s, [])))"

lemma tri_writeP:
  assumes "stays K" "\<And>l. K l \<Longrightarrow> good l w"
  shows "tri good K (writeP (plogged c) w) (\<lambda>x. did ((=) w))"
  unfolding writeP_def plogged_calls by (rule tri_writeAt) (use assms in auto)

lemma tri_readP:
  assumes "\<And>st. r' st = r (fst st)"
  shows "tri good K (readP (plogged c) r') (\<lambda>x. saw r ((=) x))"
  unfolding readP_def plogged_calls by (rule tri_readAt) (rule assms)

lemma tri_preads:
  "tri good K (readP (plogged c) (pl_tenant (plogged c) x y)) (\<lambda>v. saw (pl_tenant c x y) ((=) v))"
  "tri good K (readP (plogged c) (pl_config (plogged c))) (\<lambda>v. saw (pl_config c) ((=) v))"
  "tri good K (readP (plogged c) (pl_deployment (plogged c) x y)) (\<lambda>v. saw (pl_deployment c x y) ((=) v))"
  "tri good K (readP (plogged c) (pl_secret (plogged c) x y)) (\<lambda>v. saw (pl_secret c x y) ((=) v))"
  "tri good K (readP (plogged c) (pl_configMap (plogged c) x y)) (\<lambda>v. saw (pl_configMap c x y) ((=) v))"
  "tri good K (readP (plogged c) (pl_object (plogged c) k x y)) (\<lambda>v. saw (pl_object c k x y) ((=) v))"
  "tri good K (readP (plogged c) (pl_listObjects (plogged c) k)) (\<lambda>v. saw (pl_listObjects c k) ((=) v))"
  "tri good K (readP (plogged c) (pl_mapping (plogged c) k)) (\<lambda>v. saw (pl_mapping c k) ((=) v))"
  "tri good K (readP (plogged c) (getGateway (plogged c) x y)) (\<lambda>v. saw (getGateway c x y) ((=) v))"
  "tri good K (readP (plogged c) (listSubscriptionsIn (plogged c) x)) (\<lambda>v. saw (listSubscriptionsIn c x) ((=) v))"
  "tri good K (readP (plogged c) (listAuthPoliciesIn (plogged c) x)) (\<lambda>v. saw (listAuthPoliciesIn c x) ((=) v))"
  by (rule tri_readP; simp)+

lemma tri_peekA: "tri good K (peekA (plogged c) f) anyResult"
  by (auto simp: tri_def peekA_def othersL_def Let_def)

lemmas prules = tri_preads [THEN tri_onA] tri_cases tri_onA [OF tri_writeP]

section \<open>The policy of the gateway\<close>

text \<open>Histories that grow by writes of policies of gateways.\<close>

fun gatewayEv :: "('s, pwrite) tev \<Rightarrow> bool" where
  "gatewayEv (At s) \<longleftrightarrow> True"
| "gatewayEv (Wrote w e) \<longleftrightarrow> (\<exists>u. w = WriteGatewayPolicy u \<or> w = DeleteGatewayPolicy u)"

definition gwExt :: "('s, pwrite) tstate \<Rightarrow> ('s, pwrite) tstate \<Rightarrow> bool" where
  "gwExt st st' \<longleftrightarrow> (\<exists>l. snd st' = snd st @ l \<and> list_all gatewayEv l)"

lemma gwExt_refl [simp]: "gwExt st st"
  by (simp add: gwExt_def)

lemma gwExt_trans: "gwExt s t \<Longrightarrow> gwExt t u \<Longrightarrow> gwExt s u"
  unfolding gwExt_def by (metis append.assoc list_all_append)

lemma gwExt_writes [simp]:
  "gwExt st (snd (createKuadrantAuthPolicy (plogged c) u st))"
  "gwExt st (snd (updateKuadrantAuthPolicy (plogged c) u st))"
  "gwExt st (snd (deleteKuadrantAuthPolicy (plogged c) u st))"
  "gwExt st (othersL oth st)"
  by (auto simp: plogged_def gatewayWrite_def gwExt_def othersL_def split: prod.splits)

lemma gwExt_runs:
  "createKuadrantAuthPolicy (plogged c) u st = (e, st') \<Longrightarrow> gwExt st st'"
  "updateKuadrantAuthPolicy (plogged c) u st = (e, st') \<Longrightarrow> gwExt st st'"
  "deleteKuadrantAuthPolicy (plogged c) u st = (e, st') \<Longrightarrow> gwExt st st'"
  using gwExt_writes(1-3) [of st c u] by simp_all

lemma writeGatewayPolicy_gw: "gwExt st (snd (writeGatewayPolicy (plogged c) a m spec ex gw st))"
  by (auto simp: writeGatewayPolicy_def Let_def intro: gwExt_runs split: option.splits sum.splits prod.splits)

lemma reconcileGateway_gw:
  "gwExt st (snd (reconcileGatewayAuthPolicy (plogged c) a r oidc xk tid gns gn st))"
proof -
  let ?s = "othersL (others c) st"
  have s: "gwExt st ?s" by simp
  have w: "gwExt st (snd (writeGatewayPolicy (plogged c) a m spec ex gw ?s))" for m spec ex gw
    using gwExt_trans [OF s writeGatewayPolicy_gw] .
  have d: "gwExt st (snd (deleteKuadrantAuthPolicy (plogged c) u ?s))" for u
    using gwExt_trans [OF s gwExt_writes(3)] .
  have d': "deleteKuadrantAuthPolicy (plogged c) u ?s = (e, st') \<Longrightarrow> gwExt st st'" for u e st'
    using d [of u] by simp
  show ?thesis
    unfolding reconcileGatewayAuthPolicy_def Let_def plogged_calls
    by (auto split: sum.splits option.splits prod.splits simp del: gwExt_writes(4) intro: w s d')
qed

lemma ensureBase_gw: "gwExt st (snd (ensureBaseGatewayAuthPolicy (plogged c) a r oidc xk tid gns gn st))"
proof -
  have l: "gwExt st (deleteLegacyGatewayDefaultAuthPolicy (plogged c) r st)"
    by (auto simp: deleteLegacyGatewayDefaultAuthPolicy_def split: sum.splits)
  let ?s = "if gns = apr_GatewayNamespace r \<and> gn = apr_GatewayName r
    then deleteLegacyGatewayDefaultAuthPolicy (plogged c) r st else st"
  have s: "gwExt st ?s" using l by simp
  have g: "reconcileGatewayAuthPolicy (plogged c) a r oidc xk tid gns gn ?s = (res, st') \<Longrightarrow> gwExt st st'" for res st'
    using gwExt_trans [OF s reconcileGateway_gw, of c a r oidc xk tid gns gn] by simp
  show ?thesis
    unfolding ensureBaseGatewayAuthPolicy_def Let_def
    by (auto split: sum.splits prod.splits intro: s g simp del: if_split) (use s g in \<open>auto split: if_splits\<close>)
qed

lemma tri_gateway:
  assumes "\<And>st. gwExt st (snd (f st))" and "stays K"
    and "\<And>l u. K l \<Longrightarrow> good l (WriteGatewayPolicy u) \<and> good l (DeleteGatewayPolicy u)"
  shows "tri good K (outcomeA (plogged c) f) anyResult"
  unfolding tri_def
proof (intro allI impI conjI)
  fix st :: "('a, pwrite) tstate"
  assume K: "K (snd st)"
  let ?st = "snd (f (othersL (others c) st))"
  have "gwExt st ?st" using gwExt_trans [OF gwExt_writes(4) assms(1)] .
  then obtain l where l: "snd ?st = snd st @ l" "list_all gatewayEv l" unfolding gwExt_def by blast
  have "safe good (snd st) l"
    unfolding safe_def
  proof (intro allI impI)
    fix pre w e post
    assume "l = pre @ Wrote w e # post"
    with l(2) obtain u where "w = WriteGatewayPolicy u \<or> w = DeleteGatewayPolicy u" by auto
    with assms(3) [of "snd st @ pre" u] assms(2) K show "good (snd st @ pre) w" by (auto simp: stays_def)
  qed
  moreover have "snd (outcomeA (plogged c) f st) = ?st"
    by (auto simp: outcomeA_def split: prod.splits option.splits)
  ultimately show "\<exists>l. snd (snd (outcomeA (plogged c) f st)) = snd st @ l \<and> safe good (snd st) l"
    using l(1) by auto
qed auto

section \<open>What may be written\<close>

text \<open>
  \<open>t\<close> is the configuration as it was read at the start, \<open>l\<close> the history so far. A deletion is \<open>deletionDone\<close>
  when it was made or found nothing; \<open>emptied\<close>: no subscription and no policy was left in the namespace.
\<close>

definition deletionDone :: "pwrite \<Rightarrow> ('s, pwrite) tev list \<Rightarrow> bool" where
  "deletionDone w l \<longleftrightarrow> (\<exists>e. Wrote w e \<in> set l \<and> (case e of None \<Rightarrow> True | Some x \<Rightarrow> IsNotFound x))"

definition emptied :: "'s platformClient \<Rightarrow> TenantCR \<Rightarrow> ('s, pwrite) tev list \<Rightarrow> bool" where
  "emptied c t l \<longleftrightarrow>
     saw (listSubscriptionsIn c (om_Namespace (tcr_meta t))) ((=) []) l
     \<and> saw (listAuthPoliciesIn c (om_Namespace (tcr_meta t))) ((=) []) l"

definition deleting :: "TenantCR \<Rightarrow> bool" where
  "deleting t \<longleftrightarrow> om_Deleting (tcr_meta t)"

definition resourcesOf :: "TenantReconciler \<Rightarrow> TenantCR \<Rightarrow> (gvk \<times> string \<times> string) set" where
  "resourcesOf r t = (case TenantIdentifierFor (Some (tcr_meta t)) of Inl _ \<Rightarrow> {} | Inr i \<Rightarrow> set (tenantResources r i))"

text \<open>A live copy was looked for, and was not found to be somebody else's: opted out, or with another owner.\<close>

definition looked :: "'s platformClient \<Rightarrow> xobject \<Rightarrow> (xobject \<Rightarrow> bool) \<Rightarrow> ('s, pwrite) tev list \<Rightarrow> bool" where
  "looked c u P l \<longleftrightarrow>
     (\<exists>s. At s \<in> set l \<and> (\<forall>live. pl_object c (xo_GVK u) (namespaceOf u) (nameOf u) s = Ok live \<longrightarrow> P live))"

definition mayApply :: "'s platformClient \<Rightarrow> string \<Rightarrow> xobject \<Rightarrow> ('s, pwrite) tev list \<Rightarrow> bool" where
  "mayApply c configUID u l \<longleftrightarrow>
     nameOf u = []
     \<or> looked c u (\<lambda>live. annotation (om_Annotations (u_meta live)) AnnotationManaged \<noteq> ''false'') l
       \<and> looked c u (\<lambda>live. \<forall>ref\<in>set (om_Owners (u_meta live)). or_Controller ref \<longrightarrow> or_UID ref = configUID) l"

definition tracked :: "TenantCR \<Rightarrow> xobject \<Rightarrow> bool" where
  "tracked t u \<longleftrightarrow>
     map_of (om_Labels (u_meta u)) LabelTenantName = Some (tenantTrackingName (tcr_meta t))
     \<and> map_of (om_Labels (u_meta u)) LabelTenantNamespace = Some (om_Namespace (tcr_meta t))"

text \<open>The Config was seen alive, with its UID.\<close>

definition configSeen :: "'s platformClient \<Rightarrow> string \<Rightarrow> ('s, pwrite) tev list \<Rightarrow> bool" where
  "configSeen c uid l \<longleftrightarrow> uid \<noteq> [] \<and> saw (pl_config c) (\<lambda>x. \<not> om_Deleting (cfg_meta x) \<and> cfg_UID x = uid) l"

definition deploymentReady :: "DeploymentObj \<Rightarrow> bool" where
  "deploymentReady d \<longleftrightarrow>
     om_Generation (dp_meta d) \<le> dp_ObservedGeneration d
     \<and> orDefault 1 (dp_Replicas d) \<le> dp_UpdatedReplicas d \<and> orDefault 1 (dp_Replicas d) \<le> dp_AvailableReplicas d"

text \<open>The gateway of the tenant, as it was resolved at some point of the history.\<close>

definition tenantGateway ::
  "'s platformClient \<Rightarrow> TenantReconciler \<Rightarrow> TenantCR \<Rightarrow> TenantGatewayRef \<Rightarrow> ('s, pwrite) tev list \<Rightarrow> bool" where
  "tenantGateway c r t gw l \<longleftrightarrow>
     (\<exists>s ctx. At s \<in> set l \<and> pc_GatewayRef ctx = gw
        \<and> ResolvePlatformContext c (Some (MaasTenantConfig (tcr_meta t)))
            (fallbackTenantGatewayRef (tnr_GatewayName r) (tnr_GatewayNamespace r)) s = Ok ctx)"

text \<open>The filter of the payload processing runs late enough, and on the gateway.\<close>

definition filterReady :: "platformApi \<Rightarrow> string \<Rightarrow> xobject \<Rightarrow> bool" where
  "filterReady a gatewayName ef \<longleftrightarrow>
     (\<exists>n. NestedInt64F (pa_edit a) (u_Object ef) [''spec'', ''priority''] = Ok (Some n) \<and> 10 \<le> n)
     \<and> (\<exists>ls. NestedStringMapF (pa_edit a) (u_Object ef) [''spec'', ''workloadSelector'', ''labels''] = Ok (Some ls)
          \<and> annotation ls gatewayNameLabel = gatewayName)"

text \<open>The platform of the tenant was seen to work, for a gateway that was seen to exist.\<close>

definition worksOn ::
  "'s platformClient \<Rightarrow> platformApi \<Rightarrow> TenantReconciler \<Rightarrow> TenantCR \<Rightarrow> TenantGatewayRef \<Rightarrow> ('s, pwrite) tev list \<Rightarrow> bool" where
  "worksOn c a r t gw l \<longleftrightarrow>
     (\<exists>i. TenantIdentifierFor (Some (tcr_meta t)) = Ok i
        \<and> saw (getGateway c (gr_Namespace gw) (gr_Name gw)) (\<lambda>_. True) l
        \<and> saw (pl_deployment c (tnr_AppNamespace r) (MaaSAPIDeploymentName i)) deploymentReady l
        \<and> saw (pl_object c GVKEnvoyFilter (gr_Namespace gw) (PayloadProcessingEnvoyFilterName i)) (filterReady a (gr_Name gw)) l)"

definition platformReady :: "'s platformClient \<Rightarrow> platformApi \<Rightarrow> TenantReconciler \<Rightarrow> TenantCR \<Rightarrow> ('s, pwrite) tev list \<Rightarrow> bool" where
  "platformReady c a r t l \<longleftrightarrow> (\<exists>gw. tenantGateway c r t gw l \<and> worksOn c a r t gw l)"

fun platformOk :: "'s platformClient \<Rightarrow> platformApi \<Rightarrow> TenantReconciler \<Rightarrow> TenantCR \<Rightarrow> ('s, pwrite) tev list \<Rightarrow> pwrite \<Rightarrow> bool" where
  "platformOk c a r t l (UpdateTenant x) \<longleftrightarrow>
     samePlace (tcr_meta x) (tcr_meta t)
     \<and> (deleting t \<longrightarrow> emptied c t l \<and> (\<forall>(k, n, ns)\<in>resourcesOf r t. deletionDone (DeletePlatform k ns n) l))"
| "platformOk c a r t l (UpdateTenantStatus x) \<longleftrightarrow>
     samePlace (tcr_meta x) (tcr_meta t) \<and> \<not> deleting t
     \<and> (tcr_Phase x \<in> {''Active'', ''Degraded''} \<longrightarrow> (\<exists>uid. configSeen c uid l) \<and> platformReady c a r t l)"
| "platformOk c a r t l (ApplyObject u) \<longleftrightarrow>
     \<not> deleting t \<and> managementState (tcr_meta t) \<notin> {''Unmanaged'', ''Removed''} \<and> tracked t u
     \<and> (\<exists>uid. configSeen c uid l \<and> mayApply c uid u l)"
| "platformOk c a r t l (UpdateParameters x) \<longleftrightarrow>
     \<not> deleting t \<and> saw (pl_configMap c (tnr_AppNamespace r) maasParametersConfigMapName) (\<lambda>y. cm_meta x = cm_meta y) l"
| "platformOk c a r t l (DeletePlatform k ns n) \<longleftrightarrow>
     (if deleting t then emptied c t l \<and> (k, n, ns) \<in> resourcesOf r t
      else k = GVKHPA \<and> (\<exists>i gw. TenantIdentifierFor (Some (tcr_meta t)) = Ok i \<and> n = PayloadProcessingHPAName i
             \<and> tenantGateway c r t gw l \<and> ns = gr_Namespace gw)
           \<or> ns = tnr_ControllerNamespace r \<and> ns \<noteq> tnr_AppNamespace r)"
| "platformOk c a r t l (DeleteSubscription x) \<longleftrightarrow>
     deleting t \<and> saw (listSubscriptionsIn c (om_Namespace (tcr_meta t))) (\<lambda>xs. x \<in> set xs) l"
| "platformOk c a r t l (DeletePolicy x) \<longleftrightarrow>
     deleting t \<and> saw (listAuthPoliciesIn c (om_Namespace (tcr_meta t))) (\<lambda>xs. x \<in> set xs) l"
| "platformOk c a r t l (WriteGatewayPolicy x) \<longleftrightarrow> \<not> deleting t"
| "platformOk c a r t l (DeleteGatewayPolicy x) \<longleftrightarrow> \<not> deleting t"

text \<open>What is known of the parameters: adding and removing a finalizer, and a controller reference, change nothing else.\<close>

definition plainPlatform :: "platformApi \<Rightarrow> bool" where
  "plainPlatform a \<longleftrightarrow>
     (\<forall>m f. \<exists>fs. AddFinalizer (pa_meta a) m f = m\<lparr>om_Finalizers := fs\<rparr>)
     \<and> (\<forall>m f. \<exists>fs. RemoveFinalizer (pa_meta a) m f = m\<lparr>om_Finalizers := fs\<rparr>)
     \<and> (\<forall>cfg u u'. pa_SetConfigReference a cfg u = RefSet u' \<longrightarrow> xo_GVK u' = xo_GVK u \<and> samePlace (u_meta u') (u_meta u))"

lemma stays_looked [simp, intro]: "stays (deletionDone w)" "stays (looked c u P)"
  by (auto simp: stays_def deletionDone_def looked_def)

lemma stays_tenantGateway [simp, intro]: "stays (tenantGateway c r t gw)"
  by (auto simp: stays_def tenantGateway_def)

lemma stays_platform [simp, intro]:
  "stays (emptied c t)" "stays (mayApply c uid u)" "stays (configSeen c uid)" "stays (worksOn c a r t gw)" "stays (platformReady c a r t)"
proof -
  show works: "stays (worksOn c a r t gw)" for gw
    unfolding worksOn_def [abs_def] by (intro stays_ex stays_conj stays_simps)
  then show "stays (platformReady c a r t)"
    unfolding platformReady_def [abs_def] by (intro stays_ex stays_conj stays_tenantGateway)
qed (unfold emptied_def [abs_def] mayApply_def [abs_def] configSeen_def [abs_def],
  (intro stays_conj stays_disj stays_simps stays_looked)+)

lemma tri_eachA:
  assumes "\<And>x. x \<in> set xs \<Longrightarrow> tri good K (f x) (\<lambda>_. Q x)" "stays K" "\<And>x. stays (Q x)"
  shows "tri good K (eachA f xs) (\<lambda>_ l. \<forall>x\<in>set xs. Q x l)"
  using assms(1)
proof (induction xs)
  case Nil
  show ?case by (auto intro: tri_okA)
next
  case (Cons x xs)
  have "tri good K (eachA f xs) (\<lambda>_ l. \<forall>x\<in>set xs. Q x l)" by (rule Cons.IH) (use Cons.prems in auto)
  then have rest: "tri good (\<lambda>l. K l \<and> Q x l) (eachA f xs) (\<lambda>_ l. (\<forall>x\<in>set xs. Q x l) \<and> Q x l)"
    by (rule tri_frame) (rule assms(3))
  have first: "tri good K (f x) (\<lambda>_. Q x)" by (rule Cons.prems) simp
  show ?case
    unfolding eachA.simps
    by (rule tri_onA [OF first assms(2) tri_errA]) (rule tri_weaken [OF rest]; simp)
qed

lemma tri_deleteP:
  assumes "stays K" "\<And>l. K l \<Longrightarrow> good l w"
  shows "tri good K (onA (writeP (plogged c) w) (\<lambda>e. if IsNotFound e then okA () else errA (E e)) okA) (\<lambda>_. deletionDone w)"
  using assms
  by (auto simp: tri_def onA_def writeP_def writeAt_def othersL_def writeL_def okA_def errA_def deletionDone_def stays_def
      split: prod.splits option.splits)

section \<open>Applying\<close>

lemma tri_pureA: "(\<And>l y. x = Inr y \<Longrightarrow> K l \<Longrightarrow> Q y l) \<Longrightarrow> tri good K (pureA what x) Q"
  unfolding pureA_def by (intro tri_sum tri_errors tri_okA)

lemma tri_namedA: "tri good K m Q \<Longrightarrow> stays K \<Longrightarrow> tri good K (namedA what m) Q"
  unfolding namedA_def by (rule tri_onA) (auto intro: tri_okA tri_errA)

lemma tri_liveCopy:
  "tri good K (liveCopy (plogged c) u) (\<lambda>live l. nameOf u = [] \<and> live = None
     \<or> nameOf u \<noteq> [] \<and> (\<exists>s. At s \<in> set l \<and> (\<forall>x. pl_object c (xo_GVK u) (namespaceOf u) (nameOf u) s = Ok x \<longrightarrow> live = Some x)))"
  by (auto simp: tri_def liveCopy_def onA_def okA_def readP_def readAt_def othersL_def Let_def split: sum.splits)

lemma tri_isLiveResourceUnmanaged:
  assumes "stays K"
  shows "tri good K (isLiveResourceUnmanaged (plogged c) u)
    (\<lambda>b l. \<not> b \<longrightarrow> nameOf u = [] \<or> looked c u (\<lambda>live. annotation (om_Annotations (u_meta live)) AnnotationManaged \<noteq> ''false'') l)"
  unfolding isLiveResourceUnmanaged_def
  by (rule tri_onA [OF tri_liveCopy assms tri_errA], rule tri_okA) (fastforce simp: looked_def split: option.splits)

lemma tri_isOwnedByExternalController:
  assumes "stays K"
  shows "tri good K (isOwnedByExternalController (plogged c) u uid)
    (\<lambda>b l. \<not> b \<longrightarrow> nameOf u = []
       \<or> looked c u (\<lambda>live. \<forall>ref\<in>set (om_Owners (u_meta live)). or_Controller ref \<longrightarrow> or_UID ref = uid) l)"
  unfolding isOwnedByExternalController_def
  by (rule tri_onA [OF tri_liveCopy assms tri_errA], rule tri_okA) (fastforce simp: looked_def list_ex_iff split: option.splits)

text \<open>The object that is sent is at the place of the rendered one.\<close>

definition sentFor :: "TenantCR \<Rightarrow> xobject \<Rightarrow> xobject \<Rightarrow> bool" where
  "sentFor t u v \<longleftrightarrow> xo_GVK v = xo_GVK u \<and> samePlace (u_meta v) (u_meta u) \<and> tracked t v"

lemma tracked_labels: "xo_GVK u1 = xo_GVK u \<Longrightarrow> samePlace (u_meta u1) (u_meta u) \<Longrightarrow>
    sentFor t u (setTenantTrackingLabels (tcr_meta t) u1)"
  by (simp add: sentFor_def samePlace_def tracked_def setTenantTrackingLabels_def update_conv
    LabelTenantName_def LabelTenantNamespace_def)

lemma tri_prepare:
  assumes "stays K" "sentFor t u v"
  shows "tri good K (preparePayloadProcessingPluginsConfigMapApply (plogged c) v) (\<lambda>w l. sentFor t u w)"
  unfolding preparePayloadProcessingPluginsConfigMapApply_def Let_def
  by (intro tri_if tri_okA tri_onA [OF tri_liveCopy assms(1) tri_errA])
    (use assms(2) in \<open>auto simp: sentFor_def samePlace_def tracked_def\<close>)

lemma mayApply_sent: "sentFor t u v \<Longrightarrow> mayApply c uid v l \<longleftrightarrow> mayApply c uid u l"
  by (simp add: sentFor_def samePlace_def mayApply_def looked_def)

lemma sentFor_sent: "sentFor t u v \<Longrightarrow> sentFor t u (removeAt e fs (v\<lparr>xo_ResourceVersion := []\<rparr>))"
  by (simp add: sentFor_def tracked_def removeAt_def)

text \<open>Only what is neither opted out nor somebody else's goes on.\<close>

lemma tri_ours:
  assumes F: "tri good (\<lambda>l. K l \<and> mayApply c uid u l) F anyResult" and K: "stays K"
  shows "tri good K (thenA (isLiveResourceUnmanaged (plogged c) u) (\<lambda>b. if b then okA () else
           thenA (isOwnedByExternalController (plogged c) u uid) (\<lambda>b. if b then okA () else F))) anyResult"
proof (rule tri_onA [OF tri_isLiveResourceUnmanaged [OF K] K tri_errA], rule tri_if, rule tri_okA, simp)
  fix unmanaged
  assume "\<not> unmanaged"
  let ?K = "\<lambda>l. K l \<and> (nameOf u = [] \<or> looked c u (\<lambda>live. annotation (om_Annotations (u_meta live)) AnnotationManaged \<noteq> ''false'') l)"
  have K1: "stays ?K" using K by (intro stays_conj stays_disj stays_simps stays_looked)
  have "tri good ?K (thenA (isOwnedByExternalController (plogged c) u uid) (\<lambda>b. if b then okA () else F)) anyResult"
  proof (rule tri_onA [OF tri_isOwnedByExternalController [OF K1] K1 tri_errA], rule tri_if, rule tri_okA, simp)
    fix taken
    assume "\<not> taken"
    then show "tri good (\<lambda>l. ?K l \<and> (\<not> taken \<longrightarrow> nameOf u = []
        \<or> looked c u (\<lambda>live. \<forall>ref\<in>set (om_Owners (u_meta live)). or_Controller ref \<longrightarrow> or_UID ref = uid) l)) F anyResult"
      by (intro tri_weaken [OF F]) (auto simp: mayApply_def)
  qed
  with \<open>\<not> unmanaged\<close> show "tri good (\<lambda>l. K l \<and> (\<not> unmanaged \<longrightarrow> nameOf u = []
      \<or> looked c u (\<lambda>live. annotation (om_Annotations (u_meta live)) AnnotationManaged \<noteq> ''false'') l))
    (thenA (isOwnedByExternalController (plogged c) u uid) (\<lambda>b. if b then okA () else F)) anyResult"
    by simp
qed

lemma tri_applyObject:
  assumes K: "stays K" and a: "plainPlatform a"
    and good: "\<And>l v. K l \<Longrightarrow> tracked t v \<Longrightarrow> mayApply c (cfg_UID cfg) v l \<Longrightarrow> good l (ApplyObject v)"
  shows "tri good K (applyObject (plogged c) a (tcr_meta t) appNs cfg u) anyResult"
proof -
  let ?K = "\<lambda>l. K l \<and> mayApply c (cfg_UID cfg) u l"
  let ?sent = "\<lambda>v. removeAt (pa_edit a) [''status''] (v\<lparr>xo_ResourceVersion := []\<rparr>)"
  have K': "stays ?K" using K by (intro stays_conj stays_platform)
  have last': "tri good ?K (onA (writeP (plogged c) (ApplyObject (?sent v))) (wrapA x) okA) anyResult"
    if v: "sentFor t u v" for v x
  proof (rule tri_onA [OF tri_writeP [OF K']])
    fix l
    assume "?K l"
    with mayApply_sent [OF sentFor_sent [OF v], of c "cfg_UID cfg" "pa_edit a" "[''status'']" l]
      sentFor_sent [OF v, of "pa_edit a" "[''status'']"]
    show "good l (ApplyObject (?sent v))" by (intro good) (auto simp: sentFor_def)
  qed (use K' in \<open>auto intro: tri_okA tri_errors\<close>)
  have ref: "tri good ?K
      (if skipConfigControllerOwnerRef u appNs then okA u
       else (case pa_SetConfigReference a cfg u of RefSet u' \<Rightarrow> okA u' | RefTaken \<Rightarrow> okA u | RefFailed e \<Rightarrow> failA (m e)))
      (\<lambda>v l. xo_GVK v = xo_GVK u \<and> samePlace (u_meta v) (u_meta u))" for m
    using a by (auto simp: plainPlatform_def samePlace_def split: refOutcome.split intro!: tri_okA tri_errors)
  show ?thesis
    unfolding applyObject_def Let_def
    by (rule tri_ours [OF _ K], rule tri_onP [OF ref K' tri_errA],
        rule tri_onP [OF tri_prepare [OF K' tracked_labels] K' tri_errA], auto intro: last')
qed

lemma tri_ApplyRendered:
  assumes K: "stays K" and a: "plainPlatform a" and seen: "\<And>l. K l \<Longrightarrow> configSeen c (cfg_UID cfg) l"
    and good: "\<And>l v uid. K l \<Longrightarrow> tracked t v \<Longrightarrow> configSeen c uid l \<Longrightarrow> mayApply c uid v l \<Longrightarrow> good l (ApplyObject v)"
  shows "tri good K (ApplyRendered (plogged c) a (tcr_meta t) appNs (Some cfg) objs) anyResult"
  unfolding ApplyRendered_def option.case
  by (intro tri_if tri_errors tri_any [OF tri_eachA [where Q = "\<lambda>_ _. True"]] tri_applyObject a K)
    (auto intro: good seen)

section \<open>The pipeline\<close>

lemmas tri_passing = tri_onAny tri_preads [THEN tri_any] tri_cases

text \<open>Operations that only read.\<close>

lemma tri_IsGVKAvailable: "stays K \<Longrightarrow> tri good K (IsGVKAvailable (plogged c) k) anyResult"
  unfolding IsGVKAvailable_def by (rule tri_passing | assumption | rule TrueI)+

lemma tri_CheckDependencies: "stays K \<Longrightarrow> tri good K (CheckDependencies (plogged c)) anyResult"
  unfolding CheckDependencies_def
  by (rule tri_namedA tri_IsGVKAvailable tri_passing | assumption | rule TrueI)+

lemma tri_wasmAuth: "stays K \<Longrightarrow> tri good K (gatewayHasKuadrantWasmAuth (plogged c) a x y) anyResult"
  unfolding gatewayHasKuadrantWasmAuth_def Let_def by (rule tri_passing | assumption | rule TrueI)+

lemma tri_validNamespaceA: "stays K \<Longrightarrow> tri good K (validNamespaceA a x) anyResult"
  unfolding validNamespaceA_def by (rule tri_passing | assumption | rule TrueI)+

lemma tri_renderPlatform: "stays K \<Longrightarrow> tri good K (renderPlatform a place path obj params) anyResult"
  unfolding renderPlatform_def by (rule tri_pureA tri_passing | assumption | rule TrueI)+

lemma tri_CollectPrerequisiteReport: "stays K \<Longrightarrow> tri good K (CollectPrerequisiteReport (plogged c) a x) anyResult"
  unfolding CollectPrerequisiteReport_def checkAuthorinoTLS_def checkDatabaseSecret_def checkDSCIMonitoring_def Let_def
  by (rule tri_IsGVKAvailable tri_passing | assumption | rule TrueI)+

text \<open>What is deleted and written beside the objects.\<close>

lemma tri_cleanupHPA:
  assumes "stays K" "\<And>l. K l \<Longrightarrow> good l (DeletePlatform GVKHPA (pp_GatewayNamespace p) (PayloadProcessingHPAName (pp_TenantIdentifier p)))"
  shows "tri good K (cleanupPayloadProcessingHPA (plogged c) p) anyResult"
  unfolding cleanupPayloadProcessingHPA_def Let_def
  by (rule tri_passing tri_any [OF tri_writeP] assms TrueI | assumption)+

lemma tri_retry:
  assumes "tri good K m anyResult" "stays K"
  shows "tri good K (retryOnConflict f n m) anyResult"
  by (induction n) (auto intro!: tri_onAny tri_if tri_okA tri_errA assms)

lemma tri_parameters:
  assumes K: "stays K"
    and good: "\<And>l x. K l \<Longrightarrow> saw (pl_configMap c ns maasParametersConfigMapName) (\<lambda>y. cm_meta x = cm_meta y) l
      \<Longrightarrow> good l (UpdateParameters x)"
  shows "tri good K (syncMaaSParametersConfigMap (plogged c) a ns p) anyResult"
proof -
  have update: "tri good K (thenA (readP (plogged c) (pl_configMap (plogged c) ns maasParametersConfigMapName)) (\<lambda>latest.
      writeP (plogged c) (UpdateParameters (latest\<lparr>cm_Data := f latest\<rparr>)))) anyResult" for f
    by (rule tri_onA [OF tri_preads(5) K tri_errA], rule tri_any [OF tri_writeP])
      (use K in \<open>auto intro!: good elim: saw_mono\<close>)
  show ?thesis
    unfolding syncMaaSParametersConfigMap_def Let_def
    by (rule update tri_retry K tri_passing TrueI | assumption)+
qed

lemma tri_deploymentReady:
  assumes "stays K"
  shows "tri good K (MaasAPIDeploymentReady (plogged c) ns i)
    (\<lambda>x. \<lambda>l. fst x \<longrightarrow> saw (pl_deployment c ns (MaaSAPIDeploymentName i)) deploymentReady l)"
  unfolding MaasAPIDeploymentReady_def Let_def
  by (rule tri_onA [OF tri_preads(3) assms])
    (auto intro!: tri_if tri_okA tri_errors simp: saw_def deploymentReady_def)

lemma filterVerdict_ready:
  assumes "filterVerdict a ns gw name ef = Ok v" "fst v"
  shows "filterReady a gw ef"
proof -
  from assms obtain n found where n: "NestedInt64F (pa_edit a) (u_Object ef) [''spec'', ''priority''] = Ok (Some n)" "10 \<le> n"
    and found: "NestedStringMapF (pa_edit a) (u_Object ef) [''spec'', ''workloadSelector'', ''labels''] = Ok found"
      "annotation (orDefault [] found) gatewayNameLabel = gw" "gw \<noteq> []"
    by (auto simp: filterVerdict_def Let_def PayloadProcessingEnvoyFilterPriority_def split: sum.splits if_splits)
  from found(2,3) obtain ls where "found = Some ls" "annotation ls gatewayNameLabel = gw"
    by (cases found) (auto simp: annotation_def orDefault_def)
  with n found(1) show ?thesis by (auto simp: filterReady_def)
qed

lemma tri_filterReady:
  assumes "stays K"
  shows "tri good K (PayloadProcessingEnvoyFilterReady (plogged c) a ns gw i)
    (\<lambda>x. \<lambda>l. fst x \<longrightarrow> saw (pl_object c GVKEnvoyFilter ns (PayloadProcessingEnvoyFilterName i)) (filterReady a gw) l)"
  unfolding PayloadProcessingEnvoyFilterReady_def Let_def
  by (rule tri_onA [OF tri_preads(6) assms], intro tri_if tri_okA tri_errors, simp, intro tri_sum tri_errors tri_okA)
    (auto simp: saw_def dest: filterVerdict_ready)

lemma tri_awaitPlatform:
  assumes K: "stays K"
  shows "tri good K (awaitPlatform (plogged c) a place i p)
    (\<lambda>res l. \<not> rr_DeploymentPending res \<longrightarrow>
       saw (pl_deployment c (pw_AppNamespace place) (MaaSAPIDeploymentName i)) deploymentReady l
       \<and> saw (pl_object c GVKEnvoyFilter (pp_GatewayNamespace p) (PayloadProcessingEnvoyFilterName i)) (filterReady a (pp_GatewayName p)) l)"
proof -
  have imp: "stays (\<lambda>l. b \<longrightarrow> P l)" if "stays P" for b and P :: "('a, pwrite) tev list \<Rightarrow> bool"
    using that by (auto simp: stays_def)
  show ?thesis
    unfolding awaitPlatform_def Let_def
    apply (rule tri_onA [OF tri_namedA [OF tri_deploymentReady [OF K] K] K tri_errA])
    apply (rule tri_prod, rule tri_if, rule tri_okA, simp)
    apply (rule tri_onA [OF tri_namedA [OF tri_filterReady]])
    apply (auto intro!: stays_conj imp K tri_errA tri_prod tri_if tri_okA)
    done
qed

section \<open>The tenant as it was read\<close>

text \<open>The reconcile changes of the metadata the finalizers only.\<close>

definition kept :: "TenantCR \<Rightarrow> TenantCR \<Rightarrow> bool" where
  "kept t t' \<longleftrightarrow> (\<exists>fs. tcr_meta t' = (tcr_meta t)\<lparr>om_Finalizers := fs\<rparr>)"

lemma kept_refl [simp]: "kept t t"
  by (auto simp: kept_def intro: exI [of _ "om_Finalizers (tcr_meta t)"])

lemma finalizers_not_read:
  "managementState (m\<lparr>om_Finalizers := fs\<rparr>) = managementState m"
  "TenantIdentifierFor (Some (m\<lparr>om_Finalizers := fs\<rparr>)) = TenantIdentifierFor (Some m)"
  "tenantTrackingName (m\<lparr>om_Finalizers := fs\<rparr>) = tenantTrackingName m"
  "ResolvePlatformContext c (Some (MaasTenantConfig (m\<lparr>om_Finalizers := fs\<rparr>))) gw s
     = ResolvePlatformContext c (Some (MaasTenantConfig m)) gw s"
  by (cases m, simp only: managementState_def TenantIdentifierFor_def tenantTrackingName_def ResolvePlatformContext_def
    isAITenantManagedTenantConfig_def resolveAITenantPlatformContext_def Let_def ObjectMeta.simps
    option.simps tenantConfig.case tenantConfig.sel)+

lemma kept_reads:
  assumes "kept t t'"
  shows "om_Namespace (tcr_meta t') = om_Namespace (tcr_meta t)" "om_Name (tcr_meta t') = om_Name (tcr_meta t)"
    "deleting t' = deleting t" "managementState (tcr_meta t') = managementState (tcr_meta t)"
    "TenantIdentifierFor (Some (tcr_meta t')) = TenantIdentifierFor (Some (tcr_meta t))"
    "tracked t' u = tracked t u"
    "ResolvePlatformContext c (Some (MaasTenantConfig (tcr_meta t'))) gw s
       = ResolvePlatformContext c (Some (MaasTenantConfig (tcr_meta t))) gw s"
proof -
  from assms obtain fs where t': "tcr_meta t' = (tcr_meta t)\<lparr>om_Finalizers := fs\<rparr>" by (auto simp: kept_def)
  show "om_Namespace (tcr_meta t') = om_Namespace (tcr_meta t)" "om_Name (tcr_meta t') = om_Name (tcr_meta t)"
    "deleting t' = deleting t" "managementState (tcr_meta t') = managementState (tcr_meta t)"
    "TenantIdentifierFor (Some (tcr_meta t')) = TenantIdentifierFor (Some (tcr_meta t))"
    "tracked t' u = tracked t u"
    "ResolvePlatformContext c (Some (MaasTenantConfig (tcr_meta t'))) gw s
       = ResolvePlatformContext c (Some (MaasTenantConfig (tcr_meta t))) gw s"
    by (simp_all add: t' finalizers_not_read deleting_def tracked_def)
qed

lemma kept_samePlace: "kept t t' \<Longrightarrow> samePlace (tcr_meta t') (tcr_meta t)"
  by (simp add: samePlace_def kept_reads)

lemma ResolvePlatformContext_plogged:
  "ResolvePlatformContext (plogged c) t gw st = ResolvePlatformContext c t gw (fst st)"
  by (simp only: ResolvePlatformContext_def resolveAITenantPlatformContext_def plogged_reads)

lemma clamp_keeps:
  "pp_GatewayNamespace (clampReplicas p) = pp_GatewayNamespace p" "pp_GatewayName (clampReplicas p) = pp_GatewayName p"
  "pp_TenantIdentifier (clampReplicas p) = pp_TenantIdentifier p"
  by (simp_all add: clampReplicas_def split: option.split)

lemma built_params:
  assumes "BuildPlatformParams getenv obj ctx ns cns aud mon = Ok p"
  shows "pp_GatewayNamespace p = gr_Namespace (pc_GatewayRef ctx) \<and> pp_GatewayName p = gr_Name (pc_GatewayRef ctx)
    \<and> TenantIdentifierFor (Some (po_meta obj)) = Ok (pp_TenantIdentifier p)"
proof -
  obtain an pn w where a: "resolveReplicaAnnotations obj = (an, pn, w)" by (cases "resolveReplicaAnnotations obj")
  obtain rep res where m: "resolveMaasAPIConfig obj = (rep, res)" by (cases "resolveMaasAPIConfig obj")
  show ?thesis
    using assms unfolding BuildPlatformParams_def Let_def a m prod.case
    by (cases "TenantIdentifierFor (Some (po_meta obj))") (simp_all only: sum.case sum.inject sum.distinct, auto simp: clamp_keeps)
qed

section \<open>Running the platform\<close>

text \<open>The platform may be applied.\<close>

definition running :: "TenantCR \<Rightarrow> bool" where
  "running t \<longleftrightarrow> \<not> deleting t \<and> managementState (tcr_meta t) \<notin> {''Unmanaged'', ''Removed''}"

lemma tri_RunPlatform:
  assumes K: "stays K" and a: "plainPlatform a" and t': "kept t t'" and run: "running t"
    and known: "\<And>l. K l \<Longrightarrow> tenantGateway c r t (pc_GatewayRef ctx) l \<and> configSeen c (cfg_UID cfg) l"
  shows "tri (platformOk c a r t) K (RunPlatform (plogged c) a (platformPlaceOf r) t' ctx (Some cfg))
    (\<lambda>res l. \<not> rr_DeploymentPending res \<longrightarrow> worksOn c a r t (pc_GatewayRef ctx) l)"
proof -
  let ?gw = "pc_GatewayRef ctx"
  let ?K = "\<lambda>l. K l \<and> saw (getGateway c (gr_Namespace ?gw) (gr_Name ?gw)) (\<lambda>_. True) l"
  let ?good = "platformOk c a r t"
  have K1: "stays ?K" using K by (intro stays_conj stays_simps)
  have app: "pw_AppNamespace (platformPlaceOf r) = tnr_AppNamespace r" by (simp add: platformPlaceOf_def)
  have rest: "tri ?good ?K
      (thenA (renderPlatform a (platformPlaceOf r) path (platformObjectOf t') (p\<lparr>pp_RouterExtProcFallback := b\<rparr>)) (\<lambda>resources.
       thenA (namedA w1 (cleanupPayloadProcessingHPA (plogged c) (p\<lparr>pp_RouterExtProcFallback := b\<rparr>))) (\<lambda>_.
       thenA (namedA w2 (ApplyRendered (plogged c) a (tcr_meta t') (tnr_AppNamespace r) (Some cfg) resources)) (\<lambda>_.
       thenA (namedA w3 (syncMaaSParametersConfigMap (plogged c) a (tnr_AppNamespace r) (p\<lparr>pp_RouterExtProcFallback := b\<rparr>))) (\<lambda>_.
       case TenantIdentifierFor (Some (tcr_meta t')) of
         Inl e \<Rightarrow> errA (wrapErr w4 e)
       | Inr tenantID \<Rightarrow> awaitPlatform (plogged c) a (platformPlaceOf r) tenantID (p\<lparr>pp_RouterExtProcFallback := b\<rparr>))))))
      (\<lambda>res l. \<not> rr_DeploymentPending res \<longrightarrow> worksOn c a r t ?gw l)"
    if p: "pp_GatewayNamespace p = gr_Namespace ?gw \<and> pp_GatewayName p = gr_Name ?gw
      \<and> TenantIdentifierFor (Some (tcr_meta t)) = Ok (pp_TenantIdentifier p)" for p b path w1 w2 w3 w4
  proof -
    let ?p = "p\<lparr>pp_RouterExtProcFallback := b\<rparr>"
    have hpa: "tri ?good ?K (cleanupPayloadProcessingHPA (plogged c) ?p) anyResult"
      by (rule tri_cleanupHPA [OF K1]) (use p run known in \<open>auto simp: running_def\<close>)
    have apply': "tri ?good ?K (ApplyRendered (plogged c) a (tcr_meta t') (tnr_AppNamespace r) (Some cfg) xs) anyResult" for xs
      by (rule tri_ApplyRendered [OF K1 a, where c = c and cfg = cfg and t = t'])
        (use run known in \<open>auto simp: running_def kept_reads [OF t']\<close>)
    have sync: "tri ?good ?K (syncMaaSParametersConfigMap (plogged c) a (tnr_AppNamespace r) ?p) anyResult"
      by (rule tri_parameters [OF K1]) (use run in \<open>auto simp: running_def\<close>)
    have await: "tri ?good ?K (awaitPlatform (plogged c) a (platformPlaceOf r) (pp_TenantIdentifier p) ?p)
        (\<lambda>res l. \<not> rr_DeploymentPending res \<longrightarrow> worksOn c a r t ?gw l)"
      using tri_frame [OF tri_awaitPlatform [OF K1, of _ c a "platformPlaceOf r" "pp_TenantIdentifier p" ?p]
        stays_simps(2) [of "getGateway c (gr_Namespace ?gw) (gr_Name ?gw)" "\<lambda>_. True"]]
      by (rule tri_weaken) (use p app in \<open>auto simp: worksOn_def\<close>)
    show ?thesis
      unfolding kept_reads(5) [OF t'] p [THEN conjunct2, THEN conjunct2] sum.case
      by (rule tri_onAny [OF tri_renderPlatform [OF K1] K1 tri_errA],
          rule tri_onAny [OF tri_namedA [OF hpa K1] K1 tri_errA],
          rule tri_onAny [OF tri_namedA [OF apply' K1] K1 tri_errA],
          rule tri_onAny [OF tri_namedA [OF sync K1] K1 tri_errA], rule await)
  qed
  have meta: "po_meta (platformObjectOf t') = tcr_meta t'" by (simp add: platformObjectOf_def)
  have build: "tri ?good ?K (namedA w (case BuildPlatformParams getenv (platformObjectOf t') ctx ns cns aud mon of
        Inl e \<Rightarrow> errA e | Inr params \<Rightarrow> okA params))
      (\<lambda>p l. pp_GatewayNamespace p = gr_Namespace ?gw \<and> pp_GatewayName p = gr_Name ?gw
        \<and> TenantIdentifierFor (Some (tcr_meta t)) = Ok (pp_TenantIdentifier p))" for getenv ns cns aud mon w
    by (rule tri_namedA [OF tri_sum K1], rule tri_errA, rule tri_okA, drule built_params)
      (simp add: meta kept_reads [OF t'])
  show ?thesis
    unfolding RunPlatform_def Let_def app
    apply (rule tri_onAny [OF tri_pureA K tri_errA], simp)
    apply (rule tri_onAny [OF tri_validNamespaceA [OF K] K tri_errA])
    apply (rule tri_if, rule tri_errors)
    apply (rule tri_onA [OF tri_preads(9) K], intro tri_if tri_errors)
    apply (rule tri_weaken [where K = ?K])
      apply (rule tri_onP [OF build K1 tri_errA])
      apply (rule tri_onAny [OF tri_namedA [OF tri_wasmAuth [OF K1] K1] K1 tri_errA])
      apply (erule rest)
    by (auto elim: saw_mono)
qed

section \<open>The steps\<close>

lemma conditions_keep [simp]:
  "tcr_meta (setTenantCondition a t ty st re me) = tcr_meta t" "tcr_Phase (setTenantCondition a t ty st re me) = tcr_Phase t"
  "tcr_meta (setDependenciesCondition a t b d) = tcr_meta t" "tcr_Phase (setDependenciesCondition a t b d) = tcr_Phase t"
  "tcr_meta (setPrerequisiteConditionsFromReport a t rep) = tcr_meta t"
  "tcr_Phase (setPrerequisiteConditionsFromReport a t rep) = tcr_Phase t"
  "tcr_meta (setDeploymentsAvailableCondition a t b re me) = tcr_meta t"
  "tcr_Phase (setDeploymentsAvailableCondition a t b re me) = tcr_Phase t"
  "tcr_meta (prerequisitesUnevaluatedCondition a t d) = tcr_meta t"
  "tcr_meta (withReady a t ph st re me) = tcr_meta t" "tcr_Phase (withReady a t ph st re me) = ph"
  "tcr_meta (aggregateWarningsAndSetDegraded a t rep res) = tcr_meta t"
  by (auto simp: setTenantCondition_def setDependenciesCondition_def setPrerequisiteConditionsFromReport_def
    setDeploymentsAvailableCondition_def prerequisitesUnevaluatedCondition_def withReady_def
    aggregateWarningsAndSetDegraded_def Let_def)

lemma kept_meta: "tcr_meta t2 = tcr_meta t1 \<Longrightarrow> kept t t1 \<Longrightarrow> kept t t2"
  by (simp add: kept_def)

text \<open>A step hands on the tenant, and what holds of the history when it goes on, or when it does not stop.\<close>

definition onNext :: "TenantCR \<Rightarrow> ('x \<Rightarrow> 'l \<Rightarrow> bool) \<Rightarrow> TenantCR \<times> 'x step \<Rightarrow> 'l \<Rightarrow> bool" where
  "onNext t P v l \<longleftrightarrow> kept t (fst v) \<and> (\<forall>x. snd v = GoOn x \<longrightarrow> P x l)"

lemma tri_writeAndWait:
  assumes "stays K" "kept t t'" "\<not> deleting t" "tcr_Phase t' \<notin> {''Active'', ''Degraded''}"
  shows "tri (platformOk c a r t) K (writeAndWait (plogged c) t' n) (onNext t P)"
  unfolding writeAndWait_def
  by (rule tri_onA [OF tri_writeP [OF assms(1)] assms(1)])
    (use assms in \<open>auto intro!: tri_okA simp: onNext_def kept_samePlace\<close>)

lemma tri_notReady:
  assumes "stays K" "kept t t'" "\<not> deleting t" "ph \<notin> {''Active'', ''Degraded''}"
  shows "tri (platformOk c a r t) K (notReady (plogged c) a t' ph re me n) (onNext t P)"
  unfolding notReady_def
  by (rule tri_writeAndWait) (use assms kept_meta [OF _ assms(2)] in auto)

lemma tri_handleManagementState:
  assumes K: "stays K" and t': "kept t t'" and del: "\<not> deleting t"
  shows "tri (platformOk c a r t) K (handleManagementState (plogged c) a t')
    (\<lambda>v l. onNext t (\<lambda>_ _. True) v l \<and> ((\<forall>p. snd v \<noteq> Stop p) \<longrightarrow> managementState (tcr_meta t) \<noteq> ''Unmanaged''))"
proof (cases "managementState (tcr_meta t) = ''Unmanaged''")
  case True
  have idle: "tri (platformOk c a r t) K (handleIdleManagementState (plogged c) a t' ms) anyResult" for ms
    unfolding handleIdleManagementState_def
    by (rule tri_onA [OF tri_writeP [OF K] K])
      (use del kept_samePlace [OF t'] in \<open>auto intro!: tri_okA tri_errors\<close>)
  show ?thesis
    unfolding handleManagementState_def Let_def kept_reads(4) [OF t'] True
    by (simp, rule tri_onAny [OF idle K]; rule tri_okA) (simp_all add: onNext_def t')
next
  case False
  show ?thesis
    unfolding handleManagementState_def Let_def kept_reads(4) [OF t']
    by (rule tri_weaken [where K = K and Q = "onNext t (\<lambda>_ _. True)"], intro tri_if tri_notReady K t' del)
      (use False in \<open>auto intro!: tri_okA simp: onNext_def t'\<close>)
qed

lemma tri_readyConfigOrWait:
  assumes K: "stays K" and t': "kept t t'" and del: "\<not> deleting t"
  shows "tri (platformOk c a r t) K (readyConfigOrWait (plogged c) a t') (onNext t (\<lambda>cfg. configSeen c (cfg_UID cfg)))"
  unfolding readyConfigOrWait_def
  by (rule tri_onA [OF tri_preads(2) K], intro tri_if tri_notReady tri_okA K t' del)
    (auto intro!: tri_if tri_notReady tri_okA stays_conj K t' del simp: onNext_def configSeen_def t' elim: saw_mono)

lemma tri_resolveContextA:
  "tri good K (resolveContextA (plogged c) (tcr_meta t) (fallbackTenantGatewayRef (tnr_GatewayName r) (tnr_GatewayNamespace r)))
    (\<lambda>ctx. tenantGateway c r t (pc_GatewayRef ctx))"
  by (auto simp: tri_def resolveContextA_def peekA_def othersL_def Let_def ResolvePlatformContext_plogged tenantGateway_def)

lemma kept_tenantGateway: "kept t t' \<Longrightarrow> tenantGateway c r t' gw l \<longleftrightarrow> tenantGateway c r t gw l"
  by (simp add: tenantGateway_def kept_reads(7))

lemma tri_validateGateway:
  assumes K: "stays K" and t': "kept t t'" and del: "\<not> deleting t"
  shows "tri (platformOk c a r t) K (validateGateway (plogged c) a r t') (onNext t (\<lambda>ctx. tenantGateway c r t (pc_GatewayRef ctx)))"
proof -
  have exists: "tri good L (validateGatewayExists (plogged c) x y) anyResult" if "stays L" for good L x y
    unfolding validateGatewayExists_def Let_def by (rule that tri_passing TrueI | assumption)+
  show ?thesis
    unfolding validateGateway_def Let_def
  proof (rule tri_onA [OF tri_resolveContextA K], rule tri_notReady [OF K t' del], simp)
    fix ctx
    let ?K = "\<lambda>l. K l \<and> tenantGateway c r t' (pc_GatewayRef ctx) l"
    have K1: "stays ?K" using K by (intro stays_conj stays_tenantGateway)
    show "tri (platformOk c a r t) ?K
      (onA (validateGatewayExists (plogged c) (gr_Namespace (pc_GatewayRef ctx)) (gr_Name (pc_GatewayRef ctx)))
        (\<lambda>e. notReady (plogged c) a t' ''Pending'' ''GatewayNotReady'' (ce_text e) 30)
        (\<lambda>_. if tnr_ManifestPath r = [] then
            notReady (plogged c) a t' ''Failed'' ''ManifestPathUnset''
              ''MAAS_PLATFORM_MANIFESTS is not set and no default kustomize path resolved; cannot apply platform manifests'' 120
          else okA (t', GoOn ctx))) (onNext t (\<lambda>ctx. tenantGateway c r t (pc_GatewayRef ctx)))"
      by (rule tri_onAny [OF exists [OF K1] K1], rule tri_notReady [OF K1 t' del], simp,
          rule tri_if, rule tri_notReady [OF K1 t' del], simp, rule tri_okA)
        (simp add: onNext_def t' kept_tenantGateway [OF t'])
  qed
qed

lemma tri_validateConfigAndGateway:
  assumes K: "stays K" and t': "kept t t'" and del: "\<not> deleting t"
  shows "tri (platformOk c a r t) K (validateConfigAndGateway (plogged c) a r t')
    (onNext t (\<lambda>(cfg, ctx) l. managementState (tcr_meta t) \<noteq> ''Removed'' \<and> configSeen c (cfg_UID cfg) l
       \<and> tenantGateway c r t (pc_GatewayRef ctx) l))"
  unfolding validateConfigAndGateway_def
proof (rule tri_onA [OF tri_readyConfigOrWait [OF K t' del] K tri_errA], clarify)
  fix t1 :: TenantCR and st1 :: "ConfigObj step"
  let ?Q = "onNext t (\<lambda>(cfg, ctx) l. managementState (tcr_meta t) \<noteq> ''Removed'' \<and> configSeen c (cfg_UID cfg) l
       \<and> tenantGateway c r t (pc_GatewayRef ctx) l)"
  let ?good = "platformOk c a r t"
  let ?F = "case st1 of Stop p \<Rightarrow> okA (t1, Stop p) | Fail e \<Rightarrow> okA (t1, Fail e)
     | GoOn mcfg \<Rightarrow>
         if managementState (tcr_meta t1) = ''Removed'' then
           notReady (plogged c) a t1 ''Pending'' ''WaitingForRemovedTeardown''
             ''management state is Removed; platform reconcile is suspended until the Config anchor is deleted by component GC'' 10
         else thenA (validateGateway (plogged c) a r t1) (\<lambda>(t, valid).
               okA (t, case valid of Stop p \<Rightarrow> Stop p | Fail e \<Rightarrow> Fail e | GoOn ctx \<Rightarrow> GoOn (mcfg, ctx)))"
  have "tri ?good (\<lambda>l. K l \<and> (\<forall>x. st1 = GoOn x \<longrightarrow> configSeen c (cfg_UID x) l)) ?F ?Q" if t1: "kept t t1"
  proof (cases st1)
    case (GoOn cfg)
    let ?K = "\<lambda>l. K l \<and> configSeen c (cfg_UID cfg) l"
    have K1: "stays ?K" using K by (intro stays_conj stays_platform)
    have "tri ?good ?K (thenA (validateGateway (plogged c) a r t1) (\<lambda>(t, valid).
               okA (t, case valid of Stop p \<Rightarrow> Stop p | Fail e \<Rightarrow> Fail e | GoOn ctx \<Rightarrow> GoOn (cfg, ctx)))) ?Q"
      if "managementState (tcr_meta t) \<noteq> ''Removed''"
      by (rule tri_onA [OF tri_validateGateway [OF K1 t1 del] K1 tri_errA], clarify, rule tri_okA)
        (use that in \<open>auto simp: onNext_def split: step.splits\<close>)
    then show ?thesis
      unfolding GoOn step.case kept_reads(4) [OF t1]
      by (intro tri_if) (auto intro: tri_weaken [OF tri_notReady [OF K1 t1 del]] tri_weaken)
  qed (auto intro!: tri_okA simp: onNext_def t1)
  then show "tri ?good (\<lambda>l. K l \<and> onNext t (\<lambda>cfg. configSeen c (cfg_UID cfg)) (t1, st1) l) ?F ?Q"
    by (cases "kept t t1") (simp_all add: onNext_def tri_def)
qed

lemma tri_checkDependencies:
  assumes K: "stays K" and t': "kept t t'" and del: "\<not> deleting t"
  shows "tri (platformOk c a r t) K (checkDependenciesAndPrerequisites (plogged c) a r t') (onNext t (\<lambda>_ _. True))"
  unfolding checkDependenciesAndPrerequisites_def Let_def
  by (rule tri_onAny [OF tri_CheckDependencies [OF K] K], rule tri_notReady [OF K _ del], simp_all add: kept_meta [OF _ t'])
    (rule tri_onAny [OF tri_CollectPrerequisiteReport [OF K] K tri_errA], intro tri_if tri_okA tri_writeAndWait [OF K _ del],
     simp_all add: onNext_def kept_meta [OF _ t'])

lemma tri_gatewayAuth:
  assumes K: "stays K" and del: "\<not> deleting t"
  shows "tri (platformOk c a r t) K (ensureGatewayManagementAuth (plogged c) a r t') anyResult"
proof -
  have auth: "tri (platformOk c a r t) K (outcomeA (plogged c) (ensureBaseGatewayAuthPolicy (plogged c) (pa_meta a) authR o' x i y z)) anyResult"
    for authR o' x i y z
    by (rule tri_gateway [OF ensureBase_gw K]) (simp add: del)
  show ?thesis
    unfolding ensureGatewayManagementAuth_def Let_def
    by (rule tri_sum, rule tri_errA, rule tri_onAny [OF tri_peekA K tri_errA], rule tri_prod, rule tri_if, rule tri_okA, simp,
        rule tri_onAny [OF tri_peekA K tri_errA], rule tri_onAny [OF tri_peekA K tri_errA], rule auth)
qed

lemma tri_reconcilePlatform:
  assumes K: "stays K" and a: "plainPlatform a" and t': "kept t t'" and run: "running t"
    and known: "\<And>l. K l \<Longrightarrow> tenantGateway c r t (pc_GatewayRef ctx) l \<and> configSeen c (cfg_UID cfg) l"
  shows "tri (platformOk c a r t) K (reconcilePlatform (plogged c) a r t' ctx cfg)
    (onNext t (\<lambda>_ l. platformReady c a r t l \<and> configSeen c (cfg_UID cfg) l))"
proof -
  have del: "\<not> deleting t" using run by (simp add: running_def)
  let ?Q = "onNext t (\<lambda>_ l. platformReady c a r t l \<and> configSeen c (cfg_UID cfg) l)"
  let ?good = "platformOk c a r t"
  have rest: "tri ?good (\<lambda>l. K l \<and> (\<not> rr_DeploymentPending res \<longrightarrow> worksOn c a r t (pc_GatewayRef ctx) l))
      (onA (ensureGatewayManagementAuth (plogged c) a r t') (\<lambda>_. okA (t', Stop (Ok (RequeueAfter 45)))) (\<lambda>_.
     if rr_DeploymentPending res then writeAndWait (plogged c) t2 20 else okA (t', GoOn res))) ?Q"
    if t2: "kept t t2" "tcr_Phase t2 = ''Pending''" for t2 res
  proof -
    let ?K = "\<lambda>l. K l \<and> (\<not> rr_DeploymentPending res \<longrightarrow> worksOn c a r t (pc_GatewayRef ctx) l)"
    have K1: "stays ?K" using K stays_platform(4) [of c a r t "pc_GatewayRef ctx"] by (auto simp: stays_def)
    have ready: "?K l \<Longrightarrow> \<not> rr_DeploymentPending res \<Longrightarrow> platformReady c a r t l" for l
      using known by (auto simp: platformReady_def)
    show ?thesis
      by (rule tri_onAny [OF tri_gatewayAuth [OF K1 del] K1], rule tri_okA, simp add: onNext_def t',
          rule tri_if, rule tri_writeAndWait [OF K1 t2(1) del], simp add: t2(2), rule tri_okA)
        (auto simp: onNext_def t' known intro: ready)
  qed
  show ?thesis
    unfolding reconcilePlatform_def Let_def
    by (rule tri_onA [OF tri_RunPlatform [OF K a t' run known] K], assumption,
        rule tri_notReady [OF K _ del], simp add: kept_meta [OF _ t'], simp, rule rest, simp_all add: kept_meta [OF _ t'])
qed

section \<open>The last steps\<close>

lemma tri_attemptLegacyCleanup:
  assumes K: "stays K" and del: "\<not> deleting t"
  shows "tri (platformOk c a r t) K (attemptLegacyCleanup (plogged c) r lc) anyResult"
proof -
  let ?good = "platformOk c a r t"
  have one: "tri ?good K (cleanupLegacyIn (plogged c) (tnr_ControllerNamespace r)) anyResult"
    if "tnr_ControllerNamespace r \<noteq> tnr_AppNamespace r"
  proof -
    have "tri ?good K (writeP (plogged c) (DeletePlatform k (tnr_ControllerNamespace r) n)) anyResult" for k n
      by (rule tri_any [OF tri_writeP [OF K]]) (simp add: del that)
    then show ?thesis
      unfolding cleanupLegacyIn_def deleteQuietly_def
      by - (rule tri_passing K TrueI | assumption)+
  qed
  have "tri ?good K (cleanupLegacyMaaSAPIDeployment (plogged c) r) anyResult"
    unfolding cleanupLegacyMaaSAPIDeployment_def
    by (rule tri_any [OF tri_eachA [where Q = "\<lambda>_ _. True"]]) (auto intro: one K split: if_splits)
  then show ?thesis
    unfolding attemptLegacyCleanup_def by (intro tri_if tri_okA tri_onAny [OF _ K]; simp)
qed

lemma tri_setFinalStatus:
  assumes K: "stays K" and t': "kept t t'" and del: "\<not> deleting t"
    and ready: "\<And>l. K l \<Longrightarrow> platformReady c a r t l \<and> (\<exists>uid. configSeen c uid l)"
  shows "tri (platformOk c a r t) K (setFinalStatus (plogged c) a t') anyResult"
  unfolding setFinalStatus_def Let_def
  by (rule tri_onAny [OF tri_any [OF tri_writeP [OF K]] K])
    (use ready in \<open>auto intro!: tri_errors tri_okA simp: del samePlace_def kept_reads [OF t']\<close>)

section \<open>The reconcile\<close>

lemma tri_checkedStep:
  assumes m: "tri good K m (onNext t P)" and K: "stays K"
    and f: "\<And>t2 x. kept t t2 \<Longrightarrow> tri good (\<lambda>l. K l \<and> P x l) (f t2 x) anyResult"
  shows "tri good K (checkedStep lc m f) anyResult"
  unfolding checkedStep_def
proof (rule tri_onA [OF m K tri_errA], clarify)
  fix t2 st
  show "tri good (\<lambda>l. K l \<and> onNext t P (t2, st) l)
      (case st of Stop p \<Rightarrow> okA (lc, p) | Fail e \<Rightarrow> okA (lc, Err e) | GoOn x \<Rightarrow> f t2 x) anyResult"
  proof (cases "kept t t2")
    case True
    then show ?thesis by (cases st) (auto simp: onNext_def intro: f tri_okA)
  qed (simp add: onNext_def tri_def)
qed

lemma tri_uncheckedStep:
  fixes f :: "TenantCR \<Rightarrow> 'x \<Rightarrow> ('s, 'w) tstate treconcile"
  assumes m: "tri good K m (\<lambda>v l. onNext t (\<lambda>_ _. True) v l \<and> ((\<forall>p. snd v \<noteq> Stop p) \<longrightarrow> B))" and K: "stays K"
    and f: "\<And>t2 x. kept t t2 \<Longrightarrow> B \<Longrightarrow> tri good K (f t2 x) anyResult"
  shows "tri good K (uncheckedStep lc d m f) anyResult"
  unfolding uncheckedStep_def
proof (rule tri_onP [OF _ K tri_errA, where P = "\<lambda>v. kept t (fst v) \<and> ((\<forall>p. snd v \<noteq> Stop p) \<longrightarrow> B)"])
  show "tri good K m (\<lambda>v l. kept t (fst v) \<and> ((\<forall>p. snd v \<noteq> Stop p) \<longrightarrow> B))"
    by (rule tri_weaken [OF m]) (auto simp: onNext_def)
  fix v :: "TenantCR \<times> 'x step"
  assume "kept t (fst v) \<and> ((\<forall>p. snd v \<noteq> Stop p) \<longrightarrow> B)"
  then show "tri good K (case v of (t, st) \<Rightarrow> case st of Stop p \<Rightarrow> okA (lc, p) | Fail e \<Rightarrow> f t d | GoOn x \<Rightarrow> f t x) anyResult"
    by (cases v; cases "snd v") (auto intro: f tri_okA)
qed

lemma tri_finishPlatform:
  assumes K: "stays K" and t': "kept t t'" and del: "\<not> deleting t"
    and ready: "\<And>l. K l \<Longrightarrow> platformReady c a r t l \<and> (\<exists>uid. configSeen c uid l)"
  shows "tri (platformOk c a r t) K (finishPlatform (plogged c) a r lc rep t' res) anyResult"
  unfolding finishPlatform_def Let_def
  by (rule tri_onAny [OF tri_attemptLegacyCleanup [OF K del] K tri_errA],
      rule tri_onAny [OF tri_setFinalStatus [OF K kept_meta [OF _ t'] del ready] K]) (auto intro: tri_okA)

lemma tri_drivePrerequisites:
  assumes K: "stays K" and a: "plainPlatform a" and t': "kept t t'" and run: "running t"
    and known: "\<And>l. K l \<Longrightarrow> tenantGateway c r t (pc_GatewayRef (snd valid)) l \<and> configSeen c (cfg_UID (fst valid)) l"
  shows "tri (platformOk c a r t) K (drivePrerequisites (plogged c) a r lc t' valid) anyResult"
proof -
  have del: "\<not> deleting t" using run by (simp add: running_def)
  have platform: "tri (platformOk c a r t) K
      (checkedStep lc (reconcilePlatform (plogged c) a r t3 (snd valid) (fst valid)) (finishPlatform (plogged c) a r lc rep)) anyResult"
    if t3: "kept t t3" for t3 rep
  proof (rule tri_checkedStep [OF tri_reconcilePlatform [OF K a t3 run known] K], assumption)
    fix t4 x
    assume t4: "kept t t4"
    let ?ready = "\<lambda>l. K l \<and> platformReady c a r t l \<and> configSeen c (cfg_UID (fst valid)) l"
    have "stays ?ready" using K by (intro stays_conj stays_platform)
    then show "tri (platformOk c a r t) ?ready (finishPlatform (plogged c) a r lc rep t4 x) anyResult"
      by (rule tri_finishPlatform [OF _ t4 del]) blast
  qed
  have "tri (platformOk c a r t) K (checkDependenciesAndPrerequisites (plogged c) a r t')
      (\<lambda>v l. onNext t (\<lambda>_ _. True) v l \<and> ((\<forall>p. snd v \<noteq> Stop p) \<longrightarrow> True))"
    by (rule tri_weaken [OF tri_checkDependencies [OF K t' del]]) auto
  then show ?thesis
    unfolding drivePrerequisites_def by (rule tri_uncheckedStep [OF _ K platform])
qed

lemma tri_drivePlatform:
  assumes K: "stays K" and a: "plainPlatform a" and t': "kept t t'" and del: "\<not> deleting t"
  shows "tri (platformOk c a r t) K (drivePlatform (plogged c) a r lc t') anyResult"
  unfolding drivePlatform_def
proof (rule tri_uncheckedStep [OF tri_handleManagementState [OF K _ del] K], rule kept_meta [OF _ t'], simp)
  fix t1 x
  assume t1: "kept t t1" and ms: "managementState (tcr_meta t) \<noteq> ''Unmanaged''"
  show "tri (platformOk c a r t) K (checkedStep lc (validateConfigAndGateway (plogged c) a r t1) (drivePrerequisites (plogged c) a r lc)) anyResult"
  proof (rule tri_checkedStep [OF tri_validateConfigAndGateway [OF K t1 del] K])
    fix t2 and valid :: "ConfigObj \<times> PlatformContext"
    assume t2: "kept t t2"
    let ?K = "\<lambda>l. K l \<and> configSeen c (cfg_UID (fst valid)) l \<and> tenantGateway c r t (pc_GatewayRef (snd valid)) l"
    have K1: "stays ?K" using K by (intro stays_conj stays_platform stays_tenantGateway)
    have "tri (platformOk c a r t) ?K (drivePrerequisites (plogged c) a r lc t2 valid) anyResult" if "running t"
      by (rule tri_drivePrerequisites [OF K1 a t2 that]) auto
    moreover have "running t" if "managementState (tcr_meta t) \<noteq> ''Removed''" using ms del that by (simp add: running_def)
    ultimately show "tri (platformOk c a r t) (\<lambda>l. K l \<and> (case valid of (cfg, ctx) \<Rightarrow>
          \<lambda>l. managementState (tcr_meta t) \<noteq> ''Removed'' \<and> configSeen c (cfg_UID cfg) l \<and> tenantGateway c r t (pc_GatewayRef ctx) l) l)
        (drivePrerequisites (plogged c) a r lc t2 valid) anyResult"
      by (cases valid; cases "managementState (tcr_meta t) = ''Removed''") (auto simp: tri_def)
  qed
qed

section \<open>Deletion\<close>

lemma tri_deleteAll:
  assumes K: "stays K" and good: "\<And>l x. K l \<Longrightarrow> x \<in> set xs \<Longrightarrow> good l (w x)"
  shows "tri good K (eachA (\<lambda>x. onA (writeP (plogged c) (w x)) (\<lambda>e. if IsNotFound e then okA () else errA (E x e)) okA) xs)
    (\<lambda>_ l. \<forall>x\<in>set xs. deletionDone (w x) l)"
  by (rule tri_eachA [OF tri_deleteP K]) (auto intro: K good)

lemma tri_emptying:
  assumes K: "stays K" and del: "deleting t"
  shows "tri (platformOk c a r t) K (cleanupMaaSSubscriptions (plogged c) (om_Namespace (tcr_meta t)))
      (\<lambda>b l. b \<longrightarrow> saw (listSubscriptionsIn c (om_Namespace (tcr_meta t))) ((=) []) l)"
    and "tri (platformOk c a r t) K (cleanupMaaSAuthPolicies (plogged c) (om_Namespace (tcr_meta t)))
      (\<lambda>b l. b \<longrightarrow> saw (listAuthPoliciesIn c (om_Namespace (tcr_meta t))) ((=) []) l)"
proof -
  let ?subs = "listSubscriptionsIn c (om_Namespace (tcr_meta t))"
  have "tri (platformOk c a r t) (\<lambda>l. K l \<and> saw ?subs ((=) xs) l)
      (eachA (\<lambda>x. onA (writeP (plogged c) (DeleteSubscription x)) (\<lambda>e. if IsNotFound e then okA () else wrapA (f x) e) okA) xs) anyResult" for xs f
    unfolding wrapA_def
    by (rule tri_any [OF tri_deleteAll]) (use K del in \<open>auto elim: saw_mono\<close>)
  then show "tri (platformOk c a r t) K (cleanupMaaSSubscriptions (plogged c) (om_Namespace (tcr_meta t))) (\<lambda>b l. b \<longrightarrow> saw ?subs ((=) []) l)"
    unfolding cleanupMaaSSubscriptions_def
    by (intro tri_onA [OF tri_preads(10) K] tri_errors tri_onAny tri_errA tri_okA) (use K in auto)
  let ?pols = "listAuthPoliciesIn c (om_Namespace (tcr_meta t))"
  have "tri (platformOk c a r t) (\<lambda>l. K l \<and> saw ?pols ((=) xs) l)
      (eachA (\<lambda>x. onA (writeP (plogged c) (DeletePolicy x)) (\<lambda>e. if IsNotFound e then okA () else wrapA (f x) e) okA) xs) anyResult" for xs f
    unfolding wrapA_def
    by (rule tri_any [OF tri_deleteAll]) (use K del in \<open>auto elim: saw_mono\<close>)
  then show "tri (platformOk c a r t) K (cleanupMaaSAuthPolicies (plogged c) (om_Namespace (tcr_meta t))) (\<lambda>b l. b \<longrightarrow> saw ?pols ((=) []) l)"
    unfolding cleanupMaaSAuthPolicies_def
    by (intro tri_onA [OF tri_preads(11) K] tri_errors tri_onAny tri_errA tri_okA) (use K in auto)
qed

lemma tri_cleanupTenantResources:
  assumes K: "stays K" and known: "\<And>l. K l \<Longrightarrow> emptied c t l" and del: "deleting t"
  shows "tri (platformOk c a r t) K (cleanupTenantResources (plogged c) r t)
    (\<lambda>_ l. \<forall>(k, n, ns)\<in>resourcesOf r t. deletionDone (DeletePlatform k ns n) l)"
proof (cases "TenantIdentifierFor (Some (tcr_meta t))")
  case (Inr i)
  then have res: "resourcesOf r t = set (tenantResources r i)" by (simp add: resourcesOf_def)
  have "tri (platformOk c a r t) K
      (eachA (\<lambda>x. onA (writeP (plogged c) (case x of (k, n, ns) \<Rightarrow> DeletePlatform k ns n))
         (\<lambda>e. if IsNotFound e then okA () else errA (ofApi e)) okA) (tenantResources r i))
      (\<lambda>_ l. \<forall>x\<in>set (tenantResources r i). deletionDone (case x of (k, n, ns) \<Rightarrow> DeletePlatform k ns n) l)"
    by (rule tri_deleteAll [OF K]) (use known del res in auto)
  then show ?thesis
    unfolding cleanupTenantResources_def Inr sum.case res plainA_def by (simp add: case_prod_beta')
qed (simp add: cleanupTenantResources_def resourcesOf_def tri_errA)

lemma tri_handleDeletion:
  assumes K: "stays K" and a: "plainPlatform a" and del: "deleting t"
  shows "tri (platformOk c a r t) K (TR_handleDeletion (plogged c) a r t) anyResult"
proof -
  let ?ns = "om_Namespace (tcr_meta t)"
  let ?K = "\<lambda>l. (K l \<and> saw (listSubscriptionsIn c ?ns) ((=) []) l) \<and> saw (listAuthPoliciesIn c ?ns) ((=) []) l"
  have K1: "stays ?K" using K by (intro stays_conj stays_simps)
  obtain fs where fs: "RemoveFinalizer (pa_meta a) (tcr_meta t) tenantFinalizer = (tcr_meta t)\<lparr>om_Finalizers := fs\<rparr>"
    using a unfolding plainPlatform_def by blast
  have last': "tri (platformOk c a r t) ?K (thenA (cleanupTenantResources (plogged c) r t) (\<lambda>_.
      onA (writeP (plogged c) (UpdateTenant (t\<lparr>tcr_meta := RemoveFinalizer (pa_meta a) (tcr_meta t) tenantFinalizer\<rparr>)))
        plainA (\<lambda>_. okA Settled))) anyResult"
    by (rule tri_onA [OF tri_cleanupTenantResources [OF K1 _ del] K1 tri_errA], simp add: emptied_def,
        rule tri_onAny [OF tri_any [OF tri_writeP]])
      (use K1 in \<open>auto intro!: tri_okA tri_errors stays_conj stays_all simp: fs samePlace_def emptied_def stays_def deletionDone_def\<close>)
  show ?thesis
    unfolding TR_handleDeletion_def
  proof (intro tri_if tri_okA)
    show "tri (platformOk c a r t) K
        (thenA (cleanupMaaSSubscriptions (plogged c) ?ns) (\<lambda>subscriptionsDeleted.
         thenA (cleanupMaaSAuthPolicies (plogged c) ?ns) (\<lambda>authPoliciesDeleted.
         if \<not> subscriptionsDeleted \<or> \<not> authPoliciesDeleted then okA (RequeueAfter 5)
         else thenA (cleanupTenantResources (plogged c) r t) (\<lambda>_.
           onA (writeP (plogged c) (UpdateTenant (t\<lparr>tcr_meta := RemoveFinalizer (pa_meta a) (tcr_meta t) tenantFinalizer\<rparr>)))
             plainA (\<lambda>_. okA Settled))))) anyResult"
    proof (rule tri_onA [OF tri_emptying(1) [OF K del] K tri_errA])
      fix subs
      let ?L = "\<lambda>l. K l \<and> (subs \<longrightarrow> saw (listSubscriptionsIn c ?ns) ((=) []) l)"
      have L: "stays ?L" using K stays_simps(2) [of "listSubscriptionsIn c ?ns" "(=) []"] by (auto simp: stays_def)
      show "tri (platformOk c a r t) ?L (thenA (cleanupMaaSAuthPolicies (plogged c) ?ns) (\<lambda>authPoliciesDeleted.
         if \<not> subs \<or> \<not> authPoliciesDeleted then okA (RequeueAfter 5)
         else thenA (cleanupTenantResources (plogged c) r t) (\<lambda>_.
           onA (writeP (plogged c) (UpdateTenant (t\<lparr>tcr_meta := RemoveFinalizer (pa_meta a) (tcr_meta t) tenantFinalizer\<rparr>)))
             plainA (\<lambda>_. okA Settled)))) anyResult"
        by (rule tri_onA [OF tri_emptying(2) [OF L del] L tri_errA], rule tri_if, rule tri_okA, simp)
          (rule tri_weaken [OF last'], auto)
    qed
  qed simp_all
qed

lemma tri_settleFinalizer:
  assumes K: "stays K" and a: "plainPlatform a" and del: "\<not> deleting t"
  shows "tri (platformOk c a r t) K (settleFinalizer (plogged c) a uses t) (\<lambda>t' l. kept t t')"
proof -
  have one: "tri (platformOk c a r t) K
      (onA (writeP (plogged c) (UpdateTenant (t\<lparr>tcr_meta := m\<rparr>))) plainA (\<lambda>_. okA (t\<lparr>tcr_meta := m\<rparr>))) (\<lambda>t' l. kept t t')"
    if "\<exists>fs. m = (tcr_meta t)\<lparr>om_Finalizers := fs\<rparr>" for m
    by (rule tri_onAny [OF tri_any [OF tri_writeP [OF K]] K])
      (use that del in \<open>auto intro!: tri_okA tri_errors simp: kept_def samePlace_def\<close>)
  have same: "kept t t" by (auto simp: kept_def intro: exI [of _ "om_Finalizers (tcr_meta t)"])
  show ?thesis
    unfolding settleFinalizer_def Let_def
    by (intro tri_if tri_okA one same) (use a in \<open>auto simp: plainPlatform_def\<close>)
qed

section \<open>All of a reconcile\<close>

text \<open>The configuration of the tenant was read, and the write is one of those that may be made for it.\<close>

definition platformRule ::
  "'s platformClient \<Rightarrow> platformApi \<Rightarrow> TenantReconciler \<Rightarrow> ctlRequest \<Rightarrow> ('s, pwrite) tev list \<Rightarrow> pwrite \<Rightarrow> bool" where
  "platformRule c a r req l w \<longleftrightarrow>
     (\<exists>t. saw (pl_tenant c (fst req) (snd req)) ((=) t) l \<and> \<not> ignored r (tcr_meta t) \<and> platformOk c a r t l w)"

lemma tri_Reconcile:
  assumes a: "plainPlatform a"
  shows "tri (platformRule c a r req) (\<lambda>l. True) (TR_Reconcile (plogged c) a r lc req) anyResult"
proof -
  let ?read = "pl_tenant c (fst req) (snd req)"
  have rule': "tri (platformRule c a r req) (saw ?read ((=) t)) m anyResult"
    if "tri (platformOk c a r t) (saw ?read ((=) t)) m anyResult" "\<not> ignored r (tcr_meta t)" for t and m :: "((_, pwrite) tstate, _) tact"
    by (rule tri_good [OF that(1)]) (use that(2) in \<open>auto simp: platformRule_def\<close>)
  have go: "tri (platformRule c a r req) (saw ?read ((=) t))
      (case tenantUsesCleanupFinalizer (tcr_meta t) of
         Inl e \<Rightarrow> okA (lc, Err e)
       | Inr uses \<Rightarrow>
           if om_Deleting (tcr_meta t) then onA (TR_handleDeletion (plogged c) a r t) (\<lambda>e. okA (lc, Err e)) (\<lambda>p. okA (lc, Ok p))
           else onA (settleFinalizer (plogged c) a uses t) (\<lambda>e. okA (lc, Err e)) (drivePlatform (plogged c) a r lc)) anyResult"
    if t: "\<not> ignored r (tcr_meta t)" for t
  proof (rule rule' [OF _ t], intro tri_sum tri_okA tri_if)
    assume "om_Deleting (tcr_meta t)"
    then show "tri (platformOk c a r t) (saw ?read ((=) t))
        (onA (TR_handleDeletion (plogged c) a r t) (\<lambda>e. okA (lc, Err e)) (\<lambda>p. okA (lc, Ok p))) anyResult"
      by (intro tri_onAny [OF tri_handleDeletion [OF _ a]]) (auto simp: deleting_def intro: tri_okA)
  next
    fix uses
    assume del: "\<not> om_Deleting (tcr_meta t)"
    show "tri (platformOk c a r t) (saw ?read ((=) t))
        (onA (settleFinalizer (plogged c) a uses t) (\<lambda>e. okA (lc, Err e)) (drivePlatform (plogged c) a r lc)) anyResult"
      by (rule tri_onP [OF tri_settleFinalizer [OF _ a] _ tri_okA tri_drivePlatform [OF _ a]])
        (use del in \<open>auto simp: deleting_def\<close>)
  qed simp_all
  have "tri (platformRule c a r req) (\<lambda>l. True) (TR_reconcile (plogged c) a r lc req) anyResult"
    unfolding TR_reconcile_def Let_def
    by (rule tri_onA [OF tri_preads(1)], simp, rule tri_okA, simp, intro tri_if tri_okA tri_weaken [OF go]) auto
  then show ?thesis
    unfolding TR_Reconcile_def by (rule tri_onAny) (auto intro: tri_okA tri_errA)
qed

text \<open>
  C24: The platform of a tenant is reported ready only when it was seen to work. When a reconcile of a tenant's
  settings writes a status with the phase \<open>Active\<close> or \<open>Degraded\<close>, then the settings, as they were read at
  its start, are not being deleted, and earlier in the same run the Config was read alive and with a UID, the
  gateway of the tenant was resolved from the settings and read, the Deployment of the tenant's API server was
  read with its current spec observed and every wanted replica updated and available, and the filter of the
  tenant's payload processing was read on that gateway, with a priority of at least ten.
\<close>

theorem platform_ready_earned:
  assumes "plainPlatform a"
    and "phistory c a r lc req s = pre @ Wrote (UpdateTenantStatus x) e # post"
    and "tcr_Phase x \<in> {''Active'', ''Degraded''}"
  shows "\<exists>t. saw (pl_tenant c (fst req) (snd req)) ((=) t) pre \<and> \<not> om_Deleting (tcr_meta t)
    \<and> (\<exists>uid. configSeen c uid pre) \<and> platformReady c a r t pre"
  using tri_run [OF tri_Reconcile [OF assms(1)] TrueI assms(2) [unfolded phistory_def]] assms(3)
  by (auto simp: platformRule_def deleting_def)

text \<open>
  A tenant's settings lose their finalizer in a deletion only when no subscription and no policy was left in the
  namespace, and every object on the list of its platform was deleted or found missing.
\<close>

theorem platform_deletion_order:
  assumes "plainPlatform a"
    and "phistory c a r lc req s = pre @ Wrote (UpdateTenant x) e # post"
  shows "\<exists>t. saw (pl_tenant c (fst req) (snd req)) ((=) t) pre
    \<and> (om_Deleting (tcr_meta t) \<longrightarrow>
         emptied c t pre \<and> (\<forall>(k, n, ns)\<in>resourcesOf r t. deletionDone (DeletePlatform k ns n) pre))"
  using tri_run [OF tri_Reconcile [OF assms(1)] TrueI assms(2) [unfolded phistory_def]]
  by (auto simp: platformRule_def deleting_def)

text \<open>
  Every object that is applied carries the labels of the tenant, and is applied for settings that are neither being
  deleted nor told to leave the platform alone, after a look at the live object that did not find it
  opted out of management or in the hands of another controller than the Config.
\<close>

theorem applied_objects_confined:
  assumes "plainPlatform a"
    and "phistory c a r lc req s = pre @ Wrote (ApplyObject u) e # post"
  shows "\<exists>t. saw (pl_tenant c (fst req) (snd req)) ((=) t) pre \<and> running t \<and> tracked t u
    \<and> (\<exists>uid. configSeen c uid pre \<and> mayApply c uid u pre)"
  using tri_run [OF tri_Reconcile [OF assms(1)] TrueI assms(2) [unfolded phistory_def]]
  by (auto simp: platformRule_def running_def)

section \<open>An instance\<close>

text \<open>
  A cluster at rest with the default tenant, whose API server is available; the manifests are empty.
\<close>

definition restingTenant :: TenantCR where
  "restingTenant =
     \<lparr>tcr_meta = sampleMeta ''maas'' MaasTenantConfigInstanceName,
      tcr_Settings = \<lparr>ts_APIKeys = None, ts_Telemetry = None, ts_MaasAPI = None, ts_PayloadProcessing = None\<rparr>,
      tcr_Phase = [], tcr_InfraNamespace = [], tcr_Conditions = []\<rparr>"

definition restingReconciler :: TenantReconciler where
  "restingReconciler =
     \<lparr>tnr_OperatorNamespace = [], tnr_ManifestPath = ''/manifests'', tnr_AppNamespace = ''infra'',
      tnr_ControllerNamespace = [], tnr_TenantNamespace = ''maas'', tnr_GatewayName = ''gw'',
      tnr_GatewayNamespace = ''gws'', tnr_ClusterAudience = ''aud'', tnr_TenantNamespaceDiscoveryEnabled = True,
      tnr_MetadataCacheTTL = 60, tnr_MonitoringNamespace = ''monitoring''\<rparr>"

definition restingFilter :: xobject where
  "restingFilter =
     \<lparr>u_meta = sampleMeta ''gws'' ''payload-processing'',
      u_Object = [(''spec'', JObj [(''priority'', JInt 10),
        (''workloadSelector'', JObj [(''labels'', JObj [(gatewayNameLabel, JStr ''gw'')])])])],
      xo_GVK = GVKEnvoyFilter, xo_ResourceVersion = []\<rparr>"

definition restingMonitoring :: xobject where
  "restingMonitoring =
     \<lparr>u_meta = sampleMeta [] ''default-dsci'',
      u_Object = [(''status'', JObj [(''conditions'', JArr (map
        (\<lambda>typ. JObj [(''type'', JStr typ), (''status'', JStr ''True'')])
        [''MonitoringReady'', ''MonitoringStackAvailable'', ''PersesAvailable'']))])],
      xo_GVK = gvkDSCIList, xo_ResourceVersion = []\<rparr>"

definition restingClient :: "cluster platformClient" where
  "restingClient = client.extend
     (memClient\<lparr>getGateway := (\<lambda>ns n s. Ok \<lparr>gw_Name = n, gw_Namespace = ns, gw_UID = ''g'', gw_ListenerHostnames = [],
          gw_Listeners = [], gw_Addresses = []\<rparr>),
        getMaasTenantConfig := (\<lambda>ns n s. Ok (sampleMeta ns n)),
        getKuadrantAuthPolicy := (\<lambda>ns n s. Ok \<lparr>u_meta = (sampleMeta ns n)\<lparr>om_Annotations := [(AnnotationManaged, ''false'')]\<rparr>,
          u_Object = []\<rparr>)\<rparr>)
     (platformClient.fields
       (\<lambda>ns n s. Ok restingTenant)
       (\<lambda>s. Ok \<lparr>cfg_meta = sampleMeta [] ''default'', cfg_UID = ''uid''\<rparr>)
       (\<lambda>ns n s. Ok \<lparr>dp_meta = sampleMeta ns n, dp_Replicas = None, dp_ObservedGeneration = 1,
          dp_UpdatedReplicas = 1, dp_AvailableReplicas = 1\<rparr>)
       (\<lambda>ns n s. Ok [(MaaSDBSecretKey, ''postgres://db'')])
       (\<lambda>ns n s. Err (ErrNotFound n))
       (\<lambda>k ns n s. if k = GVKEnvoyFilter then Ok restingFilter else Err (ErrNotFound n))
       (\<lambda>k s. Ok [restingMonitoring])
       (\<lambda>k s. if k = GVKAuthConfig then Ok () else Err (ErrNoMatch (fst k)))
       (\<lambda>w s. (None, s)))"

definition restingApi :: platformApi where
  "restingApi =
     \<lparr>pa_edit = walkEdits,
      pa_kustomize = \<lparr>kz_Join = (\<lambda>d f. d @ ''/'' @ f), kz_Exists = (\<lambda>p. True), kz_Run = (\<lambda>p. Ok []),
        kz_Map = (\<lambda>x. Ok []), kz_Reset = (\<lambda>x m. Ok x), kz_SetNamespace = (\<lambda>ns x. Ok x), kz_SetLabels = (\<lambda>ls x. Ok x)\<rparr>,
      pa_meta = plainMeta, pa_getenv = (\<lambda>k. []), pa_Abs = Ok, pa_DNS1123 = (\<lambda>n. []),
      pa_SetConfigReference = (\<lambda>cfg u. RefTaken), pa_IsConflict = (\<lambda>e. False), pa_IsForbidden = (\<lambda>e. False),
      pa_conflictName = (\<lambda>e. None)\<rparr>"

lemma restingApi_plain: "plainPlatform restingApi"
  by (auto simp: plainPlatform_def restingApi_def plainMeta_def)

lemma resting_reads:
  "pl_tenant restingClient ns n s = Ok restingTenant"
  "pl_config restingClient s = Ok \<lparr>cfg_meta = sampleMeta [] ''default'', cfg_UID = ''uid''\<rparr>"
  "pl_deployment restingClient ns n s = Ok \<lparr>dp_meta = sampleMeta ns n, dp_Replicas = None, dp_ObservedGeneration = 1,
      dp_UpdatedReplicas = 1, dp_AvailableReplicas = 1\<rparr>"
  "pl_secret restingClient ns n s = Ok [(MaaSDBSecretKey, ''postgres://db'')]"
  "pl_configMap restingClient ns n s = Err (ErrNotFound n)"
  "pl_object restingClient k ns n s = (if k = GVKEnvoyFilter then Ok restingFilter else Err (ErrNotFound n))"
  "pl_listObjects restingClient k s = Ok [restingMonitoring]"
  "pl_mapping restingClient k s = (if k = GVKAuthConfig then Ok () else Err (ErrNoMatch (fst k)))"
  "getGateway restingClient ns n s = Ok \<lparr>gw_Name = n, gw_Namespace = ns, gw_UID = ''g'', gw_ListenerHostnames = [],
     gw_Listeners = [], gw_Addresses = []\<rparr>"
  "getMaasTenantConfig restingClient ns n s = Ok (sampleMeta ns n)"
  "getKuadrantAuthPolicy restingClient ns n s = Ok \<lparr>u_meta = (sampleMeta ns n)\<lparr>om_Annotations := [(AnnotationManaged, ''false'')]\<rparr>,
     u_Object = []\<rparr>"
  "pl_write restingClient w s = (None, s)" "others restingClient s = s"
  by (simp_all add: restingClient_def client.defs platformClient.defs memClient_def)

lemma resting_calls:
  "readP (plogged restingClient) r' (s, l) = (r' (s, l @ [At s]), s, l @ [At s])"
  "writeP (plogged restingClient) w (s, l) = (Ok (), s, l @ [At s, Wrote w None])"
  "peekA (plogged restingClient) f (s, l) = (f (s, l @ [At s]), s, l @ [At s])"
  "outcomeA (plogged restingClient) g (s, l) = (case g (s, l @ [At s]) of (None, st) \<Rightarrow> (Ok (), st) | (Some e, st) \<Rightarrow> (Err e, st))"
  by (simp_all add: readP_def writeP_def peekA_def outcomeA_def readAt_def writeAt_def othersL_def writeL_def resting_reads Let_def)

lemmas resting = resting_calls resting_reads IsNotFound_def IsNoMatchError_def onA_def okA_def errA_def

lemma restingReconciler_simps [simp]:
  "tnr_OperatorNamespace restingReconciler = []" "tnr_ManifestPath restingReconciler = ''/manifests''"
  "tnr_AppNamespace restingReconciler = ''infra''" "tnr_ControllerNamespace restingReconciler = []"
  "tnr_TenantNamespace restingReconciler = ''maas''" "tnr_GatewayName restingReconciler = ''gw''"
  "tnr_GatewayNamespace restingReconciler = ''gws''" "tnr_TenantNamespaceDiscoveryEnabled restingReconciler"
  by (simp_all add: restingReconciler_def)

lemma restingApi_simps [simp]:
  "pa_edit restingApi = walkEdits" "pa_meta restingApi = plainMeta" "pa_Abs restingApi p = Ok p" "pa_DNS1123 restingApi n = []"
  by (simp_all add: restingApi_def)

lemma resting_identifier:
  "TenantIdentifierFor (Some (sampleMeta ''maas'' MaasTenantConfigInstanceName)) = Ok []"
  "ResolvePlatformContext (plogged c) (Some (MaasTenantConfig (sampleMeta ''maas'' MaasTenantConfigInstanceName))) ref st
     = Ok \<lparr>pc_GatewayRef = ref, pc_ExternalOIDC = None, pc_Source = ''tenant-config''\<rparr>"
  by (simp_all add: TenantIdentifierFor_def ResolvePlatformContext_def isAITenantManagedTenantConfig_def annotation_def sampleMeta_def
      MaasTenantConfigInstanceName_def DefaultAITenantName_def Let_def)

lemma resting_available: "IsGVKAvailable (plogged restingClient) k (s, l) = (Ok (k = GVKAuthConfig), s, l @ [At s])"
  by (simp add: IsGVKAvailable_def resting)

lemma resting_dependencies: "CheckDependencies (plogged restingClient) (s, l) = (Ok (), s, l @ [At s])"
  by (simp add: CheckDependencies_def namedA_def resting_available resting)

lemma resting_verdict:
  "dsciConditionsVerdict (map (\<lambda>typ. JObj [(''type'', JStr typ), (''status'', JStr ''True'')])
     [''MonitoringReady'', ''MonitoringStackAvailable'', ''PersesAvailable'']) = []"
  by (simp add: dsciConditionsVerdict_def dsciVerdict_def dsciCondition_def stringOf_def fieldAs_def orDefault_def Let_def)

lemma resting_checks:
  "checkAuthorinoTLS (plogged restingClient) restingApi (s, l) = (Ok [], s, l @ [At s])"
  "checkDatabaseSecret (plogged restingClient) ns (s, l) = (Ok [], s, l @ [At s])"
  "checkDSCIMonitoring (plogged restingClient) restingApi (s, l) = (Ok [], s, l @ [At s])"
proof -
  show "checkAuthorinoTLS (plogged restingClient) restingApi (s, l) = (Ok [], s, l @ [At s])"
    by (simp add: checkAuthorinoTLS_def resting_available resting GVKAuthorino_def GVKAuthConfig_def)
  have "TrimSpace ''postgres://db'' = ''postgres://db''" by code_simp
  then show "checkDatabaseSecret (plogged restingClient) ns (s, l) = (Ok [], s, l @ [At s])"
    by (simp add: checkDatabaseSecret_def resting annotation_def Let_def)
  have "NestedSliceF walkEdits (u_Object restingMonitoring) [''status'', ''conditions'']
      = Ok (Some (map (\<lambda>typ. JObj [(''type'', JStr typ), (''status'', JStr ''True'')])
          [''MonitoringReady'', ''MonitoringStackAvailable'', ''PersesAvailable'']))"
    by (simp add: walkEdits_def getAs_def restingMonitoring_def)
  moreover have "orDefault d (find p [d]) = d" for d :: xobject and p by (simp add: orDefault_def)
  moreover have "orDefault [] (Some xs) = xs" for xs :: "json list" by (simp add: orDefault_def)
  ultimately show "checkDSCIMonitoring (plogged restingClient) restingApi (s, l) = (Ok [], s, l @ [At s])"
    using resting_verdict
    by (simp add: checkDSCIMonitoring_def resting Let_def del: find.simps list.map)
qed

lemma resting_prerequisites:
  "CollectPrerequisiteReport (plogged restingClient) restingApi ns (s, l)
     = (Ok \<lparr>pre_Blocking = [], pre_Warnings = []\<rparr>, s, l @ [At s, At s, At s])"
  by (simp add: CollectPrerequisiteReport_def resting_checks resting Let_def)

text \<open>The parameters of the platform, of which only the place matters here.\<close>

lemma resting_params:
  assumes "pc_GatewayRef ctx = \<lparr>gr_Namespace = ''gws'', gr_Name = ''gw''\<rparr>"
  shows "\<exists>p. BuildPlatformParams getenv (platformObjectOf restingTenant) ctx ns cns aud mon = Ok p
    \<and> pp_GatewayNamespace p = ''gws'' \<and> pp_GatewayName p = ''gw'' \<and> \<not> pp_PayloadProcessingAutoscaling p \<and> pp_Warnings p = []"
proof -
  have "resolveReplicaAnnotations (platformObjectOf restingTenant) = (None, None, [])"
    by (simp add: resolveReplicaAnnotations_def replicaAnnotation_def platformObjectOf_def restingTenant_def sampleMeta_def annotation_def)
  moreover have "resolveMaasAPIConfig (platformObjectOf restingTenant) = (None, None)"
    by (simp add: resolveMaasAPIConfig_def maasAPIConfigFor_def platformObjectOf_def restingTenant_def)
  moreover have "plc_Replicas (resolvePayloadProcessingConfig (platformObjectOf restingTenant)) = None
      \<and> \<not> plc_Enabled (resolvePayloadProcessingConfig (platformObjectOf restingTenant))
      \<and> plc_Warnings (resolvePayloadProcessingConfig (platformObjectOf restingTenant)) = []"
    by (simp add: resolvePayloadProcessingConfig_def payloadProcessingConfigFor_def platformObjectOf_def restingTenant_def)
  moreover have "TenantIdentifierFor (Some (po_meta (platformObjectOf restingTenant))) = Ok []"
    by (simp add: platformObjectOf_def restingTenant_def resting_identifier)
  ultimately show ?thesis
    by (simp add: BuildPlatformParams_def clampReplicas_def assms Let_def)
qed

lemma resting_render:
  assumes "\<not> pp_PayloadProcessingAutoscaling p"
  shows "renderPlatform restingApi (platformPlaceOf restingReconciler) path (platformObjectOf restingTenant) p st = (Ok [], st)"
  by (simp add: renderPlatform_def pureA_def RenderKustomize_def resolveKustomizationPath_def restingApi_def postBuildTransform_def
      PostRender_def applyPlatformParams_def configureTelemetryPolicyResources_def configureIstioTelemetryResources_def
      configurePayloadProcessingHPA_def isTelemetryEnabled_def telemetryConfigFor_def platformObjectOf_def restingTenant_def assms
      namedR_def thenR_def resting orDefault_def Let_def)

lemma resting_filter: "filterVerdict restingApi ns ''gw'' name restingFilter = Ok (True, [])"
  by (simp add: filterVerdict_def restingFilter_def walkEdits_def getAs_def gatewayNameLabel_def
      PayloadProcessingEnvoyFilterPriority_def annotation_def orDefault_def Let_def)

lemma resting_await:
  assumes "pp_GatewayName p = ''gw''" "pp_Warnings p = []"
  shows "awaitPlatform (plogged restingClient) restingApi place i p (s, l)
    = (Ok \<lparr>rr_DeploymentPending = False, rr_Detail = [], rr_Warnings = []\<rparr>, s, l @ [At s, At s])"
  by (simp add: awaitPlatform_def namedA_def MaasAPIDeploymentReady_def PayloadProcessingEnvoyFilterReady_def resting_filter assms
      resting orDefault_def sampleMeta_def Let_def)

lemma resting_ensureBase:
  "ensureBaseGatewayAuthPolicy (plogged restingClient) m (authReconciler restingReconciler) oidc xk i ''gws'' ''gw'' (s, l)
     = (None, s, l)"
  by (simp add: ensureBaseGatewayAuthPolicy_def reconcileGatewayAuthPolicy_def writeGatewayPolicy_def
      deleteLegacyGatewayDefaultAuthPolicy_def resting_reads isManaged_def othersL_def authReconciler_def Let_def)

text \<open>The same tenant, but for its status.\<close>

definition likeResting :: "TenantCR \<Rightarrow> bool" where
  "likeResting t \<longleftrightarrow> tcr_meta t = tcr_meta restingTenant \<and> tcr_Settings t = tcr_Settings restingTenant"

lemma resting_meta: "tcr_meta restingTenant = sampleMeta ''maas'' MaasTenantConfigInstanceName"
  by (simp add: restingTenant_def)

lemma resting_auth:
  assumes "likeResting t"
  shows "\<exists>post. ensureGatewayManagementAuth (plogged restingClient) restingApi restingReconciler t (s, l) = (Ok (), s, l @ post)"
proof -
  have gw: "fetchGatewayInfo (plogged restingClient) (authReconciler restingReconciler) ''maas'' st = Ok (''gws'', ''gw'')" for st
    by (simp add: fetchGatewayInfo_def fetchTenantPlatformContext_def fetchTenantForNamespace_def resting_reads
        resting_identifier authReconciler_def fallbackTenantGatewayRef_def Let_def)
  show ?thesis
    using assms
    by (simp add: ensureGatewayManagementAuth_def likeResting_def resting_meta resting_identifier gw resting_ensureBase resting Let_def)
      (simp add: sampleMeta_def gw resting_ensureBase resting)
qed

lemma resting_platform:
  assumes t: "likeResting t" and cfg: "cfg_UID cfg \<noteq> []"
    and ctx: "pc_GatewayRef ctx = \<lparr>gr_Namespace = ''gws'', gr_Name = ''gw''\<rparr>"
  shows "\<exists>post. RunPlatform (plogged restingClient) restingApi (platformPlaceOf restingReconciler) t ctx (Some cfg) (s, l)
    = (Ok \<lparr>rr_DeploymentPending = False, rr_Detail = [], rr_Warnings = []\<rparr>, s, l @ post)"
proof -
  let ?place = "platformPlaceOf restingReconciler"
  have obj: "platformObjectOf t = platformObjectOf restingTenant"
    using t by (simp add: likeResting_def platformObjectOf_def)
  obtain p where p: "BuildPlatformParams (pa_getenv restingApi) (platformObjectOf restingTenant) ctx (pw_AppNamespace ?place)
      (pw_ControllerNamespace ?place) (pw_ClusterAudience ?place) (pw_MonitoringNamespace ?place) = Ok p"
    "pp_GatewayNamespace p = ''gws''" "pp_GatewayName p = ''gw''" "\<not> pp_PayloadProcessingAutoscaling p" "pp_Warnings p = []"
    using resting_params [OF ctx] by blast
  have wasm: "gatewayHasKuadrantWasmAuth (plogged restingClient) restingApi x y (s, l) = (Ok True, s, l @ [At s])" for x y l
    by (simp add: gatewayHasKuadrantWasmAuth_def resting Let_def)
  have hpa: "cleanupPayloadProcessingHPA (plogged restingClient) q (s, l) = (Ok (), s, l @ [At s])"
    if "\<not> pp_PayloadProcessingAutoscaling q" for q l
    using that by (simp add: cleanupPayloadProcessingHPA_def resting GVKHPA_def GVKEnvoyFilter_def Let_def)
  have sync: "syncMaaSParametersConfigMap (plogged restingClient) restingApi ns q (s, l) = (Ok (), s, l @ [At s])" for ns q l
    by (simp add: syncMaaSParametersConfigMap_def resting Let_def)
  have none: "ApplyRendered (plogged restingClient) restingApi m ns (Some cfg) [] st = (Ok (), st)" for m ns st
    using cfg by (simp add: ApplyRendered_def okA_def)
  have id: "TenantIdentifierFor (Some (tcr_meta t)) = Ok []"
    using t by (simp add: likeResting_def resting_meta resting_identifier)
  show ?thesis
    by (simp add: RunPlatform_def obj p ctx wasm hpa sync none id resting_render resting_await namedA_def pureA_def validNamespaceA_def
        resting Let_def)
qed

lemma find_set: "c_Type cond = typ \<Longrightarrow> find (\<lambda>x. c_Type x = typ) (plainSetCondition cs cond) = Some cond"
  by (induction cs) (auto simp: plainSetCondition_def)

lemma resting_final:
  assumes "likeResting t"
  shows "\<exists>x v. finishPlatform (plogged restingClient) restingApi restingReconciler lc \<lparr>pre_Blocking = [], pre_Warnings = []\<rparr> t
      \<lparr>rr_DeploymentPending = False, rr_Detail = [], rr_Warnings = []\<rparr> (s, l)
    = (v, s, l @ [At s, Wrote (UpdateTenantStatus x) None]) \<and> tcr_Phase x = ''Active''"
proof -
  have clean: "\<exists>lc'. attemptLegacyCleanup (plogged restingClient) restingReconciler lc st = (Ok lc', st)" for st
    by (simp add: attemptLegacyCleanup_def cleanupLegacyMaaSAPIDeployment_def resting)
  obtain lc' where lc: "attemptLegacyCleanup (plogged restingClient) restingReconciler lc (s, l) = (Ok lc', s, l)"
    using clean by blast
  show ?thesis
    by (simp add: finishPlatform_def lc setFinalStatus_def resting Let_def)
      (simp add: aggregateWarningsAndSetDegraded_def setTenantCondition_def plainMeta_def find_set Let_def)
qed

lemma resting_drive:
  assumes t: "likeResting t"
  shows "\<exists>pre x v. drivePlatform (plogged restingClient) restingApi restingReconciler lc t (s, l)
    = (v, s, l @ pre @ [Wrote (UpdateTenantStatus x) None]) \<and> tcr_Phase x = ''Active''"
proof -
  let ?c = "plogged restingClient" let ?r = restingReconciler let ?a = restingApi
  let ?cfg = "\<lparr>cfg_meta = sampleMeta [] ''default'', cfg_UID = ''uid''\<rparr>"
  let ?ctx = "\<lparr>pc_GatewayRef = \<lparr>gr_Namespace = ''gws'', gr_Name = ''gw''\<rparr>, pc_ExternalOIDC = None, pc_Source = ''tenant-config''\<rparr>"
  let ?t1 = "t\<lparr>tcr_InfraNamespace := ''infra''\<rparr>"
  let ?rep = "\<lparr>pre_Blocking = [], pre_Warnings = []\<rparr>"
  let ?t2 = "setPrerequisiteConditionsFromReport ?a (setDependenciesCondition ?a ?t1 True []) ?rep"
  have m: "tcr_meta t = sampleMeta ''maas'' MaasTenantConfigInstanceName" using t by (simp add: likeResting_def resting_meta)
  have ms: "managementState (tcr_meta t) = []" by (simp add: m managementState_def sampleMeta_def annotation_def)
  have t2: "likeResting ?t2"
    using t by (simp add: likeResting_def setPrerequisiteConditionsFromReport_def setDependenciesCondition_def setTenantCondition_def Let_def)
  have live: "\<not> om_Deleting (sampleMeta ns n)" for ns n by (simp add: sampleMeta_def)
  have state: "handleManagementState ?c ?a ?t1 st = (Ok (?t1, GoOn ()), st)" for st
    by (simp add: handleManagementState_def ms resting Let_def)
  have valid: "\<exists>post. validateConfigAndGateway ?c ?a ?r ?t1 (s, l) = (Ok (?t1, GoOn (?cfg, ?ctx)), s, l @ post)" for l
    by (simp add: validateConfigAndGateway_def readyConfigOrWait_def validateGateway_def validateGatewayExists_def resolveContextA_def
        ms [unfolded m] m resting_identifier resting live Let_def fallbackTenantGatewayRef_def)
  have check: "checkDependenciesAndPrerequisites ?c ?a ?r ?t1 (s, l) = (Ok (?t2, GoOn ?rep), s, l @ [At s, At s, At s, At s])" for l
    by (simp add: checkDependenciesAndPrerequisites_def resting_dependencies resting_prerequisites resting Let_def)
  have platform: "\<exists>post. reconcilePlatform ?c ?a ?r ?t2 ?ctx ?cfg (s, l)
      = (Ok (?t2, GoOn \<lparr>rr_DeploymentPending = False, rr_Detail = [], rr_Warnings = []\<rparr>), s, l @ post)" for l
  proof -
    obtain post where 1: "RunPlatform ?c ?a (platformPlaceOf ?r) ?t2 ?ctx (Some ?cfg) (s, l)
        = (Ok \<lparr>rr_DeploymentPending = False, rr_Detail = [], rr_Warnings = []\<rparr>, s, l @ post)"
      using resting_platform [OF t2] by fastforce
    obtain post' where "ensureGatewayManagementAuth ?c ?a ?r ?t2 (s, l @ post) = (Ok (), s, (l @ post) @ post')"
      using resting_auth [OF t2] by blast
    with 1 show ?thesis by (simp add: reconcilePlatform_def resting)
  qed
  obtain p1 where 1: "validateConfigAndGateway ?c ?a ?r ?t1 (s, l) = (Ok (?t1, GoOn (?cfg, ?ctx)), s, l @ p1)"
    using valid by blast
  obtain p2 where 2: "reconcilePlatform ?c ?a ?r ?t2 ?ctx ?cfg (s, l @ p1 @ [At s, At s, At s, At s])
      = (Ok (?t2, GoOn \<lparr>rr_DeploymentPending = False, rr_Detail = [], rr_Warnings = []\<rparr>), s, (l @ p1 @ [At s, At s, At s, At s]) @ p2)"
    using platform by blast
  obtain x v where 3: "finishPlatform ?c ?a ?r lc ?rep ?t2 \<lparr>rr_DeploymentPending = False, rr_Detail = [], rr_Warnings = []\<rparr>
      (s, l @ p1 @ [At s, At s, At s, At s] @ p2)
      = (v, s, (l @ p1 @ [At s, At s, At s, At s] @ p2) @ [At s, Wrote (UpdateTenantStatus x) None])" "tcr_Phase x = ''Active''"
    using resting_final [OF t2] by blast
  show ?thesis
    by (intro exI [of _ "p1 @ [At s, At s, At s, At s] @ p2 @ [At s]"] exI [of _ x] exI [of _ v])
      (use 2 3 in \<open>simp add: drivePlatform_def drivePrerequisites_def uncheckedStep_def checkedStep_def state 1 check onA_def okA_def\<close>)
qed

lemma resting_run:
  "\<exists>pre x. phistory restingClient restingApi restingReconciler lc (''maas'', MaasTenantConfigInstanceName) s
     = pre @ [Wrote (UpdateTenantStatus x) None] \<and> tcr_Phase x = ''Active''"
proof -
  have t: "likeResting restingTenant" by (simp add: likeResting_def)
  have settle: "settleFinalizer (plogged restingClient) restingApi False restingTenant st = (Ok restingTenant, st)" for st
    by (simp add: settleFinalizer_def resting_meta sampleMeta_def ContainsFinalizer_def okA_def Let_def)
  have "\<not> ignored restingReconciler (tcr_meta restingTenant)" "\<not> om_Deleting (tcr_meta restingTenant)"
      "tenantUsesCleanupFinalizer (tcr_meta restingTenant) = Ok False"
    by (simp_all add: ignored_def resting_meta tenantUsesCleanupFinalizer_def resting_identifier Let_def)
      (simp_all add: sampleMeta_def isAITenantManagedTenantConfig_def annotation_def)
  moreover obtain pre x v where "drivePlatform (plogged restingClient) restingApi restingReconciler lc restingTenant (s, [At s])
      = (v, s, [At s] @ pre @ [Wrote (UpdateTenantStatus x) None])" "tcr_Phase x = ''Active''"
    using resting_drive [OF t] by blast
  ultimately show ?thesis
    by (intro exI [of _ "At s # pre"] exI [of _ x])
      (cases v, auto simp: phistory_def TR_Reconcile_def TR_reconcile_def settle resting Let_def)
qed

theorem platform_ready_earned_witness:
  "\<exists>pre x. phistory restingClient restingApi restingReconciler \<lparr>lc_once = False, lc_completed = False\<rparr>
       (''maas'', MaasTenantConfigInstanceName) emptyCluster = pre @ [Wrote (UpdateTenantStatus x) None]
     \<and> tcr_Phase x = ''Active'' \<and> platformReady restingClient restingApi restingReconciler restingTenant pre"
proof -
  obtain pre x where run: "phistory restingClient restingApi restingReconciler \<lparr>lc_once = False, lc_completed = False\<rparr>
       (''maas'', MaasTenantConfigInstanceName) emptyCluster = pre @ Wrote (UpdateTenantStatus x) None # []"
    and active: "tcr_Phase x = ''Active''"
    using resting_run by blast
  obtain t where "saw (pl_tenant restingClient ''maas'' MaasTenantConfigInstanceName) ((=) t) pre"
      "platformReady restingClient restingApi restingReconciler t pre"
    using platform_ready_earned [OF restingApi_plain run] active by auto
  moreover from this(1) have "t = restingTenant" by (auto simp: saw_def resting_reads)
  ultimately show ?thesis using run active by blast
qed

end
