(* ===== verification/Spec2Isabelle.thy ===== *)
theory Spec2Isabelle
  imports Server StoreMock Debounce ModelTrace AuthPolicyTrace AITenantTrace Webhooks ExternalTrace PlatformRender TenantControllerTrace
begin

text \<open>
  Models as a Service: the API server \<open>maas-api\<close> and the controllers \<open>maas-controller\<close>.

  The server hands out API keys for large language models behind a gateway and answers the questions
  Authorino asks about every inference request: is this key valid and whose is it, which
  subscription pays for the request, and may this user call this model. Several deployments, one per
  tenant, share a PostgreSQL table of keys. The controllers watch the custom resources behind those
  answers: they turn subscriptions into token rate limit policies of the gateway, publish the state
  of models, and write the status the server's selector reads. The development models the program's
  own logic in Go, file by file, and proves that the parts do together what they promise.

  \<^bold>\<open>The parts of the server.\<close> Paths are below \<open>maas-api/internal\<close> unless they start with \<open>cmd\<close>.

  \<^item> \<open>Prelude\<close>: result types, 64-bit wrap-around, insertion sort for \<open>sort.Slice\<close> and
    \<open>sort.SliceStable\<close> with the locale \<open>go_less\<close> of the orders a caller may pass. \<open>GoStrings\<close>: the
    functions of \<open>strings\<close> and \<open>utf8\<close> the program calls, on byte strings. \<open>GoRegexp\<close>: the patterns as
    a datatype, matched by derivatives, with the language they denote. \<open>Sha256\<close>: the hash, as the
    standard defines it.
  \<^item> \<open>KeyTypes\<close>, \<open>SubTypes\<close>: \<open>api_keys/types.go\<close>, \<open>store_interface.go\<close>, \<open>subscription/types.go\<close> and the
    error types. An error is a constructor; \<open>Wrap\<close> is \<open>fmt.Errorf\<close> with \<open>%w\<close>, and \<open>errorsIs\<close> looks
    through it. \<open>env\<close> holds what a storage call meets: the clocks of the program and of the database,
    the collation, the rounding of timestamps, and which statement fails with what.
  \<^item> \<open>Keygen\<close>: \<open>api_keys/keygen.go\<close>.
  \<^item> \<open>StoreSpec\<close>: the contract of \<open>MetadataStore\<close> as the locale \<open>metadata_store\<close>, on the abstract rows
    of a store, with the lemmas that any client may use. \<open>StorePostgres\<close>
    (\<open>api_keys/store_postgres.go\<close>) and \<open>StoreMock\<close> (\<open>api_keys/store_mock.go\<close>) interpret it. A SQL
    statement is a function of the list of rows; a method with two statements may fail between them.
  \<^item> \<open>Debounce\<close>: the atomic operations on \<open>lastUsedDebounce\<close> as a transition system of any number of
    goroutines and sweeps. \<open>KeyService\<close>: \<open>api_keys/service.go\<close>, proved over the locale of the store.
    \<open>KeyHandler\<close>: \<open>api_keys/handler.go\<close>.
  \<^item> \<open>Unstructured\<close>: the objects of an informer cache as JSON values; the accessors of \<open>apimachinery\<close>
    are a parameter (\<open>k8sApi\<close>). \<open>AuthChecker\<close>: \<open>authpolicy/checker.go\<close>. \<open>Selector\<close>:
    \<open>subscription/selector.go\<close>. \<open>SubscriptionHandler\<close>: \<open>subscription/handler.go\<close>.
  \<^item> \<open>TokenHeaders\<close>: \<open>token/handler.go\<close> with the decoding of JSON string arrays. \<open>AdminChecker\<close>: the
    checkers and the middleware of \<open>auth\<close>; the review calls of the API server are parameters.
  \<^item> \<open>ModelListing\<close>: \<open>models/maasmodelref.go\<close>, \<open>models/discovery.go\<close>, \<open>handlers/models.go\<close>; the order in
    which the goroutines of a listing deliver is an input (\<open>schedule\<close>). \<open>TenantEndpoint\<close>:
    \<open>tenant/handler.go\<close>.
  \<^item> \<open>Server\<close>: \<open>registerHandlers\<close> of \<open>cmd/main.go\<close>, that is the wiring of the components, the middleware
    in front of each handler (\<open>serve\<close>), and the deployments that share a table as a step relation
    (\<open>w_step\<close>), where background writes of the last use interleave with requests.

  \<^bold>\<open>The parts of the controllers.\<close> Paths are below \<open>maas-controller/pkg\<close>.

  \<^item> \<open>GoText\<close>: more of \<open>strings\<close>, \<open>strconv\<close> and \<open>fmt\<close>. \<open>ControllerTypes\<close>: the custom resources of
    \<open>api/maas/v1alpha1\<close> and the record \<open>client\<close> of the operations of the Kubernetes client the
    reconcilers call. A read may fail; a write returns its error and the cluster it leaves; \<open>others\<close>
    is what the rest of the world does to the cluster between two steps. \<open>MemCluster\<close>: a client on an
    in-memory cluster, on which the witnesses run. \<open>ClientLog\<close>: a client that records the writes of
    any other one, for the properties about what is written and in which order.
  \<^item> \<open>Tenancy\<close>: \<open>platform/tenantreconcile/constants.go\<close>, \<open>platform_context.go\<close>,
    \<open>modelnaming/externalmodel.go\<close> and \<open>controller/maas/helpers.go\<close>: names and namespaces of tenants,
    the gateway of a tenant, the opt-out annotation. \<open>ModelRoutes\<close>: finding the HTTPRoute of a model
    (\<open>providers.go\<close>, \<open>helpers.go\<close>).
  \<^item> \<open>RateLimits\<close>, \<open>SubscriptionController\<close>, \<open>SubscriptionTrace\<close>: the pure part, the reconciler and the
    traces of writes of \<open>maassubscription_controller.go\<close>.
  \<^item> \<open>ModelBackends\<close>: \<open>providers_llmisvc.go\<close>, \<open>providers_external.go\<close> and the resolution of gateways;
    both backends interpret the locale \<open>backend_handler\<close>, the contract of the interface
    \<open>BackendHandler\<close>. \<open>ModelRefController\<close>, \<open>ModelTrace\<close>: \<open>maasmodelref_controller.go\<close> and
    \<open>model_identity_conflict.go\<close>.
  \<^item> \<open>JsonMatch\<close>, \<open>GatewayPolicy\<close>: \<open>specMatchesDesired\<close> and the specification of a gateway's AuthPolicy,
    from \<open>maasauthpolicy_controller.go\<close>; CEL and Rego expressions are strings.
    \<open>AuthPolicyController\<close>, \<open>AuthPolicyTrace\<close>: the reconciler with \<open>conflict_detection.go\<close>, and its traces.
  \<^item> \<open>GatewayLabels\<close>: the labels of the infrastructure namespace and the annotation that records which
    gateway owns which label, with its JSON, from \<open>aitenant_controller.go\<close>. \<open>TenantTypes\<close>: the objects
    of that controller and its client (\<open>tenantClient\<close>). \<open>AITenantController\<close>: the whole reconciler;
    \<open>AT_Reconcile\<close> is \<open>Reconcile\<close>, its value the seconds until it runs again. \<open>TenantTrace\<close>: the history
    of a run on that client. \<open>AITenantTrace\<close>: the properties of runs, and an in-memory cluster for witnesses.
  \<^item> \<open>Actions\<close>: the combinators the newer reconcilers are written in: \<open>onA m err ok\<close> runs \<open>m\<close> and goes on
    with its error or its value, \<open>readAt\<close> and \<open>writeAt\<close> are calls of a client, each after a step of whoever
    else changes the cluster. Also the history of a run, as a client that records reads and writes, and
    triples (\<open>tri\<close>) about it, with one rule per combinator.
  \<^item> \<open>ExternalModels\<close>, \<open>ExternalTrace\<close>: \<open>reconciler/externalmodel\<close>, the reconciler \<open>X_Reconcile\<close> of external
    models and the properties of its runs.
  \<^item> \<open>PlatformParams\<close>, \<open>PlatformEdits\<close>, \<open>PlatformPatch\<close>, \<open>PostRender\<close>: how the platform of a tenant is
    rendered, from \<open>platform/tenantreconcile\<close>: the parameters (\<open>constants.go\<close> and the first part of
    \<open>params.go\<close>), the helpers that edit an object (the last part), one definition per \<open>patch...\<close> function,
    and \<open>kustomize.go\<close> and \<open>postrender.go\<close>. A run of kustomize and the accessors of \<open>unstructured\<close> are
    parameters (\<open>kustomizeApi\<close>, \<open>editApi\<close>); \<open>documentedEdits\<close> says what the latter promise. \<open>PlatformReach\<close>,
    \<open>PlatformRender\<close>: what the rendered objects come to. \<open>PlatformRun\<close>: \<open>apply.go\<close>, \<open>pipeline.go\<close>,
    \<open>prerequisites.go\<close> and \<open>gateway_auth.go\<close>, over a client (\<open>platformClient\<close>) and the functions of other
    packages (\<open>platformApi\<close>).
  \<^item> \<open>TenantController\<close>: the tenant controller, \<open>tenant_controller.go\<close>, \<open>tenant_reconcile.go\<close> and
    \<open>tenant_conditions.go\<close>; \<open>TR_Reconcile\<close> is \<open>Reconcile\<close>. Its functions with a pointer to a result and an
    error are values of \<open>step\<close>, since callers look at the two differently (\<open>checkedStep\<close>,
    \<open>uncheckedStep\<close>). \<open>TenantControllerTrace\<close>: what its runs may write, and when.
  \<^item> \<open>Webhooks\<close>: the admission webhooks, \<open>webhook/*.go\<close>.

  \<^bold>\<open>What is shown.\<close> Keys: generated texts parse, validate and hash back (\<open>Keygen\<close>); a key is accepted
  exactly when the tenant's table holds a live key with its hash, what is minted works, what is
  revoked is refused (\<open>KeyService\<close>). Store: the table stays well-formed, tenants never touch each
  other's rows, revocation is final, searches, bulk revocation and clean-up do what they say
  (\<open>StorePostgres\<close>), and the mock gives the same verdicts (\<open>StoreMock\<close>). Handlers: only owners and
  administrators of the tenant see, revoke or search keys, and users mint for themselves only
  (\<open>KeyHandler\<close>). Selection: what \<open>Select\<close> and \<open>SelectHighestPriority\<close> return is owned, servable and
  best; errors fail closed (\<open>Selector\<close>, \<open>SubscriptionHandler\<close>); access to a model is exactly what a
  policy grants (\<open>AuthChecker\<close>). Listings: a page holds exactly the ready models the subscriptions cover,
  in whatever order they are asked (\<open>ModelListing\<close>), and the tenant endpoint gives a listener that has
  routes (\<open>TenantEndpoint\<close>). Debouncing spaces the writes, and a cached administrator verdict is
  one the API server gave within its time to live (\<open>Debounce\<close>, \<open>AdminChecker\<close>). Subscriptions: which
  limits are accepted and written, which phase they lead to (\<open>RateLimits\<close>), that policies of opted-out
  or foreign gateways are never touched and that finalizers come first and go last
  (\<open>SubscriptionTrace\<close>). Models: which tenant and endpoint a model gets (\<open>ModelBackends\<close>), that every
  published status is earned, and that changes of shared identities reach the siblings
  (\<open>ModelTrace\<close>). Policies: which spec a gateway gets and when it counts as matching (\<open>GatewayPolicy\<close>),
  that a policy becomes active only when it is enforced and policies of others are left alone
  (\<open>AuthPolicyTrace\<close>). Tenants: writes stay within the tenant, keys are revoked before anything is torn
  down, a tenant becomes active only when its gateway is claimed and its settings are ready
  (\<open>AITenantTrace\<close>); gateways that share a namespace never fight over its labels (\<open>GatewayLabels\<close>), and
  admission keeps gateways apart (\<open>Webhooks\<close>). External models: writes stay with the objects of the
  model, on a valid port, and the route names the controller's gateway (\<open>ExternalTrace\<close>). Platforms: the
  objects made for different tenants have different names, the autoscaler is one the API server accepts
  (\<open>PlatformRender\<close>), and the API server of a tenant is told whom it serves and reached through its own
  service only (\<open>PlatformReach\<close>); a platform is reported ready only when it was seen to work, what is applied is
  labelled and was looked at before, and a finalizer goes only when the platform is gone
  (\<open>TenantControllerTrace\<close>). The properties below span the whole server.

  \<^bold>\<open>Conventions and bounds.\<close> Go strings are byte strings; \<open>int\<close> values that the code bounds are integers,
  and the one product that can overflow (\<open>maxRegularDuration\<close>) wraps at 64 bits. Times are nanoseconds
  since the epoch. A map is an association list with distinct keys, a nil map or slice is the empty
  list, a pointer that may be nil is an option. Every recursion terminates, so no fuel is used;
  the one bounded loop, \<open>retry.RetryOnConflict\<close>, is given its five attempts.
  Several lemmas record where the code does not do what its comments say:
  \<open>encodeBase62_short\<close>, \<open>SelectHighestPriority_failed_phase\<close>, \<open>maxRegularDuration_wraps\<close>,
  \<open>sweep_loses_reservation\<close>, \<open>mock_nulls_first_descending\<close>, \<open>mock_missing_label_matches\<close>,
  \<open>limit_keys_clash\<close>, \<open>same_name_fails_subscription\<close>, \<open>withdrawn_route_still_ready\<close>,
  \<open>external_endpoint_default_gateway\<close>, \<open>preprocessing_service_name_too_long\<close>. In the controllers,
  error texts are modelled, as they reach the status; an update leaves the object passed to it as it
  was; time stamps of conditions are left out; equality of statuses and the helpers of
  \<open>controllerutil\<close> and \<open>apimeta\<close> are parameters (\<open>metaApi\<close>).

  \<^bold>\<open>Not modelled.\<close> Logging, metrics counters and tracing; TLS and configuration start-up; the database
  driver and migrations; the HTTP client of \<open>models/discovery.go\<close>, which the listing no longer uses; in
  \<open>maas-controller\<close>, the self-deployment controller, the registration of watches, generated deep copies and
  the start-up of the manager. SHA-256 is not assumed collision-free: where it
  matters, the table's unique index on hashes is what the proofs use.
\<close>

section \<open>Properties of the whole server\<close>

text \<open>
  C1: an inference request is authorised end to end. Authorino first validates the key, then asks
  for the subscription with the identity the validation returned. When both answer and access is
  allowed, the table of this tenant holds a live key with the hash of the presented text; the
  subscription the key is bound to exists in the cluster and is owned by the user or a group of
  the user stored with that key; it lists the model and may serve it (phase Active, or Degraded
  with the rate limits of the model enforced); and a policy of the cluster grants the model to
  that user or group.
\<close>

theorem inference_authorized:
  assumes "tableWf rows" and "calmDb e" and t: "srv_tenant srv = t"
    and v: "fst (serve srv e e2 e3 h (RouteValidate (Some key)) \<lparr>ss_rows = rows, ss_slots = m, ss_jobs = js\<rparr>)
        = KeyResponse (reply 200 (ValidationBody vr))" "vr_Valid vr"
    and s: "fst (serve srv e4 e5 e6 h (RouteSelect (Inr \<lparr>req_Groups = vr_Groups vr, req_Username = vr_Username vr,
          req_RequestedSubscription = vr_Subscription vr, req_RequestedModel = model\<rparr>)) st)
        = SelectionResponse resp" "resp_Error (http_Body resp) = []" "resp_AccessAllowed (http_Body resp)"
    and nonempty: "resolveModelAlias (srv_selector srv) model \<noteq> []"
  shows "\<exists>r\<in>set rows. row_tenant r = t \<and> row_key_hash r = HashAPIKey key \<and> liveRow (goNow e) r
    \<and> (\<exists>subs sub ref policies policy.
         loadSubscriptions (srv_selector srv) = Inr subs \<and> sub \<in> set subs
         \<and> userHasAccess sub (row_username r) (row_groups r)
         \<and> (row_subscription r = sub_Name sub \<or> row_subscription r = sub_Namespace sub @ ''/'' @ sub_Name sub)
         \<and> findModelRef sub (resolveModelAlias (srv_selector srv) model) = Some ref
         \<and> (sub_Phase sub = PhaseActive \<or> sub_Phase sub = PhaseDegraded \<and> limitsEnforced sub ref)
         \<and> srv_policies srv = Some (Inr policies) \<and> policy \<in> set policies
         \<and> policyGrants policy (row_groups r) (row_username r) (refKey ref))"
proof -
  have "fst (ValidateAPIKey (srv_service srv) (pgStore t) e key m rows) = Inr vr"
    using serve_validate [OF v(1)] t by simp
  with pg.validate_iff [OF assms(1,2), of "srv_service srv" t key m vr] v(2)
  obtain r where r: "r \<in> set rows" "row_tenant r = t" "row_key_hash r = HashAPIKey key" "liveRow (goNow e) r"
    "TrimSpace (row_subscription r) \<noteq> []" "vr = identityOf r" by auto
  then have vr: "vr_Groups vr = row_groups r" "vr_Username vr = row_username r"
    "vr_Subscription vr = row_subscription r" "row_subscription r \<noteq> []"
    by (auto simp: identityOf_def)
  have sel: "Select (srv_selector srv) (row_groups r) (row_username r) (row_subscription r) model
      = Inr (http_Body resp)"
    using serve_select [OF s(1,2)] by (simp add: vr)
  from Select_OkD [OF this] vr(4) obtain subs sub where
    sub: "loadSubscriptions (srv_selector srv) = Inr subs" "sub \<in> set subs"
    "row_subscription r = sub_Name sub \<or> row_subscription r = sub_Namespace sub @ ''/'' @ sub_Name sub"
    and a: "answers (srv_selector srv) (row_groups r) (row_username r)
      (resolveModelAlias (srv_selector srv) model) sub (http_Body resp)" by blast
  have "userHasAccess sub (row_username r) (row_groups r)" using a by (simp add: answers_def)
  with access_granted [OF a nonempty s(3)] sub r show ?thesis by blast
qed

theorem inference_authorized_witness:
  "\<exists>vr resp. fst (serve sampleServer (quietEnv 5) (quietEnv 5) (quietEnv 5) \<lparr>hdr_Username = [], hdr_Group = []\<rparr>
        (RouteValidate (Some sampleText)) (sampleState [hashedRow])) = KeyResponse (reply 200 (ValidationBody vr))
     \<and> vr_Valid vr
     \<and> fst (serve sampleServer (quietEnv 6) (quietEnv 6) (quietEnv 6) \<lparr>hdr_Username = [], hdr_Group = []\<rparr>
        (RouteSelect (Inr \<lparr>req_Groups = vr_Groups vr, req_Username = vr_Username vr,
           req_RequestedSubscription = vr_Subscription vr, req_RequestedModel = ''llm/opt''\<rparr>)) (sampleState []))
       = SelectionResponse resp
     \<and> (\<exists>policy\<in>set [samplePolicy]. \<exists>ref. policyGrants policy [''dev''] ''alice'' (refKey ref))"
proof -
  let ?h = "\<lparr>hdr_Username = [], hdr_Group = []\<rparr>"
  have wf: "tableWf [hashedRow]" by (simp add: tableWf_def)
  have row: "row_username hashedRow = ''alice''" "row_groups hashedRow = [''dev'']"
    "row_subscription hashedRow = ''gold''" "row_expires_at hashedRow = None"
    by (simp_all add: hashedRow_def sampleRow_def)
  have "TrimSpace ''gold'' = ''gold''" by (simp add: TrimSpace_id spaceByte_def spaceRunes_def)
  then have "fst (ValidateAPIKey (srv_service sampleServer) (pgStore ''red'') (quietEnv 5) sampleText (\<lambda>_. None) [hashedRow])
      = Inr (identityOf hashedRow)"
    using pg.validate_iff [OF wf, of "quietEnv 5" "srv_service sampleServer" "''red''" sampleText "\<lambda>_. None"
        "identityOf hashedRow"]
    by (simp add: sampleText_format row liveRow_def pastExpiry_def srv_service_def)
  then have v: "fst (serve sampleServer (quietEnv 5) (quietEnv 5) (quietEnv 5) ?h (RouteValidate (Some sampleText))
      \<lparr>ss_rows = [hashedRow], ss_slots = (\<lambda>_. None), ss_jobs = []\<rparr>)
    = KeyResponse (reply 200 (ValidationBody (identityOf hashedRow)))"
    by (auto simp: ValidateAPIKeyHandler_def split: prod.splits)
  let ?body = "(toResponseWithResolvedModel (sampleSub ''gold'' 5 ''Active'') ''llm/opt'')\<lparr>resp_AccessAllowed := True\<rparr>"
  have s: "fst (serve sampleServer (quietEnv 6) (quietEnv 6) (quietEnv 6) ?h
      (RouteSelect (Inr \<lparr>req_Groups = vr_Groups (identityOf hashedRow), req_Username = vr_Username (identityOf hashedRow),
         req_RequestedSubscription = vr_Subscription (identityOf hashedRow), req_RequestedModel = ''llm/opt''\<rparr>))
      (sampleState [])) = SelectionResponse \<lparr>http_Status = 200, http_Body = ?body\<rparr>"
    by (simp add: SelectSubscription_def identityOf_def row sampleServer_Select)
  have "resp_Error ?body = []"
    by (simp add: toResponseWithResolvedModel_def toResponse_def emptySelectResponse_def)
  moreover have "resolveModelAlias (srv_selector sampleServer) ''llm/opt'' \<noteq> []"
    by (simp add: resolveModelAlias_def srv_selector_def sampleServer_def)
  ultimately obtain r ref policy where "r \<in> set [hashedRow]" "policy \<in> set [samplePolicy]"
    "policyGrants policy (row_groups r) (row_username r) (refKey ref)"
    using inference_authorized [OF wf _ sampleServer_sel(1) v _ s] by (auto simp: identityOf_def)
  with v s show ?thesis
    by (intro exI conjI) (auto simp: sampleState_def identityOf_def row simp del: serve.simps)
qed

text \<open>
  C5: a minted key is bound to a subscription of its owner. A creation that answers 201 adds
  exactly one row, with the identity the gateway put in the headers, the tenant of the deployment
  and the hash of the returned text. Its subscription exists in the cluster and belongs to that
  user or a group of that user; without a requested subscription no other subscription of the user
  has a higher priority, and a requested one is the one the request names, by its name or by its namespace
  and name, and is reconciled and not Failed.
\<close>

theorem minted_subscription_owned:
  assumes "fst (serve srv e1 e2 e3 h (RouteCreate mi nowNano (Inr req)) st)
      = KeyResponse (reply 201 (CreatedBody resp))"
  shows "\<exists>r u subs sub. ss_rows (snd (serve srv e1 e2 e3 h (RouteCreate mi nowNano (Inr req)) st)) = ss_rows st @ [r]
    \<and> ExtractUserInfo (srv_tenant srv) (hdr_Username h) (hdr_Group h) = Next (User u)
    \<and> row_username r = TrimSpace (hdr_Username h) \<and> row_groups r = uc_Groups u \<and> row_tenant r = srv_tenant srv
    \<and> row_key_hash r = HashAPIKey (cr_Key resp)
    \<and> loadSubscriptions (srv_selector srv) = Inr subs \<and> sub \<in> set subs \<and> row_subscription r = sub_Name sub
    \<and> userHasAccess sub (row_username r) (row_groups r)
    \<and> (if TrimSpace (creq_Subscription req) = []
       then \<forall>q\<in>set subs. userHasAccess q (row_username r) (row_groups r) \<longrightarrow> sub_Priority q \<le> sub_Priority sub
       else TrimSpace (creq_Subscription req) \<in> {sub_Name sub, sub_Namespace sub @ ''/'' @ sub_Name sub}
         \<and> sub_Phase sub \<noteq> [] \<and> sub_Phase sub \<noteq> PhaseFailed)"
proof -
  let ?rows' = "ss_rows (snd (serve srv e1 e2 e3 h (RouteCreate mi nowNano (Inr req)) st))"
  let ?rs = "TrimSpace (creq_Subscription req)"
  obtain u ms where u: "ExtractUserInfo (srv_tenant srv) (hdr_Username h) (hdr_Group h) = Next (User u)"
    "uc_Username u = TrimSpace (hdr_Username h)" "uc_Tenant u = srv_tenant srv"
    and c: "h_CreateAPIKey (srv_metrics srv) (srv_service srv) (pgStore (srv_tenant srv)) e1 mi nowNano (User u) (Inr req)
      (ss_rows st) = (reply 201 (CreatedBody resp), ms, ?rows')"
    using serve_created [OF assms] by blast
  from h_CreateAPIKey_OkD [OF c] obtain name x where
    "CreateAPIKey (srv_service srv) (pgStore (srv_tenant srv)) e1 mi (uc_Username u) (uc_Groups u) name
      (creq_Description req) x (creq_Ephemeral req) ?rs (uc_Tenant u) (creq_Labels req) (ss_rows st) = (Inr resp, ?rows')"
    by blast
  from CreateAPIKey_binding [OF this] obtain a sub where a: "pg_AddKey (srv_tenant srv) e1 a (ss_rows st) = (Inr (), ?rows')"
    "ak_KeyHash a = HashAPIKey (cr_Key resp)" "ak_Username a = uc_Username u" "ak_Groups a = uc_Groups u"
    "ak_Tenant a = srv_tenant srv" "ak_Subscription a = resp_Name sub"
    and sub: "(if ?rs \<noteq> [] then svc_select (srv_service srv) (uc_Groups u) (uc_Username u) ?rs []
       else svc_highest (srv_service srv) (uc_Groups u) (uc_Username u)) = Inr sub"
    using u(3) by auto
  then have "?rows' = ss_rows st @ [pg_newRow e1 a]"
    using pg_AddKey_OkD [OF a(1)] by (auto dest: sqlInsert_SomeD)
  moreover have "row_username (pg_newRow e1 a) = uc_Username u" "row_groups (pg_newRow e1 a) = uc_Groups u"
    "row_tenant (pg_newRow e1 a) = srv_tenant srv" "row_key_hash (pg_newRow e1 a) = HashAPIKey (cr_Key resp)"
    "row_subscription (pg_newRow e1 a) = resp_Name sub"
    using a by (simp_all add: pg_newRow_def)
  ultimately show ?thesis
    using u service_subscription [OF sub]
    by (intro exI [of _ "pg_newRow e1 a"] exI [of _ u]) (elim exE conjE, intro exI conjI, simp_all split: if_split_asm)
qed

theorem minted_subscription_owned_witness:
  "\<exists>resp r. fst (serve sampleServer (quietEnv 5) (quietEnv 5) (quietEnv 5)
        \<lparr>hdr_Username = ''alice'', hdr_Group = jsonArray [''dev'']\<rparr>
        (RouteCreate sampleMint 0 (Inr sampleCreate)) (sampleState []))
      = KeyResponse (reply 201 (CreatedBody resp))
    \<and> ss_rows (snd (serve sampleServer (quietEnv 5) (quietEnv 5) (quietEnv 5)
        \<lparr>hdr_Username = ''alice'', hdr_Group = jsonArray [''dev'']\<rparr>
        (RouteCreate sampleMint 0 (Inr sampleCreate)) (sampleState []))) = [r]
    \<and> row_username r = ''alice'' \<and> row_tenant r = ''red''"
proof -
  let ?h = "\<lparr>hdr_Username = ''alice'', hdr_Group = jsonArray [''dev'']\<rparr>"
  obtain resp where c: "fst (serve sampleServer (quietEnv 5) (quietEnv 5) (quietEnv 5) ?h
      (RouteCreate sampleMint 0 (Inr sampleCreate)) (sampleState [])) = KeyResponse (reply 201 (CreatedBody resp))"
    using sampleServer_created by blast
  have "TrimSpace ''alice'' = ''alice''" by (simp add: TrimSpace_id spaceByte_def spaceRunes_def)
  with minted_subscription_owned [OF c] c show ?thesis
    by (auto simp: sampleState_def simp del: serve.simps)
qed

text \<open>
  C2: revocation holds across the whole server. Once a regular key is revoked or marked expired,
  no sequence of requests to any deployments and of their background writes, with any clocks and
  any database failures, makes a validation of that key answer that it is valid again.
\<close>

theorem revoked_key_never_accepted:
  assumes "tableWf (w_rows w)" and "r \<in> set (w_rows w)" and "\<not> row_ephemeral r"
    and "row_status r \<noteq> StatusActive" and "w_steps w w'"
    and "srv_tenant srv = row_tenant r" and "HashAPIKey key = row_key_hash r"
  shows "fst (serve srv e1 e2 e3 h (RouteValidate (Some key)) (stateOf (srv_tenant srv) w'))
      = KeyResponse (reply 200 (ValidationBody vr)) \<longrightarrow> \<not> vr_Valid vr"
proof (intro impI notI)
  assume "fst (serve srv e1 e2 e3 h (RouteValidate (Some key)) (stateOf (srv_tenant srv) w'))
      = KeyResponse (reply 200 (ValidationBody vr))" and v: "vr_Valid vr"
  then obtain k where k: "fst (pg_GetByHash (srv_tenant srv) e1 (HashAPIKey key) (w_rows w')) = Inr k"
    using validate_needs_lookup [OF serve_validate] by (fastforce simp del: serve.simps simp: stateOf_def)
  note steps = w_steps_pg [OF assms(5)]
  obtain r' where r': "r' \<in> set (w_rows w')" "succRow r r'"
    using pg_steps_forward [OF steps assms(2,3)] by blast
  then have "row_status r' \<noteq> StatusActive" "row_tenant r' = row_tenant r" "row_key_hash r' = row_key_hash r"
    using assms(4) by (auto simp: succRow_def statusStep_def sameIdentity_sel)
  then show False
    using k assms(6,7) pg_GetByHash_dead [OF pg_steps_wf [OF steps assms(1)] r'(1), of e1] by auto
qed

theorem revoked_key_never_accepted_witness:
  "fst (serve sampleServer (quietEnv 9) (quietEnv 9) (quietEnv 9) \<lparr>hdr_Username = [], hdr_Group = []\<rparr>
        (RouteValidate (Some sampleText))
        (stateOf ''red'' (putState ''red'' (snd (serve sampleServer (quietEnv 5) (quietEnv 5) (quietEnv 5)
           \<lparr>hdr_Username = [], hdr_Group = []\<rparr> RouteCleanup
           (stateOf ''red'' (sampleWorld [setStatus StatusRevoked hashedRow]))))
           (sampleWorld [setStatus StatusRevoked hashedRow]))))
      \<noteq> KeyResponse (reply 200 (ValidationBody (identityOf hashedRow)))"
proof -
  let ?r = "setStatus StatusRevoked hashedRow"
  let ?h = "\<lparr>hdr_Username = [], hdr_Group = []\<rparr>"
  let ?w' = "putState ''red'' (snd (serve sampleServer (quietEnv 5) (quietEnv 5) (quietEnv 5) ?h RouteCleanup
           (stateOf ''red'' (sampleWorld [?r])))) (sampleWorld [?r])"
  have wf: "tableWf (w_rows (sampleWorld [?r]))"
    using hashedRow_sel(5) by (simp add: tableWf_def sampleWorld_def rowWf_def setStatus_def)
  have "w_step sampleServer (sampleWorld [?r]) ?w'"
    using w_step.request [of sampleServer "quietEnv 5" "quietEnv 5" "quietEnv 5" ?h RouteCleanup "sampleWorld [?r]"]
    by (simp del: serve.simps) (metis prod.collapse)
  then have steps: "w_steps (sampleWorld [?r]) ?w'" by (rule w_steps.step [OF w_steps.refl])
  have r: "?r \<in> set (w_rows (sampleWorld [?r]))" "\<not> row_ephemeral ?r" "row_status ?r \<noteq> StatusActive"
    "srv_tenant sampleServer = row_tenant ?r" "HashAPIKey sampleText = row_key_hash ?r"
    by (simp_all add: sampleWorld_def setStatus_def) (simp add: hashedRow_def sampleRow_def)
  have "vr_Valid (identityOf hashedRow)" by (simp add: identityOf_def)
  with revoked_key_never_accepted [OF wf r(1-3) steps r(4,5), of "quietEnv 9" "quietEnv 9" "quietEnv 9" ?h
      "identityOf hashedRow"] show ?thesis
    by (simp only: sampleServer_sel) blast
qed

text \<open>
  C4: deployments do not touch each other. Whatever a deployment serves, and whenever its
  background writes run, the rows of the other tenants in the shared table, their debounce slots
  and their pending writes stay as they were.
\<close>

theorem server_tenant_isolation:
  assumes "w_step srv w w'" and "t \<noteq> srv_tenant srv"
  shows "tenantRows t (w_rows w') = tenantRows t (w_rows w)
    \<and> w_slots w' t = w_slots w t \<and> w_jobs w' t = w_jobs w t"
proof (intro conjI)
  from w_step_call [OF assms(1)] show "tenantRows t (w_rows w') = tenantRows t (w_rows w)"
    using pg_effect_other_tenant [OF pg_step_effect assms(2)] by (auto simp: pg_call_def)
  from assms show "w_slots w' t = w_slots w t" "w_jobs w' t = w_jobs w t"
    by (auto elim!: w_step.cases simp: putState_def)
qed

theorem server_tenant_isolation_witness:
  "tenantRows ''blue'' (ss_rows (snd (serve sampleServer (quietEnv 5) (quietEnv 5) (quietEnv 5)
      \<lparr>hdr_Username = [], hdr_Group = []\<rparr> (RouteTenantRevoke ''red'') (stateOf ''red'' (sampleWorld sampleTable)))))
   = tenantRows ''blue'' sampleTable"
proof -
  let ?h = "\<lparr>hdr_Username = [], hdr_Group = []\<rparr>"
  let ?st = "snd (serve sampleServer (quietEnv 5) (quietEnv 5) (quietEnv 5) ?h (RouteTenantRevoke ''red'')
      (stateOf ''red'' (sampleWorld sampleTable)))"
  have "w_step sampleServer (sampleWorld sampleTable) (putState ''red'' ?st (sampleWorld sampleTable))"
    using w_step.request [of sampleServer "quietEnv 5" "quietEnv 5" "quietEnv 5" ?h "RouteTenantRevoke ''red''"
        "sampleWorld sampleTable"]
    by (simp del: serve.simps) (metis prod.collapse)
  from server_tenant_isolation [OF this, of "''blue''"] show ?thesis
    by (simp add: putState_def sampleWorld_def del: serve.simps)
qed

text \<open>
  C3: What a caller of the model listing is shown. Every model on a page is an object of the cache in
  phase Ready, and it names at least one subscription; each subscription it names exists, is owned
  by the user the gateway put into the headers or by one of the user's groups. Without a requested
  subscription, as for user tokens, the subscription lists the model, is Active or Degraded and not
  being deleted, and a policy of the cluster grants the model to the user. With one, as for every
  API key, the subscription is the one that was named, it is neither unreconciled nor Failed, and it
  lists the model or lists no model at all, in which case it shows every model; no policy is asked.
  (In the cache no two objects have the same namespace and name.)
\<close>

theorem listed_models_authorized:
  assumes "fst (serve srv e1 e2 e3 h (RouteModels hd1 now1 now2 sched) st) = ModelsResponse r"
    and page: "http_Body (mrp_http r) = ModelPage page" and x: "x \<in> set page"
    and distinct: "\<forall>items. srv_modelRefs srv = Some (Inr items) \<longrightarrow>
        distinct (map (\<lambda>u. GetNamespace (srv_models srv) u @ ''/'' @ GetName (srv_models srv) u) items)"
    and sched: "\<forall>n. \<forall>(i, cancelled) \<in> set (sched n). i < n"
  shows "\<exists>uc items u subs.
      ExtractUserInfoOptional (srv_tenant srv) (hdr_Username h) (hdr_Group h) = Next (User uc)
      \<and> srv_modelRefs srv = Some (Inr items) \<and> u \<in> set items
      \<and> nestedString (srv_models srv) u [''status'', ''phase''] = ''Ready''
      \<and> x = (maasModelRefToModel (srv_models srv) u)\<lparr>mdl_Subscriptions := mdl_Subscriptions x\<rparr>
      \<and> loadSubscriptions (srv_selector srv) = Inr subs \<and> mdl_Subscriptions x \<noteq> []
      \<and> (\<forall>info\<in>set (mdl_Subscriptions x). \<exists>sub\<in>set subs. msb_Name info = sub_Name sub
           \<and> mayList srv uc (requestedSubscriptionOf (mhd_Subscription hd1)) (mdl_OwnedBy x) sub)"
proof -
  let ?k = "srv_models srv" and ?req = "requestedSubscriptionOf (mhd_Subscription hd1)"
  obtain ctx where ctx: "ExtractUserInfoOptional (srv_tenant srv) (hdr_Username h) (hdr_Group h) = Next ctx"
    "r = ListLLMs (srv_listing srv) ctx hd1 now1 now2 sched"
    using serve_models [OF assms(1)] by blast
  obtain uc items resps where uc: "ctx = User uc" and items: "srv_modelRefs srv = Some (Inr items)"
    and asked: "asks srv uc ?req resps"
    and mem: "x \<in> set (aggregateModelsFromSubscriptions (map (maasModelRefToModel ?k) items) resps (sched (length resps)))"
    using ListLLMs_pageD [of "srv_listing srv" ctx hd1 now1 now2 sched page x "srv_selector srv"] page x ctx(2)
    by (auto simp: srv_listing_def Let_def asks_def)
  have "distinct (map mdl_OwnedBy (map (maasModelRefToModel ?k) items))"
    using distinct items by (simp add: maasModelRefToModel_def Let_def comp_def)
  from aggregate_coverD [OF this _ mem] sched obtain u where u: "u \<in> set items"
    "shown (maasModelRefToModel ?k u)" "x = (maasModelRefToModel ?k u)\<lparr>mdl_Subscriptions := mdl_Subscriptions x\<rparr>"
    "mdl_Subscriptions x \<noteq> []"
    "\<forall>info\<in>set (mdl_Subscriptions x). \<exists>resp\<in>set resps. info = infoOf resp \<and> coversModel resp (maasModelRefToModel ?k u)"
    by auto
  have owned: "mdl_OwnedBy (maasModelRefToModel ?k u) = mdl_OwnedBy x" by (subst u(3)) simp
  have ready: "nestedString ?k u [''status'', ''phase''] = ''Ready''"
    using u(2) by (simp add: shown_def maasModelRefToModel_def Let_def)
  obtain subs where load: "loadSubscriptions (srv_selector srv) = Inr subs" using asks_load [OF asked] by blast
  have "\<exists>sub\<in>set subs. msb_Name info = sub_Name sub \<and> mayList srv uc ?req (mdl_OwnedBy x) sub"
    if "info \<in> set (mdl_Subscriptions x)" for info
    using u(5) that asks_mayList [OF asked load] unfolding owned [symmetric] by (fastforce simp: infoOf_def)
  with ctx(1) uc items u(1,3,4) ready load show ?thesis by blast
qed

theorem listed_models_authorized_witness:
  "\<exists>r page x uc subs. fst (serve listingServer (quietEnv 5) (quietEnv 5) (quietEnv 5) alice listRequest (sampleState [])) = ModelsResponse r
     \<and> http_Body (mrp_http r) = ModelPage page \<and> x \<in> set page
     \<and> ExtractUserInfoOptional ''red'' ''alice'' (jsonArray [''dev'']) = Next (User uc)
     \<and> loadSubscriptions (srv_selector listingServer) = Inr subs
     \<and> (\<exists>info\<in>set (mdl_Subscriptions x). \<exists>sub\<in>set subs. msb_Name info = sub_Name sub
          \<and> mayList listingServer uc [] (mdl_OwnedBy x) sub)"
proof -
  obtain r page x where page: "fst (serve listingServer (quietEnv 5) (quietEnv 5) (quietEnv 5) alice listRequest (sampleState [])) = ModelsResponse r"
    "http_Body (mrp_http r) = ModelPage page" "x \<in> set page"
    using listingServer_page by blast
  have "distinct (map f items)" if "srv_modelRefs listingServer = Some (Inr items)" for f :: "jmap \<Rightarrow> string" and items
    using that by auto
  moreover have "\<forall>n. \<forall>(i, cancelled) \<in> set (inOrder n). i < n" by (auto simp: inOrder_def)
  moreover have "requestedSubscriptionOf [] = []" by (simp add: requestedSubscriptionOf_def)
  ultimately show ?thesis
    using listed_models_authorized [OF page(1) [unfolded listRequest_def] page(2,3)] page
    by (fastforce simp: alice_def neq_Nil_conv simp del: serve.simps)
qed

text \<open>
  No identity, no effect. A request on a public route without a user name changes nothing, and
  is answered with the refusal of the middleware or with an empty list.
\<close>

theorem no_identity_no_effect:
  assumes "publicRoute req" and "TrimSpace (hdr_Username h) = []"
  shows "snd (serve srv e1 e2 e3 h req st) = st
    \<and> fst (serve srv e1 e2 e3 h req st) \<in>
        {AuthRefused \<lparr>http_Status = 500, http_Body = ''001''\<rparr>,
         KeyResponse (reply 200 (SearchBody [] False)),
         ListResponse \<lparr>http_Status = 200, http_Body = Subscriptions []\<rparr>}
        \<union> range (\<lambda>t. ModelsResponse (modelsReply noStore (Some t) 200 (ModelPage [])))"
  using assms
  by (cases req)
    (simp_all add: strictAuth_def optionalAuth_def blank_strict blank_optional authFailure_def
      SearchAPIKeys_def ListSubscriptions_def ListSubscriptionsForModel_def ListLLMs_def)

theorem no_identity_no_effect_witness:
  "snd (serve sampleServer (quietEnv 5) (quietEnv 5) (quietEnv 5) \<lparr>hdr_Username = '' '', hdr_Group = []\<rparr>
      (RouteRevoke ''k3'') (sampleState sampleTable)) = sampleState sampleTable"
proof -
  have "TrimSpace '' '' = []" by code_simp
  with no_identity_no_effect [of "RouteRevoke ''k3''" "\<lparr>hdr_Username = '' '', hdr_Group = []\<rparr>"] show ?thesis
    by (simp del: serve.simps)
qed

end
